(* ===== verification/Prelude.thy ===== *)
theory Prelude
  imports Main "HOL-Library.Word" "HOL-Library.Monad_Syntax"
begin

text \<open>
  The vocabulary every component shares: the C integer types as words of their width,
  undefined behaviour as the value \<open>None\<close>, checked array accesses, and the facts on
  power-of-two masks that the two queues and the register-map code rest on.
\<close>

unbundle bit_operations_syntax

section \<open>C integers and undefined behaviour\<close>

type_synonym u8 = "8 word"
type_synonym u16 = "16 word"
type_synonym u32 = "32 word"
type_synonym u64 = "64 word"

text \<open>
  A C function whose execution may have undefined behaviour (a null dereference, an access
  outside an array) returns \<open>'a option\<close>: \<open>None\<close> is the undefined execution, so a theorem
  that the result is \<open>Some\<close> is a memory-safety theorem.
\<close>

type_synonym 'a defined = "'a option"

definition array_read :: "'a list \<Rightarrow> nat \<Rightarrow> 'a defined" where
  "array_read xs i = (if i < length xs then Some (xs ! i) else None)"

definition array_write :: "'a list \<Rightarrow> nat \<Rightarrow> 'a \<Rightarrow> 'a list defined" where
  "array_write xs i x = (if i < length xs then Some (xs[i := x]) else None)"

named_theorems array_simps

lemma array_read_in [array_simps]: "i < length xs \<Longrightarrow> array_read xs i = Some (xs ! i)"
  by (simp add: array_read_def)

lemma array_write_in [array_simps]: "i < length xs \<Longrightarrow> array_write xs i x = Some (xs[i := x])"
  by (simp add: array_write_def)

lemma array_read_eq_Some [simp]:
  "array_read xs i = Some x \<longleftrightarrow> i < length xs \<and> x = xs ! i"
  by (auto simp: array_read_def)

lemma array_write_eq_Some [simp]:
  "array_write xs i x = Some ys \<longleftrightarrow> i < length xs \<and> ys = xs[i := x]"
  by (auto simp: array_write_def)

section \<open>Powers of two and masks\<close>

lemma and_pred_eq_0_imp_power_nat:
  fixes n :: nat
  assumes "0 < n" and "n AND (n - 1) = 0"
  shows "\<exists>k. n = 2 ^ k"
  using assms
proof (induction n rule: less_induct)
  case (less n)
  show ?case
  proof (cases "even n")
    case True
    then obtain m where n: "n = 2 * m" by (elim evenE)
    with less.prems have m: "0 < m" by simp
    then obtain j where j: "m = Suc j" by (cases m) auto
    have "n AND (n - 1) = 2 * (m AND (m - 1))"
      by (simp add: n j and_nat_rec [of "Suc (Suc (2 * j))"])
    with less.prems(2) have "m AND (m - 1) = 0" by simp
    with less.IH [of m] m n obtain k where "m = 2 ^ k" by auto
    with n have "n = 2 ^ Suc k" by simp
    then show ?thesis by blast
  next
    case False
    then obtain m where n: "n = 2 * m + 1" by (elim oddE)
    have "n AND (n - 1) = 2 * m"
      by (simp add: n and_nat_rec [of "Suc (2 * m)"])
    with less.prems(2) n have "n = 2 ^ 0" by simp
    then show ?thesis by blast
  qed
qed

lemma unat_pred_word: "w \<noteq> 0 \<Longrightarrow> unat (w - 1) = unat w - 1"
  for w :: "'a::len word"
  by (metis One_nat_def Suc_pred' unat_minus_one unat_gt_0)

text \<open>
  Both queues test their capacity with \<open>value != 0 && (value & (value - 1)) == 0\<close>: this is
  the test for a power of two.
\<close>

lemma word_and_pred_eq_0_iff:
  fixes w :: "'a::len word"
  assumes "w \<noteq> 0"
  shows "w AND (w - 1) = 0 \<longleftrightarrow> (\<exists>k < LENGTH('a). unat w = 2 ^ k)"
proof
  assume "w AND (w - 1) = 0"
  then have "unat w AND (unat w - 1) = 0"
    using assms by (metis unat_0 unat_pred_word unsigned_and_eq)
  moreover have "0 < unat w" using assms by (simp add: unat_gt_0)
  ultimately obtain k where k: "unat w = 2 ^ k"
    using and_pred_eq_0_imp_power_nat by blast
  have "(2::nat) ^ k < 2 ^ LENGTH('a)"
    using k unsigned_less [of w] by metis
  then have "k < LENGTH('a)" by simp
  with k show "\<exists>k < LENGTH('a). unat w = 2 ^ k" by blast
next
  assume "\<exists>k < LENGTH('a). unat w = 2 ^ k"
  then obtain k where k: "unat w = 2 ^ k" by blast
  have "unat (w AND (w - 1)) = 2 ^ k AND mask k"
    using assms k by (simp add: unsigned_and_eq unat_pred_word mask_eq_exp_minus_1)
  also have "\<dots> = 0"
    by (simp flip: take_bit_eq_mask)
  finally show "w AND (w - 1) = 0"
    by (simp add: unat_eq_0)
qed

text \<open>With a power-of-two capacity the masked index is the index modulo the capacity.\<close>

lemma unat_and_pred_power:
  fixes i c :: "'a::len word"
  assumes "unat c = 2 ^ k"
  shows "unat (i AND (c - 1)) = unat i mod unat c"
proof -
  have "c \<noteq> 0" using assms by auto
  then have "unat (i AND (c - 1)) = unat i AND mask k"
    using assms by (simp add: unsigned_and_eq unat_pred_word mask_eq_exp_minus_1)
  also have "\<dots> = unat i mod 2 ^ k"
    by (simp add: take_bit_eq_mod flip: take_bit_eq_mask)
  finally show ?thesis using assms by simp
qed

text \<open>A field of \<open>n\<close> bits at position \<open>k\<close> of a word, read as a number.\<close>

lemma unat_field:
  "unat (drop_bit k w AND mask n) = unat w div 2 ^ k mod 2 ^ n" for w :: "'a::len word"
  by (simp only: take_bit_eq_mask [symmetric] unsigned_take_bit_eq unsigned_drop_bit_eq)
    (simp only: take_bit_eq_mod drop_bit_eq_div, simp)

end
