(* ===== verification/Arch_Atomic.thy ===== *)
theory Arch_Atomic
  imports Prelude
begin

text \<open>
  \<open>arch/arch_critical.h\<close> and \<open>arch/arch_atomic_cm0.c\<close>: the PRIMASK critical section and the
  two 32-bit atomic helpers that GCC calls on ARMv6-M. The core is its PRIMASK and the trace of
  its barriers and accesses to the atomic object, each with the PRIMASK it happened under, so
  that atomicity (no access with interrupts enabled) is a property of the trace.
\<close>

section \<open>C11 atomics\<close>

text \<open>
  What the callers rely on: \<open>atomic_compare_exchange_*_explicit\<close> on a 32-bit object, returning
  success, the object and the caller's \<open>expected\<close>; and \<open>atomic_fetch_sub_explicit\<close>.
\<close>

definition c11_compare_exchange :: "u32 \<Rightarrow> u32 \<Rightarrow> u32 \<Rightarrow> bool \<times> u32 \<times> u32" where
  "c11_compare_exchange object expected desired =
     (if object = expected then (True, desired, expected) else (False, object, object))"

definition c11_fetch_sub :: "u32 \<Rightarrow> u32 \<Rightarrow> u32 \<times> u32" where
  "c11_fetch_sub object operand = (object, object - operand)"

section \<open>The core and its critical section\<close>

datatype core_event = Barrier | Load_Object u32 | Store_Object u32

record core =
  primask :: u32
  events :: "(u32 \<times> core_event) list"

definition core_emit :: "core_event \<Rightarrow> core \<Rightarrow> core" where
  "core_emit e c = c\<lparr>events := events c @ [(primask c, e)]\<rparr>"

text \<open>PRIMASK has one bit; \<open>__disable_irq\<close> sets it.\<close>

definition arch_critical_enter :: "core \<Rightarrow> u32 \<times> core" where
  "arch_critical_enter c = (primask c, c\<lparr>primask := 1\<rparr>)"

definition arch_critical_exit :: "u32 \<Rightarrow> core \<Rightarrow> core" where
  "arch_critical_exit state c = c\<lparr>primask := state AND 1\<rparr>"

section \<open>The atomic helpers\<close>

text \<open>
  \<open>__atomic_compare_exchange_4\<close> and \<open>__atomic_fetch_sub_4\<close>. The \<open>weak\<close> flag and the memory
  orders are ignored by the code and left out.
\<close>

definition atomic_compare_exchange_4 ::
  "u32 option \<Rightarrow> u32 option \<Rightarrow> u32 \<Rightarrow> core \<Rightarrow> bool \<times> u32 option \<times> u32 option \<times> core" where
  "atomic_compare_exchange_4 object expected desired c =
     (case (object, expected) of
        (Some target, Some expected_value) \<Rightarrow>
          let (critical_state, c) = arch_critical_enter c;
              c = core_emit Barrier c;
              observed = target;
              c = core_emit (Load_Object observed) c;
              (exchanged, target, expected_value, c) =
                (if observed = expected_value
                 then (True, desired, expected_value, core_emit (Store_Object desired) c)
                 else (False, target, observed, c));
              c = core_emit Barrier c;
              c = arch_critical_exit critical_state c
          in (exchanged, Some target, Some expected_value, c)
      | _ \<Rightarrow> (False, object, expected, c))"

definition atomic_fetch_sub_4 :: "u32 option \<Rightarrow> u32 \<Rightarrow> core \<Rightarrow> u32 \<times> u32 option \<times> core" where
  "atomic_fetch_sub_4 object operand c =
     (case object of
        None \<Rightarrow> (0, None, c)
      | Some target \<Rightarrow>
          let (critical_state, c) = arch_critical_enter c;
              c = core_emit Barrier c;
              previous = target;
              c = core_emit (Load_Object previous) c;
              target = previous - operand;
              c = core_emit (Store_Object target) c;
              c = core_emit Barrier c;
              c = arch_critical_exit critical_state c
          in (previous, Some target, c))"

section \<open>Properties\<close>

definition is_object_access :: "core_event \<Rightarrow> bool" where
  "is_object_access e \<longleftrightarrow> e \<noteq> Barrier"

definition all_masked :: "(u32 \<times> core_event) list \<Rightarrow> bool" where
  "all_masked tr \<longleftrightarrow> list_all (\<lambda>(mask, e). mask = 1) tr"

lemma primask_bit: "c AND 1 = c" if "c \<le> 1" for c :: u32
proof -
  have "c = 0 \<or> c = 1" using that by (simp add: word_le_nat_alt) (metis le_Suc_eq le_zero_eq
      One_nat_def unat_0 unat_1 unat_eq_0 word_unat_eq_iff)
  then show ?thesis by auto
qed

lemmas atomic_helper_defs = atomic_compare_exchange_4_def atomic_fetch_sub_4_def
  arch_critical_enter_def arch_critical_exit_def core_emit_def

text \<open>C13. The ARMv6-M compare-and-exchange helper computes exactly the C11 strong
  compare-and-exchange for every object, expected and desired value, so the loops that retry a
  weak exchange never see a spurious failure; it restores the interrupt mask it found, and
  everything it does in between (barrier, load, store, barrier) runs with interrupts
  masked.\<close>

theorem compare_exchange_helper_atomic:
  assumes "primask c \<le> 1"
  shows "\<exists>tr c'. atomic_compare_exchange_4 (Some obj) (Some expected) desired c =
      (case c11_compare_exchange obj expected desired of
         (ok, obj', expected') \<Rightarrow> (ok, Some obj', Some expected', c'))
    \<and> primask c' = primask c \<and> events c' = events c @ tr \<and> all_masked tr
    \<and> filter is_object_access (map snd tr) =
        (if obj = expected then [Load_Object obj, Store_Object desired] else [Load_Object obj])"
  using primask_bit [OF assms]
  by (simp add: atomic_helper_defs c11_compare_exchange_def all_masked_def is_object_access_def)

theorem compare_exchange_helper_atomic_witness:
  "primask \<lparr>primask = 0, events = []\<rparr> \<le> 1
    \<and> (\<exists>c'. atomic_compare_exchange_4 (Some 5) (Some 5) 7 \<lparr>primask = 0, events = []\<rparr> =
         (True, Some 7, Some 5, c') \<and> primask c' = 0)"
proof -
  have h: "primask \<lparr>primask = 0, events = []\<rparr> \<le> 1" by simp
  from compare_exchange_helper_atomic [OF h, of 5 5 7] h show ?thesis
    by (auto simp: c11_compare_exchange_def)
qed

text \<open>The fetch-and-subtract helper returns the old value and stores the wrapped
  difference, restores the interrupt mask, and touches the object only with interrupts masked.\<close>

theorem fetch_sub_helper_atomic:
  assumes "primask c \<le> 1"
  shows "\<exists>tr c'. atomic_fetch_sub_4 (Some obj) operand c =
      (fst (c11_fetch_sub obj operand), Some (snd (c11_fetch_sub obj operand)), c')
    \<and> primask c' = primask c \<and> events c' = events c @ tr \<and> all_masked tr
    \<and> filter is_object_access (map snd tr) = [Load_Object obj, Store_Object (obj - operand)]"
  using primask_bit [OF assms]
  by (simp add: atomic_helper_defs Let_def c11_fetch_sub_def all_masked_def is_object_access_def)

theorem fetch_sub_helper_atomic_witness:
  "primask \<lparr>primask = 1, events = []\<rparr> \<le> 1
    \<and> (\<exists>c'. atomic_fetch_sub_4 (Some 3) 2 \<lparr>primask = 1, events = []\<rparr> = (3, Some 1, c')
        \<and> primask c' = 1)"
proof -
  have h: "primask \<lparr>primask = 1, events = []\<rparr> \<le> 1" by simp
  from fetch_sub_helper_atomic [OF h, of 3 2] h show ?thesis
    by (auto simp: c11_fetch_sub_def)
qed

end
