(* ===== verification/Snapshot.thy ===== *)
theory Snapshot
  imports Arch_Atomic
begin

text \<open>
  The page snapshots of \<open>lib/lib_regmap.c\<close> (\<open>lib_regmap_snapshot_t\<close>): two buffers, and one atomic
  word that holds the index of the active buffer (bit 0) and the reader counts of the buffers
  (bits 1-15 and 16-30). The I2C interrupt acquires and releases the active buffer, the main loop
  fills the inactive one and flips the bit. The operations here run without interruption;
  \<open>Snapshot_Concurrent\<close> interleaves them. Each buffer array is an object of its own, held as a list
  (\<open>None\<close> is a null pointer).
\<close>

section \<open>State word\<close>

definition snapshot_active_mask :: u32 where "snapshot_active_mask = 0x00000001"
definition snapshot_reader_zero_shift :: nat where "snapshot_reader_zero_shift = 1"
definition snapshot_reader_one_shift :: nat where "snapshot_reader_one_shift = 16"
definition snapshot_reader_mask :: u32 where "snapshot_reader_mask = 0x00007fff"

lemmas snapshot_word_consts = snapshot_active_mask_def snapshot_reader_zero_shift_def
  snapshot_reader_one_shift_def snapshot_reader_mask_def

definition lib_regmap_snapshot_reader_shift :: "u8 \<Rightarrow> nat" where
  "lib_regmap_snapshot_reader_shift buffer_index =
     (if buffer_index = 0 then snapshot_reader_zero_shift else snapshot_reader_one_shift)"

definition lib_regmap_snapshot_reader_count :: "u32 \<Rightarrow> u8 \<Rightarrow> u32" where
  "lib_regmap_snapshot_reader_count state buffer_index =
     drop_bit (lib_regmap_snapshot_reader_shift buffer_index) state AND snapshot_reader_mask"

definition reader_unit :: "u8 \<Rightarrow> u32" where
  "reader_unit buffer_index = push_bit (lib_regmap_snapshot_reader_shift buffer_index) 1"

definition active_index :: "u32 \<Rightarrow> u8" where
  "active_index state = ucast (state AND snapshot_active_mask)"

definition inactive_index :: "u32 \<Rightarrow> u8" where
  "inactive_index state = ucast ((state AND snapshot_active_mask) XOR 1)"

text \<open>The reader counts as numbers, and the facts that make the word a pair of counters and a
  flag: adding a unit to one count, taking one away and flipping the active bit leave the other
  fields alone.\<close>

definition readers :: "u32 \<Rightarrow> u8 \<Rightarrow> nat" where
  "readers state b = unat (lib_regmap_snapshot_reader_count state b)"

definition buffer_ok :: "u8 \<Rightarrow> bool" where
  "buffer_ok b \<longleftrightarrow> b = 0 \<or> b = 1"

lemma reader_mask_mask: "(0x7fff :: u32) = mask 15"
  by (simp add: mask_eq_exp_minus_1)

lemma readers_0: "readers s 0 = unat s div 2 mod 32768"
  unfolding readers_def lib_regmap_snapshot_reader_count_def lib_regmap_snapshot_reader_shift_def
    snapshot_word_consts reader_mask_mask
  by (simp add: unat_field)

lemma readers_1: "readers s 1 = unat s div 65536 mod 32768"
  unfolding readers_def lib_regmap_snapshot_reader_count_def lib_regmap_snapshot_reader_shift_def
    snapshot_word_consts reader_mask_mask
  by (simp add: unat_field)

lemma and_one_word: "s AND 1 = of_bool (odd (unat s))" for s :: u32
proof -
  have "even (unat s) \<longleftrightarrow> s AND mask 1 = 0"
    using and_mask_dvd_nat [of 1 s] by simp
  moreover have "s AND 1 = of_bool (odd s)"
    by (simp add: and_one_eq mod_2_eq_odd)
  moreover have "mask 1 = (1 :: u32)" by (simp add: mask_eq_exp_minus_1)
  ultimately show ?thesis by (cases "odd s") auto
qed

lemma active_index_parity: "active_index s = of_bool (odd (unat s))"
  by (simp add: active_index_def snapshot_active_mask_def and_one_word)

lemma active_index_ok [simp]: "buffer_ok (active_index s)"
  by (simp add: buffer_ok_def active_index_parity)

text \<open>A state word is \<open>65536 q + 2 c + a\<close>: reader count one, reader count zero, active bit.\<close>

lemma fields_of:
  fixes q c a :: nat
  assumes "a < 2" "c < 32768"
  shows "(65536 * q + 2 * c + a) div 65536 = q"
    and "(65536 * q + 2 * c + a) div 2 mod 32768 = c"
    and "odd (65536 * q + 2 * c + a) \<longleftrightarrow> a = 1"
proof -
  show "(65536 * q + 2 * c + a) div 65536 = q"
    using assms by (intro div_nat_eqI) auto
  have "(65536 * q + 2 * c + a) div 2 = c + 32768 * q"
    using assms by (intro div_nat_eqI) auto
  then show "(65536 * q + 2 * c + a) div 2 mod 32768 = c"
    using assms by simp
  show "odd (65536 * q + 2 * c + a) \<longleftrightarrow> a = 1"
    using assms(1) by (auto simp: less_2_cases_iff)
qed

lemma fields_split:
  fixes n :: nat
  shows "n = 65536 * (n div 65536) + 2 * (n div 2 mod 32768) + n mod 2"
proof -
  have "n = 2 * (n div 2) + n mod 2" by simp
  also have "n div 2 = 32768 * (n div 2 div 32768) + n div 2 mod 32768" by simp
  finally show ?thesis by (simp flip: div_mult2_eq)
qed

lemma state_fields:
  obtains q c a where "unat s = 65536 * q + 2 * c + a" "a < 2" "c < 32768" "q < 65536"
    "readers s 0 = c" "readers s 1 = q mod 32768" "active_index s = of_bool (a = 1)"
proof
  have "unat s < 65536 * 65536" for s :: u32
    using unsigned_less [of s] by simp
  then show "unat s div 65536 < 65536" by (simp add: less_mult_imp_div_less)
  show "active_index s = of_bool (unat s mod 2 = 1)"
    by (simp add: active_index_parity odd_iff_mod_2_eq_one)
qed (use fields_split [of "unat s"] in \<open>auto simp: readers_0 readers_1\<close>)

lemma state_of_fields:
  assumes "unat s = 65536 * q + 2 * c + a" "a < 2" "c < 32768"
  shows "readers s 0 = c" "readers s 1 = q mod 32768" "active_index s = of_bool (a = 1)"
  using fields_of [OF assms(2,3)] by (simp_all add: readers_0 readers_1 active_index_parity assms(1))

lemma unat_reader_unit: "unat (reader_unit b) = (if b = 0 then 2 else 65536)"
  by (simp add: reader_unit_def lib_regmap_snapshot_reader_shift_def snapshot_word_consts)

lemma unat_add_small: "unat s + unat t < 2 ^ 32 \<Longrightarrow> unat (s + t) = unat s + unat t" for s t :: u32
  by (subst unat_word_ariths) simp

text \<open>Acquiring adds one reader to a buffer whose count is not saturated.\<close>

lemma readers_add:
  assumes "buffer_ok b" "readers s b < 32767"
  shows "readers (s + reader_unit b) b = Suc (readers s b)"
    and "readers (s + reader_unit b) (1 - b) = readers s (1 - b)"
    and "active_index (s + reader_unit b) = active_index s"
proof -
  obtain q c a where f: "unat s = 65536 * q + 2 * c + a" "a < 2" "c < 32768" "q < 65536"
    "readers s 0 = c" "readers s 1 = q mod 32768" "active_index s = of_bool (a = 1)"
    by (rule state_fields)
  show "readers (s + reader_unit b) b = Suc (readers s b)"
    "readers (s + reader_unit b) (1 - b) = readers s (1 - b)"
    "active_index (s + reader_unit b) = active_index s"
    using assms
  proof (atomize (full), cases "b = 0")
    case True
    then have "c < 32767" using assms f by simp
    then have "unat (s + reader_unit b) = 65536 * q + 2 * Suc c + a"
      using f True by (subst unat_add_small) (simp_all add: unat_reader_unit)
    from state_of_fields [OF this f(2)] \<open>c < 32767\<close>
    show "readers (s + reader_unit b) b = Suc (readers s b)
      \<and> readers (s + reader_unit b) (1 - b) = readers s (1 - b)
      \<and> active_index (s + reader_unit b) = active_index s"
      using f True by simp
  next
    case False
    then have b: "b = 1" using assms by (simp add: buffer_ok_def)
    then have q: "q mod 32768 < 32767" using assms f by simp
    then have "q \<noteq> 65535" by auto
    with f(4) have "Suc q < 65536" by simp
    then have "unat (s + reader_unit b) = 65536 * Suc q + 2 * c + a"
      using f b by (subst unat_add_small) (simp_all add: unat_reader_unit)
    from state_of_fields [OF this f(2,3)]
    show "readers (s + reader_unit b) b = Suc (readers s b)
      \<and> readers (s + reader_unit b) (1 - b) = readers s (1 - b)
      \<and> active_index (s + reader_unit b) = active_index s"
      using f b q by (simp add: mod_Suc)
  qed
qed

text \<open>Releasing takes a reader away from a buffer that has one.\<close>

lemma readers_sub:
  assumes "buffer_ok b" "0 < readers s b"
  shows "readers (s - reader_unit b) b = readers s b - 1"
    and "readers (s - reader_unit b) (1 - b) = readers s (1 - b)"
    and "active_index (s - reader_unit b) = active_index s"
proof -
  obtain q c a where f: "unat s = 65536 * q + 2 * c + a" "a < 2" "c < 32768" "q < 65536"
    "readers s 0 = c" "readers s 1 = q mod 32768" "active_index s = of_bool (a = 1)"
    by (rule state_fields)
  show "readers (s - reader_unit b) b = readers s b - 1"
    "readers (s - reader_unit b) (1 - b) = readers s (1 - b)"
    "active_index (s - reader_unit b) = active_index s"
    using assms
  proof (atomize (full), cases "b = 0")
    case True
    then obtain c' where c': "c = Suc c'" using assms f by (cases c) auto
    then have "unat (s - reader_unit b) = 65536 * q + 2 * c' + a"
      using f True by (subst unat_sub) (simp_all add: unat_reader_unit word_le_nat_alt)
    from state_of_fields [OF this f(2)] f(3) c'
    show "readers (s - reader_unit b) b = readers s b - 1
      \<and> readers (s - reader_unit b) (1 - b) = readers s (1 - b)
      \<and> active_index (s - reader_unit b) = active_index s"
      using f True by simp
  next
    case False
    then have b: "b = 1" using assms by (simp add: buffer_ok_def)
    then obtain p where p: "q = Suc p" using assms f by (cases q) auto
    then have "unat (s - reader_unit b) = 65536 * p + 2 * c + a"
      using f b by (subst unat_sub) (simp_all add: unat_reader_unit word_le_nat_alt)
    from state_of_fields [OF this f(2,3)]
    show "readers (s - reader_unit b) b = readers s b - 1
      \<and> readers (s - reader_unit b) (1 - b) = readers s (1 - b)
      \<and> active_index (s - reader_unit b) = active_index s"
      using f b p assms(2) by (simp add: mod_Suc split: if_splits)
  qed
qed

text \<open>Flipping the active bit leaves both counts alone.\<close>

lemma readers_flip [simp]: "readers (s XOR snapshot_active_mask) b = readers s b"
  by (simp add: readers_def lib_regmap_snapshot_reader_count_def
      lib_regmap_snapshot_reader_shift_def snapshot_word_consts drop_bit_xor)

lemma active_flip [simp]: "active_index (s XOR snapshot_active_mask) = 1 - active_index s"
proof -
  have "(s XOR 1) AND 1 = 1 - (s AND 1)"
    by (simp add: and_one_eq mod_2_eq_odd even_xor_iff)
  then show ?thesis
    by (simp add: active_index_def snapshot_active_mask_def and_one_word of_bool_def)
qed

lemma inactive_index_eq: "inactive_index s = 1 - active_index s"
  by (simp add: inactive_index_def active_index_def snapshot_active_mask_def and_one_word)

lemma inactive_index_ok [simp]: "buffer_ok (inactive_index s)"
  by (simp add: buffer_ok_def inactive_index_eq active_index_parity)

lemma inactive_neq_active [simp]:
  "inactive_index s \<noteq> active_index s" "active_index s \<noteq> inactive_index s"
  by (simp_all add: inactive_index_eq active_index_parity)

lemma inactive_flip [simp]: "inactive_index (s XOR snapshot_active_mask) = active_index s"
  by (simp add: inactive_index_eq)

section \<open>State and operations\<close>

text \<open>\<open>sn_buffers\<close> is the array \<open>buffers[2]\<close> of pointers.\<close>

record lib_regmap_snapshot =
  sn_buffers :: "u8 list option list"
  sn_length :: u16
  sn_state :: u32
  sn_publish_rejected_count :: u32

definition lib_regmap_snapshot_note_publish_rejected ::
  "lib_regmap_snapshot \<Rightarrow> lib_regmap_snapshot" where
  "lib_regmap_snapshot_note_publish_rejected s =
     s\<lparr>sn_publish_rejected_count := sn_publish_rejected_count s + 1\<rparr>"

text \<open>
  The retry loop of \<open>acquire\<close> over the atomic object and the value last observed. A failed
  exchange loads the object into \<open>state\<close>, so undisturbed the loop runs at most twice.
\<close>

function snapshot_acquire_loop :: "u32 \<Rightarrow> u32 \<Rightarrow> u8 option \<times> u32" where
  "snapshot_acquire_loop object state =
     (let active_index = active_index state in
      if lib_regmap_snapshot_reader_count state active_index = snapshot_reader_mask
      then (None, object)
      else
        let desired = state + reader_unit active_index;
            (exchanged, object', state') = c11_compare_exchange object state desired
        in if exchanged then (Some active_index, object')
           else snapshot_acquire_loop object' state')"
  by pat_completeness auto
termination
  by (relation "measure (\<lambda>(object, state). if object = state then 0 else 1)")
    (auto simp: c11_compare_exchange_def split: if_splits)

declare snapshot_acquire_loop.simps [simp del]

text \<open>\<open>buffer_index\<close> is the out-parameter, the object behind the pointer.\<close>

definition lib_regmap_snapshot_acquire ::
  "lib_regmap_snapshot option \<Rightarrow> u8 option
    \<Rightarrow> bool \<times> lib_regmap_snapshot option \<times> u8 option" where
  "lib_regmap_snapshot_acquire snapshot buffer_index =
     (case (snapshot, buffer_index) of
        (Some s, Some _) \<Rightarrow>
          (case snapshot_acquire_loop (sn_state s) (sn_state s) of
             (None, object) \<Rightarrow> (False, Some (s\<lparr>sn_state := object\<rparr>), buffer_index)
           | (Some b, object) \<Rightarrow> (True, Some (s\<lparr>sn_state := object\<rparr>), Some b))
      | _ \<Rightarrow> (False, snapshot, buffer_index))"

definition lib_regmap_snapshot_release ::
  "lib_regmap_snapshot option \<Rightarrow> u8 \<Rightarrow> lib_regmap_snapshot option" where
  "lib_regmap_snapshot_release snapshot buffer_index =
     (let reader_decrement = reader_unit buffer_index in
      case snapshot of
        None \<Rightarrow> None
      | Some s \<Rightarrow> Some (s\<lparr>sn_state := snd (c11_fetch_sub (sn_state s) reader_decrement)\<rparr>))"

definition lib_regmap_snapshot_is_valid :: "lib_regmap_snapshot option \<Rightarrow> bool" where
  "lib_regmap_snapshot_is_valid snapshot =
     (let state = (case snapshot of None \<Rightarrow> 0xffffffff | Some s \<Rightarrow> sn_state s) in
      case snapshot of
        None \<Rightarrow> False
      | Some s \<Rightarrow> (case sn_buffers s of [zero, one] \<Rightarrow> zero \<noteq> None \<and> one \<noteq> None | _ \<Rightarrow> False) \<and> sn_length s \<noteq> 0
          \<and> state AND snapshot_active_mask \<le> 1)"

text \<open>
  The initial data may be the array of buffer zero itself (\<open>i2c_regmap_demo\<close> passes it so): each
  index is read before it is written, so the loop over its value is the same.
\<close>

fun snapshot_init_loop ::
  "u8 list option \<Rightarrow> nat \<Rightarrow> nat \<Rightarrow> u8 list \<Rightarrow> u8 list \<Rightarrow> (u8 list \<times> u8 list) defined" where
  "snapshot_init_loop initial_data index 0 buffer_zero buffer_one = Some (buffer_zero, buffer_one)"
| "snapshot_init_loop initial_data index (Suc remaining) buffer_zero buffer_one = do {
     v \<leftarrow> (case initial_data of None \<Rightarrow> Some 0 | Some d \<Rightarrow> array_read d index);
     buffer_zero \<leftarrow> array_write buffer_zero index v;
     buffer_one \<leftarrow> array_write buffer_one index v;
     snapshot_init_loop initial_data (Suc index) remaining buffer_zero buffer_one
   }"

definition lib_regmap_snapshot_init ::
  "lib_regmap_snapshot option \<Rightarrow> u8 list option \<Rightarrow> u8 list option \<Rightarrow> u16 \<Rightarrow> u8 list option
    \<Rightarrow> (bool \<times> lib_regmap_snapshot option) defined" where
  "lib_regmap_snapshot_init snapshot buffer_zero buffer_one n initial_data =
     (case (snapshot, buffer_zero, buffer_one) of
        (Some s, Some b0, Some b1) \<Rightarrow>
          if n = 0 then Some (False, snapshot)
          else do {
            (b0, b1) \<leftarrow> snapshot_init_loop initial_data 0 (unat n) b0 b1;
            Some (True, Some (s\<lparr>sn_buffers := [Some b0, Some b1], sn_length := n,
                                sn_state := 0, sn_publish_rejected_count := 0\<rparr>))
          }
      | _ \<Rightarrow> Some (False, snapshot))"

fun snapshot_copy_loop :: "u8 list \<Rightarrow> nat \<Rightarrow> nat \<Rightarrow> u8 list \<Rightarrow> u8 list defined" where
  "snapshot_copy_loop data index 0 buffer = Some buffer"
| "snapshot_copy_loop data index (Suc remaining) buffer = do {
     v \<leftarrow> array_read data index;
     buffer \<leftarrow> array_write buffer index v;
     snapshot_copy_loop data (Suc index) remaining buffer
   }"

text \<open>The retry loop that flips the active bit: whether it flipped it, and the object.\<close>

function snapshot_publish_loop :: "u32 \<Rightarrow> u32 \<Rightarrow> u8 \<Rightarrow> bool \<times> u32" where
  "snapshot_publish_loop object state inactive =
     (if inactive_index state \<noteq> inactive then (False, object)
      else
        let desired = state XOR snapshot_active_mask;
            (exchanged, object', state') = c11_compare_exchange object state desired
        in if exchanged then (True, object')
           else snapshot_publish_loop object' state' inactive)"
  by pat_completeness auto
termination
  by (relation "measure (\<lambda>(object, state, _). if object = state then 0 else 1)")
    (auto simp: c11_compare_exchange_def split: if_splits)

declare snapshot_publish_loop.simps [simp del]

definition lib_regmap_snapshot_publish ::
  "lib_regmap_snapshot option \<Rightarrow> u8 list option \<Rightarrow> u16
    \<Rightarrow> (bool \<times> lib_regmap_snapshot option) defined" where
  "lib_regmap_snapshot_publish snapshot data n =
     (case (snapshot, data) of
        (Some s, Some d) \<Rightarrow>
          if \<not> lib_regmap_snapshot_is_valid snapshot \<or> n \<noteq> sn_length s then Some (False, snapshot)
          else
            let state = sn_state s;
                inactive = inactive_index state in
            if lib_regmap_snapshot_reader_count state inactive \<noteq> 0
            then Some (False, Some (lib_regmap_snapshot_note_publish_rejected s))
            else do {
              pointer \<leftarrow> array_read (sn_buffers s) (unat inactive);
              buffer \<leftarrow> pointer;
              buffer \<leftarrow> snapshot_copy_loop d 0 (unat n) buffer;
              let s = s\<lparr>sn_buffers := (sn_buffers s)[unat inactive := Some buffer]\<rparr>;
              (case snapshot_publish_loop (sn_state s) state inactive of
                 (True, object) \<Rightarrow> Some (True, Some (s\<lparr>sn_state := object\<rparr>))
               | (False, object) \<Rightarrow>
                   Some (False, Some (lib_regmap_snapshot_note_publish_rejected
                                        (s\<lparr>sn_state := object\<rparr>))))
            }
      | _ \<Rightarrow> Some (False, snapshot))"

definition lib_regmap_snapshot_publish_rejected_count :: "lib_regmap_snapshot option \<Rightarrow> u32" where
  "lib_regmap_snapshot_publish_rejected_count snapshot =
     (case snapshot of None \<Rightarrow> 0 | Some s \<Rightarrow> sn_publish_rejected_count s)"

section \<open>Well-formed snapshots and what the operations do\<close>

text \<open>
  A well-formed snapshot has two buffers of at least its length; \<open>snapshot_image s b\<close> is the page
  image buffer \<open>b\<close> holds, and \<open>published s\<close> the one a new reader gets.
\<close>

definition snapshot_ok :: "lib_regmap_snapshot \<Rightarrow> bool" where
  "snapshot_ok s \<longleftrightarrow> sn_length s \<noteq> 0 \<and> (\<exists>b0 b1. sn_buffers s = [Some b0, Some b1]
     \<and> unat (sn_length s) \<le> length b0 \<and> unat (sn_length s) \<le> length b1)"

definition snapshot_image :: "lib_regmap_snapshot \<Rightarrow> u8 \<Rightarrow> u8 list" where
  "snapshot_image s b = (case sn_buffers s ! unat b of None \<Rightarrow> [] | Some xs \<Rightarrow> take (unat (sn_length s)) xs)"

definition published :: "lib_regmap_snapshot \<Rightarrow> u8 list" where
  "published s = snapshot_image s (active_index (sn_state s))"

lemma buffer_okE:
  assumes "buffer_ok b"
  obtains "b = 0" | "b = 1"
  using assms by (auto simp: buffer_ok_def)

lemma snapshot_okE:
  assumes "snapshot_ok s"
  obtains b0 b1 where "sn_buffers s = [Some b0, Some b1]" "unat (sn_length s) \<le> length b0"
    "unat (sn_length s) \<le> length b1" "sn_length s \<noteq> 0"
  using assms by (auto simp: snapshot_ok_def)

lemma snapshot_ok_is_valid: "snapshot_ok s \<Longrightarrow> lib_regmap_snapshot_is_valid (Some s)"
  by (auto simp: snapshot_ok_def lib_regmap_snapshot_is_valid_def snapshot_active_mask_def
      and_one_word)

lemma length_snapshot_image: "snapshot_ok s \<Longrightarrow> buffer_ok b \<Longrightarrow>
    length (snapshot_image s b) = unat (sn_length s)"
  by (auto simp: snapshot_ok_def snapshot_image_def buffer_ok_def)

lemma snapshot_ok_state [simp]: "snapshot_ok (s\<lparr>sn_state := x\<rparr>) = snapshot_ok s"
  by (simp add: snapshot_ok_def)

lemma snapshot_ok_rejected [simp]:
  "snapshot_ok (s\<lparr>sn_publish_rejected_count := x\<rparr>) = snapshot_ok s"
  by (simp add: snapshot_ok_def)

lemma snapshot_image_state [simp]:
  "snapshot_image (s\<lparr>sn_state := x\<rparr>) = snapshot_image s"
  "snapshot_image (s\<lparr>sn_publish_rejected_count := y\<rparr>) = snapshot_image s"
  by (auto simp: snapshot_image_def fun_eq_iff split: option.splits)

lemma reader_count_0_iff: "lib_regmap_snapshot_reader_count s b = 0 \<longleftrightarrow> readers s b = 0"
  by (simp add: readers_def unat_eq_0)

lemma reader_count_saturated_iff:
  "lib_regmap_snapshot_reader_count s b = snapshot_reader_mask \<longleftrightarrow> readers s b = 32767"
  by (simp add: readers_def snapshot_reader_mask_def word_unat_eq_iff)

lemma readers_le: "readers s b \<le> 32767"
proof -
  have "unat (drop_bit k s AND mask 15) < 32768" for k
    by (simp only: unat_field) simp
  then have "readers s b < 32768"
    unfolding readers_def lib_regmap_snapshot_reader_count_def snapshot_reader_mask_def
      reader_mask_mask .
  then show ?thesis by simp
qed

lemma acquire_loop_undisturbed:
  "snapshot_acquire_loop x x =
    (if readers x (active_index x) = 32767 then (None, x)
     else (Some (active_index x), x + reader_unit (active_index x)))"
  by (subst snapshot_acquire_loop.simps)
    (simp add: Let_def reader_count_saturated_iff c11_compare_exchange_def)

lemma publish_loop_undisturbed:
  "snapshot_publish_loop x x (inactive_index x) = (True, x XOR snapshot_active_mask)"
  by (subst snapshot_publish_loop.simps) (simp add: Let_def c11_compare_exchange_def)

lemma snapshot_copy_loop_eq:
  assumes "index + n \<le> length data" "index + n \<le> length buffer"
  shows "snapshot_copy_loop data index n buffer
    = Some (take index buffer @ take n (drop index data) @ drop (index + n) buffer)"
  using assms
proof (induction n arbitrary: index buffer)
  case 0
  then show ?case by simp
next
  case (Suc n)
  then have "snapshot_copy_loop data index (Suc n) buffer
      = snapshot_copy_loop data (Suc index) n (buffer[index := data ! index])"
    by (simp add: array_read_in array_write_in)
  also have "\<dots> = Some (take (Suc index) (buffer[index := data ! index])
      @ take n (drop (Suc index) data) @ drop (Suc index + n) (buffer[index := data ! index]))"
    using Suc.prems by (intro Suc.IH) auto
  also have "take (Suc index) (buffer[index := data ! index]) = take index buffer @ [data ! index]"
    using Suc.prems by (simp add: take_Suc_conv_app_nth)
  also have "drop (Suc index + n) (buffer[index := data ! index]) = drop (index + Suc n) buffer"
    by simp
  also have "(take index buffer @ [data ! index]) @ take n (drop (Suc index) data)
      @ drop (index + Suc n) buffer
    = take index buffer @ take (Suc n) (drop index data) @ drop (index + Suc n) buffer"
    using Suc.prems by (simp add: Cons_nth_drop_Suc [symmetric])
  finally show ?case .
qed

text \<open>The initial image: the data given, or zeros. Initialising copies it into both buffers.\<close>

definition initial_image :: "u8 list option \<Rightarrow> nat \<Rightarrow> u8 list" where
  "initial_image initial_data n = (case initial_data of None \<Rightarrow> replicate n 0 | Some d \<Rightarrow> take n d)"

lemma snapshot_init_loop_copies:
  assumes "index + n \<le> length b0" "index + n \<le> length b1" "index + n \<le> length d"
    "case initial_data of None \<Rightarrow> d = replicate k 0 | Some xs \<Rightarrow> d = xs"
  shows "snapshot_init_loop initial_data index n b0 b1 =
    (case (snapshot_copy_loop d index n b0, snapshot_copy_loop d index n b1) of
       (Some b0', Some b1') \<Rightarrow> Some (b0', b1') | _ \<Rightarrow> None)"
  using assms
proof (induction n arbitrary: index b0 b1)
  case 0
  then show ?case by simp
next
  case (Suc n)
  from Suc.IH [of "Suc index"] Suc.prems show ?case
    by (cases initial_data) (simp_all add: array_read_in array_write_in)
qed

lemma lib_regmap_snapshot_init_eq:
  assumes "n \<noteq> 0" "unat n \<le> length b0" "unat n \<le> length b1"
    "case initial_data of None \<Rightarrow> True | Some d \<Rightarrow> unat n \<le> length d"
  shows "lib_regmap_snapshot_init (Some s) (Some b0) (Some b1) n initial_data =
    Some (True, Some (s\<lparr>
      sn_buffers := [Some (initial_image initial_data (unat n) @ drop (unat n) b0),
                     Some (initial_image initial_data (unat n) @ drop (unat n) b1)],
      sn_length := n, sn_state := 0, sn_publish_rejected_count := 0\<rparr>))"
proof -
  define d where "d = (case initial_data of None \<Rightarrow> replicate (unat n) 0 | Some d \<Rightarrow> d)"
  have d: "unat n \<le> length d" "initial_image initial_data (unat n) = take (unat n) d"
    "case initial_data of None \<Rightarrow> d = replicate (unat n) 0 | Some xs \<Rightarrow> d = xs"
    using assms(4) by (auto simp: d_def initial_image_def split: option.splits)
  then show ?thesis
    using snapshot_init_loop_copies [of 0 "unat n" b0 b1 d "unat n" initial_data] assms
    by (simp add: lib_regmap_snapshot_init_def snapshot_copy_loop_eq)
qed

text \<open>
  \<open>fill_buffer s b d\<close> overwrites the image of buffer \<open>b\<close>; a publish fills the inactive buffer and
  then flips the active bit.
\<close>

definition fill_buffer :: "lib_regmap_snapshot \<Rightarrow> u8 \<Rightarrow> u8 list \<Rightarrow> lib_regmap_snapshot" where
  "fill_buffer s b d = s\<lparr>sn_buffers := (sn_buffers s)[unat b :=
     map_option (\<lambda>xs. take (unat (sn_length s)) d @ drop (unat (sn_length s)) xs) (sn_buffers s ! unat b)]\<rparr>"

definition flip_active :: "lib_regmap_snapshot \<Rightarrow> lib_regmap_snapshot" where
  "flip_active s = s\<lparr>sn_state := sn_state s XOR snapshot_active_mask\<rparr>"

lemma fill_buffer_ok [simp]:
  "snapshot_ok s \<Longrightarrow> buffer_ok b \<Longrightarrow> unat (sn_length s) \<le> length d \<Longrightarrow> snapshot_ok (fill_buffer s b d)"
  by (auto simp: snapshot_ok_def fill_buffer_def buffer_ok_def)

lemma flip_active_ok [simp]: "snapshot_ok (flip_active s) = snapshot_ok s"
  by (simp add: flip_active_def)

lemma fill_buffer_fields [simp]:
  "sn_state (fill_buffer s b d) = sn_state s" "sn_length (fill_buffer s b d) = sn_length s"
  "sn_publish_rejected_count (fill_buffer s b d) = sn_publish_rejected_count s"
  by (simp_all add: fill_buffer_def)

lemma flip_active_fields [simp]:
  "sn_state (flip_active s) = sn_state s XOR snapshot_active_mask"
  "sn_length (flip_active s) = sn_length s" "sn_buffers (flip_active s) = sn_buffers s"
  "sn_publish_rejected_count (flip_active s) = sn_publish_rejected_count s"
  "snapshot_image (flip_active s) = snapshot_image s"
  by (simp_all add: flip_active_def)

lemma image_fill_buffer:
  assumes "snapshot_ok s" "buffer_ok b" "buffer_ok b'" "unat (sn_length s) \<le> length d"
  shows "snapshot_image (fill_buffer s b d) b' =
    (if b' = b then take (unat (sn_length s)) d else snapshot_image s b')"
  using assms by (auto simp: snapshot_ok_def snapshot_image_def fill_buffer_def buffer_ok_def)

lemma lib_regmap_snapshot_publish_eq:
  assumes "snapshot_ok s" "unat (sn_length s) \<le> length d"
  shows "lib_regmap_snapshot_publish (Some s) (Some d) n =
    (let inactive = inactive_index (sn_state s) in
     if n \<noteq> sn_length s then Some (False, Some s)
     else if readers (sn_state s) inactive \<noteq> 0
     then Some (False, Some (lib_regmap_snapshot_note_publish_rejected s))
     else Some (True, Some (flip_active (fill_buffer s inactive d))))"
proof -
  obtain b0 b1 where b: "sn_buffers s = [Some b0, Some b1]" "unat (sn_length s) \<le> length b0"
    "unat (sn_length s) \<le> length b1"
    by (rule snapshot_okE [OF assms(1)])
  have "inactive_index (sn_state s) = 0 \<or> inactive_index (sn_state s) = 1"
    using inactive_index_ok by (simp add: buffer_ok_def)
  then show ?thesis
  proof
    assume "inactive_index (sn_state s) = 0"
    then show ?thesis
      using assms b publish_loop_undisturbed [of "sn_state s"]
      by (simp add: lib_regmap_snapshot_publish_def snapshot_ok_is_valid Let_def reader_count_0_iff
          array_read_in snapshot_copy_loop_eq fill_buffer_def flip_active_def)
  next
    assume "inactive_index (sn_state s) = 1"
    then show ?thesis
      using assms b publish_loop_undisturbed [of "sn_state s"]
      by (simp add: lib_regmap_snapshot_publish_def snapshot_ok_is_valid Let_def reader_count_0_iff
          array_read_in snapshot_copy_loop_eq fill_buffer_def flip_active_def)
  qed
qed

lemma lib_regmap_snapshot_acquire_eq:
  "lib_regmap_snapshot_acquire (Some s) (Some b) =
    (let active = active_index (sn_state s) in
     if readers (sn_state s) active = 32767 then (False, Some s, Some b)
     else (True, Some (s\<lparr>sn_state := sn_state s + reader_unit active\<rparr>), Some active))"
  by (simp add: lib_regmap_snapshot_acquire_def acquire_loop_undisturbed Let_def)

lemma lib_regmap_snapshot_release_eq:
  "lib_regmap_snapshot_release (Some s) b = Some (s\<lparr>sn_state := sn_state s - reader_unit b\<rparr>)"
  by (simp add: lib_regmap_snapshot_release_def c11_fetch_sub_def)

section \<open>Properties\<close>

text \<open>Initialising a snapshot fails exactly when a pointer is null or the length is zero, and
  otherwise leaves a well-formed snapshot with no readers that publishes the initial data
  (zeros when none is given), in both buffers.\<close>

theorem snapshot_init_publishes_initial_image:
  assumes "unat n \<le> length b0" "unat n \<le> length b1"
    "case initial_data of None \<Rightarrow> True | Some d \<Rightarrow> unat n \<le> length d"
  shows "if n = 0 then lib_regmap_snapshot_init (Some s) (Some b0) (Some b1) n initial_data
           = Some (False, Some s)
         else \<exists>s'. lib_regmap_snapshot_init (Some s) (Some b0) (Some b1) n initial_data
             = Some (True, Some s') \<and> snapshot_ok s' \<and> sn_length s' = n
           \<and> snapshot_image s' 0 = initial_image initial_data (unat n)
           \<and> snapshot_image s' 1 = initial_image initial_data (unat n)
           \<and> published s' = initial_image initial_data (unat n)
           \<and> readers (sn_state s') 0 = 0 \<and> readers (sn_state s') 1 = 0
           \<and> sn_publish_rejected_count s' = 0"
proof (cases "n = 0")
  case True
  then show ?thesis by (simp add: lib_regmap_snapshot_init_def)
next
  case False
  have "length (initial_image initial_data (unat n)) = unat n"
    using assms(3) by (auto simp: initial_image_def split: option.splits)
  then show ?thesis
    using False assms
    by (simp add: lib_regmap_snapshot_init_eq snapshot_ok_def snapshot_image_def published_def
        active_index_parity readers_0 readers_1)
qed

theorem snapshot_init_publishes_initial_image_witness:
  "\<exists>s'. lib_regmap_snapshot_init
      (Some \<lparr>sn_buffers = [None, None], sn_length = 0, sn_state = 9, sn_publish_rejected_count = 4\<rparr>)
      (Some [1, 2]) (Some [3, 4]) 2 (Some [5, 6, 7]) = Some (True, Some s') \<and> published s' = [5, 6]"
  using snapshot_init_publishes_initial_image [of 2 "[1, 2]" "[3, 4]" "Some [5, 6, 7]"
      "\<lparr>sn_buffers = [None, None], sn_length = 0, sn_state = 9, sn_publish_rejected_count = 4\<rparr>"]
  by (auto simp: initial_image_def)

text \<open>A publish refuses a wrong length without effect; it refuses, counting the rejection and
  changing nothing else, exactly while a reader still holds the inactive buffer; otherwise it
  makes the new data the published image, leaves the image the current readers hold byte for
  byte as it was, and keeps every reader count.\<close>

theorem snapshot_publish_contract:
  assumes "snapshot_ok s" "unat (sn_length s) \<le> length d"
  defines "inactive \<equiv> inactive_index (sn_state s)" and "active \<equiv> active_index (sn_state s)"
  shows "\<exists>ok s'. lib_regmap_snapshot_publish (Some s) (Some d) n = Some (ok, Some s')
    \<and> snapshot_ok s' \<and> (ok \<longleftrightarrow> n = sn_length s \<and> readers (sn_state s) inactive = 0)
    \<and> readers (sn_state s') = readers (sn_state s) \<and> snapshot_image s' active = snapshot_image s active
    \<and> published s' = (if ok then take (unat n) d else published s)
    \<and> sn_publish_rejected_count s' = sn_publish_rejected_count s
        + (if n = sn_length s \<and> readers (sn_state s) inactive \<noteq> 0 then 1 else 0)"
proof -
  have fill: "snapshot_image (fill_buffer s inactive d) b =
      (if b = inactive then take (unat (sn_length s)) d else snapshot_image s b)" if "buffer_ok b" for b
    using that assms by (simp add: image_fill_buffer)
  show ?thesis
    using assms(1,2) fill [of active] fill [of inactive]
    by (auto simp: lib_regmap_snapshot_publish_eq [OF assms(1,2)] Let_def published_def
        inactive_def active_def lib_regmap_snapshot_note_publish_rejected_def fun_eq_iff
        simp flip: inactive_index_eq)
qed

definition demo_snapshot :: lib_regmap_snapshot where
  "demo_snapshot = \<lparr>sn_buffers = [Some [16, 17], Some [16, 17]], sn_length = 2, sn_state = 0,
     sn_publish_rejected_count = 0\<rparr>"

theorem snapshot_publish_contract_witness:
  "\<exists>s'. lib_regmap_snapshot_publish (Some demo_snapshot) (Some [48, 49]) 2 = Some (True, Some s')
    \<and> published s' = [48, 49] \<and> snapshot_image s' 0 = [16, 17]"
  using snapshot_publish_contract [of demo_snapshot "[48, 49]" 2]
  by (auto simp: demo_snapshot_def snapshot_ok_def readers_0 readers_1 inactive_index_eq
      active_index_parity snapshot_image_def)

end
