(* ===== verification/Spsc_Queue.thy ===== *)
theory Spsc_Queue
  imports Prelude
begin

text \<open>
  What the two single-producer/single-consumer queues of the code have in common: the window
  of occupied slots between two free-running 32-bit indices, and the contract of a bounded
  queue with a drop counter, as a locale. The byte ring (\<open>Ringbuf\<close>) and the register-map
  command queue (\<open>Command_Queue\<close>) interpret it; the UART transmitter and the register map
  are its clients.
\<close>

section \<open>The window of occupied slots\<close>

definition slot :: "u32 \<Rightarrow> u32 \<Rightarrow> nat" where
  "slot cap i = unat (i AND (cap - 1))"

definition window :: "'a list \<Rightarrow> u32 \<Rightarrow> u32 \<Rightarrow> u32 \<Rightarrow> 'a list" where
  "window xs cap r w = map (\<lambda>j. xs ! slot cap (r + of_nat j)) [0..<unat (w - r)]"

definition pow2_capacity :: "u32 \<Rightarrow> bool" where
  "pow2_capacity cap \<longleftrightarrow> (\<exists>k < 32. unat cap = 2 ^ k)"

lemma length_window [simp]: "length (window xs cap r w) = unat (w - r)"
  by (simp add: window_def)

lemma window_empty [simp]: "window xs cap r r = []"
  by (simp add: window_def)

lemma pow2_capacity_pos: "pow2_capacity cap \<Longrightarrow> 0 < unat cap"
  by (auto simp: pow2_capacity_def)

lemma pow2_capacity_iff:
  "pow2_capacity cap \<longleftrightarrow> cap \<noteq> 0 \<and> cap AND (cap - 1) = 0"
proof (cases "cap = 0")
  case False
  then show ?thesis
    using word_and_pred_eq_0_iff [of cap] by (auto simp: pow2_capacity_def)
qed (auto simp: pow2_capacity_def)

lemma slot_less: "pow2_capacity cap \<Longrightarrow> slot cap i < unat cap"
  by (auto simp: pow2_capacity_def slot_def unat_and_pred_power)

lemma slot_less_length [intro]: "pow2_capacity cap \<Longrightarrow> unat cap \<le> n \<Longrightarrow> slot cap i < n"
  using slot_less order_less_le_trans by blast

text \<open>
  The capacity divides the range of the indices, so the masked index keeps counting through
  the wrap of the 32-bit index.
\<close>

lemma slot_add:
  assumes "pow2_capacity cap"
  shows "slot cap (r + of_nat j) = (unat r + j) mod unat cap"
proof -
  obtain k where k: "k < 32" "unat cap = 2 ^ k"
    using assms by (auto simp: pow2_capacity_def)
  have "slot cap (r + of_nat j) = unat (r + of_nat j) mod unat cap"
    using k by (simp add: slot_def unat_and_pred_power)
  also have "unat (r + of_nat j) = (unat r + j) mod 2 ^ 32"
    by (simp add: unat_word_ariths unat_of_nat mod_simps)
  also have "(unat r + j) mod 2 ^ 32 mod unat cap = (unat r + j) mod unat cap"
    using k le_imp_power_dvd [of k 32 "2::nat"] by (intro mod_mod_cancel) simp
  finally show ?thesis .
qed

lemma mod_window_distinct:
  fixes a m :: nat
  assumes "j < l" "l < m"
  shows "(a + j) mod m \<noteq> (a + l) mod m"
proof
  assume eq: "(a + j) mod m = (a + l) mod m"
  then have "(a + l) mod m = (a + j) mod m" by simp
  then have "m dvd (a + l) - (a + j)"
    using assms(1) by (subst (asm) mod_eq_dvd_iff_nat) auto
  then have "m dvd l - j" by simp
  then show False using assms nat_dvd_not_less [of "l - j" m] by simp
qed

lemma slot_other:
  assumes "pow2_capacity cap" "j < n" "n < unat cap"
  shows "slot cap (r + of_nat j) \<noteq> slot cap (r + of_nat n)"
  using mod_window_distinct [OF assms(2,3)] by (simp add: slot_add assms(1))

lemma word_add_used: "r + of_nat (unat (w - r)) = w" for r w :: u32
  by simp

lemma unat_diff_Suc:
  fixes r w cap :: u32
  assumes "unat (w - r) < unat cap"
  shows "unat (w + 1 - r) = Suc (unat (w - r))"
proof -
  have "unat cap < 2 ^ LENGTH(32)"
    by (rule unsigned_less)
  with assms have "unat (w - r) + 1 < 2 ^ 32" by simp
  then have "unat (w - r + 1) = unat (w - r) + 1"
    by (subst unat_word_ariths) simp
  moreover have "w + 1 - r = w - r + 1" by simp
  ultimately show ?thesis by presburger
qed

lemma window_push:
  assumes cap: "pow2_capacity cap" and used: "unat (w - r) < unat cap"
    and len: "unat cap \<le> length xs"
  shows "window (xs[slot cap w := x]) cap r (w + 1) = window xs cap r w @ [x]"
proof -
  let ?n = "unat (w - r)" and ?ys = "xs[slot cap w := x]"
  have w: "slot cap (r + of_nat ?n) = slot cap w" by simp
  have old: "?ys ! slot cap (r + of_nat j) = xs ! slot cap (r + of_nat j)" if "j < ?n" for j
    using slot_other [OF cap that used] w by (metis nth_list_update_neq)
  have new: "?ys ! slot cap w = x"
    using cap len by (simp add: slot_less_length)
  show ?thesis
    by (simp add: window_def unat_diff_Suc [OF used] old new)
qed

lemma unat_diff_pop:
  fixes r w :: u32
  assumes "r \<noteq> w"
  shows "unat (w - r) = Suc (unat (w - (r + 1)))"
proof -
  have nz: "w - r \<noteq> 0" using assms by simp
  have "unat (w - r - 1) = unat (w - r) - 1"
    using nz by (rule unat_pred_word)
  moreover have "0 < unat (w - r)"
    using nz unat_gt_0 by blast
  ultimately show ?thesis by (simp add: diff_diff_add)
qed

lemma window_pop:
  assumes "r \<noteq> w"
  shows "window xs cap r w = xs ! slot cap r # window xs cap (r + 1) w"
proof -
  have "[0..<unat (w - r)] = 0 # map Suc [0..<unat (w - (r + 1))]"
    by (simp add: unat_diff_pop [OF assms] upt_conv_Cons map_Suc_upt)
  then show ?thesis by (simp add: window_def o_def add.assoc)
qed

text \<open>Writing a slot outside the window leaves the window alone.\<close>

lemma window_unused_slot:
  assumes "pow2_capacity cap" "unat (w - r) < unat cap"
  shows "window (xs[slot cap w := x]) cap r w = window xs cap r w"
  unfolding window_def
proof (rule map_cong [OF refl])
  fix j assume "j \<in> set [0..<unat (w - r)]"
  then have "slot cap (r + of_nat j) \<noteq> slot cap (r + of_nat (unat (w - r)))"
    using assms by (intro slot_other) auto
  then show "xs[slot cap w := x] ! slot cap (r + of_nat j) = xs ! slot cap (r + of_nat j)"
    by simp
qed

section \<open>The contract of a bounded queue\<close>

text \<open>
  \<open>abs\<close> is the queue's contents, oldest first. A push on a queue with room appends; on a full
  queue it is refused and counted (the counter is a \<open>uint32_t\<close> and wraps). A pop returns the
  oldest element, and is refused on an empty queue. Neither is ever undefined.
\<close>

locale bounded_queue =
  fixes inv :: "'q \<Rightarrow> bool"
    and abs :: "'q \<Rightarrow> 'a list"
    and room :: "'q \<Rightarrow> nat"
    and drops :: "'q \<Rightarrow> u32"
    and push :: "'q \<Rightarrow> 'a \<Rightarrow> (bool \<times> 'q) defined"
    and pop :: "'q \<Rightarrow> ('a option \<times> 'q) defined"
  assumes within_room: "inv q \<Longrightarrow> length (abs q) \<le> room q"
    and push_room: "inv q \<Longrightarrow> length (abs q) < room q \<Longrightarrow>
      \<exists>q'. push q x = Some (True, q') \<and> inv q' \<and> abs q' = abs q @ [x]
        \<and> room q' = room q \<and> drops q' = drops q"
    and push_full: "inv q \<Longrightarrow> length (abs q) = room q \<Longrightarrow>
      \<exists>q'. push q x = Some (False, q') \<and> inv q' \<and> abs q' = abs q
        \<and> room q' = room q \<and> drops q' = drops q + 1"
    and pop_some: "inv q \<Longrightarrow> abs q = x # xs \<Longrightarrow>
      \<exists>q'. pop q = Some (Some x, q') \<and> inv q' \<and> abs q' = xs
        \<and> room q' = room q \<and> drops q' = drops q"
    and pop_none: "inv q \<Longrightarrow> abs q = [] \<Longrightarrow> pop q = Some (None, q)"

text \<open>
  Runs of a queue: a list of operations of the producer and the consumer, in the order in
  which they happen, with what was accepted, what was delivered and how many were refused.
\<close>

datatype 'a queue_op = Push 'a | Pop

fun queue_run ::
  "('q \<Rightarrow> 'a \<Rightarrow> (bool \<times> 'q) defined) \<Rightarrow> ('q \<Rightarrow> ('a option \<times> 'q) defined)
    \<Rightarrow> 'a queue_op list \<Rightarrow> 'q \<Rightarrow> ('a list \<times> 'a list \<times> nat \<times> 'q) defined" where
  "queue_run push pop [] q = Some ([], [], 0, q)"
| "queue_run push pop (Push x # ops) q = do {
     (ok, q') \<leftarrow> push q x;
     (accepted, delivered, refused, q'') \<leftarrow> queue_run push pop ops q';
     Some (if ok then (x # accepted, delivered, refused, q'')
           else (accepted, delivered, Suc refused, q''))
   }"
| "queue_run push pop (Pop # ops) q = do {
     (out, q') \<leftarrow> pop q;
     (accepted, delivered, refused, q'') \<leftarrow> queue_run push pop ops q';
     Some (accepted, (case out of None \<Rightarrow> delivered | Some x \<Rightarrow> x # delivered), refused, q'')
   }"

text \<open>Pushing a whole buffer, stopping at the first refusal, as the UART transmitter does.\<close>

fun push_list :: "('q \<Rightarrow> 'a \<Rightarrow> (bool \<times> 'q) defined) \<Rightarrow> 'a list \<Rightarrow> 'q \<Rightarrow> (nat \<times> 'q) defined" where
  "push_list push [] q = Some (0, q)"
| "push_list push (x # xs) q = do {
     (ok, q') \<leftarrow> push q x;
     if ok then do { (n, q'') \<leftarrow> push_list push xs q'; Some (Suc n, q'') } else Some (0, q')
   }"

context bounded_queue
begin

lemma push_total:
  assumes "inv q"
  obtains ok q' where "push q x = Some (ok, q')" "inv q'" "room q' = room q"
    "abs q' = (if ok then abs q @ [x] else abs q)" "drops q' = (if ok then drops q else drops q + 1)"
    "ok \<longleftrightarrow> length (abs q) < room q"
proof (cases "length (abs q) < room q")
  case True
  with push_room [OF assms this, of x] that [of True] show ?thesis by auto
next
  case False
  with within_room [OF assms] have "length (abs q) = room q" by simp
  with push_full [OF assms this, of x] that [of False] False show ?thesis by auto
qed

lemma pop_total:
  assumes "inv q"
  obtains out q' where "pop q = Some (out, q')" "inv q'" "room q' = room q" "drops q' = drops q"
    "abs q = (case out of None \<Rightarrow> abs q' | Some x \<Rightarrow> x # abs q')" "out = None \<longleftrightarrow> abs q = []"
proof (cases "abs q")
  case Nil
  with pop_none [OF assms this] that [of None q] assms show ?thesis by auto
next
  case (Cons x xs)
  with pop_some [OF assms this] that [of "Some x"] show ?thesis by auto
qed

text \<open>
  First in, first out, with nothing lost, duplicated or reordered: what the queue held and what
  it accepted, in order, is what it delivered followed by what it still holds.
\<close>

theorem run_fifo:
  assumes "inv q"
  shows "\<exists>accepted delivered refused q'.
    queue_run push pop ops q = Some (accepted, delivered, refused, q') \<and> inv q'
      \<and> abs q @ accepted = delivered @ abs q' \<and> room q' = room q
      \<and> drops q' = drops q + of_nat refused"
  using assms
proof (induction ops arbitrary: q)
  case Nil
  then show ?case by simp
next
  case (Cons operation ops)
  show ?case
  proof (cases operation)
    case (Push x)
    obtain ok q1 where q1: "push q x = Some (ok, q1)" "inv q1" "room q1 = room q"
      "abs q1 = (if ok then abs q @ [x] else abs q)"
      "drops q1 = (if ok then drops q else drops q + 1)"
      by (rule push_total [OF Cons.prems])
    from Cons.IH [OF q1(2)] q1 show ?thesis by (cases ok) (auto simp: Push)
  next
    case Pop
    obtain out q1 where q1: "pop q = Some (out, q1)" "inv q1" "room q1 = room q"
      "drops q1 = drops q" "abs q = (case out of None \<Rightarrow> abs q1 | Some x \<Rightarrow> x # abs q1)"
      by (rule pop_total [OF Cons.prems])
    from Cons.IH [OF q1(2)] q1 show ?thesis by (cases out) (auto simp: Pop)
  qed
qed

text \<open>
  A buffer is accepted up to the free room: the longest prefix that fits, and at most one
  refusal is counted because the producer stops there.
\<close>

theorem push_list_prefix:
  assumes "inv q"
  shows "\<exists>n q'. push_list push xs q = Some (n, q') \<and> n = min (length xs) (room q - length (abs q))
      \<and> inv q' \<and> abs q' = abs q @ take n xs \<and> room q' = room q
      \<and> drops q' = drops q + (if n < length xs then 1 else 0)"
  using assms
proof (induction xs arbitrary: q)
  case Nil
  then show ?case by simp
next
  case (Cons x xs)
  obtain ok q1 where q1: "push q x = Some (ok, q1)" "inv q1" "room q1 = room q"
    "abs q1 = (if ok then abs q @ [x] else abs q)" "drops q1 = (if ok then drops q else drops q + 1)"
    "ok \<longleftrightarrow> length (abs q) < room q"
    by (rule push_total [OF Cons.prems])
  show ?case
  proof (cases ok)
    case True
    obtain q2 where q2:
      "push_list push xs q1 = Some (min (length xs) (room q1 - length (abs q1)), q2)" "inv q2"
      "abs q2 = abs q1 @ take (min (length xs) (room q1 - length (abs q1))) xs" "room q2 = room q1"
      "drops q2 = drops q1 + (if min (length xs) (room q1 - length (abs q1)) < length xs then 1 else 0)"
      using Cons.IH [OF q1(2)] by blast
    have room: "room q - length (abs q) = Suc (room q1 - length (abs q1))"
      using q1(3,4,6) True by simp
    show ?thesis
      using q1 q2 True by (simp add: room)
  next
    case False
    with q1 show ?thesis by simp
  qed
qed

end

end
