(* ===== verification/Command_Queue.thy ===== *)
theory Command_Queue
  imports Spsc_Queue
begin

text \<open>
  The command queue of \<open>lib/lib_regmap.c\<close> (\<open>lib_regmap_command_queue_t\<close>): the I2C interrupt
  enqueues the address/value pairs a controller writes to a read-write page, the main loop
  pops them. Unlike the byte ring it keeps no mask and validates the queue it is handed on
  every call, because \<open>enqueue\<close> is reached through a callback with a \<open>void *\<close> context.
\<close>

section \<open>State and operations\<close>

record lib_regmap_command =
  cmd_address :: u16
  cmd_value :: u8

record lib_regmap_command_queue =
  cq_storage :: "lib_regmap_command list option"
  cq_capacity :: u32
  cq_write_index :: u32
  cq_read_index :: u32
  cq_dropped_count :: u32

definition lib_regmap_is_power_of_two :: "u32 \<Rightarrow> bool" where
  "lib_regmap_is_power_of_two v \<longleftrightarrow> v \<noteq> 0 \<and> v AND (v - 1) = 0"

definition lib_regmap_command_queue_init ::
  "lib_regmap_command_queue option \<Rightarrow> lib_regmap_command list option \<Rightarrow> u32
    \<Rightarrow> bool \<times> lib_regmap_command_queue option" where
  "lib_regmap_command_queue_init queue storage capacity =
     (case (queue, storage) of
        (Some q, Some xs) \<Rightarrow>
          if \<not> lib_regmap_is_power_of_two capacity then (False, Some q)
          else (True, Some (q\<lparr>cq_storage := Some xs, cq_capacity := capacity,
                               cq_write_index := 0, cq_read_index := 0,
                               cq_dropped_count := 0\<rparr>))
      | _ \<Rightarrow> (False, queue))"

text \<open>The two field assignments go to the slot one after the other.\<close>

definition lib_regmap_command_queue_enqueue ::
  "lib_regmap_command_queue option \<Rightarrow> u16 \<Rightarrow> u8
    \<Rightarrow> (bool \<times> lib_regmap_command_queue option) defined" where
  "lib_regmap_command_queue_enqueue context address v =
     (case context of
        None \<Rightarrow> Some (False, None)
      | Some q \<Rightarrow>
          let write_index = cq_write_index q;
              read_index = cq_read_index q in
          case cq_storage q of
            None \<Rightarrow> Some (False, Some q)
          | Some xs \<Rightarrow>
              if \<not> lib_regmap_is_power_of_two (cq_capacity q) then Some (False, Some q)
              else if write_index - read_index \<ge> cq_capacity q
              then Some (False, Some (q\<lparr>cq_dropped_count := cq_dropped_count q + 1\<rparr>))
              else do {
                let i = unat (write_index AND (cq_capacity q - 1));
                c \<leftarrow> array_read xs i;
                xs \<leftarrow> array_write xs i (c\<lparr>cmd_address := address\<rparr>);
                c \<leftarrow> array_read xs i;
                xs \<leftarrow> array_write xs i (c\<lparr>cmd_value := v\<rparr>);
                Some (True, Some (q\<lparr>cq_storage := Some xs, cq_write_index := write_index + 1\<rparr>))
              })"

definition lib_regmap_command_queue_try_pop ::
  "lib_regmap_command_queue option \<Rightarrow> lib_regmap_command option
    \<Rightarrow> (bool \<times> lib_regmap_command_queue option \<times> lib_regmap_command option) defined" where
  "lib_regmap_command_queue_try_pop queue command =
     (case (queue, command) of
        (Some q, Some _) \<Rightarrow>
          let read_index = cq_read_index q;
              write_index = cq_write_index q in
          (case cq_storage q of
             None \<Rightarrow> Some (False, queue, command)
           | Some xs \<Rightarrow>
               if \<not> lib_regmap_is_power_of_two (cq_capacity q) \<or> read_index = write_index
               then Some (False, queue, command)
               else do {
                 c \<leftarrow> array_read xs (unat (read_index AND (cq_capacity q - 1)));
                 Some (True, Some (q\<lparr>cq_read_index := read_index + 1\<rparr>), Some c)
               })
      | _ \<Rightarrow> Some (False, queue, command))"

definition lib_regmap_command_queue_dropped_count :: "lib_regmap_command_queue option \<Rightarrow> u32" where
  "lib_regmap_command_queue_dropped_count queue =
     (case queue of None \<Rightarrow> 0 | Some q \<Rightarrow> cq_dropped_count q)"

section \<open>Invariant and abstraction\<close>

definition cq_inv :: "lib_regmap_command_queue \<Rightarrow> bool" where
  "cq_inv q \<longleftrightarrow> pow2_capacity (cq_capacity q)
     \<and> (\<exists>xs. cq_storage q = Some xs \<and> unat (cq_capacity q) \<le> length xs)
     \<and> unat (cq_write_index q - cq_read_index q) \<le> unat (cq_capacity q)"

definition cq_contents :: "lib_regmap_command_queue \<Rightarrow> lib_regmap_command list" where
  "cq_contents q = window (case cq_storage q of None \<Rightarrow> [] | Some xs \<Rightarrow> xs)
     (cq_capacity q) (cq_read_index q) (cq_write_index q)"

definition cq_room :: "lib_regmap_command_queue \<Rightarrow> nat" where
  "cq_room q = unat (cq_capacity q)"

definition cq_push ::
  "lib_regmap_command_queue \<Rightarrow> lib_regmap_command \<Rightarrow> (bool \<times> lib_regmap_command_queue) defined" where
  "cq_push q c = do {
     (ok, queue) \<leftarrow> lib_regmap_command_queue_enqueue (Some q) (cmd_address c) (cmd_value c);
     q' \<leftarrow> queue;
     Some (ok, q')
   }"

definition cq_pop ::
  "lib_regmap_command_queue \<Rightarrow> (lib_regmap_command option \<times> lib_regmap_command_queue) defined" where
  "cq_pop q = do {
     (ok, queue, command) \<leftarrow>
       lib_regmap_command_queue_try_pop (Some q) (Some \<lparr>cmd_address = 0, cmd_value = 0\<rparr>);
     q' \<leftarrow> queue;
     Some (if ok then command else None, q')
   }"

lemma lib_regmap_is_power_of_two_pow2_capacity [simp]:
  "lib_regmap_is_power_of_two v \<longleftrightarrow> pow2_capacity v"
  by (simp add: lib_regmap_is_power_of_two_def pow2_capacity_iff)

lemma cq_invE:
  assumes "cq_inv q"
  obtains xs where "cq_storage q = Some xs" "unat (cq_capacity q) \<le> length xs"
    "pow2_capacity (cq_capacity q)"
    "unat (cq_write_index q - cq_read_index q) \<le> unat (cq_capacity q)"
  using assms by (auto simp: cq_inv_def)

lemma length_cq_contents:
  "length (cq_contents q) = unat (cq_write_index q - cq_read_index q)"
  by (simp add: cq_contents_def)

lemma command_fields_written [simp]:
  "c'\<lparr>cmd_address := cmd_address c, cmd_value := cmd_value c\<rparr> = (c :: lib_regmap_command)"
  by simp

lemma cq_push_room:
  assumes "cq_inv q" "length (cq_contents q) < cq_room q"
  shows "\<exists>q'. cq_push q c = Some (True, q') \<and> cq_inv q'
    \<and> cq_contents q' = cq_contents q @ [c] \<and> cq_room q' = cq_room q
    \<and> cq_dropped_count q' = cq_dropped_count q"
proof -
  obtain xs where xs: "cq_storage q = Some xs" "unat (cq_capacity q) \<le> length xs"
    "pow2_capacity (cq_capacity q)"
    by (rule cq_invE [OF assms(1)])
  let ?c = "cq_capacity q" and ?w = "cq_write_index q" and ?r = "cq_read_index q"
  have used: "unat (?w - ?r) < unat ?c"
    using assms(2) by (simp add: length_cq_contents cq_room_def)
  then have "\<not> ?c \<le> ?w - ?r" by (simp add: word_le_nat_alt)
  moreover have "slot ?c ?w < length xs" using xs by (intro slot_less_length)
  ultimately show ?thesis
    using xs used window_push [OF xs(3) used xs(2), of c] unat_diff_Suc [OF used]
    by (simp add: cq_push_def lib_regmap_command_queue_enqueue_def Let_def array_write_in
        array_read_in slot_def cq_inv_def cq_contents_def cq_room_def)
qed

lemma cq_push_full:
  assumes "cq_inv q" "length (cq_contents q) = cq_room q"
  shows "\<exists>q'. cq_push q c = Some (False, q') \<and> cq_inv q'
    \<and> cq_contents q' = cq_contents q \<and> cq_room q' = cq_room q
    \<and> cq_dropped_count q' = cq_dropped_count q + 1"
proof -
  obtain xs where xs: "cq_storage q = Some xs" "pow2_capacity (cq_capacity q)"
    by (rule cq_invE [OF assms(1)])
  have "cq_capacity q \<le> cq_write_index q - cq_read_index q"
    using assms(2) by (simp add: length_cq_contents cq_room_def word_le_nat_alt)
  then show ?thesis
    using assms(1) xs by (simp add: cq_push_def lib_regmap_command_queue_enqueue_def Let_def
        cq_inv_def cq_contents_def cq_room_def)
qed

lemma cq_pop_some:
  assumes "cq_inv q" "cq_contents q = c # cs"
  shows "\<exists>q'. cq_pop q = Some (Some c, q') \<and> cq_inv q' \<and> cq_contents q' = cs
    \<and> cq_room q' = cq_room q \<and> cq_dropped_count q' = cq_dropped_count q"
proof -
  obtain xs where xs: "cq_storage q = Some xs" "unat (cq_capacity q) \<le> length xs"
    "pow2_capacity (cq_capacity q)"
    "unat (cq_write_index q - cq_read_index q) \<le> unat (cq_capacity q)"
    by (rule cq_invE [OF assms(1)])
  let ?c = "cq_capacity q" and ?w = "cq_write_index q" and ?r = "cq_read_index q"
  have ne: "?r \<noteq> ?w"
    using assms(2) by (auto simp: cq_contents_def)
  moreover have "slot ?c ?r < length xs" using xs by (intro slot_less_length)
  ultimately show ?thesis
    using xs window_pop [OF ne, of xs ?c] unat_diff_pop [OF ne] assms(2)
    by (simp add: cq_pop_def lib_regmap_command_queue_try_pop_def Let_def array_read_in slot_def
        cq_inv_def cq_contents_def cq_room_def)
qed

lemma cq_pop_none:
  assumes "cq_inv q" "cq_contents q = []"
  shows "cq_pop q = Some (None, q)"
proof -
  obtain xs where "cq_storage q = Some xs" by (rule cq_invE [OF assms(1)])
  moreover have "cq_write_index q - cq_read_index q = 0"
    using length_cq_contents [of q] assms by (simp add: unat_eq_0)
  ultimately show ?thesis by (simp add: cq_pop_def lib_regmap_command_queue_try_pop_def)
qed

interpretation cq: bounded_queue cq_inv cq_contents cq_room cq_dropped_count cq_push cq_pop
proof
  fix q assume "cq_inv q"
  then show "length (cq_contents q) \<le> cq_room q"
    by (simp add: length_cq_contents cq_room_def cq_inv_def)
qed (use cq_push_room cq_push_full cq_pop_some cq_pop_none in blast)+

section \<open>Properties\<close>

text \<open>The command queue delivers the commands it accepted, each exactly once and in order, over every
  sequence of enqueues and pops and through any wrap of the indices; a command that finds the queue
  full is refused and counted.\<close>

theorem command_queue_fifo:
  assumes "cq_inv q"
  shows "\<exists>accepted delivered refused q'.
    queue_run cq_push cq_pop ops q = Some (accepted, delivered, refused, q') \<and> cq_inv q'
      \<and> cq_contents q @ accepted = delivered @ cq_contents q' \<and> cq_room q' = cq_room q
      \<and> cq_dropped_count q' = cq_dropped_count q + of_nat refused"
  by (rule cq.run_fifo [OF assms])

theorem command_queue_fifo_witness:
  "\<exists>accepted delivered refused q'. queue_run cq_push cq_pop
      [Push \<lparr>cmd_address = 3, cmd_value = 4\<rparr>, Pop, Pop]
      \<lparr>cq_storage = Some [\<lparr>cmd_address = 0, cmd_value = 0\<rparr>], cq_capacity = 1, cq_write_index = 0,
        cq_read_index = 0, cq_dropped_count = 0\<rparr>
    = Some (accepted, delivered, refused, q') \<and> accepted = delivered @ cq_contents q'"
proof -
  let ?q = "\<lparr>cq_storage = Some [\<lparr>cmd_address = 0, cmd_value = 0\<rparr>], cq_capacity = 1,
    cq_write_index = 0, cq_read_index = 0, cq_dropped_count = 0\<rparr> :: lib_regmap_command_queue"
  have inv: "cq_inv ?q" by (simp add: cq_inv_def pow2_capacity_iff)
  have "cq_contents ?q = []" by (simp add: cq_contents_def)
  with command_queue_fifo [OF inv, of "[Push \<lparr>cmd_address = 3, cmd_value = 4\<rparr>, Pop, Pop]"]
  show ?thesis by (metis append_Nil)
qed

text \<open>The enqueue callback checks the queue it is handed: a null context, a null storage or a capacity
  that is not a power of two is refused with no effect, and any other (well-formed) queue appends
  the pair, or refuses and counts it exactly when it holds capacity-many commands. None of these
  cases has undefined behaviour.\<close>

theorem command_queue_enqueue_contract:
  assumes "cq_storage q = None \<or> \<not> (\<exists>k < 32. unat (cq_capacity q) = 2 ^ k) \<or> cq_inv q"
  shows "lib_regmap_command_queue_enqueue None address v = Some (False, None)
    \<and> (if cq_storage q = None \<or> \<not> (\<exists>k < 32. unat (cq_capacity q) = 2 ^ k)
       then lib_regmap_command_queue_enqueue (Some q) address v = Some (False, Some q)
       else \<exists>q'. lib_regmap_command_queue_enqueue (Some q) address v
           = Some (length (cq_contents q) < cq_room q, Some q') \<and> cq_inv q'
         \<and> cq_contents q' = (if length (cq_contents q) < cq_room q
             then cq_contents q @ [\<lparr>cmd_address = address, cmd_value = v\<rparr>] else cq_contents q)
         \<and> cq_dropped_count q' = cq_dropped_count q + (if length (cq_contents q) < cq_room q then 0 else 1))"
proof (cases "cq_storage q = None \<or> \<not> pow2_capacity (cq_capacity q)")
  case True
  then have "lib_regmap_command_queue_enqueue (Some q) address v = Some (False, Some q)"
    by (auto simp: lib_regmap_command_queue_enqueue_def Let_def split: option.split)
  with True show ?thesis
    by (auto simp: lib_regmap_command_queue_enqueue_def pow2_capacity_def)
next
  case False
  then have inv: "cq_inv q" using assms by (auto simp: pow2_capacity_def)
  let ?c = "\<lparr>cmd_address = address, cmd_value = v\<rparr>"
  obtain ok q' where push: "cq_push q ?c = Some (ok, q')" "cq_inv q'" "cq_room q' = cq_room q"
    "cq_contents q' = (if ok then cq_contents q @ [?c] else cq_contents q)"
    "cq_dropped_count q' = (if ok then cq_dropped_count q else cq_dropped_count q + 1)"
    "ok \<longleftrightarrow> length (cq_contents q) < cq_room q"
    by (rule cq.push_total [OF inv])
  then have "lib_regmap_command_queue_enqueue (Some q) address v = Some (ok, Some q')"
    by (auto simp: cq_push_def bind_eq_Some_conv)
  with push False show ?thesis
    by (auto simp: lib_regmap_command_queue_enqueue_def pow2_capacity_def)
qed

theorem command_queue_enqueue_contract_witness:
  "\<exists>q'. lib_regmap_command_queue_enqueue (Some \<lparr>cq_storage = Some [\<lparr>cmd_address = 0, cmd_value = 0\<rparr>],
      cq_capacity = 1, cq_write_index = 0, cq_read_index = 0, cq_dropped_count = 0\<rparr>) 3 4 = Some (True, Some q')
    \<and> cq_contents q' = [\<lparr>cmd_address = 3, cmd_value = 4\<rparr>]"
proof -
  let ?q = "\<lparr>cq_storage = Some [\<lparr>cmd_address = 0, cmd_value = 0\<rparr>], cq_capacity = 1,
    cq_write_index = 0, cq_read_index = 0, cq_dropped_count = 0\<rparr> :: lib_regmap_command_queue"
  have inv: "cq_inv ?q" by (simp add: cq_inv_def pow2_capacity_iff)
  moreover have "cq_contents ?q = []" "cq_room ?q = 1" by (simp_all add: cq_contents_def cq_room_def)
  moreover have "\<exists>k < 32. unat (cq_capacity ?q) = 2 ^ k" by (intro exI [of _ 0]) simp
  ultimately show ?thesis
    using command_queue_enqueue_contract [of ?q 3 4] by (auto split: if_splits)
qed

end
