(* ===== verification/Regmap.thy ===== *)
theory Regmap
  imports Snapshot Command_Queue
begin

text \<open>
  The register map of \<open>lib/lib_regmap.c\<close> (\<open>lib_regmap_t\<close>): a table of pages, a 16-bit address
  that every data byte advances, and the latch on the page a read transaction is in. Pages reach
  their snapshot, their write callback and the callback's context through pointers, which may be
  shared, so snapshots and queues live in a store \<open>regmap_mem\<close> indexed by address; a pointer is an
  address or \<open>None\<close> for null, and a pointer to a page of the table is its index.
\<close>

section \<open>State\<close>

record regmap_mem =
  snapshots :: "nat \<Rightarrow> lib_regmap_snapshot option"
  queues :: "nat \<Rightarrow> lib_regmap_command_queue option"

type_synonym lib_regmap_queue_write =
  "nat option \<Rightarrow> u16 \<Rightarrow> u8 \<Rightarrow> regmap_mem \<Rightarrow> (bool \<times> regmap_mem) defined"

definition LIB_REGMAP_UNMAPPED_VALUE :: u8 where "LIB_REGMAP_UNMAPPED_VALUE = 0xff"

text \<open>The access of a page is a C enumeration that \<open>lib_regmap_init\<close> validates: a number.\<close>

definition LIB_REGMAP_ACCESS_READ_ONLY :: u32 where "LIB_REGMAP_ACCESS_READ_ONLY = 0"
definition LIB_REGMAP_ACCESS_READ_WRITE :: u32 where "LIB_REGMAP_ACCESS_READ_WRITE = 1"

datatype lib_regmap_write_result = Write_Ignored | Write_Queued | Write_Rejected

record lib_regmap_page =
  pg_first_address :: u16
  pg_length :: u16
  pg_access :: u32
  pg_snapshot :: "nat option"
  pg_queue_write :: "lib_regmap_queue_write option"
  pg_context :: "nat option"

record lib_regmap =
  rm_pages :: "lib_regmap_page list option"
  rm_page_count :: u16
  rm_current_address :: u16
  rm_latched_page :: "nat option"
  rm_latched_buffer :: u8

section \<open>Access to the store\<close>

definition deref_snapshot :: "regmap_mem \<Rightarrow> nat option \<Rightarrow> lib_regmap_snapshot option defined" where
  "deref_snapshot m p =
     (case p of None \<Rightarrow> Some None
      | Some a \<Rightarrow> (case snapshots m a of None \<Rightarrow> None | Some s \<Rightarrow> Some (Some s)))"

definition put_snapshot ::
  "nat option \<Rightarrow> lib_regmap_snapshot option \<Rightarrow> regmap_mem \<Rightarrow> regmap_mem" where
  "put_snapshot p so m =
     (case (p, so) of (Some a, Some s) \<Rightarrow> m\<lparr>snapshots := (snapshots m)(a \<mapsto> s)\<rparr> | _ \<Rightarrow> m)"

definition page_end :: "lib_regmap_page \<Rightarrow> u32" where
  "page_end page = ucast (pg_first_address page) + ucast (pg_length page)"

definition regmap_page :: "lib_regmap \<Rightarrow> nat \<Rightarrow> lib_regmap_page defined" where
  "regmap_page rm i = do { ps \<leftarrow> rm_pages rm; array_read ps i }"

section \<open>Operations\<close>

text \<open>\<open>lib_regmap_command_queue_enqueue\<close> as a page's write callback: its context is the queue.\<close>

definition enqueue_callback :: lib_regmap_queue_write where
  "enqueue_callback context address v m =
     (case context of
        None \<Rightarrow> do { (ok, _) \<leftarrow> lib_regmap_command_queue_enqueue None address v; Some (ok, m) }
      | Some a \<Rightarrow> do {
          q \<leftarrow> queues m a;
          (ok, q') \<leftarrow> lib_regmap_command_queue_enqueue (Some q) address v;
          Some (ok, m\<lparr>queues := (queues m)(a := q')\<rparr>)
        })"

fun find_page_loop :: "lib_regmap \<Rightarrow> u16 \<Rightarrow> nat \<Rightarrow> nat \<Rightarrow> nat option defined" where
  "find_page_loop rm address index 0 = Some None"
| "find_page_loop rm address index (Suc remaining) = do {
     page \<leftarrow> regmap_page rm index;
     (if ucast (pg_first_address page) \<le> (ucast address :: u32) \<and> ucast address < page_end page
      then Some (Some index)
      else find_page_loop rm address (Suc index) remaining)
   }"

definition lib_regmap_find_page :: "lib_regmap option \<Rightarrow> u16 \<Rightarrow> nat option defined" where
  "lib_regmap_find_page regmap address =
     (case regmap of
        None \<Rightarrow> Some None
      | Some rm \<Rightarrow> find_page_loop rm address 0 (unat (rm_page_count rm)))"

text \<open>The validation loop of \<open>lib_regmap_init\<close>, its conditions in the order C evaluates them.\<close>

fun regmap_init_loop ::
  "regmap_mem \<Rightarrow> lib_regmap_page list \<Rightarrow> nat \<Rightarrow> nat \<Rightarrow> u32 \<Rightarrow> bool defined" where
  "regmap_init_loop m pages index 0 previous_end = Some True"
| "regmap_init_loop m pages index (Suc remaining) previous_end = do {
     page \<leftarrow> array_read pages index;
     (if pg_length page = 0 \<or> page_end page > 0x10000
         \<or> (ucast (pg_first_address page) :: u32) < previous_end
      then Some False
      else do {
        so \<leftarrow> deref_snapshot m (pg_snapshot page);
        (if \<not> lib_regmap_snapshot_is_valid so then Some False
         else do {
           s \<leftarrow> so;
           (if sn_length s \<noteq> pg_length page
               \<or> (pg_access page \<noteq> LIB_REGMAP_ACCESS_READ_ONLY
                    \<and> pg_access page \<noteq> LIB_REGMAP_ACCESS_READ_WRITE)
               \<or> (pg_access page = LIB_REGMAP_ACCESS_READ_WRITE \<and> pg_queue_write page = None)
            then Some False
            else regmap_init_loop m pages (Suc index) remaining (page_end page))
         })
      })
   }"

definition lib_regmap_init ::
  "lib_regmap option \<Rightarrow> lib_regmap_page list option \<Rightarrow> u16 \<Rightarrow> regmap_mem
    \<Rightarrow> (bool \<times> lib_regmap option) defined" where
  "lib_regmap_init regmap pages page_count m =
     (case (regmap, pages) of
        (Some rm, Some ps) \<Rightarrow>
          if page_count = 0 then Some (False, regmap)
          else do {
            ok \<leftarrow> regmap_init_loop m ps 0 (unat page_count) 0;
            (if \<not> ok then Some (False, regmap)
             else Some (True, Some (rm\<lparr>rm_pages := Some ps, rm_page_count := page_count,
                                       rm_current_address := 0, rm_latched_page := None,
                                       rm_latched_buffer := 0\<rparr>)))
          }
      | _ \<Rightarrow> Some (False, regmap))"

definition lib_regmap_end_read ::
  "lib_regmap option \<Rightarrow> regmap_mem \<Rightarrow> (lib_regmap option \<times> regmap_mem) defined" where
  "lib_regmap_end_read regmap m =
     (case regmap of
        None \<Rightarrow> Some (None, m)
      | Some rm \<Rightarrow>
          (case rm_latched_page rm of
             None \<Rightarrow> Some (regmap, m)
           | Some i \<Rightarrow> do {
               page \<leftarrow> regmap_page rm i;
               so \<leftarrow> deref_snapshot m (pg_snapshot page);
               let m = put_snapshot (pg_snapshot page)
                         (lib_regmap_snapshot_release so (rm_latched_buffer rm)) m;
               Some (Some (rm\<lparr>rm_latched_page := None, rm_latched_buffer := 0\<rparr>), m)
             }))"

definition lib_regmap_set_address ::
  "lib_regmap option \<Rightarrow> u16 \<Rightarrow> regmap_mem \<Rightarrow> (lib_regmap option \<times> regmap_mem) defined" where
  "lib_regmap_set_address regmap address m =
     (case regmap of
        None \<Rightarrow> Some (None, m)
      | Some _ \<Rightarrow> do {
          (regmap, m) \<leftarrow> lib_regmap_end_read regmap m;
          Some (map_option (\<lambda>rm. rm\<lparr>rm_current_address := address\<rparr>) regmap, m)
        })"

definition lib_regmap_current_address :: "lib_regmap option \<Rightarrow> u16" where
  "lib_regmap_current_address regmap =
     (case regmap of None \<Rightarrow> 0 | Some rm \<Rightarrow> rm_current_address rm)"

definition lib_regmap_begin_read ::
  "lib_regmap option \<Rightarrow> regmap_mem \<Rightarrow> (lib_regmap option \<times> regmap_mem) defined" where
  "lib_regmap_begin_read regmap m = lib_regmap_end_read regmap m"

text \<open>The byte \<open>buffers[latched_buffer][current_address - first_address]\<close> of the latched page.\<close>

definition latched_byte :: "lib_regmap \<Rightarrow> nat \<Rightarrow> regmap_mem \<Rightarrow> u8 defined" where
  "latched_byte rm i m = do {
     page \<leftarrow> regmap_page rm i;
     so \<leftarrow> deref_snapshot m (pg_snapshot page);
     s \<leftarrow> so;
     pointer \<leftarrow> array_read (sn_buffers s) (unat (rm_latched_buffer rm));
     buffer \<leftarrow> pointer;
     (if pg_first_address page \<le> rm_current_address rm
      then array_read buffer (unat (rm_current_address rm) - unat (pg_first_address page))
      else None)
   }"

text \<open>Latching the page found: \<open>acquire\<close> on its snapshot, whose out-parameter is
  \<open>latched_buffer\<close>.\<close>

definition latch_page :: "lib_regmap \<Rightarrow> nat option \<Rightarrow> regmap_mem \<Rightarrow> (lib_regmap \<times> regmap_mem) defined" where
  "latch_page rm page_index m =
     (case page_index of
        None \<Rightarrow> Some (rm, m)
      | Some i \<Rightarrow> do {
          page \<leftarrow> regmap_page rm i;
          so \<leftarrow> deref_snapshot m (pg_snapshot page);
          (case lib_regmap_snapshot_acquire so (Some (rm_latched_buffer rm)) of
             (acquired, so', b) \<Rightarrow> do {
               b \<leftarrow> b;
               let m = put_snapshot (pg_snapshot page) so' m;
               let rm = rm\<lparr>rm_latched_buffer := b\<rparr>;
               Some (if acquired then rm\<lparr>rm_latched_page := Some i\<rparr> else rm, m)
             })
        })"

definition lib_regmap_read_current ::
  "lib_regmap option \<Rightarrow> regmap_mem \<Rightarrow> (u8 \<times> lib_regmap option \<times> regmap_mem) defined" where
  "lib_regmap_read_current regmap m =
     (case regmap of
        None \<Rightarrow> Some (LIB_REGMAP_UNMAPPED_VALUE, None, m)
      | Some rm \<Rightarrow> do {
          page \<leftarrow> lib_regmap_find_page regmap (rm_current_address rm);
          (rm, m) \<leftarrow>
            (if page \<noteq> rm_latched_page rm
             then do {
               (regmap, m) \<leftarrow> lib_regmap_end_read regmap m;
               rm \<leftarrow> regmap;
               latch_page rm page m
             }
             else Some (rm, m));
          v \<leftarrow> (case rm_latched_page rm of
                   None \<Rightarrow> Some LIB_REGMAP_UNMAPPED_VALUE
                 | Some i \<Rightarrow> latched_byte rm i m);
          Some (v, Some (rm\<lparr>rm_current_address := rm_current_address rm + 1\<rparr>), m)
        })"

definition lib_regmap_write_current ::
  "lib_regmap option \<Rightarrow> u8 \<Rightarrow> regmap_mem
    \<Rightarrow> (lib_regmap_write_result \<times> lib_regmap option \<times> regmap_mem) defined" where
  "lib_regmap_write_current regmap v m =
     (case regmap of
        None \<Rightarrow> Some (Write_Ignored, None, m)
      | Some _ \<Rightarrow> do {
          (regmap, m) \<leftarrow> lib_regmap_end_read regmap m;
          rm \<leftarrow> regmap;
          found \<leftarrow> lib_regmap_find_page regmap (rm_current_address rm);
          (result, m) \<leftarrow>
            (case found of
               None \<Rightarrow> Some (Write_Ignored, m)
             | Some i \<Rightarrow> do {
                 page \<leftarrow> regmap_page rm i;
                 (if pg_access page = LIB_REGMAP_ACCESS_READ_WRITE
                  then do {
                    queue_write \<leftarrow> pg_queue_write page;
                    (queued, m) \<leftarrow> queue_write (pg_context page) (rm_current_address rm) v m;
                    Some (if queued then Write_Queued else Write_Rejected, m)
                  }
                  else Some (Write_Ignored, m))
               });
          Some (result, Some (rm\<lparr>rm_current_address := rm_current_address rm + 1\<rparr>), m)
        })"

section \<open>The page table\<close>

text \<open>The pages in use, and the page an address falls in.\<close>

definition table :: "lib_regmap \<Rightarrow> lib_regmap_page list" where
  "table rm = (case rm_pages rm of None \<Rightarrow> [] | Some ps \<Rightarrow> take (unat (rm_page_count rm)) ps)"

definition table_ok :: "lib_regmap \<Rightarrow> bool" where
  "table_ok rm \<longleftrightarrow> (case rm_pages rm of None \<Rightarrow> False | Some ps \<Rightarrow> unat (rm_page_count rm) \<le> length ps)"

definition in_page :: "lib_regmap_page \<Rightarrow> u16 \<Rightarrow> bool" where
  "in_page p a \<longleftrightarrow> unat (pg_first_address p) \<le> unat a
     \<and> unat a < unat (pg_first_address p) + unat (pg_length p)"

fun page_at :: "lib_regmap_page list \<Rightarrow> u16 \<Rightarrow> nat option" where
  "page_at [] a = None"
| "page_at (p # ps) a = (if in_page p a then Some 0 else map_option Suc (page_at ps a))"

definition pages_sorted :: "lib_regmap_page list \<Rightarrow> bool" where
  "pages_sorted ps \<longleftrightarrow> sorted_wrt (\<lambda>p q. unat (pg_first_address p) + unat (pg_length p)
     \<le> unat (pg_first_address q)) ps"

lemma unat_ucast_16_32 [simp]: "unat (ucast (a :: u16) :: u32) = unat a"
proof -
  have "unat a < 65536" using unsigned_less [of a] by simp
  then show ?thesis by (simp add: unsigned_ucast_eq take_bit_nat_eq_self)
qed

lemma unat_page_end: "unat (page_end p) = unat (pg_first_address p) + unat (pg_length p)"
proof -
  have "unat a < 65536" for a :: u16 using unsigned_less [of a] by simp
  from this [of "pg_first_address p"] this [of "pg_length p"] show ?thesis
    unfolding page_end_def by (subst unat_add_small) simp_all
qed

lemma in_page_iff: "ucast (pg_first_address p) \<le> (ucast a :: u32) \<and> ucast a < page_end p \<longleftrightarrow> in_page p a"
  by (simp add: in_page_def word_le_nat_alt word_less_nat_alt unat_page_end)

lemma page_at_Some: "page_at ps a = Some i \<Longrightarrow> i < length ps \<and> in_page (ps ! i) a"
  by (induction ps arbitrary: i) (auto split: if_splits)

lemma page_at_None: "page_at ps a = None \<longleftrightarrow> (\<forall>p \<in> set ps. \<not> in_page p a)"
  by (induction ps) auto

lemma page_at_unique:
  assumes "pages_sorted ps" "i < length ps" "in_page (ps ! i) a"
  shows "page_at ps a = Some i"
proof -
  obtain j where j: "page_at ps a = Some j"
    using assms page_at_None [of ps a] by (cases "page_at ps a") (auto dest: nth_mem)
  note at_j = page_at_Some [OF j]
  have "\<not> k < l" if "in_page (ps ! k) a" "in_page (ps ! l) a" "l < length ps" for k l
    using that sorted_wrt_nth_less [OF assms(1) [unfolded pages_sorted_def], of k l]
    by (auto simp: in_page_def)
  then have "i = j" using assms at_j by (metis linorder_neqE_nat)
  with j show ?thesis by simp
qed

lemma regmap_page_table: "table_ok rm \<Longrightarrow> i < length (table rm) \<Longrightarrow> regmap_page rm i = Some (table rm ! i)"
  by (auto simp: table_ok_def table_def regmap_page_def array_read_in split: option.splits)

lemma length_table: "table_ok rm \<Longrightarrow> length (table rm) = unat (rm_page_count rm)"
  by (auto simp: table_ok_def table_def split: option.splits)

lemma find_page_loop_eq:
  assumes "table_ok rm" "index + n = length (table rm)"
  shows "find_page_loop rm a index n = Some (map_option (\<lambda>j. index + j) (page_at (drop index (table rm)) a))"
  using assms(2)
proof (induction n arbitrary: index)
  case 0
  then show ?case by simp
next
  case (Suc n)
  then have "drop index (table rm) = table rm ! index # drop (Suc index) (table rm)"
    by (simp add: Cons_nth_drop_Suc)
  moreover have "regmap_page rm index = Some (table rm ! index)"
    using Suc.prems assms(1) by (intro regmap_page_table) auto
  ultimately show ?case
    using Suc.IH [of "Suc index"] Suc.prems
    by (simp add: in_page_iff option.map_comp o_def)
qed

lemma lib_regmap_find_page_eq:
  "table_ok rm \<Longrightarrow> lib_regmap_find_page (Some rm) a = Some (page_at (table rm) a)"
  using find_page_loop_eq [of rm 0 "length (table rm)" a]
  by (simp add: lib_regmap_find_page_def length_table option.map_ident)

section \<open>The contract of a write callback\<close>

text \<open>
  What the register map needs of a page's \<open>queue_write\<close>: on a context that is ready it returns, it
  touches no snapshot, and it leaves every ready context ready. Readiness is the callback's own
  invariant and does not depend on the snapshots.
\<close>

locale page_writer =
  fixes queue_write :: lib_regmap_queue_write
    and ready :: "nat option \<Rightarrow> regmap_mem \<Rightarrow> bool"
  assumes write_total: "ready ctx m \<Longrightarrow> \<exists>ok m'. queue_write ctx address v m = Some (ok, m')"
    and write_snapshots: "ready ctx m \<Longrightarrow> queue_write ctx address v m = Some (ok, m') \<Longrightarrow>
      snapshots m' = snapshots m"
    and write_ready: "ready ctx m \<Longrightarrow> ready ctx' m \<Longrightarrow>
      queue_write ctx address v m = Some (ok, m') \<Longrightarrow> ready ctx' m'"
    and ready_snapshots: "ready ctx (m\<lparr>snapshots := sn\<rparr>) = ready ctx m"

definition queue_ready :: "nat option \<Rightarrow> regmap_mem \<Rightarrow> bool" where
  "queue_ready ctx m \<longleftrightarrow> (case ctx of None \<Rightarrow> False
     | Some a \<Rightarrow> (case queues m a of None \<Rightarrow> False | Some q \<Rightarrow> cq_inv q))"

text \<open>What the callback does on a ready queue is what the queue's contract says of a push.\<close>

lemma enqueue_callback_eq:
  assumes "queues m a = Some q" "cq_inv q"
  obtains ok q' where "enqueue_callback (Some a) address v m
      = Some (ok, m\<lparr>queues := (queues m)(a \<mapsto> q')\<rparr>)"
    "cq_inv q'" "cq_room q' = cq_room q" "ok \<longleftrightarrow> length (cq_contents q) < cq_room q"
    "cq_contents q' = (if ok then cq_contents q @ [\<lparr>cmd_address = address, cmd_value = v\<rparr>]
                       else cq_contents q)"
    "cq_dropped_count q' = (if ok then cq_dropped_count q else cq_dropped_count q + 1)"
proof -
  let ?c = "\<lparr>cmd_address = address, cmd_value = v\<rparr>"
  obtain ok q' where q': "cq_push q ?c = Some (ok, q')" "cq_inv q'" "cq_room q' = cq_room q"
    "cq_contents q' = (if ok then cq_contents q @ [?c] else cq_contents q)"
    "cq_dropped_count q' = (if ok then cq_dropped_count q else cq_dropped_count q + 1)"
    "ok \<longleftrightarrow> length (cq_contents q) < cq_room q"
    by (rule cq.push_total [OF assms(2)])
  from q'(1) obtain qo where "lib_regmap_command_queue_enqueue (Some q) address v = Some (ok, qo)"
    "qo = Some q'"
    by (auto simp: cq_push_def split: Option.bind_splits)
  then have "enqueue_callback (Some a) address v m = Some (ok, m\<lparr>queues := (queues m)(a \<mapsto> q')\<rparr>)"
    using assms by (simp add: enqueue_callback_def)
  from that [OF this q'(2,3,6,4,5)] show thesis .
qed

interpretation cq_writer: page_writer enqueue_callback queue_ready
proof
  fix ctx m address v
  assume "queue_ready ctx m"
  then obtain a q where a: "ctx = Some a" "queues m a = Some q" "cq_inv q"
    by (auto simp: queue_ready_def split: option.splits)
  obtain ok q' where q': "enqueue_callback (Some a) address v m
      = Some (ok, m\<lparr>queues := (queues m)(a \<mapsto> q')\<rparr>)" "cq_inv q'"
    by (rule enqueue_callback_eq [OF a(2,3)])
  show "\<exists>ok m'. enqueue_callback ctx address v m = Some (ok, m')"
    using a q' by simp
  fix ok m' ctx'
  assume res: "enqueue_callback ctx address v m = Some (ok, m')"
  then show "snapshots m' = snapshots m" using a q' by auto
  assume "queue_ready ctx' m"
  then show "queue_ready ctx' m'"
    using res a q' by (auto simp: queue_ready_def split: option.splits if_splits)
qed (simp add: queue_ready_def cong: option.case_cong)

end
