(* ===== verification/Regmap_Contract.thy ===== *)
theory Regmap_Contract
  imports Regmap
begin

text \<open>
  What the register map of \<open>Regmap\<close> promises, for every page callback that keeps the contract
  \<open>page_writer\<close>: its invariant, the effect of each operation, and the abstract register file that a
  burst of reads shows.
\<close>

section \<open>The invariant of a register map\<close>

text \<open>
  Every page of the table is mapped inside the 16-bit space, has a well-formed snapshot of its own
  length and, when writable, a callback that is ready. A latch names a page of the table. Reader
  counts are exact: the only reader there is, is the latch; so nothing leaks and nothing is
  released twice.
\<close>

definition page_ok ::
  "lib_regmap_queue_write \<Rightarrow> (nat option \<Rightarrow> regmap_mem \<Rightarrow> bool) \<Rightarrow> regmap_mem
    \<Rightarrow> lib_regmap_page \<Rightarrow> bool" where
  "page_ok qw ready m p \<longleftrightarrow> pg_length p \<noteq> 0
     \<and> unat (pg_first_address p) + unat (pg_length p) \<le> 65536
     \<and> (\<exists>a s. pg_snapshot p = Some a \<and> snapshots m a = Some s \<and> snapshot_ok s \<and> sn_length s = pg_length p)
     \<and> (pg_access p = LIB_REGMAP_ACCESS_READ_ONLY
        \<or> pg_access p = LIB_REGMAP_ACCESS_READ_WRITE \<and> pg_queue_write p = Some qw \<and> ready (pg_context p) m)"

definition latched_on :: "lib_regmap \<Rightarrow> nat \<Rightarrow> u8 \<Rightarrow> bool" where
  "latched_on rm a b \<longleftrightarrow> (case rm_latched_page rm of None \<Rightarrow> False
     | Some i \<Rightarrow> pg_snapshot (table rm ! i) = Some a \<and> rm_latched_buffer rm = b)"

definition readers_exact :: "lib_regmap \<Rightarrow> regmap_mem \<Rightarrow> bool" where
  "readers_exact rm m \<longleftrightarrow> (\<forall>a s b. snapshots m a = Some s \<longrightarrow> buffer_ok b \<longrightarrow>
     readers (sn_state s) b = of_bool (latched_on rm a b))"

definition latch_ok :: "lib_regmap \<Rightarrow> bool" where
  "latch_ok rm \<longleftrightarrow> buffer_ok (rm_latched_buffer rm)
     \<and> (case rm_latched_page rm of None \<Rightarrow> True | Some i \<Rightarrow> i < length (table rm))"

definition regmap_inv ::
  "lib_regmap_queue_write \<Rightarrow> (nat option \<Rightarrow> regmap_mem \<Rightarrow> bool) \<Rightarrow> lib_regmap \<Rightarrow> regmap_mem \<Rightarrow> bool" where
  "regmap_inv qw ready rm m \<longleftrightarrow> table_ok rm \<and> pages_sorted (table rm)
     \<and> (\<forall>p \<in> set (table rm). page_ok qw ready m p) \<and> latch_ok rm \<and> readers_exact rm m"

text \<open>\<open>set_state a x m\<close> stores the atomic word of a snapshot, all that the reader ever writes.\<close>

definition set_state :: "nat \<Rightarrow> u32 \<Rightarrow> regmap_mem \<Rightarrow> regmap_mem" where
  "set_state a x m = m\<lparr>snapshots := (snapshots m)(a := map_option (sn_state_update (\<lambda>_. x)) (snapshots m a))\<rparr>"

lemma set_state_fields [simp]:
  "queues (set_state a x m) = queues m"
  "snapshots (set_state a x m) a' =
    (if a' = a then map_option (sn_state_update (\<lambda>_. x)) (snapshots m a) else snapshots m a')"
  by (simp_all add: set_state_def)

lemma table_update [simp]:
  "table (rm\<lparr>rm_current_address := x\<rparr>) = table rm"
  "table (rm\<lparr>rm_latched_page := l\<rparr>) = table rm"
  "table (rm\<lparr>rm_latched_buffer := b\<rparr>) = table rm"
  "table_ok (rm\<lparr>rm_current_address := x\<rparr>) = table_ok rm"
  "table_ok (rm\<lparr>rm_latched_page := l\<rparr>) = table_ok rm"
  "table_ok (rm\<lparr>rm_latched_buffer := b\<rparr>) = table_ok rm"
  by (simp_all add: table_def table_ok_def cong: option.case_cong)

lemma latch_address [simp]:
  "latched_on (rm\<lparr>rm_current_address := x\<rparr>) = latched_on rm"
  "latch_ok (rm\<lparr>rm_current_address := x\<rparr>) = latch_ok rm"
  by (simp_all add: latched_on_def latch_ok_def fun_eq_iff cong: option.case_cong)

lemma regmap_inv_address [simp]:
  "regmap_inv qw ready (rm\<lparr>rm_current_address := x\<rparr>) m = regmap_inv qw ready rm m"
  by (simp add: regmap_inv_def readers_exact_def)

lemma page_okE:
  assumes "page_ok qw ready m p"
  obtains a s where "pg_snapshot p = Some a" "snapshots m a = Some s" "snapshot_ok s"
    "sn_length s = pg_length p"
  using assms by (auto simp: page_ok_def)

lemma regmap_inv_page:
  assumes "regmap_inv qw ready rm m" "i < length (table rm)"
  obtains a s where "regmap_page rm i = Some (table rm ! i)" "pg_snapshot (table rm ! i) = Some a"
    "snapshots m a = Some s" "snapshot_ok s" "sn_length s = pg_length (table rm ! i)"
proof -
  have "page_ok qw ready m (table rm ! i)"
    using assms by (auto simp: regmap_inv_def)
  then obtain a s where "pg_snapshot (table rm ! i) = Some a"
    "snapshots m a = Some s" "snapshot_ok s" "sn_length s = pg_length (table rm ! i)"
    by (rule page_okE)
  moreover have "regmap_page rm i = Some (table rm ! i)"
    using assms by (intro regmap_page_table) (auto simp: regmap_inv_def)
  ultimately show thesis using that by blast
qed

lemma latched_on_simps [simp]:
  "latched_on (rm\<lparr>rm_latched_page := None\<rparr>) a b = False"
  "latched_on (rm\<lparr>rm_latched_page := None, rm_latched_buffer := c\<rparr>) a b = False"
  by (simp_all add: latched_on_def)

text \<open>Two stores have the same content when they differ at most in reader counts.\<close>

definition content :: "lib_regmap_snapshot \<Rightarrow> u8 list option list \<times> u16 \<times> u32 \<times> u8" where
  "content s = (sn_buffers s, sn_length s, sn_publish_rejected_count s, active_index (sn_state s))"

definition same_content :: "regmap_mem \<Rightarrow> regmap_mem \<Rightarrow> bool" where
  "same_content m m' \<longleftrightarrow> (\<forall>a. map_option content (snapshots m a) = map_option content (snapshots m' a))"

lemma same_content_refl [simp]: "same_content m m"
  by (simp add: same_content_def)

lemma same_content_trans [trans]: "same_content m m' \<Longrightarrow> same_content m' m'' \<Longrightarrow> same_content m m''"
  by (simp add: same_content_def)

lemma same_content_set_state:
  "snapshots m a = Some s \<Longrightarrow> active_index x = active_index (sn_state s) \<Longrightarrow> same_content m (set_state a x m)"
  by (auto simp: same_content_def content_def)

lemma same_contentD:
  assumes "same_content m m'" "snapshots m' a = Some s'"
  obtains s where "snapshots m a = Some s" "content s = content s'"
  using assms by (metis (no_types, lifting) map_option_eq_Some same_content_def)

lemma content_image:
  "content s = content s' \<Longrightarrow> snapshot_image s = snapshot_image s' \<and> published s = published s'
    \<and> active_index (sn_state s) = active_index (sn_state s')"
  by (simp add: content_def snapshot_image_def published_def fun_eq_iff cong: option.case_cong)

definition unlatched :: "lib_regmap \<Rightarrow> lib_regmap" where
  "unlatched rm = rm\<lparr>rm_latched_page := None, rm_latched_buffer := 0\<rparr>"

text \<open>Which image a read of a page sees, where in it, and which page a write reaches.\<close>

definition read_buffer :: "lib_regmap \<Rightarrow> nat \<Rightarrow> lib_regmap_snapshot \<Rightarrow> u8" where
  "read_buffer rm i s =
     (if rm_latched_page rm = Some i then rm_latched_buffer rm else active_index (sn_state s))"

definition page_offset :: "lib_regmap_page \<Rightarrow> u16 \<Rightarrow> nat" where
  "page_offset p a = unat a - unat (pg_first_address p)"

definition writable_at :: "lib_regmap_page list \<Rightarrow> u16 \<Rightarrow> lib_regmap_page option" where
  "writable_at ps a = (case page_at ps a of None \<Rightarrow> None
     | Some i \<Rightarrow> if pg_access (ps ! i) = LIB_REGMAP_ACCESS_READ_WRITE then Some (ps ! i) else None)"

context page_writer
begin

lemma page_ok_set_state [simp]: "page_ok queue_write ready (set_state a x m) p = page_ok queue_write ready m p"
proof -
  have "ready ctx (set_state a x m) = ready ctx m" for ctx
    by (simp add: set_state_def ready_snapshots)
  moreover have "(\<exists>a' s. pg_snapshot p = Some a' \<and> snapshots (set_state a x m) a' = Some s
        \<and> snapshot_ok s \<and> sn_length s = pg_length p)
      \<longleftrightarrow> (\<exists>a' s. pg_snapshot p = Some a' \<and> snapshots m a' = Some s \<and> snapshot_ok s
        \<and> sn_length s = pg_length p)"
    by (auto simp: snapshot_ok_def split: if_splits)
  ultimately show ?thesis unfolding page_ok_def by simp
qed

text \<open>Ending a read: the latch, if any, gives its reader back; nothing else changes.\<close>

lemma end_read_unlatched:
  assumes "rm_latched_page rm = None"
  shows "lib_regmap_end_read (Some rm) m = Some (Some rm, m)"
  using assms by (simp add: lib_regmap_end_read_def)

lemma end_read_latched:
  assumes inv: "regmap_inv queue_write ready rm m" and latch: "rm_latched_page rm = Some i"
  obtains a s where "pg_snapshot (table rm ! i) = Some a" "snapshots m a = Some s"
    "lib_regmap_end_read (Some rm) m = Some (Some (unlatched rm),
       set_state a (sn_state s - reader_unit (rm_latched_buffer rm)) m)"
    "regmap_inv queue_write ready (unlatched rm) (set_state a (sn_state s - reader_unit (rm_latched_buffer rm)) m)"
    "active_index (sn_state s - reader_unit (rm_latched_buffer rm)) = active_index (sn_state s)"
proof -
  have i: "i < length (table rm)" and b: "buffer_ok (rm_latched_buffer rm)"
    using inv latch by (auto simp: regmap_inv_def latch_ok_def)
  obtain a s where as: "regmap_page rm i = Some (table rm ! i)" "pg_snapshot (table rm ! i) = Some a"
    "snapshots m a = Some s" "snapshot_ok s" "sn_length s = pg_length (table rm ! i)"
    by (rule regmap_inv_page [OF inv i])
  let ?b = "rm_latched_buffer rm" and ?m = "set_state a (sn_state s - reader_unit (rm_latched_buffer rm)) m"
  have exact: "readers (sn_state s') b' = of_bool (latched_on rm a' b')"
    if "snapshots m a' = Some s'" "buffer_ok b'" for a' s' b'
    using inv that by (auto simp: regmap_inv_def readers_exact_def)
  have on: "latched_on rm a' b' \<longleftrightarrow> a' = a \<and> b' = ?b" for a' b'
    using latch as by (auto simp: latched_on_def)
  have one: "readers (sn_state s) ?b = 1" using exact [OF as(3) b] on by simp
  then have pos: "0 < readers (sn_state s) ?b" by simp
  note sub = readers_sub [OF b pos]
  have other: "b' = 1 - ?b" if "buffer_ok b'" "b' \<noteq> ?b" for b'
    using that b by (auto simp: buffer_ok_def)
  have "readers_exact (unlatched rm) ?m"
    unfolding readers_exact_def
  proof (intro allI impI)
    fix a' s' b'
    assume s': "snapshots ?m a' = Some s'" and b': "buffer_ok b'"
    show "readers (sn_state s') b' = of_bool (latched_on (unlatched rm) a' b')"
    proof (cases "a' = a")
      case True
      then have s'_eq: "sn_state s' = sn_state s - reader_unit ?b" using s' as(3) by auto
      show ?thesis
      proof (cases "b' = ?b")
        case True
        then show ?thesis using s'_eq sub(1) one by (simp add: unlatched_def)
      next
        case False
        then have "readers (sn_state s') b' = readers (sn_state s) b'"
          using s'_eq sub(2) other [OF b' False] by simp
        then show ?thesis using exact [OF as(3) b'] on False by (simp add: unlatched_def)
      qed
    next
      case False
      then show ?thesis using s' exact [of a' s' b'] b' on by (simp add: unlatched_def)
    qed
  qed
  then have "regmap_inv queue_write ready (unlatched rm) ?m"
    using inv by (simp add: regmap_inv_def latch_ok_def unlatched_def buffer_ok_def)
  moreover have "put_snapshot (Some a) (Some (s\<lparr>sn_state := sn_state s - reader_unit ?b\<rparr>)) m = ?m"
    using as(3) by (simp add: put_snapshot_def set_state_def)
  then have "lib_regmap_end_read (Some rm) m = Some (Some (unlatched rm), ?m)"
    using latch as by (simp add: lib_regmap_end_read_def deref_snapshot_def unlatched_def
        lib_regmap_snapshot_release_eq Let_def)
  ultimately show thesis using that [of a s] as sub(3) by blast
qed

text \<open>Latching a page when nothing is latched: the reader joins the published buffer. It is never
  refused, since the latch is the only reader.\<close>

lemma latch_page_unlatched:
  assumes inv: "regmap_inv queue_write ready rm m" and unl: "rm_latched_page rm = None"
    and i: "i < length (table rm)"
  obtains a s where "pg_snapshot (table rm ! i) = Some a" "snapshots m a = Some s" "snapshot_ok s"
    "sn_length s = pg_length (table rm ! i)"
    "latch_page rm (Some i) m = Some
       (rm\<lparr>rm_latched_page := Some i, rm_latched_buffer := active_index (sn_state s)\<rparr>,
        set_state a (sn_state s + reader_unit (active_index (sn_state s))) m)"
    "regmap_inv queue_write ready
       (rm\<lparr>rm_latched_page := Some i, rm_latched_buffer := active_index (sn_state s)\<rparr>)
       (set_state a (sn_state s + reader_unit (active_index (sn_state s))) m)"
    "active_index (sn_state s + reader_unit (active_index (sn_state s))) = active_index (sn_state s)"
proof -
  obtain a s where as: "regmap_page rm i = Some (table rm ! i)" "pg_snapshot (table rm ! i) = Some a"
    "snapshots m a = Some s" "snapshot_ok s" "sn_length s = pg_length (table rm ! i)"
    by (rule regmap_inv_page [OF inv i])
  let ?b = "active_index (sn_state s)"
  let ?rm = "rm\<lparr>rm_latched_page := Some i, rm_latched_buffer := ?b\<rparr>"
  let ?m = "set_state a (sn_state s + reader_unit ?b) m"
  have zero: "readers (sn_state s') b' = 0" if "snapshots m a' = Some s'" "buffer_ok b'" for a' s' b'
    using inv that unl by (auto simp: regmap_inv_def readers_exact_def latched_on_def)
  have free: "readers (sn_state s) ?b < 32767" using zero [OF as(3)] by simp
  note add = readers_add [OF active_index_ok free]
  have on: "latched_on ?rm a' b' \<longleftrightarrow> a' = a \<and> b' = ?b" for a' b'
    using as by (auto simp: latched_on_def)
  have other: "b' = 1 - ?b" if "buffer_ok b'" "b' \<noteq> ?b" for b'
    using that active_index_ok [of "sn_state s"] by (auto simp: buffer_ok_def)
  have "readers_exact ?rm ?m"
    unfolding readers_exact_def on
  proof (intro allI impI)
    fix a' s' b'
    assume s': "snapshots ?m a' = Some s'" and b': "buffer_ok b'"
    show "readers (sn_state s') b' = of_bool (a' = a \<and> b' = ?b)"
    proof (cases "a' = a")
      case True
      then have s'_eq: "sn_state s' = sn_state s + reader_unit ?b" using s' as(3) by auto
      then show ?thesis
        using True add(1,2) zero [OF as(3)] other [OF b'] b' by (cases "b' = ?b") auto
    next
      case False
      then show ?thesis using s' zero [of a' s' b'] b' by simp
    qed
  qed
  then have inv': "regmap_inv queue_write ready ?rm ?m"
    using inv i by (simp add: regmap_inv_def latch_ok_def)
  have "put_snapshot (Some a) (Some (s\<lparr>sn_state := sn_state s + reader_unit ?b\<rparr>)) m = ?m"
    using as(3) by (simp add: put_snapshot_def set_state_def)
  then have "latch_page rm (Some i) m = Some (?rm, ?m)"
    using as free by (simp add: latch_page_def deref_snapshot_def lib_regmap_snapshot_acquire_eq Let_def)
  from that [OF as(2-5) this inv' add(3)] show thesis .
qed

lemma latched_byte_eq:
  assumes inv: "regmap_inv queue_write ready rm m" and i: "i < length (table rm)"
    and a: "pg_snapshot (table rm ! i) = Some a" "snapshots m a = Some s"
    and here: "in_page (table rm ! i) (rm_current_address rm)"
  shows "latched_byte rm i m = Some (snapshot_image s (rm_latched_buffer rm)
    ! (unat (rm_current_address rm) - unat (pg_first_address (table rm ! i))))"
proof -
  obtain a' s' where as: "regmap_page rm i = Some (table rm ! i)" "pg_snapshot (table rm ! i) = Some a'"
    "snapshots m a' = Some s'" "snapshot_ok s'" "sn_length s' = pg_length (table rm ! i)"
    by (rule regmap_inv_page [OF inv i])
  then have s: "snapshot_ok s" "sn_length s = pg_length (table rm ! i)" using a by auto
  obtain b0 b1 where b: "sn_buffers s = [Some b0, Some b1]" "unat (sn_length s) \<le> length b0"
    "unat (sn_length s) \<le> length b1"
    by (rule snapshot_okE [OF s(1)])
  have lb: "buffer_ok (rm_latched_buffer rm)"
    using inv by (simp add: regmap_inv_def latch_ok_def)
  have "unat (rm_current_address rm) - unat (pg_first_address (table rm ! i)) < unat (sn_length s)"
    "pg_first_address (table rm ! i) \<le> rm_current_address rm"
    using here s(2) by (auto simp: in_page_def word_le_nat_alt)
  then show ?thesis
    using lb b as(1) a by (elim buffer_okE) (simp_all add: latched_byte_def deref_snapshot_def
        array_read_in snapshot_image_def)
qed

lemma end_read_spec:
  assumes inv: "regmap_inv queue_write ready rm m"
  obtains rm' m' where "lib_regmap_end_read (Some rm) m = Some (Some rm', m')"
    "regmap_inv queue_write ready rm' m'" "rm_latched_page rm' = None" "table rm' = table rm"
    "rm_current_address rm' = rm_current_address rm" "same_content m m'" "queues m' = queues m"
proof (cases "rm_latched_page rm")
  case None
  from that [of rm m] end_read_unlatched [OF None] assms None show thesis by simp
next
  case (Some i)
  obtain a s where as: "snapshots m a = Some s"
    "lib_regmap_end_read (Some rm) m = Some (Some (unlatched rm),
       set_state a (sn_state s - reader_unit (rm_latched_buffer rm)) m)"
    "regmap_inv queue_write ready (unlatched rm)
       (set_state a (sn_state s - reader_unit (rm_latched_buffer rm)) m)"
    "active_index (sn_state s - reader_unit (rm_latched_buffer rm)) = active_index (sn_state s)"
    by (rule end_read_latched [OF inv Some])
  from that [OF as(2,3)] same_content_set_state [OF as(1,4)] show thesis
    by (simp add: unlatched_def)
qed

text \<open>
  One byte of a read. The address advances; the latch ends up on the page of the address, or
  nowhere; the byte is the unmapped value outside every page, and inside a page the byte of the
  latched image, which is the published one when the page was not latched already.
\<close>

lemma read_current_unmapped:
  assumes inv: "regmap_inv queue_write ready rm m"
    and none: "page_at (table rm) (rm_current_address rm) = None"
  obtains rm' m' where "lib_regmap_read_current (Some rm) m = Some (LIB_REGMAP_UNMAPPED_VALUE, Some rm', m')"
    "regmap_inv queue_write ready rm' m'" "rm_latched_page rm' = None" "table rm' = table rm"
    "rm_current_address rm' = rm_current_address rm + 1" "same_content m m'" "queues m' = queues m"
proof -
  have ok: "table_ok rm" using inv by (simp add: regmap_inv_def)
  obtain rm1 m1 where e: "lib_regmap_end_read (Some rm) m = Some (Some rm1, m1)"
    "regmap_inv queue_write ready rm1 m1" "rm_latched_page rm1 = None" "table rm1 = table rm"
    "rm_current_address rm1 = rm_current_address rm" "same_content m m1" "queues m1 = queues m"
    by (rule end_read_spec [OF inv])
  have "lib_regmap_read_current (Some rm) m = Some (LIB_REGMAP_UNMAPPED_VALUE,
      Some (if rm_latched_page rm = None then rm\<lparr>rm_current_address := rm_current_address rm + 1\<rparr>
            else rm1\<lparr>rm_current_address := rm_current_address rm1 + 1\<rparr>),
      if rm_latched_page rm = None then m else m1)"
    using e none by (auto simp: lib_regmap_read_current_def lib_regmap_find_page_eq [OF ok] latch_page_def)
  from that [OF this] e inv show thesis by auto
qed

lemma read_current_mapped:
  assumes inv: "regmap_inv queue_write ready rm m"
    and some: "page_at (table rm) (rm_current_address rm) = Some i"
  obtains a s rm' m' where "pg_snapshot (table rm ! i) = Some a" "snapshots m a = Some s"
    "lib_regmap_read_current (Some rm) m = Some (snapshot_image s (read_buffer rm i s)
       ! page_offset (table rm ! i) (rm_current_address rm), Some rm', m')"
    "regmap_inv queue_write ready rm' m'" "rm_latched_page rm' = Some i"
    "rm_latched_buffer rm' = read_buffer rm i s" "table rm' = table rm"
    "rm_current_address rm' = rm_current_address rm + 1" "same_content m m'" "queues m' = queues m"
proof -
  have ok: "table_ok rm" using inv by (simp add: regmap_inv_def)
  note here = page_at_Some [OF some]
  show thesis
  proof (cases "rm_latched_page rm = Some i")
    case True
    obtain a s where as: "pg_snapshot (table rm ! i) = Some a" "snapshots m a = Some s"
      by (rule regmap_inv_page [OF inv]) (use here in auto)
    have "lib_regmap_read_current (Some rm) m = Some (snapshot_image s (read_buffer rm i s)
       ! page_offset (table rm ! i) (rm_current_address rm),
       Some (rm\<lparr>rm_current_address := rm_current_address rm + 1\<rparr>), m)"
      using some True latched_byte_eq [OF inv _ as] here
      by (simp add: lib_regmap_read_current_def lib_regmap_find_page_eq [OF ok] read_buffer_def
          page_offset_def)
    from that [OF as this] inv True show thesis by (simp add: read_buffer_def)
  next
    case False
    obtain rm1 m1 where e: "lib_regmap_end_read (Some rm) m = Some (Some rm1, m1)"
      "regmap_inv queue_write ready rm1 m1" "rm_latched_page rm1 = None" "table rm1 = table rm"
      "rm_current_address rm1 = rm_current_address rm" "same_content m m1" "queues m1 = queues m"
      by (rule end_read_spec [OF inv])
    have i1: "i < length (table rm1)" using here e(4) by simp
    obtain a s1 where l: "pg_snapshot (table rm1 ! i) = Some a" "snapshots m1 a = Some s1"
      "latch_page rm1 (Some i) m1 = Some
         (rm1\<lparr>rm_latched_page := Some i, rm_latched_buffer := active_index (sn_state s1)\<rparr>,
          set_state a (sn_state s1 + reader_unit (active_index (sn_state s1))) m1)"
      "regmap_inv queue_write ready
         (rm1\<lparr>rm_latched_page := Some i, rm_latched_buffer := active_index (sn_state s1)\<rparr>)
         (set_state a (sn_state s1 + reader_unit (active_index (sn_state s1))) m1)"
      "active_index (sn_state s1 + reader_unit (active_index (sn_state s1))) = active_index (sn_state s1)"
      by (rule latch_page_unlatched [OF e(2,3) i1])
    let ?rm = "rm1\<lparr>rm_latched_page := Some i, rm_latched_buffer := active_index (sn_state s1)\<rparr>"
    let ?m = "set_state a (sn_state s1 + reader_unit (active_index (sn_state s1))) m1"
    obtain s where s: "snapshots m a = Some s" "content s = content s1"
      by (rule same_contentD [OF e(6) l(2)])
    have rb: "read_buffer rm i s = active_index (sn_state s1)"
      using False content_image [OF s(2)] by (simp add: read_buffer_def)
    have "snapshots ?m a = Some (s1\<lparr>sn_state := sn_state s1 + reader_unit (active_index (sn_state s1))\<rparr>)"
      using l(2) by simp
    from latched_byte_eq [OF l(4) _ _ this] here e(4,5) l(1)
    have "latched_byte ?rm i ?m = Some (snapshot_image s (read_buffer rm i s)
       ! page_offset (table rm ! i) (rm_current_address rm))"
      using content_image [OF s(2)] rb by (simp add: page_offset_def)
    then have "lib_regmap_read_current (Some rm) m = Some (snapshot_image s (read_buffer rm i s)
       ! page_offset (table rm ! i) (rm_current_address rm),
       Some (?rm\<lparr>rm_current_address := rm_current_address rm1 + 1\<rparr>), ?m)"
      using e(1,5) l(3) False some by (simp add: lib_regmap_read_current_def
          lib_regmap_find_page_eq [OF ok] eq_commute [of "Some i"])
    moreover have "same_content m ?m"
      using e(6) same_content_set_state [OF l(2,5)] by (rule same_content_trans)
    ultimately show thesis
      using that [of a s _ ?m] l(1,4) s(1) e rb by simp
  qed
qed

text \<open>One byte of a write: it ends the read transaction, and reaches the callback of the page its
  address is in if that page is writable; everywhere else it is ignored. The address advances in
  every case.\<close>

lemma regmap_inv_queues:
  assumes "regmap_inv queue_write ready rm m" "snapshots m' = snapshots m"
    "\<And>ctx. ready ctx m \<Longrightarrow> ready ctx m'"
  shows "regmap_inv queue_write ready rm m'"
  using assms by (auto simp: regmap_inv_def page_ok_def readers_exact_def)

lemma write_current_ignored:
  assumes inv: "regmap_inv queue_write ready rm m"
    and none: "writable_at (table rm) (rm_current_address rm) = None"
  obtains rm' m' where "lib_regmap_write_current (Some rm) v m = Some (Write_Ignored, Some rm', m')"
    "regmap_inv queue_write ready rm' m'" "rm_latched_page rm' = None" "table rm' = table rm"
    "rm_current_address rm' = rm_current_address rm + 1" "same_content m m'" "queues m' = queues m"
proof -
  obtain rm1 m1 where e: "lib_regmap_end_read (Some rm) m = Some (Some rm1, m1)"
    "regmap_inv queue_write ready rm1 m1" "rm_latched_page rm1 = None" "table rm1 = table rm"
    "rm_current_address rm1 = rm_current_address rm" "same_content m m1" "queues m1 = queues m"
    by (rule end_read_spec [OF inv])
  have ok: "table_ok rm1" using e(2) by (simp add: regmap_inv_def)
  have "lib_regmap_write_current (Some rm) v m = Some (Write_Ignored,
      Some (rm1\<lparr>rm_current_address := rm_current_address rm1 + 1\<rparr>), m1)"
  proof (cases "page_at (table rm1) (rm_current_address rm1)")
    case None
    then show ?thesis
      using e(1) by (simp add: lib_regmap_write_current_def lib_regmap_find_page_eq [OF ok])
  next
    case (Some i)
    then have "pg_access (table rm1 ! i) \<noteq> LIB_REGMAP_ACCESS_READ_WRITE"
      using none e(4,5) by (auto simp: writable_at_def split: if_splits)
    moreover have "regmap_page rm1 i = Some (table rm1 ! i)"
      using page_at_Some [OF Some] ok by (intro regmap_page_table) auto
    ultimately show ?thesis
      using e(1) Some by (simp add: lib_regmap_write_current_def lib_regmap_find_page_eq [OF ok])
  qed
  from that [OF this] e show thesis by auto
qed

lemma write_current_queued:
  assumes inv: "regmap_inv queue_write ready rm m"
    and some: "writable_at (table rm) (rm_current_address rm) = Some page"
  obtains queued rm' m1 m' where "ready (pg_context page) m1" "queues m1 = queues m"
    "queue_write (pg_context page) (rm_current_address rm) v m1 = Some (queued, m')"
    "lib_regmap_write_current (Some rm) v m =
       Some (if queued then Write_Queued else Write_Rejected, Some rm', m')"
    "regmap_inv queue_write ready rm' m'" "rm_latched_page rm' = None" "table rm' = table rm"
    "rm_current_address rm' = rm_current_address rm + 1" "same_content m m'"
proof -
  obtain rm1 m1 where e: "lib_regmap_end_read (Some rm) m = Some (Some rm1, m1)"
    "regmap_inv queue_write ready rm1 m1" "rm_latched_page rm1 = None" "table rm1 = table rm"
    "rm_current_address rm1 = rm_current_address rm" "same_content m m1" "queues m1 = queues m"
    by (rule end_read_spec [OF inv])
  have ok: "table_ok rm1" using e(2) by (simp add: regmap_inv_def)
  obtain i where i: "page_at (table rm1) (rm_current_address rm1) = Some i" "page = table rm1 ! i"
    "pg_access page = LIB_REGMAP_ACCESS_READ_WRITE"
    using some e(4,5) by (auto simp: writable_at_def split: option.splits if_splits)
  have len: "i < length (table rm1)" using page_at_Some [OF i(1)] by simp
  then have "page_ok queue_write ready m1 page" using e(2) i(2) by (auto simp: regmap_inv_def)
  then have qw: "pg_queue_write page = Some queue_write" and rdy: "ready (pg_context page) m1"
    using i(3) by (auto simp: page_ok_def LIB_REGMAP_ACCESS_READ_ONLY_def LIB_REGMAP_ACCESS_READ_WRITE_def)
  obtain queued m' where w:
    "queue_write (pg_context page) (rm_current_address rm) v m1 = Some (queued, m')"
    using write_total [OF rdy] by blast
  have "regmap_page rm1 i = Some page"
    using regmap_page_table [OF ok len] i(2) by simp
  then have r: "lib_regmap_write_current (Some rm) v m =
      Some (if queued then Write_Queued else Write_Rejected,
        Some (rm1\<lparr>rm_current_address := rm_current_address rm1 + 1\<rparr>), m')"
    using e(1,5) i w qw by (simp add: lib_regmap_write_current_def lib_regmap_find_page_eq [OF ok])
  have sn: "snapshots m' = snapshots m1" by (rule write_snapshots [OF rdy w])
  have inv': "regmap_inv queue_write ready rm1 m'"
    by (rule regmap_inv_queues [OF e(2) sn]) (rule write_ready [OF rdy _ w])
  have "same_content m m'" using e(6) sn by (simp add: same_content_def)
  then show thesis using that [OF rdy e(7) w r] inv' e by simp
qed

lemma set_address_spec:
  assumes inv: "regmap_inv queue_write ready rm m"
  obtains rm' m' where "lib_regmap_set_address (Some rm) address m = Some (Some rm', m')"
    "regmap_inv queue_write ready rm' m'" "rm_latched_page rm' = None" "table rm' = table rm"
    "rm_current_address rm' = address" "same_content m m'" "queues m' = queues m"
proof -
  obtain rm1 m1 where e: "lib_regmap_end_read (Some rm) m = Some (Some rm1, m1)"
    "regmap_inv queue_write ready rm1 m1" "rm_latched_page rm1 = None" "table rm1 = table rm"
    "rm_current_address rm1 = rm_current_address rm" "same_content m m1" "queues m1 = queues m"
    by (rule end_read_spec [OF inv])
  then have "lib_regmap_set_address (Some rm) address m
      = Some (Some (rm1\<lparr>rm_current_address := address\<rparr>), m1)"
    by (simp add: lib_regmap_set_address_def)
  from that [OF this] e show thesis by simp
qed

end

text \<open>Bursts: \<open>n\<close> bytes read, or a list of bytes written, one after the other.\<close>

fun read_burst :: "nat \<Rightarrow> lib_regmap option \<Rightarrow> regmap_mem
    \<Rightarrow> (u8 list \<times> lib_regmap option \<times> regmap_mem) defined" where
  "read_burst 0 rm m = Some ([], rm, m)"
| "read_burst (Suc n) rm m = do {
     (v, rm, m) \<leftarrow> lib_regmap_read_current rm m;
     (vs, rm, m) \<leftarrow> read_burst n rm m;
     Some (v # vs, rm, m)
   }"

fun write_burst :: "u8 list \<Rightarrow> lib_regmap option \<Rightarrow> regmap_mem
    \<Rightarrow> (lib_regmap_write_result list \<times> lib_regmap option \<times> regmap_mem) defined" where
  "write_burst [] rm m = Some ([], rm, m)"
| "write_burst (v # vs) rm m = do {
     (r, rm, m) \<leftarrow> lib_regmap_write_current rm v m;
     (rs, rm, m) \<leftarrow> write_burst vs rm m;
     Some (r # rs, rm, m)
   }"

text \<open>
  The abstract register file: the value an address shows is the published byte of its page, and
  the unmapped value outside every page.
\<close>

definition register_view :: "lib_regmap_page list \<Rightarrow> regmap_mem \<Rightarrow> u16 \<Rightarrow> u8" where
  "register_view ps m a = (case page_at ps a of None \<Rightarrow> LIB_REGMAP_UNMAPPED_VALUE
     | Some i \<Rightarrow> (case pg_snapshot (ps ! i) of None \<Rightarrow> LIB_REGMAP_UNMAPPED_VALUE
        | Some p \<Rightarrow> (case snapshots m p of None \<Rightarrow> LIB_REGMAP_UNMAPPED_VALUE
           | Some s \<Rightarrow> published s ! page_offset (ps ! i) a)))"

lemma register_view_same_content:
  assumes "same_content m m'"
  shows "register_view ps m' = register_view ps m"
proof -
  have "map_option published (snapshots m' p) = map_option published (snapshots m p)" for p
  proof -
    have "map_option content (snapshots m' p) = map_option content (snapshots m p)"
      using assms by (simp add: same_content_def)
    then show ?thesis
      by (cases "snapshots m' p"; cases "snapshots m p") (auto dest: content_image)
  qed
  then show ?thesis
    unfolding register_view_def fun_eq_iff
    by (auto split: option.splits) (metis option.distinct(1) option.inject option.map(2) option.simps(8))+
qed

text \<open>The latch is current when the image it holds is the one published.\<close>

definition latch_current :: "lib_regmap \<Rightarrow> regmap_mem \<Rightarrow> bool" where
  "latch_current rm m \<longleftrightarrow> (case rm_latched_page rm of None \<Rightarrow> True
     | Some i \<Rightarrow> (case pg_snapshot (table rm ! i) of None \<Rightarrow> True
        | Some p \<Rightarrow> (case snapshots m p of None \<Rightarrow> True
           | Some s \<Rightarrow> rm_latched_buffer rm = active_index (sn_state s))))"

text \<open>
  What a transaction sees of it, whatever was published meanwhile: as long as the addresses stay in the latched page the
  image that is held, and from the first address outside of it on the published values.
\<close>

definition in_latch :: "lib_regmap \<Rightarrow> u16 \<Rightarrow> bool" where
  "in_latch rm a \<longleftrightarrow> (case rm_latched_page rm of None \<Rightarrow> False | Some i \<Rightarrow> page_at (table rm) a = Some i)"

definition held_view :: "lib_regmap \<Rightarrow> regmap_mem \<Rightarrow> u16 \<Rightarrow> u8" where
  "held_view rm m a = (case rm_latched_page rm of None \<Rightarrow> LIB_REGMAP_UNMAPPED_VALUE
     | Some i \<Rightarrow> (case pg_snapshot (table rm ! i) of None \<Rightarrow> LIB_REGMAP_UNMAPPED_VALUE
        | Some p \<Rightarrow> (case snapshots m p of None \<Rightarrow> LIB_REGMAP_UNMAPPED_VALUE
           | Some s \<Rightarrow> snapshot_image s (rm_latched_buffer rm) ! page_offset (table rm ! i) a)))"

definition held_count :: "lib_regmap \<Rightarrow> nat \<Rightarrow> nat" where
  "held_count rm n = length (takeWhile (\<lambda>k. in_latch rm (rm_current_address rm + of_nat k)) [0..<n])"

definition burst_view :: "lib_regmap \<Rightarrow> regmap_mem \<Rightarrow> nat \<Rightarrow> u8 list" where
  "burst_view rm m n = map (\<lambda>k. (if k < held_count rm n then held_view rm m else register_view (table rm) m)
     (rm_current_address rm + of_nat k)) [0..<n]"

lemma held_count_Suc:
  "held_count rm (Suc n) = (if in_latch rm (rm_current_address rm)
     then Suc (held_count (rm\<lparr>rm_current_address := rm_current_address rm + 1\<rparr>) n) else 0)"
proof -
  have "[0..<Suc n] = 0 # map Suc [0..<n]" by (simp add: upt_conv_Cons map_Suc_upt)
  then show ?thesis by (simp add: held_count_def takeWhile_map o_def in_latch_def add.assoc cong: option.case_cong)
qed

lemma burst_view_held:
  assumes "in_latch rm (rm_current_address rm)"
  shows "burst_view rm m (Suc n) = held_view rm m (rm_current_address rm)
    # burst_view (rm\<lparr>rm_current_address := rm_current_address rm + 1\<rparr>) m n"
proof -
  have "[0..<Suc n] = 0 # map Suc [0..<n]" by (simp add: upt_conv_Cons map_Suc_upt)
  then show ?thesis
    using assms by (simp add: burst_view_def held_count_Suc held_view_def add.assoc del: upt_Suc cong: option.case_cong)
qed

lemma burst_view_left:
  assumes "\<not> in_latch rm (rm_current_address rm)"
  shows "burst_view rm m (Suc n) = register_view (table rm) m (rm_current_address rm)
    # map (\<lambda>k. register_view (table rm) m (rm_current_address rm + 1 + of_nat k)) [0..<n]"
proof -
  have "[0..<Suc n] = 0 # map Suc [0..<n]" by (simp add: upt_conv_Cons map_Suc_upt)
  then show ?thesis using assms by (simp add: burst_view_def held_count_Suc add.assoc del: upt_Suc)
qed

lemma held_view_same_content:
  assumes "same_content m m'"
  shows "held_view rm m' = held_view rm m"
proof -
  have "map_option (\<lambda>s. snapshot_image s b) (snapshots m' p) = map_option (\<lambda>s. snapshot_image s b) (snapshots m p)" for p b
  proof -
    have "map_option content (snapshots m' p) = map_option content (snapshots m p)"
      using assms by (simp add: same_content_def)
    then show ?thesis
      by (cases "snapshots m' p"; cases "snapshots m p") (auto dest: content_image)
  qed
  then show ?thesis
    unfolding held_view_def fun_eq_iff
    by (auto split: option.splits) (metis option.distinct(1) option.inject option.map(2) option.simps(8))+
qed

text \<open>With a current latch both agree.\<close>

lemma burst_view_current:
  assumes "latch_current rm m"
  shows "burst_view rm m n = map (\<lambda>k. register_view (table rm) m (rm_current_address rm + of_nat k)) [0..<n]"
proof -
  have "held_view rm m a = register_view (table rm) m a" if "in_latch rm a" for a
    using assms that by (auto simp: in_latch_def held_view_def register_view_def latch_current_def published_def
        split: option.splits)
  moreover have "in_latch rm (rm_current_address rm + of_nat k)" if "k < held_count rm n" for k
  proof -
    let ?P = "\<lambda>k. in_latch rm (rm_current_address rm + of_nat k)"
    have "takeWhile ?P [0..<n] ! k \<in> set (takeWhile ?P [0..<n])" using that by (simp add: held_count_def)
    then have "?P (takeWhile ?P [0..<n] ! k)" by (auto dest: set_takeWhileD)
    moreover have "takeWhile ?P [0..<n] ! k = k"
      using that length_takeWhile_le [of ?P "[0..<n]"] by (simp add: held_count_def takeWhile_nth)
    ultimately show ?thesis by simp
  qed
  ultimately show ?thesis by (simp add: burst_view_def)
qed

context page_writer
begin

text \<open>A byte read with a current latch, or outside the latched page, is the published one.\<close>

lemma read_current_published:
  assumes inv: "regmap_inv queue_write ready rm m"
    and cur: "latch_current rm m \<or> \<not> in_latch rm (rm_current_address rm)"
  obtains rm' m' where "lib_regmap_read_current (Some rm) m
      = Some (register_view (table rm) m (rm_current_address rm), Some rm', m')"
    "regmap_inv queue_write ready rm' m'" "latch_current rm' m'" "table rm' = table rm"
    "rm_current_address rm' = rm_current_address rm + 1" "same_content m m'" "queues m' = queues m"
proof (cases "page_at (table rm) (rm_current_address rm)")
  case None
  obtain rm' m' where r: "lib_regmap_read_current (Some rm) m = Some (LIB_REGMAP_UNMAPPED_VALUE, Some rm', m')"
    "regmap_inv queue_write ready rm' m'" "rm_latched_page rm' = None" "table rm' = table rm"
    "rm_current_address rm' = rm_current_address rm + 1" "same_content m m'" "queues m' = queues m"
    by (rule read_current_unmapped [OF inv None])
  moreover have "latch_current rm' m'" using r(3) by (simp add: latch_current_def)
  moreover have "register_view (table rm) m (rm_current_address rm) = LIB_REGMAP_UNMAPPED_VALUE"
    by (simp add: register_view_def None)
  ultimately show thesis using that by metis
next
  case (Some i)
  obtain a s rm' m' where r: "pg_snapshot (table rm ! i) = Some a" "snapshots m a = Some s"
    "lib_regmap_read_current (Some rm) m = Some (snapshot_image s (read_buffer rm i s)
       ! page_offset (table rm ! i) (rm_current_address rm), Some rm', m')"
    "regmap_inv queue_write ready rm' m'" "rm_latched_page rm' = Some i"
    "rm_latched_buffer rm' = read_buffer rm i s" "table rm' = table rm"
    "rm_current_address rm' = rm_current_address rm + 1" "same_content m m'" "queues m' = queues m"
    by (rule read_current_mapped [OF inv Some])
  have rb: "read_buffer rm i s = active_index (sn_state s)"
    using cur Some r(1,2) by (auto simp: read_buffer_def latch_current_def in_latch_def)
  have "register_view (table rm) m (rm_current_address rm)
      = snapshot_image s (read_buffer rm i s) ! page_offset (table rm ! i) (rm_current_address rm)"
    using Some r(1,2) by (simp add: register_view_def published_def rb)
  moreover have "latch_current rm' m'"
  proof -
    have "rm_latched_buffer rm' = active_index (sn_state s')" if "snapshots m' a = Some s'" for s'
    proof -
      from same_contentD [OF r(9) that] obtain s2 where "snapshots m a = Some s2" "content s2 = content s'" .
      then show ?thesis using r(2,6) rb content_image [of s s'] by simp
    qed
    then show ?thesis using r(1,5,7) by (simp add: latch_current_def split: option.splits)
  qed
  ultimately show thesis using that r by metis
qed

lemmas read_current_view = read_current_published [OF _ disjI1]
lemmas read_current_elsewhere = read_current_published [OF _ disjI2]

lemma read_burst_view:
  assumes "regmap_inv queue_write ready rm m" "latch_current rm m"
  shows "\<exists>rm' m'. read_burst n (Some rm) m =
      Some (map (\<lambda>k. register_view (table rm) m (rm_current_address rm + of_nat k)) [0..<n], Some rm', m')
    \<and> regmap_inv queue_write ready rm' m' \<and> latch_current rm' m' \<and> table rm' = table rm
    \<and> rm_current_address rm' = rm_current_address rm + of_nat n \<and> same_content m m' \<and> queues m' = queues m"
  using assms
proof (induction n arbitrary: rm m)
  case 0
  then show ?case by simp
next
  case (Suc n)
  obtain rm1 m1 where r: "lib_regmap_read_current (Some rm) m
      = Some (register_view (table rm) m (rm_current_address rm), Some rm1, m1)"
    "regmap_inv queue_write ready rm1 m1" "latch_current rm1 m1" "table rm1 = table rm"
    "rm_current_address rm1 = rm_current_address rm + 1" "same_content m m1" "queues m1 = queues m"
    by (rule read_current_view [OF Suc.prems])
  have list: "[0..<Suc n] = 0 # map Suc [0..<n]" by (simp add: upt_conv_Cons map_Suc_upt)
  from Suc.IH [OF r(2,3)] r same_content_trans [OF r(6)] show ?case
    by (auto simp: list o_def register_view_same_content [OF r(6)] add.assoc simp del: upt_Suc)
qed

text \<open>Without that assumption.\<close>

lemma read_burst_seen:
  assumes "regmap_inv queue_write ready rm m"
  shows "\<exists>rm' m'. read_burst n (Some rm) m = Some (burst_view rm m n, Some rm', m')
    \<and> regmap_inv queue_write ready rm' m' \<and> table rm' = table rm
    \<and> rm_current_address rm' = rm_current_address rm + of_nat n \<and> same_content m m' \<and> queues m' = queues m"
  using assms
proof (induction n arbitrary: rm m)
  case 0
  then show ?case by (simp add: burst_view_def)
next
  case (Suc n)
  show ?case
  proof (cases "in_latch rm (rm_current_address rm)")
    case True
    then obtain i where i: "rm_latched_page rm = Some i" "page_at (table rm) (rm_current_address rm) = Some i"
      by (auto simp: in_latch_def split: option.splits)
    obtain a s rm1 m1 where r: "pg_snapshot (table rm ! i) = Some a" "snapshots m a = Some s"
      "lib_regmap_read_current (Some rm) m = Some (snapshot_image s (read_buffer rm i s)
         ! page_offset (table rm ! i) (rm_current_address rm), Some rm1, m1)"
      "regmap_inv queue_write ready rm1 m1" "rm_latched_page rm1 = Some i"
      "rm_latched_buffer rm1 = read_buffer rm i s" "table rm1 = table rm"
      "rm_current_address rm1 = rm_current_address rm + 1" "same_content m m1" "queues m1 = queues m"
      by (rule read_current_mapped [OF Suc.prems i(2)])
    have rb: "read_buffer rm i s = rm_latched_buffer rm" using i(1) by (simp add: read_buffer_def)
    have byte: "snapshot_image s (read_buffer rm i s) ! page_offset (table rm ! i) (rm_current_address rm)
        = held_view rm m (rm_current_address rm)"
      using i(1) r(1,2) rb by (simp add: held_view_def)
    have "burst_view rm1 m1 n = burst_view (rm\<lparr>rm_current_address := rm_current_address rm + 1\<rparr>) m1 n"
      using i(1) r(5-8) rb
      by (simp add: burst_view_def held_count_def in_latch_def held_view_def cong: option.case_cong)
    also have "\<dots> = burst_view (rm\<lparr>rm_current_address := rm_current_address rm + 1\<rparr>) m n"
      unfolding burst_view_def by (simp only: held_view_same_content [OF r(9)] register_view_same_content [OF r(9)])
    finally have rest: "burst_view rm1 m1 n = burst_view (rm\<lparr>rm_current_address := rm_current_address rm + 1\<rparr>) m n" .
    from Suc.IH [OF r(4)] r(3,7,8,10) same_content_trans [OF r(9)] show ?thesis
      by (auto simp: burst_view_held [OF True] byte rest add.assoc)
  next
    case False
    have "\<exists>rm1 m1. lib_regmap_read_current (Some rm) m
        = Some (register_view (table rm) m (rm_current_address rm), Some rm1, m1)
      \<and> regmap_inv queue_write ready rm1 m1 \<and> latch_current rm1 m1 \<and> table rm1 = table rm
      \<and> rm_current_address rm1 = rm_current_address rm + 1 \<and> same_content m m1 \<and> queues m1 = queues m"
      using read_current_elsewhere [OF Suc.prems False] by metis
    then obtain rm1 m1 where r: "lib_regmap_read_current (Some rm) m
        = Some (register_view (table rm) m (rm_current_address rm), Some rm1, m1)"
      "regmap_inv queue_write ready rm1 m1" "latch_current rm1 m1" "table rm1 = table rm"
      "rm_current_address rm1 = rm_current_address rm + 1" "same_content m m1" "queues m1 = queues m"
      by blast
    from read_burst_view [OF r(2,3), of n] r same_content_trans [OF r(6)] show ?thesis
      by (auto simp: burst_view_left [OF False] register_view_same_content [OF r(6)] add.assoc)
  qed
qed

lemma write_current_unlatched:
  assumes inv: "regmap_inv queue_write ready rm m"
    and w: "lib_regmap_write_current (Some rm) v m = Some (res, Some rm', m')"
  shows "rm_latched_page rm' = None"
proof (cases "writable_at (table rm) (rm_current_address rm)")
  case None
  with write_current_ignored [OF inv None, of v] w show ?thesis by auto
next
  case (Some page)
  with write_current_queued [OF inv Some, of v] w show ?thesis by auto
qed

end

end
