(* ===== verification/Regmap_Properties.thy ===== *)
theory Regmap_Properties
  imports Regmap_Contract
begin

text \<open>
  The register map as its clients use it: pages whose write callback is
  \<open>lib_regmap_command_queue_enqueue\<close>. What \<open>lib_regmap_init\<close> accepts, what a burst of reads returns
  and what a burst of writes leaves in the command queue.
\<close>

section \<open>Initialisation\<close>

text \<open>The layouts the register map accepts: ascending pages that do not overlap, each of them
  valid.\<close>

definition page_valid :: "regmap_mem \<Rightarrow> lib_regmap_page \<Rightarrow> bool" where
  "page_valid m p \<longleftrightarrow> pg_length p \<noteq> 0
     \<and> unat (pg_first_address p) + unat (pg_length p) \<le> 65536
     \<and> (case pg_snapshot p of None \<Rightarrow> False
        | Some a \<Rightarrow> (case snapshots m a of None \<Rightarrow> False
           | Some s \<Rightarrow> lib_regmap_snapshot_is_valid (Some s) \<and> sn_length s = pg_length p))
     \<and> (pg_access p = LIB_REGMAP_ACCESS_READ_ONLY
        \<or> pg_access p = LIB_REGMAP_ACCESS_READ_WRITE \<and> pg_queue_write p \<noteq> None)"

definition layout_valid :: "regmap_mem \<Rightarrow> lib_regmap_page list \<Rightarrow> bool" where
  "layout_valid m ps \<longleftrightarrow> ps \<noteq> [] \<and> pages_sorted ps \<and> (\<forall>p \<in> set ps. page_valid m p)"

definition no_dangling_snapshot :: "regmap_mem \<Rightarrow> lib_regmap_page list \<Rightarrow> bool" where
  "no_dangling_snapshot m ps \<longleftrightarrow>
     (\<forall>p \<in> set ps. case pg_snapshot p of None \<Rightarrow> True | Some a \<Rightarrow> snapshots m a \<noteq> None)"

lemma access_distinct [simp]: "LIB_REGMAP_ACCESS_READ_ONLY \<noteq> LIB_REGMAP_ACCESS_READ_WRITE"
  "LIB_REGMAP_ACCESS_READ_WRITE \<noteq> LIB_REGMAP_ACCESS_READ_ONLY"
  by (simp_all add: LIB_REGMAP_ACCESS_READ_ONLY_def LIB_REGMAP_ACCESS_READ_WRITE_def)

lemma page_end_bound: "page_end p > 0x10000 \<longleftrightarrow> 65536 < unat (pg_first_address p) + unat (pg_length p)"
  by (simp add: word_less_nat_alt unat_page_end)

lemma regmap_init_loop_Suc:
  assumes "index < length ps" "no_dangling_snapshot m ps"
  shows "regmap_init_loop m ps index (Suc remaining) prev =
    (if page_valid m (ps ! index) \<and> unat prev \<le> unat (pg_first_address (ps ! index))
     then regmap_init_loop m ps (Suc index) remaining (page_end (ps ! index)) else Some False)"
proof -
  let ?p = "ps ! index"
  have bound: "page_end ?p > 0x10000 \<longleftrightarrow> \<not> unat (pg_first_address ?p) + unat (pg_length ?p) \<le> 65536"
    by (simp add: page_end_bound not_le)
  have prev: "(ucast (pg_first_address ?p) :: u32) < prev \<longleftrightarrow> \<not> unat prev \<le> unat (pg_first_address ?p)"
    by (simp add: word_less_nat_alt not_le)
  have null: "\<not> lib_regmap_snapshot_is_valid None"
    by (simp add: lib_regmap_snapshot_is_valid_def)
  show ?thesis
  proof (cases "pg_snapshot ?p")
    case None
    then show ?thesis
      using assms(1) by (auto simp: array_read_in deref_snapshot_def null page_valid_def)
  next
    case (Some a)
    then obtain s where "snapshots m a = Some s"
      using assms by (fastforce simp: no_dangling_snapshot_def dest: nth_mem split: option.splits)
    with Some show ?thesis
      using assms(1) by (auto simp: array_read_in deref_snapshot_def page_valid_def bound prev)
  qed
qed

lemma pages_sorted_Cons:
  assumes "unat (pg_length p) \<noteq> 0"
  shows "pages_sorted (p # ps) \<longleftrightarrow>
    (\<forall>q \<in> set ps. unat (page_end p) \<le> unat (pg_first_address q)) \<and> pages_sorted ps"
  by (simp add: pages_sorted_def unat_page_end)

lemma regmap_init_loop_eq:
  assumes "no_dangling_snapshot m ps"
  shows "index + n \<le> length ps \<Longrightarrow> regmap_init_loop m ps index n prev =
    Some ((\<forall>p \<in> set (take n (drop index ps)). page_valid m p \<and> unat prev \<le> unat (pg_first_address p))
      \<and> pages_sorted (take n (drop index ps)))"
proof (induction n arbitrary: index prev)
  case 0
  then show ?case by (simp add: pages_sorted_def)
next
  case (Suc n)
  let ?p = "ps ! index" and ?rest = "take n (drop (Suc index) ps)"
  have list: "take (Suc n) (drop index ps) = ?p # ?rest"
    using Suc.prems by (simp add: Cons_nth_drop_Suc [symmetric])
  have later: "unat prev \<le> unat (pg_first_address q)"
    if "unat prev \<le> unat (pg_first_address ?p)" "unat (page_end ?p) \<le> unat (pg_first_address q)" for q
    using that by (simp add: unat_page_end)
  have valid: "page_valid m ?p \<Longrightarrow> unat (pg_length ?p) \<noteq> 0"
    by (simp add: page_valid_def unat_eq_0)
  have idx: "index < length ps" using Suc.prems by simp
  show ?case
  proof (cases "page_valid m ?p \<and> unat prev \<le> unat (pg_first_address ?p)")
    case True
    with Suc.IH [of "Suc index" "page_end ?p"] Suc.prems show ?thesis
      unfolding regmap_init_loop_Suc [OF idx assms] list
      by (auto simp: pages_sorted_Cons valid later)
  next
    case False
    then show ?thesis unfolding regmap_init_loop_Suc [OF idx assms] list by auto
  qed
qed

definition initialised :: "lib_regmap \<Rightarrow> lib_regmap_page list \<Rightarrow> u16 \<Rightarrow> lib_regmap" where
  "initialised rm ps n = rm\<lparr>rm_pages := Some ps, rm_page_count := n, rm_current_address := 0,
     rm_latched_page := None, rm_latched_buffer := 0\<rparr>"

lemma table_initialised [simp]: "table (initialised rm ps n) = take (unat n) ps"
  by (simp add: initialised_def table_def)

lemma regmap_init_eq:
  assumes "unat n \<le> length ps" "no_dangling_snapshot m ps"
  shows "lib_regmap_init (Some rm) (Some ps) n m =
    Some (if layout_valid m (take (unat n) ps) then (True, Some (initialised rm ps n))
          else (False, Some rm))"
proof (cases "n = 0")
  case True
  then show ?thesis by (simp add: lib_regmap_init_def layout_valid_def)
next
  case False
  then have "0 < unat n" by (simp add: unat_gt_0)
  with False show ?thesis
    using regmap_init_loop_eq [OF assms(2), of 0 "unat n" 0] assms(1)
    by (auto simp: lib_regmap_init_def layout_valid_def initialised_def)
qed

section \<open>Bursts of writes\<close>

text \<open>What a burst of writes should do: the commands it produces, and the answer to each byte when
  the queue has \<open>free\<close> slots left.\<close>

fun burst_commands :: "lib_regmap_page list \<Rightarrow> u16 \<Rightarrow> u8 list \<Rightarrow> lib_regmap_command list" where
  "burst_commands ps address [] = []"
| "burst_commands ps address (v # vs) =
     (if writable_at ps address = None then burst_commands ps (address + 1) vs
      else \<lparr>cmd_address = address, cmd_value = v\<rparr> # burst_commands ps (address + 1) vs)"

fun burst_results :: "lib_regmap_page list \<Rightarrow> nat \<Rightarrow> u16 \<Rightarrow> u8 list \<Rightarrow> lib_regmap_write_result list" where
  "burst_results ps free address [] = []"
| "burst_results ps free address (v # vs) =
     (if writable_at ps address = None then Write_Ignored # burst_results ps free (address + 1) vs
      else if free = 0 then Write_Rejected # burst_results ps 0 (address + 1) vs
      else Write_Queued # burst_results ps (free - 1) (address + 1) vs)"

definition shares_queue :: "lib_regmap_page list \<Rightarrow> nat \<Rightarrow> bool" where
  "shares_queue ps a \<longleftrightarrow> (\<forall>p \<in> set ps. pg_access p = LIB_REGMAP_ACCESS_READ_WRITE \<longrightarrow> pg_context p = Some a)"

lemma writable_at_in: "writable_at ps address = Some p \<Longrightarrow> p \<in> set ps \<and> pg_access p = LIB_REGMAP_ACCESS_READ_WRITE"
  by (auto simp: writable_at_def split: option.splits if_splits dest: page_at_Some)

lemma write_burst_lemma:
  assumes "regmap_inv enqueue_callback queue_ready rm m" "queues m a = Some q" "cq_inv q"
    "shares_queue (table rm) a"
  shows "\<exists>rm' m' q'. write_burst vs (Some rm) m
      = Some (burst_results (table rm) (cq_room q - length (cq_contents q)) (rm_current_address rm) vs, Some rm', m')
    \<and> regmap_inv enqueue_callback queue_ready rm' m' \<and> same_content m m' \<and> table rm' = table rm
    \<and> rm_current_address rm' = rm_current_address rm + of_nat (length vs)
    \<and> queues m' a = Some q' \<and> cq_inv q' \<and> cq_room q' = cq_room q
    \<and> cq_contents q' = cq_contents q @ take (cq_room q - length (cq_contents q))
        (burst_commands (table rm) (rm_current_address rm) vs)
    \<and> cq_dropped_count q' = cq_dropped_count q + of_nat (length (drop (cq_room q - length (cq_contents q))
        (burst_commands (table rm) (rm_current_address rm) vs)))"
  using assms
proof (induction vs arbitrary: rm m q)
  case Nil
  then show ?case by simp
next
  case (Cons v vs)
  let ?free = "cq_room q - length (cq_contents q)"
  show ?case
  proof (cases "writable_at (table rm) (rm_current_address rm)")
    case None
    obtain rm1 m1 where w: "lib_regmap_write_current (Some rm) v m = Some (Write_Ignored, Some rm1, m1)"
      "regmap_inv enqueue_callback queue_ready rm1 m1" "rm_latched_page rm1 = None" "table rm1 = table rm"
      "rm_current_address rm1 = rm_current_address rm + 1" "same_content m m1" "queues m1 = queues m"
      by (rule cq_writer.write_current_ignored [OF Cons.prems(1) None])
    from Cons.IH [OF w(2), of q] Cons.prems w None same_content_trans [OF w(6)] show ?thesis
      by (fastforce simp: add.assoc)
  next
    case (Some p)
    obtain queued rm1 m0 m1 where w: "queue_ready (pg_context p) m0" "queues m0 = queues m"
      "enqueue_callback (pg_context p) (rm_current_address rm) v m0 = Some (queued, m1)"
      "lib_regmap_write_current (Some rm) v m =
         Some (if queued then Write_Queued else Write_Rejected, Some rm1, m1)"
      "regmap_inv enqueue_callback queue_ready rm1 m1" "rm_latched_page rm1 = None" "table rm1 = table rm"
      "rm_current_address rm1 = rm_current_address rm + 1" "same_content m m1"
      by (rule cq_writer.write_current_queued [OF Cons.prems(1) Some])
    have a: "pg_context p = Some a"
      using writable_at_in [OF Some] Cons.prems(4) by (simp add: shares_queue_def)
    have "queues m0 a = Some q" using w(2) Cons.prems(2) by simp
    from enqueue_callback_eq [OF this Cons.prems(3), of "rm_current_address rm" v] obtain ok q1 where q1:
      "enqueue_callback (Some a) (rm_current_address rm) v m0 = Some (ok, m0\<lparr>queues := (queues m0)(a \<mapsto> q1)\<rparr>)"
      "cq_inv q1" "cq_room q1 = cq_room q" "ok \<longleftrightarrow> length (cq_contents q) < cq_room q"
      "cq_contents q1 = (if ok then cq_contents q @ [\<lparr>cmd_address = rm_current_address rm, cmd_value = v\<rparr>]
                         else cq_contents q)"
      "cq_dropped_count q1 = (if ok then cq_dropped_count q else cq_dropped_count q + 1)" .
    have eqs: "queued = ok" "queues m1 a = Some q1" using w(3) q1(1) a by auto
    obtain rm2 m2 q2 where ih: "write_burst vs (Some rm1) m1
        = Some (burst_results (table rm1) (cq_room q1 - length (cq_contents q1)) (rm_current_address rm1) vs, Some rm2, m2)"
      "regmap_inv enqueue_callback queue_ready rm2 m2" "same_content m1 m2" "table rm2 = table rm1"
      "rm_current_address rm2 = rm_current_address rm1 + of_nat (length vs)"
      "queues m2 a = Some q2" "cq_inv q2" "cq_room q2 = cq_room q1"
      "cq_contents q2 = cq_contents q1 @ take (cq_room q1 - length (cq_contents q1))
         (burst_commands (table rm1) (rm_current_address rm1) vs)"
      "cq_dropped_count q2 = cq_dropped_count q1 + of_nat (length (drop (cq_room q1 - length (cq_contents q1))
         (burst_commands (table rm1) (rm_current_address rm1) vs)))"
      using Cons.IH [OF w(5) eqs(2) q1(2)] Cons.prems(4) w(7) by auto
    show ?thesis
    proof (cases ok)
      case True
      then have "?free = Suc (cq_room q1 - length (cq_contents q1))" using q1 by simp
      with True Some w ih q1 eqs same_content_trans [OF w(9) ih(3)] show ?thesis by simp
    next
      case False
      with Some w ih q1 eqs same_content_trans [OF w(9) ih(3)] show ?thesis by simp
    qed
  qed
qed

section \<open>Publishing between the bytes of a read\<close>

text \<open>
  A read transaction seen from the bus, with the main loop publishing new images between its
  bytes: each action is one call of the source.
\<close>

datatype bus_action = Byte_Read | Publish nat "u8 list"

definition publish_at :: "nat \<Rightarrow> u8 list \<Rightarrow> regmap_mem \<Rightarrow> (bool \<times> regmap_mem) defined" where
  "publish_at a d m = do {
     s \<leftarrow> snapshots m a;
     (ok, so) \<leftarrow> lib_regmap_snapshot_publish (Some s) (Some d) (of_nat (length d));
     Some (ok, put_snapshot (Some a) so m)
   }"

fun transaction :: "bus_action list \<Rightarrow> lib_regmap option \<Rightarrow> regmap_mem
    \<Rightarrow> (u8 list \<times> lib_regmap option \<times> regmap_mem) defined" where
  "transaction [] rm m = Some ([], rm, m)"
| "transaction (Byte_Read # acts) rm m = do {
     (v, rm, m) \<leftarrow> lib_regmap_read_current rm m;
     (vs, rm, m) \<leftarrow> transaction acts rm m;
     Some (v # vs, rm, m)
   }"
| "transaction (Publish a d # acts) rm m = do {
     (_, m) \<leftarrow> publish_at a d m;
     transaction acts rm m
   }"

fun bytes_read :: "bus_action list \<Rightarrow> nat" where
  "bytes_read [] = 0"
| "bytes_read (Byte_Read # acts) = Suc (bytes_read acts)"
| "bytes_read (Publish a d # acts) = bytes_read acts"

definition publishes_exist :: "regmap_mem \<Rightarrow> bus_action list \<Rightarrow> bool" where
  "publishes_exist m acts \<longleftrightarrow> (\<forall>act \<in> set acts. case act of Byte_Read \<Rightarrow> True
     | Publish a d \<Rightarrow> (case snapshots m a of None \<Rightarrow> False | Some s \<Rightarrow> snapshot_ok s))"

lemma publish_wrong_length:
  "n \<noteq> sn_length s \<Longrightarrow> lib_regmap_snapshot_publish (Some s) (Some d) n = Some (False, Some s)"
  by (simp add: lib_regmap_snapshot_publish_def)

text \<open>A publish leaves every image a reader holds, the readers and the length alone.\<close>

lemma publish_at_effect:
  assumes "snapshots m a = Some s" "snapshot_ok s"
  obtains ok s' where "publish_at a d m = Some (ok, m\<lparr>snapshots := (snapshots m)(a \<mapsto> s')\<rparr>)"
    "snapshot_ok s'" "sn_length s' = sn_length s" "readers (sn_state s') = readers (sn_state s)"
    "\<And>b. buffer_ok b \<Longrightarrow> readers (sn_state s) b \<noteq> 0 \<Longrightarrow> snapshot_image s' b = snapshot_image s b"
proof (cases "of_nat (length d) = sn_length s")
  case False
  with that [of False s] assms show thesis
    by (simp add: publish_at_def publish_wrong_length put_snapshot_def)
next
  case True
  have "unat (of_nat (length d) :: u16) \<le> length d"
    by (simp add: unsigned_of_nat take_bit_eq_mod)
  with True have d: "unat (sn_length s) \<le> length d" by simp
  let ?i = "inactive_index (sn_state s)"
  show thesis
  proof (cases "readers (sn_state s) ?i = 0")
    case free: True
    let ?s = "flip_active (fill_buffer s ?i d)"
    have "publish_at a d m = Some (True, m\<lparr>snapshots := (snapshots m)(a \<mapsto> ?s)\<rparr>)"
      using assms True free
      by (simp add: publish_at_def lib_regmap_snapshot_publish_eq [OF assms(2) d] put_snapshot_def)
    moreover have "snapshot_image ?s b = snapshot_image s b"
      if "buffer_ok b" "readers (sn_state s) b \<noteq> 0" for b
      using that free by (auto simp: image_fill_buffer [OF assms(2) inactive_index_ok that(1) d])
    ultimately show thesis
      using that [of True ?s] assms(2) d by (simp add: fun_eq_iff)
  next
    case held: False
    let ?s = "lib_regmap_snapshot_note_publish_rejected s"
    have "publish_at a d m = Some (False, m\<lparr>snapshots := (snapshots m)(a \<mapsto> ?s)\<rparr>)"
      using assms True held
      by (simp add: publish_at_def lib_regmap_snapshot_publish_eq [OF assms(2) d] put_snapshot_def)
    then show thesis
      using that [of False ?s] assms(2)
      by (simp add: lib_regmap_snapshot_note_publish_rejected_def snapshot_ok_def snapshot_image_def
          cong: option.case_cong)
  qed
qed

lemma publish_at_inv:
  assumes inv: "regmap_inv enqueue_callback queue_ready rm m"
    and s: "snapshots m a = Some s" "snapshot_ok s" "snapshot_ok s'" "sn_length s' = sn_length s"
      "readers (sn_state s') = readers (sn_state s)"
  shows "regmap_inv enqueue_callback queue_ready rm (m\<lparr>snapshots := (snapshots m)(a \<mapsto> s')\<rparr>)"
proof -
  let ?m = "m\<lparr>snapshots := (snapshots m)(a \<mapsto> s')\<rparr>"
  have "queue_ready ctx ?m = queue_ready ctx m" for ctx
    by (rule cq_writer.ready_snapshots)
  then have "page_ok enqueue_callback queue_ready m p \<Longrightarrow> page_ok enqueue_callback queue_ready ?m p" for p
    using s by (auto simp: page_ok_def)
  moreover have "readers_exact rm ?m"
    using inv s by (auto simp: regmap_inv_def readers_exact_def split: if_splits)
  ultimately show ?thesis using inv by (auto simp: regmap_inv_def)
qed

definition fits_page :: "lib_regmap_page \<Rightarrow> u16 \<Rightarrow> nat \<Rightarrow> bool" where
  "fits_page p address n \<longleftrightarrow> n = 0 \<or> unat (pg_first_address p) \<le> unat address
     \<and> unat address + n \<le> unat (pg_first_address p) + unat (pg_length p)"

lemma fits_page_Suc:
  assumes "fits_page p address (Suc n)" "unat (pg_first_address p) + unat (pg_length p) \<le> 65536"
  shows "in_page p address" "fits_page p (address + 1) n"
    "n \<noteq> 0 \<Longrightarrow> page_offset p (address + 1) = Suc (page_offset p address)"
proof -
  have suc: "unat (address + 1) = unat address + 1" if "n \<noteq> 0"
    using assms that by (subst unat_word_ariths) (simp add: fits_page_def)
  show "in_page p address" using assms(1) by (simp add: fits_page_def in_page_def)
  show "fits_page p (address + 1) n"
    using assms(1) suc by (cases "n = 0") (auto simp: fits_page_def)
  show "page_offset p (address + 1) = Suc (page_offset p address)" if "n \<noteq> 0"
    using suc [OF that] assms(1) by (auto simp: page_offset_def fits_page_def)
qed

lemma publishes_exist_store:
  assumes "publishes_exist m acts"
    and "\<And>a s. snapshots m a = Some s \<Longrightarrow> snapshot_ok s \<Longrightarrow> \<exists>s'. snapshots m' a = Some s' \<and> snapshot_ok s'"
  shows "publishes_exist m' acts"
  using assms unfolding publishes_exist_def by (fastforce split: bus_action.splits option.splits)

lemma same_content_ok:
  assumes "same_content m m'" "snapshots m a = Some s"
  shows "\<exists>s'. snapshots m' a = Some s' \<and> content s' = content s"
proof -
  have "map_option content (snapshots m' a) = Some (content s)"
    using assms by (metis option.simps(9) same_content_def)
  then show ?thesis by (auto simp: map_option_eq_Some)
qed

lemma content_ok: "content s' = content s \<Longrightarrow> snapshot_ok s' = snapshot_ok s"
  by (simp add: content_def snapshot_ok_def)

lemma publishes_exist_same_content:
  "publishes_exist m acts \<Longrightarrow> same_content m m' \<Longrightarrow> publishes_exist m' acts"
  by (rule publishes_exist_store) (auto dest!: same_content_ok content_ok)

lemma latched_readers:
  assumes "regmap_inv enqueue_callback queue_ready rm m" "rm_latched_page rm = Some i"
    "pg_snapshot (table rm ! i) = Some a" "snapshots m a = Some s"
  shows "buffer_ok (rm_latched_buffer rm)" "readers (sn_state s) (rm_latched_buffer rm) = 1"
  using assms by (auto simp: regmap_inv_def latch_ok_def readers_exact_def latched_on_def)

text \<open>Once a page is latched, the bytes of the transaction are those of the latched image.\<close>

lemma transaction_latched:
  assumes "regmap_inv enqueue_callback queue_ready rm m" "rm_latched_page rm = Some i"
    "pg_snapshot (table rm ! i) = Some a" "snapshots m a = Some s" "publishes_exist m acts"
    "fits_page (table rm ! i) (rm_current_address rm) (bytes_read acts)"
  shows "\<exists>rm' m'. transaction acts (Some rm) m = Some (take (bytes_read acts)
      (drop (page_offset (table rm ! i) (rm_current_address rm)) (snapshot_image s (rm_latched_buffer rm))),
      Some rm', m') \<and> regmap_inv enqueue_callback queue_ready rm' m'"
  using assms
proof (induction acts arbitrary: rm m s)
  case Nil
  then show ?case by simp
next
  case (Cons act acts)
  let ?p = "table rm ! i"
  have i: "i < length (table rm)" and sorted: "pages_sorted (table rm)"
    using Cons.prems(1,2) by (auto simp: regmap_inv_def latch_ok_def)
  then have "page_ok enqueue_callback queue_ready m ?p"
    using Cons.prems(1) by (auto simp: regmap_inv_def)
  with Cons.prems(3,4) have p: "unat (pg_first_address ?p) + unat (pg_length ?p) \<le> 65536" "snapshot_ok s"
    "sn_length s = pg_length ?p"
    by (auto simp: page_ok_def)
  note latch = latched_readers [OF Cons.prems(1-4)]
  show ?case
  proof (cases act)
    case (Publish a' d)
    then obtain s1 where s1: "snapshots m a' = Some s1" "snapshot_ok s1"
      using Cons.prems(5) by (auto simp: publishes_exist_def split: option.splits)
    from publish_at_effect [OF s1, of d] obtain ok s' where pub:
      "publish_at a' d m = Some (ok, m\<lparr>snapshots := (snapshots m)(a' \<mapsto> s')\<rparr>)"
      "snapshot_ok s'" "sn_length s' = sn_length s1" "readers (sn_state s') = readers (sn_state s1)"
      "\<And>b. buffer_ok b \<Longrightarrow> readers (sn_state s1) b \<noteq> 0 \<Longrightarrow> snapshot_image s' b = snapshot_image s1 b"
      by metis
    let ?m = "m\<lparr>snapshots := (snapshots m)(a' \<mapsto> s')\<rparr>"
    have inv: "regmap_inv enqueue_callback queue_ready rm ?m"
      by (rule publish_at_inv [OF Cons.prems(1) s1 pub(2-4)])
    obtain s2 where s2: "snapshots ?m a = Some s2"
      "snapshot_image s2 (rm_latched_buffer rm) = snapshot_image s (rm_latched_buffer rm)"
      using Cons.prems(4) s1 pub(5) latch by (cases "a = a'") auto
    have "publishes_exist m acts" using Cons.prems(5) by (simp add: publishes_exist_def)
    then have "publishes_exist ?m acts"
      by (rule publishes_exist_store) (use pub(2) in auto)
    from Cons.IH [OF inv Cons.prems(2,3) s2(1) this] Cons.prems(6) s2(2) pub(1) show ?thesis
      by (simp add: Publish)
  next
    case Byte_Read
    with Cons.prems(6) have fits: "fits_page ?p (rm_current_address rm) (Suc (bytes_read acts))" by simp
    note next_byte = fits_page_Suc [OF fits p(1)]
    have "page_at (table rm) (rm_current_address rm) = Some i"
      by (rule page_at_unique [OF sorted i next_byte(1)])
    from cq_writer.read_current_mapped [OF Cons.prems(1) this] obtain a1 s1 rm1 m1 where r:
      "pg_snapshot ?p = Some a1" "snapshots m a1 = Some s1"
      "lib_regmap_read_current (Some rm) m = Some (snapshot_image s1 (read_buffer rm i s1)
         ! page_offset ?p (rm_current_address rm), Some rm1, m1)"
      "regmap_inv enqueue_callback queue_ready rm1 m1" "rm_latched_page rm1 = Some i"
      "rm_latched_buffer rm1 = read_buffer rm i s1" "table rm1 = table rm"
      "rm_current_address rm1 = rm_current_address rm + 1" "same_content m m1" "queues m1 = queues m" .
    have same: "a1 = a" "s1 = s" using r(1,2) Cons.prems(3,4) by auto
    have lb: "rm_latched_buffer rm1 = rm_latched_buffer rm" "read_buffer rm i s1 = rm_latched_buffer rm"
      using r(6) Cons.prems(2) by (simp_all add: read_buffer_def)
    obtain s2 where s2: "snapshots m1 a = Some s2" "content s2 = content s"
      using same_content_ok [OF r(9) Cons.prems(4)] by blast
    have exist: "publishes_exist m1 acts"
      using Cons.prems(5) by (intro publishes_exist_same_content [OF _ r(9)]) (simp add: publishes_exist_def)
    let ?off = "page_offset ?p (rm_current_address rm)" and ?img = "snapshot_image s (rm_latched_buffer rm)"
    have "?off < length ?img"
      using next_byte(1) p(3) by (auto simp: length_snapshot_image [OF p(2) latch(1)] page_offset_def in_page_def)
    then have split: "take (Suc n) (drop ?off ?img) = ?img ! ?off # take n (drop (Suc ?off) ?img)" for n
      by (simp add: Cons_nth_drop_Suc [symmetric])
    have tail: "take (bytes_read acts) (drop (page_offset ?p (rm_current_address rm + 1)) ?img)
        = take (bytes_read acts) (drop (Suc ?off) ?img)"
      using next_byte(3) by (cases "bytes_read acts = 0") simp_all
    from Cons.IH [OF r(4,5) _ s2(1) exist] Cons.prems(3) r(7,8) next_byte(2)
      content_image [OF s2(2)] lb(1)
    have "\<exists>rm' m'. transaction acts (Some rm1) m1 = Some (take (bytes_read acts)
        (drop (page_offset ?p (rm_current_address rm + 1)) ?img), Some rm', m')
        \<and> regmap_inv enqueue_callback queue_ready rm' m'" by simp
    with r(3) lb(2) same(2) show ?thesis
      by (auto simp: Byte_Read split tail)
  qed
qed

section \<open>Properties of transactions\<close>

text \<open>A register map for the witnesses: two read-only registers at address 2, two writable ones at 8
  behind a queue of two slots.\<close>

definition demo_mem :: regmap_mem where
  "demo_mem = \<lparr>snapshots = [0 \<mapsto> demo_snapshot, 1 \<mapsto> demo_snapshot],
     queues = [5 \<mapsto> \<lparr>cq_storage = Some [\<lparr>cmd_address = 0, cmd_value = 0\<rparr>, \<lparr>cmd_address = 0, cmd_value = 0\<rparr>],
       cq_capacity = 2, cq_write_index = 0, cq_read_index = 0, cq_dropped_count = 0\<rparr>]\<rparr>"

definition demo_pages :: "lib_regmap_page list" where
  "demo_pages = [
     \<lparr>pg_first_address = 2, pg_length = 2, pg_access = LIB_REGMAP_ACCESS_READ_ONLY,
      pg_snapshot = Some 0, pg_queue_write = None, pg_context = None\<rparr>,
     \<lparr>pg_first_address = 8, pg_length = 2, pg_access = LIB_REGMAP_ACCESS_READ_WRITE,
      pg_snapshot = Some 1, pg_queue_write = Some enqueue_callback, pg_context = Some 5\<rparr>]"

definition demo_regmap :: "u16 \<Rightarrow> lib_regmap" where
  "demo_regmap address = \<lparr>rm_pages = Some demo_pages, rm_page_count = 2, rm_current_address = address,
     rm_latched_page = None, rm_latched_buffer = 0\<rparr>"

lemma demo_table: "table (demo_regmap address) = demo_pages"
  by (simp add: table_def demo_regmap_def demo_pages_def)

lemma pow2_capacity_2: "pow2_capacity 2"
  unfolding pow2_capacity_iff by simp

lemma demo_snapshots_ok: "snapshots demo_mem a = Some s \<Longrightarrow>
    s = demo_snapshot \<and> snapshot_ok s \<and> readers (sn_state s) b = 0"
  by (auto simp: demo_mem_def demo_snapshot_def snapshot_ok_def readers_def
      lib_regmap_snapshot_reader_count_def split: if_splits)

lemma demo_queue_ready: "queue_ready (Some 5) demo_mem"
  by (simp add: queue_ready_def demo_mem_def cq_inv_def pow2_capacity_2)

lemma demo_inv: "regmap_inv enqueue_callback queue_ready (demo_regmap address) demo_mem"
proof -
  have "page_ok enqueue_callback queue_ready demo_mem p" if "p \<in> set demo_pages" for p
    using that demo_queue_ready demo_snapshots_ok
    by (auto simp: demo_pages_def page_ok_def demo_mem_def demo_snapshot_def snapshot_ok_def)
  moreover have "readers_exact (demo_regmap address) demo_mem"
    using demo_snapshots_ok by (auto simp: readers_exact_def latched_on_def demo_regmap_def)
  ultimately show ?thesis
    by (simp add: regmap_inv_def demo_table)
      (simp add: demo_regmap_def demo_pages_def table_ok_def latch_ok_def pages_sorted_def buffer_ok_def)
qed


text \<open>The first page of the demonstration is being read, and its image 16, 17 has been overtaken by 98, 99.\<close>

definition overtaken_snapshot :: lib_regmap_snapshot where
  "overtaken_snapshot = \<lparr>sn_buffers = [Some [16, 17], Some [98, 99]], sn_length = 2, sn_state = 3,
     sn_publish_rejected_count = 0\<rparr>"

definition overtaken_mem :: regmap_mem where
  "overtaken_mem = demo_mem\<lparr>snapshots := [0 \<mapsto> overtaken_snapshot, 1 \<mapsto> demo_snapshot]\<rparr>"

definition reading_regmap :: lib_regmap where
  "reading_regmap = (demo_regmap 3)\<lparr>rm_latched_page := Some 0, rm_latched_buffer := 0\<rparr>"

lemma reading_table: "table reading_regmap = demo_pages"
  by (simp add: reading_regmap_def demo_table)

lemma overtaken_readers: "readers 3 0 = 1" "readers 3 1 = 0" "active_index 3 = 1"
  by (simp_all add: readers_0 readers_1 active_index_def snapshot_active_mask_def)

lemma reading_inv: "regmap_inv enqueue_callback queue_ready reading_regmap overtaken_mem"
proof -
  have ready: "queue_ready (Some 5) overtaken_mem"
    using demo_queue_ready by (simp add: overtaken_mem_def cq_writer.ready_snapshots)
  have ok: "snapshot_ok overtaken_snapshot" "snapshot_ok demo_snapshot"
    by (simp_all add: overtaken_snapshot_def demo_snapshot_def snapshot_ok_def)
  have at: "snapshots overtaken_mem 0 = Some overtaken_snapshot" "snapshots overtaken_mem 1 = Some demo_snapshot"
    by (simp_all add: overtaken_mem_def)
  have len: "sn_length overtaken_snapshot = 2" "sn_length demo_snapshot = 2"
    by (simp_all add: overtaken_snapshot_def demo_snapshot_def)
  have "page_ok enqueue_callback queue_ready overtaken_mem p" if "p \<in> set demo_pages" for p
    using that ready ok at len unfolding demo_pages_def page_ok_def by auto
  moreover have "readers_exact reading_regmap overtaken_mem"
    unfolding readers_exact_def
  proof (intro allI impI)
    fix a s b assume a: "snapshots overtaken_mem a = Some s" and b: "buffer_ok b"
    have on: "latched_on reading_regmap a b \<longleftrightarrow> a = 0 \<and> b = 0"
      unfolding latched_on_def reading_table by (auto simp: reading_regmap_def demo_pages_def)
    consider (first) "a = 0" "s = overtaken_snapshot" | (second) "a = 1" "s = demo_snapshot"
      using a by (auto simp: overtaken_mem_def split: if_splits)
    then show "readers (sn_state s) b = of_bool (latched_on reading_regmap a b)"
    proof cases
      case first
      then show ?thesis using b on by (auto simp: overtaken_snapshot_def buffer_ok_def overtaken_readers)
    next
      case second
      then show ?thesis using on demo_snapshots_ok [of 1 demo_snapshot b] by (simp add: demo_mem_def)
    qed
  qed
  ultimately show ?thesis
    by (simp add: regmap_inv_def reading_table)
      (simp add: reading_regmap_def demo_regmap_def demo_pages_def table_ok_def latch_ok_def pages_sorted_def buffer_ok_def
        table_def)
qed


text \<open>C11. A burst of writes queues the address/value pairs of its bytes that hit writable pages, in the
  order of the bus, until the queue is full; every further one is rejected and counted, and a byte
  for a read-only or unmapped address is ignored. The answer to each byte says which; no snapshot
  image changes, and the address advances over every byte.\<close>

theorem write_burst_queues_in_order:
  assumes "regmap_inv enqueue_callback queue_ready rm m" "queues m a = Some q" "cq_inv q"
    "shares_queue (table rm) a"
  shows "\<exists>rm' m' q'. write_burst vs (Some rm) m = Some (burst_results (table rm)
        (cq_room q - length (cq_contents q)) (rm_current_address rm) vs, Some rm', m')
    \<and> regmap_inv enqueue_callback queue_ready rm' m' \<and> same_content m m'
    \<and> rm_current_address rm' = rm_current_address rm + of_nat (length vs)
    \<and> queues m' a = Some q' \<and> cq_inv q'
    \<and> cq_contents q' = cq_contents q @ take (cq_room q - length (cq_contents q))
        (burst_commands (table rm) (rm_current_address rm) vs)
    \<and> cq_dropped_count q' = cq_dropped_count q + of_nat (length (drop (cq_room q - length (cq_contents q))
        (burst_commands (table rm) (rm_current_address rm) vs)))"
  using write_burst_lemma [OF assms] by blast

theorem write_burst_queues_in_order_witness:
  "\<exists>rm' m' q'. write_burst [1, 2, 3, 4] (Some (demo_regmap 7)) demo_mem
      = Some ([Write_Ignored, Write_Queued, Write_Queued, Write_Ignored], Some rm', m')
    \<and> queues m' 5 = Some q'
    \<and> cq_contents q' = [\<lparr>cmd_address = 8, cmd_value = 2\<rparr>, \<lparr>cmd_address = 9, cmd_value = 3\<rparr>]"
proof -
  obtain q where q: "queues demo_mem 5 = Some q" "cq_inv q" "cq_contents q = []" "cq_room q = 2"
    by (simp add: demo_mem_def cq_inv_def pow2_capacity_2 cq_contents_def window_def cq_room_def)
  have "shares_queue (table (demo_regmap 7)) 5"
    by (simp add: demo_table) (simp add: shares_queue_def demo_pages_def)
  from write_burst_queues_in_order [OF demo_inv q(1,2) this, of "[1, 2, 3, 4]"] show ?thesis
    by (auto simp: demo_table q(3,4))
      (auto simp: demo_regmap_def demo_pages_def writable_at_def in_page_def)
qed

text \<open>C9. A read transaction is one consistent image: once its first byte has latched a page, all its
  bytes in that page come from the image published at that moment, whatever the main loop
  publishes between the bytes, and on whichever snapshots.\<close>

theorem read_transaction_is_consistent:
  assumes "regmap_inv enqueue_callback queue_ready rm m" "rm_latched_page rm = None"
    "page_at (table rm) (rm_current_address rm) = Some i" "pg_snapshot (table rm ! i) = Some a"
    "snapshots m a = Some s" "publishes_exist m acts"
    "fits_page (table rm ! i) (rm_current_address rm) (Suc (bytes_read acts))"
  shows "\<exists>rm' m'. transaction (Byte_Read # acts) (Some rm) m = Some (take (Suc (bytes_read acts))
      (drop (page_offset (table rm ! i) (rm_current_address rm)) (published s)), Some rm', m')
    \<and> regmap_inv enqueue_callback queue_ready rm' m'"
proof -
  let ?p = "table rm ! i" and ?off = "page_offset (table rm ! i) (rm_current_address rm)"
  have i: "i < length (table rm)" using page_at_Some [OF assms(3)] by simp
  then have "page_ok enqueue_callback queue_ready m ?p" using assms(1) by (auto simp: regmap_inv_def)
  with assms(4,5) have p: "unat (pg_first_address ?p) + unat (pg_length ?p) \<le> 65536" "snapshot_ok s"
    "sn_length s = pg_length ?p" by (auto simp: page_ok_def)
  from cq_writer.read_current_mapped [OF assms(1,3)] obtain a1 s1 rm1 m1 where r:
    "pg_snapshot ?p = Some a1" "snapshots m a1 = Some s1"
    "lib_regmap_read_current (Some rm) m = Some (snapshot_image s1 (read_buffer rm i s1) ! ?off, Some rm1, m1)"
    "regmap_inv enqueue_callback queue_ready rm1 m1" "rm_latched_page rm1 = Some i"
    "rm_latched_buffer rm1 = read_buffer rm i s1" "table rm1 = table rm"
    "rm_current_address rm1 = rm_current_address rm + 1" "same_content m m1" "queues m1 = queues m" .
  have same: "s1 = s" using r(1,2) assms(4,5) by auto
  have img: "snapshot_image s (read_buffer rm i s) = published s"
    using assms(2) by (simp add: read_buffer_def published_def)
  obtain s2 where s2: "snapshots m1 a = Some s2" "content s2 = content s"
    using same_content_ok [OF r(9) assms(5)] by blast
  note next_byte = fits_page_Suc [OF assms(7) p(1)]
  have "?off < length (published s)"
    using next_byte(1) p(3) by (auto simp: published_def length_snapshot_image [OF p(2)] page_offset_def in_page_def)
  then have split: "take (Suc n) (drop ?off (published s)) = published s ! ?off # take n (drop (Suc ?off) (published s))"
    for n by (simp add: Cons_nth_drop_Suc [symmetric])
  have tail: "take (bytes_read acts) (drop (page_offset ?p (rm_current_address rm + 1)) (published s))
      = take (bytes_read acts) (drop (Suc ?off) (published s))"
    using next_byte(3) by (cases "bytes_read acts = 0") simp_all
  from transaction_latched [OF r(4,5) _ s2(1) publishes_exist_same_content [OF assms(6) r(9)]]
    assms(4) r(6-8) next_byte(2) content_image [OF s2(2)] same img
  have "\<exists>rm' m'. transaction acts (Some rm1) m1 = Some (take (bytes_read acts)
      (drop (page_offset ?p (rm_current_address rm + 1)) (published s)), Some rm', m')
    \<and> regmap_inv enqueue_callback queue_ready rm' m'" by simp
  with r(3) same img show ?thesis by (auto simp: split tail)
qed

theorem read_transaction_is_consistent_witness:
  "\<exists>rm' m'. transaction [Byte_Read, Publish 0 [48, 49], Byte_Read] (Some (demo_regmap 2)) demo_mem
     = Some ([16, 17], Some rm', m')"
proof -
  let ?acts = "[Publish 0 [48, 49], Byte_Read]"
  have s: "snapshots demo_mem 0 = Some demo_snapshot" by (simp add: demo_mem_def)
  have "publishes_exist demo_mem ?acts"
    using demo_snapshots_ok [OF s] by (simp add: publishes_exist_def s)
  moreover have "published demo_snapshot = [16, 17]"
    by (simp add: published_def demo_snapshot_def snapshot_image_def active_index_parity)
  moreover have "rm_latched_page (demo_regmap 2) = None" "rm_current_address (demo_regmap 2) = 2"
    "page_at demo_pages 2 = Some 0" "pg_snapshot (demo_pages ! 0) = Some 0"
    "fits_page (demo_pages ! 0) 2 2" "page_offset (demo_pages ! 0) 2 = 0"
    by (simp_all add: demo_regmap_def demo_pages_def in_page_def fits_page_def page_offset_def)
  ultimately have "\<exists>rm' m'. transaction (Byte_Read # ?acts) (Some (demo_regmap 2)) demo_mem
      = Some (take 2 [16, 17], Some rm', m') \<and> regmap_inv enqueue_callback queue_ready rm' m'"
    using read_transaction_is_consistent [OF demo_inv, of 2 0 0 demo_snapshot ?acts] s
    by (simp only: demo_table bytes_read.simps) (simp add: numeral_2_eq_2)
  moreover have "take 2 [16, 17] = [16, 17 :: u8]" by simp
  ultimately show ?thesis by (elim exE conjE) (intro exI, simp only:)
qed

lemma demo_layout: "layout_valid demo_mem demo_pages" "no_dangling_snapshot demo_mem demo_pages"
  by (auto simp: layout_valid_def demo_pages_def pages_sorted_def page_valid_def demo_mem_def
      demo_snapshot_def lib_regmap_snapshot_is_valid_def no_dangling_snapshot_def)

text \<open>C12. \<open>lib_regmap_init\<close> accepts exactly the valid layouts: a non-empty table of pages in ascending
  order without overlap, each non-empty, inside the 16-bit space, with a valid snapshot of its own
  length, a known access and, when writable, a callback. On success the map starts at address zero
  with nothing latched; on failure it is left untouched.\<close>

theorem regmap_init_accepts_valid_layouts:
  assumes "unat n \<le> length ps" "no_dangling_snapshot m ps"
  shows "lib_regmap_init (Some rm) (Some ps) n m =
    Some (if layout_valid m (take (unat n) ps) then (True, Some (initialised rm ps n))
          else (False, Some rm))"
  by (rule regmap_init_eq [OF assms])

theorem regmap_init_accepts_valid_layouts_witness:
  "lib_regmap_init (Some (demo_regmap 7)) (Some demo_pages) 2 demo_mem = Some (True, Some (initialised (demo_regmap 7) demo_pages 2))
    \<and> lib_regmap_init (Some (demo_regmap 7)) (Some (rev demo_pages)) 2 demo_mem = Some (False, Some (demo_regmap 7))"
proof -
  have "no_dangling_snapshot demo_mem (rev demo_pages)"
    using demo_layout(2) by (simp add: no_dangling_snapshot_def)
  moreover have "\<not> layout_valid demo_mem (rev demo_pages)"
    by (simp add: layout_valid_def demo_pages_def pages_sorted_def)
  moreover have "length demo_pages = 2" by (simp add: demo_pages_def)
  ultimately show ?thesis
    using regmap_init_accepts_valid_layouts [of 2 demo_pages demo_mem "demo_regmap 7"]
      regmap_init_accepts_valid_layouts [of 2 "rev demo_pages" demo_mem "demo_regmap 7"] demo_layout by simp
qed

text \<open>A register map that \<open>lib_regmap_init\<close> accepts satisfies its invariant, when the snapshots are
  well-formed and free of readers and the queues behind its writable pages are well-formed.\<close>

theorem regmap_init_establishes_invariant:
  assumes "lib_regmap_init (Some rm) (Some ps) n m = Some (True, Some rm')"
    and "unat n \<le> length ps" "no_dangling_snapshot m ps"
    and "\<And>a s. snapshots m a = Some s \<Longrightarrow> snapshot_ok s \<and> readers (sn_state s) 0 = 0 \<and> readers (sn_state s) 1 = 0"
    and "\<And>p. p \<in> set (take (unat n) ps) \<Longrightarrow> pg_access p = LIB_REGMAP_ACCESS_READ_WRITE \<Longrightarrow>
      pg_queue_write p = Some enqueue_callback \<and> queue_ready (pg_context p) m"
  shows "regmap_inv enqueue_callback queue_ready rm' m"
proof -
  have rm': "rm' = initialised rm ps n" and valid: "layout_valid m (take (unat n) ps)"
    using assms(1) regmap_init_eq [OF assms(2,3), of rm]
    by (auto split: if_splits)
  have "page_ok enqueue_callback queue_ready m p" if p: "p \<in> set (take (unat n) ps)" for p
  proof -
    have "page_valid m p" using valid p by (simp add: layout_valid_def)
    then show ?thesis
      using assms(4) assms(5) [OF p] by (fastforce simp: page_valid_def page_ok_def split: option.splits)
  qed
  moreover have "readers_exact rm' m"
    using assms(4) by (auto simp: readers_exact_def rm' initialised_def latched_on_def buffer_ok_def)
  moreover have "table_ok rm'" "latch_ok rm'"
    using assms(2) by (simp_all add: rm' initialised_def table_ok_def latch_ok_def buffer_ok_def)
  ultimately show ?thesis
    using valid by (simp add: regmap_inv_def rm' layout_valid_def)
qed

theorem regmap_init_establishes_invariant_witness:
  "\<exists>rm'. lib_regmap_init (Some (demo_regmap 7)) (Some demo_pages) 2 demo_mem = Some (True, Some rm')
    \<and> regmap_inv enqueue_callback queue_ready rm' demo_mem"
proof -
  have two: "length demo_pages = 2" by (simp add: demo_pages_def)
  have init: "lib_regmap_init (Some (demo_regmap 7)) (Some demo_pages) 2 demo_mem
      = Some (True, Some (initialised (demo_regmap 7) demo_pages 2))"
    using regmap_init_eq [of 2 demo_pages demo_mem "demo_regmap 7"] demo_layout two by simp
  have "regmap_inv enqueue_callback queue_ready (initialised (demo_regmap 7) demo_pages 2) demo_mem"
  proof (rule regmap_init_establishes_invariant [OF init _ demo_layout(2)])
    show "unat (2 :: u16) \<le> length demo_pages" using two by simp
    show "snapshot_ok s \<and> readers (sn_state s) 0 = 0 \<and> readers (sn_state s) 1 = 0"
      if "snapshots demo_mem a = Some s" for a s
      using demo_snapshots_ok [OF that] by blast
    show "pg_queue_write p = Some enqueue_callback \<and> queue_ready (pg_context p) demo_mem"
      if "p \<in> set (take (unat (2 :: u16)) demo_pages)" "pg_access p = LIB_REGMAP_ACCESS_READ_WRITE" for p
      using that demo_queue_ready by (auto simp: demo_pages_def)
  qed
  with init show ?thesis by blast
qed

end
