(* ===== verification/Ringbuf.thy ===== *)
theory Ringbuf
  imports Spsc_Queue
begin

text \<open>
  \<open>lib/lib_ringbuf.c\<close>: the fixed-storage byte ring. The record is \<open>lib_ringbuf_t\<close>; the array
  behind its \<open>storage\<close> pointer is owned by the ring and held as a list (\<open>None\<close> is a null
  pointer). A pointer argument is an option, \<open>None\<close> being \<open>NULL\<close>, and every operation returns
  the object behind it. Abstractly a ring is the list of bytes in its window of occupied slots.
\<close>

section \<open>State and operations\<close>

record lib_ringbuf =
  rb_storage :: "u8 list option"
  rb_capacity :: u32
  rb_mask :: u32
  rb_write_index :: u32
  rb_read_index :: u32
  rb_dropped_count :: u32

definition lib_ringbuf_is_power_of_two :: "u32 \<Rightarrow> bool" where
  "lib_ringbuf_is_power_of_two v \<longleftrightarrow> v \<noteq> 0 \<and> v AND (v - 1) = 0"

definition lib_ringbuf_init ::
  "lib_ringbuf option \<Rightarrow> u8 list option \<Rightarrow> u32 \<Rightarrow> bool \<times> lib_ringbuf option" where
  "lib_ringbuf_init ring storage capacity =
     (case (ring, storage) of
        (Some r, Some xs) \<Rightarrow>
          if \<not> lib_ringbuf_is_power_of_two capacity then (False, Some r)
          else (True, Some (r\<lparr>rb_storage := Some xs, rb_capacity := capacity,
                               rb_mask := capacity - 1, rb_write_index := 0,
                               rb_read_index := 0, rb_dropped_count := 0\<rparr>))
      | _ \<Rightarrow> (False, ring))"

definition lib_ringbuf_try_push ::
  "lib_ringbuf option \<Rightarrow> u8 \<Rightarrow> (bool \<times> lib_ringbuf option) defined" where
  "lib_ringbuf_try_push ring byte =
     (case ring of
        None \<Rightarrow> Some (False, None)
      | Some r \<Rightarrow>
          let write_index = rb_write_index r in
          if write_index - rb_read_index r = rb_capacity r
          then Some (False, Some (r\<lparr>rb_dropped_count := rb_dropped_count r + 1\<rparr>))
          else do {
            xs \<leftarrow> rb_storage r;
            xs' \<leftarrow> array_write xs (unat (write_index AND rb_mask r)) byte;
            Some (True, Some (r\<lparr>rb_storage := Some xs', rb_write_index := write_index + 1\<rparr>))
          })"

text \<open>The out-parameter \<open>byte\<close> is the object behind the pointer, returned updated.\<close>

definition lib_ringbuf_try_pop ::
  "lib_ringbuf option \<Rightarrow> u8 option \<Rightarrow> (bool \<times> lib_ringbuf option \<times> u8 option) defined" where
  "lib_ringbuf_try_pop ring byte =
     (case (ring, byte) of
        (Some r, Some _) \<Rightarrow>
          let read_index = rb_read_index r in
          if read_index = rb_write_index r then Some (False, ring, byte)
          else do {
            xs \<leftarrow> rb_storage r;
            v \<leftarrow> array_read xs (unat (read_index AND rb_mask r));
            Some (True, Some (r\<lparr>rb_read_index := read_index + 1\<rparr>), Some v)
          }
      | _ \<Rightarrow> Some (False, ring, byte))"

definition lib_ringbuf_capacity :: "lib_ringbuf option \<Rightarrow> u32" where
  "lib_ringbuf_capacity ring = (case ring of None \<Rightarrow> 0 | Some r \<Rightarrow> rb_capacity r)"

definition lib_ringbuf_dropped_count :: "lib_ringbuf option \<Rightarrow> u32" where
  "lib_ringbuf_dropped_count ring = (case ring of None \<Rightarrow> 0 | Some r \<Rightarrow> rb_dropped_count r)"

section \<open>Invariant and abstraction\<close>

definition ring_inv :: "lib_ringbuf \<Rightarrow> bool" where
  "ring_inv r \<longleftrightarrow> pow2_capacity (rb_capacity r) \<and> rb_mask r = rb_capacity r - 1
     \<and> (\<exists>xs. rb_storage r = Some xs \<and> unat (rb_capacity r) \<le> length xs)
     \<and> unat (rb_write_index r - rb_read_index r) \<le> unat (rb_capacity r)"

definition ring_contents :: "lib_ringbuf \<Rightarrow> u8 list" where
  "ring_contents r = window (case rb_storage r of None \<Rightarrow> [] | Some xs \<Rightarrow> xs)
     (rb_capacity r) (rb_read_index r) (rb_write_index r)"

definition ring_room :: "lib_ringbuf \<Rightarrow> nat" where
  "ring_room r = unat (rb_capacity r)"

text \<open>The operations on a ring that exists, with the popped byte as the result.\<close>

definition ring_push :: "lib_ringbuf \<Rightarrow> u8 \<Rightarrow> (bool \<times> lib_ringbuf) defined" where
  "ring_push r b = do {
     (ok, ring) \<leftarrow> lib_ringbuf_try_push (Some r) b;
     r' \<leftarrow> ring;
     Some (ok, r')
   }"

definition ring_pop :: "lib_ringbuf \<Rightarrow> (u8 option \<times> lib_ringbuf) defined" where
  "ring_pop r = do {
     (ok, ring, byte) \<leftarrow> lib_ringbuf_try_pop (Some r) (Some 0);
     r' \<leftarrow> ring;
     Some (if ok then byte else None, r')
   }"

lemma is_power_of_two_pow2_capacity [simp]:
  "lib_ringbuf_is_power_of_two v \<longleftrightarrow> pow2_capacity v"
  by (simp add: lib_ringbuf_is_power_of_two_def pow2_capacity_iff)

lemma ring_invE:
  assumes "ring_inv r"
  obtains xs where "rb_storage r = Some xs" "unat (rb_capacity r) \<le> length xs"
    "pow2_capacity (rb_capacity r)" "rb_mask r = rb_capacity r - 1"
    "unat (rb_write_index r - rb_read_index r) \<le> unat (rb_capacity r)"
  using assms by (auto simp: ring_inv_def)

lemma used_eq_capacity_iff:
  "w - r = cap \<longleftrightarrow> unat (w - r) = unat cap" for w r cap :: u32
  by (rule word_unat_eq_iff)

lemma length_ring_contents:
  "length (ring_contents r) = unat (rb_write_index r - rb_read_index r)"
  by (simp add: ring_contents_def)

lemma ring_push_room:
  assumes "ring_inv r" "length (ring_contents r) < ring_room r"
  shows "\<exists>r'. ring_push r b = Some (True, r') \<and> ring_inv r'
    \<and> ring_contents r' = ring_contents r @ [b] \<and> ring_room r' = ring_room r
    \<and> rb_dropped_count r' = rb_dropped_count r"
proof -
  obtain xs where xs: "rb_storage r = Some xs" "unat (rb_capacity r) \<le> length xs"
    "pow2_capacity (rb_capacity r)" "rb_mask r = rb_capacity r - 1"
    by (rule ring_invE [OF assms(1)])
  let ?c = "rb_capacity r" and ?w = "rb_write_index r" and ?r = "rb_read_index r"
  have used: "unat (?w - ?r) < unat ?c"
    using assms(2) by (simp add: length_ring_contents ring_room_def)
  then have "?w - ?r \<noteq> ?c" by auto
  moreover have "slot ?c ?w < length xs" using xs by (intro slot_less_length)
  ultimately show ?thesis
    using xs used window_push [OF xs(3) used xs(2), of b] unat_diff_Suc [OF used]
    by (simp add: ring_push_def lib_ringbuf_try_push_def Let_def array_write_in slot_def
        ring_inv_def ring_contents_def ring_room_def)
qed

lemma ring_push_full:
  assumes "ring_inv r" "length (ring_contents r) = ring_room r"
  shows "\<exists>r'. ring_push r b = Some (False, r') \<and> ring_inv r'
    \<and> ring_contents r' = ring_contents r \<and> ring_room r' = ring_room r
    \<and> rb_dropped_count r' = rb_dropped_count r + 1"
proof -
  have "rb_write_index r - rb_read_index r = rb_capacity r"
    using assms(2) by (simp add: length_ring_contents ring_room_def used_eq_capacity_iff)
  then show ?thesis
    using assms(1) by (simp add: ring_push_def lib_ringbuf_try_push_def Let_def
        ring_inv_def ring_contents_def ring_room_def)
qed

lemma ring_pop_some:
  assumes "ring_inv r" "ring_contents r = b # bs"
  shows "\<exists>r'. ring_pop r = Some (Some b, r') \<and> ring_inv r' \<and> ring_contents r' = bs
    \<and> ring_room r' = ring_room r \<and> rb_dropped_count r' = rb_dropped_count r"
proof -
  obtain xs where xs: "rb_storage r = Some xs" "unat (rb_capacity r) \<le> length xs"
    "pow2_capacity (rb_capacity r)" "rb_mask r = rb_capacity r - 1"
    "unat (rb_write_index r - rb_read_index r) \<le> unat (rb_capacity r)"
    by (rule ring_invE [OF assms(1)])
  let ?c = "rb_capacity r" and ?w = "rb_write_index r" and ?r = "rb_read_index r"
  have ne: "?r \<noteq> ?w"
    using assms(2) by (auto simp: ring_contents_def)
  moreover have "slot ?c ?r < length xs" using xs by (intro slot_less_length)
  ultimately show ?thesis
    using xs window_pop [OF ne, of xs ?c] unat_diff_pop [OF ne] assms(2)
    by (simp add: ring_pop_def lib_ringbuf_try_pop_def Let_def array_read_in slot_def
        ring_inv_def ring_contents_def ring_room_def)
qed

lemma ring_pop_none:
  assumes "ring_contents r = []"
  shows "ring_pop r = Some (None, r)"
proof -
  have "rb_write_index r - rb_read_index r = 0"
    using length_ring_contents [of r] assms by (simp add: unat_eq_0)
  then show ?thesis by (simp add: ring_pop_def lib_ringbuf_try_pop_def)
qed

interpretation ring: bounded_queue ring_inv ring_contents ring_room rb_dropped_count
  ring_push ring_pop
proof
  fix r assume "ring_inv r"
  then show "length (ring_contents r) \<le> ring_room r"
    by (simp add: length_ring_contents ring_room_def ring_inv_def)
qed (use ring_push_room ring_push_full ring_pop_some ring_pop_none in blast)+

section \<open>Properties\<close>

text \<open>Initialising a ring succeeds exactly when neither pointer is null and the capacity is a power
  of two; the ring is then well formed and empty, holds as many bytes as its capacity, and has
  dropped nothing. A failure leaves the object behind the pointer alone.\<close>

theorem ringbuf_init_contract:
  assumes "unat cap \<le> length xs"
  shows "(if \<exists>k < 32. unat cap = 2 ^ k
       then \<exists>r'. lib_ringbuf_init (Some r) (Some xs) cap = (True, Some r') \<and> ring_inv r'
         \<and> ring_contents r' = [] \<and> ring_room r' = unat cap \<and> rb_dropped_count r' = 0
       else lib_ringbuf_init (Some r) (Some xs) cap = (False, Some r))
    \<and> lib_ringbuf_init None st cap = (False, None) \<and> lib_ringbuf_init (Some r) None cap = (False, Some r)"
  using assms
  by (auto simp: lib_ringbuf_init_def ring_inv_def ring_contents_def ring_room_def pow2_capacity_def)

theorem ringbuf_init_contract_witness:
  "\<exists>r'. lib_ringbuf_init (Some \<lparr>rb_storage = None, rb_capacity = 1, rb_mask = 2, rb_write_index = 3,
      rb_read_index = 4, rb_dropped_count = 5\<rparr>) (Some [0, 0, 0, 0]) 4 = (True, Some r')
    \<and> ring_room r' = 4 \<and> ring_contents r' = []"
proof -
  have "\<exists>k < 32. unat (4 :: u32) = 2 ^ k" by (intro exI [of _ 2]) simp
  then show ?thesis
    using ringbuf_init_contract [of 4 "[0, 0, 0, 0]" "\<lparr>rb_storage = None, rb_capacity = 1, rb_mask = 2,
      rb_write_index = 3, rb_read_index = 4, rb_dropped_count = 5\<rparr>"] by auto
qed

text \<open>On a well-formed ring neither operation has undefined behaviour. A push appends its byte unless
  the ring holds capacity-many bytes, when it is refused and the drop counter grows by one; a pop
  stores the oldest byte through the pointer and removes it, and on an empty ring is refused with
  the out-parameter untouched.\<close>

theorem ringbuf_push_pop_contract:
  assumes "ring_inv r"
  shows "(\<exists>r'. lib_ringbuf_try_push (Some r) b = Some (length (ring_contents r) < ring_room r, Some r')
      \<and> ring_inv r' \<and> ring_room r' = ring_room r
      \<and> ring_contents r' = (if length (ring_contents r) < ring_room r then ring_contents r @ [b] else ring_contents r)
      \<and> rb_dropped_count r' = rb_dropped_count r + (if length (ring_contents r) < ring_room r then 0 else 1))
    \<and> (\<exists>r'. lib_ringbuf_try_pop (Some r) (Some old) = Some (ring_contents r \<noteq> [], Some r',
          Some (case ring_contents r of [] \<Rightarrow> old | x # xs \<Rightarrow> x))
      \<and> ring_inv r' \<and> ring_room r' = ring_room r \<and> ring_contents r' = tl (ring_contents r)
      \<and> rb_dropped_count r' = rb_dropped_count r)"
    (is "?push \<and> ?pop")
proof
  obtain ok r' where push: "ring_push r b = Some (ok, r')" "ring_inv r'" "ring_room r' = ring_room r"
    "ring_contents r' = (if ok then ring_contents r @ [b] else ring_contents r)"
    "rb_dropped_count r' = (if ok then rb_dropped_count r else rb_dropped_count r + 1)"
    "ok \<longleftrightarrow> length (ring_contents r) < ring_room r"
    by (rule ring.push_total [OF assms])
  then have "lib_ringbuf_try_push (Some r) b = Some (ok, Some r')"
    by (auto simp: ring_push_def bind_eq_Some_conv)
  with push show ?push by auto
  obtain out r2 where pop: "ring_pop r = Some (out, r2)" "ring_inv r2" "ring_room r2 = ring_room r"
    "rb_dropped_count r2 = rb_dropped_count r"
    "ring_contents r = (case out of None \<Rightarrow> ring_contents r2 | Some x \<Rightarrow> x # ring_contents r2)"
    "out = None \<longleftrightarrow> ring_contents r = []"
    by (rule ring.pop_total [OF assms])
  have "lib_ringbuf_try_pop (Some r) (Some old) = Some (out \<noteq> None, Some r2, Some (case out of None \<Rightarrow> old | Some x \<Rightarrow> x))"
    using pop(1) by (auto simp: ring_pop_def lib_ringbuf_try_pop_def Let_def bind_eq_Some_conv split: if_splits)
  with pop show ?pop by (cases out) auto
qed

definition demo_ring :: lib_ringbuf where
  "demo_ring = \<lparr>rb_storage = Some [7, 8], rb_capacity = 2, rb_mask = 1, rb_write_index = 1,
     rb_read_index = 0xffffffff, rb_dropped_count = 0\<rparr>"

lemma demo_ring_inv: "ring_inv demo_ring"
  by (simp add: demo_ring_def ring_inv_def pow2_capacity_iff)

lemma demo_ring_contents: "ring_contents demo_ring = [8, 7]" "ring_room demo_ring = 2"
  by (simp_all add: demo_ring_def ring_contents_def window_def slot_def ring_room_def upt_rec)

theorem ringbuf_push_pop_contract_witness:
  "\<exists>r'. lib_ringbuf_try_push (Some demo_ring) 9 = Some (False, Some r') \<and> ring_contents r' = [8, 7]"
  using ringbuf_push_pop_contract [OF demo_ring_inv, of 9] by (auto simp: demo_ring_contents)

text \<open>First in, first out: over every sequence of pushes and pops, through any wrap of the 32-bit
  indices, the bytes held at the start followed by those accepted are, in order, those delivered
  followed by those still held; and every refused push is counted.\<close>

theorem ringbuf_fifo:
  assumes "ring_inv r"
  shows "\<exists>accepted delivered refused r'.
    queue_run ring_push ring_pop ops r = Some (accepted, delivered, refused, r') \<and> ring_inv r'
      \<and> ring_contents r @ accepted = delivered @ ring_contents r' \<and> ring_room r' = ring_room r
      \<and> rb_dropped_count r' = rb_dropped_count r + of_nat refused"
  by (rule ring.run_fifo [OF assms])

theorem ringbuf_fifo_witness:
  "\<exists>accepted delivered refused r'. queue_run ring_push ring_pop [Push 1, Pop, Pop, Push 2] demo_ring
      = Some (accepted, delivered, refused, r') \<and> [8, 7] @ accepted = delivered @ ring_contents r'"
  using ringbuf_fifo [OF demo_ring_inv, of "[Push 1, Pop, Pop, Push 2]"]
  unfolding demo_ring_contents by blast

end
