(* ===== verification/Spsc_Concurrent.thy ===== *)
theory Spsc_Concurrent
  imports Ringbuf Command_Queue
begin

text \<open>
  The two queues with producer and consumer preempting each other between any two accesses: the UART interrupt pops
  bytes the main loop pushes, the main loop pops commands the I2C interrupt enqueues. Each call is taken apart into its
  accesses, one step each, in the order of the code, which the signal fences keep; a call in progress is a value that
  holds its local variables. Any interleaving of the steps of one producer and one consumer is allowed, more than a
  single core that interrupts preempt can do.
\<close>

section \<open>Interleavings of a producer and a consumer\<close>

record ('q, 'p, 'c, 'a) spsc_ops =
  op_push_start :: "'a \<Rightarrow> 'q \<Rightarrow> 'p"
  op_push_step :: "'p \<Rightarrow> 'q \<Rightarrow> ('p \<times> 'q) defined"
  op_push_done :: "'p \<Rightarrow> bool"
  op_push_adds :: "'p \<Rightarrow> 'a list"
  op_push_drops :: "'p \<Rightarrow> nat"
  op_pop_start :: "'q \<Rightarrow> 'c"
  op_pop_step :: "'c \<Rightarrow> 'q \<Rightarrow> ('c \<times> 'q) defined"
  op_pop_done :: "'c \<Rightarrow> bool"
  op_pop_takes :: "'c \<Rightarrow> 'a list"

text \<open>The queue, the calls in progress, and what was accepted, delivered and refused so far, which no step reads.\<close>

record ('q, 'p, 'c, 'a) spsc =
  sp_queue :: 'q
  sp_push :: 'p
  sp_pop :: 'c
  sp_accepted :: "'a list"
  sp_delivered :: "'a list"
  sp_refused :: nat

inductive spsc_step :: "('q, 'p, 'c, 'a) spsc_ops \<Rightarrow> ('q, 'p, 'c, 'a) spsc \<Rightarrow> ('q, 'p, 'c, 'a) spsc \<Rightarrow> bool" for ops where
  Push_Call: "op_push_done ops (sp_push s) \<Longrightarrow>
    spsc_step ops s (s\<lparr>sp_push := op_push_start ops x (sp_queue s)\<rparr>)"
| Push_Step: "op_push_step ops (sp_push s) (sp_queue s) = Some (p, q) \<Longrightarrow>
    spsc_step ops s (s\<lparr>sp_push := p, sp_queue := q, sp_accepted := sp_accepted s @ op_push_adds ops (sp_push s),
      sp_refused := sp_refused s + op_push_drops ops (sp_push s)\<rparr>)"
| Pop_Call: "op_pop_done ops (sp_pop s) \<Longrightarrow> spsc_step ops s (s\<lparr>sp_pop := op_pop_start ops (sp_queue s)\<rparr>)"
| Pop_Step: "op_pop_step ops (sp_pop s) (sp_queue s) = Some (c, q) \<Longrightarrow>
    spsc_step ops s (s\<lparr>sp_pop := c, sp_queue := q, sp_delivered := sp_delivered s @ op_pop_takes ops (sp_pop s)\<rparr>)"

inductive spsc_reachable :: "('q, 'p, 'c, 'a) spsc_ops \<Rightarrow> 'q \<Rightarrow> ('q, 'p, 'c, 'a) spsc \<Rightarrow> bool" for ops q0 where
  Rest: "op_push_done ops p \<Longrightarrow> op_pop_done ops c \<Longrightarrow> spsc_reachable ops q0
    \<lparr>sp_queue = q0, sp_push = p, sp_pop = c, sp_accepted = [], sp_delivered = [], sp_refused = 0\<rparr>"
| Next: "spsc_reachable ops q0 s \<Longrightarrow> spsc_step ops s s' \<Longrightarrow> spsc_reachable ops q0 s'"

text \<open>
  The contract of the steps, an assertion for each call in progress: its own steps keep it, do to the contents what
  they should, and do not disturb the assertion of the other side.
\<close>

locale spsc_queue =
  fixes ops :: "('q, 'p, 'c, 'a) spsc_ops"
    and inv :: "'q \<Rightarrow> bool"
    and abs :: "'q \<Rightarrow> 'a list"
    and drops :: "'q \<Rightarrow> u32"
    and push_ok :: "'p \<Rightarrow> 'q \<Rightarrow> bool"
    and pop_ok :: "'c \<Rightarrow> 'q \<Rightarrow> bool"
  assumes push_done_ok: "op_push_done ops p \<Longrightarrow> push_ok p q"
    and pop_done_ok: "op_pop_done ops c \<Longrightarrow> pop_ok c q"
    and push_start_ok: "inv q \<Longrightarrow> push_ok (op_push_start ops x q) q"
    and pop_start_ok: "inv q \<Longrightarrow> pop_ok (op_pop_start ops q) q"
    and push_step_ok: "inv q \<Longrightarrow> push_ok p q \<Longrightarrow> \<exists>p' q'. op_push_step ops p q = Some (p', q') \<and> inv q' \<and> push_ok p' q'
      \<and> abs q' = abs q @ op_push_adds ops p \<and> drops q' = drops q + of_nat (op_push_drops ops p)
      \<and> (\<forall>c. pop_ok c q \<longrightarrow> pop_ok c q')"
    and pop_step_ok: "inv q \<Longrightarrow> pop_ok c q \<Longrightarrow> \<exists>c' q'. op_pop_step ops c q = Some (c', q') \<and> inv q' \<and> pop_ok c' q'
      \<and> abs q = op_pop_takes ops c @ abs q' \<and> drops q' = drops q \<and> (\<forall>p. push_ok p q \<longrightarrow> push_ok p q')"
begin

lemma reachable_fifo:
  assumes "spsc_reachable ops q0 s" "inv q0"
  shows "inv (sp_queue s) \<and> push_ok (sp_push s) (sp_queue s) \<and> pop_ok (sp_pop s) (sp_queue s)
    \<and> abs q0 @ sp_accepted s = sp_delivered s @ abs (sp_queue s)
    \<and> drops (sp_queue s) = drops q0 + of_nat (sp_refused s)"
  using assms
proof induction
  case (Rest p c)
  then show ?case by (simp add: push_done_ok pop_done_ok)
next
  case (Next s s')
  then have ih: "inv (sp_queue s)" "push_ok (sp_push s) (sp_queue s)" "pop_ok (sp_pop s) (sp_queue s)"
    "abs q0 @ sp_accepted s = sp_delivered s @ abs (sp_queue s)"
    "drops (sp_queue s) = drops q0 + of_nat (sp_refused s)"
    by auto
  from Next(2) show ?case
  proof cases
    case (Push_Call x)
    then show ?thesis using ih push_start_ok by simp
  next
    case (Push_Step p q)
    with push_step_ok [OF ih(1,2)] ih(3-5) show ?thesis by (auto simp: append_assoc [symmetric] simp del: append_assoc)
  next
    case Pop_Call
    then show ?thesis using ih pop_start_ok by simp
  next
    case (Pop_Step c q)
    with pop_step_ok [OF ih(1,3)] ih(2,4,5) show ?thesis by auto
  qed
qed

lemma never_undefined:
  assumes "spsc_reachable ops q0 s" "inv q0"
  shows "op_push_step ops (sp_push s) (sp_queue s) \<noteq> None" "op_pop_step ops (sp_pop s) (sp_queue s) \<noteq> None"
  using push_step_ok pop_step_ok reachable_fifo [OF assms] by blast+

end

text \<open>A call left alone, for as many steps as it has accesses.\<close>

fun run_steps :: "nat \<Rightarrow> ('p \<Rightarrow> 'q \<Rightarrow> ('p \<times> 'q) defined) \<Rightarrow> 'p \<Rightarrow> 'q \<Rightarrow> ('p \<times> 'q) defined" where
  "run_steps 0 step p q = Some (p, q)"
| "run_steps (Suc n) step p q = do { (p, q) \<leftarrow> step p q; run_steps n step p q }"

text \<open>A schedule: who makes the next step.\<close>

datatype 'a spsc_choice = Call_Push 'a | Step_Push | Call_Pop | Step_Pop

fun spsc_do :: "('q, 'p, 'c, 'a) spsc_ops \<Rightarrow> 'a spsc_choice \<Rightarrow> ('q, 'p, 'c, 'a) spsc \<Rightarrow> ('q, 'p, 'c, 'a) spsc option" where
  "spsc_do ops (Call_Push x) s =
     (if op_push_done ops (sp_push s) then Some (s\<lparr>sp_push := op_push_start ops x (sp_queue s)\<rparr>) else None)"
| "spsc_do ops Step_Push s = (case op_push_step ops (sp_push s) (sp_queue s) of None \<Rightarrow> None
     | Some (p, q) \<Rightarrow> Some (s\<lparr>sp_push := p, sp_queue := q, sp_accepted := sp_accepted s @ op_push_adds ops (sp_push s),
         sp_refused := sp_refused s + op_push_drops ops (sp_push s)\<rparr>))"
| "spsc_do ops Call_Pop s =
     (if op_pop_done ops (sp_pop s) then Some (s\<lparr>sp_pop := op_pop_start ops (sp_queue s)\<rparr>) else None)"
| "spsc_do ops Step_Pop s = (case op_pop_step ops (sp_pop s) (sp_queue s) of None \<Rightarrow> None
     | Some (c, q) \<Rightarrow> Some (s\<lparr>sp_pop := c, sp_queue := q, sp_delivered := sp_delivered s @ op_pop_takes ops (sp_pop s)\<rparr>))"

fun spsc_schedule :: "('q, 'p, 'c, 'a) spsc_ops \<Rightarrow> 'a spsc_choice list \<Rightarrow> ('q, 'p, 'c, 'a) spsc \<Rightarrow> ('q, 'p, 'c, 'a) spsc option" where
  "spsc_schedule ops [] s = Some s"
| "spsc_schedule ops (x # xs) s = Option.bind (spsc_do ops x s) (spsc_schedule ops xs)"

lemma spsc_do_step: "spsc_do ops x s = Some s' \<Longrightarrow> spsc_step ops s s'"
  by (cases x) (auto split: if_splits option.splits intro: spsc_step.intros)

lemma schedule_reachable:
  "spsc_reachable ops q0 s \<Longrightarrow> spsc_schedule ops xs s = Some s' \<Longrightarrow> spsc_reachable ops q0 s'"
  by (induction xs arbitrary: s) (auto simp: bind_eq_Some_conv dest: spsc_do_step spsc_reachable.Next)

section \<open>Windows under interference\<close>

lemma used_less_pop:
  fixes r w cap :: u32
  assumes "unat (w - r) < n" "r \<noteq> w"
  shows "unat (w - (r + 1)) < n"
  using assms unat_diff_pop [of r w] by simp

lemma not_full_iff:
  fixes r w cap :: u32
  assumes "unat (w - r) \<le> unat cap"
  shows "w - r \<noteq> cap \<longleftrightarrow> unat (w - r) < unat cap"
  using assms by (auto simp: word_unat_eq_iff)

text \<open>The slot the producer fills is none that is occupied.\<close>

lemma free_slot_not_oldest:
  assumes "pow2_capacity cap" "unat (w - r) < unat cap" "r \<noteq> w"
  shows "slot cap w \<noteq> slot cap r"
proof -
  have "0 < unat (w - r)" using unat_diff_pop [OF assms(3)] by simp
  from slot_other [OF assms(1) this assms(2), of r] show ?thesis by simp
qed

section \<open>The byte ring\<close>

text \<open>\<open>lib_ringbuf_try_push\<close>: reading the write index, the check against the read index, then the drop count, or the
  byte and the write index.\<close>

datatype ring_pusher = Push_Done bool | Push_Check u8 u32 | Push_Drop | Push_Store u8 u32 | Push_Commit u8 u32

definition ring_push_start :: "u8 \<Rightarrow> lib_ringbuf \<Rightarrow> ring_pusher" where
  "ring_push_start byte r = Push_Check byte (rb_write_index r)"

fun ring_push_step :: "ring_pusher \<Rightarrow> lib_ringbuf \<Rightarrow> (ring_pusher \<times> lib_ringbuf) defined" where
  "ring_push_step (Push_Check byte write_index) r =
     Some (if write_index - rb_read_index r = rb_capacity r then Push_Drop else Push_Store byte write_index, r)"
| "ring_push_step Push_Drop r = Some (Push_Done False, r\<lparr>rb_dropped_count := rb_dropped_count r + 1\<rparr>)"
| "ring_push_step (Push_Store byte write_index) r = do {
     xs \<leftarrow> rb_storage r;
     xs \<leftarrow> array_write xs (unat (write_index AND rb_mask r)) byte;
     Some (Push_Commit byte write_index, r\<lparr>rb_storage := Some xs\<rparr>)
   }"
| "ring_push_step (Push_Commit byte write_index) r = Some (Push_Done True, r\<lparr>rb_write_index := write_index + 1\<rparr>)"
| "ring_push_step (Push_Done ok) r = Some (Push_Done ok, r)"

text \<open>\<open>lib_ringbuf_try_pop\<close>: reading the read index, the check against the write index, the byte, the read index.\<close>

datatype ring_popper = Pop_Done "u8 option" | Pop_Check u32 | Pop_Load u32 | Pop_Commit u32 u8

definition ring_pop_start :: "lib_ringbuf \<Rightarrow> ring_popper" where
  "ring_pop_start r = Pop_Check (rb_read_index r)"

fun ring_pop_step :: "ring_popper \<Rightarrow> lib_ringbuf \<Rightarrow> (ring_popper \<times> lib_ringbuf) defined" where
  "ring_pop_step (Pop_Check read_index) r =
     Some (if read_index = rb_write_index r then Pop_Done None else Pop_Load read_index, r)"
| "ring_pop_step (Pop_Load read_index) r = do {
     xs \<leftarrow> rb_storage r;
     v \<leftarrow> array_read xs (unat (read_index AND rb_mask r));
     Some (Pop_Commit read_index v, r)
   }"
| "ring_pop_step (Pop_Commit read_index v) r = Some (Pop_Done (Some v), r\<lparr>rb_read_index := read_index + 1\<rparr>)"
| "ring_pop_step (Pop_Done out) r = Some (Pop_Done out, r)"

definition ring_ops :: "(lib_ringbuf, ring_pusher, ring_popper, u8) spsc_ops" where
  "ring_ops = \<lparr>op_push_start = ring_push_start, op_push_step = ring_push_step,
     op_push_done = (\<lambda>p. case p of Push_Done _ \<Rightarrow> True | _ \<Rightarrow> False),
     op_push_adds = (\<lambda>p. case p of Push_Commit byte _ \<Rightarrow> [byte] | _ \<Rightarrow> []),
     op_push_drops = (\<lambda>p. case p of Push_Drop \<Rightarrow> 1 | _ \<Rightarrow> 0),
     op_pop_start = ring_pop_start, op_pop_step = ring_pop_step,
     op_pop_done = (\<lambda>c. case c of Pop_Done _ \<Rightarrow> True | _ \<Rightarrow> False),
     op_pop_takes = (\<lambda>c. case c of Pop_Commit _ v \<Rightarrow> [v] | _ \<Rightarrow> [])\<rparr>"

abbreviation ring_array :: "lib_ringbuf \<Rightarrow> u8 list" where
  "ring_array r \<equiv> the (rb_storage r)"

fun ring_push_ok :: "ring_pusher \<Rightarrow> lib_ringbuf \<Rightarrow> bool" where
  "ring_push_ok (Push_Done ok) r \<longleftrightarrow> True"
| "ring_push_ok (Push_Check byte w) r \<longleftrightarrow> w = rb_write_index r"
| "ring_push_ok Push_Drop r \<longleftrightarrow> True"
| "ring_push_ok (Push_Store byte w) r \<longleftrightarrow> w = rb_write_index r \<and> unat (w - rb_read_index r) < unat (rb_capacity r)"
| "ring_push_ok (Push_Commit byte w) r \<longleftrightarrow> w = rb_write_index r \<and> unat (w - rb_read_index r) < unat (rb_capacity r)
     \<and> ring_array r ! slot (rb_capacity r) w = byte"

fun ring_pop_ok :: "ring_popper \<Rightarrow> lib_ringbuf \<Rightarrow> bool" where
  "ring_pop_ok (Pop_Done out) r \<longleftrightarrow> True"
| "ring_pop_ok (Pop_Check i) r \<longleftrightarrow> i = rb_read_index r"
| "ring_pop_ok (Pop_Load i) r \<longleftrightarrow> i = rb_read_index r \<and> i \<noteq> rb_write_index r"
| "ring_pop_ok (Pop_Commit i v) r \<longleftrightarrow> i = rb_read_index r \<and> i \<noteq> rb_write_index r
     \<and> v = ring_array r ! slot (rb_capacity r) i"

lemma ring_push_step_ok:
  assumes inv: "ring_inv r" and ok: "ring_push_ok p r"
  shows "\<exists>p' r'. ring_push_step p r = Some (p', r') \<and> ring_inv r' \<and> ring_push_ok p' r'
      \<and> ring_contents r' = ring_contents r @ op_push_adds ring_ops p
      \<and> rb_dropped_count r' = rb_dropped_count r + of_nat (op_push_drops ring_ops p)
      \<and> (\<forall>c. ring_pop_ok c r \<longrightarrow> ring_pop_ok c r')"
proof -
  obtain xs where xs: "rb_storage r = Some xs" "unat (rb_capacity r) \<le> length xs" "pow2_capacity (rb_capacity r)"
    "rb_mask r = rb_capacity r - 1" "unat (rb_write_index r - rb_read_index r) \<le> unat (rb_capacity r)"
    by (rule ring_invE [OF inv])
  let ?c = "rb_capacity r" and ?w = "rb_write_index r" and ?r = "rb_read_index r"
  show ?thesis
  proof (cases p)
    case (Push_Done b)
    then show ?thesis using inv by (simp add: ring_ops_def)
  next
    case (Push_Check byte w)
    then have w: "w = ?w" using ok by simp
    show ?thesis using inv not_full_iff [OF xs(5)] by (auto simp: Push_Check w ring_ops_def)
  next
    case Push_Drop
    have "ring_pop_ok c (r\<lparr>rb_dropped_count := x\<rparr>) = ring_pop_ok c r" for c x by (cases c) simp_all
    moreover have "ring_inv (r\<lparr>rb_dropped_count := x\<rparr>) = ring_inv r"
      "ring_contents (r\<lparr>rb_dropped_count := x\<rparr>) = ring_contents r" for x
      by (simp_all add: ring_inv_def ring_contents_def)
    ultimately show ?thesis using inv by (simp add: Push_Drop ring_ops_def)
  next
    case (Push_Store byte w)
    then have w: "w = ?w" "unat (?w - ?r) < unat ?c" using ok by auto
    have slot: "slot ?c ?w < length xs" using xs by (intro slot_less_length)
    let ?r' = "r\<lparr>rb_storage := Some (xs[slot ?c ?w := byte])\<rparr>"
    have run: "ring_push_step p r = Some (Push_Commit byte ?w, ?r')"
      using xs slot by (simp add: Push_Store w(1) slot_def array_write_in)
    have "ring_contents ?r' = ring_contents r"
      using window_unused_slot [OF xs(3) w(2)] xs(1) by (simp add: ring_contents_def)
    moreover have "ring_inv ?r'" using inv xs by (simp add: ring_inv_def)
    moreover have "ring_pop_ok c ?r'" if "ring_pop_ok c r" for c
    proof (cases c)
      case (Pop_Commit i v)
      then show ?thesis using that free_slot_not_oldest [OF xs(3) w(2)] xs(1) by auto
    qed (use that in auto)
    ultimately show ?thesis using run w slot by (auto simp: Push_Store ring_ops_def)
  next
    case (Push_Commit byte w)
    then have w: "w = ?w" "unat (?w - ?r) < unat ?c" "xs ! slot ?c ?w = byte" using ok xs(1) by auto
    let ?r' = "r\<lparr>rb_write_index := ?w + 1\<rparr>"
    have suc: "unat (?w + 1 - ?r) = Suc (unat (?w - ?r))" by (rule unat_diff_Suc [OF w(2)])
    have "xs[slot ?c ?w := byte] = xs" using w(3) by (metis list_update_id)
    then have "ring_contents ?r' = ring_contents r @ [byte]"
      using window_push [OF xs(3) w(2) xs(2), of byte] xs(1) by (simp add: ring_contents_def)
    moreover have "ring_inv ?r'" using xs suc w(2) by (simp add: ring_inv_def)
    moreover have "ring_pop_ok c ?r'" if "ring_pop_ok c r" for c
    proof -
      have "?r \<noteq> ?w + 1" using suc by auto
      with that show ?thesis by (cases c) auto
    qed
    ultimately show ?thesis by (simp add: Push_Commit w(1) ring_ops_def)
  qed
qed

lemma ring_pop_step_ok:
  assumes inv: "ring_inv r" and ok: "ring_pop_ok c r"
  shows "\<exists>c' r'. ring_pop_step c r = Some (c', r') \<and> ring_inv r' \<and> ring_pop_ok c' r'
      \<and> ring_contents r = op_pop_takes ring_ops c @ ring_contents r' \<and> rb_dropped_count r' = rb_dropped_count r
      \<and> (\<forall>p. ring_push_ok p r \<longrightarrow> ring_push_ok p r')"
proof -
  obtain xs where xs: "rb_storage r = Some xs" "unat (rb_capacity r) \<le> length xs" "pow2_capacity (rb_capacity r)"
    "rb_mask r = rb_capacity r - 1" "unat (rb_write_index r - rb_read_index r) \<le> unat (rb_capacity r)"
    by (rule ring_invE [OF inv])
  let ?c = "rb_capacity r" and ?w = "rb_write_index r" and ?r = "rb_read_index r"
  show ?thesis
  proof (cases c)
    case (Pop_Done out)
    then show ?thesis using inv by (simp add: ring_ops_def)
  next
    case (Pop_Check i)
    then show ?thesis using inv ok by (simp add: ring_ops_def)
  next
    case (Pop_Load i)
    then have i: "i = ?r" "?r \<noteq> ?w" using ok by auto
    have "slot ?c ?r < length xs" using xs by (intro slot_less_length)
    then have "ring_pop_step c r = Some (Pop_Commit ?r (xs ! slot ?c ?r), r)"
      using xs by (simp add: Pop_Load i(1) slot_def array_read_in)
    then show ?thesis using inv i xs(1) by (simp add: Pop_Load ring_ops_def)
  next
    case (Pop_Commit i v)
    then have i: "i = ?r" "?r \<noteq> ?w" "v = xs ! slot ?c ?r" using ok xs(1) by auto
    let ?r' = "r\<lparr>rb_read_index := ?r + 1\<rparr>"
    have "ring_contents r = [v] @ ring_contents ?r'"
      using window_pop [OF i(2), of xs ?c] xs(1) i(3) by (simp add: ring_contents_def)
    moreover have "ring_inv ?r'" using xs unat_diff_pop [OF i(2)] by (simp add: ring_inv_def)
    moreover have "ring_push_ok p ?r'" if "ring_push_ok p r" for p
      using that used_less_pop [of ?w ?r "unat ?c"] i(2) by (cases p) auto
    ultimately show ?thesis by (simp add: Pop_Commit i(1) ring_ops_def)
  qed
qed

interpretation ring_spsc: spsc_queue ring_ops ring_inv ring_contents rb_dropped_count ring_push_ok ring_pop_ok
proof
  show "op_push_done ring_ops p \<Longrightarrow> ring_push_ok p r" for p r by (cases p) (simp_all add: ring_ops_def)
  show "op_pop_done ring_ops c \<Longrightarrow> ring_pop_ok c r" for c r by (cases c) (simp_all add: ring_ops_def)
  show "ring_push_ok (op_push_start ring_ops x r) r" for x r by (simp add: ring_ops_def ring_push_start_def)
  show "ring_pop_ok (op_pop_start ring_ops r) r" for r by (simp add: ring_ops_def ring_pop_start_def)
qed (use ring_push_step_ok ring_pop_step_ok in \<open>simp_all add: ring_ops_def\<close>)

lemma ring_push_alone:
  "run_steps 3 ring_push_step (ring_push_start byte r) r = do { (ok, r) \<leftarrow> ring_push r byte; Some (Push_Done ok, r) }"
  by (auto simp: numeral_3_eq_3 ring_push_start_def ring_push_def lib_ringbuf_try_push_def Let_def bind_assoc
      split: Option.bind_splits)

lemma ring_pop_alone:
  "run_steps 3 ring_pop_step (ring_pop_start r) r = do { (out, r) \<leftarrow> ring_pop r; Some (Pop_Done out, r) }"
  by (auto simp: numeral_3_eq_3 ring_pop_start_def ring_pop_def lib_ringbuf_try_pop_def Let_def bind_assoc
      split: Option.bind_splits)

section \<open>The command queue\<close>

text \<open>\<open>lib_regmap_command_queue_enqueue\<close>: both indices are read before anything is checked, so the check may see an old
  read index; the two fields of the command are stored one after the other.\<close>

datatype enqueuer = Enq_Done bool | Enq_Read u16 u8 u32 | Enq_Check u16 u8 u32 u32 | Enq_Drop | Enq_Address u16 u8 u32
  | Enq_Value u16 u8 u32 | Enq_Commit u16 u8 u32

definition enq_start :: "lib_regmap_command \<Rightarrow> lib_regmap_command_queue \<Rightarrow> enqueuer" where
  "enq_start command q = Enq_Read (cmd_address command) (cmd_value command) (cq_write_index q)"

definition store_field :: "(lib_regmap_command \<Rightarrow> lib_regmap_command) \<Rightarrow> u32 \<Rightarrow> lib_regmap_command_queue
    \<Rightarrow> lib_regmap_command_queue defined" where
  "store_field f write_index q = do {
     xs \<leftarrow> cq_storage q;
     let i = unat (write_index AND (cq_capacity q - 1));
     c \<leftarrow> array_read xs i;
     xs \<leftarrow> array_write xs i (f c);
     Some (q\<lparr>cq_storage := Some xs\<rparr>)
   }"

fun enq_step :: "enqueuer \<Rightarrow> lib_regmap_command_queue \<Rightarrow> (enqueuer \<times> lib_regmap_command_queue) defined" where
  "enq_step (Enq_Read address v write_index) q = Some (Enq_Check address v write_index (cq_read_index q), q)"
| "enq_step (Enq_Check address v write_index read_index) q =
     Some (if cq_storage q = None \<or> \<not> lib_regmap_is_power_of_two (cq_capacity q) then Enq_Done False
           else if write_index - read_index \<ge> cq_capacity q then Enq_Drop
           else Enq_Address address v write_index, q)"
| "enq_step Enq_Drop q = Some (Enq_Done False, q\<lparr>cq_dropped_count := cq_dropped_count q + 1\<rparr>)"
| "enq_step (Enq_Address address v write_index) q = do {
     q \<leftarrow> store_field (cmd_address_update (\<lambda>_. address)) write_index q;
     Some (Enq_Value address v write_index, q)
   }"
| "enq_step (Enq_Value address v write_index) q = do {
     q \<leftarrow> store_field (cmd_value_update (\<lambda>_. v)) write_index q;
     Some (Enq_Commit address v write_index, q)
   }"
| "enq_step (Enq_Commit address v write_index) q = Some (Enq_Done True, q\<lparr>cq_write_index := write_index + 1\<rparr>)"
| "enq_step (Enq_Done ok) q = Some (Enq_Done ok, q)"

text \<open>\<open>lib_regmap_command_queue_try_pop\<close>: the check may see an old write index.\<close>

datatype dequeuer = Deq_Done "lib_regmap_command option" | Deq_Read u32 | Deq_Check u32 u32 | Deq_Load u32
  | Deq_Commit u32 lib_regmap_command

definition deq_start :: "lib_regmap_command_queue \<Rightarrow> dequeuer" where
  "deq_start q = Deq_Read (cq_read_index q)"

fun deq_step :: "dequeuer \<Rightarrow> lib_regmap_command_queue \<Rightarrow> (dequeuer \<times> lib_regmap_command_queue) defined" where
  "deq_step (Deq_Read read_index) q = Some (Deq_Check read_index (cq_write_index q), q)"
| "deq_step (Deq_Check read_index write_index) q =
     Some (if cq_storage q = None \<or> \<not> lib_regmap_is_power_of_two (cq_capacity q) \<or> read_index = write_index
           then Deq_Done None else Deq_Load read_index, q)"
| "deq_step (Deq_Load read_index) q = do {
     xs \<leftarrow> cq_storage q;
     c \<leftarrow> array_read xs (unat (read_index AND (cq_capacity q - 1)));
     Some (Deq_Commit read_index c, q)
   }"
| "deq_step (Deq_Commit read_index c) q = Some (Deq_Done (Some c), q\<lparr>cq_read_index := read_index + 1\<rparr>)"
| "deq_step (Deq_Done out) q = Some (Deq_Done out, q)"

definition command_ops :: "(lib_regmap_command_queue, enqueuer, dequeuer, lib_regmap_command) spsc_ops" where
  "command_ops = \<lparr>op_push_start = enq_start, op_push_step = enq_step,
     op_push_done = (\<lambda>p. case p of Enq_Done _ \<Rightarrow> True | _ \<Rightarrow> False),
     op_push_adds = (\<lambda>p. case p of Enq_Commit address v _ \<Rightarrow> [\<lparr>cmd_address = address, cmd_value = v\<rparr>] | _ \<Rightarrow> []),
     op_push_drops = (\<lambda>p. case p of Enq_Drop \<Rightarrow> 1 | _ \<Rightarrow> 0),
     op_pop_start = deq_start, op_pop_step = deq_step,
     op_pop_done = (\<lambda>c. case c of Deq_Done _ \<Rightarrow> True | _ \<Rightarrow> False),
     op_pop_takes = (\<lambda>c. case c of Deq_Commit _ v \<Rightarrow> [v] | _ \<Rightarrow> [])\<rparr>"

definition cq_used :: "lib_regmap_command_queue \<Rightarrow> nat" where
  "cq_used q = unat (cq_write_index q - cq_read_index q)"

abbreviation cq_slot :: "lib_regmap_command_queue \<Rightarrow> u32 \<Rightarrow> lib_regmap_command" where
  "cq_slot q i \<equiv> the (cq_storage q) ! slot (cq_capacity q) i"

fun enq_ok :: "enqueuer \<Rightarrow> lib_regmap_command_queue \<Rightarrow> bool" where
  "enq_ok (Enq_Done ok) q \<longleftrightarrow> True"
| "enq_ok (Enq_Read a v w) q \<longleftrightarrow> w = cq_write_index q"
| "enq_ok (Enq_Check a v w r) q \<longleftrightarrow> w = cq_write_index q \<and> cq_used q \<le> unat (w - r)"
| "enq_ok Enq_Drop q \<longleftrightarrow> True"
| "enq_ok (Enq_Address a v w) q \<longleftrightarrow> w = cq_write_index q \<and> cq_used q < unat (cq_capacity q)"
| "enq_ok (Enq_Value a v w) q \<longleftrightarrow> w = cq_write_index q \<and> cq_used q < unat (cq_capacity q)
     \<and> cmd_address (cq_slot q w) = a"
| "enq_ok (Enq_Commit a v w) q \<longleftrightarrow> w = cq_write_index q \<and> cq_used q < unat (cq_capacity q)
     \<and> cq_slot q w = \<lparr>cmd_address = a, cmd_value = v\<rparr>"

fun deq_ok :: "dequeuer \<Rightarrow> lib_regmap_command_queue \<Rightarrow> bool" where
  "deq_ok (Deq_Done out) q \<longleftrightarrow> True"
| "deq_ok (Deq_Read r) q \<longleftrightarrow> r = cq_read_index q"
| "deq_ok (Deq_Check r w) q \<longleftrightarrow> r = cq_read_index q \<and> unat (w - r) \<le> cq_used q"
| "deq_ok (Deq_Load r) q \<longleftrightarrow> r = cq_read_index q \<and> r \<noteq> cq_write_index q"
| "deq_ok (Deq_Commit r c) q \<longleftrightarrow> r = cq_read_index q \<and> r \<noteq> cq_write_index q \<and> c = cq_slot q r"

lemma stored_field:
  assumes inv: "cq_inv q" and free: "cq_used q < unat (cq_capacity q)"
  obtains q' where "store_field f (cq_write_index q) q = Some q'" "cq_inv q'" "cq_contents q' = cq_contents q"
    "cq_slot q' (cq_write_index q) = f (cq_slot q (cq_write_index q))" "cq_capacity q' = cq_capacity q"
    "cq_write_index q' = cq_write_index q" "cq_used q' = cq_used q" "cq_dropped_count q' = cq_dropped_count q"
    "\<And>c. deq_ok c q \<Longrightarrow> deq_ok c q'"
proof -
  obtain xs where xs: "cq_storage q = Some xs" "unat (cq_capacity q) \<le> length xs" "pow2_capacity (cq_capacity q)"
    "unat (cq_write_index q - cq_read_index q) \<le> unat (cq_capacity q)"
    by (rule cq_invE [OF inv])
  let ?c = "cq_capacity q" and ?w = "cq_write_index q" and ?r = "cq_read_index q"
  have free': "unat (?w - ?r) < unat ?c" using free by (simp add: cq_used_def)
  have slot: "slot ?c ?w < length xs" using xs by (intro slot_less_length)
  let ?q = "q\<lparr>cq_storage := Some (xs[slot ?c ?w := f (xs ! slot ?c ?w)])\<rparr>"
  have "store_field f ?w q = Some ?q"
    using xs(1) slot by (simp add: store_field_def slot_def array_read_in array_write_in Let_def)
  moreover have "cq_inv ?q" using inv xs(1) by (simp add: cq_inv_def)
  moreover have "cq_contents ?q = cq_contents q"
    using window_unused_slot [OF xs(3) free'] xs(1) by (simp add: cq_contents_def)
  moreover have "deq_ok c ?q" if "deq_ok c q" for c
    using that free_slot_not_oldest [OF xs(3) free'] xs(1) by (cases c) (auto simp: cq_used_def)
  ultimately show thesis using that [of ?q] slot xs(1) by (simp add: cq_used_def)
qed

lemma enq_step_ok:
  assumes inv: "cq_inv q" and ok: "enq_ok p q"
  shows "\<exists>p' q'. enq_step p q = Some (p', q') \<and> cq_inv q' \<and> enq_ok p' q'
      \<and> cq_contents q' = cq_contents q @ op_push_adds command_ops p
      \<and> cq_dropped_count q' = cq_dropped_count q + of_nat (op_push_drops command_ops p)
      \<and> (\<forall>c. deq_ok c q \<longrightarrow> deq_ok c q')"
proof -
  obtain xs where xs: "cq_storage q = Some xs" "unat (cq_capacity q) \<le> length xs" "pow2_capacity (cq_capacity q)"
    "unat (cq_write_index q - cq_read_index q) \<le> unat (cq_capacity q)"
    by (rule cq_invE [OF inv])
  let ?c = "cq_capacity q" and ?w = "cq_write_index q" and ?r = "cq_read_index q"
  show ?thesis
  proof (cases p)
    case (Enq_Done b)
    then show ?thesis using inv by (simp add: command_ops_def)
  next
    case (Enq_Read a v w)
    then show ?thesis using inv ok by (simp add: command_ops_def cq_used_def)
  next
    case (Enq_Check a v w r)
    then show ?thesis using inv ok xs(1,3) by (auto simp: command_ops_def not_le word_less_nat_alt)
  next
    case Enq_Drop
    have "deq_ok c (q\<lparr>cq_dropped_count := x\<rparr>) = deq_ok c q" for c x by (cases c) (simp_all add: cq_used_def)
    moreover have "cq_inv (q\<lparr>cq_dropped_count := x\<rparr>) = cq_inv q"
      "cq_contents (q\<lparr>cq_dropped_count := x\<rparr>) = cq_contents q" for x
      by (simp_all add: cq_inv_def cq_contents_def)
    ultimately show ?thesis using inv by (simp add: Enq_Drop command_ops_def)
  next
    case (Enq_Address a v w)
    then have w: "w = ?w" and free: "cq_used q < unat ?c" using ok by auto
    show ?thesis
      by (rule stored_field [OF inv free, of "cmd_address_update (\<lambda>_. a)"])
        (use free in \<open>simp add: Enq_Address w command_ops_def\<close>)
  next
    case (Enq_Value a v w)
    then have w: "w = ?w" and free: "cq_used q < unat ?c" and address: "cmd_address (cq_slot q ?w) = a" using ok by auto
    have whole: "(cq_slot q ?w)\<lparr>cmd_value := v\<rparr> = \<lparr>cmd_address = a, cmd_value = v\<rparr>"
      using address by (cases "cq_slot q ?w") simp
    show ?thesis
      by (rule stored_field [OF inv free, of "cmd_value_update (\<lambda>_. v)"])
        (use free whole in \<open>simp add: Enq_Value w command_ops_def\<close>)
  next
    case (Enq_Commit a v w)
    then have w: "w = ?w" "unat (?w - ?r) < unat ?c" "xs ! slot ?c ?w = \<lparr>cmd_address = a, cmd_value = v\<rparr>"
      using ok xs(1) by (auto simp: cq_used_def)
    let ?x = "\<lparr>cmd_address = a, cmd_value = v\<rparr>" and ?q' = "q\<lparr>cq_write_index := ?w + 1\<rparr>"
    have suc: "unat (?w + 1 - ?r) = Suc (unat (?w - ?r))" by (rule unat_diff_Suc [OF w(2)])
    have "xs[slot ?c ?w := ?x] = xs" using w(3) by (metis list_update_id)
    then have "cq_contents ?q' = cq_contents q @ [?x]"
      using window_push [OF xs(3) w(2) xs(2), of ?x] xs(1) by (simp add: cq_contents_def)
    moreover have "cq_inv ?q'" using xs suc w(2) by (simp add: cq_inv_def)
    moreover have "deq_ok c ?q'" if "deq_ok c q" for c
    proof -
      have "?r \<noteq> ?w + 1" using suc by auto
      with that suc show ?thesis by (cases c) (auto simp: cq_used_def)
    qed
    ultimately show ?thesis by (simp add: Enq_Commit w(1) command_ops_def)
  qed
qed

lemma deq_step_ok:
  assumes inv: "cq_inv q" and ok: "deq_ok c q"
  shows "\<exists>c' q'. deq_step c q = Some (c', q') \<and> cq_inv q' \<and> deq_ok c' q'
      \<and> cq_contents q = op_pop_takes command_ops c @ cq_contents q' \<and> cq_dropped_count q' = cq_dropped_count q
      \<and> (\<forall>p. enq_ok p q \<longrightarrow> enq_ok p q')"
proof -
  obtain xs where xs: "cq_storage q = Some xs" "unat (cq_capacity q) \<le> length xs" "pow2_capacity (cq_capacity q)"
    "unat (cq_write_index q - cq_read_index q) \<le> unat (cq_capacity q)"
    by (rule cq_invE [OF inv])
  let ?c = "cq_capacity q" and ?w = "cq_write_index q" and ?r = "cq_read_index q"
  show ?thesis
  proof (cases c)
    case (Deq_Done out)
    then show ?thesis using inv by (simp add: command_ops_def)
  next
    case (Deq_Read r)
    then show ?thesis using inv ok by (simp add: command_ops_def cq_used_def)
  next
    case (Deq_Check r w)
    then have r: "r = ?r" "unat (w - ?r) \<le> unat (?w - ?r)" using ok by (auto simp: cq_used_def)
    have "?r \<noteq> ?w" if "?r \<noteq> w"
    proof
      assume "?r = ?w"
      then have "unat (w - ?r) = 0" using r(2) by simp
      then show False using that by (simp add: unat_eq_0)
    qed
    then show ?thesis using inv xs(1,3) by (auto simp: Deq_Check r(1) command_ops_def)
  next
    case (Deq_Load r)
    then have r: "r = ?r" "?r \<noteq> ?w" using ok by auto
    have "slot ?c ?r < length xs" using xs by (intro slot_less_length)
    then have "deq_step c q = Some (Deq_Commit ?r (xs ! slot ?c ?r), q)"
      using xs(1) by (simp add: Deq_Load r(1) slot_def array_read_in)
    then show ?thesis using inv r xs(1) by (simp add: Deq_Load command_ops_def)
  next
    case (Deq_Commit r x)
    then have r: "r = ?r" "?r \<noteq> ?w" "x = xs ! slot ?c ?r" using ok xs(1) by auto
    let ?q' = "q\<lparr>cq_read_index := ?r + 1\<rparr>"
    have "cq_contents q = [x] @ cq_contents ?q'"
      using window_pop [OF r(2), of xs ?c] xs(1) r(3) by (simp add: cq_contents_def)
    moreover have "cq_inv ?q'" using xs unat_diff_pop [OF r(2)] by (simp add: cq_inv_def)
    moreover have "enq_ok p ?q'" if "enq_ok p q" for p
      using that unat_diff_pop [OF r(2)] by (cases p) (auto simp: cq_used_def)
    ultimately show ?thesis by (simp add: Deq_Commit r(1) command_ops_def)
  qed
qed

interpretation command_spsc: spsc_queue command_ops cq_inv cq_contents cq_dropped_count enq_ok deq_ok
proof
  show "op_push_done command_ops p \<Longrightarrow> enq_ok p q" for p q by (cases p) (simp_all add: command_ops_def)
  show "op_pop_done command_ops c \<Longrightarrow> deq_ok c q" for c q by (cases c) (simp_all add: command_ops_def)
  show "enq_ok (op_push_start command_ops x q) q" for x q by (simp add: command_ops_def enq_start_def)
  show "deq_ok (op_pop_start command_ops q) q" for q by (simp add: command_ops_def deq_start_def)
qed (use enq_step_ok deq_step_ok in \<open>simp_all add: command_ops_def\<close>)

lemma enq_alone:
  "run_steps 5 enq_step (enq_start command q) q = do { (ok, q) \<leftarrow> cq_push q command; Some (Enq_Done ok, q) }"
proof (cases "cq_storage q")
  case None
  then show ?thesis
    by (simp add: eval_nat_numeral enq_start_def cq_push_def lib_regmap_command_queue_enqueue_def)
next
  case (Some xs)
  let ?i = "unat (cq_write_index q AND (cq_capacity q - 1))"
  show ?thesis
    by (cases "?i < length xs")
      (auto simp: Some eval_nat_numeral enq_start_def cq_push_def lib_regmap_command_queue_enqueue_def Let_def
        store_field_def array_read_def array_write_def)
qed

lemma deq_alone:
  "run_steps 4 deq_step (deq_start q) q = do { (out, q) \<leftarrow> cq_pop q; Some (Deq_Done out, q) }"
proof (cases "cq_storage q")
  case None
  then show ?thesis
    by (simp add: eval_nat_numeral deq_start_def cq_pop_def lib_regmap_command_queue_try_pop_def)
next
  case (Some xs)
  then show ?thesis
    by (auto simp: eval_nat_numeral deq_start_def cq_pop_def lib_regmap_command_queue_try_pop_def Let_def
        split: Option.bind_splits)
qed

section \<open>Properties\<close>

text \<open>C6. The byte ring is first in, first out under preemption. However one producer and one consumer preempt each
  other between their accesses, through any wrap of the indices: the bytes held at the start followed by those accepted
  are, in order, those delivered followed by those still held; the bytes held never exceed the capacity, every refused
  push is counted, and no access is out of bounds.\<close>

theorem ring_fifo_under_preemption:
  assumes "spsc_reachable ring_ops r s" "ring_inv r"
  shows "ring_contents r @ sp_accepted s = sp_delivered s @ ring_contents (sp_queue s)
    \<and> ring_inv (sp_queue s) \<and> rb_dropped_count (sp_queue s) = rb_dropped_count r + of_nat (sp_refused s)
    \<and> ring_push_step (sp_push s) (sp_queue s) \<noteq> None \<and> ring_pop_step (sp_pop s) (sp_queue s) \<noteq> None"
  using ring_spsc.reachable_fifo [OF assms] ring_spsc.never_undefined [OF assms] by (simp add: ring_ops_def)

text \<open>The producer finds the full ring of two no longer full, because the consumer takes a byte between its call and
  its check; the consumer's next call finds the byte before the producer has finished.\<close>

theorem ring_fifo_under_preemption_witness:
  "\<exists>s. spsc_schedule ring_ops [Call_Pop, Step_Pop, Call_Push 9, Step_Pop, Step_Pop, Step_Push, Step_Push, Call_Pop, Step_Pop,
      Step_Push] \<lparr>sp_queue = demo_ring, sp_push = Push_Done True, sp_pop = Pop_Done None, sp_accepted = [],
        sp_delivered = [], sp_refused = 0\<rparr> = Some s
    \<and> sp_accepted s = [9] \<and> sp_delivered s = [8] \<and> ring_contents (sp_queue s) = [7, 9]"
proof -
  let ?s0 = "\<lparr>sp_queue = demo_ring, sp_push = Push_Done True, sp_pop = Pop_Done None, sp_accepted = [],
        sp_delivered = [], sp_refused = 0\<rparr>"
  let ?xs = "[Call_Pop, Step_Pop, Call_Push 9, Step_Pop, Step_Pop, Step_Push, Step_Push, Call_Pop, Step_Pop, Step_Push]"
  obtain s where s: "spsc_schedule ring_ops ?xs ?s0 = Some s" "sp_accepted s = [9]" "sp_delivered s = [8]"
    by (simp add: ring_ops_def demo_ring_def ring_push_start_def ring_pop_start_def array_read_def array_write_def)
  have "spsc_reachable ring_ops demo_ring ?s0" by (rule spsc_reachable.Rest) (simp_all add: ring_ops_def)
  from ring_fifo_under_preemption [OF schedule_reachable [OF this s(1)] demo_ring_inv]
  have "ring_contents (sp_queue s) = [7, 9]" using s(2,3) by (simp add: demo_ring_contents)
  with s show ?thesis by blast
qed

text \<open>C7. The command queue is first in, first out under preemption, although each side checks against an index of the
  other that may be old by then, and a command is stored field by field: the commands held at the start followed by
  those accepted are, in order and whole, those delivered followed by those still held; every refused command is
  counted, and no access is out of bounds.\<close>

theorem commands_fifo_under_preemption:
  assumes "spsc_reachable command_ops q s" "cq_inv q"
  shows "cq_contents q @ sp_accepted s = sp_delivered s @ cq_contents (sp_queue s)
    \<and> cq_inv (sp_queue s) \<and> cq_dropped_count (sp_queue s) = cq_dropped_count q + of_nat (sp_refused s)
    \<and> enq_step (sp_push s) (sp_queue s) \<noteq> None \<and> deq_step (sp_pop s) (sp_queue s) \<noteq> None"
  using command_spsc.reachable_fifo [OF assms] command_spsc.never_undefined [OF assms] by (simp add: command_ops_def)

definition demo_commands :: lib_regmap_command_queue where
  "demo_commands = \<lparr>cq_storage = Some [\<lparr>cmd_address = 5, cmd_value = 6\<rparr>], cq_capacity = 1, cq_write_index = 1,
     cq_read_index = 0, cq_dropped_count = 0\<rparr>"

text \<open>A queue of one command, full: the producer reads the index, the consumer takes the command, and the producer, which
  saw the old index, refuses its command and counts it.\<close>

theorem commands_fifo_under_preemption_witness:
  "\<exists>s. spsc_schedule command_ops [Call_Push \<lparr>cmd_address = 3, cmd_value = 4\<rparr>, Step_Push, Call_Pop, Step_Pop, Step_Pop,
      Step_Pop, Step_Pop, Step_Push, Step_Push] \<lparr>sp_queue = demo_commands, sp_push = Enq_Done True, sp_pop = Deq_Done None,
        sp_accepted = [], sp_delivered = [], sp_refused = 0\<rparr> = Some s
    \<and> sp_delivered s = [\<lparr>cmd_address = 5, cmd_value = 6\<rparr>] \<and> cq_contents (sp_queue s) = []
    \<and> cq_dropped_count (sp_queue s) = 1"
proof -
  let ?s0 = "\<lparr>sp_queue = demo_commands, sp_push = Enq_Done True, sp_pop = Deq_Done None,
        sp_accepted = [], sp_delivered = [], sp_refused = 0\<rparr>"
  let ?xs = "[Call_Push \<lparr>cmd_address = 3, cmd_value = 4\<rparr>, Step_Push, Call_Pop, Step_Pop, Step_Pop, Step_Pop, Step_Pop, Step_Push, Step_Push]"
  obtain s where s: "spsc_schedule command_ops ?xs ?s0 = Some s" "sp_accepted s = []"
    "sp_delivered s = [\<lparr>cmd_address = 5, cmd_value = 6\<rparr>]" "sp_refused s = 1"
    by (simp add: command_ops_def demo_commands_def enq_start_def deq_start_def array_read_def pow2_capacity_iff)
  have "cq_contents demo_commands = [\<lparr>cmd_address = 5, cmd_value = 6\<rparr>]" "cq_inv demo_commands"
    by (simp_all add: demo_commands_def cq_contents_def window_def slot_def cq_inv_def pow2_capacity_iff)
  moreover have "spsc_reachable command_ops demo_commands ?s0" by (rule spsc_reachable.Rest) (simp_all add: command_ops_def)
  ultimately have "cq_contents (sp_queue s) = []" "cq_dropped_count (sp_queue s) = cq_dropped_count demo_commands + 1"
    using commands_fifo_under_preemption [OF schedule_reachable [OF _ s(1)], of demo_commands] s(2-4) by auto
  with s show ?thesis by (auto simp: demo_commands_def)
qed

text \<open>The steps are the calls: a push, a pop, an enqueue or a dequeue that nothing preempts runs to the result and the
  queue that the call of the source gives, undefined behaviour included, in the three, five or four accesses it has.\<close>

theorem preemptible_steps_are_calls:
  "run_steps 3 ring_push_step (ring_push_start byte r) r = do { (ok, r) \<leftarrow> ring_push r byte; Some (Push_Done ok, r) }
    \<and> run_steps 3 ring_pop_step (ring_pop_start r) r = do { (out, r) \<leftarrow> ring_pop r; Some (Pop_Done out, r) }
    \<and> run_steps 5 enq_step (enq_start command q) q = do { (ok, q) \<leftarrow> cq_push q command; Some (Enq_Done ok, q) }
    \<and> run_steps 4 deq_step (deq_start q) q = do { (out, q) \<leftarrow> cq_pop q; Some (Deq_Done out, q) }"
  by (intro conjI ring_push_alone ring_pop_alone enq_alone deq_alone)

end
