(* ===== verification/Snapshot_Concurrent.thy ===== *)
theory Snapshot_Concurrent
  imports Snapshot
begin

text \<open>
  The publish of \<open>Snapshot\<close> taken apart at the points where the I2C interrupt can come in: the
  main loop runs one access at a time (the load of the state word, each byte of the copy, each
  compare-and-exchange), and between any two of them the interrupt may acquire or release the
  snapshot, each as a whole because the main loop does not preempt it. Publishers do not race.
\<close>

section \<open>The publisher, one access at a time\<close>

text \<open>\<open>Pub_Copy\<close> and \<open>Pub_Exchange\<close> hold the locals of \<open>lib_regmap_snapshot_publish\<close>: the length, the
  last observed state word, the inactive index, the loop index and the caller's data.\<close>

datatype publisher =
    Pub_Copy u16 u32 u8 nat "u8 list"
  | Pub_Exchange u16 u32 u8 "u8 list"
  | Pub_Done bool

definition publish_start ::
  "u8 list \<Rightarrow> u16 \<Rightarrow> lib_regmap_snapshot \<Rightarrow> publisher \<times> lib_regmap_snapshot" where
  "publish_start d n s =
     (if \<not> lib_regmap_snapshot_is_valid (Some s) \<or> n \<noteq> sn_length s then (Pub_Done False, s)
      else
        let state = sn_state s;
            inactive = inactive_index state in
        if lib_regmap_snapshot_reader_count state inactive \<noteq> 0
        then (Pub_Done False, lib_regmap_snapshot_note_publish_rejected s)
        else (Pub_Copy n state inactive 0 d, s))"

fun publish_step ::
  "publisher \<Rightarrow> lib_regmap_snapshot \<Rightarrow> (publisher \<times> lib_regmap_snapshot) defined" where
  "publish_step (Pub_Copy n state inactive index d) s =
     (if index < unat n
      then do {
        v \<leftarrow> array_read d index;
        pointer \<leftarrow> array_read (sn_buffers s) (unat inactive);
        buffer \<leftarrow> pointer;
        buffer \<leftarrow> array_write buffer index v;
        Some (Pub_Copy n state inactive (Suc index) d,
              s\<lparr>sn_buffers := (sn_buffers s)[unat inactive := Some buffer]\<rparr>)
      }
      else Some (Pub_Exchange n state inactive d, s))"
| "publish_step (Pub_Exchange n state inactive d) s =
     (if inactive_index state \<noteq> inactive
      then Some (Pub_Done False, lib_regmap_snapshot_note_publish_rejected s)
      else
        let desired = state XOR snapshot_active_mask;
            (exchanged, object, state) = c11_compare_exchange (sn_state s) state desired
        in Some (if exchanged then Pub_Done True else Pub_Exchange n state inactive d,
                 s\<lparr>sn_state := object\<rparr>))"
| "publish_step (Pub_Done ok) s = Some (Pub_Done ok, s)"

section \<open>The interleaving\<close>

text \<open>
  The shared snapshot, the publisher, the read transactions in progress (each with its buffer and
  the image it saw when it acquired the snapshot) and the data whose publish succeeded so far,
  newest first; the last two are for the proof only, no operation reads them.
\<close>

record conc =
  snap :: lib_regmap_snapshot
  pub :: publisher
  holders :: "(u8 \<times> u8 list) list"
  history :: "u8 list list"

fun note_published :: "publisher \<Rightarrow> publisher \<Rightarrow> u8 list list \<Rightarrow> u8 list list" where
  "note_published (Pub_Exchange n state inactive d) (Pub_Done True) h = take (unat n) d # h"
| "note_published _ _ h = h"

inductive conc_step :: "conc \<Rightarrow> conc \<Rightarrow> bool" where
  Start: "pub c = Pub_Done ok \<Longrightarrow> unat n \<le> length d \<Longrightarrow> publish_start d n (snap c) = (p, s) \<Longrightarrow>
    conc_step c (c\<lparr>pub := p, snap := s\<rparr>)"
| Publisher: "publish_step (pub c) (snap c) = Some (p, s) \<Longrightarrow>
    conc_step c (c\<lparr>pub := p, snap := s,
      history := note_published (pub c) p (history c)\<rparr>)"
| Acquire: "lib_regmap_snapshot_acquire (Some (snap c)) (Some old) = (True, Some s, Some b) \<Longrightarrow>
    conc_step c (c\<lparr>snap := s, holders := (b, snapshot_image s b) # holders c\<rparr>)"
| Release: "holders c = hs @ (b, img) # hs' \<Longrightarrow>
    lib_regmap_snapshot_release (Some (snap c)) b = Some s \<Longrightarrow>
    conc_step c (c\<lparr>snap := s, holders := hs @ hs'\<rparr>)"

inductive conc_reachable :: "lib_regmap_snapshot \<Rightarrow> conc \<Rightarrow> bool" for s0 where
  Init: "conc_reachable s0 \<lparr>snap = s0, pub = Pub_Done True, holders = [], history = [published s0]\<rparr>"
| Step: "conc_reachable s0 c \<Longrightarrow> conc_step c c' \<Longrightarrow> conc_reachable s0 c'"

section \<open>The invariant\<close>

definition held_on :: "(u8 \<times> u8 list) list \<Rightarrow> u8 \<Rightarrow> nat" where
  "held_on hs b = length (filter (\<lambda>h. fst h = b) hs)"

lemma held_on_simps [simp]:
  "held_on [] b = 0"
  "held_on (h # hs) b = (if fst h = b then Suc (held_on hs b) else held_on hs b)"
  "held_on (hs @ hs') b = held_on hs b + held_on hs' b"
  by (simp_all add: held_on_def)

lemma held_on_pos: "(b, img) \<in> set hs \<Longrightarrow> 0 < held_on hs b"
  by (induction hs) auto

text \<open>While it copies, the publisher owns the inactive buffer: nobody reads it, the active index is
  still the one it saw, and what it has copied so far is there.\<close>

fun publisher_ok :: "publisher \<Rightarrow> lib_regmap_snapshot \<Rightarrow> bool" where
  "publisher_ok (Pub_Copy n state inactive index d) s \<longleftrightarrow>
     n = sn_length s \<and> unat n \<le> length d \<and> index \<le> unat n
     \<and> active_index state = active_index (sn_state s) \<and> inactive = inactive_index (sn_state s)
     \<and> readers (sn_state s) inactive = 0
     \<and> take index (snapshot_image s inactive) = take index d"
| "publisher_ok (Pub_Exchange n state inactive d) s \<longleftrightarrow>
     n = sn_length s \<and> unat n \<le> length d
     \<and> active_index state = active_index (sn_state s) \<and> inactive = inactive_index (sn_state s)
     \<and> readers (sn_state s) inactive = 0
     \<and> snapshot_image s inactive = take (unat n) d"
| "publisher_ok (Pub_Done ok) s \<longleftrightarrow> True"

definition conc_inv :: "conc \<Rightarrow> bool" where
  "conc_inv c \<longleftrightarrow> snapshot_ok (snap c)
     \<and> (\<forall>b. buffer_ok b \<longrightarrow> readers (sn_state (snap c)) b = held_on (holders c) b)
     \<and> (\<forall>(b, img) \<in> set (holders c). buffer_ok b \<and> snapshot_image (snap c) b = img
          \<and> img \<in> set (history c))
     \<and> history c \<noteq> [] \<and> published (snap c) = hd (history c)
     \<and> publisher_ok (pub c) (snap c)"

lemma inactive_from_active:
  "active_index s = active_index t \<Longrightarrow> inactive_index s = inactive_index t"
  by (simp add: inactive_index_eq)

text \<open>What one byte of the copy does to the images.\<close>

definition put_byte :: "lib_regmap_snapshot \<Rightarrow> u8 \<Rightarrow> nat \<Rightarrow> u8 \<Rightarrow> lib_regmap_snapshot" where
  "put_byte s b i v = s\<lparr>sn_buffers := (sn_buffers s)[unat b := map_option (\<lambda>xs. xs[i := v]) (sn_buffers s ! unat b)]\<rparr>"

lemma put_byte_fields [simp]:
  "sn_state (put_byte s b i v) = sn_state s" "sn_length (put_byte s b i v) = sn_length s"
  by (simp_all add: put_byte_def)

lemma put_byte_ok [simp]: "snapshot_ok s \<Longrightarrow> buffer_ok b \<Longrightarrow> snapshot_ok (put_byte s b i v)"
  by (auto simp: snapshot_ok_def put_byte_def buffer_ok_def)

lemma image_put_byte:
  assumes "snapshot_ok s" "buffer_ok b" "buffer_ok b'"
  shows "snapshot_image (put_byte s b i v) b' =
    (if b' = b then (snapshot_image s b)[i := v] else snapshot_image s b')"
  using assms by (auto simp: snapshot_ok_def snapshot_image_def put_byte_def buffer_ok_def take_update_swap)

lemma publish_step_copy:
  assumes "snapshot_ok s" "buffer_ok inactive" "index < unat n" "n = sn_length s" "unat n \<le> length d"
  shows "publish_step (Pub_Copy n state inactive index d) s =
    Some (Pub_Copy n state inactive (Suc index) d, put_byte s inactive index (d ! index))"
proof -
  obtain b0 b1 where "sn_buffers s = [Some b0, Some b1]" "unat (sn_length s) \<le> length b0"
    "unat (sn_length s) \<le> length b1"
    by (rule snapshot_okE [OF assms(1)])
  then show ?thesis
    using assms by (elim buffer_okE) (simp_all add: array_read_in array_write_in put_byte_def)
qed

lemma publish_step_total:
  assumes "snapshot_ok s" "publisher_ok p s"
  shows "publish_step p s \<noteq> None"
proof (cases p)
  case (Pub_Copy n state inactive index d)
  then show ?thesis
    using assms publish_step_copy [of s inactive index n d state] by auto
qed (simp_all add: Let_def split: prod.split)

section \<open>Preservation\<close>

lemma publisher_ok_state:
  assumes "publisher_ok p s" "active_index x = active_index (sn_state s)"
    "readers (sn_state s) (inactive_index (sn_state s)) = 0 \<Longrightarrow> readers x (inactive_index (sn_state s)) = 0"
  shows "publisher_ok p (s\<lparr>sn_state := x\<rparr>)"
  using assms inactive_from_active [OF assms(2)] by (cases p) simp_all

lemma conc_inv_pub: "conc_inv c \<Longrightarrow> publisher_ok (pub c) (snap c)"
  by (simp add: conc_inv_def)

lemma publish_start_eq:
  assumes "snapshot_ok s"
  shows "publish_start d n s =
    (if n \<noteq> sn_length s then (Pub_Done False, s)
     else if readers (sn_state s) (inactive_index (sn_state s)) \<noteq> 0
     then (Pub_Done False, lib_regmap_snapshot_note_publish_rejected s)
     else (Pub_Copy n (sn_state s) (inactive_index (sn_state s)) 0 d, s))"
  using snapshot_ok_is_valid [OF assms] by (simp add: publish_start_def Let_def reader_count_0_iff)

lemma conc_inv_start:
  assumes "conc_inv c" "unat n \<le> length d" "publish_start d n (snap c) = (p, s)"
  shows "conc_inv (c\<lparr>pub := p, snap := s\<rparr>)"
proof -
  have "conc_inv (c\<lparr>pub := fst (publish_start d n (snap c)), snap := snd (publish_start d n (snap c))\<rparr>)"
    using assms(1,2) by (auto simp: publish_start_eq conc_inv_def
        lib_regmap_snapshot_note_publish_rejected_def published_def)
  then show ?thesis by (simp only: assms(3) fst_conv snd_conv)
qed

lemma holder_not_inactive:
  assumes "conc_inv c" "(b, img) \<in> set (holders c)" "buffer_ok b'" "readers (sn_state (snap c)) b' = 0"
  shows "b \<noteq> b'" "buffer_ok b" "snapshot_image (snap c) b = img" "img \<in> set (history c)"
proof -
  have "readers (sn_state (snap c)) b' = held_on (holders c) b'"
    using assms(1,3) by (simp add: conc_inv_def)
  then show "b \<noteq> b'" using held_on_pos [OF assms(2)] assms(4) by auto
  show "buffer_ok b" "snapshot_image (snap c) b = img" "img \<in> set (history c)"
    using assms(1,2) by (auto simp: conc_inv_def)
qed

lemma conc_inv_copy:
  assumes inv: "conc_inv c" and pub: "pub c = Pub_Copy n state inactive index d" and more: "index < unat n"
  shows "conc_inv (c\<lparr>pub := Pub_Copy n state inactive (Suc index) d,
    snap := put_byte (snap c) inactive index (d ! index)\<rparr>)"
proof -
  let ?s = "snap c" and ?s' = "put_byte (snap c) inactive index (d ! index)"
  have ok: "snapshot_ok ?s" using inv by (simp add: conc_inv_def)
  have p: "n = sn_length ?s" "unat n \<le> length d"
    "active_index state = active_index (sn_state ?s)" "inactive = inactive_index (sn_state ?s)"
    "readers (sn_state ?s) inactive = 0" "take index (snapshot_image ?s inactive) = take index d"
    using conc_inv_pub [OF inv] unfolding pub publisher_ok.simps by blast+
  have b: "buffer_ok inactive" using p(4) by simp
  have img: "snapshot_image ?s' b' = (if b' = inactive then (snapshot_image ?s inactive)[index := d ! index]
      else snapshot_image ?s b')" if "buffer_ok b'" for b'
    by (rule image_put_byte [OF ok b that])
  have "snapshot_image ?s' b' = im" "buffer_ok b'" "im \<in> set (history c)" if "(b', im) \<in> set (holders c)" for b' im
    using holder_not_inactive [OF inv that b p(5)] img [of b'] by simp_all
  moreover have "published ?s' = published ?s"
    using img [of "active_index (sn_state ?s)"] p(4) by (simp add: published_def)
  moreover have "take (Suc index) (snapshot_image ?s' inactive) = take (Suc index) d"
  proof -
    have len: "index < length (snapshot_image ?s inactive)"
      using more p(1) by (simp add: length_snapshot_image [OF ok b])
    have "index < length d" using more p(2) by simp
    then show ?thesis
      using len p(6) by (simp add: img [OF b] take_Suc_conv_app_nth)
  qed
  ultimately show ?thesis
    using inv ok b p more by (auto simp: conc_inv_def)
qed

lemma published_flip:
  "published (s\<lparr>sn_state := sn_state s XOR snapshot_active_mask\<rparr>) = snapshot_image s (inactive_index (sn_state s))"
  by (simp add: published_def inactive_index_eq)

lemma conc_inv_publisher:
  assumes inv: "conc_inv c" and step: "publish_step (pub c) (snap c) = Some (p, s)"
  shows "conc_inv (c\<lparr>pub := p, snap := s,
    history := note_published (pub c) p (history c)\<rparr>)"
proof (cases "pub c")
  case (Pub_Done ok)
  then have "p = pub c" "s = snap c" "c\<lparr>pub := pub c, snap := snap c, history := history c\<rparr> = c"
    using step by auto
  then show ?thesis using inv Pub_Done by (simp only: note_published.simps)
next
  case (Pub_Copy n state inactive index d)
  have ok: "snapshot_ok (snap c)" using inv by (simp add: conc_inv_def)
  have p: "n = sn_length (snap c)" "unat n \<le> length d" "index \<le> unat n"
    "inactive = inactive_index (sn_state (snap c))" "take index (snapshot_image (snap c) inactive) = take index d"
    using conc_inv_pub [OF inv] unfolding Pub_Copy publisher_ok.simps by blast+
  have b: "buffer_ok inactive" using p(4) by simp
  show ?thesis
  proof (cases "index < unat n")
    case True
    with conc_inv_copy [OF inv Pub_Copy True] step show ?thesis
      using publish_step_copy [OF ok b True p(1,2), of state] by (simp add: Pub_Copy)
  next
    case False
    then have "index = length (snapshot_image (snap c) inactive)"
      using p(1,3) by (simp add: length_snapshot_image [OF ok b])
    then have "snapshot_image (snap c) inactive = take (unat n) d"
      using p(3,5) False by simp
    then show ?thesis
      using inv step False by (auto simp: conc_inv_def Pub_Copy)
  qed
next
  case (Pub_Exchange n state inactive d)
  have p: "n = sn_length (snap c)" "unat n \<le> length d"
    "active_index state = active_index (sn_state (snap c))" "inactive = inactive_index (sn_state (snap c))"
    "readers (sn_state (snap c)) inactive = 0" "snapshot_image (snap c) inactive = take (unat n) d"
    using conc_inv_pub [OF inv] unfolding Pub_Exchange publisher_ok.simps by blast+
  have i: "inactive_index state = inactive" using inactive_from_active [OF p(3)] p(4) by simp
  show ?thesis
  proof (cases "sn_state (snap c) = state")
    case True
    then show ?thesis
      using inv step i by (auto simp: conc_inv_def Pub_Exchange c11_compare_exchange_def published_flip)
  next
    case False
    then show ?thesis
      using inv step i p by (auto simp: conc_inv_def Pub_Exchange c11_compare_exchange_def)
  qed
qed

lemma buffer_other: "buffer_ok b \<Longrightarrow> buffer_ok b' \<Longrightarrow> b' \<noteq> b \<Longrightarrow> b' = 1 - b"
  by (auto simp: buffer_ok_def)

lemma conc_inv_acquire:
  assumes inv: "conc_inv c"
    and acq: "lib_regmap_snapshot_acquire (Some (snap c)) (Some old) = (True, Some s, Some b)"
  shows "conc_inv (c\<lparr>snap := s, holders := (b, snapshot_image s b) # holders c\<rparr>)"
proof -
  let ?st = "sn_state (snap c)" and ?b = "active_index (sn_state (snap c))"
  have r: "readers ?st ?b \<noteq> 32767" and b: "b = ?b" and s: "s = snap c\<lparr>sn_state := ?st + reader_unit ?b\<rparr>"
    using acq by (auto simp: lib_regmap_snapshot_acquire_eq Let_def split: if_splits)
  then have lt: "readers ?st ?b < 32767" using readers_le [of ?st ?b] by simp
  note add = readers_add [OF active_index_ok lt]
  have "readers (?st + reader_unit ?b) b' = readers ?st b' + of_bool (b' = ?b)" if "buffer_ok b'" for b'
    using add(1,2) buffer_other [OF active_index_ok that] by (cases "b' = ?b") auto
  moreover have "publisher_ok (pub c) s"
    unfolding s using inv add(2,3)
    by (intro publisher_ok_state) (simp_all add: conc_inv_def inactive_index_eq)
  ultimately show ?thesis
    using inv add(3) by (auto simp: conc_inv_def b s published_def)
qed

lemma conc_inv_release:
  assumes inv: "conc_inv c" and h: "holders c = hs @ (b, img) # hs'"
    and rel: "lib_regmap_snapshot_release (Some (snap c)) b = Some s"
  shows "conc_inv (c\<lparr>snap := s, holders := hs @ hs'\<rparr>)"
proof -
  let ?st = "sn_state (snap c)"
  have s: "s = snap c\<lparr>sn_state := ?st - reader_unit b\<rparr>"
    using rel by (simp add: lib_regmap_snapshot_release_eq)
  have held: "readers ?st b' = held_on (holders c) b'" if "buffer_ok b'" for b'
    using inv that by (simp add: conc_inv_def)
  have b: "buffer_ok b" using inv h by (auto simp: conc_inv_def)
  have pos: "0 < readers ?st b" using held [OF b] h by simp
  note sub = readers_sub [OF b pos]
  have count: "readers (?st - reader_unit b) b' = held_on (hs @ hs') b'" if "buffer_ok b'" for b'
    using sub(1,2) held [OF that] h buffer_other [OF b that] by (cases "b' = b") auto
  have "publisher_ok (pub c) s"
    unfolding s using inv sub(3) pos count [of "inactive_index ?st"] held [of "inactive_index ?st"] h
    by (intro publisher_ok_state) (auto simp: conc_inv_def split: if_splits)
  then show ?thesis
    using inv sub(3) count h by (auto simp: conc_inv_def s published_def)
qed

lemma conc_inv_step: "conc_step c c' \<Longrightarrow> conc_inv c \<Longrightarrow> conc_inv c'"
  by (induction rule: conc_step.induct)
    (blast intro: conc_inv_start conc_inv_publisher conc_inv_acquire conc_inv_release)+

lemma conc_inv_reachable:
  assumes "conc_reachable s0 c" "snapshot_ok s0" "\<And>b. buffer_ok b \<Longrightarrow> readers (sn_state s0) b = 0"
  shows "conc_inv c"
  using assms(1)
proof induction
  case Init
  then show ?case using assms(2,3) by (simp add: conc_inv_def)
next
  case (Step c c')
  then show ?case by (blast intro: conc_inv_step)
qed

section \<open>The publisher alone\<close>

fun publish_alone ::
  "nat \<Rightarrow> publisher \<times> lib_regmap_snapshot \<Rightarrow> (publisher \<times> lib_regmap_snapshot) defined" where
  "publish_alone 0 c = Some c"
| "publish_alone (Suc k) (p, s) = do { c \<leftarrow> publish_step p s; publish_alone k c }"

lemma publish_alone_add:
  "publish_alone (j + k) c = do { c \<leftarrow> publish_alone j c; publish_alone k c }"
proof (induction j arbitrary: c)
  case 0
  then show ?case by simp
next
  case (Suc j)
  obtain p s where "c = (p, s)" by fastforce
  with Suc show ?case by (cases "publish_step p s") simp_all
qed

lemma publish_alone_done [simp]: "publish_alone k (Pub_Done ok, s) = Some (Pub_Done ok, s)"
  by (induction k) simp_all

text \<open>The steps of the copy are the iterations of the loop of \<open>lib_regmap_snapshot_publish\<close>.\<close>

lemma publish_alone_copy:
  assumes "sn_buffers s ! unat b = Some buf" "unat b < length (sn_buffers s)" "index + m \<le> unat n"
  shows "publish_alone m (Pub_Copy n st b index d, s) = do {
      buf \<leftarrow> snapshot_copy_loop d index m buf;
      Some (Pub_Copy n st b (index + m) d, s\<lparr>sn_buffers := (sn_buffers s)[unat b := Some buf]\<rparr>)
    }"
  using assms
proof (induction m arbitrary: index s buf)
  case 0
  then have "(sn_buffers s)[unat b := Some buf] = sn_buffers s" by (metis list_update_id)
  then show ?case by simp
next
  case (Suc m)
  show ?case
  proof (cases "index < length d \<and> index < length buf")
    case True
    let ?s = "s\<lparr>sn_buffers := (sn_buffers s)[unat b := Some (buf[index := d ! index])]\<rparr>"
    have "publish_step (Pub_Copy n st b index d) s = Some (Pub_Copy n st b (Suc index) d, ?s)"
      using Suc.prems True by (simp add: array_read_in array_write_in)
    then show ?thesis
      using Suc.IH [of ?s "buf[index := d ! index]" "Suc index"] Suc.prems True
      by (simp add: array_read_in array_write_in)
  next
    case False
    then show ?thesis
      using Suc.prems by (auto simp: array_read_def array_write_def)
  qed
qed

lemma publish_alone_exchange:
  assumes "active_index state = active_index (sn_state s)" "inactive = inactive_index (sn_state s)"
  shows "publish_alone 2 (Pub_Exchange n state inactive d, s) = Some (Pub_Done True, flip_active s)"
proof -
  have i: "inactive_index state = inactive" using inactive_from_active [OF assms(1)] assms(2) by simp
  show ?thesis
    using i assms by (cases "sn_state s = state")
      (simp_all add: numeral_2_eq_2 c11_compare_exchange_def flip_active_def)
qed

lemma publish_alone_completes:
  assumes "snapshot_ok s" "publisher_ok (Pub_Copy n state inactive index d) s"
  shows "publish_alone (unat n - index + 3) (Pub_Copy n state inactive index d, s)
    = Some (Pub_Done True, flip_active (s\<lparr>sn_buffers := (sn_buffers s)[unat inactive :=
        map_option (\<lambda>xs. take index xs @ take (unat n - index) (drop index d) @ drop (unat n) xs)
          (sn_buffers s ! unat inactive)]\<rparr>))"
proof -
  obtain b0 b1 where "sn_buffers s = [Some b0, Some b1]" "unat (sn_length s) \<le> length b0"
    "unat (sn_length s) \<le> length b1"
    by (rule snapshot_okE [OF assms(1)])
  moreover have p: "n = sn_length s" "unat n \<le> length d" "index \<le> unat n"
    "active_index state = active_index (sn_state s)" "inactive = inactive_index (sn_state s)"
    using assms(2) unfolding publisher_ok.simps by blast+
  moreover have "buffer_ok inactive" using p(5) by simp
  ultimately obtain buf where buf: "sn_buffers s ! unat inactive = Some buf"
    "unat inactive < length (sn_buffers s)" "unat n \<le> length buf"
    by (elim buffer_okE) auto
  let ?buf = "take index buf @ take (unat n - index) (drop index d) @ drop (unat n) buf"
  let ?s = "s\<lparr>sn_buffers := (sn_buffers s)[unat inactive := Some ?buf]\<rparr>"
  have "publish_alone (unat n - index) (Pub_Copy n state inactive index d, s)
      = Some (Pub_Copy n state inactive (unat n) d, ?s)"
    using publish_alone_copy [OF buf(1,2), of index "unat n - index" n state d] p buf
    by (simp add: snapshot_copy_loop_eq)
  moreover have "publish_alone 1 (Pub_Copy n state inactive (unat n) d, ?s)
      = Some (Pub_Exchange n state inactive d, ?s)" by simp
  moreover have "publish_alone 2 (Pub_Exchange n state inactive d, ?s) = Some (Pub_Done True, flip_active ?s)"
    using p(4,5) by (intro publish_alone_exchange) simp_all
  moreover have "unat n - index + 3 = unat n - index + (1 + 2)" by simp
  ultimately show ?thesis
    unfolding buf(1) by (simp only: publish_alone_add bind.bind_lunit option.map)
qed

section \<open>Properties\<close>

text \<open>C5. No torn reads: however the interrupt's acquires and releases fall between the single accesses
  of a publish, every buffer a reader holds keeps byte for byte the image it had when it was
  acquired; that image and the published one are complete images the publisher handed in (or the
  initial one), the published one being the newest; and the reader counts are exact.\<close>

theorem snapshot_reads_never_tear:
  assumes "conc_reachable s0 c" "snapshot_ok s0" "readers (sn_state s0) 0 = 0" "readers (sn_state s0) 1 = 0"
  shows "(\<forall>(b, img) \<in> set (holders c). snapshot_image (snap c) b = img \<and> img \<in> set (history c))
    \<and> published (snap c) = hd (history c)
    \<and> readers (sn_state (snap c)) 0 = held_on (holders c) 0
    \<and> readers (sn_state (snap c)) 1 = held_on (holders c) 1"
proof -
  have "conc_inv c"
    by (rule conc_inv_reachable [OF assms(1,2)]) (use assms(3,4) in \<open>auto simp: buffer_ok_def\<close>)
  then show ?thesis by (auto simp: conc_inv_def buffer_ok_def)
qed

text \<open>A publish with a read in progress: the reader acquires before it starts and keeps its image.\<close>

definition demo_conc :: conc where
  "demo_conc = \<lparr>snap = demo_snapshot, pub = Pub_Done True, holders = [], history = [published demo_snapshot]\<rparr>"

lemma demo_snapshot_facts: "snapshot_ok demo_snapshot" "readers (sn_state demo_snapshot) 0 = 0"
  "readers (sn_state demo_snapshot) 1 = 0" "published demo_snapshot = [16, 17]"
  by (simp_all add: demo_snapshot_def snapshot_ok_def readers_0 readers_1 published_def
      snapshot_image_def active_index_parity)

lemma demo_acquired: "conc_reachable demo_snapshot
    (demo_conc\<lparr>snap := demo_snapshot\<lparr>sn_state := 2\<rparr>, holders := [(0, [16, 17])]\<rparr>)" (is "conc_reachable _ ?c")
proof -
  have "lib_regmap_snapshot_acquire (Some demo_snapshot) (Some 9)
      = (True, Some (demo_snapshot\<lparr>sn_state := 2\<rparr>), Some 0)"
    using demo_snapshot_facts(2) by (simp add: lib_regmap_snapshot_acquire_eq demo_snapshot_def active_index_parity
        reader_unit_def lib_regmap_snapshot_reader_shift_def snapshot_reader_zero_shift_def)
  then have "conc_step demo_conc ?c"
    using conc_step.Acquire [of demo_conc 9 "demo_snapshot\<lparr>sn_state := 2\<rparr>" 0]
    by (simp add: demo_conc_def snapshot_image_def demo_snapshot_def)
  with conc_reachable.Init [of demo_snapshot] show ?thesis
    unfolding demo_conc_def by (rule conc_reachable.Step)
qed

definition demo_publishing :: conc where
  "demo_publishing = demo_conc\<lparr>snap := demo_snapshot\<lparr>sn_state := 2\<rparr>, holders := [(0, [16, 17])],
     pub := Pub_Copy 2 2 1 0 [48, 49]\<rparr>"

lemma demo_publishing_reachable: "conc_reachable demo_snapshot demo_publishing"
proof -
  let ?c = "demo_conc\<lparr>snap := demo_snapshot\<lparr>sn_state := 2\<rparr>, holders := [(0, [16, 17])]\<rparr>"
  have "publish_start [48, 49] 2 (snap ?c) = (Pub_Copy 2 2 1 0 [48, 49], demo_snapshot\<lparr>sn_state := 2\<rparr>)"
    by (subst publish_start_eq) (simp_all add: snapshot_ok_def demo_snapshot_def readers_1
        active_index_parity inactive_index_eq)
  then have "conc_step ?c demo_publishing"
    using conc_step.Start [of ?c True 2 "[48, 49]"] by (simp add: demo_publishing_def demo_conc_def)
  with demo_acquired show ?thesis by (rule conc_reachable.Step)
qed

theorem snapshot_reads_never_tear_witness:
  "conc_reachable demo_snapshot demo_publishing \<and> holders demo_publishing = [(0, [16, 17])]
    \<and> snapshot_image (snap demo_publishing) 0 = [16, 17] \<and> readers (sn_state (snap demo_publishing)) 0 = 1"
  using snapshot_reads_never_tear [OF demo_publishing_reachable demo_snapshot_facts(1-3)]
    demo_publishing_reachable by (simp add: demo_publishing_def)

text \<open>C16. A publish that has passed its reader check cannot be refused any more, whatever the interrupt
  did meanwhile, and left alone from any point of its copy it finishes within a bounded number of
  accesses (at most one retry of the exchange) with its data published.\<close>

theorem snapshot_publish_completes:
  assumes "conc_reachable s0 c" "snapshot_ok s0" "readers (sn_state s0) 0 = 0" "readers (sn_state s0) 1 = 0"
    "pub c = Pub_Copy n state inactive index d"
  shows "\<exists>s'. publish_alone (unat n - index + 3) (pub c, snap c) = Some (Pub_Done True, s')
    \<and> published s' = take (unat n) d \<and> snapshot_image s' (active_index (sn_state (snap c))) = published (snap c)"
proof -
  have inv: "conc_inv c"
    by (rule conc_inv_reachable [OF assms(1,2)]) (use assms(3,4) in \<open>auto simp: buffer_ok_def\<close>)
  have ok: "snapshot_ok (snap c)" using inv by (simp add: conc_inv_def)
  have pok: "publisher_ok (Pub_Copy n state inactive index d) (snap c)"
    using conc_inv_pub [OF inv] unfolding assms(5) .
  then have p: "n = sn_length (snap c)" "unat n \<le> length d" "index \<le> unat n"
    "inactive = inactive_index (sn_state (snap c))"
    "take index (snapshot_image (snap c) inactive) = take index d"
    unfolding publisher_ok.simps by blast+
  obtain b0 b1 where b: "sn_buffers (snap c) = [Some b0, Some b1]" "unat (sn_length (snap c)) \<le> length b0"
    "unat (sn_length (snap c)) \<le> length b1"
    by (rule snapshot_okE [OF ok])
  have split: "take index d @ take (unat n - index) (drop index d) = take (unat n) d"
    using p(3) by (metis le_add_diff_inverse take_add)
  have active: "active_index (sn_state (snap c)) = 1 - inactive" using p(4) by (simp add: inactive_index_eq)
  have flip: "published (flip_active s') = snapshot_image s' (inactive_index (sn_state s'))" for s'
    using published_flip [of s'] by (simp only: flip_active_def)
  have "inactive = 0 \<or> inactive = 1" using p(4) inactive_index_ok by (simp add: buffer_ok_def)
  then show ?thesis
    unfolding assms(5) publish_alone_completes [OF ok pok]
    using b p(1,2,3,5) p(4) [symmetric] split active
    by (elim disjE) (auto simp: flip published_def snapshot_image_def min_def)
qed

theorem snapshot_publish_completes_witness:
  "\<exists>s'. publish_alone 5 (pub demo_publishing, snap demo_publishing) = Some (Pub_Done True, s')
    \<and> published s' = [48, 49]"
proof -
  have "pub demo_publishing = Pub_Copy 2 2 1 0 [48, 49]" by (simp add: demo_publishing_def)
  from snapshot_publish_completes [OF demo_publishing_reachable demo_snapshot_facts(1-3) this]
  show ?thesis by auto
qed

text \<open>Run without interruption, the single accesses compute exactly the publish of the sequential
  model: the same answer and the same snapshot, within length + 3 steps.\<close>

theorem publish_steps_refine_publish:
  assumes "snapshot_ok s" "unat (sn_length s) \<le> length d"
  shows "\<exists>ok s'. lib_regmap_snapshot_publish (Some s) (Some d) n = Some (ok, Some s')
    \<and> publish_alone (unat n + 3) (publish_start d n s) = Some (Pub_Done ok, s')"
proof -
  let ?i = "inactive_index (sn_state s)"
  have "publish_alone (unat n - 0 + 3) (Pub_Copy n (sn_state s) ?i 0 d, s)
      = Some (Pub_Done True, flip_active (fill_buffer s ?i d))"
    if "n = sn_length s" "readers (sn_state s) ?i = 0"
    using that assms by (subst publish_alone_completes) (simp_all add: fill_buffer_def)
  then show ?thesis
    using assms by (auto simp: lib_regmap_snapshot_publish_eq publish_start_eq Let_def simp del: publish_alone.simps)
qed

theorem publish_steps_refine_publish_witness:
  "\<exists>ok s'. lib_regmap_snapshot_publish (Some demo_snapshot) (Some [48, 49]) 2 = Some (ok, Some s')
    \<and> publish_alone 5 (publish_start [48, 49] 2 demo_snapshot) = Some (Pub_Done ok, s')"
  using publish_steps_refine_publish [OF demo_snapshot_facts(1), of "[48, 49]" 2]
  by (simp add: demo_snapshot_def)

end
