(* ===== verification/Target_Engine.thy ===== *)
theory Target_Engine
  imports Regmap_Properties
begin

text \<open>
  \<open>hal/hal_i2c_target_engine.c\<close>: the register-free transaction engine between the I2C target's
  interrupt and the register map. It collects the two address bytes of a write, hands later bytes
  to the register map and reads bytes from it. The engine owns the register map its pointer leads
  to, so the map is part of its state; snapshots and queues stay in the store of \<open>Regmap\<close>.
\<close>

section \<open>State and operations\<close>

datatype hal_i2c_target_engine_direction = Engine_Idle | Engine_Receive | Engine_Transmit

record hal_i2c_target_engine =
  te_regmap :: "lib_regmap option"
  te_pending_address :: u16
  te_address_byte_count :: u8
  te_direction :: hal_i2c_target_engine_direction

definition hal_i2c_target_engine_init ::
  "hal_i2c_target_engine option \<Rightarrow> lib_regmap option \<Rightarrow> bool \<times> hal_i2c_target_engine option" where
  "hal_i2c_target_engine_init engine regmap =
     (case (engine, regmap) of
        (Some e, Some rm) \<Rightarrow>
          (True, Some (e\<lparr>te_regmap := Some rm, te_pending_address := 0, te_address_byte_count := 0,
                         te_direction := Engine_Idle\<rparr>))
      | _ \<Rightarrow> (False, engine))"

definition hal_i2c_target_engine_begin_receive ::
  "hal_i2c_target_engine option \<Rightarrow> regmap_mem \<Rightarrow> (hal_i2c_target_engine option \<times> regmap_mem) defined" where
  "hal_i2c_target_engine_begin_receive engine m =
     (case engine of
        None \<Rightarrow> Some (None, m)
      | Some e \<Rightarrow>
          if te_regmap e = None then Some (engine, m)
          else do {
            (regmap, m) \<leftarrow> lib_regmap_end_read (te_regmap e) m;
            Some (Some (e\<lparr>te_regmap := regmap, te_pending_address := 0, te_address_byte_count := 0,
                          te_direction := Engine_Receive\<rparr>), m)
          })"

definition hal_i2c_target_engine_begin_transmit ::
  "hal_i2c_target_engine option \<Rightarrow> regmap_mem \<Rightarrow> (hal_i2c_target_engine option \<times> regmap_mem) defined" where
  "hal_i2c_target_engine_begin_transmit engine m =
     (case engine of
        None \<Rightarrow> Some (None, m)
      | Some e \<Rightarrow>
          if te_regmap e = None then Some (engine, m)
          else do {
            let e = e\<lparr>te_pending_address := 0, te_address_byte_count := 0\<rparr>;
            (regmap, m) \<leftarrow> lib_regmap_begin_read (te_regmap e) m;
            Some (Some (e\<lparr>te_regmap := regmap, te_direction := Engine_Transmit\<rparr>), m)
          })"

definition hal_i2c_target_engine_receive ::
  "hal_i2c_target_engine option \<Rightarrow> u8 \<Rightarrow> regmap_mem
    \<Rightarrow> (bool \<times> hal_i2c_target_engine option \<times> regmap_mem) defined" where
  "hal_i2c_target_engine_receive engine v m =
     (case engine of
        None \<Rightarrow> Some (False, None, m)
      | Some e \<Rightarrow>
          if te_regmap e = None \<or> te_direction e \<noteq> Engine_Receive then Some (False, engine, m)
          else if te_address_byte_count e = 0
          then Some (True, Some (e\<lparr>te_pending_address := push_bit 8 (ucast v),
                                   te_address_byte_count := 1\<rparr>), m)
          else if te_address_byte_count e = 1
          then do {
            let e = e\<lparr>te_pending_address := te_pending_address e OR ucast v,
                      te_address_byte_count := 2\<rparr>;
            (regmap, m) \<leftarrow> lib_regmap_set_address (te_regmap e) (te_pending_address e) m;
            Some (True, Some (e\<lparr>te_regmap := regmap\<rparr>), m)
          }
          else do {
            (_, regmap, m) \<leftarrow> lib_regmap_write_current (te_regmap e) v m;
            Some (True, Some (e\<lparr>te_regmap := regmap\<rparr>), m)
          })"

definition hal_i2c_target_engine_transmit ::
  "hal_i2c_target_engine option \<Rightarrow> regmap_mem
    \<Rightarrow> (u8 \<times> hal_i2c_target_engine option \<times> regmap_mem) defined" where
  "hal_i2c_target_engine_transmit engine m =
     (case engine of
        None \<Rightarrow> Some (LIB_REGMAP_UNMAPPED_VALUE, None, m)
      | Some e \<Rightarrow>
          if te_regmap e = None \<or> te_direction e \<noteq> Engine_Transmit
          then Some (LIB_REGMAP_UNMAPPED_VALUE, engine, m)
          else do {
            (v, regmap, m) \<leftarrow> lib_regmap_read_current (te_regmap e) m;
            Some (v, Some (e\<lparr>te_regmap := regmap\<rparr>), m)
          })"

definition hal_i2c_target_engine_end ::
  "hal_i2c_target_engine option \<Rightarrow> regmap_mem \<Rightarrow> (hal_i2c_target_engine option \<times> regmap_mem) defined" where
  "hal_i2c_target_engine_end engine m =
     (case engine of
        None \<Rightarrow> Some (None, m)
      | Some e \<Rightarrow>
          if te_regmap e = None then Some (engine, m)
          else do {
            (regmap, m) \<leftarrow> lib_regmap_end_read (te_regmap e) m;
            Some (Some (e\<lparr>te_regmap := regmap, te_pending_address := 0, te_address_byte_count := 0,
                          te_direction := Engine_Idle\<rparr>), m)
          })"

definition hal_i2c_target_engine_abort ::
  "hal_i2c_target_engine option \<Rightarrow> regmap_mem \<Rightarrow> (hal_i2c_target_engine option \<times> regmap_mem) defined" where
  "hal_i2c_target_engine_abort engine m = hal_i2c_target_engine_end engine m"

definition direction_of :: "hal_i2c_target_engine option \<Rightarrow> hal_i2c_target_engine_direction" where
  "direction_of engine = (case engine of None \<Rightarrow> Engine_Idle | Some e \<Rightarrow> te_direction e)"

section \<open>The wire protocol\<close>

text \<open>What the interrupt reports to the engine, and what the engine answers.\<close>

datatype bus_event = Begin_Receive | Begin_Transmit | Byte_In u8 | Byte_Out | End_Transaction

datatype bus_output = Silent | Acked bool | Sent u8

fun engine_step ::
  "bus_event \<Rightarrow> hal_i2c_target_engine option \<Rightarrow> regmap_mem
    \<Rightarrow> (bus_output \<times> hal_i2c_target_engine option \<times> regmap_mem) defined" where
  "engine_step Begin_Receive e m = do { (e, m) \<leftarrow> hal_i2c_target_engine_begin_receive e m; Some (Silent, e, m) }"
| "engine_step Begin_Transmit e m = do { (e, m) \<leftarrow> hal_i2c_target_engine_begin_transmit e m; Some (Silent, e, m) }"
| "engine_step (Byte_In v) e m = do { (ok, e, m) \<leftarrow> hal_i2c_target_engine_receive e v m; Some (Acked ok, e, m) }"
| "engine_step Byte_Out e m = do { (v, e, m) \<leftarrow> hal_i2c_target_engine_transmit e m; Some (Sent v, e, m) }"
| "engine_step End_Transaction e m = do { (e, m) \<leftarrow> hal_i2c_target_engine_end e m; Some (Silent, e, m) }"

fun engine_run ::
  "bus_event list \<Rightarrow> hal_i2c_target_engine option \<Rightarrow> regmap_mem
    \<Rightarrow> (bus_output list \<times> hal_i2c_target_engine option \<times> regmap_mem) defined" where
  "engine_run [] e m = Some ([], e, m)"
| "engine_run (ev # evs) e m = do {
     (out, e, m) \<leftarrow> engine_step ev e m;
     (outs, e, m) \<leftarrow> engine_run evs e m;
     Some (out # outs, e, m)
   }"

text \<open>
  The protocol of \<open>docs/i2c_register_map.md\<close> as a machine of its own: a 16-bit pointer that a
  complete two-byte address phase sets and every data byte advances, a phase, and the commands
  pending for the main loop. The registers \<open>view\<close>, the writable addresses and the room of the
  command queue are its parameters.
\<close>

datatype eeprom_phase = Phase_Idle | Phase_Address | Phase_Address_Low u8 | Phase_Write | Phase_Read

record eeprom =
  ee_pointer :: u16
  ee_phase :: eeprom_phase
  ee_commands :: "lib_regmap_command list"
  ee_dropped :: u32

definition eeprom_write :: "(u16 \<Rightarrow> bool) \<Rightarrow> nat \<Rightarrow> u8 \<Rightarrow> eeprom \<Rightarrow> eeprom" where
  "eeprom_write writable room v s =
     (let s' = s\<lparr>ee_pointer := ee_pointer s + 1\<rparr> in
      if \<not> writable (ee_pointer s) then s'
      else if length (ee_commands s) < room
      then s'\<lparr>ee_commands := ee_commands s @ [\<lparr>cmd_address = ee_pointer s, cmd_value = v\<rparr>]\<rparr>
      else s'\<lparr>ee_dropped := ee_dropped s + 1\<rparr>)"

fun eeprom_step ::
  "(u16 \<Rightarrow> u8) \<Rightarrow> (u16 \<Rightarrow> bool) \<Rightarrow> nat \<Rightarrow> bus_event \<Rightarrow> eeprom \<Rightarrow> bus_output \<times> eeprom" where
  "eeprom_step view writable room Begin_Receive s = (Silent, s\<lparr>ee_phase := Phase_Address\<rparr>)"
| "eeprom_step view writable room Begin_Transmit s = (Silent, s\<lparr>ee_phase := Phase_Read\<rparr>)"
| "eeprom_step view writable room End_Transaction s = (Silent, s\<lparr>ee_phase := Phase_Idle\<rparr>)"
| "eeprom_step view writable room Byte_Out s =
     (if ee_phase s = Phase_Read then (Sent (view (ee_pointer s)), s\<lparr>ee_pointer := ee_pointer s + 1\<rparr>)
      else (Sent 0xff, s))"
| "eeprom_step view writable room (Byte_In v) s =
     (case ee_phase s of
        Phase_Address \<Rightarrow> (Acked True, s\<lparr>ee_phase := Phase_Address_Low v\<rparr>)
      | Phase_Address_Low h \<Rightarrow> (Acked True, s\<lparr>ee_pointer := word_cat h v, ee_phase := Phase_Write\<rparr>)
      | Phase_Write \<Rightarrow> (Acked True, eeprom_write writable room v s)
      | _ \<Rightarrow> (Acked False, s))"

fun eeprom_run ::
  "(u16 \<Rightarrow> u8) \<Rightarrow> (u16 \<Rightarrow> bool) \<Rightarrow> nat \<Rightarrow> bus_event list \<Rightarrow> eeprom \<Rightarrow> bus_output list \<times> eeprom" where
  "eeprom_run view writable room [] s = ([], s)"
| "eeprom_run view writable room (ev # evs) s =
     (let (out, s) = eeprom_step view writable room ev s;
          (outs, s) = eeprom_run view writable room evs s
      in (out # outs, s))"

section \<open>The simulation\<close>

fun phase_matches :: "eeprom_phase \<Rightarrow> hal_i2c_target_engine \<Rightarrow> bool" where
  "phase_matches Phase_Idle e \<longleftrightarrow> te_direction e = Engine_Idle"
| "phase_matches Phase_Address e \<longleftrightarrow> te_direction e = Engine_Receive \<and> te_address_byte_count e = 0"
| "phase_matches (Phase_Address_Low h) e \<longleftrightarrow> te_direction e = Engine_Receive \<and> te_address_byte_count e = 1
     \<and> te_pending_address e = push_bit 8 (ucast h)"
| "phase_matches Phase_Write e \<longleftrightarrow> te_direction e = Engine_Receive \<and> te_address_byte_count e = 2"
| "phase_matches Phase_Read e \<longleftrightarrow> te_direction e = Engine_Transmit"

text \<open>The command queue at address \<open>a\<close> serves every writable page; a map without writable pages needs none. A reader
  is latched only in the read phase.\<close>

definition queue_shows :: "nat \<Rightarrow> nat \<Rightarrow> regmap_mem \<Rightarrow> eeprom \<Rightarrow> bool" where
  "queue_shows a room m s \<longleftrightarrow> (case queues m a of None \<Rightarrow> True
     | Some q \<Rightarrow> cq_inv q \<and> cq_room q = room \<and> cq_contents q = ee_commands s \<and> cq_dropped_count q = ee_dropped s)"

definition simulates ::
  "lib_regmap_page list \<Rightarrow> (u16 \<Rightarrow> u8) \<Rightarrow> nat \<Rightarrow> nat \<Rightarrow> hal_i2c_target_engine \<Rightarrow> regmap_mem \<Rightarrow> eeprom \<Rightarrow> bool" where
  "simulates ps view a room e m s \<longleftrightarrow> (\<exists>rm. te_regmap e = Some rm
     \<and> regmap_inv enqueue_callback queue_ready rm m \<and> latch_current rm m \<and> table rm = ps
     \<and> (ee_phase s \<noteq> Phase_Read \<longrightarrow> rm_latched_page rm = None)
     \<and> register_view ps m = view \<and> rm_current_address rm = ee_pointer s \<and> phase_matches (ee_phase s) e
     \<and> queue_shows a room m s)"

lemma queue_shows_phase [simp]:
  "queue_shows a room m (s\<lparr>ee_phase := p\<rparr>) = queue_shows a room m s"
  "queue_shows a room m (s\<lparr>ee_pointer := x\<rparr>) = queue_shows a room m s"
  by (simp_all add: queue_shows_def cong: option.case_cong)

lemma queue_shows_same: "queues m' = queues m \<Longrightarrow> queue_shows a room m' s = queue_shows a room m s"
  by (simp add: queue_shows_def)

definition is_writable :: "lib_regmap_page list \<Rightarrow> u16 \<Rightarrow> bool" where
  "is_writable ps address \<longleftrightarrow> writable_at ps address \<noteq> None"

lemma unlatched_current: "rm_latched_page rm = None \<Longrightarrow> latch_current rm m"
  by (simp add: latch_current_def)

lemma address_bytes: "push_bit 8 (ucast (h :: u8)) OR ucast (l :: u8) = (word_cat h l :: u16)"
  by (rule bit_word_eqI)
    (auto simp: bit_or_iff bit_push_bit_iff bit_unsigned_iff bit_word_cat_iff dest: bit_imp_le_length)

text \<open>Whatever the engine was doing, ending the read of its register map is defined and leaves nothing
  latched: the step that \<open>begin_receive\<close>, \<open>begin_transmit\<close>, \<open>end\<close> and \<open>abort\<close> share.\<close>

lemma simulates_end_read:
  assumes "simulates ps view a room e m s"
  obtains rm rm' m' where "te_regmap e = Some rm" "lib_regmap_end_read (Some rm) m = Some (Some rm', m')"
    "\<forall>dir phase. phase_matches phase (e\<lparr>te_regmap := Some rm', te_pending_address := 0,
        te_address_byte_count := 0, te_direction := dir\<rparr>)
      \<longrightarrow> simulates ps view a room (e\<lparr>te_regmap := Some rm', te_pending_address := 0,
        te_address_byte_count := 0, te_direction := dir\<rparr>) m' (s\<lparr>ee_phase := phase\<rparr>)"
proof -
  obtain rm where sim: "te_regmap e = Some rm" "regmap_inv enqueue_callback queue_ready rm m" "table rm = ps"
    "register_view ps m = view" "rm_current_address rm = ee_pointer s" "queue_shows a room m s"
    using assms by (auto simp: simulates_def)
  obtain rm' m' where e: "lib_regmap_end_read (Some rm) m = Some (Some rm', m')"
    "regmap_inv enqueue_callback queue_ready rm' m'" "rm_latched_page rm' = None" "table rm' = table rm"
    "rm_current_address rm' = rm_current_address rm" "same_content m m'" "queues m' = queues m"
    by (rule cq_writer.end_read_spec [OF sim(2)])
  have "register_view ps m' = view" using register_view_same_content [OF e(6)] sim(4) by simp
  with that [OF sim(1) e(1)] sim e unlatched_current [OF e(3)] show thesis
    by (simp add: simulates_def queue_shows_same [OF e(7)])
qed

lemma receive_other:
  assumes "te_regmap e = Some rm" "te_direction e \<noteq> Engine_Receive"
  shows "hal_i2c_target_engine_receive (Some e) v m = Some (False, Some e, m)"
  using assms by (simp add: hal_i2c_target_engine_receive_def)

lemma transmit_other:
  assumes "te_regmap e = Some rm" "te_direction e \<noteq> Engine_Transmit"
  shows "hal_i2c_target_engine_transmit (Some e) m = Some (0xff, Some e, m)"
  using assms by (simp add: hal_i2c_target_engine_transmit_def LIB_REGMAP_UNMAPPED_VALUE_def)

text \<open>One byte written: the queue, if there is one, shows what the protocol says.\<close>

lemma write_current_shown:
  assumes inv: "regmap_inv enqueue_callback queue_ready rm m" and shown: "queue_shows a room m s"
    and sq: "shares_queue ps a" and ps: "table rm = ps" and here: "rm_current_address rm = ee_pointer s"
  shows "\<exists>res rm' m'. lib_regmap_write_current (Some rm) v m = Some (res, Some rm', m')
    \<and> regmap_inv enqueue_callback queue_ready rm' m' \<and> same_content m m' \<and> table rm' = table rm
    \<and> rm_current_address rm' = rm_current_address rm + 1 \<and> rm_latched_page rm' = None
    \<and> queue_shows a room m' (eeprom_write (is_writable ps) room v s)"
proof (cases "writable_at (table rm) (rm_current_address rm)")
  case None
  obtain rm' m' where w: "lib_regmap_write_current (Some rm) v m = Some (Write_Ignored, Some rm', m')"
    "regmap_inv enqueue_callback queue_ready rm' m'" "rm_latched_page rm' = None" "table rm' = table rm"
    "rm_current_address rm' = rm_current_address rm + 1" "same_content m m'" "queues m' = queues m"
    by (rule cq_writer.write_current_ignored [OF inv None])
  have "queue_shows a room m' (eeprom_write (is_writable ps) room v s) = queue_shows a room m s"
    using None ps here by (simp add: queue_shows_same [OF w(7)] eeprom_write_def is_writable_def Let_def)
  with w shown show ?thesis by blast
next
  case (Some p)
  have p: "p \<in> set (table rm)" "pg_access p = LIB_REGMAP_ACCESS_READ_WRITE" using writable_at_in [OF Some] by auto
  then have "page_ok enqueue_callback queue_ready m p" "pg_context p = Some a"
    using inv sq ps by (auto simp: regmap_inv_def shares_queue_def)
  then obtain q where q: "queues m a = Some q" "cq_inv q"
    using p(2) by (auto simp: page_ok_def queue_ready_def split: option.splits)
  have room: "cq_room q = room" "cq_contents q = ee_commands s" "cq_dropped_count q = ee_dropped s"
    using shown q(1) by (auto simp: queue_shows_def)
  have sq': "shares_queue (table rm) a" using sq ps by simp
  obtain rm' m' q' where w: "write_burst [v] (Some rm) m = Some (burst_results (table rm)
      (cq_room q - length (cq_contents q)) (rm_current_address rm) [v], Some rm', m')"
    "regmap_inv enqueue_callback queue_ready rm' m'" "same_content m m'" "table rm' = table rm"
    "rm_current_address rm' = rm_current_address rm + of_nat (length [v])"
    "queues m' a = Some q'" "cq_inv q'" "cq_room q' = cq_room q"
    "cq_contents q' = cq_contents q @ take (cq_room q - length (cq_contents q))
      (burst_commands (table rm) (rm_current_address rm) [v])"
    "cq_dropped_count q' = cq_dropped_count q + of_nat (length (drop (cq_room q - length (cq_contents q))
      (burst_commands (table rm) (rm_current_address rm) [v])))"
    using write_burst_lemma [OF inv q sq', of "[v]"] by blast
  obtain res where one: "lib_regmap_write_current (Some rm) v m = Some (res, Some rm', m')"
    using w(1) by (auto simp: bind_eq_Some_conv split: prod.splits)
  moreover have "rm_latched_page rm' = None"
    using cq_writer.write_current_unlatched [OF inv one] by simp
  moreover have "length (cq_contents q) \<le> cq_room q" using cq.within_room [OF q(2)] .
  then have "queue_shows a room m' (eeprom_write (is_writable ps) room v s)"
    using w(6-10) Some ps here room by (auto simp: queue_shows_def eeprom_write_def is_writable_def Let_def)
  ultimately show ?thesis using w(2-5) by auto
qed

lemma simulates_receive:
  assumes sim: "simulates ps view a room e m s" and sq: "shares_queue ps a"
  shows "\<exists>e' m'. hal_i2c_target_engine_receive (Some e) v m =
      Some (fst (eeprom_step view (is_writable ps) room (Byte_In v) s) = Acked True, Some e', m')
    \<and> fst (eeprom_step view (is_writable ps) room (Byte_In v) s) \<in> {Acked True, Acked False}
    \<and> simulates ps view a room e' m' (snd (eeprom_step view (is_writable ps) room (Byte_In v) s))"
proof -
  obtain rm where r: "te_regmap e = Some rm" "regmap_inv enqueue_callback queue_ready rm m" "table rm = ps"
    "register_view ps m = view" "rm_current_address rm = ee_pointer s" "queue_shows a room m s"
    "phase_matches (ee_phase s) e" "ee_phase s \<noteq> Phase_Read \<longrightarrow> rm_latched_page rm = None"
    using sim by (auto simp: simulates_def)
  note unfold_receive = hal_i2c_target_engine_receive_def
  show ?thesis
  proof (cases "ee_phase s")
    case Phase_Idle
    then show ?thesis using sim receive_other [OF r(1)] r(7) by simp
  next
    case Phase_Read
    then show ?thesis using sim receive_other [OF r(1)] r(7) by simp
  next
    case Phase_Address
    then show ?thesis
      using r unlatched_current [of rm] by (simp add: unfold_receive simulates_def)
  next
    case (Phase_Address_Low h)
    obtain rm' m' where w: "lib_regmap_set_address (Some rm) (word_cat h v) m = Some (Some rm', m')"
      "regmap_inv enqueue_callback queue_ready rm' m'" "rm_latched_page rm' = None" "table rm' = table rm"
      "rm_current_address rm' = word_cat h v" "same_content m m'" "queues m' = queues m"
      by (rule cq_writer.set_address_spec [OF r(2)])
    have "register_view ps m' = view" using register_view_same_content [OF w(6)] r(4) by simp
    with w r Phase_Address_Low unlatched_current [OF w(3)] show ?thesis
      by (simp add: unfold_receive simulates_def address_bytes Let_def queue_shows_same [OF w(7)])
  next
    case Phase_Write
    obtain res rm' m' where w: "lib_regmap_write_current (Some rm) v m = Some (res, Some rm', m')"
      "regmap_inv enqueue_callback queue_ready rm' m'" "same_content m m'" "table rm' = table rm"
      "rm_current_address rm' = rm_current_address rm + 1" "rm_latched_page rm' = None"
      "queue_shows a room m' (eeprom_write (is_writable ps) room v s)"
      using write_current_shown [OF r(2,6) sq r(3,5)] by blast
    have view: "register_view ps m' = view" using register_view_same_content [OF w(3)] r(4) by simp
    have "hal_i2c_target_engine_receive (Some e) v m = Some (True, Some (e\<lparr>te_regmap := Some rm'\<rparr>), m')"
      using r(1,7) Phase_Write w(1) by (simp add: unfold_receive)
    moreover have "ee_pointer (eeprom_write (is_writable ps) room v s) = ee_pointer s + 1"
      "ee_phase (eeprom_write (is_writable ps) room v s) = Phase_Write"
      using Phase_Write by (simp_all add: eeprom_write_def Let_def)
    ultimately show ?thesis
      using w(2,4-7) r view Phase_Write unlatched_current [OF w(6)] by (simp add: simulates_def)
  qed
qed

lemma simulates_transmit:
  assumes sim: "simulates ps view a room e m s"
  shows "\<exists>v e' m'. hal_i2c_target_engine_transmit (Some e) m = Some (v, Some e', m')
    \<and> fst (eeprom_step view (is_writable ps) room Byte_Out s) = Sent v
    \<and> simulates ps view a room e' m' (snd (eeprom_step view (is_writable ps) room Byte_Out s))"
proof -
  obtain rm where r: "te_regmap e = Some rm" "regmap_inv enqueue_callback queue_ready rm m" "table rm = ps"
    "register_view ps m = view" "rm_current_address rm = ee_pointer s" "queue_shows a room m s"
    "phase_matches (ee_phase s) e" "latch_current rm m"
    using sim by (auto simp: simulates_def)
  show ?thesis
  proof (cases "ee_phase s = Phase_Read")
    case True
    obtain rm' m' where v: "lib_regmap_read_current (Some rm) m
        = Some (register_view (table rm) m (rm_current_address rm), Some rm', m')"
      "regmap_inv enqueue_callback queue_ready rm' m'" "latch_current rm' m'" "table rm' = table rm"
      "rm_current_address rm' = rm_current_address rm + 1" "same_content m m'" "queues m' = queues m"
      by (rule cq_writer.read_current_view [OF r(2,8)])
    have "register_view ps m' = view" using register_view_same_content [OF v(6)] r(4) by simp
    with v r True show ?thesis
      by (simp add: hal_i2c_target_engine_transmit_def simulates_def queue_shows_same [OF v(7)])
  next
    case False
    then have "te_direction e \<noteq> Engine_Transmit" using r(7) by (cases "ee_phase s") auto
    with False sim transmit_other [OF r(1)] show ?thesis by simp
  qed
qed

lemma engine_fields_reordered:
  "e\<lparr>te_pending_address := x, te_address_byte_count := y, te_regmap := r, te_direction := d\<rparr>
    = e\<lparr>te_regmap := r, te_pending_address := x, te_address_byte_count := y, te_direction := d\<rparr>"
  by (cases e) simp

lemma simulates_step:
  assumes sim: "simulates ps view a room e m s" and sq: "shares_queue ps a"
  shows "\<exists>e' m'. engine_step ev (Some e) m
      = Some (fst (eeprom_step view (is_writable ps) room ev s), Some e', m')
    \<and> simulates ps view a room e' m' (snd (eeprom_step view (is_writable ps) room ev s))"
proof (cases ev)
  case (Byte_In v)
  with simulates_receive [OF sim sq, of v] show ?thesis by auto
next
  case Byte_Out
  with simulates_transmit [OF sim] show ?thesis by auto
next
  case Begin_Receive
  show ?thesis
    by (rule simulates_end_read [OF sim])
      (simp add: Begin_Receive hal_i2c_target_engine_begin_receive_def)
next
  case Begin_Transmit
  show ?thesis
    by (rule simulates_end_read [OF sim])
      (simp add: Begin_Transmit hal_i2c_target_engine_begin_transmit_def lib_regmap_begin_read_def Let_def
        engine_fields_reordered)
next
  case End_Transaction
  show ?thesis
    by (rule simulates_end_read [OF sim])
      (simp add: End_Transaction hal_i2c_target_engine_end_def)
qed

lemma simulates_run:
  assumes "simulates ps view a room e m s" "shares_queue ps a"
  shows "\<exists>e' m'. engine_run evs (Some e) m
      = Some (fst (eeprom_run view (is_writable ps) room evs s), Some e', m')
    \<and> simulates ps view a room e' m' (snd (eeprom_run view (is_writable ps) room evs s))"
  using assms(1)
proof (induction evs arbitrary: e m s)
  case Nil
  then show ?case by simp
next
  case (Cons ev evs)
  obtain e1 m1 where step: "engine_step ev (Some e) m
      = Some (fst (eeprom_step view (is_writable ps) room ev s), Some e1, m1)"
    "simulates ps view a room e1 m1 (snd (eeprom_step view (is_writable ps) room ev s))"
    using simulates_step [OF Cons.prems assms(2)] by blast
  from Cons.IH [OF step(2)] step(1) show ?case
    by (auto simp: Let_def split: prod.splits)
qed

section \<open>Properties\<close>

text \<open>C3. The engine implements the EEPROM-style wire protocol: for every sequence of transaction
  events, well-formed or not, its answers are those of the abstract protocol machine and it ends in
  a matching state. So the pointer changes only when both address bytes have arrived, advances with
  every data byte, wraps and survives STOP and abort; no event has undefined behaviour, and a reader
  is latched only while a read is in progress.\<close>

theorem engine_implements_protocol:
  assumes "simulates ps view a room e m s" "shares_queue ps a"
  shows "\<exists>e' m'. engine_run evs (Some e) m
      = Some (fst (eeprom_run view (is_writable ps) room evs s), Some e', m')
    \<and> simulates ps view a room e' m' (snd (eeprom_run view (is_writable ps) room evs s))"
  by (rule simulates_run [OF assms])

definition demo_engine :: "u16 \<Rightarrow> hal_i2c_target_engine" where
  "demo_engine address = \<lparr>te_regmap = Some (demo_regmap address), te_pending_address = 0,
     te_address_byte_count = 0, te_direction = Engine_Idle\<rparr>"

definition demo_eeprom :: "u16 \<Rightarrow> eeprom" where
  "demo_eeprom address = \<lparr>ee_pointer = address, ee_phase = Phase_Idle, ee_commands = [], ee_dropped = 0\<rparr>"

lemma demo_shares: "shares_queue demo_pages 5"
  by (simp add: shares_queue_def demo_pages_def)

lemma demo_simulates:
  "simulates demo_pages (register_view demo_pages demo_mem) 5 2 (demo_engine address) demo_mem (demo_eeprom address)"
proof -
  obtain q where q: "queues demo_mem 5 = Some q" "cq_inv q" "cq_contents q = []" "cq_room q = 2" "cq_dropped_count q = 0"
    by (simp add: demo_mem_def cq_inv_def pow2_capacity_2 cq_contents_def window_def cq_room_def)
  have "rm_latched_page (demo_regmap address) = None" "rm_current_address (demo_regmap address) = address"
    by (simp_all add: demo_regmap_def)
  with q demo_inv [of address] unlatched_current demo_table show ?thesis
    by (auto simp: simulates_def queue_shows_def demo_engine_def demo_eeprom_def)
qed

lemma demo_view: "register_view demo_pages demo_mem 2 = 16" "register_view demo_pages demo_mem 3 = 17"
  "register_view demo_pages demo_mem 4 = 255"
  by (simp_all add: demo_pages_def demo_mem_def register_view_def in_page_def page_offset_def
      demo_snapshot_def published_def snapshot_image_def active_index_parity LIB_REGMAP_UNMAPPED_VALUE_def)

theorem engine_implements_protocol_witness:
  "\<exists>e' m'. engine_run [Begin_Receive, Byte_In 0, Byte_In 2, Begin_Transmit, Byte_Out, Byte_Out, Byte_Out, End_Transaction]
      (Some (demo_engine 77)) demo_mem
    = Some ([Silent, Acked True, Acked True, Silent, Sent 16, Sent 17, Sent 255, Silent], Some e', m')"
proof -
  have "(word_cat (0 :: u8) (2 :: u8) :: u16) = 2" by (simp add: word_cat_eq)
  then show ?thesis
    using engine_implements_protocol [OF demo_simulates demo_shares, of
        "[Begin_Receive, Byte_In 0, Byte_In 2, Begin_Transmit, Byte_Out, Byte_Out, Byte_Out, End_Transaction]" 77]
    by (simp add: demo_eeprom_def demo_view) blast
qed

end
