(* ===== verification/Mmio.thy ===== *)
theory Mmio
  imports Prelude
begin

text \<open>
  Memory-mapped registers. The hardware is a parameter: a state of any type and what a read and a
  write of each register do to it, so a statement over all hardware covers every behaviour of the
  device, reads with side effects included. The accesses the code makes are recorded in order, with
  the values read and written, together with the barriers, delays and interrupt-controller calls
  between them; the registers named are those the HAL uses.
\<close>

section \<open>Registers\<close>

datatype i2c_reg = I2C_RSTCTL | I2C_PWREN | I2C_CLKSEL | I2C_CLKDIV | I2C_TIMEOUT_CTL
  | I2C_IIDX | I2C_IMASK | I2C_RIS | I2C_ICLR
  | I2C_MSA | I2C_MCTR | I2C_MSR | I2C_MRXDATA | I2C_MTXDATA | I2C_MTPR | I2C_MCR | I2C_MBMON
  | I2C_MFIFOCTL | I2C_MFIFOSR
  | I2C_SOAR | I2C_SOAR2 | I2C_SCTR | I2C_SSR | I2C_SRXDATA | I2C_STXDATA | I2C_SACKCTL

datatype uart_reg = UART_RSTCTL | UART_PWREN | UART_CTL0 | UART_CLKSEL | UART_CLKDIV | UART_LCRH
  | UART_IBRD | UART_FBRD | UART_IFLS | UART_STAT | UART_TXDATA | UART_IIDX | UART_IMASK | UART_ISET
  | UART_ICLR

datatype gpio_reg = GPIO_RSTCTL | GPIO_PWREN | GPIO_DOUTSET | GPIO_DOUTCLR | GPIO_DOUTTGL | GPIO_DOESET

datatype wwdt_reg = WWDT_RSTCTL | WWDT_PWREN | WWDT_PDBGCTL | WWDT_CTL0 | WWDT_CTL1 | WWDT_STAT
  | WWDT_CNTRST

datatype sysctl_reg = SYSCTL_SYSOSCCFG | SYSCTL_MCLKCFG | SYSCTL_CLKSTATUS | SYSCTL_RSTCAUSE

text \<open>A GPIO port is named by its base address, a pin-mux register by its index.\<close>

datatype reg = I2C1 i2c_reg | UART0 uart_reg | GPIO u32 gpio_reg | PINCM u32 | WWDT0 wwdt_reg
  | SYSCTL sysctl_reg

datatype access = Read reg u32 | Write reg u32 | Nop | Dsb | Isb | Wfi | Mask_Irq u32
  | Irq_Priority int u32 | Irq_Clear_Pending int | Irq_Enable int

text \<open>The low byte of a register, masked and then cast to \<open>uint8_t\<close>.\<close>

lemma low_byte [simp]: "ucast (w AND 0xff) = (ucast w :: u8)" for w :: u32
proof -
  have "w AND 0xff = take_bit 8 w" by (simp add: take_bit_eq_mask mask_eq_exp_minus_1)
  moreover have "ucast (take_bit 8 w) = (ucast w :: u8)"
    by (rule bit_word_eqI) (auto simp: bit_unsigned_iff bit_take_bit_iff)
  ultimately show ?thesis by simp
qed

lemma byte_through_register [simp]: "ucast (ucast v :: u32) = v" for v :: u8
  by (rule bit_word_eqI) (auto simp: bit_unsigned_iff)

section \<open>Accesses\<close>

record 'h hardware =
  hw_read :: "reg \<Rightarrow> 'h \<Rightarrow> u32 \<times> 'h"
  hw_write :: "reg \<Rightarrow> u32 \<Rightarrow> 'h \<Rightarrow> 'h"

record 'h machine =
  mc_device :: 'h
  mc_trace :: "access list"

definition mmio_read :: "'h hardware \<Rightarrow> reg \<Rightarrow> 'h machine \<Rightarrow> (u32 \<times> 'h machine) defined" where
  "mmio_read hw r mc = (case hw_read hw r (mc_device mc) of (v, d) \<Rightarrow>
     Some (v, \<lparr>mc_device = d, mc_trace = mc_trace mc @ [Read r v]\<rparr>))"

definition mmio_write :: "'h hardware \<Rightarrow> reg \<Rightarrow> u32 \<Rightarrow> 'h machine \<Rightarrow> 'h machine defined" where
  "mmio_write hw r v mc =
     Some \<lparr>mc_device = hw_write hw r v (mc_device mc), mc_trace = mc_trace mc @ [Write r v]\<rparr>"

text \<open>An access that is not to a register: it leaves the device alone.\<close>

definition cpu :: "access \<Rightarrow> 'h machine \<Rightarrow> 'h machine defined" where
  "cpu a mc = Some (mc\<lparr>mc_trace := mc_trace mc @ [a]\<rparr>)"

text \<open>\<open>R |= v\<close> and the like: one read, one write.\<close>

definition mmio_modify ::
  "'h hardware \<Rightarrow> reg \<Rightarrow> (u32 \<Rightarrow> u32) \<Rightarrow> 'h machine \<Rightarrow> 'h machine defined" where
  "mmio_modify hw r f mc = do {
     (v, mc) \<leftarrow> mmio_read hw r mc;
     mmio_write hw r (f v) mc
   }"

text \<open>A delay loop of \<open>count\<close> no-ops.\<close>

primrec nops :: "nat \<Rightarrow> 'h machine \<Rightarrow> 'h machine defined" where
  "nops 0 mc = Some mc"
| "nops (Suc n) mc = do { mc \<leftarrow> cpu Nop mc; nops n mc }"

definition hal_power_wait_after_enable :: "'h machine \<Rightarrow> 'h machine defined" where
  "hal_power_wait_after_enable mc = do {
     mc \<leftarrow> cpu Dsb mc;
     mc \<leftarrow> cpu Isb mc;
     nops 64 mc
   }"

section \<open>What was written\<close>

named_theorems mmio_simps

lemma mmio_read_trace [mmio_simps]:
  "mmio_read hw r mc = Some (v, mc') \<Longrightarrow> mc_trace mc' = mc_trace mc @ [Read r v]"
  by (auto simp: mmio_read_def split: prod.splits)

lemma nops_trace [mmio_simps]:
  "nops n mc = Some (mc\<lparr>mc_trace := mc_trace mc @ replicate n Nop\<rparr>)"
proof (induction n arbitrary: mc)
  case 0
  then show ?case by simp
next
  case (Suc n)
  then show ?case by (simp add: cpu_def)
qed

lemma hal_power_wait_trace [mmio_simps]:
  "hal_power_wait_after_enable mc = Some (mc\<lparr>mc_trace := mc_trace mc @ Dsb # Isb # replicate 64 Nop\<rparr>)"
  by (simp add: hal_power_wait_after_enable_def cpu_def nops_trace)

lemma mmio_modify_eq [mmio_simps]:
  "mmio_modify hw r f mc = Some \<lparr>mc_device = hw_write hw r (f (fst (hw_read hw r (mc_device mc))))
       (snd (hw_read hw r (mc_device mc))),
     mc_trace = mc_trace mc @ [Read r (fst (hw_read hw r (mc_device mc))),
                               Write r (f (fst (hw_read hw r (mc_device mc))))]\<rparr>"
  by (simp add: mmio_modify_def mmio_read_def mmio_write_def split: prod.split)

text \<open>The values written to a register, and read from it, in order.\<close>

fun written :: "reg \<Rightarrow> access list \<Rightarrow> u32 list" where
  "written r [] = []"
| "written r (Write r' v # tr) = (if r' = r then v # written r tr else written r tr)"
| "written r (_ # tr) = written r tr"

fun seen :: "reg \<Rightarrow> access list \<Rightarrow> u32 list" where
  "seen r [] = []"
| "seen r (Read r' v # tr) = (if r' = r then v # seen r tr else seen r tr)"
| "seen r (_ # tr) = seen r tr"

lemma written_append [simp]: "written r (tr @ tr') = written r tr @ written r tr'"
  by (induction r tr rule: written.induct) simp_all

lemma seen_append [simp]: "seen r (tr @ tr') = seen r tr @ seen r tr'"
  by (induction r tr rule: seen.induct) simp_all

lemma written_nops [simp]: "written r (replicate n Nop) = []" "seen r (replicate n Nop) = []"
  by (induction n) simp_all

text \<open>Plain memory-like hardware: reads return the last value written. Used for witnesses.\<close>

definition plain_hardware :: "(reg \<Rightarrow> u32) hardware" where
  "plain_hardware = \<lparr>hw_read = (\<lambda>r d. (d r, d)), hw_write = (\<lambda>r v d. d(r := v))\<rparr>"

end
