(* ===== verification/I2C_Target.thy ===== *)
theory I2C_Target
  imports Target_Engine Mmio
begin

text \<open>
  \<open>hal/hal_i2c_target.c\<close>: the I2C1 target driver. Its static variables, the engine it owns and the
  device are one record; \<open>g_i2c\<close> points at I2C1 once the driver is initialised, which every handler
  requires. The interrupt handler loops while the device reports an interrupt, so it takes fuel:
  \<open>None\<close> is either undefined behaviour or fuel run out, and the properties prove neither happens.
\<close>

section \<open>State\<close>

record 'h i2c_target =
  it_machine :: "'h machine"
  it_engine :: hal_i2c_target_engine
  it_mem :: regmap_mem
  it_error_count :: u32
  it_unexpected_event_count :: u32
  it_initialized :: bool
  it_start_prehandled :: bool

text \<open>Accesses to the device and calls of the engine on this state.\<close>

definition target_read :: "'h hardware \<Rightarrow> i2c_reg \<Rightarrow> 'h i2c_target \<Rightarrow> (u32 \<times> 'h i2c_target) defined" where
  "target_read hw r st = do {
     (v, mc) \<leftarrow> mmio_read hw (I2C1 r) (it_machine st);
     Some (v, st\<lparr>it_machine := mc\<rparr>)
   }"

definition target_write :: "'h hardware \<Rightarrow> reg \<Rightarrow> u32 \<Rightarrow> 'h i2c_target \<Rightarrow> 'h i2c_target defined" where
  "target_write hw r v st = do {
     mc \<leftarrow> mmio_write hw r v (it_machine st);
     Some (st\<lparr>it_machine := mc\<rparr>)
   }"

definition target_engine_call ::
  "(hal_i2c_target_engine option \<Rightarrow> regmap_mem \<Rightarrow> (hal_i2c_target_engine option \<times> regmap_mem) defined)
    \<Rightarrow> 'h i2c_target \<Rightarrow> 'h i2c_target defined" where
  "target_engine_call f st = do {
     (engine, m) \<leftarrow> f (Some (it_engine st)) (it_mem st);
     e \<leftarrow> engine;
     Some (st\<lparr>it_engine := e, it_mem := m\<rparr>)
   }"

section \<open>Interrupt handling\<close>

text \<open>Values of the \<open>STAT\<close> field of \<open>IIDX\<close> that the handler knows, from \<open>hw_i2c.h\<close>.\<close>

definition IIDX_STAT_MASK :: u32 where "IIDX_STAT_MASK = 0xff"
definition IIDX_NO_INTR :: u32 where "IIDX_NO_INTR = 0"
definition IIDX_TIMEOUTA :: u32 where "IIDX_TIMEOUTA = 0x0f"
definition IIDX_SRXDONE :: u32 where "IIDX_SRXDONE = 0x11"
definition IIDX_STXDONE :: u32 where "IIDX_STXDONE = 0x12"
definition IIDX_STXEMPTY :: u32 where "IIDX_STXEMPTY = 0x16"
definition IIDX_SSTART :: u32 where "IIDX_SSTART = 0x17"
definition IIDX_SSTOP :: u32 where "IIDX_SSTOP = 0x18"
definition IIDX_STX_UNFL :: u32 where "IIDX_STX_UNFL = 0x1d"
definition IIDX_SRX_OVFL :: u32 where "IIDX_SRX_OVFL = 0x1e"
definition IIDX_SARBLOST :: u32 where "IIDX_SARBLOST = 0x1f"
definition IIDX_INTR_OVFL :: u32 where "IIDX_INTR_OVFL = 0x20"
definition RIS_SSTART :: u32 where "RIS_SSTART = 0x00400000"
definition SSR_TREQ :: u32 where "SSR_TREQ = 0x00000002"

lemmas iidx_defs = IIDX_STAT_MASK_def IIDX_NO_INTR_def IIDX_TIMEOUTA_def IIDX_SRXDONE_def
  IIDX_STXDONE_def IIDX_STXEMPTY_def IIDX_SSTART_def IIDX_SSTOP_def IIDX_STX_UNFL_def
  IIDX_SRX_OVFL_def IIDX_SARBLOST_def IIDX_INTR_OVFL_def

definition hal_i2c_target_handle_start :: "'h i2c_target \<Rightarrow> 'h i2c_target defined" where
  "hal_i2c_target_handle_start st = target_engine_call hal_i2c_target_engine_abort st"

definition hal_i2c_target_begin_if_start_pending ::
  "'h hardware \<Rightarrow> 'h i2c_target \<Rightarrow> 'h i2c_target defined" where
  "hal_i2c_target_begin_if_start_pending hw st = do {
     (ris, st) \<leftarrow> target_read hw I2C_RIS st;
     (if ris AND RIS_SSTART \<noteq> 0
      then do {
        st \<leftarrow> hal_i2c_target_handle_start st;
        Some (st\<lparr>it_start_prehandled := True\<rparr>)
      }
      else Some st)
   }"

definition hal_i2c_target_receive_byte :: "'h hardware \<Rightarrow> 'h i2c_target \<Rightarrow> 'h i2c_target defined" where
  "hal_i2c_target_receive_byte hw st = do {
     st \<leftarrow> hal_i2c_target_begin_if_start_pending hw st;
     st \<leftarrow> (if direction_of (Some (it_engine st)) \<noteq> Engine_Receive
            then target_engine_call hal_i2c_target_engine_begin_receive st else Some st);
     mc \<leftarrow> nops 2 (it_machine st);
     let st = st\<lparr>it_machine := mc\<rparr>;
     (rx, st) \<leftarrow> target_read hw I2C_SRXDATA st;
     let v = ucast (rx AND 0xff);
     (ok, engine, m) \<leftarrow> hal_i2c_target_engine_receive (Some (it_engine st)) v (it_mem st);
     e \<leftarrow> engine;
     let st = st\<lparr>it_engine := e, it_mem := m\<rparr>;
     Some (if ok then st else st\<lparr>it_error_count := it_error_count st + 1\<rparr>)
   }"

definition hal_i2c_target_transmit_byte :: "'h hardware \<Rightarrow> 'h i2c_target \<Rightarrow> 'h i2c_target defined" where
  "hal_i2c_target_transmit_byte hw st = do {
     (ssr, st) \<leftarrow> target_read hw I2C_SSR st;
     (if ssr AND SSR_TREQ = 0 then Some st
      else do {
        st \<leftarrow> hal_i2c_target_begin_if_start_pending hw st;
        st \<leftarrow> (if direction_of (Some (it_engine st)) \<noteq> Engine_Transmit
               then target_engine_call hal_i2c_target_engine_begin_transmit st else Some st);
        (v, engine, m) \<leftarrow> hal_i2c_target_engine_transmit (Some (it_engine st)) (it_mem st);
        e \<leftarrow> engine;
        target_write hw (I2C1 I2C_STXDATA) (ucast v) (st\<lparr>it_engine := e, it_mem := m\<rparr>)
      })
   }"

definition hal_i2c_target_abort :: "'h i2c_target \<Rightarrow> 'h i2c_target defined" where
  "hal_i2c_target_abort st = do {
     let st = st\<lparr>it_error_count := it_error_count st + 1\<rparr>;
     st \<leftarrow> target_engine_call hal_i2c_target_engine_abort st;
     Some (st\<lparr>it_start_prehandled := False\<rparr>)
   }"

text \<open>The \<open>switch\<close> of the interrupt handler.\<close>

definition irq_dispatch :: "'h hardware \<Rightarrow> u32 \<Rightarrow> 'h i2c_target \<Rightarrow> 'h i2c_target defined" where
  "irq_dispatch hw interrupt st =
     (if interrupt = IIDX_SRXDONE then hal_i2c_target_receive_byte hw st
      else if interrupt = IIDX_STXEMPTY then hal_i2c_target_transmit_byte hw st
      else if interrupt = IIDX_STXDONE then hal_i2c_target_transmit_byte hw st
      else if interrupt = IIDX_SSTART
      then (if it_start_prehandled st then Some (st\<lparr>it_start_prehandled := False\<rparr>)
            else hal_i2c_target_handle_start st)
      else if interrupt = IIDX_SSTOP
      then do {
        st \<leftarrow> target_engine_call hal_i2c_target_engine_end st;
        Some (st\<lparr>it_start_prehandled := False\<rparr>)
      }
      else if interrupt \<in> {IIDX_TIMEOUTA, IIDX_STX_UNFL, IIDX_SRX_OVFL, IIDX_SARBLOST, IIDX_INTR_OVFL}
      then hal_i2c_target_abort st
      else hal_i2c_target_abort (st\<lparr>it_unexpected_event_count := it_unexpected_event_count st + 1\<rparr>))"

fun irq_loop :: "'h hardware \<Rightarrow> nat \<Rightarrow> 'h i2c_target \<Rightarrow> 'h i2c_target defined" where
  "irq_loop hw 0 st = None"
| "irq_loop hw (Suc fuel) st = do {
     (iidx, st) \<leftarrow> target_read hw I2C_IIDX st;
     let interrupt = iidx AND IIDX_STAT_MASK;
     (if interrupt = IIDX_NO_INTR then Some st
      else do {
        st \<leftarrow> irq_dispatch hw interrupt st;
        irq_loop hw fuel st
      })
   }"

definition I2C1_IRQHandler :: "'h hardware \<Rightarrow> nat \<Rightarrow> 'h i2c_target \<Rightarrow> 'h i2c_target defined" where
  "I2C1_IRQHandler hw fuel st = (if \<not> it_initialized st then Some st else irq_loop hw fuel st)"

definition hal_i2c_target_error_count :: "'h i2c_target \<Rightarrow> u32" where
  "hal_i2c_target_error_count st = (if it_initialized st then it_error_count st else 0)"

definition hal_i2c_target_unexpected_event_count :: "'h i2c_target \<Rightarrow> u32" where
  "hal_i2c_target_unexpected_event_count st = (if it_initialized st then it_unexpected_event_count st else 0)"

section \<open>Initialisation\<close>

record hal_i2c_target_config =
  tc_instance_base :: u32
  tc_interrupt_number :: int
  tc_scl_pincm_index :: u32
  tc_scl_pincm_function :: u32
  tc_sda_pincm_index :: u32
  tc_sda_pincm_function :: u32
  tc_input_clock_hz :: u32
  tc_bus_hz :: u32
  tc_own_address :: u8
  tc_scl_low_timeout_count :: u8

definition I2C1_BASE :: u32 where "I2C1_BASE = 0x400f2000"
definition I2C1_INT_IRQn :: int where "I2C1_INT_IRQn = 25"
definition PINCM_COUNT :: u32 where "PINCM_COUNT = 251"
definition PINCM_PF_MASK :: u32 where "PINCM_PF_MASK = 0x3f"
definition TIMING_DENOMINATOR :: u32 where "TIMING_DENOMINATOR = 10"

definition hal_i2c_target_config_is_valid :: "hal_i2c_target_config option \<Rightarrow> lib_regmap option \<Rightarrow> bool" where
  "hal_i2c_target_config_is_valid config regmap =
     (case (config, regmap) of
        (Some c, Some _) \<Rightarrow>
          let denominator = TIMING_DENOMINATOR * tc_bus_hz c in
          if tc_instance_base c \<noteq> I2C1_BASE
             \<or> tc_interrupt_number c \<noteq> I2C1_INT_IRQn
             \<or> tc_own_address c > 0x7f
             \<or> tc_scl_pincm_index c \<ge> PINCM_COUNT
             \<or> tc_sda_pincm_index c \<ge> PINCM_COUNT
             \<or> tc_scl_pincm_function c AND NOT PINCM_PF_MASK \<noteq> 0
             \<or> tc_sda_pincm_function c AND NOT PINCM_PF_MASK \<noteq> 0
             \<or> tc_bus_hz c = 0 \<or> tc_scl_low_timeout_count c \<le> 1
             \<or> denominator = 0 \<or> tc_input_clock_hz c mod denominator \<noteq> 0
          then False
          else let timer_divider = tc_input_clock_hz c div denominator in
            timer_divider > 0 \<and> timer_divider \<le> 128
      | _ \<Rightarrow> False)"

text \<open>Register values, from \<open>hw_i2c.h\<close> and \<open>hw_iomux.h\<close>: the reset and power keys with their enable
  bits, \<open>PC_CONNECTED | INENA_ENABLE | HIZ1_ENABLE\<close>, the interrupt mask of the ten events, and the
  two words of \<open>SCTR\<close> (clock stretching, \<open>TXEMPTY_ON_TREQ\<close>, \<open>TXWAIT_STALE_TXFIFO\<close>; \<open>ACTIVE\<close>).\<close>

definition I2C_RESET :: u32 where "I2C_RESET = 0xb1000000 OR 0x2 OR 0x1"
definition I2C_POWER_ON :: u32 where "I2C_POWER_ON = 0x26000000 OR 0x1"
definition PINCM_OPEN_DRAIN :: u32 where "PINCM_OPEN_DRAIN = 0x80 OR 0x00040000 OR 0x02000000"
definition HAL_I2C_TARGET_INTERRUPT_MASK :: u32 where
  "HAL_I2C_TARGET_INTERRUPT_MASK = 0x00010000 OR 0x00020000 OR 0x00200000 OR 0x00400000 OR 0x00800000
     OR 0x00004000 OR 0x10000000 OR 0x20000000 OR 0x40000000 OR 0x80000000"
definition SCTR_CONFIG :: u32 where "SCTR_CONFIG = 0x4 OR 0x8 OR 0x20"
definition SCTR_ACTIVE :: u32 where "SCTR_ACTIVE = 0x1"

definition hal_i2c_target_init ::
  "'h hardware \<Rightarrow> hal_i2c_target_config option \<Rightarrow> lib_regmap option \<Rightarrow> 'h i2c_target
    \<Rightarrow> (bool \<times> 'h i2c_target) defined" where
  "hal_i2c_target_init hw config regmap st =
     (if it_initialized st \<or> \<not> hal_i2c_target_config_is_valid config regmap then Some (False, st)
      else case hal_i2c_target_engine_init (Some (it_engine st)) regmap of (ok, engine) \<Rightarrow>
      if \<not> ok then Some (False, st)
      else do {
        e \<leftarrow> engine;
        c \<leftarrow> config;
        let timer_divider = tc_input_clock_hz c div (TIMING_DENOMINATOR * tc_bus_hz c);
        let st = st\<lparr>it_engine := e, it_error_count := 0, it_unexpected_event_count := 0,
                    it_start_prehandled := False\<rparr>;
        mc \<leftarrow> mmio_write hw (I2C1 I2C_RSTCTL) I2C_RESET (it_machine st);
        mc \<leftarrow> mmio_write hw (I2C1 I2C_PWREN) I2C_POWER_ON mc;
        mc \<leftarrow> hal_power_wait_after_enable mc;
        mc \<leftarrow> mmio_write hw (PINCM (tc_scl_pincm_index c)) (tc_scl_pincm_function c OR PINCM_OPEN_DRAIN) mc;
        mc \<leftarrow> mmio_write hw (PINCM (tc_sda_pincm_index c)) (tc_sda_pincm_function c OR PINCM_OPEN_DRAIN) mc;
        mc \<leftarrow> mmio_write hw (I2C1 I2C_CLKSEL) 0x8 mc;
        mc \<leftarrow> mmio_write hw (I2C1 I2C_CLKDIV) 0 mc;
        mc \<leftarrow> mmio_write hw (I2C1 I2C_MTPR) (timer_divider - 1) mc;
        mc \<leftarrow> mmio_write hw (I2C1 I2C_TIMEOUT_CTL) (ucast (tc_scl_low_timeout_count c) OR 0x00008000) mc;
        mc \<leftarrow> mmio_write hw (I2C1 I2C_SOAR) (ucast (tc_own_address c) OR 0x00004000) mc;
        mc \<leftarrow> mmio_write hw (I2C1 I2C_SOAR2) 0 mc;
        mc \<leftarrow> mmio_write hw (I2C1 I2C_SCTR) SCTR_CONFIG mc;
        mc \<leftarrow> mmio_write hw (I2C1 I2C_SACKCTL) 0 mc;
        mc \<leftarrow> mmio_write hw (I2C1 I2C_IMASK) 0 mc;
        mc \<leftarrow> mmio_write hw (I2C1 I2C_ICLR) HAL_I2C_TARGET_INTERRUPT_MASK mc;
        mc \<leftarrow> mmio_write hw (I2C1 I2C_IMASK) HAL_I2C_TARGET_INTERRUPT_MASK mc;
        let st = st\<lparr>it_initialized := True\<rparr>;
        mc \<leftarrow> cpu (Irq_Priority (tc_interrupt_number c) 1) mc;
        mc \<leftarrow> cpu (Irq_Clear_Pending (tc_interrupt_number c)) mc;
        mc \<leftarrow> cpu (Irq_Enable (tc_interrupt_number c)) mc;
        mc \<leftarrow> mmio_modify hw (I2C1 I2C_SCTR) (\<lambda>v. v OR SCTR_ACTIVE) mc;
        Some (True, st\<lparr>it_machine := mc\<rparr>)
      })"

section \<open>What one interrupt means on the bus\<close>

text \<open>
  The transaction events an interrupt stands for, from what its handler reads: a START that is still
  pending behind a data interrupt ends the transaction before the byte, and a byte in a direction
  the engine is not in begins that phase.
\<close>

definition turn_events :: "bool \<Rightarrow> bool \<Rightarrow> bus_event \<Rightarrow> bus_event list" where
  "turn_events started turned ev = (if started then [End_Transaction, ev] else if turned then [ev] else [])"

definition receive_events :: "'h hardware \<Rightarrow> 'h i2c_target \<Rightarrow> bus_event list" where
  "receive_events hw st =
     (case hw_read hw (I2C1 I2C_RIS) (mc_device (it_machine st)) of (ris, d) \<Rightarrow>
      case hw_read hw (I2C1 I2C_SRXDATA) d of (rx, _) \<Rightarrow>
        turn_events (ris AND RIS_SSTART \<noteq> 0) (te_direction (it_engine st) \<noteq> Engine_Receive) Begin_Receive
        @ [Byte_In (ucast rx)])"

definition transmit_events :: "'h hardware \<Rightarrow> 'h i2c_target \<Rightarrow> bus_event list" where
  "transmit_events hw st =
     (case hw_read hw (I2C1 I2C_SSR) (mc_device (it_machine st)) of (ssr, d) \<Rightarrow>
      case hw_read hw (I2C1 I2C_RIS) d of (ris, _) \<Rightarrow>
        if ssr AND SSR_TREQ = 0 then []
        else turn_events (ris AND RIS_SSTART \<noteq> 0) (te_direction (it_engine st) \<noteq> Engine_Transmit) Begin_Transmit
          @ [Byte_Out])"

definition dispatch_events :: "'h hardware \<Rightarrow> u32 \<Rightarrow> 'h i2c_target \<Rightarrow> bus_event list" where
  "dispatch_events hw interrupt st =
     (if interrupt = IIDX_SRXDONE then receive_events hw st
      else if interrupt = IIDX_STXEMPTY \<or> interrupt = IIDX_STXDONE then transmit_events hw st
      else if interrupt = IIDX_SSTART \<and> it_start_prehandled st then []
      else [End_Transaction])"

fun irq_events :: "'h hardware \<Rightarrow> nat \<Rightarrow> 'h i2c_target \<Rightarrow> bus_event list" where
  "irq_events hw 0 st = []"
| "irq_events hw (Suc fuel) st =
     (case target_read hw I2C_IIDX st of None \<Rightarrow> []
      | Some (iidx, st) \<Rightarrow>
          if iidx AND IIDX_STAT_MASK = IIDX_NO_INTR then []
          else dispatch_events hw (iidx AND IIDX_STAT_MASK) st
            @ (case irq_dispatch hw (iidx AND IIDX_STAT_MASK) st of None \<Rightarrow> [] | Some st \<Rightarrow> irq_events hw fuel st))"

fun bytes_in :: "bus_event list \<Rightarrow> u8 list" where
  "bytes_in [] = []"
| "bytes_in (Byte_In v # evs) = v # bytes_in evs"
| "bytes_in (_ # evs) = bytes_in evs"

fun bytes_sent :: "bus_output list \<Rightarrow> u8 list" where
  "bytes_sent [] = []"
| "bytes_sent (Sent v # outs) = v # bytes_sent outs"
| "bytes_sent (_ # outs) = bytes_sent outs"

lemma bytes_in_append [simp]: "bytes_in (evs @ evs') = bytes_in evs @ bytes_in evs'"
  by (induction evs rule: bytes_in.induct) simp_all

lemma bytes_sent_append [simp]: "bytes_sent (outs @ outs') = bytes_sent outs @ bytes_sent outs'"
  by (induction outs rule: bytes_sent.induct) simp_all

text \<open>A protocol machine is a step function; it answers a list of events one by one.\<close>

fun machine_run :: "(bus_event \<Rightarrow> 's \<Rightarrow> bus_output \<times> 's) \<Rightarrow> bus_event list \<Rightarrow> 's \<Rightarrow> bus_output list \<times> 's" where
  "machine_run step [] s = ([], s)"
| "machine_run step (ev # evs) s =
     (let (out, s) = step ev s;
          (outs, s) = machine_run step evs s
      in (out # outs, s))"

lemma machine_run_Cons [simp]:
  "fst (machine_run step (ev # evs) s) = fst (step ev s) # fst (machine_run step evs (snd (step ev s)))"
  "snd (machine_run step (ev # evs) s) = snd (machine_run step evs (snd (step ev s)))"
  by (simp_all add: Let_def split: prod.splits)

declare machine_run.simps(2) [simp del]

lemma machine_run_append [simp]:
  "fst (machine_run step (evs @ evs') s) = fst (machine_run step evs s)
     @ fst (machine_run step evs' (snd (machine_run step evs s)))"
  "snd (machine_run step (evs @ evs') s) = snd (machine_run step evs' (snd (machine_run step evs s)))"
  by (induction evs arbitrary: s) simp_all

lemma eeprom_machine: "machine_run (eeprom_step view w room) evs s = eeprom_run view w room evs s"
  by (induction evs arbitrary: s) (simp_all add: machine_run.simps(2))

text \<open>\<open>serves\<close>: the handler has put exactly these events to the engine, every byte it read from the
  receive register went in, in order, and every byte that came out, in order, was written to the
  transmit register; \<open>rel\<close> relates the protocol machine to the engine and the store.\<close>

definition serves ::
  "('s \<Rightarrow> hal_i2c_target_engine \<Rightarrow> regmap_mem \<Rightarrow> bool) \<Rightarrow> (bus_event \<Rightarrow> 's \<Rightarrow> bus_output \<times> 's)
    \<Rightarrow> 'h i2c_target \<Rightarrow> 's \<Rightarrow> bus_event list \<Rightarrow> 'h i2c_target \<Rightarrow> bool" where
  "serves rel step st s evs st' \<longleftrightarrow>
     rel (snd (machine_run step evs s)) (it_engine st') (it_mem st')
     \<and> it_initialized st' = it_initialized st
     \<and> engine_run evs (Some (it_engine st)) (it_mem st)
        = Some (fst (machine_run step evs s), Some (it_engine st'), it_mem st')
     \<and> (\<exists>tr. mc_trace (it_machine st') = mc_trace (it_machine st) @ tr
        \<and> map ucast (seen (I2C1 I2C_SRXDATA) tr) = bytes_in evs
        \<and> map ucast (written (I2C1 I2C_STXDATA) tr) = bytes_sent (fst (machine_run step evs s)))"

lemma engine_run_append:
  "engine_run (evs @ evs') e m = do {
     (outs, e, m) \<leftarrow> engine_run evs e m;
     (outs', e, m) \<leftarrow> engine_run evs' e m;
     Some (outs @ outs', e, m)
   }"
proof (induction evs arbitrary: e m)
  case Nil
  then show ?case by (cases "engine_run evs' e m") auto
next
  case (Cons ev evs)
  show ?case
  proof (cases "engine_step ev e m")
    case (Some x)
    then show ?thesis
      using Cons [of "fst (snd x)" "snd (snd x)"]
      by (cases x; cases "engine_run evs (fst (snd x)) (snd (snd x))")
        (auto simp: bind_eq_Some_conv split: Option.bind_splits)
  qed simp
qed

lemma target_read_total:
  obtains v st' where "target_read hw r st = Some (v, st')" "it_engine st' = it_engine st" "it_mem st' = it_mem st"
    "hw_read hw (I2C1 r) (mc_device (it_machine st)) = (v, mc_device (it_machine st'))"
    "it_start_prehandled st' = it_start_prehandled st" "it_error_count st' = it_error_count st"
    "it_unexpected_event_count st' = it_unexpected_event_count st" "it_initialized st' = it_initialized st"
    "mc_trace (it_machine st') = mc_trace (it_machine st) @ [Read (I2C1 r) v]"
proof -
  obtain v d where "hw_read hw (I2C1 r) (mc_device (it_machine st)) = (v, d)" by fastforce
  with that [of v "st\<lparr>it_machine := \<lparr>mc_device = d, mc_trace = mc_trace (it_machine st) @ [Read (I2C1 r) v]\<rparr>\<rparr>"]
  show thesis by (simp add: target_read_def mmio_read_def)
qed

section \<open>What the handler needs of the device\<close>

text \<open>
  The one thing the handler needs of the device: some measure of what is pending that reporting an
  interrupt makes smaller and no access of the handler makes larger (the device does not raise
  interrupts faster than they are served).
\<close>

definition drains :: "'h hardware \<Rightarrow> ('h \<Rightarrow> nat) \<Rightarrow> bool" where
  "drains hw pending \<longleftrightarrow>
     (\<forall>r h. pending (snd (hw_read hw r h)) \<le> pending h)
     \<and> (\<forall>r v h. pending (hw_write hw r v h) \<le> pending h)
     \<and> (\<forall>h. fst (hw_read hw (I2C1 I2C_IIDX) h) AND IIDX_STAT_MASK \<noteq> IIDX_NO_INTR \<longrightarrow>
          pending (snd (hw_read hw (I2C1 I2C_IIDX) h)) < pending h)"

definition settles :: "'h hardware \<Rightarrow> 'h i2c_target \<Rightarrow> 'h i2c_target \<Rightarrow> bool" where
  "settles hw st st' \<longleftrightarrow> (\<forall>pending. drains hw pending \<longrightarrow>
     pending (mc_device (it_machine st')) \<le> pending (mc_device (it_machine st)))"

lemma settles_same: "it_machine st' = it_machine st \<Longrightarrow> settles hw st st'"
  by (simp add: settles_def)

lemma drains_read: "drains hw p \<Longrightarrow> hw_read hw r h = (v, h') \<Longrightarrow> p h' \<le> p h"
  unfolding drains_def by (metis snd_conv)

lemma drains_write: "drains hw p \<Longrightarrow> p (hw_write hw r v h) \<le> p h"
  by (simp add: drains_def)

lemma abort_is_end: "hal_i2c_target_engine_abort = hal_i2c_target_engine_end"
  by (intro ext) (simp add: hal_i2c_target_engine_abort_def)

definition is_data_interrupt :: "u32 \<Rightarrow> bool" where
  "is_data_interrupt i \<longleftrightarrow> i \<in> {IIDX_SRXDONE, IIDX_STXEMPTY, IIDX_STXDONE}"

definition is_error_interrupt :: "u32 \<Rightarrow> bool" where
  "is_error_interrupt i \<longleftrightarrow> \<not> is_data_interrupt i \<and> i \<notin> {IIDX_SSTART, IIDX_SSTOP}"

definition is_known_interrupt :: "u32 \<Rightarrow> bool" where
  "is_known_interrupt i \<longleftrightarrow> is_data_interrupt i \<or> i \<in> {IIDX_SSTART, IIDX_SSTOP, IIDX_TIMEOUTA, IIDX_STX_UNFL,
     IIDX_SRX_OVFL, IIDX_SARBLOST, IIDX_INTR_OVFL}"

lemmas interrupt_kinds = is_data_interrupt_def is_error_interrupt_def is_known_interrupt_def

text \<open>What the engine calls do to its direction, and what kind of answer they give.\<close>

fun turned_to :: "bus_event \<Rightarrow> hal_i2c_target_engine_direction \<Rightarrow> hal_i2c_target_engine_direction" where
  "turned_to Begin_Receive d = Engine_Receive"
| "turned_to Begin_Transmit d = Engine_Transmit"
| "turned_to End_Transaction d = Engine_Idle"
| "turned_to _ d = d"

lemma engine_direction:
  assumes "engine_step ev (Some e) m = Some (out, Some e', m')" "te_regmap e \<noteq> None"
  shows "te_direction e' = turned_to ev (te_direction e)"
  using assms
  by (cases ev) (auto simp: hal_i2c_target_engine_begin_receive_def hal_i2c_target_engine_begin_transmit_def
      hal_i2c_target_engine_end_def hal_i2c_target_engine_receive_def hal_i2c_target_engine_transmit_def Let_def
      bind_eq_Some_conv split: if_splits)

lemma engine_answer:
  assumes "engine_step ev (Some e) m = Some (out, e', m')" "te_regmap e \<noteq> None"
  shows "ev = Byte_Out \<Longrightarrow> \<exists>v. out = Sent v"
    and "ev = Byte_In v \<Longrightarrow> te_direction e = Engine_Receive \<Longrightarrow> out = Acked True"
  using assms by (auto simp: hal_i2c_target_engine_receive_def bind_eq_Some_conv Let_def split: if_splits)

section \<open>Each handler serves its events\<close>

text \<open>
  The interface between the interrupt handler and the protocol: a protocol machine that the engine follows, one event at
  a time. Whatever machine that is, the handler puts it the events of its interrupts and passes on its answers.
\<close>

locale bus_protocol =
  fixes rel :: "'s \<Rightarrow> hal_i2c_target_engine \<Rightarrow> regmap_mem \<Rightarrow> bool"
    and step :: "bus_event \<Rightarrow> 's \<Rightarrow> bus_output \<times> 's"
  assumes follows: "rel s e m \<Longrightarrow> \<exists>e' m'. engine_step ev (Some e) m = Some (fst (step ev s), Some e', m') \<and> rel (snd (step ev s)) e' m'"
    and has_regmap: "rel s e m \<Longrightarrow> te_regmap e \<noteq> None"
begin

lemma serves_trans:
  assumes "serves rel step st s evs st'"
    and "serves rel step st' (snd (machine_run step evs s)) evs' st''"
  shows "serves rel step st s (evs @ evs') st''"
  using assms unfolding serves_def by (fastforce simp: engine_run_append)

lemma serves_refl:
  "rel s (it_engine st) (it_mem st) \<Longrightarrow> it_engine st' = it_engine st \<Longrightarrow> it_mem st' = it_mem st \<Longrightarrow>
    it_initialized st' = it_initialized st \<Longrightarrow> mc_trace (it_machine st') = mc_trace (it_machine st) @ tr \<Longrightarrow>
    seen (I2C1 I2C_SRXDATA) tr = [] \<Longrightarrow> written (I2C1 I2C_STXDATA) tr = [] \<Longrightarrow>
    serves rel step st s [] st'"
  by (simp add: serves_def)

text \<open>Reading a register other than the receive register is no event.\<close>

lemma serves_read:
  assumes "target_read hw r st = Some (v, st')" "r \<noteq> I2C_SRXDATA"
    "rel s (it_engine st) (it_mem st)"
  shows "serves rel step st s [] st'"
  using assms(1,2)
  by (intro serves_refl [OF assms(3), where tr = "[Read (I2C1 r) v]"])
    (auto simp: target_read_def mmio_read_def split: prod.splits)

lemma engine_call_serves:
  assumes sim: "rel s (it_engine st) (it_mem st)"
    and f: "\<And>e m. engine_step ev e m = do { (e, m) \<leftarrow> f e m; Some (Silent, e, m) }" and ev: "bytes_in [ev] = []"
  obtains st' where "target_engine_call f st = Some st'" "serves rel step st s [ev] st'"
    "it_machine st' = it_machine st" "it_start_prehandled st' = it_start_prehandled st"
    "it_error_count st' = it_error_count st" "it_unexpected_event_count st' = it_unexpected_event_count st"
    "te_direction (it_engine st') = turned_to ev (te_direction (it_engine st))"
proof -
  obtain e' m' where step: "engine_step ev (Some (it_engine st)) (it_mem st)
      = Some (fst (step ev s), Some e', m')"
    "rel (snd (step ev s)) e' m'"
    using follows [OF sim] by blast
  then have call: "f (Some (it_engine st)) (it_mem st) = Some (Some e', m')"
    and out: "fst (step ev s) = Silent"
    by (auto simp: f bind_eq_Some_conv)
  show thesis
  proof (rule that)
    show "target_engine_call f st = Some (st\<lparr>it_engine := e', it_mem := m'\<rparr>)"
      by (simp add: target_engine_call_def call)
    show "serves rel step st s [ev] (st\<lparr>it_engine := e', it_mem := m'\<rparr>)"
      using step out ev by (simp add: serves_def)
    show "te_direction (it_engine (st\<lparr>it_engine := e', it_mem := m'\<rparr>)) = turned_to ev (te_direction (it_engine st))"
      using engine_direction [OF step(1) has_regmap [OF sim]] by simp
  qed simp_all
qed

lemma end_serves:
  assumes "rel s (it_engine st) (it_mem st)"
  obtains st' where "target_engine_call hal_i2c_target_engine_end st = Some st'"
    "serves rel step st s [End_Transaction] st'"
    "it_machine st' = it_machine st" "it_start_prehandled st' = it_start_prehandled st"
    "it_error_count st' = it_error_count st" "it_unexpected_event_count st' = it_unexpected_event_count st"
    "te_direction (it_engine st') = Engine_Idle"
  by (rule engine_call_serves [OF assms, of End_Transaction hal_i2c_target_engine_end]) simp_all

lemma serves_rel:
  "serves rel step st s evs st' \<Longrightarrow>
    rel (snd (machine_run step evs s)) (it_engine st') (it_mem st')"
  by (simp add: serves_def)

text \<open>The start check and the change of direction, up to the byte itself: \<open>begin\<close> is the engine call
  that turns to direction \<open>dir\<close>, \<open>ev\<close> its event.\<close>

lemma turn_serves:
  assumes sim: "rel s (it_engine st) (it_mem st)"
    and f: "\<And>e m. engine_step ev e m = do { (e, m) \<leftarrow> begin_op e m; Some (Silent, e, m) }" "bytes_in [ev] = []"
    and dir: "dir \<noteq> Engine_Idle"
      "\<And>d. turned_to ev d = dir"
    and ris: "hw_read hw (I2C1 I2C_RIS) (mc_device (it_machine st)) = (ris, d)"
  obtains st1 st2 where "hal_i2c_target_begin_if_start_pending hw st = Some st1"
    "(if direction_of (Some (it_engine st1)) \<noteq> dir then target_engine_call begin_op st1 else Some st1) = Some st2"
    "serves rel step st s
       (turn_events (ris AND RIS_SSTART \<noteq> 0) (te_direction (it_engine st) \<noteq> dir) ev) st2"
    "te_direction (it_engine st2) = dir" "mc_device (it_machine st2) = d" "it_error_count st2 = it_error_count st"
    "it_unexpected_event_count st2 = it_unexpected_event_count st"
    "it_start_prehandled st2 = (it_start_prehandled st \<or> ris AND RIS_SSTART \<noteq> 0)"
proof -
  obtain v sta where a: "target_read hw I2C_RIS st = Some (v, sta)" "it_engine sta = it_engine st" "it_mem sta = it_mem st"
    "hw_read hw (I2C1 I2C_RIS) (mc_device (it_machine st)) = (v, mc_device (it_machine sta))"
    "it_start_prehandled sta = it_start_prehandled st" "it_error_count sta = it_error_count st"
    "it_unexpected_event_count sta = it_unexpected_event_count st"
    by (rule target_read_total)
  have v: "v = ris" "mc_device (it_machine sta) = d" using a(4) ris by simp_all
  have sva: "serves rel step st s [] sta" by (rule serves_read [OF a(1) _ sim]) simp
  have sima: "rel s (it_engine sta) (it_mem sta)" using sim a(2,3) by simp
  show thesis
  proof (cases "ris AND RIS_SSTART \<noteq> 0")
    case True
    obtain stb where b: "target_engine_call hal_i2c_target_engine_end sta = Some stb"
      "serves rel step sta s [End_Transaction] stb" "it_machine stb = it_machine sta"
      "it_start_prehandled stb = it_start_prehandled sta" "it_error_count stb = it_error_count sta"
      "it_unexpected_event_count stb = it_unexpected_event_count sta" "te_direction (it_engine stb) = Engine_Idle"
      by (rule end_serves [OF sima])
    let ?st1 = "stb\<lparr>it_start_prehandled := True\<rparr>"
    have svb: "serves rel step st s [End_Transaction] ?st1"
      using serves_trans [OF sva, of "[End_Transaction]" stb] b(2) by (simp add: serves_def)
    have simb: "rel (snd (step End_Transaction s)) (it_engine ?st1) (it_mem ?st1)"
      using serves_rel [OF svb] by simp
    obtain st2 where c: "target_engine_call begin_op ?st1 = Some st2"
      "serves rel step ?st1 (snd (step End_Transaction s)) [ev] st2" "it_machine st2 = it_machine ?st1"
      "it_start_prehandled st2 = it_start_prehandled ?st1" "it_error_count st2 = it_error_count ?st1"
      "it_unexpected_event_count st2 = it_unexpected_event_count ?st1"
      "te_direction (it_engine st2) = turned_to ev (te_direction (it_engine ?st1))"
      by (rule engine_call_serves [OF simb, where f = begin_op, OF f])
    have "serves rel step st s ([End_Transaction] @ [ev]) st2"
      by (rule serves_trans [OF svb]) (use c(2) in simp)
    moreover have "te_direction (it_engine st2) = dir" using c(7) dir(2) by simp
    moreover have "hal_i2c_target_begin_if_start_pending hw st = Some ?st1"
      using True a(1) b(1) v by (simp add: hal_i2c_target_begin_if_start_pending_def
          hal_i2c_target_handle_start_def abort_is_end)
    ultimately show thesis
      using that [of ?st1 st2] c a b v True dir
      by (simp add: turn_events_def direction_of_def)
  next
    case False
    have started: "hal_i2c_target_begin_if_start_pending hw st = Some sta"
      using False a(1) v by (simp add: hal_i2c_target_begin_if_start_pending_def)
    show thesis
    proof (cases "te_direction (it_engine st) = dir")
      case True
      then show thesis
        using that [OF started, of sta] sva a v False by (simp add: turn_events_def direction_of_def)
    next
      case turn: False
      obtain st2 where c: "target_engine_call begin_op sta = Some st2"
        "serves rel step sta s [ev] st2" "it_machine st2 = it_machine sta"
        "it_start_prehandled st2 = it_start_prehandled sta" "it_error_count st2 = it_error_count sta"
        "it_unexpected_event_count st2 = it_unexpected_event_count sta"
        "te_direction (it_engine st2) = turned_to ev (te_direction (it_engine sta))"
        by (rule engine_call_serves [OF sima, where f = begin_op, OF f])
      have "serves rel step st s [ev] st2"
        using serves_trans [OF sva, of "[ev]" st2] c(2) by simp
      moreover have "te_direction (it_engine st2) = dir" using c(7) dir(2) by simp
      ultimately show thesis
        using that [OF started, of st2] turn False c a v by (simp add: turn_events_def direction_of_def)
    qed
  qed
qed

lemma receive_byte_serves:
  assumes sim: "rel s (it_engine st) (it_mem st)"
  obtains st' where "hal_i2c_target_receive_byte hw st = Some st'"
    "serves rel step st s (receive_events hw st) st'" "it_error_count st' = it_error_count st"
    "it_unexpected_event_count st' = it_unexpected_event_count st"
    "mc_device (it_machine st') = snd (hw_read hw (I2C1 I2C_SRXDATA) (snd (hw_read hw (I2C1 I2C_RIS) (mc_device (it_machine st)))))"
    "it_start_prehandled st' = (it_start_prehandled st
       \<or> fst (hw_read hw (I2C1 I2C_RIS) (mc_device (it_machine st))) AND RIS_SSTART \<noteq> 0)"
    "settles hw st st'"
proof -
  obtain ris d where ris: "hw_read hw (I2C1 I2C_RIS) (mc_device (it_machine st)) = (ris, d)" by fastforce
  let ?evs = "turn_events (ris AND RIS_SSTART \<noteq> 0) (te_direction (it_engine st) \<noteq> Engine_Receive) Begin_Receive"
  obtain st1 st2 where t: "hal_i2c_target_begin_if_start_pending hw st = Some st1"
    "(if direction_of (Some (it_engine st1)) \<noteq> Engine_Receive
      then target_engine_call hal_i2c_target_engine_begin_receive st1 else Some st1) = Some st2"
    "serves rel step st s ?evs st2"
    "te_direction (it_engine st2) = Engine_Receive" "mc_device (it_machine st2) = d"
    "it_error_count st2 = it_error_count st" "it_unexpected_event_count st2 = it_unexpected_event_count st"
    "it_start_prehandled st2 = (it_start_prehandled st \<or> ris AND RIS_SSTART \<noteq> 0)"
    by (rule turn_serves [OF sim _ _ _ _ ris, of Begin_Receive hal_i2c_target_engine_begin_receive Engine_Receive])
      simp_all
  let ?s2 = "snd (machine_run step ?evs s)"
  let ?st3 = "st2\<lparr>it_machine := it_machine st2\<lparr>mc_trace := mc_trace (it_machine st2) @ replicate 2 Nop\<rparr>\<rparr>"
  obtain rx st4 where r: "target_read hw I2C_SRXDATA ?st3 = Some (rx, st4)" "it_engine st4 = it_engine ?st3"
    "it_mem st4 = it_mem ?st3"
    "hw_read hw (I2C1 I2C_SRXDATA) (mc_device (it_machine ?st3)) = (rx, mc_device (it_machine st4))"
    "it_start_prehandled st4 = it_start_prehandled ?st3" "it_error_count st4 = it_error_count ?st3"
    "it_unexpected_event_count st4 = it_unexpected_event_count ?st3" "it_initialized st4 = it_initialized ?st3"
    "mc_trace (it_machine st4) = mc_trace (it_machine ?st3) @ [Read (I2C1 I2C_SRXDATA) rx]"
    by (rule target_read_total)
  have sim2: "rel ?s2 (it_engine st2) (it_mem st2)" by (rule serves_rel [OF t(3)])
  obtain e' m' where f: "engine_step (Byte_In (ucast rx)) (Some (it_engine st2)) (it_mem st2)
      = Some (fst (step (Byte_In (ucast rx)) ?s2), Some e', m')" "rel (snd (step (Byte_In (ucast rx)) ?s2)) e' m'"
    using follows [OF sim2] by blast
  have out: "fst (step (Byte_In (ucast rx)) ?s2) = Acked True"
    using engine_answer(2) [OF f(1) has_regmap [OF sim2]] t(4) by simp
  have b: "hal_i2c_target_engine_receive (Some (it_engine st2)) (ucast rx) (it_mem st2) = Some (True, Some e', m')"
    "rel (snd (step (Byte_In (ucast rx)) ?s2)) e' m'"
    using f out by (auto simp: bind_eq_Some_conv)
  let ?st5 = "st4\<lparr>it_engine := e', it_mem := m'\<rparr>"
  have "hal_i2c_target_receive_byte hw st = Some ?st5"
    using t(1,2) r b(1) by (simp add: hal_i2c_target_receive_byte_def nops_trace Let_def)
  moreover have "serves rel step st2 ?s2 [Byte_In (ucast rx)] ?st5"
    using b out r(8,9) by (simp add: serves_def numeral_2_eq_2)
  then have "serves rel step st s (?evs @ [Byte_In (ucast rx)]) ?st5"
    by (rule serves_trans [OF t(3)])
  moreover have "receive_events hw st = ?evs @ [Byte_In (ucast rx)]"
    using r(4) t(5) ris by (simp add: receive_events_def)
  moreover have "mc_device (it_machine ?st5) = snd (hw_read hw (I2C1 I2C_SRXDATA) d)"
    using r(4) t(5) by simp
  moreover have "settles hw st ?st5"
    unfolding settles_def
  proof (intro allI impI)
    fix p
    assume "drains hw p"
    note read = drains_read [OF this]
    have "hw_read hw (I2C1 I2C_SRXDATA) d = (rx, mc_device (it_machine ?st5))" using r(4) t(5) by simp
    from read [OF this] read [OF ris]
    show "p (mc_device (it_machine ?st5)) \<le> p (mc_device (it_machine st))" by simp
  qed
  ultimately show thesis
    using that [of ?st5] r(5-7) t(6-8) ris by simp
qed

lemma transmit_byte_serves:
  assumes sim: "rel s (it_engine st) (it_mem st)"
  obtains st' where "hal_i2c_target_transmit_byte hw st = Some st'"
    "serves rel step st s (transmit_events hw st) st'" "it_error_count st' = it_error_count st"
    "it_unexpected_event_count st' = it_unexpected_event_count st" "settles hw st st'"
proof -
  obtain ssr st0 where q: "target_read hw I2C_SSR st = Some (ssr, st0)" "it_engine st0 = it_engine st"
    "it_mem st0 = it_mem st" "hw_read hw (I2C1 I2C_SSR) (mc_device (it_machine st)) = (ssr, mc_device (it_machine st0))"
    "it_start_prehandled st0 = it_start_prehandled st" "it_error_count st0 = it_error_count st"
    "it_unexpected_event_count st0 = it_unexpected_event_count st" "it_initialized st0 = it_initialized st"
    by (rule target_read_total)
  have sv0: "serves rel step st s [] st0" by (rule serves_read [OF q(1) _ sim]) simp
  have sim0: "rel s (it_engine st0) (it_mem st0)" using sim q(2,3) by simp
  obtain ris d where ris: "hw_read hw (I2C1 I2C_RIS) (mc_device (it_machine st0)) = (ris, d)" by fastforce
  show thesis
  proof (cases "ssr AND SSR_TREQ = 0")
    case True
    then have "hal_i2c_target_transmit_byte hw st = Some st0" "transmit_events hw st = []"
      using q(1,4) ris by (simp_all add: hal_i2c_target_transmit_byte_def transmit_events_def)
    moreover have "settles hw st st0" using q(4) drains_read by (fastforce simp: settles_def)
    ultimately show thesis using that [of st0] sv0 q(6,7) by simp
  next
    case False
    let ?evs = "turn_events (ris AND RIS_SSTART \<noteq> 0) (te_direction (it_engine st0) \<noteq> Engine_Transmit) Begin_Transmit"
    obtain st1 st2 where t: "hal_i2c_target_begin_if_start_pending hw st0 = Some st1"
      "(if direction_of (Some (it_engine st1)) \<noteq> Engine_Transmit
        then target_engine_call hal_i2c_target_engine_begin_transmit st1 else Some st1) = Some st2"
      "serves rel step st0 s ?evs st2"
      "te_direction (it_engine st2) = Engine_Transmit" "mc_device (it_machine st2) = d"
      "it_error_count st2 = it_error_count st0" "it_unexpected_event_count st2 = it_unexpected_event_count st0"
      "it_start_prehandled st2 = (it_start_prehandled st0 \<or> ris AND RIS_SSTART \<noteq> 0)"
      by (rule turn_serves [OF sim0 _ _ _ _ ris, of Begin_Transmit hal_i2c_target_engine_begin_transmit Engine_Transmit])
        simp_all
    let ?s2 = "snd (machine_run step ?evs s)"
    have sim2: "rel ?s2 (it_engine st2) (it_mem st2)" by (rule serves_rel [OF t(3)])
    obtain e' m' where f: "engine_step Byte_Out (Some (it_engine st2)) (it_mem st2)
        = Some (fst (step Byte_Out ?s2), Some e', m')" "rel (snd (step Byte_Out ?s2)) e' m'"
      using follows [OF sim2] by blast
    obtain v where out: "fst (step Byte_Out ?s2) = Sent v" using engine_answer(1) [OF f(1) has_regmap [OF sim2]] by blast
    have b: "hal_i2c_target_engine_transmit (Some (it_engine st2)) (it_mem st2) = Some (v, Some e', m')"
      "fst (step Byte_Out ?s2) = Sent v" "rel (snd (step Byte_Out ?s2)) e' m'"
      using f out by (auto simp: bind_eq_Some_conv)
    let ?mc = "\<lparr>mc_device = hw_write hw (I2C1 I2C_STXDATA) (ucast v) (mc_device (it_machine st2)),
      mc_trace = mc_trace (it_machine st2) @ [Write (I2C1 I2C_STXDATA) (ucast v)]\<rparr>"
    let ?st5 = "st2\<lparr>it_engine := e', it_mem := m', it_machine := ?mc\<rparr>"
    have run: "hal_i2c_target_transmit_byte hw st = Some ?st5"
      using False q(1) t(1,2) b(1) by (simp add: hal_i2c_target_transmit_byte_def target_write_def mmio_write_def)
    have "serves rel step st2 ?s2 [Byte_Out] ?st5"
      using b by (simp add: serves_def)
    then have "serves rel step st0 s (?evs @ [Byte_Out]) ?st5" by (rule serves_trans [OF t(3)])
    then have "serves rel step st s ([] @ (?evs @ [Byte_Out])) ?st5"
      by (intro serves_trans [OF sv0]) simp
    moreover have "transmit_events hw st = ?evs @ [Byte_Out]"
      using False q(2,4) ris by (simp add: transmit_events_def)
    moreover have "settles hw st ?st5"
      unfolding settles_def
    proof (intro allI impI)
      fix p
      assume p: "drains hw p"
      from drains_read [OF p q(4)] drains_read [OF p ris] drains_write [OF p, of "I2C1 I2C_STXDATA" "ucast v" d] t(5)
      show "p (mc_device (it_machine ?st5)) \<le> p (mc_device (it_machine st))" by simp
    qed
    ultimately show thesis
      using that [OF run] t(6,7) q(6,7) by simp
  qed
qed

text \<open>Every other interrupt ends the transaction, unless it is a START that has already been acted
  on.\<close>

lemma abort_serves:
  assumes sim: "rel s (it_engine st) (it_mem st)"
  obtains st' where "hal_i2c_target_abort st = Some st'" "serves rel step st s [End_Transaction] st'"
    "it_error_count st' = it_error_count st + 1" "it_unexpected_event_count st' = it_unexpected_event_count st"
    "\<not> it_start_prehandled st'" "it_machine st' = it_machine st"
proof -
  let ?st = "st\<lparr>it_error_count := it_error_count st + 1\<rparr>"
  have "rel s (it_engine ?st) (it_mem ?st)" using sim by simp
  then obtain st1 where e: "target_engine_call hal_i2c_target_engine_end ?st = Some st1"
    "serves rel step ?st s [End_Transaction] st1"
    "it_machine st1 = it_machine ?st" "it_start_prehandled st1 = it_start_prehandled ?st"
    "it_error_count st1 = it_error_count ?st" "it_unexpected_event_count st1 = it_unexpected_event_count ?st"
    by (rule end_serves [OF _])
  have "hal_i2c_target_abort st = Some (st1\<lparr>it_start_prehandled := False\<rparr>)"
    using e(1) by (simp add: hal_i2c_target_abort_def abort_is_end)
  moreover have "serves rel step st s [End_Transaction] (st1\<lparr>it_start_prehandled := False\<rparr>)"
    using e(2) by (simp add: serves_def)
  ultimately show thesis using that e(3,5,6) by simp
qed

lemma dispatch_serves:
  assumes sim: "rel s (it_engine st) (it_mem st)"
  obtains st' where "irq_dispatch hw interrupt st = Some st'"
    "serves rel step st s (dispatch_events hw interrupt st) st'"
    "it_error_count st' = it_error_count st + of_bool (is_error_interrupt interrupt)"
    "it_unexpected_event_count st' = it_unexpected_event_count st + of_bool (\<not> is_known_interrupt interrupt)"
    "settles hw st st'"
proof -
  consider (rx) "interrupt = IIDX_SRXDONE" | (tx) "interrupt \<in> {IIDX_STXEMPTY, IIDX_STXDONE}"
    | (start) "interrupt = IIDX_SSTART" | (stop) "interrupt = IIDX_SSTOP"
    | (err) "is_error_interrupt interrupt" "is_known_interrupt interrupt"
    | (unknown) "is_error_interrupt interrupt" "\<not> is_known_interrupt interrupt"
    by (auto simp: interrupt_kinds)
  then show thesis
  proof cases
    case rx
    obtain st' where "hal_i2c_target_receive_byte hw st = Some st'"
      "serves rel step st s (receive_events hw st) st'" "it_error_count st' = it_error_count st"
      "it_unexpected_event_count st' = it_unexpected_event_count st" "settles hw st st'"
      by (rule receive_byte_serves [OF sim])
    with that [of st'] rx show thesis
      by (simp add: irq_dispatch_def dispatch_events_def interrupt_kinds settles_def)
  next
    case tx
    obtain st' where "hal_i2c_target_transmit_byte hw st = Some st'"
      "serves rel step st s (transmit_events hw st) st'" "it_error_count st' = it_error_count st"
      "it_unexpected_event_count st' = it_unexpected_event_count st" "settles hw st st'"
      by (rule transmit_byte_serves [OF sim])
    with that [of st'] tx show thesis
      by (auto simp: irq_dispatch_def dispatch_events_def interrupt_kinds iidx_defs settles_def)
  next
    case start
    obtain st1 where "target_engine_call hal_i2c_target_engine_end st = Some st1"
      "serves rel step st s [End_Transaction] st1" "it_error_count st1 = it_error_count st"
      "it_unexpected_event_count st1 = it_unexpected_event_count st" "it_machine st1 = it_machine st"
      by (rule end_serves [OF sim])
    moreover have "serves rel step st s [] (st\<lparr>it_start_prehandled := False\<rparr>)"
      using sim by (simp add: serves_def)
    ultimately show thesis
      using that [of "if it_start_prehandled st then st\<lparr>it_start_prehandled := False\<rparr> else st1"] start
      by (simp add: irq_dispatch_def dispatch_events_def interrupt_kinds iidx_defs
          hal_i2c_target_handle_start_def abort_is_end settles_def)
  next
    case stop
    obtain st1 where "target_engine_call hal_i2c_target_engine_end st = Some st1"
      "serves rel step st s [End_Transaction] st1" "it_error_count st1 = it_error_count st"
      "it_unexpected_event_count st1 = it_unexpected_event_count st" "it_machine st1 = it_machine st"
      by (rule end_serves [OF sim])
    with that [of "st1\<lparr>it_start_prehandled := False\<rparr>"] stop show thesis
      by (simp add: irq_dispatch_def dispatch_events_def interrupt_kinds iidx_defs serves_def settles_def)
  next
    case err
    obtain st' where "hal_i2c_target_abort st = Some st'" "serves rel step st s [End_Transaction] st'"
      "it_error_count st' = it_error_count st + 1" "it_unexpected_event_count st' = it_unexpected_event_count st"
      "it_machine st' = it_machine st"
      by (rule abort_serves [OF sim])
    with that [of st'] err show thesis
      by (auto simp: irq_dispatch_def dispatch_events_def interrupt_kinds settles_def)
  next
    case unknown
    let ?st = "st\<lparr>it_unexpected_event_count := it_unexpected_event_count st + 1\<rparr>"
    have "rel s (it_engine ?st) (it_mem ?st)" using sim by simp
    then obtain st' where a: "hal_i2c_target_abort ?st = Some st'" "serves rel step ?st s [End_Transaction] st'"
      "it_error_count st' = it_error_count ?st + 1" "it_unexpected_event_count st' = it_unexpected_event_count ?st"
      "it_machine st' = it_machine ?st"
      by (rule abort_serves [OF _])
    then have "serves rel step st s [End_Transaction] st'" by (simp add: serves_def)
    with that [of st'] a unknown show thesis
      by (auto simp: irq_dispatch_def dispatch_events_def interrupt_kinds settles_def)
  qed
qed

section \<open>The interrupt handler\<close>

lemma irq_loop_serves:
  assumes "rel s (it_engine st) (it_mem st)" "drains hw pending"
    "pending (mc_device (it_machine st)) < fuel"
  shows "\<exists>st'. irq_loop hw fuel st = Some st' \<and> serves rel step st s (irq_events hw fuel st) st'"
  using assms(1,3)
proof (induction fuel arbitrary: st s)
  case 0
  then show ?case by simp
next
  case (Suc fuel)
  obtain iidx st0 where q: "target_read hw I2C_IIDX st = Some (iidx, st0)" "it_engine st0 = it_engine st"
    "it_mem st0 = it_mem st" "hw_read hw (I2C1 I2C_IIDX) (mc_device (it_machine st)) = (iidx, mc_device (it_machine st0))"
    by (rule target_read_total)
  have sv0: "serves rel step st s [] st0" by (rule serves_read [OF q(1) _ Suc.prems(1)]) simp
  show ?case
  proof (cases "iidx AND IIDX_STAT_MASK = IIDX_NO_INTR")
    case True
    then show ?thesis using q(1) sv0 by simp
  next
    case False
    have sim0: "rel s (it_engine st0) (it_mem st0)" using Suc.prems(1) q(2,3) by simp
    obtain st1 where d: "irq_dispatch hw (iidx AND IIDX_STAT_MASK) st0 = Some st1"
      "serves rel step st0 s (dispatch_events hw (iidx AND IIDX_STAT_MASK) st0) st1" "settles hw st0 st1"
      by (rule dispatch_serves [OF sim0])
    let ?evs = "dispatch_events hw (iidx AND IIDX_STAT_MASK) st0"
    have "fst (hw_read hw (I2C1 I2C_IIDX) (mc_device (it_machine st))) AND IIDX_STAT_MASK \<noteq> IIDX_NO_INTR"
      using False q(4) by simp
    then have "pending (snd (hw_read hw (I2C1 I2C_IIDX) (mc_device (it_machine st)))) < pending (mc_device (it_machine st))"
      using assms(2) unfolding drains_def by blast
    then have "pending (mc_device (it_machine st0)) < pending (mc_device (it_machine st))"
      using q(4) by simp
    moreover have "pending (mc_device (it_machine st1)) \<le> pending (mc_device (it_machine st0))"
      using d(3) assms(2) by (simp add: settles_def)
    ultimately have "pending (mc_device (it_machine st1)) < fuel" using Suc.prems(2) by simp
    from Suc.IH [OF serves_rel [OF d(2)] this] obtain st' where rest: "irq_loop hw fuel st1 = Some st'"
      "serves rel step st1 (snd (machine_run step ?evs s)) (irq_events hw fuel st1) st'"
      by blast
    have "serves rel step st s ([] @ (?evs @ irq_events hw fuel st1)) st'"
      by (rule serves_trans [OF sv0]) (use serves_trans [OF d(2) rest(2)] in simp)
    then show ?thesis using q(1) d(1) rest(1) False by (simp add: Let_def)
  qed
qed

end

interpretation eeprom: bus_protocol "\<lambda>s e m. simulates ps view a room e m s \<and> shares_queue ps a"
    "eeprom_step view (is_writable ps) room" for ps view a room
  by unfold_locales (use simulates_step in blast, auto simp: simulates_def)

section \<open>A scripted device\<close>

text \<open>A device for the witnesses: it reports the interrupts of a script, one after the other, and
  while one is being served shows the values of the other registers that go with it.\<close>

record script_event =
  ev_iidx :: u32
  ev_ris :: u32
  ev_ssr :: u32
  ev_rx :: u32

definition script_hardware :: "script_event list hardware" where
  "script_hardware = \<lparr>
     hw_read = (\<lambda>r h. case r of
        I2C1 I2C_IIDX \<Rightarrow> (case h of [] \<Rightarrow> (0, h) | [e] \<Rightarrow> (0, []) | e # e' # es \<Rightarrow> (ev_iidx e', e' # es))
      | I2C1 I2C_RIS \<Rightarrow> (case h of [] \<Rightarrow> 0 | e # _ \<Rightarrow> ev_ris e, h)
      | I2C1 I2C_SSR \<Rightarrow> (case h of [] \<Rightarrow> 0 | e # _ \<Rightarrow> ev_ssr e, h)
      | I2C1 I2C_SRXDATA \<Rightarrow> (case h of [] \<Rightarrow> 0 | e # _ \<Rightarrow> ev_rx e, h)
      | _ \<Rightarrow> (0, h)),
     hw_write = (\<lambda>r v h. h)\<rparr>"

lemma script_drains: "drains script_hardware length"
  by (auto simp: drains_def script_hardware_def iidx_defs split: reg.splits i2c_reg.splits list.splits)

definition demo_target :: "script_event list \<Rightarrow> script_event list i2c_target" where
  "demo_target script = \<lparr>it_machine = \<lparr>mc_device = script, mc_trace = []\<rparr>, it_engine = demo_engine 77,
     it_mem = demo_mem, it_error_count = 0, it_unexpected_event_count = 0, it_initialized = True,
     it_start_prehandled = False\<rparr>"

lemma demo_target_simulates: "simulates demo_pages (register_view demo_pages demo_mem) 5 2
    (it_engine (demo_target script)) (it_mem (demo_target script)) (demo_eeprom 77)"
  using demo_simulates [of 77] by (simp add: demo_target_def)

definition demo_script :: "script_event list" where
  "demo_script = [\<lparr>ev_iidx = 0, ev_ris = 0, ev_ssr = 0, ev_rx = 0\<rparr>,
     \<lparr>ev_iidx = 0x11, ev_ris = 0x00400000, ev_ssr = 0, ev_rx = 9\<rparr>,
     \<lparr>ev_iidx = 0x17, ev_ris = 0, ev_ssr = 0, ev_rx = 0\<rparr>]"

lemma demo_irq_events: "irq_events script_hardware 4 (demo_target demo_script)
    = [End_Transaction, Begin_Receive, Byte_In 9]"
  by code_simp

text \<open>Plain hardware, and the same hardware with a START pending.\<close>

definition pending_start_hardware :: "(reg \<Rightarrow> u32) hardware" where
  "pending_start_hardware = plain_hardware\<lparr>hw_read := (\<lambda>r d. (if r = I2C1 I2C_RIS then RIS_SSTART else d r, d))\<rparr>"

definition demo_plain :: "u32 \<Rightarrow> (reg \<Rightarrow> u32) i2c_target" where
  "demo_plain v = \<lparr>it_machine = \<lparr>mc_device = (\<lambda>_. v), mc_trace = []\<rparr>, it_engine = demo_engine 77,
     it_mem = demo_mem, it_error_count = 0, it_unexpected_event_count = 0, it_initialized = True,
     it_start_prehandled = False\<rparr>"

section \<open>Properties\<close>

text \<open>C2. The interrupt handler runs the wire protocol: on any device that drains, it returns, without
  undefined behaviour; the bytes it read from the receive register are, in order, those it put to
  the protocol, and the bytes it wrote to the transmit register are, in order, the protocol's
  answers to the events of the interrupts it served, started in a matching state.\<close>

theorem irq_handler_serves_protocol:
  assumes "simulates ps view a room (it_engine st) (it_mem st) s" "shares_queue ps a" "it_initialized st"
    "drains hw pending" "pending (mc_device (it_machine st)) < fuel"
  shows "\<exists>st' tr. I2C1_IRQHandler hw fuel st = Some st'
    \<and> simulates ps view a room (it_engine st') (it_mem st')
        (snd (eeprom_run view (is_writable ps) room (irq_events hw fuel st) s))
    \<and> mc_trace (it_machine st') = mc_trace (it_machine st) @ tr
    \<and> map ucast (seen (I2C1 I2C_SRXDATA) tr) = bytes_in (irq_events hw fuel st)
    \<and> map ucast (written (I2C1 I2C_STXDATA) tr)
        = bytes_sent (fst (eeprom_run view (is_writable ps) room (irq_events hw fuel st) s))"
  using eeprom.irq_loop_serves [OF conjI [OF assms(1,2)] assms(4,5)] assms(3)
  by (auto simp: I2C1_IRQHandler_def serves_def eeprom_machine)

theorem irq_handler_serves_protocol_witness:
  "\<exists>st' tr. I2C1_IRQHandler script_hardware 4 (demo_target demo_script) = Some st'
    \<and> mc_trace (it_machine st') = tr \<and> map ucast (seen (I2C1 I2C_SRXDATA) tr) = [9 :: u8]"
proof -
  have "it_initialized (demo_target demo_script)" "mc_trace (it_machine (demo_target demo_script)) = []"
    "length (mc_device (it_machine (demo_target demo_script))) < 4"
    by (simp_all add: demo_target_def demo_script_def)
  with irq_handler_serves_protocol [OF demo_target_simulates demo_shares _ script_drains]
  show ?thesis by (force simp: demo_irq_events)
qed

text \<open>Interrupts served one after the other, and the transport errors among them: time-out, FIFO underflow and overflow,
  arbitration loss and interrupt overflow.\<close>

fun dispatch_all :: "'h hardware \<Rightarrow> u32 list \<Rightarrow> 'h i2c_target \<Rightarrow> 'h i2c_target defined" where
  "dispatch_all hw [] st = Some st"
| "dispatch_all hw (interrupt # interrupts) st = do {
     st \<leftarrow> irq_dispatch hw interrupt st;
     dispatch_all hw interrupts st
   }"

definition is_transport_error :: "u32 \<Rightarrow> bool" where
  "is_transport_error i \<longleftrightarrow> i \<in> {IIDX_TIMEOUTA, IIDX_STX_UNFL, IIDX_SRX_OVFL, IIDX_SARBLOST, IIDX_INTR_OVFL}"

definition count_of :: "(u32 \<Rightarrow> bool) \<Rightarrow> u32 list \<Rightarrow> u32" where
  "count_of P interrupts = of_nat (length (filter P interrupts))"

lemma error_split: "of_bool (is_error_interrupt i) = (of_bool (is_transport_error i) + of_bool (\<not> is_known_interrupt i) :: u32)"
  by (auto simp: interrupt_kinds is_transport_error_def iidx_defs)

lemma dispatch_error_drops:
  assumes "simulates ps view a room (it_engine st) (it_mem st) s" "shares_queue ps a"
  shows "\<exists>st' s'. irq_dispatch hw interrupt st = Some st'
    \<and> it_error_count st' = it_error_count st + of_bool (is_transport_error interrupt) + of_bool (\<not> is_known_interrupt interrupt)
    \<and> it_unexpected_event_count st' = it_unexpected_event_count st + of_bool (\<not> is_known_interrupt interrupt)
    \<and> simulates ps view a room (it_engine st') (it_mem st') s'
    \<and> (is_transport_error interrupt \<or> \<not> is_known_interrupt interrupt \<longrightarrow> te_direction (it_engine st') = Engine_Idle
        \<and> (\<exists>rm. te_regmap (it_engine st') = Some rm \<and> rm_latched_page rm = None \<and> rm_current_address rm = ee_pointer s))"
proof -
  obtain st' where d: "irq_dispatch hw interrupt st = Some st'"
    "serves (\<lambda>s e m. simulates ps view a room e m s \<and> shares_queue ps a) (eeprom_step view (is_writable ps) room) st s (dispatch_events hw interrupt st) st'"
    "it_error_count st' = it_error_count st + of_bool (is_error_interrupt interrupt)"
    "it_unexpected_event_count st' = it_unexpected_event_count st + of_bool (\<not> is_known_interrupt interrupt)"
    by (rule eeprom.dispatch_serves [OF conjI [OF assms]])
  note rel = eeprom.serves_rel [OF d(2), THEN conjunct1]
  have err: "is_transport_error interrupt \<or> \<not> is_known_interrupt interrupt \<Longrightarrow> is_error_interrupt interrupt"
    by (auto simp: is_transport_error_def interrupt_kinds iidx_defs)
  have "simulates ps view a room (it_engine st') (it_mem st') (s\<lparr>ee_phase := Phase_Idle\<rparr>)" if "is_error_interrupt interrupt"
    using rel that by (auto simp: dispatch_events_def is_error_interrupt_def is_data_interrupt_def)
  then have "te_direction (it_engine st') = Engine_Idle
      \<and> (\<exists>rm. te_regmap (it_engine st') = Some rm \<and> rm_latched_page rm = None \<and> rm_current_address rm = ee_pointer s)"
    if "is_transport_error interrupt \<or> \<not> is_known_interrupt interrupt"
    using err [OF that] by (auto simp: simulates_def)
  moreover have "it_error_count st' = it_error_count st + of_bool (is_transport_error interrupt) + of_bool (\<not> is_known_interrupt interrupt)"
    using d(3) by (simp only: error_split add.assoc)
  ultimately show ?thesis using d(1,4) rel by blast
qed



text \<open>A START overtaken by the first byte of its transaction is acted on once: serving the data
  interrupt with the START still pending and then the START leaves the engine, the registers, the
  queues and the flags as serving the START first and then the byte does.\<close>

theorem overtaken_start_is_served_once:
  assumes "simulates ps view a room (it_engine st) (it_mem st) s" "shares_queue ps a" "\<not> it_start_prehandled st"
    "hw_read early (I2C1 I2C_RIS) (mc_device (it_machine st)) = (ris, d)" "ris AND RIS_SSTART = 0"
    "hw_read early (I2C1 I2C_SRXDATA) d = (rx, d')"
    "hw_read late (I2C1 I2C_RIS) (mc_device (it_machine st)) = (ris', e)" "ris' AND RIS_SSTART \<noteq> 0"
    "hw_read late (I2C1 I2C_SRXDATA) e = (rx', e')" "ucast rx' = (ucast rx :: u8)"
  shows "\<exists>st1 st2.
      do { st \<leftarrow> irq_dispatch early IIDX_SSTART st; irq_dispatch early IIDX_SRXDONE st } = Some st1
    \<and> do { st \<leftarrow> irq_dispatch late IIDX_SRXDONE st; irq_dispatch late IIDX_SSTART st } = Some st2
    \<and> it_engine st1 = it_engine st2 \<and> it_mem st1 = it_mem st2
    \<and> \<not> it_start_prehandled st1 \<and> \<not> it_start_prehandled st2
    \<and> it_error_count st1 = it_error_count st \<and> it_error_count st2 = it_error_count st"
proof -
  let ?serves = "serves (\<lambda>s e m. simulates ps view a room e m s \<and> shares_queue ps a) (eeprom_step view (is_writable ps) room)"
  obtain sta where a: "target_engine_call hal_i2c_target_engine_end st = Some sta"
    "?serves st s [End_Transaction] sta" "it_machine sta = it_machine st"
    "it_start_prehandled sta = it_start_prehandled st" "it_error_count sta = it_error_count st"
    "te_direction (it_engine sta) = Engine_Idle"
    by (rule eeprom.end_serves [OF conjI [OF assms(1,2)]])
  have sima: "simulates ps view a room (it_engine sta) (it_mem sta) (s\<lparr>ee_phase := Phase_Idle\<rparr>) \<and> shares_queue ps a"
    using eeprom.serves_rel [OF a(2)] by simp
  obtain st1 where b: "hal_i2c_target_receive_byte early sta = Some st1"
    "?serves sta (s\<lparr>ee_phase := Phase_Idle\<rparr>) (receive_events early sta) st1"
    "it_error_count st1 = it_error_count sta"
    "it_start_prehandled st1 = (it_start_prehandled sta
       \<or> fst (hw_read early (I2C1 I2C_RIS) (mc_device (it_machine sta))) AND RIS_SSTART \<noteq> 0)"
    by (rule eeprom.receive_byte_serves [OF sima])
  have evs1: "receive_events early sta = [Begin_Receive, Byte_In (ucast rx)]"
    using assms(4-6) a(3,6) by (simp add: receive_events_def turn_events_def)
  have run1: "?serves st s ([End_Transaction] @ [Begin_Receive, Byte_In (ucast rx)]) st1"
    by (rule eeprom.serves_trans [OF a(2)]) (use b(2) evs1 in simp)
  obtain stb where c: "hal_i2c_target_receive_byte late st = Some stb"
    "?serves st s (receive_events late st) stb"
    "it_error_count stb = it_error_count st"
    "it_start_prehandled stb = (it_start_prehandled st
       \<or> fst (hw_read late (I2C1 I2C_RIS) (mc_device (it_machine st))) AND RIS_SSTART \<noteq> 0)"
    by (rule eeprom.receive_byte_serves [OF conjI [OF assms(1,2)]])
  have evs2: "receive_events late st = [End_Transaction] @ [Begin_Receive, Byte_In (ucast rx)]"
    using assms(7-10) by (simp add: receive_events_def turn_events_def)
  have "it_engine st1 = it_engine stb \<and> it_mem st1 = it_mem stb"
    using run1 c(2) unfolding serves_def evs2 by simp
  then show ?thesis
    using a b(1,3,4) c(1,3,4) assms(3-8)
    by (simp add: irq_dispatch_def iidx_defs hal_i2c_target_handle_start_def abort_is_end)
qed

theorem overtaken_start_is_served_once_witness:
  "\<exists>st1 st2.
      do { st \<leftarrow> irq_dispatch plain_hardware IIDX_SSTART (demo_plain 0); irq_dispatch plain_hardware IIDX_SRXDONE st } = Some st1
    \<and> do { st \<leftarrow> irq_dispatch pending_start_hardware IIDX_SRXDONE (demo_plain 0);
           irq_dispatch pending_start_hardware IIDX_SSTART st } = Some st2
    \<and> it_engine st1 = it_engine st2 \<and> it_mem st1 = it_mem st2"
proof -
  have "simulates demo_pages (register_view demo_pages demo_mem) 5 2
      (it_engine (demo_plain 0)) (it_mem (demo_plain 0)) (demo_eeprom 77)"
    using demo_simulates [of 77] by (simp add: demo_plain_def)
  from overtaken_start_is_served_once [OF this demo_shares, of plain_hardware 0 "\<lambda>_. 0" 0 "\<lambda>_. 0" pending_start_hardware
      RIS_SSTART "\<lambda>_. 0" 0 "\<lambda>_. 0"]
  show ?thesis by (auto simp: demo_plain_def plain_hardware_def pending_start_hardware_def RIS_SSTART_def)
qed

lemma mod_0_div_mult: "a mod b = 0 \<Longrightarrow> unat a = unat (a div b) * unat b" for a b :: u32
  by (metis add.right_neutral div_mult_mod_eq unat_0 unat_div_distrib unat_mod_distrib)

text \<open>The accesses of an initialisation, up to the one that switches the target on.\<close>

definition target_setup :: "hal_i2c_target_config \<Rightarrow> access list" where
  "target_setup c = [Write (I2C1 I2C_RSTCTL) I2C_RESET, Write (I2C1 I2C_PWREN) I2C_POWER_ON, Dsb, Isb]
    @ replicate 64 Nop @ [
      Write (PINCM (tc_scl_pincm_index c)) (tc_scl_pincm_function c OR PINCM_OPEN_DRAIN),
      Write (PINCM (tc_sda_pincm_index c)) (tc_sda_pincm_function c OR PINCM_OPEN_DRAIN),
      Write (I2C1 I2C_CLKSEL) 0x8, Write (I2C1 I2C_CLKDIV) 0,
      Write (I2C1 I2C_MTPR) (tc_input_clock_hz c div (TIMING_DENOMINATOR * tc_bus_hz c) - 1),
      Write (I2C1 I2C_TIMEOUT_CTL) (ucast (tc_scl_low_timeout_count c) OR 0x00008000),
      Write (I2C1 I2C_SOAR) (ucast (tc_own_address c) OR 0x00004000), Write (I2C1 I2C_SOAR2) 0,
      Write (I2C1 I2C_SCTR) SCTR_CONFIG, Write (I2C1 I2C_SACKCTL) 0, Write (I2C1 I2C_IMASK) 0,
      Write (I2C1 I2C_ICLR) HAL_I2C_TARGET_INTERRUPT_MASK, Write (I2C1 I2C_IMASK) HAL_I2C_TARGET_INTERRUPT_MASK,
      Irq_Priority I2C1_INT_IRQn 1, Irq_Clear_Pending I2C1_INT_IRQn, Irq_Enable I2C1_INT_IRQn]"

lemma target_init_ran:
  assumes "hal_i2c_target_config_is_valid (Some c) (Some rm)" "\<not> it_initialized st"
  obtains st' v where "hal_i2c_target_init hw (Some c) (Some rm) st = Some (True, st')"
    "it_initialized st'" "it_engine st' = \<lparr>te_regmap = Some rm, te_pending_address = 0,
        te_address_byte_count = 0, te_direction = Engine_Idle\<rparr>"
    "it_error_count st' = 0" "it_unexpected_event_count st' = 0" "it_mem st' = it_mem st"
    "mc_trace (it_machine st') = mc_trace (it_machine st)
       @ target_setup c @ [Read (I2C1 I2C_SCTR) v, Write (I2C1 I2C_SCTR) (v OR SCTR_ACTIVE)]"
proof -
  have "tc_interrupt_number c = I2C1_INT_IRQn"
    using assms(1) by (auto simp: hal_i2c_target_config_is_valid_def Let_def split: if_splits)
  then show ?thesis
    using that assms
    by (simp add: hal_i2c_target_init_def hal_i2c_target_engine_init_def mmio_write_def cpu_def Let_def
        mmio_simps target_setup_def del: nops.simps)
qed

text \<open>Initialising the target refuses an initialised driver and an invalid configuration with no
  effect. Otherwise it succeeds: the engine is idle on the given register map, both counts are zero,
  the timer period register holds a seven-bit value for exactly the bus frequency asked for (ten
  timer ticks per bit, when ten times the bus frequency fits 32 bits), and the own address is
  programmed with its enable bit. Target operation is switched on by the very last access, after the
  events are unmasked and the interrupt is enabled.\<close>

theorem target_init_contract:
  assumes "hal_i2c_target_config_is_valid (Some c) (Some rm)" "\<not> it_initialized st" "unat (tc_bus_hz c) * 10 < 2 ^ 32"
  shows "\<exists>st' tr v period. hal_i2c_target_init hw (Some c) (Some rm) st = Some (True, st')
    \<and> it_initialized st' \<and> it_engine st' = \<lparr>te_regmap = Some rm, te_pending_address = 0,
        te_address_byte_count = 0, te_direction = Engine_Idle\<rparr>
    \<and> it_error_count st' = 0 \<and> it_unexpected_event_count st' = 0 \<and> it_mem st' = it_mem st
    \<and> mc_trace (it_machine st') = mc_trace (it_machine st) @ tr
    \<and> written (I2C1 I2C_MTPR) tr = [period] \<and> unat period < 128
    \<and> unat (tc_input_clock_hz c) = 10 * unat (tc_bus_hz c) * (unat period + 1)
    \<and> written (I2C1 I2C_SOAR) tr = [ucast (tc_own_address c) OR 0x00004000]
    \<and> (\<exists>pre. tr = pre @ [Read (I2C1 I2C_SCTR) v, Write (I2C1 I2C_SCTR) (v OR SCTR_ACTIVE)]
        \<and> written (I2C1 I2C_SCTR) pre = [SCTR_CONFIG] \<and> SCTR_CONFIG AND SCTR_ACTIVE = 0
        \<and> written (I2C1 I2C_IMASK) pre = [0, HAL_I2C_TARGET_INTERRUPT_MASK] \<and> Irq_Enable I2C1_INT_IRQn \<in> set pre)
    \<and> hal_i2c_target_init hw config regmap st' = Some (False, st')"
proof -
  let ?den = "TIMING_DENOMINATOR * tc_bus_hz c"
  have den: "unat ?den = 10 * unat (tc_bus_hz c)"
    using assms(3) by (simp add: TIMING_DENOMINATOR_def unat_word_ariths)
  have valid: "tc_interrupt_number c = I2C1_INT_IRQn" "tc_input_clock_hz c mod ?den = 0"
    "0 < tc_input_clock_hz c div ?den" "tc_input_clock_hz c div ?den \<le> 128"
    using assms(1) by (auto simp: hal_i2c_target_config_is_valid_def Let_def split: if_splits)
  let ?d = "tc_input_clock_hz c div ?den"
  have pos: "?d \<noteq> 0" using valid(3) by auto
  have period: "unat (?d - 1) = unat ?d - 1" by (rule unat_pred_word [OF pos])
  have le: "unat ?d \<le> 128" using valid(4) by (simp add: word_le_nat_alt)
  have pos': "0 < unat ?d" using pos by (simp add: unat_gt_0)
  have clock: "unat (tc_input_clock_hz c) = 10 * unat (tc_bus_hz c) * (unat (?d - 1) + 1)"
    using mod_0_div_mult [OF valid(2)] den period pos' by (simp add: mult.commute)
  have small: "unat (?d - 1) < 128" using period le pos' by simp
  define pre where "pre = target_setup c"
  obtain st' v where run: "hal_i2c_target_init hw (Some c) (Some rm) st = Some (True, st')"
    "it_initialized st'" "it_engine st' = \<lparr>te_regmap = Some rm, te_pending_address = 0,
        te_address_byte_count = 0, te_direction = Engine_Idle\<rparr>"
    "it_error_count st' = 0" "it_unexpected_event_count st' = 0" "it_mem st' = it_mem st"
    "mc_trace (it_machine st') = mc_trace (it_machine st)
       @ pre @ [Read (I2C1 I2C_SCTR) v, Write (I2C1 I2C_SCTR) (v OR SCTR_ACTIVE)]"
    unfolding pre_def by (rule target_init_ran [OF assms(1,2)])
  have "hal_i2c_target_init hw config regmap st' = Some (False, st')"
    using run(2) by (simp add: hal_i2c_target_init_def)
  moreover have "written (I2C1 I2C_SCTR) pre = [SCTR_CONFIG]" "written (I2C1 I2C_MTPR) pre = [?d - 1]"
    "written (I2C1 I2C_SOAR) pre = [ucast (tc_own_address c) OR 0x00004000]"
    "written (I2C1 I2C_IMASK) pre = [0, HAL_I2C_TARGET_INTERRUPT_MASK]" "Irq_Enable I2C1_INT_IRQn \<in> set pre"
    by (simp_all add: pre_def target_setup_def)
  moreover have "SCTR_CONFIG AND SCTR_ACTIVE = 0" by (simp add: SCTR_CONFIG_def SCTR_ACTIVE_def)
  ultimately show ?thesis
    using run clock small by (intro exI [of _ st'] exI [of _ "pre @ [Read (I2C1 I2C_SCTR) v, Write (I2C1 I2C_SCTR) (v OR SCTR_ACTIVE)]"]
        exI [of _ v] exI [of _ "?d - 1"]) simp
qed

definition demo_target_config :: "u32 \<Rightarrow> hal_i2c_target_config" where
  "demo_target_config bus_hz = \<lparr>tc_instance_base = I2C1_BASE, tc_interrupt_number = I2C1_INT_IRQn,
     tc_scl_pincm_index = 1, tc_scl_pincm_function = 3, tc_sda_pincm_index = 2, tc_sda_pincm_function = 3,
     tc_input_clock_hz = 32000000, tc_bus_hz = bus_hz, tc_own_address = 0x42, tc_scl_low_timeout_count = 100\<rparr>"

lemmas target_config_defs = hal_i2c_target_config_is_valid_def demo_target_config_def TIMING_DENOMINATOR_def
  PINCM_COUNT_def PINCM_PF_MASK_def word_le_nat_alt

theorem target_init_contract_witness:
  "\<exists>st' period tr. hal_i2c_target_init plain_hardware (Some (demo_target_config 100000)) (Some (demo_regmap 0))
      ((demo_plain 0)\<lparr>it_initialized := False\<rparr>) = Some (True, st')
    \<and> mc_trace (it_machine st') = tr \<and> written (I2C1 I2C_MTPR) tr = [period] \<and> unat period = 31"
proof -
  let ?c = "demo_target_config 100000" and ?st = "(demo_plain 0)\<lparr>it_initialized := False\<rparr>"
  have valid: "hal_i2c_target_config_is_valid (Some ?c) (Some (demo_regmap 0))"
    by (simp add: target_config_defs Let_def)
  have fits: "unat (tc_bus_hz ?c) * 10 < 2 ^ 32" and init: "\<not> it_initialized ?st"
    and vals: "unat (tc_bus_hz ?c) = 100000" "unat (tc_input_clock_hz ?c) = 32000000"
      "mc_trace (it_machine ?st) = []"
    by (simp_all add: demo_target_config_def demo_plain_def)
  from target_init_contract [OF valid init fits, of plain_hardware] obtain st' tr period where
    "hal_i2c_target_init plain_hardware (Some ?c) (Some (demo_regmap 0)) ?st = Some (True, st')"
    "mc_trace (it_machine st') = mc_trace (it_machine ?st) @ tr" "written (I2C1 I2C_MTPR) tr = [period]"
    "unat (tc_input_clock_hz ?c) = 10 * unat (tc_bus_hz ?c) * (unat period + 1)"
    by blast
  then show ?thesis using vals by (intro exI [of _ st'] exI [of _ period] exI [of _ tr]) simp
qed

text \<open>Without the bound on the bus frequency the validation is fooled by the 32-bit product: 2147803648 Hz
  passes it, and would program the divider of 320 kHz.\<close>

lemma target_config_product_wraps:
  "hal_i2c_target_config_is_valid (Some (demo_target_config 2147803648)) (Some rm)
    \<and> tc_input_clock_hz (demo_target_config 2147803648) div (10 * tc_bus_hz (demo_target_config 2147803648)) = 10"
  by (simp add: target_config_defs Let_def)

end
