(* ===== verification/Cmsis.thy ===== *)
theory Cmsis
  imports Prelude
begin

text \<open>
  The interrupt-controller and SysTick functions of \<open>ti/cmsis/core_cm0plus.h\<close> and the interrupt numbers of
  \<open>mspm0c1105_c1106.h\<close>. The system control space is a record: writing a set or clear register sets or clears
  the interrupts whose bits are one, as the architecture defines; the priority registers are memory, accessed
  by words only. The endless loop of a system reset is not modelled, only the request.
\<close>

section \<open>Interrupt numbers\<close>

text \<open>The enumeration, whose constructors have the values of \<open>irq_number\<close>; two of them share a value.\<close>

datatype IRQn_Type = NonMaskableInt_IRQn | HardFault_IRQn | SVCall_IRQn | PendSV_IRQn | SysTick_IRQn
  | SYSCTL_INT_IRQn | DEBUGSS_INT_IRQn | TIMG8_INT_IRQn | UART1_INT_IRQn | ADC0_INT_IRQn
  | COMP0_INT_IRQn | UART2_INT_IRQn | SPI0_INT_IRQn | UART0_INT_IRQn | TIMG14_INT_IRQn
  | TIMG2_INT_IRQn | TIMA0_INT_IRQn | TIMG1_INT_IRQn | GPIOA_INT_IRQn | GPIOB_INT_IRQn
  | I2C0_INT_IRQn | I2C1_INT_IRQn | FLASHCTL_INT_IRQn | WWDT0_INT_IRQn | LFSS_INT_IRQn
  | RTC_B_INT_IRQn | DMA_INT_IRQn

fun irq_number :: "IRQn_Type \<Rightarrow> int" where
  "irq_number NonMaskableInt_IRQn = -14"
| "irq_number HardFault_IRQn = -13"
| "irq_number SVCall_IRQn = -5"
| "irq_number PendSV_IRQn = -2"
| "irq_number SysTick_IRQn = -1"
| "irq_number SYSCTL_INT_IRQn = 0"
| "irq_number DEBUGSS_INT_IRQn = 1"
| "irq_number TIMG8_INT_IRQn = 2"
| "irq_number UART1_INT_IRQn = 3"
| "irq_number ADC0_INT_IRQn = 4"
| "irq_number COMP0_INT_IRQn = 7"
| "irq_number UART2_INT_IRQn = 8"
| "irq_number SPI0_INT_IRQn = 9"
| "irq_number UART0_INT_IRQn = 15"
| "irq_number TIMG14_INT_IRQn = 16"
| "irq_number TIMG2_INT_IRQn = 17"
| "irq_number TIMA0_INT_IRQn = 18"
| "irq_number TIMG1_INT_IRQn = 19"
| "irq_number GPIOA_INT_IRQn = 22"
| "irq_number GPIOB_INT_IRQn = 23"
| "irq_number I2C0_INT_IRQn = 24"
| "irq_number I2C1_INT_IRQn = 25"
| "irq_number FLASHCTL_INT_IRQn = 27"
| "irq_number WWDT0_INT_IRQn = 29"
| "irq_number LFSS_INT_IRQn = 30"
| "irq_number RTC_B_INT_IRQn = 30"
| "irq_number DMA_INT_IRQn = 31"

text \<open>The \<open>_VECn\<close> constants.\<close>

fun vector_number :: "IRQn_Type \<Rightarrow> nat" where
  "vector_number NonMaskableInt_IRQn = 2"
| "vector_number HardFault_IRQn = 3"
| "vector_number SVCall_IRQn = 11"
| "vector_number PendSV_IRQn = 14"
| "vector_number SysTick_IRQn = 15"
| "vector_number SYSCTL_INT_IRQn = 16"
| "vector_number DEBUGSS_INT_IRQn = 17"
| "vector_number TIMG8_INT_IRQn = 18"
| "vector_number UART1_INT_IRQn = 19"
| "vector_number ADC0_INT_IRQn = 20"
| "vector_number COMP0_INT_IRQn = 23"
| "vector_number UART2_INT_IRQn = 24"
| "vector_number SPI0_INT_IRQn = 25"
| "vector_number UART0_INT_IRQn = 31"
| "vector_number TIMG14_INT_IRQn = 32"
| "vector_number TIMG2_INT_IRQn = 33"
| "vector_number TIMA0_INT_IRQn = 34"
| "vector_number TIMG1_INT_IRQn = 35"
| "vector_number GPIOA_INT_IRQn = 38"
| "vector_number GPIOB_INT_IRQn = 39"
| "vector_number I2C0_INT_IRQn = 40"
| "vector_number I2C1_INT_IRQn = 41"
| "vector_number FLASHCTL_INT_IRQn = 43"
| "vector_number WWDT0_INT_IRQn = 45"
| "vector_number LFSS_INT_IRQn = 46"
| "vector_number RTC_B_INT_IRQn = 46"
| "vector_number DMA_INT_IRQn = 47"

definition NVIC_USER_IRQ_OFFSET :: int where "NVIC_USER_IRQ_OFFSET = 16"
definition NVIC_PRIO_BITS :: nat where "NVIC_PRIO_BITS = 2"

section \<open>State\<close>

record scs =
  nvic_enabled :: u32
  nvic_pending :: u32
  nvic_ip :: "u32 list"
  scb_shp :: "u32 list"
  scb_aircr :: u32
  syst_load :: u32
  syst_val :: u32
  syst_ctrl :: u32

definition well_formed_scs :: "scs \<Rightarrow> bool" where
  "well_formed_scs s \<longleftrightarrow> length (nvic_ip s) = 8 \<and> length (scb_shp s) = 2"

section \<open>Operations\<close>

definition BIT_SHIFT :: "int \<Rightarrow> nat" where
  "BIT_SHIFT irqn = unat ((word_of_int irqn AND 0x03) * 8 :: u32)"

definition SHP_IDX :: "int \<Rightarrow> nat" where
  "SHP_IDX irqn = unat (drop_bit 2 ((word_of_int irqn AND 0x0f) - 8 :: u32))"

definition IP_IDX :: "int \<Rightarrow> nat" where
  "IP_IDX irqn = unat (drop_bit 2 (word_of_int irqn :: u32))"

text \<open>\<open>1UL << ((uint32_t)IRQn & 0x1F)\<close>\<close>

definition irq_bit :: "int \<Rightarrow> u32" where
  "irq_bit irqn = push_bit (unat (word_of_int irqn AND 0x1f :: u32)) 1"

definition NVIC_EnableIRQ :: "int \<Rightarrow> scs \<Rightarrow> scs" where
  "NVIC_EnableIRQ irqn s =
     (if irqn \<ge> 0 then s\<lparr>nvic_enabled := nvic_enabled s OR irq_bit irqn\<rparr> else s)"

definition NVIC_GetEnableIRQ :: "int \<Rightarrow> scs \<Rightarrow> u32" where
  "NVIC_GetEnableIRQ irqn s =
     (if irqn \<ge> 0 then (if nvic_enabled s AND irq_bit irqn \<noteq> 0 then 1 else 0) else 0)"

definition NVIC_DisableIRQ :: "int \<Rightarrow> scs \<Rightarrow> scs" where
  "NVIC_DisableIRQ irqn s =
     (if irqn \<ge> 0 then s\<lparr>nvic_enabled := nvic_enabled s AND NOT (irq_bit irqn)\<rparr> else s)"

definition NVIC_GetPendingIRQ :: "int \<Rightarrow> scs \<Rightarrow> u32" where
  "NVIC_GetPendingIRQ irqn s =
     (if irqn \<ge> 0 then (if nvic_pending s AND irq_bit irqn \<noteq> 0 then 1 else 0) else 0)"

definition NVIC_SetPendingIRQ :: "int \<Rightarrow> scs \<Rightarrow> scs" where
  "NVIC_SetPendingIRQ irqn s =
     (if irqn \<ge> 0 then s\<lparr>nvic_pending := nvic_pending s OR irq_bit irqn\<rparr> else s)"

definition NVIC_ClearPendingIRQ :: "int \<Rightarrow> scs \<Rightarrow> scs" where
  "NVIC_ClearPendingIRQ irqn s =
     (if irqn \<ge> 0 then s\<lparr>nvic_pending := nvic_pending s AND NOT (irq_bit irqn)\<rparr> else s)"

definition NVIC_SetPriority :: "int \<Rightarrow> u32 \<Rightarrow> scs \<Rightarrow> scs defined" where
  "NVIC_SetPriority irqn priority s =
     (if irqn \<ge> 0
      then do {
        w \<leftarrow> array_read (nvic_ip s) (IP_IDX irqn);
        ip \<leftarrow> array_write (nvic_ip s) (IP_IDX irqn) ((w AND NOT (push_bit (BIT_SHIFT irqn) 0xff))
          OR push_bit (BIT_SHIFT irqn) (push_bit (8 - NVIC_PRIO_BITS) priority AND 0xff));
        Some (s\<lparr>nvic_ip := ip\<rparr>)
      }
      else do {
        w \<leftarrow> array_read (scb_shp s) (SHP_IDX irqn);
        shp \<leftarrow> array_write (scb_shp s) (SHP_IDX irqn) ((w AND NOT (push_bit (BIT_SHIFT irqn) 0xff))
          OR push_bit (BIT_SHIFT irqn) (push_bit (8 - NVIC_PRIO_BITS) priority AND 0xff));
        Some (s\<lparr>scb_shp := shp\<rparr>)
      })"

definition NVIC_GetPriority :: "int \<Rightarrow> scs \<Rightarrow> u32 defined" where
  "NVIC_GetPriority irqn s =
     (if irqn \<ge> 0
      then do {
        w \<leftarrow> array_read (nvic_ip s) (IP_IDX irqn);
        Some (drop_bit (8 - NVIC_PRIO_BITS) (drop_bit (BIT_SHIFT irqn) w AND 0xff))
      }
      else do {
        w \<leftarrow> array_read (scb_shp s) (SHP_IDX irqn);
        Some (drop_bit (8 - NVIC_PRIO_BITS) (drop_bit (BIT_SHIFT irqn) w AND 0xff))
      })"

text \<open>Priority grouping: how many bits of a priority are preemption and how many sub-priority.\<close>

definition NVIC_EncodePriority :: "u32 \<Rightarrow> u32 \<Rightarrow> u32 \<Rightarrow> u32" where
  "NVIC_EncodePriority priority_group preempt_priority sub_priority =
     (let group = priority_group AND 0x07;
          preempt_bits = (if 7 - group > of_nat NVIC_PRIO_BITS then of_nat NVIC_PRIO_BITS else 7 - group);
          sub_bits = (if group + of_nat NVIC_PRIO_BITS < 7 then 0 else (group - 7) + of_nat NVIC_PRIO_BITS)
      in push_bit (unat sub_bits) (preempt_priority AND (push_bit (unat preempt_bits) 1 - 1))
         OR (sub_priority AND (push_bit (unat sub_bits) 1 - 1)))"

definition NVIC_DecodePriority :: "u32 \<Rightarrow> u32 \<Rightarrow> u32 \<times> u32" where
  "NVIC_DecodePriority priority priority_group =
     (let group = priority_group AND 0x07;
          preempt_bits = (if 7 - group > of_nat NVIC_PRIO_BITS then of_nat NVIC_PRIO_BITS else 7 - group);
          sub_bits = (if group + of_nat NVIC_PRIO_BITS < 7 then 0 else (group - 7) + of_nat NVIC_PRIO_BITS)
      in (drop_bit (unat sub_bits) priority AND (push_bit (unat preempt_bits) 1 - 1),
          priority AND (push_bit (unat sub_bits) 1 - 1)))"

definition NVIC_SystemReset :: "scs \<Rightarrow> scs" where
  "NVIC_SystemReset s = s\<lparr>scb_aircr := push_bit 16 0x5fa OR 0x4\<rparr>"

text \<open>The vector table, an array of words that the vector base register points to.\<close>

definition NVIC_SetVector :: "int \<Rightarrow> u32 \<Rightarrow> u32 list \<Rightarrow> u32 list defined" where
  "NVIC_SetVector irqn vector vectors =
     (if irqn + NVIC_USER_IRQ_OFFSET < 0 then None
      else array_write vectors (nat (irqn + NVIC_USER_IRQ_OFFSET)) vector)"

definition NVIC_GetVector :: "int \<Rightarrow> u32 list \<Rightarrow> u32 defined" where
  "NVIC_GetVector irqn vectors =
     (if irqn + NVIC_USER_IRQ_OFFSET < 0 then None
      else array_read vectors (nat (irqn + NVIC_USER_IRQ_OFFSET)))"

definition SysTick_LOAD_RELOAD_Msk :: u32 where "SysTick_LOAD_RELOAD_Msk = 0xffffff"

definition SysTick_Config :: "u32 \<Rightarrow> scs \<Rightarrow> (u32 \<times> scs) defined" where
  "SysTick_Config ticks s =
     (if ticks - 1 > SysTick_LOAD_RELOAD_Msk then Some (1, s)
      else do {
        s \<leftarrow> Some (s\<lparr>syst_load := ticks - 1\<rparr>);
        s \<leftarrow> NVIC_SetPriority (irq_number SysTick_IRQn) (push_bit NVIC_PRIO_BITS 1 - 1) s;
        s \<leftarrow> Some (s\<lparr>syst_val := 0\<rparr>);
        Some (0, s\<lparr>syst_ctrl := 0x4 OR 0x2 OR 0x1\<rparr>)
      })"

section \<open>Priorities are bytes of their words\<close>

text \<open>The interrupts and exceptions whose priority can be set on this core.\<close>

definition configurable :: "int set" where
  "configurable = {-5, -2, -1} \<union> {0..31}"

definition set_lane :: "nat \<Rightarrow> u32 \<Rightarrow> u32 \<Rightarrow> u32" where
  "set_lane k priority w = (w AND NOT (push_bit k 0xff)) OR push_bit k (push_bit 6 priority AND 0xff)"

definition get_lane :: "nat \<Rightarrow> u32 \<Rightarrow> u32" where
  "get_lane k w = drop_bit 6 (drop_bit k w AND 0xff)"

lemma byte_mask: "(0xff :: u32) = mask 8" "(3 :: u32) = mask 2"
  by (simp_all add: mask_eq_exp_minus_1)

lemma lane_same: "k \<le> 24 \<Longrightarrow> get_lane k (set_lane k priority w) = priority AND 3"
  unfolding get_lane_def set_lane_def byte_mask by (rule bit_word_eqI) (auto simp: bit_simps)

lemma lane_other: "k + 8 \<le> k' \<or> k' + 8 \<le> k \<Longrightarrow> get_lane k' (set_lane k priority w) = get_lane k' w"
  unfolding get_lane_def set_lane_def byte_mask
  by (rule bit_word_eqI) (auto simp: bit_simps dest: bit_imp_le_length)

text \<open>Where the priority of an interrupt is.\<close>

lemma irq_small: "0 \<le> irqn \<Longrightarrow> irqn \<le> 31 \<Longrightarrow> unat (word_of_int irqn :: u32) = nat irqn"
  by (simp add: unsigned_of_int take_bit_int_eq_self)

lemma external_place:
  assumes "0 \<le> irqn" "irqn \<le> 31"
  shows "IP_IDX irqn = nat irqn div 4" "BIT_SHIFT irqn = 8 * (nat irqn mod 4)"
proof -
  show "IP_IDX irqn = nat irqn div 4"
    unfolding IP_IDX_def by (simp only: unat_drop_bit_eq irq_small [OF assms]) (simp add: drop_bit_eq_div)
  have low: "unat (word_of_int irqn AND 0x03 :: u32) = nat irqn mod 4"
  proof -
    have "(0x03 :: u32) = mask 2" by (simp add: mask_eq_exp_minus_1)
    then show ?thesis
      by (simp only: take_bit_eq_mask [symmetric] unsigned_take_bit_eq irq_small [OF assms]) (simp add: take_bit_eq_mod)
  qed
  then show "BIT_SHIFT irqn = 8 * (nat irqn mod 4)"
    by (simp add: BIT_SHIFT_def unat_word_ariths(2))
qed

lemma system_place [simp]:
  "SHP_IDX (-5) = 0" "SHP_IDX (-2) = 1" "SHP_IDX (-1) = 1"
  "BIT_SHIFT (-5) = 24" "BIT_SHIFT (-2) = 16" "BIT_SHIFT (-1) = 24"
  by (simp_all add: SHP_IDX_def BIT_SHIFT_def)

lemma set_priority_lane:
  "NVIC_SetPriority irqn priority s =
     (if irqn \<ge> 0
      then do {
        w \<leftarrow> array_read (nvic_ip s) (IP_IDX irqn);
        ip \<leftarrow> array_write (nvic_ip s) (IP_IDX irqn) (set_lane (BIT_SHIFT irqn) priority w);
        Some (s\<lparr>nvic_ip := ip\<rparr>)
      }
      else do {
        w \<leftarrow> array_read (scb_shp s) (SHP_IDX irqn);
        shp \<leftarrow> array_write (scb_shp s) (SHP_IDX irqn) (set_lane (BIT_SHIFT irqn) priority w);
        Some (s\<lparr>scb_shp := shp\<rparr>)
      })"
  by (simp add: NVIC_SetPriority_def set_lane_def NVIC_PRIO_BITS_def)

lemma get_priority_lane:
  "NVIC_GetPriority irqn s =
     (if irqn \<ge> 0
      then do { w \<leftarrow> array_read (nvic_ip s) (IP_IDX irqn); Some (get_lane (BIT_SHIFT irqn) w) }
      else do { w \<leftarrow> array_read (scb_shp s) (SHP_IDX irqn); Some (get_lane (BIT_SHIFT irqn) w) })"
  by (simp add: NVIC_GetPriority_def get_lane_def NVIC_PRIO_BITS_def)

lemma get_priority_external:
  assumes "0 \<le> irqn" "irqn \<le> 31" "well_formed_scs s"
  shows "NVIC_GetPriority irqn s = Some (get_lane (8 * (nat irqn mod 4)) (nvic_ip s ! (nat irqn div 4)))"
  using assms by (simp add: get_priority_lane external_place well_formed_scs_def array_read_in)

lemma external_lanes_apart:
  assumes "0 \<le> i" "0 \<le> j" "i \<noteq> j" "nat i div 4 = nat j div 4"
  shows "8 * (nat i mod 4) + 8 \<le> 8 * (nat j mod 4) \<or> 8 * (nat j mod 4) + 8 \<le> 8 * (nat i mod 4)"
proof -
  have "nat i mod 4 \<noteq> nat j mod 4"
  proof
    assume "nat i mod 4 = nat j mod 4"
    with assms(4) have "nat i = nat j" by (metis div_mult_mod_eq)
    with assms(1-3) show False by simp
  qed
  then show ?thesis by linarith
qed

lemma set_priority_external:
  assumes "0 \<le> irqn" "irqn \<le> 31" "well_formed_scs s"
  shows "\<exists>s'. NVIC_SetPriority irqn priority s = Some s' \<and> well_formed_scs s' \<and> scb_shp s' = scb_shp s
    \<and> nvic_enabled s' = nvic_enabled s \<and> nvic_pending s' = nvic_pending s
    \<and> syst_load s' = syst_load s \<and> syst_ctrl s' = syst_ctrl s \<and> NVIC_GetPriority irqn s' = Some (priority AND 3)
    \<and> (\<forall>j. 0 \<le> j \<and> j \<le> 31 \<and> j \<noteq> irqn \<longrightarrow> NVIC_GetPriority j s' = NVIC_GetPriority j s)"
proof -
  let ?i = "nat irqn div 4" and ?k = "8 * (nat irqn mod 4)"
  define s' where "s' = s\<lparr>nvic_ip := (nvic_ip s)[?i := set_lane ?k priority (nvic_ip s ! ?i)]\<rparr>"
  have i: "?i < length (nvic_ip s)" using assms by (simp add: well_formed_scs_def)
  have set: "NVIC_SetPriority irqn priority s = Some s'"
    using assms(1) i by (simp add: set_priority_lane external_place [OF assms(1,2)] array_read_in array_write_in s'_def)
  have wf: "well_formed_scs s'" using assms(3) by (simp add: s'_def well_formed_scs_def)
  have k: "?k \<le> 24" by linarith
  have same: "NVIC_GetPriority irqn s' = Some (priority AND 3)"
    unfolding get_priority_external [OF assms(1,2) wf] using i lane_same [OF k] by (simp add: s'_def)
  have other: "NVIC_GetPriority j s' = NVIC_GetPriority j s" if j: "0 \<le> j" "j \<le> 31" "j \<noteq> irqn" for j
  proof (cases "nat j div 4 = ?i")
    case True
    then show ?thesis
      unfolding get_priority_external [OF j(1,2) wf] get_priority_external [OF j(1,2) assms(3)]
      using i lane_other [OF external_lanes_apart [OF assms(1) j(1)]] j(3) by (simp add: s'_def)
  next
    case False
    then show ?thesis
      unfolding get_priority_external [OF j(1,2) wf] get_priority_external [OF j(1,2) assms(3)] by (simp add: s'_def)
  qed
  show ?thesis
    by (rule exI [of _ s']) (use set wf same other in \<open>simp add: s'_def\<close>)
qed

lemma set_priority_system:
  assumes "irqn \<in> {-5, -2, -1}" "well_formed_scs s"
  shows "\<exists>s'. NVIC_SetPriority irqn priority s = Some s' \<and> well_formed_scs s' \<and> nvic_ip s' = nvic_ip s
    \<and> nvic_enabled s' = nvic_enabled s \<and> nvic_pending s' = nvic_pending s
    \<and> syst_load s' = syst_load s \<and> syst_ctrl s' = syst_ctrl s \<and> NVIC_GetPriority irqn s' = Some (priority AND 3)
    \<and> (\<forall>j \<in> {-5, -2, -1} - {irqn}. NVIC_GetPriority j s' = NVIC_GetPriority j s)"
  using assms
  by (auto simp: set_priority_lane get_priority_lane well_formed_scs_def array_read_in array_write_in lane_same lane_other)

section \<open>Properties\<close>

text \<open>Setting a priority touches no other interrupt. For every interrupt or exception whose priority this
  core can set, \<open>NVIC_SetPriority\<close> stays within the priority registers; \<open>NVIC_GetPriority\<close> then returns the two
  implemented bits of the priority, the priority of every other interrupt reads as before, and no interrupt
  becomes enabled, disabled or pending.\<close>

theorem nvic_set_priority_isolated:
  assumes "well_formed_scs s" "irqn \<in> configurable"
  shows "\<exists>s'. NVIC_SetPriority irqn priority s = Some s' \<and> well_formed_scs s'
    \<and> NVIC_GetPriority irqn s' = Some (priority AND 3)
    \<and> (\<forall>j \<in> configurable - {irqn}. NVIC_GetPriority j s' = NVIC_GetPriority j s)
    \<and> nvic_enabled s' = nvic_enabled s \<and> nvic_pending s' = nvic_pending s
    \<and> syst_load s' = syst_load s \<and> syst_ctrl s' = syst_ctrl s"
proof (cases "irqn \<ge> 0")
  case True
  with assms(2) have "irqn \<le> 31" by (auto simp: configurable_def)
  obtain s' where s': "NVIC_SetPriority irqn priority s = Some s'" "well_formed_scs s'" "scb_shp s' = scb_shp s"
    "nvic_enabled s' = nvic_enabled s" "nvic_pending s' = nvic_pending s" "syst_load s' = syst_load s"
    "syst_ctrl s' = syst_ctrl s" "NVIC_GetPriority irqn s' = Some (priority AND 3)"
    "\<forall>j. 0 \<le> j \<and> j \<le> 31 \<and> j \<noteq> irqn \<longrightarrow> NVIC_GetPriority j s' = NVIC_GetPriority j s"
    using set_priority_external [OF True \<open>irqn \<le> 31\<close> assms(1)] by blast
  have "NVIC_GetPriority j s' = NVIC_GetPriority j s" if "j < 0" for j
    using that s'(3) by (simp add: NVIC_GetPriority_def)
  moreover have "NVIC_GetPriority j s' = NVIC_GetPriority j s" if "0 \<le> j" "j \<in> configurable - {irqn}" for j
    using that s'(9) by (simp add: configurable_def)
  ultimately show ?thesis using s'(1,2,4-8) by (metis not_le)
next
  case False
  with assms(2) have sys: "irqn \<in> {-5, -2, -1}" by (auto simp: configurable_def)
  obtain s' where s': "NVIC_SetPriority irqn priority s = Some s'" "well_formed_scs s'" "nvic_ip s' = nvic_ip s"
    "nvic_enabled s' = nvic_enabled s" "nvic_pending s' = nvic_pending s" "syst_load s' = syst_load s"
    "syst_ctrl s' = syst_ctrl s" "NVIC_GetPriority irqn s' = Some (priority AND 3)"
    "\<forall>j \<in> {-5, -2, -1} - {irqn}. NVIC_GetPriority j s' = NVIC_GetPriority j s"
    using set_priority_system [OF sys assms(1)] by blast
  have "NVIC_GetPriority j s' = NVIC_GetPriority j s" if "j \<ge> 0" for j
    using that s'(3) by (simp add: NVIC_GetPriority_def)
  moreover have "NVIC_GetPriority j s' = NVIC_GetPriority j s" if "j < 0" "j \<in> configurable - {irqn}" for j
    using that s'(9) by (auto simp: configurable_def)
  ultimately show ?thesis using s'(1,2,4-8) by (metis not_le)
qed

definition reset_scs :: scs where
  "reset_scs = \<lparr>nvic_enabled = 0, nvic_pending = 0, nvic_ip = replicate 8 0, scb_shp = [0, 0], scb_aircr = 0,
     syst_load = 0, syst_val = 0, syst_ctrl = 0\<rparr>"

theorem nvic_set_priority_isolated_witness:
  "\<exists>s'. NVIC_SetPriority 25 7 reset_scs = Some s' \<and> NVIC_GetPriority 25 s' = Some 3
    \<and> NVIC_GetPriority 24 s' = NVIC_GetPriority 24 reset_scs"
proof -
  have "well_formed_scs reset_scs" "(25 :: int) \<in> configurable" "(24 :: int) \<in> configurable - {25}" "(7 :: u32) AND 3 = 3"
    by (simp_all add: reset_scs_def well_formed_scs_def configurable_def)
  then show ?thesis using nvic_set_priority_isolated [of reset_scs 25 7] by fastforce
qed

end
