(* ===== verification/Timebase.thy ===== *)
theory Timebase
  imports Mmio Cmsis
begin

text \<open>
  \<open>hal/hal_clock.c\<close> and \<open>hal/hal_timer.c\<close>: selecting the main clock, with the fallback to the safe one, and
  the millisecond counter that SysTick advances. The two status-poll loops recurse on the polls left.
\<close>

section \<open>Clock\<close>

definition HAL_CLOCK_SAFE_HZ :: u32 where "HAL_CLOCK_SAFE_HZ = 4000000"
definition HAL_CLOCK_MSPM0C1106_MAX_HZ :: u32 where "HAL_CLOCK_MSPM0C1106_MAX_HZ = 32000000"
definition HAL_CLOCK_STATUS_POLLS :: u32 where "HAL_CLOCK_STATUS_POLLS = 4096"

text \<open>From \<open>hw_sysctl_mspm0c1105_c1106.h\<close>.\<close>

definition SYSCTL_SYSOSCCFG_DISABLE_MASK :: u32 where "SYSCTL_SYSOSCCFG_DISABLE_MASK = 0x00000400"
definition SYSCTL_SYSOSCCFG_FREQ_MASK :: u32 where "SYSCTL_SYSOSCCFG_FREQ_MASK = 0x00000003"
definition SYSCTL_SYSOSCCFG_FREQ_SYSOSCBASE :: u32 where "SYSCTL_SYSOSCCFG_FREQ_SYSOSCBASE = 0x00000000"
definition SYSCTL_SYSOSCCFG_FREQ_SYSOSC4M :: u32 where "SYSCTL_SYSOSCCFG_FREQ_SYSOSC4M = 0x00000001"
definition SYSCTL_MCLKCFG_USEHSCLK_MASK :: u32 where "SYSCTL_MCLKCFG_USEHSCLK_MASK = 0x00010000"
definition SYSCTL_MCLKCFG_USELFCLK_MASK :: u32 where "SYSCTL_MCLKCFG_USELFCLK_MASK = 0x00100000"
definition SYSCTL_MCLKCFG_MDIV_MASK :: u32 where "SYSCTL_MCLKCFG_MDIV_MASK = 0x0000000f"
definition SYSCTL_CLKSTATUS_SYSOSCFREQ_MASK :: u32 where "SYSCTL_CLKSTATUS_SYSOSCFREQ_MASK = 0x00000003"
definition SYSCTL_CLKSTATUS_SYSOSCFREQ_SYSOSC32M :: u32 where "SYSCTL_CLKSTATUS_SYSOSCFREQ_SYSOSC32M = 0x00000000"
definition SYSCTL_CLKSTATUS_SYSOSCFREQ_SYSOSC4M :: u32 where "SYSCTL_CLKSTATUS_SYSOSCFREQ_SYSOSC4M = 0x00000001"
definition SYSCTL_CLKSTATUS_HSCLKMUX_MASK :: u32 where "SYSCTL_CLKSTATUS_HSCLKMUX_MASK = 0x00000010"
definition SYSCTL_CLKSTATUS_CURMCLKSEL_MASK :: u32 where "SYSCTL_CLKSTATUS_CURMCLKSEL_MASK = 0x00020000"

record 'h clock =
  ck_machine :: "'h machine"
  ck_mclk_hz :: u32

definition hal_clock_select_sysosc_div1 :: "'h hardware \<Rightarrow> 'h machine \<Rightarrow> 'h machine defined" where
  "hal_clock_select_sysosc_div1 hw mc = do {
     (sysosc_config, mc) \<leftarrow> mmio_read hw (SYSCTL SYSCTL_SYSOSCCFG) mc;
     mc \<leftarrow> mmio_write hw (SYSCTL SYSCTL_SYSOSCCFG) (sysosc_config AND NOT SYSCTL_SYSOSCCFG_DISABLE_MASK) mc;
     (mclk_config, mc) \<leftarrow> mmio_read hw (SYSCTL SYSCTL_MCLKCFG) mc;
     mc \<leftarrow> mmio_write hw (SYSCTL SYSCTL_MCLKCFG)
       (mclk_config AND NOT (SYSCTL_MCLKCFG_USEHSCLK_MASK OR SYSCTL_MCLKCFG_USELFCLK_MASK OR SYSCTL_MCLKCFG_MDIV_MASK)) mc;
     mc \<leftarrow> cpu Dsb mc;
     cpu Isb mc
   }"

definition status_ready :: "u32 \<Rightarrow> u32 \<Rightarrow> bool" where
  "status_ready status_frequency status \<longleftrightarrow>
     status AND SYSCTL_CLKSTATUS_SYSOSCFREQ_MASK = status_frequency
     \<and> status AND (SYSCTL_CLKSTATUS_HSCLKMUX_MASK OR SYSCTL_CLKSTATUS_CURMCLKSEL_MASK) = 0"

fun status_loop :: "'h hardware \<Rightarrow> nat \<Rightarrow> u32 \<Rightarrow> 'h machine \<Rightarrow> (bool \<times> 'h machine) defined" where
  "status_loop hw 0 status_frequency mc = Some (False, mc)"
| "status_loop hw (Suc polls) status_frequency mc = do {
     (status, mc) \<leftarrow> mmio_read hw (SYSCTL SYSCTL_CLKSTATUS) mc;
     (if status_ready status_frequency status then Some (True, mc)
      else status_loop hw polls status_frequency mc)
   }"

definition hal_clock_set_sysosc_frequency ::
  "'h hardware \<Rightarrow> u32 \<Rightarrow> u32 \<Rightarrow> 'h machine \<Rightarrow> (bool \<times> 'h machine) defined" where
  "hal_clock_set_sysosc_frequency hw config_frequency status_frequency mc = do {
     (sysosc_config, mc) \<leftarrow> mmio_read hw (SYSCTL SYSCTL_SYSOSCCFG) mc;
     mc \<leftarrow> mmio_write hw (SYSCTL SYSCTL_SYSOSCCFG)
       ((sysosc_config AND NOT SYSCTL_SYSOSCCFG_FREQ_MASK) OR config_frequency) mc;
     mc \<leftarrow> cpu Dsb mc;
     mc \<leftarrow> cpu Isb mc;
     status_loop hw (unat HAL_CLOCK_STATUS_POLLS) status_frequency mc
   }"

definition hal_clock_init :: "'h hardware \<Rightarrow> u32 \<Rightarrow> 'h clock \<Rightarrow> (bool \<times> 'h clock) defined" where
  "hal_clock_init hw requested_hz st = do {
     mc \<leftarrow> hal_clock_select_sysosc_div1 hw (ck_machine st);
     (selected, mc) \<leftarrow>
       (if requested_hz = HAL_CLOCK_MSPM0C1106_MAX_HZ
        then hal_clock_set_sysosc_frequency hw SYSCTL_SYSOSCCFG_FREQ_SYSOSCBASE SYSCTL_CLKSTATUS_SYSOSCFREQ_SYSOSC32M mc
        else Some (False, mc));
     (if selected then Some (True, st\<lparr>ck_machine := mc, ck_mclk_hz := HAL_CLOCK_MSPM0C1106_MAX_HZ\<rparr>)
      else do {
        (_, mc) \<leftarrow> hal_clock_set_sysosc_frequency hw SYSCTL_SYSOSCCFG_FREQ_SYSOSC4M SYSCTL_CLKSTATUS_SYSOSCFREQ_SYSOSC4M mc;
        Some (False, st\<lparr>ck_machine := mc, ck_mclk_hz := HAL_CLOCK_SAFE_HZ\<rparr>)
      })
   }"

definition hal_clock_mclk_hz :: "'h clock \<Rightarrow> u32" where
  "hal_clock_mclk_hz st = ck_mclk_hz st"

section \<open>Timer\<close>

definition HAL_TIMER_TICK_HZ :: u32 where "HAL_TIMER_TICK_HZ = 1000"
definition HAL_TIMER_LOWEST_PRIORITY :: u32 where "HAL_TIMER_LOWEST_PRIORITY = 3"

record timer =
  tm_now_ms :: u32
  tm_scs :: scs

definition SysTick_Handler :: "timer \<Rightarrow> timer" where
  "SysTick_Handler st = st\<lparr>tm_now_ms := tm_now_ms st + 1\<rparr>"

definition hal_timer_init_1ms :: "u32 \<Rightarrow> timer \<Rightarrow> (bool \<times> timer) defined" where
  "hal_timer_init_1ms mclk_hz st =
     (let reload = mclk_hz div HAL_TIMER_TICK_HZ in
      if mclk_hz mod HAL_TIMER_TICK_HZ \<noteq> 0 then Some (False, st)
      else do {
        let st = st\<lparr>tm_now_ms := 0\<rparr>;
        (r, s) \<leftarrow> SysTick_Config reload (tm_scs st);
        let st = st\<lparr>tm_scs := s\<rparr>;
        (if r \<noteq> 0 then Some (False, st)
         else do {
           s \<leftarrow> NVIC_SetPriority (irq_number SysTick_IRQn) HAL_TIMER_LOWEST_PRIORITY (tm_scs st);
           Some (True, st\<lparr>tm_scs := s\<rparr>)
         })
      })"

definition hal_timer_now_ms :: "timer \<Rightarrow> u32" where
  "hal_timer_now_ms st = tm_now_ms st"

definition hal_timer_deadline_reached :: "u32 \<Rightarrow> timer \<Rightarrow> bool" where
  "hal_timer_deadline_reached deadline_ms st \<longleftrightarrow> hal_timer_now_ms st - deadline_ms < 0x80000000"

section \<open>Selecting the clock\<close>

abbreviation sysctl_reads :: "access list \<Rightarrow> u32 list" where
  "sysctl_reads tr \<equiv> seen (SYSCTL SYSCTL_CLKSTATUS) tr"

text \<open>The clock code touches the system controller only.\<close>

fun sysctl_access :: "access \<Rightarrow> bool" where
  "sysctl_access (Read (SYSCTL r) v) \<longleftrightarrow> True"
| "sysctl_access (Write (SYSCTL r) v) \<longleftrightarrow> True"
| "sysctl_access Dsb \<longleftrightarrow> True"
| "sysctl_access Isb \<longleftrightarrow> True"
| "sysctl_access _ \<longleftrightarrow> False"

lemma status_loop_ran:
  "\<exists>ok mc' tr. status_loop hw n f mc = Some (ok, mc') \<and> mc_trace mc' = mc_trace mc @ tr
    \<and> length (sysctl_reads tr) \<le> n \<and> (\<forall>r. written r tr = []) \<and> list_all sysctl_access tr
    \<and> (if ok then \<exists>ps s. sysctl_reads tr = ps @ [s] \<and> status_ready f s
       else length (sysctl_reads tr) = n \<and> list_all (\<lambda>s. \<not> status_ready f s) (sysctl_reads tr))"
proof (induction n arbitrary: mc)
  case 0
  show ?case by (intro exI [of _ False] exI [of _ mc] exI [of _ "[]"]) simp
next
  case (Suc n)
  obtain s d where "hw_read hw (SYSCTL SYSCTL_CLKSTATUS) (mc_device mc) = (s, d)" by fastforce
  then obtain mc1 where read: "mmio_read hw (SYSCTL SYSCTL_CLKSTATUS) mc = Some (s, mc1)"
    "mc_trace mc1 = mc_trace mc @ [Read (SYSCTL SYSCTL_CLKSTATUS) s]"
    by (simp add: mmio_read_def)
  show ?case
  proof (cases "status_ready f s")
    case True
    with read show ?thesis
      by (intro exI [of _ True] exI [of _ mc1] exI [of _ "[Read (SYSCTL SYSCTL_CLKSTATUS) s]"]) simp
  next
    case False
    obtain ok mc2 tr where rest: "status_loop hw n f mc1 = Some (ok, mc2)" "mc_trace mc2 = mc_trace mc1 @ tr"
      "length (sysctl_reads tr) \<le> n" "\<forall>r. written r tr = []" "list_all sysctl_access tr"
      "if ok then \<exists>ps s. sysctl_reads tr = ps @ [s] \<and> status_ready f s
       else length (sysctl_reads tr) = n \<and> list_all (\<lambda>s. \<not> status_ready f s) (sysctl_reads tr)"
      using Suc.IH by blast
    show ?thesis
      by (rule exI [of _ ok], rule exI [of _ mc2], rule exI [of _ "Read (SYSCTL SYSCTL_CLKSTATUS) s # tr"])
        (use read rest False in \<open>auto split: if_splits\<close>)
  qed
qed

abbreviation "osc \<equiv> SYSCTL SYSCTL_SYSOSCCFG"

lemma set_frequency_ran:
  "\<exists>ok mc' tr v. hal_clock_set_sysosc_frequency hw c f mc = Some (ok, mc') \<and> mc_trace mc' = mc_trace mc @ tr
    \<and> length (sysctl_reads tr) \<le> 4096 \<and> written osc tr = [(v AND NOT SYSCTL_SYSOSCCFG_FREQ_MASK) OR c]
    \<and> written (SYSCTL SYSCTL_MCLKCFG) tr = [] \<and> list_all sysctl_access tr
    \<and> (if ok then \<exists>ps s. sysctl_reads tr = ps @ [s] \<and> status_ready f s
       else length (sysctl_reads tr) = 4096 \<and> list_all (\<lambda>s. \<not> status_ready f s) (sysctl_reads tr))"
proof -
  obtain v d where read: "hw_read hw osc (mc_device mc) = (v, d)" by fastforce
  define w where "w = (v AND NOT SYSCTL_SYSOSCCFG_FREQ_MASK) OR c"
  define mc1 where "mc1 = \<lparr>mc_device = hw_write hw osc w d, mc_trace = mc_trace mc @ [Read osc v, Write osc w, Dsb, Isb]\<rparr>"
  have run: "hal_clock_set_sysosc_frequency hw c f mc = status_loop hw 4096 f mc1"
    using read by (simp add: hal_clock_set_sysosc_frequency_def mmio_read_def mmio_write_def cpu_def mc1_def w_def
        HAL_CLOCK_STATUS_POLLS_def)
  obtain ok mc' tr where loop: "status_loop hw 4096 f mc1 = Some (ok, mc')" "mc_trace mc' = mc_trace mc1 @ tr"
    "length (sysctl_reads tr) \<le> 4096" "\<forall>r. written r tr = []" "list_all sysctl_access tr"
    "if ok then \<exists>ps s. sysctl_reads tr = ps @ [s] \<and> status_ready f s
       else length (sysctl_reads tr) = 4096 \<and> list_all (\<lambda>s. \<not> status_ready f s) (sysctl_reads tr)"
    using status_loop_ran [of hw 4096 f mc1] by blast
  show ?thesis
    by (rule exI [of _ ok], rule exI [of _ mc'], rule exI [of _ "[Read osc v, Write osc w, Dsb, Isb] @ tr"], rule exI [of _ v])
      (use loop run in \<open>simp add: mc1_def w_def \<close>)
qed

lemma select_ran:
  "\<exists>mc' tr v m. hal_clock_select_sysosc_div1 hw mc = Some mc' \<and> mc_trace mc' = mc_trace mc @ tr \<and> sysctl_reads tr = []
    \<and> list_all sysctl_access tr
    \<and> written osc tr = [v AND NOT SYSCTL_SYSOSCCFG_DISABLE_MASK]
    \<and> written (SYSCTL SYSCTL_MCLKCFG) tr = [m AND NOT (SYSCTL_MCLKCFG_USEHSCLK_MASK OR SYSCTL_MCLKCFG_USELFCLK_MASK
         OR SYSCTL_MCLKCFG_MDIV_MASK)]"
  by (simp add: hal_clock_select_sysosc_div1_def mmio_read_def mmio_write_def cpu_def  split: prod.split)
    blast

lemma clock_init_ran:
  "\<exists>ok st' tr m. hal_clock_init hw requested st = Some (ok, st') \<and> mc_trace (ck_machine st') = mc_trace (ck_machine st) @ tr
    \<and> list_all sysctl_access tr \<and> length (sysctl_reads tr) \<le> 8192
    \<and> written (SYSCTL SYSCTL_MCLKCFG) tr = [m AND NOT (SYSCTL_MCLKCFG_USEHSCLK_MASK OR SYSCTL_MCLKCFG_USELFCLK_MASK
         OR SYSCTL_MCLKCFG_MDIV_MASK)]
    \<and> (if ok
       then requested = 32000000 \<and> hal_clock_mclk_hz st' = 32000000
         \<and> (\<exists>ps s. sysctl_reads tr = ps @ [s] \<and> status_ready SYSCTL_CLKSTATUS_SYSOSCFREQ_SYSOSC32M s)
       else hal_clock_mclk_hz st' = 4000000
         \<and> last (written osc tr) AND SYSCTL_SYSOSCCFG_FREQ_MASK = SYSCTL_SYSOSCCFG_FREQ_SYSOSC4M)"
proof -
  obtain mc1 tr1 v1 m where sel: "hal_clock_select_sysosc_div1 hw (ck_machine st) = Some mc1"
    "mc_trace mc1 = mc_trace (ck_machine st) @ tr1" "sysctl_reads tr1 = []" "list_all sysctl_access tr1"
    "written osc tr1 = [v1 AND NOT SYSCTL_SYSOSCCFG_DISABLE_MASK]"
    "written (SYSCTL SYSCTL_MCLKCFG) tr1 = [m AND NOT (SYSCTL_MCLKCFG_USEHSCLK_MASK OR SYSCTL_MCLKCFG_USELFCLK_MASK
         OR SYSCTL_MCLKCFG_MDIV_MASK)]"
    using select_ran [of hw "ck_machine st"] by blast
  have safe: "((v AND NOT SYSCTL_SYSOSCCFG_FREQ_MASK) OR SYSCTL_SYSOSCCFG_FREQ_SYSOSC4M) AND SYSCTL_SYSOSCCFG_FREQ_MASK
      = SYSCTL_SYSOSCCFG_FREQ_SYSOSC4M" for v
    by (rule bit_word_eqI) (auto simp: SYSCTL_SYSOSCCFG_FREQ_MASK_def SYSCTL_SYSOSCCFG_FREQ_SYSOSC4M_def bit_simps)
  define first where "first = (if requested = HAL_CLOCK_MSPM0C1106_MAX_HZ
        then hal_clock_set_sysosc_frequency hw SYSCTL_SYSOSCCFG_FREQ_SYSOSCBASE SYSCTL_CLKSTATUS_SYSOSCFREQ_SYSOSC32M mc1
        else Some (False, mc1))"
  obtain sel_ok mc2 tr2 where two: "first = Some (sel_ok, mc2)" "mc_trace mc2 = mc_trace mc1 @ tr2"
    "length (sysctl_reads tr2) \<le> 4096" "written (SYSCTL SYSCTL_MCLKCFG) tr2 = []" "list_all sysctl_access tr2"
    "sel_ok \<Longrightarrow> requested = HAL_CLOCK_MSPM0C1106_MAX_HZ
      \<and> (\<exists>ps s. sysctl_reads tr2 = ps @ [s] \<and> status_ready SYSCTL_CLKSTATUS_SYSOSCFREQ_SYSOSC32M s)"
  proof (cases "requested = HAL_CLOCK_MSPM0C1106_MAX_HZ")
    case True
    obtain ok mc' tr v where "hal_clock_set_sysosc_frequency hw SYSCTL_SYSOSCCFG_FREQ_SYSOSCBASE
        SYSCTL_CLKSTATUS_SYSOSCFREQ_SYSOSC32M mc1 = Some (ok, mc')" "mc_trace mc' = mc_trace mc1 @ tr"
      "length (sysctl_reads tr) \<le> 4096" "written (SYSCTL SYSCTL_MCLKCFG) tr = []" "list_all sysctl_access tr"
      "if ok then \<exists>ps s. sysctl_reads tr = ps @ [s] \<and> status_ready SYSCTL_CLKSTATUS_SYSOSCFREQ_SYSOSC32M s
       else length (sysctl_reads tr) = 4096
         \<and> list_all (\<lambda>s. \<not> status_ready SYSCTL_CLKSTATUS_SYSOSCFREQ_SYSOSC32M s) (sysctl_reads tr)"
      using set_frequency_ran [of hw SYSCTL_SYSOSCCFG_FREQ_SYSOSCBASE SYSCTL_CLKSTATUS_SYSOSCFREQ_SYSOSC32M mc1] by blast
    then show ?thesis using that [of ok mc' tr] True by (simp add: first_def)
  next
    case False
    then show ?thesis using that [of False mc1 "[]"] by (simp add: first_def )
  qed
  have run: "hal_clock_init hw requested st =
     (if sel_ok then Some (True, st\<lparr>ck_machine := mc2, ck_mclk_hz := HAL_CLOCK_MSPM0C1106_MAX_HZ\<rparr>)
      else do {
        (_, mc) \<leftarrow> hal_clock_set_sysosc_frequency hw SYSCTL_SYSOSCCFG_FREQ_SYSOSC4M SYSCTL_CLKSTATUS_SYSOSCFREQ_SYSOSC4M mc2;
        Some (False, st\<lparr>ck_machine := mc, ck_mclk_hz := HAL_CLOCK_SAFE_HZ\<rparr>)
      })"
    using sel(1) two(1) by (simp add: hal_clock_init_def flip: first_def)
  show ?thesis
  proof (cases sel_ok)
    case True
    show ?thesis
      by (rule exI [of _ True], rule exI [of _ "st\<lparr>ck_machine := mc2, ck_mclk_hz := HAL_CLOCK_MSPM0C1106_MAX_HZ\<rparr>"],
          rule exI [of _ "tr1 @ tr2"], rule exI [of _ m])
        (use run True two sel in \<open>simp add: hal_clock_mclk_hz_def HAL_CLOCK_MSPM0C1106_MAX_HZ_def \<close>)
  next
    case False
    obtain ok mc3 tr3 v where three: "hal_clock_set_sysosc_frequency hw SYSCTL_SYSOSCCFG_FREQ_SYSOSC4M
        SYSCTL_CLKSTATUS_SYSOSCFREQ_SYSOSC4M mc2 = Some (ok, mc3)" "mc_trace mc3 = mc_trace mc2 @ tr3"
      "length (sysctl_reads tr3) \<le> 4096" "written (SYSCTL SYSCTL_MCLKCFG) tr3 = []" "list_all sysctl_access tr3"
      "written osc tr3 = [(v AND NOT SYSCTL_SYSOSCCFG_FREQ_MASK) OR SYSCTL_SYSOSCCFG_FREQ_SYSOSC4M]"
      using set_frequency_ran [of hw SYSCTL_SYSOSCCFG_FREQ_SYSOSC4M SYSCTL_CLKSTATUS_SYSOSCFREQ_SYSOSC4M mc2] by blast
    show ?thesis
      by (rule exI [of _ False], rule exI [of _ "st\<lparr>ck_machine := mc3, ck_mclk_hz := HAL_CLOCK_SAFE_HZ\<rparr>"],
          rule exI [of _ "tr1 @ tr2 @ tr3"], rule exI [of _ m])
        (use run False two(2-5) sel three safe in \<open>simp add: hal_clock_mclk_hz_def HAL_CLOCK_SAFE_HZ_def \<close>)
  qed
qed

lemma clock_init_outcome:
  obtains ok st' tr where "hal_clock_init hw requested st = Some (ok, st')"
    "mc_trace (ck_machine st') = mc_trace (ck_machine st) @ tr" "list_all sysctl_access tr"
    "ck_mclk_hz st' = (if ok then 32000000 else 4000000)"
proof -
  obtain ok st' tr where ran: "hal_clock_init hw requested st = Some (ok, st')"
    "mc_trace (ck_machine st') = mc_trace (ck_machine st) @ tr" "list_all sysctl_access tr"
    "if ok then hal_clock_mclk_hz st' = 32000000 else hal_clock_mclk_hz st' = 4000000"
    using clock_init_ran [of hw requested st] by (elim exE conjE) (rule that, assumption+, simp split: if_splits)
  show ?thesis
    by (rule that [OF ran(1-3)]) (use ran(4) in \<open>simp add: hal_clock_mclk_hz_def split: if_splits\<close>)
qed

section \<open>Properties\<close>

text \<open>C29. The reported clock is true. On any hardware \<open>hal_clock_init\<close> returns after at most 8192 status polls. It
  reports the requested 32 MHz only if that was requested and the last status polled showed the oscillator at its
  base frequency and selected; otherwise it reports the safe 4 MHz, and the last oscillator configuration written
  selects 4 MHz. In both cases the main clock was first set to the oscillator, undivided, and only registers of the system
  controller were read or written, with barriers between.\<close>

theorem clock_report_is_true:
  "\<exists>ok st' tr m. hal_clock_init hw requested st = Some (ok, st') \<and> mc_trace (ck_machine st') = mc_trace (ck_machine st) @ tr
    \<and> list_all sysctl_access tr \<and> length (sysctl_reads tr) \<le> 8192
    \<and> written (SYSCTL SYSCTL_MCLKCFG) tr = [m AND NOT (SYSCTL_MCLKCFG_USEHSCLK_MASK OR SYSCTL_MCLKCFG_USELFCLK_MASK
         OR SYSCTL_MCLKCFG_MDIV_MASK)]
    \<and> (if ok
       then requested = 32000000 \<and> hal_clock_mclk_hz st' = 32000000
         \<and> (\<exists>ps s. sysctl_reads tr = ps @ [s] \<and> status_ready SYSCTL_CLKSTATUS_SYSOSCFREQ_SYSOSC32M s)
       else hal_clock_mclk_hz st' = 4000000
         \<and> last (written osc tr) AND SYSCTL_SYSOSCCFG_FREQ_MASK = SYSCTL_SYSOSCCFG_FREQ_SYSOSC4M)"
  by (rule clock_init_ran)

text \<open>Whatever clock \<open>hal_clock_init\<close> reports, the timer starts, and its SysTick period is one millisecond.\<close>

lemma timer_init_one_millisecond:
  assumes "well_formed_scs (tm_scs st)" "mclk \<in> {4000000, 32000000}"
  shows "\<exists>st'. hal_timer_init_1ms mclk st = Some (True, st') \<and> tm_now_ms st' = 0 \<and> well_formed_scs (tm_scs st')
    \<and> 1000 * (unat (syst_load (tm_scs st')) + 1) = unat mclk \<and> syst_ctrl (tm_scs st') = 7
    \<and> NVIC_GetPriority (-1) (tm_scs st') = Some 3
    \<and> (\<forall>j \<in> {-5, -2} \<union> {0..31}. NVIC_GetPriority j (tm_scs st') = NVIC_GetPriority j (tm_scs st))"
proof -
  have sys: "irq_number SysTick_IRQn = -1" by simp
  define s0 where "s0 = (tm_scs st)\<lparr>syst_load := mclk div 1000 - 1\<rparr>"
  have wf0: "well_formed_scs s0" using assms(1) by (simp add: s0_def well_formed_scs_def)
  obtain s1 where s1: "NVIC_SetPriority (-1) 3 s0 = Some s1" "well_formed_scs s1" "nvic_ip s1 = nvic_ip s0"
    "syst_load s1 = syst_load s0" "\<forall>j \<in> {-5, -2, -1} - {-1}. NVIC_GetPriority j s1 = NVIC_GetPriority j s0"
    using set_priority_system [of "-1" s0 3] wf0 by auto
  define s2 where "s2 = s1\<lparr>syst_val := 0, syst_ctrl := 7\<rparr>"
  have wf2: "well_formed_scs s2" using s1(2) by (simp add: s2_def well_formed_scs_def)
  obtain s3 where s3: "NVIC_SetPriority (-1) 3 s2 = Some s3" "well_formed_scs s3" "nvic_ip s3 = nvic_ip s2"
    "syst_load s3 = syst_load s2" "syst_ctrl s3 = syst_ctrl s2" "NVIC_GetPriority (-1) s3 = Some (3 AND 3)"
    "\<forall>j \<in> {-5, -2, -1} - {-1}. NVIC_GetPriority j s3 = NVIC_GetPriority j s2"
    using set_priority_system [of "-1" s2 3] wf2 by auto
  have same: "NVIC_GetPriority j s3 = NVIC_GetPriority j (tm_scs st)" if "j \<in> {-5, -2} \<union> {0..31}" for j
  proof (cases "0 \<le> j")
    case True
    then show ?thesis using s1(3) s3(3) by (simp add: NVIC_GetPriority_def s2_def s0_def)
  next
    case False
    with that have "j \<in> {-5, -2, -1} - {-1 :: int}" by auto
    then have "NVIC_GetPriority j s3 = NVIC_GetPriority j s2" "NVIC_GetPriority j s1 = NVIC_GetPriority j s0"
      using s1(5) s3(7) by blast+
    moreover have "NVIC_GetPriority j s2 = NVIC_GetPriority j s1" by (simp add: NVIC_GetPriority_def s2_def)
    moreover have "NVIC_GetPriority j s0 = NVIC_GetPriority j (tm_scs st)" by (simp add: NVIC_GetPriority_def s0_def)
    ultimately show ?thesis by simp
  qed
  have "mclk div 1000 - 1 \<le> SysTick_LOAD_RELOAD_Msk" "mclk mod 1000 = 0"
    using assms(2) by (auto simp: SysTick_LOAD_RELOAD_Msk_def)
  then have "hal_timer_init_1ms mclk st = Some (True, st\<lparr>tm_now_ms := 0, tm_scs := s3\<rparr>)"
    using s1(1) s3(1)
    by (simp add: hal_timer_init_1ms_def SysTick_Config_def HAL_TIMER_TICK_HZ_def HAL_TIMER_LOWEST_PRIORITY_def
        NVIC_PRIO_BITS_def sys s0_def s2_def not_less Let_def)
  moreover have "1000 * (unat (syst_load s3) + 1) = unat mclk"
    using assms(2) s1(4) s3(4) by (auto simp: s2_def s0_def)
  ultimately show ?thesis using s3(2,5,6) same by (intro exI [of _ "st\<lparr>tm_now_ms := 0, tm_scs := s3\<rparr>"]) (simp add: s2_def)
qed

text \<open>After \<open>k\<close> SysTick interrupts.\<close>

definition ticks :: "nat \<Rightarrow> timer \<Rightarrow> timer" where
  "ticks k st = (SysTick_Handler ^^ k) st"

lemma ticks_now: "tm_now_ms (ticks k st) = tm_now_ms st + of_nat k"
  by (induction k) (simp_all add: ticks_def SysTick_Handler_def)

lemma deadline_reached_iff:
  assumes "unat d < 2 ^ 31" "k < unat d + 2 ^ 31" "hal_timer_now_ms st = x + of_nat k"
  shows "hal_timer_deadline_reached (x + d) st \<longleftrightarrow> unat d \<le> k"
proof -
  have "hal_timer_deadline_reached (x + d) st \<longleftrightarrow> of_nat k - d < (0x80000000 :: u32)"
    using assms(3) by (simp add: hal_timer_deadline_reached_def)
  also have "\<dots> \<longleftrightarrow> unat (of_nat k - d :: u32) < 2 ^ 31" by (simp add: word_less_nat_alt)
  also have "\<dots> \<longleftrightarrow> unat d \<le> k"
  proof (cases "unat d \<le> k")
    case True
    then have "(of_nat k - d :: u32) = of_nat (k - unat d)" by (simp add: of_nat_diff)
    moreover have "k - unat d < 2 ^ 31" using assms(2) True by linarith
    moreover from this have "unat (of_nat (k - unat d) :: u32) = k - unat d"
      by (simp add: unat_of_nat del: of_nat_diff)
    ultimately show ?thesis using True by simp
  next
    case False
    define n where "n = unat d - k"
    have n: "0 < n" "n < 2 ^ 31" "unat d = n + k" using assms(1) False by (simp_all add: n_def)
    have "(of_nat k - d :: u32) = - of_nat n"
      using arg_cong [OF n(3), of "of_nat :: nat \<Rightarrow> u32"] by simp
    moreover have "(of_nat (2 ^ 32 - n) :: u32) = - of_nat n" using n by (simp add: of_nat_diff)
    ultimately have "unat (of_nat k - d :: u32) = unat (of_nat (2 ^ 32 - n) :: u32)" by simp
    also have "\<dots> = 2 ^ 32 - n" using n by (simp add: unat_of_nat del: of_nat_diff)
    finally have "unat (of_nat k - d :: u32) = 2 ^ 32 - n" .
    with n False show ?thesis by simp
  qed
  finally show ?thesis .
qed

text \<open>C30. Deadlines survive the wrap of the counter. A deadline set \<open>d\<close> milliseconds ahead, \<open>d\<close> below \<open>2\<^sup>31\<close>, is
  not reached until \<open>d\<close> ticks have come and is reported as reached for the next \<open>2\<^sup>31\<close> ticks, 24 days, whatever
  the counter was and whether or not it wrapped on the way.\<close>

theorem deadline_survives_wrap:
  assumes "unat d < 2 ^ 31" "k < unat d + 2 ^ 31"
  shows "hal_timer_deadline_reached (hal_timer_now_ms st + d) (ticks k st) \<longleftrightarrow> unat d \<le> k"
  using deadline_reached_iff [OF assms, of "ticks k st" "hal_timer_now_ms st"] by (simp add: hal_timer_now_ms_def ticks_now)

definition wrapping_timer :: timer where
  "wrapping_timer = \<lparr>tm_now_ms = 0xfffffff0, tm_scs = reset_scs\<rparr>"

theorem deadline_survives_wrap_witness:
  "hal_timer_deadline_reached (hal_timer_now_ms wrapping_timer + 500) (ticks 500 wrapping_timer)
    \<and> \<not> hal_timer_deadline_reached (hal_timer_now_ms wrapping_timer + 500) (ticks 499 wrapping_timer)"
proof -
  have "unat (500 :: u32) = 500" by simp
  then show ?thesis
    using deadline_survives_wrap [of 500 500 wrapping_timer] deadline_survives_wrap [of 500 499 wrapping_timer] by simp
qed

end
