(* ===== verification/Outputs.thy ===== *)
theory Outputs
  imports Mmio
begin

text \<open>
  \<open>hal/hal_gpio.c\<close> and \<open>hal/hal_wdt.c\<close>: digital outputs, driven only through the set, clear and toggle registers,
  and the window watchdog.
\<close>

section \<open>GPIO\<close>

record hal_gpio_output =
  go_port_base :: u32
  go_pin_mask :: u32
  go_pincm_index :: u32

definition HAL_GPIO_PINCM_COUNT :: u32 where "HAL_GPIO_PINCM_COUNT = 251"
definition HAL_GPIO_FUNCTION_DIGITAL_IO :: u32 where "HAL_GPIO_FUNCTION_DIGITAL_IO = 1"

definition hal_gpio_port_reset_enable :: "'h hardware \<Rightarrow> u32 \<Rightarrow> 'h machine \<Rightarrow> 'h machine defined" where
  "hal_gpio_port_reset_enable hw port_base mc = do {
     mc \<leftarrow> mmio_write hw (GPIO port_base GPIO_RSTCTL) (0xb1000000 OR 0x2 OR 0x1) mc;
     mc \<leftarrow> mmio_write hw (GPIO port_base GPIO_PWREN) (0x26000000 OR 0x1) mc;
     hal_power_wait_after_enable mc
   }"

definition hal_gpio_output_init ::
  "'h hardware \<Rightarrow> hal_gpio_output option \<Rightarrow> 'h machine \<Rightarrow> (bool \<times> 'h machine) defined" where
  "hal_gpio_output_init hw output mc =
     (case output of
        None \<Rightarrow> Some (False, mc)
      | Some g \<Rightarrow>
          if go_pin_mask g = 0 \<or> go_pincm_index g \<ge> HAL_GPIO_PINCM_COUNT then Some (False, mc)
          else do {
            mc \<leftarrow> mmio_write hw (PINCM (go_pincm_index g)) (0x80 OR HAL_GPIO_FUNCTION_DIGITAL_IO) mc;
            mc \<leftarrow> mmio_write hw (GPIO (go_port_base g) GPIO_DOUTCLR) (go_pin_mask g) mc;
            mc \<leftarrow> mmio_write hw (GPIO (go_port_base g) GPIO_DOESET) (go_pin_mask g) mc;
            Some (True, mc)
          })"

definition hal_gpio_output_set ::
  "'h hardware \<Rightarrow> hal_gpio_output option \<Rightarrow> bool \<Rightarrow> 'h machine \<Rightarrow> 'h machine defined" where
  "hal_gpio_output_set hw output high mc =
     (case output of
        None \<Rightarrow> Some mc
      | Some g \<Rightarrow>
          if high then mmio_write hw (GPIO (go_port_base g) GPIO_DOUTSET) (go_pin_mask g) mc
          else mmio_write hw (GPIO (go_port_base g) GPIO_DOUTCLR) (go_pin_mask g) mc)"

definition hal_gpio_output_toggle :: "'h hardware \<Rightarrow> hal_gpio_output option \<Rightarrow> 'h machine \<Rightarrow> 'h machine defined" where
  "hal_gpio_output_toggle hw output mc =
     (case output of
        None \<Rightarrow> Some mc
      | Some g \<Rightarrow> mmio_write hw (GPIO (go_port_base g) GPIO_DOUTTGL) (go_pin_mask g) mc)"

section \<open>Watchdog\<close>

definition HAL_WDT_RESTART_KEY :: u32 where "HAL_WDT_RESTART_KEY = 0x00a7"

text \<open>From \<open>hw_wwdt.h\<close>.\<close>

definition WWDT_PDBGCTL_FREE_STOP :: u32 where "WWDT_PDBGCTL_FREE_STOP = 0"
definition WWDT_CTL1_WINDOW0 :: u32 where "WWDT_CTL1_WINDOW0 = 0xbe000000 OR 0"
definition WWDT_CTL0_ONE_SECOND :: u32 where "WWDT_CTL0_ONE_SECOND = 0xc9000000 OR 0x30 OR 0 OR 0 OR 0"
definition WWDT_STAT_RUN_MASK :: u32 where "WWDT_STAT_RUN_MASK = 0x1"
definition WWDT_STAT_RUN_ON :: u32 where "WWDT_STAT_RUN_ON = 0x1"

definition hal_wdt_init :: "'h hardware \<Rightarrow> 'h machine \<Rightarrow> (bool \<times> 'h machine) defined" where
  "hal_wdt_init hw mc = do {
     mc \<leftarrow> mmio_write hw (WWDT0 WWDT_RSTCTL) (0xb1000000 OR 0x2 OR 0x1) mc;
     mc \<leftarrow> mmio_write hw (WWDT0 WWDT_PWREN) (0x26000000 OR 0x1) mc;
     mc \<leftarrow> hal_power_wait_after_enable mc;
     mc \<leftarrow> mmio_write hw (WWDT0 WWDT_PDBGCTL) WWDT_PDBGCTL_FREE_STOP mc;
     mc \<leftarrow> mmio_write hw (WWDT0 WWDT_CTL1) WWDT_CTL1_WINDOW0 mc;
     mc \<leftarrow> mmio_write hw (WWDT0 WWDT_CTL0) WWDT_CTL0_ONE_SECOND mc;
     mc \<leftarrow> cpu Dsb mc;
     (stat, mc) \<leftarrow> mmio_read hw (WWDT0 WWDT_STAT) mc;
     Some (stat AND WWDT_STAT_RUN_MASK = WWDT_STAT_RUN_ON, mc)
   }"

definition hal_wdt_kick :: "'h hardware \<Rightarrow> 'h machine \<Rightarrow> 'h machine defined" where
  "hal_wdt_kick hw mc = mmio_write hw (WWDT0 WWDT_CNTRST) HAL_WDT_RESTART_KEY mc"

section \<open>What the calls do to the trace\<close>

text \<open>A step appended \<open>tr\<close> to the trace of the machine.\<close>

definition mc_ran :: "'h machine \<Rightarrow> access list \<Rightarrow> 'h machine \<Rightarrow> bool" where
  "mc_ran mc tr mc' \<longleftrightarrow> mc_trace mc' = mc_trace mc @ tr"

lemma mc_ran_trans: "mc_ran mc tr mc1 \<Longrightarrow> mc_ran mc1 tr' mc2 \<Longrightarrow> mc_ran mc (tr @ tr') mc2"
  by (simp add: mc_ran_def)

definition power_up :: "access list" where
  "power_up = Dsb # Isb # replicate 64 Nop"

lemma port_reset_ran:
  "\<exists>mc'. hal_gpio_port_reset_enable hw b mc = Some mc'
    \<and> mc_ran mc ([Write (GPIO b GPIO_RSTCTL) 0xb1000003, Write (GPIO b GPIO_PWREN) 0x26000001] @ power_up) mc'"
  by (simp add: hal_gpio_port_reset_enable_def mmio_write_def hal_power_wait_trace mc_ran_def power_up_def)

lemma output_init_ran:
  "\<exists>mc'. hal_gpio_output_init hw (Some g) mc
      = Some (go_pin_mask g \<noteq> 0 \<and> go_pincm_index g < 251, mc')
    \<and> mc_ran mc (if go_pin_mask g \<noteq> 0 \<and> go_pincm_index g < 251
        then [Write (PINCM (go_pincm_index g)) 0x81, Write (GPIO (go_port_base g) GPIO_DOUTCLR) (go_pin_mask g),
              Write (GPIO (go_port_base g) GPIO_DOESET) (go_pin_mask g)] else []) mc'"
  by (auto simp: hal_gpio_output_init_def mmio_write_def mc_ran_def HAL_GPIO_PINCM_COUNT_def not_le
      HAL_GPIO_FUNCTION_DIGITAL_IO_def)

lemma wdt_init_ran:
  "\<exists>ok v mc'. hal_wdt_init hw mc = Some (ok, mc') \<and> ok = (v AND 1 = 1)
    \<and> mc_ran mc ([Write (WWDT0 WWDT_RSTCTL) 0xb1000003, Write (WWDT0 WWDT_PWREN) 0x26000001] @ power_up
        @ [Write (WWDT0 WWDT_PDBGCTL) 0, Write (WWDT0 WWDT_CTL1) 0xbe000000, Write (WWDT0 WWDT_CTL0) 0xc9000030, Dsb,
           Read (WWDT0 WWDT_STAT) v]) mc'"
  by (auto simp: hal_wdt_init_def mmio_write_def mmio_read_def cpu_def hal_power_wait_trace mc_ran_def power_up_def
      WWDT_PDBGCTL_FREE_STOP_def WWDT_CTL1_WINDOW0_def WWDT_CTL0_ONE_SECOND_def WWDT_STAT_RUN_MASK_def
      WWDT_STAT_RUN_ON_def split: prod.split)

text \<open>A watchdog started by \<open>hal_wdt_init\<close> counts to \<open>2\<^sup>15\<close> LFCLK cycles of 32768 Hz, one second: the period
  field of the control word is the code for 15 bits, the clock divider 1 and both closed windows 0%.\<close>

definition wwdt_period_bits :: "u32 \<Rightarrow> nat" where
  "wwdt_period_bits ctl0 = [25, 21, 18, 15, 12, 10, 8, 6] ! unat (drop_bit 4 ctl0 AND 0x7)"

lemma watchdog_one_second:
  "2 ^ wwdt_period_bits WWDT_CTL0_ONE_SECOND * (unat (WWDT_CTL0_ONE_SECOND AND 0x7) + 1) = (32768 :: nat)"
  "WWDT_CTL0_ONE_SECOND AND 0x700 = 0" "WWDT_CTL0_ONE_SECOND AND 0x7000 = 0" "WWDT_CTL1_WINDOW0 AND 1 = 0"
  by (simp_all add: wwdt_period_bits_def WWDT_CTL0_ONE_SECOND_def WWDT_CTL1_WINDOW0_def)

text \<open>The outputs are driven without a read, so no pin but the ones of the mask can change.\<close>

lemma output_writes_only_its_pins:
  "\<exists>mc'. hal_gpio_output_set hw (Some g) high mc = Some mc'
    \<and> mc_ran mc [Write (GPIO (go_port_base g) (if high then GPIO_DOUTSET else GPIO_DOUTCLR)) (go_pin_mask g)] mc'"
  "\<exists>mc'. hal_gpio_output_toggle hw (Some g) mc = Some mc'
    \<and> mc_ran mc [Write (GPIO (go_port_base g) GPIO_DOUTTGL) (go_pin_mask g)] mc'"
  by (simp_all add: hal_gpio_output_set_def hal_gpio_output_toggle_def mmio_write_def mc_ran_def)

end
