(* ===== verification/Uart.thy ===== *)
theory Uart
  imports Ringbuf Mmio Arch_Atomic
begin

text \<open>
  \<open>hal/hal_uart.c\<close>: the transmit-only UART0 driver. The main loop pushes bytes into the ring it was
  given and enables the transmit interrupt; the interrupt handler moves bytes from the ring to the
  transmit FIFO until one is empty or the other full. The driver is a client of the bounded queue
  that \<open>Ringbuf\<close> provides.
\<close>

section \<open>State\<close>

text \<open>\<open>g_uart0_tx_queue\<close> is a pointer to the ring, with its object; the core holds PRIMASK.\<close>

record 'h uart =
  ua_machine :: "'h machine"
  ua_core :: core
  ua_queue :: "lib_ringbuf option"
  ua_initialized :: bool

record hal_uart0_tx_config =
  uc_clock_hz :: u32
  uc_baud_rate :: u32
  uc_tx_pincm_index :: u32
  uc_tx_pincm_function :: u32

definition uart_read :: "'h hardware \<Rightarrow> uart_reg \<Rightarrow> 'h uart \<Rightarrow> (u32 \<times> 'h uart) defined" where
  "uart_read hw r st = do {
     (v, mc) \<leftarrow> mmio_read hw (UART0 r) (ua_machine st);
     Some (v, st\<lparr>ua_machine := mc\<rparr>)
   }"

definition uart_write :: "'h hardware \<Rightarrow> uart_reg \<Rightarrow> u32 \<Rightarrow> 'h uart \<Rightarrow> 'h uart defined" where
  "uart_write hw r v st = do {
     mc \<leftarrow> mmio_write hw (UART0 r) v (ua_machine st);
     Some (st\<lparr>ua_machine := mc\<rparr>)
   }"

definition uart_modify :: "'h hardware \<Rightarrow> uart_reg \<Rightarrow> (u32 \<Rightarrow> u32) \<Rightarrow> 'h uart \<Rightarrow> 'h uart defined" where
  "uart_modify hw r f st = do {
     mc \<leftarrow> mmio_modify hw (UART0 r) f (ua_machine st);
     Some (st\<lparr>ua_machine := mc\<rparr>)
   }"

text \<open>The critical section, with the new PRIMASK noted among the accesses it protects.\<close>

definition uart_enter :: "'h uart \<Rightarrow> (u32 \<times> 'h uart) defined" where
  "uart_enter st =
     (case arch_critical_enter (ua_core st) of (state, c) \<Rightarrow> do {
        mc \<leftarrow> cpu (Mask_Irq (primask c)) (ua_machine st);
        Some (state, st\<lparr>ua_core := c, ua_machine := mc\<rparr>)
      })"

definition uart_exit :: "u32 \<Rightarrow> 'h uart \<Rightarrow> 'h uart defined" where
  "uart_exit state st =
     (let c = arch_critical_exit state (ua_core st) in do {
        mc \<leftarrow> cpu (Mask_Irq (primask c)) (ua_machine st);
        Some (st\<lparr>ua_core := c, ua_machine := mc\<rparr>)
      })"

section \<open>Operations\<close>

definition HAL_UART_PINCM_COUNT :: u32 where "HAL_UART_PINCM_COUNT = 251"
definition HAL_UART_TX_PRIORITY :: u32 where "HAL_UART_TX_PRIORITY = 2"
definition HAL_UART_DIVISOR_FRACTION_SCALE :: u32 where "HAL_UART_DIVISOR_FRACTION_SCALE = 64"

text \<open>From \<open>hw_uart.h\<close>, \<open>hw_iomux.h\<close> and \<open>mspm0c1105_c1106.h\<close>.\<close>

definition UART_TXINT :: u32 where "UART_TXINT = 0x00000800"
definition UART_STAT_TXFF :: u32 where "UART_STAT_TXFF = 0x00000080"
definition UART_IIDX_TXIFG :: u32 where "UART_IIDX_TXIFG = 0x0000000c"
definition UART0_INT_IRQn :: int where "UART0_INT_IRQn = 15"

text \<open>The out-parameter \<open>divisor\<close> is the object behind the pointer.\<close>

definition hal_uart_baud_divisor :: "u32 \<Rightarrow> u32 \<Rightarrow> u32 option \<Rightarrow> bool \<times> u32 option" where
  "hal_uart_baud_divisor clock_hz baud_rate divisor =
     (if baud_rate = 0 \<or> divisor = None then (False, divisor)
      else
        let scaled_divisor = ((ucast clock_hz * 8) div ucast baud_rate + 1) div 2 :: u64 in
        if scaled_divisor < ucast HAL_UART_DIVISOR_FRACTION_SCALE \<or> scaled_divisor > 0x003fffff
        then (False, divisor)
        else (True, Some (ucast scaled_divisor)))"

definition hal_uart0_tx_enable_interrupt :: "'h hardware \<Rightarrow> 'h uart \<Rightarrow> 'h uart defined" where
  "hal_uart0_tx_enable_interrupt hw st = do {
     (state, st) \<leftarrow> uart_enter st;
     st \<leftarrow> uart_modify hw UART_IMASK (\<lambda>v. v OR UART_TXINT) st;
     st \<leftarrow> uart_write hw UART_ISET UART_TXINT st;
     uart_exit state st
   }"

definition hal_uart0_tx_disable_interrupt :: "'h hardware \<Rightarrow> 'h uart \<Rightarrow> 'h uart defined" where
  "hal_uart0_tx_disable_interrupt hw st = do {
     (state, st) \<leftarrow> uart_enter st;
     st \<leftarrow> uart_modify hw UART_IMASK (\<lambda>v. v AND NOT UART_TXINT) st;
     uart_exit state st
   }"

text \<open>The loop of \<open>hal_uart0_tx_service\<close>, with fuel, and its \<open>queue_empty\<close>. The uninitialised \<open>byte\<close>
  is any byte; it is read only after the pop has set it.\<close>

fun uart_service_loop :: "'h hardware \<Rightarrow> nat \<Rightarrow> u8 \<Rightarrow> 'h uart \<Rightarrow> (bool \<times> 'h uart) defined" where
  "uart_service_loop hw 0 byte st = None"
| "uart_service_loop hw (Suc fuel) byte st = do {
     (stat, st) \<leftarrow> uart_read hw UART_STAT st;
     (if stat AND UART_STAT_TXFF \<noteq> 0 then Some (False, st)
      else do {
        (popped, queue, out) \<leftarrow> lib_ringbuf_try_pop (ua_queue st) (Some byte);
        byte \<leftarrow> out;
        (if \<not> popped then Some (True, st\<lparr>ua_queue := queue\<rparr>)
         else do {
           st \<leftarrow> uart_write hw UART_TXDATA (ucast byte) (st\<lparr>ua_queue := queue\<rparr>);
           uart_service_loop hw fuel byte st
         })
      })
   }"

definition hal_uart0_tx_service :: "'h hardware \<Rightarrow> nat \<Rightarrow> 'h uart \<Rightarrow> 'h uart defined" where
  "hal_uart0_tx_service hw fuel st = do {
     (queue_empty, st) \<leftarrow> uart_service_loop hw fuel 0 st;
     (if queue_empty then hal_uart0_tx_disable_interrupt hw st else Some st)
   }"

definition UART_RESET :: u32 where "UART_RESET = 0xb1000000 OR 0x2 OR 0x1"
definition UART_POWER_ON :: u32 where "UART_POWER_ON = 0x26000000 OR 0x1"
definition UART_CTL0_TX_ON :: u32 where "UART_CTL0_TX_ON = 0x1 OR 0x10 OR 0x00020000 OR 0"
definition PINCM_CONNECTED :: u32 where "PINCM_CONNECTED = 0x80"
definition UART_PINCM_PF_MASK :: u32 where "UART_PINCM_PF_MASK = 0x3f"

definition hal_uart0_tx_init ::
  "'h hardware \<Rightarrow> hal_uart0_tx_config option \<Rightarrow> lib_ringbuf option \<Rightarrow> 'h uart \<Rightarrow> (bool \<times> 'h uart) defined" where
  "hal_uart0_tx_init hw config queue st =
     (case (config, queue) of
        (Some c, Some _) \<Rightarrow>
          if uc_clock_hz c = 0 \<or> uc_tx_pincm_index c \<ge> HAL_UART_PINCM_COUNT
             \<or> uc_tx_pincm_function c AND NOT UART_PINCM_PF_MASK \<noteq> 0 \<or> lib_ringbuf_capacity queue = 0
          then Some (False, st)
          else case hal_uart_baud_divisor (uc_clock_hz c) (uc_baud_rate c) (Some 0) of (ok, out) \<Rightarrow>
          if \<not> ok then Some (False, st)
          else do {
            divisor \<leftarrow> out;
            mc \<leftarrow> mmio_write hw (UART0 UART_RSTCTL) UART_RESET (ua_machine st);
            mc \<leftarrow> mmio_write hw (UART0 UART_PWREN) UART_POWER_ON mc;
            mc \<leftarrow> hal_power_wait_after_enable mc;
            mc \<leftarrow> mmio_write hw (PINCM (uc_tx_pincm_index c)) (uc_tx_pincm_function c OR PINCM_CONNECTED) mc;
            mc \<leftarrow> mmio_write hw (UART0 UART_CTL0) 0 mc;
            mc \<leftarrow> mmio_write hw (UART0 UART_CLKSEL) 0x8 mc;
            mc \<leftarrow> mmio_write hw (UART0 UART_CLKDIV) 0 mc;
            mc \<leftarrow> mmio_write hw (UART0 UART_LCRH) 0x30 mc;
            mc \<leftarrow> mmio_write hw (UART0 UART_IBRD) (divisor div HAL_UART_DIVISOR_FRACTION_SCALE) mc;
            mc \<leftarrow> mmio_write hw (UART0 UART_FBRD) (divisor AND (HAL_UART_DIVISOR_FRACTION_SCALE - 1)) mc;
            mc \<leftarrow> mmio_write hw (UART0 UART_IFLS) 0x2 mc;
            mc \<leftarrow> mmio_write hw (UART0 UART_ICLR) UART_TXINT mc;
            mc \<leftarrow> mmio_write hw (UART0 UART_IMASK) 0 mc;
            mc \<leftarrow> mmio_write hw (UART0 UART_CTL0) UART_CTL0_TX_ON mc;
            let st = st\<lparr>ua_queue := queue, ua_initialized := True\<rparr>;
            mc \<leftarrow> cpu (Irq_Priority UART0_INT_IRQn HAL_UART_TX_PRIORITY) mc;
            mc \<leftarrow> cpu (Irq_Clear_Pending UART0_INT_IRQn) mc;
            mc \<leftarrow> cpu (Irq_Enable UART0_INT_IRQn) mc;
            Some (True, st\<lparr>ua_machine := mc\<rparr>)
          }
      | _ \<Rightarrow> Some (False, st))"

text \<open>The loop of \<open>hal_uart0_tx_write\<close>: \<open>remaining\<close> is \<open>length - accepted\<close>.\<close>

fun uart_write_loop :: "nat \<Rightarrow> u8 list \<Rightarrow> u32 \<Rightarrow> 'h uart \<Rightarrow> (u32 \<times> 'h uart) defined" where
  "uart_write_loop 0 data accepted st = Some (accepted, st)"
| "uart_write_loop (Suc remaining) data accepted st = do {
     byte \<leftarrow> array_read data (unat accepted);
     (pushed, queue) \<leftarrow> lib_ringbuf_try_push (ua_queue st) byte;
     let st = st\<lparr>ua_queue := queue\<rparr>;
     (if \<not> pushed then Some (accepted, st)
      else uart_write_loop remaining data (accepted + 1) st)
   }"

definition hal_uart0_tx_write ::
  "'h hardware \<Rightarrow> u8 list option \<Rightarrow> u32 \<Rightarrow> 'h uart \<Rightarrow> (u32 \<times> 'h uart) defined" where
  "hal_uart0_tx_write hw data n st =
     (if \<not> ua_initialized st \<or> data = None \<and> n \<noteq> 0 then Some (0, st)
      else do {
        (accepted, st) \<leftarrow> uart_write_loop (unat n) (case data of None \<Rightarrow> [] | Some bs \<Rightarrow> bs) 0 st;
        st \<leftarrow> (if accepted \<noteq> 0 then hal_uart0_tx_enable_interrupt hw st else Some st);
        Some (accepted, st)
      })"

definition hal_uart0_tx_dropped_count :: "'h uart \<Rightarrow> u32" where
  "hal_uart0_tx_dropped_count st =
     (if ua_initialized st then lib_ringbuf_dropped_count (ua_queue st) else 0)"

definition UART0_IRQHandler :: "'h hardware \<Rightarrow> nat \<Rightarrow> 'h uart \<Rightarrow> 'h uart defined" where
  "UART0_IRQHandler hw fuel st = do {
     (iidx, st) \<leftarrow> uart_read hw UART_IIDX st;
     let interrupt = iidx AND 0xff;
     (if interrupt = UART_IIDX_TXIFG then hal_uart0_tx_service hw fuel st else Some st)
   }"

section \<open>The baud divisor\<close>

lemma unat_ucast_u64 [simp]: "unat (ucast w :: u64) = unat w" for w :: u32
proof -
  have "unat w < 2 ^ LENGTH(32)" by (rule unsigned_less)
  then have "unat w < 2 ^ 64" by simp
  then show ?thesis by (simp only: unsigned_ucast_eq) (simp add: take_bit_nat_eq_self)
qed

lemma baud_scaled:
  fixes clk baud :: u32
  assumes "baud \<noteq> 0"
  shows "unat (((ucast clk * 8) div ucast baud + 1) div 2 :: u64) = (8 * unat clk div unat baud + 1) div 2"
proof -
  have "unat clk < 2 ^ 32" using unsigned_less [of clk] by simp
  then have m: "unat (ucast clk * 8 :: u64) = 8 * unat clk"
    by (simp add: unat_word_ariths mult.commute)
  have "8 * unat clk div unat baud + 1 \<le> 8 * 2 ^ 32 + 1"
    using \<open>unat clk < 2 ^ 32\<close> div_le_dividend [of "8 * unat clk" "unat baud"] by linarith
  then have "8 * unat clk div unat baud + 1 < 2 ^ 64" by simp
  moreover have "unat ((ucast clk * 8) div ucast baud :: u64) = 8 * unat clk div unat baud"
    by (simp only: unat_div m unat_ucast_u64)
  ultimately have "unat ((ucast clk * 8) div ucast baud + 1 :: u64) = 8 * unat clk div unat baud + 1"
    by (simp only: unat_word_ariths(1) unat_1) simp
  then show ?thesis by (simp add: unat_div)
qed

lemma nearest_divisor:
  fixes c b :: nat
  assumes "0 < b"
  defines "d \<equiv> (8 * c div b + 1) div 2"
  shows "2 * d * b \<le> 8 * c + b" "8 * c < 2 * d * b + b"
proof -
  have q: "8 * c div b * b \<le> 8 * c" "8 * c < 8 * c div b * b + b"
    using assms(1) dividend_less_div_times [of b "8 * c"] by simp_all
  have "2 * d \<le> 8 * c div b + 1" "8 * c div b \<le> 2 * d" by (simp_all add: d_def)
  then have "2 * d * b \<le> (8 * c div b + 1) * b" "8 * c div b * b \<le> 2 * d * b"
    using mult_le_mono1 by blast+
  with q show "2 * d * b \<le> 8 * c + b" "8 * c < 2 * d * b + b"
    unfolding distrib_right mult_1_left by linarith+
qed

section \<open>The ring behind the driver\<close>

lemma try_push_ring:
  "lib_ringbuf_try_push (Some q) b = do { (ok, q') \<leftarrow> ring_push q b; Some (ok, Some q') }"
  by (simp add: ring_push_def lib_ringbuf_try_push_def Let_def split: Option.bind_splits)

lemma try_pop_ring:
  assumes "ring_pop q = Some (out, q')"
  shows "lib_ringbuf_try_pop (Some q) (Some b) = Some (out \<noteq> None, Some q', Some (case out of None \<Rightarrow> b | Some x \<Rightarrow> x))"
  using assms
  by (auto simp: ring_pop_def lib_ringbuf_try_pop_def Let_def bind_eq_Some_conv split: if_splits)

lemma write_loop_push_list:
  assumes "ua_queue st = Some q" "unat accepted + n \<le> length data" "unat accepted + n < 2 ^ 32"
  shows "uart_write_loop n data accepted st = do {
      (k, q') \<leftarrow> push_list ring_push (take n (drop (unat accepted) data)) q;
      Some (accepted + of_nat k, st\<lparr>ua_queue := Some q'\<rparr>) }"
  using assms
proof (induction n arbitrary: accepted st q)
  case 0
  then show ?case by simp
next
  case (Suc n)
  then have in_data: "unat accepted < length data" by simp
  have next_index: "unat (accepted + 1) = Suc (unat accepted)"
    using Suc.prems(3) by (simp add: unat_word_ariths)
  have rest: "take (Suc n) (drop (unat accepted) data)
      = data ! unat accepted # take n (drop (unat (accepted + 1)) data)"
    using in_data by (simp add: Cons_nth_drop_Suc [symmetric] next_index)
  show ?case
  proof (cases "ring_push q (data ! unat accepted)")
    case None
    then show ?thesis
      using in_data by (simp add: rest array_read_in Suc.prems(1) try_push_ring)
  next
    case (Some pushed)
    then obtain ok q' where push: "ring_push q (data ! unat accepted) = Some (ok, q')" by (cases pushed) auto
    have "uart_write_loop n data (accepted + 1) (st\<lparr>ua_queue := Some q'\<rparr>) = do {
        (k, q2) \<leftarrow> push_list ring_push (take n (drop (unat (accepted + 1)) data)) q';
        Some (accepted + 1 + of_nat k, st\<lparr>ua_queue := Some q2\<rparr>) }"
      using Suc.prems by (subst Suc.IH [of _ q']) (simp_all add: next_index)
    then show ?thesis
      using in_data push unfolding rest
      by (cases ok) (simp_all add: array_read_in Suc.prems(1) try_push_ring
          case_prod_beta' add.assoc [symmetric])
  qed
qed

section \<open>What the operations do\<close>

text \<open>Where the device keeps its interrupt mask: \<open>IMASK\<close> reads back what was written, and the other
  registers the driver touches while running leave it alone.\<close>

definition imask_register :: "'h hardware \<Rightarrow> ('h \<Rightarrow> u32) \<Rightarrow> bool" where
  "imask_register hw imask \<longleftrightarrow>
     (\<forall>d. fst (hw_read hw (UART0 UART_IMASK) d) = imask d)
     \<and> (\<forall>r d. imask (snd (hw_read hw r d)) = imask d)
     \<and> (\<forall>v d. imask (hw_write hw (UART0 UART_IMASK) v d) = v)
     \<and> (\<forall>r v d. r \<in> {UART0 UART_TXDATA, UART0 UART_ISET} \<longrightarrow> imask (hw_write hw r v d) = imask d)"

text \<open>Every byte goes to the FIFO right after it was seen not to be full.\<close>

definition shows_room :: "access \<Rightarrow> bool" where
  "shows_room a \<longleftrightarrow> (case a of Read r stat \<Rightarrow> r = UART0 UART_STAT \<and> stat AND UART_STAT_TXFF = 0 | _ \<Rightarrow> False)"

definition fills_fifo :: "access \<Rightarrow> bool" where
  "fills_fifo a \<longleftrightarrow> (case a of Write r v \<Rightarrow> r = UART0 UART_TXDATA | _ \<Rightarrow> False)"

fun fifo_checked :: "bool \<Rightarrow> access list \<Rightarrow> bool" where
  "fifo_checked room [] \<longleftrightarrow> True"
| "fifo_checked room (a # tr) \<longleftrightarrow> (fills_fifo a \<longrightarrow> room) \<and> fifo_checked (shows_room a) tr"

abbreviation device_of :: "'h uart \<Rightarrow> 'h" where
  "device_of st \<equiv> mc_device (ua_machine st)"

abbreviation trace_of :: "'h uart \<Rightarrow> access list" where
  "trace_of st \<equiv> mc_trace (ua_machine st)"

text \<open>What a step of the driver did: it recorded \<open>tr\<close>, sent \<open>sent\<close> and left the queue \<open>q'\<close>.\<close>

definition drove :: "'h uart \<Rightarrow> access list \<Rightarrow> u8 list \<Rightarrow> lib_ringbuf \<Rightarrow> 'h uart \<Rightarrow> bool" where
  "drove st tr sent q' st' \<longleftrightarrow> trace_of st' = trace_of st @ tr \<and> written (UART0 UART_TXDATA) tr = map ucast sent
     \<and> fifo_checked False tr \<and> ua_queue st' = Some q' \<and> ring_inv q' \<and> primask (ua_core st') = primask (ua_core st)
     \<and> ua_initialized st' = ua_initialized st"

lemma service_loop_drives:
  assumes "ua_queue st = Some q" "ring_inv q" "length (ring_contents q) < fuel"
  shows "\<exists>queue_empty st' tr sent q'. uart_service_loop hw fuel byte st = Some (queue_empty, st')
    \<and> drove st tr sent q' st' \<and> ring_contents q = sent @ ring_contents q' \<and> ring_room q' = ring_room q
    \<and> rb_dropped_count q' = rb_dropped_count q \<and> (queue_empty \<longrightarrow> ring_contents q' = [])
    \<and> ua_core st' = ua_core st
    \<and> (\<forall>imask. imask_register hw imask \<longrightarrow> imask (device_of st') = imask (device_of st))"
  using assms
proof (induction fuel arbitrary: byte st q)
  case 0
  then show ?case by simp
next
  case (Suc fuel)
  obtain stat d where stat: "hw_read hw (UART0 UART_STAT) (device_of st) = (stat, d)" by fastforce
  let ?st1 = "st\<lparr>ua_machine := \<lparr>mc_device = d, mc_trace = trace_of st @ [Read (UART0 UART_STAT) stat]\<rparr>\<rparr>"
  have read: "uart_read hw UART_STAT st = Some (stat, ?st1)"
    by (simp add: uart_read_def mmio_read_def stat)
  have mask1: "\<forall>imask. imask_register hw imask \<longrightarrow> imask d = imask (device_of st)"
    using stat by (auto simp: imask_register_def) (metis snd_conv)
  show ?case
  proof (cases "stat AND UART_STAT_TXFF = 0")
    case False
    have "drove st [Read (UART0 UART_STAT) stat] [] q ?st1"
      using Suc.prems by (simp add: drove_def fills_fifo_def)
    with False read mask1 show ?thesis
      by (intro exI [of _ False] exI [of _ ?st1] exI [of _ "[Read (UART0 UART_STAT) stat]"] exI [of _ "[]"]
          exI [of _ q]) simp
  next
    case ready: True
    obtain out q1 where pop: "ring_pop q = Some (out, q1)" "ring_inv q1" "ring_room q1 = ring_room q"
      "rb_dropped_count q1 = rb_dropped_count q"
      "ring_contents q = (case out of None \<Rightarrow> ring_contents q1 | Some x \<Rightarrow> x # ring_contents q1)"
      "out = None \<longleftrightarrow> ring_contents q = []"
      by (rule ring.pop_total [OF Suc.prems(2)])
    have ring: "lib_ringbuf_try_pop (ua_queue ?st1) (Some byte)
        = Some (out \<noteq> None, Some q1, Some (case out of None \<Rightarrow> byte | Some x \<Rightarrow> x))"
      using try_pop_ring [OF pop(1)] Suc.prems(1) by simp
    show ?thesis
    proof (cases out)
      case None
      let ?st' = "?st1\<lparr>ua_queue := Some q1\<rparr>"
      have "drove st [Read (UART0 UART_STAT) stat] [] q1 ?st'"
        using pop(2) by (simp add: drove_def fills_fifo_def)
      moreover have "uart_service_loop hw (Suc fuel) byte st = Some (True, ?st')"
        using read ready ring None by simp
      ultimately show ?thesis
        using pop None mask1 by (intro exI [of _ True] exI [of _ ?st'] exI [of _ "[Read (UART0 UART_STAT) stat]"]
            exI [of _ "[]"] exI [of _ q1]) simp
    next
      case (Some b)
      let ?st2 = "?st1\<lparr>ua_queue := Some q1, ua_machine := \<lparr>mc_device = hw_write hw (UART0 UART_TXDATA) (ucast b) d,
          mc_trace = trace_of st @ [Read (UART0 UART_STAT) stat, Write (UART0 UART_TXDATA) (ucast b)]\<rparr>\<rparr>"
      have "uart_service_loop hw (Suc fuel) byte st = uart_service_loop hw fuel b ?st2"
        using read ready ring Some by (simp add: uart_write_def mmio_write_def)
      moreover have "length (ring_contents q1) < fuel" using Suc.prems(3) pop(5) Some by simp
      moreover obtain queue_empty st' tr sent q' where ih:
        "uart_service_loop hw fuel b ?st2 = Some (queue_empty, st')" "drove ?st2 tr sent q' st'"
        "ring_contents q1 = sent @ ring_contents q'" "ring_room q' = ring_room q1"
        "rb_dropped_count q' = rb_dropped_count q1" "queue_empty \<longrightarrow> ring_contents q' = []"
        "ua_core st' = ua_core ?st2"
        "\<forall>imask. imask_register hw imask \<longrightarrow> imask (device_of st') = imask (device_of ?st2)"
        using Suc.IH [of ?st2 q1 b] pop(2) calculation(2) by auto
      moreover have "drove st (Read (UART0 UART_STAT) stat # Write (UART0 UART_TXDATA) (ucast b) # tr) (b # sent) q' st'"
        using ih(2) ready by (simp add: drove_def fills_fifo_def shows_room_def)
      moreover have "\<forall>imask. imask_register hw imask \<longrightarrow> imask (device_of st') = imask (device_of st)"
      proof (intro allI impI)
        fix imask assume reg: "imask_register hw imask"
        then have "imask (device_of ?st2) = imask d" by (simp add: imask_register_def)
        with ih(8) mask1 reg show "imask (device_of st') = imask (device_of st)" by metis
      qed
      ultimately show ?thesis
        using pop Some by (intro exI [of _ queue_empty] exI [of _ st']
            exI [of _ "Read (UART0 UART_STAT) stat # Write (UART0 UART_TXDATA) (ucast b) # tr"]
            exI [of _ "b # sent"] exI [of _ q']) simp
    qed
  qed
qed

lemma fifo_checked_room: "fifo_checked False tr \<Longrightarrow> fifo_checked room tr"
  by (cases tr) auto

lemma fifo_checked_append: "fifo_checked room tr \<Longrightarrow> fifo_checked False tr' \<Longrightarrow> fifo_checked room (tr @ tr')"
  by (induction room tr rule: fifo_checked.induct) (auto intro: fifo_checked_room)

lemma drove_trans:
  assumes "drove st tr sent q st1" "drove st1 tr' sent' q' st2"
  shows "drove st (tr @ tr') (sent @ sent') q' st2"
  using assms by (simp add: drove_def fifo_checked_append)

text \<open>The two updates of \<open>IMASK\<close>, each inside the critical section.\<close>

definition masked_update :: "u32 \<Rightarrow> access list \<Rightarrow> u32 \<Rightarrow> access list" where
  "masked_update state tr v = Mask_Irq 1 # Read (UART0 UART_IMASK) v # tr @ [Mask_Irq state]"

lemmas uart_access_defs = uart_read_def uart_write_def uart_modify_def uart_enter_def uart_exit_def
  mmio_read_def mmio_write_def mmio_modify_eq cpu_def arch_critical_enter_def arch_critical_exit_def

lemma enable_interrupt_drives:
  assumes "primask (ua_core st) \<le> 1" "ua_queue st = Some q" "ring_inv q"
  shows "\<exists>v st'. hal_uart0_tx_enable_interrupt hw st = Some st'
    \<and> drove st (masked_update (primask (ua_core st))
        [Write (UART0 UART_IMASK) (v OR UART_TXINT), Write (UART0 UART_ISET) UART_TXINT] v) [] q st'
    \<and> (\<forall>imask. imask_register hw imask \<longrightarrow> imask (device_of st') AND UART_TXINT \<noteq> 0)"
proof -
  have bit: "UART_TXINT \<noteq> 0" "(v OR UART_TXINT) AND UART_TXINT = UART_TXINT" for v
    by (simp_all add: word_ao_absorbs UART_TXINT_def)
  show ?thesis
    using assms bit(1) primask_bit [OF assms(1)]
    by (auto simp: hal_uart0_tx_enable_interrupt_def uart_access_defs drove_def masked_update_def
        fills_fifo_def shows_room_def imask_register_def bit(2) intro!: exI)
qed

lemma disable_interrupt_drives:
  assumes "primask (ua_core st) \<le> 1" "ua_queue st = Some q" "ring_inv q"
  shows "\<exists>v st'. hal_uart0_tx_disable_interrupt hw st = Some st'
    \<and> drove st (masked_update (primask (ua_core st)) [Write (UART0 UART_IMASK) (v AND NOT UART_TXINT)] v) [] q st'"
  using assms primask_bit [OF assms(1)]
  by (auto simp: hal_uart0_tx_disable_interrupt_def uart_access_defs drove_def masked_update_def
      fills_fifo_def shows_room_def intro!: exI)

lemma irq_drives:
  assumes "ua_queue st = Some q" "ring_inv q" "length (ring_contents q) < fuel" "primask (ua_core st) \<le> 1"
  shows "\<exists>st' tr sent q'. UART0_IRQHandler hw fuel st = Some st' \<and> drove st tr sent q' st'
    \<and> ring_contents q = sent @ ring_contents q' \<and> ring_room q' = ring_room q
    \<and> rb_dropped_count q' = rb_dropped_count q
    \<and> (ring_contents q' \<noteq> [] \<longrightarrow>
        (\<forall>imask. imask_register hw imask \<longrightarrow> imask (device_of st') = imask (device_of st)))"
proof -
  obtain iidx d where iidx: "hw_read hw (UART0 UART_IIDX) (device_of st) = (iidx, d)" by fastforce
  let ?st1 = "st\<lparr>ua_machine := \<lparr>mc_device = d, mc_trace = trace_of st @ [Read (UART0 UART_IIDX) iidx]\<rparr>\<rparr>"
  have read: "uart_read hw UART_IIDX st = Some (iidx, ?st1)"
    by (simp add: uart_read_def mmio_read_def iidx)
  have d: "drove st [Read (UART0 UART_IIDX) iidx] [] q ?st1"
    using assms by (simp add: drove_def fills_fifo_def)
  have mask1: "\<forall>imask. imask_register hw imask \<longrightarrow> imask d = imask (device_of st)"
    using iidx by (auto simp: imask_register_def) (metis snd_conv)
  show ?thesis
  proof (cases "iidx AND 0xff = UART_IIDX_TXIFG")
    case False
    with read d mask1 show ?thesis
      by (intro exI [of _ ?st1] exI [of _ "[Read (UART0 UART_IIDX) iidx]"] exI [of _ "[]"] exI [of _ q])
        (simp add: UART0_IRQHandler_def)
  next
    case True
    obtain queue_empty st2 tr sent q' where loop:
      "uart_service_loop hw fuel 0 ?st1 = Some (queue_empty, st2)" "drove ?st1 tr sent q' st2"
      "ring_contents q = sent @ ring_contents q'" "ring_room q' = ring_room q"
      "rb_dropped_count q' = rb_dropped_count q" "queue_empty \<longrightarrow> ring_contents q' = []"
      "ua_core st2 = ua_core ?st1"
      "\<forall>imask. imask_register hw imask \<longrightarrow> imask (device_of st2) = imask (device_of ?st1)"
      using service_loop_drives [of ?st1 q fuel hw 0] assms by auto
    note both = drove_trans [OF d loop(2)]
    have mask2: "\<forall>imask. imask_register hw imask \<longrightarrow> imask (device_of st2) = imask (device_of st)"
    proof (intro allI impI)
      fix imask assume reg: "imask_register hw imask"
      then have "imask (device_of st2) = imask (device_of ?st1)" using loop(8) by blast
      with reg mask1 show "imask (device_of st2) = imask (device_of st)" by simp
    qed
    show ?thesis
    proof (cases queue_empty)
      case False
      with True read loop both mask2 show ?thesis
        by (intro exI [of _ st2] exI [of _ "[Read (UART0 UART_IIDX) iidx] @ tr"] exI [of _ "[] @ sent"] exI [of _ q'])
          (simp add: UART0_IRQHandler_def hal_uart0_tx_service_def)
    next
      case empty: True
      have q2: "ua_queue st2 = Some q'" "ring_inv q'" using loop(2) by (simp_all add: drove_def)
      obtain v st3 where off: "hal_uart0_tx_disable_interrupt hw st2 = Some st3"
        "drove st2 (masked_update (primask (ua_core st2)) [Write (UART0 UART_IMASK) (v AND NOT UART_TXINT)] v) [] q' st3"
        using disable_interrupt_drives [of st2 q' hw] q2 assms(4) loop(7) by auto
      let ?tr = "([Read (UART0 UART_IIDX) iidx] @ tr)
        @ masked_update (primask (ua_core st2)) [Write (UART0 UART_IMASK) (v AND NOT UART_TXINT)] v"
      have "drove st ?tr sent q' st3" using drove_trans [OF both off(2)] by simp
      moreover have "UART0_IRQHandler hw fuel st = Some st3"
        using True read loop(1) empty off(1) by (simp add: UART0_IRQHandler_def hal_uart0_tx_service_def)
      ultimately show ?thesis
        using loop empty by (intro exI [of _ st3] exI [of _ ?tr] exI [of _ sent] exI [of _ q']) simp
    qed
  qed
qed

lemma write_drives:
  assumes "ua_queue st = Some q" "ring_inv q" "ua_initialized st" "primask (ua_core st) \<le> 1"
    "unat n \<le> length data"
  shows "\<exists>k st' tr q'. hal_uart0_tx_write hw (Some data) n st = Some (of_nat k, st')
    \<and> k = min (unat n) (ring_room q - length (ring_contents q)) \<and> drove st tr [] q' st'
    \<and> ring_contents q' = ring_contents q @ take k data \<and> ring_room q' = ring_room q
    \<and> rb_dropped_count q' = rb_dropped_count q + (if k < unat n then 1 else 0)
    \<and> (\<forall>imask. imask_register hw imask \<longrightarrow> (if k = 0 then imask (device_of st') = imask (device_of st)
          else imask (device_of st') AND UART_TXINT \<noteq> 0))"
proof -
  have bound: "unat n < 2 ^ LENGTH(32)" by (rule unsigned_less)
  define k where "k = min (unat n) (ring_room q - length (ring_contents q))"
  obtain q' where push: "push_list ring_push (take (unat n) data) q = Some (k, q')" "ring_inv q'"
    "ring_contents q' = ring_contents q @ take k data" "ring_room q' = ring_room q"
    "rb_dropped_count q' = rb_dropped_count q + (if k < unat n then 1 else 0)"
    using ring.push_list_prefix [OF assms(2), of "take (unat n) data"] assms(5)
    by (auto simp: k_def min_def)
  let ?st1 = "st\<lparr>ua_queue := Some q'\<rparr>"
  have loop: "uart_write_loop (unat n) data 0 st = Some (of_nat k, ?st1)"
    using write_loop_push_list [of st q 0 "unat n" data] assms(1,5) bound push(1) by simp
  have d: "drove st [] [] q' ?st1" using push(2) by (simp add: drove_def)
  have "k < 2 ^ LENGTH(32)" using bound by (simp add: k_def)
  then have "unat (of_nat k :: u32) = k" by (simp only: unat_of_nat mod_less)
  then have zero: "(of_nat k :: u32) = 0 \<longleftrightarrow> k = 0" by (metis unat_eq_0)
  show ?thesis
  proof (cases "k = 0")
    case True
    with loop assms(3) push d show ?thesis
      by (intro exI [of _ k] exI [of _ ?st1] exI [of _ "[]"] exI [of _ q'])
        (simp add: hal_uart0_tx_write_def flip: k_def)
  next
    case False
    let ?tr = "\<lambda>v. masked_update (primask (ua_core ?st1))
        [Write (UART0 UART_IMASK) (v OR UART_TXINT), Write (UART0 UART_ISET) UART_TXINT] v"
    obtain v st2 where enabled: "hal_uart0_tx_enable_interrupt hw ?st1 = Some st2"
      "drove ?st1 (?tr v) [] q' st2"
      "\<forall>imask. imask_register hw imask \<longrightarrow> imask (device_of st2) AND UART_TXINT \<noteq> 0"
      using enable_interrupt_drives [of ?st1 q' hw] assms(4) push(2) by auto
    have "hal_uart0_tx_write hw (Some data) n st = Some (of_nat k, st2)"
      using loop assms(3) enabled(1) zero False by (simp add: hal_uart0_tx_write_def)
    moreover have "drove st (?tr v) [] q' st2" using drove_trans [OF d enabled(2)] by simp
    ultimately show ?thesis
      using push enabled(3) False
      by (intro exI [of _ k] exI [of _ st2] exI [of _ "?tr v"] exI [of _ q']) (simp flip: k_def)
  qed
qed

section \<open>Runs of the driver\<close>

text \<open>Writes by the main loop and transmit interrupts, in the order in which they happen; the bytes
  accepted are those of each buffer that its write says it took.\<close>

datatype uart_op = Uart_Write "u8 list" u32 | Uart_Interrupt

fun op_fits :: "uart_op \<Rightarrow> bool" where
  "op_fits (Uart_Write data n) \<longleftrightarrow> unat n \<le> length data"
| "op_fits Uart_Interrupt \<longleftrightarrow> True"

fun uart_run :: "'h hardware \<Rightarrow> nat \<Rightarrow> uart_op list \<Rightarrow> 'h uart \<Rightarrow> (u8 list \<times> 'h uart) defined" where
  "uart_run hw fuel [] st = Some ([], st)"
| "uart_run hw fuel (Uart_Write data n # ops) st = do {
     (accepted, st) \<leftarrow> hal_uart0_tx_write hw (Some data) n st;
     (more, st) \<leftarrow> uart_run hw fuel ops st;
     Some (take (unat accepted) data @ more, st)
   }"
| "uart_run hw fuel (Uart_Interrupt # ops) st = do {
     st \<leftarrow> UART0_IRQHandler hw fuel st;
     uart_run hw fuel ops st
   }"

text \<open>What the driver keeps, with the ring it transmits from.\<close>

definition uart_inv :: "'h uart \<Rightarrow> lib_ringbuf \<Rightarrow> bool" where
  "uart_inv st q \<longleftrightarrow> ua_initialized st \<and> ua_queue st = Some q \<and> ring_inv q \<and> primask (ua_core st) \<le> 1"

definition wakes :: "('h \<Rightarrow> u32) \<Rightarrow> 'h uart \<Rightarrow> lib_ringbuf \<Rightarrow> bool" where
  "wakes imask st q \<longleftrightarrow> (ring_contents q \<noteq> [] \<longrightarrow> imask (device_of st) AND UART_TXINT \<noteq> 0)"

lemma uart_inv_drove: "uart_inv st q \<Longrightarrow> drove st tr sent q' st' \<Longrightarrow> uart_inv st' q'"
  by (simp add: uart_inv_def drove_def)

lemma uart_run_drives:
  assumes "uart_inv st q" "list_all op_fits ops" "ring_room q < fuel"
  shows "\<exists>accepted st' tr sent q'. uart_run hw fuel ops st = Some (accepted, st') \<and> drove st tr sent q' st'
    \<and> uart_inv st' q' \<and> ring_contents q @ accepted = sent @ ring_contents q'
    \<and> (\<forall>imask. imask_register hw imask \<longrightarrow> wakes imask st q \<longrightarrow> wakes imask st' q')"
  using assms
proof (induction ops arbitrary: st q)
  case Nil
  have "drove st [] [] q st" using Nil.prems(1) by (simp add: drove_def uart_inv_def)
  with Nil.prems(1) show ?case
    by (intro exI [of _ "[]"] exI [of _ st] exI [of _ "[]"] exI [of _ q]) simp
next
  case (Cons operation ops)
  note inv = Cons.prems(1) [unfolded uart_inv_def]
  have "\<exists>accepted st1 tr sent q1. (\<forall>ops. uart_run hw fuel (operation # ops) st = do {
        (more, st) \<leftarrow> uart_run hw fuel ops st1; Some (accepted @ more, st) })
      \<and> drove st tr sent q1 st1 \<and> ring_contents q @ accepted = sent @ ring_contents q1 \<and> ring_room q1 = ring_room q
      \<and> (\<forall>imask. imask_register hw imask \<longrightarrow> wakes imask st q \<longrightarrow> wakes imask st1 q1)"
  proof (cases operation)
    case (Uart_Write data n)
    then obtain k st1 tr q1 where w: "hal_uart0_tx_write hw (Some data) n st = Some (of_nat k, st1)"
      "k \<le> unat n" "drove st tr [] q1 st1" "ring_contents q1 = ring_contents q @ take k data" "ring_room q1 = ring_room q"
      "\<forall>imask. imask_register hw imask \<longrightarrow> (if k = 0 then imask (device_of st1) = imask (device_of st)
          else imask (device_of st1) AND UART_TXINT \<noteq> 0)"
      using write_drives [of st q n data hw] inv Cons.prems(2) by auto
    have "unat n < 2 ^ LENGTH(32)" by (rule unsigned_less)
    with w(2) have "k < 2 ^ LENGTH(32)" by (rule order.strict_trans1)
    then have k: "unat (of_nat k :: u32) = k" by (simp only: unat_of_nat mod_less)
    have "\<forall>imask. imask_register hw imask \<longrightarrow> wakes imask st q \<longrightarrow> wakes imask st1 q1"
    proof (intro allI impI)
      fix imask assume reg: "imask_register hw imask" and old: "wakes imask st q"
      have "if k = 0 then imask (device_of st1) = imask (device_of st)
          else imask (device_of st1) AND UART_TXINT \<noteq> 0" using w(6) reg by blast
      with old w(4) show "wakes imask st1 q1" by (cases "k = 0") (simp_all add: wakes_def)
    qed
    with w k Uart_Write show ?thesis
      by (intro exI [of _ "take k data"] exI [of _ st1] exI [of _ tr] exI [of _ "[]"] exI [of _ q1]) simp
  next
    case Uart_Interrupt
    have "length (ring_contents q) < fuel"
      using ring.within_room [of q] inv Cons.prems(3) by simp
    then obtain st1 tr sent q1 where i: "UART0_IRQHandler hw fuel st = Some st1" "drove st tr sent q1 st1"
      "ring_contents q = sent @ ring_contents q1" "ring_room q1 = ring_room q"
      "ring_contents q1 \<noteq> [] \<longrightarrow> (\<forall>imask. imask_register hw imask \<longrightarrow> imask (device_of st1) = imask (device_of st))"
      using irq_drives [of st q fuel hw] inv by auto
    have "\<forall>imask. imask_register hw imask \<longrightarrow> wakes imask st q \<longrightarrow> wakes imask st1 q1"
    proof (intro allI impI)
      fix imask assume "imask_register hw imask" "wakes imask st q"
      with i(3,5) show "wakes imask st1 q1" unfolding wakes_def by (metis append_Nil2 append_is_Nil_conv)
    qed
    with i Uart_Interrupt show ?thesis
      by (intro exI [of _ "[]"] exI [of _ st1] exI [of _ tr] exI [of _ sent] exI [of _ q1])
        (simp split: Option.bind_splits)
  qed
  then obtain accepted st1 tr sent q1 where step: "\<And>ops. uart_run hw fuel (operation # ops) st = do {
        (more, st) \<leftarrow> uart_run hw fuel ops st1; Some (accepted @ more, st) }"
      "drove st tr sent q1 st1" "ring_contents q @ accepted = sent @ ring_contents q1" "ring_room q1 = ring_room q"
      "\<forall>imask. imask_register hw imask \<longrightarrow> wakes imask st q \<longrightarrow> wakes imask st1 q1"
    by (elim exE conjE) blast
  obtain more st' tr' sent' q' where rest: "uart_run hw fuel ops st1 = Some (more, st')"
      "drove st1 tr' sent' q' st'" "uart_inv st' q'" "ring_contents q1 @ more = sent' @ ring_contents q'"
      "\<forall>imask. imask_register hw imask \<longrightarrow> wakes imask st1 q1 \<longrightarrow> wakes imask st' q'"
    using Cons.IH [OF uart_inv_drove [OF Cons.prems(1) step(2)]] Cons.prems(2,3) step(4) by auto
  have "ring_contents q @ accepted @ more = (sent @ sent') @ ring_contents q'"
    using step(3) rest(4) by (metis append.assoc)
  moreover have "\<forall>imask. imask_register hw imask \<longrightarrow> wakes imask st q \<longrightarrow> wakes imask st' q'"
    using step(5) rest(5) by blast
  ultimately show ?case
    using step(1) rest(1,3) drove_trans [OF step(2) rest(2)]
    by (intro exI [of _ "accepted @ more"] exI [of _ st'] exI [of _ "tr @ tr'"] exI [of _ "sent @ sent'"]
        exI [of _ q']) simp
qed

section \<open>Properties\<close>

text \<open>C18. The transmitter delivers in order, end to end: over every sequence of writes and transmit
  interrupts, on any hardware, every call returns with no undefined behaviour; the bytes queued at
  the start followed by those the writes accepted are, in order and none lost or repeated, the bytes
  written to the transmit FIFO followed by those still queued; each goes to the FIFO right after
  \<open>STAT\<close> showed room; and interrupts are left masked or enabled as they were found.\<close>

theorem uart_transmits_in_order:
  assumes "uart_inv st q" "list_all op_fits ops" "ring_room q < fuel"
  shows "\<exists>accepted st' tr sent q'. uart_run hw fuel ops st = Some (accepted, st')
    \<and> trace_of st' = trace_of st @ tr \<and> written (UART0 UART_TXDATA) tr = map ucast sent
    \<and> ring_contents q @ accepted = sent @ ring_contents q' \<and> fifo_checked False tr
    \<and> uart_inv st' q' \<and> primask (ua_core st') = primask (ua_core st)"
proof -
  obtain accepted st' tr sent q' where "uart_run hw fuel ops st = Some (accepted, st')" "drove st tr sent q' st'"
    "uart_inv st' q'" "ring_contents q @ accepted = sent @ ring_contents q'"
    using uart_run_drives [OF assms] by blast
  then show ?thesis unfolding drove_def by blast
qed

text \<open>C19. No byte is stranded: on hardware whose \<open>IMASK\<close> keeps what is written to it, whenever the queue
  holds bytes the transmit interrupt is enabled, so the handler will come for them; every sequence of
  writes and interrupts keeps it so.\<close>

theorem uart_never_strands_bytes:
  assumes "uart_inv st q" "list_all op_fits ops" "ring_room q < fuel" "imask_register hw imask"
    "ring_contents q \<noteq> [] \<longrightarrow> imask (device_of st) AND UART_TXINT \<noteq> 0"
  shows "\<exists>accepted st' q'. uart_run hw fuel ops st = Some (accepted, st') \<and> uart_inv st' q'
    \<and> (ring_contents q' \<noteq> [] \<longrightarrow> imask (device_of st') AND UART_TXINT \<noteq> 0)"
proof -
  obtain accepted st' q' where "uart_run hw fuel ops st = Some (accepted, st')" "uart_inv st' q'"
    "wakes imask st q \<longrightarrow> wakes imask st' q'"
    using uart_run_drives [OF assms(1-3)] assms(4) by blast
  with assms(5) show ?thesis unfolding wakes_def by blast
qed

definition demo_uart_device :: "reg \<Rightarrow> u32" where
  "demo_uart_device r = (if r = UART0 UART_IIDX then UART_IIDX_TXIFG else 0)"

definition demo_uart :: "(reg \<Rightarrow> u32) uart" where
  "demo_uart = \<lparr>ua_machine = \<lparr>mc_device = demo_uart_device, mc_trace = []\<rparr>,
     ua_core = \<lparr>primask = 0, events = []\<rparr>, ua_queue = Some (demo_ring\<lparr>rb_write_index := 0xffffffff\<rparr>),
     ua_initialized = True\<rparr>"

lemma demo_uart_inv: "uart_inv demo_uart (demo_ring\<lparr>rb_write_index := 0xffffffff\<rparr>)"
  by (simp add: uart_inv_def demo_uart_def demo_ring_def ring_inv_def pow2_capacity_iff)

lemma demo_uart_empty: "ring_contents (demo_ring\<lparr>rb_write_index := 0xffffffff\<rparr>) = []"
  "ring_room (demo_ring\<lparr>rb_write_index := 0xffffffff\<rparr>) = 2"
  by (simp_all add: demo_ring_def ring_contents_def window_def ring_room_def)

lemma demo_uart_trace: "trace_of demo_uart = []"
  by (simp add: demo_uart_def)

theorem uart_transmits_in_order_witness:
  "\<exists>accepted st' tr sent q'. uart_run plain_hardware 3 [Uart_Write [1, 2, 3] 3, Uart_Interrupt, Uart_Write [4] 1] demo_uart
      = Some (accepted, st') \<and> trace_of st' = tr \<and> written (UART0 UART_TXDATA) tr = map ucast sent
    \<and> accepted = sent @ ring_contents q'"
  using uart_transmits_in_order [OF demo_uart_inv, of "[Uart_Write [1, 2, 3] 3, Uart_Interrupt, Uart_Write [4] 1]" 3
      plain_hardware]
  by (simp add: demo_uart_empty demo_uart_trace del: uart_run.simps) blast

theorem uart_never_strands_bytes_witness:
  "\<exists>accepted st' q'. uart_run plain_hardware 3 [Uart_Write [1, 2, 3] 3] demo_uart = Some (accepted, st')
    \<and> (ring_contents q' \<noteq> [] \<longrightarrow> device_of st' (UART0 UART_IMASK) AND UART_TXINT \<noteq> 0)"
proof -
  have "imask_register plain_hardware (\<lambda>d. d (UART0 UART_IMASK))"
    by (simp add: imask_register_def plain_hardware_def)
  from uart_never_strands_bytes [OF demo_uart_inv, of "[Uart_Write [1, 2, 3] 3]" 3, OF _ _ this]
  show ?thesis by (simp add: demo_uart_empty) blast
qed

text \<open>C20. The baud divisor is the one nearest to the wanted rate: with 64 steps per unit of divisor the
  exact value is 4 clock/baud, and the result is that rounded to the nearest integer; a rounded
  value below 64 or above 22 bits or a zero baud rate is refused and nothing is stored. The
  64-bit arithmetic never wraps.\<close>

theorem uart_baud_divisor_nearest:
  "if baud = 0 \<or> 8 * unat clk < 127 * unat baud \<or> 0x7fffff * unat baud \<le> 8 * unat clk
    then hal_uart_baud_divisor clk baud (Some old) = (False, Some old)
    else \<exists>d. hal_uart_baud_divisor clk baud (Some old) = (True, Some d) \<and> 64 \<le> unat d \<and> unat d \<le> 0x3fffff
        \<and> 2 * \<bar>int (unat d) * int (unat baud) - 4 * int (unat clk)\<bar> \<le> int (unat baud)"
proof -
  show "if baud = 0 \<or> 8 * unat clk < 127 * unat baud \<or> 0x7fffff * unat baud \<le> 8 * unat clk
    then hal_uart_baud_divisor clk baud (Some old) = (False, Some old)
    else \<exists>d. hal_uart_baud_divisor clk baud (Some old) = (True, Some d) \<and> 64 \<le> unat d \<and> unat d \<le> 0x3fffff
        \<and> 2 * \<bar>int (unat d) * int (unat baud) - 4 * int (unat clk)\<bar> \<le> int (unat baud)"
  proof (cases "baud = 0")
    case True
    then show ?thesis by (simp add: hal_uart_baud_divisor_def)
  next
    case False
    let ?s = "((ucast clk * 8) div ucast baud + 1) div 2 :: u64"
    define b c d where "b = unat baud" and "c = unat clk" and "d = (8 * c div b + 1) div 2"
    have s: "unat ?s = d" using baud_scaled [OF False] by (simp add: b_def c_def d_def)
    have b: "0 < b" using False by (simp add: b_def unat_gt_0)
    have near: "2 * d * b \<le> 8 * c + b" "8 * c < 2 * d * b + b"
      unfolding d_def using nearest_divisor [OF b] by blast+
    have refused: "?s < ucast HAL_UART_DIVISOR_FRACTION_SCALE \<longleftrightarrow> d < 64" "?s > 0x003fffff \<longleftrightarrow> d > 0x3fffff"
      using s by (simp_all add: word_less_nat_alt HAL_UART_DIVISOR_FRACTION_SCALE_def)
    consider "d < 64" | "d > 0x3fffff" | "64 \<le> d" "d \<le> 0x3fffff" by linarith
    then show ?thesis
    proof cases
      case 1
      then have "2 * d * b \<le> 126 * b" by (intro mult_le_mono1) simp
      with near(2) b have "8 * c < 127 * b" by linarith
      with 1 False show ?thesis
        by (simp add: hal_uart_baud_divisor_def Let_def refused b_def c_def)
    next
      case 2
      then have "0x800000 * b \<le> 2 * d * b" by (intro mult_le_mono1) simp
      with near(1) have "0x7fffff * b \<le> 8 * c" by linarith
      with 2 False show ?thesis
        by (simp add: hal_uart_baud_divisor_def Let_def refused b_def c_def)
    next
      case 3
      define w where "w = (ucast ?s :: u32)"
      have w: "unat w = d" using 3 s by (simp add: w_def unsigned_ucast_eq take_bit_nat_eq_self)
      have error: "2 * \<bar>int d * int b - 4 * int c\<bar> \<le> int b"
      proof -
        have "2 * (int d * int b) \<le> 8 * int c + int b" "8 * int c < 2 * (int d * int b) + int b"
          using near by (simp_all flip: of_nat_mult of_nat_add add: of_nat_le_iff)
        then show ?thesis by (auto simp: abs_if algebra_simps)
      qed
      have ok: "hal_uart_baud_divisor clk baud (Some old) = (True, Some w)"
        using 3 False refused by (simp add: hal_uart_baud_divisor_def Let_def w_def)
      have "2 * 64 * b \<le> 2 * d * b" "2 * d * b \<le> 2 * 0x3fffff * b"
        using 3 by (intro mult_le_mono1; simp)+
      with near have "\<not> 8 * c < 127 * b" "\<not> 0x7fffff * b \<le> 8 * c" by linarith+
      with False have accepted: "\<not> (baud = 0 \<or> 8 * unat clk < 127 * unat baud \<or> 0x7fffff * unat baud \<le> 8 * unat clk)"
        by (simp add: b_def c_def)
      show ?thesis
        unfolding if_not_P [OF accepted]
        by (rule exI [of _ w], intro conjI) (use ok error 3 in \<open>unfold w b_def c_def\<close>)
    qed
  qed
qed

lemma uart_baud_divisor_range:
  "hal_uart_baud_divisor clk baud (Some old) = (True, out) \<Longrightarrow> \<exists>d. out = Some d \<and> unat d \<le> 0x3fffff"
proof -
  let ?s = "((ucast clk * 8) div ucast baud + 1) div 2 :: u64"
  assume h: "hal_uart_baud_divisor clk baud (Some old) = (True, out)"
  then have le: "unat ?s \<le> 0x3fffff"
    by (simp add: hal_uart_baud_divisor_def Let_def word_less_nat_alt split: if_splits)
  then have "unat (ucast ?s :: u32) = unat ?s" by (simp add: unsigned_ucast_eq take_bit_nat_eq_self)
  with le have "unat (ucast ?s :: u32) \<le> 0x3fffff" by simp
  moreover have "out = Some (ucast ?s)"
    using h by (auto simp: hal_uart_baud_divisor_def Let_def split: if_splits)
  ultimately show ?thesis by blast
qed

text \<open>What the initialisation of a valid configuration does to the registers.\<close>

definition uart_config_ok :: "hal_uart0_tx_config \<Rightarrow> lib_ringbuf \<Rightarrow> bool" where
  "uart_config_ok c q \<longleftrightarrow> uc_clock_hz c \<noteq> 0 \<and> unat (uc_tx_pincm_index c) < 251
     \<and> unat (uc_tx_pincm_function c) < 64 \<and> rb_capacity q \<noteq> 0
     \<and> fst (hal_uart_baud_divisor (uc_clock_hz c) (uc_baud_rate c) (Some 0))"

definition uart_setup :: "hal_uart0_tx_config \<Rightarrow> u32 \<Rightarrow> u32 \<Rightarrow> access list" where
  "uart_setup c ibrd fbrd =
     [Write (UART0 UART_RSTCTL) 0xb1000003, Write (UART0 UART_PWREN) 0x26000001]
     @ Dsb # Isb # replicate 64 Nop
     @ [Write (PINCM (uc_tx_pincm_index c)) (uc_tx_pincm_function c OR 0x80), Write (UART0 UART_CTL0) 0,
        Write (UART0 UART_CLKSEL) 8, Write (UART0 UART_CLKDIV) 0, Write (UART0 UART_LCRH) 0x30,
        Write (UART0 UART_IBRD) ibrd, Write (UART0 UART_FBRD) fbrd, Write (UART0 UART_IFLS) 2,
        Write (UART0 UART_ICLR) UART_TXINT, Write (UART0 UART_IMASK) 0, Write (UART0 UART_CTL0) 0x20011,
        Irq_Priority 15 2, Irq_Clear_Pending 15, Irq_Enable 15]"

lemma six_bits: "f AND NOT 0x3f = 0 \<longleftrightarrow> unat f < 64" for f :: u32
proof -
  have "f AND NOT (mask 6) = 0 \<longleftrightarrow> take_bit 6 f = f"
    unfolding bit_eq_iff bit_and_iff bit_not_iff bit_take_bit_iff bit_mask_iff
    by (auto dest: bit_imp_le_length)
  also have "\<dots> \<longleftrightarrow> unat (take_bit 6 f) = unat f" by (rule word_unat_eq_iff)
  also have "\<dots> \<longleftrightarrow> unat f < 64"
    by (simp only: unsigned_take_bit_eq) (simp add: take_bit_eq_mod mod_eq_self_iff_div_eq_0 div_eq_0_iff)
  finally show ?thesis by (simp add: mask_eq_exp_minus_1)
qed

text \<open>Initialising the transmitter succeeds exactly on a valid configuration; it then owns the given
  queue and has reset, powered, clocked and configured UART0 in that order, with the integer and
  fractional divisor registers holding the computed divisor between them, all UART interrupts masked
  before the transmitter is enabled and the interrupt line enabled last. A refused configuration
  touches no register and no state.\<close>

theorem uart_init_contract:
  "if uart_config_ok c q
   then \<exists>d st' ibrd fbrd. hal_uart_baud_divisor (uc_clock_hz c) (uc_baud_rate c) (Some 0) = (True, Some d)
      \<and> hal_uart0_tx_init hw (Some c) (Some q) st = Some (True, st') \<and> ua_initialized st' \<and> ua_queue st' = Some q
      \<and> ua_core st' = ua_core st \<and> trace_of st' = trace_of st @ uart_setup c ibrd fbrd
      \<and> 64 * unat ibrd + unat fbrd = unat d \<and> unat ibrd < 2 ^ 16 \<and> unat fbrd < 64
   else hal_uart0_tx_init hw (Some c) (Some q) st = Some (False, st)"
proof -
  have guard: "uc_clock_hz c = 0 \<or> uc_tx_pincm_index c \<ge> HAL_UART_PINCM_COUNT
      \<or> uc_tx_pincm_function c AND NOT UART_PINCM_PF_MASK \<noteq> 0 \<or> lib_ringbuf_capacity (Some q) = 0
    \<longleftrightarrow> \<not> (uc_clock_hz c \<noteq> 0 \<and> unat (uc_tx_pincm_index c) < 251 \<and> unat (uc_tx_pincm_function c) < 64
         \<and> rb_capacity q \<noteq> 0)"
    by (auto simp: HAL_UART_PINCM_COUNT_def UART_PINCM_PF_MASK_def six_bits [simplified] lib_ringbuf_capacity_def word_le_nat_alt)
  obtain ok out where div: "hal_uart_baud_divisor (uc_clock_hz c) (uc_baud_rate c) (Some 0) = (ok, out)"
    by fastforce
  show "if uart_config_ok c q
   then \<exists>d st' ibrd fbrd. hal_uart_baud_divisor (uc_clock_hz c) (uc_baud_rate c) (Some 0) = (True, Some d)
      \<and> hal_uart0_tx_init hw (Some c) (Some q) st = Some (True, st') \<and> ua_initialized st' \<and> ua_queue st' = Some q
      \<and> ua_core st' = ua_core st \<and> trace_of st' = trace_of st @ uart_setup c ibrd fbrd
      \<and> 64 * unat ibrd + unat fbrd = unat d \<and> unat ibrd < 2 ^ 16 \<and> unat fbrd < 64
   else hal_uart0_tx_init hw (Some c) (Some q) st = Some (False, st)"
  proof (cases "uart_config_ok c q")
    case False
    then show ?thesis
      using guard div by (auto simp: hal_uart0_tx_init_def uart_config_ok_def)
  next
    case True
    with div have ok by (simp add: uart_config_ok_def)
    with div have divided: "hal_uart_baud_divisor (uc_clock_hz c) (uc_baud_rate c) (Some 0) = (True, out)" by simp
    obtain d where d: "out = Some d" and range: "unat d \<le> 0x3fffff"
      using uart_baud_divisor_range [OF divided] by blast
    note d = divided [unfolded d]
    let ?i = "d div HAL_UART_DIVISOR_FRACTION_SCALE" and ?f = "d AND (HAL_UART_DIVISOR_FRACTION_SCALE - 1)"
    have "d AND (HAL_UART_DIVISOR_FRACTION_SCALE - 1) = d AND mask 6"
      by (simp add: HAL_UART_DIVISOR_FRACTION_SCALE_def mask_eq_exp_minus_1)
    then have f: "unat ?f = unat d mod 64"
      by (simp only: take_bit_eq_mask [symmetric] unsigned_take_bit_eq) (simp add: take_bit_eq_mod)
    have i: "unat ?i = unat d div 64" by (simp add: HAL_UART_DIVISOR_FRACTION_SCALE_def unat_div)
    obtain st' where st': "hal_uart0_tx_init hw (Some c) (Some q) st = Some (True, st')" "ua_initialized st'"
      "ua_queue st' = Some q" "ua_core st' = ua_core st" "trace_of st' = trace_of st @ uart_setup c ?i ?f"
      using True guard d
      by (simp add: hal_uart0_tx_init_def uart_config_ok_def mmio_write_def hal_power_wait_trace cpu_def
          uart_setup_def UART_RESET_def UART_POWER_ON_def PINCM_CONNECTED_def UART_CTL0_TX_ON_def
          UART0_INT_IRQn_def HAL_UART_TX_PRIORITY_def)
    have "64 * unat ?i + unat ?f = unat d" "unat ?i < 2 ^ 16" "unat ?f < 64"
      unfolding i f using range by simp_all
    with st' d show ?thesis
      unfolding if_P [OF True]
      by (intro exI [of _ d] exI [of _ st'] exI [of _ ?i] exI [of _ ?f] conjI)
  qed
qed

end
