(* ===== verification/I2C_Controller.thy ===== *)
theory I2C_Controller
  imports Mmio
begin

text \<open>
  \<open>hal/hal_i2c_controller.c\<close>: the polling I2C1 controller driver. Its static variables and the device
  are one record. Every loop polls at most \<open>g_poll_limit\<close> times, so the loops recurse on the number
  of polls left and need no fuel; \<open>None\<close> is undefined behaviour only.
\<close>

section \<open>State\<close>

datatype hal_i2c_controller_result = Controller_Ok | Invalid_Argument | Not_Initialized | Bus_Busy
  | Address_Nack | Data_Nack | Arbitration_Lost | Scl_Low_Timeout | Sda_Low | Poll_Timeout | Rx_Underflow
  | Io_Error

record hal_i2c_controller_config =
  cc_instance_base :: u32
  cc_scl_pincm_index :: u32
  cc_scl_pincm_function :: u32
  cc_sda_pincm_index :: u32
  cc_sda_pincm_function :: u32
  cc_input_clock_hz :: u32
  cc_bus_hz :: u32
  cc_poll_limit :: u32
  cc_scl_low_timeout_count :: u8

record 'h i2c_controller =
  ic_machine :: "'h machine"
  ic_poll_limit :: u32
  ic_activation_delay_nops :: u32
  ic_last_status :: u32
  ic_initialized :: bool

definition ctl_read :: "'h hardware \<Rightarrow> i2c_reg \<Rightarrow> 'h i2c_controller \<Rightarrow> (u32 \<times> 'h i2c_controller) defined" where
  "ctl_read hw r st = do {
     (v, mc) \<leftarrow> mmio_read hw (I2C1 r) (ic_machine st);
     Some (v, st\<lparr>ic_machine := mc\<rparr>)
   }"

definition ctl_write :: "'h hardware \<Rightarrow> i2c_reg \<Rightarrow> u32 \<Rightarrow> 'h i2c_controller \<Rightarrow> 'h i2c_controller defined" where
  "ctl_write hw r v st = do {
     mc \<leftarrow> mmio_write hw (I2C1 r) v (ic_machine st);
     Some (st\<lparr>ic_machine := mc\<rparr>)
   }"

section \<open>Constants\<close>

definition HAL_I2C_CONTROLLER_MAX_TRANSFER :: u8 where "HAL_I2C_CONTROLLER_MAX_TRANSFER = 4"
definition HAL_I2C_CONTROLLER_PINCM_COUNT :: u32 where "HAL_I2C_CONTROLLER_PINCM_COUNT = 251"
definition HAL_I2C_CONTROLLER_TIMING_DENOMINATOR :: u32 where "HAL_I2C_CONTROLLER_TIMING_DENOMINATOR = 10"
definition HAL_I2C_CONTROLLER_ERRATA_DELAY_NOPS :: u32 where "HAL_I2C_CONTROLLER_ERRATA_DELAY_NOPS = 3"
definition HAL_I2C_CONTROLLER_EVENT_MASK :: u32 where
  "HAL_I2C_CONTROLLER_EVENT_MASK = 0x80 OR 0x400 OR 0x4000 OR 0x8000"

text \<open>From \<open>hw_i2c.h\<close>, \<open>hw_iomux.h\<close> and \<open>mspm0c1105_c1106.h\<close>.\<close>

definition CTL_I2C1_BASE :: u32 where "CTL_I2C1_BASE = 0x400f2000"
definition CTL_PINCM_PF_MASK :: u32 where "CTL_PINCM_PF_MASK = 0x3f"
definition CTL_PINCM_OPEN_DRAIN :: u32 where "CTL_PINCM_OPEN_DRAIN = 0x80 OR 0x00040000 OR 0x02000000"
definition MBMON_SCL :: u32 where "MBMON_SCL = 0x1"
definition MBMON_SDA :: u32 where "MBMON_SDA = 0x2"
definition MSR_BUSY :: u32 where "MSR_BUSY = 0x1"
definition MSR_ERR :: u32 where "MSR_ERR = 0x2"
definition MSR_ADRACK :: u32 where "MSR_ADRACK = 0x4"
definition MSR_DATACK :: u32 where "MSR_DATACK = 0x8"
definition MSR_ARBLST :: u32 where "MSR_ARBLST = 0x10"
definition RIS_TIMEOUTA :: u32 where "RIS_TIMEOUTA = 0x4000"
definition MCTR_BURSTRUN :: u32 where "MCTR_BURSTRUN = 0x1"
definition MCTR_START :: u32 where "MCTR_START = 0x2"
definition MCTR_STOP :: u32 where "MCTR_STOP = 0x4"
definition MCTR_RD_ON_TXEMPTY :: u32 where "MCTR_RD_ON_TXEMPTY = 0x20"
definition MFIFOSR_RXFIFOCNT :: u32 where "MFIFOSR_RXFIFOCNT = 0xf"
definition MFIFOSR_TXFIFOCNT :: u32 where "MFIFOSR_TXFIFOCNT = 0xf00"
definition MFIFOSR_TX_EMPTY :: u32 where "MFIFOSR_TX_EMPTY = push_bit 8 4"
definition MFIFOCTL_FLUSH :: u32 where "MFIFOCTL_FLUSH = 0x80 OR 0x8000"

section \<open>Operations\<close>

definition hal_i2c_controller_config_is_valid :: "hal_i2c_controller_config option \<Rightarrow> bool" where
  "hal_i2c_controller_config_is_valid config =
     (case config of
        None \<Rightarrow> False
      | Some c \<Rightarrow>
          let denominator = HAL_I2C_CONTROLLER_TIMING_DENOMINATOR * cc_bus_hz c in
          if cc_instance_base c \<noteq> CTL_I2C1_BASE
             \<or> cc_scl_pincm_index c \<ge> HAL_I2C_CONTROLLER_PINCM_COUNT
             \<or> cc_sda_pincm_index c \<ge> HAL_I2C_CONTROLLER_PINCM_COUNT
             \<or> cc_scl_pincm_function c AND NOT CTL_PINCM_PF_MASK \<noteq> 0
             \<or> cc_sda_pincm_function c AND NOT CTL_PINCM_PF_MASK \<noteq> 0
             \<or> cc_bus_hz c = 0 \<or> cc_poll_limit c = 0
             \<or> cc_scl_low_timeout_count c \<le> 1 \<or> denominator = 0
             \<or> cc_input_clock_hz c mod denominator \<noteq> 0
          then False
          else let timer_divider = cc_input_clock_hz c div denominator in
            timer_divider > 0 \<and> timer_divider \<le> 128)"

definition hal_i2c_controller_delay :: "u32 \<Rightarrow> 'h i2c_controller \<Rightarrow> 'h i2c_controller defined" where
  "hal_i2c_controller_delay count st = do {
     mc \<leftarrow> nops (unat count) (ic_machine st);
     Some (st\<lparr>ic_machine := mc\<rparr>)
   }"

definition hal_i2c_controller_errata_delay :: "'h i2c_controller \<Rightarrow> 'h i2c_controller defined" where
  "hal_i2c_controller_errata_delay st = hal_i2c_controller_delay HAL_I2C_CONTROLLER_ERRATA_DELAY_NOPS st"

definition hal_i2c_controller_line_state ::
  "'h hardware \<Rightarrow> 'h i2c_controller \<Rightarrow> (hal_i2c_controller_result \<times> 'h i2c_controller) defined" where
  "hal_i2c_controller_line_state hw st = do {
     (bus_monitor, st) \<leftarrow> ctl_read hw I2C_MBMON st;
     Some (if bus_monitor AND MBMON_SCL = 0 then Scl_Low_Timeout
           else if bus_monitor AND MBMON_SDA = 0 then Sda_Low
           else Controller_Ok, st)
   }"

definition hal_i2c_controller_status_result :: "u32 \<Rightarrow> hal_i2c_controller_result" where
  "hal_i2c_controller_status_result status =
     (if status AND MSR_ARBLST \<noteq> 0 then Arbitration_Lost
      else if status AND MSR_ADRACK \<noteq> 0 then Address_Nack
      else if status AND MSR_DATACK \<noteq> 0 then Data_Nack
      else if status AND MSR_ERR \<noteq> 0 then Io_Error
      else Controller_Ok)"

text \<open>The loops recurse on the number of polls left, \<open>g_poll_limit - index\<close>.\<close>

fun flush_loop :: "'h hardware \<Rightarrow> nat \<Rightarrow> 'h i2c_controller \<Rightarrow> (bool \<times> 'h i2c_controller) defined" where
  "flush_loop hw 0 st = do {
     st \<leftarrow> ctl_write hw I2C_MFIFOCTL 0 st;
     Some (False, st)
   }"
| "flush_loop hw (Suc polls) st = do {
     (fifo_status, st) \<leftarrow> ctl_read hw I2C_MFIFOSR st;
     (if fifo_status AND MFIFOSR_RXFIFOCNT = 0 \<and> fifo_status AND MFIFOSR_TXFIFOCNT = MFIFOSR_TX_EMPTY
      then do {
        st \<leftarrow> ctl_write hw I2C_MFIFOCTL 0 st;
        Some (True, st)
      }
      else flush_loop hw polls st)
   }"

definition hal_i2c_controller_flush_fifos ::
  "'h hardware \<Rightarrow> 'h i2c_controller \<Rightarrow> (bool \<times> 'h i2c_controller) defined" where
  "hal_i2c_controller_flush_fifos hw st = do {
     st \<leftarrow> ctl_write hw I2C_MFIFOCTL MFIFOCTL_FLUSH st;
     flush_loop hw (unat (ic_poll_limit st)) st
   }"

definition hal_i2c_controller_clear_events :: "'h hardware \<Rightarrow> 'h i2c_controller \<Rightarrow> 'h i2c_controller defined" where
  "hal_i2c_controller_clear_events hw st = ctl_write hw I2C_ICLR HAL_I2C_CONTROLLER_EVENT_MASK st"

fun completion_loop ::
  "'h hardware \<Rightarrow> nat \<Rightarrow> hal_i2c_controller_result \<Rightarrow> 'h i2c_controller
    \<Rightarrow> (hal_i2c_controller_result \<times> 'h i2c_controller) defined" where
  "completion_loop hw 0 result st = do {
     (mctr, st) \<leftarrow> ctl_read hw I2C_MCTR st;
     st \<leftarrow> ctl_write hw I2C_MCTR (mctr OR MCTR_STOP) st;
     Some (Poll_Timeout, st)
   }"
| "completion_loop hw (Suc polls) result st = do {
     (status, st) \<leftarrow> ctl_read hw I2C_MSR st;
     (events, st) \<leftarrow> ctl_read hw I2C_RIS st;
     let status_result = hal_i2c_controller_status_result status;
     let st = st\<lparr>ic_last_status := status\<rparr>;
     (result, st) \<leftarrow>
       (if events AND RIS_TIMEOUTA \<noteq> 0
        then do {
          st \<leftarrow> hal_i2c_controller_clear_events hw st;
          Some (Scl_Low_Timeout, st)
        }
        else if result = Controller_Ok \<and> status_result \<noteq> Controller_Ok
        then Some (status_result, st)
        else Some (result, st));
     (if status AND MSR_BUSY = 0 then Some (result, st)
      else completion_loop hw polls result st)
   }"

definition hal_i2c_controller_wait_for_completion ::
  "'h hardware \<Rightarrow> 'h i2c_controller \<Rightarrow> (hal_i2c_controller_result \<times> 'h i2c_controller) defined" where
  "hal_i2c_controller_wait_for_completion hw st =
     completion_loop hw (unat (ic_poll_limit st)) Controller_Ok st"

definition hal_i2c_controller_prepare ::
  "'h hardware \<Rightarrow> 'h i2c_controller \<Rightarrow> (hal_i2c_controller_result \<times> 'h i2c_controller) defined" where
  "hal_i2c_controller_prepare hw st = do {
     (line_result, st) \<leftarrow> hal_i2c_controller_line_state hw st;
     (if line_result \<noteq> Controller_Ok then Some (line_result, st)
      else do {
        (status, st) \<leftarrow> ctl_read hw I2C_MSR st;
        let st = st\<lparr>ic_last_status := status\<rparr>;
        (if ic_last_status st AND MSR_BUSY \<noteq> 0 then Some (Bus_Busy, st)
         else do {
           st \<leftarrow> ctl_write hw I2C_MCTR 0 st;
           st \<leftarrow> hal_i2c_controller_clear_events hw st;
           (flushed, st) \<leftarrow> hal_i2c_controller_flush_fifos hw st;
           Some (if flushed then Controller_Ok else Poll_Timeout, st)
         })
      })
   }"

definition hal_i2c_controller_set_address ::
  "'h hardware \<Rightarrow> u8 \<Rightarrow> bool \<Rightarrow> 'h i2c_controller \<Rightarrow> 'h i2c_controller defined" where
  "hal_i2c_controller_set_address hw address read st =
     ctl_write hw I2C_MSA (push_bit 1 (ucast address) OR (if read then 0x1 else 0x0)) st"

text \<open>\<open>index\<close> counts up to \<open>length\<close>; the recursion is on what is left.\<close>

fun preload_loop :: "'h hardware \<Rightarrow> nat \<Rightarrow> nat \<Rightarrow> u8 list \<Rightarrow> 'h i2c_controller \<Rightarrow> 'h i2c_controller defined" where
  "preload_loop hw index 0 data st = Some st"
| "preload_loop hw index (Suc remaining) data st = do {
     v \<leftarrow> array_read data index;
     st \<leftarrow> ctl_write hw I2C_MTXDATA (ucast v) st;
     preload_loop hw (Suc index) remaining data st
   }"

definition hal_i2c_controller_preload_write ::
  "'h hardware \<Rightarrow> u8 list \<Rightarrow> u8 \<Rightarrow> 'h i2c_controller \<Rightarrow> 'h i2c_controller defined" where
  "hal_i2c_controller_preload_write hw data n st = preload_loop hw 0 (unat n) data st"

definition hal_i2c_controller_start ::
  "'h hardware \<Rightarrow> u8 \<Rightarrow> bool \<Rightarrow> 'h i2c_controller \<Rightarrow> 'h i2c_controller defined" where
  "hal_i2c_controller_start hw read_length read_after_write st =
     (let control = push_bit 16 (ucast read_length) OR MCTR_BURSTRUN OR MCTR_START OR MCTR_STOP;
          control = (if read_after_write then control OR MCTR_RD_ON_TXEMPTY else control) in do {
        st \<leftarrow> ctl_write hw I2C_MCTR control st;
        hal_i2c_controller_errata_delay st
      })"

fun fifo_loop ::
  "'h hardware \<Rightarrow> nat \<Rightarrow> nat \<Rightarrow> u8 list \<Rightarrow> 'h i2c_controller \<Rightarrow> (u8 list \<times> 'h i2c_controller) defined" where
  "fifo_loop hw index 0 data st = Some (data, st)"
| "fifo_loop hw index (Suc remaining) data st = do {
     (rx, st) \<leftarrow> ctl_read hw I2C_MRXDATA st;
     data \<leftarrow> array_write data index (ucast (rx AND 0xff));
     fifo_loop hw (Suc index) remaining data st
   }"

definition hal_i2c_controller_read_fifo ::
  "'h hardware \<Rightarrow> u8 list \<Rightarrow> u8 \<Rightarrow> 'h i2c_controller \<Rightarrow> (bool \<times> u8 list \<times> 'h i2c_controller) defined" where
  "hal_i2c_controller_read_fifo hw data n st = do {
     (fifo_status, st) \<leftarrow> ctl_read hw I2C_MFIFOSR st;
     (if fifo_status AND MFIFOSR_RXFIFOCNT < ucast n then Some (False, data, st)
      else do {
        (data, st) \<leftarrow> fifo_loop hw 0 (unat n) data st;
        Some (True, data, st)
      })
   }"

definition hal_i2c_controller_init ::
  "'h hardware \<Rightarrow> hal_i2c_controller_config option \<Rightarrow> 'h i2c_controller \<Rightarrow> (bool \<times> 'h i2c_controller) defined" where
  "hal_i2c_controller_init hw config st =
     (if ic_initialized st \<or> \<not> hal_i2c_controller_config_is_valid config then Some (False, st)
      else do {
        c \<leftarrow> config;
        let timer_divider = cc_input_clock_hz c div (HAL_I2C_CONTROLLER_TIMING_DENOMINATOR * cc_bus_hz c);
        let st = st\<lparr>ic_poll_limit := cc_poll_limit c,
                    ic_activation_delay_nops := cc_input_clock_hz c div cc_bus_hz c, ic_last_status := 0\<rparr>;
        mc \<leftarrow> mmio_write hw (I2C1 I2C_RSTCTL) (0xb1000000 OR 0x2 OR 0x1) (ic_machine st);
        mc \<leftarrow> mmio_write hw (I2C1 I2C_PWREN) (0x26000000 OR 0x1) mc;
        mc \<leftarrow> hal_power_wait_after_enable mc;
        mc \<leftarrow> mmio_write hw (PINCM (cc_scl_pincm_index c)) (cc_scl_pincm_function c OR CTL_PINCM_OPEN_DRAIN) mc;
        mc \<leftarrow> mmio_write hw (PINCM (cc_sda_pincm_index c)) (cc_sda_pincm_function c OR CTL_PINCM_OPEN_DRAIN) mc;
        mc \<leftarrow> mmio_write hw (I2C1 I2C_CLKSEL) 0x8 mc;
        mc \<leftarrow> mmio_write hw (I2C1 I2C_CLKDIV) 0 mc;
        mc \<leftarrow> mmio_write hw (I2C1 I2C_MCTR) 0 mc;
        mc \<leftarrow> mmio_write hw (I2C1 I2C_MTPR) (timer_divider - 1) mc;
        mc \<leftarrow> mmio_write hw (I2C1 I2C_TIMEOUT_CTL) (ucast (cc_scl_low_timeout_count c) OR 0x8000) mc;
        mc \<leftarrow> mmio_write hw (I2C1 I2C_IMASK) 0 mc;
        st \<leftarrow> hal_i2c_controller_clear_events hw (st\<lparr>ic_machine := mc\<rparr>);
        mc \<leftarrow> mmio_write hw (I2C1 I2C_MCR) 0x4 (ic_machine st);
        mc \<leftarrow> mmio_modify hw (I2C1 I2C_MCR) (\<lambda>v. v OR 0x1) mc;
        st \<leftarrow> hal_i2c_controller_delay (ic_activation_delay_nops st) (st\<lparr>ic_machine := mc\<rparr>);
        Some (True, st\<lparr>ic_initialized := True\<rparr>)
      })"

definition hal_i2c_controller_write ::
  "'h hardware \<Rightarrow> u8 \<Rightarrow> u8 list option \<Rightarrow> u8 \<Rightarrow> 'h i2c_controller
    \<Rightarrow> (hal_i2c_controller_result \<times> 'h i2c_controller) defined" where
  "hal_i2c_controller_write hw address data n st =
     (if \<not> ic_initialized st then Some (Not_Initialized, st)
      else case data of
        None \<Rightarrow> Some (Invalid_Argument, st)
      | Some bytes \<Rightarrow>
          if address > 0x7f \<or> n = 0 \<or> n > HAL_I2C_CONTROLLER_MAX_TRANSFER then Some (Invalid_Argument, st)
          else do {
            (result, st) \<leftarrow> hal_i2c_controller_prepare hw st;
            (if result \<noteq> Controller_Ok then Some (result, st)
             else do {
               st \<leftarrow> hal_i2c_controller_preload_write hw bytes n st;
               st \<leftarrow> hal_i2c_controller_set_address hw address False st;
               st \<leftarrow> hal_i2c_controller_start hw n False st;
               (result, st) \<leftarrow> hal_i2c_controller_wait_for_completion hw st;
               (if result \<noteq> Controller_Ok
                then do {
                  (_, st) \<leftarrow> hal_i2c_controller_flush_fifos hw st;
                  Some (result, st)
                }
                else Some (result, st))
             })
          })"

definition hal_i2c_controller_read ::
  "'h hardware \<Rightarrow> u8 \<Rightarrow> u8 list option \<Rightarrow> u8 \<Rightarrow> 'h i2c_controller
    \<Rightarrow> (hal_i2c_controller_result \<times> u8 list option \<times> 'h i2c_controller) defined" where
  "hal_i2c_controller_read hw address data n st =
     (if \<not> ic_initialized st then Some (Not_Initialized, data, st)
      else case data of
        None \<Rightarrow> Some (Invalid_Argument, data, st)
      | Some bytes \<Rightarrow>
          if address > 0x7f \<or> n = 0 \<or> n > HAL_I2C_CONTROLLER_MAX_TRANSFER
          then Some (Invalid_Argument, data, st)
          else do {
            (result, st) \<leftarrow> hal_i2c_controller_prepare hw st;
            (if result \<noteq> Controller_Ok then Some (result, data, st)
             else do {
               st \<leftarrow> hal_i2c_controller_set_address hw address True st;
               st \<leftarrow> hal_i2c_controller_start hw n False st;
               (result, st) \<leftarrow> hal_i2c_controller_wait_for_completion hw st;
               (if result \<noteq> Controller_Ok
                then do {
                  (_, st) \<leftarrow> hal_i2c_controller_flush_fifos hw st;
                  Some (result, data, st)
                }
                else do {
                  (ok, bytes, st) \<leftarrow> hal_i2c_controller_read_fifo hw bytes n st;
                  Some (if ok then Controller_Ok else Rx_Underflow, Some bytes, st)
                })
             })
          })"

definition hal_i2c_controller_write_read ::
  "'h hardware \<Rightarrow> u8 \<Rightarrow> u8 list option \<Rightarrow> u8 \<Rightarrow> u8 list option \<Rightarrow> u8 \<Rightarrow> 'h i2c_controller
    \<Rightarrow> (hal_i2c_controller_result \<times> u8 list option \<times> 'h i2c_controller) defined" where
  "hal_i2c_controller_write_read hw address write_data write_length read_data read_length st =
     (if \<not> ic_initialized st then Some (Not_Initialized, read_data, st)
      else case (write_data, read_data) of
        (Some out, Some bytes) \<Rightarrow>
          if address > 0x7f \<or> write_length = 0 \<or> read_length = 0
             \<or> write_length > HAL_I2C_CONTROLLER_MAX_TRANSFER \<or> read_length > HAL_I2C_CONTROLLER_MAX_TRANSFER
          then Some (Invalid_Argument, read_data, st)
          else do {
            (result, st) \<leftarrow> hal_i2c_controller_prepare hw st;
            (if result \<noteq> Controller_Ok then Some (result, read_data, st)
             else do {
               st \<leftarrow> hal_i2c_controller_preload_write hw out write_length st;
               st \<leftarrow> hal_i2c_controller_set_address hw address True st;
               st \<leftarrow> hal_i2c_controller_start hw read_length True st;
               (result, st) \<leftarrow> hal_i2c_controller_wait_for_completion hw st;
               (if result \<noteq> Controller_Ok
                then do {
                  (_, st) \<leftarrow> hal_i2c_controller_flush_fifos hw st;
                  Some (result, read_data, st)
                }
                else do {
                  (ok, bytes, st) \<leftarrow> hal_i2c_controller_read_fifo hw bytes read_length st;
                  Some (if ok then Controller_Ok else Rx_Underflow, Some bytes, st)
                })
             })
          }
      | _ \<Rightarrow> Some (Invalid_Argument, read_data, st))"

definition hal_i2c_controller_last_status :: "'h i2c_controller \<Rightarrow> u32" where
  "hal_i2c_controller_last_status st = (if ic_initialized st then ic_last_status st else 0)"

section \<open>What each stage of a transfer does\<close>

abbreviation ctl_trace :: "'h i2c_controller \<Rightarrow> access list" where
  "ctl_trace st \<equiv> mc_trace (ic_machine st)"

text \<open>A stage appended \<open>tr\<close> to the trace and kept the configuration.\<close>

definition ctl_ran :: "'h i2c_controller \<Rightarrow> access list \<Rightarrow> 'h i2c_controller \<Rightarrow> bool" where
  "ctl_ran st tr st' \<longleftrightarrow> ctl_trace st' = ctl_trace st @ tr \<and> ic_poll_limit st' = ic_poll_limit st
     \<and> ic_initialized st' = ic_initialized st"

text \<open>Only the registers in \<open>W\<close> were written, only those in \<open>R\<close> read.\<close>

definition only_touches :: "reg set \<Rightarrow> reg set \<Rightarrow> access list \<Rightarrow> bool" where
  "only_touches W R tr \<longleftrightarrow> (\<forall>r. r \<notin> W \<longrightarrow> written r tr = []) \<and> (\<forall>r. r \<notin> R \<longrightarrow> seen r tr = [])"

lemma ctl_ran_trans: "ctl_ran st tr st1 \<Longrightarrow> ctl_ran st1 tr' st2 \<Longrightarrow> ctl_ran st (tr @ tr') st2"
  by (simp add: ctl_ran_def)

lemma ctl_ran_refl: "ctl_ran st [] st"
  by (simp add: ctl_ran_def)

lemma only_touchesD:
  "only_touches W R tr \<Longrightarrow> r \<notin> W \<Longrightarrow> written r tr = []"
  "only_touches W R tr \<Longrightarrow> r \<notin> R \<Longrightarrow> seen r tr = []"
  by (simp_all add: only_touches_def)

lemma only_touches_append:
  "only_touches W R tr \<Longrightarrow> only_touches W R tr' \<Longrightarrow> only_touches W R (tr @ tr')"
  by (simp add: only_touches_def)

lemma ctl_read_ran:
  obtains v st' where "ctl_read hw r st = Some (v, st')" "ctl_ran st [Read (I2C1 r) v] st'"
proof -
  obtain v d where "hw_read hw (I2C1 r) (mc_device (ic_machine st)) = (v, d)" by fastforce
  then show ?thesis
    by (intro that [of v "st\<lparr>ic_machine := \<lparr>mc_device = d, mc_trace = ctl_trace st @ [Read (I2C1 r) v]\<rparr>\<rparr>"])
      (simp_all add: ctl_read_def mmio_read_def ctl_ran_def)
qed

lemma ctl_write_ran:
  obtains st' where "ctl_write hw r v st = Some st'" "ctl_ran st [Write (I2C1 r) v] st'"
  by (simp add: ctl_write_def mmio_write_def ctl_ran_def)

lemma delay_ran:
  obtains st' where "hal_i2c_controller_delay count st = Some st'" "ctl_ran st (replicate (unat count) Nop) st'"
  by (simp add: hal_i2c_controller_delay_def nops_trace ctl_ran_def)

text \<open>Flushing the FIFOs.\<close>

abbreviation flush_registers :: "reg set" where
  "flush_registers \<equiv> {I2C1 I2C_MFIFOCTL}"

lemma flush_loop_ran:
  "\<exists>ok st' tr. flush_loop hw n st = Some (ok, st') \<and> ctl_ran st tr st'
    \<and> only_touches {I2C1 I2C_MFIFOCTL} {I2C1 I2C_MFIFOSR} tr \<and> length (seen (I2C1 I2C_MFIFOSR) tr) \<le> n"
proof (induction n arbitrary: st)
  case 0
  obtain st' where "ctl_write hw I2C_MFIFOCTL 0 st = Some st'" "ctl_ran st [Write (I2C1 I2C_MFIFOCTL) 0] st'"
    by (rule ctl_write_ran)
  then show ?case by (fastforce simp: only_touches_def)
next
  case (Suc n)
  obtain v st1 where read: "ctl_read hw I2C_MFIFOSR st = Some (v, st1)" "ctl_ran st [Read (I2C1 I2C_MFIFOSR) v] st1"
    by (rule ctl_read_ran)
  show ?case
  proof (cases "v AND MFIFOSR_RXFIFOCNT = 0 \<and> v AND MFIFOSR_TXFIFOCNT = MFIFOSR_TX_EMPTY")
    case True
    obtain st2 where "ctl_write hw I2C_MFIFOCTL 0 st1 = Some st2" "ctl_ran st1 [Write (I2C1 I2C_MFIFOCTL) 0] st2"
      by (rule ctl_write_ran)
    with True read ctl_ran_trans [OF read(2) this(2)] show ?thesis
      by (intro exI [of _ True] exI [of _ st2] exI [of _ "[Read (I2C1 I2C_MFIFOSR) v] @ [Write (I2C1 I2C_MFIFOCTL) 0]"])
        (simp add: only_touches_def)
  next
    case False
    obtain ok st2 tr where "flush_loop hw n st1 = Some (ok, st2)" "ctl_ran st1 tr st2"
      "only_touches {I2C1 I2C_MFIFOCTL} {I2C1 I2C_MFIFOSR} tr" "length (seen (I2C1 I2C_MFIFOSR) tr) \<le> n"
      using Suc.IH by blast
    with False read ctl_ran_trans [OF read(2) this(2)] show ?thesis
      by (intro exI [of _ ok] exI [of _ st2] exI [of _ "[Read (I2C1 I2C_MFIFOSR) v] @ tr"])
        (auto simp: only_touches_def)
  qed
qed

lemma flush_ran:
  "\<exists>ok st' tr. hal_i2c_controller_flush_fifos hw st = Some (ok, st') \<and> ctl_ran st tr st'
    \<and> only_touches {I2C1 I2C_MFIFOCTL} {I2C1 I2C_MFIFOSR} tr
    \<and> length (seen (I2C1 I2C_MFIFOSR) tr) \<le> unat (ic_poll_limit st)"
proof -
  obtain st1 where w: "ctl_write hw I2C_MFIFOCTL MFIFOCTL_FLUSH st = Some st1"
    "ctl_ran st [Write (I2C1 I2C_MFIFOCTL) MFIFOCTL_FLUSH] st1"
    by (rule ctl_write_ran)
  then have limit: "ic_poll_limit st1 = ic_poll_limit st" by (simp add: ctl_ran_def)
  obtain ok st2 tr where "flush_loop hw (unat (ic_poll_limit st1)) st1 = Some (ok, st2)" "ctl_ran st1 tr st2"
    "only_touches {I2C1 I2C_MFIFOCTL} {I2C1 I2C_MFIFOSR} tr"
    "length (seen (I2C1 I2C_MFIFOSR) tr) \<le> unat (ic_poll_limit st1)"
    using flush_loop_ran by blast
  with w limit ctl_ran_trans [OF w(2) this(2)] show ?thesis
    by (intro exI [of _ ok] exI [of _ st2] exI [of _ "[Write (I2C1 I2C_MFIFOCTL) MFIFOCTL_FLUSH] @ tr"])
      (simp add: hal_i2c_controller_flush_fifos_def only_touches_def)
qed

text \<open>Waiting: the outcome that the polled pairs of status and events deserve. A low SCL reported in any
  poll is the outcome, else the first error.\<close>

definition outcome :: "hal_i2c_controller_result \<Rightarrow> (u32 \<times> u32) list \<Rightarrow> hal_i2c_controller_result" where
  "outcome result polls =
     (if \<exists>p \<in> set polls. snd p AND RIS_TIMEOUTA \<noteq> 0 then Scl_Low_Timeout
      else if result \<noteq> Controller_Ok then result
      else case find (\<lambda>p. hal_i2c_controller_status_result (fst p) \<noteq> Controller_Ok) polls of
        None \<Rightarrow> Controller_Ok
      | Some p \<Rightarrow> hal_i2c_controller_status_result (fst p))"

definition busy :: "u32 \<times> u32 \<Rightarrow> bool" where
  "busy p \<longleftrightarrow> fst p AND MSR_BUSY \<noteq> 0"

definition completed :: "nat \<Rightarrow> (u32 \<times> u32) list \<Rightarrow> bool" where
  "completed limit polls \<longleftrightarrow>
     (\<exists>ps p. polls = ps @ [p] \<and> list_all busy ps \<and> \<not> busy p \<and> length polls \<le> limit)"

text \<open>Every poll of the loop goes one of three ways: an SCL timeout, a first error, or no news.\<close>

definition next_result :: "hal_i2c_controller_result \<Rightarrow> u32 \<times> u32 \<Rightarrow> hal_i2c_controller_result" where
  "next_result result p =
     (if snd p AND RIS_TIMEOUTA \<noteq> 0 then Scl_Low_Timeout
      else if result = Controller_Ok \<and> hal_i2c_controller_status_result (fst p) \<noteq> Controller_Ok
      then hal_i2c_controller_status_result (fst p) else result)"

lemma outcome_Cons: "outcome result (p # ps) = outcome (next_result result p) ps"
  by (auto simp: outcome_def next_result_def)

lemma outcome_Nil: "outcome result [] = result"
  by (simp add: outcome_def)

lemma completed_Cons: "busy p \<Longrightarrow> completed n polls \<Longrightarrow> completed (Suc n) (p # polls)"
  unfolding completed_def by (metis append_Cons length_Cons list.pred_inject(2) not_less_eq_eq)

lemma completed_single: "\<not> busy p \<Longrightarrow> completed (Suc n) [p]"
  by (auto simp: completed_def intro!: exI [of _ "[]"])

abbreviation wait_writes :: "reg set" where
  "wait_writes \<equiv> {I2C1 I2C_MCTR, I2C1 I2C_ICLR}"

abbreviation wait_reads :: "reg set" where
  "wait_reads \<equiv> {I2C1 I2C_MSR, I2C1 I2C_RIS, I2C1 I2C_MCTR}"

definition waited :: "nat \<Rightarrow> hal_i2c_controller_result \<Rightarrow> access list \<Rightarrow> hal_i2c_controller_result \<Rightarrow> bool" where
  "waited limit result tr r \<longleftrightarrow> only_touches wait_writes wait_reads tr
     \<and> (\<exists>polls. seen (I2C1 I2C_MSR) tr = map fst polls \<and> seen (I2C1 I2C_RIS) tr = map snd polls
        \<and> (completed limit polls \<and> r = outcome result polls \<and> written (I2C1 I2C_MCTR) tr = []
         \<or> length polls = limit \<and> list_all busy polls \<and> r = Poll_Timeout
           \<and> (\<exists>v. written (I2C1 I2C_MCTR) tr = [v OR MCTR_STOP])))"

lemma one_poll:
  obtains p st1 tr where
    "\<forall>polls. completion_loop hw (Suc polls) result st =
       (if busy p then completion_loop hw polls (next_result result p) st1 else Some (next_result result p, st1))"
    "ctl_ran st tr st1" "only_touches wait_writes wait_reads tr" "seen (I2C1 I2C_MSR) tr = [fst p]"
    "seen (I2C1 I2C_RIS) tr = [snd p]" "written (I2C1 I2C_MCTR) tr = []"
proof -
  obtain status sta where a: "ctl_read hw I2C_MSR st = Some (status, sta)" "ctl_ran st [Read (I2C1 I2C_MSR) status] sta"
    by (rule ctl_read_ran)
  obtain events stb where b: "ctl_read hw I2C_RIS sta = Some (events, stb)" "ctl_ran sta [Read (I2C1 I2C_RIS) events] stb"
    by (rule ctl_read_ran)
  let ?stb = "stb\<lparr>ic_last_status := status\<rparr>" and ?p = "(status, events)"
  let ?tr = "[Read (I2C1 I2C_MSR) status, Read (I2C1 I2C_RIS) events]"
  have ab: "ctl_ran st ?tr ?stb" using a(2) b(2) by (simp add: ctl_ran_def)
  show ?thesis
  proof (cases "events AND RIS_TIMEOUTA \<noteq> 0")
    case True
    obtain stc where c: "ctl_write hw I2C_ICLR HAL_I2C_CONTROLLER_EVENT_MASK ?stb = Some stc"
      "ctl_ran ?stb [Write (I2C1 I2C_ICLR) HAL_I2C_CONTROLLER_EVENT_MASK] stc"
      by (rule ctl_write_ran)
    show ?thesis
      by (rule that [of ?p stc "?tr @ [Write (I2C1 I2C_ICLR) HAL_I2C_CONTROLLER_EVENT_MASK]"])
        (use True a(1) b(1) c(1) ctl_ran_trans [OF ab c(2)] in
          \<open>simp_all add: hal_i2c_controller_clear_events_def busy_def next_result_def only_touches_def Let_def\<close>)
  next
    case False
    show ?thesis
      by (rule that [of ?p ?stb ?tr])
        (use False a(1) b(1) ab in \<open>simp_all add: busy_def next_result_def only_touches_def Let_def\<close>)
  qed
qed

lemma completion_loop_ran:
  "\<exists>r st' tr. completion_loop hw n result st = Some (r, st') \<and> ctl_ran st tr st' \<and> waited n result tr r"
proof (induction n arbitrary: result st)
  case 0
  obtain v st1 where a: "ctl_read hw I2C_MCTR st = Some (v, st1)" "ctl_ran st [Read (I2C1 I2C_MCTR) v] st1"
    by (rule ctl_read_ran)
  obtain st2 where b: "ctl_write hw I2C_MCTR (v OR MCTR_STOP) st1 = Some st2"
    "ctl_ran st1 [Write (I2C1 I2C_MCTR) (v OR MCTR_STOP)] st2"
    by (rule ctl_write_ran)
  have "waited 0 result ([Read (I2C1 I2C_MCTR) v] @ [Write (I2C1 I2C_MCTR) (v OR MCTR_STOP)]) Poll_Timeout"
    by (auto simp: waited_def only_touches_def)
  with a(1) b(1) ctl_ran_trans [OF a(2) b(2)] show ?case
    by (intro exI [of _ Poll_Timeout] exI [of _ st2] exI) (rule conjI, simp, blast)
next
  case (Suc n)
  obtain p st1 tr where poll: "\<forall>polls. completion_loop hw (Suc polls) result st =
       (if busy p then completion_loop hw polls (next_result result p) st1 else Some (next_result result p, st1))"
    "ctl_ran st tr st1" "only_touches wait_writes wait_reads tr" "seen (I2C1 I2C_MSR) tr = [fst p]"
    "seen (I2C1 I2C_RIS) tr = [snd p]" "written (I2C1 I2C_MCTR) tr = []"
    by (rule one_poll [of hw result st])
  show ?case
  proof (cases "busy p")
    case False
    have "waited (Suc n) result tr (next_result result p)"
      unfolding waited_def using poll(3-6) completed_single [OF False, of n]
      by (auto simp: outcome_Cons outcome_Nil intro!: exI [of _ "[p]"])
    with False poll(1,2) show ?thesis by (metis (full_types))
  next
    case True
    obtain r st2 tr' where rest: "completion_loop hw n (next_result result p) st1 = Some (r, st2)"
      "ctl_ran st1 tr' st2" "waited n (next_result result p) tr' r"
      using Suc.IH by blast
    obtain polls where polls: "only_touches wait_writes wait_reads tr'" "seen (I2C1 I2C_MSR) tr' = map fst polls"
      "seen (I2C1 I2C_RIS) tr' = map snd polls"
      "completed n polls \<and> r = outcome (next_result result p) polls \<and> written (I2C1 I2C_MCTR) tr' = []
         \<or> length polls = n \<and> list_all busy polls \<and> r = Poll_Timeout
           \<and> (\<exists>v. written (I2C1 I2C_MCTR) tr' = [v OR MCTR_STOP])"
      using rest(3) unfolding waited_def by blast
    have "waited (Suc n) result (tr @ tr') r"
      unfolding waited_def using polls poll(3-6) True completed_Cons [OF True, of n polls]
      by (auto simp: outcome_Cons only_touches_append intro!: exI [of _ "p # polls"])
    with True poll(1) rest(1) ctl_ran_trans [OF poll(2) rest(2)] show ?thesis by auto
  qed
qed

text \<open>Preparing: a transfer starts only when both lines are high and the controller is idle.\<close>

definition saw_idle :: "access list \<Rightarrow> bool" where
  "saw_idle tr \<longleftrightarrow> (\<exists>m s. seen (I2C1 I2C_MBMON) tr = [m] \<and> m AND MBMON_SCL \<noteq> 0 \<and> m AND MBMON_SDA \<noteq> 0
     \<and> seen (I2C1 I2C_MSR) tr = [s] \<and> s AND MSR_BUSY = 0)"

definition prepared :: "nat \<Rightarrow> access list \<Rightarrow> hal_i2c_controller_result \<Rightarrow> bool" where
  "prepared limit tr r \<longleftrightarrow>
     only_touches {I2C1 I2C_MCTR, I2C1 I2C_ICLR, I2C1 I2C_MFIFOCTL} {I2C1 I2C_MBMON, I2C1 I2C_MSR, I2C1 I2C_MFIFOSR} tr
     \<and> length (seen (I2C1 I2C_MFIFOSR) tr) \<le> limit \<and> length (seen (I2C1 I2C_MSR) tr) \<le> 1
     \<and> (r = Controller_Ok \<and> saw_idle tr \<and> written (I2C1 I2C_MCTR) tr = [0]
        \<or> r \<in> {Scl_Low_Timeout, Sda_Low, Bus_Busy, Poll_Timeout} \<and> set (written (I2C1 I2C_MCTR) tr) \<subseteq> {0})"

lemma prepare_ran:
  "\<exists>r st' tr. hal_i2c_controller_prepare hw st = Some (r, st') \<and> ctl_ran st tr st'
    \<and> prepared (unat (ic_poll_limit st)) tr r"
proof -
  obtain m sta where a: "ctl_read hw I2C_MBMON st = Some (m, sta)" "ctl_ran st [Read (I2C1 I2C_MBMON) m] sta"
    by (rule ctl_read_ran)
  obtain s stb where b: "ctl_read hw I2C_MSR sta = Some (s, stb)" "ctl_ran sta [Read (I2C1 I2C_MSR) s] stb"
    by (rule ctl_read_ran)
  let ?stb = "stb\<lparr>ic_last_status := s\<rparr>"
  have b': "ctl_ran sta [Read (I2C1 I2C_MSR) s] ?stb" using b(2) by (simp add: ctl_ran_def)
  note ab = ctl_ran_trans [OF a(2) b']
  obtain stc where c: "ctl_write hw I2C_MCTR 0 ?stb = Some stc" "ctl_ran ?stb [Write (I2C1 I2C_MCTR) 0] stc"
    by (rule ctl_write_ran)
  obtain std where d: "ctl_write hw I2C_ICLR HAL_I2C_CONTROLLER_EVENT_MASK stc = Some std"
    "ctl_ran stc [Write (I2C1 I2C_ICLR) HAL_I2C_CONTROLLER_EVENT_MASK] std"
    by (rule ctl_write_ran)
  obtain ok ste tr where e: "hal_i2c_controller_flush_fifos hw std = Some (ok, ste)" "ctl_ran std tr ste"
    "only_touches {I2C1 I2C_MFIFOCTL} {I2C1 I2C_MFIFOSR} tr"
    "length (seen (I2C1 I2C_MFIFOSR) tr) \<le> unat (ic_poll_limit std)"
    using flush_ran by blast
  note all = ctl_ran_trans [OF ctl_ran_trans [OF ctl_ran_trans [OF ab c(2)] d(2)] e(2)]
  have limit: "ic_poll_limit std = ic_poll_limit st"
    using ctl_ran_trans [OF ctl_ran_trans [OF ab c(2)] d(2)] by (simp add: ctl_ran_def)
  have line: "hal_i2c_controller_line_state hw st = Some (if m AND MBMON_SCL = 0 then Scl_Low_Timeout
      else if m AND MBMON_SDA = 0 then Sda_Low else Controller_Ok, sta)"
    using a(1) by (simp add: hal_i2c_controller_line_state_def)
  consider "m AND MBMON_SCL = 0 \<or> m AND MBMON_SDA = 0" | "m AND MBMON_SCL \<noteq> 0" "m AND MBMON_SDA \<noteq> 0" "s AND MSR_BUSY \<noteq> 0"
    | "m AND MBMON_SCL \<noteq> 0" "m AND MBMON_SDA \<noteq> 0" "s AND MSR_BUSY = 0" by blast
  then show ?thesis
  proof cases
    case 1
    then show ?thesis
      using line a by (intro exI [of _ "if m AND MBMON_SCL = 0 then Scl_Low_Timeout else Sda_Low"] exI [of _ sta]
          exI [of _ "[Read (I2C1 I2C_MBMON) m]"])
        (auto simp: hal_i2c_controller_prepare_def prepared_def only_touches_def)
  next
    case 2
    then show ?thesis
      using line b(1) ab by (intro exI [of _ Bus_Busy] exI [of _ ?stb]
          exI [of _ "[Read (I2C1 I2C_MBMON) m] @ [Read (I2C1 I2C_MSR) s]"])
        (auto simp: hal_i2c_controller_prepare_def prepared_def only_touches_def)
  next
    case 3
    let ?tr = "((([Read (I2C1 I2C_MBMON) m] @ [Read (I2C1 I2C_MSR) s]) @ [Write (I2C1 I2C_MCTR) 0])
      @ [Write (I2C1 I2C_ICLR) HAL_I2C_CONTROLLER_EVENT_MASK]) @ tr"
    have "hal_i2c_controller_prepare hw st = Some (if ok then Controller_Ok else Poll_Timeout, ste)"
      using 3 line b(1) c(1) d(1) e(1) by (simp add: hal_i2c_controller_prepare_def hal_i2c_controller_clear_events_def)
    moreover have "prepared (unat (ic_poll_limit st)) ?tr (if ok then Controller_Ok else Poll_Timeout)"
      using 3 e(3,4) limit by (auto simp: prepared_def only_touches_def saw_idle_def)
    ultimately show ?thesis using all by blast
  qed
qed

text \<open>Filling the FIFO, addressing and starting touch exactly these registers.\<close>

lemma preload_ran:
  "index + n \<le> length data \<Longrightarrow> \<exists>st'. preload_loop hw index n data st = Some st'
    \<and> ctl_ran st (map (\<lambda>v. Write (I2C1 I2C_MTXDATA) (ucast v)) (take n (drop index data))) st'"
proof (induction n arbitrary: index st)
  case 0
  then show ?case by (simp add: ctl_ran_refl)
next
  case (Suc n)
  obtain st1 where w: "ctl_write hw I2C_MTXDATA (ucast (data ! index)) st = Some st1"
    "ctl_ran st [Write (I2C1 I2C_MTXDATA) (ucast (data ! index))] st1"
    by (rule ctl_write_ran)
  obtain st2 where rest: "preload_loop hw (Suc index) n data st1 = Some st2"
    "ctl_ran st1 (map (\<lambda>v. Write (I2C1 I2C_MTXDATA) (ucast v)) (take n (drop (Suc index) data))) st2"
    using Suc.IH [of "Suc index" st1] Suc.prems by auto
  have "take (Suc n) (drop index data) = data ! index # take n (drop (Suc index) data)"
    using Suc.prems by (simp add: Cons_nth_drop_Suc [symmetric])
  with w(1) rest(1) ctl_ran_trans [OF w(2) rest(2)] Suc.prems show ?case
    by (simp add: array_read_in)
qed

lemma written_tx [simp]:
  "written r (map (\<lambda>v. Write (I2C1 I2C_MTXDATA) (ucast v)) (bs :: u8 list))
     = (if r = I2C1 I2C_MTXDATA then map ucast bs else [])"
  "seen r (map (\<lambda>v. Write (I2C1 I2C_MTXDATA) (ucast v)) (bs :: u8 list)) = []"
  by (induction bs) auto

definition start_word :: "u8 \<Rightarrow> bool \<Rightarrow> u32" where
  "start_word n read_after_write = push_bit 16 (ucast n) OR MCTR_BURSTRUN OR MCTR_START OR MCTR_STOP
     OR (if read_after_write then MCTR_RD_ON_TXEMPTY else 0)"

definition target_word :: "u8 \<Rightarrow> bool \<Rightarrow> u32" where
  "target_word address read = push_bit 1 (ucast address) OR (if read then 1 else 0)"

lemma start_ran:
  obtains st' where "hal_i2c_controller_start hw n raw st = Some st'"
    "ctl_ran st ([Write (I2C1 I2C_MCTR) (start_word n raw)] @ replicate 3 Nop) st'"
proof -
  obtain st1 where w: "ctl_write hw I2C_MCTR (start_word n raw) st = Some st1"
    "ctl_ran st [Write (I2C1 I2C_MCTR) (start_word n raw)] st1"
    by (rule ctl_write_ran)
  obtain st2 where d: "hal_i2c_controller_delay 3 st1 = Some st2" "ctl_ran st1 (replicate (unat (3 :: u32)) Nop) st2"
    by (rule delay_ran)
  have "hal_i2c_controller_start hw n raw st = Some st2"
    using w(1) d(1) by (simp add: hal_i2c_controller_start_def hal_i2c_controller_errata_delay_def
        HAL_I2C_CONTROLLER_ERRATA_DELAY_NOPS_def start_word_def Let_def or.assoc split: if_splits)
  then show ?thesis using ctl_ran_trans [OF w(2) d(2)] by (intro that [of st2]) simp_all
qed

lemma fifo_loop_ran:
  "index + n \<le> length data \<Longrightarrow> \<exists>st' tr rx. fifo_loop hw index n data st
      = Some (take index data @ map ucast rx @ drop (index + n) data, st')
    \<and> ctl_ran st tr st' \<and> only_touches {} {I2C1 I2C_MRXDATA} tr
    \<and> seen (I2C1 I2C_MRXDATA) tr = rx \<and> length rx = n"
proof (induction n arbitrary: index data st)
  case 0
  then show ?case by (auto intro!: exI [of _ "[]"] simp: ctl_ran_refl only_touches_def)
next
  case (Suc n)
  obtain v st1 where read: "ctl_read hw I2C_MRXDATA st = Some (v, st1)" "ctl_ran st [Read (I2C1 I2C_MRXDATA) v] st1"
    by (rule ctl_read_ran)
  let ?data = "data[index := ucast v]"
  have "Suc index + n \<le> length ?data" using Suc.prems by simp
  then obtain st2 tr rx where rest: "fifo_loop hw (Suc index) n ?data st1
      = Some (take (Suc index) ?data @ map ucast rx @ drop (Suc index + n) ?data, st2)"
    "ctl_ran st1 tr st2" "only_touches {} {I2C1 I2C_MRXDATA} tr" "seen (I2C1 I2C_MRXDATA) tr = rx" "length rx = n"
    using Suc.IH by blast
  have "take (Suc index) ?data = take index data @ [ucast v]" "drop (Suc index + n) ?data = drop (index + Suc n) data"
    using Suc.prems by (simp_all add: take_Suc_conv_app_nth)
  moreover have "fifo_loop hw index (Suc n) data st = fifo_loop hw (Suc index) n ?data st1"
    using read(1) Suc.prems by (simp add: array_write_in)
  ultimately have "fifo_loop hw index (Suc n) data st
      = Some (take index data @ map ucast (v # rx) @ drop (index + Suc n) data, st2)"
    using rest(1) by simp
  moreover have "only_touches {} {I2C1 I2C_MRXDATA} ([Read (I2C1 I2C_MRXDATA) v] @ tr)"
    using rest(3) by (simp add: only_touches_def)
  ultimately show ?case
    using rest(4,5) ctl_ran_trans [OF read(2) rest(2)]
    by (intro exI [of _ st2] exI [of _ "[Read (I2C1 I2C_MRXDATA) v] @ tr"] exI [of _ "v # rx"]) simp
qed

lemma read_fifo_ran:
  assumes "unat n \<le> length data"
  shows "\<exists>ok data' st' tr. hal_i2c_controller_read_fifo hw data n st = Some (ok, data', st') \<and> ctl_ran st tr st'
    \<and> only_touches {} {I2C1 I2C_MFIFOSR, I2C1 I2C_MRXDATA} tr \<and> length (seen (I2C1 I2C_MFIFOSR) tr) = 1
    \<and> (if ok then data' = map ucast (seen (I2C1 I2C_MRXDATA) tr) @ drop (unat n) data
         \<and> length (seen (I2C1 I2C_MRXDATA) tr) = unat n
       else data' = data \<and> seen (I2C1 I2C_MRXDATA) tr = [])"
proof -
  obtain v st1 where read: "ctl_read hw I2C_MFIFOSR st = Some (v, st1)" "ctl_ran st [Read (I2C1 I2C_MFIFOSR) v] st1"
    by (rule ctl_read_ran)
  show ?thesis
  proof (cases "v AND MFIFOSR_RXFIFOCNT < ucast n")
    case True
    with read show ?thesis
      by (intro exI [of _ False] exI [of _ data] exI [of _ st1] exI [of _ "[Read (I2C1 I2C_MFIFOSR) v]"])
        (simp add: hal_i2c_controller_read_fifo_def only_touches_def)
  next
    case False
    obtain st2 tr rx where loop: "fifo_loop hw 0 (unat n) data st1 = Some (take 0 data @ map ucast rx @ drop (0 + unat n) data, st2)"
      "ctl_ran st1 tr st2" "only_touches {} {I2C1 I2C_MRXDATA} tr" "seen (I2C1 I2C_MRXDATA) tr = rx" "length rx = unat n"
      using fifo_loop_ran [of 0 "unat n" data hw st1] assms by auto
    with False read ctl_ran_trans [OF read(2) loop(2)] show ?thesis
      by (intro exI [of _ True] exI [of _ "map ucast rx @ drop (unat n) data"] exI [of _ st2]
          exI [of _ "[Read (I2C1 I2C_MFIFOSR) v] @ tr"])
        (simp add: hal_i2c_controller_read_fifo_def only_touches_def)
  qed
qed

section \<open>Transfers\<close>

text \<open>What the three operations have in common: the bytes to send first, the address word, the start
  word, and the buffer to receive into, if any.\<close>

definition transfer_body ::
  "'h hardware \<Rightarrow> u8 list \<Rightarrow> u8 \<Rightarrow> u8 \<Rightarrow> bool \<Rightarrow> u8 \<Rightarrow> bool \<Rightarrow> u8 list option \<Rightarrow> 'h i2c_controller
    \<Rightarrow> (hal_i2c_controller_result \<times> u8 list option \<times> 'h i2c_controller) defined" where
  "transfer_body hw out wn address read n raw buf st = do {
     (result, st) \<leftarrow> hal_i2c_controller_prepare hw st;
     (if result \<noteq> Controller_Ok then Some (result, buf, st)
      else do {
        st \<leftarrow> hal_i2c_controller_preload_write hw out wn st;
        st \<leftarrow> hal_i2c_controller_set_address hw address read st;
        st \<leftarrow> hal_i2c_controller_start hw n raw st;
        (result, st) \<leftarrow> hal_i2c_controller_wait_for_completion hw st;
        (if result \<noteq> Controller_Ok
         then do {
           (_, st) \<leftarrow> hal_i2c_controller_flush_fifos hw st;
           Some (result, buf, st)
         }
         else case buf of
           None \<Rightarrow> Some (result, None, st)
         | Some bytes \<Rightarrow> do {
             (ok, bytes, st) \<leftarrow> hal_i2c_controller_read_fifo hw bytes n st;
             Some (if ok then Controller_Ok else Rx_Underflow, Some bytes, st)
           })
      })
   }"

text \<open>What a transfer did to the device and the buffer. \<open>Refused\<close> before it started; or started and ran
  to completion or to the end of the polls.\<close>

definition transfer_spec ::
  "nat \<Rightarrow> u8 list \<Rightarrow> u8 \<Rightarrow> bool \<Rightarrow> u8 \<Rightarrow> bool \<Rightarrow> u8 list option \<Rightarrow> u8 list option
    \<Rightarrow> hal_i2c_controller_result \<Rightarrow> access list \<Rightarrow> bool" where
  "transfer_spec limit out address read n raw buf buf' r tr \<longleftrightarrow>
     length (seen (I2C1 I2C_MFIFOSR) tr) \<le> 2 * limit + 1
     \<and> (r \<in> {Scl_Low_Timeout, Sda_Low, Bus_Busy, Poll_Timeout} \<and> buf' = buf
        \<and> set (written (I2C1 I2C_MCTR) tr) \<subseteq> {0} \<and> written (I2C1 I2C_MTXDATA) tr = []
        \<and> written (I2C1 I2C_MSA) tr = [] \<and> length (seen (I2C1 I2C_MSR) tr) \<le> 1
       \<or> (\<exists>m s polls. seen (I2C1 I2C_MBMON) tr = [m] \<and> m AND MBMON_SCL \<noteq> 0 \<and> m AND MBMON_SDA \<noteq> 0
           \<and> s AND MSR_BUSY = 0 \<and> seen (I2C1 I2C_MSR) tr = s # map fst polls \<and> seen (I2C1 I2C_RIS) tr = map snd polls
           \<and> written (I2C1 I2C_MTXDATA) tr = map ucast out \<and> written (I2C1 I2C_MSA) tr = [target_word address read]
           \<and> (completed limit polls \<and> written (I2C1 I2C_MCTR) tr = [0, start_word n raw]
                \<and> (if outcome Controller_Ok polls \<noteq> Controller_Ok then r = outcome Controller_Ok polls
                   else r = Controller_Ok \<or> buf \<noteq> None \<and> r = Rx_Underflow)
              \<or> length polls = limit \<and> list_all busy polls \<and> r = Poll_Timeout
                \<and> (\<exists>v. written (I2C1 I2C_MCTR) tr = [0, start_word n raw, v OR MCTR_STOP]))
           \<and> (case buf of
                None \<Rightarrow> buf' = None
              | Some bytes \<Rightarrow>
                  if r = Controller_Ok
                  then buf' = Some (map ucast (seen (I2C1 I2C_MRXDATA) tr) @ drop (unat n) bytes)
                    \<and> length (seen (I2C1 I2C_MRXDATA) tr) = unat n
                  else buf' = buf)))"

lemma not_controller_ok:
  "hal_i2c_controller_status_result s \<noteq> Rx_Underflow" "outcome Controller_Ok polls \<noteq> Rx_Underflow"
  by (auto simp: hal_i2c_controller_status_result_def outcome_def split: option.splits)

lemma transfer_body_ran:
  assumes "unat wn \<le> length out" "\<forall>bytes. buf = Some bytes \<longrightarrow> unat n \<le> length bytes"
  shows "\<exists>r buf' st' tr. transfer_body hw out wn address read n raw buf st = Some (r, buf', st')
    \<and> ctl_ran st tr st' \<and> transfer_spec (unat (ic_poll_limit st)) (take (unat wn) out) address read n raw buf buf' r tr"
proof -
  let ?limit = "unat (ic_poll_limit st)"
  obtain r1 st1 tr1 where prep: "hal_i2c_controller_prepare hw st = Some (r1, st1)" "ctl_ran st tr1 st1"
    "prepared ?limit tr1 r1"
    using prepare_ran by blast
  show ?thesis
  proof (cases "r1 = Controller_Ok")
    case False
    have "written (I2C1 I2C_MTXDATA) tr1 = []" "written (I2C1 I2C_MSA) tr1 = []"
      using prep(3) by (auto simp: prepared_def only_touches_def)
    with False prep show ?thesis
      by (intro exI [of _ r1] exI [of _ buf] exI [of _ st1] exI [of _ tr1])
        (auto simp: transfer_body_def transfer_spec_def prepared_def)
  next
    case ok: True
    obtain st2 where pre: "hal_i2c_controller_preload_write hw out wn st1 = Some st2"
      "ctl_ran st1 (map (\<lambda>v. Write (I2C1 I2C_MTXDATA) (ucast v)) (take (unat wn) out)) st2"
      using preload_ran [of 0 "unat wn" out hw st1] assms(1)
      by (auto simp: hal_i2c_controller_preload_write_def)
    obtain st3 where adr: "ctl_write hw I2C_MSA (target_word address read) st2 = Some st3"
      "ctl_ran st2 [Write (I2C1 I2C_MSA) (target_word address read)] st3"
      by (rule ctl_write_ran)
    obtain st4 where start: "hal_i2c_controller_start hw n raw st3 = Some st4"
      "ctl_ran st3 ([Write (I2C1 I2C_MCTR) (start_word n raw)] @ replicate 3 Nop) st4"
      by (rule start_ran)
    let ?tr4 = "((tr1 @ map (\<lambda>v. Write (I2C1 I2C_MTXDATA) (ucast v)) (take (unat wn) out)) @ [Write (I2C1 I2C_MSA) (target_word address read)])
      @ [Write (I2C1 I2C_MCTR) (start_word n raw)] @ replicate 3 Nop"
    have ran4: "ctl_ran st ?tr4 st4"
      by (rule ctl_ran_trans [OF ctl_ran_trans [OF ctl_ran_trans [OF prep(2) pre(2)] adr(2)] start(2)])
    then have limit4: "ic_poll_limit st4 = ic_poll_limit st" by (simp add: ctl_ran_def)
    obtain r5 st5 tr5 where wait: "hal_i2c_controller_wait_for_completion hw st4 = Some (r5, st5)" "ctl_ran st4 tr5 st5"
      "waited ?limit Controller_Ok tr5 r5"
      using completion_loop_ran [of hw ?limit Controller_Ok st4]
      unfolding hal_i2c_controller_wait_for_completion_def limit4 by blast
    note ran5 = ctl_ran_trans [OF ran4 wait(2)]
    then have limit5: "ic_poll_limit st5 = ic_poll_limit st" by (simp add: ctl_ran_def)
    have steps: "transfer_body hw out wn address read n raw buf st =
       (if r5 \<noteq> Controller_Ok
         then do {
           (_, st) \<leftarrow> hal_i2c_controller_flush_fifos hw st5;
           Some (r5, buf, st)
         }
         else case buf of
           None \<Rightarrow> Some (r5, None, st5)
         | Some bytes \<Rightarrow> do {
             (ok, bytes, st) \<leftarrow> hal_i2c_controller_read_fifo hw bytes n st5;
             Some (if ok then Controller_Ok else Rx_Underflow, Some bytes, st)
           })"
      using ok prep(1) pre(1) adr(1) start(1) wait(1)
      by (simp add: transfer_body_def hal_i2c_controller_set_address_def target_word_def cong: if_cong option.case_cong)
    obtain r buf' st6 tr6 where final: "transfer_body hw out wn address read n raw buf st = Some (r, buf', st6)"
      "ctl_ran st5 tr6 st6" "only_touches {I2C1 I2C_MFIFOCTL} {I2C1 I2C_MFIFOSR, I2C1 I2C_MRXDATA} tr6"
      "length (seen (I2C1 I2C_MFIFOSR) tr6) \<le> ?limit + 1"
      "if r5 \<noteq> Controller_Ok then r = r5 else r = Controller_Ok \<or> buf \<noteq> None \<and> r = Rx_Underflow"
      "case buf of None \<Rightarrow> buf' = None | Some bytes \<Rightarrow> if r = Controller_Ok
         then buf' = Some (map ucast (seen (I2C1 I2C_MRXDATA) tr6) @ drop (unat n) bytes)
            \<and> length (seen (I2C1 I2C_MRXDATA) tr6) = unat n
         else buf' = buf"
    proof (cases "r5 = Controller_Ok")
      case False
      obtain fl st6 tr6 where f: "hal_i2c_controller_flush_fifos hw st5 = Some (fl, st6)" "ctl_ran st5 tr6 st6"
        "only_touches {I2C1 I2C_MFIFOCTL} {I2C1 I2C_MFIFOSR} tr6"
        "length (seen (I2C1 I2C_MFIFOSR) tr6) \<le> unat (ic_poll_limit st5)"
        using flush_ran by blast
      show ?thesis
        by (rule that [of r5 buf st6 tr6])
          (use f False steps limit5 in \<open>auto simp: only_touches_def split: option.split\<close>)
    next
      case r5: True
      show ?thesis
      proof (cases buf)
        case None
        show ?thesis
          by (rule that [of r5 None st5 "[]"])
            (use r5 None steps in \<open>simp_all add: ctl_ran_refl only_touches_def\<close>)
      next
        case (Some bytes)
        obtain got data' st6 tr6 where g: "hal_i2c_controller_read_fifo hw bytes n st5 = Some (got, data', st6)"
          "ctl_ran st5 tr6 st6" "only_touches {} {I2C1 I2C_MFIFOSR, I2C1 I2C_MRXDATA} tr6"
          "length (seen (I2C1 I2C_MFIFOSR) tr6) = 1"
          "if got then data' = map ucast (seen (I2C1 I2C_MRXDATA) tr6) @ drop (unat n) bytes
             \<and> length (seen (I2C1 I2C_MRXDATA) tr6) = unat n
           else data' = bytes \<and> seen (I2C1 I2C_MRXDATA) tr6 = []"
          using read_fifo_ran [of n bytes hw st5] assms(2) Some by blast
        show ?thesis
          by (rule that [of "if got then Controller_Ok else Rx_Underflow" "Some data'" st6 tr6])
            (use g r5 Some steps in \<open>auto simp: only_touches_def split: if_splits\<close>)
      qed
    qed
    have quiet: "seen (I2C1 r) tr5 = []" if "r \<notin> {I2C_MSR, I2C_RIS, I2C_MCTR}" for r
      using wait(3) that unfolding waited_def only_touches_def by auto
    have quiet': "written (I2C1 r) tr5 = []" if "r \<notin> {I2C_MCTR, I2C_ICLR}" for r
      using wait(3) that unfolding waited_def only_touches_def by auto
    define tr where "tr = (?tr4 @ tr5) @ tr6"
    have prepared: "saw_idle tr1" "written (I2C1 I2C_MCTR) tr1 = [0]" "written (I2C1 I2C_MTXDATA) tr1 = []"
      "written (I2C1 I2C_MSA) tr1 = []" "seen (I2C1 I2C_RIS) tr1 = []" "seen (I2C1 I2C_MRXDATA) tr1 = []"
      "length (seen (I2C1 I2C_MFIFOSR) tr1) \<le> ?limit"
      using prep(3) ok by (auto simp: prepared_def only_touches_def)
    note tail = only_touchesD [OF final(3)]
    have "transfer_spec ?limit (take (unat wn) out) address read n raw buf buf' r tr"
    proof -
      obtain m s where idle: "seen (I2C1 I2C_MBMON) tr1 = [m]" "m AND MBMON_SCL \<noteq> 0" "m AND MBMON_SDA \<noteq> 0"
        "seen (I2C1 I2C_MSR) tr1 = [s]" "s AND MSR_BUSY = 0"
        using prepared(1) unfolding saw_idle_def by blast
      obtain polls where polls: "seen (I2C1 I2C_MSR) tr5 = map fst polls" "seen (I2C1 I2C_RIS) tr5 = map snd polls"
        "completed ?limit polls \<and> r5 = outcome Controller_Ok polls \<and> written (I2C1 I2C_MCTR) tr5 = []
         \<or> length polls = ?limit \<and> list_all busy polls \<and> r5 = Poll_Timeout
           \<and> (\<exists>v. written (I2C1 I2C_MCTR) tr5 = [v OR MCTR_STOP])"
        using wait(3) unfolding waited_def by blast
      have ended: "completed ?limit polls \<and> written (I2C1 I2C_MCTR) tr = [0, start_word n raw]
                \<and> (if outcome Controller_Ok polls \<noteq> Controller_Ok then r = outcome Controller_Ok polls
                   else r = Controller_Ok \<or> buf \<noteq> None \<and> r = Rx_Underflow)
              \<or> length polls = ?limit \<and> list_all busy polls \<and> r = Poll_Timeout
                \<and> (\<exists>v. written (I2C1 I2C_MCTR) tr = [0, start_word n raw, v OR MCTR_STOP])"
        using polls(3) final(5) prepared(2) tail(1) [of "I2C1 I2C_MCTR"] by (auto simp: tr_def)
      have len: "length (seen (I2C1 I2C_MFIFOSR) tr) \<le> 2 * ?limit + 1"
        using prepared(7) final(4) quiet [of I2C_MFIFOSR] by (simp add: tr_def)
      have rx: "seen (I2C1 I2C_MRXDATA) tr = seen (I2C1 I2C_MRXDATA) tr6"
        using prepared(6) quiet [of I2C_MRXDATA] by (simp add: tr_def)
      have "seen (I2C1 I2C_MBMON) tr = [m]"
        using idle(1) quiet [of I2C_MBMON] tail(2) [of "I2C1 I2C_MBMON"] by (simp add: tr_def)
      have "seen (I2C1 I2C_MSR) tr = s # map fst polls" "seen (I2C1 I2C_RIS) tr = map snd polls"
        using idle(4) prepared(5) polls(1,2) tail(2) [of "I2C1 I2C_MSR"] tail(2) [of "I2C1 I2C_RIS"] by (simp_all add: tr_def)
      have "written (I2C1 I2C_MTXDATA) tr = map ucast (take (unat wn) out)" "written (I2C1 I2C_MSA) tr = [target_word address read]"
        using prepared(3,4) quiet' [of I2C_MTXDATA] quiet' [of I2C_MSA] tail(1) [of "I2C1 I2C_MTXDATA"]
          tail(1) [of "I2C1 I2C_MSA"] by (simp_all add: tr_def)
      have received: "case buf of None \<Rightarrow> buf' = None | Some bytes \<Rightarrow> if r = Controller_Ok
         then buf' = Some (map ucast (seen (I2C1 I2C_MRXDATA) tr) @ drop (unat n) bytes)
            \<and> length (seen (I2C1 I2C_MRXDATA) tr) = unat n
         else buf' = buf"
        unfolding rx by (rule final(6))
      show ?thesis
        unfolding transfer_spec_def
        by (rule conjI [OF len disjI2], rule exI [of _ m], rule exI [of _ s], rule exI [of _ polls], intro conjI;
            fact)
    qed
    then show ?thesis using final(1) ctl_ran_trans [OF ran5 final(2)] unfolding tr_def by blast
  qed
qed

text \<open>The three operations as one: each is its guards and then the common body.\<close>

datatype transfer = Write_Only "u8 list" u8 | Read_Only "u8 list" u8 | Write_Then_Read "u8 list" u8 "u8 list" u8

fun run_transfer :: "'h hardware \<Rightarrow> u8 \<Rightarrow> transfer \<Rightarrow> 'h i2c_controller
    \<Rightarrow> (hal_i2c_controller_result \<times> u8 list option \<times> 'h i2c_controller) defined" where
  "run_transfer hw address (Write_Only data n) st = do {
     (r, st) \<leftarrow> hal_i2c_controller_write hw address (Some data) n st;
     Some (r, None, st)
   }"
| "run_transfer hw address (Read_Only buf n) st = hal_i2c_controller_read hw address (Some buf) n st"
| "run_transfer hw address (Write_Then_Read data m buf n) st =
     hal_i2c_controller_write_read hw address (Some data) m (Some buf) n st"

text \<open>The bytes sent, the direction bit, the burst length, whether the read follows a write, and the buffer.\<close>

fun sends :: "transfer \<Rightarrow> u8 list" where
  "sends (Write_Only data n) = take (unat n) data"
| "sends (Read_Only buf n) = []"
| "sends (Write_Then_Read data m buf n) = take (unat m) data"

fun receives :: "transfer \<Rightarrow> u8 list option" where
  "receives (Write_Only data n) = None"
| "receives (Read_Only buf n) = Some buf"
| "receives (Write_Then_Read data m buf n) = Some buf"

fun burst :: "transfer \<Rightarrow> u8" where
  "burst (Write_Only data n) = n"
| "burst (Read_Only buf n) = n"
| "burst (Write_Then_Read data m buf n) = n"

fun both_ways :: "transfer \<Rightarrow> bool" where
  "both_ways (Write_Then_Read data m buf n) \<longleftrightarrow> True"
| "both_ways _ \<longleftrightarrow> False"

text \<open>Arguments the driver accepts, with buffers as long as their lengths say.\<close>

definition fits :: "u8 \<Rightarrow> u8 list \<Rightarrow> bool" where
  "fits n bs \<longleftrightarrow> 0 < unat n \<and> unat n \<le> 4 \<and> unat n \<le> length bs"

fun well_formed :: "transfer \<Rightarrow> bool" where
  "well_formed (Write_Only data n) \<longleftrightarrow> fits n data"
| "well_formed (Read_Only buf n) \<longleftrightarrow> fits n buf"
| "well_formed (Write_Then_Read data m buf n) \<longleftrightarrow> fits m data \<and> fits n buf"

lemma fits_guards:
  assumes "fits n bs"
  shows "n \<noteq> 0" "\<not> n > HAL_I2C_CONTROLLER_MAX_TRANSFER" "unat n \<le> length bs"
  using assms by (auto simp: fits_def HAL_I2C_CONTROLLER_MAX_TRANSFER_def word_less_nat_alt)

lemma preload_nothing: "hal_i2c_controller_preload_write hw [] 0 st = Some st"
  by (simp add: hal_i2c_controller_preload_write_def)

lemma run_transfer_spec:
  assumes "ic_initialized st" "unat address \<le> 127" "well_formed t"
  shows "\<exists>r buf' st' tr. run_transfer hw address t st = Some (r, buf', st') \<and> ctl_ran st tr st'
    \<and> transfer_spec (unat (ic_poll_limit st)) (sends t) address (receives t \<noteq> None) (burst t) (both_ways t)
        (receives t) buf' r tr"
proof -
  have address: "\<not> address > 0x7f" using assms(2) by (simp add: word_less_nat_alt)
  show ?thesis
  proof (cases t)
    case (Write_Only data n)
    with assms(3) have fit: "fits n data" by simp
    obtain r buf' st' tr where body: "transfer_body hw data n address False n False None st = Some (r, buf', st')"
      "ctl_ran st tr st'"
      "transfer_spec (unat (ic_poll_limit st)) (take (unat n) data) address False n False None buf' r tr"
      using transfer_body_ran [of n data None n hw address False False st] fits_guards [OF fit] by auto
    have none: "buf' = None" using body(3) by (auto simp: transfer_spec_def)
    have "hal_i2c_controller_write hw address (Some data) n st
        = do { (r, b, st) \<leftarrow> transfer_body hw data n address False n False None st; Some (r, st) }"
      using fits_guards [OF fit] address assms(1)
      by (auto simp: hal_i2c_controller_write_def transfer_body_def split: Option.bind_splits if_splits prod.splits)
    then have "run_transfer hw address t st = Some (r, buf', st')"
      using body(1) none Write_Only by simp
    with body(2,3) Write_Only show ?thesis by auto
  next
    case (Read_Only buf n)
    with assms(3) have fit: "fits n buf" by simp
    obtain r buf' st' tr where body: "transfer_body hw [] 0 address True n False (Some buf) st = Some (r, buf', st')"
      "ctl_ran st tr st'"
      "transfer_spec (unat (ic_poll_limit st)) [] address True n False (Some buf) buf' r tr"
      using transfer_body_ran [of 0 "[]" "Some buf" n hw address True False st] fits_guards [OF fit] by auto
    have "hal_i2c_controller_read hw address (Some buf) n st
        = transfer_body hw [] 0 address True n False (Some buf) st"
      using fits_guards [OF fit] address assms(1)
      by (auto simp: hal_i2c_controller_read_def transfer_body_def preload_nothing cong: if_cong)
    with body Read_Only show ?thesis by auto
  next
    case (Write_Then_Read data m buf n)
    with assms(3) have fit: "fits m data" "fits n buf" by simp_all
    obtain r buf' st' tr where body: "transfer_body hw data m address True n True (Some buf) st = Some (r, buf', st')"
      "ctl_ran st tr st'"
      "transfer_spec (unat (ic_poll_limit st)) (take (unat m) data) address True n True (Some buf) buf' r tr"
      using transfer_body_ran [of m data "Some buf" n hw address True True st] fits_guards [OF fit(1)] fits_guards [OF fit(2)]
      by auto
    have "hal_i2c_controller_write_read hw address (Some data) m (Some buf) n st
        = transfer_body hw data m address True n True (Some buf) st"
      using fits_guards [OF fit(1)] fits_guards [OF fit(2)] address assms(1)
      by (auto simp: hal_i2c_controller_write_read_def transfer_body_def cong: if_cong)
    with body Write_Then_Read show ?thesis by auto
  qed
qed

section \<open>Properties\<close>

lemma start_word_bits: "start_word n raw AND MCTR_START \<noteq> 0" "start_word n raw AND MCTR_STOP \<noteq> 0"
proof -
  have "bit (start_word n raw) 1" "bit (start_word n raw) 2"
    by (simp_all add: start_word_def bit_or_iff MCTR_START_def MCTR_STOP_def bit_simps)
  moreover have "bit MCTR_START 1" "bit MCTR_STOP 2" by (simp_all add: MCTR_START_def MCTR_STOP_def bit_simps)
  ultimately show "start_word n raw AND MCTR_START \<noteq> 0" "start_word n raw AND MCTR_STOP \<noteq> 0"
    by (metis bit_0_eq bit_and_iff bot_apply bot_bool_def)+
qed

lemma or_stop: "(v OR MCTR_STOP) AND MCTR_STOP \<noteq> 0"
  by (simp add: word_ao_absorbs MCTR_STOP_def)

lemma completed_bound: "completed n polls \<Longrightarrow> length polls \<le> n"
  by (auto simp: completed_def)

lemma completed_idle: "completed n polls \<Longrightarrow> polls \<noteq> [] \<and> fst (last polls) AND MSR_BUSY = 0"
  by (auto simp: completed_def busy_def)

lemma start_has_stop: "w \<in> {0, start_word n raw, v OR MCTR_STOP} \<Longrightarrow> w AND MCTR_START \<noteq> 0 \<longrightarrow> w AND MCTR_STOP \<noteq> 0"
  using start_word_bits or_stop by auto

text \<open>A transfer that was started saw an idle bus first, and left it idle or asked for a stop.\<close>

definition bus_handled :: "hal_i2c_controller_result \<Rightarrow> access list \<Rightarrow> bool" where
  "bus_handled r tr \<longleftrightarrow>
     (\<exists>m s rest. seen (I2C1 I2C_MBMON) tr = [m] \<and> m AND MBMON_SCL \<noteq> 0 \<and> m AND MBMON_SDA \<noteq> 0
        \<and> seen (I2C1 I2C_MSR) tr = s # rest \<and> s AND MSR_BUSY = 0
        \<and> (rest \<noteq> [] \<and> last rest AND MSR_BUSY = 0
           \<or> r = Poll_Timeout \<and> last (written (I2C1 I2C_MCTR) tr) AND MCTR_STOP \<noteq> 0))"

lemma transfer_spec_bus:
  assumes "transfer_spec limit out address read n raw buf buf' r tr"
  shows "\<forall>w \<in> set (written (I2C1 I2C_MCTR) tr). w AND MCTR_START \<noteq> 0 \<longrightarrow> w AND MCTR_STOP \<noteq> 0"
    "written (I2C1 I2C_MSA) tr \<noteq> [] \<longrightarrow> bus_handled r tr"
    "length (seen (I2C1 I2C_MSR) tr) \<le> limit + 1"
proof -
  consider "set (written (I2C1 I2C_MCTR) tr) \<subseteq> {0}" "written (I2C1 I2C_MSA) tr = []" "length (seen (I2C1 I2C_MSR) tr) \<le> 1"
    | m s polls v where "seen (I2C1 I2C_MBMON) tr = [m]" "m AND MBMON_SCL \<noteq> 0" "m AND MBMON_SDA \<noteq> 0"
      "s AND MSR_BUSY = 0" "seen (I2C1 I2C_MSR) tr = s # map fst polls"
      "completed limit polls \<and> written (I2C1 I2C_MCTR) tr = [0, start_word n raw]
       \<or> length polls = limit \<and> r = Poll_Timeout \<and> written (I2C1 I2C_MCTR) tr = [0, start_word n raw, v OR MCTR_STOP]"
    using assms unfolding transfer_spec_def by (elim conjE disjE exE) (blast+)
  then have "(\<forall>w \<in> set (written (I2C1 I2C_MCTR) tr). w AND MCTR_START \<noteq> 0 \<longrightarrow> w AND MCTR_STOP \<noteq> 0)
    \<and> (written (I2C1 I2C_MSA) tr \<noteq> [] \<longrightarrow> bus_handled r tr) \<and> length (seen (I2C1 I2C_MSR) tr) \<le> limit + 1"
  proof cases
    case 1
    then show ?thesis by auto
  next
    case 2
    have "bus_handled r tr"
      unfolding bus_handled_def
      by (rule exI [of _ m], rule exI [of _ s], rule exI [of _ "map fst polls"])
        (use 2 completed_idle [of limit polls] or_stop in \<open>auto simp: last_map\<close>)
    moreover have "\<forall>w \<in> set (written (I2C1 I2C_MCTR) tr). w \<in> {0, start_word n raw, v OR MCTR_STOP}"
      using 2(6) by auto
    ultimately show ?thesis using start_has_stop [of _ n raw v] 2(5,6) completed_bound [of limit polls] by (intro conjI) (blast, simp, auto)
  qed
  then show "\<forall>w \<in> set (written (I2C1 I2C_MCTR) tr). w AND MCTR_START \<noteq> 0 \<longrightarrow> w AND MCTR_STOP \<noteq> 0"
    "written (I2C1 I2C_MSA) tr \<noteq> [] \<longrightarrow> bus_handled r tr" "length (seen (I2C1 I2C_MSR) tr) \<le> limit + 1" by blast+
qed

lemma find_SomeD: "find P xs = Some x \<Longrightarrow> x \<in> set xs \<and> P x"
  by (induction xs) (auto split: if_splits)

lemma outcome_ok:
  "outcome Controller_Ok polls = Controller_Ok \<longleftrightarrow> (\<forall>p \<in> set polls. snd p AND RIS_TIMEOUTA = 0
     \<and> hal_i2c_controller_status_result (fst p) = Controller_Ok)"
proof (cases "find (\<lambda>p. hal_i2c_controller_status_result (fst p) \<noteq> Controller_Ok) polls")
  case None
  then have "\<forall>p \<in> set polls. hal_i2c_controller_status_result (fst p) = Controller_Ok"
    unfolding find_None_iff by blast
  with None show ?thesis by (simp add: outcome_def)
next
  case (Some p)
  then show ?thesis using find_SomeD [OF Some] by (auto simp: outcome_def simp del: split_paired_All split_paired_Ex)
qed

lemma outcome_status:
  assumes "outcome Controller_Ok polls \<in> {Address_Nack, Data_Nack, Arbitration_Lost, Io_Error}"
  shows "\<exists>p \<in> set polls. hal_i2c_controller_status_result (fst p) = outcome Controller_Ok polls"
proof (cases "find (\<lambda>p. hal_i2c_controller_status_result (fst p) \<noteq> Controller_Ok) polls")
  case None
  with assms show ?thesis by (simp add: outcome_def split: if_splits)
next
  case (Some p)
  with assms show ?thesis using find_SomeD [OF Some] by (auto simp: outcome_def split: if_splits)
qed

text \<open>C22. The controller never leaves the bus held. A transfer with valid arguments always returns, after
  at most \<open>g_poll_limit\<close> status polls and twice as many FIFO polls, plus one each; every command word that
  generates a START also carries the STOP; nothing is put on the bus unless both lines were high and the
  controller idle; and a transfer that was put on the bus ends after a poll that showed the controller
  idle, or with \<open>POLL_TIMEOUT\<close> after a last command that requests the STOP.\<close>

theorem controller_always_stops:
  assumes "ic_initialized st" "unat address \<le> 127" "well_formed t"
  shows "\<exists>r buf' st' tr. run_transfer hw address t st = Some (r, buf', st') \<and> ctl_trace st' = ctl_trace st @ tr
    \<and> (\<forall>w \<in> set (written (I2C1 I2C_MCTR) tr). w AND MCTR_START \<noteq> 0 \<longrightarrow> w AND MCTR_STOP \<noteq> 0)
    \<and> (written (I2C1 I2C_MSA) tr \<noteq> [] \<longrightarrow> bus_handled r tr)
    \<and> length (seen (I2C1 I2C_MSR) tr) \<le> unat (ic_poll_limit st) + 1
    \<and> length (seen (I2C1 I2C_MFIFOSR) tr) \<le> 2 * unat (ic_poll_limit st) + 1"
proof -
  obtain r buf' st' tr where run: "run_transfer hw address t st = Some (r, buf', st')" "ctl_ran st tr st'"
    "transfer_spec (unat (ic_poll_limit st)) (sends t) address (receives t \<noteq> None) (burst t) (both_ways t)
        (receives t) buf' r tr"
    using run_transfer_spec [OF assms] by blast
  note spec = transfer_spec_bus [OF run(3)]
  have "length (seen (I2C1 I2C_MFIFOSR) tr) \<le> 2 * unat (ic_poll_limit st) + 1"
    using run(3) by (simp add: transfer_spec_def)
  then show ?thesis using run(1,2) spec unfolding ctl_ran_def by blast
qed

definition idle_controller :: "(reg \<Rightarrow> u32) i2c_controller" where
  "idle_controller = \<lparr>ic_machine = \<lparr>mc_device = (\<lambda>r. if r = I2C1 I2C_MBMON then 3
       else if r = I2C1 I2C_MFIFOSR then 0x400 else 0), mc_trace = []\<rparr>,
     ic_poll_limit = 8, ic_activation_delay_nops = 0, ic_last_status = 0, ic_initialized = True\<rparr>"

theorem controller_always_stops_witness:
  "\<exists>r buf' st' tr. run_transfer plain_hardware 0x20 (Write_Only [0xa5, 7] 2) idle_controller = Some (r, buf', st')
    \<and> ctl_trace st' = ctl_trace idle_controller @ tr \<and> length (seen (I2C1 I2C_MSR) tr) \<le> 9"
proof -
  have "ic_initialized idle_controller" "unat (0x20 :: u8) \<le> 127" "well_formed (Write_Only [0xa5, 7] 2)"
    "unat (ic_poll_limit idle_controller) + 1 = 9"
    by (simp_all add: idle_controller_def fits_def)
  then show ?thesis
    using controller_always_stops [of idle_controller "0x20" "Write_Only [0xa5, 7] 2" plain_hardware] by metis
qed

text \<open>C23. The result says what happened on the bus. \<open>OK\<close> means that exactly the caller's bytes were
  put in the FIFO, the command addressed the device with the direction and burst length asked for, no
  status polled had an error and no poll an SCL timeout, and the caller's buffer starts with the bytes
  taken from the FIFO. Any other result leaves the buffer as it was, and a NACK, a lost arbitration or an
  I/O error was reported by a status polled in this transfer.\<close>

theorem controller_result_is_true:
  assumes "ic_initialized st" "unat address \<le> 127" "well_formed t"
    and "run_transfer hw address t st = Some (r, buf', st')" "ctl_trace st' = ctl_trace st @ tr"
  shows "if r = Controller_Ok
    then written (I2C1 I2C_MTXDATA) tr = map ucast (sends t)
      \<and> written (I2C1 I2C_MSA) tr = [target_word address (receives t \<noteq> None)]
      \<and> written (I2C1 I2C_MCTR) tr = [0, start_word (burst t) (both_ways t)]
      \<and> (\<forall>s \<in> set (tl (seen (I2C1 I2C_MSR) tr)). hal_i2c_controller_status_result s = Controller_Ok)
      \<and> (\<forall>e \<in> set (seen (I2C1 I2C_RIS) tr). e AND RIS_TIMEOUTA = 0)
      \<and> (case receives t of None \<Rightarrow> buf' = None
         | Some bytes \<Rightarrow> buf' = Some (map ucast (seen (I2C1 I2C_MRXDATA) tr) @ drop (unat (burst t)) bytes)
             \<and> length (seen (I2C1 I2C_MRXDATA) tr) = unat (burst t))
    else buf' = receives t
      \<and> (r \<in> {Address_Nack, Data_Nack, Arbitration_Lost, Io_Error}
          \<longrightarrow> (\<exists>s \<in> set (tl (seen (I2C1 I2C_MSR) tr)). hal_i2c_controller_status_result s = r))"
proof -
  have "transfer_spec (unat (ic_poll_limit st)) (sends t) address (receives t \<noteq> None) (burst t) (both_ways t)
        (receives t) buf' r tr"
    using run_transfer_spec [OF assms(1-3), of hw] assms(4,5) by (auto simp: ctl_ran_def)
  then consider "r \<in> {Scl_Low_Timeout, Sda_Low, Bus_Busy, Poll_Timeout}" "buf' = receives t"
    | s polls where "seen (I2C1 I2C_MSR) tr = s # map fst polls" "seen (I2C1 I2C_RIS) tr = map snd polls"
      "written (I2C1 I2C_MTXDATA) tr = map ucast (sends t)"
      "written (I2C1 I2C_MSA) tr = [target_word address (receives t \<noteq> None)]"
      "r \<noteq> Poll_Timeout \<longrightarrow> written (I2C1 I2C_MCTR) tr = [0, start_word (burst t) (both_ways t)]
        \<and> (if outcome Controller_Ok polls \<noteq> Controller_Ok then r = outcome Controller_Ok polls
           else r = Controller_Ok \<or> receives t \<noteq> None \<and> r = Rx_Underflow)"
      "case receives t of None \<Rightarrow> buf' = None
         | Some bytes \<Rightarrow> if r = Controller_Ok
             then buf' = Some (map ucast (seen (I2C1 I2C_MRXDATA) tr) @ drop (unat (burst t)) bytes)
               \<and> length (seen (I2C1 I2C_MRXDATA) tr) = unat (burst t)
             else buf' = receives t"
    unfolding transfer_spec_def by (elim conjE disjE exE) (blast+)
  then show ?thesis
  proof cases
    case 1
    then show ?thesis by auto
  next
    case 2
    show ?thesis
    proof (cases "r = Controller_Ok")
      case True
      with 2(5) have mctr: "written (I2C1 I2C_MCTR) tr = [0, start_word (burst t) (both_ways t)]"
        and "outcome Controller_Ok polls = Controller_Ok" by (auto split: if_splits)
      then have "\<forall>p \<in> set polls. snd p AND RIS_TIMEOUTA = 0
          \<and> hal_i2c_controller_status_result (fst p) = Controller_Ok" by (simp add: outcome_ok)
      with True mctr 2(1-4,6) show ?thesis by (simp split: option.splits)
    next
      case False
      have "buf' = receives t" using 2(6) False by (auto split: option.splits)
      moreover have "\<exists>s \<in> set (map fst polls). hal_i2c_controller_status_result s = r"
        if "r \<in> {Address_Nack, Data_Nack, Arbitration_Lost, Io_Error}"
      proof -
        have "r = outcome Controller_Ok polls" using that 2(5) by (auto split: if_splits)
        with outcome_status [of polls] that show ?thesis by auto
      qed
      ultimately show ?thesis using False 2(1) by simp
    qed
  qed
qed

text \<open>On memory-like hardware whose status stays 0 a two-byte write reports success.\<close>

theorem controller_result_is_true_witness:
  "\<exists>st'. run_transfer plain_hardware 0x20 (Write_Only [0xa5, 7] 2) idle_controller = Some (Controller_Ok, None, st')
    \<and> written (I2C1 I2C_MTXDATA) (ctl_trace st') = [0xa5, 7] \<and> written (I2C1 I2C_MSA) (ctl_trace st') = [0x40]"
proof -
  have "map_option (\<lambda>(r, b, st). (r, b)) (run_transfer plain_hardware 0x20 (Write_Only [0xa5, 7] 2) idle_controller)
      = Some (Controller_Ok, None)"
    by code_simp
  then obtain st' where run: "run_transfer plain_hardware 0x20 (Write_Only [0xa5, 7] 2) idle_controller
    = Some (Controller_Ok, None, st')" by auto
  have "ic_initialized idle_controller" "unat (0x20 :: u8) \<le> 127" "well_formed (Write_Only [0xa5, 7] 2)"
    "ctl_trace idle_controller = []"
    by (simp_all add: idle_controller_def fits_def)
  then show ?thesis
    using controller_result_is_true [of idle_controller "0x20" "Write_Only [0xa5, 7] 2" plain_hardware Controller_Ok None st'
        "ctl_trace st'"] run by (auto simp: target_word_def)
qed

end
