(* ===== verification/Build_Info.thy ===== *)
theory Build_Info
  imports Prelude
begin

text \<open>
  \<open>lib/lib_buildinfo.c\<close>: the version and build time of an image, in binary-coded decimal, their
  validation and their eight-byte image for the register map. The specification is in decimal
  numbers: what each BCD byte stands for, and the calendar ranges of the time.
\<close>

section \<open>State and operations\<close>

definition LIB_BUILDINFO_DEVICE_INFO_SIZE :: u32 where "LIB_BUILDINFO_DEVICE_INFO_SIZE = 8"

record lib_buildinfo =
  bi_version_major :: u8
  bi_version_minor :: u8
  bi_year_high :: u8
  bi_year_low :: u8
  bi_month :: u8
  bi_day :: u8
  bi_hour :: u8
  bi_minute :: u8

definition lib_buildinfo_is_bcd :: "u8 \<Rightarrow> bool" where
  "lib_buildinfo_is_bcd v \<longleftrightarrow> v AND 0x0f \<le> 9 \<and> drop_bit 4 v \<le> 9"

definition lib_buildinfo_has_timestamp :: "lib_buildinfo option \<Rightarrow> bool" where
  "lib_buildinfo_has_timestamp buildinfo =
     (case buildinfo of
        None \<Rightarrow> False
      | Some b \<Rightarrow> bi_year_high b \<noteq> 0 \<or> bi_year_low b \<noteq> 0 \<or> bi_month b \<noteq> 0 \<or> bi_day b \<noteq> 0
                  \<or> bi_hour b \<noteq> 0 \<or> bi_minute b \<noteq> 0)"

definition lib_buildinfo_is_valid :: "lib_buildinfo option \<Rightarrow> bool" where
  "lib_buildinfo_is_valid buildinfo =
     (case buildinfo of
        None \<Rightarrow> False
      | Some b \<Rightarrow>
          if \<not> lib_buildinfo_is_bcd (bi_version_major b) \<or> \<not> lib_buildinfo_is_bcd (bi_version_minor b)
          then False
          else if \<not> lib_buildinfo_has_timestamp buildinfo then True
          else lib_buildinfo_is_bcd (bi_year_high b) \<and> lib_buildinfo_is_bcd (bi_year_low b)
               \<and> lib_buildinfo_is_bcd (bi_month b) \<and> lib_buildinfo_is_bcd (bi_day b)
               \<and> lib_buildinfo_is_bcd (bi_hour b) \<and> lib_buildinfo_is_bcd (bi_minute b)
               \<and> bi_month b \<ge> 0x01 \<and> bi_month b \<le> 0x12
               \<and> bi_day b \<ge> 0x01 \<and> bi_day b \<le> 0x31
               \<and> bi_hour b \<le> 0x23 \<and> bi_minute b \<le> 0x59)"

definition lib_buildinfo_write_device_info ::
  "lib_buildinfo option \<Rightarrow> u8 list option \<Rightarrow> u32 \<Rightarrow> (bool \<times> u8 list option) defined" where
  "lib_buildinfo_write_device_info buildinfo bytes n =
     (case (buildinfo, bytes) of
        (Some b, Some bs) \<Rightarrow>
          if \<not> lib_buildinfo_is_valid buildinfo \<or> n < LIB_BUILDINFO_DEVICE_INFO_SIZE
          then Some (False, bytes)
          else do {
            bs \<leftarrow> array_write bs 0 (bi_version_major b);
            bs \<leftarrow> array_write bs 1 (bi_version_minor b);
            bs \<leftarrow> array_write bs 2 (bi_year_high b);
            bs \<leftarrow> array_write bs 3 (bi_year_low b);
            bs \<leftarrow> array_write bs 4 (bi_month b);
            bs \<leftarrow> array_write bs 5 (bi_day b);
            bs \<leftarrow> array_write bs 6 (bi_hour b);
            bs \<leftarrow> array_write bs 7 (bi_minute b);
            Some (True, Some bs)
          }
      | _ \<Rightarrow> Some (False, bytes))"

section \<open>Binary-coded decimal\<close>

text \<open>The number a BCD byte stands for.\<close>

definition bcd_value :: "u8 \<Rightarrow> nat" where
  "bcd_value v = 10 * (unat v div 16) + unat v mod 16"

definition of_bcd :: "nat \<Rightarrow> u8" where
  "of_bcd n = of_nat (16 * (n div 10) + n mod 10)"

lemma nibbles: "unat (v AND 0x0f) = unat v mod 16" "unat (drop_bit 4 v) = unat v div 16" for v :: u8
proof -
  have "v AND 0x0f = take_bit 4 v" by (simp add: take_bit_eq_mask mask_eq_exp_minus_1)
  moreover have "unat (take_bit 4 v) = unat v mod 16"
    by (simp only: unsigned_take_bit_eq) (simp add: take_bit_eq_mod)
  ultimately show "unat (v AND 0x0f) = unat v mod 16" by simp
  show "unat (drop_bit 4 v) = unat v div 16"
    using unat_div [of v 16] by (simp add: drop_bit_eq_div)
qed

lemma is_bcd_iff: "lib_buildinfo_is_bcd v \<longleftrightarrow> unat v mod 16 \<le> 9 \<and> unat v div 16 \<le> 9"
  by (simp add: lib_buildinfo_is_bcd_def word_le_nat_alt nibbles)

lemma bcd_nibbles:
  assumes "lib_buildinfo_is_bcd v"
  obtains h l where "unat v = 16 * h + l" "h \<le> 9" "l \<le> 9" "bcd_value v = 10 * h + l"
proof (rule that)
  show "unat v = 16 * (unat v div 16) + unat v mod 16" by simp
  show "bcd_value v = 10 * (unat v div 16) + unat v mod 16" by (simp add: bcd_value_def)
qed (use assms in \<open>simp_all add: is_bcd_iff\<close>)

lemma unat_of_bcd: "n < 100 \<Longrightarrow> unat (of_bcd n) = 16 * (n div 10) + n mod 10"
proof -
  assume "n < 100"
  then have "n div 10 \<le> 9" "n mod 10 \<le> 9" by auto
  then have "16 * (n div 10) + n mod 10 < 256" by linarith
  then show ?thesis by (simp only: of_bcd_def unat_of_nat) simp
qed

lemma bcd_value_of_bcd: "n < 100 \<Longrightarrow> lib_buildinfo_is_bcd (of_bcd n) \<and> bcd_value (of_bcd n) = n"
  by (auto simp: is_bcd_iff bcd_value_def unat_of_bcd div_add1_eq [of _ _ 16] mod_add_eq)

lemma of_bcd_value: "lib_buildinfo_is_bcd v \<Longrightarrow> of_bcd (bcd_value v) = v"
proof -
  assume "lib_buildinfo_is_bcd v"
  then obtain h l where v: "unat v = 16 * h + l" "h \<le> 9" "l \<le> 9" "bcd_value v = 10 * h + l"
    by (rule bcd_nibbles)
  then have "(10 * h + l) div 10 = h" "(10 * h + l) mod 10 = l" by simp_all
  with v show ?thesis by (simp add: word_unat_eq_iff unat_of_bcd)
qed

text \<open>The hexadecimal bounds of the code are the decimal ones.\<close>

lemma bcd_le:
  assumes "lib_buildinfo_is_bcd v" "lib_buildinfo_is_bcd w"
  shows "v \<le> w \<longleftrightarrow> bcd_value v \<le> bcd_value w"
proof -
  obtain h l where v: "unat v = 16 * h + l" "h \<le> 9" "l \<le> 9" "bcd_value v = 10 * h + l"
    using assms(1) by (rule bcd_nibbles)
  obtain h' l' where w: "unat w = 16 * h' + l'" "h' \<le> 9" "l' \<le> 9" "bcd_value w = 10 * h' + l'"
    using assms(2) by (rule bcd_nibbles)
  show ?thesis
    by (cases h h' rule: linorder_cases) (use v w in \<open>auto simp: word_le_nat_alt\<close>)
qed

lemma bcd_bounds:
  assumes "lib_buildinfo_is_bcd v"
  shows "0x01 \<le> v \<longleftrightarrow> 1 \<le> bcd_value v" "v \<le> 0x12 \<longleftrightarrow> bcd_value v \<le> 12" "v \<le> 0x31 \<longleftrightarrow> bcd_value v \<le> 31"
    "v \<le> 0x23 \<longleftrightarrow> bcd_value v \<le> 23" "v \<le> 0x59 \<longleftrightarrow> bcd_value v \<le> 59"
proof -
  have "lib_buildinfo_is_bcd 0x01" "lib_buildinfo_is_bcd 0x12" "lib_buildinfo_is_bcd 0x31"
    "lib_buildinfo_is_bcd 0x23" "lib_buildinfo_is_bcd 0x59"
    by (simp_all add: is_bcd_iff)
  from this [THEN bcd_le [OF assms]] this [THEN bcd_le [OF _ assms]]
  show "0x01 \<le> v \<longleftrightarrow> 1 \<le> bcd_value v" "v \<le> 0x12 \<longleftrightarrow> bcd_value v \<le> 12" "v \<le> 0x31 \<longleftrightarrow> bcd_value v \<le> 31"
    "v \<le> 0x23 \<longleftrightarrow> bcd_value v \<le> 23" "v \<le> 0x59 \<longleftrightarrow> bcd_value v \<le> 59"
    by (simp_all add: bcd_value_def)
qed

section \<open>Properties\<close>

text \<open>What a valid build is, in decimal.\<close>

definition bcd_in :: "nat \<Rightarrow> nat \<Rightarrow> u8 \<Rightarrow> bool" where
  "bcd_in least most v \<longleftrightarrow> (\<exists>n. least \<le> n \<and> n \<le> most \<and> v = of_bcd n)"

definition version_ok :: "lib_buildinfo \<Rightarrow> bool" where
  "version_ok b \<longleftrightarrow> bcd_in 0 99 (bi_version_major b) \<and> bcd_in 0 99 (bi_version_minor b)"

definition time_ok :: "lib_buildinfo \<Rightarrow> bool" where
  "time_ok b \<longleftrightarrow> bcd_in 0 99 (bi_year_high b) \<and> bcd_in 0 99 (bi_year_low b) \<and> bcd_in 1 12 (bi_month b)
     \<and> bcd_in 1 31 (bi_day b) \<and> bcd_in 0 23 (bi_hour b) \<and> bcd_in 0 59 (bi_minute b)"

definition time_absent :: "lib_buildinfo \<Rightarrow> bool" where
  "time_absent b \<longleftrightarrow> bi_year_high b = 0 \<and> bi_year_low b = 0 \<and> bi_month b = 0 \<and> bi_day b = 0
     \<and> bi_hour b = 0 \<and> bi_minute b = 0"

lemma is_bcd_value_le: "lib_buildinfo_is_bcd v \<Longrightarrow> bcd_value v \<le> 99"
  by (elim bcd_nibbles) simp

lemma bcd_in_iff:
  assumes "most \<le> 99"
  shows "bcd_in least most v \<longleftrightarrow> lib_buildinfo_is_bcd v \<and> least \<le> bcd_value v \<and> bcd_value v \<le> most"
proof
  assume "bcd_in least most v"
  then obtain n where "least \<le> n" "n \<le> most" "v = of_bcd n" by (auto simp: bcd_in_def)
  with assms bcd_value_of_bcd [of n] show "lib_buildinfo_is_bcd v \<and> least \<le> bcd_value v \<and> bcd_value v \<le> most"
    by simp
next
  assume "lib_buildinfo_is_bcd v \<and> least \<le> bcd_value v \<and> bcd_value v \<le> most"
  then show "bcd_in least most v" using of_bcd_value [of v] by (auto simp: bcd_in_def)
qed

lemma bcd_in_code:
  "bcd_in 0 99 v \<longleftrightarrow> lib_buildinfo_is_bcd v"
  "bcd_in 1 12 v \<longleftrightarrow> lib_buildinfo_is_bcd v \<and> 0x01 \<le> v \<and> v \<le> 0x12"
  "bcd_in 1 31 v \<longleftrightarrow> lib_buildinfo_is_bcd v \<and> 0x01 \<le> v \<and> v \<le> 0x31"
  "bcd_in 0 23 v \<longleftrightarrow> lib_buildinfo_is_bcd v \<and> v \<le> 0x23"
  "bcd_in 0 59 v \<longleftrightarrow> lib_buildinfo_is_bcd v \<and> v \<le> 0x59"
  using is_bcd_value_le bcd_bounds [of v] by (auto simp: bcd_in_iff)

text \<open>Validation accepts exactly the builds whose version is two two-digit BCD numbers and whose
  time is absent (all zero) or a BCD year, month 1 to 12, day 1 to 31, hour below 24 and minute below
  60.\<close>

theorem buildinfo_valid_iff:
  "lib_buildinfo_is_valid (Some b) \<longleftrightarrow> version_ok b \<and> (time_absent b \<or> time_ok b)"
proof -
  have "time_ok b \<longleftrightarrow> lib_buildinfo_is_bcd (bi_year_high b) \<and> lib_buildinfo_is_bcd (bi_year_low b)
      \<and> lib_buildinfo_is_bcd (bi_month b) \<and> lib_buildinfo_is_bcd (bi_day b)
      \<and> lib_buildinfo_is_bcd (bi_hour b) \<and> lib_buildinfo_is_bcd (bi_minute b)
      \<and> bi_month b \<ge> 0x01 \<and> bi_month b \<le> 0x12 \<and> bi_day b \<ge> 0x01 \<and> bi_day b \<le> 0x31
      \<and> bi_hour b \<le> 0x23 \<and> bi_minute b \<le> 0x59"
    unfolding time_ok_def bcd_in_code by argo
  moreover have "version_ok b \<longleftrightarrow>
      lib_buildinfo_is_bcd (bi_version_major b) \<and> lib_buildinfo_is_bcd (bi_version_minor b)"
    by (simp add: version_ok_def bcd_in_code)
  ultimately show "lib_buildinfo_is_valid (Some b) \<longleftrightarrow> version_ok b \<and> (time_absent b \<or> time_ok b)"
    by (simp add: lib_buildinfo_is_valid_def time_absent_def lib_buildinfo_has_timestamp_def) argo
qed

text \<open>The device information round trip: the eight bytes of a valid build go to the front of a
  buffer of at least eight and the build is read back from them; an invalid build, a null pointer or
  a shorter length is refused and nothing is written.\<close>

theorem buildinfo_device_info_round_trip:
  assumes "8 \<le> length bs"
  shows "\<exists>bs'. lib_buildinfo_write_device_info (Some b) (Some bs) n
        = Some (lib_buildinfo_is_valid (Some b) \<and> 8 \<le> n, Some bs')
    \<and> bs' = (if lib_buildinfo_is_valid (Some b) \<and> 8 \<le> n then take 8 bs' @ drop 8 bs else bs)
    \<and> (lib_buildinfo_is_valid (Some b) \<and> 8 \<le> n \<longrightarrow>
        b = \<lparr>bi_version_major = bs' ! 0, bi_version_minor = bs' ! 1, bi_year_high = bs' ! 2,
             bi_year_low = bs' ! 3, bi_month = bs' ! 4, bi_day = bs' ! 5, bi_hour = bs' ! 6, bi_minute = bs' ! 7\<rparr>)"
    "lib_buildinfo_write_device_info None bytes n = Some (False, bytes)"
    "lib_buildinfo_write_device_info buildinfo None n = Some (False, None)"
proof -
  obtain b0 b1 b2 b3 b4 b5 b6 b7 rest where "bs = b0 # b1 # b2 # b3 # b4 # b5 # b6 # b7 # rest"
    using assms by (auto simp: numeral_eq_Suc Suc_le_length_iff)
  moreover have "8 \<le> n \<longleftrightarrow> \<not> n < 8" by auto
  ultimately show "\<exists>bs'. lib_buildinfo_write_device_info (Some b) (Some bs) n
        = Some (lib_buildinfo_is_valid (Some b) \<and> 8 \<le> n, Some bs')
    \<and> bs' = (if lib_buildinfo_is_valid (Some b) \<and> 8 \<le> n then take 8 bs' @ drop 8 bs else bs)
    \<and> (lib_buildinfo_is_valid (Some b) \<and> 8 \<le> n \<longrightarrow>
        b = \<lparr>bi_version_major = bs' ! 0, bi_version_minor = bs' ! 1, bi_year_high = bs' ! 2,
             bi_year_low = bs' ! 3, bi_month = bs' ! 4, bi_day = bs' ! 5, bi_hour = bs' ! 6, bi_minute = bs' ! 7\<rparr>)"
    by (simp add: lib_buildinfo_write_device_info_def LIB_BUILDINFO_DEVICE_INFO_SIZE_def array_simps) auto
qed (simp_all add: lib_buildinfo_write_device_info_def split: option.split)

definition demo_build :: lib_buildinfo where
  "demo_build = \<lparr>bi_version_major = 0x01, bi_version_minor = 0x42, bi_year_high = 0x20, bi_year_low = 0x26,
     bi_month = 0x07, bi_day = 0x31, bi_hour = 0x23, bi_minute = 0x59\<rparr>"

lemma demo_build_valid: "lib_buildinfo_is_valid (Some demo_build)"
  by (simp add: lib_buildinfo_is_valid_def demo_build_def is_bcd_iff)

theorem buildinfo_device_info_round_trip_witness:
  "\<exists>bs'. lib_buildinfo_write_device_info (Some demo_build) (Some (replicate 9 0xee)) 9 = Some (True, Some bs')
    \<and> bs' ! 5 = 0x31"
proof -
  obtain bs' where "lib_buildinfo_write_device_info (Some demo_build) (Some (replicate 9 0xee)) 9 = Some (True, Some bs')"
    "bi_day demo_build = bs' ! 5"
    using buildinfo_device_info_round_trip(1) [of "replicate 9 0xee" demo_build 9] demo_build_valid
    by (auto simp: demo_build_def)
  then show ?thesis by (auto simp: demo_build_def)
qed

end
