(* ===== verification/Boot_Banner.thy ===== *)
theory Boot_Banner
  imports Build_Info
begin

text \<open>
  \<open>lib/lib_debug.c\<close> and \<open>lib/lib_boot.c\<close>: the debug output, which goes to a writer the board
  installs, and the banner printed at boot. The writer is a function pointer, so it is a part of the
  state: given a pointer to bytes and a length it changes a world of any type and says how many
  bytes it took. A C string is its bytes up to and with the terminating zero.
\<close>

section \<open>The debug writer\<close>

type_synonym 'w debug_writer = "u8 list option \<Rightarrow> u32 \<Rightarrow> 'w \<Rightarrow> (u32 \<times> 'w) defined"

record 'w debug =
  dbg_writer :: "'w debug_writer option"
  dbg_world :: 'w

definition lib_debug_set_writer :: "'w debug_writer option \<Rightarrow> 'w debug \<Rightarrow> 'w debug" where
  "lib_debug_set_writer writer g = g\<lparr>dbg_writer := writer\<rparr>"

definition lib_debug_write :: "u8 list option \<Rightarrow> u32 \<Rightarrow> 'w debug \<Rightarrow> (u32 \<times> 'w debug) defined" where
  "lib_debug_write data n g =
     (case dbg_writer g of
        None \<Rightarrow> Some (0, g)
      | Some writer \<Rightarrow>
          if data = None \<and> n \<noteq> 0 then Some (0, g)
          else do {
            (accepted, w) \<leftarrow> writer data n (dbg_world g);
            Some (accepted, g\<lparr>dbg_world := w\<rparr>)
          })"

section \<open>The banner\<close>

definition lib_boot_write_byte :: "u8 \<Rightarrow> 'w debug \<Rightarrow> 'w debug defined" where
  "lib_boot_write_byte v g = do { (_, g) \<leftarrow> lib_debug_write (Some [v]) 1 g; Some g }"

text \<open>Reading past the end of an unterminated string is undefined.\<close>

fun boot_text_loop :: "u8 list \<Rightarrow> 'w debug \<Rightarrow> 'w debug defined" where
  "boot_text_loop [] g = None"
| "boot_text_loop (c # text) g =
     (if c = 0 then Some g
      else do { g \<leftarrow> lib_boot_write_byte c g; boot_text_loop text g })"

definition lib_boot_write_text :: "u8 list option \<Rightarrow> 'w debug \<Rightarrow> 'w debug defined" where
  "lib_boot_write_text text g = (case text of None \<Rightarrow> Some g | Some t \<Rightarrow> boot_text_loop t g)"

text \<open>String literals: ASCII bytes and the terminating zero.\<close>

definition ascii :: "string \<Rightarrow> u8 list" where
  "ascii s = map (\<lambda>c. of_nat (of_char c)) s"

definition crlf :: "u8 list" where
  "crlf = [0x0d, 0x0a]"

definition literal :: "u8 list \<Rightarrow> u8 list option" where
  "literal bs = Some (bs @ [0])"

definition lib_boot_write_bcd :: "u8 \<Rightarrow> 'w debug \<Rightarrow> 'w debug defined" where
  "lib_boot_write_bcd v g = do {
     g \<leftarrow> lib_boot_write_byte (0x30 + drop_bit 4 v) g;
     lib_boot_write_byte (0x30 + (v AND 0x0f)) g
   }"

definition lib_boot_write_banner ::
  "u8 list option \<Rightarrow> lib_buildinfo option \<Rightarrow> 'w debug \<Rightarrow> 'w debug defined" where
  "lib_boot_write_banner application_name buildinfo g = do {
     g \<leftarrow> lib_boot_write_text (literal (ascii ''mspm-baremetal: '')) g;
     g \<leftarrow> lib_boot_write_text
           (if application_name = None then literal (ascii ''unnamed'') else application_name) g;
     (case buildinfo of
        None \<Rightarrow> lib_boot_write_text (literal (ascii '' build=invalid'' @ crlf)) g
      | Some b \<Rightarrow>
          if \<not> lib_buildinfo_is_valid buildinfo
          then lib_boot_write_text (literal (ascii '' build=invalid'' @ crlf)) g
          else do {
            g \<leftarrow> lib_boot_write_text (literal (ascii '' v'')) g;
            g \<leftarrow> lib_boot_write_bcd (bi_version_major b) g;
            g \<leftarrow> lib_boot_write_byte 0x2e g;
            g \<leftarrow> lib_boot_write_bcd (bi_version_minor b) g;
            g \<leftarrow> lib_boot_write_text (literal (ascii '' build='')) g;
            (if \<not> lib_buildinfo_has_timestamp buildinfo
             then lib_boot_write_text (literal (ascii ''unspecified'' @ crlf)) g
             else do {
               g \<leftarrow> lib_boot_write_bcd (bi_year_high b) g;
               g \<leftarrow> lib_boot_write_bcd (bi_year_low b) g;
               g \<leftarrow> lib_boot_write_byte 0x2d g;
               g \<leftarrow> lib_boot_write_bcd (bi_month b) g;
               g \<leftarrow> lib_boot_write_byte 0x2d g;
               g \<leftarrow> lib_boot_write_bcd (bi_day b) g;
               g \<leftarrow> lib_boot_write_byte 0x54 g;
               g \<leftarrow> lib_boot_write_bcd (bi_hour b) g;
               g \<leftarrow> lib_boot_write_byte 0x3a g;
               g \<leftarrow> lib_boot_write_bcd (bi_minute b) g;
               lib_boot_write_text (literal (ascii ''Z'' @ crlf)) g
             })
          })
   }"

section \<open>What a sequence of bytes does to the writer\<close>

primrec feed :: "'w debug_writer \<Rightarrow> u8 list \<Rightarrow> 'w \<Rightarrow> 'w defined" where
  "feed writer [] w = Some w"
| "feed writer (b # bs) w = do { (_, w) \<leftarrow> writer (Some [b]) 1 w; feed writer bs w }"

definition emit :: "u8 list \<Rightarrow> 'w debug \<Rightarrow> 'w debug defined" where
  "emit bs g = (case dbg_writer g of
      None \<Rightarrow> Some g
    | Some writer \<Rightarrow> do { w \<leftarrow> feed writer bs (dbg_world g); Some (g\<lparr>dbg_world := w\<rparr>) })"

lemma feed_append: "feed writer (xs @ ys) w = do { w \<leftarrow> feed writer xs w; feed writer ys w }"
  by (induction xs arbitrary: w) (simp_all split: Option.bind_splits prod.splits)

lemma emit_append: "do { g \<leftarrow> emit xs g; emit ys g } = emit (xs @ ys) g"
  by (simp add: emit_def feed_append split: option.splits Option.bind_splits)

lemma emit_Nil [simp]: "emit [] g = Some g"
  by (simp add: emit_def split: option.splits)

lemma write_byte_emit: "lib_boot_write_byte v g = emit [v] g"
  by (simp add: lib_boot_write_byte_def lib_debug_write_def emit_def
      split: option.splits Option.bind_splits prod.splits)

lemma text_loop_emit: "0 \<notin> set t \<Longrightarrow> boot_text_loop (t @ 0 # rest) g = emit t g"
proof (induction t arbitrary: g)
  case (Cons c t)
  then have "boot_text_loop ((c # t) @ 0 # rest) g = do { g \<leftarrow> emit [c] g; emit t g }"
    by (simp add: write_byte_emit cong: Option.bind_cong)
  then show ?case by (simp add: emit_append)
qed simp

lemma literal_emit: "0 \<notin> set t \<Longrightarrow> lib_boot_write_text (literal t) g = emit t g"
  using text_loop_emit [of t "[]" g] by (simp add: lib_boot_write_text_def literal_def)

section \<open>Properties\<close>

text \<open>Two decimal digits, and the banner that the build deserves.\<close>

definition two_digits :: "nat \<Rightarrow> u8 list" where
  "two_digits n = [of_nat (48 + n div 10), of_nat (48 + n mod 10)]"

definition banner_time :: "lib_buildinfo \<Rightarrow> u8 list" where
  "banner_time b = two_digits (bcd_value (bi_year_high b)) @ two_digits (bcd_value (bi_year_low b))
     @ ascii ''-'' @ two_digits (bcd_value (bi_month b)) @ ascii ''-'' @ two_digits (bcd_value (bi_day b))
     @ ascii ''T'' @ two_digits (bcd_value (bi_hour b)) @ ascii '':'' @ two_digits (bcd_value (bi_minute b))
     @ ascii ''Z''"

definition banner_build :: "lib_buildinfo option \<Rightarrow> u8 list" where
  "banner_build info =
     (case info of
        None \<Rightarrow> ascii '' build=invalid''
      | Some b \<Rightarrow>
          if lib_buildinfo_is_valid info
          then ascii '' v'' @ two_digits (bcd_value (bi_version_major b)) @ ascii ''.''
             @ two_digits (bcd_value (bi_version_minor b)) @ ascii '' build=''
             @ (if time_absent b then ascii ''unspecified'' else banner_time b)
          else ascii '' build=invalid'')"

definition banner_line :: "u8 list option \<Rightarrow> lib_buildinfo option \<Rightarrow> u8 list" where
  "banner_line name info = ascii ''mspm-baremetal: ''
     @ (case name of None \<Rightarrow> ascii ''unnamed'' | Some s \<Rightarrow> takeWhile (\<lambda>c. c \<noteq> 0) s)
     @ banner_build info @ crlf"

lemma write_bcd_emit:
  assumes "lib_buildinfo_is_bcd v"
  shows "lib_boot_write_bcd v g = emit (two_digits (bcd_value v)) g"
proof -
  obtain h l where v: "unat v = 16 * h + l" "h \<le> 9" "l \<le> 9" "bcd_value v = 10 * h + l"
    using assms by (rule bcd_nibbles)
  then have "drop_bit 4 v = of_nat h" "v AND 0x0f = of_nat l"
    using nibbles [of v] by (simp_all add: word_unat_eq_iff unat_of_nat)
  then have "two_digits (bcd_value v) = [0x30 + drop_bit 4 v] @ [0x30 + (v AND 0x0f)]"
    using v by (simp add: two_digits_def)
  moreover have "lib_boot_write_bcd v g = do { g \<leftarrow> emit [0x30 + drop_bit 4 v] g; emit [0x30 + (v AND 0x0f)] g }"
    unfolding lib_boot_write_bcd_def write_byte_emit ..
  ultimately show ?thesis using emit_append by metis
qed

lemma literals_emit:
  "lib_boot_write_text (literal (ascii ''mspm-baremetal: '')) = emit (ascii ''mspm-baremetal: '')"
  "lib_boot_write_text (literal (ascii ''unnamed'')) = emit (ascii ''unnamed'')"
  "lib_boot_write_text (literal (ascii '' build=invalid'' @ crlf)) = emit (ascii '' build=invalid'' @ crlf)"
  "lib_boot_write_text (literal (ascii '' v'')) = emit (ascii '' v'')"
  "lib_boot_write_text (literal (ascii '' build='')) = emit (ascii '' build='')"
  "lib_boot_write_text (literal (ascii ''unspecified'' @ crlf)) = emit (ascii ''unspecified'' @ crlf)"
  "lib_boot_write_text (literal (ascii ''Z'' @ crlf)) = emit (ascii ''Z'' @ crlf)"
  by (rule ext, simp add: literal_emit ascii_def crlf_def)+

lemma punctuation:
  "[0x2e] = ascii ''.''" "[0x2d] = ascii ''-''" "[0x54] = ascii ''T''" "[0x3a] = ascii '':''"
  by (simp_all add: ascii_def)

lemma name_emit:
  assumes "name = None \<or> (\<exists>s. name = Some s \<and> 0 \<in> set s)"
  shows "lib_boot_write_text (if name = None then literal (ascii ''unnamed'') else name) g
    = emit (case name of None \<Rightarrow> ascii ''unnamed'' | Some s \<Rightarrow> takeWhile (\<lambda>c. c \<noteq> 0) s) g"
proof (cases name)
  case (Some s)
  with assms have z: "0 \<in> set s" by simp
  have "dropWhile (\<lambda>c. c \<noteq> 0) s \<noteq> []" using z by (simp add: dropWhile_eq_Nil_conv)
  then have "s = takeWhile (\<lambda>c. c \<noteq> 0) s @ 0 # tl (dropWhile (\<lambda>c. c \<noteq> 0) s)"
    using hd_dropWhile [of "\<lambda>c. c \<noteq> 0" s] by (metis list.collapse takeWhile_dropWhile_id)
  moreover have "0 \<notin> set (takeWhile (\<lambda>c. c \<noteq> 0) s)" by (auto dest: set_takeWhileD)
  ultimately show ?thesis
    using text_loop_emit [of "takeWhile (\<lambda>c. c \<noteq> 0) s" "tl (dropWhile (\<lambda>c. c \<noteq> 0) s)" g] Some
    by (simp add: lib_boot_write_text_def)
qed (simp add: literals_emit)

lemma valid_build_is_bcd:
  assumes "lib_buildinfo_is_valid (Some b)"
  shows "lib_buildinfo_is_bcd (bi_version_major b)" "lib_buildinfo_is_bcd (bi_version_minor b)"
    "lib_buildinfo_has_timestamp (Some b) \<Longrightarrow> lib_buildinfo_is_bcd (bi_year_high b) \<and> lib_buildinfo_is_bcd (bi_year_low b)
      \<and> lib_buildinfo_is_bcd (bi_month b) \<and> lib_buildinfo_is_bcd (bi_day b) \<and> lib_buildinfo_is_bcd (bi_hour b)
      \<and> lib_buildinfo_is_bcd (bi_minute b)"
  using assms by (auto simp: lib_buildinfo_is_valid_def split: if_splits)

lemma has_timestamp_absent: "lib_buildinfo_has_timestamp (Some b) \<longleftrightarrow> \<not> time_absent b"
  by (auto simp: lib_buildinfo_has_timestamp_def time_absent_def)

lemma banner_emit:
  assumes "name = None \<or> (\<exists>s. name = Some s \<and> 0 \<in> set s)"
  shows "lib_boot_write_banner name info g = emit (banner_line name info) g"
proof (cases "lib_buildinfo_is_valid info")
  case False
  then show ?thesis
    by (cases info) (simp_all add: lib_boot_write_banner_def name_emit [OF assms] literals_emit emit_append
        banner_line_def banner_build_def)
next
  case True
  then obtain b where b: "info = Some b" "lib_buildinfo_is_valid (Some b)"
    by (cases info) (auto simp: lib_buildinfo_is_valid_def)
  show ?thesis
  proof (cases "time_absent b")
    case True
    with b show ?thesis
      by (simp add: lib_boot_write_banner_def name_emit [OF assms] literals_emit write_byte_emit
          write_bcd_emit valid_build_is_bcd [OF b(2)] has_timestamp_absent emit_append
          banner_line_def banner_build_def punctuation)
  next
    case False
    with b valid_build_is_bcd [OF b(2)] show ?thesis
      by (simp add: lib_boot_write_banner_def name_emit [OF assms] literals_emit write_byte_emit
          write_bcd_emit has_timestamp_absent emit_append
          banner_line_def banner_build_def banner_time_def punctuation)
  qed
qed

text \<open>C21. The boot banner: for every build, valid or not, and every name that is a terminated string or
  null, the banner is defined and sends the writer, one byte at a time, exactly the line
  "mspm-baremetal: NAME vMM.mm build=YYYY-MM-DDThh:mmZ" with the version and time in decimal, or
  "build=unspecified" without a time, or "build=invalid"; with no writer it does nothing.\<close>

theorem boot_banner_line:
  assumes "name = None \<or> (\<exists>s. name = Some s \<and> 0 \<in> set s)"
  shows "lib_boot_write_banner name info g = (case dbg_writer g of
      None \<Rightarrow> Some g
    | Some writer \<Rightarrow> do { w \<leftarrow> feed writer (banner_line name info) (dbg_world g); Some (g\<lparr>dbg_world := w\<rparr>) })"
  by (simp add: banner_emit [OF assms] emit_def)

text \<open>A writer that keeps what it is given.\<close>

definition recorder :: "u8 list debug_writer" where
  "recorder data n w = (case data of None \<Rightarrow> None | Some bs \<Rightarrow> Some (n, w @ take (unat n) bs))"

lemma feed_recorder: "feed recorder bs w = Some (w @ bs)"
  by (induction bs arbitrary: w) (simp_all add: recorder_def)

theorem boot_banner_line_witness:
  "lib_boot_write_banner (Some (ascii ''blink'' @ [0])) (Some demo_build) \<lparr>dbg_writer = Some recorder, dbg_world = []\<rparr>
    = Some \<lparr>dbg_writer = Some recorder,
        dbg_world = ascii ''mspm-baremetal: blink v01.42 build=2026-07-31T23:59Z'' @ crlf\<rparr>"
proof -
  have "banner_line (Some (ascii ''blink'' @ [0])) (Some demo_build)
      = ascii ''mspm-baremetal: blink v01.42 build=2026-07-31T23:59Z'' @ crlf"
    using demo_build_valid
    by (simp add: banner_line_def banner_build_def time_absent_def demo_build_def banner_time_def
        two_digits_def bcd_value_def ascii_def)
  then show ?thesis
    using boot_banner_line [of "Some (ascii ''blink'' @ [0])" "Some demo_build"
        "\<lparr>dbg_writer = Some recorder, dbg_world = []\<rparr>"]
    by (simp add: feed_recorder)
qed

end
