(* ===== verification/Crash_Record.thy ===== *)
theory Crash_Record
  imports Mmio
begin

text \<open>
  \<open>lib/lib_crash.c\<close>: the crash record that survives a reset in \<open>.noinit\<close> memory, protected by a magic
  word and a CRC-32 over its other fields, and the big-endian image of it that the register map
  shows. The CRC reads the record as bytes, which on this little-endian core are the low bytes of
  each field first.
\<close>

section \<open>State\<close>

definition LIB_CRASH_MAGIC :: u32 where "LIB_CRASH_MAGIC = 0x43525348"
definition LIB_CRASH_FORMAT_VERSION :: u16 where "LIB_CRASH_FORMAT_VERSION = 2"
definition LIB_CRASH_RECORD_SIZE :: u16 where "LIB_CRASH_RECORD_SIZE = 32"
definition LIB_CRASH_REGISTER_IMAGE_SIZE :: u32 where "LIB_CRASH_REGISTER_IMAGE_SIZE = 24"
definition LIB_CRASH_REASON_CODE_MASK :: u32 where "LIB_CRASH_REASON_CODE_MASK = 0x000000ff"
definition LIB_CRASH_EXCEPTION_NUMBER_SHIFT :: nat where "LIB_CRASH_EXCEPTION_NUMBER_SHIFT = 8"
definition LIB_CRASH_EXCEPTION_NUMBER_MASK :: u32 where "LIB_CRASH_EXCEPTION_NUMBER_MASK = 0x00ffffff"

text \<open>The reasons are a C enumeration whose values come from retained memory and from assembly: numbers.\<close>

definition LIB_CRASH_REASON_NONE :: u32 where "LIB_CRASH_REASON_NONE = 0"
definition LIB_CRASH_REASON_NMI :: u32 where "LIB_CRASH_REASON_NMI = 1"
definition LIB_CRASH_REASON_HARDFAULT :: u32 where "LIB_CRASH_REASON_HARDFAULT = 2"
definition LIB_CRASH_REASON_UNEXPECTED_EXCEPTION :: u32 where "LIB_CRASH_REASON_UNEXPECTED_EXCEPTION = 3"

lemmas crash_consts = LIB_CRASH_MAGIC_def LIB_CRASH_FORMAT_VERSION_def LIB_CRASH_RECORD_SIZE_def
  LIB_CRASH_REGISTER_IMAGE_SIZE_def LIB_CRASH_REASON_CODE_MASK_def LIB_CRASH_EXCEPTION_NUMBER_SHIFT_def
  LIB_CRASH_EXCEPTION_NUMBER_MASK_def LIB_CRASH_REASON_NONE_def LIB_CRASH_REASON_NMI_def
  LIB_CRASH_REASON_HARDFAULT_def LIB_CRASH_REASON_UNEXPECTED_EXCEPTION_def

record lib_crash_record =
  cr_magic :: u32
  cr_format_version :: u16
  cr_record_size :: u16
  cr_sequence :: u32
  cr_reset_cause :: u32
  cr_reason :: u32
  cr_stacked_pc :: u32
  cr_stacked_xpsr :: u32
  cr_integrity_crc32 :: u32

record lib_crash_snapshot =
  cs_reason :: u32
  cs_sequence :: u32
  cs_reset_cause :: u32
  cs_exception_number :: u32
  cs_stacked_pc :: u32
  cs_stacked_xpsr :: u32

section \<open>Operations\<close>

definition u16_bytes :: "u16 \<Rightarrow> u8 list" where
  "u16_bytes v = [ucast v, ucast (drop_bit 8 v)]"

definition u32_bytes :: "u32 \<Rightarrow> u8 list" where
  "u32_bytes v = [ucast v, ucast (drop_bit 8 v), ucast (drop_bit 16 v), ucast (drop_bit 24 v)]"

text \<open>The bytes from \<open>format_version\<close> up to \<open>integrity_crc32\<close>.\<close>

definition crash_bytes :: "lib_crash_record \<Rightarrow> u8 list" where
  "crash_bytes r = u16_bytes (cr_format_version r) @ u16_bytes (cr_record_size r)
     @ u32_bytes (cr_sequence r) @ u32_bytes (cr_reset_cause r) @ u32_bytes (cr_reason r)
     @ u32_bytes (cr_stacked_pc r) @ u32_bytes (cr_stacked_xpsr r)"

definition crc_bit :: "u32 \<Rightarrow> u32" where
  "crc_bit crc = drop_bit 1 crc XOR (if crc AND 1 \<noteq> 0 then 0xEDB88320 else 0)"

primrec crc_bits :: "nat \<Rightarrow> u32 \<Rightarrow> u32" where
  "crc_bits 0 crc = crc"
| "crc_bits (Suc n) crc = crc_bits n (crc_bit crc)"

fun crc_loop :: "u8 list \<Rightarrow> u32 \<Rightarrow> u32" where
  "crc_loop [] crc = crc"
| "crc_loop (b # bs) crc = crc_loop bs (crc_bits 8 (crc XOR ucast b))"

definition lib_crash_crc32 :: "lib_crash_record \<Rightarrow> u32" where
  "lib_crash_crc32 r = NOT (crc_loop (crash_bytes r) 0xffffffff)"

definition lib_crash_commit :: "lib_crash_record \<Rightarrow> lib_crash_record" where
  "lib_crash_commit r =
     (let r = r\<lparr>cr_magic := 0\<rparr>;
          r = r\<lparr>cr_format_version := LIB_CRASH_FORMAT_VERSION, cr_record_size := LIB_CRASH_RECORD_SIZE\<rparr>;
          r = r\<lparr>cr_integrity_crc32 := lib_crash_crc32 r\<rparr>
      in r\<lparr>cr_magic := LIB_CRASH_MAGIC\<rparr>)"

definition lib_crash_clear_record :: "lib_crash_record \<Rightarrow> lib_crash_record" where
  "lib_crash_clear_record r =
     r\<lparr>cr_magic := 0, cr_format_version := 0, cr_record_size := 0, cr_sequence := 0, cr_reset_cause := 0,
       cr_reason := LIB_CRASH_REASON_NONE, cr_stacked_pc := 0, cr_stacked_xpsr := 0, cr_integrity_crc32 := 0\<rparr>"

definition lib_crash_pack_reason :: "u32 \<Rightarrow> u32 \<Rightarrow> u32" where
  "lib_crash_pack_reason reason exception_number =
     push_bit LIB_CRASH_EXCEPTION_NUMBER_SHIFT (exception_number AND LIB_CRASH_EXCEPTION_NUMBER_MASK)
     OR (reason AND LIB_CRASH_REASON_CODE_MASK)"

definition lib_crash_reason_code_is_valid :: "u32 \<Rightarrow> bool" where
  "lib_crash_reason_code_is_valid reason_code \<longleftrightarrow>
     reason_code = LIB_CRASH_REASON_NONE \<or> reason_code = LIB_CRASH_REASON_NMI
     \<or> reason_code = LIB_CRASH_REASON_HARDFAULT \<or> reason_code = LIB_CRASH_REASON_UNEXPECTED_EXCEPTION"

definition lib_crash_is_valid :: "lib_crash_record option \<Rightarrow> bool" where
  "lib_crash_is_valid record =
     (case record of
        None \<Rightarrow> False
      | Some r \<Rightarrow>
          if cr_magic r \<noteq> LIB_CRASH_MAGIC \<or> cr_format_version r \<noteq> LIB_CRASH_FORMAT_VERSION
             \<or> cr_record_size r \<noteq> LIB_CRASH_RECORD_SIZE
          then False
          else lib_crash_reason_code_is_valid (cr_reason r AND LIB_CRASH_REASON_CODE_MASK)
               \<and> cr_integrity_crc32 r = lib_crash_crc32 r)"

definition lib_crash_reason :: "lib_crash_record option \<Rightarrow> u32" where
  "lib_crash_reason record =
     (case record of
        None \<Rightarrow> LIB_CRASH_REASON_NONE
      | Some r \<Rightarrow> if \<not> lib_crash_is_valid record then LIB_CRASH_REASON_NONE
                  else cr_reason r AND LIB_CRASH_REASON_CODE_MASK)"

definition lib_crash_has_fault :: "lib_crash_record option \<Rightarrow> bool" where
  "lib_crash_has_fault record \<longleftrightarrow> lib_crash_reason record \<noteq> LIB_CRASH_REASON_NONE"

definition lib_crash_exception_number :: "lib_crash_record option \<Rightarrow> u32" where
  "lib_crash_exception_number record =
     (case record of
        None \<Rightarrow> 0
      | Some r \<Rightarrow> if \<not> lib_crash_is_valid record then 0
                  else drop_bit LIB_CRASH_EXCEPTION_NUMBER_SHIFT (cr_reason r))"

definition zero_snapshot :: lib_crash_snapshot where
  "zero_snapshot = \<lparr>cs_reason = 0, cs_sequence = 0, cs_reset_cause = 0, cs_exception_number = 0,
     cs_stacked_pc = 0, cs_stacked_xpsr = 0\<rparr>"

definition lib_crash_decode ::
  "lib_crash_record option \<Rightarrow> lib_crash_snapshot option \<Rightarrow> bool \<times> lib_crash_snapshot option" where
  "lib_crash_decode record snapshot =
     (case snapshot of
        None \<Rightarrow> (False, None)
      | Some _ \<Rightarrow>
          (case record of
             None \<Rightarrow> (False, Some zero_snapshot)
           | Some r \<Rightarrow>
               if \<not> lib_crash_is_valid record then (False, Some zero_snapshot)
               else (True, Some \<lparr>cs_reason = cr_reason r AND LIB_CRASH_REASON_CODE_MASK,
                       cs_sequence = cr_sequence r, cs_reset_cause = cr_reset_cause r,
                       cs_exception_number = drop_bit LIB_CRASH_EXCEPTION_NUMBER_SHIFT (cr_reason r),
                       cs_stacked_pc = cr_stacked_pc r, cs_stacked_xpsr = cr_stacked_xpsr r\<rparr>)))"

text \<open>\<open>lib_crash_write_u32_be (&bytes[at], value)\<close>.\<close>

definition lib_crash_write_u32_be :: "u8 list \<Rightarrow> nat \<Rightarrow> u32 \<Rightarrow> u8 list defined" where
  "lib_crash_write_u32_be bytes at v = do {
     bytes \<leftarrow> array_write bytes at (ucast (drop_bit 24 v));
     bytes \<leftarrow> array_write bytes (at + 1) (ucast (drop_bit 16 v));
     bytes \<leftarrow> array_write bytes (at + 2) (ucast (drop_bit 8 v));
     array_write bytes (at + 3) (ucast v)
   }"

fun zero_bytes :: "nat \<Rightarrow> nat \<Rightarrow> u8 list \<Rightarrow> u8 list defined" where
  "zero_bytes index 0 bytes = Some bytes"
| "zero_bytes index (Suc remaining) bytes = do {
     bytes \<leftarrow> array_write bytes index 0;
     zero_bytes (Suc index) remaining bytes
   }"

definition lib_crash_write_register_image ::
  "lib_crash_record option \<Rightarrow> u8 list option \<Rightarrow> u32 \<Rightarrow> (bool \<times> u8 list option) defined" where
  "lib_crash_write_register_image record bytes n =
     (case bytes of
        None \<Rightarrow> Some (False, None)
      | Some bs \<Rightarrow>
          if n < LIB_CRASH_REGISTER_IMAGE_SIZE then Some (False, bytes)
          else do {
            bs \<leftarrow> zero_bytes 0 (unat LIB_CRASH_REGISTER_IMAGE_SIZE) bs;
            (case lib_crash_decode record (Some zero_snapshot) of
               (True, Some s) \<Rightarrow> do {
                 bs \<leftarrow> array_write bs 0 1;
                 bs \<leftarrow> array_write bs 1 (ucast (cs_reason s));
                 bs \<leftarrow> array_write bs 2 (ucast (drop_bit 8 LIB_CRASH_FORMAT_VERSION));
                 bs \<leftarrow> array_write bs 3 (ucast LIB_CRASH_FORMAT_VERSION);
                 bs \<leftarrow> lib_crash_write_u32_be bs 4 (cs_sequence s);
                 bs \<leftarrow> lib_crash_write_u32_be bs 8 (cs_reset_cause s);
                 bs \<leftarrow> lib_crash_write_u32_be bs 12 (cs_exception_number s);
                 bs \<leftarrow> lib_crash_write_u32_be bs 16 (cs_stacked_pc s);
                 bs \<leftarrow> lib_crash_write_u32_be bs 20 (cs_stacked_xpsr s);
                 Some (True, Some bs)
               }
             | _ \<Rightarrow> Some (False, Some bs))
          })"

definition lib_crash_note_boot :: "lib_crash_record option \<Rightarrow> u32 \<Rightarrow> lib_crash_record option" where
  "lib_crash_note_boot record reset_cause =
     (case record of
        None \<Rightarrow> None
      | Some r \<Rightarrow>
          let r = (if \<not> lib_crash_is_valid (Some r) then lib_crash_clear_record r else r);
              r = r\<lparr>cr_reset_cause := reset_cause\<rparr>
          in Some (lib_crash_commit r))"

definition lib_crash_capture ::
  "lib_crash_record option \<Rightarrow> u32 \<Rightarrow> u32 \<Rightarrow> u32 \<Rightarrow> u32 \<Rightarrow> lib_crash_record option" where
  "lib_crash_capture record reason exception_number stacked_pc stacked_xpsr =
     (case record of
        None \<Rightarrow> None
      | Some r \<Rightarrow>
          let (sequence, reset_cause) =
                (if lib_crash_is_valid (Some r) then (cr_sequence r, cr_reset_cause r) else (0, 0));
              r = lib_crash_clear_record r;
              r = r\<lparr>cr_sequence := sequence + 1, cr_reset_cause := reset_cause\<rparr>;
              reason = (if reason = LIB_CRASH_REASON_NONE \<or> \<not> lib_crash_reason_code_is_valid reason
                        then LIB_CRASH_REASON_UNEXPECTED_EXCEPTION else reason);
              r = r\<lparr>cr_reason := lib_crash_pack_reason reason exception_number,
                    cr_stacked_pc := stacked_pc, cr_stacked_xpsr := stacked_xpsr\<rparr>
          in Some (lib_crash_commit r))"

section \<open>The stores behind an update\<close>

text \<open>
  The record lives in memory that survives a reset, and a reset can come between any two stores of
  \<open>lib_crash_note_boot\<close> and \<open>lib_crash_capture\<close>. These are their stores one by one, in the order of
  the code (the compiler keeps those to \<open>magic\<close> in place: each has a fence).
\<close>

type_synonym crash_store = "lib_crash_record \<Rightarrow> lib_crash_record"

definition crash_clear_stores :: "crash_store list" where
  "crash_clear_stores = [\<lambda>r. r\<lparr>cr_magic := 0\<rparr>, \<lambda>r. r\<lparr>cr_format_version := 0\<rparr>,
     \<lambda>r. r\<lparr>cr_record_size := 0\<rparr>, \<lambda>r. r\<lparr>cr_sequence := 0\<rparr>, \<lambda>r. r\<lparr>cr_reset_cause := 0\<rparr>,
     \<lambda>r. r\<lparr>cr_reason := LIB_CRASH_REASON_NONE\<rparr>, \<lambda>r. r\<lparr>cr_stacked_pc := 0\<rparr>,
     \<lambda>r. r\<lparr>cr_stacked_xpsr := 0\<rparr>, \<lambda>r. r\<lparr>cr_integrity_crc32 := 0\<rparr>]"

definition crash_commit_stores :: "crash_store list" where
  "crash_commit_stores = [\<lambda>r. r\<lparr>cr_magic := 0\<rparr>, \<lambda>r. r\<lparr>cr_format_version := LIB_CRASH_FORMAT_VERSION\<rparr>,
     \<lambda>r. r\<lparr>cr_record_size := LIB_CRASH_RECORD_SIZE\<rparr>,
     \<lambda>r. r\<lparr>cr_integrity_crc32 := lib_crash_crc32 r\<rparr>, \<lambda>r. r\<lparr>cr_magic := LIB_CRASH_MAGIC\<rparr>]"

definition crash_note_boot_stores :: "lib_crash_record \<Rightarrow> u32 \<Rightarrow> crash_store list" where
  "crash_note_boot_stores r reset_cause =
     (if \<not> lib_crash_is_valid (Some r) then crash_clear_stores else [])
     @ [\<lambda>r. r\<lparr>cr_reset_cause := reset_cause\<rparr>] @ crash_commit_stores"

definition crash_capture_stores ::
  "lib_crash_record \<Rightarrow> u32 \<Rightarrow> u32 \<Rightarrow> u32 \<Rightarrow> u32 \<Rightarrow> crash_store list" where
  "crash_capture_stores r reason exception_number stacked_pc stacked_xpsr =
     (let (sequence, reset_cause) =
            (if lib_crash_is_valid (Some r) then (cr_sequence r, cr_reset_cause r) else (0, 0));
          reason = (if reason = LIB_CRASH_REASON_NONE \<or> \<not> lib_crash_reason_code_is_valid reason
                    then LIB_CRASH_REASON_UNEXPECTED_EXCEPTION else reason)
      in crash_clear_stores
         @ [\<lambda>r. r\<lparr>cr_sequence := sequence + 1\<rparr>, \<lambda>r. r\<lparr>cr_reset_cause := reset_cause\<rparr>,
            \<lambda>r. r\<lparr>cr_reason := lib_crash_pack_reason reason exception_number\<rparr>,
            \<lambda>r. r\<lparr>cr_stacked_pc := stacked_pc\<rparr>, \<lambda>r. r\<lparr>cr_stacked_xpsr := stacked_xpsr\<rparr>]
         @ crash_commit_stores)"

text \<open>The record a reset may find: before the first store, and after each.\<close>

fun crash_images :: "crash_store list \<Rightarrow> lib_crash_record \<Rightarrow> lib_crash_record list" where
  "crash_images [] r = [r]"
| "crash_images (f # fs) r = r # crash_images fs (f r)"

section \<open>The checksum\<close>

text \<open>One step of the CRC is injective: the top bit of the polynomial carries the bit shifted out.\<close>

lemma bit_crc_bit_top: "bit (crc_bit crc) 31 \<longleftrightarrow> odd crc"
  by (cases "odd crc") (auto simp: crc_bit_def and_one_eq mod_2_eq_odd bit_xor_iff bit_drop_bit_eq
      dest: bit_imp_le_length)

lemma xor_right_cancel: "a XOR x = b XOR x \<longleftrightarrow> a = b" for a b x :: "'a::len word"
proof
  assume "a XOR x = b XOR x"
  then have "(a XOR x) XOR x = (b XOR x) XOR x" by simp
  then show "a = b" by (simp add: xor.assoc)
qed simp

lemma inj_crc_bit: "crc_bit a = crc_bit b \<longleftrightarrow> a = b"
proof
  assume eq: "crc_bit a = crc_bit b"
  then have low: "odd a \<longleftrightarrow> odd b" by (metis bit_crc_bit_top)
  have "drop_bit 1 a = drop_bit 1 b"
  proof -
    define p :: u32 where "p = (if odd a then 0xEDB88320 else 0)"
    have "crc_bit a = drop_bit 1 a XOR p" "crc_bit b = drop_bit 1 b XOR p"
      using low by (simp_all add: crc_bit_def p_def and_one_eq mod_2_eq_odd)
    with eq show ?thesis by (simp add: xor_right_cancel)
  qed
  then have high: "bit a (Suc n) \<longleftrightarrow> bit b (Suc n)" for n
    by (metis bit_drop_bit_eq comp_apply plus_1_eq_Suc)
  show "a = b"
  proof (rule bit_word_eqI)
    fix n
    show "bit a n \<longleftrightarrow> bit b n" using low high by (cases n) (simp_all add: bit_0)
  qed
qed simp

lemma inj_crc_bits: "crc_bits n a = crc_bits n b \<longleftrightarrow> a = b"
  by (induction n arbitrary: a b) (simp_all add: inj_crc_bit)

lemma inj_crc_loop: "crc_loop bs a = crc_loop bs b \<longleftrightarrow> a = b"
proof (induction bs arbitrary: a b)
  case (Cons x bs)
  then show ?case by (simp add: inj_crc_bits xor_right_cancel)
qed simp

lemma crc_loop_append: "crc_loop (xs @ ys) crc = crc_loop ys (crc_loop xs crc)"
  by (induction xs arbitrary: crc) simp_all

text \<open>One step is linear too, so that the four bytes of a word go through the CRC as the word does.\<close>

lemma crc_bit_xor: "crc_bit (a XOR b) = crc_bit a XOR crc_bit b"
  by (rule bit_word_eqI)
    (auto simp: crc_bit_def and_one_eq mod_2_eq_odd bit_xor_iff bit_drop_bit_eq even_xor_iff)

lemma crc_bits_xor: "crc_bits n (a XOR b) = crc_bits n a XOR crc_bits n b"
  by (induction n arbitrary: a b) (simp_all add: crc_bit_xor)

lemma crc_bits_add: "crc_bits (m + n) crc = crc_bits n (crc_bits m crc)"
  by (induction m arbitrary: crc) simp_all

lemma crc_bits_shift: "crc_bits n (push_bit n (drop_bit n v)) = drop_bit n v"
proof (induction n arbitrary: v)
  case (Suc n)
  have "crc_bit (push_bit (Suc n) (drop_bit (Suc n) v)) = drop_bit 1 (push_bit (Suc n) (drop_bit (Suc n) v))"
    by (simp add: crc_bit_def and_one_eq mod_2_eq_odd even_push_bit_iff)
  also have "\<dots> = push_bit n (drop_bit n (drop_bit 1 v))"
    by (rule bit_word_eqI)
      (auto simp: bit_drop_bit_eq bit_push_bit_iff Suc_diff_le simp del: push_bit_Suc drop_bit_Suc
        dest: bit_imp_le_length)
  finally show ?case using Suc.IH [of "drop_bit 1 v"] by (simp del: push_bit_Suc)
qed simp

lemma low_byte_xor: "v = ucast (ucast v :: u8) XOR push_bit 8 (drop_bit 8 v)" for v :: u32
  by (rule bit_word_eqI) (auto simp: bit_xor_iff bit_unsigned_iff bit_push_bit_iff bit_drop_bit_eq)

lemma crc_word_byte:
  "crc_bits (8 + n) (crc XOR v) = crc_bits n (crc_bits 8 (crc XOR ucast (ucast v :: u8)) XOR drop_bit 8 v)"
proof -
  have "crc XOR v = (crc XOR ucast (ucast v :: u8)) XOR push_bit 8 (drop_bit 8 v)"
    using low_byte_xor [of v] by (simp add: xor.assoc)
  then have "crc_bits 8 (crc XOR v) = crc_bits 8 (crc XOR ucast (ucast v :: u8)) XOR drop_bit 8 v"
    by (simp only: crc_bits_xor crc_bits_shift)
  then show ?thesis by (simp only: crc_bits_add)
qed

lemma crc_loop_word: "crc_loop (u32_bytes v) crc = crc_bits 32 (crc XOR v)"
proof -
  have "crc_bits 32 (crc XOR v) = crc_loop (u32_bytes v) crc XOR drop_bit 32 v"
    using crc_word_byte [of 24 crc v] crc_word_byte [of 16 _ "drop_bit 8 v"]
      crc_word_byte [of 8 _ "drop_bit 16 v"] crc_word_byte [of 0 _ "drop_bit 24 v"]
    by (simp add: u32_bytes_def)
  moreover have "drop_bit 32 v = 0"
    by (rule bit_word_eqI) (auto simp: bit_drop_bit_eq dest: bit_imp_le_length)
  ultimately show ?thesis by simp
qed

text \<open>Every four bytes are those of a word.\<close>

lemma u32_bytes_surj:
  assumes "length bs = 4"
  obtains v where "bs = u32_bytes v"
proof -
  obtain a b c d where bs: "bs = [a, b, c, d]"
    using assms by (auto simp: numeral_eq_Suc length_Suc_conv)
  let ?v = "push_bit 24 (ucast d) OR push_bit 16 (ucast c) OR push_bit 8 (ucast b) OR ucast a :: u32"
  have "ucast ?v = a" "ucast (drop_bit 8 ?v) = b" "ucast (drop_bit 16 ?v) = c" "ucast (drop_bit 24 ?v) = d"
    by (rule bit_word_eqI; auto simp: bit_or_iff bit_push_bit_iff bit_unsigned_iff bit_drop_bit_eq
        dest: bit_imp_le_length)+
  then show ?thesis using that [of ?v] by (simp add: bs u32_bytes_def)
qed

lemma crc_loop_burst:
  "crc_loop (pre @ u32_bytes v @ post) crc = crc_loop (pre @ u32_bytes w @ post) crc \<longleftrightarrow> v = w"
  by (simp add: crc_loop_append inj_crc_loop crc_loop_word inj_crc_bits xor.commute [of _ v]
      xor.commute [of _ w] xor_right_cancel)

section \<open>Records that were committed\<close>

lemma crash_bytes_fields [simp]:
  "crash_bytes (r\<lparr>cr_magic := x\<rparr>) = crash_bytes r"
  "crash_bytes (r\<lparr>cr_integrity_crc32 := y\<rparr>) = crash_bytes r"
  by (simp_all add: crash_bytes_def)

lemma crc32_fields [simp]:
  "lib_crash_crc32 (r\<lparr>cr_magic := x\<rparr>) = lib_crash_crc32 r"
  "lib_crash_crc32 (r\<lparr>cr_integrity_crc32 := y\<rparr>) = lib_crash_crc32 r"
  by (simp_all add: lib_crash_crc32_def)

lemma commit_fields [simp]:
  "cr_sequence (lib_crash_commit r) = cr_sequence r" "cr_reset_cause (lib_crash_commit r) = cr_reset_cause r"
  "cr_reason (lib_crash_commit r) = cr_reason r" "cr_stacked_pc (lib_crash_commit r) = cr_stacked_pc r"
  "cr_stacked_xpsr (lib_crash_commit r) = cr_stacked_xpsr r"
  by (simp_all add: lib_crash_commit_def Let_def)

lemma commit_valid [simp]:
  "lib_crash_is_valid (Some (lib_crash_commit r))
    \<longleftrightarrow> lib_crash_reason_code_is_valid (cr_reason r AND LIB_CRASH_REASON_CODE_MASK)"
  by (simp add: lib_crash_is_valid_def lib_crash_commit_def Let_def lib_crash_crc32_def crash_bytes_def)

lemma reason_code_cases:
  "lib_crash_reason_code_is_valid c \<longleftrightarrow> c \<in> {0, 1, 2, 3}"
  by (auto simp: lib_crash_reason_code_is_valid_def crash_consts)

lemma pack_reason_code [simp]:
  "lib_crash_pack_reason c e AND LIB_CRASH_REASON_CODE_MASK = c AND LIB_CRASH_REASON_CODE_MASK"
proof -
  have m: "(0xff :: u32) = mask 8" "(0x00ffffff :: u32) = mask 24" by (simp_all add: mask_eq_exp_minus_1)
  have "(push_bit 8 (e AND mask 24) OR (c AND mask 8)) AND mask 8 = c AND mask 8"
    by (rule bit_word_eqI) (auto simp: bit_or_iff bit_push_bit_iff bit_and_iff bit_mask_iff)
  then show ?thesis unfolding lib_crash_pack_reason_def crash_consts m .
qed

lemma pack_reason_exception [simp]:
  "drop_bit LIB_CRASH_EXCEPTION_NUMBER_SHIFT (lib_crash_pack_reason c e) = e AND LIB_CRASH_EXCEPTION_NUMBER_MASK"
proof -
  have m: "(0xff :: u32) = mask 8" "(0x00ffffff :: u32) = mask 24" by (simp_all add: mask_eq_exp_minus_1)
  have "drop_bit 8 (push_bit 8 (e AND mask 24) OR (c AND mask 8)) = e AND mask 24"
    by (rule bit_word_eqI) (auto simp: bit_drop_bit_eq bit_or_iff bit_push_bit_iff bit_and_iff bit_mask_iff)
  then show ?thesis unfolding lib_crash_pack_reason_def crash_consts m .
qed

definition recorded_reason :: "u32 \<Rightarrow> u32" where
  "recorded_reason reason = (if reason \<in> {1, 2, 3} then reason else 3)"

lemma capture_eq:
  "lib_crash_capture (Some r) reason exc pc xpsr = Some (lib_crash_commit (lib_crash_clear_record r\<lparr>
     cr_sequence := (if lib_crash_is_valid (Some r) then cr_sequence r else 0) + 1,
     cr_reset_cause := (if lib_crash_is_valid (Some r) then cr_reset_cause r else 0),
     cr_reason := lib_crash_pack_reason (recorded_reason reason) exc,
     cr_stacked_pc := pc, cr_stacked_xpsr := xpsr\<rparr>))"
proof -
  have "(if reason = LIB_CRASH_REASON_NONE \<or> \<not> lib_crash_reason_code_is_valid reason
      then LIB_CRASH_REASON_UNEXPECTED_EXCEPTION else reason) = recorded_reason reason"
    by (auto simp: recorded_reason_def reason_code_cases crash_consts)
  then show ?thesis by (simp add: lib_crash_capture_def Let_def)
qed

lemma recorded_reason_code:
  "recorded_reason c AND LIB_CRASH_REASON_CODE_MASK = recorded_reason c" "recorded_reason c \<in> {1, 2, 3}"
  by (auto simp: recorded_reason_def crash_consts)

text \<open>What a reset in the middle of an update can leave.\<close>

lemma not_valid_magic [simp]: "cr_magic r = 0 \<Longrightarrow> \<not> lib_crash_is_valid (Some r)"
  by (simp add: lib_crash_is_valid_def LIB_CRASH_MAGIC_def)

lemma new_cause_invalidates:
  assumes "lib_crash_is_valid (Some r)" "lib_crash_is_valid (Some (r\<lparr>cr_reset_cause := cause\<rparr>))"
  shows "r\<lparr>cr_reset_cause := cause\<rparr> = r"
proof -
  let ?pre = "u16_bytes (cr_format_version r) @ u16_bytes (cr_record_size r) @ u32_bytes (cr_sequence r)"
  let ?post = "u32_bytes (cr_reason r) @ u32_bytes (cr_stacked_pc r) @ u32_bytes (cr_stacked_xpsr r)"
  have "lib_crash_crc32 r = lib_crash_crc32 (r\<lparr>cr_reset_cause := cause\<rparr>)"
    using assms by (simp add: lib_crash_is_valid_def split: if_splits)
  then have "crc_loop (?pre @ u32_bytes (cr_reset_cause r) @ ?post) 0xffffffff
      = crc_loop (?pre @ u32_bytes cause @ ?post) 0xffffffff"
    by (simp add: lib_crash_crc32_def crash_bytes_def)
  then have "cr_reset_cause r = cause" by (simp only: crc_loop_burst)
  then show ?thesis by simp
qed

section \<open>The register image\<close>

definition be32 :: "u32 \<Rightarrow> u8 list" where
  "be32 v = [ucast (drop_bit 24 v), ucast (drop_bit 16 v), ucast (drop_bit 8 v), ucast v]"

lemma length_be32 [simp]: "length (be32 v) = 4"
  by (simp add: be32_def)

text \<open>Reading the four bytes back gives the word.\<close>

definition read_be32 :: "u8 list \<Rightarrow> nat \<Rightarrow> u32" where
  "read_be32 bs at = push_bit 24 (ucast (bs ! at)) OR push_bit 16 (ucast (bs ! (at + 1)))
     OR push_bit 8 (ucast (bs ! (at + 2))) OR ucast (bs ! (at + 3))"

lemma read_be32_bytes:
  "push_bit 24 (ucast (ucast (drop_bit 24 v) :: u8)) OR push_bit 16 (ucast (ucast (drop_bit 16 v) :: u8))
    OR push_bit 8 (ucast (ucast (drop_bit 8 v) :: u8)) OR ucast (ucast v :: u8) = (v :: u32)"
proof (rule bit_word_eqI)
  fix n :: nat
  assume "n < LENGTH(32)"
  then consider "n < 8" | "8 \<le> n" "n < 16" | "16 \<le> n" "n < 24" | "24 \<le> n" "n < 32" by fastforce
  then show "bit (push_bit 24 (ucast (ucast (drop_bit 24 v) :: u8)) OR push_bit 16 (ucast (ucast (drop_bit 16 v) :: u8))
      OR push_bit 8 (ucast (ucast (drop_bit 8 v) :: u8)) OR ucast (ucast v :: u8) :: u32) n \<longleftrightarrow> bit v n"
    by cases (auto simp: bit_or_iff bit_push_bit_iff bit_unsigned_iff bit_drop_bit_eq)
qed

lemma read_be32_at:
  assumes "length pre = at" "bs = pre @ be32 v @ post"
  shows "read_be32 bs at = v"
  using assms read_be32_bytes [of v] by (simp add: read_be32_def be32_def nth_append)

text \<open>The 24 bytes a valid record shows.\<close>

definition crash_image :: "lib_crash_record \<Rightarrow> u8 list" where
  "crash_image r = [1, ucast (cr_reason r AND LIB_CRASH_REASON_CODE_MASK), 0, 2]
     @ be32 (cr_sequence r) @ be32 (cr_reset_cause r)
     @ be32 (drop_bit LIB_CRASH_EXCEPTION_NUMBER_SHIFT (cr_reason r))
     @ be32 (cr_stacked_pc r) @ be32 (cr_stacked_xpsr r)"

lemma length_crash_image [simp]: "length (crash_image r) = 24"
  by (simp add: crash_image_def)

lemma zero_bytes_eq:
  "index + n \<le> length bs \<Longrightarrow> zero_bytes index n bs = Some (take index bs @ replicate n 0 @ drop (index + n) bs)"
proof (induction n arbitrary: index bs)
  case 0
  then show ?case by simp
next
  case (Suc n)
  then have "zero_bytes index (Suc n) bs = Some (take (Suc index) (bs[index := 0]) @ replicate n 0
      @ drop (Suc index + n) (bs[index := 0]))"
    by (simp add: array_write_in)
  moreover have "take (Suc index) (bs[index := 0]) = take index bs @ [0]"
    using Suc.prems by (simp add: take_Suc_conv_app_nth)
  ultimately show ?case by simp
qed

lemma write_u32_be_eq:
  assumes "length pre = at" "length mid = 4"
  shows "lib_crash_write_u32_be (pre @ mid @ post) at v = Some (pre @ be32 v @ post)"
proof -
  obtain a b c d where mid: "mid = [a, b, c, d]"
    using assms(2) by (auto simp: length_Suc_conv numeral_eq_Suc)
  show ?thesis
    using assms(1) unfolding mid lib_crash_write_u32_be_def be32_def
    by (auto simp: array_write_in list_update_append)
qed

lemma crash_image_written:
  assumes "length z = 24"
  shows "do {
       bs \<leftarrow> array_write (z @ rest) 0 1;
       bs \<leftarrow> array_write bs 1 code;
       bs \<leftarrow> array_write bs 2 0;
       bs \<leftarrow> array_write bs 3 2;
       bs \<leftarrow> lib_crash_write_u32_be bs 4 s;
       bs \<leftarrow> lib_crash_write_u32_be bs 8 c;
       bs \<leftarrow> lib_crash_write_u32_be bs 12 e;
       bs \<leftarrow> lib_crash_write_u32_be bs 16 p;
       lib_crash_write_u32_be bs 20 x
     } = Some (([1, code, 0, 2] @ be32 s @ be32 c @ be32 e @ be32 p @ be32 x) @ rest)"
proof -
  obtain z0 z1 z2 z3 z4 z5 where z: "z = z0 @ z1 @ z2 @ z3 @ z4 @ z5" "length z0 = 4" "length z1 = 4"
    "length z2 = 4" "length z3 = 4" "length z4 = 4" "length z5 = 4"
  proof
    show "z = take 4 z @ take 4 (drop 4 z) @ take 4 (drop 8 z) @ take 4 (drop 12 z) @ take 4 (drop 16 z) @ drop 20 z"
      by (simp flip: take_add add: append_assoc [symmetric] del: append_assoc) 
  qed (use assms in simp_all)
  obtain a0 a1 a2 a3 where z0: "z0 = [a0, a1, a2, a3]"
    using z(2) by (auto simp: length_Suc_conv numeral_eq_Suc)
  let ?h = "[1, code, 0, 2]"
  have h: "do { bs \<leftarrow> array_write (z @ rest) 0 1; bs \<leftarrow> array_write bs 1 code; bs \<leftarrow> array_write bs 2 0;
      array_write bs 3 2 } = Some (?h @ z1 @ z2 @ z3 @ z4 @ z5 @ rest)"
    by (simp add: z(1) z0 array_write_in numeral_2_eq_2 numeral_3_eq_3)
  note w = write_u32_be_eq
  have "lib_crash_write_u32_be (?h @ z1 @ z2 @ z3 @ z4 @ z5 @ rest) 4 s = Some (?h @ be32 s @ z2 @ z3 @ z4 @ z5 @ rest)"
    by (rule w) (simp_all add: z)
  moreover have "lib_crash_write_u32_be (?h @ be32 s @ z2 @ z3 @ z4 @ z5 @ rest) 8 c
      = Some (?h @ be32 s @ be32 c @ z3 @ z4 @ z5 @ rest)"
    using w [of "?h @ be32 s" 8 z2 "z3 @ z4 @ z5 @ rest" c] z by simp
  moreover have "lib_crash_write_u32_be (?h @ be32 s @ be32 c @ z3 @ z4 @ z5 @ rest) 12 e
      = Some (?h @ be32 s @ be32 c @ be32 e @ z4 @ z5 @ rest)"
    using w [of "?h @ be32 s @ be32 c" 12 z3 "z4 @ z5 @ rest" e] z by simp
  moreover have "lib_crash_write_u32_be (?h @ be32 s @ be32 c @ be32 e @ z4 @ z5 @ rest) 16 p
      = Some (?h @ be32 s @ be32 c @ be32 e @ be32 p @ z5 @ rest)"
    using w [of "?h @ be32 s @ be32 c @ be32 e" 16 z4 "z5 @ rest" p] z by simp
  moreover have "lib_crash_write_u32_be (?h @ be32 s @ be32 c @ be32 e @ be32 p @ z5 @ rest) 20 x
      = Some (?h @ be32 s @ be32 c @ be32 e @ be32 p @ be32 x @ rest)"
    using w [of "?h @ be32 s @ be32 c @ be32 e @ be32 p" 20 z5 rest x] z by simp
  ultimately show ?thesis
    using h by (auto simp: bind_eq_Some_conv simp del: append.simps)
qed

text \<open>What is written: the image of a valid record, zeros for any other.\<close>

lemma write_register_image_eq:
  assumes "24 \<le> length bs" "24 \<le> n"
  shows "lib_crash_write_register_image (Some r) (Some bs) n = Some (lib_crash_is_valid (Some r),
    Some ((if lib_crash_is_valid (Some r) then crash_image r else replicate 24 0) @ drop 24 bs))"
proof -
  have zero: "zero_bytes 0 24 bs = Some (replicate 24 0 @ drop 24 bs)"
    using zero_bytes_eq [of 0 24 bs] assms(1) by simp
  have n: "\<not> n < LIB_CRASH_REGISTER_IMAGE_SIZE" "unat LIB_CRASH_REGISTER_IMAGE_SIZE = 24"
    using assms(2) by (simp_all add: LIB_CRASH_REGISTER_IMAGE_SIZE_def not_less)
  show ?thesis
    using zero n crash_image_written [of "replicate 24 0" "drop 24 bs"
        "ucast (cr_reason r AND LIB_CRASH_REASON_CODE_MASK)" "cr_sequence r" "cr_reset_cause r"
        "drop_bit LIB_CRASH_EXCEPTION_NUMBER_SHIFT (cr_reason r)" "cr_stacked_pc r" "cr_stacked_xpsr r"]
    by (simp add: lib_crash_write_register_image_def lib_crash_decode_def LIB_CRASH_FORMAT_VERSION_def
        bind_assoc crash_image_def bind_eq_Some_conv)
qed

section \<open>Properties\<close>

text \<open>Capturing a fault always leaves a valid record of a fault, whatever the memory held before: it
  decodes to the reason given (an unknown or missing reason counts as an unexpected exception), the
  low 24 bits of the exception number, and the stacked PC and xPSR, with the sequence number one
  above that of a valid previous record (one after invalid memory) and its reset cause.\<close>

theorem crash_capture_is_decoded:
  "\<exists>r'. lib_crash_capture (Some r) reason exc pc xpsr = Some r'
    \<and> lib_crash_is_valid (Some r') \<and> lib_crash_has_fault (Some r')
    \<and> lib_crash_decode (Some r') (Some junk) = (True, Some
        \<lparr>cs_reason = (if reason \<in> {1, 2, 3} then reason else 3),
         cs_sequence = (if lib_crash_is_valid (Some r) then cr_sequence r else 0) + 1,
         cs_reset_cause = (if lib_crash_is_valid (Some r) then cr_reset_cause r else 0),
         cs_exception_number = exc AND 0x00ffffff, cs_stacked_pc = pc, cs_stacked_xpsr = xpsr\<rparr>)"
proof -
  have code: "lib_crash_reason_code_is_valid (recorded_reason reason)" "recorded_reason reason \<noteq> 0"
    by (auto simp: reason_code_cases recorded_reason_def)
  show ?thesis
    unfolding capture_eq
    using code by (simp add: lib_crash_decode_def lib_crash_has_fault_def lib_crash_reason_def
        recorded_reason_code(1) LIB_CRASH_REASON_NONE_def LIB_CRASH_EXCEPTION_NUMBER_MASK_def)
      (simp add: recorded_reason_def)
qed

text \<open>Noting a boot makes any record valid with the new reset cause. A valid record keeps its
  sequence, reason, exception number, PC and xPSR; anything else, power-on garbage included, becomes
  a record without a fault and with sequence zero.\<close>

theorem crash_note_boot_preserves_fault:
  "\<exists>r'. lib_crash_note_boot (Some r) cause = Some r' \<and> lib_crash_is_valid (Some r')
    \<and> lib_crash_decode (Some r') (Some junk) = (True, Some
        (if lib_crash_is_valid (Some r)
         then the (snd (lib_crash_decode (Some r) (Some junk)))\<lparr>cs_reset_cause := cause\<rparr>
         else zero_snapshot\<lparr>cs_reset_cause := cause\<rparr>))"
proof (cases "lib_crash_is_valid (Some r)")
  case True
  then have "lib_crash_reason_code_is_valid (cr_reason r AND LIB_CRASH_REASON_CODE_MASK)"
    by (simp add: lib_crash_is_valid_def split: if_splits)
  with True show ?thesis
    by (simp add: lib_crash_note_boot_def lib_crash_decode_def Let_def)
next
  case False
  have "lib_crash_reason_code_is_valid 0" by (simp add: reason_code_cases)
  with False show ?thesis
    by (simp add: lib_crash_note_boot_def lib_crash_decode_def Let_def lib_crash_clear_record_def
        zero_snapshot_def crash_consts)
qed

text \<open>C15. The register image round trip: into a buffer of at least 24 bytes the image of a valid record
  is written, from whose big-endian fields the snapshot that \<open>lib_crash_decode\<close> gives is read
  back; the image of anything else is 24 zeros. Bytes past the image are left alone, a shorter
  length or a null buffer is refused with no effect, and nothing is undefined.\<close>

theorem crash_register_image_round_trip:
  assumes "24 \<le> length bs" "24 \<le> n"
  shows "\<exists>bs'. lib_crash_write_register_image (Some r) (Some bs) n = Some (lib_crash_is_valid (Some r), Some bs')
    \<and> length bs' = length bs \<and> drop 24 bs' = drop 24 bs
    \<and> (if lib_crash_is_valid (Some r)
       then bs' ! 0 = 1 \<and> lib_crash_decode (Some r) (Some junk) = (True, Some
         \<lparr>cs_reason = ucast (bs' ! 1), cs_sequence = read_be32 bs' 4, cs_reset_cause = read_be32 bs' 8,
          cs_exception_number = read_be32 bs' 12, cs_stacked_pc = read_be32 bs' 16, cs_stacked_xpsr = read_be32 bs' 20\<rparr>)
       else take 24 bs' = replicate 24 0)
    \<and> (short < 24 \<longrightarrow> lib_crash_write_register_image (Some r) (Some bs) short = Some (False, Some bs))
    \<and> lib_crash_write_register_image (Some r) None n = Some (False, None)"
proof -
  have refused: "short < 24 \<longrightarrow> lib_crash_write_register_image (Some r) (Some bs) short = Some (False, Some bs)"
    "lib_crash_write_register_image (Some r) None n = Some (False, None)"
    by (simp_all add: lib_crash_write_register_image_def LIB_CRASH_REGISTER_IMAGE_SIZE_def)
  show ?thesis
  proof (cases "lib_crash_is_valid (Some r)")
    case False
    then show ?thesis
      using write_register_image_eq [OF assms, of r] assms(1) refused by (simp add: lib_crash_decode_def)
  next
    case True
    let ?bs = "crash_image r @ drop 24 bs"
    have "lib_crash_write_register_image (Some r) (Some bs) n = Some (True, Some ?bs)"
      using True write_register_image_eq [OF assms, of r] by simp
    moreover have "lib_crash_reason_code_is_valid (cr_reason r AND LIB_CRASH_REASON_CODE_MASK)"
      using True by (simp add: lib_crash_is_valid_def split: if_splits)
    then have "ucast (ucast (cr_reason r AND LIB_CRASH_REASON_CODE_MASK) :: u8) = cr_reason r AND LIB_CRASH_REASON_CODE_MASK"
      by (auto simp: reason_code_cases)
    moreover have "?bs ! 0 = 1" "?bs ! 1 = ucast (cr_reason r AND LIB_CRASH_REASON_CODE_MASK)"
      by (simp_all add: crash_image_def)
    moreover have "read_be32 ?bs 4 = cr_sequence r" "read_be32 ?bs 8 = cr_reset_cause r"
      "read_be32 ?bs 12 = drop_bit LIB_CRASH_EXCEPTION_NUMBER_SHIFT (cr_reason r)"
      "read_be32 ?bs 16 = cr_stacked_pc r" "read_be32 ?bs 20 = cr_stacked_xpsr r"
      by (simp_all add: read_be32_def crash_image_def be32_def nth_append read_be32_bytes del: drop_bit_drop_bit)
    moreover have "length ?bs = length bs" using assms(1) by simp
    ultimately show ?thesis
      using True refused by (simp add: lib_crash_decode_def)
  qed
qed

definition demo_crash :: lib_crash_record where
  "demo_crash = \<lparr>cr_magic = 0, cr_format_version = 0, cr_record_size = 0, cr_sequence = 0, cr_reset_cause = 0,
     cr_reason = 0, cr_stacked_pc = 0, cr_stacked_xpsr = 0, cr_integrity_crc32 = 0\<rparr>"

theorem crash_register_image_round_trip_witness:
  "\<exists>bs'. lib_crash_write_register_image (Some demo_crash) (Some (replicate 25 7)) 25 = Some (False, Some bs')
    \<and> take 24 bs' = replicate 24 0"
proof -
  have "\<not> lib_crash_is_valid (Some demo_crash)"
    by (simp add: lib_crash_is_valid_def demo_crash_def LIB_CRASH_MAGIC_def)
  with crash_register_image_round_trip [of "replicate 25 7" 25 demo_crash] show ?thesis by auto
qed

text \<open>C8. An update of the record survives a reset: whatever store of noting a boot or of capturing a
  fault the reset comes after, the record it leaves in memory is the one before the update, or the
  one the finished update leaves, or is not valid, so a boot never takes a half-written record for
  a fault.\<close>

theorem crash_update_survives_reset:
  assumes "r' \<in> set (crash_images (crash_note_boot_stores r cause) r)
    \<and> Some final = lib_crash_note_boot (Some r) cause
    \<or> r' \<in> set (crash_images (crash_capture_stores r reason exc pc xpsr) r)
    \<and> Some final = lib_crash_capture (Some r) reason exc pc xpsr"
  shows "r' = r \<or> r' = final \<or> \<not> lib_crash_is_valid (Some r')"
  using assms
proof (elim disjE conjE)
  assume r': "r' \<in> set (crash_images (crash_note_boot_stores r cause) r)"
    and final: "Some final = lib_crash_note_boot (Some r) cause"
  show ?thesis
  proof (cases "lib_crash_is_valid (Some r)")
    case False
    with r' final show ?thesis
      by (auto simp: crash_note_boot_stores_def crash_clear_stores_def crash_commit_stores_def
          lib_crash_note_boot_def lib_crash_commit_def lib_crash_clear_record_def Let_def)
  next
    case True
    with r' final show ?thesis
      by (auto simp: crash_note_boot_stores_def crash_commit_stores_def lib_crash_note_boot_def
          lib_crash_commit_def Let_def dest: new_cause_invalidates)
  qed
next
  assume r': "r' \<in> set (crash_images (crash_capture_stores r reason exc pc xpsr) r)"
    and final: "Some final = lib_crash_capture (Some r) reason exc pc xpsr"
  then show ?thesis
    by (auto simp: crash_capture_stores_def crash_clear_stores_def crash_commit_stores_def
        lib_crash_capture_def lib_crash_commit_def lib_crash_clear_record_def Let_def
        split: prod.splits if_splits)
qed

theorem crash_update_survives_reset_witness:
  "\<not> lib_crash_is_valid (Some (lib_crash_commit demo_crash\<lparr>cr_reset_cause := 9\<rparr>))"
proof -
  let ?r = "lib_crash_commit demo_crash"
  have v: "lib_crash_is_valid (Some ?r)" by (simp add: reason_code_cases demo_crash_def)
  obtain final where final: "Some final = lib_crash_note_boot (Some ?r) 9" "lib_crash_is_valid (Some final)"
    by (simp add: lib_crash_note_boot_def Let_def v reason_code_cases demo_crash_def)
  have "?r\<lparr>cr_reset_cause := 9\<rparr> \<in> set (crash_images (crash_note_boot_stores ?r 9) ?r)"
    using v by (simp add: crash_note_boot_stores_def crash_commit_stores_def)
  with final(1) have "?r\<lparr>cr_reset_cause := 9\<rparr> = ?r \<or> ?r\<lparr>cr_reset_cause := 9\<rparr> = final
      \<or> \<not> lib_crash_is_valid (Some (?r\<lparr>cr_reset_cause := 9\<rparr>))"
    by (intro crash_update_survives_reset [of _ ?r 9]) simp
  moreover have "?r\<lparr>cr_reset_cause := 9\<rparr> \<noteq> ?r"
  proof
    assume "?r\<lparr>cr_reset_cause := 9\<rparr> = ?r"
    then have "cr_reset_cause (?r\<lparr>cr_reset_cause := 9\<rparr>) = cr_reset_cause ?r" by (rule arg_cong)
    then show False by (simp add: demo_crash_def)
  qed
  ultimately show ?thesis using new_cause_invalidates [OF v] by blast
qed

text \<open>The bytes of the record in memory, in the order of its members, and where a valid one leaves the CRC register
  after its checksum went through it as well.\<close>

definition record_bytes :: "lib_crash_record \<Rightarrow> u8 list" where
  "record_bytes r = u32_bytes (cr_magic r) @ u16_bytes (cr_format_version r) @ u16_bytes (cr_record_size r)
     @ u32_bytes (cr_sequence r) @ u32_bytes (cr_reset_cause r) @ u32_bytes (cr_reason r)
     @ u32_bytes (cr_stacked_pc r) @ u32_bytes (cr_stacked_xpsr r) @ u32_bytes (cr_integrity_crc32 r)"

lemma record_bytes_checked: "record_bytes r = u32_bytes (cr_magic r) @ crash_bytes r @ u32_bytes (cr_integrity_crc32 r)"
  by (simp add: record_bytes_def crash_bytes_def)

lemma length_record_bytes: "length (record_bytes r) = unat LIB_CRASH_RECORD_SIZE"
  by (simp add: record_bytes_def u16_bytes_def u32_bytes_def LIB_CRASH_RECORD_SIZE_def)

lemma valid_residue:
  assumes "lib_crash_is_valid (Some r)"
  shows "crc_loop (crash_bytes r @ u32_bytes (cr_integrity_crc32 r)) 0xffffffff = crc_bits 32 (- 1)"
proof -
  have "cr_integrity_crc32 r = NOT (crc_loop (crash_bytes r) 0xffffffff)"
    using assms by (simp add: lib_crash_is_valid_def lib_crash_crc32_def split: if_splits)
  moreover have "c XOR NOT c = - 1" for c :: u32 by (rule bit_word_eqI) (simp add: bit_xor_iff bit_not_iff)
  ultimately show ?thesis by (simp only: crc_loop_append crc_loop_word)
qed

lemma valid_magic: "lib_crash_is_valid (Some r) \<Longrightarrow> cr_magic r = LIB_CRASH_MAGIC"
  by (simp add: lib_crash_is_valid_def split: if_splits)

text \<open>Some start value of the register reaches the checksum's own one behind the magic word.\<close>

lemma crc_loop_surj: "\<exists>a. crc_loop bs a = b"
proof -
  have "inj (crc_loop bs)" by (rule injI) (simp add: inj_crc_loop)
  then have "surj (crc_loop bs)" by (rule finite_UNIV_inj_surj [OF finite])
  then show ?thesis by (metis surjD)
qed

text \<open>C14. Every corruption confined to four consecutive bytes is detected, wherever in the 32 bytes of the record they
  lie: if a record is valid and another one differs from it in memory within four consecutive bytes, which may be or
  overlap the magic word and the stored checksum, the other is not valid.\<close>

theorem crash_corruption_detected:
  assumes "lib_crash_is_valid (Some r)" "record_bytes r = pre @ xs @ post" "record_bytes r' = pre @ ys @ post"
    "length xs = 4" "length ys = 4" "xs \<noteq> ys"
  shows "\<not> lib_crash_is_valid (Some r')"
proof
  assume valid: "lib_crash_is_valid (Some r')"
  obtain v w where vw: "xs = u32_bytes v" "ys = u32_bytes w" using assms(4,5) by (metis u32_bytes_surj)
  obtain a where "crc_loop (u32_bytes LIB_CRASH_MAGIC) a = 0xffffffff" using crc_loop_surj by blast
  then have "crc_loop (record_bytes q) a = crc_bits 32 (- 1)" if "lib_crash_is_valid (Some q)" for q
    unfolding record_bytes_checked valid_magic [OF that] by (simp only: crc_loop_append [of "u32_bytes LIB_CRASH_MAGIC"] valid_residue [OF that])
  from this [OF assms(1)] this [OF valid] have "v = w" unfolding assms(2,3) vw by (metis crc_loop_burst)
  then show False using assms(6) vw by simp
qed

theorem crash_corruption_detected_witness:
  "\<exists>c. \<not> lib_crash_is_valid (Some (lib_crash_commit demo_crash\<lparr>cr_stacked_xpsr := 0x01000000, cr_integrity_crc32 := c\<rparr>))"
proof -
  let ?r = "lib_crash_commit demo_crash" and ?c = "cr_integrity_crc32 (lib_crash_commit demo_crash)"
  let ?r' = "?r\<lparr>cr_stacked_xpsr := 0x01000000, cr_integrity_crc32 := ?c XOR 1\<rparr>"
  have c: "ucast (drop_bit 8 (c XOR 1)) = (ucast (drop_bit 8 c) :: u8)" "drop_bit 16 (c XOR 1) = drop_bit 16 c"
    "drop_bit 24 (c XOR 1) = drop_bit 24 c" for c :: u32
    by (rule bit_word_eqI; simp add: bit_drop_bit_eq bit_xor_iff bit_1_iff bit_unsigned_iff)+
  have valid: "lib_crash_is_valid (Some ?r)" by (simp add: reason_code_cases demo_crash_def)
  define pre where "pre = u32_bytes LIB_CRASH_MAGIC @ [2, 0, 32, 0, 0, 0, 0, 0, 0, 0, 0, 0, 0, 0, 0, 0, 0, 0, 0, 0, 0, 0]"
  define post where "post = [ucast (drop_bit 16 ?c), ucast (drop_bit 24 ?c) :: u8]"
  have "record_bytes ?r = pre @ [0, 0, ucast ?c, ucast (drop_bit 8 ?c)] @ post"
    "record_bytes ?r' = pre @ [0, 1, ucast (?c XOR 1), ucast (drop_bit 8 ?c)] @ post"
    by (simp_all add: pre_def post_def record_bytes_def u16_bytes_def u32_bytes_def c lib_crash_commit_def Let_def
        demo_crash_def LIB_CRASH_FORMAT_VERSION_def LIB_CRASH_RECORD_SIZE_def)
  from crash_corruption_detected [OF valid this] show ?thesis by auto
qed

end
