(* ===== verification/Board.thy ===== *)
theory Board
  imports Timebase Outputs Uart I2C_Target I2C_Controller Boot_Banner Crash_Record
begin

text \<open>
  \<open>board/lp_mspm0c1106\<close>: the wiring of the board and its initialisation. The board owns the state of every
  driver; there is one machine, handed to a driver for the length of a call. \<open>DEBUG_ENABLED\<close> is a parameter.
\<close>

section \<open>Constants\<close>

definition GPIOA_BASE :: u32 where "GPIOA_BASE = 0x400a0000"
definition GPIOB_BASE :: u32 where "GPIOB_BASE = 0x400a2000"
definition BOARD_LED_RED_PIN_INDEX :: nat where "BOARD_LED_RED_PIN_INDEX = 0"
definition BOARD_LED_RED_MASK :: u32 where "BOARD_LED_RED_MASK = push_bit BOARD_LED_RED_PIN_INDEX 1"
definition BOARD_MCLK_HZ :: u32 where "BOARD_MCLK_HZ = 32000000"
definition BOARD_BLINK_PERIOD_MS :: u32 where "BOARD_BLINK_PERIOD_MS = 500"
definition BOARD_BLINK_FALLBACK_PERIOD_MS :: u32 where "BOARD_BLINK_FALLBACK_PERIOD_MS = 125"
definition BOARD_UART_BACKCHANNEL_BAUD :: u32 where "BOARD_UART_BACKCHANNEL_BAUD = 115200"
definition BOARD_I2C_REGMAP_TARGET_ADDRESS :: u8 where "BOARD_I2C_REGMAP_TARGET_ADDRESS = 0x42"
definition BOARD_I2C_TARGET_BUS_HZ :: u32 where "BOARD_I2C_TARGET_BUS_HZ = 100000"
definition BOARD_I2C_TARGET_SCL_LOW_TIMEOUT_COUNT :: u8 where "BOARD_I2C_TARGET_SCL_LOW_TIMEOUT_COUNT = 32"
definition BOARD_I2C_CONTROLLER_BUS_HZ :: u32 where "BOARD_I2C_CONTROLLER_BUS_HZ = 100000"
definition BOARD_I2C_CONTROLLER_POLL_LIMIT :: u32 where "BOARD_I2C_CONTROLLER_POLL_LIMIT = 32000"
definition BOARD_I2C_CONTROLLER_SCL_LOW_TIMEOUT_COUNT :: u8 where "BOARD_I2C_CONTROLLER_SCL_LOW_TIMEOUT_COUNT = 32"
definition BOARD_UART_TX_QUEUE_CAPACITY :: u32 where "BOARD_UART_TX_QUEUE_CAPACITY = 64"

text \<open>Pin-mux indices and functions, from \<open>mspm0c1105_c1106.h\<close>.\<close>

definition IOMUX_PINCM1 :: u32 where "IOMUX_PINCM1 = 0"
definition IOMUX_PINCM11 :: u32 where "IOMUX_PINCM11 = 10"
definition IOMUX_PINCM12 :: u32 where "IOMUX_PINCM12 = 11"
definition IOMUX_PINCM17 :: u32 where "IOMUX_PINCM17 = 16"
definition IOMUX_PINCM11_PF_I2C1_SCL :: u32 where "IOMUX_PINCM11_PF_I2C1_SCL = 4"
definition IOMUX_PINCM12_PF_I2C1_SDA :: u32 where "IOMUX_PINCM12_PF_I2C1_SDA = 4"
definition IOMUX_PINCM17_PF_UART0_TX :: u32 where "IOMUX_PINCM17_PF_UART0_TX = 14"

section \<open>State\<close>

datatype board_init_result = Board_Ok | Board_Clock_Fallback | Board_Gpio_Failure | Board_Uart_Failure

definition g_red_led :: hal_gpio_output where
  "g_red_led = \<lparr>go_port_base = GPIOA_BASE, go_pin_mask = BOARD_LED_RED_MASK, go_pincm_index = IOMUX_PINCM1\<rparr>"

definition g_uart0_tx :: hal_uart0_tx_config where
  "g_uart0_tx = \<lparr>uc_clock_hz = BOARD_MCLK_HZ, uc_baud_rate = BOARD_UART_BACKCHANNEL_BAUD,
     uc_tx_pincm_index = IOMUX_PINCM17, uc_tx_pincm_function = IOMUX_PINCM17_PF_UART0_TX\<rparr>"

definition g_i2c1_target :: hal_i2c_target_config where
  "g_i2c1_target = \<lparr>tc_instance_base = I2C1_BASE, tc_interrupt_number = I2C1_INT_IRQn,
     tc_scl_pincm_index = IOMUX_PINCM11, tc_scl_pincm_function = IOMUX_PINCM11_PF_I2C1_SCL,
     tc_sda_pincm_index = IOMUX_PINCM12, tc_sda_pincm_function = IOMUX_PINCM12_PF_I2C1_SDA,
     tc_input_clock_hz = 0, tc_bus_hz = BOARD_I2C_TARGET_BUS_HZ,
     tc_own_address = BOARD_I2C_REGMAP_TARGET_ADDRESS,
     tc_scl_low_timeout_count = BOARD_I2C_TARGET_SCL_LOW_TIMEOUT_COUNT\<rparr>"

definition g_i2c1_controller :: hal_i2c_controller_config where
  "g_i2c1_controller = \<lparr>cc_instance_base = CTL_I2C1_BASE,
     cc_scl_pincm_index = IOMUX_PINCM11, cc_scl_pincm_function = IOMUX_PINCM11_PF_I2C1_SCL,
     cc_sda_pincm_index = IOMUX_PINCM12, cc_sda_pincm_function = IOMUX_PINCM12_PF_I2C1_SDA,
     cc_input_clock_hz = 0, cc_bus_hz = BOARD_I2C_CONTROLLER_BUS_HZ,
     cc_poll_limit = BOARD_I2C_CONTROLLER_POLL_LIMIT,
     cc_scl_low_timeout_count = BOARD_I2C_CONTROLLER_SCL_LOW_TIMEOUT_COUNT\<rparr>"

text \<open>The debug writer works on the UART driver, whose machine is the board's during a call.\<close>

record 'h board =
  bd_machine :: "'h machine"
  bd_mclk_hz :: u32
  bd_uart :: "'h uart"
  bd_uart_config :: hal_uart0_tx_config
  bd_uart_tx_queue :: lib_ringbuf
  bd_uart_tx_storage :: "u8 list"
  bd_writer :: "'h uart debug_writer option"
  bd_target :: "'h i2c_target"
  bd_controller :: "'h i2c_controller"
  bd_i2c1_claimed :: bool
  bd_crash_record :: lib_crash_record

text \<open>Calls of the drivers: the machine goes in and comes back.\<close>

definition on_machine :: "('h machine \<Rightarrow> ('a \<times> 'h machine) defined) \<Rightarrow> 'h board \<Rightarrow> ('a \<times> 'h board) defined" where
  "on_machine f bd = do {
     (r, mc) \<leftarrow> f (bd_machine bd);
     Some (r, bd\<lparr>bd_machine := mc\<rparr>)
   }"

definition on_clock :: "('h clock \<Rightarrow> ('a \<times> 'h clock) defined) \<Rightarrow> 'h board \<Rightarrow> ('a \<times> 'h board) defined" where
  "on_clock f bd = do {
     (r, c) \<leftarrow> f \<lparr>ck_machine = bd_machine bd, ck_mclk_hz = bd_mclk_hz bd\<rparr>;
     Some (r, bd\<lparr>bd_machine := ck_machine c, bd_mclk_hz := ck_mclk_hz c\<rparr>)
   }"

definition on_uart :: "('h uart \<Rightarrow> ('a \<times> 'h uart) defined) \<Rightarrow> 'h board \<Rightarrow> ('a \<times> 'h board) defined" where
  "on_uart f bd = do {
     (r, u) \<leftarrow> f ((bd_uart bd)\<lparr>ua_machine := bd_machine bd\<rparr>);
     Some (r, bd\<lparr>bd_machine := ua_machine u, bd_uart := u\<rparr>)
   }"

definition on_target :: "('h i2c_target \<Rightarrow> ('a \<times> 'h i2c_target) defined) \<Rightarrow> 'h board \<Rightarrow> ('a \<times> 'h board) defined" where
  "on_target f bd = do {
     (r, t) \<leftarrow> f ((bd_target bd)\<lparr>it_machine := bd_machine bd\<rparr>);
     Some (r, bd\<lparr>bd_machine := it_machine t, bd_target := t\<rparr>)
   }"

definition on_controller ::
  "('h i2c_controller \<Rightarrow> ('a \<times> 'h i2c_controller) defined) \<Rightarrow> 'h board \<Rightarrow> ('a \<times> 'h board) defined" where
  "on_controller f bd = do {
     (r, c) \<leftarrow> f ((bd_controller bd)\<lparr>ic_machine := bd_machine bd\<rparr>);
     Some (r, bd\<lparr>bd_machine := ic_machine c, bd_controller := c\<rparr>)
   }"

text \<open>A call without a result.\<close>

definition quietly :: "('s \<Rightarrow> 's defined) \<Rightarrow> 's \<Rightarrow> (unit \<times> 's) defined" where
  "quietly f st = do { st \<leftarrow> f st; Some ((), st) }"

section \<open>Operations\<close>

definition board_debug_write :: "'h hardware \<Rightarrow> 'h uart debug_writer" where
  "board_debug_write hw data n st = hal_uart0_tx_write hw data n st"

definition board_init :: "bool \<Rightarrow> 'h hardware \<Rightarrow> 'h board \<Rightarrow> (board_init_result \<times> 'h board) defined" where
  "board_init debug_enabled hw bd = do {
     (requested_clock_selected, bd) \<leftarrow> on_clock (hal_clock_init hw BOARD_MCLK_HZ) bd;
     (_, bd) \<leftarrow> on_machine (quietly (hal_gpio_port_reset_enable hw (go_port_base g_red_led))) bd;
     (ok, bd) \<leftarrow> on_machine (hal_gpio_output_init hw (Some g_red_led)) bd;
     (if \<not> ok then Some (Board_Gpio_Failure, bd)
      else do {
        (_, bd) \<leftarrow> on_machine (quietly (hal_gpio_port_reset_enable hw GPIOB_BASE)) bd;
        (case lib_ringbuf_init (Some (bd_uart_tx_queue bd)) (Some (bd_uart_tx_storage bd)) BOARD_UART_TX_QUEUE_CAPACITY of
           (ok, queue) \<Rightarrow>
             if \<not> ok then Some (Board_Uart_Failure, bd)
             else do {
               q \<leftarrow> queue;
               let bd = bd\<lparr>bd_uart_tx_queue := q,
                           bd_uart_config := (bd_uart_config bd)\<lparr>uc_clock_hz := bd_mclk_hz bd\<rparr>\<rparr>;
               (ok, bd) \<leftarrow> on_uart (hal_uart0_tx_init hw (Some (bd_uart_config bd)) (Some (bd_uart_tx_queue bd))) bd;
               (if \<not> ok then Some (Board_Uart_Failure, bd)
                else do {
                  let bd = (if debug_enabled then bd\<lparr>bd_writer := Some (board_debug_write hw)\<rparr> else bd);
                  Some (if requested_clock_selected then Board_Ok else Board_Clock_Fallback, bd)
                })
             })
      })
   }"

definition board_led_red_set :: "'h hardware \<Rightarrow> bool \<Rightarrow> 'h board \<Rightarrow> 'h board defined" where
  "board_led_red_set hw high bd = do {
     mc \<leftarrow> hal_gpio_output_set hw (Some g_red_led) high (bd_machine bd);
     Some (bd\<lparr>bd_machine := mc\<rparr>)
   }"

definition board_led_red_toggle :: "'h hardware \<Rightarrow> 'h board \<Rightarrow> 'h board defined" where
  "board_led_red_toggle hw bd = do {
     mc \<leftarrow> hal_gpio_output_toggle hw (Some g_red_led) (bd_machine bd);
     Some (bd\<lparr>bd_machine := mc\<rparr>)
   }"

definition board_uart_backchannel_dropped_count :: "'h board \<Rightarrow> u32" where
  "board_uart_backchannel_dropped_count bd = hal_uart0_tx_dropped_count (bd_uart bd)"

definition board_crash_has_fault :: "'h board \<Rightarrow> bool" where
  "board_crash_has_fault bd = lib_crash_has_fault (Some (bd_crash_record bd))"

definition board_i2c1_claim :: "'h board \<Rightarrow> bool \<times> 'h board" where
  "board_i2c1_claim bd = (if bd_i2c1_claimed bd then (False, bd) else (True, bd\<lparr>bd_i2c1_claimed := True\<rparr>))"

definition board_i2c1_target_init :: "'h hardware \<Rightarrow> lib_regmap option \<Rightarrow> 'h board \<Rightarrow> (bool \<times> 'h board) defined" where
  "board_i2c1_target_init hw regmap bd =
     (case board_i2c1_claim bd of (claimed, bd) \<Rightarrow>
        if \<not> claimed then Some (False, bd)
        else do {
          let config = g_i2c1_target\<lparr>tc_input_clock_hz := bd_mclk_hz bd\<rparr>;
          (ok, bd) \<leftarrow> on_target (hal_i2c_target_init hw (Some config) regmap) bd;
          (if ok then Some (True, bd) else Some (False, bd\<lparr>bd_i2c1_claimed := False\<rparr>))
        })"

definition board_i2c1_controller_init :: "'h hardware \<Rightarrow> 'h board \<Rightarrow> (bool \<times> 'h board) defined" where
  "board_i2c1_controller_init hw bd =
     (case board_i2c1_claim bd of (claimed, bd) \<Rightarrow>
        if \<not> claimed then Some (False, bd)
        else do {
          let config = g_i2c1_controller\<lparr>cc_input_clock_hz := bd_mclk_hz bd\<rparr>;
          (ok, bd) \<leftarrow> on_controller (hal_i2c_controller_init hw (Some config)) bd;
          (if ok then Some (True, bd) else Some (False, bd\<lparr>bd_i2c1_claimed := False\<rparr>))
        })"

section \<open>One personality of I2C1\<close>

text \<open>Initialising a driver succeeds or changes nothing.\<close>

lemma target_init_all_or_nothing:
  "\<exists>ok st'. hal_i2c_target_init hw (Some c) regmap st = Some (ok, st')
    \<and> ok = (\<not> it_initialized st \<and> hal_i2c_target_config_is_valid (Some c) regmap)
    \<and> (if ok then it_initialized st' else st' = st)"
proof (cases "it_initialized st \<or> \<not> hal_i2c_target_config_is_valid (Some c) regmap")
  case True
  then show ?thesis by (auto simp: hal_i2c_target_init_def)
next
  case False
  then obtain rm where "regmap = Some rm" by (auto simp: hal_i2c_target_config_is_valid_def split: option.splits)
  with False show ?thesis
    by (auto simp: hal_i2c_target_init_def hal_i2c_target_engine_init_def mmio_write_def cpu_def mmio_modify_eq
        hal_power_wait_trace Let_def)
qed

lemma controller_init_all_or_nothing:
  "\<exists>ok st'. hal_i2c_controller_init hw (Some c) st = Some (ok, st')
    \<and> ok = (\<not> ic_initialized st \<and> hal_i2c_controller_config_is_valid (Some c))
    \<and> (if ok then ic_initialized st' else st' = st)"
  by (auto simp: hal_i2c_controller_init_def mmio_write_def cpu_def mmio_modify_eq hal_power_wait_trace Let_def
      hal_i2c_controller_clear_events_def ctl_write_def hal_i2c_controller_delay_def nops_trace)

text \<open>The board's configurations are valid for both clocks \<open>hal_clock_init\<close> may leave.\<close>

lemmas board_constants = BOARD_I2C_TARGET_BUS_HZ_def BOARD_I2C_REGMAP_TARGET_ADDRESS_def
  BOARD_I2C_TARGET_SCL_LOW_TIMEOUT_COUNT_def BOARD_I2C_CONTROLLER_BUS_HZ_def BOARD_I2C_CONTROLLER_POLL_LIMIT_def
  BOARD_I2C_CONTROLLER_SCL_LOW_TIMEOUT_COUNT_def IOMUX_PINCM1_def IOMUX_PINCM11_def IOMUX_PINCM12_def IOMUX_PINCM17_def
  IOMUX_PINCM11_PF_I2C1_SCL_def IOMUX_PINCM12_PF_I2C1_SDA_def IOMUX_PINCM17_PF_UART0_TX_def
  BOARD_MCLK_HZ_def BOARD_UART_BACKCHANNEL_BAUD_def BOARD_LED_RED_MASK_def BOARD_LED_RED_PIN_INDEX_def
  GPIOA_BASE_def GPIOB_BASE_def BOARD_UART_TX_QUEUE_CAPACITY_def

lemma timeout_count_above_one: "\<not> (32 :: u8) \<le> 1"
  by (simp add: word_le_nat_alt)

lemma board_target_config_valid:
  assumes "mclk \<in> {4000000, 32000000}"
  shows "hal_i2c_target_config_is_valid (Some (g_i2c1_target\<lparr>tc_input_clock_hz := mclk\<rparr>)) (Some rm)"
  using assms by (auto simp: hal_i2c_target_config_is_valid_def g_i2c1_target_def board_constants I2C1_BASE_def
      PINCM_COUNT_def PINCM_PF_MASK_def TIMING_DENOMINATOR_def Let_def timeout_count_above_one)

lemma board_controller_config_valid:
  assumes "mclk \<in> {4000000, 32000000}"
  shows "hal_i2c_controller_config_is_valid (Some (g_i2c1_controller\<lparr>cc_input_clock_hz := mclk\<rparr>))"
  using assms by (auto simp: hal_i2c_controller_config_is_valid_def g_i2c1_controller_def board_constants CTL_I2C1_BASE_def
      HAL_I2C_CONTROLLER_PINCM_COUNT_def CTL_PINCM_PF_MASK_def HAL_I2C_CONTROLLER_TIMING_DENOMINATOR_def Let_def timeout_count_above_one)

text \<open>The claim is held exactly while one of the two drivers is initialised.\<close>

definition i2c1_inv :: "'h board \<Rightarrow> bool" where
  "i2c1_inv bd \<longleftrightarrow> \<not> (it_initialized (bd_target bd) \<and> ic_initialized (bd_controller bd))
     \<and> (bd_i2c1_claimed bd \<longleftrightarrow> it_initialized (bd_target bd) \<or> ic_initialized (bd_controller bd))"

datatype i2c1_call = Init_Target "lib_regmap option" | Init_Controller

fun i2c1_step :: "'h hardware \<Rightarrow> i2c1_call \<Rightarrow> 'h board \<Rightarrow> (bool \<times> 'h board) defined" where
  "i2c1_step hw (Init_Target regmap) bd = board_i2c1_target_init hw regmap bd"
| "i2c1_step hw Init_Controller bd = board_i2c1_controller_init hw bd"

fun i2c1_run :: "'h hardware \<Rightarrow> i2c1_call list \<Rightarrow> 'h board \<Rightarrow> (bool list \<times> 'h board) defined" where
  "i2c1_run hw [] bd = Some ([], bd)"
| "i2c1_run hw (call # calls) bd = do {
     (r, bd) \<leftarrow> i2c1_step hw call bd;
     (rs, bd) \<leftarrow> i2c1_run hw calls bd;
     Some (r # rs, bd)
   }"

text \<open>The lock this is: free until the first call that could succeed, then taken for good.\<close>

fun lock_run :: "bool \<Rightarrow> i2c1_call list \<Rightarrow> bool list \<times> bool" where
  "lock_run taken [] = ([], taken)"
| "lock_run taken (call # calls) =
     (let granted = (\<not> taken \<and> call \<noteq> Init_Target None);
          (rs, taken') = lock_run (taken \<or> granted) calls
      in (granted # rs, taken'))"

lemma i2c1_step_locks:
  assumes "i2c1_inv bd" "bd_mclk_hz bd \<in> {4000000, 32000000}"
  shows "\<exists>bd'. i2c1_step hw call bd = Some (\<not> bd_i2c1_claimed bd \<and> call \<noteq> Init_Target None, bd') \<and> i2c1_inv bd'
    \<and> bd_mclk_hz bd' = bd_mclk_hz bd
    \<and> bd_i2c1_claimed bd' = (bd_i2c1_claimed bd \<or> call \<noteq> Init_Target None)
    \<and> (bd_i2c1_claimed bd \<or> call = Init_Target None \<longrightarrow> bd_machine bd' = bd_machine bd)"
proof (cases "bd_i2c1_claimed bd")
  case True
  then show ?thesis
    using assms(1) by (cases call) (simp_all add: board_i2c1_target_init_def board_i2c1_controller_init_def board_i2c1_claim_def)
next
  case False
  then have off: "\<not> it_initialized (bd_target bd)" "\<not> ic_initialized (bd_controller bd)"
    using assms(1) by (auto simp: i2c1_inv_def)
  show ?thesis
  proof (cases call)
    case (Init_Target regmap)
    let ?c = "g_i2c1_target\<lparr>tc_input_clock_hz := bd_mclk_hz bd\<rparr>"
    have valid: "hal_i2c_target_config_is_valid (Some ?c) regmap \<longleftrightarrow> regmap \<noteq> None"
      using board_target_config_valid [OF assms(2)]
      by (cases regmap) (auto simp: hal_i2c_target_config_is_valid_def)
    obtain st' where "hal_i2c_target_init hw (Some ?c) regmap ((bd_target bd)\<lparr>it_machine := bd_machine bd\<rparr>)
        = Some (regmap \<noteq> None, st')"
      "if regmap \<noteq> None then it_initialized st' else st' = (bd_target bd)\<lparr>it_machine := bd_machine bd\<rparr>"
      using target_init_all_or_nothing [of hw ?c regmap "(bd_target bd)\<lparr>it_machine := bd_machine bd\<rparr>"] off valid by auto
    with False off Init_Target show ?thesis
      by (auto simp: board_i2c1_target_init_def board_i2c1_claim_def on_target_def i2c1_inv_def Let_def)
  next
    case Init_Controller
    let ?c = "g_i2c1_controller\<lparr>cc_input_clock_hz := bd_mclk_hz bd\<rparr>"
    obtain st' where "hal_i2c_controller_init hw (Some ?c) ((bd_controller bd)\<lparr>ic_machine := bd_machine bd\<rparr>) = Some (True, st')"
      "ic_initialized st'"
      using controller_init_all_or_nothing [of hw ?c "(bd_controller bd)\<lparr>ic_machine := bd_machine bd\<rparr>"] off
        board_controller_config_valid [OF assms(2)] by auto
    with False off Init_Controller show ?thesis
      by (auto simp: board_i2c1_controller_init_def board_i2c1_claim_def on_controller_def i2c1_inv_def Let_def)
  qed
qed

section \<open>Powered before used\<close>

text \<open>The power-enable register that guards a register; the pin multiplexer and the system controller are always on.\<close>

fun guard_of :: "reg \<Rightarrow> reg option" where
  "guard_of (I2C1 r) = Some (I2C1 I2C_PWREN)"
| "guard_of (UART0 r) = Some (UART0 UART_PWREN)"
| "guard_of (GPIO b r) = Some (GPIO b GPIO_PWREN)"
| "guard_of (WWDT0 r) = Some (WWDT0 WWDT_PWREN)"
| "guard_of (PINCM i) = None"
| "guard_of (SYSCTL r) = None"

definition is_power_enable :: "reg \<Rightarrow> bool" where
  "is_power_enable r \<longleftrightarrow> guard_of r = Some r"

fun is_reset_control :: "reg \<Rightarrow> bool" where
  "is_reset_control (I2C1 r) \<longleftrightarrow> r = I2C_RSTCTL"
| "is_reset_control (UART0 r) \<longleftrightarrow> r = UART_RSTCTL"
| "is_reset_control (GPIO b r) \<longleftrightarrow> r = GPIO_RSTCTL"
| "is_reset_control (WWDT0 r) \<longleftrightarrow> r = WWDT_RSTCTL"
| "is_reset_control _ \<longleftrightarrow> False"

text \<open>The reset and the power-up a peripheral needs before its use: \<open>RSTCTL\<close> with the key, the sticky-bit clear and the
  assert bit, then \<open>PWREN\<close> with its key and the enable bit, then 64 cycles.\<close>

fun reset_guard :: "reg \<Rightarrow> reg option" where
  "reset_guard r = (if is_reset_control r then guard_of r else None)"

text \<open>\<open>rs\<close> are the peripherals reset so far, \<open>on\<close> those powered since, each by its \<open>PWREN\<close>, and \<open>k\<close> the no-ops since the
  last power-up. A peripheral is powered only after its reset, and every other register of it is accessed only when it
  was powered and the start-up time of 64 cycles has passed.\<close>

definition usable :: "reg set \<Rightarrow> nat \<Rightarrow> reg \<Rightarrow> bool" where
  "usable on k r \<longleftrightarrow> (case guard_of r of None \<Rightarrow> True | Some g \<Rightarrow> g \<in> on \<and> 64 \<le> k)"

fun powered :: "reg set \<Rightarrow> reg set \<Rightarrow> nat \<Rightarrow> access list \<Rightarrow> bool" where
  "powered rs on k [] \<longleftrightarrow> True"
| "powered rs on k (Read r v # tr) \<longleftrightarrow> usable on k r \<and> powered rs on k tr"
| "powered rs on k (Write r v # tr) \<longleftrightarrow>
     (case reset_guard r of
        Some g \<Rightarrow> v = 0xb1000003 \<and> powered (insert g rs) (on - {g}) k tr
      | None \<Rightarrow>
          if is_power_enable r then r \<in> rs \<and> v = 0x26000001 \<and> powered rs (insert r on) 0 tr
          else usable on k r \<and> powered rs on k tr)"
| "powered rs on k (Nop # tr) \<longleftrightarrow> powered rs on (Suc k) tr"
| "powered rs on k (_ # tr) \<longleftrightarrow> powered rs on k tr"

lemma powered_sysctl: "list_all sysctl_access tr \<Longrightarrow> powered rs on k (tr @ tr') \<longleftrightarrow> powered rs on k tr'"
proof (induction tr)
  case Nil
  then show ?case by simp
next
  case (Cons a tr)
  then show ?case by (cases a rule: sysctl_access.cases) (simp_all add: usable_def is_power_enable_def)
qed

lemma powered_nops: "powered rs on k (replicate n Nop @ tr) \<longleftrightarrow> powered rs on (k + n) tr"
  by (induction n arbitrary: k) simp_all

lemma powered_power_up: "powered rs on k (power_up @ tr) \<longleftrightarrow> powered rs on (k + 64) tr"
  by (simp add: power_up_def powered_nops del: replicate.simps)

section \<open>Initialising the board\<close>

text \<open>The divisors of the two clocks, and the divisor registers that hold them.\<close>

lemma board_divisor:
  "hal_uart_baud_divisor 32000000 115200 (Some 0) = (True, Some 1111)"
  "hal_uart_baud_divisor 4000000 115200 (Some 0) = (True, Some 139)"
  by (simp_all add: hal_uart_baud_divisor_def HAL_UART_DIVISOR_FRACTION_SCALE_def Let_def)

lemma board_uart_init_ran:
  assumes "mclk \<in> {4000000, 32000000}" "rb_capacity q \<noteq> 0"
  shows "\<exists>st'. hal_uart0_tx_init hw (Some (g_uart0_tx\<lparr>uc_clock_hz := mclk\<rparr>)) (Some q) st = Some (True, st')
    \<and> ua_initialized st' \<and> ua_queue st' = Some q \<and> ua_core st' = ua_core st
    \<and> mc_ran (ua_machine st) (uart_setup (g_uart0_tx\<lparr>uc_clock_hz := mclk\<rparr>)
        (if mclk = 32000000 then 17 else 2) (if mclk = 32000000 then 23 else 11)) (ua_machine st')"
  using assms
  by (auto simp: hal_uart0_tx_init_def g_uart0_tx_def board_constants board_divisor HAL_UART_PINCM_COUNT_def UART_PINCM_PF_MASK_def
      lib_ringbuf_capacity_def mmio_write_def cpu_def hal_power_wait_trace uart_setup_def mc_ran_def UART_RESET_def
      UART_POWER_ON_def PINCM_CONNECTED_def UART_CTL0_TX_ON_def UART0_INT_IRQn_def HAL_UART_TX_PRIORITY_def
      HAL_UART_DIVISOR_FRACTION_SCALE_def)

definition led_setup :: "access list" where
  "led_setup = [Write (PINCM 0) 0x81, Write (GPIO 0x400a0000 GPIO_DOUTCLR) 1, Write (GPIO 0x400a0000 GPIO_DOESET) 1]"

definition port_on :: "u32 \<Rightarrow> access list" where
  "port_on b = [Write (GPIO b GPIO_RSTCTL) 0xb1000003, Write (GPIO b GPIO_PWREN) 0x26000001] @ power_up"

definition board_setup :: "u32 \<Rightarrow> access list" where
  "board_setup mclk = port_on 0x400a0000 @ led_setup @ port_on 0x400a2000 @ uart_setup (g_uart0_tx\<lparr>uc_clock_hz := mclk\<rparr>)
     (if mclk = 32000000 then 17 else 2) (if mclk = 32000000 then 23 else 11)"

lemma uart_setup_power_up:
  "uart_setup c ibrd fbrd = [Write (UART0 UART_RSTCTL) 0xb1000003, Write (UART0 UART_PWREN) 0x26000001] @ power_up
     @ [Write (PINCM (uc_tx_pincm_index c)) (uc_tx_pincm_function c OR 0x80), Write (UART0 UART_CTL0) 0,
        Write (UART0 UART_CLKSEL) 8, Write (UART0 UART_CLKDIV) 0, Write (UART0 UART_LCRH) 0x30,
        Write (UART0 UART_IBRD) ibrd, Write (UART0 UART_FBRD) fbrd, Write (UART0 UART_IFLS) 2,
        Write (UART0 UART_ICLR) UART_TXINT, Write (UART0 UART_IMASK) 0, Write (UART0 UART_CTL0) 0x20011,
        Irq_Priority 15 2, Irq_Clear_Pending 15, Irq_Enable 15]"
  by (simp add: uart_setup_def power_up_def)

lemma board_setup_powered: "powered rs on k (board_setup mclk)"
  by (simp add: board_setup_def port_on_def led_setup_def uart_setup_power_up powered_power_up is_power_enable_def usable_def)

text \<open>What the board owns besides the machine and the UART.\<close>

definition board_same :: "'h board \<Rightarrow> 'h board \<Rightarrow> bool" where
  "board_same bd bd' \<longleftrightarrow> bd_crash_record bd' = bd_crash_record bd \<and> bd_target bd' = bd_target bd
     \<and> bd_controller bd' = bd_controller bd \<and> bd_i2c1_claimed bd' = bd_i2c1_claimed bd"

lemma board_init_ran_clock:
  assumes "bd_uart_config bd = g_uart0_tx" "64 \<le> length (bd_uart_tx_storage bd)"
  shows "\<exists>r bd' tr q. board_init debug_enabled hw bd = Some (r, bd') \<and> r \<in> {Board_Ok, Board_Clock_Fallback}
    \<and> bd_mclk_hz bd' = (if r = Board_Ok then 32000000 else 4000000)
    \<and> mc_trace (bd_machine bd') = mc_trace (bd_machine bd) @ tr @ board_setup (bd_mclk_hz bd') \<and> list_all sysctl_access tr
    \<and> ua_initialized (bd_uart bd') \<and> ua_queue (bd_uart bd') = Some q \<and> ring_inv q \<and> ring_contents q = [] \<and> ring_room q = 64
    \<and> bd_writer bd' = (if debug_enabled then Some (board_debug_write hw) else bd_writer bd)
    \<and> ua_core (bd_uart bd') = ua_core (bd_uart bd) \<and> board_same bd bd'
    \<and> (\<exists>ok ck. hal_clock_init hw 32000000 \<lparr>ck_machine = bd_machine bd, ck_mclk_hz = bd_mclk_hz bd\<rparr> = Some (ok, ck)
         \<and> mc_trace (ck_machine ck) = mc_trace (bd_machine bd) @ tr)"
proof -
  let ?ck = "\<lparr>ck_machine = bd_machine bd, ck_mclk_hz = bd_mclk_hz bd\<rparr>"
  obtain ok ck tr where clock: "hal_clock_init hw 32000000 ?ck = Some (ok, ck)"
    "mc_trace (ck_machine ck) = mc_trace (bd_machine bd) @ tr" "list_all sysctl_access tr"
    "ck_mclk_hz ck = (if ok then 32000000 else 4000000)"
    by (rule clock_init_outcome [of hw 32000000 ?ck]) simp
  obtain m1 where m1: "hal_gpio_port_reset_enable hw 0x400a0000 (ck_machine ck) = Some m1"
    "mc_ran (ck_machine ck) (port_on 0x400a0000) m1"
    using port_reset_ran [of hw "0x400a0000" "ck_machine ck"] by (auto simp: port_on_def)
  obtain m2 where m2: "hal_gpio_output_init hw (Some g_red_led) m1 = Some (True, m2)" "mc_ran m1 led_setup m2"
    using output_init_ran [of hw g_red_led m1] by (auto simp: g_red_led_def board_constants led_setup_def)
  obtain m3 where m3: "hal_gpio_port_reset_enable hw 0x400a2000 m2 = Some m3" "mc_ran m2 (port_on 0x400a2000) m3"
    using port_reset_ran [of hw "0x400a2000" m2] by (auto simp: port_on_def)
  have pow: "\<exists>k < 32. unat (64 :: u32) = 2 ^ k" by (intro exI [of _ 6]) simp
  obtain q where q: "lib_ringbuf_init (Some (bd_uart_tx_queue bd)) (Some (bd_uart_tx_storage bd)) 64 = (True, Some q)"
    "ring_inv q" "ring_contents q = []" "ring_room q = 64" "rb_capacity q = 64"
    using pow assms(2)
    by (auto simp: lib_ringbuf_init_def ring_inv_def ring_contents_def ring_room_def pow2_capacity_def window_def)
  let ?m = "if ok then 32000000 else 4000000 :: u32" and ?u = "(bd_uart bd)\<lparr>ua_machine := m3\<rparr>"
  have m: "?m \<in> {4000000, 32000000}" and cap: "rb_capacity q \<noteq> 0" using q(5) by simp_all
  obtain u where u: "hal_uart0_tx_init hw (Some (g_uart0_tx\<lparr>uc_clock_hz := ?m\<rparr>)) (Some q) ?u = Some (True, u)"
    "ua_initialized u" "ua_queue u = Some q" "ua_core u = ua_core (bd_uart bd)"
    "mc_ran m3 (uart_setup (g_uart0_tx\<lparr>uc_clock_hz := ?m\<rparr>)
        (if ?m = 32000000 then 17 else 2) (if ?m = 32000000 then 23 else 11)) (ua_machine u)"
    using board_uart_init_ran [OF m cap, of hw ?u] by auto
  have whole: "mc_ran (ck_machine ck) (board_setup ?m) (ua_machine u)"
    using mc_ran_trans [OF m1(2) mc_ran_trans [OF m2(2) mc_ran_trans [OF m3(2) u(5)]]]
    unfolding board_setup_def .
  define b1 where "b1 = bd\<lparr>bd_machine := m3, bd_mclk_hz := ?m, bd_uart_tx_queue := q,
    bd_uart_config := g_uart0_tx\<lparr>uc_clock_hz := ?m\<rparr>\<rparr>"
  define b2 where "b2 = b1\<lparr>bd_machine := ua_machine u, bd_uart := u\<rparr>"
  define b3 where "b3 = (if debug_enabled then b2\<lparr>bd_writer := Some (board_debug_write hw)\<rparr> else b2)"
  have run: "board_init debug_enabled hw bd = Some (if ok then Board_Ok else Board_Clock_Fallback, b3)"
    using clock m1(1) m2(1) m3(1) q(1) u(1) assms(1)
    by (simp add: board_init_def on_clock_def on_machine_def on_uart_def quietly_def board_constants g_red_led_def
        b1_def b2_def b3_def Let_def cong: if_cong)
  show ?thesis
    by (rule exI [of _ "if ok then Board_Ok else Board_Clock_Fallback"], rule exI [of _ b3], rule exI [of _ tr],
        rule exI [of _ q])
      (use run clock(1-3) whole q(2-4) u(2-4) in \<open>simp add: b1_def b2_def b3_def mc_ran_def board_same_def\<close>)
qed

lemma board_init_ran:
  assumes "bd_uart_config bd = g_uart0_tx" "64 \<le> length (bd_uart_tx_storage bd)"
  shows "\<exists>r bd' tr q. board_init debug_enabled hw bd = Some (r, bd') \<and> r \<in> {Board_Ok, Board_Clock_Fallback}
    \<and> bd_mclk_hz bd' = (if r = Board_Ok then 32000000 else 4000000)
    \<and> mc_trace (bd_machine bd') = mc_trace (bd_machine bd) @ tr @ board_setup (bd_mclk_hz bd') \<and> list_all sysctl_access tr
    \<and> ua_initialized (bd_uart bd') \<and> ua_queue (bd_uart bd') = Some q \<and> ring_inv q \<and> ring_contents q = [] \<and> ring_room q = 64
    \<and> bd_writer bd' = (if debug_enabled then Some (board_debug_write hw) else bd_writer bd)
    \<and> ua_core (bd_uart bd') = ua_core (bd_uart bd) \<and> board_same bd bd'"
  using board_init_ran_clock [OF assms, of debug_enabled hw] by (elim exE conjE) (intro exI conjI, assumption+)

section \<open>Properties\<close>

text \<open>C25. I2C1 has one owner. Over every sequence of calls that initialise it as a target or as a controller, on any
  hardware and at either clock, the board behaves as a lock: the first call that does not pass a null register map
  succeeds, every other call is refused, no call has undefined behaviour, and never are both drivers
  initialised. After every such sequence a further call that is refused accesses nothing: the device is in the state it
  was in and no access was recorded, and the claim is as it was.\<close>

theorem i2c1_has_one_owner:
  assumes "i2c1_inv bd" "bd_mclk_hz bd \<in> {4000000, 32000000}"
  shows "\<exists>bd'. i2c1_run hw calls bd = Some (fst (lock_run (bd_i2c1_claimed bd) calls), bd') \<and> i2c1_inv bd'
    \<and> bd_i2c1_claimed bd' = snd (lock_run (bd_i2c1_claimed bd) calls)
    \<and> (\<forall>call. \<exists>granted bd''. i2c1_step hw call bd' = Some (granted, bd'')
        \<and> (\<not> granted \<longrightarrow> bd_machine bd'' = bd_machine bd' \<and> bd_i2c1_claimed bd'' = bd_i2c1_claimed bd'))"
  using assms
proof (induction calls arbitrary: bd)
  case Nil
  have "\<exists>granted bd''. i2c1_step hw call bd = Some (granted, bd'')
      \<and> (\<not> granted \<longrightarrow> bd_machine bd'' = bd_machine bd \<and> bd_i2c1_claimed bd'' = bd_i2c1_claimed bd)" for call
    using i2c1_step_locks [OF Nil, of hw call] by blast
  with Nil show ?case by simp
next
  case (Cons call calls)
  obtain bd1 where one: "i2c1_step hw call bd = Some (\<not> bd_i2c1_claimed bd \<and> call \<noteq> Init_Target None, bd1)" "i2c1_inv bd1"
    "bd_mclk_hz bd1 = bd_mclk_hz bd" "bd_i2c1_claimed bd1 = (bd_i2c1_claimed bd \<or> call \<noteq> Init_Target None)"
    using i2c1_step_locks [OF Cons.prems] by blast
  have taken: "(bd_i2c1_claimed bd \<or> \<not> bd_i2c1_claimed bd \<and> call \<noteq> Init_Target None) = bd_i2c1_claimed bd1"
    using one(4) by blast
  have clock: "bd_mclk_hz bd1 \<in> {4000000, 32000000}" using Cons.prems(2) one(3) by simp
  obtain bd2 where "i2c1_run hw calls bd1 = Some (fst (lock_run (bd_i2c1_claimed bd1) calls), bd2)" "i2c1_inv bd2"
    "bd_i2c1_claimed bd2 = snd (lock_run (bd_i2c1_claimed bd1) calls)"
    "\<forall>call. \<exists>granted bd''. i2c1_step hw call bd2 = Some (granted, bd'')
        \<and> (\<not> granted \<longrightarrow> bd_machine bd'' = bd_machine bd2 \<and> bd_i2c1_claimed bd'' = bd_i2c1_claimed bd2)"
    using Cons.IH [OF one(2) clock] by blast
  then show ?case
    using one(1) unfolding lock_run.simps Let_def taken by (auto simp: case_prod_beta)
qed

definition demo_board :: "(reg \<Rightarrow> u32) board" where
  "demo_board = \<lparr>bd_machine = \<lparr>mc_device = (\<lambda>r. 0), mc_trace = []\<rparr>, bd_mclk_hz = 4000000,
     bd_uart = \<lparr>ua_machine = \<lparr>mc_device = (\<lambda>r. 0), mc_trace = []\<rparr>, ua_core = \<lparr>primask = 0, events = []\<rparr>,
       ua_queue = None, ua_initialized = False\<rparr>,
     bd_uart_config = g_uart0_tx, bd_uart_tx_queue = demo_ring, bd_uart_tx_storage = replicate 64 0, bd_writer = None,
     bd_target = (demo_plain 0)\<lparr>it_initialized := False\<rparr>, bd_controller = idle_controller\<lparr>ic_initialized := False\<rparr>,
     bd_i2c1_claimed = False,
     bd_crash_record = \<lparr>cr_magic = 0, cr_format_version = 0, cr_record_size = 0, cr_sequence = 0, cr_reset_cause = 0,
       cr_reason = 0, cr_stacked_pc = 0, cr_stacked_xpsr = 0, cr_integrity_crc32 = 0\<rparr>\<rparr>"

theorem i2c1_has_one_owner_witness:
  "\<exists>bd'. i2c1_run plain_hardware [Init_Target None, Init_Controller, Init_Target (Some (demo_regmap 0))] demo_board
      = Some ([False, True, False], bd') \<and> bd_i2c1_claimed bd'"
proof -
  have "i2c1_inv demo_board" "bd_mclk_hz demo_board \<in> {4000000, 32000000}" "\<not> bd_i2c1_claimed demo_board"
    by (simp_all add: i2c1_inv_def demo_board_def)
  then show ?thesis
    using i2c1_has_one_owner [of demo_board plain_hardware
        "[Init_Target None, Init_Controller, Init_Target (Some (demo_regmap 0))]"]
    by (auto simp del: i2c1_run.simps)
qed

lemma sysctl_only: "list_all sysctl_access tr \<Longrightarrow> written (UART0 r) tr = []"
proof (induction tr)
  case Nil
  then show ?case by simp
next
  case (Cons a tr)
  then show ?case by (cases a rule: sysctl_access.cases) simp_all
qed

lemma board_setup_divisor:
  "written (UART0 UART_IBRD) (board_setup mclk) = [if mclk = 32000000 then 17 else 2]"
  "written (UART0 UART_FBRD) (board_setup mclk) = [if mclk = 32000000 then 23 else 11]"
  by (simp_all add: board_setup_def port_on_def led_setup_def uart_setup_power_up power_up_def)

text \<open>The peripherals the board uses: both ports and UART0 are reset and powered once.\<close>

definition resets_and_powers :: "(reg \<times> reg) list \<Rightarrow> access list \<Rightarrow> bool" where
  "resets_and_powers rs tr \<longleftrightarrow> list_all (\<lambda>(reset, enable). written reset tr = [0xb1000003] \<and> written enable tr = [0x26000001]) rs"

definition board_peripherals :: "(reg \<times> reg) list" where
  "board_peripherals = [(GPIO GPIOA_BASE GPIO_RSTCTL, GPIO GPIOA_BASE GPIO_PWREN),
     (GPIO GPIOB_BASE GPIO_RSTCTL, GPIO GPIOB_BASE GPIO_PWREN), (UART0 UART_RSTCTL, UART0 UART_PWREN)]"

lemma sysctl_writes_nowhere_else: "list_all sysctl_access tr \<Longrightarrow> \<forall>x. r \<noteq> SYSCTL x \<Longrightarrow> written r tr = []"
proof (induction tr)
  case Nil
  then show ?case by simp
next
  case (Cons a tr)
  then show ?case by (cases a rule: sysctl_access.cases) auto
qed

lemma board_setup_resets: "list_all sysctl_access tr \<Longrightarrow> resets_and_powers board_peripherals (tr @ board_setup mclk)"
  by (simp add: resets_and_powers_def board_peripherals_def sysctl_writes_nowhere_else board_setup_def port_on_def led_setup_def
      uart_setup_power_up power_up_def GPIOA_BASE_def GPIOB_BASE_def del: replicate.simps)

text \<open>C24. The board always comes up, and in a safe order. On any hardware \<open>board_init\<close> has no undefined behaviour and
  returns \<open>BOARD_INIT_OK\<close> with the 32 MHz clock or \<open>BOARD_INIT_CLOCK_FALLBACK\<close> with the 4 MHz one, never a GPIO or UART
  failure; both GPIO ports and UART0 are reset and powered, once each, each powered only after its reset, and no other
  register of a peripheral is accessed before the peripheral was reset and powered and its 64-cycle start-up time
  spent; the transmitter owns an empty queue of 64 bytes; and the divisor registers hold the divisor nearest to
  115200 baud for the clock the board ended up with.\<close>

theorem board_init_powers_before_use:
  assumes "bd_uart_config bd = g_uart0_tx" "64 \<le> length (bd_uart_tx_storage bd)"
  shows "\<exists>r bd' tr q ibrd fbrd. board_init debug_enabled hw bd = Some (r, bd')
    \<and> r \<in> {Board_Ok, Board_Clock_Fallback} \<and> bd_mclk_hz bd' = (if r = Board_Ok then 32000000 else 4000000)
    \<and> mc_trace (bd_machine bd') = mc_trace (bd_machine bd) @ tr \<and> powered {} {} 0 tr \<and> resets_and_powers board_peripherals tr
    \<and> ua_initialized (bd_uart bd') \<and> ua_queue (bd_uart bd') = Some q \<and> ring_inv q \<and> ring_contents q = [] \<and> ring_room q = 64
    \<and> written (UART0 UART_IBRD) tr = [ibrd] \<and> written (UART0 UART_FBRD) tr = [fbrd]
    \<and> 2 * \<bar>(64 * int (unat ibrd) + int (unat fbrd)) * 115200 - 4 * int (unat (bd_mclk_hz bd'))\<bar> \<le> 115200"
proof -
  obtain r bd' tr q where ran: "board_init debug_enabled hw bd = Some (r, bd')" "r \<in> {Board_Ok, Board_Clock_Fallback}"
    "bd_mclk_hz bd' = (if r = Board_Ok then 32000000 else 4000000)"
    "mc_trace (bd_machine bd') = mc_trace (bd_machine bd) @ tr @ board_setup (bd_mclk_hz bd')" "list_all sysctl_access tr"
    "ua_initialized (bd_uart bd')" "ua_queue (bd_uart bd') = Some q" "ring_inv q" "ring_contents q = []" "ring_room q = 64"
    using board_init_ran [OF assms, of debug_enabled hw] by blast
  let ?tr = "tr @ board_setup (bd_mclk_hz bd')"
  have power: "powered {} {} 0 ?tr" using powered_sysctl [OF ran(5)] board_setup_powered by blast
  have resets: "resets_and_powers board_peripherals ?tr" by (rule board_setup_resets [OF ran(5)])
  have regs: "written (UART0 UART_IBRD) ?tr = [if bd_mclk_hz bd' = 32000000 then 17 else 2]"
    "written (UART0 UART_FBRD) ?tr = [if bd_mclk_hz bd' = 32000000 then 23 else 11]"
    using sysctl_only [OF ran(5)] by (simp_all add: board_setup_divisor)
  have near: "2 * \<bar>(64 * int (unat (if bd_mclk_hz bd' = 32000000 then 17 else 2 :: u32))
      + int (unat (if bd_mclk_hz bd' = 32000000 then 23 else 11 :: u32))) * 115200 - 4 * int (unat (bd_mclk_hz bd'))\<bar> \<le> 115200"
    using ran(3) by simp
  show ?thesis
    by (rule exI [of _ r], rule exI [of _ bd'], rule exI [of _ ?tr], rule exI [of _ q],
        rule exI [of _ "if bd_mclk_hz bd' = 32000000 then 17 else 2"],
        rule exI [of _ "if bd_mclk_hz bd' = 32000000 then 23 else 11"])
      (intro conjI; rule ran(1-4,6-10) power resets regs near)
qed

theorem board_init_powers_before_use_witness:
  "\<exists>r bd' tr. board_init True plain_hardware demo_board = Some (r, bd') \<and> r \<in> {Board_Ok, Board_Clock_Fallback}
    \<and> mc_trace (bd_machine bd') = tr \<and> powered {} {} 0 tr \<and> resets_and_powers board_peripherals tr"
proof -
  have "bd_uart_config demo_board = g_uart0_tx" "64 \<le> length (bd_uart_tx_storage demo_board)"
    "mc_trace (bd_machine demo_board) = []" by (simp_all add: demo_board_def)
  then show ?thesis using board_init_powers_before_use [of demo_board True plain_hardware] by fastforce
qed

end
