(* ===== verification/Arch_Memory.thy ===== *)
theory Arch_Memory
  imports Prelude
begin

text \<open>
  \<open>arch/arch_memory.c\<close>: the byte-copy helpers the compiler may call, and the two copy loops of
  \<open>Reset_Handler\<close>. Memory maps the addresses of the objects the program may access to their bytes; an
  access elsewhere is undefined behaviour. Pointers are addresses, so overlapping arguments are overlapping
  ranges of one memory.
\<close>

section \<open>Memory\<close>

type_synonym memory = "nat \<rightharpoonup> u8"

definition load_byte :: "memory \<Rightarrow> nat \<Rightarrow> u8 defined" where
  "load_byte m a = m a"

definition store_byte :: "memory \<Rightarrow> nat \<Rightarrow> u8 \<Rightarrow> memory defined" where
  "store_byte m a b = (if m a = None then None else Some (m(a \<mapsto> b)))"

section \<open>Operations\<close>

text \<open>\<open>for (index = 0U; index < length; ++index)\<close>: the recursion is on the bytes left.\<close>

fun memcpy_loop :: "nat \<Rightarrow> nat \<Rightarrow> nat \<Rightarrow> nat \<Rightarrow> memory \<Rightarrow> memory defined" where
  "memcpy_loop destination source index 0 m = Some m"
| "memcpy_loop destination source index (Suc left) m = do {
     b \<leftarrow> load_byte m (source + index);
     m \<leftarrow> store_byte m (destination + index) b;
     memcpy_loop destination source (Suc index) left m
   }"

definition memcpy :: "nat \<Rightarrow> nat \<Rightarrow> u32 \<Rightarrow> memory \<Rightarrow> (nat \<times> memory) defined" where
  "memcpy destination source n m = do {
     m \<leftarrow> memcpy_loop destination source 0 (unat n) m;
     Some (destination, m)
   }"

fun memset_loop :: "nat \<Rightarrow> u8 \<Rightarrow> nat \<Rightarrow> nat \<Rightarrow> memory \<Rightarrow> memory defined" where
  "memset_loop destination b index 0 m = Some m"
| "memset_loop destination b index (Suc left) m = do {
     m \<leftarrow> store_byte m (destination + index) b;
     memset_loop destination b (Suc index) left m
   }"

text \<open>\<open>value\<close> is an \<open>int\<close>, stored as its low byte.\<close>

definition memset :: "nat \<Rightarrow> int \<Rightarrow> u32 \<Rightarrow> memory \<Rightarrow> (nat \<times> memory) defined" where
  "memset destination v n m = do {
     m \<leftarrow> memset_loop destination (word_of_int v) 0 (unat n) m;
     Some (destination, m)
   }"

fun memmove_loop :: "nat \<Rightarrow> nat \<Rightarrow> nat \<Rightarrow> memory \<Rightarrow> memory defined" where
  "memmove_loop destination source 0 m = Some m"
| "memmove_loop destination source (Suc n) m = do {
     b \<leftarrow> load_byte m (source + n);
     m \<leftarrow> store_byte m (destination + n) b;
     memmove_loop destination source n m
   }"

definition memmove :: "nat \<Rightarrow> nat \<Rightarrow> u32 \<Rightarrow> memory \<Rightarrow> (nat \<times> memory) defined" where
  "memmove destination source n m =
     (if destination < source then memcpy destination source n m
      else do {
        m \<leftarrow> memmove_loop destination source (unat n) m;
        Some (destination, m)
      })"

fun memcmp_loop :: "nat \<Rightarrow> nat \<Rightarrow> nat \<Rightarrow> nat \<Rightarrow> memory \<Rightarrow> int defined" where
  "memcmp_loop left right index 0 m = Some 0"
| "memcmp_loop left right index (Suc remaining) m = do {
     a \<leftarrow> load_byte m (left + index);
     b \<leftarrow> load_byte m (right + index);
     (if a \<noteq> b then Some (if a < b then -1 else 1)
      else memcmp_loop left right (Suc index) remaining m)
   }"

definition memcmp :: "nat \<Rightarrow> nat \<Rightarrow> u32 \<Rightarrow> memory \<Rightarrow> int defined" where
  "memcmp left right n m = memcmp_loop left right 0 (unat n) m"

section \<open>Ranges\<close>

definition mapped :: "memory \<Rightarrow> nat \<Rightarrow> nat \<Rightarrow> bool" where
  "mapped m p n \<longleftrightarrow> {p..<p + n} \<subseteq> dom m"

definition bytes_at :: "memory \<Rightarrow> nat \<Rightarrow> nat \<Rightarrow> u8 list" where
  "bytes_at m p n = map (\<lambda>i. the (m (p + i))) [0..<n]"

text \<open>The memory with \<open>n\<close> bytes at \<open>d\<close> taken from \<open>s\<close>, all at once.\<close>

definition moved :: "nat \<Rightarrow> nat \<Rightarrow> nat \<Rightarrow> memory \<Rightarrow> memory" where
  "moved d s n m = (\<lambda>a. if d \<le> a \<and> a < d + n then m (s + (a - d)) else m a)"

lemma mapped_at: "mapped m p n \<Longrightarrow> i < n \<Longrightarrow> \<exists>b. m (p + i) = Some b"
  unfolding mapped_def by (metis add_less_cancel_left atLeastLessThan_iff domD le_add1 subsetD)

lemma length_bytes_at [simp]: "length (bytes_at m p n) = n"
  by (simp add: bytes_at_def)

lemma bytes_at_moved: "bytes_at (moved d s n m) d n = bytes_at m s n"
  by (simp add: bytes_at_def moved_def)

lemma moved_mapped: "mapped m s n \<Longrightarrow> mapped m d n \<Longrightarrow> dom (moved d s n m) = dom m"
proof -
  assume s: "mapped m s n" and d: "mapped m d n"
  have "a \<in> dom (moved d s n m) \<longleftrightarrow> a \<in> dom m" for a
  proof (cases "d \<le> a \<and> a < d + n")
    case True
    then have "a - d < n" by linarith
    with True mapped_at [OF s this] mapped_at [OF d this] show ?thesis by (auto simp: moved_def)
  next
    case False
    then show ?thesis by (auto simp: moved_def)
  qed
  then show ?thesis by blast
qed

section \<open>Copying upwards and downwards\<close>

text \<open>Upwards is right when no byte of the source is overwritten before it is read.\<close>

lemma memcpy_loop_moves:
  assumes "mapped m s (index + n)" "mapped m d (index + n)" "d \<le> s \<or> s + (index + n) \<le> d \<or> n = 0"
  shows "memcpy_loop d s index n (moved d s index m) = Some (moved d s (index + n) m)"
  using assms
proof (induction n arbitrary: index)
  case 0
  then show ?case by simp
next
  case (Suc n)
  obtain b where b: "m (s + index) = Some b" using mapped_at [OF Suc.prems(1), of index] by auto
  obtain b' where b': "m (d + index) = Some b'" using mapped_at [OF Suc.prems(2), of index] by auto
  have "moved d s index m (s + index) = Some b" using b Suc.prems(3) by (auto simp: moved_def)
  moreover have "moved d s index m (d + index) = Some b'" using b' by (simp add: moved_def)
  moreover have "(moved d s index m)(d + index \<mapsto> b) = moved d s (Suc index) m"
    using b by (auto simp: moved_def fun_eq_iff)
  moreover have "memcpy_loop d s (Suc index) n (moved d s (Suc index) m) = Some (moved d s (index + Suc n) m)"
    using Suc.IH [of "Suc index"] Suc.prems by auto
  ultimately show ?case by (simp add: load_byte_def store_byte_def)
qed

lemma empty_range [simp]: "(\<lambda>a. if d \<le> a \<and> a < d then f a else m a) = m" for d :: nat
  by (rule ext) auto

lemma moved_none [simp]: "moved d s 0 m = m"
  by (simp add: moved_def)

text \<open>Downwards, the bytes from \<open>n\<close> to \<open>whole\<close> are the ones already moved.\<close>

definition moved_above :: "nat \<Rightarrow> nat \<Rightarrow> nat \<Rightarrow> nat \<Rightarrow> memory \<Rightarrow> memory" where
  "moved_above d s n whole m = (\<lambda>a. if d + n \<le> a \<and> a < d + whole then m (s + (a - d)) else m a)"

lemma memmove_loop_moves:
  assumes "mapped m s whole" "mapped m d whole" "s \<le> d" "n \<le> whole"
  shows "memmove_loop d s n (moved_above d s n whole m) = Some (moved d s whole m)"
  using assms(4)
proof (induction n)
  case 0
  then show ?case by (simp add: moved_above_def moved_def)
next
  case (Suc n)
  obtain b where b: "m (s + n) = Some b" using mapped_at [OF assms(1), of n] Suc.prems by auto
  obtain b' where b': "m (d + n) = Some b'" using mapped_at [OF assms(2), of n] Suc.prems by auto
  have "moved_above d s (Suc n) whole m (s + n) = Some b" using b assms(3) by (simp add: moved_above_def)
  moreover have "moved_above d s (Suc n) whole m (d + n) = Some b'" using b' by (simp add: moved_above_def)
  moreover have "(moved_above d s (Suc n) whole m)(d + n \<mapsto> b) = moved_above d s n whole m"
    using b Suc.prems by (auto simp: moved_above_def fun_eq_iff)
  moreover have "memmove_loop d s n (moved_above d s n whole m) = Some (moved d s whole m)"
    using Suc.IH Suc.prems by simp
  ultimately show ?case by (simp add: load_byte_def store_byte_def)
qed

lemma memcpy_moves:
  assumes "mapped m s (unat n)" "mapped m d (unat n)" "d \<le> s \<or> s + unat n \<le> d"
  shows "memcpy d s n m = Some (d, moved d s (unat n) m)"
  using memcpy_loop_moves [of m s 0 "unat n" d] assms by (auto simp: memcpy_def)

lemma memset_sets:
  assumes "mapped m d (unat n)"
  shows "memset d v n m = Some (d, \<lambda>a. if d \<le> a \<and> a < d + unat n then Some (word_of_int v) else m a)"
proof -
  have "memset_loop d b index k (\<lambda>a. if d \<le> a \<and> a < d + index then Some b else m a)
    = Some (\<lambda>a. if d \<le> a \<and> a < d + (index + k) then Some b else m a)"
    if "mapped m d (index + k)" for b index k
    using that
  proof (induction k arbitrary: index)
    case 0
    then show ?case by simp
  next
    case (Suc k)
    obtain b' where "m (d + index) = Some b'" using mapped_at [OF Suc.prems, of index] by auto
    moreover have "(\<lambda>a. if d \<le> a \<and> a < d + index then Some b else m a)(d + index \<mapsto> b)
        = (\<lambda>a. if d \<le> a \<and> a < d + Suc index then Some b else m a)"
      by (auto simp: fun_eq_iff)
    ultimately show ?case using Suc.IH [of "Suc index"] Suc.prems by (simp add: store_byte_def)
  qed
  from this [of 0 "unat n" "word_of_int v"] assms show ?thesis by (simp add: memset_def)
qed

section \<open>Properties\<close>

text \<open>C31. \<open>memmove\<close> moves any block of memory to any place: on two mapped blocks, however they overlap, it
  returns the destination and leaves there the bytes the source held before the call, and no byte outside
  the destination changes. \<open>memcpy\<close>, which it falls back on, does the same for blocks that do not overlap.\<close>

theorem memmove_moves_overlapping:
  assumes "mapped m source (unat n)" "mapped m destination (unat n)"
  shows "(\<exists>m'. memmove destination source n m = Some (destination, m')
      \<and> bytes_at m' destination (unat n) = bytes_at m source (unat n)
      \<and> (\<forall>a. a < destination \<or> destination + unat n \<le> a \<longrightarrow> m' a = m a))
    \<and> (destination + unat n \<le> source \<or> source + unat n \<le> destination
        \<longrightarrow> memcpy destination source n m = memmove destination source n m)"
proof -
  have move: "memmove destination source n m = Some (destination, moved destination source (unat n) m)"
  proof (cases "destination < source")
    case True
    then show ?thesis using memcpy_moves [OF assms] by (simp add: memmove_def)
  next
    case False
    then have "memmove_loop destination source (unat n) (moved_above destination source (unat n) (unat n) m)
        = Some (moved destination source (unat n) m)"
      using memmove_loop_moves [OF assms] by simp
    moreover have "moved_above destination source (unat n) (unat n) m = m" by (simp add: moved_above_def)
    ultimately show ?thesis using False by (simp add: memmove_def)
  qed
  moreover have "memcpy destination source n m = Some (destination, moved destination source (unat n) m)"
    if "destination + unat n \<le> source \<or> source + unat n \<le> destination"
    using memcpy_moves [OF assms] that by auto
  ultimately show ?thesis by (auto simp: bytes_at_moved) (auto simp: moved_def)
qed

definition demo_memory :: memory where
  "demo_memory = map_of [(100, 1), (101, 2), (102, 3), (103, 4), (104, 5)]"

theorem memmove_moves_overlapping_witness:
  "(\<exists>m'. memmove 101 100 4 demo_memory = Some (101, m') \<and> bytes_at m' 101 4 = [1, 2, 3, 4])
    \<and> map_option (\<lambda>(d, m'). bytes_at m' 100 5) (memcpy 101 100 4 demo_memory) = Some [1, 1, 1, 1, 1]"
proof -
  have "unat (4 :: u32) = 4" by simp
  moreover have "mapped demo_memory 100 4" "mapped demo_memory 101 4"
    by (auto simp: mapped_def demo_memory_def)
  ultimately have "\<exists>m'. memmove 101 100 4 demo_memory = Some (101, m') \<and> bytes_at m' 101 4 = bytes_at demo_memory 100 4"
    using memmove_moves_overlapping [of demo_memory 100 4 101] by auto
  moreover have "bytes_at demo_memory 100 4 = [1, 2, 3, 4]" by code_simp
  moreover have "map_option (\<lambda>(d, m'). bytes_at m' 100 5) (memcpy 101 100 4 demo_memory) = Some [1, 1, 1, 1, 1]"
    by code_simp
  ultimately show ?thesis by simp
qed

text \<open>\<open>memcmp\<close> is the lexicographic comparison of the two blocks as unsigned bytes.\<close>

fun bytes_compare :: "u8 list \<Rightarrow> u8 list \<Rightarrow> int" where
  "bytes_compare (a # as) (b # bs) = (if a < b then -1 else if b < a then 1 else bytes_compare as bs)"
| "bytes_compare _ _ = 0"

lemma memcmp_compares:
  assumes "mapped m left (unat n)" "mapped m right (unat n)"
  shows "memcmp left right n m = Some (bytes_compare (bytes_at m left (unat n)) (bytes_at m right (unat n)))"
proof -
  have cons: "map f [index..<index + Suc k] = f index # map f [Suc index..<Suc index + k]" for f :: "nat \<Rightarrow> u8" and index k
    by (simp add: upt_conv_Cons del: upt_Suc)
  have "memcmp_loop left right index k m = Some (bytes_compare (map (\<lambda>i. the (m (left + i))) [index..<index + k])
      (map (\<lambda>i. the (m (right + i))) [index..<index + k]))"
    if "index + k \<le> unat n" for index k
    using that
  proof (induction k arbitrary: index)
    case 0
    then show ?case by simp
  next
    case (Suc k)
    obtain a where a: "m (left + index) = Some a" using mapped_at [OF assms(1), of index] Suc.prems by auto
    obtain b where b: "m (right + index) = Some b" using mapped_at [OF assms(2), of index] Suc.prems by auto
    show ?case
      unfolding cons using a b Suc.IH [of "Suc index"] Suc.prems by (auto simp: load_byte_def)
  qed
  from this [of 0 "unat n"] show ?thesis by (simp add: memcmp_def bytes_at_def)
qed

end
