(* ===== verification/Startup.thy ===== *)
theory Startup
  imports Arch_Memory Crash_Record Cmsis
begin

text \<open>
  \<open>device/mspm0c1106/startup.c\<close> with the memory regions of \<open>linker.ld\<close>: the vector table, the reset handler, and
  the fault handlers, whose assembly is a program of a small machine with exactly the instructions they use. The
  symbols the linker defines are a record.
\<close>

section \<open>Vectors\<close>

text \<open>The handlers by name. A weak handler that the image does not define is \<open>Default_Handler\<close>; which ones an
  image defines is not part of the table.\<close>

datatype handler = H_Reset | H_NMI | H_HardFault | H_SVC | H_PendSV | H_SysTick | H_Default
  | H_SYSCTL | H_DEBUGSS | H_TIMG8 | H_UART1 | H_ADC0 | H_COMP0 | H_UART2 | H_SPI0 | H_UART0 | H_TIMG14
  | H_TIMG2 | H_TIMA0 | H_TIMG1 | H_GPIOA | H_GPIOB | H_I2C0 | H_I2C1 | H_FLASHCTL | H_WWDT0 | H_LFSS | H_DMA

datatype vector = V_Stack_Top | V_Zero | V handler

definition EXTERNAL_VECTORS :: "handler list" where
  "EXTERNAL_VECTORS =
     [H_SYSCTL, H_DEBUGSS, H_TIMG8, H_UART1, H_ADC0, H_Default, H_Default, H_COMP0, H_UART2, H_SPI0, H_Default,
      H_Default, H_Default, H_Default, H_Default, H_UART0, H_TIMG14, H_TIMG2, H_TIMA0, H_TIMG1, H_Default,
      H_Default, H_GPIOA, H_GPIOB, H_I2C0, H_I2C1, H_Default, H_FLASHCTL, H_Default, H_WWDT0, H_LFSS, H_DMA]"

definition g_vector_table :: "vector list" where
  "g_vector_table =
     [V_Stack_Top, V H_Reset, V H_NMI, V H_HardFault, V_Zero, V_Zero, V_Zero, V_Zero, V_Zero, V_Zero, V_Zero,
      V H_SVC, V_Zero, V_Zero, V H_PendSV, V H_SysTick] @ map V EXTERNAL_VECTORS"

text \<open>The handler the name of an interrupt promises. The real-time clock interrupts through the low-frequency
  subsystem.\<close>

fun handler_of :: "IRQn_Type \<Rightarrow> handler" where
  "handler_of NonMaskableInt_IRQn = H_NMI"
| "handler_of HardFault_IRQn = H_HardFault"
| "handler_of SVCall_IRQn = H_SVC"
| "handler_of PendSV_IRQn = H_PendSV"
| "handler_of SysTick_IRQn = H_SysTick"
| "handler_of SYSCTL_INT_IRQn = H_SYSCTL"
| "handler_of DEBUGSS_INT_IRQn = H_DEBUGSS"
| "handler_of TIMG8_INT_IRQn = H_TIMG8"
| "handler_of UART1_INT_IRQn = H_UART1"
| "handler_of ADC0_INT_IRQn = H_ADC0"
| "handler_of COMP0_INT_IRQn = H_COMP0"
| "handler_of UART2_INT_IRQn = H_UART2"
| "handler_of SPI0_INT_IRQn = H_SPI0"
| "handler_of UART0_INT_IRQn = H_UART0"
| "handler_of TIMG14_INT_IRQn = H_TIMG14"
| "handler_of TIMG2_INT_IRQn = H_TIMG2"
| "handler_of TIMA0_INT_IRQn = H_TIMA0"
| "handler_of TIMG1_INT_IRQn = H_TIMG1"
| "handler_of GPIOA_INT_IRQn = H_GPIOA"
| "handler_of GPIOB_INT_IRQn = H_GPIOB"
| "handler_of I2C0_INT_IRQn = H_I2C0"
| "handler_of I2C1_INT_IRQn = H_I2C1"
| "handler_of FLASHCTL_INT_IRQn = H_FLASHCTL"
| "handler_of WWDT0_INT_IRQn = H_WWDT0"
| "handler_of LFSS_INT_IRQn = H_LFSS"
| "handler_of RTC_B_INT_IRQn = H_LFSS"
| "handler_of DMA_INT_IRQn = H_DMA"

section \<open>The linker's symbols\<close>

definition SRAM_ORIGIN :: u32 where "SRAM_ORIGIN = 0x20000000"
definition SRAM_LENGTH :: u32 where "SRAM_LENGTH = 0x00002000"

definition stack_top :: u32 where "stack_top = SRAM_ORIGIN + SRAM_LENGTH"
definition sram_start :: u32 where "sram_start = SRAM_ORIGIN"
definition crash_stack_frame_limit :: u32 where "crash_stack_frame_limit = stack_top - 32"

record image_symbols =
  data_load_start :: nat
  data_start :: nat
  data_end :: nat
  bss_start :: nat
  bss_end :: nat

section \<open>The fault handlers\<close>

text \<open>The registers and flags the handlers use; \<open>N\<close> and \<open>V\<close> are not tested by any instruction.\<close>

datatype core_reg = R0 | R1 | R2 | R3 | R4 | R5

datatype literal = Lit_Sram_Start | Lit_Frame_Limit | Lit_Stack_Top | Lit_Capture

datatype instruction = Mrs_Msp core_reg | Mrs_Ipsr core_reg | Msr_Msp core_reg | Movs_Imm core_reg u32
  | Movs core_reg core_reg | Tst core_reg core_reg | Cmp core_reg core_reg | Ldr_Literal core_reg literal
  | Ldr core_reg core_reg u32 | Bne nat | Blo nat | Bhi nat | Branch nat | Bx core_reg

record core_state =
  cs_regs :: "core_reg \<Rightarrow> u32"
  cs_msp :: u32
  cs_ipsr :: u32
  cs_z :: bool
  cs_c :: bool
  cs_pc :: nat
  cs_loads :: "u32 list"

text \<open>Words of memory the core can load; a load of any other address, or of an unaligned one, faults.\<close>

type_synonym words = "u32 \<Rightarrow> u32 option"

definition load_word :: "words \<Rightarrow> u32 \<Rightarrow> u32 defined" where
  "load_word mem a = (if a AND 3 = 0 then mem a else None)"

fun literal_value :: "u32 \<Rightarrow> literal \<Rightarrow> u32" where
  "literal_value capture Lit_Sram_Start = sram_start"
| "literal_value capture Lit_Frame_Limit = crash_stack_frame_limit"
| "literal_value capture Lit_Stack_Top = stack_top"
| "literal_value capture Lit_Capture = capture"

definition put :: "core_reg \<Rightarrow> u32 \<Rightarrow> core_state \<Rightarrow> core_state" where
  "put r v s = s\<lparr>cs_regs := (cs_regs s)(r := v), cs_pc := cs_pc s + 1\<rparr>"

definition jump_if :: "bool \<Rightarrow> nat \<Rightarrow> core_state \<Rightarrow> core_state" where
  "jump_if b target s = s\<lparr>cs_pc := (if b then target else cs_pc s + 1)\<rparr>"

fun execute :: "u32 \<Rightarrow> words \<Rightarrow> instruction \<Rightarrow> core_state \<Rightarrow> core_state defined" where
  "execute capture mem (Mrs_Msp r) s = Some (put r (cs_msp s) s)"
| "execute capture mem (Mrs_Ipsr r) s = Some (put r (cs_ipsr s) s)"
| "execute capture mem (Msr_Msp r) s = Some (s\<lparr>cs_msp := cs_regs s r AND NOT 3, cs_pc := cs_pc s + 1\<rparr>)"
| "execute capture mem (Movs_Imm r v) s = Some ((put r v s)\<lparr>cs_z := v = 0\<rparr>)"
| "execute capture mem (Movs r r') s = Some ((put r (cs_regs s r') s)\<lparr>cs_z := cs_regs s r' = 0\<rparr>)"
| "execute capture mem (Tst r r') s = Some (s\<lparr>cs_z := cs_regs s r AND cs_regs s r' = 0, cs_pc := cs_pc s + 1\<rparr>)"
| "execute capture mem (Cmp r r') s =
     Some (s\<lparr>cs_z := cs_regs s r = cs_regs s r', cs_c := cs_regs s r \<ge> cs_regs s r', cs_pc := cs_pc s + 1\<rparr>)"
| "execute capture mem (Ldr_Literal r l) s = Some (put r (literal_value capture l) s)"
| "execute capture mem (Ldr r r' n) s = do {
     v \<leftarrow> load_word mem (cs_regs s r' + n);
     Some (put r v (s\<lparr>cs_loads := cs_loads s @ [cs_regs s r' + n]\<rparr>))
   }"
| "execute capture mem (Bne l) s = Some (jump_if (\<not> cs_z s) l s)"
| "execute capture mem (Blo l) s = Some (jump_if (\<not> cs_c s) l s)"
| "execute capture mem (Bhi l) s = Some (jump_if (cs_c s \<and> \<not> cs_z s) l s)"
| "execute capture mem (Branch l) s = Some (jump_if True l s)"
| "execute capture mem (Bx r) s = Some s"

text \<open>\<open>CRASH_HANDLER_ASM\<close>, instruction by instruction; the numeric labels \<open>1\<close> and \<open>2\<close> are positions 13 and 15.\<close>

definition CRASH_HANDLER_ASM :: "u32 \<Rightarrow> instruction list" where
  "CRASH_HANDLER_ASM reason_code =
     [Mrs_Msp R0,
      Movs_Imm R3 3,
      Tst R0 R3,
      Bne 13,
      Ldr_Literal R3 Lit_Sram_Start,
      Cmp R0 R3,
      Blo 13,
      Ldr_Literal R3 Lit_Frame_Limit,
      Cmp R0 R3,
      Bhi 13,
      Ldr R2 R0 24,
      Ldr R3 R0 28,
      Branch 15,
      Movs_Imm R2 0,
      Movs_Imm R3 0,
      Mrs_Ipsr R1,
      Movs_Imm R0 reason_code,
      Movs R4 R3,
      Ldr_Literal R3 Lit_Stack_Top,
      Msr_Msp R3,
      Ldr_Literal R5 Lit_Capture,
      Movs R3 R4,
      Bx R5]"

definition NMI_Handler :: "instruction list" where
  "NMI_Handler = CRASH_HANDLER_ASM LIB_CRASH_REASON_NMI"

definition HardFault_Handler :: "instruction list" where
  "HardFault_Handler = CRASH_HANDLER_ASM LIB_CRASH_REASON_HARDFAULT"

definition Default_Handler :: "instruction list" where
  "Default_Handler = CRASH_HANDLER_ASM LIB_CRASH_REASON_UNEXPECTED_EXCEPTION"

text \<open>Running a handler to its \<open>bx\<close>: the address it branches to, with the state at that moment. Fuel counts
  instructions; the handlers have no loop, and 23 instructions are enough.\<close>

fun run_handler :: "nat \<Rightarrow> u32 \<Rightarrow> words \<Rightarrow> instruction list \<Rightarrow> core_state \<Rightarrow> (u32 \<times> core_state) defined" where
  "run_handler 0 capture mem code s = None"
| "run_handler (Suc fuel) capture mem code s =
     (if cs_pc s \<ge> length code then None
      else case code ! cs_pc s of
        Bx r \<Rightarrow> Some (cs_regs s r, s)
      | i \<Rightarrow> do {
          s \<leftarrow> execute capture mem i s;
          run_handler fuel capture mem code s
        })"

text \<open>\<open>crash_capture_from_values\<close>, up to its endless wait for the reset.\<close>

definition crash_capture_from_values ::
  "u32 \<Rightarrow> u32 \<Rightarrow> u32 \<Rightarrow> u32 \<Rightarrow> lib_crash_record \<Rightarrow> scs \<Rightarrow> (lib_crash_record \<times> scs) defined" where
  "crash_capture_from_values reason exception_number stacked_pc stacked_xpsr record s = do {
     r \<leftarrow> lib_crash_capture (Some record) reason exception_number stacked_pc stacked_xpsr;
     Some (r, NVIC_SystemReset s)
   }"

section \<open>The reset handler\<close>

function data_loop :: "nat \<Rightarrow> nat \<Rightarrow> nat \<Rightarrow> memory \<Rightarrow> memory defined" where
  "data_loop destination source limit m =
     (if destination < limit then do {
        b \<leftarrow> load_byte m source;
        m \<leftarrow> store_byte m destination b;
        data_loop (destination + 1) (source + 1) limit m
      }
      else Some m)"
  by pat_completeness auto
termination by (relation "measure (\<lambda>(d, s, limit, m). limit - d)") auto

function bss_loop :: "nat \<Rightarrow> nat \<Rightarrow> memory \<Rightarrow> memory defined" where
  "bss_loop destination limit m =
     (if destination < limit then do {
        m \<leftarrow> store_byte m destination 0;
        bss_loop (destination + 1) limit m
      }
      else Some m)"
  by pat_completeness auto
termination by (relation "measure (\<lambda>(d, limit, m). limit - d)") auto

declare data_loop.simps [simp del] bss_loop.simps [simp del]

definition SYSCTL_RSTCAUSE_ID_MASK :: u32 where "SYSCTL_RSTCAUSE_ID_MASK = 0x1f"

text \<open>Up to the call of \<open>main\<close>. The crash record is in memory that neither loop touches.\<close>

definition Reset_Handler ::
  "'h hardware \<Rightarrow> image_symbols \<Rightarrow> lib_crash_record \<Rightarrow> memory \<Rightarrow> 'h machine
    \<Rightarrow> (lib_crash_record \<times> memory \<times> 'h machine) defined" where
  "Reset_Handler hw sy record m mc = do {
     (rstcause, mc) \<leftarrow> mmio_read hw (SYSCTL SYSCTL_RSTCAUSE) mc;
     r \<leftarrow> lib_crash_note_boot (Some record) (rstcause AND SYSCTL_RSTCAUSE_ID_MASK);
     m \<leftarrow> data_loop (data_start sy) (data_load_start sy) (data_end sy) m;
     m \<leftarrow> bss_loop (bss_start sy) (bss_end sy) m;
     Some (r, m, mc)
   }"

section \<open>The handlers\<close>

lemma frame_in_sram:
  assumes "sram_start \<le> msp" "msp \<le> crash_stack_frame_limit"
  shows "sram_start \<le> msp + 24 \<and> msp + 24 < stack_top \<and> sram_start \<le> msp + 28 \<and> msp + 28 < stack_top"
proof -
  have "0x20000000 \<le> unat msp" "unat msp \<le> 0x20001fe0"
    using assms by (simp_all add: word_le_nat_alt sram_start_def crash_stack_frame_limit_def stack_top_def SRAM_ORIGIN_def
        SRAM_LENGTH_def)
  then have "unat (msp + 24) = unat msp + 24" "unat (msp + 28) = unat msp + 28"
    by (simp_all add: unat_word_ariths)
  then show ?thesis
    using \<open>0x20000000 \<le> unat msp\<close> \<open>unat msp \<le> 0x20001fe0\<close>
    by (simp add: word_le_nat_alt word_less_nat_alt sram_start_def stack_top_def SRAM_ORIGIN_def SRAM_LENGTH_def)
qed

lemma aligned_frame: "msp AND 3 = 0 \<Longrightarrow> (msp + 24) AND 3 = 0 \<and> (msp + 28) AND 3 = 0" for msp :: u32
proof -
  have m: "x AND 3 = 0 \<longleftrightarrow> take_bit 2 (uint x) = 0" for x :: u32
  proof -
    have "x AND 3 = take_bit 2 x" by (simp add: take_bit_eq_mask mask_eq_exp_minus_1)
    then show ?thesis by (simp add: word_uint_eq_iff unsigned_take_bit_eq)
  qed
  have r: "take_bit 2 (uint (x + y)) = take_bit 2 (take_bit 2 (uint x) + take_bit 2 (uint y))" for x y :: u32
    by (simp add: uint_word_ariths take_bit_eq_mod mod_simps mod_mod_cancel)
  assume "msp AND 3 = 0"
  then show ?thesis by (simp add: m r)
qed

definition frame_acceptable :: "u32 \<Rightarrow> bool" where
  "frame_acceptable msp \<longleftrightarrow> msp AND 3 = 0 \<and> sram_start \<le> msp \<and> msp \<le> crash_stack_frame_limit"

lemma handler_run_acceptable:
  assumes "frame_acceptable (cs_msp s)" "cs_pc s = 0"
    and "mem (cs_msp s + 24) = Some pc" "mem (cs_msp s + 28) = Some psr"
  shows "\<exists>s'. run_handler 23 capture mem (CRASH_HANDLER_ASM reason) s = Some (capture, s')
    \<and> cs_regs s' R0 = reason \<and> cs_regs s' R1 = cs_ipsr s \<and> cs_regs s' R2 = pc \<and> cs_regs s' R3 = psr
    \<and> cs_msp s' = stack_top AND NOT 3 \<and> cs_loads s' = cs_loads s @ [cs_msp s + 24, cs_msp s + 28]"
proof -
  have f: "cs_msp s AND 3 = 0" "sram_start \<le> cs_msp s" "\<not> cs_msp s > crash_stack_frame_limit"
    using assms(1) by (auto simp: frame_acceptable_def)
  have l: "load_word mem (cs_msp s + 24) = Some pc" "load_word mem (cs_msp s + 28) = Some psr"
    using aligned_frame [OF f(1)] assms(3,4) by (simp_all add: load_word_def)
  show ?thesis
    using f assms(2) l by (simp add: CRASH_HANDLER_ASM_def put_def jump_if_def eval_nat_numeral)
qed

lemma handler_run_unacceptable:
  assumes "\<not> frame_acceptable (cs_msp s)" "cs_pc s = 0"
  shows "\<exists>s'. run_handler 23 capture mem (CRASH_HANDLER_ASM reason) s = Some (capture, s')
    \<and> cs_regs s' R0 = reason \<and> cs_regs s' R1 = cs_ipsr s \<and> cs_regs s' R2 = 0 \<and> cs_regs s' R3 = 0
    \<and> cs_msp s' = stack_top AND NOT 3 \<and> cs_loads s' = cs_loads s"
proof (cases "cs_msp s AND 3 = 0")
  case False
  then show ?thesis using assms(2) by (simp add: CRASH_HANDLER_ASM_def put_def jump_if_def eval_nat_numeral)
next
  case aligned: True
  show ?thesis
  proof (cases "sram_start \<le> cs_msp s")
    case False
    then show ?thesis using aligned assms(2) by (simp add: CRASH_HANDLER_ASM_def put_def jump_if_def eval_nat_numeral)
  next
    case True
    then have "crash_stack_frame_limit < cs_msp s" using aligned assms(1) by (auto simp: frame_acceptable_def)
    then show ?thesis
      using True aligned assms(2) by (auto simp: CRASH_HANDLER_ASM_def put_def jump_if_def eval_nat_numeral)
  qed
qed

section \<open>The loops of the reset handler\<close>

lemma data_loop_moves:
  assumes "mapped m s n" "mapped m d n" "d + n \<le> s \<or> s + n \<le> d" "k \<le> n"
  shows "data_loop (d + k) (s + k) (d + n) (moved d s k m) = Some (moved d s n m)"
  using assms(4)
proof (induction "n - k" arbitrary: k)
  case 0
  then show ?case by (simp add: data_loop.simps)
next
  case (Suc left)
  then have k: "k < n" by simp
  obtain b where b: "m (s + k) = Some b" using mapped_at [OF assms(1) k] by auto
  obtain b' where b': "m (d + k) = Some b'" using mapped_at [OF assms(2) k] by auto
  have "moved d s k m (s + k) = Some b" using b assms(3) k by (auto simp: moved_def)
  moreover have "moved d s k m (d + k) = Some b'" using b' by (simp add: moved_def)
  moreover have "(moved d s k m)(d + k \<mapsto> b) = moved d s (Suc k) m"
    using b by (auto simp: moved_def fun_eq_iff)
  moreover have "data_loop (d + Suc k) (s + Suc k) (d + n) (moved d s (Suc k) m) = Some (moved d s n m)"
    using Suc.hyps(1) [of "Suc k"] Suc.hyps(2) k by simp
  ultimately show ?case using k by (simp add: data_loop.simps [of "d + k"] load_byte_def store_byte_def)
qed

definition zeroed :: "nat \<Rightarrow> nat \<Rightarrow> memory \<Rightarrow> memory" where
  "zeroed p q m = (\<lambda>a. if p \<le> a \<and> a < q then Some 0 else m a)"

lemma bss_loop_zeroes:
  assumes "mapped m d n" "k \<le> n"
  shows "bss_loop (d + k) (d + n) (zeroed d (d + k) m) = Some (zeroed d (d + n) m)"
  using assms(2)
proof (induction "n - k" arbitrary: k)
  case 0
  then show ?case by (simp add: bss_loop.simps)
next
  case (Suc left)
  then have k: "k < n" by simp
  obtain b' where b': "m (d + k) = Some b'" using mapped_at [OF assms(1) k] by auto
  have "zeroed d (d + k) m (d + k) = Some b'" using b' by (simp add: zeroed_def)
  moreover have "(zeroed d (d + k) m)(d + k \<mapsto> 0) = zeroed d (d + Suc k) m"
    by (auto simp: zeroed_def fun_eq_iff)
  moreover have "bss_loop (d + Suc k) (d + n) (zeroed d (d + Suc k) m) = Some (zeroed d (d + n) m)"
    using Suc.hyps(1) [of "Suc k"] Suc.hyps(2) k by simp
  ultimately show ?case using k by (simp add: bss_loop.simps [of "d + k"] store_byte_def)
qed

text \<open>What \<open>linker.ld\<close> guarantees of its symbols: the two regions lie one after the other in mapped memory and the
  load image lies apart from them.\<close>

definition image_ok :: "image_symbols \<Rightarrow> memory \<Rightarrow> bool" where
  "image_ok sy m \<longleftrightarrow> data_start sy \<le> data_end sy \<and> data_end sy \<le> bss_start sy \<and> bss_start sy \<le> bss_end sy
     \<and> data_load_start sy + (data_end sy - data_start sy) \<le> data_start sy
     \<and> mapped m (data_load_start sy) (data_end sy - data_start sy)
     \<and> mapped m (data_start sy) (bss_end sy - data_start sy)"

section \<open>Properties\<close>

text \<open>C28. Every interrupt reaches its handler. The vector table has 48 entries, the first the initial stack pointer;
  the entry at the vector number of every interrupt and exception of the device is the handler of that name, and its
  vector number is its interrupt number plus 16; every other entry from 16 on is \<open>Default_Handler\<close>, and every other
  below 16 reserved.\<close>

theorem vector_table_serves_interrupts:
  "length g_vector_table = 48 \<and> g_vector_table ! 0 = V_Stack_Top \<and> g_vector_table ! 1 = V H_Reset
    \<and> g_vector_table ! vector_number irq = V (handler_of irq) \<and> int (vector_number irq) = irq_number irq + NVIC_USER_IRQ_OFFSET
    \<and> {i. i < 48 \<and> g_vector_table ! i = V H_Default} = {16..<48} - range vector_number
    \<and> {i. i < 48 \<and> g_vector_table ! i = V_Zero} = {2..<16} - range vector_number"
proof -
  have range: "range vector_number = {2, 3, 11, 14, 15, 16, 17, 18, 19, 20, 23, 24, 25, 31, 32, 33, 34, 35, 38, 39, 40,
      41, 43, 45, 46, 47}"
  proof (rule antisym)
    show "range vector_number \<subseteq> {2, 3, 11, 14, 15, 16, 17, 18, 19, 20, 23, 24, 25, 31, 32, 33, 34, 35, 38, 39, 40,
      41, 43, 45, 46, 47}"
    proof (rule image_subsetI)
      fix irq
      show "vector_number irq \<in> {2, 3, 11, 14, 15, 16, 17, 18, 19, 20, 23, 24, 25, 31, 32, 33, 34, 35, 38, 39, 40,
          41, 43, 45, 46, 47}"
        by (cases irq) simp_all
    qed
    have "{2, 3, 11, 14, 15, 16, 17, 18, 19, 20, 23, 24, 25, 31, 32, 33, 34, 35, 38, 39, 40,
      41, 43, 45, 46, 47} = vector_number ` {NonMaskableInt_IRQn, HardFault_IRQn, SVCall_IRQn, PendSV_IRQn, SysTick_IRQn,
        SYSCTL_INT_IRQn, DEBUGSS_INT_IRQn, TIMG8_INT_IRQn, UART1_INT_IRQn, ADC0_INT_IRQn, COMP0_INT_IRQn, UART2_INT_IRQn,
        SPI0_INT_IRQn, UART0_INT_IRQn, TIMG14_INT_IRQn, TIMG2_INT_IRQn, TIMA0_INT_IRQn, TIMG1_INT_IRQn, GPIOA_INT_IRQn,
        GPIOB_INT_IRQn, I2C0_INT_IRQn, I2C1_INT_IRQn, FLASHCTL_INT_IRQn, WWDT0_INT_IRQn, LFSS_INT_IRQn, DMA_INT_IRQn}"
      by (simp only: image_insert image_empty vector_number.simps)
    then show "{2, 3, 11, 14, 15, 16, 17, 18, 19, 20, 23, 24, 25, 31, 32, 33, 34, 35, 38, 39, 40,
      41, 43, 45, 46, 47} \<subseteq> range vector_number"
      by (simp only: image_mono subset_UNIV)
  qed
  define t where "t = g_vector_table"
  have "list_all (\<lambda>i. (t ! i = V H_Default \<longleftrightarrow> 16 \<le> i \<and> i \<notin> range vector_number)
      \<and> (t ! i = V_Zero \<longleftrightarrow> 2 \<le> i \<and> i < 16 \<and> i \<notin> range vector_number)) [0..<48]"
    unfolding range t_def g_vector_table_def EXTERNAL_VECTORS_def by (simp add: upt_rec [where j = "numeral _"] nth_Cons')
  then have entries: "t ! i = V H_Default \<longleftrightarrow> 16 \<le> i \<and> i \<notin> range vector_number"
      "t ! i = V_Zero \<longleftrightarrow> 2 \<le> i \<and> i < 16 \<and> i \<notin> range vector_number" if "i < 48" for i
    using that by (simp_all only: list_all_iff set_upt atLeastLessThan_iff) auto
  have "{i. i < 48 \<and> t ! i = V H_Default} = {16..<48} - range vector_number"
    using entries(1) by auto
  moreover have "{i. i < 48 \<and> t ! i = V_Zero} = {2..<16} - range vector_number"
    using entries(2) by force
  moreover have "t ! vector_number irq = V (handler_of irq)" "int (vector_number irq) = irq_number irq + NVIC_USER_IRQ_OFFSET"
    by (cases irq; simp add: t_def g_vector_table_def EXTERNAL_VECTORS_def NVIC_USER_IRQ_OFFSET_def)+
  moreover have "length t = 48" "t ! 0 = V_Stack_Top" "t ! 1 = V H_Reset"
    by (simp_all add: t_def g_vector_table_def EXTERNAL_VECTORS_def)
  ultimately show ?thesis unfolding t_def by blast
qed

text \<open>C26. A fault handler never faults itself. Whatever the stack pointer was when the exception was taken and
  whatever the registers hold, the three handlers run to the branch to \<open>crash_capture_from_values\<close> with the stack
  pointer back at the top of the SRAM, the reason and the number of the exception in the first two argument registers,
  and, if a whole exception frame at the old stack pointer lies aligned in the SRAM, the \<open>PC\<close> and \<open>xPSR\<close> of that frame
  in the other two, otherwise zeros; the only words they load are those two, and only in the first case.\<close>

theorem crash_handler_reads_only_its_frame:
  assumes "\<forall>a. sram_start \<le> a \<and> a < stack_top \<and> a AND 3 = 0 \<longrightarrow> mem a \<noteq> None" "cs_pc s = 0"
    and "(handler, reason) \<in> {(NMI_Handler, LIB_CRASH_REASON_NMI), (HardFault_Handler, LIB_CRASH_REASON_HARDFAULT),
      (Default_Handler, LIB_CRASH_REASON_UNEXPECTED_EXCEPTION)}"
  shows "\<exists>s'. run_handler 23 capture mem handler s = Some (capture, s') \<and> cs_msp s' = stack_top
    \<and> cs_regs s' R0 = reason \<and> cs_regs s' R1 = cs_ipsr s
    \<and> (if cs_msp s AND 3 = 0 \<and> sram_start \<le> cs_msp s \<and> cs_msp s \<le> stack_top - 32
       then mem (cs_msp s + 24) = Some (cs_regs s' R2) \<and> mem (cs_msp s + 28) = Some (cs_regs s' R3)
         \<and> cs_loads s' = cs_loads s @ [cs_msp s + 24, cs_msp s + 28]
       else cs_regs s' R2 = 0 \<and> cs_regs s' R3 = 0 \<and> cs_loads s' = cs_loads s)"
proof -
  have h: "handler = CRASH_HANDLER_ASM reason"
    using assms(3) by (auto simp: NMI_Handler_def HardFault_Handler_def Default_Handler_def)
  have top: "stack_top AND NOT 3 = stack_top" by (simp add: stack_top_def SRAM_ORIGIN_def SRAM_LENGTH_def)
  have f: "frame_acceptable (cs_msp s) \<longleftrightarrow>
      cs_msp s AND 3 = 0 \<and> sram_start \<le> cs_msp s \<and> cs_msp s \<le> stack_top - 32"
    by (simp add: frame_acceptable_def crash_stack_frame_limit_def)
  show ?thesis
  proof (cases "frame_acceptable (cs_msp s)")
    case True
    then have sp: "cs_msp s AND 3 = 0" "sram_start \<le> cs_msp s" "cs_msp s \<le> crash_stack_frame_limit"
      by (simp_all add: frame_acceptable_def)
    obtain pc psr where "mem (cs_msp s + 24) = Some pc" "mem (cs_msp s + 28) = Some psr"
      using assms(1) frame_in_sram [OF sp(2,3)] aligned_frame [OF sp(1)] by blast
    from handler_run_acceptable [OF True assms(2) this] this True show ?thesis
      unfolding f [symmetric] h top by auto
  next
    case False
    from handler_run_unacceptable [OF False assms(2), of capture mem reason] False show ?thesis
      unfolding f [symmetric] h top by auto
  qed
qed

definition demo_core :: "u32 \<Rightarrow> core_state" where
  "demo_core msp = \<lparr>cs_regs = (\<lambda>r. 0), cs_msp = msp, cs_ipsr = 3, cs_z = False, cs_c = False, cs_pc = 0, cs_loads = []\<rparr>"

definition demo_words :: words where
  "demo_words a = (if sram_start \<le> a \<and> a < stack_top then Some (if a = 0x20001f18 then 0x1234 else 7) else None)"

theorem crash_handler_reads_only_its_frame_witness:
  "(\<exists>s'. run_handler 23 0x100 demo_words HardFault_Handler (demo_core 0x20001f00) = Some (0x100, s')
      \<and> cs_regs s' R2 = 0x1234 \<and> cs_regs s' R3 = 7)
    \<and> (\<exists>s'. run_handler 23 0x100 demo_words HardFault_Handler (demo_core 0x1ffffff0) = Some (0x100, s')
      \<and> cs_regs s' R2 = 0 \<and> cs_loads s' = [])"
proof -
  have mem: "\<forall>a. sram_start \<le> a \<and> a < stack_top \<and> a AND 3 = 0 \<longrightarrow> demo_words a \<noteq> None"
    by (simp add: demo_words_def)
  have h: "(HardFault_Handler, LIB_CRASH_REASON_HARDFAULT) \<in> {(NMI_Handler, LIB_CRASH_REASON_NMI),
      (HardFault_Handler, LIB_CRASH_REASON_HARDFAULT), (Default_Handler, LIB_CRASH_REASON_UNEXPECTED_EXCEPTION)}"
    by simp
  have words: "demo_words 0x20001f18 = Some 0x1234" "demo_words 0x20001f1c = Some 7"
    and sram: "sram_start = 0x20000000" "stack_top = 0x20002000"
    by (simp_all add: demo_words_def sram_start_def stack_top_def SRAM_ORIGIN_def SRAM_LENGTH_def)
  have core: "cs_pc (demo_core msp) = 0" "cs_msp (demo_core msp) = msp" "cs_loads (demo_core msp) = []" for msp
    by (simp_all add: demo_core_def)
  show ?thesis
    using crash_handler_reads_only_its_frame [OF mem core(1) h, of "0x100" "0x20001f00"]
      crash_handler_reads_only_its_frame [OF mem core(1) h, of "0x100" "0x1ffffff0"]
    unfolding core sram by (auto simp: words)
qed

lemma reset_handler_ran:
  assumes "image_ok sy m"
  shows "\<exists>r m' mc' cause. Reset_Handler hw sy record m mc = Some (r, m', mc')
    \<and> mc_trace mc' = mc_trace mc @ [Read (SYSCTL SYSCTL_RSTCAUSE) cause]
    \<and> lib_crash_note_boot (Some record) (cause AND 0x1f) = Some r \<and> lib_crash_is_valid (Some r)
    \<and> bytes_at m' (data_start sy) (data_end sy - data_start sy)
        = bytes_at m (data_load_start sy) (data_end sy - data_start sy)
    \<and> bytes_at m' (bss_start sy) (bss_end sy - bss_start sy) = replicate (bss_end sy - bss_start sy) 0
    \<and> (\<forall>a. \<not> (data_start sy \<le> a \<and> a < data_end sy) \<and> \<not> (bss_start sy \<le> a \<and> a < bss_end sy) \<longrightarrow> m' a = m a)"
proof -
  define n where "n = data_end sy - data_start sy"
  define k where "k = bss_end sy - bss_start sy"
  note ok = assms [unfolded image_ok_def]
  have ends: "data_end sy = data_start sy + n" "bss_end sy = bss_start sy + k"
    using ok by (simp_all add: n_def k_def)
  have loaded: "mapped m (data_load_start sy) n" "mapped m (data_start sy) n" "mapped m (bss_start sy) k"
    using ok by (simp_all add: n_def k_def mapped_def subset_iff)
  define m1 where "m1 = moved (data_start sy) (data_load_start sy) n m"
  have data: "data_loop (data_start sy) (data_load_start sy) (data_end sy) m = Some m1"
    using data_loop_moves [OF loaded(1,2), of 0] ok by (simp add: m1_def ends)
  have bss_mapped: "mapped m1 (bss_start sy) k"
    using loaded(3) moved_mapped [OF loaded(1,2)] by (simp add: mapped_def m1_def)
  define m2 where "m2 = zeroed (bss_start sy) (bss_end sy) m1"
  have bss: "bss_loop (bss_start sy) (bss_end sy) m1 = Some m2"
    using bss_loop_zeroes [OF bss_mapped, of 0] by (simp add: m2_def ends zeroed_def)
  obtain cause mc' where cause: "mmio_read hw (SYSCTL SYSCTL_RSTCAUSE) mc = Some (cause, mc')"
    by (cases "hw_read hw (SYSCTL SYSCTL_RSTCAUSE) (mc_device mc)") (simp add: mmio_read_def)
  obtain r where r: "lib_crash_note_boot (Some record) (cause AND 0x1f) = Some r" "lib_crash_is_valid (Some r)"
    using crash_note_boot_preserves_fault [of "record" "cause AND 0x1f"] by blast
  have "Reset_Handler hw sy record m mc = Some (r, m2, mc')"
    by (simp add: Reset_Handler_def cause r(1) data bss SYSCTL_RSTCAUSE_ID_MASK_def)
  moreover have "bytes_at m2 (data_start sy) n = bytes_at m (data_load_start sy) n"
  proof -
    have "bytes_at m2 (data_start sy) n = bytes_at m1 (data_start sy) n"
      using ok by (auto simp: bytes_at_def m2_def zeroed_def ends)
    then show ?thesis by (simp add: m1_def bytes_at_moved)
  qed
  moreover have "bytes_at m2 (bss_start sy) k = replicate k 0"
    by (rule nth_equalityI) (simp_all add: bytes_at_def m2_def zeroed_def ends)
  moreover have "\<forall>a. \<not> (data_start sy \<le> a \<and> a < data_end sy) \<and> \<not> (bss_start sy \<le> a \<and> a < bss_end sy) \<longrightarrow> m2 a = m a"
    by (auto simp: m2_def m1_def zeroed_def moved_def ends)
  ultimately show ?thesis using mmio_read_trace [OF cause] r unfolding n_def k_def by blast
qed

text \<open>C27. \<open>Reset_Handler\<close> hands \<open>main\<close> an initialised memory. With the symbols laid out as \<open>linker.ld\<close> lays them out, it
  reads the reset cause once, before anything else, puts it into the crash record as \<open>lib_crash_note_boot\<close> does, gives
  \<open>.data\<close> the bytes of its load image and \<open>.bss\<close> zeros, and changes no other byte, the load image and \<open>.noinit\<close>
  included.\<close>

theorem startup_initialises_memory:
  assumes "image_ok sy m"
  shows "\<exists>r m' mc' cause. Reset_Handler hw sy record m mc = Some (r, m', mc')
    \<and> mc_trace mc' = mc_trace mc @ [Read (SYSCTL SYSCTL_RSTCAUSE) cause]
    \<and> lib_crash_note_boot (Some record) (cause AND 0x1f) = Some r \<and> lib_crash_is_valid (Some r)
    \<and> bytes_at m' (data_start sy) (data_end sy - data_start sy)
        = bytes_at m (data_load_start sy) (data_end sy - data_start sy)
    \<and> bytes_at m' (bss_start sy) (bss_end sy - bss_start sy) = replicate (bss_end sy - bss_start sy) 0
    \<and> (\<forall>a. \<not> (data_start sy \<le> a \<and> a < data_end sy) \<and> \<not> (bss_start sy \<le> a \<and> a < bss_end sy) \<longrightarrow> m' a = m a)"
  using reset_handler_ran [OF assms] .

definition demo_image :: image_symbols where
  "demo_image = \<lparr>data_load_start = 100, data_start = 200, data_end = 204, bss_start = 204, bss_end = 207\<rparr>"

definition demo_ram :: memory where
  "demo_ram a = (if 100 \<le> a \<and> a < 212 then Some (of_nat a) else None)"

theorem startup_initialises_memory_witness:
  "\<exists>r m' mc'. Reset_Handler plain_hardware demo_image demo_crash demo_ram \<lparr>mc_device = (\<lambda>r. 0x24), mc_trace = []\<rparr>
      = Some (r, m', mc') \<and> bytes_at m' 200 4 = [100, 101, 102, 103] \<and> bytes_at m' 204 3 = [0, 0, 0] \<and> m' 208 = Some 208"
proof -
  have "image_ok demo_image demo_ram"
    by (auto simp: image_ok_def demo_image_def mapped_def demo_ram_def)
  from startup_initialises_memory [OF this, of plain_hardware demo_crash "\<lparr>mc_device = (\<lambda>r. 0x24), mc_trace = []\<rparr>"]
  obtain r m' mc' where run: "Reset_Handler plain_hardware demo_image demo_crash demo_ram \<lparr>mc_device = (\<lambda>r. 0x24), mc_trace = []\<rparr>
      = Some (r, m', mc')"
    and bytes: "bytes_at m' 200 4 = bytes_at demo_ram 100 4" "bytes_at m' 204 3 = replicate 3 0" "m' 208 = demo_ram 208"
    by (auto simp: demo_image_def)
  have "bytes_at demo_ram 100 4 = [100, 101, 102, 103]" "demo_ram 208 = Some 208"
    by (simp_all add: bytes_at_def demo_ram_def upt_rec [where j = "numeral _"])
  with run bytes show ?thesis by (auto simp: eval_nat_numeral)
qed

end
