(* ===== verification/Device_Layout.thy ===== *)
theory Device_Layout
  imports Main
begin

text \<open>
  The register layouts of the device headers: every register structure that \<open>mspm0c1105_c1106.h\<close> includes (but the
  factory region, whose structure depends on the device family selected by the build), in the order of their members, each
  register with its access permission and the offset its comment documents;
  and the device's table of peripherals. The layout rules of C give every member its offset.
\<close>

section \<open>C structures of registers\<close>

text \<open>\<open>__I\<close>, \<open>__O\<close> and \<open>__IO\<close>.\<close>

datatype access_right = Acc_R | Acc_W | Acc_RW

text \<open>
  A member is a register with its documented offset, an array of registers, reserved words, an embedded
  structure, or an array of structures; every register is a \<open>uint32_t\<close>.
\<close>

datatype member = Reg access_right string nat | Regs access_right string nat nat | Reserved nat
  | Block string "member list" nat | Blocks string nat "member list" nat

type_synonym layout = "member list"

fun member_size :: "member \<Rightarrow> nat" where
  "member_size (Reg a n d) = 4"
| "member_size (Regs a n c d) = 4 * c"
| "member_size (Reserved c) = 4 * c"
| "member_size (Block n ms d) = sum_list (map member_size ms)"
| "member_size (Blocks n c ms d) = c * sum_list (map member_size ms)"

definition layout_size :: "layout \<Rightarrow> nat" where
  "layout_size ms = sum_list (map member_size ms)"

text \<open>Every named member with its path, its offset and its documented offset; of an array of structures
  the first element.\<close>

fun members :: "nat \<Rightarrow> string list \<Rightarrow> layout \<Rightarrow> (string list
     \<times> access_right \<times> nat \<times> nat) list" where
  "members k path [] = []"
| "members k path (Reg a n d # ms) = (path @ [n], a, k, d) # members (k + 4) path ms"
| "members k path (Regs a n c d # ms) = (path @ [n], a, k, d) # members (k + 4 * c) path ms"
| "members k path (Reserved c # ms) = members (k + 4 * c) path ms"
| "members k path (Block n bs d # ms) =
     (path @ [n], Acc_RW, k, d) # members k (path @ [n]) bs @ members (k + layout_size bs) path ms"
| "members k path (Blocks n c bs d # ms) =
     (path @ [n], Acc_RW, k, d) # members k (path @ [n]) bs @ members (k + c * layout_size bs) path ms"

definition find_member :: "layout \<Rightarrow> string list \<Rightarrow> (access_right \<times>
     nat) option" where
  "find_member ms path =
     (case find (\<lambda>(p, _). p = path) (members 0 [] ms) of
        None \<Rightarrow> None
      | Some (_, a, k, _) \<Rightarrow> Some (a, k))"

definition as_documented :: "layout \<Rightarrow> bool" where
  "as_documented ms \<longleftrightarrow> list_all (\<lambda>(_, _, k, d). k = d) (members 0 [] ms)"

section \<open>The register structures\<close>

subsection \<open>\<open>hw_adc12.h\<close>\<close>

definition ADC12_SVTMEM_Regs :: layout where
  "ADC12_SVTMEM_Regs =
    [Reserved 88, Reg Acc_R ''FIFODATA'' 0x00000160, Reserved 71, Regs Acc_R ''MEMRES'' 24 0x00000280]"

definition ADC12_PERIPHERALREGIONSVT_Regs :: layout where
  "ADC12_PERIPHERALREGIONSVT_Regs =
    [Block ''SVTMEM'' ADC12_SVTMEM_Regs 0x00000000]"

definition ADC12_DMA_TRIG_Regs :: layout where
  "ADC12_DMA_TRIG_Regs =
    [Reg Acc_R ''IIDX'' 0x00001080, Reserved 1, Reg Acc_RW ''IMASK'' 0x00001088, Reserved 1,
     Reg Acc_R ''RIS'' 0x00001090, Reserved 1, Reg Acc_R ''MIS'' 0x00001098, Reserved 1,
     Reg Acc_W ''ISET'' 0x000010a0, Reserved 1, Reg Acc_W ''ICLR'' 0x000010a8]"

definition ADC12_GEN_EVENT_Regs :: layout where
  "ADC12_GEN_EVENT_Regs =
    [Reg Acc_R ''IIDX'' 0x00001050, Reserved 1, Reg Acc_RW ''IMASK'' 0x00001058, Reserved 1,
     Reg Acc_R ''RIS'' 0x00001060, Reserved 1, Reg Acc_R ''MIS'' 0x00001068, Reserved 1,
     Reg Acc_W ''ISET'' 0x00001070, Reserved 1, Reg Acc_W ''ICLR'' 0x00001078]"

definition ADC12_CPU_INT_Regs :: layout where
  "ADC12_CPU_INT_Regs =
    [Reg Acc_R ''IIDX'' 0x00001020, Reserved 1, Reg Acc_RW ''IMASK'' 0x00001028, Reserved 1,
     Reg Acc_R ''RIS'' 0x00001030, Reserved 1, Reg Acc_R ''MIS'' 0x00001038, Reserved 1,
     Reg Acc_W ''ISET'' 0x00001040, Reserved 1, Reg Acc_W ''ICLR'' 0x00001048]"

definition ADC12_GPRCM_Regs :: layout where
  "ADC12_GPRCM_Regs =
    [Reg Acc_RW ''PWREN'' 0x00000800, Reg Acc_W ''RSTCTL'' 0x00000804,
     Reg Acc_RW ''CLKCFG'' 0x00000808, Reserved 2, Reg Acc_R ''STAT'' 0x00000814]"

definition ADC12_ULLMEM_Regs :: layout where
  "ADC12_ULLMEM_Regs =
    [Reserved 256, Reg Acc_RW ''FSUB_0'' 0x00000400, Reserved 16, Reg Acc_RW ''FPUB_1'' 0x00000444,
     Reserved 238, Block ''GPRCM'' ADC12_GPRCM_Regs 0x00000800, Reserved 514,
     Block ''CPU_INT'' ADC12_CPU_INT_Regs 0x00001020, Reserved 1,
     Block ''GEN_EVENT'' ADC12_GEN_EVENT_Regs 0x00001050, Reserved 1,
     Block ''DMA_TRIG'' ADC12_DMA_TRIG_Regs 0x00001080, Reserved 13, Reg Acc_R ''EVT_MODE'' 0x000010e0,
     Reserved 6, Reg Acc_R ''DESC'' 0x000010fc, Reg Acc_RW ''CTL0'' 0x00001100,
     Reg Acc_RW ''CTL1'' 0x00001104, Reg Acc_RW ''CTL2'' 0x00001108, Reserved 1,
     Reg Acc_RW ''CLKFREQ'' 0x00001110, Reg Acc_RW ''SCOMP0'' 0x00001114,
     Reg Acc_RW ''SCOMP1'' 0x00001118, Reserved 11, Reg Acc_RW ''WCLOW'' 0x00001148, Reserved 1,
     Reg Acc_RW ''WCHIGH'' 0x00001150, Reserved 3, Reg Acc_R ''FIFODATA'' 0x00001160, Reserved 7,
     Regs Acc_RW ''MEMCTL'' 24 0x00001180, Reserved 40, Regs Acc_R ''MEMRES'' 24 0x00001280,
     Reserved 24, Reg Acc_R ''STATUS'' 0x00001340]"

definition ADC12_Regs :: layout where
  "ADC12_Regs =
    [Block ''ULLMEM'' ADC12_ULLMEM_Regs 0x00000000]"

subsection \<open>\<open>hw_comp.h\<close>\<close>

definition COMP_GEN_EVENT_Regs :: layout where
  "COMP_GEN_EVENT_Regs =
    [Reg Acc_R ''IIDX'' 0x00001050, Reserved 1, Reg Acc_RW ''IMASK'' 0x00001058, Reserved 1,
     Reg Acc_R ''RIS'' 0x00001060, Reserved 1, Reg Acc_R ''MIS'' 0x00001068, Reserved 1,
     Reg Acc_W ''ISET'' 0x00001070, Reserved 1, Reg Acc_W ''ICLR'' 0x00001078]"

definition COMP_CPU_INT_Regs :: layout where
  "COMP_CPU_INT_Regs =
    [Reg Acc_R ''IIDX'' 0x00001020, Reserved 1, Reg Acc_RW ''IMASK'' 0x00001028, Reserved 1,
     Reg Acc_R ''RIS'' 0x00001030, Reserved 1, Reg Acc_R ''MIS'' 0x00001038, Reserved 1,
     Reg Acc_W ''ISET'' 0x00001040, Reserved 1, Reg Acc_W ''ICLR'' 0x00001048]"

definition COMP_GPRCM_Regs :: layout where
  "COMP_GPRCM_Regs =
    [Reg Acc_RW ''PWREN'' 0x00000800, Reg Acc_W ''RSTCTL'' 0x00000804,
     Reg Acc_RW ''CLKCFG'' 0x00000808, Reserved 2, Reg Acc_R ''STAT'' 0x00000814]"

definition COMP_Regs :: layout where
  "COMP_Regs =
    [Reserved 256, Reg Acc_RW ''FSUB_0'' 0x00000400, Reg Acc_RW ''FSUB_1'' 0x00000404, Reserved 15,
     Reg Acc_RW ''FPUB_1'' 0x00000444, Reserved 238, Block ''GPRCM'' COMP_GPRCM_Regs 0x00000800,
     Reserved 514, Block ''CPU_INT'' COMP_CPU_INT_Regs 0x00001020, Reserved 1,
     Block ''GEN_EVENT'' COMP_GEN_EVENT_Regs 0x00001050, Reserved 25,
     Reg Acc_RW ''EVT_MODE'' 0x000010e0, Reserved 6, Reg Acc_R ''DESC'' 0x000010fc,
     Reg Acc_RW ''CTL0'' 0x00001100, Reg Acc_RW ''CTL1'' 0x00001104, Reg Acc_RW ''CTL2'' 0x00001108,
     Reg Acc_RW ''CTL3'' 0x0000110c, Reserved 4, Reg Acc_R ''STAT'' 0x00001120]"

subsection \<open>\<open>hw_crc.h\<close>\<close>

definition CRC_GPRCM_Regs :: layout where
  "CRC_GPRCM_Regs =
    [Reg Acc_RW ''PWREN'' 0x00000800, Reg Acc_W ''RSTCTL'' 0x00000804, Reserved 3,
     Reg Acc_R ''STAT'' 0x00000814]"

definition CRC_Regs :: layout where
  "CRC_Regs =
    [Reserved 512, Block ''GPRCM'' CRC_GPRCM_Regs 0x00000800, Reserved 507,
     Reg Acc_R ''CLKSEL'' 0x00001004, Reserved 61, Reg Acc_R ''DESC'' 0x000010fc,
     Reg Acc_RW ''CRCCTRL'' 0x00001100, Reg Acc_W ''CRCSEED'' 0x00001104,
     Reg Acc_W ''CRCIN'' 0x00001108, Reg Acc_R ''CRCOUT'' 0x0000110c, Reserved 444,
     Regs Acc_W ''CRCIN_IDX'' 512 0x00001800]"

subsection \<open>\<open>hw_dma.h\<close>\<close>

definition DMA_DMACHAN_Regs :: layout where
  "DMA_DMACHAN_Regs =
    [Reg Acc_RW ''DMACTL'' 0x00001200, Reg Acc_RW ''DMASA'' 0x00001204,
     Reg Acc_RW ''DMADA'' 0x00001208, Reg Acc_RW ''DMASZ'' 0x0000120c]"

definition DMA_DMATRIG_Regs :: layout where
  "DMA_DMATRIG_Regs =
    [Reg Acc_RW ''DMATCTL'' 0x00001110]"

definition DMA_GEN_EVENT_Regs :: layout where
  "DMA_GEN_EVENT_Regs =
    [Reg Acc_R ''IIDX'' 0x00001050, Reserved 1, Reg Acc_RW ''IMASK'' 0x00001058, Reserved 1,
     Reg Acc_R ''RIS'' 0x00001060, Reserved 1, Reg Acc_R ''MIS'' 0x00001068, Reserved 1,
     Reg Acc_W ''ISET'' 0x00001070, Reserved 1, Reg Acc_W ''ICLR'' 0x00001078]"

definition DMA_CPU_INT_Regs :: layout where
  "DMA_CPU_INT_Regs =
    [Reg Acc_R ''IIDX'' 0x00001020, Reserved 1, Reg Acc_RW ''IMASK'' 0x00001028, Reserved 1,
     Reg Acc_R ''RIS'' 0x00001030, Reserved 1, Reg Acc_R ''MIS'' 0x00001038, Reserved 1,
     Reg Acc_W ''ISET'' 0x00001040, Reserved 1, Reg Acc_W ''ICLR'' 0x00001048]"

definition DMA_Regs :: layout where
  "DMA_Regs =
    [Reserved 256, Reg Acc_RW ''FSUB_0'' 0x00000400, Reg Acc_RW ''FSUB_1'' 0x00000404, Reserved 15,
     Reg Acc_RW ''FPUB_1'' 0x00000444, Reserved 756, Reg Acc_RW ''PDBGCTL'' 0x00001018, Reserved 1,
     Block ''CPU_INT'' DMA_CPU_INT_Regs 0x00001020, Reserved 1,
     Block ''GEN_EVENT'' DMA_GEN_EVENT_Regs 0x00001050, Reserved 25,
     Reg Acc_RW ''EVT_MODE'' 0x000010e0, Reserved 6, Reg Acc_R ''DESC'' 0x000010fc,
     Reg Acc_RW ''DMAPRIO'' 0x00001100, Reserved 3, Blocks ''DMATRIG'' 16 DMA_DMATRIG_Regs 0x00001110,
     Reserved 44, Blocks ''DMACHAN'' 16 DMA_DMACHAN_Regs 0x00001200]"

subsection \<open>\<open>hw_flashctl.h\<close>\<close>

definition FLASHCTL_GEN_Regs :: layout where
  "FLASHCTL_GEN_Regs =
    [Reserved 1032, Reg Acc_R ''IIDX'' 0x00001020, Reserved 1, Reg Acc_RW ''IMASK'' 0x00001028,
     Reserved 1, Reg Acc_R ''RIS'' 0x00001030, Reserved 1, Reg Acc_R ''MIS'' 0x00001038, Reserved 1,
     Reg Acc_W ''ISET'' 0x00001040, Reserved 1, Reg Acc_W ''ICLR'' 0x00001048, Reserved 37,
     Reg Acc_R ''EVT_MODE'' 0x000010e0, Reserved 6, Reg Acc_R ''DESC'' 0x000010fc,
     Reg Acc_RW ''CMDEXEC'' 0x00001100, Reg Acc_RW ''CMDTYPE'' 0x00001104,
     Reg Acc_RW ''CMDCTL'' 0x00001108, Reserved 5, Reg Acc_RW ''CMDADDR'' 0x00001120,
     Reg Acc_RW ''CMDBYTEN'' 0x00001124, Reserved 1, Reg Acc_RW ''CMDDATAINDEX'' 0x0000112c,
     Reg Acc_RW ''CMDDATA0'' 0x00001130, Reg Acc_RW ''CMDDATA1'' 0x00001134,
     Reg Acc_RW ''CMDDATA2'' 0x00001138, Reg Acc_RW ''CMDDATA3'' 0x0000113c,
     Reg Acc_RW ''CMDDATA4'' 0x00001140, Reg Acc_RW ''CMDDATA5'' 0x00001144,
     Reg Acc_RW ''CMDDATA6'' 0x00001148, Reg Acc_RW ''CMDDATA7'' 0x0000114c,
     Reg Acc_RW ''CMDDATA8'' 0x00001150, Reg Acc_RW ''CMDDATA9'' 0x00001154,
     Reg Acc_RW ''CMDDATA10'' 0x00001158, Reg Acc_RW ''CMDDATA11'' 0x0000115c,
     Reg Acc_RW ''CMDDATA12'' 0x00001160, Reg Acc_RW ''CMDDATA13'' 0x00001164,
     Reg Acc_RW ''CMDDATA14'' 0x00001168, Reg Acc_RW ''CMDDATA15'' 0x0000116c,
     Reg Acc_RW ''CMDDATA16'' 0x00001170, Reg Acc_RW ''CMDDATA17'' 0x00001174,
     Reg Acc_RW ''CMDDATA18'' 0x00001178, Reg Acc_RW ''CMDDATA19'' 0x0000117c,
     Reg Acc_RW ''CMDDATA20'' 0x00001180, Reg Acc_RW ''CMDDATA21'' 0x00001184,
     Reg Acc_RW ''CMDDATA22'' 0x00001188, Reg Acc_RW ''CMDDATA23'' 0x0000118c,
     Reg Acc_RW ''CMDDATA24'' 0x00001190, Reg Acc_RW ''CMDDATA25'' 0x00001194,
     Reg Acc_RW ''CMDDATA26'' 0x00001198, Reg Acc_RW ''CMDDATA27'' 0x0000119c,
     Reg Acc_RW ''CMDDATA28'' 0x000011a0, Reg Acc_RW ''CMDDATA29'' 0x000011a4,
     Reg Acc_RW ''CMDDATA30'' 0x000011a8, Reg Acc_RW ''CMDDATA31'' 0x000011ac,
     Reg Acc_RW ''CMDDATAECC0'' 0x000011b0, Reg Acc_RW ''CMDDATAECC1'' 0x000011b4,
     Reg Acc_RW ''CMDDATAECC2'' 0x000011b8, Reg Acc_RW ''CMDDATAECC3'' 0x000011bc,
     Reg Acc_RW ''CMDDATAECC4'' 0x000011c0, Reg Acc_RW ''CMDDATAECC5'' 0x000011c4,
     Reg Acc_RW ''CMDDATAECC6'' 0x000011c8, Reg Acc_RW ''CMDDATAECC7'' 0x000011cc,
     Reg Acc_RW ''CMDWEPROTA'' 0x000011d0, Reg Acc_RW ''CMDWEPROTB'' 0x000011d4,
     Reg Acc_RW ''CMDWEPROTC'' 0x000011d8, Reserved 13, Reg Acc_RW ''CMDWEPROTNM'' 0x00001210,
     Reg Acc_RW ''CMDWEPROTTR'' 0x00001214, Reg Acc_RW ''CMDWEPROTEN'' 0x00001218, Reserved 101,
     Reg Acc_RW ''CFGCMD'' 0x000013b0, Reg Acc_RW ''CFGPCNT'' 0x000013b4, Reserved 6,
     Reg Acc_R ''STATCMD'' 0x000013d0, Reg Acc_R ''STATADDR'' 0x000013d4,
     Reg Acc_R ''STATPCNT'' 0x000013d8, Reg Acc_R ''STATMODE'' 0x000013dc, Reserved 4,
     Reg Acc_R ''GBLINFO0'' 0x000013f0, Reg Acc_R ''GBLINFO1'' 0x000013f4,
     Reg Acc_R ''GBLINFO2'' 0x000013f8, Reserved 1, Reg Acc_R ''BANK0INFO0'' 0x00001400,
     Reg Acc_R ''BANK0INFO1'' 0x00001404, Reserved 2, Reg Acc_R ''BANK1INFO0'' 0x00001410,
     Reg Acc_R ''BANK1INFO1'' 0x00001414, Reserved 2, Reg Acc_R ''BANK2INFO0'' 0x00001420,
     Reg Acc_R ''BANK2INFO1'' 0x00001424, Reserved 2, Reg Acc_R ''BANK3INFO0'' 0x00001430,
     Reg Acc_R ''BANK3INFO1'' 0x00001434, Reserved 2, Reg Acc_R ''BANK4INFO0'' 0x00001440,
     Reg Acc_R ''BANK4INFO1'' 0x00001444]"

definition FLASHCTL_Regs :: layout where
  "FLASHCTL_Regs =
    [Block ''GEN'' FLASHCTL_GEN_Regs 0x00000000]"

subsection \<open>\<open>hw_gpio.h\<close>\<close>

definition GPIO_GEN_EVENT1_Regs :: layout where
  "GPIO_GEN_EVENT1_Regs =
    [Reg Acc_R ''IIDX'' 0x00001080, Reserved 1, Reg Acc_RW ''IMASK'' 0x00001088, Reserved 1,
     Reg Acc_R ''RIS'' 0x00001090, Reserved 1, Reg Acc_R ''MIS'' 0x00001098, Reserved 1,
     Reg Acc_W ''ISET'' 0x000010a0, Reserved 1, Reg Acc_W ''ICLR'' 0x000010a8]"

definition GPIO_GEN_EVENT0_Regs :: layout where
  "GPIO_GEN_EVENT0_Regs =
    [Reg Acc_R ''IIDX'' 0x00001050, Reserved 1, Reg Acc_RW ''IMASK'' 0x00001058, Reserved 1,
     Reg Acc_R ''RIS'' 0x00001060, Reserved 1, Reg Acc_R ''MIS'' 0x00001068, Reserved 1,
     Reg Acc_W ''ISET'' 0x00001070, Reserved 1, Reg Acc_W ''ICLR'' 0x00001078]"

definition GPIO_CPU_INT_Regs :: layout where
  "GPIO_CPU_INT_Regs =
    [Reg Acc_R ''IIDX'' 0x00001020, Reserved 1, Reg Acc_RW ''IMASK'' 0x00001028, Reserved 1,
     Reg Acc_R ''RIS'' 0x00001030, Reserved 1, Reg Acc_R ''MIS'' 0x00001038, Reserved 1,
     Reg Acc_W ''ISET'' 0x00001040, Reserved 1, Reg Acc_W ''ICLR'' 0x00001048]"

definition GPIO_GPRCM_Regs :: layout where
  "GPIO_GPRCM_Regs =
    [Reg Acc_RW ''PWREN'' 0x00000800, Reg Acc_W ''RSTCTL'' 0x00000804, Reserved 3,
     Reg Acc_R ''STAT'' 0x00000814]"

definition GPIO_Regs :: layout where
  "GPIO_Regs =
    [Reserved 256, Reg Acc_RW ''FSUB_0'' 0x00000400, Reg Acc_RW ''FSUB_1'' 0x00000404, Reserved 15,
     Reg Acc_RW ''FPUB_0'' 0x00000444, Reg Acc_RW ''FPUB_1'' 0x00000448, Reserved 237,
     Block ''GPRCM'' GPIO_GPRCM_Regs 0x00000800, Reserved 510, Reg Acc_RW ''CLKOVR'' 0x00001010,
     Reserved 1, Reg Acc_RW ''PDBGCTL'' 0x00001018, Reserved 1,
     Block ''CPU_INT'' GPIO_CPU_INT_Regs 0x00001020, Reserved 1,
     Block ''GEN_EVENT0'' GPIO_GEN_EVENT0_Regs 0x00001050, Reserved 1,
     Block ''GEN_EVENT1'' GPIO_GEN_EVENT1_Regs 0x00001080, Reserved 13,
     Reg Acc_RW ''EVT_MODE'' 0x000010e0, Reserved 6, Reg Acc_R ''DESC'' 0x000010fc, Reserved 64,
     Reg Acc_W ''DOUT3_0'' 0x00001200, Reg Acc_W ''DOUT7_4'' 0x00001204,
     Reg Acc_W ''DOUT11_8'' 0x00001208, Reg Acc_W ''DOUT15_12'' 0x0000120c,
     Reg Acc_W ''DOUT19_16'' 0x00001210, Reg Acc_W ''DOUT23_20'' 0x00001214,
     Reg Acc_W ''DOUT27_24'' 0x00001218, Reg Acc_W ''DOUT31_28'' 0x0000121c, Reserved 24,
     Reg Acc_RW ''DOUT31_0'' 0x00001280, Reserved 3, Reg Acc_W ''DOUTSET31_0'' 0x00001290, Reserved 3,
     Reg Acc_W ''DOUTCLR31_0'' 0x000012a0, Reserved 3, Reg Acc_W ''DOUTTGL31_0'' 0x000012b0,
     Reserved 3, Reg Acc_RW ''DOE31_0'' 0x000012c0, Reserved 3, Reg Acc_W ''DOESET31_0'' 0x000012d0,
     Reserved 3, Reg Acc_W ''DOECLR31_0'' 0x000012e0, Reserved 7, Reg Acc_R ''DIN3_0'' 0x00001300,
     Reg Acc_R ''DIN7_4'' 0x00001304, Reg Acc_R ''DIN11_8'' 0x00001308,
     Reg Acc_R ''DIN15_12'' 0x0000130c, Reg Acc_R ''DIN19_16'' 0x00001310,
     Reg Acc_R ''DIN23_20'' 0x00001314, Reg Acc_R ''DIN27_24'' 0x00001318,
     Reg Acc_R ''DIN31_28'' 0x0000131c, Reserved 24, Reg Acc_R ''DIN31_0'' 0x00001380, Reserved 3,
     Reg Acc_RW ''POLARITY15_0'' 0x00001390, Reserved 3, Reg Acc_RW ''POLARITY31_16'' 0x000013a0,
     Reserved 23, Reg Acc_RW ''CTL'' 0x00001400, Reg Acc_RW ''FASTWAKE'' 0x00001404, Reserved 62,
     Reg Acc_RW ''SUB0CFG'' 0x00001500, Reserved 1, Reg Acc_RW ''FILTEREN15_0'' 0x00001508,
     Reg Acc_RW ''FILTEREN31_16'' 0x0000150c, Reg Acc_RW ''DMAMASK'' 0x00001510, Reserved 3,
     Reg Acc_RW ''SUB1CFG'' 0x00001520]"

subsection \<open>\<open>hw_gptimer.h\<close>\<close>

definition GPTIMER_COUNTERREGS_Regs :: layout where
  "GPTIMER_COUNTERREGS_Regs =
    [Reg Acc_RW ''CTR'' 0x00001800, Reg Acc_RW ''CTRCTL'' 0x00001804, Reg Acc_RW ''LOAD'' 0x00001808,
     Reserved 1, Regs Acc_RW ''CC_01'' 2 0x00001810, Regs Acc_RW ''CC_23'' 2 0x00001818,
     Regs Acc_RW ''CC_45'' 2 0x00001820, Reserved 2, Regs Acc_RW ''CCCTL_01'' 2 0x00001830,
     Regs Acc_RW ''CCCTL_23'' 2 0x00001838, Regs Acc_RW ''CCCTL_45'' 2 0x00001840, Reserved 2,
     Regs Acc_RW ''OCTL_01'' 2 0x00001850, Regs Acc_RW ''OCTL_23'' 2 0x00001858, Reserved 4,
     Regs Acc_RW ''CCACT_01'' 2 0x00001870, Regs Acc_RW ''CCACT_23'' 2 0x00001878,
     Regs Acc_RW ''IFCTL_01'' 2 0x00001880, Regs Acc_RW ''IFCTL_23'' 2 0x00001888, Reserved 4,
     Reg Acc_RW ''PL'' 0x000018a0, Reg Acc_RW ''DBCTL'' 0x000018a4, Reserved 2,
     Reg Acc_RW ''TSEL'' 0x000018b0, Reg Acc_R ''RC'' 0x000018b4, Reg Acc_RW ''RCLD'' 0x000018b8,
     Reg Acc_R ''QDIR'' 0x000018bc, Reserved 4, Reg Acc_RW ''FCTL'' 0x000018d0,
     Reg Acc_RW ''FIFCTL'' 0x000018d4]"

definition GPTIMER_COMMONREGS_Regs :: layout where
  "GPTIMER_COMMONREGS_Regs =
    [Reg Acc_RW ''CCPD'' 0x00001100, Reg Acc_RW ''ODIS'' 0x00001104, Reg Acc_RW ''CCLKCTL'' 0x00001108,
     Reg Acc_RW ''CPS'' 0x0000110c, Reg Acc_R ''CPSV'' 0x00001110, Reg Acc_RW ''CTTRIGCTL'' 0x00001114,
     Reserved 1, Reg Acc_W ''CTTRIG'' 0x0000111c, Reg Acc_RW ''FSCTL'' 0x00001120,
     Reg Acc_RW ''GCTL'' 0x00001124]"

definition GPTIMER_GEN_EVENT1_Regs :: layout where
  "GPTIMER_GEN_EVENT1_Regs =
    [Reg Acc_R ''IIDX'' 0x00001080, Reserved 1, Reg Acc_RW ''IMASK'' 0x00001088, Reserved 1,
     Reg Acc_R ''RIS'' 0x00001090, Reserved 1, Reg Acc_R ''MIS'' 0x00001098, Reserved 1,
     Reg Acc_W ''ISET'' 0x000010a0, Reserved 1, Reg Acc_W ''ICLR'' 0x000010a8]"

definition GPTIMER_GEN_EVENT0_Regs :: layout where
  "GPTIMER_GEN_EVENT0_Regs =
    [Reg Acc_R ''IIDX'' 0x00001050, Reserved 1, Reg Acc_RW ''IMASK'' 0x00001058, Reserved 1,
     Reg Acc_R ''RIS'' 0x00001060, Reserved 1, Reg Acc_R ''MIS'' 0x00001068, Reserved 1,
     Reg Acc_W ''ISET'' 0x00001070, Reserved 1, Reg Acc_W ''ICLR'' 0x00001078]"

definition GPTIMER_CPU_INT_Regs :: layout where
  "GPTIMER_CPU_INT_Regs =
    [Reg Acc_R ''IIDX'' 0x00001020, Reserved 1, Reg Acc_RW ''IMASK'' 0x00001028, Reserved 1,
     Reg Acc_R ''RIS'' 0x00001030, Reserved 1, Reg Acc_R ''MIS'' 0x00001038, Reserved 1,
     Reg Acc_W ''ISET'' 0x00001040, Reserved 1, Reg Acc_W ''ICLR'' 0x00001048]"

definition GPTIMER_GPRCM_Regs :: layout where
  "GPTIMER_GPRCM_Regs =
    [Reg Acc_RW ''PWREN'' 0x00000800, Reg Acc_W ''RSTCTL'' 0x00000804, Reserved 3,
     Reg Acc_R ''STAT'' 0x00000814]"

definition GPTIMER_Regs :: layout where
  "GPTIMER_Regs =
    [Reserved 256, Reg Acc_RW ''FSUB_0'' 0x00000400, Reg Acc_RW ''FSUB_1'' 0x00000404, Reserved 15,
     Reg Acc_RW ''FPUB_0'' 0x00000444, Reg Acc_RW ''FPUB_1'' 0x00000448, Reserved 237,
     Block ''GPRCM'' GPTIMER_GPRCM_Regs 0x00000800, Reserved 506, Reg Acc_RW ''CLKDIV'' 0x00001000,
     Reserved 1, Reg Acc_RW ''CLKSEL'' 0x00001008, Reserved 3, Reg Acc_RW ''PDBGCTL'' 0x00001018,
     Reserved 1, Block ''CPU_INT'' GPTIMER_CPU_INT_Regs 0x00001020, Reserved 1,
     Block ''GEN_EVENT0'' GPTIMER_GEN_EVENT0_Regs 0x00001050, Reserved 1,
     Block ''GEN_EVENT1'' GPTIMER_GEN_EVENT1_Regs 0x00001080, Reserved 13,
     Reg Acc_RW ''EVT_MODE'' 0x000010e0, Reserved 6, Reg Acc_R ''DESC'' 0x000010fc,
     Block ''COMMONREGS'' GPTIMER_COMMONREGS_Regs 0x00001100, Reserved 438,
     Block ''COUNTERREGS'' GPTIMER_COUNTERREGS_Regs 0x00001800]"

subsection \<open>\<open>hw_i2c.h\<close>\<close>

definition I2C_SLAVE_Regs :: layout where
  "I2C_SLAVE_Regs =
    [Reg Acc_RW ''SOAR'' 0x00001250, Reg Acc_RW ''SOAR2'' 0x00001254, Reg Acc_RW ''SCTR'' 0x00001258,
     Reg Acc_R ''SSR'' 0x0000125c, Reg Acc_R ''SRXDATA'' 0x00001260, Reg Acc_RW ''STXDATA'' 0x00001264,
     Reg Acc_RW ''SACKCTL'' 0x00001268, Reg Acc_RW ''SFIFOCTL'' 0x0000126c,
     Reg Acc_R ''SFIFOSR'' 0x00001270, Reg Acc_RW ''TARGET_PECCTL'' 0x00001274,
     Reg Acc_R ''TARGET_PECSR'' 0x00001278]"

definition I2C_MASTER_Regs :: layout where
  "I2C_MASTER_Regs =
    [Reg Acc_RW ''MSA'' 0x00001210, Reg Acc_RW ''MCTR'' 0x00001214, Reg Acc_R ''MSR'' 0x00001218,
     Reg Acc_R ''MRXDATA'' 0x0000121c, Reg Acc_RW ''MTXDATA'' 0x00001220,
     Reg Acc_RW ''MTPR'' 0x00001224, Reg Acc_RW ''MCR'' 0x00001228, Reserved 2,
     Reg Acc_R ''MBMON'' 0x00001234, Reg Acc_RW ''MFIFOCTL'' 0x00001238,
     Reg Acc_R ''MFIFOSR'' 0x0000123c, Reg Acc_RW ''CONTROLLER_I2CPECCTL'' 0x00001240,
     Reg Acc_R ''CONTROLLER_PECSR'' 0x00001244]"

definition I2C_DMA_TRIG0_Regs :: layout where
  "I2C_DMA_TRIG0_Regs =
    [Reg Acc_R ''IIDX'' 0x00001080, Reserved 1, Reg Acc_RW ''IMASK'' 0x00001088, Reserved 1,
     Reg Acc_R ''RIS'' 0x00001090, Reserved 1, Reg Acc_R ''MIS'' 0x00001098, Reserved 1,
     Reg Acc_W ''ISET'' 0x000010a0, Reserved 1, Reg Acc_W ''ICLR'' 0x000010a8]"

definition I2C_DMA_TRIG1_Regs :: layout where
  "I2C_DMA_TRIG1_Regs =
    [Reg Acc_R ''IIDX'' 0x00001050, Reserved 1, Reg Acc_RW ''IMASK'' 0x00001058, Reserved 1,
     Reg Acc_R ''RIS'' 0x00001060, Reserved 1, Reg Acc_R ''MIS'' 0x00001068, Reserved 1,
     Reg Acc_W ''ISET'' 0x00001070, Reserved 1, Reg Acc_W ''ICLR'' 0x00001078]"

definition I2C_CPU_INT_Regs :: layout where
  "I2C_CPU_INT_Regs =
    [Reg Acc_R ''IIDX'' 0x00001020, Reserved 1, Reg Acc_RW ''IMASK'' 0x00001028, Reserved 1,
     Reg Acc_R ''RIS'' 0x00001030, Reserved 1, Reg Acc_R ''MIS'' 0x00001038, Reserved 1,
     Reg Acc_W ''ISET'' 0x00001040, Reserved 1, Reg Acc_W ''ICLR'' 0x00001048]"

definition I2C_GPRCM_Regs :: layout where
  "I2C_GPRCM_Regs =
    [Reg Acc_RW ''PWREN'' 0x00000800, Reg Acc_W ''RSTCTL'' 0x00000804,
     Reg Acc_RW ''CLKCFG'' 0x00000808, Reserved 2, Reg Acc_R ''STAT'' 0x00000814]"

definition I2C_Regs :: layout where
  "I2C_Regs =
    [Reserved 512, Block ''GPRCM'' I2C_GPRCM_Regs 0x00000800, Reserved 506,
     Reg Acc_RW ''CLKDIV'' 0x00001000, Reg Acc_RW ''CLKSEL'' 0x00001004, Reserved 4,
     Reg Acc_RW ''PDBGCTL'' 0x00001018, Reserved 1, Block ''CPU_INT'' I2C_CPU_INT_Regs 0x00001020,
     Reserved 1, Block ''DMA_TRIG1'' I2C_DMA_TRIG1_Regs 0x00001050, Reserved 1,
     Block ''DMA_TRIG0'' I2C_DMA_TRIG0_Regs 0x00001080, Reserved 13,
     Reg Acc_RW ''EVT_MODE'' 0x000010e0, Reg Acc_RW ''INTCTL'' 0x000010e4, Reserved 5,
     Reg Acc_R ''DESC'' 0x000010fc, Reserved 64, Reg Acc_RW ''GFCTL'' 0x00001200,
     Reg Acc_RW ''TIMEOUT_CTL'' 0x00001204, Reg Acc_R ''TIMEOUT_CNT'' 0x00001208, Reserved 1,
     Block ''MASTER'' I2C_MASTER_Regs 0x00001210, Reserved 2,
     Block ''SLAVE'' I2C_SLAVE_Regs 0x00001250]"

subsection \<open>\<open>hw_iomux.h\<close>\<close>

definition IOMUX_SECCFG_Regs :: layout where
  "IOMUX_SECCFG_Regs =
    [Reserved 1, Regs Acc_RW ''PINCM'' 251 0x00000004]"

definition IOMUX_Regs :: layout where
  "IOMUX_Regs =
    [Block ''SECCFG'' IOMUX_SECCFG_Regs 0x00000000]"

subsection \<open>\<open>hw_lfss.h\<close>\<close>

definition LFSS_IPSPECIFIC_MEM_Regs :: layout where
  "LFSS_IPSPECIFIC_MEM_Regs =
    [Regs Acc_RW ''SPMEM'' 32 0x00001400, Reserved 32, Reg Acc_RW ''SPMWPROT0'' 0x00001500,
     Reg Acc_RW ''SPMWPROT1'' 0x00001504, Reg Acc_RW ''SPMWPROT2'' 0x00001508,
     Reg Acc_RW ''SPMWPROT3'' 0x0000150c, Reg Acc_RW ''SPMWPROT4'' 0x00001510,
     Reg Acc_RW ''SPMWPROT5'' 0x00001514, Reg Acc_RW ''SPMWPROT6'' 0x00001518,
     Reg Acc_RW ''SPMWPROT7'' 0x0000151c, Reserved 8, Reg Acc_RW ''SPMTERASE0'' 0x00001540,
     Reg Acc_RW ''SPMTERASE1'' 0x00001544, Reg Acc_RW ''SPMTERASE2'' 0x00001548,
     Reg Acc_RW ''SPMTERASE3'' 0x0000154c, Reg Acc_RW ''SPMTERASE4'' 0x00001550,
     Reg Acc_RW ''SPMTERASE5'' 0x00001554, Reg Acc_RW ''SPMTERASE6'' 0x00001558,
     Reg Acc_RW ''SPMTERASE7'' 0x0000155c]"

definition LFSS_IPSPECIFIC_WDT_Regs :: layout where
  "LFSS_IPSPECIFIC_WDT_Regs =
    [Reg Acc_RW ''WDTEN'' 0x00001300, Reg Acc_RW ''WDTDBGCTL'' 0x00001304,
     Reg Acc_RW ''WDTCTL'' 0x00001308, Reg Acc_W ''WDTCNTRST'' 0x0000130c,
     Reg Acc_R ''WDTSTAT'' 0x00001310, Reserved 58, Reg Acc_RW ''WDTLOCK'' 0x000013fc]"

definition LFSS_IPSPECIFIC_TIO_Regs :: layout where
  "LFSS_IPSPECIFIC_TIO_Regs =
    [Regs Acc_RW ''TIOCTL'' 16 0x00001200, Reserved 16, Reg Acc_RW ''TOUT3_0'' 0x00001280,
     Reg Acc_RW ''TOUT7_4'' 0x00001284, Reg Acc_RW ''TOUT11_8'' 0x00001288,
     Reg Acc_RW ''TOUT15_12'' 0x0000128c, Reg Acc_RW ''TOE3_0'' 0x00001290,
     Reg Acc_RW ''TOE7_4'' 0x00001294, Reg Acc_RW ''TOE11_8'' 0x00001298,
     Reg Acc_RW ''TOE15_12'' 0x0000129c, Reg Acc_R ''TIN3_0'' 0x000012a0,
     Reg Acc_R ''TIN7_4'' 0x000012a4, Reg Acc_R ''TIN11_8'' 0x000012a8,
     Reg Acc_R ''TIN15_12'' 0x000012ac, Reserved 4, Reg Acc_RW ''HEARTBEAT'' 0x000012c0, Reserved 14,
     Reg Acc_RW ''TIOLOCK'' 0x000012fc]"

definition LFSS_IPSPECIFIC_RTC_Regs :: layout where
  "LFSS_IPSPECIFIC_RTC_Regs =
    [Reg Acc_RW ''CLKCTL'' 0x00001100, Reg Acc_RW ''DBGCTL'' 0x00001104, Reg Acc_RW ''CTL'' 0x00001108,
     Reg Acc_R ''STA'' 0x0000110c, Reg Acc_RW ''CAL'' 0x00001110, Reg Acc_RW ''TCMP'' 0x00001114,
     Reg Acc_RW ''SEC'' 0x00001118, Reg Acc_RW ''MIN'' 0x0000111c, Reg Acc_RW ''HOUR'' 0x00001120,
     Reg Acc_RW ''DAY'' 0x00001124, Reg Acc_RW ''MON'' 0x00001128, Reg Acc_RW ''YEAR'' 0x0000112c,
     Reg Acc_RW ''A1MIN'' 0x00001130, Reg Acc_RW ''A1HOUR'' 0x00001134,
     Reg Acc_RW ''A1DAY'' 0x00001138, Reg Acc_RW ''A2MIN'' 0x0000113c,
     Reg Acc_RW ''A2HOUR'' 0x00001140, Reg Acc_RW ''A2DAY'' 0x00001144,
     Reg Acc_RW ''PSCTL'' 0x00001148, Reg Acc_RW ''EXTPSCTL'' 0x0000114c,
     Reg Acc_R ''TSSEC'' 0x00001150, Reg Acc_R ''TSMIN'' 0x00001154, Reg Acc_R ''TSHOUR'' 0x00001158,
     Reg Acc_R ''TSDAY'' 0x0000115c, Reg Acc_R ''TSMON'' 0x00001160, Reg Acc_R ''TSYEAR'' 0x00001164,
     Reg Acc_R ''TSSTAT'' 0x00001168, Reg Acc_RW ''TSCTL'' 0x0000116c, Reg Acc_W ''TSCLR'' 0x00001170,
     Reserved 31, Reg Acc_RW ''LFSSRST'' 0x000011f0, Reserved 2, Reg Acc_RW ''RTCLOCK'' 0x000011fc]"

definition LFSS_GEN_EVENT_Regs :: layout where
  "LFSS_GEN_EVENT_Regs =
    [Reg Acc_R ''IIDX'' 0x00001050, Reserved 1, Reg Acc_RW ''IMASK'' 0x00001058, Reserved 1,
     Reg Acc_R ''RIS'' 0x00001060, Reserved 1, Reg Acc_R ''MIS'' 0x00001068, Reserved 1,
     Reg Acc_W ''ISET'' 0x00001070, Reserved 1, Reg Acc_W ''ICLR'' 0x00001078]"

definition LFSS_CPU_INT_Regs :: layout where
  "LFSS_CPU_INT_Regs =
    [Reg Acc_R ''IIDX'' 0x00001020, Reserved 1, Reg Acc_RW ''IMASK'' 0x00001028, Reserved 1,
     Reg Acc_R ''RIS'' 0x00001030, Reserved 1, Reg Acc_R ''MIS'' 0x00001038, Reserved 1,
     Reg Acc_W ''ISET'' 0x00001040, Reserved 1, Reg Acc_W ''ICLR'' 0x00001048]"

definition LFSS_Regs :: layout where
  "LFSS_Regs =
    [Reserved 256, Reg Acc_RW ''FSUB_0'' 0x00000400, Reserved 16, Reg Acc_RW ''FPUB_0'' 0x00000444,
     Reserved 751, Reg Acc_R ''CLKSEL'' 0x00001004, Reserved 6,
     Block ''CPU_INT'' LFSS_CPU_INT_Regs 0x00001020, Reserved 1,
     Block ''GEN_EVENT'' LFSS_GEN_EVENT_Regs 0x00001050, Reserved 25,
     Reg Acc_R ''EVT_MODE'' 0x000010e0, Reserved 6, Reg Acc_R ''DESC'' 0x000010fc,
     Block ''IPSPECIFIC_RTC'' LFSS_IPSPECIFIC_RTC_Regs 0x00001100,
     Block ''IPSPECIFIC_TIO'' LFSS_IPSPECIFIC_TIO_Regs 0x00001200,
     Block ''IPSPECIFIC_WDT'' LFSS_IPSPECIFIC_WDT_Regs 0x00001300,
     Block ''IPSPECIFIC_MEM'' LFSS_IPSPECIFIC_MEM_Regs 0x00001400]"

subsection \<open>\<open>hw_spi.h\<close>\<close>

definition SPI_DMA_TRIG_TX_Regs :: layout where
  "SPI_DMA_TRIG_TX_Regs =
    [Reg Acc_R ''IIDX'' 0x00001080, Reserved 1, Reg Acc_RW ''IMASK'' 0x00001088, Reserved 1,
     Reg Acc_R ''RIS'' 0x00001090, Reserved 1, Reg Acc_R ''MIS'' 0x00001098, Reserved 1,
     Reg Acc_W ''ISET'' 0x000010a0, Reserved 1, Reg Acc_W ''ICLR'' 0x000010a8]"

definition SPI_DMA_TRIG_RX_Regs :: layout where
  "SPI_DMA_TRIG_RX_Regs =
    [Reg Acc_R ''IIDX'' 0x00001050, Reserved 1, Reg Acc_RW ''IMASK'' 0x00001058, Reserved 1,
     Reg Acc_R ''RIS'' 0x00001060, Reserved 1, Reg Acc_R ''MIS'' 0x00001068, Reserved 1,
     Reg Acc_W ''ISET'' 0x00001070, Reserved 1, Reg Acc_W ''ICLR'' 0x00001078]"

definition SPI_CPU_INT_Regs :: layout where
  "SPI_CPU_INT_Regs =
    [Reg Acc_R ''IIDX'' 0x00001020, Reserved 1, Reg Acc_RW ''IMASK'' 0x00001028, Reserved 1,
     Reg Acc_R ''RIS'' 0x00001030, Reserved 1, Reg Acc_R ''MIS'' 0x00001038, Reserved 1,
     Reg Acc_W ''ISET'' 0x00001040, Reserved 1, Reg Acc_W ''ICLR'' 0x00001048]"

definition SPI_GPRCM_Regs :: layout where
  "SPI_GPRCM_Regs =
    [Reg Acc_RW ''PWREN'' 0x00000800, Reg Acc_W ''RSTCTL'' 0x00000804,
     Reg Acc_RW ''CLKCFG'' 0x00000808, Reserved 2, Reg Acc_R ''STAT'' 0x00000814]"

definition SPI_Regs :: layout where
  "SPI_Regs =
    [Reserved 512, Block ''GPRCM'' SPI_GPRCM_Regs 0x00000800, Reserved 506,
     Reg Acc_RW ''CLKDIV'' 0x00001000, Reg Acc_RW ''CLKSEL'' 0x00001004, Reserved 4,
     Reg Acc_RW ''PDBGCTL'' 0x00001018, Reserved 1, Block ''CPU_INT'' SPI_CPU_INT_Regs 0x00001020,
     Reserved 1, Block ''DMA_TRIG_RX'' SPI_DMA_TRIG_RX_Regs 0x00001050, Reserved 1,
     Block ''DMA_TRIG_TX'' SPI_DMA_TRIG_TX_Regs 0x00001080, Reserved 13,
     Reg Acc_RW ''EVT_MODE'' 0x000010e0, Reg Acc_RW ''INTCTL'' 0x000010e4, Reserved 6,
     Reg Acc_RW ''CTL0'' 0x00001100, Reg Acc_RW ''CTL1'' 0x00001104, Reg Acc_RW ''CLKCTL'' 0x00001108,
     Reg Acc_RW ''IFLS'' 0x0000110c, Reg Acc_R ''STAT'' 0x00001110, Reserved 7,
     Reg Acc_R ''RXDATA'' 0x00001130, Reserved 3, Reg Acc_RW ''TXDATA'' 0x00001140]"

subsection \<open>\<open>hw_uart.h\<close>\<close>

definition UART_DMA_TRIG_TX_Regs :: layout where
  "UART_DMA_TRIG_TX_Regs =
    [Reg Acc_R ''IIDX'' 0x00001080, Reserved 1, Reg Acc_RW ''IMASK'' 0x00001088, Reserved 1,
     Reg Acc_R ''RIS'' 0x00001090, Reserved 1, Reg Acc_R ''MIS'' 0x00001098, Reserved 1,
     Reg Acc_W ''ISET'' 0x000010a0, Reserved 1, Reg Acc_W ''ICLR'' 0x000010a8]"

definition UART_DMA_TRIG_RX_Regs :: layout where
  "UART_DMA_TRIG_RX_Regs =
    [Reg Acc_R ''IIDX'' 0x00001050, Reserved 1, Reg Acc_RW ''IMASK'' 0x00001058, Reserved 1,
     Reg Acc_R ''RIS'' 0x00001060, Reserved 1, Reg Acc_R ''MIS'' 0x00001068, Reserved 1,
     Reg Acc_W ''ISET'' 0x00001070, Reserved 1, Reg Acc_W ''ICLR'' 0x00001078]"

definition UART_CPU_INT_Regs :: layout where
  "UART_CPU_INT_Regs =
    [Reg Acc_R ''IIDX'' 0x00001020, Reserved 1, Reg Acc_RW ''IMASK'' 0x00001028, Reserved 1,
     Reg Acc_R ''RIS'' 0x00001030, Reserved 1, Reg Acc_R ''MIS'' 0x00001038, Reserved 1,
     Reg Acc_W ''ISET'' 0x00001040, Reserved 1, Reg Acc_W ''ICLR'' 0x00001048]"

definition UART_GPRCM_Regs :: layout where
  "UART_GPRCM_Regs =
    [Reg Acc_RW ''PWREN'' 0x00000800, Reg Acc_W ''RSTCTL'' 0x00000804,
     Reg Acc_RW ''CLKCFG'' 0x00000808, Reserved 2, Reg Acc_R ''STAT'' 0x00000814]"

definition UART_Regs :: layout where
  "UART_Regs =
    [Reserved 512, Block ''GPRCM'' UART_GPRCM_Regs 0x00000800, Reserved 506,
     Reg Acc_RW ''CLKDIV'' 0x00001000, Reserved 1, Reg Acc_RW ''CLKSEL'' 0x00001008, Reserved 3,
     Reg Acc_RW ''PDBGCTL'' 0x00001018, Reserved 1, Block ''CPU_INT'' UART_CPU_INT_Regs 0x00001020,
     Reserved 1, Block ''DMA_TRIG_RX'' UART_DMA_TRIG_RX_Regs 0x00001050, Reserved 1,
     Block ''DMA_TRIG_TX'' UART_DMA_TRIG_TX_Regs 0x00001080, Reserved 13,
     Reg Acc_RW ''EVT_MODE'' 0x000010e0, Reg Acc_RW ''INTCTL'' 0x000010e4, Reserved 6,
     Reg Acc_RW ''CTL0'' 0x00001100, Reg Acc_RW ''LCRH'' 0x00001104, Reg Acc_R ''STAT'' 0x00001108,
     Reg Acc_RW ''IFLS'' 0x0000110c, Reg Acc_RW ''IBRD'' 0x00001110, Reg Acc_RW ''FBRD'' 0x00001114,
     Reg Acc_RW ''GFCTL'' 0x00001118, Reserved 1, Reg Acc_RW ''TXDATA'' 0x00001120,
     Reg Acc_R ''RXDATA'' 0x00001124, Reserved 2, Reg Acc_RW ''LINCNT'' 0x00001130,
     Reg Acc_RW ''LINCTL'' 0x00001134, Reg Acc_RW ''LINC0'' 0x00001138,
     Reg Acc_RW ''LINC1'' 0x0000113c, Reg Acc_RW ''IRCTL'' 0x00001140, Reserved 1,
     Reg Acc_RW ''AMASK'' 0x00001148, Reg Acc_RW ''ADDR'' 0x0000114c, Reserved 4,
     Reg Acc_RW ''CLKDIV2'' 0x00001160]"

subsection \<open>\<open>hw_rtc.h\<close>\<close>

definition RTC_GEN_EVENT_Regs :: layout where
  "RTC_GEN_EVENT_Regs =
    [Reg Acc_R ''IIDX'' 0x00001050, Reg Acc_RW ''IMASK'' 0x00001054, Reg Acc_R ''RIS'' 0x00001058,
     Reg Acc_R ''MIS'' 0x0000105c, Reg Acc_W ''ISET'' 0x00001060, Reg Acc_W ''ICLR'' 0x00001064]"

definition RTC_CPU_INT_Regs :: layout where
  "RTC_CPU_INT_Regs =
    [Reg Acc_R ''IIDX'' 0x00001020, Reserved 1, Reg Acc_RW ''IMASK'' 0x00001028, Reserved 1,
     Reg Acc_R ''RIS'' 0x00001030, Reserved 1, Reg Acc_R ''MIS'' 0x00001038, Reserved 1,
     Reg Acc_W ''ISET'' 0x00001040, Reserved 1, Reg Acc_W ''ICLR'' 0x00001048]"

definition RTC_GPRCM_Regs :: layout where
  "RTC_GPRCM_Regs =
    [Reg Acc_RW ''PWREN'' 0x00000800, Reg Acc_W ''RSTCTL'' 0x00000804,
     Reg Acc_RW ''CLKCFG'' 0x00000808, Reserved 2, Reg Acc_R ''STAT'' 0x00000814]"

definition RTC_Regs :: layout where
  "RTC_Regs =
    [Reserved 273, Reg Acc_RW ''FPUB_0'' 0x00000444, Reserved 238,
     Block ''GPRCM'' RTC_GPRCM_Regs 0x00000800, Reserved 507, Reg Acc_R ''CLKSEL'' 0x00001004,
     Reserved 6, Block ''CPU_INT'' RTC_CPU_INT_Regs 0x00001020, Reserved 1,
     Block ''GEN_EVENT'' RTC_GEN_EVENT_Regs 0x00001050, Reserved 30,
     Reg Acc_RW ''EVT_MODE'' 0x000010e0, Reserved 6, Reg Acc_R ''DESC'' 0x000010fc,
     Reg Acc_RW ''CLKCTL'' 0x00001100, Reg Acc_RW ''DBGCTL'' 0x00001104, Reg Acc_RW ''CTL'' 0x00001108,
     Reg Acc_R ''STA'' 0x0000110c, Reg Acc_RW ''CAL'' 0x00001110, Reg Acc_RW ''TCMP'' 0x00001114,
     Reg Acc_RW ''SEC'' 0x00001118, Reg Acc_RW ''MIN'' 0x0000111c, Reg Acc_RW ''HOUR'' 0x00001120,
     Reg Acc_RW ''DAY'' 0x00001124, Reg Acc_RW ''MON'' 0x00001128, Reg Acc_RW ''YEAR'' 0x0000112c,
     Reg Acc_RW ''A1MIN'' 0x00001130, Reg Acc_RW ''A1HOUR'' 0x00001134,
     Reg Acc_RW ''A1DAY'' 0x00001138, Reg Acc_RW ''A2MIN'' 0x0000113c,
     Reg Acc_RW ''A2HOUR'' 0x00001140, Reg Acc_RW ''A2DAY'' 0x00001144,
     Reg Acc_RW ''PSCTL'' 0x00001148, Reg Acc_RW ''EXTPSCTL'' 0x0000114c,
     Reg Acc_R ''TSSEC'' 0x00001150, Reg Acc_R ''TSMIN'' 0x00001154, Reg Acc_R ''TSHOUR'' 0x00001158,
     Reg Acc_R ''TSDAY'' 0x0000115c, Reg Acc_R ''TSMON'' 0x00001160, Reg Acc_R ''TSYEAR'' 0x00001164,
     Reg Acc_R ''TSSTAT'' 0x00001168, Reg Acc_RW ''TSCTL'' 0x0000116c, Reg Acc_W ''TSCLR'' 0x00001170,
     Reserved 31, Reg Acc_RW ''LFSSRST'' 0x000011f0, Reserved 2, Reg Acc_RW ''RTCLOCK'' 0x000011fc]"

subsection \<open>\<open>hw_vref.h\<close>\<close>

definition VREF_GPRCM_Regs :: layout where
  "VREF_GPRCM_Regs =
    [Reg Acc_RW ''PWREN'' 0x00000800, Reg Acc_W ''RSTCTL'' 0x00000804, Reserved 3,
     Reg Acc_R ''STAT'' 0x00000814]"

definition VREF_Regs :: layout where
  "VREF_Regs =
    [Reserved 512, Block ''GPRCM'' VREF_GPRCM_Regs 0x00000800, Reserved 506,
     Reg Acc_RW ''CLKDIV'' 0x00001000, Reserved 1, Reg Acc_RW ''CLKSEL'' 0x00001008, Reserved 61,
     Reg Acc_RW ''CTL0'' 0x00001100, Reg Acc_RW ''CTL1'' 0x00001104, Reg Acc_RW ''CTL2'' 0x00001108]"

subsection \<open>\<open>hw_wuc.h\<close>\<close>

definition WUC_Regs :: layout where
  "WUC_Regs =
    [Reserved 256, Reg Acc_RW ''FSUB_0'' 0x00000400, Reg Acc_RW ''FSUB_1'' 0x00000404]"

subsection \<open>\<open>hw_wwdt.h\<close>\<close>

definition WWDT_CPU_INT_Regs :: layout where
  "WWDT_CPU_INT_Regs =
    [Reg Acc_R ''IIDX'' 0x00001020, Reserved 1, Reg Acc_RW ''IMASK'' 0x00001028, Reserved 1,
     Reg Acc_R ''RIS'' 0x00001030, Reserved 1, Reg Acc_R ''MIS'' 0x00001038, Reserved 1,
     Reg Acc_W ''ISET'' 0x00001040, Reserved 1, Reg Acc_W ''ICLR'' 0x00001048]"

definition WWDT_GPRCM_Regs :: layout where
  "WWDT_GPRCM_Regs =
    [Reg Acc_RW ''PWREN'' 0x00000800, Reg Acc_W ''RSTCTL'' 0x00000804, Reserved 3,
     Reg Acc_R ''STAT'' 0x00000814]"

definition WWDT_Regs :: layout where
  "WWDT_Regs =
    [Reserved 512, Block ''GPRCM'' WWDT_GPRCM_Regs 0x00000800, Reserved 512,
     Reg Acc_RW ''PDBGCTL'' 0x00001018, Reserved 1, Block ''CPU_INT'' WWDT_CPU_INT_Regs 0x00001020,
     Reserved 37, Reg Acc_RW ''EVT_MODE'' 0x000010e0, Reserved 6, Reg Acc_R ''DESC'' 0x000010fc,
     Reg Acc_RW ''WWDTCTL0'' 0x00001100, Reg Acc_RW ''WWDTCTL1'' 0x00001104,
     Reg Acc_RW ''WWDTCNTRST'' 0x00001108, Reg Acc_R ''WWDTSTAT'' 0x0000110c]"

subsection \<open>\<open>hw_cpuss.h\<close>\<close>

definition CPUSS_INT_GROUP_Regs :: layout where
  "CPUSS_INT_GROUP_Regs =
    [Reg Acc_R ''IIDX'' 0x00001100, Reserved 1, Reg Acc_R ''IMASK'' 0x00001108, Reserved 1,
     Reg Acc_R ''RIS'' 0x00001110, Reserved 1, Reg Acc_R ''MIS'' 0x00001118, Reserved 1,
     Reg Acc_W ''ISET'' 0x00001120, Reserved 1, Reg Acc_W ''ICLR'' 0x00001128, Reserved 1]"

definition CPUSS_Regs :: layout where
  "CPUSS_Regs =
    [Reserved 1080, Reg Acc_R ''EVT_MODE'' 0x000010e0, Reserved 6, Reg Acc_R ''DESC'' 0x000010fc,
     Blocks ''INT_GROUP'' 5 CPUSS_INT_GROUP_Regs 0x00001100, Reserved 68,
     Reg Acc_RW ''CTL'' 0x00001300]"

subsection \<open>\<open>hw_debugss.h\<close>\<close>

definition DEBUGSS_CPU_INT_Regs :: layout where
  "DEBUGSS_CPU_INT_Regs =
    [Reg Acc_R ''IIDX'' 0x00001020, Reserved 1, Reg Acc_RW ''IMASK'' 0x00001028, Reserved 1,
     Reg Acc_R ''RIS'' 0x00001030, Reserved 1, Reg Acc_R ''MIS'' 0x00001038, Reserved 1,
     Reg Acc_W ''ISET'' 0x00001040, Reserved 1, Reg Acc_W ''ICLR'' 0x00001048]"

definition DEBUGSS_Regs :: layout where
  "DEBUGSS_Regs =
    [Reserved 1032, Block ''CPU_INT'' DEBUGSS_CPU_INT_Regs 0x00001020, Reserved 37,
     Reg Acc_R ''EVT_MODE'' 0x000010e0, Reserved 6, Reg Acc_R ''DESC'' 0x000010fc,
     Reg Acc_R ''TXD'' 0x00001100, Reg Acc_R ''TXCTL'' 0x00001104, Reg Acc_RW ''RXD'' 0x00001108,
     Reg Acc_RW ''RXCTL'' 0x0000110c, Reserved 60, Reg Acc_R ''SPECIAL_AUTH'' 0x00001200, Reserved 3,
     Reg Acc_R ''APP_AUTH'' 0x00001210]"

subsection \<open>\<open>hw_sysctl_mspm0c1105_c1106.h\<close>\<close>

definition SYSCTL_SECCFG_Regs :: layout where
  "SYSCTL_SECCFG_Regs =
    [Reg Acc_RW ''FWEPROTMAIN'' 0x00003000, Reserved 5, Reg Acc_RW ''FRXPROTMAINSTART'' 0x00003018,
     Reg Acc_RW ''FRXPROTMAINEND'' 0x0000301c, Reg Acc_RW ''FIPPROTMAINSTART'' 0x00003020,
     Reg Acc_RW ''FIPPROTMAINEND'' 0x00003024, Reserved 7, Reg Acc_W ''FWENABLE'' 0x00003044,
     Reg Acc_R ''SECSTATUS'' 0x00003048, Reserved 5, Reg Acc_W ''INITDONE'' 0x00003060]"

definition SYSCTL_SOCLOCK_Regs :: layout where
  "SYSCTL_SOCLOCK_Regs =
    [Reserved 8, Reg Acc_R ''IIDX'' 0x00001020, Reserved 1, Reg Acc_RW ''IMASK'' 0x00001028,
     Reserved 1, Reg Acc_R ''RIS'' 0x00001030, Reserved 1, Reg Acc_R ''MIS'' 0x00001038, Reserved 1,
     Reg Acc_W ''ISET'' 0x00001040, Reserved 1, Reg Acc_W ''ICLR'' 0x00001048, Reserved 1,
     Reg Acc_R ''NMIIIDX'' 0x00001050, Reserved 3, Reg Acc_R ''NMIRIS'' 0x00001060, Reserved 3,
     Reg Acc_W ''NMIISET'' 0x00001070, Reserved 1, Reg Acc_W ''NMIICLR'' 0x00001078, Reserved 33,
     Reg Acc_RW ''SYSOSCCFG'' 0x00001100, Reg Acc_RW ''MCLKCFG'' 0x00001104,
     Reg Acc_RW ''HSCLKEN'' 0x00001108, Reg Acc_RW ''HSCLKCFG'' 0x0000110c,
     Reg Acc_RW ''HFCLKCLKCFG'' 0x00001110, Reg Acc_RW ''LFCLKCFG'' 0x00001114, Reserved 8,
     Reg Acc_RW ''GENCLKCFG'' 0x00001138, Reg Acc_RW ''GENCLKEN'' 0x0000113c,
     Reg Acc_RW ''PMODECFG'' 0x00001140, Reserved 3, Reg Acc_R ''FCC'' 0x00001150, Reserved 9,
     Reg Acc_RW ''SRAMBOUNDARY'' 0x00001178, Reserved 1, Reg Acc_RW ''SYSTEMCFG'' 0x00001180,
     Reserved 3, Reg Acc_RW ''BEEPCFG'' 0x00001190, Reserved 27, Reg Acc_RW ''WRITELOCK'' 0x00001200,
     Reg Acc_R ''CLKSTATUS'' 0x00001204, Reg Acc_R ''SYSSTATUS'' 0x00001208, Reserved 5,
     Reg Acc_R ''RSTCAUSE'' 0x00001220, Reserved 55, Reg Acc_RW ''RESETLEVEL'' 0x00001300,
     Reg Acc_W ''RESETCMD'' 0x00001304, Reg Acc_RW ''BORTHRESHOLD'' 0x00001308,
     Reg Acc_W ''BORCLRCMD'' 0x0000130c, Reg Acc_W ''SYSOSCFCLCTL'' 0x00001310,
     Reg Acc_W ''LFXTCTL'' 0x00001314, Reg Acc_W ''EXLFCTL'' 0x00001318,
     Reg Acc_W ''SHDNIOREL'' 0x0000131c, Reg Acc_W ''EXRSTPIN'' 0x00001320,
     Reg Acc_W ''SYSSTATUSCLR'' 0x00001324, Reg Acc_W ''SWDCFG'' 0x00001328,
     Reg Acc_W ''FCCCMD'' 0x0000132c, Reserved 52, Reg Acc_RW ''SHUTDNSTORE0'' 0x00001400,
     Reg Acc_RW ''SHUTDNSTORE1'' 0x00001404, Reg Acc_RW ''SHUTDNSTORE2'' 0x00001408,
     Reg Acc_RW ''SHUTDNSTORE3'' 0x0000140c]"

definition SYSCTL_Regs :: layout where
  "SYSCTL_Regs =
    [Reserved 1024, Block ''SOCLOCK'' SYSCTL_SOCLOCK_Regs 0x00001000, Reserved 1788,
     Block ''SECCFG'' SYSCTL_SECCFG_Regs 0x00003000]"

section \<open>The peripherals\<close>

datatype peripheral = Dev_UART1 | Dev_SPI0 | Dev_CRC | Dev_TIMA0 | Dev_GPIOB | Dev_UART2 | Dev_TIMG1
  | Dev_TIMG8 | Dev_WWDT0 | Dev_UART0 | Dev_I2C1 | Dev_TIMG2 | Dev_DEBUGSS | Dev_GPIOA | Dev_FLASHCTL
  | Dev_I2C0 | Dev_WUC | Dev_DMA | Dev_COMP0 | Dev_CPUSS | Dev_SYSCTL | Dev_IOMUX | Dev_TIMG14
  | Dev_LFSS | Dev_RTC_B | Dev_VREF | Dev_ADC0 | Dev_ADC0_PERIPHERALREGIONSVT | Dev_FACTORYREGION

fun base_address :: "peripheral \<Rightarrow> nat" where
  "base_address Dev_UART1 = 0x40100000"
| "base_address Dev_SPI0 = 0x40468000"
| "base_address Dev_CRC = 0x40440000"
| "base_address Dev_TIMA0 = 0x40860000"
| "base_address Dev_GPIOB = 0x400a2000"
| "base_address Dev_UART2 = 0x40102000"
| "base_address Dev_TIMG1 = 0x40086000"
| "base_address Dev_TIMG8 = 0x40090000"
| "base_address Dev_WWDT0 = 0x40080000"
| "base_address Dev_UART0 = 0x40108000"
| "base_address Dev_I2C1 = 0x400f2000"
| "base_address Dev_TIMG2 = 0x40088000"
| "base_address Dev_DEBUGSS = 0x400c7000"
| "base_address Dev_GPIOA = 0x400a0000"
| "base_address Dev_FLASHCTL = 0x400cd000"
| "base_address Dev_I2C0 = 0x400f0000"
| "base_address Dev_WUC = 0x40424000"
| "base_address Dev_DMA = 0x4042a000"
| "base_address Dev_COMP0 = 0x40008000"
| "base_address Dev_CPUSS = 0x40400000"
| "base_address Dev_SYSCTL = 0x400af000"
| "base_address Dev_IOMUX = 0x40428000"
| "base_address Dev_TIMG14 = 0x40084000"
| "base_address Dev_LFSS = 0x40094000"
| "base_address Dev_RTC_B = 0x40094000"
| "base_address Dev_VREF = 0x40030000"
| "base_address Dev_ADC0 = 0x40004000"
| "base_address Dev_ADC0_PERIPHERALREGIONSVT = 0x4055a000"
| "base_address Dev_FACTORYREGION = 0x41c40000"

text \<open>The type of the structure each peripheral pointer points to.\<close>

fun register_block :: "peripheral \<Rightarrow> layout option" where
  "register_block Dev_UART1 = Some UART_Regs"
| "register_block Dev_SPI0 = Some SPI_Regs"
| "register_block Dev_CRC = Some CRC_Regs"
| "register_block Dev_TIMA0 = Some GPTIMER_Regs"
| "register_block Dev_GPIOB = Some GPIO_Regs"
| "register_block Dev_UART2 = Some UART_Regs"
| "register_block Dev_TIMG1 = Some GPTIMER_Regs"
| "register_block Dev_TIMG8 = Some GPTIMER_Regs"
| "register_block Dev_WWDT0 = Some WWDT_Regs"
| "register_block Dev_UART0 = Some UART_Regs"
| "register_block Dev_I2C1 = Some I2C_Regs"
| "register_block Dev_TIMG2 = Some GPTIMER_Regs"
| "register_block Dev_DEBUGSS = Some DEBUGSS_Regs"
| "register_block Dev_GPIOA = Some GPIO_Regs"
| "register_block Dev_FLASHCTL = Some FLASHCTL_Regs"
| "register_block Dev_I2C0 = Some I2C_Regs"
| "register_block Dev_WUC = Some WUC_Regs"
| "register_block Dev_DMA = Some DMA_Regs"
| "register_block Dev_COMP0 = Some COMP_Regs"
| "register_block Dev_CPUSS = Some CPUSS_Regs"
| "register_block Dev_SYSCTL = Some SYSCTL_Regs"
| "register_block Dev_IOMUX = Some IOMUX_Regs"
| "register_block Dev_TIMG14 = Some GPTIMER_Regs"
| "register_block Dev_LFSS = Some LFSS_Regs"
| "register_block Dev_RTC_B = Some RTC_Regs"
| "register_block Dev_VREF = Some VREF_Regs"
| "register_block Dev_ADC0 = Some ADC12_Regs"
| "register_block Dev_ADC0_PERIPHERALREGIONSVT = Some ADC12_PERIPHERALREGIONSVT_Regs"
| "register_block Dev_FACTORYREGION = None"

definition all_peripherals :: "peripheral list" where
  "all_peripherals = [Dev_UART1, Dev_SPI0, Dev_CRC, Dev_TIMA0, Dev_GPIOB, Dev_UART2, Dev_TIMG1,
     Dev_TIMG8, Dev_WWDT0, Dev_UART0, Dev_I2C1, Dev_TIMG2, Dev_DEBUGSS, Dev_GPIOA, Dev_FLASHCTL,
     Dev_I2C0, Dev_WUC, Dev_DMA, Dev_COMP0, Dev_CPUSS, Dev_SYSCTL, Dev_IOMUX, Dev_TIMG14, Dev_LFSS,
     Dev_RTC_B, Dev_VREF, Dev_ADC0, Dev_ADC0_PERIPHERALREGIONSVT, Dev_FACTORYREGION]"


definition block_of :: "peripheral \<Rightarrow> nat set" where
  "block_of p = (case register_block p of None \<Rightarrow> {} | Some ms \<Rightarrow> {base_address p ..< base_address p + layout_size ms})"

lemma all_peripherals_complete: "p \<in> set all_peripherals"
  by (cases p) (simp_all add: all_peripherals_def)

section \<open>Sizes and offsets\<close>

lemmas layout_defs = ADC12_SVTMEM_Regs_def ADC12_PERIPHERALREGIONSVT_Regs_def ADC12_DMA_TRIG_Regs_def
  ADC12_GEN_EVENT_Regs_def ADC12_CPU_INT_Regs_def ADC12_GPRCM_Regs_def ADC12_ULLMEM_Regs_def
  ADC12_Regs_def COMP_GEN_EVENT_Regs_def COMP_CPU_INT_Regs_def COMP_GPRCM_Regs_def COMP_Regs_def
  CRC_GPRCM_Regs_def CRC_Regs_def DMA_DMACHAN_Regs_def DMA_DMATRIG_Regs_def DMA_GEN_EVENT_Regs_def
  DMA_CPU_INT_Regs_def DMA_Regs_def FLASHCTL_GEN_Regs_def FLASHCTL_Regs_def GPIO_GEN_EVENT1_Regs_def
  GPIO_GEN_EVENT0_Regs_def GPIO_CPU_INT_Regs_def GPIO_GPRCM_Regs_def GPIO_Regs_def
  GPTIMER_COUNTERREGS_Regs_def GPTIMER_COMMONREGS_Regs_def GPTIMER_GEN_EVENT1_Regs_def
  GPTIMER_GEN_EVENT0_Regs_def GPTIMER_CPU_INT_Regs_def GPTIMER_GPRCM_Regs_def GPTIMER_Regs_def
  I2C_SLAVE_Regs_def I2C_MASTER_Regs_def I2C_DMA_TRIG0_Regs_def I2C_DMA_TRIG1_Regs_def
  I2C_CPU_INT_Regs_def I2C_GPRCM_Regs_def I2C_Regs_def IOMUX_SECCFG_Regs_def IOMUX_Regs_def
  LFSS_IPSPECIFIC_MEM_Regs_def LFSS_IPSPECIFIC_WDT_Regs_def LFSS_IPSPECIFIC_TIO_Regs_def
  LFSS_IPSPECIFIC_RTC_Regs_def LFSS_GEN_EVENT_Regs_def LFSS_CPU_INT_Regs_def LFSS_Regs_def
  SPI_DMA_TRIG_TX_Regs_def SPI_DMA_TRIG_RX_Regs_def SPI_CPU_INT_Regs_def SPI_GPRCM_Regs_def SPI_Regs_def
  UART_DMA_TRIG_TX_Regs_def UART_DMA_TRIG_RX_Regs_def UART_CPU_INT_Regs_def UART_GPRCM_Regs_def
  UART_Regs_def RTC_GEN_EVENT_Regs_def RTC_CPU_INT_Regs_def RTC_GPRCM_Regs_def RTC_Regs_def
  VREF_GPRCM_Regs_def VREF_Regs_def WUC_Regs_def WWDT_CPU_INT_Regs_def WWDT_GPRCM_Regs_def WWDT_Regs_def
  CPUSS_INT_GROUP_Regs_def CPUSS_Regs_def DEBUGSS_CPU_INT_Regs_def DEBUGSS_Regs_def
  SYSCTL_SECCFG_Regs_def SYSCTL_SOCLOCK_Regs_def SYSCTL_Regs_def

text \<open>Sizes and documented offsets, structure by structure.\<close>

lemma layout_sizes [simp]:
  "layout_size ADC12_PERIPHERALREGIONSVT_Regs = 0x2e0"
  "layout_size ADC12_Regs = 0x1344"
  "layout_size COMP_Regs = 0x1124"
  "layout_size CRC_Regs = 0x2000"
  "layout_size DMA_Regs = 0x1300"
  "layout_size FLASHCTL_Regs = 0x1448"
  "layout_size GPIO_Regs = 0x1524"
  "layout_size GPTIMER_Regs = 0x18d8"
  "layout_size I2C_Regs = 0x127c"
  "layout_size IOMUX_Regs = 0x3f0"
  "layout_size LFSS_Regs = 0x1560"
  "layout_size SPI_Regs = 0x1144"
  "layout_size UART_Regs = 0x1164"
  "layout_size RTC_Regs = 0x1200"
  "layout_size VREF_Regs = 0x110c"
  "layout_size WUC_Regs = 0x408"
  "layout_size WWDT_Regs = 0x1110"
  "layout_size CPUSS_Regs = 0x1304"
  "layout_size DEBUGSS_Regs = 0x1214"
  "layout_size SYSCTL_Regs = 0x3064"
  by (simp_all add: layout_size_def layout_defs)

lemma ADC12_PERIPHERALREGIONSVT_documented: "as_documented ADC12_PERIPHERALREGIONSVT_Regs"
  by (simp add: as_documented_def layout_size_def layout_defs)

lemma ADC12_documented: "as_documented ADC12_Regs"
  by (simp add: as_documented_def layout_size_def layout_defs)

lemma COMP_documented: "as_documented COMP_Regs"
  by (simp add: as_documented_def layout_size_def layout_defs)

lemma CRC_documented: "as_documented CRC_Regs"
  by (simp add: as_documented_def layout_size_def layout_defs)

lemma DMA_documented: "as_documented DMA_Regs"
  by (simp add: as_documented_def layout_size_def layout_defs)

lemma FLASHCTL_documented: "as_documented FLASHCTL_Regs"
  by (simp add: as_documented_def layout_size_def layout_defs)

lemma GPIO_documented: "as_documented GPIO_Regs"
  by (simp add: as_documented_def layout_size_def layout_defs)

lemma GPTIMER_documented: "as_documented GPTIMER_Regs"
  by (simp add: as_documented_def layout_size_def layout_defs)

lemma I2C_documented: "as_documented I2C_Regs"
  by (simp add: as_documented_def layout_size_def layout_defs)

lemma IOMUX_documented: "as_documented IOMUX_Regs"
  by (simp add: as_documented_def layout_size_def layout_defs)

lemma LFSS_documented: "as_documented LFSS_Regs"
  by (simp add: as_documented_def layout_size_def layout_defs)

lemma SPI_documented: "as_documented SPI_Regs"
  by (simp add: as_documented_def layout_size_def layout_defs)

lemma UART_documented: "as_documented UART_Regs"
  by (simp add: as_documented_def layout_size_def layout_defs)

lemma RTC_documented: "as_documented RTC_Regs"
  by (simp add: as_documented_def layout_size_def layout_defs)

lemma VREF_documented: "as_documented VREF_Regs"
  by (simp add: as_documented_def layout_size_def layout_defs)

lemma WUC_documented: "as_documented WUC_Regs"
  by (simp add: as_documented_def layout_size_def layout_defs)

lemma WWDT_documented: "as_documented WWDT_Regs"
  by (simp add: as_documented_def layout_size_def layout_defs)

lemma CPUSS_documented: "as_documented CPUSS_Regs"
  by (simp add: as_documented_def layout_size_def layout_defs)

lemma DEBUGSS_documented: "as_documented DEBUGSS_Regs"
  by (simp add: as_documented_def layout_size_def layout_defs)

lemma SYSCTL_documented: "as_documented SYSCTL_Regs"
  by (simp add: as_documented_def layout_size_def layout_defs)

lemmas documented = ADC12_PERIPHERALREGIONSVT_documented ADC12_documented COMP_documented CRC_documented
  DMA_documented FLASHCTL_documented GPIO_documented GPTIMER_documented I2C_documented IOMUX_documented
  LFSS_documented SPI_documented UART_documented RTC_documented VREF_documented WUC_documented
  WWDT_documented CPUSS_documented DEBUGSS_documented SYSCTL_documented

lemma blocks_disjoint: "p = q \<or> {p, q} = {Dev_LFSS, Dev_RTC_B} \<or> block_of p \<inter> block_of q = {}"
  by (cases p; cases q; simp add: block_of_def insert_commute)

text \<open>The real-time clock is a view of the low-frequency subsystem, at the same base address. Where a register of that view
  has a namesake in \<open>hw_lfss.h\<close>, the two headers agree on its offset and its access but for the event registers, which
  \<open>hw_rtc.h\<close> packs without the words that \<open>hw_lfss.h\<close> reserves between them.\<close>

definition placed :: "layout \<Rightarrow> (string \<times> access_right \<times> nat) list" where
  "placed ms = map (\<lambda>(path, acc, k, d). (last path, acc, k)) (members 0 [] ms)"

lemma rtc_within_lfss: "block_of Dev_RTC_B \<subseteq> block_of Dev_LFSS"
  by (simp add: block_of_def layout_size_def layout_defs)

theorem rtc_and_lfss_event_registers_differ:
  "list_all (\<lambda>(n, acc, k). (n, acc, k) \<in> set (placed RTC_Regs) \<and> (n, acc, k + k - 0x1050) \<in> set (placed LFSS_Regs)
      \<and> (n, acc, k) \<notin> set (placed LFSS_Regs))
    [(''IMASK'', Acc_RW, 0x1054), (''RIS'', Acc_R, 0x1058), (''MIS'', Acc_R, 0x105c), (''ISET'', Acc_W, 0x1060),
     (''ICLR'', Acc_W, 0x1064)]"
  by (simp add: placed_def layout_size_def layout_defs)

section \<open>Properties\<close>


end
