(* ===== verification/Device_Registers.thy ===== *)
theory Device_Registers
  imports Mmio Device_Layout
begin

text \<open>
  Where the registers the drivers name are: each is a member of a structure of the device headers, at the
  address of its peripheral plus the member's offset. The drivers' models tell registers apart by name, which
  is right only if different names are different addresses.
\<close>

section \<open>Registers as members of structures\<close>

fun i2c_member :: "i2c_reg \<Rightarrow> string list" where
  "i2c_member I2C_RSTCTL = [''GPRCM'', ''RSTCTL'']"
| "i2c_member I2C_PWREN = [''GPRCM'', ''PWREN'']"
| "i2c_member I2C_CLKSEL = [''CLKSEL'']"
| "i2c_member I2C_CLKDIV = [''CLKDIV'']"
| "i2c_member I2C_TIMEOUT_CTL = [''TIMEOUT_CTL'']"
| "i2c_member I2C_IIDX = [''CPU_INT'', ''IIDX'']"
| "i2c_member I2C_IMASK = [''CPU_INT'', ''IMASK'']"
| "i2c_member I2C_RIS = [''CPU_INT'', ''RIS'']"
| "i2c_member I2C_ICLR = [''CPU_INT'', ''ICLR'']"
| "i2c_member I2C_MSA = [''MASTER'', ''MSA'']"
| "i2c_member I2C_MCTR = [''MASTER'', ''MCTR'']"
| "i2c_member I2C_MSR = [''MASTER'', ''MSR'']"
| "i2c_member I2C_MRXDATA = [''MASTER'', ''MRXDATA'']"
| "i2c_member I2C_MTXDATA = [''MASTER'', ''MTXDATA'']"
| "i2c_member I2C_MTPR = [''MASTER'', ''MTPR'']"
| "i2c_member I2C_MCR = [''MASTER'', ''MCR'']"
| "i2c_member I2C_MBMON = [''MASTER'', ''MBMON'']"
| "i2c_member I2C_MFIFOCTL = [''MASTER'', ''MFIFOCTL'']"
| "i2c_member I2C_MFIFOSR = [''MASTER'', ''MFIFOSR'']"
| "i2c_member I2C_SOAR = [''SLAVE'', ''SOAR'']"
| "i2c_member I2C_SOAR2 = [''SLAVE'', ''SOAR2'']"
| "i2c_member I2C_SCTR = [''SLAVE'', ''SCTR'']"
| "i2c_member I2C_SSR = [''SLAVE'', ''SSR'']"
| "i2c_member I2C_SRXDATA = [''SLAVE'', ''SRXDATA'']"
| "i2c_member I2C_STXDATA = [''SLAVE'', ''STXDATA'']"
| "i2c_member I2C_SACKCTL = [''SLAVE'', ''SACKCTL'']"

fun uart_member :: "uart_reg \<Rightarrow> string list" where
  "uart_member UART_RSTCTL = [''GPRCM'', ''RSTCTL'']"
| "uart_member UART_PWREN = [''GPRCM'', ''PWREN'']"
| "uart_member UART_CTL0 = [''CTL0'']"
| "uart_member UART_CLKSEL = [''CLKSEL'']"
| "uart_member UART_CLKDIV = [''CLKDIV'']"
| "uart_member UART_LCRH = [''LCRH'']"
| "uart_member UART_IBRD = [''IBRD'']"
| "uart_member UART_FBRD = [''FBRD'']"
| "uart_member UART_IFLS = [''IFLS'']"
| "uart_member UART_STAT = [''STAT'']"
| "uart_member UART_TXDATA = [''TXDATA'']"
| "uart_member UART_IIDX = [''CPU_INT'', ''IIDX'']"
| "uart_member UART_IMASK = [''CPU_INT'', ''IMASK'']"
| "uart_member UART_ISET = [''CPU_INT'', ''ISET'']"
| "uart_member UART_ICLR = [''CPU_INT'', ''ICLR'']"

fun gpio_member :: "gpio_reg \<Rightarrow> string list" where
  "gpio_member GPIO_RSTCTL = [''GPRCM'', ''RSTCTL'']"
| "gpio_member GPIO_PWREN = [''GPRCM'', ''PWREN'']"
| "gpio_member GPIO_DOUTSET = [''DOUTSET31_0'']"
| "gpio_member GPIO_DOUTCLR = [''DOUTCLR31_0'']"
| "gpio_member GPIO_DOUTTGL = [''DOUTTGL31_0'']"
| "gpio_member GPIO_DOESET = [''DOESET31_0'']"

fun wwdt_member :: "wwdt_reg \<Rightarrow> string list" where
  "wwdt_member WWDT_RSTCTL = [''GPRCM'', ''RSTCTL'']"
| "wwdt_member WWDT_PWREN = [''GPRCM'', ''PWREN'']"
| "wwdt_member WWDT_PDBGCTL = [''PDBGCTL'']"
| "wwdt_member WWDT_CTL0 = [''WWDTCTL0'']"
| "wwdt_member WWDT_CTL1 = [''WWDTCTL1'']"
| "wwdt_member WWDT_STAT = [''WWDTSTAT'']"
| "wwdt_member WWDT_CNTRST = [''WWDTCNTRST'']"

fun sysctl_member :: "sysctl_reg \<Rightarrow> string list" where
  "sysctl_member SYSCTL_SYSOSCCFG = [''SOCLOCK'', ''SYSOSCCFG'']"
| "sysctl_member SYSCTL_MCLKCFG = [''SOCLOCK'', ''MCLKCFG'']"
| "sysctl_member SYSCTL_CLKSTATUS = [''SOCLOCK'', ''CLKSTATUS'']"
| "sysctl_member SYSCTL_RSTCAUSE = [''SOCLOCK'', ''RSTCAUSE'']"

text \<open>The peripheral and the member of a register; a port is one of the two GPIO base addresses, and the
  pin-mux registers are the elements of one array.\<close>

fun location :: "reg \<Rightarrow> (peripheral \<times> string list) option" where
  "location (I2C1 r) = Some (Dev_I2C1, i2c_member r)"
| "location (UART0 r) = Some (Dev_UART0, uart_member r)"
| "location (GPIO base r) =
     (if base = 0x400a0000 then Some (Dev_GPIOA, gpio_member r)
      else if base = 0x400a2000 then Some (Dev_GPIOB, gpio_member r) else None)"
| "location (PINCM i) = (if i < 251 then Some (Dev_IOMUX, [''SECCFG'', ''PINCM'']) else None)"
| "location (WWDT0 r) = Some (Dev_WWDT0, wwdt_member r)"
| "location (SYSCTL r) = Some (Dev_SYSCTL, sysctl_member r)"

definition element :: "reg \<Rightarrow> nat" where
  "element r = (case r of PINCM i \<Rightarrow> unat i | _ \<Rightarrow> 0)"

text \<open>What the headers say of a register: its address and how it may be accessed.\<close>

definition declared :: "reg \<Rightarrow> (access_right \<times> nat) option" where
  "declared r = (case location r of
      None \<Rightarrow> None
    | Some (p, path) \<Rightarrow> (case register_block p of
        None \<Rightarrow> None
      | Some ms \<Rightarrow> map_option (\<lambda>(a, k). (a, base_address p + k + 4 * element r)) (find_member ms path)))"

text \<open>An access the declared right of its register allows.\<close>

fun permitted :: "access \<Rightarrow> bool" where
  "permitted (Read r v) \<longleftrightarrow> (case declared r of Some (a, _) \<Rightarrow> a \<noteq> Acc_W | None \<Rightarrow> False)"
| "permitted (Write r v) \<longleftrightarrow> (case declared r of Some (a, _) \<Rightarrow> a \<noteq> Acc_R | None \<Rightarrow> False)"
| "permitted _ \<longleftrightarrow> True"

section \<open>The addresses\<close>

lemma declared_i2c [simp]:
  "declared (I2C1 I2C_RSTCTL) = Some (Acc_W, 0x400f2804)"
  "declared (I2C1 I2C_PWREN) = Some (Acc_RW, 0x400f2800)"
  "declared (I2C1 I2C_CLKSEL) = Some (Acc_RW, 0x400f3004)"
  "declared (I2C1 I2C_CLKDIV) = Some (Acc_RW, 0x400f3000)"
  "declared (I2C1 I2C_TIMEOUT_CTL) = Some (Acc_RW, 0x400f3204)"
  "declared (I2C1 I2C_IIDX) = Some (Acc_R, 0x400f3020)"
  "declared (I2C1 I2C_IMASK) = Some (Acc_RW, 0x400f3028)"
  "declared (I2C1 I2C_RIS) = Some (Acc_R, 0x400f3030)"
  "declared (I2C1 I2C_ICLR) = Some (Acc_W, 0x400f3048)"
  "declared (I2C1 I2C_MSA) = Some (Acc_RW, 0x400f3210)"
  "declared (I2C1 I2C_MCTR) = Some (Acc_RW, 0x400f3214)"
  "declared (I2C1 I2C_MSR) = Some (Acc_R, 0x400f3218)"
  "declared (I2C1 I2C_MRXDATA) = Some (Acc_R, 0x400f321c)"
  "declared (I2C1 I2C_MTXDATA) = Some (Acc_RW, 0x400f3220)"
  "declared (I2C1 I2C_MTPR) = Some (Acc_RW, 0x400f3224)"
  "declared (I2C1 I2C_MCR) = Some (Acc_RW, 0x400f3228)"
  "declared (I2C1 I2C_MBMON) = Some (Acc_R, 0x400f3234)"
  "declared (I2C1 I2C_MFIFOCTL) = Some (Acc_RW, 0x400f3238)"
  "declared (I2C1 I2C_MFIFOSR) = Some (Acc_R, 0x400f323c)"
  "declared (I2C1 I2C_SOAR) = Some (Acc_RW, 0x400f3250)"
  "declared (I2C1 I2C_SOAR2) = Some (Acc_RW, 0x400f3254)"
  "declared (I2C1 I2C_SCTR) = Some (Acc_RW, 0x400f3258)"
  "declared (I2C1 I2C_SSR) = Some (Acc_R, 0x400f325c)"
  "declared (I2C1 I2C_SRXDATA) = Some (Acc_R, 0x400f3260)"
  "declared (I2C1 I2C_STXDATA) = Some (Acc_RW, 0x400f3264)"
  "declared (I2C1 I2C_SACKCTL) = Some (Acc_RW, 0x400f3268)"
  by (simp_all add: declared_def element_def find_member_def layout_size_def layout_defs)

lemma declared_uart [simp]:
  "declared (UART0 UART_RSTCTL) = Some (Acc_W, 0x40108804)"
  "declared (UART0 UART_PWREN) = Some (Acc_RW, 0x40108800)"
  "declared (UART0 UART_CTL0) = Some (Acc_RW, 0x40109100)"
  "declared (UART0 UART_CLKSEL) = Some (Acc_RW, 0x40109008)"
  "declared (UART0 UART_CLKDIV) = Some (Acc_RW, 0x40109000)"
  "declared (UART0 UART_LCRH) = Some (Acc_RW, 0x40109104)"
  "declared (UART0 UART_IBRD) = Some (Acc_RW, 0x40109110)"
  "declared (UART0 UART_FBRD) = Some (Acc_RW, 0x40109114)"
  "declared (UART0 UART_IFLS) = Some (Acc_RW, 0x4010910c)"
  "declared (UART0 UART_STAT) = Some (Acc_R, 0x40109108)"
  "declared (UART0 UART_TXDATA) = Some (Acc_RW, 0x40109120)"
  "declared (UART0 UART_IIDX) = Some (Acc_R, 0x40109020)"
  "declared (UART0 UART_IMASK) = Some (Acc_RW, 0x40109028)"
  "declared (UART0 UART_ISET) = Some (Acc_W, 0x40109040)"
  "declared (UART0 UART_ICLR) = Some (Acc_W, 0x40109048)"
  by (simp_all add: declared_def element_def find_member_def layout_size_def layout_defs)

lemma declared_wwdt [simp]:
  "declared (WWDT0 WWDT_RSTCTL) = Some (Acc_W, 0x40080804)"
  "declared (WWDT0 WWDT_PWREN) = Some (Acc_RW, 0x40080800)"
  "declared (WWDT0 WWDT_PDBGCTL) = Some (Acc_RW, 0x40081018)"
  "declared (WWDT0 WWDT_CTL0) = Some (Acc_RW, 0x40081100)"
  "declared (WWDT0 WWDT_CTL1) = Some (Acc_RW, 0x40081104)"
  "declared (WWDT0 WWDT_STAT) = Some (Acc_R, 0x4008110c)"
  "declared (WWDT0 WWDT_CNTRST) = Some (Acc_RW, 0x40081108)"
  by (simp_all add: declared_def element_def find_member_def layout_size_def layout_defs)

lemma declared_sysctl [simp]:
  "declared (SYSCTL SYSCTL_SYSOSCCFG) = Some (Acc_RW, 0x400b0100)"
  "declared (SYSCTL SYSCTL_MCLKCFG) = Some (Acc_RW, 0x400b0104)"
  "declared (SYSCTL SYSCTL_CLKSTATUS) = Some (Acc_R, 0x400b0204)"
  "declared (SYSCTL SYSCTL_RSTCAUSE) = Some (Acc_R, 0x400b0220)"
  by (simp_all add: declared_def element_def find_member_def layout_size_def layout_defs)

lemma declared_gpio [simp]:
  "declared (GPIO 0x400a0000 GPIO_RSTCTL) = Some (Acc_W, 0x400a0804)"
  "declared (GPIO 0x400a0000 GPIO_PWREN) = Some (Acc_RW, 0x400a0800)"
  "declared (GPIO 0x400a0000 GPIO_DOUTSET) = Some (Acc_W, 0x400a1290)"
  "declared (GPIO 0x400a0000 GPIO_DOUTCLR) = Some (Acc_W, 0x400a12a0)"
  "declared (GPIO 0x400a0000 GPIO_DOUTTGL) = Some (Acc_W, 0x400a12b0)"
  "declared (GPIO 0x400a0000 GPIO_DOESET) = Some (Acc_W, 0x400a12d0)"
  "declared (GPIO 0x400a2000 GPIO_RSTCTL) = Some (Acc_W, 0x400a2804)"
  "declared (GPIO 0x400a2000 GPIO_PWREN) = Some (Acc_RW, 0x400a2800)"
  "declared (GPIO 0x400a2000 GPIO_DOUTSET) = Some (Acc_W, 0x400a3290)"
  "declared (GPIO 0x400a2000 GPIO_DOUTCLR) = Some (Acc_W, 0x400a32a0)"
  "declared (GPIO 0x400a2000 GPIO_DOUTTGL) = Some (Acc_W, 0x400a32b0)"
  "declared (GPIO 0x400a2000 GPIO_DOESET) = Some (Acc_W, 0x400a32d0)"
  by (simp_all add: declared_def element_def find_member_def layout_size_def layout_defs)

lemma declared_pincm [simp]: "i < 251 \<Longrightarrow> declared (PINCM i) = Some (Acc_RW, 0x40428004 + 4 * unat i)"
  by (simp add: declared_def element_def find_member_def layout_size_def layout_defs)

definition address :: "reg \<Rightarrow> nat" where
  "address r = snd (the (declared r))"

text \<open>A declared register lies in the block of its peripheral.\<close>

lemma location_gpio:
  "declared (GPIO b r) \<noteq> None \<longleftrightarrow> b = 0x400a0000 \<or> b = 0x400a2000"
proof (cases "b = 0x400a0000 \<or> b = 0x400a2000")
  case True
  then show ?thesis by (cases r) auto
next
  case False
  then show ?thesis by (simp add: declared_def)
qed

lemma declared_iff: "declared r \<noteq> None \<longleftrightarrow> location r \<noteq> None"
proof (cases r)
  case (GPIO b g)
  then show ?thesis using location_gpio [of b g] by simp
next
  case (PINCM i)
  then show ?thesis by (cases "i < 251") (simp, simp add: declared_def)
next
  case (I2C1 x)
  then show ?thesis by (cases x) simp_all
next
  case (UART0 x)
  then show ?thesis by (cases x) simp_all
next
  case (WWDT0 x)
  then show ?thesis by (cases x) simp_all
next
  case (SYSCTL x)
  then show ?thesis by (cases x) simp_all
qed

lemma address_in_block:
  assumes "location r = Some (p, path)"
  shows "address r \<in> block_of p \<and> 4 dvd address r"
proof (cases r)
  case (GPIO b g)
  then show ?thesis
    using assms by (cases g) (auto simp: address_def block_of_def split: if_splits)
next
  case (PINCM i)
  then have i: "i < 251" using assms by (simp split: if_splits)
  then have "unat i < 251" by (simp add: word_less_nat_alt)
  then show ?thesis using i PINCM assms by (auto simp: address_def block_of_def)
next
  case (I2C1 x)
  then show ?thesis using assms by (cases x) (auto simp: address_def block_of_def)
next
  case (UART0 x)
  then show ?thesis using assms by (cases x) (auto simp: address_def block_of_def)
next
  case (WWDT0 x)
  then show ?thesis using assms by (cases x) (auto simp: address_def block_of_def)
next
  case (SYSCTL x)
  then show ?thesis using assms by (cases x) (auto simp: address_def block_of_def)
qed

lemma distinct_in_module:
  "address (I2C1 x) = address (I2C1 y) \<Longrightarrow> x = y"
  "address (UART0 u) = address (UART0 v) \<Longrightarrow> u = v"
  "address (WWDT0 w) = address (WWDT0 z) \<Longrightarrow> w = z"
  "address (SYSCTL s) = address (SYSCTL t) \<Longrightarrow> s = t"
  "address (GPIO 0x400a0000 g) = address (GPIO 0x400a0000 h) \<Longrightarrow> g = h"
  "address (GPIO 0x400a2000 g) = address (GPIO 0x400a2000 h) \<Longrightarrow> g = h"
       apply (cases x; cases y; simp add: address_def)
      apply (cases u; cases v; simp add: address_def)
     apply (cases w; cases z; simp add: address_def)
    apply (cases s; cases t; simp add: address_def)
   apply (cases g; cases h; simp add: address_def)
  apply (cases g; cases h; simp add: address_def)
  done

lemma same_module:
  assumes "location r = Some (p, path)" "location s = Some (q, path')" "address r = address s"
  shows "p = q"
proof -
  have "address r \<in> block_of p \<inter> block_of q"
    using address_in_block [OF assms(1)] address_in_block [OF assms(2)] assms(3) by simp
  moreover have "p \<notin> {Dev_LFSS, Dev_RTC_B}" using assms(1) by (cases r) (auto split: if_splits)
  ultimately show ?thesis using blocks_disjoint [of p q] by blast
qed

section \<open>Properties\<close>

text \<open>Telling registers apart by their names is right. The registers the drivers' models name are members
  of the structures of the device headers, but for the pin-mux registers from index 251 on and the ports other
  than GPIOA and GPIOB; no two of them have the same address; and each address is that of an aligned word in
  the block of a peripheral.\<close>

theorem register_names_are_distinct_addresses:
  "dom declared = - ({PINCM i | i. 251 \<le> i} \<union> {GPIO b r | b r. b \<notin> {0x400a0000, 0x400a2000}})
    \<and> inj_on address (dom declared) \<and> address ` dom declared \<subseteq> {a. 4 dvd a \<and> (\<exists>p. a \<in> block_of p)}"
proof (intro conjI)
  have "r \<in> dom declared \<longleftrightarrow> r \<in> - ({PINCM i | i. 251 \<le> i} \<union> {GPIO b r | b r. b \<notin> {0x400a0000, 0x400a2000}})" for r
    unfolding domIff declared_iff by (cases r) auto
  then show "dom declared = - ({PINCM i | i. 251 \<le> i} \<union> {GPIO b r | b r. b \<notin> {0x400a0000, 0x400a2000}})"
    by blast
  show "address ` dom declared \<subseteq> {a. 4 dvd a \<and> (\<exists>p. a \<in> block_of p)}"
    unfolding dom_def declared_iff using address_in_block by fastforce
  show "inj_on address (dom declared)"
  proof (rule inj_onI)
    fix r s assume "r \<in> dom declared" "s \<in> dom declared" and same: "address r = address s"
    then obtain p path q path' where at: "location r = Some (p, path)" "location s = Some (q, path')"
      unfolding domIff declared_iff by auto
    have "p = q" by (rule same_module [OF at same])
    show "r = s"
    proof (cases r)
      case (PINCM i)
      then have i: "i < 251" using at by (simp split: if_splits)
      obtain j where j: "s = PINCM j" "j < 251" using PINCM at \<open>p = q\<close> by (cases s) (auto split: if_splits)
      then show ?thesis using same i PINCM by (simp add: address_def word_unat_eq_iff)
    next
      case (GPIO b g)
      then show ?thesis
        using at \<open>p = q\<close> same by (cases s) (auto split: if_splits dest: distinct_in_module)
    next
      case (I2C1 x)
      then show ?thesis
        using at \<open>p = q\<close> same by (cases s) (auto split: if_splits dest: distinct_in_module)
    next
      case (UART0 x)
      then show ?thesis
        using at \<open>p = q\<close> same by (cases s) (auto split: if_splits dest: distinct_in_module)
    next
      case (WWDT0 x)
      then show ?thesis
        using at \<open>p = q\<close> same by (cases s) (auto split: if_splits dest: distinct_in_module)
    next
      case (SYSCTL x)
      then show ?thesis
        using at \<open>p = q\<close> same by (cases s) (auto split: if_splits dest: distinct_in_module)
    qed
  qed
qed

end
