(* ===== verification/Application.thy ===== *)
theory Application
  imports Board
begin

text \<open>
  What the applications share: the idle loop every one of them ends in, with \<open>arch/arch_wait.h\<close>, and the transmit
  interrupt of the debug output that comes meanwhile. An application is the board and the timer; its \<open>main\<close> runs up to
  the endless loop it enters, which is a value, and the loop is a step that an interrupt follows.
\<close>

section \<open>Applications\<close>

record 'h app =
  ap_board :: "'h board"
  ap_timer :: timer

definition on_board :: "('h board \<Rightarrow> ('a \<times> 'h board) defined) \<Rightarrow> 'h app \<Rightarrow> ('a \<times> 'h app) defined" where
  "on_board f ap = do {
     (r, bd) \<leftarrow> f (ap_board ap);
     Some (r, ap\<lparr>ap_board := bd\<rparr>)
   }"

definition on_timer :: "(timer \<Rightarrow> ('a \<times> timer) defined) \<Rightarrow> 'h app \<Rightarrow> ('a \<times> 'h app) defined" where
  "on_timer f ap = do {
     (r, t) \<leftarrow> f (ap_timer ap);
     Some (r, ap\<lparr>ap_timer := t\<rparr>)
   }"

definition arch_wait_for_interrupt :: "'h app \<Rightarrow> 'h app defined" where
  "arch_wait_for_interrupt ap = do {
     (_, ap) \<leftarrow> on_board (on_machine (quietly (cpu Wfi))) ap;
     Some ap
   }"

definition app_kick :: "'h hardware \<Rightarrow> 'h app \<Rightarrow> 'h app defined" where
  "app_kick hw ap = do {
     (_, ap) \<leftarrow> on_board (on_machine (quietly (hal_wdt_kick hw))) ap;
     Some ap
   }"

text \<open>\<open>DBG_WRITE_LITERAL\<close>: nothing in a release build; the literal goes without its terminator.\<close>

definition DBG_WRITE_LITERAL :: "bool \<Rightarrow> u8 list \<Rightarrow> 'h app \<Rightarrow> 'h app defined" where
  "DBG_WRITE_LITERAL debug_enabled chars ap =
     (if debug_enabled
      then do {
        (_, ap) \<leftarrow> on_board (\<lambda>bd. on_uart (\<lambda>u. do {
            (accepted, g) \<leftarrow> lib_debug_write (literal chars) (of_nat (length chars))
              \<lparr>dbg_writer = bd_writer bd, dbg_world = u\<rparr>;
            Some (accepted, dbg_world g)
          }) bd) ap;
        Some ap
      }
      else Some ap)"

text \<open>The transmit interrupt of the UART. The ring of the board holds 64 bytes, so 65 is fuel enough for its handler.\<close>

fun uart_irqs :: "'h hardware \<Rightarrow> nat \<Rightarrow> 'h uart \<Rightarrow> 'h uart defined" where
  "uart_irqs hw 0 st = Some st"
| "uart_irqs hw (Suc n) st = do {
     st \<leftarrow> UART0_IRQHandler hw 65 st;
     uart_irqs hw n st
   }"

definition uart_interrupts :: "'h hardware \<Rightarrow> nat \<Rightarrow> 'h app \<Rightarrow> 'h app defined" where
  "uart_interrupts hw n ap = do {
     (_, ap) \<leftarrow> on_board (on_uart (quietly (uart_irqs hw n))) ap;
     Some ap
   }"

text \<open>The endless loops: waiting, with or without kicking the watchdog, and toggling the LED at a deadline.\<close>

datatype app_loop = Wait_Loop bool | Toggle_Loop u32 u32

fun app_step :: "'h hardware \<Rightarrow> app_loop \<Rightarrow> 'h app \<Rightarrow> (app_loop \<times> 'h app) defined" where
  "app_step hw (Wait_Loop kick) ap = do {
     ap \<leftarrow> (if kick then app_kick hw ap else Some ap);
     ap \<leftarrow> arch_wait_for_interrupt ap;
     Some (Wait_Loop kick, ap)
   }"
| "app_step hw (Toggle_Loop next_toggle_ms period_ms) ap = do {
     (next_toggle_ms, ap) \<leftarrow>
       (if hal_timer_deadline_reached next_toggle_ms (ap_timer ap)
        then do {
          bd \<leftarrow> board_led_red_toggle hw (ap_board ap);
          Some (hal_timer_now_ms (ap_timer ap) + period_ms, ap\<lparr>ap_board := bd\<rparr>)
        }
        else Some (next_toggle_ms, ap));
     ap \<leftarrow> app_kick hw ap;
     ap \<leftarrow> arch_wait_for_interrupt ap;
     Some (Toggle_Loop next_toggle_ms period_ms, ap)
   }"

text \<open>The waits of a millisecond. SysTick ends the last of them; before it the transmit interrupt of the UART may end any
  number of others. \<open>waits ap\<close>, which may depend on everything that happened before, is how many transmit interrupts are
  served before the first wait of the millisecond that starts in \<open>ap\<close> (together with the SysTick that started it), and
  for each of the waits they end how many come. The loop does a round before every wait.\<close>

type_synonym 'h waits = "'h app \<Rightarrow> nat \<times> nat list"

fun app_rounds :: "'h hardware \<Rightarrow> nat list \<Rightarrow> app_loop \<Rightarrow> 'h app \<Rightarrow> (app_loop \<times> 'h app) defined" where
  "app_rounds hw [] l ap = do {
     (l, ap) \<leftarrow> app_step hw l ap;
     Some (l, ap\<lparr>ap_timer := SysTick_Handler (ap_timer ap)\<rparr>)
   }"
| "app_rounds hw (n # ns) l ap = do {
     (l, ap) \<leftarrow> app_step hw l ap;
     ap \<leftarrow> uart_interrupts hw n ap;
     app_rounds hw ns l ap
   }"

fun app_run :: "'h hardware \<Rightarrow> 'h waits \<Rightarrow> nat \<Rightarrow> app_loop \<Rightarrow> 'h app \<Rightarrow> (app_loop \<times> 'h app) defined" where
  "app_run hw waits 0 l ap = Some (l, ap)"
| "app_run hw waits (Suc n) l ap = do {
     (l, ap) \<leftarrow> app_run hw waits n l ap;
     let (k, ks) = waits ap;
     ap \<leftarrow> uart_interrupts hw k ap;
     app_rounds hw ks l ap
   }"

definition steady_led :: "'h hardware \<Rightarrow> bool \<Rightarrow> 'h app \<Rightarrow> (app_loop \<times> 'h app) defined" where
  "steady_led hw kick ap = do {
     bd \<leftarrow> board_led_red_set hw True (ap_board ap);
     Some (Wait_Loop kick, ap\<lparr>ap_board := bd\<rparr>)
   }"

section \<open>Bringing an application up\<close>

text \<open>Static storage as it is when \<open>main\<close> starts.\<close>

definition power_on :: "'h app \<Rightarrow> bool" where
  "power_on ap \<longleftrightarrow> bd_uart_config (ap_board ap) = g_uart0_tx \<and> 64 \<le> length (bd_uart_tx_storage (ap_board ap))
     \<and> primask (ua_core (bd_uart (ap_board ap))) \<le> 1 \<and> well_formed_scs (tm_scs (ap_timer ap))"

definition board_up :: "bool \<Rightarrow> 'h hardware \<Rightarrow> 'h board \<Rightarrow> bool" where
  "board_up debug_enabled hw bd \<longleftrightarrow> ua_initialized (bd_uart bd) \<and> primask (ua_core (bd_uart bd)) \<le> 1
     \<and> (\<exists>q. ua_queue (bd_uart bd) = Some q \<and> ring_inv q)
     \<and> (debug_enabled \<longrightarrow> bd_writer bd = Some (board_debug_write hw))"

abbreviation app_trace :: "'h app \<Rightarrow> access list" where
  "app_trace ap \<equiv> mc_trace (bd_machine (ap_board ap))"

definition fresh_ring :: "'h board \<Rightarrow> bool" where
  "fresh_ring bd \<longleftrightarrow> (\<exists>q. ua_queue (bd_uart bd) = Some q \<and> ring_inv q \<and> ring_contents q = [] \<and> ring_room q = 64)"

lemma board_init_up:
  assumes "power_on ap"
  shows "\<exists>r ap' tr. on_board (board_init debug_enabled hw) ap = Some (r, ap') \<and> r \<in> {Board_Ok, Board_Clock_Fallback}
    \<and> bd_mclk_hz (ap_board ap') = (if r = Board_Ok then 32000000 else 4000000)
    \<and> app_trace ap' = app_trace ap @ tr \<and> board_up debug_enabled hw (ap_board ap')
    \<and> board_same (ap_board ap) (ap_board ap') \<and> ap_timer ap' = ap_timer ap \<and> fresh_ring (ap_board ap')"
proof -
  have cold: "bd_uart_config (ap_board ap) = g_uart0_tx" "64 \<le> length (bd_uart_tx_storage (ap_board ap))"
    "primask (ua_core (bd_uart (ap_board ap))) \<le> 1"
    using assms by (simp_all add: power_on_def)
  obtain r bd' tr q where ran: "board_init debug_enabled hw (ap_board ap) = Some (r, bd')" "r \<in> {Board_Ok, Board_Clock_Fallback}"
    "bd_mclk_hz bd' = (if r = Board_Ok then 32000000 else 4000000)"
    "mc_trace (bd_machine bd') = app_trace ap @ tr @ board_setup (bd_mclk_hz bd')"
    "ua_initialized (bd_uart bd')" "ua_queue (bd_uart bd') = Some q" "ring_inv q" "ring_contents q = []" "ring_room q = 64"
    "bd_writer bd' = (if debug_enabled then Some (board_debug_write hw) else bd_writer (ap_board ap))"
    "ua_core (bd_uart bd') = ua_core (bd_uart (ap_board ap))" "board_same (ap_board ap) bd'"
    using board_init_ran [OF cold(1,2), of debug_enabled hw] by blast
  have "board_up debug_enabled hw bd'" "fresh_ring bd'" using ran cold(3) by (simp_all add: board_up_def fresh_ring_def)
  with ran show ?thesis
    by (intro exI [of _ r] exI [of _ "ap\<lparr>ap_board := bd'\<rparr>"] exI [of _ "tr @ board_setup (bd_mclk_hz bd')"])
      (simp add: on_board_def)
qed

lemma literal_up:
  assumes "board_up debug_enabled hw (ap_board ap)" "length chars < 2 ^ 32"
  shows "\<exists>ap' tr. DBG_WRITE_LITERAL debug_enabled chars ap = Some ap' \<and> app_trace ap' = app_trace ap @ tr
    \<and> board_up debug_enabled hw (ap_board ap') \<and> board_same (ap_board ap) (ap_board ap') \<and> ap_timer ap' = ap_timer ap
    \<and> bd_mclk_hz (ap_board ap') = bd_mclk_hz (ap_board ap)"
proof (cases debug_enabled)
  case False
  with assms show ?thesis by (auto simp: DBG_WRITE_LITERAL_def board_same_def)
next
  case True
  let ?bd = "ap_board ap"
  let ?u = "(bd_uart ?bd)\<lparr>ua_machine := bd_machine ?bd\<rparr>"
  obtain q where q: "ua_queue ?u = Some q" "ring_inv q" and u: "ua_initialized ?u" "primask (ua_core ?u) \<le> 1"
    and w: "bd_writer ?bd = Some (board_debug_write hw)"
    using assms(1) True by (auto simp: board_up_def)
  have "unat (of_nat (length chars) :: u32) = length chars" using assms(2) by (simp add: unat_of_nat)
  then have "unat (of_nat (length chars) :: u32) \<le> length (chars @ [0])" by simp
  then obtain k u' tr q' where wrote: "hal_uart0_tx_write hw (Some (chars @ [0])) (of_nat (length chars)) ?u = Some (k, u')"
    "drove ?u tr [] q' u'"
    using write_drives [OF q(1,2) u, of "of_nat (length chars)" "chars @ [0]" hw] by blast
  define ap' where "ap' = ap\<lparr>ap_board := ?bd\<lparr>bd_machine := ua_machine u', bd_uart := u'\<rparr>\<rparr>"
  have "DBG_WRITE_LITERAL debug_enabled chars ap = Some ap'"
    using True wrote(1) w
    by (simp add: DBG_WRITE_LITERAL_def on_board_def on_uart_def lib_debug_write_def literal_def board_debug_write_def ap'_def)
  moreover have "app_trace ap' = app_trace ap @ tr" "board_up debug_enabled hw (ap_board ap')" "board_same ?bd (ap_board ap')"
    "ap_timer ap' = ap_timer ap" "bd_mclk_hz (ap_board ap') = bd_mclk_hz ?bd"
    using wrote(2) u w by (auto simp: ap'_def drove_def board_up_def board_same_def)
  ultimately show ?thesis by blast
qed

lemma timer_up:
  assumes "well_formed_scs (tm_scs (ap_timer ap))" "bd_mclk_hz (ap_board ap) \<in> {4000000, 32000000}"
  shows "\<exists>ap'. on_timer (hal_timer_init_1ms (bd_mclk_hz (ap_board ap))) ap = Some (True, ap')
    \<and> ap_board ap' = ap_board ap \<and> hal_timer_now_ms (ap_timer ap') = 0"
  using timer_init_one_millisecond [OF assms] by (auto simp: on_timer_def hal_timer_now_ms_def)

text \<open>The watchdog runs if the status read after its configuration says so.\<close>

lemma watchdog_up:
  "\<exists>v ap' tr. on_board (on_machine (hal_wdt_init hw)) ap = Some (v AND 1 = 1, ap')
    \<and> app_trace ap' = app_trace ap @ tr @ [Read (WWDT0 WWDT_STAT) v]
    \<and> (\<forall>debug_enabled. board_up debug_enabled hw (ap_board ap') = board_up debug_enabled hw (ap_board ap))
    \<and> board_same (ap_board ap) (ap_board ap') \<and> ap_timer ap' = ap_timer ap
    \<and> bd_mclk_hz (ap_board ap') = bd_mclk_hz (ap_board ap) \<and> fresh_ring (ap_board ap') = fresh_ring (ap_board ap)
    \<and> bd_uart (ap_board ap') = bd_uart (ap_board ap) \<and> bd_writer (ap_board ap') = bd_writer (ap_board ap)"
proof -
  obtain v mc tr where "hal_wdt_init hw (bd_machine (ap_board ap)) = Some (v AND 1 = 1, mc)"
    "mc_ran (bd_machine (ap_board ap)) (tr @ [Read (WWDT0 WWDT_STAT) v]) mc"
    using wdt_init_ran [of hw "bd_machine (ap_board ap)"]
    by (metis append.assoc append_Cons append_Nil)
  then show ?thesis
    by (intro exI [of _ v] exI [of _ "ap\<lparr>ap_board := (ap_board ap)\<lparr>bd_machine := mc\<rparr>\<rparr>"] exI [of _ tr])
      (simp add: on_board_def on_machine_def mc_ran_def board_up_def board_same_def fresh_ring_def)
qed

lemmas app_call_defs = app_kick_def arch_wait_for_interrupt_def on_board_def on_machine_def quietly_def hal_wdt_kick_def
  mmio_write_def cpu_def board_led_red_toggle_def hal_gpio_output_toggle_def g_red_led_def

section \<open>What the transmitter of the board does\<close>

text \<open>The transmitter with its ring of 64 bytes.\<close>

definition uart_up :: "bool \<Rightarrow> 'h hardware \<Rightarrow> 'h app \<Rightarrow> lib_ringbuf \<Rightarrow> bool" where
  "uart_up debug_enabled hw ap q \<longleftrightarrow> uart_inv (bd_uart (ap_board ap)) q \<and> ring_room q = 64
     \<and> (debug_enabled \<longrightarrow> bd_writer (ap_board ap) = Some (board_debug_write hw))"

text \<open>From one state to another: \<open>accepted\<close> went into the ring, and what left it went to the transmit FIFO.\<close>

definition passes_on :: "'h app \<Rightarrow> lib_ringbuf \<Rightarrow> u8 list \<Rightarrow> 'h app \<Rightarrow> lib_ringbuf \<Rightarrow> bool" where
  "passes_on ap q accepted ap' q' \<longleftrightarrow> (\<exists>tr sent. app_trace ap' = app_trace ap @ tr
     \<and> written (UART0 UART_TXDATA) tr = map ucast sent \<and> ring_contents q @ accepted = sent @ ring_contents q')"

lemma passes_on_trans:
  assumes "passes_on ap q accepted ap1 q1" "passes_on ap1 q1 accepted' ap2 q2"
  shows "passes_on ap q (accepted @ accepted') ap2 q2"
proof -
  obtain tr sent tr' sent' where "app_trace ap1 = app_trace ap @ tr" "written (UART0 UART_TXDATA) tr = map ucast sent"
    "ring_contents q @ accepted = sent @ ring_contents q1" "app_trace ap2 = app_trace ap1 @ tr'"
    "written (UART0 UART_TXDATA) tr' = map ucast sent'" "ring_contents q1 @ accepted' = sent' @ ring_contents q2"
    using assms unfolding passes_on_def by blast
  then show ?thesis
    unfolding passes_on_def
    by (intro exI [of _ "tr @ tr'"] exI [of _ "sent @ sent'"]) (simp add: written_append, metis append.assoc)
qed

lemma passes_on_refl: "passes_on ap q [] ap q"
  unfolding passes_on_def by (intro exI [of _ "[]"]) simp

lemma passes_on_quiet:
  "app_trace ap' = app_trace ap @ tr \<Longrightarrow> written (UART0 UART_TXDATA) tr = [] \<Longrightarrow> passes_on ap q [] ap' q"
  unfolding passes_on_def by (intro exI [of _ tr] exI [of _ "[]"]) simp

lemma started_up:
  assumes "board_up debug_enabled hw (ap_board ap)" "fresh_ring (ap_board ap)"
  shows "\<exists>q. uart_up debug_enabled hw ap q \<and> ring_contents q = []"
  using assms by (auto simp: board_up_def fresh_ring_def uart_up_def uart_inv_def)

lemma held_at_most: "uart_up debug_enabled hw ap q \<Longrightarrow> length (ring_contents q) \<le> 64"
  using ring.within_room [of q] by (simp add: uart_up_def uart_inv_def)

text \<open>The drop count the application reads.\<close>

lemma drop_count_read: "uart_up debug_enabled hw ap q \<Longrightarrow> board_uart_backchannel_dropped_count (ap_board ap) = rb_dropped_count q"
  by (simp add: uart_up_def uart_inv_def board_uart_backchannel_dropped_count_def hal_uart0_tx_dropped_count_def
      lib_ringbuf_dropped_count_def)

lemma app_write_ran:
  assumes "uart_up debug_enabled hw ap q" "unat n \<le> length chars"
  shows "\<exists>k ap' q'. on_board (on_uart (hal_uart0_tx_write hw (Some chars) n)) ap = Some (of_nat k, ap')
    \<and> k = min (unat n) (64 - length (ring_contents q)) \<and> uart_up debug_enabled hw ap' q' \<and> passes_on ap q (take k chars) ap' q'
    \<and> ring_contents q' = ring_contents q @ take k chars
    \<and> rb_dropped_count q' = rb_dropped_count q + (if k < unat n then 1 else 0) \<and> ap_timer ap' = ap_timer ap"
proof -
  let ?bd = "ap_board ap"
  let ?u = "(bd_uart ?bd)\<lparr>ua_machine := bd_machine ?bd\<rparr>"
  have u: "ua_queue ?u = Some q" "ring_inv q" "ua_initialized ?u" "primask (ua_core ?u) \<le> 1"
    and up: "ring_room q = 64" "debug_enabled \<longrightarrow> bd_writer ?bd = Some (board_debug_write hw)"
    using assms(1) by (simp_all add: uart_up_def uart_inv_def)
  obtain k u' tr q' where w: "hal_uart0_tx_write hw (Some chars) n ?u = Some (of_nat k, u')"
    "k = min (unat n) (ring_room q - length (ring_contents q))" "drove ?u tr [] q' u'"
    "ring_contents q' = ring_contents q @ take k chars" "ring_room q' = ring_room q"
    "rb_dropped_count q' = rb_dropped_count q + (if k < unat n then 1 else 0)"
    using write_drives [OF u assms(2), of hw] by blast
  define ap' where "ap' = ap\<lparr>ap_board := ?bd\<lparr>bd_machine := ua_machine u', bd_uart := u'\<rparr>\<rparr>"
  have "on_board (on_uart (hal_uart0_tx_write hw (Some chars) n)) ap = Some (of_nat k, ap')"
    using w(1) by (simp add: on_board_def on_uart_def ap'_def)
  moreover have "uart_up debug_enabled hw ap' q'" "passes_on ap q (take k chars) ap' q'" "ap_timer ap' = ap_timer ap"
    using w(3-5) u up by (auto simp: ap'_def uart_up_def uart_inv_def drove_def passes_on_def)
  ultimately show ?thesis
    by (intro exI [of _ k] exI [of _ ap'] exI [of _ q']) (use w(2,4,6) up(1) in simp)
qed

text \<open>What a debug literal adds to the queue: nothing in a release build.\<close>

definition spoken :: "bool \<Rightarrow> u8 list \<Rightarrow> u8 list" where
  "spoken debug_enabled chars = (if debug_enabled then chars else [])"

lemma app_literal_ran:
  assumes "uart_up debug_enabled hw ap q" "length chars \<le> 64"
  shows "\<exists>k ap' q'. DBG_WRITE_LITERAL debug_enabled chars ap = Some ap'
    \<and> k = min (length (spoken debug_enabled chars)) (64 - length (ring_contents q)) \<and> uart_up debug_enabled hw ap' q'
    \<and> passes_on ap q (take k (spoken debug_enabled chars)) ap' q'
    \<and> ring_contents q' = ring_contents q @ take k (spoken debug_enabled chars) \<and> ap_timer ap' = ap_timer ap"
proof (cases debug_enabled)
  case False
  then show ?thesis
    using assms by (intro exI [of _ 0] exI [of _ ap] exI [of _ q]) (simp add: DBG_WRITE_LITERAL_def spoken_def passes_on_refl)
next
  case True
  have n: "unat (of_nat (length chars) :: u32) = length chars" using assms(2) by (simp add: unat_of_nat)
  obtain k ap' q' where w: "on_board (on_uart (hal_uart0_tx_write hw (Some (chars @ [0])) (of_nat (length chars)))) ap = Some (of_nat k, ap')"
    "k = min (length chars) (64 - length (ring_contents q))" "uart_up debug_enabled hw ap' q'"
    "passes_on ap q (take k (chars @ [0])) ap' q'" "ring_contents q' = ring_contents q @ take k (chars @ [0])"
    "ap_timer ap' = ap_timer ap"
    using app_write_ran [OF assms(1), of "of_nat (length chars)" "chars @ [0]"] unfolding n by auto
  have "bd_writer (ap_board ap) = Some (board_debug_write hw)" using assms(1) True by (simp add: uart_up_def)
  then have "DBG_WRITE_LITERAL debug_enabled chars ap = Some ap'"
    using True w(1)
    by (auto simp: DBG_WRITE_LITERAL_def on_board_def on_uart_def lib_debug_write_def literal_def board_debug_write_def
        bind_eq_Some_conv)
  moreover have "take k (chars @ [0]) = take k (spoken debug_enabled chars)" using True w(2) by (simp add: spoken_def)
  ultimately show ?thesis using True w by (intro exI [of _ k] exI [of _ ap'] exI [of _ q']) (simp add: spoken_def)
qed


lemma passes_on_shrinks: "passes_on ap q [] ap' q' \<Longrightarrow> length (ring_contents q') \<le> length (ring_contents q)"
  unfolding passes_on_def by (auto dest: arg_cong [where f = length])

text \<open>A transmitter that is not stuck: an interrupt that comes is the transmit interrupt, and \<open>STAT\<close> then shows room for a
  byte. It keeps up with the application if at least one comes every millisecond; at 115200 baud eleven bytes leave
  in that time.\<close>

definition finds_room :: "'h hardware \<Rightarrow> bool" where
  "finds_room hw \<longleftrightarrow> (\<forall>d. fst (hw_read hw (UART0 UART_IIDX) d) AND 0xff = UART_IIDX_TXIFG
     \<and> fst (hw_read hw (UART0 UART_STAT) (snd (hw_read hw (UART0 UART_IIDX) d))) AND UART_STAT_TXFF = 0)"

lemma finds_roomD:
  assumes "finds_room hw"
  shows "fst (hw_read hw (UART0 UART_IIDX) d) AND 0xff = UART_IIDX_TXIFG"
    "fst (hw_read hw (UART0 UART_STAT) (snd (hw_read hw (UART0 UART_IIDX) d))) AND UART_STAT_TXFF = 0"
  using assms by (simp_all add: finds_room_def)

lemma service_loop_takes_byte:
  assumes "ua_queue st = Some q" "ring_inv q" "length (ring_contents q) < fuel"
    "fst (hw_read hw (UART0 UART_STAT) (device_of st)) AND UART_STAT_TXFF = 0"
    "uart_service_loop hw fuel byte st = Some (queue_empty, st')" "ua_queue st' = Some q'"
  shows "length (ring_contents q') \<le> length (ring_contents q) - 1"
proof -
  obtain n where n: "fuel = Suc n" using assms(3) by (cases fuel) simp_all
  obtain stat d where stat: "hw_read hw (UART0 UART_STAT) (device_of st) = (stat, d)" by fastforce
  obtain out q1 where pop: "ring_pop q = Some (out, q1)" "ring_inv q1"
    "ring_contents q = (case out of None \<Rightarrow> ring_contents q1 | Some x \<Rightarrow> x # ring_contents q1)"
    "out = None \<longleftrightarrow> ring_contents q = []"
    by (rule ring.pop_total [OF assms(2)])
  let ?st1 = "st\<lparr>ua_machine := \<lparr>mc_device = d, mc_trace = trace_of st @ [Read (UART0 UART_STAT) stat]\<rparr>, ua_queue := Some q1\<rparr>"
  note steps = uart_read_def mmio_read_def stat
  show ?thesis
  proof (cases out)
    case None
    then have "ua_queue st' = Some q1"
      using assms(1,4,5) stat try_pop_ring [OF pop(1), of byte] n by (auto simp: steps)
    with assms(6) pop None show ?thesis by simp
  next
    case (Some b)
    let ?st2 = "?st1\<lparr>ua_machine := \<lparr>mc_device = hw_write hw (UART0 UART_TXDATA) (ucast b) d,
        mc_trace = trace_of st @ [Read (UART0 UART_STAT) stat, Write (UART0 UART_TXDATA) (ucast b)]\<rparr>\<rparr>"
    have "uart_service_loop hw n b ?st2 = Some (queue_empty, st')"
      using assms(1,4,5) stat try_pop_ring [OF pop(1), of byte] n Some by (simp add: steps uart_write_def mmio_write_def)
    moreover have "length (ring_contents q1) < n" using assms(3) n pop(3) Some by simp
    ultimately obtain tr sent where "drove ?st2 tr sent q' st'" "ring_contents q1 = sent @ ring_contents q'"
      using service_loop_drives [of ?st2 q1 n hw b] pop(2) assms(6) by (auto simp: drove_def)
    then show ?thesis using pop(3) Some by simp
  qed
qed

lemma irq_takes_byte:
  assumes "ua_queue st = Some q" "ring_inv q" "length (ring_contents q) < fuel" "primask (ua_core st) \<le> 1"
    "finds_room hw" "UART0_IRQHandler hw fuel st = Some st'" "ua_queue st' = Some q'"
  shows "length (ring_contents q') \<le> length (ring_contents q) - 1"
proof -
  obtain iidx d where iidx: "hw_read hw (UART0 UART_IIDX) (device_of st) = (iidx, d)" by fastforce
  let ?st1 = "st\<lparr>ua_machine := \<lparr>mc_device = d, mc_trace = trace_of st @ [Read (UART0 UART_IIDX) iidx]\<rparr>\<rparr>"
  have hw: "iidx AND 0xff = UART_IIDX_TXIFG" "fst (hw_read hw (UART0 UART_STAT) (device_of ?st1)) AND UART_STAT_TXFF = 0"
    using finds_roomD [OF assms(5), of "device_of st"] iidx by simp_all
  obtain queue_empty st2 q2 where loop: "uart_service_loop hw fuel 0 ?st1 = Some (queue_empty, st2)"
    "ua_queue st2 = Some q2" "ring_inv q2" "primask (ua_core st2) \<le> 1"
    using service_loop_drives [of ?st1 q fuel hw 0] assms(1-4) by (auto simp: drove_def)
  have "ua_queue st' = ua_queue st2"
  proof (cases queue_empty)
    case True
    obtain v st3 where off: "hal_uart0_tx_disable_interrupt hw st2 = Some st3" "ua_queue st3 = Some q2"
      using disable_interrupt_drives [OF loop(4,2,3), of hw] by (auto simp: drove_def)
    with True loop(1,2) iidx hw(1) assms(6) show ?thesis
      by (simp add: UART0_IRQHandler_def hal_uart0_tx_service_def uart_read_def mmio_read_def)
  next
    case False
    with loop(1) iidx hw(1) assms(6) show ?thesis
      by (simp add: UART0_IRQHandler_def hal_uart0_tx_service_def uart_read_def mmio_read_def)
  qed
  with assms(7) loop(2) have "ua_queue st2 = Some q'" by simp
  then show ?thesis
    using service_loop_takes_byte [of ?st1 q fuel hw 0] assms(1-3) hw(2) loop(1) by simp
qed


text \<open>The accesses of the transmit interrupt: registers of UART0 and the interrupt mask of the core.\<close>

fun by_transmitter :: "access \<Rightarrow> bool" where
  "by_transmitter (Read (UART0 r) v) \<longleftrightarrow> True"
| "by_transmitter (Write (UART0 r) v) \<longleftrightarrow> True"
| "by_transmitter (Mask_Irq v) \<longleftrightarrow> True"
| "by_transmitter _ \<longleftrightarrow> False"

definition transmits :: "'h uart \<Rightarrow> 'h uart \<Rightarrow> bool" where
  "transmits st st' \<longleftrightarrow> (\<exists>tr. trace_of st' = trace_of st @ tr \<and> list_all by_transmitter tr)"

lemma transmits_trans: "transmits st st1 \<Longrightarrow> transmits st1 st2 \<Longrightarrow> transmits st st2"
  unfolding transmits_def by fastforce

lemma transmits_access:
  "uart_read hw r st = Some (v, st') \<Longrightarrow> transmits st st'"
  "uart_write hw r v st = Some st' \<Longrightarrow> transmits st st'"
  "hal_uart0_tx_disable_interrupt hw st = Some st' \<Longrightarrow> transmits st st'"
  by (auto simp: transmits_def uart_access_defs hal_uart0_tx_disable_interrupt_def split: prod.splits)

lemma transmits_queue [simp]: "transmits (st\<lparr>ua_queue := q\<rparr>) st' = transmits st st'"
  by (simp add: transmits_def)

lemma uart_read_total:
  obtains v st' where "uart_read hw r st = Some (v, st')"
  by (cases "hw_read hw (UART0 r) (device_of st)") (simp add: uart_read_def mmio_read_def)

lemma service_loop_transmits: "uart_service_loop hw fuel byte st = Some (drained, st') \<Longrightarrow> transmits st st'"
proof (induction fuel arbitrary: byte st)
  case 0
  then show ?case by simp
next
  case (Suc fuel)
  obtain stat st1 where read: "uart_read hw UART_STAT st = Some (stat, st1)" by (rule uart_read_total)
  note first = transmits_access(1) [OF read]
  show ?case
  proof (cases "stat AND UART_STAT_TXFF = 0")
    case False
    with Suc.prems read first show ?thesis by simp
  next
    case True
    obtain popped queue out b where pop: "lib_ringbuf_try_pop (ua_queue st1) (Some byte) = Some (popped, queue, out)" "out = Some b"
      using Suc.prems read True by (auto simp: bind_eq_Some_conv)
    show ?thesis
    proof (cases popped)
      case False
      with Suc.prems read True pop first show ?thesis by (auto simp: transmits_def)
    next
      case poppedb: True
      obtain st2 where w: "uart_write hw UART_TXDATA (ucast b) (st1\<lparr>ua_queue := queue\<rparr>) = Some st2"
        by (simp add: uart_write_def mmio_write_def)
      then have "uart_service_loop hw fuel b st2 = Some (drained, st')"
        using Suc.prems read True pop poppedb by simp
      from Suc.IH [OF this] transmits_access(2) [OF w] first show ?thesis by (auto intro: transmits_trans)
    qed
  qed
qed

lemma irq_transmits:
  assumes "UART0_IRQHandler hw fuel st = Some st'"
  shows "transmits st st'"
proof -
  obtain iidx st1 where read: "uart_read hw UART_IIDX st = Some (iidx, st1)" by (rule uart_read_total)
  note first = transmits_access(1) [OF read]
  show ?thesis
  proof (cases "iidx AND 0xff = UART_IIDX_TXIFG")
    case False
    with assms read first show ?thesis by (simp add: UART0_IRQHandler_def)
  next
    case True
    then obtain drained st2 where loop: "uart_service_loop hw fuel 0 st1 = Some (drained, st2)"
      "if drained then hal_uart0_tx_disable_interrupt hw st2 = Some st' else st2 = st'"
      using assms read by (auto simp: UART0_IRQHandler_def hal_uart0_tx_service_def bind_eq_Some_conv split: if_splits)
    have "transmits st2 st'"
      using loop(2) transmits_access(3) by (auto simp: transmits_def split: if_splits)
    then show ?thesis using first service_loop_transmits [OF loop(1)] by (blast intro: transmits_trans)
  qed
qed

text \<open>While bytes wait the interrupt is enabled; and an interrupt that finds room but no byte disables it.\<close>

definition armed :: "('h \<Rightarrow> u32) \<Rightarrow> 'h \<Rightarrow> lib_ringbuf \<Rightarrow> bool" where
  "armed imask d q \<longleftrightarrow> (ring_contents q \<noteq> [] \<longrightarrow> imask d AND UART_TXINT \<noteq> 0)"

definition resting :: "('h \<Rightarrow> u32) \<Rightarrow> 'h \<Rightarrow> lib_ringbuf \<Rightarrow> bool" where
  "resting imask d q \<longleftrightarrow> ring_contents q = [] \<and> imask d AND UART_TXINT = 0"

lemma resting_armed: "resting imask d q \<Longrightarrow> armed imask d q"
  by (simp add: resting_def armed_def)

lemma disable_masks:
  assumes "hal_uart0_tx_disable_interrupt hw st = Some st'" "imask_register hw imask"
  shows "imask (device_of st') AND UART_TXINT = 0"
proof -
  have "(v AND NOT UART_TXINT) AND UART_TXINT = 0" for v by (simp add: and.assoc)
  then show ?thesis
    using assms by (auto simp: hal_uart0_tx_disable_interrupt_def uart_access_defs imask_register_def)
qed

lemma irq_rests:
  assumes "ua_queue st = Some q" "ring_inv q" "ring_contents q = []" "finds_room hw" "imask_register hw imask"
    and "UART0_IRQHandler hw (Suc fuel) st = Some st'"
  shows "imask (device_of st') AND UART_TXINT = 0"
proof -
  obtain iidx d where iidx: "hw_read hw (UART0 UART_IIDX) (device_of st) = (iidx, d)" by fastforce
  obtain stat d' where stat: "hw_read hw (UART0 UART_STAT) d = (stat, d')" by fastforce
  have hw: "iidx AND 0xff = UART_IIDX_TXIFG" "stat AND UART_STAT_TXFF = 0"
    using finds_roomD [OF assms(4), of "device_of st"] iidx stat by simp_all
  obtain q1 where pop: "ring_pop q = Some (None, q1)"
    using ring.pop_total [OF assms(2)] assms(3) by metis
  show ?thesis
    using assms(1,6) iidx stat hw try_pop_ring [OF pop, of 0]
    by (auto simp: UART0_IRQHandler_def hal_uart0_tx_service_def uart_read_def mmio_read_def
        elim!: disable_masks [OF _ assms(5)])
qed

lemma irqs_drive:
  assumes "ua_queue st = Some q" "ring_inv q" "ring_room q = 64" "primask (ua_core st) \<le> 1"
  shows "\<exists>st' tr sent q'. uart_irqs hw n st = Some st' \<and> drove st tr sent q' st' \<and> list_all by_transmitter tr
    \<and> ring_contents q = sent @ ring_contents q' \<and> ring_room q' = 64 \<and> rb_dropped_count q' = rb_dropped_count q
    \<and> (finds_room hw \<longrightarrow> 0 < n \<longrightarrow> length (ring_contents q') \<le> length (ring_contents q) - 1)
    \<and> (\<forall>imask. imask_register hw imask \<longrightarrow>
        (armed imask (device_of st) q \<longrightarrow> armed imask (device_of st') q')
        \<and> (finds_room hw \<longrightarrow> 0 < n \<longrightarrow> ring_contents q = [] \<longrightarrow> resting imask (device_of st') q'))"
  using assms
proof (induction n arbitrary: st q)
  case 0
  have "drove st [] [] q st" using 0 by (simp add: drove_def)
  with 0 show ?case by (intro exI [of _ st] exI [of _ "[]"] exI [of _ q]) simp
next
  case (Suc n)
  have short: "length (ring_contents q) < 65" using ring.within_room [OF Suc.prems(2)] Suc.prems(3) by simp
  obtain st1 tr sent q1 where i: "UART0_IRQHandler hw 65 st = Some st1" "drove st tr sent q1 st1"
    "ring_contents q = sent @ ring_contents q1" "ring_room q1 = ring_room q" "rb_dropped_count q1 = rb_dropped_count q"
    "ring_contents q1 \<noteq> [] \<longrightarrow> (\<forall>imask. imask_register hw imask \<longrightarrow> imask (device_of st1) = imask (device_of st))"
    using irq_drives [OF Suc.prems(1,2) short Suc.prems(4), of hw] by blast
  have q1: "ua_queue st1 = Some q1" "ring_inv q1" "ring_room q1 = 64" "primask (ua_core st1) \<le> 1"
    using i(2,4) Suc.prems(3,4) by (simp_all add: drove_def)
  have acc: "list_all by_transmitter tr"
    using irq_transmits [OF i(1)] i(2) by (auto simp: transmits_def drove_def)
  have less: "finds_room hw \<Longrightarrow> length (ring_contents q1) \<le> length (ring_contents q) - 1"
    using irq_takes_byte [OF Suc.prems(1,2) short Suc.prems(4) _ i(1) q1(1)] .
  have arm: "armed imask (device_of st1) q1" if "imask_register hw imask" "armed imask (device_of st) q" for imask
    using that i(3,6) by (cases "ring_contents q1 = []") (auto simp: armed_def)
  have rest: "resting imask (device_of st1) q1"
    if "imask_register hw imask" "finds_room hw" "ring_contents q = []" for imask
    using irq_rests [OF Suc.prems(1,2) that(3,2,1), of 64] i(1,3) that(3) by (simp add: resting_def)
  obtain st2 tr' sent' q2 where r: "uart_irqs hw n st1 = Some st2" "drove st1 tr' sent' q2 st2" "list_all by_transmitter tr'"
    "ring_contents q1 = sent' @ ring_contents q2" "ring_room q2 = 64" "rb_dropped_count q2 = rb_dropped_count q1"
    "\<forall>imask. imask_register hw imask \<longrightarrow> (armed imask (device_of st1) q1 \<longrightarrow> armed imask (device_of st2) q2)
        \<and> (finds_room hw \<longrightarrow> 0 < n \<longrightarrow> ring_contents q1 = [] \<longrightarrow> resting imask (device_of st2) q2)"
    using Suc.IH [OF q1] by blast
  have "resting imask (device_of st2) q2"
    if "imask_register hw imask" "finds_room hw" "ring_contents q = []" for imask
  proof (cases n)
    case 0
    with rest [OF that] r(1,2,4) q1(1) show ?thesis by (simp add: drove_def)
  next
    case (Suc m)
    with rest [OF that] r(7) that(1,2) show ?thesis by (simp add: resting_def)
  qed
  moreover have "armed imask (device_of st2) q2" if "imask_register hw imask" "armed imask (device_of st) q" for imask
    using arm [OF that] r(7) that(1) by blast
  moreover have "length (ring_contents q2) \<le> length (ring_contents q) - 1" if "finds_room hw"
    using less [OF that] r(4) by simp
  ultimately show ?case
    using i r acc drove_trans [OF i(2) r(2)]
    by (intro exI [of _ st2] exI [of _ "tr @ tr'"] exI [of _ "sent @ sent'"] exI [of _ q2]) simp
qed

text \<open>What an application accesses itself, between the transmit interrupts.\<close>

definition own :: "access list \<Rightarrow> access list" where
  "own tr = filter (\<lambda>a. \<not> by_transmitter a) tr"

lemma own_simps [simp]: "own [] = []" "own (a # tr) = (if by_transmitter a then own tr else a # own tr)"
  "own (tr @ tr') = own tr @ own tr'" "list_all by_transmitter tr \<Longrightarrow> own tr = []"
  by (auto simp: own_def filter_empty_conv list_all_iff)

text \<open>The interrupts of the application.\<close>

abbreviation app_device :: "'h app \<Rightarrow> 'h" where
  "app_device ap \<equiv> mc_device (bd_machine (ap_board ap))"

lemma interrupts_ran:
  assumes "uart_up debug_enabled hw ap q"
  shows "\<exists>ap' q' tr. uart_interrupts hw n ap = Some ap' \<and> uart_up debug_enabled hw ap' q' \<and> passes_on ap q [] ap' q'
    \<and> app_trace ap' = app_trace ap @ tr \<and> list_all by_transmitter tr \<and> ap_timer ap' = ap_timer ap
    \<and> (finds_room hw \<longrightarrow> 0 < n \<longrightarrow> length (ring_contents q') \<le> length (ring_contents q) - 1)
    \<and> (\<forall>imask. imask_register hw imask \<longrightarrow>
        (armed imask (app_device ap) q \<longrightarrow> armed imask (app_device ap') q')
        \<and> (finds_room hw \<longrightarrow> 0 < n \<longrightarrow> ring_contents q = [] \<longrightarrow> resting imask (app_device ap') q'))"
proof -
  let ?bd = "ap_board ap"
  let ?u = "(bd_uart ?bd)\<lparr>ua_machine := bd_machine ?bd\<rparr>"
  have u: "ua_queue ?u = Some q" "ring_inv q" "ring_room q = 64" "primask (ua_core ?u) \<le> 1" "ua_initialized ?u"
    and up: "debug_enabled \<longrightarrow> bd_writer ?bd = Some (board_debug_write hw)"
    using assms by (simp_all add: uart_up_def uart_inv_def)
  obtain u' tr sent q' where i: "uart_irqs hw n ?u = Some u'" "drove ?u tr sent q' u'" "list_all by_transmitter tr"
    "ring_contents q = sent @ ring_contents q'" "ring_room q' = 64"
    "finds_room hw \<longrightarrow> 0 < n \<longrightarrow> length (ring_contents q') \<le> length (ring_contents q) - 1"
    "\<forall>imask. imask_register hw imask \<longrightarrow>
        (armed imask (device_of ?u) q \<longrightarrow> armed imask (device_of u') q')
        \<and> (finds_room hw \<longrightarrow> 0 < n \<longrightarrow> ring_contents q = [] \<longrightarrow> resting imask (device_of u') q')"
    using irqs_drive [OF u(1-4), of hw n] by blast
  define ap' where "ap' = ap\<lparr>ap_board := ?bd\<lparr>bd_machine := ua_machine u', bd_uart := u'\<rparr>\<rparr>"
  have "uart_interrupts hw n ap = Some ap'"
    using i(1) by (simp add: uart_interrupts_def on_board_def on_uart_def quietly_def ap'_def)
  moreover have "uart_up debug_enabled hw ap' q'" "ap_timer ap' = ap_timer ap" "app_trace ap' = app_trace ap @ tr"
    using i(2,5) u up by (simp_all add: ap'_def uart_up_def uart_inv_def drove_def)
  moreover have "passes_on ap q [] ap' q'"
    unfolding passes_on_def by (intro exI [of _ tr] exI [of _ sent]) (use i(2,4) in \<open>simp add: ap'_def drove_def\<close>)
  ultimately show ?thesis
    using i(3,6,7) by (intro exI [of _ ap'] exI [of _ q'] exI [of _ tr]) (simp add: ap'_def)
qed

end
