(* ===== verification/Blink.thy ===== *)
theory Blink
  imports Application
begin

text \<open>
  \<open>app/blink\<close>: its \<open>main\<close> up to the endless loop, and what the toggling loop does for ever, whatever transmit interrupts
  of the debug output come between.
\<close>

section \<open>Blink\<close>

definition blink_main :: "bool \<Rightarrow> 'h hardware \<Rightarrow> 'h app \<Rightarrow> (app_loop \<times> 'h app) defined" where
  "blink_main debug_enabled hw ap = do {
     (init_result, ap) \<leftarrow> on_board (board_init debug_enabled hw) ap;
     (if init_result = Board_Gpio_Failure \<or> init_result = Board_Uart_Failure then steady_led hw False ap
      else do {
        let blink_period_ms =
          (if init_result = Board_Clock_Fallback then BOARD_BLINK_FALLBACK_PERIOD_MS else BOARD_BLINK_PERIOD_MS);
        (ok, ap) \<leftarrow> on_timer (hal_timer_init_1ms (bd_mclk_hz (ap_board ap))) ap;
        (if \<not> ok then steady_led hw False ap
         else do {
           ap \<leftarrow> DBG_WRITE_LITERAL debug_enabled (ascii ''mspm-baremetal: blink'' @ crlf) ap;
           (ok, ap) \<leftarrow> on_board (on_machine (hal_wdt_init hw)) ap;
           (if \<not> ok then steady_led hw False ap
            else Some (Toggle_Loop (hal_timer_now_ms (ap_timer ap) + blink_period_ms) blink_period_ms, ap))
         })
      })
   }"

section \<open>The loops\<close>

text \<open>What the application itself accesses in the \<open>i\<close>-th millisecond of a toggling loop whose period is \<open>p\<close> milliseconds,
  when \<open>extra\<close> waits of it end early.\<close>

definition kick_and_wait :: "access list" where
  "kick_and_wait = [Write (WWDT0 WWDT_CNTRST) HAL_WDT_RESTART_KEY, Wfi]"

definition beat :: "nat \<Rightarrow> nat \<Rightarrow> nat \<Rightarrow> access list" where
  "beat p extra i = (if 0 < i \<and> i mod p = 0 then [Write (GPIO GPIOA_BASE GPIO_DOUTTGL) BOARD_LED_RED_MASK] else [])
     @ concat (replicate (Suc extra) kick_and_wait)"

lemma toggle_step_ran:
  "\<exists>ap'. app_step hw (Toggle_Loop next_toggle period) ap = Some
      (Toggle_Loop (if hal_timer_deadline_reached next_toggle (ap_timer ap) then hal_timer_now_ms (ap_timer ap) + period
         else next_toggle) period, ap')
    \<and> ap_timer ap' = ap_timer ap
    \<and> app_trace ap' = app_trace ap @ (if hal_timer_deadline_reached next_toggle (ap_timer ap)
        then [Write (GPIO GPIOA_BASE GPIO_DOUTTGL) BOARD_LED_RED_MASK] else [])
        @ [Write (WWDT0 WWDT_CNTRST) HAL_WDT_RESTART_KEY, Wfi]"
  by (simp add: app_call_defs)

lemma uart_up_machine [simp]:
  "uart_up debug_enabled hw (ap\<lparr>ap_board := (ap_board ap)\<lparr>bd_machine := mc\<rparr>\<rparr>) q = uart_up debug_enabled hw ap q"
  "uart_up debug_enabled hw (ap\<lparr>ap_timer := t\<rparr>) q = uart_up debug_enabled hw ap q"
  by (simp_all add: uart_up_def)

lemma step_keeps_up:
  "app_step hw l ap = Some (l', ap') \<Longrightarrow> uart_up debug_enabled hw' ap' q = uart_up debug_enabled hw' ap q"
  by (cases l) (auto simp: app_call_defs split: if_splits)

text \<open>One millisecond: the first round may toggle, and every one kicks the watchdog and waits.\<close>

lemma toggle_rounds_ran:
  assumes "uart_up debug_enabled hw ap q" "0 < unat period" "unat period < 2 ^ 31"
  shows "\<exists>ap' q' tr. app_rounds hw ks (Toggle_Loop next_toggle period) ap
      = Some (Toggle_Loop (if hal_timer_deadline_reached next_toggle (ap_timer ap) then hal_timer_now_ms (ap_timer ap) + period else next_toggle) period, ap')
    \<and> uart_up debug_enabled hw ap' q' \<and> ap_timer ap' = SysTick_Handler (ap_timer ap) \<and> app_trace ap' = app_trace ap @ tr
    \<and> own tr = (if hal_timer_deadline_reached next_toggle (ap_timer ap) then [Write (GPIO GPIOA_BASE GPIO_DOUTTGL) BOARD_LED_RED_MASK] else [])
        @ concat (replicate (Suc (length ks)) kick_and_wait)"
  using assms(1)
proof (induction ks arbitrary: ap q next_toggle)
  case Nil
  obtain ap1 where s: "app_step hw (Toggle_Loop next_toggle period) ap = Some
      (Toggle_Loop (if hal_timer_deadline_reached next_toggle (ap_timer ap) then hal_timer_now_ms (ap_timer ap) + period
         else next_toggle) period, ap1)" "ap_timer ap1 = ap_timer ap"
    "app_trace ap1 = app_trace ap @ (if hal_timer_deadline_reached next_toggle (ap_timer ap)
        then [Write (GPIO GPIOA_BASE GPIO_DOUTTGL) BOARD_LED_RED_MASK] else []) @ kick_and_wait"
    using toggle_step_ran [of hw next_toggle period ap] unfolding kick_and_wait_def by blast
  have "uart_up debug_enabled hw ap1 q" using step_keeps_up [OF s(1)] Nil by blast
  with s show ?case
    by (intro exI [of _ "ap1\<lparr>ap_timer := SysTick_Handler (ap_timer ap1)\<rparr>"] exI [of _ q]) (auto simp: kick_and_wait_def simp del: app_step.simps)
next
  case (Cons n ks)
  let ?due = "hal_timer_deadline_reached next_toggle (ap_timer ap)"
  let ?next = "if ?due then hal_timer_now_ms (ap_timer ap) + period else next_toggle"
  obtain ap1 where s: "app_step hw (Toggle_Loop next_toggle period) ap = Some (Toggle_Loop ?next period, ap1)"
    "ap_timer ap1 = ap_timer ap"
    "app_trace ap1 = app_trace ap @ (if ?due then [Write (GPIO GPIOA_BASE GPIO_DOUTTGL) BOARD_LED_RED_MASK] else []) @ kick_and_wait"
    using toggle_step_ran [of hw next_toggle period ap] unfolding kick_and_wait_def by blast
  have "uart_up debug_enabled hw ap1 q" using step_keeps_up [OF s(1)] Cons.prems by blast
  then obtain ap2 q2 tr2 where i: "uart_interrupts hw n ap1 = Some ap2" "uart_up debug_enabled hw ap2 q2"
    "app_trace ap2 = app_trace ap1 @ tr2" "list_all by_transmitter tr2" "ap_timer ap2 = ap_timer ap1"
    using interrupts_ran [of debug_enabled hw ap1 q n] by blast
  have "hal_timer_deadline_reached (hal_timer_now_ms (ap_timer ap) + period) (ap_timer ap) \<longleftrightarrow> unat period \<le> 0"
    by (rule deadline_reached_iff) (use assms(3) in simp_all)
  then have early: "\<not> hal_timer_deadline_reached ?next (ap_timer ap2)" using i(5) s(2) assms(2) by simp
  obtain ap' q' tr where r: "app_rounds hw ks (Toggle_Loop ?next period) ap2 = Some (Toggle_Loop ?next period, ap')"
    "uart_up debug_enabled hw ap' q'" "ap_timer ap' = SysTick_Handler (ap_timer ap2)" "app_trace ap' = app_trace ap2 @ tr"
    "own tr = concat (replicate (Suc (length ks)) kick_and_wait)"
    using Cons.IH [OF i(2), of ?next] early by auto
  have "app_rounds hw (n # ks) (Toggle_Loop next_toggle period) ap = Some (Toggle_Loop ?next period, ap')"
    using s(1) i(1) r(1) by (simp del: app_step.simps)
  with r i s show ?case
    by (intro exI [of _ ap'] exI [of _ q'] exI [of _ "(if ?due then [Write (GPIO GPIOA_BASE GPIO_DOUTTGL) BOARD_LED_RED_MASK]
        else []) @ kick_and_wait @ tr2 @ tr"]) (simp add: kick_and_wait_def del: app_step.simps)
qed

lemma wait_rounds_ran:
  assumes "uart_up debug_enabled hw ap q"
  shows "\<exists>ap' q' tr. app_rounds hw ks (Wait_Loop False) ap = Some (Wait_Loop False, ap') \<and> uart_up debug_enabled hw ap' q'
    \<and> app_trace ap' = app_trace ap @ tr \<and> own tr = replicate (Suc (length ks)) Wfi"
  using assms
proof (induction ks arbitrary: ap q)
  case Nil
  then show ?case by (auto simp: app_call_defs)
next
  case (Cons n ks)
  obtain ap1 where s: "app_step hw (Wait_Loop False) ap = Some (Wait_Loop False, ap1)" "app_trace ap1 = app_trace ap @ [Wfi]"
    by (simp add: app_call_defs)
  have "uart_up debug_enabled hw ap1 q" using step_keeps_up [OF s(1)] Cons.prems by blast
  then obtain ap2 q2 tr2 where i: "uart_interrupts hw n ap1 = Some ap2" "uart_up debug_enabled hw ap2 q2"
    "app_trace ap2 = app_trace ap1 @ tr2" "list_all by_transmitter tr2"
    using interrupts_ran [of debug_enabled hw ap1 q n] by blast
  obtain ap' q' tr where r: "app_rounds hw ks (Wait_Loop False) ap2 = Some (Wait_Loop False, ap')" "uart_up debug_enabled hw ap' q'"
    "app_trace ap' = app_trace ap2 @ tr" "own tr = replicate (Suc (length ks)) Wfi"
    using Cons.IH [OF i(2)] by blast
  have "app_rounds hw (n # ks) (Wait_Loop False) ap = Some (Wait_Loop False, ap')"
    using s(1) i(1) r(1) by (simp del: app_step.simps)
  with r i s show ?case
    by (intro exI [of _ ap'] exI [of _ q'] exI [of _ "[Wfi] @ tr2 @ tr"]) simp
qed

lemma wait_run_ran:
  assumes "uart_up debug_enabled hw ap q"
  shows "\<exists>ap' q' tr extra. app_run hw waits n (Wait_Loop False) ap = Some (Wait_Loop False, ap') \<and> uart_up debug_enabled hw ap' q'
    \<and> app_trace ap' = app_trace ap @ tr \<and> own tr = replicate (n + extra) Wfi"
proof (induction n)
  case 0
  have "own [] = replicate (0 + 0) Wfi" by simp
  with assms show ?case by (metis app_run.simps(1) append_Nil2)
next
  case (Suc n)
  then obtain ap1 q1 tr1 extra where a: "app_run hw waits n (Wait_Loop False) ap = Some (Wait_Loop False, ap1)"
    "uart_up debug_enabled hw ap1 q1" "app_trace ap1 = app_trace ap @ tr1" "own tr1 = replicate (n + extra) Wfi"
    by blast
  obtain k ks where w: "waits ap1 = (k, ks)" by fastforce
  obtain ap2 q2 tr2 where b: "uart_interrupts hw k ap1 = Some ap2" "uart_up debug_enabled hw ap2 q2"
    "app_trace ap2 = app_trace ap1 @ tr2" "list_all by_transmitter tr2"
    using interrupts_ran [OF a(2), of k] by blast
  obtain ap3 q3 tr3 where c: "app_rounds hw ks (Wait_Loop False) ap2 = Some (Wait_Loop False, ap3)" "uart_up debug_enabled hw ap3 q3"
    "app_trace ap3 = app_trace ap2 @ tr3" "own tr3 = replicate (Suc (length ks)) Wfi"
    using wait_rounds_ran [OF b(2), of ks] by blast
  have "app_run hw waits (Suc n) (Wait_Loop False) ap = Some (Wait_Loop False, ap3)" using a(1) w b(1) c(1) by simp
  moreover have "own (tr1 @ tr2 @ tr3) = replicate ((n + extra) + Suc (length ks)) Wfi"
    using a(4) b(4) c(4) by (simp only: own_simps append.simps replicate_add)
  then have "own (tr1 @ tr2 @ tr3) = replicate (Suc n + (extra + length ks)) Wfi" by (simp add: ac_simps)
  moreover have "app_trace ap3 = app_trace ap @ tr1 @ tr2 @ tr3" using a(3) b(3) c(3) by simp
  ultimately show ?case using c(2) by blast
qed

text \<open>How the deadline moves: \<open>(n - 1) div p\<close> toggles happened before round \<open>n\<close>.\<close>

lemma toggles_so_far:
  fixes n p :: nat
  assumes "0 < p"
  shows "p * ((n - 1) div p) \<le> n" "n \<le> p * ((n - 1) div p) + p"
    "p \<le> n - p * ((n - 1) div p) \<longleftrightarrow> 0 < n \<and> n mod p = 0"
    "n div p = (if 0 < n \<and> n mod p = 0 then Suc ((n - 1) div p) else (n - 1) div p)"
proof -
  show le: "p * ((n - 1) div p) \<le> n" 
    by (rule order_trans [of _ "n - 1"]) (simp_all add: div_times_less_eq_dividend mult.commute)
  show ge: "n \<le> p * ((n - 1) div p) + p"
    using assms dividend_less_div_times [of p "n - 1"] by (simp add: mult.commute)
  show step: "n div p = (if 0 < n \<and> n mod p = 0 then Suc ((n - 1) div p) else (n - 1) div p)"
  proof (cases n)
    case 0
    then show ?thesis by simp
  next
    case (Suc m)
    then show ?thesis by (simp add: div_Suc)
  qed
  show "p \<le> n - p * ((n - 1) div p) \<longleftrightarrow> 0 < n \<and> n mod p = 0"
  proof (cases "0 < n \<and> n mod p = 0")
    case True
    then have "n = p * Suc ((n - 1) div p)" using step by (metis mult_div_mod_eq add_0_right)
    then have "n - p * ((n - 1) div p) = p" by (metis diff_add_inverse mult_Suc_right add.commute)
    then show ?thesis using True by simp
  next
    case False
    then have "p * ((n - 1) div p) + n mod p = n" using step by (metis mult_div_mod_eq)
    then have "n - p * ((n - 1) div p) = n mod p" by simp
    moreover have "n mod p < p" using assms by simp
    ultimately show ?thesis using False by (auto simp: not_le)
  qed
qed

lemma toggle_run_ran:
  assumes "uart_up debug_enabled hw ap q" "0 < unat period" "unat period < 2 ^ 31"
  shows "\<exists>ap' q' tr extra. app_run hw waits n (Toggle_Loop (hal_timer_now_ms (ap_timer ap) + period) period) ap
      = Some (Toggle_Loop (hal_timer_now_ms (ap_timer ap) + of_nat (unat period * ((n - 1) div unat period)) + period) period, ap')
    \<and> uart_up debug_enabled hw ap' q' \<and> hal_timer_now_ms (ap_timer ap') = hal_timer_now_ms (ap_timer ap) + of_nat n
    \<and> app_trace ap' = app_trace ap @ tr \<and> own tr = concat (map (\<lambda>i. beat (unat period) (extra i) i) [0..<n])"
proof (induction n)
  case 0
  show ?case
    by (intro exI [of _ ap] exI [of _ q] exI [of _ "[]"]) (use assms(1) in simp)
next
  case (Suc n)
  let ?p = "unat period" and ?now = "hal_timer_now_ms (ap_timer ap)"
  let ?q = "(n - 1) div ?p"
  obtain ap1 q1 tr1 extra where run: "app_run hw waits n (Toggle_Loop (?now + period) period) ap
      = Some (Toggle_Loop (?now + of_nat (?p * ?q) + period) period, ap1)"
    and up1: "uart_up debug_enabled hw ap1 q1" and now: "hal_timer_now_ms (ap_timer ap1) = ?now + of_nat n"
    and tr1: "app_trace ap1 = app_trace ap @ tr1" "own tr1 = concat (map (\<lambda>i. beat ?p (extra i) i) [0..<n])"
    using Suc.IH by blast
  obtain k ks where w: "waits ap1 = (k, ks)" by fastforce
  obtain ap2 q2 tr2 where i: "uart_interrupts hw k ap1 = Some ap2" "uart_up debug_enabled hw ap2 q2"
    "app_trace ap2 = app_trace ap1 @ tr2" "list_all by_transmitter tr2" "ap_timer ap2 = ap_timer ap1"
    using interrupts_ran [OF up1, of k] by blast
  note far = toggles_so_far [OF assms(2), of n]
  have "of_nat n = (of_nat (?p * ?q) + of_nat (n - ?p * ?q) :: u32)"
    using far(1) by (metis le_add_diff_inverse of_nat_add)
  then have now': "hal_timer_now_ms (ap_timer ap2) = (?now + of_nat (?p * ?q)) + of_nat (n - ?p * ?q)"
    using now i(5) by (simp only: add.assoc)
  have due: "hal_timer_deadline_reached (?now + of_nat (?p * ?q) + period) (ap_timer ap2) \<longleftrightarrow> 0 < n \<and> n mod ?p = 0"
    using deadline_reached_iff [OF assms(3) _ now'] far(2,3) by simp
  have moved: "(if 0 < n \<and> n mod ?p = 0 then hal_timer_now_ms (ap_timer ap2) + period
      else ?now + of_nat (?p * ?q) + period) = ?now + of_nat (?p * (n div ?p)) + period"
  proof (cases "0 < n \<and> n mod ?p = 0")
    case True
    then have "?p * (n div ?p) = n" by auto
    with True now i(5) show ?thesis by simp
  next
    case False
    then have "n div ?p = ?q" using far(4) by (simp only: if_False)
    with False show ?thesis by (simp only: if_False)
  qed
  obtain ap3 q3 tr3 where r: "app_rounds hw ks (Toggle_Loop (?now + of_nat (?p * ?q) + period) period) ap2
      = Some (Toggle_Loop (?now + of_nat (?p * (n div ?p)) + period) period, ap3)" "uart_up debug_enabled hw ap3 q3"
    "ap_timer ap3 = SysTick_Handler (ap_timer ap2)" "app_trace ap3 = app_trace ap2 @ tr3" "own tr3 = beat ?p (length ks) n"
    using toggle_rounds_ran [OF i(2) assms(2,3), of ks "?now + of_nat (?p * ?q) + period"]
    unfolding due moved beat_def by blast
  have "app_run hw waits (Suc n) (Toggle_Loop (?now + period) period) ap
      = Some (Toggle_Loop (?now + of_nat (?p * ((Suc n - 1) div ?p)) + period) period, ap3)"
    using run w i(1) r(1) by simp
  moreover have "hal_timer_now_ms (ap_timer ap3) = ?now + of_nat (Suc n)"
    using r(3) i(5) now by (simp add: SysTick_Handler_def hal_timer_now_ms_def)
  moreover have "app_trace ap3 = app_trace ap @ tr1 @ tr2 @ tr3" using tr1(1) i(3) r(4) by simp
  moreover have "own (tr1 @ tr2 @ tr3) = concat (map (\<lambda>j. beat ?p ((extra(n := length ks)) j) j) [0..<Suc n])"
  proof -
    have "concat (map (\<lambda>j. beat ?p ((extra(n := length ks)) j) j) [0..<n]) = concat (map (\<lambda>j. beat ?p (extra j) j) [0..<n])"
      by (intro arg_cong [where f = concat] map_cong) simp_all
    then show ?thesis using tr1(2) i(4) r(5) by (simp add: fun_upd_same del: fun_upd_apply)
  qed
  ultimately show ?case using r(2) by blast
qed

section \<open>Properties\<close>

lemma blink_main_ran:
  assumes "power_on ap"
  shows "\<exists>v tr ap' p. (let running = (v AND 1 = 1) in
      blink_main debug_enabled hw ap = Some (if running then Toggle_Loop p p else Wait_Loop False, ap')
      \<and> p = (if bd_mclk_hz (ap_board ap') = 32000000 then 500 else 125) \<and> bd_mclk_hz (ap_board ap') \<in> {4000000, 32000000}
      \<and> hal_timer_now_ms (ap_timer ap') = 0 \<and> (\<exists>q. uart_up debug_enabled hw ap' q)
      \<and> app_trace ap' = app_trace ap @ tr @ [Read (WWDT0 WWDT_STAT) v]
        @ (if running then [] else [Write (GPIO GPIOA_BASE GPIO_DOUTSET) BOARD_LED_RED_MASK]))"
proof -
  obtain r ap1 tr1 where b1: "on_board (board_init debug_enabled hw) ap = Some (r, ap1)"
    "r \<in> {Board_Ok, Board_Clock_Fallback}" "bd_mclk_hz (ap_board ap1) = (if r = Board_Ok then 32000000 else 4000000)"
    "app_trace ap1 = app_trace ap @ tr1" "board_up debug_enabled hw (ap_board ap1)" "ap_timer ap1 = ap_timer ap"
    "fresh_ring (ap_board ap1)"
    using board_init_up [OF assms, of debug_enabled hw] by blast
  have wf: "well_formed_scs (tm_scs (ap_timer ap1))" "bd_mclk_hz (ap_board ap1) \<in> {4000000, 32000000}"
    using assms b1(3,6) by (simp_all add: power_on_def)
  obtain ap2 where b2: "on_timer (hal_timer_init_1ms (bd_mclk_hz (ap_board ap1))) ap1 = Some (True, ap2)"
    "ap_board ap2 = ap_board ap1" "hal_timer_now_ms (ap_timer ap2) = 0"
    using timer_up [OF wf] by blast
  have up: "board_up debug_enabled hw (ap_board ap2)" using b1(5) b2(2) by simp
  have short: "length (ascii ''mspm-baremetal: blink'' @ crlf) < 2 ^ 32" by (simp add: ascii_def crlf_def)
  obtain ap3 tr3 where b3: "DBG_WRITE_LITERAL debug_enabled (ascii ''mspm-baremetal: blink'' @ crlf) ap2 = Some ap3"
    "app_trace ap3 = app_trace ap2 @ tr3" "ap_timer ap3 = ap_timer ap2"
    "bd_mclk_hz (ap_board ap3) = bd_mclk_hz (ap_board ap2)"
    using literal_up [OF up short] by blast
  obtain q2 where q2: "uart_up debug_enabled hw ap2 q2" using started_up [OF up] b1(7) b2(2) by auto
  have "length (ascii ''mspm-baremetal: blink'' @ crlf) \<le> 64" by (simp add: ascii_def crlf_def)
  from app_literal_ran [OF q2 this] b3(1) obtain q3 where q3: "uart_up debug_enabled hw ap3 q3" by auto
  obtain v ap4 tr4 where b4: "on_board (on_machine (hal_wdt_init hw)) ap3 = Some (v AND 1 = 1, ap4)"
    "app_trace ap4 = app_trace ap3 @ tr4 @ [Read (WWDT0 WWDT_STAT) v]" "ap_timer ap4 = ap_timer ap3"
    "bd_mclk_hz (ap_board ap4) = bd_mclk_hz (ap_board ap3)" "bd_uart (ap_board ap4) = bd_uart (ap_board ap3)"
    "bd_writer (ap_board ap4) = bd_writer (ap_board ap3)"
    using watchdog_up [of hw ap3] by blast
  have period: "(if r = Board_Clock_Fallback then BOARD_BLINK_FALLBACK_PERIOD_MS else BOARD_BLINK_PERIOD_MS)
      = (if bd_mclk_hz (ap_board ap4) = 32000000 then 500 else 125)"
    using b1(2,3) b2(2) b3(4) b4(4) by (auto simp: BOARD_BLINK_FALLBACK_PERIOD_MS_def BOARD_BLINK_PERIOD_MS_def)
  have ok: "\<not> (r = Board_Gpio_Failure \<or> r = Board_Uart_Failure)" using b1(2) by auto
  define ap5 where "ap5 = (if v AND 1 = 1 then ap4
    else the (map_option snd (steady_led hw False ap4)))"
  have led: "steady_led hw False ap4 = Some (Wait_Loop False, the (map_option snd (steady_led hw False ap4)))"
    "app_trace (the (map_option snd (steady_led hw False ap4)))
      = app_trace ap4 @ [Write (GPIO GPIOA_BASE GPIO_DOUTSET) BOARD_LED_RED_MASK]"
    "bd_mclk_hz (ap_board (the (map_option snd (steady_led hw False ap4)))) = bd_mclk_hz (ap_board ap4)"
    "ap_timer (the (map_option snd (steady_led hw False ap4))) = ap_timer ap4"
    by (simp_all add: steady_led_def board_led_red_set_def hal_gpio_output_set_def g_red_led_def mmio_write_def)
  have main: "blink_main debug_enabled hw ap = Some (if v AND 1 = 1 then
      Toggle_Loop (if bd_mclk_hz (ap_board ap4) = 32000000 then 500 else 125) (if bd_mclk_hz (ap_board ap4) = 32000000 then 500 else 125)
      else Wait_Loop False, ap5)"
    using b1(1) b2(1,3) b3(1,3) b4(1,3) ok led(1) period
    by (simp add: blink_main_def ap5_def Let_def)
  have "uart_up debug_enabled hw ap4 q3" using q3 b4(5,6) by (simp add: uart_up_def)
  then have up5: "uart_up debug_enabled hw ap5 q3"
    by (simp add: ap5_def steady_led_def board_led_red_set_def hal_gpio_output_set_def g_red_led_def mmio_write_def)
  show ?thesis
    by (rule exI [of _ v], rule exI [of _ "tr1 @ tr3 @ tr4"], rule exI [of _ ap5],
        rule exI [of _ "if bd_mclk_hz (ap_board ap4) = 32000000 then 500 else 125"])
      (use main b1(3,4) b2(2,3) b3(2,3,4) b4(2,3,4) led(2-4) up5 in \<open>auto simp: ap5_def Let_def\<close>)
qed


definition demo_app :: "(reg \<Rightarrow> u32) app" where
  "demo_app = \<lparr>ap_board = demo_board, ap_timer = \<lparr>tm_now_ms = 7, tm_scs = reset_scs\<rparr>\<rparr>"

lemma demo_app_power_on: "power_on demo_app"
  by (simp add: power_on_def demo_app_def demo_board_def reset_scs_def well_formed_scs_def)


end
