(* ===== verification/Fault_Record_Test.thy ===== *)
theory Fault_Record_Test
  imports Blink Startup
begin

text \<open>
  \<open>app/fault_record_test\<close>, and with it the whole way of a fault: the application executes an undefined instruction, the
  handler of \<open>Startup\<close> captures it, the reset handler notes the reset, and the application finds the record.
\<close>

section \<open>The application\<close>

definition FAULT_RECORD_TEST_RETAINED_BLINK_PERIOD_MS :: u32 where
  "FAULT_RECORD_TEST_RETAINED_BLINK_PERIOD_MS = 125"

text \<open>\<open>main\<close> ends in a loop or in the trap of \<open>udf\<close>; the loop after the trap is reached only if the trap returns.\<close>

datatype app_outcome = Loops app_loop | Traps app_loop

text \<open>The condition that all but one of the applications start with: true if something failed. \<open>||\<close> stops at the first
  true operand.\<close>

definition app_start_fails :: "bool \<Rightarrow> 'h hardware \<Rightarrow> 'h app \<Rightarrow> (bool \<times> 'h app) defined" where
  "app_start_fails debug_enabled hw ap = do {
     (init_result, ap) \<leftarrow> on_board (board_init debug_enabled hw) ap;
     (if init_result = Board_Gpio_Failure \<or> init_result = Board_Uart_Failure then Some (True, ap)
      else do {
        (ok, ap) \<leftarrow> on_timer (hal_timer_init_1ms (bd_mclk_hz (ap_board ap))) ap;
        (if \<not> ok then Some (True, ap)
         else do {
           (ok, ap) \<leftarrow> on_board (on_machine (hal_wdt_init hw)) ap;
           Some (\<not> ok, ap)
         })
      })
   }"

definition fault_record_test_wait_healthy :: app_loop where
  "fault_record_test_wait_healthy = Wait_Loop True"

definition fault_record_test_indicate_retained_fault :: "'h app \<Rightarrow> app_loop" where
  "fault_record_test_indicate_retained_fault ap =
     Toggle_Loop (hal_timer_now_ms (ap_timer ap) + FAULT_RECORD_TEST_RETAINED_BLINK_PERIOD_MS)
       FAULT_RECORD_TEST_RETAINED_BLINK_PERIOD_MS"

definition fault_record_test_main :: "bool \<Rightarrow> 'h hardware \<Rightarrow> 'h app \<Rightarrow> (app_outcome \<times> 'h app) defined" where
  "fault_record_test_main debug_enabled hw ap = do {
     (failed, ap) \<leftarrow> app_start_fails debug_enabled hw ap;
     (if failed
      then do {
        (l, ap) \<leftarrow> steady_led hw False ap;
        Some (Loops l, ap)
      }
      else if board_crash_has_fault (ap_board ap)
      then do {
        ap \<leftarrow> DBG_WRITE_LITERAL debug_enabled (ascii ''mspm-baremetal: retained hard fault'' @ crlf) ap;
        Some (Loops (fault_record_test_indicate_retained_fault ap), ap)
      }
      else do {
        ap \<leftarrow> DBG_WRITE_LITERAL debug_enabled (ascii ''mspm-baremetal: triggering hard fault'' @ crlf) ap;
        Some (Traps fault_record_test_wait_healthy, ap)
      })
   }"

section \<open>From the trap to the next boot\<close>

text \<open>The handler branches to \<open>crash_capture_from_values\<close> with its arguments in the first four registers; the reset it
  asks for leads to \<open>Reset_Handler\<close>.\<close>

definition reboot_after_fault ::
  "u32 \<Rightarrow> words \<Rightarrow> core_state \<Rightarrow> scs \<Rightarrow> 'h hardware \<Rightarrow> image_symbols \<Rightarrow> memory \<Rightarrow> 'h machine
    \<Rightarrow> lib_crash_record \<Rightarrow> lib_crash_record defined" where
  "reboot_after_fault capture frame core sys hw sy m mc retained = do {
     (_, core) \<leftarrow> run_handler 23 capture frame HardFault_Handler core;
     (r, _) \<leftarrow> crash_capture_from_values (cs_regs core R0) (cs_regs core R1) (cs_regs core R2) (cs_regs core R3) retained sys;
     (r, _, _) \<leftarrow> Reset_Handler hw sy r m mc;
     Some r
   }"

section \<open>What main does\<close>

lemma app_start_ran:
  assumes "power_on ap"
  shows "\<exists>v ap' tr. app_start_fails debug_enabled hw ap = Some (v AND 1 \<noteq> 1, ap')
    \<and> app_trace ap' = app_trace ap @ tr @ [Read (WWDT0 WWDT_STAT) v]
    \<and> board_up debug_enabled hw (ap_board ap') \<and> board_same (ap_board ap) (ap_board ap')
    \<and> bd_mclk_hz (ap_board ap') \<in> {4000000, 32000000} \<and> hal_timer_now_ms (ap_timer ap') = 0 \<and> fresh_ring (ap_board ap')"
proof -
  obtain r ap1 tr1 where b1: "on_board (board_init debug_enabled hw) ap = Some (r, ap1)"
    "r \<in> {Board_Ok, Board_Clock_Fallback}" "bd_mclk_hz (ap_board ap1) = (if r = Board_Ok then 32000000 else 4000000)"
    "app_trace ap1 = app_trace ap @ tr1" "board_up debug_enabled hw (ap_board ap1)"
    "board_same (ap_board ap) (ap_board ap1)" "ap_timer ap1 = ap_timer ap" "fresh_ring (ap_board ap1)"
    using board_init_up [OF assms, of debug_enabled hw] by blast
  have wf: "well_formed_scs (tm_scs (ap_timer ap1))" "bd_mclk_hz (ap_board ap1) \<in> {4000000, 32000000}"
    using assms b1(3,7) by (simp_all add: power_on_def)
  obtain ap2 where b2: "on_timer (hal_timer_init_1ms (bd_mclk_hz (ap_board ap1))) ap1 = Some (True, ap2)"
    "ap_board ap2 = ap_board ap1" "hal_timer_now_ms (ap_timer ap2) = 0"
    using timer_up [OF wf] by blast
  obtain v ap4 tr4 where b4: "on_board (on_machine (hal_wdt_init hw)) ap2 = Some (v AND 1 = 1, ap4)"
    "app_trace ap4 = app_trace ap2 @ tr4 @ [Read (WWDT0 WWDT_STAT) v]"
    "\<forall>debug_enabled. board_up debug_enabled hw (ap_board ap4) = board_up debug_enabled hw (ap_board ap2)"
    "board_same (ap_board ap2) (ap_board ap4)" "ap_timer ap4 = ap_timer ap2"
    "bd_mclk_hz (ap_board ap4) = bd_mclk_hz (ap_board ap2)" "fresh_ring (ap_board ap4) = fresh_ring (ap_board ap2)"
    using watchdog_up [of hw ap2] by blast
  have "app_start_fails debug_enabled hw ap = Some (v AND 1 \<noteq> 1, ap4)"
    using b1(1,2) b2(1) b4(1) by (auto simp: app_start_fails_def)
  moreover have "board_same (ap_board ap) (ap_board ap4)"
    using b1(6) b2(2) b4(4) by (simp add: board_same_def)
  ultimately show ?thesis
    using b1(4,5,8) b2(2,3) b4(2-7) wf(2) by (intro exI [of _ v] exI [of _ ap4] exI [of _ "tr1 @ tr4"]) simp
qed

lemma fault_record_main_ran:
  assumes "power_on ap"
  shows "\<exists>v ap' tr. fault_record_test_main debug_enabled hw ap = Some
      (if v AND 1 = 1
       then (if lib_crash_has_fault (Some (bd_crash_record (ap_board ap))) then Loops (Toggle_Loop 125 125)
             else Traps (Wait_Loop True))
       else Loops (Wait_Loop False), ap')
    \<and> bd_crash_record (ap_board ap') = bd_crash_record (ap_board ap)
    \<and> (\<exists>tr'. app_trace ap' = app_trace ap @ tr @ [Read (WWDT0 WWDT_STAT) v] @ tr')"
proof -
  obtain v ap1 tr where start: "app_start_fails debug_enabled hw ap = Some (v AND 1 \<noteq> 1, ap1)"
    "app_trace ap1 = app_trace ap @ tr @ [Read (WWDT0 WWDT_STAT) v]"
    "board_up debug_enabled hw (ap_board ap1)" "board_same (ap_board ap) (ap_board ap1)" "hal_timer_now_ms (ap_timer ap1) = 0"
    using app_start_ran [OF assms, of debug_enabled hw] by blast
  have rec: "bd_crash_record (ap_board ap1) = bd_crash_record (ap_board ap)" using start(4) by (simp add: board_same_def)
  have short: "length (ascii ''mspm-baremetal: retained hard fault'' @ crlf) < 2 ^ 32"
    "length (ascii ''mspm-baremetal: triggering hard fault'' @ crlf) < 2 ^ 32" by (simp_all add: ascii_def crlf_def)
  obtain ap2 tr2 where retained:
    "DBG_WRITE_LITERAL debug_enabled (ascii ''mspm-baremetal: retained hard fault'' @ crlf) ap1 = Some ap2"
    "app_trace ap2 = app_trace ap1 @ tr2" "board_same (ap_board ap1) (ap_board ap2)" "ap_timer ap2 = ap_timer ap1"
    using literal_up [OF start(3) short(1)] by blast
  obtain ap3 tr3 where triggering:
    "DBG_WRITE_LITERAL debug_enabled (ascii ''mspm-baremetal: triggering hard fault'' @ crlf) ap1 = Some ap3"
    "app_trace ap3 = app_trace ap1 @ tr3" "board_same (ap_board ap1) (ap_board ap3)"
    using literal_up [OF start(3) short(2)] by blast
  show ?thesis
  proof (cases "v AND 1 = 1")
    case False
    then show ?thesis
      using start rec
      by (intro exI [of _ v] exI [of _ "the (map_option snd (steady_led hw False ap1))"] exI [of _ tr])
        (simp add: fault_record_test_main_def steady_led_def board_led_red_set_def hal_gpio_output_set_def g_red_led_def mmio_write_def)
  next
    case running: True
    show ?thesis
    proof (cases "lib_crash_has_fault (Some (bd_crash_record (ap_board ap)))")
      case True
      then show ?thesis
        using running start rec retained
        by (intro exI [of _ v] exI [of _ ap2] exI [of _ tr])
          (simp add: fault_record_test_main_def board_crash_has_fault_def board_same_def
            fault_record_test_indicate_retained_fault_def FAULT_RECORD_TEST_RETAINED_BLINK_PERIOD_MS_def)
    next
      case False
      then show ?thesis
        using running start rec triggering
        by (intro exI [of _ v] exI [of _ ap3] exI [of _ tr])
          (simp add: fault_record_test_main_def board_crash_has_fault_def board_same_def fault_record_test_wait_healthy_def)
    qed
  qed
qed

section \<open>Properties\<close>

lemma reboot_after_fault_ran:
  assumes "image_ok sy m" "frame_acceptable (cs_msp core)" "cs_pc core = 0"
    and "frame (cs_msp core + 24) = Some pc" "frame (cs_msp core + 28) = Some psr"
  shows "\<exists>r cause. reboot_after_fault capture frame core sys hw sy m mc retained = Some r
    \<and> lib_crash_decode (Some r) (Some junk) = (True, Some \<lparr>cs_reason = LIB_CRASH_REASON_HARDFAULT,
        cs_sequence = (if lib_crash_is_valid (Some retained) then cr_sequence retained else 0) + 1,
        cs_reset_cause = cause AND 0x1f, cs_exception_number = cs_ipsr core AND 0x00ffffff, cs_stacked_pc = pc,
        cs_stacked_xpsr = psr\<rparr>)"
proof -
  obtain core' where handler: "run_handler 23 capture frame HardFault_Handler core = Some (capture, core')"
    "cs_regs core' R0 = LIB_CRASH_REASON_HARDFAULT" "cs_regs core' R1 = cs_ipsr core" "cs_regs core' R2 = pc"
    "cs_regs core' R3 = psr"
    using handler_run_acceptable [where mem = frame and s = core and reason = LIB_CRASH_REASON_HARDFAULT, OF assms(2-5)]
    unfolding HardFault_Handler_def by blast
  obtain r1 where captured: "lib_crash_capture (Some retained) LIB_CRASH_REASON_HARDFAULT (cs_ipsr core) pc psr = Some r1"
    "lib_crash_is_valid (Some r1)"
    "snd (lib_crash_decode (Some r1) (Some junk)) = Some \<lparr>cs_reason = LIB_CRASH_REASON_HARDFAULT,
        cs_sequence = (if lib_crash_is_valid (Some retained) then cr_sequence retained else 0) + 1,
        cs_reset_cause = (if lib_crash_is_valid (Some retained) then cr_reset_cause retained else 0),
        cs_exception_number = cs_ipsr core AND 0x00ffffff, cs_stacked_pc = pc, cs_stacked_xpsr = psr\<rparr>"
    using crash_capture_is_decoded [of retained LIB_CRASH_REASON_HARDFAULT "cs_ipsr core" pc psr junk]
    by (auto simp: LIB_CRASH_REASON_HARDFAULT_def)
  obtain r m' mc' cause where boot: "Reset_Handler hw sy r1 m mc = Some (r, m', mc')"
    "lib_crash_note_boot (Some r1) (cause AND 0x1f) = Some r"
    using reset_handler_ran [OF assms(1), of hw r1 mc] by blast
  have "reboot_after_fault capture frame core sys hw sy m mc retained = Some r"
    using handler captured(1) boot(1) by (simp add: reboot_after_fault_def crash_capture_from_values_def)
  moreover have "lib_crash_decode (Some r) (Some junk) = (True, Some
      ((the (snd (lib_crash_decode (Some r1) (Some junk))))\<lparr>cs_reset_cause := cause AND 0x1f\<rparr>))"
    using crash_note_boot_preserves_fault [of r1 "cause AND 0x1f" junk] boot(2) captured(2) by auto
  ultimately show ?thesis using captured(3) by auto
qed

lemma decoded_fault:
  "lib_crash_decode (Some r) (Some junk) = (True, Some c) \<Longrightarrow> lib_crash_has_fault (Some r) \<longleftrightarrow> cs_reason c \<noteq> LIB_CRASH_REASON_NONE"
  by (auto simp: lib_crash_decode_def lib_crash_has_fault_def lib_crash_reason_def split: if_splits)

text \<open>C33. A fault is found after the reset it causes. From power-on, on any hardware and in any build, with the watchdog
  running and no fault in the record, the test traps; whatever the handler's registers are, the record the trap leads to,
  with its exception frame in the SRAM, through the hard fault handler, the capture and the reset handler decodes to a
  hard fault with the stacked \<open>PC\<close> and \<open>xPSR\<close>, one above the old sequence number; and the next boot of the test, from
  any power-on state that retains that record, on any hardware, finds it and blinks every 125 ms.\<close>

theorem fault_is_found_after_reset:
  fixes ap :: "'h app"
  assumes "image_ok sy m" "frame_acceptable (cs_msp core)" "cs_pc core = 0"
    and "frame (cs_msp core + 24) = Some pc" "frame (cs_msp core + 28) = Some psr"
    and "power_on ap" "\<not> lib_crash_has_fault (Some (bd_crash_record (ap_board ap)))"
  shows "\<exists>v ap' r c. fault_record_test_main debug_enabled hw ap
        = Some (if v AND 1 = 1 then Traps (Wait_Loop True) else Loops (Wait_Loop False), ap')
    \<and> (\<exists>tr tr'. app_trace ap' = app_trace ap @ tr @ [Read (WWDT0 WWDT_STAT) v] @ tr')
    \<and> reboot_after_fault capture frame core sys hw' sy m mc (bd_crash_record (ap_board ap')) = Some r
    \<and> lib_crash_decode (Some r) (Some junk) = (True, Some c)
    \<and> cs_reason c = LIB_CRASH_REASON_HARDFAULT \<and> cs_stacked_pc c = pc \<and> cs_stacked_xpsr c = psr
    \<and> cs_exception_number c = cs_ipsr core AND 0x00ffffff
    \<and> (lib_crash_is_valid (Some (bd_crash_record (ap_board ap)))
        \<longrightarrow> cs_sequence c = cr_sequence (bd_crash_record (ap_board ap)) + 1)
    \<and> (\<forall>hw2 (ap2 :: 'h app). power_on ap2 \<and> bd_crash_record (ap_board ap2) = r \<longrightarrow>
        (\<exists>v2 ap2'. fault_record_test_main debug_enabled hw2 ap2
            = Some (Loops (if v2 AND 1 = 1 then Toggle_Loop 125 125 else Wait_Loop False), ap2')
          \<and> (\<exists>tr tr'. app_trace ap2' = app_trace ap2 @ tr @ [Read (WWDT0 WWDT_STAT) v2] @ tr')))"
proof -
  obtain v ap' where first: "fault_record_test_main debug_enabled hw ap
        = Some (if v AND 1 = 1 then Traps (Wait_Loop True) else Loops (Wait_Loop False), ap')"
    "bd_crash_record (ap_board ap') = bd_crash_record (ap_board ap)"
    "\<exists>tr tr'. app_trace ap' = app_trace ap @ tr @ [Read (WWDT0 WWDT_STAT) v] @ tr'"
    using fault_record_main_ran [OF assms(6), of debug_enabled hw] unfolding if_not_P [OF assms(7)] by blast
  obtain r cause where reboot: "reboot_after_fault capture frame core sys hw' sy m mc (bd_crash_record (ap_board ap')) = Some r"
    "lib_crash_decode (Some r) (Some junk) = (True, Some \<lparr>cs_reason = LIB_CRASH_REASON_HARDFAULT,
        cs_sequence = (if lib_crash_is_valid (Some (bd_crash_record (ap_board ap)))
          then cr_sequence (bd_crash_record (ap_board ap)) else 0) + 1,
        cs_reset_cause = cause AND 0x1f, cs_exception_number = cs_ipsr core AND 0x00ffffff, cs_stacked_pc = pc,
        cs_stacked_xpsr = psr\<rparr>)"
    using reboot_after_fault_ran [where frame = frame and core = core and retained = "bd_crash_record (ap_board ap)"
        and junk = junk and capture = capture and sys = sys and hw = hw' and mc = mc, OF assms(1-5)]
    unfolding first(2) by blast
  have fault: "lib_crash_has_fault (Some r)"
    using decoded_fault [OF reboot(2)] by (simp add: LIB_CRASH_REASON_HARDFAULT_def LIB_CRASH_REASON_NONE_def)
  have second: "\<exists>v2 ap2'. fault_record_test_main debug_enabled hw2 ap2
            = Some (Loops (if v2 AND 1 = 1 then Toggle_Loop 125 125 else Wait_Loop False), ap2')
          \<and> (\<exists>tr tr'. app_trace ap2' = app_trace ap2 @ tr @ [Read (WWDT0 WWDT_STAT) v2] @ tr')"
    if "power_on ap2 \<and> bd_crash_record (ap_board ap2) = r" for hw2 and ap2 :: "'h app"
  proof -
    from that have up: "power_on ap2" and same: "bd_crash_record (ap_board ap2) = r" by auto
    show ?thesis
      using fault_record_main_ran [OF up, of debug_enabled hw2] unfolding same if_P [OF fault] if_distrib [of Loops, symmetric]
      by blast
  qed
  show ?thesis
    by (rule exI [of _ v], rule exI [of _ ap'], rule exI [of _ r], rule exI [of _ "\<lparr>cs_reason = LIB_CRASH_REASON_HARDFAULT,
        cs_sequence = (if lib_crash_is_valid (Some (bd_crash_record (ap_board ap)))
          then cr_sequence (bd_crash_record (ap_board ap)) else 0) + 1,
        cs_reset_cause = cause AND 0x1f, cs_exception_number = cs_ipsr core AND 0x00ffffff, cs_stacked_pc = pc,
        cs_stacked_xpsr = psr\<rparr>"], intro conjI allI impI)
      (rule first(1,3) reboot second | assumption | simp)+
qed

theorem fault_is_found_after_reset_witness:
  "\<exists>v ap' r. fault_record_test_main True plain_hardware demo_app
        = Some (if (v :: u32) AND 1 = 1 then Traps (Wait_Loop True) else Loops (Wait_Loop False), ap')
    \<and> reboot_after_fault 0x100 demo_words (demo_core 0x20001f00) reset_scs plain_hardware demo_image demo_ram
        \<lparr>mc_device = (\<lambda>r. 0), mc_trace = []\<rparr> (bd_crash_record (ap_board ap')) = Some r
    \<and> (\<exists>c. lib_crash_decode (Some r) (Some zero_snapshot) = (True, Some c) \<and> cs_stacked_pc c = 0x1234 \<and> cs_exception_number c = 3)"
proof -
  have image: "image_ok demo_image demo_ram"
    by (auto simp: image_ok_def demo_image_def mapped_def demo_ram_def)
  have frame: "frame_acceptable (cs_msp (demo_core 0x20001f00))" "cs_pc (demo_core 0x20001f00) = 0"
    "cs_ipsr (demo_core 0x20001f00) = 3"
    by (simp_all add: frame_acceptable_def demo_core_def sram_start_def crash_stack_frame_limit_def stack_top_def
        SRAM_ORIGIN_def SRAM_LENGTH_def)
  have words: "demo_words (cs_msp (demo_core 0x20001f00) + 24) = Some 0x1234"
    "demo_words (cs_msp (demo_core 0x20001f00) + 28) = Some 7"
    by (simp_all add: demo_words_def demo_core_def sram_start_def stack_top_def SRAM_ORIGIN_def SRAM_LENGTH_def)
  have clean: "\<not> lib_crash_has_fault (Some (bd_crash_record (ap_board demo_app)))"
    by (simp add: demo_app_def demo_board_def lib_crash_has_fault_def lib_crash_reason_def lib_crash_is_valid_def
        LIB_CRASH_MAGIC_def)
  obtain v ap' r c where "fault_record_test_main True plain_hardware demo_app
        = Some (if (v :: u32) AND 1 = 1 then Traps (Wait_Loop True) else Loops (Wait_Loop False), ap')"
    "reboot_after_fault 0x100 demo_words (demo_core 0x20001f00) reset_scs plain_hardware demo_image demo_ram
        \<lparr>mc_device = (\<lambda>r. 0), mc_trace = []\<rparr> (bd_crash_record (ap_board ap')) = Some r"
    "lib_crash_decode (Some r) (Some zero_snapshot) = (True, Some c)" "cs_stacked_pc c = 0x1234"
    "cs_exception_number c = cs_ipsr (demo_core 0x20001f00) AND 0x00ffffff"
    using fault_is_found_after_reset [OF image frame(1,2) words demo_app_power_on clean, where debug_enabled = True
        and hw = plain_hardware and capture = "0x100" and sys = reset_scs and hw' = plain_hardware
        and mc = "\<lparr>mc_device = (\<lambda>r. 0), mc_trace = []\<rparr>" and junk = zero_snapshot] by blast
  then show ?thesis using frame(3) by auto
qed

end
