(* ===== verification/Pcf8574a_Demo.thy ===== *)
theory Pcf8574a_Demo
  imports Blink
begin

text \<open>
  \<open>app/pcf8574a_demo\<close>: the application that looks for a port expander on the I2C bus and reads it, with the I2C
  controller driver. Its \<open>volatile\<close> variables, kept for inspection, are part of its state.
\<close>

section \<open>State\<close>

definition PCF8574A_ADDRESS_FIRST :: u8 where "PCF8574A_ADDRESS_FIRST = 0x38"
definition PCF8574A_ADDRESS_LAST :: u8 where "PCF8574A_ADDRESS_LAST = 0x3f"
definition PCF8574_ADDRESS_FIRST :: u8 where "PCF8574_ADDRESS_FIRST = 0x20"
definition PCF8574_ADDRESS_LAST :: u8 where "PCF8574_ADDRESS_LAST = 0x27"
definition PCF8574A_RELEASE_ALL_PORTS :: u8 where "PCF8574A_RELEASE_ALL_PORTS = 0xff"

datatype pcf8574a_demo_stage = Stage_Init | Stage_Scan | Stage_Separate_Read | Stage_Combined_Read | Stage_Complete

record 'h pcf8574a_demo =
  pd_app :: "'h app"
  pd_address :: u8
  pd_port_value :: u8
  pd_result :: hal_i2c_controller_result
  pd_stage :: pcf8574a_demo_stage
  pd_watchdog_running :: bool

definition on_app :: "('h app \<Rightarrow> ('a \<times> 'h app) defined) \<Rightarrow> 'h pcf8574a_demo \<Rightarrow> ('a \<times> 'h pcf8574a_demo) defined" where
  "on_app f d = do {
     (r, ap) \<leftarrow> f (pd_app d);
     Some (r, d\<lparr>pd_app := ap\<rparr>)
   }"

abbreviation pd_board :: "'h pcf8574a_demo \<Rightarrow> 'h board" where
  "pd_board d \<equiv> ap_board (pd_app d)"

section \<open>Operations\<close>

definition pcf8574a_demo_fail ::
  "'h hardware \<Rightarrow> hal_i2c_controller_result \<Rightarrow> 'h pcf8574a_demo \<Rightarrow> (app_loop \<times> 'h pcf8574a_demo) defined" where
  "pcf8574a_demo_fail hw result d = on_app (steady_led hw (pd_watchdog_running d)) (d\<lparr>pd_result := result\<rparr>)"

text \<open>One transfer of the scan: the byte that releases the ports.\<close>

definition probe :: "'h hardware \<Rightarrow> u8 \<Rightarrow> 'h board \<Rightarrow> (hal_i2c_controller_result \<times> 'h board) defined" where
  "probe hw address = on_controller (hal_i2c_controller_write hw address (Some [PCF8574A_RELEASE_ALL_PORTS]) 1)"

text \<open>The loop over the addresses; with a last address of 255 the 8-bit counter would never pass it, so the loop is not a
  total function, and not returning is \<open>None\<close>.\<close>

partial_function (option) pcf8574a_demo_try_range ::
  "'h hardware \<Rightarrow> u8 \<Rightarrow> u8 \<Rightarrow> 'h pcf8574a_demo \<Rightarrow> (bool \<times> 'h pcf8574a_demo) option" where
  "pcf8574a_demo_try_range hw address last_address d =
     (if address \<le> last_address
      then do {
        (result, d) \<leftarrow> on_app (on_board (probe hw address)) d;
        (if result = Controller_Ok then Some (True, d\<lparr>pd_address := address\<rparr>)
         else if result \<noteq> Address_Nack then Some (False, d\<lparr>pd_result := result\<rparr>)
         else pcf8574a_demo_try_range hw (address + 1) last_address d)
      }
      else Some (True, d))"

definition pcf8574a_demo_find_target :: "'h hardware \<Rightarrow> 'h pcf8574a_demo \<Rightarrow> (bool \<times> 'h pcf8574a_demo) defined" where
  "pcf8574a_demo_find_target hw d = do {
     (ok, d) \<leftarrow> pcf8574a_demo_try_range hw PCF8574A_ADDRESS_FIRST PCF8574A_ADDRESS_LAST d;
     (if \<not> ok then Some (False, d)
      else if pd_address d \<noteq> 0 then Some (True, d)
      else do {
        (ok, d) \<leftarrow> pcf8574a_demo_try_range hw PCF8574_ADDRESS_FIRST PCF8574_ADDRESS_LAST d;
        (if \<not> ok then Some (False, d)
         else if pd_address d \<noteq> 0 then Some (True, d)
         else Some (False, d\<lparr>pd_result := Address_Nack\<rparr>))
      })
   }"

text \<open>The two reads; \<open>port_value\<close> is the local variable, not initialised before the first of them.\<close>

definition separate_read :: "'h hardware \<Rightarrow> u8 \<Rightarrow> 'h pcf8574a_demo \<Rightarrow> ((hal_i2c_controller_result \<times> u8) \<times> 'h pcf8574a_demo) defined" where
  "separate_read hw port_value d = on_app (on_board (on_controller (\<lambda>st. do {
     (r, data, st) \<leftarrow> hal_i2c_controller_read hw (pd_address d) (Some [port_value]) 1 st;
     bytes \<leftarrow> data;
     v \<leftarrow> array_read bytes 0;
     Some ((r, v), st)
   }))) d"

definition combined_read :: "'h hardware \<Rightarrow> u8 \<Rightarrow> 'h pcf8574a_demo \<Rightarrow> ((hal_i2c_controller_result \<times> u8) \<times> 'h pcf8574a_demo) defined" where
  "combined_read hw port_value d = on_app (on_board (on_controller (\<lambda>st. do {
     (r, data, st) \<leftarrow> hal_i2c_controller_write_read hw (pd_address d) (Some [PCF8574A_RELEASE_ALL_PORTS]) 1 (Some [port_value]) 1 st;
     bytes \<leftarrow> data;
     v \<leftarrow> array_read bytes 0;
     Some ((r, v), st)
   }))) d"

text \<open>The condition \<open>main\<close> starts with.\<close>

definition pcf8574a_demo_start_fails :: "'h hardware \<Rightarrow> board_init_result \<Rightarrow> 'h pcf8574a_demo \<Rightarrow> (bool \<times> 'h pcf8574a_demo) defined" where
  "pcf8574a_demo_start_fails hw init_result d =
     (if init_result = Board_Gpio_Failure \<or> init_result = Board_Uart_Failure then Some (True, d)
      else do {
        (ok, d) \<leftarrow> on_app (on_timer (hal_timer_init_1ms (bd_mclk_hz (pd_board d)))) d;
        (if \<not> ok then Some (True, d)
         else do {
           (ok, d) \<leftarrow> on_app (on_board (board_i2c1_controller_init hw)) d;
           (if \<not> ok then Some (True, d)
            else do {
              (ok, d) \<leftarrow> on_app (on_board (on_machine (hal_wdt_init hw))) d;
              Some (\<not> ok, d)
            })
         })
      })"

definition demo_literal :: "bool \<Rightarrow> string \<Rightarrow> 'h pcf8574a_demo \<Rightarrow> 'h pcf8574a_demo defined" where
  "demo_literal debug_enabled chars d = do {
     ap \<leftarrow> DBG_WRITE_LITERAL debug_enabled (ascii chars @ crlf) (pd_app d);
     Some (d\<lparr>pd_app := ap\<rparr>)
   }"

definition pcf8574a_demo_main ::
  "bool \<Rightarrow> 'h hardware \<Rightarrow> u8 \<Rightarrow> 'h pcf8574a_demo \<Rightarrow> (app_loop \<times> 'h pcf8574a_demo) defined" where
  "pcf8574a_demo_main debug_enabled hw port_value d = do {
     (init_result, d) \<leftarrow> on_app (on_board (board_init debug_enabled hw)) d;
     let d = d\<lparr>pd_address := 0, pd_port_value := 0, pd_result := Not_Initialized, pd_stage := Stage_Init,
               pd_watchdog_running := False\<rparr>;
     (failed, d) \<leftarrow> pcf8574a_demo_start_fails hw init_result d;
     (if failed then pcf8574a_demo_fail hw Not_Initialized d
      else do {
        d \<leftarrow> demo_literal debug_enabled ''mspm-baremetal: pcf8574a_demo'' (d\<lparr>pd_watchdog_running := True\<rparr>);
        (ok, d) \<leftarrow> pcf8574a_demo_find_target hw (d\<lparr>pd_stage := Stage_Scan\<rparr>);
        (if \<not> ok then pcf8574a_demo_fail hw (pd_result d) d
         else do {
           ((result, port_value), d) \<leftarrow> separate_read hw port_value (d\<lparr>pd_stage := Stage_Separate_Read\<rparr>);
           let d = d\<lparr>pd_result := result\<rparr>;
           (if pd_result d \<noteq> Controller_Ok then pcf8574a_demo_fail hw (pd_result d) d
            else do {
              ((result, port_value), d) \<leftarrow>
                combined_read hw port_value (d\<lparr>pd_port_value := port_value, pd_stage := Stage_Combined_Read\<rparr>);
              let d = d\<lparr>pd_result := result\<rparr>;
              (if pd_result d \<noteq> Controller_Ok then pcf8574a_demo_fail hw (pd_result d) d
               else do {
                 d \<leftarrow> demo_literal debug_enabled ''PCF8574A_COMBINED_OK'' (d\<lparr>pd_port_value := port_value, pd_stage := Stage_Complete\<rparr>);
                 Some (Toggle_Loop (hal_timer_now_ms (ap_timer (pd_app d)) + BOARD_BLINK_PERIOD_MS) BOARD_BLINK_PERIOD_MS, d)
               })
            })
         })
      })
   }"

section \<open>The scan\<close>

text \<open>Probing one address after the other, with the result of each.\<close>

inductive probes :: "'h hardware \<Rightarrow> 'h board \<Rightarrow> (u8 \<times> hal_i2c_controller_result) list \<Rightarrow> 'h board \<Rightarrow> bool"
  for hw where
  none: "probes hw bd [] bd"
| one_more: "probe hw address bd = Some (r, bd1) \<Longrightarrow> probes hw bd1 rs bd2 \<Longrightarrow> probes hw bd ((address, r) # rs) bd2"

inductive_cases probes_ConsE: "probes hw bd ((address, r) # rs) bd2"
inductive_cases probes_NilE: "probes hw bd [] bd2"

lemma probes_append: "probes hw bd rs bd1 \<Longrightarrow> probes hw bd1 rs' bd2 \<Longrightarrow> probes hw bd (rs @ rs') bd2"
  by (induction rule: probes.induct) (auto intro: probes.intros)

abbreviation bd_trace :: "'h board \<Rightarrow> access list" where
  "bd_trace bd \<equiv> mc_trace (bd_machine bd)"

text \<open>A probe always returns; if the device answered or not, it was addressed for writing and the byte was sent.\<close>

lemma probe_ran:
  assumes "ic_initialized (bd_controller bd)" "unat address \<le> 127"
  shows "\<exists>r bd' tr. probe hw address bd = Some (r, bd') \<and> ic_initialized (bd_controller bd')
    \<and> bd_trace bd' = bd_trace bd @ tr
    \<and> (r \<in> {Controller_Ok, Address_Nack} \<longrightarrow> written (I2C1 I2C_MSA) tr = [target_word address False]
        \<and> written (I2C1 I2C_MTXDATA) tr = [0xff])"
proof -
  let ?st = "(bd_controller bd)\<lparr>ic_machine := bd_machine bd\<rparr>" and ?t = "Write_Only [PCF8574A_RELEASE_ALL_PORTS] 1"
  have fit: "well_formed ?t" "ic_initialized ?st" using assms(1) by (simp_all add: fits_def)
  obtain r buf st' tr where run: "run_transfer hw address ?t ?st = Some (r, buf, st')" "ctl_ran ?st tr st'"
    "transfer_spec (unat (ic_poll_limit ?st)) (sends ?t) address (receives ?t \<noteq> None) (burst ?t) (both_ways ?t)
        (receives ?t) buf r tr"
    using run_transfer_spec [OF fit(2) assms(2) fit(1)] by blast
  have "probe hw address bd = Some (r, bd\<lparr>bd_machine := ic_machine st', bd_controller := st'\<rparr>)"
    using run(1) by (auto simp: probe_def on_controller_def split: Option.bind_splits)
  moreover have "r \<in> {Controller_Ok, Address_Nack} \<longrightarrow> written (I2C1 I2C_MSA) tr = [target_word address False]
        \<and> written (I2C1 I2C_MTXDATA) tr = [0xff]"
    using run(3) by (auto simp: transfer_spec_def PCF8574A_RELEASE_ALL_PORTS_def)
  ultimately show ?thesis using run(2) assms(1) by (auto simp: ctl_ran_def)
qed

lemma probes_trace:
  assumes "probes hw bd rs bd'" "ic_initialized (bd_controller bd)" "\<forall>x \<in> set rs. unat (fst x) \<le> 127"
  shows "ic_initialized (bd_controller bd') \<and> (\<exists>tr. bd_trace bd' = bd_trace bd @ tr
    \<and> ((\<forall>x \<in> set rs. snd x \<in> {Controller_Ok, Address_Nack}) \<longrightarrow>
        written (I2C1 I2C_MSA) tr = map (\<lambda>x. target_word (fst x) False) rs
        \<and> written (I2C1 I2C_MTXDATA) tr = replicate (length rs) 0xff))"
  using assms
proof (induction rule: probes.induct)
  case (none bd)
  then show ?case by simp
next
  case (one_more address bd r bd1 rs bd2)
  then obtain tr1 where first: "ic_initialized (bd_controller bd1)" "bd_trace bd1 = bd_trace bd @ tr1"
    "r \<in> {Controller_Ok, Address_Nack} \<longrightarrow> written (I2C1 I2C_MSA) tr1 = [target_word address False]
        \<and> written (I2C1 I2C_MTXDATA) tr1 = [0xff]"
    using probe_ran [of bd address hw] by auto
  with one_more.IH one_more.prems obtain tr2 where "ic_initialized (bd_controller bd2)" "bd_trace bd2 = bd_trace bd1 @ tr2"
    "(\<forall>x \<in> set rs. snd x \<in> {Controller_Ok, Address_Nack}) \<longrightarrow>
        written (I2C1 I2C_MSA) tr2 = map (\<lambda>x. target_word (fst x) False) rs
        \<and> written (I2C1 I2C_MTXDATA) tr2 = replicate (length rs) 0xff"
    by auto
  with first show ?case by (intro conjI exI [of _ "tr1 @ tr2"]) auto
qed

definition address_range :: "u8 \<Rightarrow> u8 \<Rightarrow> u8 list" where
  "address_range a b = map of_nat [unat a..<Suc (unat b)]"

lemma address_range_Cons: "a \<le> b \<Longrightarrow> unat b \<le> 127 \<Longrightarrow> address_range a b = a # address_range (a + 1) b"
proof -
  assume "a \<le> b" "unat b \<le> 127"
  then have "unat a \<le> unat b" "unat (a + 1) = Suc (unat a)" by (simp_all add: word_le_nat_alt unat_word_ariths)
  then show ?thesis by (simp add: address_range_def upt_conv_Cons del: upt_Suc)
qed

text \<open>How a scan ends: every attempt but the last was not acknowledged, and the last decides.\<close>

definition scan_ends :: "u8 list \<Rightarrow> (u8 \<times> hal_i2c_controller_result) list \<Rightarrow> bool \<Rightarrow> 'h pcf8574a_demo \<Rightarrow> 'h pcf8574a_demo \<Rightarrow> bool" where
  "scan_ends candidates attempts ok d d' \<longleftrightarrow> map fst attempts = take (length attempts) candidates
     \<and> (ok \<and> (\<forall>x \<in> set attempts. snd x = Address_Nack) \<and> length attempts = length candidates
          \<and> pd_address d' = pd_address d \<and> pd_result d' = pd_result d
        \<or> (\<exists>before a r. attempts = before @ [(a, r)] \<and> (\<forall>x \<in> set before. snd x = Address_Nack) \<and> r \<noteq> Address_Nack
          \<and> (if r = Controller_Ok then ok \<and> pd_address d' = a \<and> pd_result d' = pd_result d
             else \<not> ok \<and> pd_address d' = pd_address d \<and> pd_result d' = r)))"

lemma scan_ends_Cons:
  assumes "scan_ends candidates attempts ok d1 d'" "pd_address d1 = pd_address d" "pd_result d1 = pd_result d"
  shows "scan_ends (a # candidates) ((a, Address_Nack) # attempts) ok d d'"
proof -
  have "map fst ((a, Address_Nack) # attempts) = take (length ((a, Address_Nack) # attempts)) (a # candidates)"
    using assms(1) by (simp add: scan_ends_def)
  moreover from assms(1) consider
      "ok" "\<forall>x \<in> set attempts. snd x = Address_Nack" "length attempts = length candidates"
        "pd_address d' = pd_address d1" "pd_result d' = pd_result d1"
    | before b r where "attempts = before @ [(b, r)]" "\<forall>x \<in> set before. snd x = Address_Nack" "r \<noteq> Address_Nack"
        "if r = Controller_Ok then ok \<and> pd_address d' = b \<and> pd_result d' = pd_result d1
             else \<not> ok \<and> pd_address d' = pd_address d1 \<and> pd_result d' = r"
    unfolding scan_ends_def by blast
  then have "ok \<and> (\<forall>x \<in> set ((a, Address_Nack) # attempts). snd x = Address_Nack)
        \<and> length ((a, Address_Nack) # attempts) = length (a # candidates)
        \<and> pd_address d' = pd_address d \<and> pd_result d' = pd_result d
      \<or> (\<exists>before b r. (a, Address_Nack) # attempts = before @ [(b, r)] \<and> (\<forall>x \<in> set before. snd x = Address_Nack) \<and> r \<noteq> Address_Nack
          \<and> (if r = Controller_Ok then ok \<and> pd_address d' = b \<and> pd_result d' = pd_result d
             else \<not> ok \<and> pd_address d' = pd_address d \<and> pd_result d' = r))"
  proof cases
    case 1
    then show ?thesis using assms(2,3) by simp
  next
    case 2
    then show ?thesis
      using assms(2,3)
      by (intro disjI2 exI [of _ "(a, Address_Nack) # before"] exI [of _ b] exI [of _ r]) simp
  qed
  ultimately show ?thesis unfolding scan_ends_def by blast
qed

definition demo_same :: "'h pcf8574a_demo \<Rightarrow> 'h pcf8574a_demo \<Rightarrow> bool" where
  "demo_same d d' \<longleftrightarrow> pd_stage d' = pd_stage d \<and> pd_watchdog_running d' = pd_watchdog_running d
     \<and> pd_port_value d' = pd_port_value d \<and> ap_timer (pd_app d') = ap_timer (pd_app d)"

lemma try_range_ran:
  assumes "ic_initialized (bd_controller (pd_board d))" "unat last_address \<le> 127" "unat address \<le> Suc (unat last_address)"
  shows "\<exists>ok attempts d'. pcf8574a_demo_try_range hw address last_address d = Some (ok, d')
    \<and> probes hw (pd_board d) attempts (pd_board d') \<and> ic_initialized (bd_controller (pd_board d'))
    \<and> scan_ends (address_range address last_address) attempts ok d d' \<and> demo_same d d'"
  using assms
proof (induction "Suc (unat last_address) - unat address" arbitrary: address d)
  case 0
  then have "\<not> address \<le> last_address" "address_range address last_address = []"
    by (simp_all add: word_le_nat_alt address_range_def)
  then show ?case
    by (subst pcf8574a_demo_try_range.simps)
      (use 0 in \<open>auto simp: scan_ends_def demo_same_def intro: probes.none\<close>)
next
  case (Suc left)
  then have le: "unat address \<le> unat last_address" by linarith
  then have below: "address \<le> last_address" "unat address \<le> 127" using Suc.prems(2) by (simp_all add: word_le_nat_alt)
  have up: "unat (address + 1) = Suc (unat address)" using below(2) by (simp add: unat_word_ariths)
  have range: "address_range address last_address = address # address_range (address + 1) last_address"
    using address_range_Cons [OF below(1) Suc.prems(2)] .
  obtain r bd where probe: "probe hw address (pd_board d) = Some (r, bd)" "ic_initialized (bd_controller bd)"
    using probe_ran [OF Suc.prems(1) below(2), of hw] by blast
  define d1 where "d1 = d\<lparr>pd_app := (pd_app d)\<lparr>ap_board := bd\<rparr>\<rparr>"
  have call: "on_app (on_board (probe hw address)) d = Some (r, d1)"
    using probe(1) by (simp add: on_app_def on_board_def d1_def)
  have single: "probes hw (pd_board d) [(address, r)] bd"
    using probes.one_more [OF probe(1) probes.none] .
  show ?case
  proof (cases "r = Address_Nack")
    case False
    define d' where "d' = (if r = Controller_Ok then d1\<lparr>pd_address := address\<rparr> else d1\<lparr>pd_result := r\<rparr>)"
    have "pcf8574a_demo_try_range hw address last_address d = Some (r = Controller_Ok, d')"
      using below(1) call False by (subst pcf8574a_demo_try_range.simps) (simp add: d'_def)
    moreover have "scan_ends (address_range address last_address) [(address, r)] (r = Controller_Ok) d d'"
      using False unfolding scan_ends_def range by (auto simp: d'_def d1_def)
    moreover have "pd_board d' = bd" "demo_same d d'" by (simp_all add: d'_def d1_def demo_same_def)
    ultimately show ?thesis using single probe(2) by metis
  next
    case True
    have "left = Suc (unat last_address) - unat (address + 1)" using Suc.hyps(2) up by simp
    moreover have "ic_initialized (bd_controller (pd_board d1))" using probe(2) by (simp add: d1_def)
    moreover have "unat (address + 1) \<le> Suc (unat last_address)" using up le by simp
    ultimately obtain ok attempts d' where rest: "pcf8574a_demo_try_range hw (address + 1) last_address d1 = Some (ok, d')"
      "probes hw (pd_board d1) attempts (pd_board d')" "ic_initialized (bd_controller (pd_board d'))"
      "scan_ends (address_range (address + 1) last_address) attempts ok d1 d'" "demo_same d1 d'"
      using Suc.hyps(1) [of "address + 1" d1] Suc.prems(2) by blast
    have "pcf8574a_demo_try_range hw address last_address d = Some (ok, d')"
      using below(1) call True rest(1) by (subst pcf8574a_demo_try_range.simps) simp
    moreover have "probes hw (pd_board d) ((address, Address_Nack) # attempts) (pd_board d')"
      using probes.one_more [OF probe(1)] rest(2) True by (simp add: d1_def)
    moreover have "scan_ends (address_range address last_address) ((address, Address_Nack) # attempts) ok d d'"
      unfolding range by (rule scan_ends_Cons [OF rest(4)]) (simp_all add: d1_def)
    moreover have "demo_same d d'" using rest(5) by (simp add: demo_same_def d1_def)
    ultimately show ?thesis using rest(3) by blast
  qed
qed

section \<open>Properties\<close>

definition pcf_candidates :: "u8 list" where
  "pcf_candidates = [0x38, 0x39, 0x3a, 0x3b, 0x3c, 0x3d, 0x3e, 0x3f, 0x20, 0x21, 0x22, 0x23, 0x24, 0x25, 0x26, 0x27]"

lemma pcf_ranges:
  "address_range PCF8574A_ADDRESS_FIRST PCF8574A_ADDRESS_LAST @ address_range PCF8574_ADDRESS_FIRST PCF8574_ADDRESS_LAST = pcf_candidates"
  "length (address_range PCF8574A_ADDRESS_FIRST PCF8574A_ADDRESS_LAST) = 8"
  "length (address_range PCF8574_ADDRESS_FIRST PCF8574_ADDRESS_LAST) = 8"
  "0 \<notin> set pcf_candidates" "\<forall>a \<in> set pcf_candidates. unat a \<le> 127" "length pcf_candidates = 16"
  by (simp_all add: address_range_def PCF8574A_ADDRESS_FIRST_def PCF8574A_ADDRESS_LAST_def PCF8574_ADDRESS_FIRST_def
      PCF8574_ADDRESS_LAST_def pcf_candidates_def upt_rec [where j = "numeral _"])

text \<open>The result of a whole scan.\<close>

definition scan_result :: "(u8 \<times> hal_i2c_controller_result) list \<Rightarrow> bool \<Rightarrow> 'h pcf8574a_demo \<Rightarrow> bool" where
  "scan_result attempts ok d' \<longleftrightarrow> attempts \<noteq> [] \<and> map fst attempts = take (length attempts) pcf_candidates
     \<and> (\<forall>x \<in> set (butlast attempts). snd x = Address_Nack)
     \<and> (snd (last attempts) = Address_Nack \<longrightarrow> length attempts = 16)
     \<and> (if snd (last attempts) = Controller_Ok then ok \<and> pd_address d' = fst (last attempts)
        else \<not> ok \<and> pd_address d' = 0 \<and> pd_result d' = snd (last attempts))"

lemma scan_ends_decided:
  assumes "scan_ends candidates attempts ok d d'" "pd_address d = 0" "0 \<notin> set candidates"
    and "\<not> ok \<or> pd_address d' \<noteq> 0"
  obtains before a r where "attempts = before @ [(a, r)]" "\<forall>x \<in> set before. snd x = Address_Nack" "r \<noteq> Address_Nack"
    "if r = Controller_Ok then ok \<and> pd_address d' = a else \<not> ok \<and> pd_address d' = 0 \<and> pd_result d' = r"
    "a \<noteq> 0"
proof -
  obtain before a r where e: "attempts = before @ [(a, r)]" "\<forall>x \<in> set before. snd x = Address_Nack" "r \<noteq> Address_Nack"
    "if r = Controller_Ok then ok \<and> pd_address d' = a \<and> pd_result d' = pd_result d
      else \<not> ok \<and> pd_address d' = pd_address d \<and> pd_result d' = r"
    using assms(1,2,4) unfolding scan_ends_def by force
  have "a \<in> set (map fst attempts)" using e(1) by simp
  also have "\<dots> \<subseteq> set candidates" using assms(1) unfolding scan_ends_def by (metis set_take_subset)
  finally have "a \<noteq> 0" using assms(3) by metis
  with e assms(2) show thesis by (intro that [of before a r]) (auto split: if_splits)
qed

lemma scan_ends_undecided:
  assumes "scan_ends candidates attempts ok d d'" "pd_address d = 0" "0 \<notin> set candidates" "ok" "pd_address d' = 0"
  shows "\<forall>x \<in> set attempts. snd x = Address_Nack" "map fst attempts = candidates"
proof -
  have nack: "(\<forall>x \<in> set attempts. snd x = Address_Nack) \<and> length attempts = length candidates"
  proof (rule ccontr)
    assume "\<not> ?thesis"
    with assms(1,4) obtain before a r where e: "attempts = before @ [(a, r)]"
      "if r = Controller_Ok then ok \<and> pd_address d' = a else \<not> ok"
      unfolding scan_ends_def by (auto split: if_splits)
    have "a \<in> set (map fst attempts)" using e(1) by simp
    also have "\<dots> \<subseteq> set candidates" using assms(1) unfolding scan_ends_def by (metis set_take_subset)
    finally have "a \<noteq> 0" using assms(3) by metis
    with e(2) assms(4,5) show False by (auto split: if_splits)
  qed
  then show "\<forall>x \<in> set attempts. snd x = Address_Nack" by blast
  show "map fst attempts = candidates" using assms(1) nack by (simp add: scan_ends_def)
qed

lemma find_target_ran:
  assumes "ic_initialized (bd_controller (pd_board d))" "pd_address d = 0"
  shows "\<exists>ok attempts d'. pcf8574a_demo_find_target hw d = Some (ok, d')
    \<and> probes hw (pd_board d) attempts (pd_board d') \<and> ic_initialized (bd_controller (pd_board d'))
    \<and> scan_result attempts ok d' \<and> demo_same d d'"
proof -
  let ?A = "address_range PCF8574A_ADDRESS_FIRST PCF8574A_ADDRESS_LAST"
    and ?B = "address_range PCF8574_ADDRESS_FIRST PCF8574_ADDRESS_LAST"
  have zero: "0 \<notin> set ?A" "0 \<notin> set ?B" using pcf_ranges(1,4) by (metis Un_iff set_append)+
  have bounds: "unat PCF8574A_ADDRESS_LAST \<le> 127" "unat PCF8574A_ADDRESS_FIRST \<le> Suc (unat PCF8574A_ADDRESS_LAST)"
    "unat PCF8574_ADDRESS_LAST \<le> 127" "unat PCF8574_ADDRESS_FIRST \<le> Suc (unat PCF8574_ADDRESS_LAST)"
    by (simp_all add: PCF8574A_ADDRESS_FIRST_def PCF8574A_ADDRESS_LAST_def PCF8574_ADDRESS_FIRST_def PCF8574_ADDRESS_LAST_def)
  obtain ok1 at1 d1 where one: "pcf8574a_demo_try_range hw PCF8574A_ADDRESS_FIRST PCF8574A_ADDRESS_LAST d = Some (ok1, d1)"
    "probes hw (pd_board d) at1 (pd_board d1)" "ic_initialized (bd_controller (pd_board d1))" "scan_ends ?A at1 ok1 d d1" "demo_same d d1"
    using try_range_ran [OF assms(1) bounds(1,2), of hw] by blast
  show ?thesis
  proof (cases "\<not> ok1 \<or> pd_address d1 \<noteq> 0")
    case True
    obtain before a r where e: "at1 = before @ [(a, r)]" "\<forall>x \<in> set before. snd x = Address_Nack" "r \<noteq> Address_Nack"
      "if r = Controller_Ok then ok1 \<and> pd_address d1 = a else \<not> ok1 \<and> pd_address d1 = 0 \<and> pd_result d1 = r" "a \<noteq> 0"
      by (rule scan_ends_decided [OF one(4) assms(2) zero(1) True])
    have "length at1 \<le> length ?A" using one(4) unfolding scan_ends_def by (metis length_map length_take min.cobounded1)
    then have "map fst at1 = take (length at1) pcf_candidates"
      using one(4) unfolding pcf_ranges(1) [symmetric] by (simp add: scan_ends_def)
    then have "scan_result at1 ok1 d1" using e by (auto simp: scan_result_def)
    moreover have "pcf8574a_demo_find_target hw d = Some (ok1, d1)"
      using one(1) True by (auto simp: pcf8574a_demo_find_target_def)
    ultimately show ?thesis using one(2,3,5) by blast
  next
    case False
    then have first: "ok1" "pd_address d1 = 0" by simp_all
    note nacks = scan_ends_undecided [OF one(4) assms(2) zero(1) first]
    have lengths: "length at1 = 8" using nacks(2) pcf_ranges(2) by (metis length_map)
    obtain ok2 at2 d2 where two: "pcf8574a_demo_try_range hw PCF8574_ADDRESS_FIRST PCF8574_ADDRESS_LAST d1 = Some (ok2, d2)"
      "probes hw (pd_board d1) at2 (pd_board d2)" "ic_initialized (bd_controller (pd_board d2))" "scan_ends ?B at2 ok2 d1 d2" "demo_same d1 d2"
      using try_range_ran [OF one(3) bounds(3,4), of hw] by blast
    have seq: "probes hw (pd_board d) (at1 @ at2) (pd_board d2)" using probes_append [OF one(2) two(2)] .
    have "map fst at2 = take (length at2) ?B" using two(4) by (simp add: scan_ends_def)
    then have fsts: "map fst (at1 @ at2) = take (length (at1 @ at2)) pcf_candidates"
      unfolding pcf_ranges(1) [symmetric] using nacks(2) lengths pcf_ranges(2) by simp
    show ?thesis
    proof (cases "\<not> ok2 \<or> pd_address d2 \<noteq> 0")
      case True
      obtain before a r where e: "at2 = before @ [(a, r)]" "\<forall>x \<in> set before. snd x = Address_Nack" "r \<noteq> Address_Nack"
        "if r = Controller_Ok then ok2 \<and> pd_address d2 = a else \<not> ok2 \<and> pd_address d2 = 0 \<and> pd_result d2 = r" "a \<noteq> 0"
        by (rule scan_ends_decided [OF two(4) first(2) zero(2) True])
      have "scan_result (at1 @ at2) ok2 d2"
        using e nacks(1) fsts by (auto simp: scan_result_def butlast_append)
      moreover have "pcf8574a_demo_find_target hw d = Some (ok2, d2)"
        using one(1) two(1) first True by (auto simp: pcf8574a_demo_find_target_def)
      moreover have "demo_same d d2" using one(5) two(5) by (simp add: demo_same_def)
      ultimately show ?thesis using seq two(3) by blast
    next
      case False
      then have second: "ok2" "pd_address d2 = 0" by simp_all
      note nacks2 = scan_ends_undecided [OF two(4) first(2) zero(2) second]
      have l2: "length at2 = 8" using nacks2(2) pcf_ranges(3) by (metis length_map)
      then have "at2 \<noteq> []" by auto
      define d3 where "d3 = d2\<lparr>pd_result := Address_Nack\<rparr>"
      have "pcf8574a_demo_find_target hw d = Some (False, d3)"
        using one(1) two(1) first second by (simp add: pcf8574a_demo_find_target_def d3_def)
      moreover have "scan_result (at1 @ at2) False d3"
        using nacks(1) nacks2(1) fsts lengths l2 \<open>at2 \<noteq> []\<close> second(2)
        by (auto simp: scan_result_def d3_def butlast_append dest: in_set_butlastD)
      moreover have "demo_same d d3" using one(5) two(5) by (simp add: demo_same_def d3_def)
      moreover have "pd_board d3 = pd_board d2" by (simp add: d3_def)
      ultimately show ?thesis using seq two(3) by metis
    qed
  qed
qed

text \<open>The scan finds the first device that answers. With the controller initialised, on any hardware, \<open>find_target\<close>
  returns; it probes 0x38 to 0x3f and then 0x20 to 0x27, in order, until a probe is answered or fails for any reason
  but a missing acknowledge. It succeeds exactly if the last probe was answered, and that address is the one it
  reports; otherwise the reported result is that of the last probe, which is a missing acknowledge only after all
  sixteen. Unless the bus failed, what went over the bus are exactly those addresses, for writing, with one byte 0xff
  each.\<close>

theorem scan_finds_first_device:
  assumes "ic_initialized (bd_controller (pd_board d))" "pd_address d = 0"
  shows "\<exists>ok attempts d' tr. pcf8574a_demo_find_target hw d = Some (ok, d')
    \<and> probes hw (pd_board d) attempts (pd_board d') \<and> bd_trace (pd_board d') = bd_trace (pd_board d) @ tr
    \<and> attempts \<noteq> [] \<and> map fst attempts = take (length attempts) pcf_candidates
    \<and> (\<forall>x \<in> set (butlast attempts). snd x = Address_Nack)
    \<and> (snd (last attempts) = Address_Nack \<longrightarrow> length attempts = 16)
    \<and> (if snd (last attempts) = Controller_Ok then ok \<and> pd_address d' = fst (last attempts)
       else \<not> ok \<and> pd_address d' = 0 \<and> pd_result d' = snd (last attempts))
    \<and> (snd (last attempts) \<in> {Controller_Ok, Address_Nack} \<longrightarrow>
        written (I2C1 I2C_MSA) tr = map (\<lambda>x. target_word (fst x) False) attempts
        \<and> written (I2C1 I2C_MTXDATA) tr = replicate (length attempts) 0xff)"
proof -
  obtain ok attempts d' where run: "pcf8574a_demo_find_target hw d = Some (ok, d')"
    "probes hw (pd_board d) attempts (pd_board d')" "scan_result attempts ok d'"
    using find_target_ran [OF assms, of hw] by blast
  note res = run(3) [unfolded scan_result_def]
  have "fst ` set attempts \<subseteq> set pcf_candidates" using res by (metis list.set_map set_take_subset)
  then have small: "\<forall>x \<in> set attempts. unat (fst x) \<le> 127" using pcf_ranges(5) by blast
  obtain tr where tr: "bd_trace (pd_board d') = bd_trace (pd_board d) @ tr"
    "(\<forall>x \<in> set attempts. snd x \<in> {Controller_Ok, Address_Nack}) \<longrightarrow>
        written (I2C1 I2C_MSA) tr = map (\<lambda>x. target_word (fst x) False) attempts
        \<and> written (I2C1 I2C_MTXDATA) tr = replicate (length attempts) 0xff"
    using probes_trace [OF run(2) assms(1) small] by blast
  have "\<forall>x \<in> set attempts. snd x \<in> {Controller_Ok, Address_Nack}" if "snd (last attempts) \<in> {Controller_Ok, Address_Nack}"
    using that res by (metis append_butlast_last_id insertI1 insertI2 rotate1.simps(2) set_ConsD set_rotate1)
  with run(1,2) tr res show ?thesis by blast
qed

definition demo_pcf :: "(reg \<Rightarrow> u32) pcf8574a_demo" where
  "demo_pcf = \<lparr>pd_app = demo_app\<lparr>ap_board := demo_board\<lparr>bd_machine := ic_machine idle_controller, bd_controller := idle_controller\<rparr>\<rparr>,
     pd_address = 0, pd_port_value = 0, pd_result = Not_Initialized, pd_stage = Stage_Scan, pd_watchdog_running = True\<rparr>"

text \<open>On hardware whose status never shows an error the first address answers.\<close>

theorem scan_finds_first_device_witness:
  "\<exists>d'. pcf8574a_demo_find_target plain_hardware demo_pcf = Some (True, d') \<and> pd_address d' = 0x38"
proof -
  have ready: "ic_initialized (bd_controller (pd_board demo_pcf))" "pd_address demo_pcf = 0"
    by (simp_all add: demo_pcf_def idle_controller_def)
  obtain ok attempts d' where run: "pcf8574a_demo_find_target plain_hardware demo_pcf = Some (ok, d')"
    "probes plain_hardware (pd_board demo_pcf) attempts (pd_board d')" "attempts \<noteq> []"
    "map fst attempts = take (length attempts) pcf_candidates" "\<forall>x \<in> set (butlast attempts). snd x = Address_Nack"
    "if snd (last attempts) = Controller_Ok then ok \<and> pd_address d' = fst (last attempts)
       else \<not> ok \<and> pd_address d' = 0 \<and> pd_result d' = snd (last attempts)"
    using scan_finds_first_device [OF ready, of plain_hardware] by blast
  obtain x rest where cons: "attempts = x # rest" using run(3) by (cases attempts) auto
  obtain a r where x: "x = (a, r)" by (cases x)
  have a: "a = 0x38" using run(4) by (simp add: cons x pcf_candidates_def)
  have "map_option fst (probe plain_hardware 0x38 (pd_board demo_pcf)) = Some Controller_Ok" by code_simp
  moreover obtain bd1 where "probe plain_hardware a (pd_board demo_pcf) = Some (r, bd1)"
    using run(2) unfolding cons x by (rule probes_ConsE)
  ultimately have r: "r = Controller_Ok" using a by simp
  then have "rest = []" using run(5) by (cases rest) (auto simp: cons x)
  then show ?thesis using run(1,6) a r by (simp add: cons x)
qed

end
