(* ===== verification/Target_Paged.thy ===== *)
theory Target_Paged
  imports I2C_Target
begin

text \<open>
  The wire protocol while the main loop publishes: the register file may change between any two interrupts, also in the
  middle of a transaction. The protocol machine of \<open>Target_Engine\<close> gets a current register file that the main loop
  changes, and the image of the page it is reading, which it keeps until the read leaves the page or ends. Once a
  publish has overtaken that image, both buffers of the page are in use and the next publish of it is refused. The
  engine follows this machine too, so the interrupt handler runs it.
\<close>

section \<open>The machine\<close>

record latching =
  la_protocol :: eeprom
  la_current :: "u16 \<Rightarrow> u8"
  la_held :: "(nat \<times> (u16 \<Rightarrow> u8)) option"
  la_overtaken :: bool

text \<open>What the bus is shown at an address: the held image within its page, the current register file elsewhere.\<close>

definition shown :: "lib_regmap_page list \<Rightarrow> latching \<Rightarrow> u16 \<Rightarrow> u8" where
  "shown ps s address = (case la_held s of None \<Rightarrow> la_current s address
     | Some (i, view) \<Rightarrow> if page_at ps address = Some i then view address else la_current s address)"

fun held_after :: "lib_regmap_page list \<Rightarrow> bus_event \<Rightarrow> latching \<Rightarrow> (nat \<times> (u16 \<Rightarrow> u8)) option" where
  "held_after ps Byte_Out s = (if ee_phase (la_protocol s) = Phase_Read
     then map_option (\<lambda>i. (i, shown ps s)) (page_at ps (ee_pointer (la_protocol s))) else la_held s)"
| "held_after ps (Byte_In v) s = la_held s"
| "held_after ps _ s = None"

fun overtaken_after :: "lib_regmap_page list \<Rightarrow> bus_event \<Rightarrow> latching \<Rightarrow> bool" where
  "overtaken_after ps Byte_Out s = (la_overtaken s \<and> (ee_phase (la_protocol s) = Phase_Read
     \<longrightarrow> page_at ps (ee_pointer (la_protocol s)) = map_option fst (la_held s)))"
| "overtaken_after ps (Byte_In v) s = la_overtaken s"
| "overtaken_after ps _ s = False"

definition latching_step :: "lib_regmap_page list \<Rightarrow> nat \<Rightarrow> bus_event \<Rightarrow> latching \<Rightarrow> bus_output \<times> latching" where
  "latching_step ps room ev s = (case eeprom_step (shown ps s) (is_writable ps) room ev (la_protocol s) of
     (out, e) \<Rightarrow> (out, s\<lparr>la_protocol := e, la_held := held_after ps ev s, la_overtaken := overtaken_after ps ev s\<rparr>))"

text \<open>A publish to the snapshot at \<open>p\<close>: refused while the read in progress holds an overtaken image of it.\<close>

definition held_from :: "lib_regmap_page list \<Rightarrow> nat \<Rightarrow> latching \<Rightarrow> bool" where
  "held_from ps p s \<longleftrightarrow> (case la_held s of None \<Rightarrow> False | Some (i, _) \<Rightarrow> pg_snapshot (ps ! i) = Some p)"

definition publish_refused :: "lib_regmap_page list \<Rightarrow> nat \<Rightarrow> latching \<Rightarrow> bool" where
  "publish_refused ps p s \<longleftrightarrow> held_from ps p s \<and> la_overtaken s"

definition latching_publish :: "lib_regmap_page list \<Rightarrow> nat \<Rightarrow> (u16 \<Rightarrow> u8) \<Rightarrow> latching \<Rightarrow> latching" where
  "latching_publish ps p view s = (if publish_refused ps p s then s
     else s\<lparr>la_current := view, la_overtaken := la_overtaken s \<or> held_from ps p s\<rparr>)"

lemma latching_step_simps [simp]:
  "fst (latching_step ps room ev s) = fst (eeprom_step (shown ps s) (is_writable ps) room ev (la_protocol s))"
  "snd (latching_step ps room ev s) = s\<lparr>la_protocol := snd (eeprom_step (shown ps s) (is_writable ps) room ev (la_protocol s)),
     la_held := held_after ps ev s, la_overtaken := overtaken_after ps ev s\<rparr>"
  by (simp_all add: latching_step_def split: prod.splits)

lemma latching_publish_fields [simp]:
  "la_protocol (latching_publish ps p view s) = la_protocol s" "la_held (latching_publish ps p view s) = la_held s"
  "la_overtaken (latching_publish ps p view s) = (la_overtaken s \<or> \<not> publish_refused ps p s \<and> held_from ps p s)"
  by (simp_all add: latching_publish_def)

section \<open>The engine follows it\<close>

text \<open>The latched page and its image, as the machine holds them.\<close>

definition holds :: "lib_regmap \<Rightarrow> regmap_mem \<Rightarrow> (nat \<times> (u16 \<Rightarrow> u8)) option \<Rightarrow> bool" where
  "holds rm m held \<longleftrightarrow> rm_latched_page rm = map_option fst held
     \<and> (\<forall>i view a sn address. held = Some (i, view) \<longrightarrow> pg_snapshot (table rm ! i) = Some a \<longrightarrow> snapshots m a = Some sn
          \<longrightarrow> page_at (table rm) address = Some i
          \<longrightarrow> view address = snapshot_image sn (rm_latched_buffer rm) ! page_offset (table rm ! i) address)"

definition tracks ::
  "lib_regmap_page list \<Rightarrow> nat \<Rightarrow> nat \<Rightarrow> latching \<Rightarrow> hal_i2c_target_engine \<Rightarrow> regmap_mem \<Rightarrow> bool" where
  "tracks ps a room s e m \<longleftrightarrow> (\<exists>rm. te_regmap e = Some rm
     \<and> regmap_inv enqueue_callback queue_ready rm m \<and> table rm = ps
     \<and> (ee_phase (la_protocol s) \<noteq> Phase_Read \<longrightarrow> la_held s = None) \<and> holds rm m (la_held s)
     \<and> la_overtaken s = (\<not> latch_current rm m)
     \<and> register_view ps m = la_current s \<and> rm_current_address rm = ee_pointer (la_protocol s)
     \<and> phase_matches (ee_phase (la_protocol s)) e \<and> queue_shows a room m (la_protocol s))"

lemma holds_None [simp]: "holds rm m None \<longleftrightarrow> rm_latched_page rm = None"
  by (simp add: holds_def)

lemma tracks_unheld: "tracks ps a room s e m \<Longrightarrow> la_held s = None \<Longrightarrow> \<not> la_overtaken s"
  by (auto simp: tracks_def unlatched_current)

text \<open>Outside a read there is nothing held, and this is the machine with a fixed register file.\<close>

lemma tracks_simulates:
  assumes "tracks ps a room s e m" "la_held s = None"
  shows "simulates ps (la_current s) a room e m (la_protocol s)"
  using assms by (auto simp: tracks_def simulates_def unlatched_current)

lemma simulates_tracks:
  assumes "simulates ps view a room e m p" "ee_phase p \<noteq> Phase_Read"
  shows "tracks ps a room (s\<lparr>la_protocol := p, la_current := view, la_held := None, la_overtaken := False\<rparr>) e m"
  using assms by (auto simp: tracks_def simulates_def)

lemma shown_unheld: "la_held s = None \<Longrightarrow> shown ps s = la_current s"
  by (rule ext) (simp add: shown_def)

text \<open>What is shown in a page is the image a read of it sees.\<close>

lemma shown_in_page:
  assumes "holds rm m (la_held s)" "register_view (table rm) m = la_current s"
    and "pg_snapshot (table rm ! i) = Some p" "snapshots m p = Some sn" "page_at (table rm) address = Some i"
  shows "shown (table rm) s address = snapshot_image sn (read_buffer rm i sn) ! page_offset (table rm ! i) address"
proof (cases "rm_latched_page rm = Some i")
  case True
  then obtain view where "la_held s = Some (i, view)" using assms(1) by (cases "la_held s") (auto simp: holds_def)
  then show ?thesis using assms True by (simp add: shown_def read_buffer_def holds_def)
next
  case False
  have "shown (table rm) s address = la_current s address"
    using assms(1,5) False by (auto simp: shown_def holds_def split: option.splits)
  also have "\<dots> = published sn ! page_offset (table rm ! i) address"
    using assms(3-5) unfolding assms(2) [symmetric] by (simp add: register_view_def)
  finally show ?thesis using False by (simp add: read_buffer_def published_def)
qed

lemma tracks_transmit:
  assumes t: "tracks ps a room s e m"
  shows "\<exists>e' m'. engine_step Byte_Out (Some e) m = Some (fst (latching_step ps room Byte_Out s), Some e', m')
    \<and> tracks ps a room (snd (latching_step ps room Byte_Out s)) e' m'"
proof -
  obtain rm where r: "te_regmap e = Some rm" "regmap_inv enqueue_callback queue_ready rm m" "table rm = ps"
    "ee_phase (la_protocol s) \<noteq> Phase_Read \<longrightarrow> la_held s = None" "holds rm m (la_held s)"
    "register_view ps m = la_current s" "rm_current_address rm = ee_pointer (la_protocol s)"
    "phase_matches (ee_phase (la_protocol s)) e" "queue_shows a room m (la_protocol s)" "la_overtaken s = (\<not> latch_current rm m)"
    using t by (auto simp: tracks_def)
  show ?thesis
  proof (cases "ee_phase (la_protocol s) = Phase_Read")
    case False
    then have "te_direction e \<noteq> Engine_Transmit" using r(8) by (cases "ee_phase (la_protocol s)") auto
    with False t transmit_other [OF r(1)] show ?thesis by simp
  next
    case reading: True
    then have dir: "te_direction e = Engine_Transmit" using r(8) by simp
    note run = hal_i2c_target_engine_transmit_def
    show ?thesis
    proof (cases "page_at ps (ee_pointer (la_protocol s))")
      case None
      obtain rm' m' where v: "lib_regmap_read_current (Some rm) m = Some (LIB_REGMAP_UNMAPPED_VALUE, Some rm', m')"
        "regmap_inv enqueue_callback queue_ready rm' m'" "rm_latched_page rm' = None" "table rm' = table rm"
        "rm_current_address rm' = rm_current_address rm + 1" "same_content m m'" "queues m' = queues m"
        by (rule cq_writer.read_current_unmapped [OF r(2)]) (use None r(3,7) in simp)
      have "shown ps s (ee_pointer (la_protocol s)) = la_current s (ee_pointer (la_protocol s))"
        using None by (simp add: shown_def split: option.splits)
      also have "\<dots> = LIB_REGMAP_UNMAPPED_VALUE" using None unfolding r(6) [symmetric] by (simp add: register_view_def)
      finally have "shown ps s (ee_pointer (la_protocol s)) = LIB_REGMAP_UNMAPPED_VALUE" .
      moreover have "register_view ps m' = la_current s" using register_view_same_content [OF v(6)] r(6) by simp
      moreover have unheld: "la_held s = None \<Longrightarrow> \<not> la_overtaken s" by (rule tracks_unheld [OF t])
      ultimately show ?thesis
        using v(1-5) r dir reading None unheld
        by (cases "la_held s") (auto simp: run tracks_def queue_shows_same [OF v(7)] unlatched_current)
    next
      case (Some i)
      obtain p sn rm' m' where v: "pg_snapshot (table rm ! i) = Some p" "snapshots m p = Some sn"
        "lib_regmap_read_current (Some rm) m = Some (snapshot_image sn (read_buffer rm i sn)
           ! page_offset (table rm ! i) (rm_current_address rm), Some rm', m')"
        "regmap_inv enqueue_callback queue_ready rm' m'" "rm_latched_page rm' = Some i"
        "rm_latched_buffer rm' = read_buffer rm i sn" "table rm' = table rm"
        "rm_current_address rm' = rm_current_address rm + 1" "same_content m m'" "queues m' = queues m"
        by (rule cq_writer.read_current_mapped [OF r(2), of i]) (use Some r(3,7) in simp)
      have view: "register_view (table rm) m = la_current s" using r(3,6) by simp
      note page = shown_in_page [OF r(5) view v(1,2)]
      have "shown ps s (ee_pointer (la_protocol s))
          = snapshot_image sn (read_buffer rm i sn) ! page_offset (table rm ! i) (rm_current_address rm)"
        using page [of "ee_pointer (la_protocol s)"] Some r(3,7) by simp
      moreover have "holds rm' m' (Some (i, shown ps s))"
      proof -
        have "shown ps s address = snapshot_image sn' (rm_latched_buffer rm') ! page_offset (table rm' ! i) address"
          if "snapshots m' p = Some sn'" "page_at (table rm') address = Some i" for sn' address
        proof -
          from same_contentD [OF v(9) that(1)] obtain s2 where "snapshots m p = Some s2" "content s2 = content sn'" .
          then have "snapshot_image sn' = snapshot_image sn" using v(2) content_image [of s2 sn'] by simp
          then show ?thesis using page [of address] that(2) v(6,7) r(3) by simp
        qed
        then show ?thesis using v(1,5,7) by (auto simp: holds_def)
      qed
      moreover have "register_view ps m' = la_current s" using register_view_same_content [OF v(9)] r(6) by simp
      moreover have "(\<not> latch_current rm m \<and> Some i = map_option fst (la_held s)) = (\<not> latch_current rm' m')"
      proof -
        from v(2,9) obtain s2 where s2: "snapshots m' p = Some s2" "content sn = content s2"
          by (auto simp: same_content_def) (metis map_option_eq_Some)
        then have "active_index (sn_state s2) = active_index (sn_state sn)" by (simp add: content_def)
        then have "latch_current rm' m' = (read_buffer rm i sn = active_index (sn_state sn))"
          using v(1,5-7) s2(1) by (auto simp: latch_current_def)
        moreover have page: "map_option fst (la_held s) = rm_latched_page rm" using r(5) by (simp add: holds_def)
        ultimately show ?thesis unfolding page using v(1,2) by (auto simp: read_buffer_def latch_current_def)
      qed
      ultimately show ?thesis
        using v(3-8) r dir reading Some by (simp add: run tracks_def queue_shows_same [OF v(10)])
    qed
  qed
qed

text \<open>Byte by byte the address phase and the writes are those of the plain machine.\<close>

lemma tracks_receive:
  assumes t: "tracks ps a room s e m" and sq: "shares_queue ps a"
  shows "\<exists>e' m'. engine_step (Byte_In v) (Some e) m = Some (fst (latching_step ps room (Byte_In v) s), Some e', m')
    \<and> tracks ps a room (snd (latching_step ps room (Byte_In v) s)) e' m'"
proof (cases "ee_phase (la_protocol s) = Phase_Read")
  case True
  then have dir: "te_direction e \<noteq> Engine_Receive" and rm: "te_regmap e \<noteq> None" using t by (auto simp: tracks_def)
  obtain rm where "te_regmap e = Some rm" using rm by blast
  from receive_other [OF this dir] True t show ?thesis by simp
next
  case False
  then have held: "la_held s = None" using t by (auto simp: tracks_def)
  note fresh = tracks_unheld [OF t held]
  let ?p = "snd (eeprom_step (la_current s) (is_writable ps) room (Byte_In v) (la_protocol s))"
  obtain e' m' where step: "engine_step (Byte_In v) (Some e) m
      = Some (fst (eeprom_step (la_current s) (is_writable ps) room (Byte_In v) (la_protocol s)), Some e', m')"
    "simulates ps (la_current s) a room e' m' ?p"
    using simulates_step [OF tracks_simulates [OF t held] sq] by blast
  have "ee_phase ?p \<noteq> Phase_Read"
    using False by (cases "ee_phase (la_protocol s)") (simp_all add: eeprom_write_def Let_def)
  from simulates_tracks [OF step(2) this, of s] step(1) held fresh show ?thesis
    by (simp add: shown_unheld)
qed

text \<open>The events that end a read let go of the page.\<close>

lemma tracks_end_read:
  assumes "tracks ps a room s e m"
  obtains rm rm' m' where "te_regmap e = Some rm" "lib_regmap_end_read (Some rm) m = Some (Some rm', m')"
    "\<forall>dir phase. phase_matches phase (e\<lparr>te_regmap := Some rm', te_pending_address := 0,
        te_address_byte_count := 0, te_direction := dir\<rparr>)
      \<longrightarrow> tracks ps a room (s\<lparr>la_protocol := (la_protocol s)\<lparr>ee_phase := phase\<rparr>, la_held := None, la_overtaken := False\<rparr>)
        (e\<lparr>te_regmap := Some rm', te_pending_address := 0, te_address_byte_count := 0, te_direction := dir\<rparr>) m'"
proof -
  obtain rm where t: "te_regmap e = Some rm" "regmap_inv enqueue_callback queue_ready rm m" "table rm = ps"
    "register_view ps m = la_current s" "rm_current_address rm = ee_pointer (la_protocol s)"
    "queue_shows a room m (la_protocol s)"
    using assms by (auto simp: tracks_def)
  obtain rm' m' where e: "lib_regmap_end_read (Some rm) m = Some (Some rm', m')"
    "regmap_inv enqueue_callback queue_ready rm' m'" "rm_latched_page rm' = None" "table rm' = table rm"
    "rm_current_address rm' = rm_current_address rm" "same_content m m'" "queues m' = queues m"
    by (rule cq_writer.end_read_spec [OF t(2)])
  have "register_view ps m' = la_current s" using register_view_same_content [OF e(6)] t(4) by simp
  with that [OF t(1) e(1)] t e show thesis
    by (simp add: tracks_def queue_shows_same [OF e(7)] unlatched_current)
qed

lemma tracks_step:
  assumes t: "tracks ps a room s e m" and sq: "shares_queue ps a"
  shows "\<exists>e' m'. engine_step ev (Some e) m = Some (fst (latching_step ps room ev s), Some e', m')
    \<and> tracks ps a room (snd (latching_step ps room ev s)) e' m'"
proof (cases ev)
  case (Byte_In v)
  with tracks_receive [OF t sq] show ?thesis by simp
next
  case Byte_Out
  with tracks_transmit [OF t] show ?thesis by simp
next
  case Begin_Receive
  show ?thesis
    by (rule tracks_end_read [OF t]) (simp add: Begin_Receive hal_i2c_target_engine_begin_receive_def)
next
  case Begin_Transmit
  show ?thesis
    by (rule tracks_end_read [OF t])
      (simp add: Begin_Transmit hal_i2c_target_engine_begin_transmit_def lib_regmap_begin_read_def Let_def
        engine_fields_reordered)
next
  case End_Transaction
  show ?thesis
    by (rule tracks_end_read [OF t]) (simp add: End_Transaction hal_i2c_target_engine_end_def)
qed

interpretation paged: bus_protocol "\<lambda>s e m. tracks ps a room s e m \<and> shares_queue ps a" "latching_step ps room"
  for ps a room
  by unfold_locales (use tracks_step in blast, auto simp: tracks_def)

section \<open>A publish in between\<close>

text \<open>A publish of any snapshot of the store, refused or not, changes the current register file at most and leaves the
  held image alone: the buffer it is in has a reader.\<close>

lemma inactive_read:
  assumes "regmap_inv enqueue_callback queue_ready rm m" "holds rm m (la_held s)" "la_overtaken s = (\<not> latch_current rm m)"
    and "snapshots m p = Some sn"
  shows "readers (sn_state sn) (inactive_index (sn_state sn)) = of_bool (publish_refused (table rm) p s)"
proof -
  have page: "rm_latched_page rm = map_option fst (la_held s)" using assms(2) by (simp add: holds_def)
  have b: "buffer_ok (rm_latched_buffer rm)" using assms(1) by (simp add: regmap_inv_def latch_ok_def)
  have exact: "readers (sn_state sn) (inactive_index (sn_state sn))
      = of_bool (latched_on rm p (inactive_index (sn_state sn)))"
    using assms(1,4) by (simp add: regmap_inv_def readers_exact_def)
  have "latched_on rm p (inactive_index (sn_state sn)) = publish_refused (table rm) p s"
  proof (cases "held_from (table rm) p s")
    case False
    then show ?thesis
      by (auto simp: latched_on_def publish_refused_def page held_from_def split: option.splits)
  next
    case True
    then obtain i view where held: "la_held s = Some (i, view)" "pg_snapshot (table rm ! i) = Some p"
      by (auto simp: held_from_def split: option.splits)
    have "(rm_latched_buffer rm = inactive_index (sn_state sn)) = (rm_latched_buffer rm \<noteq> active_index (sn_state sn))"
      using b active_index_ok [of "sn_state sn"] by (auto simp: inactive_index_eq buffer_ok_def)
    then show ?thesis
      using held True assms(3,4) by (simp add: latched_on_def publish_refused_def page latch_current_def)
  qed
  with exact show ?thesis by simp
qed

lemma tracks_publish:
  assumes t: "tracks ps a room s e m" and sn: "snapshots m p = Some sn" "snapshot_ok sn" and d: "unat (sn_length sn) \<le> length d"
  obtains ok sn' where "lib_regmap_snapshot_publish (Some sn) (Some d) (sn_length sn) = Some (ok, Some sn')"
    "ok \<longleftrightarrow> \<not> publish_refused ps p s" "sn_length sn' = sn_length sn" "snapshot_ok sn'"
    "published sn' = (if ok then take (unat (sn_length sn)) d else published sn)"
    "tracks ps a room ((latching_publish ps p (la_current s) s)
       \<lparr>la_current := register_view ps (m\<lparr>snapshots := (snapshots m)(p \<mapsto> sn')\<rparr>)\<rparr>) e (m\<lparr>snapshots := (snapshots m)(p \<mapsto> sn')\<rparr>)"
proof -
  obtain rm where r: "te_regmap e = Some rm" "regmap_inv enqueue_callback queue_ready rm m" "table rm = ps"
    "ee_phase (la_protocol s) \<noteq> Phase_Read \<longrightarrow> la_held s = None" "holds rm m (la_held s)"
    "rm_current_address rm = ee_pointer (la_protocol s)"
    "phase_matches (ee_phase (la_protocol s)) e" "queue_shows a room m (la_protocol s)" "la_overtaken s = (\<not> latch_current rm m)"
    using t by (auto simp: tracks_def)
  let ?i = "inactive_index (sn_state sn)" and ?ok = "\<not> publish_refused ps p s"
  have free: "(readers (sn_state sn) ?i = 0) = ?ok" using inactive_read [OF r(2,5,9) sn(1)] r(3) by simp
  define sn' where "sn' = (if ?ok then flip_active (fill_buffer sn ?i d) else lib_regmap_snapshot_note_publish_rejected sn)"
  have run: "lib_regmap_snapshot_publish (Some sn) (Some d) (sn_length sn) = Some (?ok, Some sn')"
    using lib_regmap_snapshot_publish_eq [OF sn(2) d, of "sn_length sn"] free by (simp add: Let_def sn'_def)
  have note_fields: "snapshot_image (lib_regmap_snapshot_note_publish_rejected sn) = snapshot_image sn"
    "snapshot_ok (lib_regmap_snapshot_note_publish_rejected sn) = snapshot_ok sn"
    "published (lib_regmap_snapshot_note_publish_rejected sn) = published sn"
    "sn_length (lib_regmap_snapshot_note_publish_rejected sn) = sn_length sn"
    "sn_state (lib_regmap_snapshot_note_publish_rejected sn) = sn_state sn"
    by (simp_all add: lib_regmap_snapshot_note_publish_rejected_def snapshot_image_def snapshot_ok_def published_def fun_eq_iff)
  have act: "active_index (sn_state sn XOR snapshot_active_mask) = ?i" by (simp add: inactive_index_eq)
  have fields: "sn_length sn' = sn_length sn" "snapshot_ok sn'" "readers (sn_state sn') = readers (sn_state sn)"
    using sn(2) d by (auto simp: sn'_def note_fields fun_eq_iff)
  have active: "active_index (sn_state sn') = (if ?ok then ?i else active_index (sn_state sn))"
    by (simp add: sn'_def note_fields act del: active_flip)
  have pub: "published sn' = (if ?ok then take (unat (sn_length sn)) d else published sn)"
    using image_fill_buffer [OF sn(2) inactive_index_ok inactive_index_ok d]
    by (simp add: sn'_def note_fields published_def act del: active_flip)
  have image: "snapshot_image sn' b = snapshot_image sn b" if "buffer_ok b" "readers (sn_state sn) b \<noteq> 0" for b
    using image_fill_buffer [OF sn(2) inactive_index_ok that(1) d] that(2) free by (auto simp: sn'_def note_fields)
  let ?m = "m\<lparr>snapshots := (snapshots m)(p \<mapsto> sn')\<rparr>"
  have inv: "regmap_inv enqueue_callback queue_ready rm ?m"
    by (rule publish_at_inv [OF r(2) sn fields(2,1,3)])
  have page: "rm_latched_page rm = map_option fst (la_held s)" using r(5) by (simp add: holds_def)
  have b: "buffer_ok (rm_latched_buffer rm)" using r(2) by (simp add: regmap_inv_def latch_ok_def)
  have "holds rm ?m (la_held s)"
  proof (cases "la_held s")
    case None
    with r(5) show ?thesis by simp
  next
    case (Some h)
    then obtain i view where h: "la_held s = Some (i, view)" by (cases h) simp
    have "snapshot_image sn' (rm_latched_buffer rm) = snapshot_image sn (rm_latched_buffer rm)"
      if "pg_snapshot (table rm ! i) = Some p"
    proof -
      have "latched_on rm p (rm_latched_buffer rm)" using that page h by (simp add: latched_on_def)
      then have "readers (sn_state sn) (rm_latched_buffer rm) \<noteq> 0"
        using r(2) sn(1) b by (auto simp: regmap_inv_def readers_exact_def)
      with image [OF b] show ?thesis by simp
    qed
    then show ?thesis using r(5) h sn(1) by (auto simp: holds_def)
  qed
  moreover have "(\<not> latch_current rm ?m) = (la_overtaken s \<or> ?ok \<and> held_from ps p s)"
  proof (cases "held_from ps p s")
    case False
    then show ?thesis
      using r(3,9) by (auto simp: latch_current_def held_from_def page split: option.splits)
  next
    case True
    then obtain i view where held: "la_held s = Some (i, view)" "pg_snapshot (table rm ! i) = Some p"
      using r(3) by (auto simp: held_from_def split: option.splits)
    then show ?thesis
      using True r(9) sn(1) active active_index_ok [of "sn_state sn"]
      by (auto simp: latch_current_def page publish_refused_def inactive_index_eq buffer_ok_def)
  qed
  ultimately have "tracks ps a room ((latching_publish ps p (la_current s) s)\<lparr>la_current := register_view ps ?m\<rparr>) e ?m"
    using r(1-4,6-8) inv by (simp add: tracks_def queue_shows_def)
  then show thesis by (rule that [OF run refl fields(1,2) pub])
qed

section \<open>A read in progress\<close>

text \<open>The addresses of the next \<open>n\<close> bytes of the read in progress are in the page it holds.\<close>

definition reading :: "lib_regmap_page list \<Rightarrow> nat \<Rightarrow> nat \<Rightarrow> latching \<Rightarrow> bool" where
  "reading ps i n s \<longleftrightarrow> ee_phase (la_protocol s) = Phase_Read \<and> (\<exists>view. la_held s = Some (i, view))
     \<and> (\<forall>k<n. page_at ps (ee_pointer (la_protocol s) + of_nat k) = Some i)"

definition next_bytes :: "lib_regmap_page list \<Rightarrow> nat \<Rightarrow> latching \<Rightarrow> u8 list" where
  "next_bytes ps n s = map (\<lambda>k. shown ps s (ee_pointer (la_protocol s) + of_nat k)) [0..<n]"

lemma reading_step:
  assumes "reading ps i (Suc n) s"
  shows "fst (latching_step ps room Byte_Out s) = Sent (hd (next_bytes ps (Suc n) s))"
    and "reading ps i n (snd (latching_step ps room Byte_Out s))"
    and "next_bytes ps n (snd (latching_step ps room Byte_Out s)) = tl (next_bytes ps (Suc n) s)"
proof -
  have r: "ee_phase (la_protocol s) = Phase_Read" "page_at ps (ee_pointer (la_protocol s)) = Some i"
    "\<And>k. k < n \<Longrightarrow> page_at ps (ee_pointer (la_protocol s) + 1 + of_nat k) = Some i"
    using assms unfolding reading_def by (auto simp: ac_simps dest: spec [of _ 0] spec [of _ "Suc _"])
  show "fst (latching_step ps room Byte_Out s) = Sent (hd (next_bytes ps (Suc n) s))"
    using r(1) by (simp add: next_bytes_def upt_conv_Cons del: upt_Suc)
  show "reading ps i n (snd (latching_step ps room Byte_Out s))"
    using r by (simp add: reading_def)
  have later: "shown ps (snd (latching_step ps room Byte_Out s)) (ee_pointer (la_protocol s) + 1 + of_nat k)
      = shown ps s (ee_pointer (la_protocol s) + 1 + of_nat k)" if "k < n" for k
    using r(1,2) r(3) [OF that] by (subst shown_def) simp
  have pointer: "ee_pointer (la_protocol (snd (latching_step ps room Byte_Out s))) = ee_pointer (la_protocol s) + 1"
    using r(1) by simp
  show "next_bytes ps n (snd (latching_step ps room Byte_Out s)) = tl (next_bytes ps (Suc n) s)"
    by (rule nth_equalityI) (use pointer later in \<open>simp_all add: next_bytes_def nth_tl ac_simps del: latching_step_simps upt_Suc\<close>)
qed

lemma reading_publish [simp]:
  "reading ps i n (latching_publish ps p view s) = reading ps i n s"
  by (simp add: reading_def)

lemma next_bytes_publish [simp]:
  assumes "reading ps i n s"
  shows "next_bytes ps n (latching_publish ps p view s) = next_bytes ps n s"
  using assms by (auto simp: next_bytes_def reading_def shown_def)

lemma reading_run:
  assumes "reading ps i (length evs + n) s" "set evs \<subseteq> {Byte_Out}"
  shows "bytes_sent (fst (machine_run (latching_step ps room) evs s)) = take (length evs) (next_bytes ps (length evs + n) s)
    \<and> reading ps i n (snd (machine_run (latching_step ps room) evs s))
    \<and> next_bytes ps n (snd (machine_run (latching_step ps room) evs s)) = drop (length evs) (next_bytes ps (length evs + n) s)"
  using assms
proof (induction evs arbitrary: s)
  case (Cons ev evs)
  have ev: "ev = Byte_Out" and evs: "set evs \<subseteq> {Byte_Out}" using Cons.prems(2) by auto
  have now: "reading ps i (Suc (length evs + n)) s" using Cons.prems(1) by simp
  note step = reading_step [OF now, of room]
  obtain b where b: "next_bytes ps (Suc (length evs + n)) s
      = b # next_bytes ps (length evs + n) (snd (latching_step ps room Byte_Out s))"
    unfolding step(3) by (cases "next_bytes ps (Suc (length evs + n)) s") (simp_all add: next_bytes_def)
  with step(1) have "fst (latching_step ps room Byte_Out s) = Sent b" by simp
  with Cons.IH [OF step(2) evs] b show ?case by (simp add: ev del: latching_step_simps)
qed simp

end
