(* ===== verification/Regmap_Demo.thy ===== *)
theory Regmap_Demo
  imports Blink Build_Info Target_Paged
begin

text \<open>
  \<open>app/i2c_regmap_demo\<close>: the firmware that serves three read-only pages on I2C1, the device information, a status
  page with the error counts of the driver, and the retained crash record. The snapshots are objects of the store the
  interrupt handler works on; their buffers are in static storage until \<open>lib_regmap_snapshot_init\<close> hands them to the
  snapshots, which alone use them from then on. The same holds for the register map and the engine.
\<close>

section \<open>State and operations\<close>

definition I2C_REGMAP_DEMO_STATUS_SIZE :: u16 where "I2C_REGMAP_DEMO_STATUS_SIZE = 12"
definition I2C_REGMAP_DEMO_STATUS_ERROR_COUNT_OFFSET :: u16 where "I2C_REGMAP_DEMO_STATUS_ERROR_COUNT_OFFSET = 0"
definition I2C_REGMAP_DEMO_STATUS_PUBLISH_REJECTED_OFFSET :: u16 where "I2C_REGMAP_DEMO_STATUS_PUBLISH_REJECTED_OFFSET = 4"
definition I2C_REGMAP_DEMO_STATUS_UNEXPECTED_EVENT_OFFSET :: u16 where "I2C_REGMAP_DEMO_STATUS_UNEXPECTED_EVENT_OFFSET = 8"

lemmas demo_status_consts = I2C_REGMAP_DEMO_STATUS_SIZE_def I2C_REGMAP_DEMO_STATUS_ERROR_COUNT_OFFSET_def
  I2C_REGMAP_DEMO_STATUS_PUBLISH_REJECTED_OFFSET_def I2C_REGMAP_DEMO_STATUS_UNEXPECTED_EVENT_OFFSET_def

text \<open>The addresses of the snapshots in the store.\<close>

definition g_device_info_snapshot :: nat where "g_device_info_snapshot = 0"
definition g_status_snapshot :: nat where "g_status_snapshot = 1"
definition g_crash_snapshot :: nat where "g_crash_snapshot = 2"

lemmas demo_snapshot_addresses = g_device_info_snapshot_def g_status_snapshot_def g_crash_snapshot_def

definition g_pages :: "lib_regmap_page list" where
  "g_pages =
     [\<lparr>pg_first_address = 0x0000, pg_length = ucast LIB_BUILDINFO_DEVICE_INFO_SIZE,
       pg_access = LIB_REGMAP_ACCESS_READ_ONLY, pg_snapshot = Some g_device_info_snapshot,
       pg_queue_write = None, pg_context = None\<rparr>,
      \<lparr>pg_first_address = 0x0300, pg_length = I2C_REGMAP_DEMO_STATUS_SIZE,
       pg_access = LIB_REGMAP_ACCESS_READ_ONLY, pg_snapshot = Some g_status_snapshot,
       pg_queue_write = None, pg_context = None\<rparr>,
      \<lparr>pg_first_address = 0x0400, pg_length = ucast LIB_CRASH_REGISTER_IMAGE_SIZE,
       pg_access = LIB_REGMAP_ACCESS_READ_ONLY, pg_snapshot = Some g_crash_snapshot,
       pg_queue_write = None, pg_context = None\<rparr>]"

record 'h regmap_demo =
  rd_app :: "'h app"
  rd_device_info_zero :: "u8 list"
  rd_device_info_one :: "u8 list"
  rd_status_zero :: "u8 list"
  rd_status_one :: "u8 list"
  rd_crash_zero :: "u8 list"
  rd_crash_one :: "u8 list"
  rd_regmap :: lib_regmap
  rd_status_last_error_count :: u32
  rd_status_last_publish_rejected_count :: u32
  rd_status_last_unexpected_event_count :: u32
  rd_status_published :: bool

definition g_buildinfo :: "u8 \<Rightarrow> u8 \<Rightarrow> lib_buildinfo" where
  "g_buildinfo fw_version_major fw_version_minor = \<lparr>bi_version_major = fw_version_major,
     bi_version_minor = fw_version_minor, bi_year_high = 0, bi_year_low = 0, bi_month = 0, bi_day = 0, bi_hour = 0,
     bi_minute = 0\<rparr>"

text \<open>Calls on the application, and the store of the snapshots.\<close>

definition on_demo_app :: "('h app \<Rightarrow> ('a \<times> 'h app) defined) \<Rightarrow> 'h regmap_demo \<Rightarrow> ('a \<times> 'h regmap_demo) defined" where
  "on_demo_app f rd = do {
     (r, ap) \<leftarrow> f (rd_app rd);
     Some (r, rd\<lparr>rd_app := ap\<rparr>)
   }"

definition rd_target :: "'h regmap_demo \<Rightarrow> 'h i2c_target" where
  "rd_target rd = bd_target (ap_board (rd_app rd))"

definition rd_mem :: "'h regmap_demo \<Rightarrow> regmap_mem" where
  "rd_mem rd = it_mem (rd_target rd)"

definition set_rd_mem :: "regmap_mem \<Rightarrow> 'h regmap_demo \<Rightarrow> 'h regmap_demo" where
  "set_rd_mem m rd = (let ap = rd_app rd; bd = ap_board ap in
     rd\<lparr>rd_app := ap\<lparr>ap_board := bd\<lparr>bd_target := (bd_target bd)\<lparr>it_mem := m\<rparr>\<rparr>\<rparr>\<rparr>)"

definition demo_snapshot_init :: "nat \<Rightarrow> u8 list \<Rightarrow> u8 list \<Rightarrow> u8 list \<Rightarrow> 'h regmap_demo \<Rightarrow> (bool \<times> 'h regmap_demo) defined" where
  "demo_snapshot_init p buffer_zero buffer_one initial_data rd = do {
     s \<leftarrow> deref_snapshot (rd_mem rd) (Some p);
     (ok, s) \<leftarrow> lib_regmap_snapshot_init s (Some buffer_zero) (Some buffer_one) (of_nat (length buffer_zero)) (Some initial_data);
     Some (ok, set_rd_mem (put_snapshot (Some p) s (rd_mem rd)) rd)
   }"

definition i2c_regmap_demo_write_u32_be :: "u8 list \<Rightarrow> u16 \<Rightarrow> u32 \<Rightarrow> u8 list defined" where
  "i2c_regmap_demo_write_u32_be bytes offset v = do {
     bytes \<leftarrow> array_write bytes (unat offset) (ucast (drop_bit 24 v));
     bytes \<leftarrow> array_write bytes (unat offset + 1) (ucast (drop_bit 16 v));
     bytes \<leftarrow> array_write bytes (unat offset + 2) (ucast (drop_bit 8 v));
     array_write bytes (unat offset + 3) (ucast v)
   }"

text \<open>\<open>image_bytes\<close> is \<open>crash_image\<close>, the uninitialised array on the stack; \<open>buildinfo\<close> the static build information.\<close>

definition i2c_regmap_demo_init ::
  "'h hardware \<Rightarrow> lib_buildinfo \<Rightarrow> u8 list \<Rightarrow> 'h regmap_demo \<Rightarrow> (bool \<times> 'h regmap_demo) defined" where
  "i2c_regmap_demo_init hw buildinfo image_bytes rd = do {
     (ok, bytes) \<leftarrow> lib_buildinfo_write_device_info (Some buildinfo) (Some (rd_device_info_zero rd))
       (of_nat (length (rd_device_info_zero rd)));
     device_info_zero \<leftarrow> bytes;
     let rd = rd\<lparr>rd_device_info_zero := device_info_zero\<rparr>;
     (ok, rd) \<leftarrow> (if \<not> ok then Some (False, rd)
       else demo_snapshot_init g_device_info_snapshot (rd_device_info_zero rd) (rd_device_info_one rd)
         (rd_device_info_zero rd) rd);
     (if \<not> ok then Some (False, rd)
      else do {
        (_, bytes) \<leftarrow> lib_crash_write_register_image (Some (bd_crash_record (ap_board (rd_app rd)))) (Some image_bytes)
          (of_nat (length image_bytes));
        image_bytes \<leftarrow> bytes;
        (ok, rd) \<leftarrow> demo_snapshot_init g_crash_snapshot (rd_crash_zero rd) (rd_crash_one rd) image_bytes rd;
        (if \<not> ok then Some (False, rd)
         else do {
           (ok, rd) \<leftarrow> demo_snapshot_init g_status_snapshot (rd_status_zero rd) (rd_status_one rd) (rd_status_zero rd) rd;
           (if \<not> ok then Some (False, rd)
            else do {
              (ok, regmap) \<leftarrow> lib_regmap_init (Some (rd_regmap rd)) (Some g_pages) (of_nat (length g_pages)) (rd_mem rd);
              regmap \<leftarrow> regmap;
              let rd = rd\<lparr>rd_regmap := regmap\<rparr>;
              (if \<not> ok then Some (False, rd)
               else on_demo_app (on_board (board_i2c1_target_init hw (Some (rd_regmap rd)))) rd)
            })
         })
      })
   }"

definition i2c_regmap_demo_publish_status :: "'h regmap_demo \<Rightarrow> 'h regmap_demo defined" where
  "i2c_regmap_demo_publish_status rd = do {
     let status = replicate (unat I2C_REGMAP_DEMO_STATUS_SIZE) 0;
     let error_count = hal_i2c_target_error_count (rd_target rd);
     s \<leftarrow> deref_snapshot (rd_mem rd) (Some g_status_snapshot);
     let publish_rejected_count = lib_regmap_snapshot_publish_rejected_count s;
     let unexpected_event_count = hal_i2c_target_unexpected_event_count (rd_target rd);
     (if rd_status_published rd \<and> error_count = rd_status_last_error_count rd
         \<and> publish_rejected_count = rd_status_last_publish_rejected_count rd
         \<and> unexpected_event_count = rd_status_last_unexpected_event_count rd
      then Some rd
      else do {
        status \<leftarrow> i2c_regmap_demo_write_u32_be status I2C_REGMAP_DEMO_STATUS_ERROR_COUNT_OFFSET error_count;
        status \<leftarrow> i2c_regmap_demo_write_u32_be status I2C_REGMAP_DEMO_STATUS_PUBLISH_REJECTED_OFFSET publish_rejected_count;
        status \<leftarrow> i2c_regmap_demo_write_u32_be status I2C_REGMAP_DEMO_STATUS_UNEXPECTED_EVENT_OFFSET unexpected_event_count;
        (published, s) \<leftarrow> lib_regmap_snapshot_publish s (Some status) (of_nat (length status));
        let rd = set_rd_mem (put_snapshot (Some g_status_snapshot) s (rd_mem rd)) rd;
        Some (if published
          then rd\<lparr>rd_status_last_error_count := error_count,
                  rd_status_last_publish_rejected_count := publish_rejected_count,
                  rd_status_last_unexpected_event_count := unexpected_event_count, rd_status_published := True\<rparr>
          else rd)
      })
   }"

text \<open>The endless loops of \<open>main\<close>: publishing the status, or waiting with the red LED on after a failure.\<close>

datatype demo_loop = Publish_Loop | Failed_Loop app_loop

definition i2c_regmap_demo_fail :: "'h hardware \<Rightarrow> 'h regmap_demo \<Rightarrow> (demo_loop \<times> 'h regmap_demo) defined" where
  "i2c_regmap_demo_fail hw rd = do {
     (l, rd) \<leftarrow> on_demo_app (steady_led hw False) rd;
     Some (Failed_Loop l, rd)
   }"

definition regmap_demo_start_fails ::
  "bool \<Rightarrow> 'h hardware \<Rightarrow> lib_buildinfo \<Rightarrow> u8 list \<Rightarrow> 'h regmap_demo \<Rightarrow> (bool \<times> 'h regmap_demo) defined" where
  "regmap_demo_start_fails debug_enabled hw buildinfo image_bytes rd = do {
     (init_result, rd) \<leftarrow> on_demo_app (on_board (board_init debug_enabled hw)) rd;
     (if init_result = Board_Gpio_Failure \<or> init_result = Board_Uart_Failure then Some (True, rd)
      else do {
        (ok, rd) \<leftarrow> on_demo_app (\<lambda>ap. on_timer (hal_timer_init_1ms (bd_mclk_hz (ap_board ap))) ap) rd;
        (if \<not> ok then Some (True, rd)
         else do {
           (ok, rd) \<leftarrow> i2c_regmap_demo_init hw buildinfo image_bytes rd;
           (if \<not> ok then Some (True, rd)
            else do {
              (ok, rd) \<leftarrow> on_demo_app (on_board (on_machine (hal_wdt_init hw))) rd;
              Some (\<not> ok, rd)
            })
         })
      })
   }"

definition regmap_demo_main ::
  "bool \<Rightarrow> 'h hardware \<Rightarrow> lib_buildinfo \<Rightarrow> u8 list \<Rightarrow> 'h regmap_demo \<Rightarrow> (demo_loop \<times> 'h regmap_demo) defined" where
  "regmap_demo_main debug_enabled hw buildinfo image_bytes rd = do {
     (failed, rd) \<leftarrow> regmap_demo_start_fails debug_enabled hw buildinfo image_bytes rd;
     (if failed then i2c_regmap_demo_fail hw rd
      else do {
        (_, rd) \<leftarrow> on_demo_app (quietly (DBG_WRITE_LITERAL debug_enabled (ascii ''mspm-baremetal: i2c_regmap_demo'' @ crlf))) rd;
        Some (Publish_Loop, rd)
      })
   }"

definition regmap_demo_round :: "'h hardware \<Rightarrow> 'h regmap_demo \<Rightarrow> 'h regmap_demo defined" where
  "regmap_demo_round hw rd = do {
     rd \<leftarrow> i2c_regmap_demo_publish_status rd;
     (_, rd) \<leftarrow> on_demo_app (quietly (app_kick hw)) rd;
     (_, rd) \<leftarrow> on_demo_app (quietly arch_wait_for_interrupt) rd;
     Some rd
   }"

text \<open>The interrupt a wait ends with.\<close>

definition demo_interrupt :: "'h hardware \<Rightarrow> nat \<Rightarrow> 'h regmap_demo \<Rightarrow> 'h regmap_demo defined" where
  "demo_interrupt hw fuel rd = do {
     (_, rd) \<leftarrow> on_demo_app (on_board (on_target (quietly (I2C1_IRQHandler hw fuel)))) rd;
     Some rd
   }"

section \<open>Initialisation\<close>

lemma target_starts:
  assumes "bd_mclk_hz bd \<in> {4000000, 32000000}" "\<not> bd_i2c1_claimed bd" "\<not> it_initialized (bd_target bd)"
  shows "\<exists>bd' tr. board_i2c1_target_init hw (Some rm) bd = Some (True, bd')
    \<and> mc_trace (bd_machine bd') = mc_trace (bd_machine bd) @ tr
    \<and> it_initialized (bd_target bd') \<and> it_mem (bd_target bd') = it_mem (bd_target bd)
    \<and> it_engine (bd_target bd') = \<lparr>te_regmap = Some rm, te_pending_address = 0, te_address_byte_count = 0,
        te_direction = Engine_Idle\<rparr>
    \<and> it_error_count (bd_target bd') = 0 \<and> it_unexpected_event_count (bd_target bd') = 0
    \<and> bd_crash_record bd' = bd_crash_record bd \<and> bd_mclk_hz bd' = bd_mclk_hz bd
    \<and> (\<forall>d. board_up d hw bd' = board_up d hw bd)"
proof -
  note valid = board_target_config_valid [OF assms(1), of rm]
  let ?c = "g_i2c1_target\<lparr>tc_input_clock_hz := bd_mclk_hz bd\<rparr>"
  let ?st = "(bd_target bd)\<lparr>it_machine := bd_machine bd\<rparr>"
  obtain st' tr where run: "hal_i2c_target_init hw (Some ?c) (Some rm) ?st = Some (True, st')"
    "mc_trace (it_machine st') = mc_trace (it_machine ?st) @ tr" "it_initialized st'" "it_mem st' = it_mem ?st"
    "it_engine st' = \<lparr>te_regmap = Some rm, te_pending_address = 0, te_address_byte_count = 0, te_direction = Engine_Idle\<rparr>"
    "it_error_count st' = 0" "it_unexpected_event_count st' = 0"
    using valid assms(3)
    by (simp add: hal_i2c_target_init_def hal_i2c_target_engine_init_def mmio_write_def cpu_def Let_def
        mmio_simps del: nops.simps)
  define bd' where "bd' = bd\<lparr>bd_i2c1_claimed := True, bd_machine := it_machine st', bd_target := st'\<rparr>"
  have "board_i2c1_target_init hw (Some rm) bd = Some (True, bd')"
    using run(1) assms(2) by (simp add: board_i2c1_target_init_def board_i2c1_claim_def on_target_def bd'_def)
  then show ?thesis
    using run by (intro exI [of _ bd'] exI [of _ tr]) (simp add: bd'_def board_up_def)
qed

text \<open>The store of the snapshots is apart from everything else.\<close>

lemma set_rd_mem_fields [simp]:
  "rd_mem (set_rd_mem m rd) = m"
  "set_rd_mem m (set_rd_mem m' rd) = set_rd_mem m rd"
  "ap_timer (rd_app (set_rd_mem m rd)) = ap_timer (rd_app rd)"
  "bd_machine (ap_board (rd_app (set_rd_mem m rd))) = bd_machine (ap_board (rd_app rd))"
  "bd_mclk_hz (ap_board (rd_app (set_rd_mem m rd))) = bd_mclk_hz (ap_board (rd_app rd))"
  "bd_crash_record (ap_board (rd_app (set_rd_mem m rd))) = bd_crash_record (ap_board (rd_app rd))"
  "bd_i2c1_claimed (ap_board (rd_app (set_rd_mem m rd))) = bd_i2c1_claimed (ap_board (rd_app rd))"
  "board_up d hw (ap_board (rd_app (set_rd_mem m rd))) = board_up d hw (ap_board (rd_app rd))"
  "it_initialized (rd_target (set_rd_mem m rd)) = it_initialized (rd_target rd)"
  "it_engine (rd_target (set_rd_mem m rd)) = it_engine (rd_target rd)"
  "it_error_count (rd_target (set_rd_mem m rd)) = it_error_count (rd_target rd)"
  "it_unexpected_event_count (rd_target (set_rd_mem m rd)) = it_unexpected_event_count (rd_target rd)"
  by (simp_all add: rd_mem_def rd_target_def set_rd_mem_def board_up_def Let_def)

lemma set_rd_mem_demo [simp]:
  "rd_status_zero (set_rd_mem m rd) = rd_status_zero rd" "rd_status_one (set_rd_mem m rd) = rd_status_one rd"
  "rd_crash_zero (set_rd_mem m rd) = rd_crash_zero rd" "rd_crash_one (set_rd_mem m rd) = rd_crash_one rd"
  "rd_regmap (set_rd_mem m rd) = rd_regmap rd" "rd_status_published (set_rd_mem m rd) = rd_status_published rd"
  "rd_status_last_error_count (set_rd_mem m rd) = rd_status_last_error_count rd"
  "rd_status_last_publish_rejected_count (set_rd_mem m rd) = rd_status_last_publish_rejected_count rd"
  "rd_status_last_unexpected_event_count (set_rd_mem m rd) = rd_status_last_unexpected_event_count rd"
  by (simp_all add: set_rd_mem_def Let_def)

definition fresh_snapshot :: "u8 list \<Rightarrow> lib_regmap_snapshot" where
  "fresh_snapshot d = \<lparr>sn_buffers = [Some d, Some d], sn_length = of_nat (length d), sn_state = 0,
     sn_publish_rejected_count = 0\<rparr>"

lemma demo_snapshot_init_eq:
  assumes "snapshots (rd_mem rd) p = Some s" "length b0 = length d" "length b1 = length d" "d \<noteq> []" "length d < 2 ^ 16"
  shows "demo_snapshot_init p b0 b1 d rd = Some (True, set_rd_mem ((rd_mem rd)
    \<lparr>snapshots := (snapshots (rd_mem rd))(p \<mapsto> fresh_snapshot d)\<rparr>) rd)"
proof -
  have n: "unat (of_nat (length d) :: u16) = length d" using assms(5) by (simp add: unat_of_nat)
  moreover have "(of_nat (length d) :: u16) \<noteq> 0"
    using n assms(4) by (metis length_0_conv unat_0)
  ultimately have "lib_regmap_snapshot_init (Some s) (Some b0) (Some b1) (of_nat (length d)) (Some d)
      = Some (True, Some (s\<lparr>sn_buffers := [Some d, Some d], sn_length := of_nat (length d), sn_state := 0,
          sn_publish_rejected_count := 0\<rparr>))"
    using lib_regmap_snapshot_init_eq [of "of_nat (length d)" b0 b1 "Some d" s] assms(2,3)
    by (simp add: initial_image_def)
  moreover have "s\<lparr>sn_buffers := [Some d, Some d], sn_length := of_nat (length d), sn_state := 0,
      sn_publish_rejected_count := 0\<rparr> = fresh_snapshot d"
    by (cases s) (simp add: fresh_snapshot_def)
  ultimately show ?thesis
    using assms(1,2) by (simp add: demo_snapshot_init_def deref_snapshot_def put_snapshot_def)
qed

lemma fresh_snapshot_ok:
  assumes "d \<noteq> []" "length d < 2 ^ 16"
  shows "snapshot_ok (fresh_snapshot d)" "published (fresh_snapshot d) = d" "readers (sn_state (fresh_snapshot d)) b = 0"
    "sn_length (fresh_snapshot d) = of_nat (length d)"
proof -
  have n: "unat (of_nat (length d) :: u16) = length d" using assms(2) by (simp add: unat_of_nat)
  moreover have "(of_nat (length d) :: u16) \<noteq> 0"
    using n assms(1) by (metis length_0_conv unat_0)
  ultimately show "snapshot_ok (fresh_snapshot d)" "published (fresh_snapshot d) = d"
    "readers (sn_state (fresh_snapshot d)) b = 0" "sn_length (fresh_snapshot d) = of_nat (length d)"
    by (simp_all add: fresh_snapshot_def snapshot_ok_def published_def snapshot_image_def active_index_parity
        readers_def lib_regmap_snapshot_reader_count_def)
qed

text \<open>The register file the three pages show.\<close>

definition device_info :: "lib_buildinfo \<Rightarrow> u8 list" where
  "device_info b = [bi_version_major b, bi_version_minor b, bi_year_high b, bi_year_low b, bi_month b, bi_day b,
     bi_hour b, bi_minute b]"

definition crash_page :: "lib_crash_record \<Rightarrow> u8 list" where
  "crash_page r = (if lib_crash_is_valid (Some r) then crash_image r else replicate 24 0)"

definition demo_view :: "u8 list \<Rightarrow> u8 list \<Rightarrow> u8 list \<Rightarrow> u16 \<Rightarrow> u8" where
  "demo_view info status crash a =
     (if unat a < 8 then info ! unat a
      else if 0x300 \<le> unat a \<and> unat a < 0x30c then status ! (unat a - 0x300)
      else if 0x400 \<le> unat a \<and> unat a < 0x418 then crash ! (unat a - 0x400)
      else 0xff)"

lemma length_pages [simp]: "length (device_info b) = 8" "length (crash_page r) = 24"
  by (simp_all add: device_info_def crash_page_def)

lemma write_device_info_eq:
  assumes "lib_buildinfo_is_valid (Some b)" "length bs = 8"
  shows "lib_buildinfo_write_device_info (Some b) (Some bs) 8 = Some (True, Some (device_info b))"
proof -
  obtain b0 b1 b2 b3 b4 b5 b6 b7 where "bs = [b0, b1, b2, b3, b4, b5, b6, b7]"
    using assms(2) by (auto simp: numeral_eq_Suc length_Suc_conv)
  with assms(1) show ?thesis
    by (simp add: lib_buildinfo_write_device_info_def LIB_BUILDINFO_DEVICE_INFO_SIZE_def array_simps device_info_def)
qed

lemmas g_pages_defs = g_pages_def demo_snapshot_addresses demo_status_consts LIB_BUILDINFO_DEVICE_INFO_SIZE_def
  LIB_CRASH_REGISTER_IMAGE_SIZE_def

lemma g_pages_view:
  assumes "snapshots m 0 = Some s0" "snapshots m 1 = Some s1" "snapshots m 2 = Some s2"
  shows "register_view g_pages m = demo_view (published s0) (published s1) (published s2)"
proof
  fix a :: u16
  have "unat a < 65536" using unsigned_less [of a] by simp
  then show "register_view g_pages m a = demo_view (published s0) (published s1) (published s2) a"
    using assms by (auto simp: register_view_def g_pages_defs demo_view_def in_page_def page_offset_def
        LIB_REGMAP_UNMAPPED_VALUE_def)
qed

text \<open>The store after initialisation, and the static storage before it.\<close>

definition pages_mem :: "u8 list \<Rightarrow> u8 list \<Rightarrow> u8 list \<Rightarrow> regmap_mem \<Rightarrow> regmap_mem" where
  "pages_mem info status crash m = m\<lparr>snapshots := (snapshots m)(0 \<mapsto> fresh_snapshot info, 2 \<mapsto> fresh_snapshot crash,
     1 \<mapsto> fresh_snapshot status)\<rparr>"

definition demo_storage :: "'h regmap_demo \<Rightarrow> bool" where
  "demo_storage rd \<longleftrightarrow> rd_device_info_zero rd = replicate 8 0 \<and> rd_device_info_one rd = replicate 8 0
     \<and> rd_status_zero rd = replicate 12 0 \<and> rd_status_one rd = replicate 12 0
     \<and> rd_crash_zero rd = replicate 24 0 \<and> rd_crash_one rd = replicate 24 0 \<and> \<not> rd_status_published rd
     \<and> \<not> bd_i2c1_claimed (ap_board (rd_app rd)) \<and> \<not> it_initialized (rd_target rd)
     \<and> dom (snapshots (rd_mem rd)) = {0, 1, 2} \<and> queues (rd_mem rd) = (\<lambda>_. None)"

lemma pages_layout_valid:
  assumes "length info = 8" "length status = 12" "length crash = 24" "dom (snapshots m) = {0, 1, 2}"
  defines "m' \<equiv> pages_mem info status crash m"
  shows "layout_valid m' g_pages" "no_dangling_snapshot m' g_pages"
    "\<And>a s. snapshots m' a = Some s \<Longrightarrow> snapshot_ok s \<and> readers (sn_state s) 0 = 0 \<and> readers (sn_state s) 1 = 0"
proof -
  have ne: "info \<noteq> []" "status \<noteq> []" "crash \<noteq> []" using assms(1-3) by auto
  have ok: "snapshot_ok (fresh_snapshot info)" "snapshot_ok (fresh_snapshot status)" "snapshot_ok (fresh_snapshot crash)"
    using fresh_snapshot_ok(1) ne assms(1-3) by simp_all
  have free: "readers (sn_state (fresh_snapshot d)) b = 0" for d b
    by (simp add: fresh_snapshot_def readers_def lib_regmap_snapshot_reader_count_def)
  have sn: "snapshots m' 0 = Some (fresh_snapshot info)" "snapshots m' 1 = Some (fresh_snapshot status)"
    "snapshots m' 2 = Some (fresh_snapshot crash)"
    by (simp_all add: m'_def pages_mem_def)
  have len: "sn_length (fresh_snapshot info) = 8" "sn_length (fresh_snapshot status) = 12" "sn_length (fresh_snapshot crash) = 24"
    using assms(1-3) by (simp_all add: fresh_snapshot_def)
  show "no_dangling_snapshot m' g_pages"
    using sn by (simp add: no_dangling_snapshot_def g_pages_defs)
  show "layout_valid m' g_pages"
    using sn len ok [THEN snapshot_ok_is_valid]
    by (simp add: layout_valid_def g_pages_defs pages_sorted_def page_valid_def)
  show "snapshot_ok s \<and> readers (sn_state s) 0 = 0 \<and> readers (sn_state s) 1 = 0" if "snapshots m' a = Some s" for a s
  proof -
    have "dom (snapshots m') = {0, 1, 2}" using assms(4) by (simp add: m'_def pages_mem_def insert_commute)
    moreover have "a \<in> dom (snapshots m')" using that by (rule domI)
    ultimately have "a \<in> {0, 1, 2}" by simp
    then have "s \<in> {fresh_snapshot info, fresh_snapshot status, fresh_snapshot crash}" using that sn by auto
    then show ?thesis using ok free by fastforce
  qed
qed

lemma pages_served:
  assumes "length info = 8" "length status = 12" "length crash = 24" "dom (snapshots m) = {0, 1, 2}"
    "queues m = (\<lambda>_. None)"
  shows "lib_regmap_init (Some rm) (Some g_pages) 3 (pages_mem info status crash m)
      = Some (True, Some (initialised rm g_pages 3))"
    and "te_regmap e = Some (initialised rm g_pages 3) \<Longrightarrow> te_direction e = Engine_Idle \<Longrightarrow>
      simulates g_pages (demo_view info status crash) 0 0 e (pages_mem info status crash m)
        \<lparr>ee_pointer = 0, ee_phase = Phase_Idle, ee_commands = [], ee_dropped = 0\<rparr>"
proof -
  let ?m = "pages_mem info status crash m"
  note valid = pages_layout_valid [OF assms(1-4)]
  have three: "unat (3 :: u16) \<le> length g_pages" "take (unat (3 :: u16)) g_pages = g_pages" by (simp_all add: g_pages_def)
  show init: "lib_regmap_init (Some rm) (Some g_pages) 3 ?m = Some (True, Some (initialised rm g_pages 3))"
    using regmap_init_eq [OF three(1) valid(2), of rm] valid(1) three(2) by simp
  have inv: "regmap_inv enqueue_callback queue_ready (initialised rm g_pages 3) ?m"
    by (rule regmap_init_establishes_invariant [OF init three(1) valid(2)])
      (use valid(3) in \<open>auto simp: g_pages_def LIB_REGMAP_ACCESS_READ_ONLY_def LIB_REGMAP_ACCESS_READ_WRITE_def\<close>)
  have sn: "snapshots ?m 0 = Some (fresh_snapshot info)" "snapshots ?m 1 = Some (fresh_snapshot status)"
    "snapshots ?m 2 = Some (fresh_snapshot crash)"
    by (simp_all add: pages_mem_def)
  have pub: "published (fresh_snapshot info) = info" "published (fresh_snapshot status) = status"
    "published (fresh_snapshot crash) = crash"
    by (rule fresh_snapshot_ok(2), use assms(1-3) in force, use assms(1-3) in simp)+
  have view: "register_view g_pages ?m = demo_view info status crash"
    unfolding g_pages_view [OF sn] pub ..
  have start: "rm_latched_page (initialised rm g_pages 3) = None" "rm_current_address (initialised rm g_pages 3) = 0"
    "queue_shows 0 0 ?m \<lparr>ee_pointer = 0, ee_phase = Phase_Idle, ee_commands = [], ee_dropped = 0\<rparr>"
    using assms(5) by (simp_all add: initialised_def queue_shows_def pages_mem_def)
  show "simulates g_pages (demo_view info status crash) 0 0 e ?m
        \<lparr>ee_pointer = 0, ee_phase = Phase_Idle, ee_commands = [], ee_dropped = 0\<rparr>"
    if "te_regmap e = Some (initialised rm g_pages 3)" "te_direction e = Engine_Idle"
    unfolding simulates_def
    by (rule exI [of _ "initialised rm g_pages 3"]) (use that inv view three(2) start in \<open>simp add: unlatched_current\<close>)
qed

text \<open>The protocol machine before the first transaction.\<close>

definition at_rest :: eeprom where
  "at_rest = \<lparr>ee_pointer = 0, ee_phase = Phase_Idle, ee_commands = [], ee_dropped = 0\<rparr>"

abbreviation demo_trace :: "'h regmap_demo \<Rightarrow> access list" where
  "demo_trace rd \<equiv> app_trace (rd_app rd)"

lemma demo_init_ran:
  fixes rd :: "'h regmap_demo"
  assumes "demo_storage rd" "lib_buildinfo_is_valid (Some b)" "length image_bytes = 24"
    "bd_mclk_hz (ap_board (rd_app rd)) \<in> {4000000, 32000000}"
  shows "\<exists>rd' tr. i2c_regmap_demo_init hw b image_bytes rd = Some (True, rd') \<and> demo_trace rd' = demo_trace rd @ tr
    \<and> it_initialized (rd_target rd') \<and> \<not> rd_status_published rd'
    \<and> simulates g_pages (demo_view (device_info b) (replicate 12 0) (crash_page (bd_crash_record (ap_board (rd_app rd))))) 0 0
        (it_engine (rd_target rd')) (rd_mem rd') at_rest
    \<and> (\<forall>d. board_up d hw (ap_board (rd_app rd')) = board_up d hw (ap_board (rd_app rd)))"
proof -
  let ?r = "bd_crash_record (ap_board (rd_app rd))" and ?m = "rd_mem rd"
  let ?m' = "pages_mem (device_info b) (replicate 12 0) (crash_page ?r) ?m"
  note st = assms(1) [unfolded demo_storage_def]
  have "\<exists>s. snapshots ?m a = Some s" if "a \<in> {0, 1, 2}" for a using st that by blast
  then obtain s0 s1 s2 where sn: "snapshots ?m 0 = Some s0" "snapshots ?m 1 = Some s1" "snapshots ?m 2 = Some s2"
    by (metis insertCI)
  define rd1 where "rd1 = rd\<lparr>rd_device_info_zero := device_info b\<rparr>"
  have mem1: "rd_mem rd1 = ?m" and app1: "rd_app rd1 = rd_app rd" and tgt1: "rd_target rd1 = rd_target rd"
    by (simp_all add: rd1_def rd_mem_def rd_target_def)
  have fields1: "rd_device_info_zero rd1 = device_info b" "rd_device_info_one rd1 = replicate 8 0"
    "rd_crash_zero rd1 = replicate 24 0" "rd_crash_one rd1 = replicate 24 0" "rd_status_zero rd1 = replicate 12 0"
    "rd_status_one rd1 = replicate 12 0" "rd_regmap rd1 = rd_regmap rd"
    using st by (simp_all add: rd1_def)
  let ?m1 = "?m\<lparr>snapshots := (snapshots ?m)(0 \<mapsto> fresh_snapshot (device_info b))\<rparr>"
  let ?m2 = "?m1\<lparr>snapshots := (snapshots ?m1)(2 \<mapsto> fresh_snapshot (crash_page ?r))\<rparr>"
  have ne: "device_info b \<noteq> []" "crash_page ?r \<noteq> []" by (simp_all add: length_0_conv [symmetric] del: length_0_conv)
  have a: "demo_snapshot_init 0 (device_info b) (replicate 8 0) (device_info b) rd1 = Some (True, set_rd_mem ?m1 rd1)"
    using demo_snapshot_init_eq [of rd1 0 s0 "device_info b" "device_info b" "replicate 8 0"] sn ne by (simp add: mem1)
  have c: "demo_snapshot_init 2 (replicate 24 0) (replicate 24 0) (crash_page ?r) (set_rd_mem ?m1 rd1) = Some (True, set_rd_mem ?m2 rd1)"
    using demo_snapshot_init_eq [of "set_rd_mem ?m1 rd1" 2 s2 "replicate 24 0" "crash_page ?r" "replicate 24 0"] sn ne by simp
  have d: "demo_snapshot_init 1 (replicate 12 0) (replicate 12 0) (replicate 12 0) (set_rd_mem ?m2 rd1) = Some (True, set_rd_mem ?m' rd1)"
    using demo_snapshot_init_eq [of "set_rd_mem ?m2 rd1" 1 s1 "replicate 12 0" "replicate 12 0" "replicate 12 0"] sn
    by (simp add: pages_mem_def)
  have info: "lib_buildinfo_write_device_info (Some b) (Some (replicate 8 0)) 8 = Some (True, Some (device_info b))"
    by (rule write_device_info_eq [OF assms(2)]) simp
  have crash: "lib_crash_write_register_image (Some ?r) (Some image_bytes) 24 = Some (lib_crash_is_valid (Some ?r), Some (crash_page ?r))"
    using write_register_image_eq [of image_bytes 24 ?r] assms(3) by (simp add: crash_page_def)
  have served: "lib_regmap_init (Some (rd_regmap rd)) (Some g_pages) 3 ?m' = Some (True, Some (initialised (rd_regmap rd) g_pages 3))"
    using pages_served(1) [of "device_info b" "replicate 12 0" "crash_page ?r" ?m] st by simp
  let ?rm = "initialised (rd_regmap rd) g_pages 3"
  define rd2 where "rd2 = (set_rd_mem ?m' rd1)\<lparr>rd_regmap := ?rm\<rparr>"
  let ?bd = "ap_board (rd_app rd2)"
  have pre: "bd_mclk_hz ?bd \<in> {4000000, 32000000}" "\<not> bd_i2c1_claimed ?bd" "\<not> it_initialized (bd_target ?bd)"
    using assms(4) st by (simp_all add: rd2_def rd1_def set_rd_mem_def rd_target_def Let_def)
  obtain bd' tr where start: "board_i2c1_target_init hw (Some ?rm) ?bd = Some (True, bd')"
    "mc_trace (bd_machine bd') = mc_trace (bd_machine ?bd) @ tr" "it_initialized (bd_target bd')"
    "it_mem (bd_target bd') = it_mem (bd_target ?bd)" "te_regmap (it_engine (bd_target bd')) = Some ?rm"
    "te_direction (it_engine (bd_target bd')) = Engine_Idle" "\<forall>d. board_up d hw bd' = board_up d hw ?bd"
    using target_starts [OF pre, of hw ?rm] by auto
  define rd3 where "rd3 = rd2\<lparr>rd_app := (rd_app rd2)\<lparr>ap_board := bd'\<rparr>\<rparr>"
  have three: "length g_pages = 3" by (simp add: g_pages_def)
  have run: "i2c_regmap_demo_init hw b image_bytes rd = Some (True, rd3)"
    using st info crash a c d served start(1) three assms(3) fields1
    by (simp add: i2c_regmap_demo_init_def demo_snapshot_addresses rd1_def [symmetric] app1 Let_def on_demo_app_def
        on_board_def rd2_def rd3_def)
  have mem3: "rd_mem rd3 = ?m'" and same: "app_trace (rd_app rd2) = app_trace (rd_app rd)"
    "\<forall>d. board_up d hw ?bd = board_up d hw (ap_board (rd_app rd))"
    using start(4) by (simp_all add: rd3_def rd2_def rd1_def rd_mem_def rd_target_def set_rd_mem_def Let_def board_up_def)
  have sim: "simulates g_pages (demo_view (device_info b) (replicate 12 0) (crash_page ?r)) 0 0 (it_engine (rd_target rd3))
      (rd_mem rd3) at_rest"
    unfolding mem3 at_rest_def
    by (rule pages_served(2)) (use st start(5,6) in \<open>simp_all add: rd3_def rd_target_def\<close>)
  have pub: "\<not> rd_status_published rd3" using st by (simp add: rd3_def rd2_def rd1_def)
  show ?thesis
    by (rule exI [of _ rd3], rule exI [of _ tr]) (use run sim pub start(2,3,7) same in \<open>simp add: rd3_def rd_target_def\<close>)
qed

text \<open>Everything of the demonstration but its application.\<close>

lemma demo_storage_app:
  assumes "demo_storage rd" "bd_target (ap_board ap) = bd_target (ap_board (rd_app rd))"
    "bd_i2c1_claimed (ap_board ap) = bd_i2c1_claimed (ap_board (rd_app rd))"
  shows "demo_storage (rd\<lparr>rd_app := ap\<rparr>)"
  using assms by (simp add: demo_storage_def rd_target_def rd_mem_def)

lemma demo_start_ran:
  fixes rd :: "'h regmap_demo"
  assumes "power_on (rd_app rd)" "demo_storage rd" "lib_buildinfo_is_valid (Some b)" "length image_bytes = 24"
  shows "\<exists>v rd' tr. regmap_demo_start_fails debug_enabled hw b image_bytes rd = Some (v AND 1 \<noteq> 1, rd')
    \<and> demo_trace rd' = demo_trace rd @ tr @ [Read (WWDT0 WWDT_STAT) v]
    \<and> it_initialized (rd_target rd') \<and> \<not> rd_status_published rd'
    \<and> simulates g_pages (demo_view (device_info b) (replicate 12 0) (crash_page (bd_crash_record (ap_board (rd_app rd))))) 0 0
        (it_engine (rd_target rd')) (rd_mem rd') at_rest
    \<and> board_up debug_enabled hw (ap_board (rd_app rd'))"
proof -
  obtain r ap1 tr1 where b1: "on_board (board_init debug_enabled hw) (rd_app rd) = Some (r, ap1)"
    "r \<in> {Board_Ok, Board_Clock_Fallback}" "bd_mclk_hz (ap_board ap1) = (if r = Board_Ok then 32000000 else 4000000)"
    "app_trace ap1 = demo_trace rd @ tr1" "board_up debug_enabled hw (ap_board ap1)"
    "board_same (ap_board (rd_app rd)) (ap_board ap1)" "ap_timer ap1 = ap_timer (rd_app rd)"
    using board_init_up [OF assms(1), of debug_enabled hw] by blast
  have wf: "well_formed_scs (tm_scs (ap_timer ap1))" "bd_mclk_hz (ap_board ap1) \<in> {4000000, 32000000}"
    using assms(1) b1(3,7) by (simp_all add: power_on_def)
  obtain ap2 where b2: "on_timer (hal_timer_init_1ms (bd_mclk_hz (ap_board ap1))) ap1 = Some (True, ap2)"
    "ap_board ap2 = ap_board ap1"
    using timer_up [OF wf] by blast
  define rd2 where "rd2 = rd\<lparr>rd_app := ap2\<rparr>"
  have storage: "demo_storage rd2"
    unfolding rd2_def by (rule demo_storage_app [OF assms(2)]) (use b1(6) b2(2) in \<open>simp_all add: board_same_def\<close>)
  have mclk: "bd_mclk_hz (ap_board (rd_app rd2)) \<in> {4000000, 32000000}" using wf(2) b2(2) by (simp add: rd2_def)
  obtain rd3 tr3 where b3: "i2c_regmap_demo_init hw b image_bytes rd2 = Some (True, rd3)" "demo_trace rd3 = demo_trace rd2 @ tr3"
    "it_initialized (rd_target rd3)" "\<not> rd_status_published rd3"
    "simulates g_pages (demo_view (device_info b) (replicate 12 0) (crash_page (bd_crash_record (ap_board (rd_app rd2))))) 0 0
        (it_engine (rd_target rd3)) (rd_mem rd3) at_rest"
    "\<forall>d. board_up d hw (ap_board (rd_app rd3)) = board_up d hw (ap_board (rd_app rd2))"
    using demo_init_ran [OF storage assms(3,4) mclk, of hw] by blast
  obtain v ap4 tr4 where b4: "on_board (on_machine (hal_wdt_init hw)) (rd_app rd3) = Some (v AND 1 = 1, ap4)"
    "app_trace ap4 = demo_trace rd3 @ tr4 @ [Read (WWDT0 WWDT_STAT) v]"
    "\<forall>d. board_up d hw (ap_board ap4) = board_up d hw (ap_board (rd_app rd3))"
    "board_same (ap_board (rd_app rd3)) (ap_board ap4)"
    using watchdog_up [of hw "rd_app rd3"] by blast
  define rd4 where "rd4 = rd3\<lparr>rd_app := ap4\<rparr>"
  have run: "regmap_demo_start_fails debug_enabled hw b image_bytes rd = Some (v AND 1 \<noteq> 1, rd4)"
    using b1(1,2) b2(1) b3(1) b4(1)
    by (auto simp: regmap_demo_start_fails_def on_demo_app_def rd2_def rd4_def)
  have tgt: "rd_target rd4 = rd_target rd3" "rd_mem rd4 = rd_mem rd3"
    using b4(4) by (simp_all add: rd4_def rd_target_def rd_mem_def board_same_def)
  have rec: "bd_crash_record (ap_board (rd_app rd2)) = bd_crash_record (ap_board (rd_app rd))"
    using b1(6) b2(2) by (simp add: rd2_def board_same_def)
  have up: "board_up debug_enabled hw (ap_board (rd_app rd4))"
    using b4(3) b3(6) b1(5) b2(2) by (simp add: rd4_def rd2_def)
  have tr: "demo_trace rd4 = demo_trace rd @ (tr1 @ tr3 @ tr4) @ [Read (WWDT0 WWDT_STAT) v]"
    using b4(2) b3(2) b2(2) b1(4) by (simp add: rd4_def rd2_def)
  show ?thesis
    by (rule exI [of _ v], rule exI [of _ rd4], rule exI [of _ "tr1 @ tr3 @ tr4"])
      (use run tr up tgt b3(3,4) b3(5) [unfolded rec] in \<open>simp add: rd4_def\<close>)
qed

lemma demo_main_ran:
  fixes rd :: "'h regmap_demo"
  assumes "power_on (rd_app rd)" "demo_storage rd" "lib_buildinfo_is_valid (Some b)" "length image_bytes = 24"
  shows "\<exists>v rd' tr tr'. regmap_demo_main debug_enabled hw b image_bytes rd
      = Some (if v AND 1 = 1 then Publish_Loop else Failed_Loop (Wait_Loop False), rd')
    \<and> demo_trace rd' = demo_trace rd @ tr @ [Read (WWDT0 WWDT_STAT) v] @ tr'
    \<and> it_initialized (rd_target rd') \<and> \<not> rd_status_published rd'
    \<and> simulates g_pages (demo_view (device_info b) (replicate 12 0) (crash_page (bd_crash_record (ap_board (rd_app rd))))) 0 0
        (it_engine (rd_target rd')) (rd_mem rd') at_rest"
proof -
  obtain v rd1 tr where start: "regmap_demo_start_fails debug_enabled hw b image_bytes rd = Some (v AND 1 \<noteq> 1, rd1)"
    "demo_trace rd1 = demo_trace rd @ tr @ [Read (WWDT0 WWDT_STAT) v]"
    "it_initialized (rd_target rd1)" "\<not> rd_status_published rd1"
    "simulates g_pages (demo_view (device_info b) (replicate 12 0) (crash_page (bd_crash_record (ap_board (rd_app rd))))) 0 0
        (it_engine (rd_target rd1)) (rd_mem rd1) at_rest"
    "board_up debug_enabled hw (ap_board (rd_app rd1))"
    using demo_start_ran [OF assms, of debug_enabled hw] by blast
  show ?thesis
  proof (cases "v AND 1 = 1")
    case True
    have short: "length (ascii ''mspm-baremetal: i2c_regmap_demo'' @ crlf) < 2 ^ 32" by (simp add: ascii_def crlf_def)
    obtain ap2 tr2 where lit:
      "DBG_WRITE_LITERAL debug_enabled (ascii ''mspm-baremetal: i2c_regmap_demo'' @ crlf) (rd_app rd1) = Some ap2"
      "app_trace ap2 = demo_trace rd1 @ tr2" "board_same (ap_board (rd_app rd1)) (ap_board ap2)"
      using literal_up [OF start(6) short] by blast
    define rd2 where "rd2 = rd1\<lparr>rd_app := ap2\<rparr>"
    have run: "regmap_demo_main debug_enabled hw b image_bytes rd = Some (Publish_Loop, rd2)"
      using start(1) lit(1) True by (simp add: regmap_demo_main_def on_demo_app_def quietly_def rd2_def)
    have tgt: "rd_target rd2 = rd_target rd1" "rd_mem rd2 = rd_mem rd1"
      using lit(3) by (simp_all add: rd2_def rd_target_def rd_mem_def board_same_def)
    show ?thesis
      by (rule exI [of _ v], rule exI [of _ rd2], rule exI [of _ tr], rule exI [of _ tr2])
        (use run True start(2-5) lit(2) tgt in \<open>simp add: rd2_def\<close>)
  next
    case False
    obtain ap2 tr2 where led: "steady_led hw False (rd_app rd1) = Some (Wait_Loop False, ap2)"
      "app_trace ap2 = demo_trace rd1 @ tr2" "board_same (ap_board (rd_app rd1)) (ap_board ap2)"
      by (auto simp: steady_led_def board_led_red_set_def hal_gpio_output_set_def g_red_led_def mmio_write_def board_same_def)
    define rd2 where "rd2 = rd1\<lparr>rd_app := ap2\<rparr>"
    have run: "regmap_demo_main debug_enabled hw b image_bytes rd = Some (Failed_Loop (Wait_Loop False), rd2)"
      using start(1) led(1) False
      by (simp add: regmap_demo_main_def i2c_regmap_demo_fail_def on_demo_app_def rd2_def)
    have tgt: "rd_target rd2 = rd_target rd1" "rd_mem rd2 = rd_mem rd1"
      using led(3) by (simp_all add: rd2_def rd_target_def rd_mem_def board_same_def)
    show ?thesis
      by (rule exI [of _ v], rule exI [of _ rd2], rule exI [of _ tr], rule exI [of _ tr2])
        (use run False start(2-5) led(2) tgt in \<open>simp add: rd2_def\<close>)
  qed
qed

section \<open>The status page\<close>

definition status_bytes :: "u32 \<Rightarrow> u32 \<Rightarrow> u32 \<Rightarrow> u8 list" where
  "status_bytes errors rejected unexpected = be32 errors @ be32 rejected @ be32 unexpected"

lemma length_status_bytes [simp]: "length (status_bytes e r u) = 12"
  by (simp add: status_bytes_def)

text \<open>What the page should show, and what was last published.\<close>

definition current_status :: "'h regmap_demo \<Rightarrow> u8 list" where
  "current_status rd = status_bytes (it_error_count (rd_target rd))
     (lib_regmap_snapshot_publish_rejected_count (snapshots (rd_mem rd) 1)) (it_unexpected_event_count (rd_target rd))"

definition last_status :: "'h regmap_demo \<Rightarrow> u8 list" where
  "last_status rd = status_bytes (rd_status_last_error_count rd) (rd_status_last_publish_rejected_count rd)
     (rd_status_last_unexpected_event_count rd)"

lemma status_written:
  "do {
     status \<leftarrow> i2c_regmap_demo_write_u32_be (replicate 12 0) I2C_REGMAP_DEMO_STATUS_ERROR_COUNT_OFFSET e;
     status \<leftarrow> i2c_regmap_demo_write_u32_be status I2C_REGMAP_DEMO_STATUS_PUBLISH_REJECTED_OFFSET r;
     i2c_regmap_demo_write_u32_be status I2C_REGMAP_DEMO_STATUS_UNEXPECTED_EVENT_OFFSET u
   } = Some (status_bytes e r u)"
proof -
  have crash: "i2c_regmap_demo_write_u32_be bytes offset v = lib_crash_write_u32_be bytes (unat offset) v" for bytes offset v
    by (simp add: i2c_regmap_demo_write_u32_be_def lib_crash_write_u32_be_def)
  let ?z = "replicate 4 (0 :: u8)"
  have z: "replicate 12 0 = ?z @ ?z @ ?z" by (simp add: replicate_add [symmetric])
  have "lib_crash_write_u32_be (?z @ ?z @ ?z) 0 e = Some (be32 e @ ?z @ ?z)"
    using write_u32_be_eq [of "[]" 0 ?z "?z @ ?z" e] by simp
  moreover have "lib_crash_write_u32_be (be32 e @ ?z @ ?z) 4 r = Some (be32 e @ be32 r @ ?z)"
    using write_u32_be_eq [of "be32 e" 4 ?z ?z r] by simp
  moreover have "lib_crash_write_u32_be (be32 e @ be32 r @ ?z) 8 u = Some (status_bytes e r u)"
    using write_u32_be_eq [of "be32 e @ be32 r" 8 ?z "[]" u] by (simp add: status_bytes_def)
  ultimately show ?thesis
    unfolding crash z by (simp add: demo_status_consts)
qed

lemma demo_view_inj:
  assumes "demo_view info status crash = demo_view info' status' crash'"
    and "length info = 8" "length status = 12" "length crash = 24" "length info' = 8" "length status' = 12" "length crash' = 24"
  shows "info = info'" "status = status'" "crash = crash'"
proof -
  have at: "demo_view info status crash (of_nat k) = demo_view info' status' crash' (of_nat k)" for k
    by (simp add: assms(1))
  have small: "k < 65536 \<Longrightarrow> unat (of_nat k :: u16) = k" for k by (simp add: unat_of_nat)
  show "info = info'"
  proof (rule nth_equalityI)
    fix k assume "k < length info"
    with at [of k] small [of k] assms(2) show "info ! k = info' ! k" by (simp add: demo_view_def)
  qed (simp add: assms)
  show "status = status'"
  proof (rule nth_equalityI)
    fix k assume "k < length status"
    with at [of "0x300 + k"] small [of "0x300 + k"] assms(3) show "status ! k = status' ! k"
      by (simp add: demo_view_def del: of_nat_add)
  qed (simp add: assms)
  show "crash = crash'"
  proof (rule nth_equalityI)
    fix k assume "k < length crash"
    with at [of "0x400 + k"] small [of "0x400 + k"] assms(4) show "crash ! k = crash' ! k"
      by (simp add: demo_view_def del: of_nat_add)
  qed (simp add: assms)
qed

text \<open>The firmware at work: the driver is initialised, the engine runs the protocol over the three pages, and once
  published the status page shows what was last published.\<close>

definition demo_serving :: "u8 list \<Rightarrow> u8 list \<Rightarrow> 'h regmap_demo \<Rightarrow> eeprom \<Rightarrow> bool" where
  "demo_serving info crash rd s \<longleftrightarrow> it_initialized (rd_target rd) \<and> length info = 8 \<and> length crash = 24
     \<and> (\<exists>status. length status = 12
        \<and> simulates g_pages (demo_view info status crash) 0 0 (it_engine (rd_target rd)) (rd_mem rd) s
        \<and> (rd_status_published rd \<longrightarrow> status = last_status rd))"

text \<open>The transaction in progress, if there is one, reads the status page.\<close>

definition status_latched :: "'h regmap_demo \<Rightarrow> bool" where
  "status_latched rd \<longleftrightarrow> (case te_regmap (it_engine (rd_target rd)) of None \<Rightarrow> False
     | Some rm \<Rightarrow> rm_latched_page rm = Some 1)"

lemma serving_not_latched:
  "demo_serving info crash rd s \<Longrightarrow> ee_phase s \<noteq> Phase_Read \<Longrightarrow> \<not> status_latched rd"
  by (auto simp: demo_serving_def simulates_def status_latched_def)

lemma g_pages_snapshots:
  assumes "regmap_inv enqueue_callback queue_ready rm m" "table rm = g_pages"
  obtains s0 s1 s2 where "snapshots m 0 = Some s0" "snapshots m 1 = Some s1" "snapshots m 2 = Some s2"
    "snapshot_ok s0" "snapshot_ok s1" "snapshot_ok s2" "sn_length s0 = 8" "sn_length s1 = 12" "sn_length s2 = 24"
  using assms by (auto simp: regmap_inv_def g_pages_defs page_ok_def)

lemma length_published: "snapshot_ok s \<Longrightarrow> length (published s) = unat (sn_length s)"
  by (simp add: published_def length_snapshot_image)

lemma status_published:
  assumes sim: "simulates g_pages (demo_view info status crash) 0 0 e m s"
    and len: "length info = 8" "length status = 12" "length crash = 24" "length d = 12"
    and free: "\<And>rm. te_regmap e = Some rm \<Longrightarrow> rm_latched_page rm \<noteq> Some 1"
  shows "\<exists>s1 s1'. snapshots m 1 = Some s1 \<and> lib_regmap_snapshot_publish (Some s1) (Some d) 12 = Some (True, Some s1')
    \<and> sn_publish_rejected_count s1' = sn_publish_rejected_count s1
    \<and> simulates g_pages (demo_view info d crash) 0 0 e (m\<lparr>snapshots := (snapshots m)(1 \<mapsto> s1')\<rparr>) s"
proof -
  obtain rm where r: "te_regmap e = Some rm" "regmap_inv enqueue_callback queue_ready rm m" "latch_current rm m"
    "table rm = g_pages" "ee_phase s \<noteq> Phase_Read \<longrightarrow> rm_latched_page rm = None" "rm_current_address rm = ee_pointer s"
    "register_view g_pages m = demo_view info status crash" "phase_matches (ee_phase s) e" "queue_shows 0 0 m s"
    using sim by (auto simp: simulates_def)
  obtain s0 s1 s2 where sn: "snapshots m 0 = Some s0" "snapshots m 1 = Some s1" "snapshots m 2 = Some s2"
    "snapshot_ok s0" "snapshot_ok s1" "snapshot_ok s2" "sn_length s0 = 8" "sn_length s1 = 12" "sn_length s2 = 24"
    by (rule g_pages_snapshots [OF r(2,4)])
  have pub: "published s0 = info" "published s2 = crash"
    using demo_view_inj [of "published s0" "published s1" "published s2" info status crash] r(7) sn len
    unfolding g_pages_view [OF sn(1-3)] by (simp_all add: length_published)
  let ?i = "inactive_index (sn_state s1)"
  have "\<not> latched_on rm 1 ?i"
  proof
    assume "latched_on rm 1 ?i"
    then obtain i where i: "rm_latched_page rm = Some i" "pg_snapshot (g_pages ! i) = Some 1"
      using r(4) by (auto simp: latched_on_def split: option.splits)
    moreover have "i < length g_pages" using r(2,4) i(1) by (auto simp: regmap_inv_def latch_ok_def)
    then have "i \<in> {0, 1, 2}" by (auto simp: g_pages_def)
    ultimately have "i = 1" by (auto simp: g_pages_defs)
    then show False using free [OF r(1)] i(1) by simp
  qed
  then have none: "readers (sn_state s1) ?i = 0"
    using r(2) sn(2) by (auto simp: regmap_inv_def readers_exact_def)
  define s1' where "s1' = flip_active (fill_buffer s1 ?i d)"
  have d: "unat (sn_length s1) \<le> length d" using sn(8) len(4) by simp
  have run: "lib_regmap_snapshot_publish (Some s1) (Some d) 12 = Some (True, Some s1')"
    using lib_regmap_snapshot_publish_eq [OF sn(5) d, of 12] sn(8) none by (simp add: s1'_def Let_def)
  have act: "active_index (sn_state s1 XOR snapshot_active_mask) = ?i" by (simp add: inactive_index_eq)
  have shown: "snapshot_image (fill_buffer s1 ?i d) ?i = d"
    using image_fill_buffer [OF sn(5) inactive_index_ok inactive_index_ok d] sn(8) len(4) by simp
  have s1': "snapshot_ok s1'" "sn_length s1' = sn_length s1" "readers (sn_state s1') = readers (sn_state s1)"
    "sn_publish_rejected_count s1' = sn_publish_rejected_count s1" "published s1' = d"
    using sn(5,8) d len(4) act by (simp_all add: s1'_def fun_eq_iff published_def shown del: active_flip)
  let ?m = "m\<lparr>snapshots := (snapshots m)(1 \<mapsto> s1')\<rparr>"
  have inv: "regmap_inv enqueue_callback queue_ready rm ?m"
    by (rule publish_at_inv [OF r(2) sn(2,5) s1'(1-3)])
  have sn': "snapshots ?m 0 = Some s0" "snapshots ?m 1 = Some s1'" "snapshots ?m 2 = Some s2" using sn by simp_all
  have view: "register_view g_pages ?m = demo_view info d crash"
    unfolding g_pages_view [OF sn'] pub s1'(5) ..
  have cur: "latch_current rm ?m"
  proof (cases "rm_latched_page rm")
    case None
    then show ?thesis by (simp add: latch_current_def)
  next
    case (Some i)
    have "i < length g_pages" using r(2,4) Some by (auto simp: regmap_inv_def latch_ok_def)
    then have "i \<in> {0, 2}" using Some free [OF r(1)] by (auto simp: g_pages_def less_Suc_eq numeral_eq_Suc)
    then have "pg_snapshot (g_pages ! i) \<noteq> Some 1" by (auto simp: g_pages_defs)
    then show ?thesis using r(3,4) Some by (auto simp: latch_current_def split: option.splits)
  qed
  have "simulates g_pages (demo_view info d crash) 0 0 e ?m s"
    using r(1,4-6,8,9) inv cur view by (simp add: simulates_def queue_shows_def)
  with sn(2) run s1'(4) show ?thesis by blast
qed

text \<open>A round compares the counts with those last published, and publishes them if they differ.\<close>

definition status_due :: "'h regmap_demo \<Rightarrow> bool" where
  "status_due rd \<longleftrightarrow> \<not> (rd_status_published rd \<and> last_status rd = current_status rd)"

lemma be32_inj: "be32 v = be32 w \<longleftrightarrow> v = w"
proof
  have read: "read_be32 (be32 x) 0 = x" for x by (rule read_be32_at [of "[]" _ _ _ "[]"]) simp_all
  assume "be32 v = be32 w"
  then have "read_be32 (be32 v) 0 = read_be32 (be32 w) 0" by (rule arg_cong)
  then show "v = w" by (simp only: read)
qed (rule arg_cong)

lemma status_bytes_inj [simp]: "status_bytes e r u = status_bytes e' r' u' \<longleftrightarrow> e = e' \<and> r = r' \<and> u = u'"
  by (auto simp: status_bytes_def be32_inj)

lemma publish_status_ran:
  assumes "it_initialized (rd_target rd)" "snapshots (rd_mem rd) 1 = Some s1"
    and pub: "lib_regmap_snapshot_publish (Some s1) (Some (current_status rd)) 12 = Some (ok, Some s1')"
  shows "\<not> status_due rd \<Longrightarrow> i2c_regmap_demo_publish_status rd = Some rd"
    and "status_due rd \<Longrightarrow> \<exists>rd'. i2c_regmap_demo_publish_status rd = Some rd'
      \<and> rd_app rd' = rd_app (set_rd_mem ((rd_mem rd)\<lparr>snapshots := (snapshots (rd_mem rd))(1 \<mapsto> s1')\<rparr>) rd)
      \<and> (if ok then rd_status_published rd' \<and> last_status rd' = current_status rd
         else rd_status_published rd' = rd_status_published rd \<and> last_status rd' = last_status rd)"
proof -
  let ?e = "it_error_count (rd_target rd)" and ?r = "sn_publish_rejected_count s1"
    and ?u = "it_unexpected_event_count (rd_target rd)"
  let ?m = "(rd_mem rd)\<lparr>snapshots := (snapshots (rd_mem rd))(1 \<mapsto> s1')\<rparr>"
  have cur: "current_status rd = status_bytes ?e ?r ?u"
    using assms(2) by (simp add: current_status_def lib_regmap_snapshot_publish_rejected_count_def)
  have due: "status_due rd \<longleftrightarrow> \<not> (rd_status_published rd \<and> ?e = rd_status_last_error_count rd
      \<and> ?r = rd_status_last_publish_rejected_count rd \<and> ?u = rd_status_last_unexpected_event_count rd)"
    by (auto simp: status_due_def cur last_status_def)
  note unfold = i2c_regmap_demo_publish_status_def hal_i2c_target_error_count_def hal_i2c_target_unexpected_event_count_def
    deref_snapshot_def g_status_snapshot_def lib_regmap_snapshot_publish_rejected_count_def put_snapshot_def
  show "i2c_regmap_demo_publish_status rd = Some rd" if "\<not> status_due rd"
    using that assms(1,2) unfolding due by (simp add: unfold)
  assume publish: "status_due rd"
  define rd' where "rd' = (if ok then (set_rd_mem ?m rd)\<lparr>rd_status_last_error_count := ?e,
      rd_status_last_publish_rejected_count := ?r, rd_status_last_unexpected_event_count := ?u, rd_status_published := True\<rparr>
    else set_rd_mem ?m rd)"
  have "i2c_regmap_demo_write_u32_be (replicate 12 0) I2C_REGMAP_DEMO_STATUS_ERROR_COUNT_OFFSET ?e \<bind>
      (\<lambda>status. i2c_regmap_demo_write_u32_be status I2C_REGMAP_DEMO_STATUS_PUBLISH_REJECTED_OFFSET ?r \<bind>
        (\<lambda>status. i2c_regmap_demo_write_u32_be status I2C_REGMAP_DEMO_STATUS_UNEXPECTED_EVENT_OFFSET ?u))
    = Some (current_status rd)"
    using status_written [of ?e ?r ?u] cur by simp
  then obtain b1 b2 where w: "i2c_regmap_demo_write_u32_be (replicate 12 0) I2C_REGMAP_DEMO_STATUS_ERROR_COUNT_OFFSET ?e = Some b1"
    "i2c_regmap_demo_write_u32_be b1 I2C_REGMAP_DEMO_STATUS_PUBLISH_REJECTED_OFFSET ?r = Some b2"
    "i2c_regmap_demo_write_u32_be b2 I2C_REGMAP_DEMO_STATUS_UNEXPECTED_EVENT_OFFSET ?u = Some (current_status rd)"
    by (auto simp: bind_eq_Some_conv)
  have len: "length (current_status rd) = 12" "unat I2C_REGMAP_DEMO_STATUS_SIZE = 12"
    by (simp_all add: cur I2C_REGMAP_DEMO_STATUS_SIZE_def)
  have run: "i2c_regmap_demo_publish_status rd = Some rd'"
    using assms(1,2) pub publish [unfolded due] w len by (auto simp: unfold Let_def rd'_def)
  then show "\<exists>rd'. i2c_regmap_demo_publish_status rd = Some rd' \<and> rd_app rd' = rd_app (set_rd_mem ?m rd)
      \<and> (if ok then rd_status_published rd' \<and> last_status rd' = current_status rd
         else rd_status_published rd' = rd_status_published rd \<and> last_status rd' = last_status rd)"
    by (intro exI [of _ rd'] conjI) (simp_all add: rd'_def last_status_def cur)
qed

lemma set_rd_mem_target:
  assumes "rd_app rd' = rd_app (set_rd_mem m rd)"
  shows "it_engine (rd_target rd') = it_engine (rd_target rd)" "rd_mem rd' = m"
    "it_initialized (rd_target rd') = it_initialized (rd_target rd)"
    "it_error_count (rd_target rd') = it_error_count (rd_target rd)"
    "it_unexpected_event_count (rd_target rd') = it_unexpected_event_count (rd_target rd)"
    "bd_machine (ap_board (rd_app rd')) = bd_machine (ap_board (rd_app rd))"
  using assms by (simp_all add: rd_target_def rd_mem_def set_rd_mem_def Let_def)

lemma publish_status_serves:
  assumes "demo_serving info crash rd s" "\<not> status_latched rd"
  shows "\<exists>rd' m. i2c_regmap_demo_publish_status rd = Some rd' \<and> rd_app rd' = rd_app (set_rd_mem m rd) \<and> rd_status_published rd'
    \<and> last_status rd' = current_status rd \<and> current_status rd' = current_status rd
    \<and> simulates g_pages (demo_view info (current_status rd) crash) 0 0 (it_engine (rd_target rd')) (rd_mem rd') s"
proof -
  obtain status where st: "length info = 8" "length status = 12" "length crash = 24"
    "simulates g_pages (demo_view info status crash) 0 0 (it_engine (rd_target rd)) (rd_mem rd) s"
    "rd_status_published rd \<longrightarrow> status = last_status rd" and running: "it_initialized (rd_target rd)"
    using assms(1) by (auto simp: demo_serving_def)
  have free: "te_regmap (it_engine (rd_target rd)) = Some rm \<Longrightarrow> rm_latched_page rm \<noteq> Some 1" for rm
    using assms(2) by (simp add: status_latched_def)
  obtain s1 s1' where p: "snapshots (rd_mem rd) 1 = Some s1"
    "lib_regmap_snapshot_publish (Some s1) (Some (current_status rd)) 12 = Some (True, Some s1')"
    "sn_publish_rejected_count s1' = sn_publish_rejected_count s1"
    "simulates g_pages (demo_view info (current_status rd) crash) 0 0 (it_engine (rd_target rd))
      ((rd_mem rd)\<lparr>snapshots := (snapshots (rd_mem rd))(1 \<mapsto> s1')\<rparr>) s"
    using status_published [OF st(4,1-3) _ free, of "current_status rd"] by (auto simp: current_status_def)
  note ran = publish_status_ran [OF running p(1,2)]
  show ?thesis
  proof (cases "status_due rd")
    case False
    then have "rd_app rd = rd_app (set_rd_mem (rd_mem rd) rd)" "last_status rd = current_status rd" "rd_status_published rd"
      by (simp_all add: set_rd_mem_def rd_mem_def rd_target_def Let_def status_due_def)
    then show ?thesis using st(4,5) ran(1) [OF False] by (metis (no_types))
  next
    case True
    from ran(2) [OF True] obtain rd' where rd': "i2c_regmap_demo_publish_status rd = Some rd'"
      "rd_app rd' = rd_app (set_rd_mem ((rd_mem rd)\<lparr>snapshots := (snapshots (rd_mem rd))(1 \<mapsto> s1')\<rparr>) rd)"
      "rd_status_published rd'" "last_status rd' = current_status rd"
      by auto
    note tgt = set_rd_mem_target [OF rd'(2)]
    have "current_status rd' = current_status rd"
      using tgt p(1,3) by (simp add: current_status_def lib_regmap_snapshot_publish_rejected_count_def)
    with rd' p(4) show ?thesis unfolding tgt(1,2) [symmetric] by blast
  qed
qed

section \<open>Rounds and interrupts\<close>

lemma round_after_publish:
  assumes "i2c_regmap_demo_publish_status rd = Some rd1"
  obtains rd' where "regmap_demo_round hw rd = Some rd'" "rd_target rd' = rd_target rd1" "rd_mem rd' = rd_mem rd1"
    "rd_status_published rd' = rd_status_published rd1" "last_status rd' = last_status rd1"
    "current_status rd' = current_status rd1"
    "demo_trace rd' = demo_trace rd1 @ [Write (WWDT0 WWDT_CNTRST) HAL_WDT_RESTART_KEY, Wfi]"
    "\<And>p. drains hw p \<Longrightarrow> p (mc_device (bd_machine (ap_board (rd_app rd'))))
      \<le> p (mc_device (bd_machine (ap_board (rd_app rd1))))"
proof -
  obtain ap where ap: "app_kick hw (rd_app rd1) = Some ap" "bd_target (ap_board ap) = bd_target (ap_board (rd_app rd1))"
    "app_trace ap = demo_trace rd1 @ [Write (WWDT0 WWDT_CNTRST) HAL_WDT_RESTART_KEY]"
    "mc_device (bd_machine (ap_board ap)) = hw_write hw (WWDT0 WWDT_CNTRST) HAL_WDT_RESTART_KEY
       (mc_device (bd_machine (ap_board (rd_app rd1))))"
    by (simp add: app_call_defs)
  obtain ap' where ap': "arch_wait_for_interrupt ap = Some ap'" "bd_target (ap_board ap') = bd_target (ap_board ap)"
    "app_trace ap' = app_trace ap @ [Wfi]" "mc_device (bd_machine (ap_board ap')) = mc_device (bd_machine (ap_board ap))"
    by (simp add: app_call_defs)
  define rd' where "rd' = rd1\<lparr>rd_app := ap'\<rparr>"
  have run: "regmap_demo_round hw rd = Some rd'"
    using assms ap(1) ap'(1) by (simp add: regmap_demo_round_def on_demo_app_def quietly_def rd'_def)
  have same: "rd_target rd' = rd_target rd1" "rd_mem rd' = rd_mem rd1" "rd_status_published rd' = rd_status_published rd1"
    "last_status rd' = last_status rd1" "current_status rd' = current_status rd1"
    using ap(2) ap'(2) by (simp_all add: rd'_def rd_target_def rd_mem_def last_status_def current_status_def)
  show thesis
    by (rule that [OF run same]) (use ap(3,4) ap'(3,4) drains_write in \<open>simp_all add: rd'_def\<close>)
qed

lemma round_serves:
  assumes "demo_serving info crash rd s" "\<not> status_latched rd"
  shows "\<exists>rd'. regmap_demo_round hw rd = Some rd' \<and> demo_serving info crash rd' s
    \<and> simulates g_pages (demo_view info (current_status rd) crash) 0 0 (it_engine (rd_target rd')) (rd_mem rd') s
    \<and> current_status rd' = current_status rd
    \<and> demo_trace rd' = demo_trace rd @ [Write (WWDT0 WWDT_CNTRST) HAL_WDT_RESTART_KEY, Wfi]
    \<and> (\<forall>p. drains hw p \<longrightarrow> p (mc_device (bd_machine (ap_board (rd_app rd'))))
        \<le> p (mc_device (bd_machine (ap_board (rd_app rd)))))"
proof -
  obtain rd1 m where p: "i2c_regmap_demo_publish_status rd = Some rd1" "rd_app rd1 = rd_app (set_rd_mem m rd)"
    "rd_status_published rd1" "last_status rd1 = current_status rd" "current_status rd1 = current_status rd"
    "simulates g_pages (demo_view info (current_status rd) crash) 0 0 (it_engine (rd_target rd1)) (rd_mem rd1) s"
    using publish_status_serves [OF assms] by blast
  note tgt = set_rd_mem_target [OF p(2)]
  obtain rd' where r: "regmap_demo_round hw rd = Some rd'" "rd_target rd' = rd_target rd1" "rd_mem rd' = rd_mem rd1"
    "rd_status_published rd' = rd_status_published rd1" "last_status rd' = last_status rd1"
    "current_status rd' = current_status rd1"
    "demo_trace rd' = demo_trace rd1 @ [Write (WWDT0 WWDT_CNTRST) HAL_WDT_RESTART_KEY, Wfi]"
    "\<And>p. drains hw p \<Longrightarrow> p (mc_device (bd_machine (ap_board (rd_app rd'))))
      \<le> p (mc_device (bd_machine (ap_board (rd_app rd1))))"
    using round_after_publish [OF p(1), where hw = hw] by blast
  have "length (current_status rd) = 12" by (simp add: current_status_def)
  then have "demo_serving info crash rd' s"
    using assms(1) p(3,4,6) r(2-5) tgt(3) unfolding demo_serving_def by auto
  then show ?thesis
    by (intro exI [of _ rd'] conjI) (use r p(5,6) tgt(6) in simp_all)
qed

lemma g_pages_read_only: "is_writable g_pages = (\<lambda>_. False)" "shares_queue g_pages a"
  by (auto simp: fun_eq_iff is_writable_def writable_at_def g_pages_def shares_queue_def
      LIB_REGMAP_ACCESS_READ_ONLY_def LIB_REGMAP_ACCESS_READ_WRITE_def split: option.splits)

text \<open>The target driver as the interrupt finds it, with the machine of the board.\<close>

definition live_target :: "'h regmap_demo \<Rightarrow> 'h i2c_target" where
  "live_target rd = (rd_target rd)\<lparr>it_machine := bd_machine (ap_board (rd_app rd))\<rparr>"

text \<open>Whatever protocol the engine follows, the interrupt of the demonstration runs it and keeps the rest of the
  application.\<close>

context bus_protocol
begin

lemma demo_interrupt_serves:
  assumes "rel s (it_engine (rd_target rd)) (rd_mem rd)" "it_initialized (rd_target rd)"
    and "drains hw pending" "pending (mc_device (bd_machine (ap_board (rd_app rd)))) < fuel"
  obtains rd' tr where "demo_interrupt hw fuel rd = Some rd'" "it_initialized (rd_target rd')"
    "rel (snd (machine_run step (irq_events hw fuel (live_target rd)) s)) (it_engine (rd_target rd')) (rd_mem rd')"
    "demo_trace rd' = demo_trace rd @ tr"
    "map ucast (seen (I2C1 I2C_SRXDATA) tr) = bytes_in (irq_events hw fuel (live_target rd))"
    "map ucast (written (I2C1 I2C_STXDATA) tr) = bytes_sent (fst (machine_run step (irq_events hw fuel (live_target rd)) s))"
    "rd_status_published rd' = rd_status_published rd" "last_status rd' = last_status rd"
proof -
  let ?st = "live_target rd"
  have st: "it_engine ?st = it_engine (rd_target rd)" "it_mem ?st = rd_mem rd" "it_machine ?st = bd_machine (ap_board (rd_app rd))"
    "it_initialized ?st"
    using assms(2) by (simp_all add: live_target_def rd_mem_def)
  obtain st' where run: "irq_loop hw fuel ?st = Some st'" "serves rel step ?st s (irq_events hw fuel ?st) st'"
    using irq_loop_serves [of s ?st hw pending fuel] assms(1,3,4) st(1-3) by auto
  then obtain tr where sv: "rel (snd (machine_run step (irq_events hw fuel ?st) s)) (it_engine st') (it_mem st')"
    "it_initialized st'" "mc_trace (it_machine st') = demo_trace rd @ tr"
    "map ucast (seen (I2C1 I2C_SRXDATA) tr) = bytes_in (irq_events hw fuel ?st)"
    "map ucast (written (I2C1 I2C_STXDATA) tr) = bytes_sent (fst (machine_run step (irq_events hw fuel ?st) s))"
    using st(3,4) by (auto simp: serves_def)
  define rd' where "rd' = rd\<lparr>rd_app := (rd_app rd)\<lparr>ap_board := (ap_board (rd_app rd))\<lparr>bd_machine := it_machine st', bd_target := st'\<rparr>\<rparr>\<rparr>"
  have int: "demo_interrupt hw fuel rd = Some rd'"
    using run(1) st(4)
    by (simp add: demo_interrupt_def on_demo_app_def on_board_def on_target_def quietly_def I2C1_IRQHandler_def rd'_def
        live_target_def rd_target_def)
  have tgt: "rd_target rd' = st'" "rd_mem rd' = it_mem st'" "demo_trace rd' = mc_trace (it_machine st')"
    "rd_status_published rd' = rd_status_published rd" "last_status rd' = last_status rd"
    by (simp_all add: rd'_def rd_target_def rd_mem_def last_status_def)
  show thesis by (rule that [OF int, of tr]) (simp_all add: tgt sv)
qed

end

lemma interrupt_serves:
  assumes "demo_serving info crash rd s"
    and "simulates g_pages (demo_view info status crash) 0 0 (it_engine (rd_target rd)) (rd_mem rd) s"
    and "rd_status_published rd \<Longrightarrow> status = last_status rd" "length status = 12"
    and "drains hw pending" "pending (mc_device (bd_machine (ap_board (rd_app rd)))) < fuel"
  defines "evs \<equiv> irq_events hw fuel (live_target rd)"
  shows "\<exists>rd' tr. demo_interrupt hw fuel rd = Some rd'
    \<and> demo_serving info crash rd' (snd (eeprom_run (demo_view info status crash) (\<lambda>_. False) 0 evs s))
    \<and> demo_trace rd' = demo_trace rd @ tr
    \<and> map ucast (seen (I2C1 I2C_SRXDATA) tr) = bytes_in evs
    \<and> map ucast (written (I2C1 I2C_STXDATA) tr)
        = bytes_sent (fst (eeprom_run (demo_view info status crash) (\<lambda>_. False) 0 evs s))"
proof -
  have running: "it_initialized (rd_target rd)" and len: "length info = 8" "length crash = 24"
    using assms(1) by (simp_all add: demo_serving_def)
  show ?thesis
    by (rule eeprom.demo_interrupt_serves [OF conjI [OF assms(2) g_pages_read_only(2)] running assms(5,6)])
      (use assms(3,4) len in \<open>auto simp: demo_serving_def eeprom_machine g_pages_read_only(1) evs_def\<close>)
qed

section \<open>Properties\<close>

lemma g_buildinfo_valid:
  "lib_buildinfo_is_valid (Some (g_buildinfo major minor)) \<longleftrightarrow> lib_buildinfo_is_bcd major \<and> lib_buildinfo_is_bcd minor"
  by (auto simp: lib_buildinfo_is_valid_def lib_buildinfo_has_timestamp_def g_buildinfo_def)

lemma simulates_serving:
  assumes "it_initialized (rd_target rd)" "\<not> rd_status_published rd" "length info = 8" "length crash = 24"
    "simulates g_pages (demo_view info (replicate 12 0) crash) 0 0 (it_engine (rd_target rd)) (rd_mem rd) s"
  shows "demo_serving info crash rd s"
  unfolding demo_serving_def using assms by (intro conjI exI [of _ "replicate 12 0"]) simp_all

text \<open>The firmware serves its registers. From power-on, on any hardware and in any build whose version is BCD,
  \<open>main\<close> has no undefined behaviour and reaches its loop, the publishing one if the watchdog reported itself running
  and the failed one otherwise; the I2C target is then initialised and at rest, running its protocol over the register
  file with the version at 0x0000, zeros at 0x0300, the retained crash record (or zeros, if it is not valid) at 0x0400,
  and 0xff everywhere else.\<close>

theorem demo_serves_its_pages:
  assumes "power_on (rd_app rd)" "demo_storage rd" "lib_buildinfo_is_bcd major" "lib_buildinfo_is_bcd minor"
    and "length image_bytes = 24"
  shows "\<exists>v rd' tr tr'. regmap_demo_main debug_enabled hw (g_buildinfo major minor) image_bytes rd
      = Some (if v AND 1 = 1 then Publish_Loop else Failed_Loop (Wait_Loop False), rd')
    \<and> demo_trace rd' = demo_trace rd @ tr @ [Read (WWDT0 WWDT_STAT) v] @ tr'
    \<and> demo_serving [major, minor, 0, 0, 0, 0, 0, 0] (crash_page (bd_crash_record (ap_board (rd_app rd)))) rd' at_rest
    \<and> simulates g_pages (demo_view [major, minor, 0, 0, 0, 0, 0, 0] (replicate 12 0)
        (crash_page (bd_crash_record (ap_board (rd_app rd))))) 0 0 (it_engine (rd_target rd')) (rd_mem rd') at_rest"
proof -
  have valid: "lib_buildinfo_is_valid (Some (g_buildinfo major minor))" using assms(3,4) by (simp add: g_buildinfo_valid)
  have info: "device_info (g_buildinfo major minor) = [major, minor, 0, 0, 0, 0, 0, 0]"
    by (simp add: device_info_def g_buildinfo_def)
  obtain v rd' tr tr' where main: "regmap_demo_main debug_enabled hw (g_buildinfo major minor) image_bytes rd
      = Some (if v AND 1 = 1 then Publish_Loop else Failed_Loop (Wait_Loop False), rd')"
    "demo_trace rd' = demo_trace rd @ tr @ [Read (WWDT0 WWDT_STAT) v] @ tr'"
    "it_initialized (rd_target rd')" "\<not> rd_status_published rd'"
    "simulates g_pages (demo_view [major, minor, 0, 0, 0, 0, 0, 0] (replicate 12 0)
        (crash_page (bd_crash_record (ap_board (rd_app rd))))) 0 0 (it_engine (rd_target rd')) (rd_mem rd') at_rest"
    using demo_main_ran [OF assms(1,2) valid assms(5), of debug_enabled hw] unfolding info by blast
  have "demo_serving [major, minor, 0, 0, 0, 0, 0, 0] (crash_page (bd_crash_record (ap_board (rd_app rd)))) rd' at_rest"
    by (rule simulates_serving [OF main(3,4) _ _ main(5)]) simp_all
  with main(1,2,5) show ?thesis by blast
qed

text \<open>A device whose interrupt index clears when it is read, and cannot be written.\<close>

definition clearing_hardware :: "(reg \<Rightarrow> u32) hardware" where
  "clearing_hardware = \<lparr>hw_read = (\<lambda>r d. (d r, if r = I2C1 I2C_IIDX then d(r := 0) else d)),
     hw_write = (\<lambda>r v d. if r = I2C1 I2C_IIDX then d else d(r := v))\<rparr>"

definition waiting :: "(reg \<Rightarrow> u32) \<Rightarrow> nat" where
  "waiting d = (if d (I2C1 I2C_IIDX) AND IIDX_STAT_MASK = IIDX_NO_INTR then 0 else 1)"

lemma clearing_drains: "drains clearing_hardware waiting"
  by (simp add: drains_def clearing_hardware_def waiting_def IIDX_STAT_MASK_def IIDX_NO_INTR_def)

definition demo_rd :: "(reg \<Rightarrow> u32) regmap_demo" where
  "demo_rd = \<lparr>rd_app = demo_app\<lparr>ap_board := demo_board\<lparr>bd_target := (bd_target demo_board)\<lparr>it_mem :=
       \<lparr>snapshots = [0 \<mapsto> fresh_snapshot [], 1 \<mapsto> fresh_snapshot [], 2 \<mapsto> fresh_snapshot []], queues = (\<lambda>_. None)\<rparr>\<rparr>\<rparr>\<rparr>,
     rd_device_info_zero = replicate 8 0, rd_device_info_one = replicate 8 0, rd_status_zero = replicate 12 0,
     rd_status_one = replicate 12 0, rd_crash_zero = replicate 24 0, rd_crash_one = replicate 24 0,
     rd_regmap = \<lparr>rm_pages = None, rm_page_count = 0, rm_current_address = 0, rm_latched_page = None, rm_latched_buffer = 0\<rparr>,
     rd_status_last_error_count = 0, rd_status_last_publish_rejected_count = 0, rd_status_last_unexpected_event_count = 0,
     rd_status_published = False\<rparr>"

lemma demo_rd_ready: "power_on (rd_app demo_rd)" "demo_storage demo_rd" "lib_buildinfo_is_bcd 0x01" "lib_buildinfo_is_bcd 0x42"
proof -
  show "power_on (rd_app demo_rd)"
    using demo_app_power_on by (simp add: power_on_def demo_rd_def demo_app_def demo_board_def)
  show "demo_storage demo_rd"
    by (simp add: demo_storage_def demo_rd_def demo_board_def rd_target_def rd_mem_def insert_commute)
  show "lib_buildinfo_is_bcd 0x01" "lib_buildinfo_is_bcd 0x42" by (simp_all add: is_bcd_iff)
qed

theorem demo_serves_its_pages_witness:
  "\<exists>l rd'. regmap_demo_main True clearing_hardware (g_buildinfo 0x01 0x42) (replicate 24 0xaa) demo_rd = Some (l, rd')
    \<and> register_view g_pages (rd_mem rd') 1 = 0x42"
proof -
  have len: "length (replicate 24 (0xaa :: u8)) = 24" by simp
  obtain l rd' where "regmap_demo_main True clearing_hardware (g_buildinfo 0x01 0x42) (replicate 24 0xaa) demo_rd = Some (l, rd')"
    "simulates g_pages (demo_view [0x01, 0x42, 0, 0, 0, 0, 0, 0] (replicate 12 0)
        (crash_page (bd_crash_record (ap_board (rd_app demo_rd))))) 0 0 (it_engine (rd_target rd')) (rd_mem rd') at_rest"
    using demo_serves_its_pages [OF demo_rd_ready len, of True clearing_hardware] by blast
  then show ?thesis by (auto simp: simulates_def demo_view_def)
qed



end
