(* ===== verification/Regmap_Service.thy ===== *)
theory Regmap_Service
  imports Regmap_Demo
begin

text \<open>
  \<open>app/i2c_regmap_demo\<close> at work: any interleaving of the rounds of its main loop with interrupts of the bus, also in the
  middle of a transaction. The whole firmware runs the machine of \<open>Target_Paged\<close>: a round publishes the counts if they
  have changed, an interrupt puts its events to the protocol.
\<close>

section \<open>Interleavings\<close>

text \<open>What happens next: a round of the main loop, or the bus changing the device and the interrupt being taken.\<close>

datatype 'h demo_event = Round | Bus 'h

definition bus_moves :: "'h \<Rightarrow> 'h regmap_demo \<Rightarrow> 'h regmap_demo" where
  "bus_moves d rd = (let ap = rd_app rd; bd = ap_board ap in
     rd\<lparr>rd_app := ap\<lparr>ap_board := bd\<lparr>bd_machine := (bd_machine bd)\<lparr>mc_device := d\<rparr>\<rparr>\<rparr>\<rparr>)"

fun demo_act :: "'h hardware \<Rightarrow> nat \<Rightarrow> 'h demo_event \<Rightarrow> 'h regmap_demo \<Rightarrow> 'h regmap_demo defined" where
  "demo_act hw fuel Round rd = regmap_demo_round hw rd"
| "demo_act hw fuel (Bus d) rd = demo_interrupt hw fuel (bus_moves d rd)"

fun demo_run :: "'h hardware \<Rightarrow> nat \<Rightarrow> 'h demo_event list \<Rightarrow> 'h regmap_demo \<Rightarrow> 'h regmap_demo defined" where
  "demo_run hw fuel [] rd = Some rd"
| "demo_run hw fuel (act # acts) rd = do {
     rd \<leftarrow> demo_act hw fuel act rd;
     demo_run hw fuel acts rd
   }"

text \<open>A firmware that failed to start only waits: it makes no rounds, but takes its interrupts.\<close>

fun loop_events :: "demo_loop \<Rightarrow> 'h demo_event list \<Rightarrow> 'h demo_event list" where
  "loop_events Publish_Loop acts = acts"
| "loop_events (Failed_Loop l) acts = filter (\<lambda>act. act \<noteq> Round) acts"

lemma set_loop_events: "set (loop_events l acts) \<subseteq> set acts"
  by (cases l) auto

section \<open>The service\<close>

datatype service = Publishes "u8 list" | Serves "bus_event list"

fun service_step :: "u8 list \<Rightarrow> u8 list \<Rightarrow> service \<Rightarrow> latching \<Rightarrow> bus_output list \<times> latching" where
  "service_step info crash (Publishes status) s
     = ([], latching_publish g_pages g_status_snapshot (demo_view info status crash) s)"
| "service_step info crash (Serves evs) s = machine_run (latching_step g_pages 0) evs s"

fun service_run :: "u8 list \<Rightarrow> u8 list \<Rightarrow> service list \<Rightarrow> latching \<Rightarrow> bus_output list \<times> latching" where
  "service_run info crash [] s = ([], s)"
| "service_run info crash (svc # svcs) s =
     (let (outs, s) = service_step info crash svc s;
          (outs', s) = service_run info crash svcs s
      in (outs @ outs', s))"

lemma service_run_Cons [simp]:
  "fst (service_run info crash (svc # svcs) s)
    = fst (service_step info crash svc s) @ fst (service_run info crash svcs (snd (service_step info crash svc s)))"
  "snd (service_run info crash (svc # svcs) s) = snd (service_run info crash svcs (snd (service_step info crash svc s)))"
  by (simp_all add: Let_def split: prod.splits)

declare service_run.simps(2) [simp del]

fun service_events :: "service \<Rightarrow> bus_event list" where
  "service_events (Publishes status) = []"
| "service_events (Serves evs) = evs"

text \<open>What the firmware does in a run: a round publishes the counts if they are due, an interrupt serves the events it
  reads from the device.\<close>

definition act_service :: "'h hardware \<Rightarrow> nat \<Rightarrow> 'h demo_event \<Rightarrow> 'h regmap_demo \<Rightarrow> service" where
  "act_service hw fuel act rd = (case act of
     Round \<Rightarrow> if status_due rd then Publishes (current_status rd) else Serves []
   | Bus d \<Rightarrow> Serves (irq_events hw fuel (live_target (bus_moves d rd))))"

fun run_services :: "'h hardware \<Rightarrow> nat \<Rightarrow> 'h demo_event list \<Rightarrow> 'h regmap_demo \<Rightarrow> service list" where
  "run_services hw fuel [] rd = []"
| "run_services hw fuel (act # acts) rd = act_service hw fuel act rd #
     (case demo_act hw fuel act rd of None \<Rightarrow> [] | Some rd \<Rightarrow> run_services hw fuel acts rd)"

section \<open>The firmware runs it\<close>

text \<open>The driver is initialised, the engine runs the protocol over the three pages, and once published the status page
  shows what was last published.\<close>

definition demo_tracking :: "u8 list \<Rightarrow> u8 list \<Rightarrow> 'h regmap_demo \<Rightarrow> latching \<Rightarrow> bool" where
  "demo_tracking info crash rd s \<longleftrightarrow> it_initialized (rd_target rd) \<and> length info = 8 \<and> length crash = 24
     \<and> tracks g_pages 0 0 s (it_engine (rd_target rd)) (rd_mem rd)
     \<and> (\<exists>status. length status = 12 \<and> la_current s = demo_view info status crash
        \<and> (rd_status_published rd \<longrightarrow> status = last_status rd))"

text \<open>Before the first transaction.\<close>

definition unread :: "(u16 \<Rightarrow> u8) \<Rightarrow> latching" where
  "unread view = \<lparr>la_protocol = at_rest, la_current = view, la_held = None, la_overtaken = False\<rparr>"

lemma serving_tracking:
  assumes "it_initialized (rd_target rd)" "\<not> rd_status_published rd" "length info = 8" "length crash = 24"
    "simulates g_pages (demo_view info (replicate 12 0) crash) 0 0 (it_engine (rd_target rd)) (rd_mem rd) at_rest"
  shows "demo_tracking info crash rd (unread (demo_view info (replicate 12 0) crash))"
proof -
  have "tracks g_pages 0 0 (unread (demo_view info (replicate 12 0) crash)) (it_engine (rd_target rd)) (rd_mem rd)"
    using simulates_tracks [OF assms(5), of "unread (demo_view info (replicate 12 0) crash)"]
    by (simp add: unread_def at_rest_def)
  with assms(1-4) show ?thesis
    unfolding demo_tracking_def by (intro conjI exI [of _ "replicate 12 0"]) (simp_all add: unread_def)
qed

lemma tracking_phase:
  "demo_tracking info crash rd s \<Longrightarrow> phase_matches (ee_phase (la_protocol s)) (it_engine (rd_target rd))"
  by (auto simp: demo_tracking_def tracks_def)

lemma publish_tracks:
  assumes t: "demo_tracking info crash rd s"
  shows "\<exists>rd'. i2c_regmap_demo_publish_status rd = Some rd'
    \<and> demo_tracking info crash rd' (snd (service_step info crash (act_service hw fuel Round rd) s))
    \<and> bd_machine (ap_board (rd_app rd')) = bd_machine (ap_board (rd_app rd))"
proof -
  obtain status where d: "it_initialized (rd_target rd)" "length info = 8" "length crash = 24"
    "tracks g_pages 0 0 s (it_engine (rd_target rd)) (rd_mem rd)"
    "length status = 12" "la_current s = demo_view info status crash" "rd_status_published rd \<longrightarrow> status = last_status rd"
    using t by (auto simp: demo_tracking_def)
  obtain rm where r: "regmap_inv enqueue_callback queue_ready rm (rd_mem rd)" "table rm = g_pages"
    "register_view g_pages (rd_mem rd) = la_current s"
    using d(4) by (auto simp: tracks_def)
  obtain s0 s1 s2 where sn: "snapshots (rd_mem rd) 0 = Some s0" "snapshots (rd_mem rd) 1 = Some s1"
    "snapshots (rd_mem rd) 2 = Some s2" "snapshot_ok s0" "snapshot_ok s1" "snapshot_ok s2"
    "sn_length s0 = 8" "sn_length s1 = 12" "sn_length s2 = 24"
    by (rule g_pages_snapshots [OF r(1,2)])
  have cur: "length (current_status rd) = 12" by (simp add: current_status_def)
  have long: "unat (sn_length s1) \<le> length (current_status rd)" using sn(8) cur by simp
  have taken: "take (unat (12 :: u16)) (current_status rd) = current_status rd" using cur by simp
  obtain ok s1' where p: "lib_regmap_snapshot_publish (Some s1) (Some (current_status rd)) 12 = Some (ok, Some s1')"
    "ok \<longleftrightarrow> \<not> publish_refused g_pages 1 s" "sn_length s1' = 12" "snapshot_ok s1'"
    "published s1' = (if ok then current_status rd else published s1)"
    "tracks g_pages 0 0 ((latching_publish g_pages 1 (la_current s) s)\<lparr>la_current := register_view g_pages
        ((rd_mem rd)\<lparr>snapshots := (snapshots (rd_mem rd))(1 \<mapsto> s1')\<rparr>)\<rparr>) (it_engine (rd_target rd))
       ((rd_mem rd)\<lparr>snapshots := (snapshots (rd_mem rd))(1 \<mapsto> s1')\<rparr>)"
    by (rule tracks_publish [OF d(4) sn(2,5) long, unfolded sn(8) taken])
  note ran = publish_status_ran [OF d(1) sn(2) p(1)]
  show ?thesis
  proof (cases "status_due rd")
    case False
    then show ?thesis using ran(1) t by (simp add: act_service_def)
  next
    case True
    from ran(2) [OF True] obtain rd' where rd': "i2c_regmap_demo_publish_status rd = Some rd'"
      "rd_app rd' = rd_app (set_rd_mem ((rd_mem rd)\<lparr>snapshots := (snapshots (rd_mem rd))(1 \<mapsto> s1')\<rparr>) rd)"
      "if ok then rd_status_published rd' \<and> last_status rd' = current_status rd
       else rd_status_published rd' = rd_status_published rd \<and> last_status rd' = last_status rd"
      by blast
    note tgt = set_rd_mem_target [OF rd'(2)]
    have shows_pages: "published s0 = info" "published s1 = status" "published s2 = crash"
      using demo_view_inj [of "published s0" "published s1" "published s2" info status crash] r(3) sn d(2,3,5,6)
      unfolding g_pages_view [OF sn(1-3)] by (simp_all add: length_published)
    let ?status = "if ok then current_status rd else status"
    have sn': "snapshots (rd_mem rd') 0 = Some s0" "snapshots (rd_mem rd') 1 = Some s1'" "snapshots (rd_mem rd') 2 = Some s2"
      using sn(1,3) by (simp_all add: tgt(2))
    have view: "register_view g_pages (rd_mem rd') = demo_view info ?status crash"
      unfolding g_pages_view [OF sn'] shows_pages p(5) by simp
    have "(latching_publish g_pages 1 (la_current s) s)\<lparr>la_current := register_view g_pages (rd_mem rd')\<rparr>
        = latching_publish g_pages 1 (demo_view info (current_status rd) crash) s"
      unfolding view using p(2) d(6) by (cases s) (simp add: latching_publish_def publish_refused_def held_from_def)
    then have "tracks g_pages 0 0 (latching_publish g_pages 1 (demo_view info (current_status rd) crash) s)
        (it_engine (rd_target rd')) (rd_mem rd')"
      using p(6) unfolding tgt(2) [symmetric] tgt(1) by simp
    moreover have "la_current (latching_publish g_pages 1 (demo_view info (current_status rd) crash) s)
        = demo_view info ?status crash"
      using p(2) d(6) by (simp add: latching_publish_def)
    moreover have "rd_status_published rd' \<longrightarrow> ?status = last_status rd'" using rd'(3) d(7) by auto
    moreover have "length ?status = 12" using cur d(5) by simp
    ultimately have "demo_tracking info crash rd' (latching_publish g_pages 1 (demo_view info (current_status rd) crash) s)"
      using d(1-3) tgt(3) unfolding demo_tracking_def by blast
    with rd'(1) tgt(6) True show ?thesis by (simp add: act_service_def g_status_snapshot_def)
  qed
qed

lemma round_tracks:
  assumes "demo_tracking info crash rd s"
  obtains rd' where "regmap_demo_round hw rd = Some rd'"
    "demo_tracking info crash rd' (snd (service_step info crash (act_service hw fuel Round rd) s))"
    "demo_trace rd' = demo_trace rd @ [Write (WWDT0 WWDT_CNTRST) HAL_WDT_RESTART_KEY, Wfi]"
proof -
  obtain rd1 where p: "i2c_regmap_demo_publish_status rd = Some rd1"
    "demo_tracking info crash rd1 (snd (service_step info crash (act_service hw fuel Round rd) s))"
    "bd_machine (ap_board (rd_app rd1)) = bd_machine (ap_board (rd_app rd))"
    using publish_tracks [OF assms] by blast
  obtain rd' where r: "regmap_demo_round hw rd = Some rd'" "rd_target rd' = rd_target rd1" "rd_mem rd' = rd_mem rd1"
    "rd_status_published rd' = rd_status_published rd1" "last_status rd' = last_status rd1"
    "demo_trace rd' = demo_trace rd1 @ [Write (WWDT0 WWDT_CNTRST) HAL_WDT_RESTART_KEY, Wfi]"
    using round_after_publish [OF p(1), where hw = hw] by blast
  show thesis by (rule that [OF r(1)]) (use p(2,3) r(2-6) in \<open>simp_all add: demo_tracking_def\<close>)
qed

lemma bus_moves_fields [simp]:
  "rd_target (bus_moves d rd) = rd_target rd" "rd_mem (bus_moves d rd) = rd_mem rd"
  "rd_status_published (bus_moves d rd) = rd_status_published rd" "last_status (bus_moves d rd) = last_status rd"
  "mc_device (bd_machine (ap_board (rd_app (bus_moves d rd)))) = d" "demo_trace (bus_moves d rd) = demo_trace rd"
  by (simp_all add: bus_moves_def rd_target_def rd_mem_def last_status_def Let_def)

lemma latching_step_keeps_current [simp]: "la_current (snd (machine_run (latching_step ps room) evs s)) = la_current s"
  by (induction evs arbitrary: s) simp_all

lemma interrupt_tracks:
  assumes t: "demo_tracking info crash rd s" and hw: "drains hw pending" "pending d < fuel"
  obtains rd' tr where "demo_interrupt hw fuel (bus_moves d rd) = Some rd'"
    "demo_tracking info crash rd' (snd (service_step info crash (act_service hw fuel (Bus d) rd) s))"
    "demo_trace rd' = demo_trace rd @ tr"
    "map ucast (seen (I2C1 I2C_SRXDATA) tr) = bytes_in (service_events (act_service hw fuel (Bus d) rd))"
    "map ucast (written (I2C1 I2C_STXDATA) tr) = bytes_sent (fst (service_step info crash (act_service hw fuel (Bus d) rd) s))"
proof -
  have d: "it_initialized (rd_target (bus_moves d rd))" "length info = 8" "length crash = 24"
    "tracks g_pages 0 0 s (it_engine (rd_target (bus_moves d rd))) (rd_mem (bus_moves d rd)) \<and> shares_queue g_pages 0"
    "\<exists>status. length status = 12 \<and> la_current s = demo_view info status crash
      \<and> (rd_status_published rd \<longrightarrow> status = last_status rd)"
    using t g_pages_read_only(2) by (simp_all add: demo_tracking_def)
  have fuel: "pending (mc_device (bd_machine (ap_board (rd_app (bus_moves d rd))))) < fuel" using hw(2) by simp
  show thesis
    by (rule paged.demo_interrupt_serves [OF d(4,1) hw(1) fuel])
      (use d(2,3,5) that in \<open>simp add: demo_tracking_def act_service_def\<close>)
qed

text \<open>The bytes of a whole run.\<close>

lemma demo_run_tracks:
  assumes "demo_tracking info crash rd s" "drains hw pending" "\<And>d. Bus d \<in> set acts \<Longrightarrow> pending d < fuel"
  obtains rd' tr where "demo_run hw fuel acts rd = Some rd'"
    "demo_tracking info crash rd' (snd (service_run info crash (run_services hw fuel acts rd) s))"
    "demo_trace rd' = demo_trace rd @ tr"
    "map ucast (seen (I2C1 I2C_SRXDATA) tr) = bytes_in (concat (map service_events (run_services hw fuel acts rd)))"
    "map ucast (written (I2C1 I2C_STXDATA) tr) = bytes_sent (fst (service_run info crash (run_services hw fuel acts rd) s))"
  using assms(1,3)
proof (induction acts arbitrary: rd s thesis)
  case Nil
  show ?case by (rule Nil.prems(1) [of rd "[]"]) (use Nil.prems(2) in simp_all)
next
  case (Cons act acts)
  let ?svc = "act_service hw fuel act rd"
  obtain rd1 tr1 where a: "demo_act hw fuel act rd = Some rd1"
    "demo_tracking info crash rd1 (snd (service_step info crash ?svc s))" "demo_trace rd1 = demo_trace rd @ tr1"
    "map ucast (seen (I2C1 I2C_SRXDATA) tr1) = bytes_in (service_events ?svc)"
    "map ucast (written (I2C1 I2C_STXDATA) tr1) = bytes_sent (fst (service_step info crash ?svc s))"
  proof (cases act)
    case Round
    show thesis
      by (rule round_tracks [OF Cons.prems(2), of hw fuel])
        (use that Round in \<open>simp add: act_service_def\<close>)
  next
    case (Bus d)
    have "pending d < fuel" using Cons.prems(3) Bus by simp
    from interrupt_tracks [OF Cons.prems(2) assms(2) this] that Bus show thesis by (metis demo_act.simps(2))
  qed
  have rest: "Bus d \<in> set acts \<Longrightarrow> pending d < fuel" for d using Cons.prems(3) by simp
  obtain rd2 tr2 where b: "demo_run hw fuel acts rd1 = Some rd2"
    "demo_tracking info crash rd2
      (snd (service_run info crash (run_services hw fuel acts rd1) (snd (service_step info crash ?svc s))))"
    "demo_trace rd2 = demo_trace rd1 @ tr2"
    "map ucast (seen (I2C1 I2C_SRXDATA) tr2) = bytes_in (concat (map service_events (run_services hw fuel acts rd1)))"
    "map ucast (written (I2C1 I2C_STXDATA) tr2)
      = bytes_sent (fst (service_run info crash (run_services hw fuel acts rd1) (snd (service_step info crash ?svc s))))"
    using Cons.IH [OF _ a(2) rest] by blast
  show ?case by (rule Cons.prems(1) [of rd2 "tr1 @ tr2"]) (use a b in simp_all)
qed

lemma service_run_reading:
  assumes "reading g_pages i n s" "concat (map service_events svcs) = replicate n Byte_Out"
  shows "bytes_sent (fst (service_run info crash svcs s)) = next_bytes g_pages n s"
  using assms
proof (induction svcs arbitrary: n s)
  case Nil
  then show ?case by (simp add: next_bytes_def)
next
  case (Cons svc svcs)
  show ?case
  proof (cases svc)
    case (Publishes status)
    with Cons show ?thesis by (simp add: next_bytes_publish [OF Cons.prems(1)])
  next
    case (Serves evs)
    let ?rest = "concat (map service_events svcs)"
    have all: "evs @ ?rest = replicate n Byte_Out" using Cons.prems(2) Serves by simp
    then have n: "n = length evs + length ?rest" by (metis length_append length_replicate)
    have "set (evs @ ?rest) \<subseteq> {Byte_Out}" unfolding all by auto
    then have evs: "set evs \<subseteq> {Byte_Out}" and only: "\<forall>ev \<in> set ?rest. ev = Byte_Out"
      unfolding set_append by blast+
    have rest: "?rest = replicate (length ?rest) Byte_Out" by (rule replicate_length_same [OF only, symmetric])
    note run = reading_run [OF Cons.prems(1) [unfolded n] evs, of 0]
    have "bytes_sent (fst (service_run info crash svcs (snd (machine_run (latching_step g_pages 0) evs s))))
        = next_bytes g_pages (length ?rest) (snd (machine_run (latching_step g_pages 0) evs s))"
      by (rule Cons.IH) (use run rest in simp_all)
    with run n Serves show ?thesis by (metis append_take_drop_id bytes_sent_append service_run_Cons(1) service_step.simps(2))
  qed
qed

text \<open>A read request of the bus, on the hardware of \<open>Regmap_Demo\<close>.\<close>

definition tx_request :: "reg \<Rightarrow> u32" where
  "tx_request = (\<lambda>_. 0)(I2C1 I2C_IIDX := IIDX_STXEMPTY, I2C1 I2C_SSR := SSR_TREQ)"

lemma tx_request_waiting: "waiting tx_request < 2"
  by (simp add: waiting_def)

lemma tx_request_events:
  assumes "demo_tracking info crash rd s"
  shows "act_service clearing_hardware 2 (Bus tx_request) rd
    = Serves (if te_direction (it_engine (rd_target rd)) = Engine_Transmit then [Byte_Out] else [Begin_Transmit, Byte_Out])"
proof -
  let ?st = "live_target (bus_moves tx_request rd)"
  have st: "mc_device (it_machine ?st) = tx_request" "it_engine ?st = it_engine (rd_target rd)" "it_mem ?st = rd_mem rd"
    by (simp_all add: live_target_def rd_mem_def)
  have code: "IIDX_STXEMPTY AND IIDX_STAT_MASK = IIDX_STXEMPTY" "IIDX_STXEMPTY \<noteq> IIDX_NO_INTR" "IIDX_STXEMPTY \<noteq> IIDX_SRXDONE"
    by (simp_all add: iidx_defs IIDX_STAT_MASK_def)
  obtain v st0 where q: "target_read clearing_hardware I2C_IIDX ?st = Some (v, st0)" "it_engine st0 = it_engine ?st"
    "it_mem st0 = it_mem ?st"
    "hw_read clearing_hardware (I2C1 I2C_IIDX) (mc_device (it_machine ?st)) = (v, mc_device (it_machine st0))"
    by (rule target_read_total)
  have v: "v = IIDX_STXEMPTY" "mc_device (it_machine st0) = tx_request(I2C1 I2C_IIDX := 0)"
    using q(4) st(1) by (simp_all add: clearing_hardware_def tx_request_def)
  have rel: "tracks g_pages 0 0 s (it_engine st0) (it_mem st0) \<and> shares_queue g_pages 0"
    using assms q(2,3) st(2,3) g_pages_read_only(2) by (simp add: demo_tracking_def)
  obtain st1 where d: "irq_dispatch clearing_hardware IIDX_STXEMPTY st0 = Some st1" "settles clearing_hardware st0 st1"
    by (rule paged.dispatch_serves [OF rel]) blast
  have "waiting (mc_device (it_machine st1)) \<le> waiting (mc_device (it_machine st0))"
    using d(2) clearing_drains by (simp add: settles_def)
  then have "waiting (mc_device (it_machine st1)) = 0"
    by (simp add: v(2) waiting_def IIDX_NO_INTR_def)
  then have over: "mc_device (it_machine st1) (I2C1 I2C_IIDX) AND IIDX_STAT_MASK = IIDX_NO_INTR"
    by (simp add: waiting_def split: if_splits)
  have none: "irq_events clearing_hardware (Suc 0) st1 = []"
    using over by (simp add: target_read_def mmio_read_def clearing_hardware_def split: prod.splits)
  have "dispatch_events clearing_hardware IIDX_STXEMPTY st0
      = (if te_direction (it_engine (rd_target rd)) = Engine_Transmit then [Byte_Out] else [Begin_Transmit, Byte_Out])"
    using v(2) q(2) st(2) code(3)
    by (simp add: dispatch_events_def transmit_events_def turn_events_def clearing_hardware_def tx_request_def
        SSR_TREQ_def RIS_SSTART_def)
  then show ?thesis
    using q(1) v(1) code d(1) none by (simp add: act_service_def numeral_2_eq_2)
qed

lemma demo_started:
  obtains l and rd :: "(reg \<Rightarrow> u32) regmap_demo"
  where "regmap_demo_main True clearing_hardware (g_buildinfo 0x01 0x42) (replicate 24 0) demo_rd = Some (l, rd)"
    "demo_tracking [0x01, 0x42, 0, 0, 0, 0, 0, 0] (crash_page (bd_crash_record (ap_board (rd_app demo_rd)))) rd
      (unread (demo_view [0x01, 0x42, 0, 0, 0, 0, 0, 0] (replicate 12 0) (crash_page (bd_crash_record (ap_board (rd_app demo_rd))))))"
proof -
  have b: "lib_buildinfo_is_valid (Some (g_buildinfo 0x01 0x42))" using demo_rd_ready(3,4) by (simp add: g_buildinfo_valid)
  have info: "device_info (g_buildinfo 0x01 0x42) = [0x01, 0x42, 0, 0, 0, 0, 0, 0]" by (simp add: device_info_def g_buildinfo_def)
  have len: "length (replicate 24 (0 :: u8)) = 24" by simp
  obtain l and rd :: "(reg \<Rightarrow> u32) regmap_demo" where rd:
    "regmap_demo_main True clearing_hardware (g_buildinfo 0x01 0x42) (replicate 24 0) demo_rd = Some (l, rd)"
    "it_initialized (rd_target rd)" "\<not> rd_status_published rd"
    "simulates g_pages (demo_view [0x01, 0x42, 0, 0, 0, 0, 0, 0] (replicate 12 0)
        (crash_page (bd_crash_record (ap_board (rd_app demo_rd))))) 0 0 (it_engine (rd_target rd)) (rd_mem rd) at_rest"
    using demo_main_ran [OF demo_rd_ready(1,2) b len, of True clearing_hardware] unfolding info by blast
  show thesis by (rule that [OF rd(1) serving_tracking [OF rd(2,3) _ _ rd(4)]]) simp_all
qed

section \<open>Properties\<close>

text \<open>C1. The whole firmware implements its service. From power-on, on any hardware that runs out of interrupts and in any
  build whose version is BCD, \<open>main\<close> reaches its loop, the publishing one if the watchdog reported itself running, and from
  there every interleaving of its rounds with interrupts, the bus putting the device into any state before each interrupt,
  is defined: what the bus writes and reads are the bytes of the abstract service, which starts at rest on the register
  file of the version, zero counts and the retained crash record; in it a round publishes the current counts if they have
  changed, unless a read holds an overtaken image of the status page, an interrupt runs its events through the protocol,
  and a read keeps the image of the page it is in until it leaves the page or ends.\<close>

theorem firmware_implements_service:
  assumes "power_on (rd_app rd)" "demo_storage rd" "lib_buildinfo_is_bcd major" "lib_buildinfo_is_bcd minor"
    and "length image_bytes = 24" "drains hw pending" "\<And>d. Bus d \<in> set acts \<Longrightarrow> pending d < fuel"
  defines "info \<equiv> [major, minor, 0, 0, 0, 0, 0, 0]" and "crash \<equiv> crash_page (bd_crash_record (ap_board (rd_app rd)))"
  shows "\<exists>v l rd1 rd2 tr0 tr1 tr svcs outs s.
      regmap_demo_main debug_enabled hw (g_buildinfo major minor) image_bytes rd = Some (l, rd1)
    \<and> demo_trace rd1 = demo_trace rd @ tr0 @ [Read (WWDT0 WWDT_STAT) v] @ tr1
    \<and> l = (if v AND 1 = 1 then Publish_Loop else Failed_Loop (Wait_Loop False))
    \<and> demo_run hw fuel (loop_events l acts) rd1 = Some rd2 \<and> demo_trace rd2 = demo_trace rd1 @ tr
    \<and> svcs = run_services hw fuel (loop_events l acts) rd1
    \<and> (outs, s) = service_run info crash svcs (unread (demo_view info (replicate 12 0) crash))
    \<and> map ucast (seen (I2C1 I2C_SRXDATA) tr) = bytes_in (concat (map service_events svcs))
    \<and> map ucast (written (I2C1 I2C_STXDATA) tr) = bytes_sent outs \<and> demo_tracking info crash rd2 s"
proof -
  have valid: "lib_buildinfo_is_valid (Some (g_buildinfo major minor))" using assms(3,4) by (simp add: g_buildinfo_valid)
  have info: "device_info (g_buildinfo major minor) = info"
    by (simp add: device_info_def g_buildinfo_def info_def)
  obtain v l rd1 tr0 tr1 where main: "regmap_demo_main debug_enabled hw (g_buildinfo major minor) image_bytes rd = Some (l, rd1)"
    "l = (if v AND 1 = 1 then Publish_Loop else Failed_Loop (Wait_Loop False))"
    "demo_trace rd1 = demo_trace rd @ tr0 @ [Read (WWDT0 WWDT_STAT) v] @ tr1"
    "it_initialized (rd_target rd1)" "\<not> rd_status_published rd1"
    "simulates g_pages (demo_view info (replicate 12 0) crash) 0 0 (it_engine (rd_target rd1)) (rd_mem rd1) at_rest"
    using demo_main_ran [OF assms(1,2) valid assms(5), of debug_enabled hw] unfolding info crash_def by blast
  have "length info = 8" "length crash = 24" by (simp_all add: info_def crash_def)
  note start = serving_tracking [OF main(4,5) this main(6)]
  have fuel: "Bus d \<in> set (loop_events l acts) \<Longrightarrow> pending d < fuel" for d using assms(7) set_loop_events by fastforce
  let ?svcs = "run_services hw fuel (loop_events l acts) rd1"
  let ?run = "service_run info crash ?svcs (unread (demo_view info (replicate 12 0) crash))"
  obtain rd2 tr where run: "demo_run hw fuel (loop_events l acts) rd1 = Some rd2" "demo_tracking info crash rd2 (snd ?run)"
    "demo_trace rd2 = demo_trace rd1 @ tr" "map ucast (seen (I2C1 I2C_SRXDATA) tr) = bytes_in (concat (map service_events ?svcs))"
    "map ucast (written (I2C1 I2C_STXDATA) tr) = bytes_sent (fst ?run)"
    by (rule demo_run_tracks [OF start assms(6) fuel])
  show ?thesis
    by (intro exI conjI, rule main(1), rule main(3), rule main(2), rule run(1), rule run(3), rule refl,
        rule prod.collapse, rule run(4), rule run(5), rule run(2))
qed

theorem firmware_implements_service_witness:
  "\<exists>l rd1 rd2. regmap_demo_main True clearing_hardware (g_buildinfo 0x01 0x42) (replicate 24 0xaa) demo_rd = Some (l, rd1)
    \<and> demo_run clearing_hardware 2 (loop_events l [Round, Bus tx_request, Round]) rd1 = Some rd2"
proof -
  have len: "length (replicate 24 (0xaa :: u8)) = 24" by simp
  have fuel: "Bus d \<in> set [Round, Bus tx_request, Round] \<Longrightarrow> waiting d < 2" for d using tx_request_waiting by simp
  show ?thesis
    using firmware_implements_service [where pending = waiting and fuel = 2 and acts = "[Round, Bus tx_request, Round]"
        and debug_enabled = True, OF demo_rd_ready len clearing_drains fuel] by blast
qed

text \<open>C4. A page is read whole. Once a read has sent a byte of a page, the next bytes it sends from that page, over any
  number of interrupts and with any rounds of the main loop in between, publishing or not, are all of the image the first
  byte was of.\<close>

theorem pages_are_read_whole:
  assumes "demo_tracking info crash rd s" "ee_phase (la_protocol s) = Phase_Read" "la_held s = Some (i, view)"
    and "drains hw pending" "\<And>d. Bus d \<in> set acts \<Longrightarrow> pending d < fuel"
    and "concat (map service_events (run_services hw fuel acts rd)) = replicate n Byte_Out"
    and "\<And>k. k < n \<Longrightarrow> page_at g_pages (ee_pointer (la_protocol s) + of_nat k) = Some i"
  shows "\<exists>rd' tr. demo_run hw fuel acts rd = Some rd' \<and> demo_trace rd' = demo_trace rd @ tr
    \<and> map ucast (written (I2C1 I2C_STXDATA) tr) = map (\<lambda>k. view (ee_pointer (la_protocol s) + of_nat k)) [0..<n]"
proof -
  have "reading g_pages i n s" using assms(2,3,7) by (simp add: reading_def)
  note sent = service_run_reading [OF this assms(6), of info crash]
  have bytes: "next_bytes g_pages n s = map (\<lambda>k. view (ee_pointer (la_protocol s) + of_nat k)) [0..<n]"
    using assms(3,7) by (simp add: next_bytes_def shown_def)
  show ?thesis
    by (rule demo_run_tracks [OF assms(1,4,5)]) (use sent bytes in auto)
qed

theorem pages_are_read_whole_witness:
  "\<exists>rd rd' tr. demo_run clearing_hardware 2 [Round, Bus tx_request] (rd :: (reg \<Rightarrow> u32) regmap_demo) = Some rd'
    \<and> demo_trace rd' = demo_trace rd @ tr \<and> map ucast (written (I2C1 I2C_STXDATA) tr) = [0x42 :: u8]"
proof -
  let ?crash = "crash_page (bd_crash_record (ap_board (rd_app demo_rd)))" and ?info = "[0x01, 0x42, 0, 0, 0, 0, 0, 0] :: u8 list"
  let ?view = "demo_view ?info (replicate 12 0) ?crash"
  obtain l and rd0 :: "(reg \<Rightarrow> u32) regmap_demo" where rd0: "demo_tracking ?info ?crash rd0 (unread ?view)"
    by (rule demo_started) blast
  have idle: "te_direction (it_engine (rd_target rd0)) \<noteq> Engine_Transmit"
    using tracking_phase [OF rd0] by (simp add: unread_def at_rest_def)
  define s where "s = snd (service_step ?info ?crash (act_service clearing_hardware 2 (Bus tx_request) rd0) (unread ?view))"
  obtain rd :: "(reg \<Rightarrow> u32) regmap_demo" where t: "demo_tracking ?info ?crash rd s"
    unfolding s_def by (rule interrupt_tracks [where pending = waiting and d = tx_request and fuel = 2,
          OF rd0 clearing_drains tx_request_waiting])
  have page: "page_at g_pages 0 = Some 0" "page_at g_pages 1 = Some 0"
    by (simp_all add: g_pages_defs in_page_def)
  have s: "ee_phase (la_protocol s) = Phase_Read" "la_held s = Some (0, ?view)" "ee_pointer (la_protocol s) = 1"
    unfolding s_def tx_request_events [OF rd0]
    by (simp_all add: idle unread_def at_rest_def page shown_unheld)
  have reading: "te_direction (it_engine (rd_target rd')) = Engine_Transmit"
    if "demo_tracking ?info ?crash rd' (snd (service_step ?info ?crash (act_service clearing_hardware 2 Round rd) s))" for rd'
    using tracking_phase [OF that] s(1) by (simp add: act_service_def split: if_splits)
  obtain rd1 where r: "regmap_demo_round clearing_hardware rd = Some rd1"
    "demo_tracking ?info ?crash rd1 (snd (service_step ?info ?crash (act_service clearing_hardware 2 Round rd) s))"
    by (rule round_tracks [OF t, of clearing_hardware 2])
  have "run_services clearing_hardware 2 [Round, Bus tx_request] rd
      = [act_service clearing_hardware 2 Round rd, act_service clearing_hardware 2 (Bus tx_request) rd1]"
    using r(1) by (simp split: option.splits)
  moreover have "service_events (act_service clearing_hardware 2 Round rd) = []" by (simp add: act_service_def)
  ultimately have events: "concat (map service_events (run_services clearing_hardware 2 [Round, Bus tx_request] rd))
      = replicate 1 Byte_Out"
    using tx_request_events [OF r(2)] reading [OF r(2)] by simp
  have fuel: "Bus d \<in> set [Round, Bus tx_request] \<Longrightarrow> waiting d < 2" for d using tx_request_waiting by simp
  have pages: "k < 1 \<Longrightarrow> page_at g_pages (ee_pointer (la_protocol s) + of_nat k) = Some 0" for k using s(3) page by simp
  have "?view 1 = 0x42" by (simp add: demo_view_def)
  with pages_are_read_whole [where pending = waiting and fuel = 2 and acts = "[Round, Bus tx_request]" and n = 1,
        OF t s(1,2) clearing_drains fuel events pages] s(3)
  show ?thesis by fastforce
qed

end
