(* ===== verification/Uart_Tx_Test.thy ===== *)
theory Uart_Tx_Test
  imports Fault_Record_Test
begin

text \<open>
  \<open>app/uart_tx_test\<close>: a burst that fits the transmit queue, then one that does not, with waits in between for the queue to
  drain. The transmit interrupt may come at any time: while the application waits, where it ends waits of its own, and
  while it writes, between one byte and the next. How often it comes is a parameter that may depend on everything that
  happened before. A push reads the index that the interrupt moves once, so an interrupt within a push does what the same
  interrupt does before it or after it.
\<close>

section \<open>Writing while the transmit interrupt comes\<close>

text \<open>\<open>hal_uart0_tx_write\<close> with \<open>meanwhile st\<close> transmit interrupts before each push and before the interrupt is enabled, when the
  driver is in the state \<open>st\<close>.\<close>

fun uart_write_loop_preempted ::
  "'h hardware \<Rightarrow> ('h uart \<Rightarrow> nat) \<Rightarrow> nat \<Rightarrow> u8 list \<Rightarrow> u32 \<Rightarrow> 'h uart \<Rightarrow> (u32 \<times> 'h uart) defined" where
  "uart_write_loop_preempted hw meanwhile 0 data accepted st = Some (accepted, st)"
| "uart_write_loop_preempted hw meanwhile (Suc remaining) data accepted st = do {
     byte \<leftarrow> array_read data (unat accepted);
     st \<leftarrow> uart_irqs hw (meanwhile st) st;
     (pushed, queue) \<leftarrow> lib_ringbuf_try_push (ua_queue st) byte;
     let st = st\<lparr>ua_queue := queue\<rparr>;
     (if \<not> pushed then Some (accepted, st)
      else uart_write_loop_preempted hw meanwhile remaining data (accepted + 1) st)
   }"

definition hal_uart0_tx_write_preempted ::
  "'h hardware \<Rightarrow> ('h uart \<Rightarrow> nat) \<Rightarrow> u8 list option \<Rightarrow> u32 \<Rightarrow> 'h uart \<Rightarrow> (u32 \<times> 'h uart) defined" where
  "hal_uart0_tx_write_preempted hw meanwhile data n st =
     (if \<not> ua_initialized st \<or> data = None \<and> n \<noteq> 0 then Some (0, st)
      else do {
        (accepted, st) \<leftarrow> uart_write_loop_preempted hw meanwhile (unat n) (case data of None \<Rightarrow> [] | Some bs \<Rightarrow> bs) 0 st;
        st \<leftarrow> uart_irqs hw (meanwhile st) st;
        st \<leftarrow> (if accepted \<noteq> 0 then hal_uart0_tx_enable_interrupt hw st else Some st);
        Some (accepted, st)
      })"

text \<open>When none comes this is the write of \<open>Uart\<close>.\<close>

lemma write_loop_undisturbed: "uart_write_loop_preempted hw (\<lambda>st. 0) n data accepted st = uart_write_loop n data accepted st"
  by (induction n arbitrary: accepted st) (auto simp: Let_def intro!: Option.bind_cong split: prod.split)

lemma write_undisturbed: "hal_uart0_tx_write_preempted hw (\<lambda>st. 0) = hal_uart0_tx_write hw"
  by (intro ext) (simp add: hal_uart0_tx_write_preempted_def hal_uart0_tx_write_def write_loop_undisturbed)

text \<open>The debug output goes the same way: the writer that \<open>board_init\<close> registers is \<open>board_debug_write\<close>, which calls
  \<open>hal_uart0_tx_write\<close>.\<close>

definition DBG_WRITE_LITERAL_preempted ::
  "bool \<Rightarrow> 'h hardware \<Rightarrow> ('h uart \<Rightarrow> nat) \<Rightarrow> u8 list \<Rightarrow> 'h app \<Rightarrow> 'h app defined" where
  "DBG_WRITE_LITERAL_preempted debug_enabled hw meanwhile chars ap =
     (if debug_enabled
      then do {
        (_, ap) \<leftarrow> on_board (\<lambda>bd. on_uart (\<lambda>u. do {
            (accepted, g) \<leftarrow> lib_debug_write (literal chars) (of_nat (length chars))
              \<lparr>dbg_writer = map_option (\<lambda>_ data n. hal_uart0_tx_write_preempted hw meanwhile data n) (bd_writer bd), dbg_world = u\<rparr>;
            Some (accepted, dbg_world g)
          }) bd) ap;
        Some ap
      }
      else Some ap)"


section \<open>The application\<close>

definition UART_TX_TEST_DRAIN_WAIT_MS :: u32 where "UART_TX_TEST_DRAIN_WAIT_MS = 50"
definition UART_TX_TEST_BLINK_PERIOD_MS :: u32 where "UART_TX_TEST_BLINK_PERIOD_MS = 500"
definition UART_TX_TEST_BLOCK :: "u8 list" where "UART_TX_TEST_BLOCK = ascii ''0123456789ABCDEF''"

definition g_lossless_burst :: "u8 list" where
  "g_lossless_burst = ascii ''0123456789ABCDEF0123456789ABCDEF'' @ [0]"

definition g_overload_burst :: "u8 list" where
  "g_overload_burst = concat (replicate 8 UART_TX_TEST_BLOCK) @ [0]"

definition sizeof_text :: "u8 list \<Rightarrow> u32" where
  "sizeof_text chars = of_nat (length chars) - 1"

text \<open>The loop of the wait, with fuel for the milliseconds. The list says how many transmit interrupts come in each of the
  waits for an interrupt that they end in the current millisecond; SysTick ends the one after those.\<close>

fun uart_tx_test_wait_loop :: "'h hardware \<Rightarrow> 'h waits \<Rightarrow> nat \<Rightarrow> nat list \<Rightarrow> u32 \<Rightarrow> 'h app \<Rightarrow> 'h app defined" where
  "uart_tx_test_wait_loop hw waits 0 ends deadline ap = None"
| "uart_tx_test_wait_loop hw waits (Suc fuel) ends deadline ap =
     (if hal_timer_deadline_reached deadline (ap_timer ap) then Some ap
      else do {
        ap \<leftarrow> app_kick hw ap;
        ap \<leftarrow> arch_wait_for_interrupt ap;
        (case ends of
           n # later \<Rightarrow> do {
             ap \<leftarrow> uart_interrupts hw n ap;
             uart_tx_test_wait_loop hw waits (Suc fuel) later deadline ap
           }
         | [] \<Rightarrow> do {
             let ap = ap\<lparr>ap_timer := SysTick_Handler (ap_timer ap)\<rparr>;
             let (n, later) = waits ap;
             ap \<leftarrow> uart_interrupts hw n ap;
             uart_tx_test_wait_loop hw waits fuel later deadline ap
           })
      })"

definition uart_tx_test_wait_ms :: "'h hardware \<Rightarrow> 'h waits \<Rightarrow> u32 \<Rightarrow> 'h app \<Rightarrow> 'h app defined" where
  "uart_tx_test_wait_ms hw waits delay_ms ap = do {
     let deadline = (hal_timer_now_ms (ap_timer ap) + delay_ms);
     let (n, later) = waits ap;
     ap \<leftarrow> uart_interrupts hw n ap;
     uart_tx_test_wait_loop hw waits (Suc (unat delay_ms)) later deadline ap
   }"

definition uart_tx_test_fail :: "'h hardware \<Rightarrow> 'h app \<Rightarrow> (app_loop \<times> 'h app) defined" where
  "uart_tx_test_fail hw ap = steady_led hw True ap"

text \<open>\<open>main\<close> from the greeting on.\<close>

definition uart_tx_test_bursts ::
  "bool \<Rightarrow> 'h hardware \<Rightarrow> 'h waits \<Rightarrow> ('h uart \<Rightarrow> nat) \<Rightarrow> 'h app \<Rightarrow> (app_loop \<times> 'h app) defined" where
  "uart_tx_test_bursts debug_enabled hw waits meanwhile ap = do {
     ap \<leftarrow> DBG_WRITE_LITERAL_preempted debug_enabled hw meanwhile (ascii ''mspm-baremetal: uart_tx_test'' @ crlf) ap;
     ap \<leftarrow> uart_tx_test_wait_ms hw waits UART_TX_TEST_DRAIN_WAIT_MS ap;
     let drop_count_before = board_uart_backchannel_dropped_count (ap_board ap);
     (accepted, ap) \<leftarrow> on_board (on_uart
       (hal_uart0_tx_write_preempted hw meanwhile (Some g_lossless_burst) (sizeof_text g_lossless_burst))) ap;
     (if accepted \<noteq> sizeof_text g_lossless_burst \<or> board_uart_backchannel_dropped_count (ap_board ap) \<noteq> drop_count_before
      then uart_tx_test_fail hw ap
      else do {
        ap \<leftarrow> uart_tx_test_wait_ms hw waits UART_TX_TEST_DRAIN_WAIT_MS ap;
        ap \<leftarrow> DBG_WRITE_LITERAL_preempted debug_enabled hw meanwhile (ascii ''UART_TX_LOSSLESS_OK'' @ crlf) ap;
        ap \<leftarrow> uart_tx_test_wait_ms hw waits UART_TX_TEST_DRAIN_WAIT_MS ap;
        let drop_count_before = board_uart_backchannel_dropped_count (ap_board ap);
        (accepted, ap) \<leftarrow> on_board (on_uart
          (hal_uart0_tx_write_preempted hw meanwhile (Some g_overload_burst) (sizeof_text g_overload_burst))) ap;
        (if accepted \<ge> sizeof_text g_overload_burst \<or> board_uart_backchannel_dropped_count (ap_board ap) = drop_count_before
         then uart_tx_test_fail hw ap
         else do {
           ap \<leftarrow> uart_tx_test_wait_ms hw waits UART_TX_TEST_DRAIN_WAIT_MS ap;
           ap \<leftarrow> DBG_WRITE_LITERAL_preempted debug_enabled hw meanwhile (ascii ''UART_TX_OVERFLOW_OK'' @ crlf) ap;
           Some (Toggle_Loop (hal_timer_now_ms (ap_timer ap) + UART_TX_TEST_BLINK_PERIOD_MS) UART_TX_TEST_BLINK_PERIOD_MS, ap)
         })
      })
   }"

definition uart_tx_test_main ::
  "bool \<Rightarrow> 'h hardware \<Rightarrow> 'h waits \<Rightarrow> ('h uart \<Rightarrow> nat) \<Rightarrow> 'h app \<Rightarrow> (app_loop \<times> 'h app) defined" where
  "uart_tx_test_main debug_enabled hw waits meanwhile ap = do {
     (failed, ap) \<leftarrow> app_start_fails debug_enabled hw ap;
     (if failed then uart_tx_test_fail hw ap else uart_tx_test_bursts debug_enabled hw waits meanwhile ap)
   }"

text \<open>The two static assertions.\<close>

lemma burst_sizes: "sizeof_text g_lossless_burst = 32" "sizeof_text g_overload_burst = 128"
  "length g_lossless_burst = 33" "length g_overload_burst = 129"
  by (simp_all add: sizeof_text_def g_lossless_burst_def g_overload_burst_def UART_TX_TEST_BLOCK_def ascii_def
      length_concat eval_nat_numeral)

section \<open>What a preempted write does\<close>

text \<open>\<open>k\<close> bytes go in; those that left it meanwhile are \<open>sent\<close>. No byte of the free room is refused, and when no
  interrupt can come, in the device states \<open>P\<close>, none leaves it.\<close>

definition no_irqs_in :: "('h \<Rightarrow> bool) \<Rightarrow> ('h uart \<Rightarrow> nat) \<Rightarrow> bool" where
  "no_irqs_in P meanwhile \<longleftrightarrow> (\<forall>st. P (device_of st) \<longrightarrow> meanwhile st = 0)"

lemma write_loop_preempted_drives:
  assumes "ua_queue st = Some q" "ring_inv q" "ring_room q = 64" "primask (ua_core st) \<le> 1"
    "unat accepted + n \<le> length data" "unat accepted + n < 2 ^ 32"
  shows "\<exists>k st' tr sent q'. uart_write_loop_preempted hw meanwhile n data accepted st = Some (accepted + of_nat k, st') \<and> k \<le> n
    \<and> min n (64 - length (ring_contents q)) \<le> k \<and> drove st tr sent q' st'
    \<and> ring_contents q @ take k (drop (unat accepted) data) = sent @ ring_contents q' \<and> ring_room q' = 64
    \<and> rb_dropped_count q' = rb_dropped_count q + (if k < n then 1 else 0)
    \<and> (\<forall>imask. imask_register hw imask \<longrightarrow> k = 0 \<longrightarrow> armed imask (device_of st) q \<longrightarrow> armed imask (device_of st') q')
    \<and> (\<forall>P. no_irqs_in P meanwhile \<longrightarrow> P (device_of st) \<longrightarrow> sent = [] \<and> device_of st' = device_of st)"
  using assms
proof (induction n arbitrary: accepted st q)
  case 0
  have "drove st [] [] q st" using 0 by (simp add: drove_def)
  with 0 show ?case by (intro exI [of _ 0] exI [of _ st] exI [of _ "[]"] exI [of _ q]) simp
next
  case (Suc n)
  define a where "a = unat accepted"
  have a: "a < length data" "unat (accepted + 1) = Suc a"
    using Suc.prems(5,6) by (simp_all add: a_def unat_plus_if_size word_size)
  have byte: "array_read data a = Some (data ! a)" using a(1) by (simp add: array_read_def)
  obtain st1 tr1 sent1 q1 where i: "uart_irqs hw (meanwhile st) st = Some st1" "drove st tr1 sent1 q1 st1"
    "ring_contents q = sent1 @ ring_contents q1" "ring_room q1 = 64" "rb_dropped_count q1 = rb_dropped_count q"
    "\<forall>imask. imask_register hw imask \<longrightarrow> armed imask (device_of st) q \<longrightarrow> armed imask (device_of st1) q1"
    using irqs_drive [OF Suc.prems(1-4), of hw "meanwhile st"] by blast
  have q1: "ua_queue st1 = Some q1" "ring_inv q1" "primask (ua_core st1) \<le> 1"
    using i(2) Suc.prems(4) by (simp_all add: drove_def)
  have still: "sent1 = [] \<and> st1 = st" if "no_irqs_in P meanwhile" "P (device_of st)" for P
    using that i(1,3) Suc.prems(1) q1(1) by (auto simp: no_irqs_in_def)
  obtain pushed q2 where push: "ring_push q1 (data ! a) = Some (pushed, q2)" "ring_inv q2" "ring_room q2 = ring_room q1"
    "ring_contents q2 = (if pushed then ring_contents q1 @ [data ! a] else ring_contents q1)"
    "rb_dropped_count q2 = (if pushed then rb_dropped_count q1 else rb_dropped_count q1 + 1)"
    "pushed \<longleftrightarrow> length (ring_contents q1) < ring_room q1"
    by (rule ring.push_total [OF q1(2)])
  let ?st2 = "st1\<lparr>ua_queue := Some q2\<rparr>"
  have d: "drove st tr1 sent1 q2 ?st2" using i(2) push(2) by (simp add: drove_def)
  have pushes: "lib_ringbuf_try_push (Some q1) (data ! a) = Some (pushed, Some q2)"
    using push(1) by (auto simp: ring_push_def bind_eq_Some_conv)
  show ?case
  proof (cases pushed)
    case False
    then have "uart_write_loop_preempted hw meanwhile (Suc n) data accepted st = Some (accepted + of_nat 0, ?st2)"
      using i(1) q1(1) pushes by (simp add: byte flip: a_def)
    moreover have "64 - length (ring_contents q) = 0" using False push(6) i(3,4) by simp
    ultimately show ?thesis
      using False d push(3-5) i still
      by (intro exI [of _ 0] exI [of _ ?st2] exI [of _ tr1] exI [of _ sent1] exI [of _ q2]) (auto simp: armed_def)
  next
    case True
    obtain k st' tr sent q' where r: "uart_write_loop_preempted hw meanwhile n data (accepted + 1) ?st2 = Some (accepted + 1 + of_nat k, st')"
      "k \<le> n" "min n (64 - length (ring_contents q2)) \<le> k" "drove ?st2 tr sent q' st'"
      "ring_contents q2 @ take k (drop (Suc a) data) = sent @ ring_contents q'" "ring_room q' = 64"
      "rb_dropped_count q' = rb_dropped_count q2 + (if k < n then 1 else 0)"
      "\<forall>P. no_irqs_in P meanwhile \<longrightarrow> P (device_of ?st2) \<longrightarrow> sent = [] \<and> device_of st' = device_of ?st2"
      using Suc.IH [of ?st2 q2 "accepted + 1"] push(2,3) i(4) q1(3) a(2) Suc.prems(5,6) unfolding a_def by auto
    have "uart_write_loop_preempted hw meanwhile (Suc n) data accepted st = Some (accepted + of_nat (Suc k), st')"
      using i(1) q1(1) pushes True r(1) by (simp add: byte add.assoc flip: a_def)
    moreover have "min (Suc n) (64 - length (ring_contents q)) \<le> Suc k" using r(3) push(4) True i(3) by auto
    moreover have "ring_contents q @ take (Suc k) (drop a data) = (sent1 @ sent) @ ring_contents q'"
    proof -
      have "take (Suc k) (drop a data) = data ! a # take k (drop (Suc a) data)"
        using a(1) by (metis Cons_nth_drop_Suc take_Suc_Cons)
      then have "ring_contents q @ take (Suc k) (drop a data) = sent1 @ ring_contents q2 @ take k (drop (Suc a) data)"
        using push(4) True i(3) by simp
      then show ?thesis using r(5) by simp
    qed
    moreover have "sent1 @ sent = [] \<and> device_of st' = device_of st" if "no_irqs_in P meanwhile" "P (device_of st)" for P
    proof -
      have "st1 = st" "sent1 = []" using still [OF that] by simp_all
      then have "P (device_of ?st2)" using that(2) by simp
      then show ?thesis using r(8) that(1) \<open>st1 = st\<close> \<open>sent1 = []\<close> by fastforce
    qed
    moreover have "rb_dropped_count q' = rb_dropped_count q + (if Suc k < Suc n then 1 else 0)"
      using r(7) push(5) True i(5) by simp
    moreover have "drove st (tr1 @ tr) (sent1 @ sent) q' st'" "Suc k \<le> Suc n"
      using drove_trans [OF d r(4)] r(2) by simp_all
    ultimately show ?thesis using r(6) unfolding a_def by blast
  qed
qed

text \<open>The whole write: bytes it took leave the interrupt enabled.\<close>

lemma write_preempted_drives:
  assumes "ua_queue st = Some q" "ring_inv q" "ring_room q = 64" "ua_initialized st" "primask (ua_core st) \<le> 1"
    "unat n \<le> length data"
  shows "\<exists>k st' tr sent q'. hal_uart0_tx_write_preempted hw meanwhile (Some data) n st = Some (of_nat k, st') \<and> k \<le> unat n
    \<and> min (unat n) (64 - length (ring_contents q)) \<le> k \<and> drove st tr sent q' st'
    \<and> ring_contents q @ take k data = sent @ ring_contents q' \<and> ring_room q' = 64
    \<and> rb_dropped_count q' = rb_dropped_count q + (if k < unat n then 1 else 0)
    \<and> (\<forall>imask. imask_register hw imask \<longrightarrow> armed imask (device_of st) q \<longrightarrow> armed imask (device_of st') q')
    \<and> (\<forall>P. no_irqs_in P meanwhile \<longrightarrow> P (device_of st) \<longrightarrow> sent = [])"
proof -
  have bound: "unat n < 2 ^ LENGTH(32)" by (rule unsigned_less)
  obtain k st1 tr1 sent1 q1 where l: "uart_write_loop_preempted hw meanwhile (unat n) data 0 st = Some (of_nat k, st1)" "k \<le> unat n"
    "min (unat n) (64 - length (ring_contents q)) \<le> k" "drove st tr1 sent1 q1 st1"
    "ring_contents q @ take k data = sent1 @ ring_contents q1" "ring_room q1 = 64"
    "rb_dropped_count q1 = rb_dropped_count q + (if k < unat n then 1 else 0)"
    "\<forall>imask. imask_register hw imask \<longrightarrow> k = 0 \<longrightarrow> armed imask (device_of st) q \<longrightarrow> armed imask (device_of st1) q1"
    "\<forall>P. no_irqs_in P meanwhile \<longrightarrow> P (device_of st) \<longrightarrow> sent1 = [] \<and> device_of st1 = device_of st"
    using write_loop_preempted_drives [OF assms(1-3,5), of 0 "unat n" data hw meanwhile] assms(6) bound by auto
  have q1: "ua_queue st1 = Some q1" "ring_inv q1" "primask (ua_core st1) \<le> 1" using l(4) assms(5) by (simp_all add: drove_def)
  obtain st2 tr2 sent2 q2 where i: "uart_irqs hw (meanwhile st1) st1 = Some st2" "drove st1 tr2 sent2 q2 st2"
    "ring_contents q1 = sent2 @ ring_contents q2" "ring_room q2 = 64" "rb_dropped_count q2 = rb_dropped_count q1"
    "\<forall>imask. imask_register hw imask \<longrightarrow> armed imask (device_of st1) q1 \<longrightarrow> armed imask (device_of st2) q2"
    using irqs_drive [OF q1(1,2) l(6) q1(3), of hw "meanwhile st1"] by blast
  have q2: "ua_queue st2 = Some q2" "ring_inv q2" "primask (ua_core st2) \<le> 1" using i(2) q1(3) by (simp_all add: drove_def)
  have "k < 2 ^ LENGTH(32)" using l(2) bound by (rule order.strict_trans1)
  then have "unat (of_nat k :: u32) = k" by (simp only: unat_of_nat mod_less)
  then have k: "(of_nat k :: u32) = 0 \<longleftrightarrow> k = 0" by (metis unat_eq_0)
  obtain st' tr3 where e: "(if (of_nat k :: u32) \<noteq> 0 then hal_uart0_tx_enable_interrupt hw st2 else Some st2) = Some st'"
    "drove st2 tr3 [] q2 st'" "k \<noteq> 0 \<longrightarrow> (\<forall>imask. imask_register hw imask \<longrightarrow> imask (device_of st') AND UART_TXINT \<noteq> 0)"
    "k = 0 \<longrightarrow> st' = st2"
  proof (cases "k = 0")
    case True
    have "drove st2 [] [] q2 st2" using q2 by (simp add: drove_def)
    with that True show ?thesis by simp
  next
    case False
    with that k enable_interrupt_drives [OF q2(3,1,2), of hw] show ?thesis by auto
  qed
  have "hal_uart0_tx_write_preempted hw meanwhile (Some data) n st = Some (of_nat k, st')"
    using assms(4) l(1) i(1) e(1) by (simp add: hal_uart0_tx_write_preempted_def)
  moreover have "drove st (tr1 @ tr2 @ tr3) (sent1 @ sent2) q2 st'"
    using drove_trans [OF l(4) drove_trans [OF i(2) e(2)]] by simp
  moreover have "armed imask (device_of st') q2" if "imask_register hw imask" "armed imask (device_of st) q" for imask
    using that l(8) i(6) e(3,4) by (cases "k = 0") (auto simp: armed_def)
  moreover have "sent1 @ sent2 = []" if "no_irqs_in P meanwhile" "P (device_of st)" for P
  proof -
    have s: "sent1 = []" "device_of st1 = device_of st" using l(9) that by blast+
    then have "meanwhile st1 = 0" using that by (simp add: no_irqs_in_def)
    then have "st2 = st1" using i(1) by simp
    then show ?thesis using s(1) i(2,3) q1(1) by (simp add: drove_def)
  qed
  moreover have "ring_contents q @ take k data = (sent1 @ sent2) @ ring_contents q2" using l(5) i(3) by simp
  moreover have "rb_dropped_count q2 = rb_dropped_count q + (if k < unat n then 1 else 0)" using l(7) i(5) by simp
  ultimately show ?thesis using l(2,3) i(4) by blast
qed


section \<open>What the application does\<close>

lemma app_write_preempted_ran:
  assumes "uart_up debug_enabled hw ap q" "unat n \<le> length chars"
  shows "\<exists>k ap' q'. on_board (on_uart (hal_uart0_tx_write_preempted hw meanwhile (Some chars) n)) ap = Some (of_nat k, ap')
    \<and> k \<le> unat n \<and> min (unat n) (64 - length (ring_contents q)) \<le> k \<and> uart_up debug_enabled hw ap' q'
    \<and> passes_on ap q (take k chars) ap' q' \<and> rb_dropped_count q' = rb_dropped_count q + (if k < unat n then 1 else 0)
    \<and> ap_timer ap' = ap_timer ap
    \<and> (\<forall>imask. imask_register hw imask \<longrightarrow> armed imask (app_device ap) q \<longrightarrow> armed imask (app_device ap') q')
    \<and> (\<forall>P. no_irqs_in P meanwhile \<longrightarrow> P (app_device ap) \<longrightarrow> ring_contents q' = ring_contents q @ take k chars)"
proof -
  let ?bd = "ap_board ap"
  let ?u = "(bd_uart ?bd)\<lparr>ua_machine := bd_machine ?bd\<rparr>"
  have u: "ua_queue ?u = Some q" "ring_inv q" "ring_room q = 64" "ua_initialized ?u" "primask (ua_core ?u) \<le> 1"
    and up: "debug_enabled \<longrightarrow> bd_writer ?bd = Some (board_debug_write hw)"
    using assms(1) by (simp_all add: uart_up_def uart_inv_def)
  obtain k u' tr sent q' where w: "hal_uart0_tx_write_preempted hw meanwhile (Some chars) n ?u = Some (of_nat k, u')" "k \<le> unat n"
    "min (unat n) (64 - length (ring_contents q)) \<le> k" "drove ?u tr sent q' u'"
    "ring_contents q @ take k chars = sent @ ring_contents q'" "ring_room q' = 64"
    "rb_dropped_count q' = rb_dropped_count q + (if k < unat n then 1 else 0)"
    "\<forall>imask. imask_register hw imask \<longrightarrow> armed imask (device_of ?u) q \<longrightarrow> armed imask (device_of u') q'"
    "\<forall>P. no_irqs_in P meanwhile \<longrightarrow> P (device_of ?u) \<longrightarrow> sent = []"
    using write_preempted_drives [OF u assms(2), of hw meanwhile] by blast
  define ap' where "ap' = ap\<lparr>ap_board := ?bd\<lparr>bd_machine := ua_machine u', bd_uart := u'\<rparr>\<rparr>"
  have "on_board (on_uart (hal_uart0_tx_write_preempted hw meanwhile (Some chars) n)) ap = Some (of_nat k, ap')"
    using w(1) by (simp add: on_board_def on_uart_def ap'_def)
  moreover have "uart_up debug_enabled hw ap' q'" "ap_timer ap' = ap_timer ap"
    using w(4,6) u up by (simp_all add: ap'_def uart_up_def uart_inv_def drove_def)
  moreover have "passes_on ap q (take k chars) ap' q'"
    unfolding passes_on_def by (intro exI [of _ tr] exI [of _ sent]) (use w(4,5) in \<open>simp add: ap'_def drove_def\<close>)
  moreover have "armed imask (app_device ap') q'" if "imask_register hw imask" "armed imask (app_device ap) q" for imask
    using w(8) that by (simp add: ap'_def)
  moreover have "ring_contents q' = ring_contents q @ take k chars" if "no_irqs_in P meanwhile" "P (app_device ap)" for P
    using w(5,9) that by fastforce
  ultimately show ?thesis using w(2,3,7) by blast
qed

lemma app_literal_preempted_ran:
  assumes "uart_up debug_enabled hw ap q" "length chars \<le> 64"
  shows "\<exists>k ap' q'. DBG_WRITE_LITERAL_preempted debug_enabled hw meanwhile chars ap = Some ap'
    \<and> k \<le> length (spoken debug_enabled chars) \<and> min (length (spoken debug_enabled chars)) (64 - length (ring_contents q)) \<le> k
    \<and> uart_up debug_enabled hw ap' q' \<and> passes_on ap q (take k (spoken debug_enabled chars)) ap' q'
    \<and> (\<forall>imask. imask_register hw imask \<longrightarrow> armed imask (app_device ap) q \<longrightarrow> armed imask (app_device ap') q')"
proof (cases debug_enabled)
  case False
  then show ?thesis
    using assms by (intro exI [of _ 0] exI [of _ ap] exI [of _ q])
      (simp add: DBG_WRITE_LITERAL_preempted_def spoken_def passes_on_refl)
next
  case True
  have n: "unat (of_nat (length chars) :: u32) = length chars" using assms(2) by (simp add: unat_of_nat)
  obtain k ap' q' where w: "on_board (on_uart (hal_uart0_tx_write_preempted hw meanwhile (Some (chars @ [0])) (of_nat (length chars)))) ap
      = Some (of_nat k, ap')" "k \<le> length chars" "min (length chars) (64 - length (ring_contents q)) \<le> k"
    "uart_up debug_enabled hw ap' q'" "passes_on ap q (take k (chars @ [0])) ap' q'"
    "\<forall>imask. imask_register hw imask \<longrightarrow> armed imask (app_device ap) q \<longrightarrow> armed imask (app_device ap') q'"
    using app_write_preempted_ran [OF assms(1), of "of_nat (length chars)" "chars @ [0]" meanwhile] unfolding n by auto
  have "bd_writer (ap_board ap) = Some (board_debug_write hw)" using assms(1) True by (simp add: uart_up_def)
  then have "DBG_WRITE_LITERAL_preempted debug_enabled hw meanwhile chars ap = Some ap'"
    using True w(1)
    by (auto simp: DBG_WRITE_LITERAL_preempted_def on_board_def on_uart_def lib_debug_write_def literal_def bind_eq_Some_conv)
  moreover have "take k (chars @ [0]) = take k (spoken debug_enabled chars)" using True w(2) by (simp add: spoken_def)
  ultimately show ?thesis using True w by (intro exI [of _ k] exI [of _ ap'] exI [of _ q']) (simp add: spoken_def)
qed

text \<open>A transmitter that keeps up with the application: an interrupt that comes finds room for a byte, \<open>IMASK\<close> is a register,
  at least one interrupt comes in every millisecond in which the transmit interrupt is enabled, and none comes during a
  write while it is disabled. At 115200 baud eleven bytes leave in a millisecond.\<close>

definition transmitter :: "'h hardware \<Rightarrow> ('h \<Rightarrow> u32) \<Rightarrow> bool" where
  "transmitter hw imask \<longleftrightarrow> finds_room hw \<and> imask_register hw imask
     \<and> (\<forall>v d. imask (hw_write hw (WWDT0 WWDT_CNTRST) v d) = imask d)"

definition interrupts_due :: "nat \<times> nat list \<Rightarrow> bool" where
  "interrupts_due w \<longleftrightarrow> 0 < fst w \<or> (\<exists>n\<in>set (snd w). 0 < n)"

definition keeps_up :: "'h hardware \<Rightarrow> ('h \<Rightarrow> u32) \<Rightarrow> 'h waits \<Rightarrow> ('h uart \<Rightarrow> nat) \<Rightarrow> bool" where
  "keeps_up hw imask waits meanwhile \<longleftrightarrow> transmitter hw imask
     \<and> (\<forall>ap. imask (app_device ap) AND UART_TXINT \<noteq> 0 \<longrightarrow> interrupts_due (waits ap))
     \<and> no_irqs_in (\<lambda>d. imask d AND UART_TXINT = 0) meanwhile"

text \<open>The interrupts still needed until the transmitter rests. Each of them takes one off, and nothing else in a wait adds
  to them.\<close>

definition interrupts_left :: "('h \<Rightarrow> u32) \<Rightarrow> 'h \<Rightarrow> lib_ringbuf \<Rightarrow> nat" where
  "interrupts_left imask d q = (if resting imask d q then 0 else Suc (length (ring_contents q)))"

definition rests_after :: "'h hardware \<Rightarrow> nat \<Rightarrow> 'h app \<Rightarrow> lib_ringbuf \<Rightarrow> 'h app \<Rightarrow> lib_ringbuf \<Rightarrow> bool" where
  "rests_after hw j ap q ap' q' \<longleftrightarrow> (\<forall>imask. transmitter hw imask \<longrightarrow> armed imask (app_device ap) q \<longrightarrow>
     armed imask (app_device ap') q'
     \<and> interrupts_left imask (app_device ap') q' \<le> interrupts_left imask (app_device ap) q - j)"

lemma rests_after_trans: "rests_after hw i ap q ap1 q1 \<Longrightarrow> rests_after hw j ap1 q1 ap2 q2 \<Longrightarrow> rests_after hw (i + j) ap q ap2 q2"
  by (fastforce simp: rests_after_def)

lemma interrupts_rest:
  assumes "uart_up debug_enabled hw ap q"
  shows "\<exists>ap' q'. uart_interrupts hw n ap = Some ap' \<and> uart_up debug_enabled hw ap' q' \<and> passes_on ap q [] ap' q'
    \<and> ap_timer ap' = ap_timer ap \<and> rests_after hw (if 0 < n then 1 else 0) ap q ap' q'"
proof -
  obtain ap' q' where i: "uart_interrupts hw n ap = Some ap'" "uart_up debug_enabled hw ap' q'" "passes_on ap q [] ap' q'"
    "ap_timer ap' = ap_timer ap"
    "finds_room hw \<longrightarrow> 0 < n \<longrightarrow> length (ring_contents q') \<le> length (ring_contents q) - 1"
    "\<forall>imask. imask_register hw imask \<longrightarrow>
        (armed imask (app_device ap) q \<longrightarrow> armed imask (app_device ap') q')
        \<and> (finds_room hw \<longrightarrow> 0 < n \<longrightarrow> ring_contents q = [] \<longrightarrow> resting imask (app_device ap') q')"
    using interrupts_ran [OF assms, of n] by blast
  have "interrupts_left imask (app_device ap') q' \<le> interrupts_left imask (app_device ap) q - (if 0 < n then 1 else 0)"
    if hw: "transmitter hw imask" for imask
  proof (cases "0 < n")
    case False
    then have "app_device ap' = app_device ap" "ua_queue (bd_uart (ap_board ap')) = ua_queue (bd_uart (ap_board ap))"
      using i(1) by (auto simp: uart_interrupts_def on_board_def on_uart_def quietly_def)
    moreover have "ua_queue (bd_uart (ap_board ap')) = Some q'" "ua_queue (bd_uart (ap_board ap)) = Some q"
      using i(2) assms by (simp_all add: uart_up_def uart_inv_def)
    ultimately show ?thesis using False by simp
  next
    case True
    show ?thesis
    proof (cases "ring_contents q = []")
      case empty: True
      with True hw i(6) show ?thesis by (simp add: interrupts_left_def transmitter_def)
    next
      case False
      then have "Suc (length (ring_contents q')) \<le> length (ring_contents q)"
        using True hw i(5) by (cases "ring_contents q") (auto simp: transmitter_def)
      then show ?thesis using True False by (simp add: interrupts_left_def resting_def)
    qed
  qed
  then have "rests_after hw (if 0 < n then 1 else 0) ap q ap' q'"
    using i(6) unfolding rests_after_def transmitter_def by blast
  with i(1-4) show ?thesis by blast
qed

lemma kick_and_sleep_ran:
  assumes "uart_up debug_enabled hw ap q"
  shows "\<exists>ap1 ap'. app_kick hw ap = Some ap1 \<and> arch_wait_for_interrupt ap1 = Some ap' \<and> uart_up debug_enabled hw ap' q
    \<and> passes_on ap q [] ap' q \<and> ap_timer ap' = ap_timer ap \<and> rests_after hw 0 ap q ap' q"
proof -
  obtain ap1 ap' where k: "app_kick hw ap = Some ap1" "arch_wait_for_interrupt ap1 = Some ap'"
    "app_trace ap' = app_trace ap @ [Write (WWDT0 WWDT_CNTRST) HAL_WDT_RESTART_KEY, Wfi]" "ap_timer ap' = ap_timer ap"
    "app_device ap' = hw_write hw (WWDT0 WWDT_CNTRST) HAL_WDT_RESTART_KEY (app_device ap)" "uart_up debug_enabled hw ap' q"
    using assms by (simp add: app_call_defs uart_up_def)
  moreover have "passes_on ap q [] ap' q" by (rule passes_on_quiet [OF k(3)]) simp
  moreover have "rests_after hw 0 ap q ap' q"
    unfolding rests_after_def transmitter_def k(5) by (simp add: armed_def interrupts_left_def resting_def)
  ultimately show ?thesis by blast
qed

lemma rests_after_less: "rests_after hw i ap q ap' q' \<Longrightarrow> j \<le> i \<Longrightarrow> rests_after hw j ap q ap' q'"
  by (fastforce simp: rests_after_def)

lemma passes_on_nothing: "passes_on ap q [] ap1 q1 \<Longrightarrow> passes_on ap1 q1 [] ap2 q2 \<Longrightarrow> passes_on ap q [] ap2 q2"
  using passes_on_trans [of ap q "[]" ap1 q1 "[]"] by simp

text \<open>The waits of a millisecond, up to its SysTick.\<close>

lemma wait_loop_ends_ran:
  assumes "uart_up debug_enabled hw ap q" "\<not> hal_timer_deadline_reached deadline (ap_timer ap)"
  shows "\<exists>ap1 q1. uart_tx_test_wait_loop hw waits (Suc fuel) ends deadline ap = do {
        let ap = ap1\<lparr>ap_timer := SysTick_Handler (ap_timer ap1)\<rparr>;
        let (n, later) = waits ap;
        ap \<leftarrow> uart_interrupts hw n ap;
        uart_tx_test_wait_loop hw waits fuel later deadline ap
      } \<and> uart_up debug_enabled hw ap1 q1 \<and> passes_on ap q [] ap1 q1 \<and> ap_timer ap1 = ap_timer ap
    \<and> rests_after hw (if \<exists>n\<in>set ends. 0 < n then 1 else 0) ap q ap1 q1"
  using assms
proof (induction ends arbitrary: ap q)
  case Nil
  obtain ap1 ap' where k: "app_kick hw ap = Some ap1" "arch_wait_for_interrupt ap1 = Some ap'" "uart_up debug_enabled hw ap' q"
    "passes_on ap q [] ap' q" "ap_timer ap' = ap_timer ap" "rests_after hw 0 ap q ap' q"
    using kick_and_sleep_ran [OF Nil.prems(1)] by blast
  with Nil.prems(2) show ?case by (intro exI [of _ ap'] exI [of _ q]) simp
next
  case (Cons n ends)
  obtain ap1 ap2 where k: "app_kick hw ap = Some ap1" "arch_wait_for_interrupt ap1 = Some ap2" "uart_up debug_enabled hw ap2 q"
    "passes_on ap q [] ap2 q" "ap_timer ap2 = ap_timer ap" "rests_after hw 0 ap q ap2 q"
    using kick_and_sleep_ran [OF Cons.prems(1)] by blast
  obtain ap3 q3 where i: "uart_interrupts hw n ap2 = Some ap3" "uart_up debug_enabled hw ap3 q3" "passes_on ap2 q [] ap3 q3"
    "ap_timer ap3 = ap_timer ap2" "rests_after hw (if 0 < n then 1 else 0) ap2 q ap3 q3"
    using interrupts_rest [OF k(3), of n] by blast
  have early: "\<not> hal_timer_deadline_reached deadline (ap_timer ap3)" using Cons.prems(2) i(4) k(5) by simp
  obtain ap4 q4 where r: "uart_tx_test_wait_loop hw waits (Suc fuel) ends deadline ap3 = do {
        let ap = ap4\<lparr>ap_timer := SysTick_Handler (ap_timer ap4)\<rparr>;
        let (n, later) = waits ap;
        ap \<leftarrow> uart_interrupts hw n ap;
        uart_tx_test_wait_loop hw waits fuel later deadline ap
      }" "uart_up debug_enabled hw ap4 q4" "passes_on ap3 q3 [] ap4 q4" "ap_timer ap4 = ap_timer ap3"
    "rests_after hw (if \<exists>n\<in>set ends. 0 < n then 1 else 0) ap3 q3 ap4 q4"
    using Cons.IH [OF i(2) early] by blast
  have "uart_tx_test_wait_loop hw waits (Suc fuel) (n # ends) deadline ap
      = uart_tx_test_wait_loop hw waits (Suc fuel) ends deadline ap3"
    using Cons.prems(2) k(1,2) i(1) by (subst uart_tx_test_wait_loop.simps) simp
  moreover have "passes_on ap q [] ap4 q4"
    by (rule passes_on_nothing [OF passes_on_nothing [OF k(4) i(3)] r(3)])
  moreover have "rests_after hw (if \<exists>m\<in>set (n # ends). 0 < m then 1 else 0) ap q ap4 q4"
    by (rule rests_after_less [OF rests_after_trans [OF rests_after_trans [OF k(6) i(5)] r(5)]]) auto
  ultimately show ?case using r(1,2,4) i(4) k(5) by (intro exI [of _ ap4] exI [of _ q4]) simp
qed

text \<open>The wait, from the interrupts that come at its start: it ends at its deadline, and a transmitter that keeps up has
  served an interrupt in each of its milliseconds while there was one to serve.\<close>

lemma wait_loop_ran:
  assumes "uart_up debug_enabled hw ap q" "j < 2 ^ 31" "hal_timer_now_ms (ap_timer ap) + of_nat j = deadline" "j < fuel"
  shows "\<exists>ap' q'. (do {
        let (n, later) = waits ap;
        ap \<leftarrow> uart_interrupts hw n ap;
        uart_tx_test_wait_loop hw waits fuel later deadline ap
      }) = Some ap' \<and> uart_up debug_enabled hw ap' q' \<and> passes_on ap q [] ap' q' \<and> hal_timer_now_ms (ap_timer ap') = deadline
    \<and> (\<forall>imask. keeps_up hw imask waits meanwhile \<longrightarrow> armed imask (app_device ap) q \<longrightarrow> armed imask (app_device ap') q'
        \<and> interrupts_left imask (app_device ap') q' \<le> interrupts_left imask (app_device ap) q - j)"
  using assms
proof (induction j arbitrary: ap q fuel)
  case 0
  obtain n later where w: "waits ap = (n, later)" by fastforce
  obtain ap1 q1 where i: "uart_interrupts hw n ap = Some ap1" "uart_up debug_enabled hw ap1 q1" "passes_on ap q [] ap1 q1"
    "ap_timer ap1 = ap_timer ap" "rests_after hw (if 0 < n then 1 else 0) ap q ap1 q1"
    using interrupts_rest [OF 0(1), of n] by blast
  have "hal_timer_deadline_reached deadline (ap_timer ap1)"
    using deadline_reached_iff [of "of_nat 0" 0 "ap_timer ap1" "hal_timer_now_ms (ap_timer ap)"] 0(3) i(4) by simp
  moreover have "rests_after hw 0 ap q ap1 q1" by (rule rests_after_less [OF i(5)]) simp
  moreover obtain m where "fuel = Suc m" using 0(4) by (cases fuel) simp_all
  ultimately show ?case using w i 0(3) by (auto simp: rests_after_def keeps_up_def)
next
  case (Suc j)
  obtain n later where w: "waits ap = (n, later)" by fastforce
  obtain m where m: "fuel = Suc m" using Suc.prems(4) by (cases fuel) simp_all
  obtain ap1 q1 where i: "uart_interrupts hw n ap = Some ap1" "uart_up debug_enabled hw ap1 q1" "passes_on ap q [] ap1 q1"
    "ap_timer ap1 = ap_timer ap" "rests_after hw (if 0 < n then 1 else 0) ap q ap1 q1"
    using interrupts_rest [OF Suc.prems(1), of n] by blast
  have "unat (of_nat (Suc j) :: u32) = Suc j" using Suc.prems(2) by (simp add: unat_of_nat del: of_nat_Suc)
  then have "\<not> hal_timer_deadline_reached deadline (ap_timer ap)"
    using deadline_reached_iff [of "of_nat (Suc j)" 0 "ap_timer ap" "hal_timer_now_ms (ap_timer ap)"] Suc.prems(2)
    unfolding Suc.prems(3) [symmetric] by (simp del: of_nat_Suc)
  then have early: "\<not> hal_timer_deadline_reached deadline (ap_timer ap1)" using i(4) by simp
  obtain ap2 q2 where e: "uart_tx_test_wait_loop hw waits (Suc m) later deadline ap1 = do {
        let ap = ap2\<lparr>ap_timer := SysTick_Handler (ap_timer ap2)\<rparr>;
        let (n, later) = waits ap;
        ap \<leftarrow> uart_interrupts hw n ap;
        uart_tx_test_wait_loop hw waits m later deadline ap
      }" "uart_up debug_enabled hw ap2 q2" "passes_on ap1 q1 [] ap2 q2" "ap_timer ap2 = ap_timer ap1"
    "rests_after hw (if \<exists>n\<in>set later. 0 < n then 1 else 0) ap1 q1 ap2 q2"
    using wait_loop_ends_ran [OF i(2) early, of waits m later] by blast
  define ap3 where "ap3 = ap2\<lparr>ap_timer := SysTick_Handler (ap_timer ap2)\<rparr>"
  have up3: "uart_up debug_enabled hw ap3 q2" and quiet: "passes_on ap2 q2 [] ap3 q2"
    using e(2) passes_on_quiet [of ap3 ap2 "[]"] by (simp_all add: ap3_def uart_up_def)
  have "hal_timer_now_ms (ap_timer ap3) = hal_timer_now_ms (ap_timer ap) + 1"
    using e(4) i(4) by (simp add: ap3_def SysTick_Handler_def hal_timer_now_ms_def)
  then have left: "hal_timer_now_ms (ap_timer ap3) + of_nat j = deadline"
    using Suc.prems(3) by (simp add: algebra_simps)
  obtain ap' q' where r: "(do {
        let (n, later) = waits ap3;
        ap \<leftarrow> uart_interrupts hw n ap3;
        uart_tx_test_wait_loop hw waits m later deadline ap
      }) = Some ap'" "uart_up debug_enabled hw ap' q'" "passes_on ap3 q2 [] ap' q'" "hal_timer_now_ms (ap_timer ap') = deadline"
    "\<forall>imask. keeps_up hw imask waits meanwhile \<longrightarrow> armed imask (app_device ap3) q2 \<longrightarrow> armed imask (app_device ap') q'
        \<and> interrupts_left imask (app_device ap') q' \<le> interrupts_left imask (app_device ap3) q2 - j"
    using Suc.IH [OF up3 _ left] Suc.prems(2,4) m by fastforce
  have "armed imask (app_device ap') q' \<and> interrupts_left imask (app_device ap') q' \<le> interrupts_left imask (app_device ap) q - Suc j"
    if k: "keeps_up hw imask waits meanwhile" and a: "armed imask (app_device ap) q" for imask
  proof -
    let ?left = "interrupts_left imask (app_device ap) q"
    have hw: "transmitter hw imask" and due: "imask (app_device ap) AND UART_TXINT \<noteq> 0 \<longrightarrow> interrupts_due (n, later)"
      using k w [symmetric] unfolding keeps_up_def by simp_all
    note both = rests_after_trans [OF i(5) e(5), unfolded rests_after_def, rule_format, OF hw a]
    have "interrupts_left imask (app_device ap2) q2 \<le> ?left - 1"
    proof (cases "?left = 0")
      case True
      with both show ?thesis by simp
    next
      case False
      then have "imask (app_device ap) AND UART_TXINT \<noteq> 0"
        using a by (auto simp: interrupts_left_def armed_def resting_def split: if_splits)
      then have "0 < n \<or> (\<exists>n\<in>set later. 0 < n)" using due by (simp add: interrupts_due_def)
      then have "1 \<le> (if 0 < n then 1 else 0) + (if \<exists>n\<in>set later. 0 < n then 1 else 0 :: nat)" by auto
      then show ?thesis using both by linarith
    qed
    moreover have "app_device ap3 = app_device ap2" by (simp add: ap3_def)
    ultimately show ?thesis using r(5) k both by (fastforce intro: order_trans diff_le_mono)
  qed
  moreover have "passes_on ap q [] ap' q'"
    by (rule passes_on_nothing [OF passes_on_nothing [OF passes_on_nothing [OF i(3) e(3)] quiet] r(3)])
  moreover have "(do {
        let (n, later) = waits ap;
        ap \<leftarrow> uart_interrupts hw n ap;
        uart_tx_test_wait_loop hw waits fuel later deadline ap
      }) = Some ap'"
    using w i(1) m e(1) r(1) by (simp add: ap3_def del: uart_tx_test_wait_loop.simps)
  ultimately show ?case using r(2,4) by blast
qed

lemma wait_ran:
  assumes "uart_up debug_enabled hw ap q"
  shows "\<exists>ap' q'. uart_tx_test_wait_ms hw waits UART_TX_TEST_DRAIN_WAIT_MS ap = Some ap' \<and> uart_up debug_enabled hw ap' q'
    \<and> passes_on ap q [] ap' q'
    \<and> (\<forall>imask. keeps_up hw imask waits meanwhile \<longrightarrow> armed imask (app_device ap) q \<longrightarrow> armed imask (app_device ap') q'
        \<and> interrupts_left imask (app_device ap') q' \<le> interrupts_left imask (app_device ap) q - 50)"
proof -
  have "UART_TX_TEST_DRAIN_WAIT_MS = 50" "unat (50 :: u32) = 50" by (simp_all add: UART_TX_TEST_DRAIN_WAIT_MS_def)
  then show ?thesis
    using wait_loop_ran [OF assms, of 50 "hal_timer_now_ms (ap_timer ap) + 50" 51 waits meanwhile]
    unfolding uart_tx_test_wait_ms_def Let_def by auto
qed

section \<open>The test\<close>

abbreviation (input) greeting :: "u8 list" where
  "greeting \<equiv> ascii ''mspm-baremetal: uart_tx_test'' @ crlf"
abbreviation (input) lossless_ok :: "u8 list" where
  "lossless_ok \<equiv> ascii ''UART_TX_LOSSLESS_OK'' @ crlf"
abbreviation (input) overflow_ok :: "u8 list" where
  "overflow_ok \<equiv> ascii ''UART_TX_OVERFLOW_OK'' @ crlf"

lemma line_sizes: "length greeting = 30" "length lossless_ok = 21" "length overflow_ok = 21"
  by (simp_all add: ascii_def crlf_def)

lemma take_burst: "k \<le> 32 \<Longrightarrow> take k g_lossless_burst = take k (butlast g_lossless_burst)"
  "k \<le> 128 \<Longrightarrow> take k g_overload_burst = take k (butlast g_overload_burst)"
  by (simp_all add: take_butlast burst_sizes)

text \<open>The bytes the test puts on the line, when so many of the second and fourth part and of the overload burst were
  taken.\<close>

definition uart_tx_test_line :: "bool \<Rightarrow> nat \<Rightarrow> nat \<Rightarrow> nat \<Rightarrow> u8 list" where
  "uart_tx_test_line debug_enabled k1 k2 k3 = spoken debug_enabled greeting @ butlast g_lossless_burst
     @ take k1 (spoken debug_enabled lossless_ok) @ take k2 (butlast g_overload_burst)
     @ take k3 (spoken debug_enabled overflow_ok)"

text \<open>\<open>passes_on\<close> in lengths.\<close>

lemma passes_on_holds_at_most:
  "passes_on ap q accepted ap' q' \<Longrightarrow> length (ring_contents q') \<le> length (ring_contents q) + length accepted"
  unfolding passes_on_def by (auto dest: arg_cong [where f = length])

text \<open>Up to the overload burst, before which the queue of a transmitter that keeps up is empty and at rest.\<close>

lemma lossless_ran:
  assumes "uart_up debug_enabled hw ap q" "ring_contents q = []"
  shows "\<exists>ap' q' k1. (\<forall>rest. (do {
      ap \<leftarrow> DBG_WRITE_LITERAL_preempted debug_enabled hw meanwhile greeting ap;
      ap \<leftarrow> uart_tx_test_wait_ms hw waits UART_TX_TEST_DRAIN_WAIT_MS ap;
      let drop_count_before = board_uart_backchannel_dropped_count (ap_board ap);
      (accepted, ap) \<leftarrow> on_board (on_uart (hal_uart0_tx_write_preempted hw meanwhile (Some g_lossless_burst) 32)) ap;
      (if accepted \<noteq> 32 \<or> board_uart_backchannel_dropped_count (ap_board ap) \<noteq> drop_count_before
       then uart_tx_test_fail hw ap
       else do {
         ap \<leftarrow> uart_tx_test_wait_ms hw waits UART_TX_TEST_DRAIN_WAIT_MS ap;
         ap \<leftarrow> DBG_WRITE_LITERAL_preempted debug_enabled hw meanwhile lossless_ok ap;
         ap \<leftarrow> uart_tx_test_wait_ms hw waits UART_TX_TEST_DRAIN_WAIT_MS ap;
         rest ap
       })
     }) = rest ap') \<and> uart_up debug_enabled hw ap' q'
    \<and> passes_on ap q (spoken debug_enabled greeting @ butlast g_lossless_burst @ take k1 (spoken debug_enabled lossless_ok)) ap' q'
    \<and> (\<forall>imask. keeps_up hw imask waits meanwhile \<longrightarrow> resting imask (app_device ap') q' \<and> take k1 (spoken debug_enabled lossless_ok)
         = spoken debug_enabled lossless_ok)"
proof -
  have g: "length (spoken debug_enabled greeting) \<le> 30" "length (spoken debug_enabled lossless_ok) \<le> 21"
    using line_sizes by (simp_all add: spoken_def del: length_append)
  have l: "length greeting \<le> 64" "length lossless_ok \<le> 64" using line_sizes by simp_all
  obtain k0 ap1 q1 where s1: "DBG_WRITE_LITERAL_preempted debug_enabled hw meanwhile greeting ap = Some ap1"
    "k0 \<le> length (spoken debug_enabled greeting)"
    "min (length (spoken debug_enabled greeting)) (64 - length (ring_contents q)) \<le> k0" "uart_up debug_enabled hw ap1 q1"
    "passes_on ap q (take k0 (spoken debug_enabled greeting)) ap1 q1"
    "\<forall>imask. imask_register hw imask \<longrightarrow> armed imask (app_device ap) q \<longrightarrow> armed imask (app_device ap1) q1"
    using app_literal_preempted_ran [OF assms(1) l(1), of meanwhile] by blast
  have k0: "k0 = length (spoken debug_enabled greeting)" using s1(2,3) assms(2) g(1) by simp
  have c1: "length (ring_contents q1) \<le> 30"
    using passes_on_holds_at_most [OF s1(5)] assms(2) g(1) by simp
  obtain ap2 q2 where s2: "uart_tx_test_wait_ms hw waits UART_TX_TEST_DRAIN_WAIT_MS ap1 = Some ap2" "uart_up debug_enabled hw ap2 q2"
    "passes_on ap1 q1 [] ap2 q2"
    "\<forall>imask. keeps_up hw imask waits meanwhile \<longrightarrow> armed imask (app_device ap1) q1 \<longrightarrow> armed imask (app_device ap2) q2
        \<and> interrupts_left imask (app_device ap2) q2 \<le> interrupts_left imask (app_device ap1) q1 - 50"
    using wait_ran [OF s1(4), of waits meanwhile] by blast
  have c2: "length (ring_contents q2) \<le> 30" using passes_on_shrinks [OF s2(3)] c1 by simp
  obtain k ap3 q3 where s3: "on_board (on_uart (hal_uart0_tx_write_preempted hw meanwhile (Some g_lossless_burst) 32)) ap2
      = Some (of_nat k, ap3)" "k \<le> 32" "min 32 (64 - length (ring_contents q2)) \<le> k" "uart_up debug_enabled hw ap3 q3"
    "passes_on ap2 q2 (take k g_lossless_burst) ap3 q3" "rb_dropped_count q3 = rb_dropped_count q2 + (if k < 32 then 1 else 0)"
    "\<forall>imask. imask_register hw imask \<longrightarrow> armed imask (app_device ap2) q2 \<longrightarrow> armed imask (app_device ap3) q3"
    using app_write_preempted_ran [OF s2(2), of 32 g_lossless_burst meanwhile] by (auto simp: burst_sizes)
  have k: "k = 32" using s3(2,3) c2 by simp
  have full: "take 32 g_lossless_burst = butlast g_lossless_burst" by (simp add: butlast_conv_take burst_sizes)
  obtain ap4 q4 where s4: "uart_tx_test_wait_ms hw waits UART_TX_TEST_DRAIN_WAIT_MS ap3 = Some ap4" "uart_up debug_enabled hw ap4 q4"
    "passes_on ap3 q3 [] ap4 q4"
    "\<forall>imask. keeps_up hw imask waits meanwhile \<longrightarrow> armed imask (app_device ap3) q3 \<longrightarrow> armed imask (app_device ap4) q4
        \<and> interrupts_left imask (app_device ap4) q4 \<le> interrupts_left imask (app_device ap3) q3 - 50"
    using wait_ran [OF s3(4), of waits meanwhile] by blast
  obtain k1 ap5 q5 where s5: "DBG_WRITE_LITERAL_preempted debug_enabled hw meanwhile lossless_ok ap4 = Some ap5"
    "k1 \<le> length (spoken debug_enabled lossless_ok)"
    "min (length (spoken debug_enabled lossless_ok)) (64 - length (ring_contents q4)) \<le> k1" "uart_up debug_enabled hw ap5 q5"
    "passes_on ap4 q4 (take k1 (spoken debug_enabled lossless_ok)) ap5 q5"
    "\<forall>imask. imask_register hw imask \<longrightarrow> armed imask (app_device ap4) q4 \<longrightarrow> armed imask (app_device ap5) q5"
    using app_literal_preempted_ran [OF s4(2) l(2), of meanwhile] by blast
  obtain ap6 q6 where s6: "uart_tx_test_wait_ms hw waits UART_TX_TEST_DRAIN_WAIT_MS ap5 = Some ap6" "uart_up debug_enabled hw ap6 q6"
    "passes_on ap5 q5 [] ap6 q6"
    "\<forall>imask. keeps_up hw imask waits meanwhile \<longrightarrow> armed imask (app_device ap5) q5 \<longrightarrow> armed imask (app_device ap6) q6
        \<and> interrupts_left imask (app_device ap6) q6 \<le> interrupts_left imask (app_device ap5) q5 - 50"
    using wait_ran [OF s5(4), of waits meanwhile] by blast
  note counts = drop_count_read [OF s2(2)] drop_count_read [OF s3(4)]
  have "passes_on ap q (((take k0 (spoken debug_enabled greeting) @ []) @ take k g_lossless_burst @ [])
      @ take k1 (spoken debug_enabled lossless_ok) @ []) ap6 q6"
    by (rule passes_on_trans [OF passes_on_trans [OF passes_on_trans [OF s1(5) s2(3)] passes_on_trans [OF s3(5) s4(3)]]
        passes_on_trans [OF s5(5) s6(3)]])
  then have passed: "passes_on ap q
      (spoken debug_enabled greeting @ butlast g_lossless_burst @ take k1 (spoken debug_enabled lossless_ok)) ap6 q6"
    by (simp add: k k0 full)
  have "resting imask (app_device ap6) q6 \<and> take k1 (spoken debug_enabled lossless_ok) = spoken debug_enabled lossless_ok"
    if up: "keeps_up hw imask waits meanwhile" for imask
  proof -
    have reg: "imask_register hw imask" using up by (simp add: keeps_up_def transmitter_def)
    have rest: "resting imask d r" if "interrupts_left imask d r \<le> n - 50" "n \<le> 50" for d r n
      using that by (auto simp: interrupts_left_def split: if_splits)
    have most: "interrupts_left imask d r \<le> 50" if "length (ring_contents r) \<le> 49" for d r
      using that by (simp add: interrupts_left_def)
    have a1: "armed imask (app_device ap1) q1" using s1(6) reg assms(2) by (simp add: armed_def)
    with s2(4) up have a2: "armed imask (app_device ap2) q2" and r2: "resting imask (app_device ap2) q2"
      using rest most [of q1] c1 by fastforce+
    have a3: "armed imask (app_device ap3) q3" using s3(7) reg a2 by blast
    have "length (ring_contents q3) \<le> 32"
      using passes_on_holds_at_most [OF s3(5)] r2 k by (simp add: resting_def burst_sizes)
    with s4(4) up a3 have a4: "armed imask (app_device ap4) q4" and r4: "resting imask (app_device ap4) q4"
      using rest most [of q3] by fastforce+
    have a5: "armed imask (app_device ap5) q5" using s5(6) reg a4 by blast
    have "length (ring_contents q5) \<le> 21"
      using passes_on_holds_at_most [OF s5(5)] r4 g(2) by (simp add: resting_def)
    with s6(4) up a5 have "resting imask (app_device ap6) q6" using rest most [of q5] by fastforce
    moreover have "k1 = length (spoken debug_enabled lossless_ok)" using s5(2,3) r4 g(2) by (simp add: resting_def)
    ultimately show ?thesis by simp
  qed
  then show ?thesis
    using s1(1) s2(1) s3(1,6) s4(1) s5(1) s6(1,2) k passed counts
    by (intro exI [of _ ap6] exI [of _ q6] exI [of _ k1]) simp
qed

text \<open>From there on: the burst fails the test exactly when all of it was taken.\<close>

definition overload_outcome :: "nat \<Rightarrow> 'h app \<Rightarrow> access list \<Rightarrow> app_loop \<Rightarrow> bool" where
  "overload_outcome k ap tr l \<longleftrightarrow>
     (if k < 128 then l = Toggle_Loop (hal_timer_now_ms (ap_timer ap) + 500) 500
      else l = Wait_Loop True \<and> (\<exists>tr0. tr = tr0 @ [Write (GPIO GPIOA_BASE GPIO_DOUTSET) BOARD_LED_RED_MASK]))"

lemma fail_ran:
  "\<exists>ap'. uart_tx_test_fail hw ap = Some (Wait_Loop True, ap')
    \<and> app_trace ap' = app_trace ap @ [Write (GPIO GPIOA_BASE GPIO_DOUTSET) BOARD_LED_RED_MASK]
    \<and> (\<forall>q. uart_up debug_enabled hw ap q \<longrightarrow> uart_up debug_enabled hw ap' q)"
  by (simp add: uart_tx_test_fail_def steady_led_def board_led_red_set_def hal_gpio_output_set_def g_red_led_def mmio_write_def
      uart_up_def)

definition overload_rest ::
  "bool \<Rightarrow> 'h hardware \<Rightarrow> 'h waits \<Rightarrow> ('h uart \<Rightarrow> nat) \<Rightarrow> 'h app \<Rightarrow> (app_loop \<times> 'h app) defined" where
  "overload_rest debug_enabled hw waits meanwhile ap = do {
      let drop_count_before = board_uart_backchannel_dropped_count (ap_board ap);
      (accepted, ap) \<leftarrow> on_board (on_uart (hal_uart0_tx_write_preempted hw meanwhile (Some g_overload_burst) 128)) ap;
      (if accepted \<ge> 128 \<or> board_uart_backchannel_dropped_count (ap_board ap) = drop_count_before
       then uart_tx_test_fail hw ap
       else do {
         ap \<leftarrow> uart_tx_test_wait_ms hw waits UART_TX_TEST_DRAIN_WAIT_MS ap;
         ap \<leftarrow> DBG_WRITE_LITERAL_preempted debug_enabled hw meanwhile overflow_ok ap;
         Some (Toggle_Loop (hal_timer_now_ms (ap_timer ap) + 500) 500, ap)
       })
     }"

lemma overload_ran:
  assumes "uart_up debug_enabled hw ap q"
  shows "\<exists>l ap' q' k2 k3 tr. overload_rest debug_enabled hw waits meanwhile ap = Some (l, ap') \<and> k2 \<le> 128
    \<and> app_trace ap' = app_trace ap @ tr \<and> overload_outcome k2 ap' tr l \<and> uart_up debug_enabled hw ap' q'
    \<and> passes_on ap q (take k2 (butlast g_overload_burst) @ take k3 (spoken debug_enabled overflow_ok)) ap' q'
    \<and> ((\<forall>st. meanwhile st = 0) \<longrightarrow> k2 \<le> 64) \<and> (k2 = 128 \<longrightarrow> k3 = 0)
    \<and> (\<forall>imask. keeps_up hw imask waits meanwhile \<longrightarrow> resting imask (app_device ap) q
        \<longrightarrow> k2 = 64 \<and> take k3 (spoken debug_enabled overflow_ok) = spoken debug_enabled overflow_ok)"
proof -
  have g: "length (spoken debug_enabled overflow_ok) \<le> 21" using line_sizes by (simp add: spoken_def del: length_append)
  have l: "length overflow_ok \<le> 64" using line_sizes by simp
  have n: "unat (128 :: u32) = 128" by simp
  obtain k ap1 q1 where s1: "on_board (on_uart (hal_uart0_tx_write_preempted hw meanwhile (Some g_overload_burst) 128)) ap
      = Some (of_nat k, ap1)" "k \<le> 128" "min 128 (64 - length (ring_contents q)) \<le> k" "uart_up debug_enabled hw ap1 q1"
    "passes_on ap q (take k g_overload_burst) ap1 q1" "rb_dropped_count q1 = rb_dropped_count q + (if k < 128 then 1 else 0)"
    "\<forall>imask. imask_register hw imask \<longrightarrow> armed imask (app_device ap) q \<longrightarrow> armed imask (app_device ap1) q1"
    "\<forall>P. no_irqs_in P meanwhile \<longrightarrow> P (app_device ap) \<longrightarrow> ring_contents q1 = ring_contents q @ take k g_overload_burst"
    using app_write_preempted_ran [OF assms, of 128 g_overload_burst meanwhile] by (auto simp: burst_sizes)
  have taken: "k \<le> 64" if "ring_contents q1 = ring_contents q @ take k g_overload_burst"
    using that held_at_most [OF s1(4)] s1(2) by (simp add: burst_sizes)
  have few: "(\<forall>st. meanwhile st = 0) \<longrightarrow> k \<le> 64"
    using s1(8) [rule_format, of "\<lambda>d. True"] taken by (simp add: no_irqs_in_def)
  have same: "take k g_overload_burst = take k (butlast g_overload_burst)" using s1(2) by (simp add: take_burst)
  note counts = drop_count_read [OF assms] drop_count_read [OF s1(4)]
  have full: "k = 64 \<and> ring_contents q1 = take k g_overload_burst"
    if "keeps_up hw imask waits meanwhile" "resting imask (app_device ap) q" for imask
  proof -
    have "ring_contents q1 = ring_contents q @ take k g_overload_burst" "ring_contents q = []"
      using s1(8) [rule_format, of "\<lambda>d. imask d AND UART_TXINT = 0"] that by (simp_all add: keeps_up_def resting_def)
    with taken s1(3) show ?thesis by simp
  qed
  show ?thesis
  proof (cases "k < 128")
    case False
    then have k: "k = 128" using s1(2) by simp
    obtain ap2 where f: "uart_tx_test_fail hw ap1 = Some (Wait_Loop True, ap2)"
      "app_trace ap2 = app_trace ap1 @ [Write (GPIO GPIOA_BASE GPIO_DOUTSET) BOARD_LED_RED_MASK]" "uart_up debug_enabled hw ap2 q1"
      using fail_ran s1(4) by blast
    obtain tr where tr: "app_trace ap1 = app_trace ap @ tr" using s1(5) by (auto simp: passes_on_def)
    have "overload_rest debug_enabled hw waits meanwhile ap = Some (Wait_Loop True, ap2)"
      using s1(1) k f(1) by (simp add: overload_rest_def)
    moreover have "overload_outcome k ap2 (tr @ [Write (GPIO GPIOA_BASE GPIO_DOUTSET) BOARD_LED_RED_MASK]) (Wait_Loop True)"
      using k by (simp add: overload_outcome_def)
    moreover have "passes_on ap q (take k (butlast g_overload_burst) @ take 0 (spoken debug_enabled overflow_ok)) ap2 q1"
      using passes_on_trans [OF s1(5) passes_on_quiet [OF f(2)]] same by simp
    moreover have "app_trace ap2 = app_trace ap @ tr @ [Write (GPIO GPIOA_BASE GPIO_DOUTSET) BOARD_LED_RED_MASK]"
      using f(2) tr by simp
    moreover have "\<not> (keeps_up hw imask waits meanwhile \<and> resting imask (app_device ap) q)" for imask using full k by auto
    ultimately show ?thesis using f(3) s1(2) few by blast
  next
    case True
    have short: "\<not> (128 :: u32) \<le> of_nat k" using True by (simp add: word_le_nat_alt unat_of_nat)
    obtain ap2 q2 where s2: "uart_tx_test_wait_ms hw waits UART_TX_TEST_DRAIN_WAIT_MS ap1 = Some ap2" "uart_up debug_enabled hw ap2 q2"
      "passes_on ap1 q1 [] ap2 q2"
      "\<forall>imask. keeps_up hw imask waits meanwhile \<longrightarrow> armed imask (app_device ap1) q1 \<longrightarrow> armed imask (app_device ap2) q2
        \<and> interrupts_left imask (app_device ap2) q2 \<le> interrupts_left imask (app_device ap1) q1 - 50"
      using wait_ran [OF s1(4), of waits meanwhile] by blast
    obtain k3 ap3 q3 where s3: "DBG_WRITE_LITERAL_preempted debug_enabled hw meanwhile overflow_ok ap2 = Some ap3"
      "k3 \<le> length (spoken debug_enabled overflow_ok)"
      "min (length (spoken debug_enabled overflow_ok)) (64 - length (ring_contents q2)) \<le> k3" "uart_up debug_enabled hw ap3 q3"
      "passes_on ap2 q2 (take k3 (spoken debug_enabled overflow_ok)) ap3 q3"
      using app_literal_preempted_ran [OF s2(2) l, of meanwhile] by blast
    have passed: "passes_on ap q (take k (butlast g_overload_burst) @ take k3 (spoken debug_enabled overflow_ok)) ap3 q3"
      using passes_on_trans [OF s1(5) passes_on_trans [OF s2(3) s3(5)]] same by simp
    then obtain tr where tr: "app_trace ap3 = app_trace ap @ tr" by (auto simp: passes_on_def)
    have "overload_rest debug_enabled hw waits meanwhile ap = Some (Toggle_Loop (hal_timer_now_ms (ap_timer ap3) + 500) 500, ap3)"
      using s1(1,6) True short s2(1) s3(1) counts by (simp add: overload_rest_def)
    moreover have "overload_outcome k ap3 tr (Toggle_Loop (hal_timer_now_ms (ap_timer ap3) + 500) 500)"
      using True by (simp add: overload_outcome_def)
    moreover have "take k3 (spoken debug_enabled overflow_ok) = spoken debug_enabled overflow_ok"
      if up: "keeps_up hw imask waits meanwhile" and rest: "resting imask (app_device ap) q" for imask
    proof -
      have "armed imask (app_device ap1) q1"
        using s1(7) up resting_armed [OF rest] by (simp add: keeps_up_def transmitter_def)
      with s2(4) up have "interrupts_left imask (app_device ap2) q2 \<le> interrupts_left imask (app_device ap1) q1 - 50" by blast
      then have "length (ring_contents q2) \<le> 15"
        using full [OF up rest] by (simp add: interrupts_left_def resting_def burst_sizes split: if_splits)
      then show ?thesis using s3(2,3) g by simp
    qed
    ultimately show ?thesis using tr passed s3(4) few s1(2) full True by (metis less_irrefl)
  qed
qed

lemma bursts_ran:
  assumes "uart_up debug_enabled hw ap q" "ring_contents q = []"
  shows "\<exists>l ap' q' k1 k2 k3 tr. uart_tx_test_bursts debug_enabled hw waits meanwhile ap = Some (l, ap') \<and> k2 \<le> 128
    \<and> app_trace ap' = app_trace ap @ tr \<and> overload_outcome k2 ap' tr l \<and> uart_up debug_enabled hw ap' q'
    \<and> passes_on ap q (uart_tx_test_line debug_enabled k1 k2 k3) ap' q'
    \<and> ((\<forall>st. meanwhile st = 0) \<longrightarrow> k2 \<le> 64) \<and> (k2 = 128 \<longrightarrow> k3 = 0)
    \<and> (\<forall>imask. keeps_up hw imask waits meanwhile \<longrightarrow> k2 = 64
        \<and> uart_tx_test_line debug_enabled k1 k2 k3 = uart_tx_test_line debug_enabled 21 64 21)"
proof -
  obtain ap1 q1 k1 where a: "\<forall>rest. (do {
      ap \<leftarrow> DBG_WRITE_LITERAL_preempted debug_enabled hw meanwhile greeting ap;
      ap \<leftarrow> uart_tx_test_wait_ms hw waits UART_TX_TEST_DRAIN_WAIT_MS ap;
      let drop_count_before = board_uart_backchannel_dropped_count (ap_board ap);
      (accepted, ap) \<leftarrow> on_board (on_uart (hal_uart0_tx_write_preempted hw meanwhile (Some g_lossless_burst) 32)) ap;
      (if accepted \<noteq> 32 \<or> board_uart_backchannel_dropped_count (ap_board ap) \<noteq> drop_count_before
       then uart_tx_test_fail hw ap
       else do {
         ap \<leftarrow> uart_tx_test_wait_ms hw waits UART_TX_TEST_DRAIN_WAIT_MS ap;
         ap \<leftarrow> DBG_WRITE_LITERAL_preempted debug_enabled hw meanwhile lossless_ok ap;
         ap \<leftarrow> uart_tx_test_wait_ms hw waits UART_TX_TEST_DRAIN_WAIT_MS ap;
         rest ap
       })
     }) = rest ap1" "uart_up debug_enabled hw ap1 q1"
    "passes_on ap q (spoken debug_enabled greeting @ butlast g_lossless_burst @ take k1 (spoken debug_enabled lossless_ok)) ap1 q1"
    "\<forall>imask. keeps_up hw imask waits meanwhile \<longrightarrow> resting imask (app_device ap1) q1 \<and> take k1 (spoken debug_enabled lossless_ok)
         = spoken debug_enabled lossless_ok"
    using lossless_ran [OF assms, of meanwhile waits] by blast
  obtain l ap' q' k2 k3 tr where b: "overload_rest debug_enabled hw waits meanwhile ap1 = Some (l, ap')" "k2 \<le> 128"
    "app_trace ap' = app_trace ap1 @ tr" "overload_outcome k2 ap' tr l" "uart_up debug_enabled hw ap' q'"
    "passes_on ap1 q1 (take k2 (butlast g_overload_burst) @ take k3 (spoken debug_enabled overflow_ok)) ap' q'"
    "(\<forall>st. meanwhile st = 0) \<longrightarrow> k2 \<le> 64" "k2 = 128 \<longrightarrow> k3 = 0"
    "\<forall>imask. keeps_up hw imask waits meanwhile \<longrightarrow> resting imask (app_device ap1) q1
        \<longrightarrow> k2 = 64 \<and> take k3 (spoken debug_enabled overflow_ok) = spoken debug_enabled overflow_ok"
    using overload_ran [OF a(2), of waits meanwhile] by blast
  have run: "uart_tx_test_bursts debug_enabled hw waits meanwhile ap = Some (l, ap')"
    using a(1) [rule_format, of "overload_rest debug_enabled hw waits meanwhile"] b(1)
    unfolding overload_rest_def uart_tx_test_bursts_def burst_sizes UART_TX_TEST_BLINK_PERIOD_MS_def by (simp only:)
  have passed: "passes_on ap q (uart_tx_test_line debug_enabled k1 k2 k3) ap' q'"
    using passes_on_trans [OF a(3) b(6)] by (simp add: uart_tx_test_line_def)
  obtain tr1 where tr1: "app_trace ap1 = app_trace ap @ tr1" using a(3) by (auto simp: passes_on_def)
  have "overload_outcome k2 ap' (tr1 @ tr) l" using b(4) by (auto simp: overload_outcome_def split: if_splits)
  moreover have "k2 = 64 \<and> uart_tx_test_line debug_enabled k1 k2 k3 = uart_tx_test_line debug_enabled 21 64 21"
    if "keeps_up hw imask waits meanwhile" for imask
  proof -
    have "take 21 (spoken debug_enabled lossless_ok) = spoken debug_enabled lossless_ok"
      "take 21 (spoken debug_enabled overflow_ok) = spoken debug_enabled overflow_ok"
      using line_sizes by (simp_all add: spoken_def del: length_append)
    then show ?thesis using a(4) b(9) that by (simp only: uart_tx_test_line_def)
  qed
  ultimately show ?thesis using run b(2,3,5,7,8) passed tr1 by (metis append.assoc)
qed

section \<open>Properties\<close>


text \<open>A transmitter that is always ready, on a board whose watchdog runs.\<close>

definition ready_hardware :: "(reg \<Rightarrow> u32) hardware" where
  "ready_hardware = \<lparr>hw_read = (\<lambda>r d. (if r = UART0 UART_IIDX then UART_IIDX_TXIFG
       else if r = UART0 UART_STAT then 0 else if r = WWDT0 WWDT_STAT then 1 else d r, d)), hw_write = (\<lambda>r v d. d(r := v))\<rparr>"

lemma ready_keeps_up: "keeps_up ready_hardware (\<lambda>d. d (UART0 UART_IMASK)) (\<lambda>ap. (1, [])) (\<lambda>st. 0)"
  by (auto simp: keeps_up_def transmitter_def finds_room_def imask_register_def interrupts_due_def no_irqs_in_def
      ready_hardware_def UART_IIDX_TXIFG_def)

lemma ready_watchdog: "\<exists>mc'. hal_wdt_init ready_hardware mc = Some (True, mc')"
  by (simp add: hal_wdt_init_def mmio_write_def mmio_read_def hal_power_wait_trace ready_hardware_def cpu_def
      WWDT_STAT_RUN_MASK_def WWDT_STAT_RUN_ON_def Let_def)

lemma ready_starts:
  assumes "power_on ap"
  shows "\<exists>ap'. app_start_fails debug_enabled ready_hardware ap = Some (False, ap')"
proof -
  obtain r ap1 where b1: "on_board (board_init debug_enabled ready_hardware) ap = Some (r, ap1)"
    "r \<in> {Board_Ok, Board_Clock_Fallback}" "bd_mclk_hz (ap_board ap1) = (if r = Board_Ok then 32000000 else 4000000)"
    "ap_timer ap1 = ap_timer ap"
    using board_init_up [OF assms, of debug_enabled ready_hardware] by blast
  have wf: "well_formed_scs (tm_scs (ap_timer ap1))" "bd_mclk_hz (ap_board ap1) \<in> {4000000, 32000000}"
    using assms b1(3,4) by (simp_all add: power_on_def)
  obtain ap2 where b2: "on_timer (hal_timer_init_1ms (bd_mclk_hz (ap_board ap1))) ap1 = Some (True, ap2)"
    using timer_up [OF wf] by blast
  obtain mc where "hal_wdt_init ready_hardware (bd_machine (ap_board ap2)) = Some (True, mc)"
    using ready_watchdog by blast
  with b1(1,2) b2 show ?thesis by (auto simp: app_start_fails_def on_board_def on_machine_def)
qed


end
