(* ===== verification/Link_Test.thy ===== *)
theory Link_Test
  imports Blink
begin

text \<open>
  \<open>app/lib_link_test\<close>: an application that calls every library function once and adds the results to
  \<open>g_link_test_sink\<close>, which is passed along. The long function is one definition per library; each has the local
  objects that library uses, with their addresses in the store of the register map.
\<close>

section \<open>The application\<close>

definition link_test_writer :: "'w debug_writer" where
  "link_test_writer data n w = Some (n, w)"

definition flag :: "bool \<Rightarrow> u32" where
  "flag b = (if b then 1 else 0)"

definition link_test_build :: lib_buildinfo where
  "link_test_build = \<lparr>bi_version_major = 0x01, bi_version_minor = 0x02, bi_year_high = 0, bi_year_low = 0, bi_month = 0,
     bi_day = 0, bi_hour = 0, bi_minute = 0\<rparr>"

definition link_test_buildinfo :: "u32 \<Rightarrow> 'w debug \<Rightarrow> (u32 \<times> 'w debug) defined" where
  "link_test_buildinfo sink g = do {
     let buildinfo = Some link_test_build;
     let device_info = replicate (unat LIB_BUILDINFO_DEVICE_INFO_SIZE) 0;
     let sink = sink + flag (lib_buildinfo_is_bcd (bi_version_major link_test_build));
     let sink = sink + flag (lib_buildinfo_has_timestamp buildinfo);
     let sink = sink + flag (lib_buildinfo_is_valid buildinfo);
     (ok, bytes) \<leftarrow> lib_buildinfo_write_device_info buildinfo (Some device_info) LIB_BUILDINFO_DEVICE_INFO_SIZE;
     let sink = sink + flag ok;
     let g = lib_debug_set_writer (Some link_test_writer) g;
     (accepted, g) \<leftarrow> lib_debug_write bytes LIB_BUILDINFO_DEVICE_INFO_SIZE g;
     g \<leftarrow> lib_boot_write_banner (literal (ascii ''lib_link_test'')) buildinfo g;
     Some (sink + accepted, g)
   }"

definition link_test_ringbuf :: "u32 \<Rightarrow> u32 defined" where
  "link_test_ringbuf sink = do {
     let ring = \<lparr>rb_storage = None, rb_capacity = 0, rb_mask = 0, rb_write_index = 0, rb_read_index = 0, rb_dropped_count = 0\<rparr>;
     let (ok, ring) = lib_ringbuf_init (Some ring) (Some [0, 0]) 2;
     let sink = sink + flag ok;
     (ok, ring) \<leftarrow> lib_ringbuf_try_push ring 0x5a;
     let sink = sink + flag ok;
     (ok, ring, out) \<leftarrow> lib_ringbuf_try_pop ring (Some 0);
     byte \<leftarrow> out;
     let sink = sink + (if ok then ucast byte else 0);
     let sink = sink + lib_ringbuf_capacity ring;
     Some (sink + lib_ringbuf_dropped_count ring)
   }"

definition link_test_crash :: "u32 \<Rightarrow> u32 defined" where
  "link_test_crash sink = do {
     let crash = Some \<lparr>cr_magic = 0, cr_format_version = 0, cr_record_size = 0, cr_sequence = 0, cr_reset_cause = 0, cr_reason = 0,
       cr_stacked_pc = 0, cr_stacked_xpsr = 0, cr_integrity_crc32 = 0\<rparr>;
     let crash = lib_crash_note_boot crash 1;
     let crash = lib_crash_capture crash LIB_CRASH_REASON_HARDFAULT 3 0x100 0x01000000;
     let sink = sink + flag (lib_crash_is_valid crash);
     let sink = sink + flag (lib_crash_has_fault crash);
     let sink = sink + lib_crash_reason crash;
     let sink = sink + lib_crash_exception_number crash;
     let sink = sink + flag (fst (lib_crash_decode crash (Some zero_snapshot)));
     (ok, image) \<leftarrow> lib_crash_write_register_image crash (Some (replicate (unat LIB_CRASH_REGISTER_IMAGE_SIZE) 0))
       LIB_CRASH_REGISTER_IMAGE_SIZE;
     Some (sink + flag ok)
   }"

text \<open>The page, with the snapshot and the queue at address 0 of their stores.\<close>

definition link_test_page :: lib_regmap_page where
  "link_test_page = \<lparr>pg_first_address = 0, pg_length = 2, pg_access = LIB_REGMAP_ACCESS_READ_WRITE, pg_snapshot = Some 0,
     pg_queue_write = Some enqueue_callback, pg_context = Some 0\<rparr>"

definition link_test_objects :: "u32 \<Rightarrow> (u32 \<times> regmap_mem) defined" where
  "link_test_objects sink = do {
     let snapshot = \<lparr>sn_buffers = [None, None], sn_length = 0, sn_state = 0, sn_publish_rejected_count = 0\<rparr>;
     (ok, snapshot) \<leftarrow> lib_regmap_snapshot_init (Some snapshot) (Some [0, 0]) (Some [0, 0]) 2 (Some [0x10, 0x11]);
     let sink = sink + flag ok;
     let command = \<lparr>cmd_address = 0, cmd_value = 0\<rparr>;
     let queue = \<lparr>cq_storage = None, cq_capacity = 0, cq_write_index = 0, cq_read_index = 0, cq_dropped_count = 0\<rparr>;
     let (ok, queue) = lib_regmap_command_queue_init (Some queue) (Some [command, command]) 2;
     Some (sink + flag ok, \<lparr>snapshots = (\<lambda>a. if a = 0 then snapshot else None), queues = (\<lambda>a. if a = 0 then queue else None)\<rparr>)
   }"

definition link_test_regmap :: "u32 \<Rightarrow> u32 defined" where
  "link_test_regmap sink = do {
     (sink, m) \<leftarrow> link_test_objects sink;
     let regmap = Some \<lparr>rm_pages = None, rm_page_count = 0, rm_current_address = 0, rm_latched_page = None, rm_latched_buffer = 0\<rparr>;
     (ok, regmap) \<leftarrow> lib_regmap_init regmap (Some [link_test_page]) 1 m;
     let sink = sink + flag ok;
     snapshot \<leftarrow> deref_snapshot m (Some 0);
     (ok, snapshot) \<leftarrow> lib_regmap_snapshot_publish snapshot (Some [0x20, 0x21]) 2;
     let sink = sink + flag ok;
     let m = put_snapshot (Some 0) snapshot m;
     (regmap, m) \<leftarrow> lib_regmap_set_address regmap 0 m;
     (regmap, m) \<leftarrow> lib_regmap_begin_read regmap m;
     (v, regmap, m) \<leftarrow> lib_regmap_read_current regmap m;
     let sink = sink + ucast v;
     (regmap, m) \<leftarrow> lib_regmap_end_read regmap m;
     (result, regmap, m) \<leftarrow> lib_regmap_write_current regmap 0x42 m;
     let sink = sink + (case result of Write_Ignored \<Rightarrow> 0 | Write_Queued \<Rightarrow> 1 | Write_Rejected \<Rightarrow> 2);
     let sink = sink + ucast (lib_regmap_current_address regmap);
     (ok, queue, out) \<leftarrow> lib_regmap_command_queue_try_pop (queues m 0) (Some \<lparr>cmd_address = 0, cmd_value = 0\<rparr>);
     command \<leftarrow> out;
     let sink = sink + (if ok then ucast (cmd_value command) else 0);
     let sink = sink + lib_regmap_command_queue_dropped_count queue;
     Some (sink + lib_regmap_snapshot_publish_rejected_count (snapshots m 0))
   }"

definition link_test_reference_all_libraries :: "u32 \<Rightarrow> 'w debug \<Rightarrow> (u32 \<times> 'w debug) defined" where
  "link_test_reference_all_libraries sink g = do {
     (sink, g) \<leftarrow> link_test_buildinfo sink g;
     sink \<leftarrow> link_test_ringbuf sink;
     sink \<leftarrow> link_test_crash sink;
     sink \<leftarrow> link_test_regmap sink;
     Some (sink, g)
   }"

definition lib_link_test_main :: "u32 \<Rightarrow> 'w debug \<Rightarrow> (app_loop \<times> u32 \<times> 'w debug) defined" where
  "lib_link_test_main sink g = do {
     (sink, g) \<leftarrow> link_test_reference_all_libraries sink g;
     Some (Wait_Loop False, sink, g)
   }"

section \<open>What the calls give\<close>

lemma feed_link_test_writer: "feed link_test_writer bs w = Some w"
  by (induction bs) (simp_all add: link_test_writer_def)

lemma buildinfo_ran:
  "link_test_buildinfo sink g = Some (sink + 11, g\<lparr>dbg_writer := Some link_test_writer\<rparr>)"
proof -
  have "lib_boot_write_banner (literal (ascii ''lib_link_test'')) info (g\<lparr>dbg_writer := Some link_test_writer\<rparr>)
      = Some (g\<lparr>dbg_writer := Some link_test_writer\<rparr>)" for info
    by (subst banner_emit) (simp_all add: literal_def emit_def feed_link_test_writer)
  moreover have "unat (8 :: u32) = 8" by simp
  moreover have "replicate 8 (0 :: u8) = [0, 0, 0, 0, 0, 0, 0, 0]" by (simp add: eval_nat_numeral)
  ultimately show ?thesis
    by (simp add: link_test_buildinfo_def link_test_build_def lib_buildinfo_is_bcd_def lib_buildinfo_has_timestamp_def
        lib_buildinfo_is_valid_def lib_buildinfo_write_device_info_def LIB_BUILDINFO_DEVICE_INFO_SIZE_def array_write_def
        lib_debug_set_writer_def lib_debug_write_def flag_def Let_def link_test_writer_def)
qed

lemma ringbuf_ran: "link_test_ringbuf sink = Some (sink + 94)"
  by code_simp (simp add: mod_simps add.commute)

lemma crash_ran: "link_test_crash sink = Some (sink + 9)"
proof -
  have code: "recorded_reason 2 = 2" by (simp add: recorded_reason_def)
  have low: "2 AND LIB_CRASH_REASON_CODE_MASK = 2" "3 AND LIB_CRASH_EXCEPTION_NUMBER_MASK = 3"
    "lib_crash_reason_code_is_valid 2" "LIB_CRASH_REASON_NONE = 0"
    by (simp_all add: crash_consts lib_crash_reason_code_is_valid_def)
  show ?thesis
    by (simp add: link_test_crash_def lib_crash_note_boot_def capture_eq write_register_image_eq LIB_CRASH_REASON_HARDFAULT_def code
        LIB_CRASH_REGISTER_IMAGE_SIZE_def lib_crash_reason_def lib_crash_has_fault_def lib_crash_exception_number_def
        lib_crash_decode_def low flag_def Let_def)
qed

lemma regmap_ran: "link_test_regmap sink = Some (sink + 105)"
  by code_simp (simp add: mod_simps add.commute)

text \<open>Every library call is defined and gives what it should: the results add up to 219, and the application waits.\<close>

theorem link_test_counts_results:
  "lib_link_test_main sink g = Some (Wait_Loop False, sink + 219, g\<lparr>dbg_writer := Some link_test_writer\<rparr>)"
  by (simp add: lib_link_test_main_def link_test_reference_all_libraries_def buildinfo_ran ringbuf_ran crash_ran regmap_ran)

end
