(* ===== verification/Host_Tests.thy ===== *)
theory Host_Tests
  imports Ringbuf Boot_Banner Target_Engine Crash_Record
begin

text \<open>
  \<open>tests/test_ringbuf.c\<close>: the host tests of the libraries and the target engine, run on the model. A failed
  assertion stops the program, as \<open>None\<close> does. Objects that a register map points to are in its store: the snapshots
  from address 0 on, the command queue at address 0. Consecutive assertions of one form are a list of what they expect.
\<close>

section \<open>Assertions\<close>

definition check :: "bool \<Rightarrow> unit defined" where
  "check b = (if b then Some () else None)"

text \<open>Each definition takes the object through calls whose results are asserted.\<close>

fun expect_pushes :: "(u8 \<times> bool) list \<Rightarrow> lib_ringbuf option \<Rightarrow> lib_ringbuf option defined" where
  "expect_pushes [] ring = Some ring"
| "expect_pushes ((byte, accepted) # bs) ring = do {
     (ok, ring) \<leftarrow> lib_ringbuf_try_push ring byte;
     check (ok = accepted);
     expect_pushes bs ring
   }"

fun expect_pops :: "u8 list \<Rightarrow> lib_ringbuf option \<Rightarrow> u8 option \<Rightarrow> (lib_ringbuf option \<times> u8 option) defined" where
  "expect_pops [] ring out = Some (ring, out)"
| "expect_pops (b # bs) ring out = do {
     (ok, ring, out) \<leftarrow> lib_ringbuf_try_pop ring out;
     check (ok \<and> out = Some b);
     expect_pops bs ring out
   }"

definition zero_ring :: "lib_ringbuf option" where
  "zero_ring = Some \<lparr>rb_storage = None, rb_capacity = 0, rb_mask = 0, rb_write_index = 0, rb_read_index = 0, rb_dropped_count = 0\<rparr>"

definition zero_queue :: "lib_regmap_command_queue option" where
  "zero_queue = Some \<lparr>cq_storage = None, cq_capacity = 0, cq_write_index = 0, cq_read_index = 0, cq_dropped_count = 0\<rparr>"

definition zero_command :: lib_regmap_command where
  "zero_command = \<lparr>cmd_address = 0, cmd_value = 0\<rparr>"

section \<open>The ring buffer\<close>

definition test_rejects_invalid_storage_and_capacity :: "unit defined" where
  "test_rejects_invalid_storage_and_capacity = do {
     let storage = replicate 4 0;
     let ring = zero_ring;
     let (ok, _) = lib_ringbuf_init None (Some storage) 4;
     check (\<not> ok);
     let (ok, ring) = lib_ringbuf_init ring None 4;
     check (\<not> ok);
     let (ok, ring) = lib_ringbuf_init ring (Some storage) 0;
     check (\<not> ok);
     let (ok, ring) = lib_ringbuf_init ring (Some storage) 3;
     check (\<not> ok);
     let (ok, ring) = lib_ringbuf_init ring (Some storage) 1;
     check ok;
     check (lib_ringbuf_capacity ring = 1)
   }"

definition test_empty_and_null_operations :: "unit defined" where
  "test_empty_and_null_operations = do {
     let (ok, ring) = lib_ringbuf_init zero_ring (Some (replicate 4 0)) 4;
     check ok;
     (ok, ring, byte) \<leftarrow> lib_ringbuf_try_pop ring (Some 0);
     check (\<not> ok);
     (ok, ring, _) \<leftarrow> lib_ringbuf_try_pop ring None;
     check (\<not> ok);
     (ok, _) \<leftarrow> lib_ringbuf_try_push None 0x42;
     check (\<not> ok);
     check (lib_ringbuf_capacity None = 0);
     check (lib_ringbuf_dropped_count None = 0)
   }"

definition test_full_queue_preserves_fifo_data_and_counts_drop :: "unit defined" where
  "test_full_queue_preserves_fifo_data_and_counts_drop = do {
     let (ok, ring) = lib_ringbuf_init zero_ring (Some (replicate 4 0)) 4;
     check ok;
     ring \<leftarrow> expect_pushes [(0x10, True), (0x11, True), (0x12, True), (0x13, True), (0x14, False)] ring;
     check (lib_ringbuf_dropped_count ring = 1);
     (ring, byte) \<leftarrow> expect_pops [0x10, 0x11, 0x12, 0x13] ring (Some 0);
     (ok, ring, byte) \<leftarrow> lib_ringbuf_try_pop ring byte;
     check (\<not> ok)
   }"

definition test_wraparound_and_index_overflow :: "unit defined" where
  "test_wraparound_and_index_overflow = do {
     let (ok, ring) = lib_ringbuf_init zero_ring (Some (replicate 4 0)) 4;
     check ok;
     ring \<leftarrow> expect_pushes [(0x20, True), (0x21, True)] ring;
     (ring, byte) \<leftarrow> expect_pops [0x20, 0x21] ring (Some 0);
     ring \<leftarrow> expect_pushes [(0x22, True), (0x23, True), (0x24, True)] ring;
     (ring, byte) \<leftarrow> expect_pops [0x22, 0x23, 0x24] ring byte;
     let ring = map_option (\<lambda>r. r\<lparr>rb_write_index := 0xffffffff - 1, rb_read_index := 0xffffffff - 1\<rparr>) ring;
     ring \<leftarrow> expect_pushes [(0x30, True), (0x31, True), (0x32, True), (0x33, True), (0x34, False)] ring;
     (ring, byte) \<leftarrow> expect_pops [0x30, 0x31, 0x32, 0x33] ring byte;
     Some ()
   }"

section \<open>The debug writer and the banner\<close>

record debug_capture =
  g_debug_capture :: "u8 list"
  g_debug_capture_length :: u32

fun capture_loop :: "nat \<Rightarrow> u32 \<Rightarrow> u8 list \<Rightarrow> debug_capture \<Rightarrow> debug_capture defined" where
  "capture_loop 0 index data w = Some w"
| "capture_loop (Suc remaining) index data w = do {
     b \<leftarrow> array_read data (unat index);
     bytes \<leftarrow> array_write (g_debug_capture w) (unat (g_debug_capture_length w + index)) b;
     capture_loop remaining (index + 1) data (w\<lparr>g_debug_capture := bytes\<rparr>)
   }"

definition test_debug_writer :: "debug_capture debug_writer" where
  "test_debug_writer data n w = do {
     check (g_debug_capture_length w + n \<le> 128);
     bytes \<leftarrow> (if n = 0 then Some [] else data);
     w \<leftarrow> capture_loop (unat n) 0 bytes w;
     Some (n, w\<lparr>g_debug_capture_length := g_debug_capture_length w + n\<rparr>)
   }"

fun capture_matches_loop :: "u8 list \<Rightarrow> u32 \<Rightarrow> debug_capture \<Rightarrow> unit defined" where
  "capture_matches_loop [] index w = check (index = g_debug_capture_length w)"
| "capture_matches_loop (c # expected) index w = do {
     check (index < g_debug_capture_length w);
     b \<leftarrow> array_read (g_debug_capture w) (unat index);
     check (b = c);
     capture_matches_loop expected (index + 1) w
   }"

definition test_debug_capture_matches :: "u8 list \<Rightarrow> debug_capture \<Rightarrow> unit defined" where
  "test_debug_capture_matches expected w = capture_matches_loop expected 0 w"

definition empty_capture :: "debug_capture debug \<Rightarrow> debug_capture debug" where
  "empty_capture g = g\<lparr>dbg_world := (dbg_world g)\<lparr>g_debug_capture_length := 0\<rparr>\<rparr>"

definition test_debug_transport_is_register_free_callback :: "debug_capture debug \<Rightarrow> debug_capture debug defined" where
  "test_debug_transport_is_register_free_callback g = do {
     let message = Some [0x41, 0x42, 0x43];
     let g = lib_debug_set_writer None g;
     (n, g) \<leftarrow> lib_debug_write message 3 g;
     check (n = 0);
     (n, g) \<leftarrow> lib_debug_write None 1 g;
     check (n = 0);
     let g = lib_debug_set_writer (Some test_debug_writer) (empty_capture g);
     (n, g) \<leftarrow> lib_debug_write message 3 g;
     check (n = 3);
     check (g_debug_capture_length (dbg_world g) = 3);
     check (take 3 (g_debug_capture (dbg_world g)) = [0x41, 0x42, 0x43]);
     (n, g) \<leftarrow> lib_debug_write None 0 g;
     check (n = 0);
     Some (lib_debug_set_writer None g)
   }"

definition test_build :: lib_buildinfo where
  "test_build = \<lparr>bi_version_major = 0x01, bi_version_minor = 0x02, bi_year_high = 0x20, bi_year_low = 0x26, bi_month = 0x07,
     bi_day = 0x14, bi_hour = 0x09, bi_minute = 0x45\<rparr>"

definition reproducible_build :: lib_buildinfo where
  "reproducible_build = \<lparr>bi_version_major = 0x01, bi_version_minor = 0x02, bi_year_high = 0, bi_year_low = 0, bi_month = 0,
     bi_day = 0, bi_hour = 0, bi_minute = 0\<rparr>"

definition test_buildinfo_and_boot_banner :: "debug_capture debug \<Rightarrow> debug_capture debug defined" where
  "test_buildinfo_and_boot_banner g = do {
     check (lib_buildinfo_is_bcd 0x99);
     check (\<not> lib_buildinfo_is_bcd 0x1a);
     check (lib_buildinfo_is_valid (Some test_build));
     check (lib_buildinfo_has_timestamp (Some test_build));
     check (lib_buildinfo_is_valid (Some reproducible_build));
     check (\<not> lib_buildinfo_has_timestamp (Some reproducible_build));
     (ok, device_info) \<leftarrow> lib_buildinfo_write_device_info (Some test_build) (Some (replicate 8 0)) 8;
     check ok;
     bytes \<leftarrow> device_info;
     check (bytes ! 0 = 0x01 \<and> bytes ! 1 = 0x02 \<and> bytes ! 2 = 0x20 \<and> bytes ! 7 = 0x45);
     let invalid_build = test_build\<lparr>bi_month := 0x13\<rparr>;
     check (\<not> lib_buildinfo_is_valid (Some invalid_build));
     (ok, device_info) \<leftarrow> lib_buildinfo_write_device_info (Some invalid_build) device_info 8;
     check (\<not> ok);
     let g = lib_debug_set_writer (Some test_debug_writer) (empty_capture g);
     g \<leftarrow> lib_boot_write_banner (literal (ascii ''regmap'')) (Some test_build) g;
     test_debug_capture_matches (ascii ''mspm-baremetal: regmap v01.02 build=2026-07-14T09:45Z'' @ crlf) (dbg_world g);
     let g = empty_capture g;
     g \<leftarrow> lib_boot_write_banner None (Some reproducible_build) g;
     test_debug_capture_matches (ascii ''mspm-baremetal: unnamed v01.02 build=unspecified'' @ crlf) (dbg_world g);
     Some (lib_debug_set_writer None g)
   }"

section \<open>The command queue\<close>

fun expect_enqueues :: "(u16 \<times> u8 \<times> bool) list \<Rightarrow> lib_regmap_command_queue option \<Rightarrow> lib_regmap_command_queue option defined" where
  "expect_enqueues [] queue = Some queue"
| "expect_enqueues ((address, v, accepted) # cs) queue = do {
     (ok, queue) \<leftarrow> lib_regmap_command_queue_enqueue queue address v;
     check (ok = accepted);
     expect_enqueues cs queue
   }"

fun expect_commands :: "(u16 \<times> u8) list \<Rightarrow> lib_regmap_command_queue option \<Rightarrow> lib_regmap_command option
    \<Rightarrow> (lib_regmap_command_queue option \<times> lib_regmap_command option) defined" where
  "expect_commands [] queue command = Some (queue, command)"
| "expect_commands ((address, v) # cs) queue command = do {
     (ok, queue, command) \<leftarrow> lib_regmap_command_queue_try_pop queue command;
     check ok;
     c \<leftarrow> command;
     check (cmd_address c = address);
     check (cmd_value c = v);
     expect_commands cs queue command
   }"

definition test_regmap_command_queue :: "unit defined" where
  "test_regmap_command_queue = do {
     let storage = replicate 2 zero_command;
     let (ok, _) = lib_regmap_command_queue_init None (Some storage) 2;
     check (\<not> ok);
     let (ok, queue) = lib_regmap_command_queue_init zero_queue None 2;
     check (\<not> ok);
     let (ok, queue) = lib_regmap_command_queue_init queue (Some storage) 3;
     check (\<not> ok);
     let queue = map_option (\<lambda>q. q\<lparr>cq_storage := Some storage, cq_capacity := 3\<rparr>) queue;
     queue \<leftarrow> expect_enqueues [(0x0200, 0x11, False)] queue;
     (ok, queue, command) \<leftarrow> lib_regmap_command_queue_try_pop queue (Some zero_command);
     check (\<not> ok);
     let (ok, queue) = lib_regmap_command_queue_init queue (Some storage) 2;
     check ok;
     queue \<leftarrow> expect_enqueues [(0x0200, 0x11, True), (0x0201, 0x12, True), (0x0202, 0x13, False)] queue;
     check (lib_regmap_command_queue_dropped_count queue = 1);
     (queue, command) \<leftarrow> expect_commands [(0x0200, 0x11), (0x0201, 0x12)] queue command;
     (ok, queue, command) \<leftarrow> lib_regmap_command_queue_try_pop queue command;
     check (\<not> ok)
   }"

section \<open>The register map\<close>

definition zero_snapshot_object :: lib_regmap_snapshot where
  "zero_snapshot_object = \<lparr>sn_buffers = [None, None], sn_length = 0, sn_state = 0, sn_publish_rejected_count = 0\<rparr>"

definition zero_regmap :: "lib_regmap option" where
  "zero_regmap = Some \<lparr>rm_pages = None, rm_page_count = 0, rm_current_address = 0, rm_latched_page = None, rm_latched_buffer = 0\<rparr>"

definition zero_objects :: regmap_mem where
  "zero_objects = \<lparr>snapshots = (\<lambda>_. Some zero_snapshot_object), queues = (\<lambda>_. zero_queue)\<rparr>"

definition read_only_page :: "u16 \<Rightarrow> nat \<Rightarrow> lib_regmap_page" where
  "read_only_page address p = \<lparr>pg_first_address = address, pg_length = 2, pg_access = LIB_REGMAP_ACCESS_READ_ONLY,
     pg_snapshot = Some p, pg_queue_write = None, pg_context = None\<rparr>"

definition read_write_page :: "u16 \<Rightarrow> nat \<Rightarrow> lib_regmap_page" where
  "read_write_page address p = \<lparr>pg_first_address = address, pg_length = 2, pg_access = LIB_REGMAP_ACCESS_READ_WRITE,
     pg_snapshot = Some p, pg_queue_write = Some enqueue_callback, pg_context = Some 0\<rparr>"

definition expect_snapshot_init :: "nat \<Rightarrow> u8 list \<Rightarrow> u8 list \<Rightarrow> u8 list \<Rightarrow> regmap_mem \<Rightarrow> regmap_mem defined" where
  "expect_snapshot_init p buffer_zero buffer_one initial_data m = do {
     s \<leftarrow> deref_snapshot m (Some p);
     (ok, s) \<leftarrow> lib_regmap_snapshot_init s (Some buffer_zero) (Some buffer_one) (of_nat (length buffer_zero)) (Some initial_data);
     check ok;
     Some (put_snapshot (Some p) s m)
   }"

text \<open>The tests of the register map and the engine as lists of calls with the results they assert. The map under test is
  the one the engine points to, from the engine's initialisation on and before it.\<close>

datatype call =
    Set_Address u16 | Begin_Read | Read_Current u8 | End_Read | Current_Address u16
  | Write_Current u8 lib_regmap_write_result | Publish nat "u8 list" bool | Rejected_Count nat u32
  | Enqueue u16 u8 bool | Try_Pop u16 u8 | Dropped_Count u32
  | Engine_Begin_Receive | Engine_Receive_Byte u8 | Engine_Begin_Transmit | Engine_Transmit_Byte u8 | Engine_End | Engine_Abort
  | Engine_Is_Idle

type_synonym tested = "hal_i2c_target_engine option \<times> regmap_mem"

definition on_map :: "(lib_regmap option \<Rightarrow> regmap_mem \<Rightarrow> (lib_regmap option \<times> regmap_mem) defined) \<Rightarrow> tested \<Rightarrow> tested defined" where
  "on_map f st = (case st of (engine, m) \<Rightarrow> do {
     e \<leftarrow> engine;
     (regmap, m) \<leftarrow> f (te_regmap e) m;
     Some (Some (e\<lparr>te_regmap := regmap\<rparr>), m)
   })"

definition map_under_test :: "tested \<Rightarrow> lib_regmap option" where
  "map_under_test st = Option.bind (fst st) te_regmap"

fun run_call :: "call \<Rightarrow> tested \<Rightarrow> tested defined" where
  "run_call (Set_Address address) st = on_map (\<lambda>rm. lib_regmap_set_address rm address) st"
| "run_call Begin_Read st = on_map lib_regmap_begin_read st"
| "run_call (Read_Current expected) st = on_map (\<lambda>rm m. do {
     (v, rm, m) \<leftarrow> lib_regmap_read_current rm m;
     check (v = expected);
     Some (rm, m)
   }) st"
| "run_call End_Read st = on_map lib_regmap_end_read st"
| "run_call (Current_Address expected) st = do {
     check (lib_regmap_current_address (map_under_test st) = expected);
     Some st
   }"
| "run_call (Write_Current v expected) st = on_map (\<lambda>rm m. do {
     (result, rm, m) \<leftarrow> lib_regmap_write_current rm v m;
     check (result = expected);
     Some (rm, m)
   }) st"
| "run_call (Publish p data expected) (e, m) = do {
     s \<leftarrow> deref_snapshot m (Some p);
     (ok, s) \<leftarrow> lib_regmap_snapshot_publish s (Some data) (of_nat (length data));
     check (ok = expected);
     Some (e, put_snapshot (Some p) s m)
   }"
| "run_call (Rejected_Count p expected) (e, m) = do {
     check (lib_regmap_snapshot_publish_rejected_count (snapshots m p) = expected);
     Some (e, m)
   }"
| "run_call (Enqueue address v expected) (e, m) = do {
     q \<leftarrow> expect_enqueues [(address, v, expected)] (queues m 0);
     Some (e, m\<lparr>queues := (queues m)(0 := q)\<rparr>)
   }"
| "run_call (Try_Pop address v) (e, m) = do {
     (q, _) \<leftarrow> expect_commands [(address, v)] (queues m 0) (Some zero_command);
     Some (e, m\<lparr>queues := (queues m)(0 := q)\<rparr>)
   }"
| "run_call (Dropped_Count expected) (e, m) = do {
     check (lib_regmap_command_queue_dropped_count (queues m 0) = expected);
     Some (e, m)
   }"
| "run_call Engine_Begin_Receive (e, m) = hal_i2c_target_engine_begin_receive e m"
| "run_call (Engine_Receive_Byte v) (e, m) = do {
     (ok, e, m) \<leftarrow> hal_i2c_target_engine_receive e v m;
     check ok;
     Some (e, m)
   }"
| "run_call Engine_Begin_Transmit (e, m) = hal_i2c_target_engine_begin_transmit e m"
| "run_call (Engine_Transmit_Byte expected) (e, m) = do {
     (v, e, m) \<leftarrow> hal_i2c_target_engine_transmit e m;
     check (v = expected);
     Some (e, m)
   }"
| "run_call Engine_End (e, m) = hal_i2c_target_engine_end e m"
| "run_call Engine_Abort (e, m) = hal_i2c_target_engine_abort e m"
| "run_call Engine_Is_Idle (e, m) = do {
     check (direction_of e = Engine_Idle);
     Some (e, m)
   }"

fun run_calls :: "call list \<Rightarrow> tested \<Rightarrow> tested defined" where
  "run_calls [] st = Some st"
| "run_calls (c # cs) st = (case run_call c st of None \<Rightarrow> None | Some st \<Rightarrow> run_calls cs st)"

text \<open>A fresh map over the pages, tested without an engine.\<close>

definition with_map :: "lib_regmap_page list \<Rightarrow> regmap_mem \<Rightarrow> tested defined" where
  "with_map pages m = do {
     (ok, regmap) \<leftarrow> lib_regmap_init zero_regmap (Some pages) (of_nat (length pages)) m;
     check ok;
     Some (Some \<lparr>te_regmap = regmap, te_pending_address = 0, te_address_byte_count = 0, te_direction = Engine_Idle\<rparr>, m)
   }"

definition with_queue :: "nat \<Rightarrow> regmap_mem \<Rightarrow> regmap_mem defined" where
  "with_queue n m = do {
     let (ok, q) = lib_regmap_command_queue_init (queues m 0) (Some (replicate n zero_command)) (of_nat n);
     check ok;
     Some (m\<lparr>queues := (queues m)(0 := q)\<rparr>)
   }"

definition test_regmap_rejects_invalid_page_layout :: "unit defined" where
  "test_regmap_rejects_invalid_page_layout = do {
     let zeros = [0, 0];
     let page = read_only_page 0x0010 0;
     (ok, _) \<leftarrow> lib_regmap_snapshot_init None (Some zeros) (Some zeros) 2 (Some zeros);
     check (\<not> ok);
     (ok, s) \<leftarrow> lib_regmap_snapshot_init (Some zero_snapshot_object) None (Some zeros) 2 (Some zeros);
     check (\<not> ok);
     (ok, s) \<leftarrow> lib_regmap_snapshot_init s (Some zeros) (Some zeros) 2 (Some zeros);
     check ok;
     (ok, s) \<leftarrow> lib_regmap_snapshot_publish s (Some zeros) 1;
     check (\<not> ok);
     let m = put_snapshot (Some 0) s zero_objects;
     (ok, _) \<leftarrow> lib_regmap_init None (Some [page]) 1 m;
     check (\<not> ok);
     (ok, regmap) \<leftarrow> lib_regmap_init zero_regmap None 1 m;
     check (\<not> ok);
     (ok, regmap) \<leftarrow> lib_regmap_init regmap (Some [page]) 0 m;
     check (\<not> ok);
     (ok, regmap) \<leftarrow> lib_regmap_init regmap (Some [page\<lparr>pg_length := 0\<rparr>]) 1 m;
     check (\<not> ok);
     (ok, regmap) \<leftarrow> lib_regmap_init regmap (Some [page\<lparr>pg_access := LIB_REGMAP_ACCESS_READ_WRITE\<rparr>]) 1 m;
     check (\<not> ok);
     (ok, regmap) \<leftarrow> lib_regmap_init regmap (Some [page\<lparr>pg_first_address := 0xffff\<rparr>]) 1 m;
     check (\<not> ok);
     (ok, regmap) \<leftarrow> lib_regmap_init regmap (Some [page, page\<lparr>pg_first_address := 0x0011\<rparr>]) 2 m;
     check (\<not> ok)
   }"

definition access_test_calls :: "call list" where
  "access_test_calls =
     [Set_Address 0x0002, Begin_Read, Read_Current LIB_REGMAP_UNMAPPED_VALUE, End_Read, Current_Address 0x0003,
      Set_Address 0x0000, Write_Current 0xaa Write_Ignored, Current_Address 0x0001,
      Set_Address 0x0200, Write_Current 0x51 Write_Queued, Write_Current 0x52 Write_Queued,
      Try_Pop 0x0200 0x51, Try_Pop 0x0201 0x52,
      Enqueue 0x0200 0x61 True, Enqueue 0x0201 0x62 True, Enqueue 0x0202 0x63 True, Enqueue 0x0203 0x64 True,
      Set_Address 0x0200, Write_Current 0x65 Write_Rejected, Current_Address 0x0201, Dropped_Count 1,
      Set_Address 0x0000, Begin_Read, Read_Current 0x10, Publish 0 [0x30, 0x31] True, Publish 0 [0x40, 0x41] False,
      Read_Current 0x11, End_Read,
      Set_Address 0x0000, Begin_Read, Read_Current 0x30, Read_Current 0x31, End_Read, Publish 0 [0x40, 0x41] True,
      Set_Address 0xfffe, Begin_Read, Read_Current 0xfe, Read_Current 0xff, Current_Address 0x0000, Read_Current 0x40, End_Read]"

definition test_regmap_access_rules_and_snapshot_latching :: "tested defined" where
  "test_regmap_access_rules_and_snapshot_latching = do {
     m \<leftarrow> expect_snapshot_init 0 [0x10, 0x11] [0, 0] [0x10, 0x11] zero_objects;
     m \<leftarrow> expect_snapshot_init 1 [0x20, 0x21] [0, 0] [0x20, 0x21] m;
     m \<leftarrow> expect_snapshot_init 2 [0xfe, 0xff] [0, 0] [0xfe, 0xff] m;
     m \<leftarrow> with_queue 4 m;
     st \<leftarrow> with_map [read_only_page 0x0000 0, read_write_page 0x0200 1, read_only_page 0xfffe 2] m;
     run_calls access_test_calls st
   }"

text \<open>No end of the read: an aborted bus transaction before its STOP interrupt.\<close>

definition aborted_read_calls :: "call list" where
  "aborted_read_calls =
     [Set_Address 0, Begin_Read, Read_Current 0x10, Publish 0 [0x20, 0x21] True, Publish 0 [0x30, 0x31] False,
      Rejected_Count 0 1, Begin_Read, Publish 0 [0x30, 0x31] True, Rejected_Count 0 1]"

definition test_regmap_snapshot_recovers_after_aborted_read :: "tested defined" where
  "test_regmap_snapshot_recovers_after_aborted_read = do {
     m \<leftarrow> expect_snapshot_init 0 [0, 0] [0, 0] [0x10, 0x11] zero_objects;
     st \<leftarrow> with_map [read_only_page 0 0] m;
     run_calls aborted_read_calls st
   }"

section \<open>The target engine\<close>

text \<open>A short address phase, an address and a repeated start, writes in order, a read aborted, as the comments of the test
  separate them.\<close>

definition engine_test_calls :: "call list" where
  "engine_test_calls =
     [Set_Address 0x0001, Engine_Begin_Receive, Engine_Receive_Byte 0x02, Engine_End, Current_Address 0x0001,
      Engine_Begin_Receive, Engine_Receive_Byte 0x00, Engine_Receive_Byte 0x00, Engine_Begin_Transmit,
      Engine_Transmit_Byte 0x10, Engine_Transmit_Byte 0x11, Engine_End, Current_Address 0x0002,
      Engine_Begin_Receive, Engine_Receive_Byte 0x02, Engine_Receive_Byte 0x00, Engine_Receive_Byte 0xa1,
      Engine_Receive_Byte 0xa2, Engine_End, Try_Pop 0x0200 0xa1, Try_Pop 0x0201 0xa2,
      Engine_Begin_Receive, Engine_Receive_Byte 0x00, Engine_Receive_Byte 0x00, Engine_Begin_Transmit,
      Engine_Transmit_Byte 0x10, Engine_Abort, Engine_Is_Idle, Engine_Transmit_Byte LIB_REGMAP_UNMAPPED_VALUE]"

definition test_i2c_target_engine_protocol_boundaries :: "tested defined" where
  "test_i2c_target_engine_protocol_boundaries = do {
     m \<leftarrow> expect_snapshot_init 0 [0x10, 0x11] [0, 0] [0x10, 0x11] zero_objects;
     m \<leftarrow> expect_snapshot_init 1 [0, 0] [0, 0] [0, 0] m;
     m \<leftarrow> with_queue 2 m;
     (engine, m) \<leftarrow> with_map [read_only_page 0x0000 0, read_write_page 0x0200 1] m;
     let regmap = map_under_test (engine, m);
     let (ok, _) = hal_i2c_target_engine_init None regmap;
     check (\<not> ok);
     let (ok, engine) = hal_i2c_target_engine_init engine None;
     check (\<not> ok);
     let (ok, engine) = hal_i2c_target_engine_init engine regmap;
     check ok;
     run_calls engine_test_calls (engine, m)
   }"

section \<open>The crash record\<close>

definition zero_record :: lib_crash_record where
  "zero_record = \<lparr>cr_magic = 0, cr_format_version = 0, cr_record_size = 0, cr_sequence = 0, cr_reset_cause = 0, cr_reason = 0,
     cr_stacked_pc = 0, cr_stacked_xpsr = 0, cr_integrity_crc32 = 0\<rparr>"

definition test_crash_record_rejects_garbage_and_preserves_fault :: "unit defined" where
  "test_crash_record_rejects_garbage_and_preserves_fault = do {
     let record = Some zero_record;
     check (\<not> lib_crash_is_valid record);
     check (\<not> lib_crash_has_fault record);
     let (ok, snapshot) = lib_crash_decode record (Some zero_snapshot);
     check (\<not> ok);
     check (map_option cs_reason snapshot = Some LIB_CRASH_REASON_NONE);
     (ok, register_image) \<leftarrow> lib_crash_write_register_image record (Some (replicate 24 0)) 24;
     check (\<not> ok);
     check (map_option hd register_image = Some 0);
     let record = lib_crash_note_boot record 0x0D;
     check (lib_crash_is_valid record);
     check (\<not> lib_crash_has_fault record);
     check (map_option cr_sequence record = Some 0);
     check (map_option cr_reset_cause record = Some 0x0D);
     let record = lib_crash_capture record LIB_CRASH_REASON_HARDFAULT 3 0x12345678 0x21000003;
     check (lib_crash_is_valid record);
     check (lib_crash_has_fault record);
     check (map_option cr_sequence record = Some 1);
     check (map_option cr_reset_cause record = Some 0x0D);
     check (lib_crash_reason record = LIB_CRASH_REASON_HARDFAULT);
     check (lib_crash_exception_number record = 3);
     check (map_option cr_stacked_pc record = Some 0x12345678);
     check (map_option cr_stacked_xpsr record = Some 0x21000003);
     let (ok, snapshot) = lib_crash_decode record snapshot;
     check ok;
     check (snapshot = Some \<lparr>cs_reason = LIB_CRASH_REASON_HARDFAULT, cs_sequence = 1, cs_reset_cause = 0x0D,
       cs_exception_number = 3, cs_stacked_pc = 0x12345678, cs_stacked_xpsr = 0x21000003\<rparr>);
     (ok, register_image) \<leftarrow> lib_crash_write_register_image record register_image (LIB_CRASH_REGISTER_IMAGE_SIZE - 1);
     check (\<not> ok);
     (ok, register_image) \<leftarrow> lib_crash_write_register_image record register_image 24;
     check ok;
     bytes \<leftarrow> register_image;
     check (map (\<lambda>i. bytes ! i) [0, 1, 2, 3] = [1, 2, 0, 2]);
     check (map (\<lambda>i. bytes ! i) [4, 7, 8, 11, 12, 15] = [0, 1, 0, 0x0D, 0, 3]);
     check (map (\<lambda>i. bytes ! i) [16, 17, 18, 19] = [0x12, 0x34, 0x56, 0x78]);
     check (map (\<lambda>i. bytes ! i) [20, 21, 22, 23] = [0x21, 0, 0, 3]);
     let record = lib_crash_note_boot record 0x0E;
     check (lib_crash_is_valid record);
     check (lib_crash_has_fault record);
     check (map_option cr_sequence record = Some 1);
     check (map_option cr_reset_cause record = Some 0x0E);
     let record = map_option (\<lambda>r. r\<lparr>cr_stacked_pc := cr_stacked_pc r XOR 1\<rparr>) record;
     check (\<not> lib_crash_is_valid record);
     check (\<not> lib_crash_has_fault record);
     let (ok, snapshot) = lib_crash_decode record snapshot;
     check (\<not> ok);
     check (map_option cs_reason snapshot = Some LIB_CRASH_REASON_NONE)
   }"

definition test_crash_record_restarts_sequence_after_invalid_record :: "unit defined" where
  "test_crash_record_restarts_sequence_after_invalid_record = do {
     let record = lib_crash_capture (Some zero_record) LIB_CRASH_REASON_NMI 2 0x100 0x01000002;
     check (lib_crash_is_valid record);
     check (map_option cr_sequence record = Some 1);
     let record = map_option (\<lambda>r. r\<lparr>cr_magic := 0\<rparr>) record;
     let record = lib_crash_capture record LIB_CRASH_REASON_UNEXPECTED_EXCEPTION 31 0x200 0x01000003;
     check (lib_crash_is_valid record);
     check (map_option cr_sequence record = Some 1);
     check (map_option cr_reset_cause record = Some 0);
     check (lib_crash_reason record = LIB_CRASH_REASON_UNEXPECTED_EXCEPTION);
     check (lib_crash_exception_number record = 31);
     let record = lib_crash_capture record 0xff 0 0 0;
     check (lib_crash_is_valid record);
     check (lib_crash_reason record = LIB_CRASH_REASON_UNEXPECTED_EXCEPTION)
   }"

section \<open>The program\<close>

text \<open>The debug writer's capture buffer is global; a test of the map or the engine leaves its objects behind.\<close>

definition host_tests_main :: "debug_capture debug \<Rightarrow> debug_capture debug defined" where
  "host_tests_main g = do {
     test_rejects_invalid_storage_and_capacity;
     test_empty_and_null_operations;
     test_full_queue_preserves_fifo_data_and_counts_drop;
     test_wraparound_and_index_overflow;
     g \<leftarrow> test_debug_transport_is_register_free_callback g;
     g \<leftarrow> test_buildinfo_and_boot_banner g;
     test_regmap_command_queue;
     test_regmap_rejects_invalid_page_layout;
     _ \<leftarrow> test_regmap_access_rules_and_snapshot_latching;
     _ \<leftarrow> test_regmap_snapshot_recovers_after_aborted_read;
     _ \<leftarrow> test_i2c_target_engine_protocol_boundaries;
     test_crash_record_rejects_garbage_and_preserves_fault;
     test_crash_record_restarts_sequence_after_invalid_record;
     Some g
   }"

text \<open>The globals before \<open>main\<close>: no writer, an empty capture.\<close>

definition host_debug :: "debug_capture debug" where
  "host_debug = \<lparr>dbg_writer = None, dbg_world = \<lparr>g_debug_capture = replicate 128 0, g_debug_capture_length = 0\<rparr>\<rparr>"

section \<open>The tests pass\<close>

text \<open>An offset is subtracted as words, where evaluation need not count to it.\<close>

lemma latched_byte_code [code]:
  "latched_byte rm i m = do {
     page \<leftarrow> regmap_page rm i;
     so \<leftarrow> deref_snapshot m (pg_snapshot page);
     s \<leftarrow> so;
     pointer \<leftarrow> array_read (sn_buffers s) (unat (rm_latched_buffer rm));
     buffer \<leftarrow> pointer;
     (if pg_first_address page \<le> rm_current_address rm
      then array_read buffer (unat (rm_current_address rm - pg_first_address page))
      else None)
   }"
  by (simp add: latched_byte_def unat_sub cong: if_cong)

lemma ringbuf_tests_pass:
  "test_rejects_invalid_storage_and_capacity = Some ()" "test_empty_and_null_operations = Some ()"
  "test_full_queue_preserves_fifo_data_and_counts_drop = Some ()" "test_wraparound_and_index_overflow = Some ()"
  by code_simp+

lemma debug_tests_pass:
  "do { g \<leftarrow> test_debug_transport_is_register_free_callback host_debug; test_buildinfo_and_boot_banner g } \<noteq> None"
  by code_simp

lemma regmap_tests_pass:
  "test_regmap_command_queue = Some ()"
  "test_regmap_rejects_invalid_page_layout = Some ()"
  "test_regmap_access_rules_and_snapshot_latching \<noteq> None"
  "test_regmap_snapshot_recovers_after_aborted_read \<noteq> None"
  by code_simp+

lemma engine_test_passes: "test_i2c_target_engine_protocol_boundaries \<noteq> None"
  by code_simp

text \<open>A changed program counter is found by the checksum; evaluating the checksum is left out of the tests' evaluation.\<close>

lemma changed_pc_invalid:
  assumes "lib_crash_is_valid (Some r)" "pc \<noteq> cr_stacked_pc r"
  shows "\<not> lib_crash_is_valid (Some (r\<lparr>cr_stacked_pc := pc\<rparr>))"
proof
  assume "lib_crash_is_valid (Some (r\<lparr>cr_stacked_pc := pc\<rparr>))"
  with assms(1) have "lib_crash_crc32 (r\<lparr>cr_stacked_pc := pc\<rparr>) = lib_crash_crc32 r"
    by (simp add: lib_crash_is_valid_def split: if_splits)
  then have "crc_loop (crash_bytes (r\<lparr>cr_stacked_pc := pc\<rparr>)) 0xffffffff = crc_loop (crash_bytes r) 0xffffffff"
    by (simp add: lib_crash_crc32_def)
  moreover let ?pre = "u16_bytes (cr_format_version r) @ u16_bytes (cr_record_size r)
     @ u32_bytes (cr_sequence r) @ u32_bytes (cr_reset_cause r) @ u32_bytes (cr_reason r)"
  have "crash_bytes r = ?pre @ u32_bytes (cr_stacked_pc r) @ u32_bytes (cr_stacked_xpsr r)"
    "crash_bytes (r\<lparr>cr_stacked_pc := pc\<rparr>) = ?pre @ u32_bytes pc @ u32_bytes (cr_stacked_xpsr r)"
    by (simp_all add: crash_bytes_def)
  ultimately have "pc = cr_stacked_pc r" using crc_loop_burst by metis
  with assms(2) show False by simp
qed

lemma write_short_image: "lib_crash_write_register_image (Some r) (Some bs) 23 = Some (False, Some bs)"
  by (simp add: lib_crash_write_register_image_def LIB_CRASH_REGISTER_IMAGE_SIZE_def)

lemma record_values:
  "LIB_CRASH_REASON_NONE = 0" "LIB_CRASH_REASON_NMI = 1" "LIB_CRASH_REASON_HARDFAULT = 2"
  "LIB_CRASH_REASON_UNEXPECTED_EXCEPTION = 3" "LIB_CRASH_REGISTER_IMAGE_SIZE = 24"
  "0 AND LIB_CRASH_REASON_CODE_MASK = 0" "1 AND LIB_CRASH_REASON_CODE_MASK = 1" "2 AND LIB_CRASH_REASON_CODE_MASK = 2"
  "3 AND LIB_CRASH_REASON_CODE_MASK = 3" "2 AND LIB_CRASH_EXCEPTION_NUMBER_MASK = 2"
  "3 AND LIB_CRASH_EXCEPTION_NUMBER_MASK = 3" "31 AND LIB_CRASH_EXCEPTION_NUMBER_MASK = 31"
  "recorded_reason 1 = 1" "recorded_reason 2 = 2" "recorded_reason 3 = 3" "recorded_reason 0xff = 3"
  "lib_crash_reason_code_is_valid 0" "lib_crash_reason_code_is_valid 1" "lib_crash_reason_code_is_valid 2"
  "lib_crash_reason_code_is_valid 3"
  by (simp_all add: crash_consts recorded_reason_def lib_crash_reason_code_is_valid_def)

lemma crash_sequence_test_passes: "test_crash_record_restarts_sequence_after_invalid_record = Some ()"
  by (simp add: test_crash_record_restarts_sequence_after_invalid_record_def capture_eq check_def lib_crash_reason_def
      lib_crash_exception_number_def record_values zero_record_def lib_crash_clear_record_def)

lemma crash_fault_test_passes: "test_crash_record_rejects_garbage_and_preserves_fault = Some ()"
  by (simp add: test_crash_record_rejects_garbage_and_preserves_fault_def lib_crash_note_boot_def capture_eq check_def
      lib_crash_has_fault_def lib_crash_reason_def lib_crash_decode_def changed_pc_invalid write_register_image_eq
      lib_crash_exception_number_def record_values zero_record_def lib_crash_clear_record_def crash_image_def be32_def Let_def
      write_short_image zero_snapshot_def)

text \<open>The program of the host tests runs to its end: no assertion fails, and no call has undefined behaviour.\<close>

theorem host_tests_pass: "\<exists>g. host_tests_main host_debug = Some g"
proof -
  obtain g1 g2 where debug: "test_debug_transport_is_register_free_callback host_debug = Some g1"
    "test_buildinfo_and_boot_banner g1 = Some g2"
    using debug_tests_pass by (auto simp: bind_eq_Some_conv)
  obtain st1 st2 st3 where maps: "test_regmap_access_rules_and_snapshot_latching = Some st1"
    "test_regmap_snapshot_recovers_after_aborted_read = Some st2" "test_i2c_target_engine_protocol_boundaries = Some st3"
    using regmap_tests_pass(3,4) engine_test_passes by blast
  show ?thesis
    by (simp add: host_tests_main_def debug maps ringbuf_tests_pass regmap_tests_pass(1,2) crash_fault_test_passes
        crash_sequence_test_passes)
qed

end
