(* ===== verification/Device_Fields.thy ===== *)
theory Device_Fields
  imports Device_Layout Prelude
begin

text \<open>
  The bit-field macros of the device headers. Under \<open>/* R Bits */\<close> a header gives each field \<open>F\<close> of register \<open>R\<close> its
  offset \<open>R_F_OFS\<close>, its mask \<open>R_F_MASK\<close> and named values \<open>R_F_V\<close>, already shifted into place; \<open>R_Bits\<close> is that list, in
  the header's order, with the names that follow the prefix. The theories \<open>*_Fields\<close> hold the tables of the headers, one
  definition per register, and a table \<open>P_bits\<close> of the registers of a structure \<open>P_Regs\<close> in the order of its members.
\<close>

section \<open>Fields\<close>

datatype field = Field string nat u32 "(string \<times> u32) list"

type_synonym fields = "field list"

type_synonym field_table = "(string list \<times> fields) list"

fun field_name :: "field \<Rightarrow> string" where
  "field_name (Field n k m vs) = n"

fun field_offset :: "field \<Rightarrow> nat" where
  "field_offset (Field n k m vs) = k"

fun field_mask :: "field \<Rightarrow> u32" where
  "field_mask (Field n k m vs) = m"

fun field_values :: "field \<Rightarrow> (string \<times> u32) list" where
  "field_values (Field n k m vs) = vs"

text \<open>All the bits of a register that some field claims.\<close>

fun claimed :: "fields \<Rightarrow> u32" where
  "claimed [] = 0"
| "claimed (Field n k m vs # fs) = m OR claimed fs"

text \<open>The macros \<open>R_F_V\<close> and \<open>R_F_MASK\<close>.\<close>

fun macro :: "fields \<Rightarrow> string \<Rightarrow> string \<Rightarrow> u32 option" where
  "macro [] f v = None"
| "macro (Field n k m vs # fs) f v = (if n = f then map_of vs v else macro fs f v)"

fun mask_macro :: "fields \<Rightarrow> string \<Rightarrow> u32 option" where
  "mask_macro [] f = None"
| "mask_macro (Field n k m vs # fs) f = (if n = f then Some m else mask_macro fs f)"

section \<open>Well-formed fields\<close>

text \<open>A mask is a run of ones from the field's offset on (one more at the offset carries through all of it), and no two
  fields of a register claim the same bit.\<close>

definition run_at :: "nat \<Rightarrow> u32 \<Rightarrow> bool" where
  "run_at k m \<longleftrightarrow> m AND 2 ^ k \<noteq> 0 \<and> m AND (2 ^ k - 1) = 0 \<and> m AND (m + 2 ^ k) = 0"

fun fields_ok :: "u32 \<Rightarrow> fields \<Rightarrow> bool" where
  "fields_ok used [] \<longleftrightarrow> True"
| "fields_ok used (Field n k m vs # fs) \<longleftrightarrow> run_at k m \<and> used AND m = 0 \<and> fields_ok (used OR m) fs"

text \<open>The runs that occur in the headers.\<close>

lemma runs_used [simp]:
  "run_at 0 0x1" "run_at 0 0x3" "run_at 0 0x7" "run_at 0 0xf" "run_at 0 0x1f" "run_at 0 0x3f" "run_at 0 0x7f"
  "run_at 0 0xff" "run_at 0 0x1ff" "run_at 0 0x3ff" "run_at 0 0xfff" "run_at 0 0x7fff" "run_at 0 0xffff"
  "run_at 0 0x3ffff" "run_at 0 0x3fffff" "run_at 0 0xffffffff" "run_at (Suc 0) 0x2" "run_at (Suc 0) 0x6" "run_at (Suc 0) 0xe"
  "run_at (Suc 0) 0xfe" "run_at (Suc 0) 0x7fe" "run_at (Suc 0) 0xfffffffe" "run_at 2 0x4" "run_at 2 0xc" "run_at 2 0x1c" "run_at 2 0xfc"
  "run_at 3 0x8" "run_at 3 0x18" "run_at 3 0x38" "run_at 4 0x10" "run_at 4 0x30" "run_at 4 0x70" "run_at 4 0xf0"
  "run_at 4 0x1f0" "run_at 4 0xff0" "run_at 5 0x20" "run_at 5 0x60" "run_at 5 0xfffe0" "run_at 6 0x40" "run_at 6 0xc0"
  "run_at 6 0x3fffc0" "run_at 7 0x80" "run_at 7 0x380" "run_at 8 0x100" "run_at 8 0x300" "run_at 8 0x700"
  "run_at 8 0xf00" "run_at 8 0x1f00" "run_at 8 0xff00" "run_at 9 0x200" "run_at 9 0x600" "run_at 9 0x1e00"
  "run_at 9 0x7fe00" "run_at 10 0x400" "run_at 10 0xc00" "run_at 10 0x1c00" "run_at 11 0x800" "run_at 11 0xf800"
  "run_at 12 0x1000" "run_at 12 0x3000" "run_at 12 0x7000" "run_at 12 0xf000" "run_at 13 0x2000" "run_at 13 0xe000"
  "run_at 14 0x4000" "run_at 14 0xc000" "run_at 15 0x8000" "run_at 15 0x18000" "run_at 16 0x10000" "run_at 16 0x30000"
  "run_at 16 0x70000" "run_at 16 0xf0000" "run_at 16 0x1f0000" "run_at 16 0x7f0000" "run_at 16 0xff0000"
  "run_at 16 0xfff0000" "run_at 16 0xffff0000" "run_at 17 0x20000" "run_at 18 0x40000" "run_at 18 0xc0000"
  "run_at 18 0x1c0000" "run_at 19 0x80000" "run_at 20 0x100000" "run_at 20 0x300000" "run_at 20 0xf00000"
  "run_at 21 0x200000" "run_at 21 0x3e00000" "run_at 22 0x400000" "run_at 22 0xc00000" "run_at 22 0x1c00000"
  "run_at 23 0x800000" "run_at 24 0x1000000" "run_at 24 0x3000000" "run_at 24 0x7000000" "run_at 24 0xf000000"
  "run_at 24 0x1f000000" "run_at 24 0x3f000000" "run_at 24 0xff000000" "run_at 25 0x2000000" "run_at 25 0xe000000"
  "run_at 26 0x4000000" "run_at 26 0xc000000" "run_at 26 0x1c000000" "run_at 27 0x8000000" "run_at 28 0x10000000"
  "run_at 28 0x30000000" "run_at 28 0x70000000" "run_at 28 0xf0000000" "run_at 29 0x20000000" "run_at 29 0xe0000000"
  "run_at 30 0x40000000" "run_at 30 0xc0000000" "run_at 31 0x80000000"
  by (simp_all add: run_at_def)

text \<open>The named values that have bits outside the mask of their field.\<close>

fun stray_values :: "string list \<Rightarrow> fields \<Rightarrow> (string list \<times> string \<times> string) list" where
  "stray_values path [] = []"
| "stray_values path (Field n k m vs # fs) =
     map (\<lambda>(v, _). (path, n, v)) (filter (\<lambda>(_, w). w AND m \<noteq> w) vs) @ stray_values path fs"

definition strays :: "field_table \<Rightarrow> (string list \<times> string \<times> string) list" where
  "strays t = concat (map (\<lambda>(path, fs). stray_values path fs) t)"

fun inside :: "u32 \<Rightarrow> (string \<times> u32) list \<Rightarrow> bool" where
  "inside m [] \<longleftrightarrow> True"
| "inside m ((n, w) # vs) \<longleftrightarrow> w AND m = w \<and> inside m vs"

fun values_inside :: "fields \<Rightarrow> bool" where
  "values_inside [] \<longleftrightarrow> True"
| "values_inside (Field n k m vs # fs) \<longleftrightarrow> inside m vs \<and> values_inside fs"

lemma inside_filter: "inside m vs \<Longrightarrow> filter (\<lambda>(_, w). w AND m \<noteq> w) vs = []"
  by (induction m vs rule: inside.induct) auto

lemma values_inside_none: "values_inside fs \<Longrightarrow> stray_values path fs = []"
  by (induction fs rule: values_inside.induct) (simp_all add: inside_filter)

lemma no_strays: "list_all (\<lambda>(path, fs). values_inside fs) t \<Longrightarrow> strays t = []"
  by (induction t) (auto simp: strays_def values_inside_none)

text \<open>The registers of a structure: its members that are no reserved words, and those of the structures in it.\<close>

fun registers :: "string list \<Rightarrow> layout \<Rightarrow> string list list" where
  "registers path [] = []"
| "registers path (Reg a n d # ms) = (path @ [n]) # registers path ms"
| "registers path (Regs a n c d # ms) = (path @ [n]) # registers path ms"
| "registers path (Reserved c # ms) = registers path ms"
| "registers path (Block n bs d # ms) = registers (path @ [n]) bs @ registers path ms"
| "registers path (Blocks n c bs d # ms) = registers (path @ [n]) bs @ registers path ms"

definition describes :: "field_table \<Rightarrow> layout \<Rightarrow> bool" where
  "describes t ms \<longleftrightarrow> map fst t = registers [] ms \<and> list_all (\<lambda>(path, fs). fields_ok 0 fs) t"

section \<open>Reading and updating a field\<close>

text \<open>\<open>(r & MASK) >> OFS\<close> and \<open>(r & ~MASK) | ((v << OFS) & MASK)\<close>.\<close>

definition field_get :: "field \<Rightarrow> u32 \<Rightarrow> u32" where
  "field_get f w = drop_bit (field_offset f) (w AND field_mask f)"

definition field_set :: "field \<Rightarrow> u32 \<Rightarrow> u32 \<Rightarrow> u32" where
  "field_set f v w = (w AND NOT (field_mask f)) OR (push_bit (field_offset f) v AND field_mask f)"

text \<open>The largest value of a field.\<close>

definition field_max :: "field \<Rightarrow> u32" where
  "field_max f = drop_bit (field_offset f) (field_mask f)"

lemma field_get_set: "field_get f (field_set f v w) = v AND field_max f"
  by (rule bit_word_eqI)
    (auto simp: field_get_def field_set_def field_max_def bit_simps dest: bit_imp_le_length)

lemma field_get_other:
  assumes "field_mask f AND field_mask g = 0"
  shows "field_get g (field_set f v w) = field_get g w"
proof (rule bit_word_eqI)
  fix i
  have "\<not> (bit (field_mask f) j \<and> bit (field_mask g) j)" for j
    using assms by (metis bit_0_eq bit_and_iff bot_apply bot_bool_def)
  then show "bit (field_get g (field_set f v w)) i = bit (field_get g w) i"
    by (auto simp: field_get_def field_set_def bit_simps dest: bit_imp_le_length)
qed

lemma claimed_Cons: "claimed (f # fs) = field_mask f OR claimed fs"
  by (cases f) simp

lemma fields_ok_Cons: "fields_ok used (f # fs) \<longleftrightarrow> run_at (field_offset f) (field_mask f) \<and> used AND field_mask f = 0
     \<and> fields_ok (used OR field_mask f) fs"
  by (cases f) simp

lemma fields_ok_unused: "fields_ok used fs \<Longrightarrow> f \<in> set fs \<Longrightarrow> used AND field_mask f = 0"
proof (induction fs arbitrary: used)
  case (Cons g gs)
  show ?case
  proof (cases "f = g")
    case True
    then show ?thesis using Cons.prems by (simp add: fields_ok_Cons)
  next
    case False
    then have "(used OR field_mask g) AND field_mask f = 0" using Cons by (simp add: fields_ok_Cons)
    then show ?thesis by (simp add: bit.conj_disj_distrib2 or_eq_0_iff)
  qed
qed simp

lemma fields_ok_disjoint:
  "fields_ok used fs \<Longrightarrow> f \<in> set fs \<Longrightarrow> g \<in> set fs \<Longrightarrow> f \<noteq> g \<Longrightarrow> field_mask f AND field_mask g = 0"
proof (induction fs arbitrary: used)
  case (Cons h hs)
  have *: "k \<in> set hs \<Longrightarrow> field_mask h AND field_mask k = 0" for k
    using fields_ok_unused [of "used OR field_mask h" hs k] Cons.prems(1)
    by (auto simp: fields_ok_Cons bit.conj_disj_distrib2 or_eq_0_iff)
  show ?case using Cons * by (auto simp: fields_ok_Cons and.commute)
qed simp

end
