(* ===== verification/ADC12_Fields.thy ===== *)
theory ADC12_Fields
  imports Device_Fields
begin

text \<open>
  The bit fields of \<open>hw_adc12.h\<close>: the offset, the mask and the named values of every field, register by
  register.
\<close>

section \<open>\<open>hw_adc12.h\<close>\<close>

definition ADC12_PERIPHERALREGIONSVT_SVTMEM_FIFODATA_Bits :: fields where
  "ADC12_PERIPHERALREGIONSVT_SVTMEM_FIFODATA_Bits =
    [Field ''DATA'' 0 0xffffffff []]"

definition ADC12_PERIPHERALREGIONSVT_SVTMEM_MEMRES_Bits :: fields where
  "ADC12_PERIPHERALREGIONSVT_SVTMEM_MEMRES_Bits =
    [Field ''DATA'' 0 0xffff []]"

definition ADC12_DMA_TRIG_IIDX_Bits :: fields where
  "ADC12_DMA_TRIG_IIDX_Bits =
    [Field ''STAT'' 0 0x3ff [
       (''NO_INTR'', 0), (''MEMRESIFG0'', 9), (''MEMRESIFG1'', 0xa), (''MEMRESIFG2'', 0xb), (''MEMRESIFG3'', 0xc),
       (''MEMRESIFG4'', 0xd), (''MEMRESIFG5'', 0xe), (''MEMRESIFG6'', 0xf), (''MEMRESIFG7'', 0x10),
       (''MEMRESIFG8'', 0x11), (''MEMRESIFG9'', 0x12), (''MEMRESIFG10'', 0x13), (''MEMRESIFG11'', 0x14),
       (''MEMRESIFG12'', 0x15), (''MEMRESIFG13'', 0x16), (''MEMRESIFG14'', 0x17), (''MEMRESIFG15'', 0x18),
       (''MEMRESIFG16'', 0x19), (''MEMRESIFG17'', 0x1a), (''MEMRESIFG18'', 0x1b), (''MEMRESIFG19'', 0x1c),
       (''MEMRESIFG20'', 0x1d), (''MEMRESIFG21'', 0x1e), (''MEMRESIFG22'', 0x1f), (''MEMRESIFG23'', 0x20)]]"

definition ADC12_DMA_TRIG_IMASK_Bits :: fields where
  "ADC12_DMA_TRIG_IMASK_Bits =
    [Field ''MEMRESIFG0'' 8 0x100 [(''CLR'', 0), (''SET'', 0x100)],
     Field ''MEMRESIFG1'' 9 0x200 [(''CLR'', 0), (''SET'', 0x200)],
     Field ''MEMRESIFG2'' 10 0x400 [(''CLR'', 0), (''SET'', 0x400)],
     Field ''MEMRESIFG3'' 11 0x800 [(''CLR'', 0), (''SET'', 0x800)],
     Field ''MEMRESIFG4'' 12 0x1000 [(''CLR'', 0), (''SET'', 0x1000)],
     Field ''MEMRESIFG5'' 13 0x2000 [(''CLR'', 0), (''SET'', 0x2000)],
     Field ''MEMRESIFG6'' 14 0x4000 [(''CLR'', 0), (''SET'', 0x4000)],
     Field ''MEMRESIFG7'' 15 0x8000 [(''CLR'', 0), (''SET'', 0x8000)],
     Field ''MEMRESIFG9'' 17 0x20000 [(''CLR'', 0), (''SET'', 0x20000)],
     Field ''MEMRESIFG10'' 18 0x40000 [(''CLR'', 0), (''SET'', 0x40000)],
     Field ''MEMRESIFG11'' 19 0x80000 [(''CLR'', 0), (''SET'', 0x80000)],
     Field ''MEMRESIFG12'' 20 0x100000 [(''CLR'', 0), (''SET'', 0x100000)],
     Field ''MEMRESIFG13'' 21 0x200000 [(''CLR'', 0), (''SET'', 0x200000)],
     Field ''MEMRESIFG14'' 22 0x400000 [(''CLR'', 0), (''SET'', 0x400000)],
     Field ''MEMRESIFG15'' 23 0x800000 [(''CLR'', 0), (''SET'', 0x800000)],
     Field ''MEMRESIFG16'' 24 0x1000000 [(''CLR'', 0), (''SET'', 0x1000000)],
     Field ''MEMRESIFG17'' 25 0x2000000 [(''CLR'', 0), (''SET'', 0x2000000)],
     Field ''MEMRESIFG18'' 26 0x4000000 [(''CLR'', 0), (''SET'', 0x4000000)],
     Field ''MEMRESIFG19'' 27 0x8000000 [(''CLR'', 0), (''SET'', 0x8000000)],
     Field ''MEMRESIFG20'' 28 0x10000000 [(''CLR'', 0), (''SET'', 0x10000000)],
     Field ''MEMRESIFG22'' 30 0x40000000 [(''CLR'', 0), (''SET'', 0x40000000)],
     Field ''MEMRESIFG23'' 31 0x80000000 [(''CLR'', 0), (''SET'', 0x80000000)],
     Field ''MEMRESIFG8'' 16 0x10000 [(''CLR'', 0), (''SET'', 0x10000)],
     Field ''MEMRESIFG21'' 29 0x20000000 [(''CLR'', 0), (''SET'', 0x20000000)]]"

definition ADC12_DMA_TRIG_RIS_Bits :: fields where
  "ADC12_DMA_TRIG_RIS_Bits =
    [Field ''MEMRESIFG0'' 8 0x100 [(''CLR'', 0), (''SET'', 0x100)],
     Field ''MEMRESIFG1'' 9 0x200 [(''CLR'', 0), (''SET'', 0x200)],
     Field ''MEMRESIFG2'' 10 0x400 [(''CLR'', 0), (''SET'', 0x400)],
     Field ''MEMRESIFG3'' 11 0x800 [(''CLR'', 0), (''SET'', 0x800)],
     Field ''MEMRESIFG4'' 12 0x1000 [(''CLR'', 0), (''SET'', 0x1000)],
     Field ''MEMRESIFG5'' 13 0x2000 [(''CLR'', 0), (''SET'', 0x2000)],
     Field ''MEMRESIFG6'' 14 0x4000 [(''CLR'', 0), (''SET'', 0x4000)],
     Field ''MEMRESIFG7'' 15 0x8000 [(''CLR'', 0), (''SET'', 0x8000)],
     Field ''MEMRESIFG9'' 17 0x20000 [(''CLR'', 0), (''SET'', 0x20000)],
     Field ''MEMRESIFG10'' 18 0x40000 [(''CLR'', 0), (''SET'', 0x40000)],
     Field ''MEMRESIFG11'' 19 0x80000 [(''CLR'', 0), (''SET'', 0x80000)],
     Field ''MEMRESIFG12'' 20 0x100000 [(''CLR'', 0), (''SET'', 0x100000)],
     Field ''MEMRESIFG13'' 21 0x200000 [(''CLR'', 0), (''SET'', 0x200000)],
     Field ''MEMRESIFG14'' 22 0x400000 [(''CLR'', 0), (''SET'', 0x400000)],
     Field ''MEMRESIFG15'' 23 0x800000 [(''CLR'', 0), (''SET'', 0x800000)],
     Field ''MEMRESIFG16'' 24 0x1000000 [(''CLR'', 0), (''SET'', 0x1000000)],
     Field ''MEMRESIFG17'' 25 0x2000000 [(''CLR'', 0), (''SET'', 0x2000000)],
     Field ''MEMRESIFG18'' 26 0x4000000 [(''CLR'', 0), (''SET'', 0x4000000)],
     Field ''MEMRESIFG19'' 27 0x8000000 [(''CLR'', 0), (''SET'', 0x8000000)],
     Field ''MEMRESIFG20'' 28 0x10000000 [(''CLR'', 0), (''SET'', 0x10000000)],
     Field ''MEMRESIFG22'' 30 0x40000000 [(''CLR'', 0), (''SET'', 0x40000000)],
     Field ''MEMRESIFG23'' 31 0x80000000 [(''CLR'', 0), (''SET'', 0x80000000)],
     Field ''MEMRESIFG8'' 16 0x10000 [(''CLR'', 0), (''SET'', 0x10000)],
     Field ''MEMRESIFG21'' 29 0x20000000 [(''CLR'', 0), (''SET'', 0x20000000)]]"

definition ADC12_DMA_TRIG_MIS_Bits :: fields where
  "ADC12_DMA_TRIG_MIS_Bits =
    [Field ''MEMRESIFG0'' 8 0x100 [(''CLR'', 0), (''SET'', 0x100)],
     Field ''MEMRESIFG1'' 9 0x200 [(''CLR'', 0), (''SET'', 0x200)],
     Field ''MEMRESIFG2'' 10 0x400 [(''CLR'', 0), (''SET'', 0x400)],
     Field ''MEMRESIFG3'' 11 0x800 [(''CLR'', 0), (''SET'', 0x800)],
     Field ''MEMRESIFG4'' 12 0x1000 [(''CLR'', 0), (''SET'', 0x1000)],
     Field ''MEMRESIFG5'' 13 0x2000 [(''CLR'', 0), (''SET'', 0x2000)],
     Field ''MEMRESIFG6'' 14 0x4000 [(''CLR'', 0), (''SET'', 0x4000)],
     Field ''MEMRESIFG7'' 15 0x8000 [(''CLR'', 0), (''SET'', 0x8000)],
     Field ''MEMRESIFG9'' 17 0x20000 [(''CLR'', 0), (''SET'', 0x20000)],
     Field ''MEMRESIFG10'' 18 0x40000 [(''CLR'', 0), (''SET'', 0x40000)],
     Field ''MEMRESIFG11'' 19 0x80000 [(''CLR'', 0), (''SET'', 0x80000)],
     Field ''MEMRESIFG12'' 20 0x100000 [(''CLR'', 0), (''SET'', 0x100000)],
     Field ''MEMRESIFG13'' 21 0x200000 [(''CLR'', 0), (''SET'', 0x200000)],
     Field ''MEMRESIFG14'' 22 0x400000 [(''CLR'', 0), (''SET'', 0x400000)],
     Field ''MEMRESIFG15'' 23 0x800000 [(''CLR'', 0), (''SET'', 0x800000)],
     Field ''MEMRESIFG16'' 24 0x1000000 [(''CLR'', 0), (''SET'', 0x1000000)],
     Field ''MEMRESIFG17'' 25 0x2000000 [(''CLR'', 0), (''SET'', 0x2000000)],
     Field ''MEMRESIFG18'' 26 0x4000000 [(''CLR'', 0), (''SET'', 0x4000000)],
     Field ''MEMRESIFG19'' 27 0x8000000 [(''CLR'', 0), (''SET'', 0x8000000)],
     Field ''MEMRESIFG20'' 28 0x10000000 [(''CLR'', 0), (''SET'', 0x10000000)],
     Field ''MEMRESIFG22'' 30 0x40000000 [(''CLR'', 0), (''SET'', 0x40000000)],
     Field ''MEMRESIFG23'' 31 0x80000000 [(''CLR'', 0), (''SET'', 0x80000000)],
     Field ''MEMRESIFG8'' 16 0x10000 [(''CLR'', 0), (''SET'', 0x10000)],
     Field ''MEMRESIFG21'' 29 0x20000000 [(''CLR'', 0), (''SET'', 0x20000000)]]"

definition ADC12_DMA_TRIG_ISET_Bits :: fields where
  "ADC12_DMA_TRIG_ISET_Bits =
    [Field ''MEMRESIFG0'' 8 0x100 [(''NO_EFFECT'', 0), (''SET'', 0x100)],
     Field ''MEMRESIFG1'' 9 0x200 [(''NO_EFFECT'', 0), (''SET'', 0x200)],
     Field ''MEMRESIFG2'' 10 0x400 [(''NO_EFFECT'', 0), (''SET'', 0x400)],
     Field ''MEMRESIFG3'' 11 0x800 [(''NO_EFFECT'', 0), (''SET'', 0x800)],
     Field ''MEMRESIFG4'' 12 0x1000 [(''NO_EFFECT'', 0), (''SET'', 0x1000)],
     Field ''MEMRESIFG5'' 13 0x2000 [(''NO_EFFECT'', 0), (''SET'', 0x2000)],
     Field ''MEMRESIFG6'' 14 0x4000 [(''NO_EFFECT'', 0), (''SET'', 0x4000)],
     Field ''MEMRESIFG7'' 15 0x8000 [(''NO_EFFECT'', 0), (''SET'', 0x8000)],
     Field ''MEMRESIFG9'' 17 0x20000 [(''NO_EFFECT'', 0), (''SET'', 0x20000)],
     Field ''MEMRESIFG10'' 18 0x40000 [(''NO_EFFECT'', 0), (''SET'', 0x40000)],
     Field ''MEMRESIFG11'' 19 0x80000 [(''NO_EFFECT'', 0), (''SET'', 0x80000)],
     Field ''MEMRESIFG12'' 20 0x100000 [(''NO_EFFECT'', 0), (''SET'', 0x100000)],
     Field ''MEMRESIFG13'' 21 0x200000 [(''NO_EFFECT'', 0), (''SET'', 0x200000)],
     Field ''MEMRESIFG14'' 22 0x400000 [(''NO_EFFECT'', 0), (''SET'', 0x400000)],
     Field ''MEMRESIFG15'' 23 0x800000 [(''NO_EFFECT'', 0), (''SET'', 0x800000)],
     Field ''MEMRESIFG16'' 24 0x1000000 [(''NO_EFFECT'', 0), (''SET'', 0x1000000)],
     Field ''MEMRESIFG17'' 25 0x2000000 [(''NO_EFFECT'', 0), (''SET'', 0x2000000)],
     Field ''MEMRESIFG18'' 26 0x4000000 [(''NO_EFFECT'', 0), (''SET'', 0x4000000)],
     Field ''MEMRESIFG19'' 27 0x8000000 [(''NO_EFFECT'', 0), (''SET'', 0x8000000)],
     Field ''MEMRESIFG20'' 28 0x10000000 [(''NO_EFFECT'', 0), (''SET'', 0x10000000)],
     Field ''MEMRESIFG22'' 30 0x40000000 [(''NO_EFFECT'', 0), (''SET'', 0x40000000)],
     Field ''MEMRESIFG23'' 31 0x80000000 [(''NO_EFFECT'', 0), (''SET'', 0x80000000)],
     Field ''MEMRESIFG8'' 16 0x10000 [(''NO_EFFECT'', 0), (''SET'', 0x10000)],
     Field ''MEMRESIFG21'' 29 0x20000000 [(''NO_EFFECT'', 0), (''SET'', 0x20000000)]]"

definition ADC12_DMA_TRIG_ICLR_Bits :: fields where
  "ADC12_DMA_TRIG_ICLR_Bits =
    [Field ''MEMRESIFG0'' 8 0x100 [(''NO_EFFECT'', 0), (''CLR'', 0x100)],
     Field ''MEMRESIFG1'' 9 0x200 [(''NO_EFFECT'', 0), (''CLR'', 0x200)],
     Field ''MEMRESIFG2'' 10 0x400 [(''NO_EFFECT'', 0), (''CLR'', 0x400)],
     Field ''MEMRESIFG3'' 11 0x800 [(''NO_EFFECT'', 0), (''CLR'', 0x800)],
     Field ''MEMRESIFG4'' 12 0x1000 [(''NO_EFFECT'', 0), (''CLR'', 0x1000)],
     Field ''MEMRESIFG5'' 13 0x2000 [(''NO_EFFECT'', 0), (''CLR'', 0x2000)],
     Field ''MEMRESIFG6'' 14 0x4000 [(''NO_EFFECT'', 0), (''CLR'', 0x4000)],
     Field ''MEMRESIFG7'' 15 0x8000 [(''NO_EFFECT'', 0), (''CLR'', 0x8000)],
     Field ''MEMRESIFG9'' 17 0x20000 [(''NO_EFFECT'', 0), (''CLR'', 0x20000)],
     Field ''MEMRESIFG10'' 18 0x40000 [(''NO_EFFECT'', 0), (''CLR'', 0x40000)],
     Field ''MEMRESIFG11'' 19 0x80000 [(''NO_EFFECT'', 0), (''CLR'', 0x80000)],
     Field ''MEMRESIFG12'' 20 0x100000 [(''NO_EFFECT'', 0), (''CLR'', 0x100000)],
     Field ''MEMRESIFG13'' 21 0x200000 [(''NO_EFFECT'', 0), (''CLR'', 0x200000)],
     Field ''MEMRESIFG14'' 22 0x400000 [(''NO_EFFECT'', 0), (''CLR'', 0x400000)],
     Field ''MEMRESIFG15'' 23 0x800000 [(''NO_EFFECT'', 0), (''CLR'', 0x800000)],
     Field ''MEMRESIFG16'' 24 0x1000000 [(''NO_EFFECT'', 0), (''CLR'', 0x1000000)],
     Field ''MEMRESIFG17'' 25 0x2000000 [(''NO_EFFECT'', 0), (''CLR'', 0x2000000)],
     Field ''MEMRESIFG18'' 26 0x4000000 [(''NO_EFFECT'', 0), (''CLR'', 0x4000000)],
     Field ''MEMRESIFG19'' 27 0x8000000 [(''NO_EFFECT'', 0), (''CLR'', 0x8000000)],
     Field ''MEMRESIFG20'' 28 0x10000000 [(''NO_EFFECT'', 0), (''CLR'', 0x10000000)],
     Field ''MEMRESIFG22'' 30 0x40000000 [(''NO_EFFECT'', 0), (''CLR'', 0x40000000)],
     Field ''MEMRESIFG23'' 31 0x80000000 [(''NO_EFFECT'', 0), (''CLR'', 0x80000000)],
     Field ''MEMRESIFG8'' 16 0x10000 [(''NO_EFFECT'', 0), (''CLR'', 0x10000)],
     Field ''MEMRESIFG21'' 29 0x20000000 [(''NO_EFFECT'', 0), (''CLR'', 0x20000000)]]"

definition ADC12_GEN_EVENT_IIDX_Bits :: fields where
  "ADC12_GEN_EVENT_IIDX_Bits =
    [Field ''STAT'' 0 0x3ff [(''NO_INTR'', 0), (''HIGHIFG'', 3), (''LOWIFG'', 4), (''INIFG'', 5), (''MEMRESIFG0'', 9)]]"

definition ADC12_GEN_EVENT_IMASK_Bits :: fields where
  "ADC12_GEN_EVENT_IMASK_Bits =
    [Field ''INIFG'' 4 0x10 [(''CLR'', 0), (''SET'', 0x10)],
     Field ''LOWIFG'' 3 0x8 [(''CLR'', 0), (''SET'', 8)],
     Field ''HIGHIFG'' 2 0x4 [(''CLR'', 0), (''SET'', 4)],
     Field ''MEMRESIFG0'' 8 0x100 [(''CLR'', 0), (''SET'', 0x100)]]"

definition ADC12_GEN_EVENT_RIS_Bits :: fields where
  "ADC12_GEN_EVENT_RIS_Bits =
    [Field ''INIFG'' 4 0x10 [(''CLR'', 0), (''SET'', 0x10)],
     Field ''LOWIFG'' 3 0x8 [(''CLR'', 0), (''SET'', 8)],
     Field ''HIGHIFG'' 2 0x4 [(''CLR'', 0), (''SET'', 4)],
     Field ''MEMRESIFG0'' 8 0x100 [(''CLR'', 0), (''SET'', 0x100)]]"

definition ADC12_GEN_EVENT_MIS_Bits :: fields where
  "ADC12_GEN_EVENT_MIS_Bits =
    [Field ''INIFG'' 4 0x10 [(''CLR'', 0), (''SET'', 0x10)],
     Field ''LOWIFG'' 3 0x8 [(''CLR'', 0), (''SET'', 8)],
     Field ''HIGHIFG'' 2 0x4 [(''CLR'', 0), (''SET'', 4)],
     Field ''MEMRESIFG0'' 8 0x100 [(''CLR'', 0), (''SET'', 0x100)]]"

definition ADC12_GEN_EVENT_ISET_Bits :: fields where
  "ADC12_GEN_EVENT_ISET_Bits =
    [Field ''INIFG'' 4 0x10 [(''NO_EFFECT'', 0), (''SET'', 0x10)],
     Field ''LOWIFG'' 3 0x8 [(''NO_EFFECT'', 0), (''SET'', 8)],
     Field ''HIGHIFG'' 2 0x4 [(''NO_EFFECT'', 0), (''SET'', 4)],
     Field ''MEMRESIFG0'' 8 0x100 [(''NO_EFFECT'', 0), (''SET'', 0x100)]]"

definition ADC12_GEN_EVENT_ICLR_Bits :: fields where
  "ADC12_GEN_EVENT_ICLR_Bits =
    [Field ''INIFG'' 4 0x10 [(''NO_EFFECT'', 0), (''CLR'', 0x10)],
     Field ''LOWIFG'' 3 0x8 [(''NO_EFFECT'', 0), (''CLR'', 8)],
     Field ''HIGHIFG'' 2 0x4 [(''NO_EFFECT'', 0), (''CLR'', 4)],
     Field ''MEMRESIFG0'' 8 0x100 [(''NO_EFFECT'', 0), (''CLR'', 0x100)]]"

definition ADC12_CPU_INT_IIDX_Bits :: fields where
  "ADC12_CPU_INT_IIDX_Bits =
    [Field ''STAT'' 0 0x3ff [
       (''NO_INTR'', 0), (''OVIFG'', 1), (''TOVIFG'', 2), (''HIGHIFG'', 3), (''LOWIFG'', 4), (''INIFG'', 5),
       (''DMADONE'', 6), (''UVIFG'', 7), (''MEMRESIFG0'', 9), (''MEMRESIFG1'', 0xa), (''MEMRESIFG2'', 0xb),
       (''MEMRESIFG3'', 0xc), (''MEMRESIFG4'', 0xd), (''MEMRESIFG5'', 0xe), (''MEMRESIFG6'', 0xf),
       (''MEMRESIFG7'', 0x10), (''MEMRESIFG8'', 0x11), (''MEMRESIFG9'', 0x12), (''MEMRESIFG10'', 0x13),
       (''MEMRESIFG11'', 0x14), (''MEMRESIFG12'', 0x15), (''MEMRESIFG13'', 0x16), (''MEMRESIFG14'', 0x17),
       (''MEMRESIFG15'', 0x18), (''MEMRESIFG16'', 0x19), (''MEMRESIFG17'', 0x1a), (''MEMRESIFG18'', 0x1b),
       (''MEMRESIFG19'', 0x1c), (''MEMRESIFG20'', 0x1d), (''MEMRESIFG21'', 0x1e), (''MEMRESIFG22'', 0x1f),
       (''MEMRESIFG23'', 0x20)]]"

definition ADC12_CPU_INT_IMASK_Bits :: fields where
  "ADC12_CPU_INT_IMASK_Bits =
    [Field ''INIFG'' 4 0x10 [(''CLR'', 0), (''SET'', 0x10)],
     Field ''LOWIFG'' 3 0x8 [(''CLR'', 0), (''SET'', 8)],
     Field ''HIGHIFG'' 2 0x4 [(''CLR'', 0), (''SET'', 4)],
     Field ''OVIFG'' 0 0x1 [(''CLR'', 0), (''SET'', 1)],
     Field ''UVIFG'' 6 0x40 [(''CLR'', 0), (''SET'', 0x40)],
     Field ''TOVIFG'' 1 0x2 [(''CLR'', 0), (''SET'', 2)],
     Field ''DMADONE'' 5 0x20 [(''CLR'', 0), (''SET'', 0x20)],
     Field ''MEMRESIFG0'' 8 0x100 [(''CLR'', 0), (''SET'', 0x100)],
     Field ''MEMRESIFG1'' 9 0x200 [(''CLR'', 0), (''SET'', 0x200)],
     Field ''MEMRESIFG2'' 10 0x400 [(''CLR'', 0), (''SET'', 0x400)],
     Field ''MEMRESIFG3'' 11 0x800 [(''CLR'', 0), (''SET'', 0x800)],
     Field ''MEMRESIFG4'' 12 0x1000 [(''CLR'', 0), (''SET'', 0x1000)],
     Field ''MEMRESIFG5'' 13 0x2000 [(''CLR'', 0), (''SET'', 0x2000)],
     Field ''MEMRESIFG6'' 14 0x4000 [(''CLR'', 0), (''SET'', 0x4000)],
     Field ''MEMRESIFG7'' 15 0x8000 [(''CLR'', 0), (''SET'', 0x8000)],
     Field ''MEMRESIFG9'' 17 0x20000 [(''CLR'', 0), (''SET'', 0x20000)],
     Field ''MEMRESIFG10'' 18 0x40000 [(''CLR'', 0), (''SET'', 0x40000)],
     Field ''MEMRESIFG11'' 19 0x80000 [(''CLR'', 0), (''SET'', 0x80000)],
     Field ''MEMRESIFG12'' 20 0x100000 [(''CLR'', 0), (''SET'', 0x100000)],
     Field ''MEMRESIFG13'' 21 0x200000 [(''CLR'', 0), (''SET'', 0x200000)],
     Field ''MEMRESIFG14'' 22 0x400000 [(''CLR'', 0), (''SET'', 0x400000)],
     Field ''MEMRESIFG15'' 23 0x800000 [(''CLR'', 0), (''SET'', 0x800000)],
     Field ''MEMRESIFG16'' 24 0x1000000 [(''CLR'', 0), (''SET'', 0x1000000)],
     Field ''MEMRESIFG17'' 25 0x2000000 [(''CLR'', 0), (''SET'', 0x2000000)],
     Field ''MEMRESIFG18'' 26 0x4000000 [(''CLR'', 0), (''SET'', 0x4000000)],
     Field ''MEMRESIFG19'' 27 0x8000000 [(''CLR'', 0), (''SET'', 0x8000000)],
     Field ''MEMRESIFG20'' 28 0x10000000 [(''CLR'', 0), (''SET'', 0x10000000)],
     Field ''MEMRESIFG22'' 30 0x40000000 [(''CLR'', 0), (''SET'', 0x40000000)],
     Field ''MEMRESIFG23'' 31 0x80000000 [(''CLR'', 0), (''SET'', 0x80000000)],
     Field ''MEMRESIFG8'' 16 0x10000 [(''CLR'', 0), (''SET'', 0x10000)],
     Field ''MEMRESIFG21'' 29 0x20000000 [(''CLR'', 0), (''SET'', 0x20000000)]]"

definition ADC12_CPU_INT_RIS_Bits :: fields where
  "ADC12_CPU_INT_RIS_Bits =
    [Field ''INIFG'' 4 0x10 [(''CLR'', 0), (''SET'', 0x10)],
     Field ''LOWIFG'' 3 0x8 [(''CLR'', 0), (''SET'', 8)],
     Field ''HIGHIFG'' 2 0x4 [(''CLR'', 0), (''SET'', 4)],
     Field ''OVIFG'' 0 0x1 [(''CLR'', 0), (''SET'', 1)],
     Field ''UVIFG'' 6 0x40 [(''CLR'', 0), (''SET'', 0x40)],
     Field ''TOVIFG'' 1 0x2 [(''CLR'', 0), (''SET'', 2)],
     Field ''DMADONE'' 5 0x20 [(''CLR'', 0), (''SET'', 0x20)],
     Field ''MEMRESIFG0'' 8 0x100 [(''CLR'', 0), (''SET'', 0x100)],
     Field ''MEMRESIFG1'' 9 0x200 [(''CLR'', 0), (''SET'', 0x200)],
     Field ''MEMRESIFG2'' 10 0x400 [(''CLR'', 0), (''SET'', 0x400)],
     Field ''MEMRESIFG3'' 11 0x800 [(''CLR'', 0), (''SET'', 0x800)],
     Field ''MEMRESIFG4'' 12 0x1000 [(''CLR'', 0), (''SET'', 0x1000)],
     Field ''MEMRESIFG5'' 13 0x2000 [(''CLR'', 0), (''SET'', 0x2000)],
     Field ''MEMRESIFG6'' 14 0x4000 [(''CLR'', 0), (''SET'', 0x4000)],
     Field ''MEMRESIFG7'' 15 0x8000 [(''CLR'', 0), (''SET'', 0x8000)],
     Field ''MEMRESIFG9'' 17 0x20000 [(''CLR'', 0), (''SET'', 0x20000)],
     Field ''MEMRESIFG10'' 18 0x40000 [(''CLR'', 0), (''SET'', 0x40000)],
     Field ''MEMRESIFG11'' 19 0x80000 [(''CLR'', 0), (''SET'', 0x80000)],
     Field ''MEMRESIFG12'' 20 0x100000 [(''CLR'', 0), (''SET'', 0x100000)],
     Field ''MEMRESIFG13'' 21 0x200000 [(''CLR'', 0), (''SET'', 0x200000)],
     Field ''MEMRESIFG14'' 22 0x400000 [(''CLR'', 0), (''SET'', 0x400000)],
     Field ''MEMRESIFG15'' 23 0x800000 [(''CLR'', 0), (''SET'', 0x800000)],
     Field ''MEMRESIFG16'' 24 0x1000000 [(''CLR'', 0), (''SET'', 0x1000000)],
     Field ''MEMRESIFG17'' 25 0x2000000 [(''CLR'', 0), (''SET'', 0x2000000)],
     Field ''MEMRESIFG18'' 26 0x4000000 [(''CLR'', 0), (''SET'', 0x4000000)],
     Field ''MEMRESIFG19'' 27 0x8000000 [(''CLR'', 0), (''SET'', 0x8000000)],
     Field ''MEMRESIFG20'' 28 0x10000000 [(''CLR'', 0), (''SET'', 0x10000000)],
     Field ''MEMRESIFG22'' 30 0x40000000 [(''CLR'', 0), (''SET'', 0x40000000)],
     Field ''MEMRESIFG23'' 31 0x80000000 [(''CLR'', 0), (''SET'', 0x80000000)],
     Field ''MEMRESIFG8'' 16 0x10000 [(''CLR'', 0), (''SET'', 0x10000)],
     Field ''MEMRESIFG21'' 29 0x20000000 [(''CLR'', 0), (''SET'', 0x20000000)]]"

definition ADC12_CPU_INT_MIS_Bits :: fields where
  "ADC12_CPU_INT_MIS_Bits =
    [Field ''INIFG'' 4 0x10 [(''CLR'', 0), (''SET'', 0x10)],
     Field ''LOWIFG'' 3 0x8 [(''CLR'', 0), (''SET'', 8)],
     Field ''HIGHIFG'' 2 0x4 [(''CLR'', 0), (''SET'', 4)],
     Field ''OVIFG'' 0 0x1 [(''CLR'', 0), (''SET'', 1)],
     Field ''UVIFG'' 6 0x40 [(''CLR'', 0), (''SET'', 0x40)],
     Field ''TOVIFG'' 1 0x2 [(''CLR'', 0), (''SET'', 2)],
     Field ''DMADONE'' 5 0x20 [(''CLR'', 0), (''SET'', 0x20)],
     Field ''MEMRESIFG0'' 8 0x100 [(''CLR'', 0), (''SET'', 0x100)],
     Field ''MEMRESIFG1'' 9 0x200 [(''CLR'', 0), (''SET'', 0x200)],
     Field ''MEMRESIFG2'' 10 0x400 [(''CLR'', 0), (''SET'', 0x400)],
     Field ''MEMRESIFG3'' 11 0x800 [(''CLR'', 0), (''SET'', 0x800)],
     Field ''MEMRESIFG4'' 12 0x1000 [(''CLR'', 0), (''SET'', 0x1000)],
     Field ''MEMRESIFG5'' 13 0x2000 [(''CLR'', 0), (''SET'', 0x2000)],
     Field ''MEMRESIFG6'' 14 0x4000 [(''CLR'', 0), (''SET'', 0x4000)],
     Field ''MEMRESIFG7'' 15 0x8000 [(''CLR'', 0), (''SET'', 0x8000)],
     Field ''MEMRESIFG9'' 17 0x20000 [(''CLR'', 0), (''SET'', 0x20000)],
     Field ''MEMRESIFG10'' 18 0x40000 [(''CLR'', 0), (''SET'', 0x40000)],
     Field ''MEMRESIFG11'' 19 0x80000 [(''CLR'', 0), (''SET'', 0x80000)],
     Field ''MEMRESIFG12'' 20 0x100000 [(''CLR'', 0), (''SET'', 0x100000)],
     Field ''MEMRESIFG13'' 21 0x200000 [(''CLR'', 0), (''SET'', 0x200000)],
     Field ''MEMRESIFG14'' 22 0x400000 [(''CLR'', 0), (''SET'', 0x400000)],
     Field ''MEMRESIFG15'' 23 0x800000 [(''CLR'', 0), (''SET'', 0x800000)],
     Field ''MEMRESIFG16'' 24 0x1000000 [(''CLR'', 0), (''SET'', 0x1000000)],
     Field ''MEMRESIFG17'' 25 0x2000000 [(''CLR'', 0), (''SET'', 0x2000000)],
     Field ''MEMRESIFG18'' 26 0x4000000 [(''CLR'', 0), (''SET'', 0x4000000)],
     Field ''MEMRESIFG19'' 27 0x8000000 [(''CLR'', 0), (''SET'', 0x8000000)],
     Field ''MEMRESIFG20'' 28 0x10000000 [(''CLR'', 0), (''SET'', 0x10000000)],
     Field ''MEMRESIFG22'' 30 0x40000000 [(''CLR'', 0), (''SET'', 0x40000000)],
     Field ''MEMRESIFG23'' 31 0x80000000 [(''CLR'', 0), (''SET'', 0x80000000)],
     Field ''MEMRESIFG8'' 16 0x10000 [(''CLR'', 0), (''SET'', 0x10000)],
     Field ''MEMRESIFG21'' 29 0x20000000 [(''CLR'', 0), (''SET'', 0x20000000)]]"

definition ADC12_CPU_INT_ISET_Bits :: fields where
  "ADC12_CPU_INT_ISET_Bits =
    [Field ''INIFG'' 4 0x10 [(''NO_EFFECT'', 0), (''SET'', 0x10)],
     Field ''LOWIFG'' 3 0x8 [(''NO_EFFECT'', 0), (''SET'', 8)],
     Field ''HIGHIFG'' 2 0x4 [(''NO_EFFECT'', 0), (''SET'', 4)],
     Field ''OVIFG'' 0 0x1 [(''NO_EFFECT'', 0), (''SET'', 1)],
     Field ''UVIFG'' 6 0x40 [(''NO_EFFECT'', 0), (''SET'', 0x40)],
     Field ''TOVIFG'' 1 0x2 [(''NO_EFFECT'', 0), (''SET'', 2)],
     Field ''DMADONE'' 5 0x20 [(''NO_EFFECT'', 0), (''SET'', 0x20)],
     Field ''MEMRESIFG0'' 8 0x100 [(''NO_EFFECT'', 0), (''SET'', 0x100)],
     Field ''MEMRESIFG1'' 9 0x200 [(''NO_EFFECT'', 0), (''SET'', 0x200)],
     Field ''MEMRESIFG2'' 10 0x400 [(''NO_EFFECT'', 0), (''SET'', 0x400)],
     Field ''MEMRESIFG3'' 11 0x800 [(''NO_EFFECT'', 0), (''SET'', 0x800)],
     Field ''MEMRESIFG4'' 12 0x1000 [(''NO_EFFECT'', 0), (''SET'', 0x1000)],
     Field ''MEMRESIFG5'' 13 0x2000 [(''NO_EFFECT'', 0), (''SET'', 0x2000)],
     Field ''MEMRESIFG6'' 14 0x4000 [(''NO_EFFECT'', 0), (''SET'', 0x4000)],
     Field ''MEMRESIFG7'' 15 0x8000 [(''NO_EFFECT'', 0), (''SET'', 0x8000)],
     Field ''MEMRESIFG9'' 17 0x20000 [(''NO_EFFECT'', 0), (''SET'', 0x20000)],
     Field ''MEMRESIFG10'' 18 0x40000 [(''NO_EFFECT'', 0), (''SET'', 0x40000)],
     Field ''MEMRESIFG11'' 19 0x80000 [(''NO_EFFECT'', 0), (''SET'', 0x80000)],
     Field ''MEMRESIFG12'' 20 0x100000 [(''NO_EFFECT'', 0), (''SET'', 0x100000)],
     Field ''MEMRESIFG13'' 21 0x200000 [(''NO_EFFECT'', 0), (''SET'', 0x200000)],
     Field ''MEMRESIFG14'' 22 0x400000 [(''NO_EFFECT'', 0), (''SET'', 0x400000)],
     Field ''MEMRESIFG15'' 23 0x800000 [(''NO_EFFECT'', 0), (''SET'', 0x800000)],
     Field ''MEMRESIFG16'' 24 0x1000000 [(''NO_EFFECT'', 0), (''SET'', 0x1000000)],
     Field ''MEMRESIFG17'' 25 0x2000000 [(''NO_EFFECT'', 0), (''SET'', 0x2000000)],
     Field ''MEMRESIFG18'' 26 0x4000000 [(''NO_EFFECT'', 0), (''SET'', 0x4000000)],
     Field ''MEMRESIFG19'' 27 0x8000000 [(''NO_EFFECT'', 0), (''SET'', 0x8000000)],
     Field ''MEMRESIFG20'' 28 0x10000000 [(''NO_EFFECT'', 0), (''SET'', 0x10000000)],
     Field ''MEMRESIFG22'' 30 0x40000000 [(''NO_EFFECT'', 0), (''SET'', 0x40000000)],
     Field ''MEMRESIFG23'' 31 0x80000000 [(''NO_EFFECT'', 0), (''SET'', 0x80000000)],
     Field ''MEMRESIFG8'' 16 0x10000 [(''NO_EFFECT'', 0), (''SET'', 0x10000)],
     Field ''MEMRESIFG21'' 29 0x20000000 [(''NO_EFFECT'', 0), (''SET'', 0x20000000)]]"

definition ADC12_CPU_INT_ICLR_Bits :: fields where
  "ADC12_CPU_INT_ICLR_Bits =
    [Field ''INIFG'' 4 0x10 [(''NO_EFFECT'', 0), (''CLR'', 0x10)],
     Field ''LOWIFG'' 3 0x8 [(''NO_EFFECT'', 0), (''CLR'', 8)],
     Field ''HIGHIFG'' 2 0x4 [(''NO_EFFECT'', 0), (''CLR'', 4)],
     Field ''OVIFG'' 0 0x1 [(''NO_EFFECT'', 0), (''CLR'', 1)],
     Field ''UVIFG'' 6 0x40 [(''NO_EFFECT'', 0), (''CLR'', 0x40)],
     Field ''TOVIFG'' 1 0x2 [(''NO_EFFECT'', 0), (''CLR'', 2)],
     Field ''DMADONE'' 5 0x20 [(''NO_EFFECT'', 0), (''CLR'', 0x20)],
     Field ''MEMRESIFG0'' 8 0x100 [(''NO_EFFECT'', 0), (''CLR'', 0x100)],
     Field ''MEMRESIFG1'' 9 0x200 [(''NO_EFFECT'', 0), (''CLR'', 0x200)],
     Field ''MEMRESIFG2'' 10 0x400 [(''NO_EFFECT'', 0), (''CLR'', 0x400)],
     Field ''MEMRESIFG3'' 11 0x800 [(''NO_EFFECT'', 0), (''CLR'', 0x800)],
     Field ''MEMRESIFG4'' 12 0x1000 [(''NO_EFFECT'', 0), (''CLR'', 0x1000)],
     Field ''MEMRESIFG5'' 13 0x2000 [(''NO_EFFECT'', 0), (''CLR'', 0x2000)],
     Field ''MEMRESIFG6'' 14 0x4000 [(''NO_EFFECT'', 0), (''CLR'', 0x4000)],
     Field ''MEMRESIFG7'' 15 0x8000 [(''NO_EFFECT'', 0), (''CLR'', 0x8000)],
     Field ''MEMRESIFG9'' 17 0x20000 [(''NO_EFFECT'', 0), (''CLR'', 0x20000)],
     Field ''MEMRESIFG10'' 18 0x40000 [(''NO_EFFECT'', 0), (''CLR'', 0x40000)],
     Field ''MEMRESIFG11'' 19 0x80000 [(''NO_EFFECT'', 0), (''CLR'', 0x80000)],
     Field ''MEMRESIFG12'' 20 0x100000 [(''NO_EFFECT'', 0), (''CLR'', 0x100000)],
     Field ''MEMRESIFG13'' 21 0x200000 [(''NO_EFFECT'', 0), (''CLR'', 0x200000)],
     Field ''MEMRESIFG14'' 22 0x400000 [(''NO_EFFECT'', 0), (''CLR'', 0x400000)],
     Field ''MEMRESIFG15'' 23 0x800000 [(''NO_EFFECT'', 0), (''CLR'', 0x800000)],
     Field ''MEMRESIFG16'' 24 0x1000000 [(''NO_EFFECT'', 0), (''CLR'', 0x1000000)],
     Field ''MEMRESIFG17'' 25 0x2000000 [(''NO_EFFECT'', 0), (''CLR'', 0x2000000)],
     Field ''MEMRESIFG18'' 26 0x4000000 [(''NO_EFFECT'', 0), (''CLR'', 0x4000000)],
     Field ''MEMRESIFG19'' 27 0x8000000 [(''NO_EFFECT'', 0), (''CLR'', 0x8000000)],
     Field ''MEMRESIFG20'' 28 0x10000000 [(''NO_EFFECT'', 0), (''CLR'', 0x10000000)],
     Field ''MEMRESIFG22'' 30 0x40000000 [(''NO_EFFECT'', 0), (''CLR'', 0x40000000)],
     Field ''MEMRESIFG23'' 31 0x80000000 [(''NO_EFFECT'', 0), (''CLR'', 0x80000000)],
     Field ''MEMRESIFG8'' 16 0x10000 [(''NO_EFFECT'', 0), (''CLR'', 0x10000)],
     Field ''MEMRESIFG21'' 29 0x20000000 [(''NO_EFFECT'', 0), (''CLR'', 0x20000000)]]"

definition ADC12_PWREN_Bits :: fields where
  "ADC12_PWREN_Bits =
    [Field ''ENABLE'' 0 0x1 [(''DISABLE'', 0), (''ENABLE'', 1)],
     Field ''KEY'' 24 0xff000000 [(''UNLOCK_W'', 0x26000000)]]"

definition ADC12_RSTCTL_Bits :: fields where
  "ADC12_RSTCTL_Bits =
    [Field ''RESETSTKYCLR'' 1 0x2 [(''NOP'', 0), (''CLR'', 2)],
     Field ''RESETASSERT'' 0 0x1 [(''NOP'', 0), (''ASSERT'', 1)],
     Field ''KEY'' 24 0xff000000 [(''UNLOCK_W'', 0xb1000000)]]"

definition ADC12_CLKCFG_Bits :: fields where
  "ADC12_CLKCFG_Bits =
    [Field ''SAMPCLK'' 0 0x3 [(''ULPCLK'', 0), (''SYSOSC'', 1), (''HFCLK'', 2)],
     Field ''CCONRUN'' 4 0x10 [(''DISABLE'', 0), (''ENABLE'', 0x10)],
     Field ''CCONSTOP'' 5 0x20 [(''DISABLE'', 0), (''ENABLE'', 0x20)],
     Field ''KEY'' 24 0xff000000 [(''UNLOCK_W'', 0xa9000000)]]"

definition ADC12_STAT_Bits :: fields where
  "ADC12_STAT_Bits =
    [Field ''RESETSTKY'' 16 0x10000 [(''NORES'', 0), (''RESET'', 0x10000)]]"

definition ADC12_FSUB_0_Bits :: fields where
  "ADC12_FSUB_0_Bits =
    [Field ''CHANID'' 0 0xff [(''MNIMUM'', 0), (''UNCONNECTED'', 0), (''MAXIMUM'', 0xf)]]"

definition ADC12_FPUB_1_Bits :: fields where
  "ADC12_FPUB_1_Bits =
    [Field ''CHANID'' 0 0xff [(''MNIMUM'', 0), (''UNCONNECTED'', 0), (''MAXIMUM'', 0xf)]]"

definition ADC12_EVT_MODE_Bits :: fields where
  "ADC12_EVT_MODE_Bits =
    [Field ''INT0_CFG'' 0 0x3 [(''DISABLE'', 0), (''SOFTWARE'', 1), (''HARDWARE'', 2)],
     Field ''EVT1_CFG'' 2 0xc [(''DISABLE'', 0), (''SOFTWARE'', 4), (''HARDWARE'', 8)]]"

definition ADC12_DESC_Bits :: fields where
  "ADC12_DESC_Bits =
    [Field ''MINREV'' 0 0xf [(''MINIMUM'', 0), (''MAXIMUM'', 0xf)],
     Field ''MAJREV'' 4 0xf0 [(''MINIMUM'', 0), (''MAXIMUM'', 0xf0)],
     Field ''INSTNUM'' 8 0xf00 [],
     Field ''FEATUREVER'' 12 0xf000 [(''MINIMUM'', 0), (''MAXIMUM'', 0xf000)],
     Field ''MODULEID'' 16 0xffff0000 [(''MINIMUM'', 0), (''MAXIMUM'', 0xffff0000)]]"

definition ADC12_CTL0_Bits :: fields where
  "ADC12_CTL0_Bits =
    [Field ''ENC'' 0 0x1 [(''OFF'', 0), (''ON'', 1)],
     Field ''PWRDN'' 16 0x10000 [(''AUTO'', 0), (''MANUAL'', 0x10000)],
     Field ''SCLKDIV'' 24 0x7000000 [
       (''DIV_BY_1'', 0), (''DIV_BY_2'', 0x1000000), (''DIV_BY_4'', 0x2000000), (''DIV_BY_8'', 0x3000000),
       (''DIV_BY_16'', 0x4000000), (''DIV_BY_24'', 0x5000000), (''DIV_BY_32'', 0x6000000), (''DIV_BY_48'', 0x7000000)]]"

definition ADC12_CTL1_Bits :: fields where
  "ADC12_CTL1_Bits =
    [Field ''TRIGSRC'' 0 0x1 [(''SOFTWARE'', 0), (''EVENT'', 1)],
     Field ''SC'' 8 0x100 [(''STOP'', 0), (''START'', 0x100)],
     Field ''CONSEQ'' 16 0x30000 [
       (''SINGLE'', 0), (''SEQUENCE'', 0x10000), (''REPEATSINGLE'', 0x20000), (''REPEATSEQUENCE'', 0x30000)],
     Field ''SAMPMODE'' 20 0x100000 [(''AUTO'', 0), (''MANUAL'', 0x100000)],
     Field ''AVGN'' 24 0x7000000 [
       (''DISABLE'', 0), (''AVG_2'', 0x1000000), (''AVG_4'', 0x2000000), (''AVG_8'', 0x3000000), (''AVG_16'', 0x4000000),
       (''AVG_32'', 0x5000000), (''AVG_64'', 0x6000000), (''AVG_128'', 0x7000000)],
     Field ''AVGD'' 28 0x70000000 [
       (''SHIFT0'', 0), (''SHIFT1'', 0x10000000), (''SHIFT2'', 0x20000000), (''SHIFT3'', 0x30000000),
       (''SHIFT4'', 0x40000000), (''SHIFT5'', 0x50000000), (''SHIFT6'', 0x60000000), (''SHIFT7'', 0x70000000)]]"

definition ADC12_CTL2_Bits :: fields where
  "ADC12_CTL2_Bits =
    [Field ''DF'' 0 0x1 [(''UNSIGNED'', 0), (''SIGNED'', 1)],
     Field ''RES'' 1 0x6 [(''BIT_12'', 0), (''BIT_10'', 2), (''BIT_8'', 4)],
     Field ''STARTADD'' 16 0x1f0000 [
       (''ADDR_00'', 0), (''ADDR_01'', 0x10000), (''ADDR_02'', 0x20000), (''ADDR_03'', 0x30000), (''ADDR_04'', 0x40000),
       (''ADDR_05'', 0x50000), (''ADDR_06'', 0x60000), (''ADDR_07'', 0x70000), (''ADDR_08'', 0x80000),
       (''ADDR_09'', 0x90000), (''ADDR_10'', 0xa0000), (''ADDR_11'', 0xb0000), (''ADDR_12'', 0xc0000),
       (''ADDR_13'', 0xd0000), (''ADDR_14'', 0xe0000), (''ADDR_15'', 0xf0000), (''ADDR_16'', 0x100000),
       (''ADDR_17'', 0x110000), (''ADDR_18'', 0x120000), (''ADDR_19'', 0x130000), (''ADDR_20'', 0x140000),
       (''ADDR_21'', 0x150000), (''ADDR_22'', 0x160000), (''ADDR_23'', 0x170000)],
     Field ''ENDADD'' 24 0x1f000000 [
       (''ADDR_00'', 0), (''ADDR_01'', 0x1000000), (''ADDR_02'', 0x2000000), (''ADDR_03'', 0x3000000),
       (''ADDR_04'', 0x4000000), (''ADDR_05'', 0x5000000), (''ADDR_06'', 0x6000000), (''ADDR_07'', 0x7000000),
       (''ADDR_08'', 0x8000000), (''ADDR_09'', 0x9000000), (''ADDR_10'', 0xa000000), (''ADDR_11'', 0xb000000),
       (''ADDR_12'', 0xc000000), (''ADDR_13'', 0xd000000), (''ADDR_14'', 0xe000000), (''ADDR_15'', 0xf000000),
       (''ADDR_16'', 0x10000000), (''ADDR_17'', 0x11000000), (''ADDR_18'', 0x12000000), (''ADDR_19'', 0x13000000),
       (''ADDR_20'', 0x14000000), (''ADDR_21'', 0x15000000), (''ADDR_22'', 0x16000000), (''ADDR_23'', 0x17000000)],
     Field ''DMAEN'' 8 0x100 [(''DISABLE'', 0), (''ENABLE'', 0x100)],
     Field ''SAMPCNT'' 11 0xf800 [(''MIN'', 0), (''MAX'', 0xc000)],
     Field ''FIFOEN'' 10 0x400 [(''DISABLE'', 0), (''ENABLE'', 0x400)],
     Field ''RSTSAMPCAPEN'' 4 0x10 [(''DISABLE'', 0), (''ENABLE'', 0x10)]]"

definition ADC12_CLKFREQ_Bits :: fields where
  "ADC12_CLKFREQ_Bits =
    [Field ''FRANGE'' 0 0x7 [
       (''RANGE1TO4'', 0), (''RANGE4TO8'', 1), (''RANGE8TO16'', 2), (''RANGE16TO20'', 3), (''RANGE20TO24'', 4),
       (''RANGE24TO32'', 5), (''RANGE32TO40'', 6), (''RANGE40TO48'', 7)]]"

definition ADC12_SCOMP0_Bits :: fields where
  "ADC12_SCOMP0_Bits =
    [Field ''VAL'' 0 0x3ff []]"

definition ADC12_SCOMP1_Bits :: fields where
  "ADC12_SCOMP1_Bits =
    [Field ''VAL'' 0 0x3ff []]"

definition ADC12_WCLOW_Bits :: fields where
  "ADC12_WCLOW_Bits =
    [Field ''DATA'' 0 0xffff []]"

definition ADC12_WCHIGH_Bits :: fields where
  "ADC12_WCHIGH_Bits =
    [Field ''DATA'' 0 0xffff []]"

definition ADC12_ULLMEM_FIFODATA_Bits :: fields where
  "ADC12_ULLMEM_FIFODATA_Bits =
    [Field ''DATA'' 0 0xffffffff []]"

definition ADC12_MEMCTL_Bits :: fields where
  "ADC12_MEMCTL_Bits =
    [Field ''CHANSEL'' 0 0x1f [
       (''CHAN_0'', 0), (''CHAN_1'', 1), (''CHAN_2'', 2), (''CHAN_3'', 3), (''CHAN_4'', 4), (''CHAN_5'', 5),
       (''CHAN_6'', 6), (''CHAN_7'', 7), (''CHAN_8'', 8), (''CHAN_9'', 9), (''CHAN_10'', 0xa), (''CHAN_11'', 0xb),
       (''CHAN_12'', 0xc), (''CHAN_13'', 0xd), (''CHAN_14'', 0xe), (''CHAN_15'', 0xf), (''CHAN_16'', 0x10),
       (''CHAN_17'', 0x11), (''CHAN_18'', 0x12), (''CHAN_19'', 0x13), (''CHAN_20'', 0x14), (''CHAN_21'', 0x15),
       (''CHAN_22'', 0x16), (''CHAN_23'', 0x17), (''CHAN_24'', 0x18), (''CHAN_25'', 0x19), (''CHAN_26'', 0x1a),
       (''CHAN_27'', 0x1b), (''CHAN_28'', 0x1c), (''CHAN_29'', 0x1d), (''CHAN_30'', 0x1e), (''CHAN_31'', 0x1f)],
     Field ''TRIG'' 24 0x1000000 [(''AUTO_NEXT'', 0), (''TRIGGER_NEXT'', 0x1000000)],
     Field ''VRSEL'' 8 0x700 [
       (''VDDA_VSSA'', 0), (''EXTREF_VREFM'', 0x100), (''INTREF_VSSA'', 0x200), (''VDDA_VREFM'', 0x300),
       (''INTREF_VREFM'', 0x400)],
     Field ''WINCOMP'' 28 0x10000000 [(''DISABLE'', 0), (''ENABLE'', 0x10000000)],
     Field ''BCSEN'' 20 0x100000 [(''DISABLE'', 0), (''ENABLE'', 0x100000)],
     Field ''AVGEN'' 16 0x10000 [(''DISABLE'', 0), (''ENABLE'', 0x10000)],
     Field ''STIME'' 12 0x1000 [(''SEL_SCOMP0'', 0), (''SEL_SCOMP1'', 0x1000)]]"

definition ADC12_ULLMEM_MEMRES_Bits :: fields where
  "ADC12_ULLMEM_MEMRES_Bits =
    [Field ''DATA'' 0 0xffff []]"

definition ADC12_STATUS_Bits :: fields where
  "ADC12_STATUS_Bits =
    [Field ''BUSY'' 0 0x1 [(''IDLE'', 0), (''ACTIVE'', 1)],
     Field ''REFBUFRDY'' 1 0x2 [(''NOTREADY'', 0), (''READY'', 2)]]"

definition ADC12_PERIPHERALREGIONSVT_bits :: field_table where
  "ADC12_PERIPHERALREGIONSVT_bits =
    [([''SVTMEM'', ''FIFODATA''], ADC12_PERIPHERALREGIONSVT_SVTMEM_FIFODATA_Bits),
     ([''SVTMEM'', ''MEMRES''], ADC12_PERIPHERALREGIONSVT_SVTMEM_MEMRES_Bits)]"

definition ADC12_bits :: field_table where
  "ADC12_bits =
    [([''ULLMEM'', ''FSUB_0''], ADC12_FSUB_0_Bits), ([''ULLMEM'', ''FPUB_1''], ADC12_FPUB_1_Bits),
     ([''ULLMEM'', ''GPRCM'', ''PWREN''], ADC12_PWREN_Bits), ([''ULLMEM'', ''GPRCM'', ''RSTCTL''], ADC12_RSTCTL_Bits),
     ([''ULLMEM'', ''GPRCM'', ''CLKCFG''], ADC12_CLKCFG_Bits), ([''ULLMEM'', ''GPRCM'', ''STAT''], ADC12_STAT_Bits),
     ([''ULLMEM'', ''CPU_INT'', ''IIDX''], ADC12_CPU_INT_IIDX_Bits),
     ([''ULLMEM'', ''CPU_INT'', ''IMASK''], ADC12_CPU_INT_IMASK_Bits),
     ([''ULLMEM'', ''CPU_INT'', ''RIS''], ADC12_CPU_INT_RIS_Bits),
     ([''ULLMEM'', ''CPU_INT'', ''MIS''], ADC12_CPU_INT_MIS_Bits),
     ([''ULLMEM'', ''CPU_INT'', ''ISET''], ADC12_CPU_INT_ISET_Bits),
     ([''ULLMEM'', ''CPU_INT'', ''ICLR''], ADC12_CPU_INT_ICLR_Bits),
     ([''ULLMEM'', ''GEN_EVENT'', ''IIDX''], ADC12_GEN_EVENT_IIDX_Bits),
     ([''ULLMEM'', ''GEN_EVENT'', ''IMASK''], ADC12_GEN_EVENT_IMASK_Bits),
     ([''ULLMEM'', ''GEN_EVENT'', ''RIS''], ADC12_GEN_EVENT_RIS_Bits),
     ([''ULLMEM'', ''GEN_EVENT'', ''MIS''], ADC12_GEN_EVENT_MIS_Bits),
     ([''ULLMEM'', ''GEN_EVENT'', ''ISET''], ADC12_GEN_EVENT_ISET_Bits),
     ([''ULLMEM'', ''GEN_EVENT'', ''ICLR''], ADC12_GEN_EVENT_ICLR_Bits),
     ([''ULLMEM'', ''DMA_TRIG'', ''IIDX''], ADC12_DMA_TRIG_IIDX_Bits),
     ([''ULLMEM'', ''DMA_TRIG'', ''IMASK''], ADC12_DMA_TRIG_IMASK_Bits),
     ([''ULLMEM'', ''DMA_TRIG'', ''RIS''], ADC12_DMA_TRIG_RIS_Bits),
     ([''ULLMEM'', ''DMA_TRIG'', ''MIS''], ADC12_DMA_TRIG_MIS_Bits),
     ([''ULLMEM'', ''DMA_TRIG'', ''ISET''], ADC12_DMA_TRIG_ISET_Bits),
     ([''ULLMEM'', ''DMA_TRIG'', ''ICLR''], ADC12_DMA_TRIG_ICLR_Bits), ([''ULLMEM'', ''EVT_MODE''], ADC12_EVT_MODE_Bits),
     ([''ULLMEM'', ''DESC''], ADC12_DESC_Bits), ([''ULLMEM'', ''CTL0''], ADC12_CTL0_Bits),
     ([''ULLMEM'', ''CTL1''], ADC12_CTL1_Bits), ([''ULLMEM'', ''CTL2''], ADC12_CTL2_Bits),
     ([''ULLMEM'', ''CLKFREQ''], ADC12_CLKFREQ_Bits), ([''ULLMEM'', ''SCOMP0''], ADC12_SCOMP0_Bits),
     ([''ULLMEM'', ''SCOMP1''], ADC12_SCOMP1_Bits), ([''ULLMEM'', ''WCLOW''], ADC12_WCLOW_Bits),
     ([''ULLMEM'', ''WCHIGH''], ADC12_WCHIGH_Bits), ([''ULLMEM'', ''FIFODATA''], ADC12_ULLMEM_FIFODATA_Bits),
     ([''ULLMEM'', ''MEMCTL''], ADC12_MEMCTL_Bits), ([''ULLMEM'', ''MEMRES''], ADC12_ULLMEM_MEMRES_Bits),
     ([''ULLMEM'', ''STATUS''], ADC12_STATUS_Bits)]"

lemmas ADC12_Bits_defs = ADC12_PERIPHERALREGIONSVT_SVTMEM_FIFODATA_Bits_def
  ADC12_PERIPHERALREGIONSVT_SVTMEM_MEMRES_Bits_def ADC12_DMA_TRIG_IIDX_Bits_def ADC12_DMA_TRIG_IMASK_Bits_def
  ADC12_DMA_TRIG_RIS_Bits_def ADC12_DMA_TRIG_MIS_Bits_def ADC12_DMA_TRIG_ISET_Bits_def ADC12_DMA_TRIG_ICLR_Bits_def
  ADC12_GEN_EVENT_IIDX_Bits_def ADC12_GEN_EVENT_IMASK_Bits_def ADC12_GEN_EVENT_RIS_Bits_def
  ADC12_GEN_EVENT_MIS_Bits_def ADC12_GEN_EVENT_ISET_Bits_def ADC12_GEN_EVENT_ICLR_Bits_def ADC12_CPU_INT_IIDX_Bits_def
  ADC12_CPU_INT_IMASK_Bits_def ADC12_CPU_INT_RIS_Bits_def ADC12_CPU_INT_MIS_Bits_def ADC12_CPU_INT_ISET_Bits_def
  ADC12_CPU_INT_ICLR_Bits_def ADC12_PWREN_Bits_def ADC12_RSTCTL_Bits_def ADC12_CLKCFG_Bits_def ADC12_STAT_Bits_def
  ADC12_FSUB_0_Bits_def ADC12_FPUB_1_Bits_def ADC12_EVT_MODE_Bits_def ADC12_DESC_Bits_def ADC12_CTL0_Bits_def
  ADC12_CTL1_Bits_def ADC12_CTL2_Bits_def ADC12_CLKFREQ_Bits_def ADC12_SCOMP0_Bits_def ADC12_SCOMP1_Bits_def
  ADC12_WCLOW_Bits_def ADC12_WCHIGH_Bits_def ADC12_ULLMEM_FIFODATA_Bits_def ADC12_MEMCTL_Bits_def
  ADC12_ULLMEM_MEMRES_Bits_def ADC12_STATUS_Bits_def

lemma ADC12_PERIPHERALREGIONSVT_bits_describes: "describes ADC12_PERIPHERALREGIONSVT_bits ADC12_PERIPHERALREGIONSVT_Regs"
  by (simp add: describes_def ADC12_PERIPHERALREGIONSVT_bits_def layout_defs, (intro conjI; simp add: ADC12_Bits_defs))

lemma ADC12_PERIPHERALREGIONSVT_bits_strays: "strays ADC12_PERIPHERALREGIONSVT_bits = []"
  by (rule no_strays) (simp add: ADC12_PERIPHERALREGIONSVT_bits_def, (intro conjI; simp add: ADC12_Bits_defs))

lemma ADC12_bits_describes: "describes ADC12_bits ADC12_Regs"
  by (simp add: describes_def ADC12_bits_def layout_defs, (intro conjI; simp add: ADC12_Bits_defs))

lemma ADC12_bits_strays: "strays ADC12_bits = []"
  by (rule no_strays) (simp add: ADC12_bits_def, (intro conjI; simp add: ADC12_Bits_defs))

end
