(* ===== verification/DMA_Fields.thy ===== *)
theory DMA_Fields
  imports Device_Fields
begin

text \<open>
  The bit fields of \<open>hw_dma.h\<close>: the offset, the mask and the named values of every field, register by
  register.
\<close>

section \<open>\<open>hw_dma.h\<close>\<close>

definition DMA_DMACTL_Bits :: fields where
  "DMA_DMACTL_Bits =
    [Field ''DMAREQ'' 0 0x1 [(''IDLE'', 0), (''REQUEST'', 1)],
     Field ''DMAEN'' 1 0x2 [(''DISABLE'', 0), (''ENABLE'', 2)],
     Field ''DMASRCWDTH'' 8 0x700 [
       (''BYTE'', 0), (''HALF'', 0x100), (''WORD'', 0x200), (''LONG'', 0x300), (''LONGLONG'', 0x400)],
     Field ''DMADSTWDTH'' 12 0x7000 [
       (''BYTE'', 0), (''HALF'', 0x1000), (''WORD'', 0x2000), (''LONG'', 0x3000), (''LONGLONG'', 0x4000)],
     Field ''DMASRCINCR'' 16 0xf0000 [
       (''UNCHANGED'', 0), (''DECREMENT'', 0x20000), (''INCREMENT'', 0x30000), (''STRIDE_2'', 0x80000),
       (''STRIDE_3'', 0x90000), (''STRIDE_4'', 0xa0000), (''STRIDE_5'', 0xb0000), (''STRIDE_6'', 0xc0000),
       (''STRIDE_7'', 0xd0000), (''STRIDE_8'', 0xe0000), (''STRIDE_9'', 0xf0000)],
     Field ''DMADSTINCR'' 20 0xf00000 [
       (''UNCHANGED'', 0), (''DECREMENT'', 0x200000), (''INCREMENT'', 0x300000), (''STRIDE_2'', 0x800000),
       (''STRIDE_3'', 0x900000), (''STRIDE_4'', 0xa00000), (''STRIDE_5'', 0xb00000), (''STRIDE_6'', 0xc00000),
       (''STRIDE_7'', 0xd00000), (''STRIDE_8'', 0xe00000), (''STRIDE_9'', 0xf00000)],
     Field ''DMATM'' 28 0x30000000 [
       (''SINGLE'', 0), (''BLOCK'', 0x10000000), (''RPTSNGL'', 0x20000000), (''RPTBLCK'', 0x30000000)],
     Field ''DMAEM'' 24 0x3000000 [
       (''NORMAL'', 0), (''GATHERMODE'', 0x1000000), (''FILLMODE'', 0x2000000), (''TABLEMODE'', 0x3000000)],
     Field ''DMAPREIRQ'' 4 0x70 [
       (''PREIRQ_DISABLE'', 0), (''PREIRQ_1'', 0x10), (''PREIRQ_2'', 0x20), (''PREIRQ_4'', 0x30), (''PREIRQ_8'', 0x40),
       (''PREIRQ_32'', 0x50), (''PREIRQ_64'', 0x60), (''PREIRQ_HALF'', 0x70)],
     Field ''DMAAUTOEN'' 2 0xc [(''DISABLE'', 0), (''DMASA'', 4), (''DMADA'', 8), (''DMASZ'', 0xc)]]"

definition DMA_DMASA_Bits :: fields where
  "DMA_DMASA_Bits =
    [Field ''ADDR'' 0 0xffffffff [(''MINIMUM'', 0), (''MAXIMUM'', 0xffffffff)]]"

definition DMA_DMADA_Bits :: fields where
  "DMA_DMADA_Bits =
    [Field ''ADDR'' 0 0xffffffff [(''MINIMUM'', 0), (''MAXIMUM'', 0xffffffff)]]"

definition DMA_DMASZ_Bits :: fields where
  "DMA_DMASZ_Bits =
    [Field ''SIZE'' 0 0xffff [(''MINIMUM'', 0), (''MAXIMUM'', 0xffff)]]"

definition DMA_DMATCTL_Bits :: fields where
  "DMA_DMATCTL_Bits =
    [Field ''DMATSEL'' 0 0x3f [(''MINIMUM'', 0), (''DMAREQ'', 0), (''MAXIMUM'', 0x3f)],
     Field ''DMATINT'' 7 0x80 [(''EXTERNAL'', 0), (''INTERNAL'', 0x80)]]"

definition DMA_GEN_EVENT_IIDX_Bits :: fields where
  "DMA_GEN_EVENT_IIDX_Bits =
    [Field ''STAT'' 0 0xff [
       (''NO_INTR'', 0), (''DMACH0'', 1), (''DMACH1'', 2), (''DMACH2'', 3), (''DMACH3'', 4), (''DMACH4'', 5),
       (''DMACH5'', 6), (''DMACH6'', 7), (''DMACH7'', 8), (''DMACH8'', 9), (''DMACH9'', 0xa), (''DMACH10'', 0xb),
       (''DMACH11'', 0xc), (''DMACH12'', 0xd), (''DMACH13'', 0xe), (''DMACH14'', 0xf), (''DMACH15'', 0x10),
       (''PREIRQCH0'', 0x11), (''PREIRQCH1'', 0x12), (''PREIRQCH2'', 0x13), (''PREIRQCH3'', 0x14), (''PREIRQCH4'', 0x15),
       (''PREIRQCH5'', 0x16), (''PREIRQCH6'', 0x17), (''PREIRQCH7'', 0x18), (''ADDRERR'', 0x19), (''DATAERR'', 0x1a)]]"

definition DMA_GEN_EVENT_IMASK_Bits :: fields where
  "DMA_GEN_EVENT_IMASK_Bits =
    [Field ''DMACH0'' 0 0x1 [(''CLR'', 0), (''SET'', 1)],
     Field ''DMACH1'' 1 0x2 [(''CLR'', 0), (''SET'', 2)],
     Field ''DMACH2'' 2 0x4 [(''CLR'', 0), (''SET'', 4)],
     Field ''DMACH3'' 3 0x8 [(''CLR'', 0), (''SET'', 8)],
     Field ''DMACH4'' 4 0x10 [(''CLR'', 0), (''SET'', 0x10)],
     Field ''DMACH5'' 5 0x20 [(''CLR'', 0), (''SET'', 0x20)],
     Field ''DMACH6'' 6 0x40 [(''CLR'', 0), (''SET'', 0x40)],
     Field ''DMACH7'' 7 0x80 [(''CLR'', 0), (''SET'', 0x80)],
     Field ''DMACH8'' 8 0x100 [(''CLR'', 0), (''SET'', 0x100)],
     Field ''DMACH9'' 9 0x200 [(''CLR'', 0), (''SET'', 0x200)],
     Field ''DMACH10'' 10 0x400 [(''CLR'', 0), (''SET'', 0x400)],
     Field ''DMACH11'' 11 0x800 [(''CLR'', 0), (''SET'', 0x800)],
     Field ''DMACH12'' 12 0x1000 [(''CLR'', 0), (''SET'', 0x1000)],
     Field ''DMACH13'' 13 0x2000 [(''CLR'', 0), (''SET'', 0x2000)],
     Field ''DMACH14'' 14 0x4000 [(''CLR'', 0), (''SET'', 0x4000)],
     Field ''DMACH15'' 15 0x8000 [(''CLR'', 0), (''SET'', 0x8000)],
     Field ''PREIRQCH0'' 16 0x10000 [(''CLR'', 0), (''SET'', 0x10000)],
     Field ''PREIRQCH1'' 17 0x20000 [(''CLR'', 0), (''SET'', 0x20000)],
     Field ''PREIRQCH2'' 18 0x40000 [(''CLR'', 0), (''SET'', 0x40000)],
     Field ''PREIRQCH3'' 19 0x80000 [(''CLR'', 0), (''SET'', 0x80000)],
     Field ''PREIRQCH4'' 20 0x100000 [(''CLR'', 0), (''SET'', 0x100000)],
     Field ''PREIRQCH5'' 21 0x200000 [(''CLR'', 0), (''SET'', 0x200000)],
     Field ''PREIRQCH6'' 22 0x400000 [(''CLR'', 0), (''SET'', 0x400000)],
     Field ''PREIRQCH7'' 23 0x800000 [(''CLR'', 0), (''SET'', 0x800000)],
     Field ''ADDRERR'' 24 0x1000000 [(''CLR'', 0), (''SET'', 0x1000000)],
     Field ''DATAERR'' 25 0x2000000 [(''CLR'', 0), (''SET'', 0x2000000)]]"

definition DMA_GEN_EVENT_RIS_Bits :: fields where
  "DMA_GEN_EVENT_RIS_Bits =
    [Field ''DMACH0'' 0 0x1 [(''CLR'', 0), (''SET'', 1)],
     Field ''DMACH1'' 1 0x2 [(''CLR'', 0), (''SET'', 2)],
     Field ''DMACH2'' 2 0x4 [(''CLR'', 0), (''SET'', 4)],
     Field ''DMACH3'' 3 0x8 [(''CLR'', 0), (''SET'', 8)],
     Field ''DMACH4'' 4 0x10 [(''CLR'', 0), (''SET'', 0x10)],
     Field ''DMACH5'' 5 0x20 [(''CLR'', 0), (''SET'', 0x20)],
     Field ''DMACH6'' 6 0x40 [(''CLR'', 0), (''SET'', 0x40)],
     Field ''DMACH7'' 7 0x80 [(''CLR'', 0), (''SET'', 0x80)],
     Field ''DMACH8'' 8 0x100 [(''CLR'', 0), (''SET'', 0x100)],
     Field ''DMACH9'' 9 0x200 [(''CLR'', 0), (''SET'', 0x200)],
     Field ''DMACH10'' 10 0x400 [(''CLR'', 0), (''SET'', 0x400)],
     Field ''DMACH11'' 11 0x800 [(''CLR'', 0), (''SET'', 0x800)],
     Field ''DMACH12'' 12 0x1000 [(''CLR'', 0), (''SET'', 0x1000)],
     Field ''DMACH13'' 13 0x2000 [(''CLR'', 0), (''SET'', 0x2000)],
     Field ''DMACH14'' 14 0x4000 [(''CLR'', 0), (''SET'', 0x4000)],
     Field ''DMACH15'' 15 0x8000 [(''CLR'', 0), (''SET'', 0x8000)],
     Field ''PREIRQCH0'' 16 0x10000 [(''CLR'', 0), (''SET'', 0x10000)],
     Field ''PREIRQCH1'' 17 0x20000 [(''CLR'', 0), (''SET'', 0x20000)],
     Field ''PREIRQCH2'' 18 0x40000 [(''CLR'', 0), (''SET'', 0x40000)],
     Field ''PREIRQCH3'' 19 0x80000 [(''CLR'', 0), (''SET'', 0x80000)],
     Field ''PREIRQCH4'' 20 0x100000 [(''CLR'', 0), (''SET'', 0x100000)],
     Field ''PREIRQCH5'' 21 0x200000 [(''CLR'', 0), (''SET'', 0x200000)],
     Field ''PREIRQCH6'' 22 0x400000 [(''CLR'', 0), (''SET'', 0x400000)],
     Field ''PREIRQCH7'' 23 0x800000 [(''CLR'', 0), (''SET'', 0x800000)],
     Field ''ADDRERR'' 24 0x1000000 [(''CLR'', 0), (''SET'', 0x1000000)],
     Field ''DATAERR'' 25 0x2000000 [(''CLR'', 0), (''SET'', 0x2000000)]]"

definition DMA_GEN_EVENT_MIS_Bits :: fields where
  "DMA_GEN_EVENT_MIS_Bits =
    [Field ''DMACH0'' 0 0x1 [(''CLR'', 0), (''SET'', 1)],
     Field ''DMACH1'' 1 0x2 [(''CLR'', 0), (''SET'', 2)],
     Field ''DMACH2'' 2 0x4 [(''CLR'', 0), (''SET'', 4)],
     Field ''DMACH3'' 3 0x8 [(''CLR'', 0), (''SET'', 8)],
     Field ''DMACH4'' 4 0x10 [(''CLR'', 0), (''SET'', 0x10)],
     Field ''DMACH5'' 5 0x20 [(''CLR'', 0), (''SET'', 0x20)],
     Field ''DMACH6'' 6 0x40 [(''CLR'', 0), (''SET'', 0x40)],
     Field ''DMACH7'' 7 0x80 [(''CLR'', 0), (''SET'', 0x80)],
     Field ''DMACH8'' 8 0x100 [(''CLR'', 0), (''SET'', 0x100)],
     Field ''DMACH9'' 9 0x200 [(''CLR'', 0), (''SET'', 0x200)],
     Field ''DMACH10'' 10 0x400 [(''CLR'', 0), (''SET'', 0x400)],
     Field ''DMACH11'' 11 0x800 [(''CLR'', 0), (''SET'', 0x800)],
     Field ''DMACH12'' 12 0x1000 [(''CLR'', 0), (''SET'', 0x1000)],
     Field ''DMACH13'' 13 0x2000 [(''CLR'', 0), (''SET'', 0x2000)],
     Field ''DMACH14'' 14 0x4000 [(''CLR'', 0), (''SET'', 0x4000)],
     Field ''DMACH15'' 15 0x8000 [(''CLR'', 0), (''SET'', 0x8000)],
     Field ''PREIRQCH0'' 16 0x10000 [(''CLR'', 0), (''SET'', 0x10000)],
     Field ''PREIRQCH1'' 17 0x20000 [(''CLR'', 0), (''SET'', 0x20000)],
     Field ''PREIRQCH2'' 18 0x40000 [(''CLR'', 0), (''SET'', 0x40000)],
     Field ''PREIRQCH3'' 19 0x80000 [(''CLR'', 0), (''SET'', 0x80000)],
     Field ''PREIRQCH4'' 20 0x100000 [(''CLR'', 0), (''SET'', 0x100000)],
     Field ''PREIRQCH5'' 21 0x200000 [(''CLR'', 0), (''SET'', 0x200000)],
     Field ''PREIRQCH6'' 22 0x400000 [(''CLR'', 0), (''SET'', 0x400000)],
     Field ''PREIRQCH7'' 23 0x800000 [(''CLR'', 0), (''SET'', 0x800000)],
     Field ''ADDRERR'' 24 0x1000000 [(''CLR'', 0), (''SET'', 0x1000000)],
     Field ''DATAERR'' 25 0x2000000 [(''CLR'', 0), (''SET'', 0x2000000)]]"

definition DMA_GEN_EVENT_ISET_Bits :: fields where
  "DMA_GEN_EVENT_ISET_Bits =
    [Field ''DMACH0'' 0 0x1 [(''NO_EFFECT'', 0), (''SET'', 1)],
     Field ''DMACH1'' 1 0x2 [(''NO_EFFECT'', 0), (''SET'', 2)],
     Field ''DMACH2'' 2 0x4 [(''NO_EFFECT'', 0), (''SET'', 4)],
     Field ''DMACH3'' 3 0x8 [(''NO_EFFECT'', 0), (''SET'', 8)],
     Field ''DMACH4'' 4 0x10 [(''NO_EFFECT'', 0), (''SET'', 0x10)],
     Field ''DMACH5'' 5 0x20 [(''NO_EFFECT'', 0), (''SET'', 0x20)],
     Field ''DMACH6'' 6 0x40 [(''NO_EFFECT'', 0), (''SET'', 0x40)],
     Field ''DMACH7'' 7 0x80 [(''NO_EFFECT'', 0), (''SET'', 0x80)],
     Field ''DMACH8'' 8 0x100 [(''NO_EFFECT'', 0), (''SET'', 0x100)],
     Field ''DMACH9'' 9 0x200 [(''NO_EFFECT'', 0), (''SET'', 0x200)],
     Field ''DMACH10'' 10 0x400 [(''NO_EFFECT'', 0), (''SET'', 0x400)],
     Field ''DMACH11'' 11 0x800 [(''NO_EFFECT'', 0), (''SET'', 0x800)],
     Field ''DMACH12'' 12 0x1000 [(''NO_EFFECT'', 0), (''SET'', 0x1000)],
     Field ''DMACH13'' 13 0x2000 [(''NO_EFFECT'', 0), (''SET'', 0x2000)],
     Field ''DMACH14'' 14 0x4000 [(''NO_EFFECT'', 0), (''SET'', 0x4000)],
     Field ''DMACH15'' 15 0x8000 [(''NO_EFFECT'', 0), (''SET'', 0x8000)],
     Field ''PREIRQCH0'' 16 0x10000 [(''CLR'', 0), (''SET'', 0x10000)],
     Field ''PREIRQCH1'' 17 0x20000 [(''CLR'', 0), (''SET'', 0x20000)],
     Field ''PREIRQCH2'' 18 0x40000 [(''CLR'', 0), (''SET'', 0x40000)],
     Field ''PREIRQCH3'' 19 0x80000 [(''CLR'', 0), (''SET'', 0x80000)],
     Field ''PREIRQCH4'' 20 0x100000 [(''CLR'', 0), (''SET'', 0x100000)],
     Field ''PREIRQCH5'' 21 0x200000 [(''CLR'', 0), (''SET'', 0x200000)],
     Field ''PREIRQCH6'' 22 0x400000 [(''CLR'', 0), (''SET'', 0x400000)],
     Field ''PREIRQCH7'' 23 0x800000 [(''CLR'', 0), (''SET'', 0x800000)],
     Field ''ADDRERR'' 24 0x1000000 [(''CLR'', 0), (''SET'', 0x1000000)],
     Field ''DATAERR'' 25 0x2000000 [(''CLR'', 0), (''SET'', 0x2000000)]]"

definition DMA_GEN_EVENT_ICLR_Bits :: fields where
  "DMA_GEN_EVENT_ICLR_Bits =
    [Field ''DMACH0'' 0 0x1 [(''NO_EFFECT'', 0), (''CLR'', 1)],
     Field ''DMACH1'' 1 0x2 [(''NO_EFFECT'', 0), (''CLR'', 2)],
     Field ''DMACH2'' 2 0x4 [(''NO_EFFECT'', 0), (''CLR'', 4)],
     Field ''DMACH3'' 3 0x8 [(''NO_EFFECT'', 0), (''CLR'', 8)],
     Field ''DMACH4'' 4 0x10 [(''NO_EFFECT'', 0), (''CLR'', 0x10)],
     Field ''DMACH5'' 5 0x20 [(''NO_EFFECT'', 0), (''CLR'', 0x20)],
     Field ''DMACH6'' 6 0x40 [(''NO_EFFECT'', 0), (''CLR'', 0x40)],
     Field ''DMACH7'' 7 0x80 [(''NO_EFFECT'', 0), (''CLR'', 0x80)],
     Field ''DMACH8'' 8 0x100 [(''NO_EFFECT'', 0), (''CLR'', 0x100)],
     Field ''DMACH9'' 9 0x200 [(''NO_EFFECT'', 0), (''CLR'', 0x200)],
     Field ''DMACH10'' 10 0x400 [(''NO_EFFECT'', 0), (''CLR'', 0x400)],
     Field ''DMACH11'' 11 0x800 [(''NO_EFFECT'', 0), (''CLR'', 0x800)],
     Field ''DMACH12'' 12 0x1000 [(''NO_EFFECT'', 0), (''CLR'', 0x1000)],
     Field ''DMACH13'' 13 0x2000 [(''NO_EFFECT'', 0), (''CLR'', 0x2000)],
     Field ''DMACH14'' 14 0x4000 [(''NO_EFFECT'', 0), (''CLR'', 0x4000)],
     Field ''DMACH15'' 15 0x8000 [(''NO_EFFECT'', 0), (''CLR'', 0x8000)],
     Field ''PREIRQCH0'' 16 0x10000 [(''CLR'', 0), (''SET'', 0x10000)],
     Field ''PREIRQCH1'' 17 0x20000 [(''CLR'', 0), (''SET'', 0x20000)],
     Field ''PREIRQCH2'' 18 0x40000 [(''CLR'', 0), (''SET'', 0x40000)],
     Field ''PREIRQCH3'' 19 0x80000 [(''CLR'', 0), (''SET'', 0x80000)],
     Field ''PREIRQCH4'' 20 0x100000 [(''CLR'', 0), (''SET'', 0x100000)],
     Field ''PREIRQCH5'' 21 0x200000 [(''CLR'', 0), (''SET'', 0x200000)],
     Field ''PREIRQCH6'' 22 0x400000 [(''CLR'', 0), (''SET'', 0x400000)],
     Field ''PREIRQCH7'' 23 0x800000 [(''CLR'', 0), (''SET'', 0x800000)],
     Field ''ADDRERR'' 24 0x1000000 [(''CLR'', 0), (''SET'', 0x1000000)],
     Field ''DATAERR'' 25 0x2000000 [(''CLR'', 0), (''SET'', 0x2000000)]]"

definition DMA_CPU_INT_IIDX_Bits :: fields where
  "DMA_CPU_INT_IIDX_Bits =
    [Field ''STAT'' 0 0xff [
       (''NO_INTR'', 0), (''DMACH0'', 1), (''DMACH1'', 2), (''DMACH2'', 3), (''DMACH3'', 4), (''DMACH4'', 5),
       (''DMACH5'', 6), (''DMACH6'', 7), (''DMACH7'', 8), (''DMACH8'', 9), (''DMACH9'', 0xa), (''DMACH10'', 0xb),
       (''DMACH11'', 0xc), (''DMACH12'', 0xd), (''DMACH13'', 0xe), (''DMACH14'', 0xf), (''DMACH15'', 0x10),
       (''PREIRQCH0'', 0x11), (''PREIRQCH1'', 0x12), (''PREIRQCH2'', 0x13), (''PREIRQCH3'', 0x14), (''PREIRQCH4'', 0x15),
       (''PREIRQCH5'', 0x16), (''PREIRQCH6'', 0x17), (''PREIRQCH7'', 0x18), (''ADDRERR'', 0x19), (''DATAERR'', 0x1a)]]"

definition DMA_CPU_INT_IMASK_Bits :: fields where
  "DMA_CPU_INT_IMASK_Bits =
    [Field ''DMACH0'' 0 0x1 [(''CLR'', 0), (''SET'', 1)],
     Field ''DMACH1'' 1 0x2 [(''CLR'', 0), (''SET'', 2)],
     Field ''DMACH2'' 2 0x4 [(''CLR'', 0), (''SET'', 4)],
     Field ''DMACH3'' 3 0x8 [(''CLR'', 0), (''SET'', 8)],
     Field ''DMACH4'' 4 0x10 [(''CLR'', 0), (''SET'', 0x10)],
     Field ''DMACH5'' 5 0x20 [(''CLR'', 0), (''SET'', 0x20)],
     Field ''DMACH6'' 6 0x40 [(''CLR'', 0), (''SET'', 0x40)],
     Field ''DMACH7'' 7 0x80 [(''CLR'', 0), (''SET'', 0x80)],
     Field ''DMACH8'' 8 0x100 [(''CLR'', 0), (''SET'', 0x100)],
     Field ''DMACH9'' 9 0x200 [(''CLR'', 0), (''SET'', 0x200)],
     Field ''DMACH10'' 10 0x400 [(''CLR'', 0), (''SET'', 0x400)],
     Field ''DMACH11'' 11 0x800 [(''CLR'', 0), (''SET'', 0x800)],
     Field ''DMACH12'' 12 0x1000 [(''CLR'', 0), (''SET'', 0x1000)],
     Field ''DMACH13'' 13 0x2000 [(''CLR'', 0), (''SET'', 0x2000)],
     Field ''DMACH14'' 14 0x4000 [(''CLR'', 0), (''SET'', 0x4000)],
     Field ''DMACH15'' 15 0x8000 [(''CLR'', 0), (''SET'', 0x8000)],
     Field ''PREIRQCH0'' 16 0x10000 [(''CLR'', 0), (''SET'', 0x10000)],
     Field ''PREIRQCH1'' 17 0x20000 [(''CLR'', 0), (''SET'', 0x20000)],
     Field ''PREIRQCH2'' 18 0x40000 [(''CLR'', 0), (''SET'', 0x40000)],
     Field ''PREIRQCH3'' 19 0x80000 [(''CLR'', 0), (''SET'', 0x80000)],
     Field ''PREIRQCH4'' 20 0x100000 [(''CLR'', 0), (''SET'', 0x100000)],
     Field ''PREIRQCH5'' 21 0x200000 [(''CLR'', 0), (''SET'', 0x200000)],
     Field ''PREIRQCH6'' 22 0x400000 [(''CLR'', 0), (''SET'', 0x400000)],
     Field ''PREIRQCH7'' 23 0x800000 [(''CLR'', 0), (''SET'', 0x800000)],
     Field ''ADDRERR'' 24 0x1000000 [(''CLR'', 0), (''SET'', 0x1000000)],
     Field ''DATAERR'' 25 0x2000000 [(''CLR'', 0), (''SET'', 0x2000000)]]"

definition DMA_CPU_INT_RIS_Bits :: fields where
  "DMA_CPU_INT_RIS_Bits =
    [Field ''DMACH0'' 0 0x1 [(''CLR'', 0), (''SET'', 1)],
     Field ''DMACH1'' 1 0x2 [(''CLR'', 0), (''SET'', 2)],
     Field ''DMACH2'' 2 0x4 [(''CLR'', 0), (''SET'', 4)],
     Field ''DMACH3'' 3 0x8 [(''CLR'', 0), (''SET'', 8)],
     Field ''DMACH4'' 4 0x10 [(''CLR'', 0), (''SET'', 0x10)],
     Field ''DMACH5'' 5 0x20 [(''CLR'', 0), (''SET'', 0x20)],
     Field ''DMACH6'' 6 0x40 [(''CLR'', 0), (''SET'', 0x40)],
     Field ''DMACH7'' 7 0x80 [(''CLR'', 0), (''SET'', 0x80)],
     Field ''DMACH8'' 8 0x100 [(''CLR'', 0), (''SET'', 0x100)],
     Field ''DMACH9'' 9 0x200 [(''CLR'', 0), (''SET'', 0x200)],
     Field ''DMACH10'' 10 0x400 [(''CLR'', 0), (''SET'', 0x400)],
     Field ''DMACH11'' 11 0x800 [(''CLR'', 0), (''SET'', 0x800)],
     Field ''DMACH12'' 12 0x1000 [(''CLR'', 0), (''SET'', 0x1000)],
     Field ''DMACH13'' 13 0x2000 [(''CLR'', 0), (''SET'', 0x2000)],
     Field ''DMACH14'' 14 0x4000 [(''CLR'', 0), (''SET'', 0x4000)],
     Field ''DMACH15'' 15 0x8000 [(''CLR'', 0), (''SET'', 0x8000)],
     Field ''PREIRQCH0'' 16 0x10000 [(''CLR'', 0), (''SET'', 0x10000)],
     Field ''PREIRQCH1'' 17 0x20000 [(''CLR'', 0), (''SET'', 0x20000)],
     Field ''PREIRQCH2'' 18 0x40000 [(''CLR'', 0), (''SET'', 0x40000)],
     Field ''PREIRQCH3'' 19 0x80000 [(''CLR'', 0), (''SET'', 0x80000)],
     Field ''PREIRQCH4'' 20 0x100000 [(''CLR'', 0), (''SET'', 0x100000)],
     Field ''PREIRQCH5'' 21 0x200000 [(''CLR'', 0), (''SET'', 0x200000)],
     Field ''PREIRQCH6'' 22 0x400000 [(''CLR'', 0), (''SET'', 0x400000)],
     Field ''PREIRQCH7'' 23 0x800000 [(''CLR'', 0), (''SET'', 0x800000)],
     Field ''ADDRERR'' 24 0x1000000 [(''CLR'', 0), (''SET'', 0x1000000)],
     Field ''DATAERR'' 25 0x2000000 [(''CLR'', 0), (''SET'', 0x2000000)]]"

definition DMA_CPU_INT_MIS_Bits :: fields where
  "DMA_CPU_INT_MIS_Bits =
    [Field ''DMACH0'' 0 0x1 [(''CLR'', 0), (''SET'', 1)],
     Field ''DMACH1'' 1 0x2 [(''CLR'', 0), (''SET'', 2)],
     Field ''DMACH2'' 2 0x4 [(''CLR'', 0), (''SET'', 4)],
     Field ''DMACH3'' 3 0x8 [(''CLR'', 0), (''SET'', 8)],
     Field ''DMACH4'' 4 0x10 [(''CLR'', 0), (''SET'', 0x10)],
     Field ''DMACH5'' 5 0x20 [(''CLR'', 0), (''SET'', 0x20)],
     Field ''DMACH6'' 6 0x40 [(''CLR'', 0), (''SET'', 0x40)],
     Field ''DMACH7'' 7 0x80 [(''CLR'', 0), (''SET'', 0x80)],
     Field ''DMACH8'' 8 0x100 [(''CLR'', 0), (''SET'', 0x100)],
     Field ''DMACH9'' 9 0x200 [(''CLR'', 0), (''SET'', 0x200)],
     Field ''DMACH10'' 10 0x400 [(''CLR'', 0), (''SET'', 0x400)],
     Field ''DMACH11'' 11 0x800 [(''CLR'', 0), (''SET'', 0x800)],
     Field ''DMACH12'' 12 0x1000 [(''CLR'', 0), (''SET'', 0x1000)],
     Field ''DMACH13'' 13 0x2000 [(''CLR'', 0), (''SET'', 0x2000)],
     Field ''DMACH14'' 14 0x4000 [(''CLR'', 0), (''SET'', 0x4000)],
     Field ''DMACH15'' 15 0x8000 [(''CLR'', 0), (''SET'', 0x8000)],
     Field ''PREIRQCH0'' 16 0x10000 [(''CLR'', 0), (''SET'', 0x10000)],
     Field ''PREIRQCH1'' 17 0x20000 [(''CLR'', 0), (''SET'', 0x20000)],
     Field ''PREIRQCH2'' 18 0x40000 [(''CLR'', 0), (''SET'', 0x40000)],
     Field ''PREIRQCH3'' 19 0x80000 [(''CLR'', 0), (''SET'', 0x80000)],
     Field ''PREIRQCH4'' 20 0x100000 [(''CLR'', 0), (''SET'', 0x100000)],
     Field ''PREIRQCH5'' 21 0x200000 [(''CLR'', 0), (''SET'', 0x200000)],
     Field ''PREIRQCH6'' 22 0x400000 [(''CLR'', 0), (''SET'', 0x400000)],
     Field ''PREIRQCH7'' 23 0x800000 [(''CLR'', 0), (''SET'', 0x800000)],
     Field ''ADDRERR'' 24 0x1000000 [(''CLR'', 0), (''SET'', 0x1000000)],
     Field ''DATAERR'' 25 0x2000000 [(''CLR'', 0), (''SET'', 0x2000000)]]"

definition DMA_CPU_INT_ISET_Bits :: fields where
  "DMA_CPU_INT_ISET_Bits =
    [Field ''DMACH0'' 0 0x1 [(''NO_EFFECT'', 0), (''SET'', 1)],
     Field ''DMACH1'' 1 0x2 [(''NO_EFFECT'', 0), (''SET'', 2)],
     Field ''DMACH2'' 2 0x4 [(''NO_EFFECT'', 0), (''SET'', 4)],
     Field ''DMACH3'' 3 0x8 [(''NO_EFFECT'', 0), (''SET'', 8)],
     Field ''DMACH4'' 4 0x10 [(''NO_EFFECT'', 0), (''SET'', 0x10)],
     Field ''DMACH5'' 5 0x20 [(''NO_EFFECT'', 0), (''SET'', 0x20)],
     Field ''DMACH6'' 6 0x40 [(''NO_EFFECT'', 0), (''SET'', 0x40)],
     Field ''DMACH7'' 7 0x80 [(''NO_EFFECT'', 0), (''SET'', 0x80)],
     Field ''DMACH8'' 8 0x100 [(''NO_EFFECT'', 0), (''SET'', 0x100)],
     Field ''DMACH9'' 9 0x200 [(''NO_EFFECT'', 0), (''SET'', 0x200)],
     Field ''DMACH10'' 10 0x400 [(''NO_EFFECT'', 0), (''SET'', 0x400)],
     Field ''DMACH11'' 11 0x800 [(''NO_EFFECT'', 0), (''SET'', 0x800)],
     Field ''DMACH12'' 12 0x1000 [(''NO_EFFECT'', 0), (''SET'', 0x1000)],
     Field ''DMACH13'' 13 0x2000 [(''NO_EFFECT'', 0), (''SET'', 0x2000)],
     Field ''DMACH14'' 14 0x4000 [(''NO_EFFECT'', 0), (''SET'', 0x4000)],
     Field ''DMACH15'' 15 0x8000 [(''NO_EFFECT'', 0), (''SET'', 0x8000)],
     Field ''PREIRQCH0'' 16 0x10000 [(''CLR'', 0), (''SET'', 0x10000)],
     Field ''PREIRQCH1'' 17 0x20000 [(''CLR'', 0), (''SET'', 0x20000)],
     Field ''PREIRQCH2'' 18 0x40000 [(''CLR'', 0), (''SET'', 0x40000)],
     Field ''PREIRQCH3'' 19 0x80000 [(''CLR'', 0), (''SET'', 0x80000)],
     Field ''PREIRQCH4'' 20 0x100000 [(''CLR'', 0), (''SET'', 0x100000)],
     Field ''PREIRQCH5'' 21 0x200000 [(''CLR'', 0), (''SET'', 0x200000)],
     Field ''PREIRQCH6'' 22 0x400000 [(''CLR'', 0), (''SET'', 0x400000)],
     Field ''PREIRQCH7'' 23 0x800000 [(''CLR'', 0), (''SET'', 0x800000)],
     Field ''ADDRERR'' 24 0x1000000 [(''CLR'', 0), (''SET'', 0x1000000)],
     Field ''DATAERR'' 25 0x2000000 [(''CLR'', 0), (''SET'', 0x2000000)]]"

definition DMA_CPU_INT_ICLR_Bits :: fields where
  "DMA_CPU_INT_ICLR_Bits =
    [Field ''DMACH0'' 0 0x1 [(''NO_EFFECT'', 0), (''CLR'', 1)],
     Field ''DMACH1'' 1 0x2 [(''NO_EFFECT'', 0), (''CLR'', 2)],
     Field ''DMACH2'' 2 0x4 [(''NO_EFFECT'', 0), (''CLR'', 4)],
     Field ''DMACH3'' 3 0x8 [(''NO_EFFECT'', 0), (''CLR'', 8)],
     Field ''DMACH4'' 4 0x10 [(''NO_EFFECT'', 0), (''CLR'', 0x10)],
     Field ''DMACH5'' 5 0x20 [(''NO_EFFECT'', 0), (''CLR'', 0x20)],
     Field ''DMACH6'' 6 0x40 [(''NO_EFFECT'', 0), (''CLR'', 0x40)],
     Field ''DMACH7'' 7 0x80 [(''NO_EFFECT'', 0), (''CLR'', 0x80)],
     Field ''DMACH8'' 8 0x100 [(''NO_EFFECT'', 0), (''CLR'', 0x100)],
     Field ''DMACH9'' 9 0x200 [(''NO_EFFECT'', 0), (''CLR'', 0x200)],
     Field ''DMACH10'' 10 0x400 [(''NO_EFFECT'', 0), (''CLR'', 0x400)],
     Field ''DMACH11'' 11 0x800 [(''NO_EFFECT'', 0), (''CLR'', 0x800)],
     Field ''DMACH12'' 12 0x1000 [(''NO_EFFECT'', 0), (''CLR'', 0x1000)],
     Field ''DMACH13'' 13 0x2000 [(''NO_EFFECT'', 0), (''CLR'', 0x2000)],
     Field ''DMACH14'' 14 0x4000 [(''NO_EFFECT'', 0), (''CLR'', 0x4000)],
     Field ''DMACH15'' 15 0x8000 [(''NO_EFFECT'', 0), (''CLR'', 0x8000)],
     Field ''PREIRQCH0'' 16 0x10000 [(''CLR'', 0), (''SET'', 0x10000)],
     Field ''PREIRQCH1'' 17 0x20000 [(''CLR'', 0), (''SET'', 0x20000)],
     Field ''PREIRQCH2'' 18 0x40000 [(''CLR'', 0), (''SET'', 0x40000)],
     Field ''PREIRQCH3'' 19 0x80000 [(''CLR'', 0), (''SET'', 0x80000)],
     Field ''PREIRQCH4'' 20 0x100000 [(''CLR'', 0), (''SET'', 0x100000)],
     Field ''PREIRQCH5'' 21 0x200000 [(''CLR'', 0), (''SET'', 0x200000)],
     Field ''PREIRQCH6'' 22 0x400000 [(''CLR'', 0), (''SET'', 0x400000)],
     Field ''PREIRQCH7'' 23 0x800000 [(''CLR'', 0), (''SET'', 0x800000)],
     Field ''ADDRERR'' 24 0x1000000 [(''CLR'', 0), (''SET'', 0x1000000)],
     Field ''DATAERR'' 25 0x2000000 [(''CLR'', 0), (''SET'', 0x2000000)]]"

definition DMA_FSUB_0_Bits :: fields where
  "DMA_FSUB_0_Bits =
    [Field ''CHANID'' 0 0xff [(''MNIMUM'', 0), (''UNCONNECTED'', 0), (''MAXIMUM'', 0xff)]]"

definition DMA_FSUB_1_Bits :: fields where
  "DMA_FSUB_1_Bits =
    [Field ''CHANID'' 0 0xff [(''MNIMUM'', 0), (''UNCONNECTED'', 0), (''MAXIMUM'', 0xff)]]"

definition DMA_FPUB_1_Bits :: fields where
  "DMA_FPUB_1_Bits =
    [Field ''CHANID'' 0 0xff [(''MNIMUM'', 0), (''UNCONNECTED'', 0), (''MAXIMUM'', 0xff)]]"

definition DMA_PDBGCTL_Bits :: fields where
  "DMA_PDBGCTL_Bits =
    [Field ''FREE'' 0 0x1 [(''STOP'', 0), (''RUN'', 1)],
     Field ''SOFT'' 1 0x2 [(''IMMEDIATE'', 0), (''DELAYED'', 2)]]"

definition DMA_EVT_MODE_Bits :: fields where
  "DMA_EVT_MODE_Bits =
    [Field ''INT0_CFG'' 0 0x3 [(''DISABLE'', 0), (''SOFTWARE'', 1), (''HARDWARE'', 2)],
     Field ''EVT1_CFG'' 2 0xc [(''DISABLE'', 0), (''SOFTWARE'', 4), (''HARDWARE'', 8)]]"

definition DMA_DESC_Bits :: fields where
  "DMA_DESC_Bits =
    [Field ''MINREV'' 0 0xf [(''MINIMUM'', 0), (''MAXIMUM'', 0xf)],
     Field ''MAJREV'' 4 0xf0 [(''MINIMUM'', 0), (''MAXIMUM'', 0xf0)],
     Field ''FEATUREVER'' 12 0xf000 [(''MINIMUM'', 0), (''MAXIMUM'', 0xf000)],
     Field ''MODULEID'' 16 0xffff0000 [(''MINIMUM'', 0), (''MAXIMUM'', 0xffff0000)]]"

definition DMA_DMAPRIO_Bits :: fields where
  "DMA_DMAPRIO_Bits =
    [Field ''ROUNDROBIN'' 0 0x1 [(''DISABLE'', 0), (''ENABLE'', 1)],
     Field ''BURSTSZ'' 16 0x30000 [
       (''INFINITI'', 0), (''BURST_8'', 0x10000), (''BUSRT_16'', 0x20000), (''BURST_32'', 0x30000)]]"

definition DMA_bits :: field_table where
  "DMA_bits =
    [([''FSUB_0''], DMA_FSUB_0_Bits), ([''FSUB_1''], DMA_FSUB_1_Bits), ([''FPUB_1''], DMA_FPUB_1_Bits),
     ([''PDBGCTL''], DMA_PDBGCTL_Bits), ([''CPU_INT'', ''IIDX''], DMA_CPU_INT_IIDX_Bits),
     ([''CPU_INT'', ''IMASK''], DMA_CPU_INT_IMASK_Bits), ([''CPU_INT'', ''RIS''], DMA_CPU_INT_RIS_Bits),
     ([''CPU_INT'', ''MIS''], DMA_CPU_INT_MIS_Bits), ([''CPU_INT'', ''ISET''], DMA_CPU_INT_ISET_Bits),
     ([''CPU_INT'', ''ICLR''], DMA_CPU_INT_ICLR_Bits), ([''GEN_EVENT'', ''IIDX''], DMA_GEN_EVENT_IIDX_Bits),
     ([''GEN_EVENT'', ''IMASK''], DMA_GEN_EVENT_IMASK_Bits), ([''GEN_EVENT'', ''RIS''], DMA_GEN_EVENT_RIS_Bits),
     ([''GEN_EVENT'', ''MIS''], DMA_GEN_EVENT_MIS_Bits), ([''GEN_EVENT'', ''ISET''], DMA_GEN_EVENT_ISET_Bits),
     ([''GEN_EVENT'', ''ICLR''], DMA_GEN_EVENT_ICLR_Bits), ([''EVT_MODE''], DMA_EVT_MODE_Bits),
     ([''DESC''], DMA_DESC_Bits), ([''DMAPRIO''], DMA_DMAPRIO_Bits), ([''DMATRIG'', ''DMATCTL''], DMA_DMATCTL_Bits),
     ([''DMACHAN'', ''DMACTL''], DMA_DMACTL_Bits), ([''DMACHAN'', ''DMASA''], DMA_DMASA_Bits),
     ([''DMACHAN'', ''DMADA''], DMA_DMADA_Bits), ([''DMACHAN'', ''DMASZ''], DMA_DMASZ_Bits)]"

lemmas DMA_Bits_defs = DMA_DMACTL_Bits_def DMA_DMASA_Bits_def DMA_DMADA_Bits_def DMA_DMASZ_Bits_def
  DMA_DMATCTL_Bits_def DMA_GEN_EVENT_IIDX_Bits_def DMA_GEN_EVENT_IMASK_Bits_def DMA_GEN_EVENT_RIS_Bits_def
  DMA_GEN_EVENT_MIS_Bits_def DMA_GEN_EVENT_ISET_Bits_def DMA_GEN_EVENT_ICLR_Bits_def DMA_CPU_INT_IIDX_Bits_def
  DMA_CPU_INT_IMASK_Bits_def DMA_CPU_INT_RIS_Bits_def DMA_CPU_INT_MIS_Bits_def DMA_CPU_INT_ISET_Bits_def
  DMA_CPU_INT_ICLR_Bits_def DMA_FSUB_0_Bits_def DMA_FSUB_1_Bits_def DMA_FPUB_1_Bits_def DMA_PDBGCTL_Bits_def
  DMA_EVT_MODE_Bits_def DMA_DESC_Bits_def DMA_DMAPRIO_Bits_def

lemma DMA_bits_describes: "describes DMA_bits DMA_Regs"
  by (simp add: describes_def DMA_bits_def layout_defs, (intro conjI; simp add: DMA_Bits_defs))

lemma DMA_bits_strays: "strays DMA_bits = []"
  by (rule no_strays) (simp add: DMA_bits_def, (intro conjI; simp add: DMA_Bits_defs))

end
