(* ===== verification/FLASHCTL_Fields.thy ===== *)
theory FLASHCTL_Fields
  imports Device_Fields
begin

text \<open>
  The bit fields of \<open>hw_flashctl.h\<close>: the offset, the mask and the named values of every field, register
  by register.
\<close>

section \<open>\<open>hw_flashctl.h\<close>\<close>

definition FLASHCTL_IIDX_Bits :: fields where
  "FLASHCTL_IIDX_Bits =
    [Field ''STAT'' 0 0x1 [(''NO_INTR'', 0), (''DONE'', 1)]]"

definition FLASHCTL_IMASK_Bits :: fields where
  "FLASHCTL_IMASK_Bits =
    [Field ''DONE'' 0 0x1 [(''DISABLED'', 0), (''ENABLED'', 1)]]"

definition FLASHCTL_RIS_Bits :: fields where
  "FLASHCTL_RIS_Bits =
    [Field ''DONE'' 0 0x1 [(''CLR'', 0), (''SET'', 1)]]"

definition FLASHCTL_MIS_Bits :: fields where
  "FLASHCTL_MIS_Bits =
    [Field ''DONE'' 0 0x1 [(''CLR'', 0), (''SET'', 1)]]"

definition FLASHCTL_ISET_Bits :: fields where
  "FLASHCTL_ISET_Bits =
    [Field ''DONE'' 0 0x1 [(''NO_EFFECT'', 0), (''SET'', 1)]]"

definition FLASHCTL_ICLR_Bits :: fields where
  "FLASHCTL_ICLR_Bits =
    [Field ''DONE'' 0 0x1 [(''NO_EFFECT'', 0), (''CLR'', 1)]]"

definition FLASHCTL_EVT_MODE_Bits :: fields where
  "FLASHCTL_EVT_MODE_Bits =
    [Field ''INT0_CFG'' 0 0x3 [(''DISABLE'', 0), (''SOFTWARE'', 1), (''HARDWARE'', 2)]]"

definition FLASHCTL_DESC_Bits :: fields where
  "FLASHCTL_DESC_Bits =
    [Field ''MINREV'' 0 0xf [(''MINIMUM'', 0), (''MAXIMUM'', 0xf)],
     Field ''MAJREV'' 4 0xf0 [(''MINIMUM'', 0), (''MAXIMUM'', 0xf0)],
     Field ''INSTNUM'' 8 0xf00 [(''MINIMUM'', 0), (''MAXIMUM'', 0xf00)],
     Field ''FEATUREVER'' 12 0xf000 [(''MINIMUM'', 0), (''MAXIMUM'', 0xf000)],
     Field ''MODULEID'' 16 0xffff0000 [(''MINIMUM'', 0), (''MAXIMUM'', 0xffff0000)]]"

definition FLASHCTL_CMDEXEC_Bits :: fields where
  "FLASHCTL_CMDEXEC_Bits =
    [Field ''VAL'' 0 0x1 [(''NOEXECUTE'', 0), (''EXECUTE'', 1)]]"

definition FLASHCTL_CMDTYPE_Bits :: fields where
  "FLASHCTL_CMDTYPE_Bits =
    [Field ''COMMAND'' 0 0x7 [
       (''NOOP'', 0), (''PROGRAM'', 1), (''ERASE'', 2), (''READVERIFY'', 3), (''MODECHANGE'', 4), (''CLEARSTATUS'', 5),
       (''BLANKVERIFY'', 6)],
     Field ''SIZE'' 4 0x70 [
       (''ONEWORD'', 0), (''TWOWORD'', 0x10), (''FOURWORD'', 0x20), (''EIGHTWORD'', 0x30), (''SECTOR'', 0x40),
       (''BANK'', 0x50)]]"

definition FLASHCTL_CMDCTL_Bits :: fields where
  "FLASHCTL_CMDCTL_Bits =
    [Field ''MODESEL'' 0 0xf [
       (''READ'', 0), (''RDMARG0'', 2), (''RDMARG1'', 4), (''RDMARG0B'', 6), (''RDMARG1B'', 7), (''PGMVER'', 9),
       (''PGMSW'', 0xa), (''ERASEVER'', 0xb), (''ERASESECT'', 0xc), (''PGMMW'', 0xe), (''ERASEBNK'', 0xf)],
     Field ''BANKSEL'' 4 0x1f0 [
       (''BANK0'', 0x10), (''BANK1'', 0x20), (''BANK2'', 0x40), (''BANK3'', 0x80), (''BANK4'', 0x100)],
     Field ''REGIONSEL'' 9 0x1e00 [(''MAIN'', 0x200), (''NONMAIN'', 0x400), (''TRIM'', 0x800), (''ENGR'', 0x1000)],
     Field ''ECCGENOVR'' 17 0x20000 [(''NOOVERRIDE'', 0), (''OVERRIDE'', 0x20000)],
     Field ''ADDRXLATEOVR'' 16 0x10000 [(''NOOVERRIDE'', 0), (''OVERRIDE'', 0x10000)],
     Field ''SSERASEDIS'' 20 0x100000 [(''ENABLE'', 0), (''DISABLE'', 0x100000)],
     Field ''DATAVEREN'' 21 0x200000 [(''DISABLE'', 0), (''ENABLE'', 0x200000)]]"

definition FLASHCTL_CMDADDR_Bits :: fields where
  "FLASHCTL_CMDADDR_Bits =
    [Field ''VAL'' 0 0xffffffff [(''MINIMUM'', 0), (''MAXIMUM'', 0xffffffff)]]"

definition FLASHCTL_CMDBYTEN_Bits :: fields where
  "FLASHCTL_CMDBYTEN_Bits =
    [Field ''VAL'' 0 0x3ffff [(''MINIMUM'', 0), (''MAXIMUM'', 0x3ffff)]]"

definition FLASHCTL_CMDDATAINDEX_Bits :: fields where
  "FLASHCTL_CMDDATAINDEX_Bits =
    [Field ''VAL'' 0 0x7 [(''MINIMUM'', 0), (''MAXIMUM'', 7)]]"

definition FLASHCTL_CMDDATA0_Bits :: fields where
  "FLASHCTL_CMDDATA0_Bits =
    [Field ''VAL'' 0 0xffffffff [(''MINIMUM'', 0), (''MAXIMUM'', 0xffffffff)]]"

definition FLASHCTL_CMDDATA1_Bits :: fields where
  "FLASHCTL_CMDDATA1_Bits =
    [Field ''VAL'' 0 0xffffffff [(''MINIMUM'', 0), (''MAXIMUM'', 0xffffffff)]]"

definition FLASHCTL_CMDDATA2_Bits :: fields where
  "FLASHCTL_CMDDATA2_Bits =
    [Field ''VAL'' 0 0xffffffff [(''MINIMUM'', 0), (''MAXIMUM'', 0xffffffff)]]"

definition FLASHCTL_CMDDATA3_Bits :: fields where
  "FLASHCTL_CMDDATA3_Bits =
    [Field ''VAL'' 0 0xffffffff [(''MINIMUM'', 0), (''MAXIMUM'', 0xffffffff)]]"

definition FLASHCTL_CMDDATA4_Bits :: fields where
  "FLASHCTL_CMDDATA4_Bits =
    [Field ''VAL'' 0 0xffffffff [(''MINIMUM'', 0), (''MAXIMUM'', 0xffffffff)]]"

definition FLASHCTL_CMDDATA5_Bits :: fields where
  "FLASHCTL_CMDDATA5_Bits =
    [Field ''VAL'' 0 0xffffffff [(''MINIMUM'', 0), (''MAXIMUM'', 0xffffffff)]]"

definition FLASHCTL_CMDDATA6_Bits :: fields where
  "FLASHCTL_CMDDATA6_Bits =
    [Field ''VAL'' 0 0xffffffff [(''MINIMUM'', 0), (''MAXIMUM'', 0xffffffff)]]"

definition FLASHCTL_CMDDATA7_Bits :: fields where
  "FLASHCTL_CMDDATA7_Bits =
    [Field ''VAL'' 0 0xffffffff [(''MINIMUM'', 0), (''MAXIMUM'', 0xffffffff)]]"

definition FLASHCTL_CMDDATA8_Bits :: fields where
  "FLASHCTL_CMDDATA8_Bits =
    [Field ''VAL'' 0 0xffffffff [(''MINIMUM'', 0), (''MAXIMUM'', 0xffffffff)]]"

definition FLASHCTL_CMDDATA9_Bits :: fields where
  "FLASHCTL_CMDDATA9_Bits =
    [Field ''VAL'' 0 0xffffffff [(''MINIMUM'', 0), (''MAXIMUM'', 0xffffffff)]]"

definition FLASHCTL_CMDDATA10_Bits :: fields where
  "FLASHCTL_CMDDATA10_Bits =
    [Field ''VAL'' 0 0xffffffff [(''MINIMUM'', 0), (''MAXIMUM'', 0xffffffff)]]"

definition FLASHCTL_CMDDATA11_Bits :: fields where
  "FLASHCTL_CMDDATA11_Bits =
    [Field ''VAL'' 0 0xffffffff [(''MINIMUM'', 0), (''MAXIMUM'', 0xffffffff)]]"

definition FLASHCTL_CMDDATA12_Bits :: fields where
  "FLASHCTL_CMDDATA12_Bits =
    [Field ''VAL'' 0 0xffffffff [(''MINIMUM'', 0), (''MAXIMUM'', 0xffffffff)]]"

definition FLASHCTL_CMDDATA13_Bits :: fields where
  "FLASHCTL_CMDDATA13_Bits =
    [Field ''VAL'' 0 0xffffffff [(''MINIMUM'', 0), (''MAXIMUM'', 0xffffffff)]]"

definition FLASHCTL_CMDDATA14_Bits :: fields where
  "FLASHCTL_CMDDATA14_Bits =
    [Field ''VAL'' 0 0xffffffff [(''MINIMUM'', 0), (''MAXIMUM'', 0xffffffff)]]"

definition FLASHCTL_CMDDATA15_Bits :: fields where
  "FLASHCTL_CMDDATA15_Bits =
    [Field ''VAL'' 0 0xffffffff [(''MINIMUM'', 0), (''MAXIMUM'', 0xffffffff)]]"

definition FLASHCTL_CMDDATA16_Bits :: fields where
  "FLASHCTL_CMDDATA16_Bits =
    [Field ''VAL'' 0 0xffffffff [(''MINIMUM'', 0), (''MAXIMUM'', 0xffffffff)]]"

definition FLASHCTL_CMDDATA17_Bits :: fields where
  "FLASHCTL_CMDDATA17_Bits =
    [Field ''VAL'' 0 0xffffffff [(''MINIMUM'', 0), (''MAXIMUM'', 0xffffffff)]]"

definition FLASHCTL_CMDDATA18_Bits :: fields where
  "FLASHCTL_CMDDATA18_Bits =
    [Field ''VAL'' 0 0xffffffff [(''MINIMUM'', 0), (''MAXIMUM'', 0xffffffff)]]"

definition FLASHCTL_CMDDATA19_Bits :: fields where
  "FLASHCTL_CMDDATA19_Bits =
    [Field ''VAL'' 0 0xffffffff [(''MINIMUM'', 0), (''MAXIMUM'', 0xffffffff)]]"

definition FLASHCTL_CMDDATA20_Bits :: fields where
  "FLASHCTL_CMDDATA20_Bits =
    [Field ''VAL'' 0 0xffffffff [(''MINIMUM'', 0), (''MAXIMUM'', 0xffffffff)]]"

definition FLASHCTL_CMDDATA21_Bits :: fields where
  "FLASHCTL_CMDDATA21_Bits =
    [Field ''VAL'' 0 0xffffffff [(''MINIMUM'', 0), (''MAXIMUM'', 0xffffffff)]]"

definition FLASHCTL_CMDDATA22_Bits :: fields where
  "FLASHCTL_CMDDATA22_Bits =
    [Field ''VAL'' 0 0xffffffff [(''MINIMUM'', 0), (''MAXIMUM'', 0xffffffff)]]"

definition FLASHCTL_CMDDATA23_Bits :: fields where
  "FLASHCTL_CMDDATA23_Bits =
    [Field ''VAL'' 0 0xffffffff [(''MINIMUM'', 0), (''MAXIMUM'', 0xffffffff)]]"

definition FLASHCTL_CMDDATA24_Bits :: fields where
  "FLASHCTL_CMDDATA24_Bits =
    [Field ''VAL'' 0 0xffffffff [(''MINIMUM'', 0), (''MAXIMUM'', 0xffffffff)]]"

definition FLASHCTL_CMDDATA25_Bits :: fields where
  "FLASHCTL_CMDDATA25_Bits =
    [Field ''VAL'' 0 0xffffffff [(''MINIMUM'', 0), (''MAXIMUM'', 0xffffffff)]]"

definition FLASHCTL_CMDDATA26_Bits :: fields where
  "FLASHCTL_CMDDATA26_Bits =
    [Field ''VAL'' 0 0xffffffff [(''MINIMUM'', 0), (''MAXIMUM'', 0xffffffff)]]"

definition FLASHCTL_CMDDATA27_Bits :: fields where
  "FLASHCTL_CMDDATA27_Bits =
    [Field ''VAL'' 0 0xffffffff [(''MINIMUM'', 0), (''MAXIMUM'', 0xffffffff)]]"

definition FLASHCTL_CMDDATA28_Bits :: fields where
  "FLASHCTL_CMDDATA28_Bits =
    [Field ''VAL'' 0 0xffffffff [(''MINIMUM'', 0), (''MAXIMUM'', 0xffffffff)]]"

definition FLASHCTL_CMDDATA29_Bits :: fields where
  "FLASHCTL_CMDDATA29_Bits =
    [Field ''VAL'' 0 0xffffffff [(''MINIMUM'', 0), (''MAXIMUM'', 0xffffffff)]]"

definition FLASHCTL_CMDDATA30_Bits :: fields where
  "FLASHCTL_CMDDATA30_Bits =
    [Field ''VAL'' 0 0xffffffff [(''MINIMUM'', 0), (''MAXIMUM'', 0xffffffff)]]"

definition FLASHCTL_CMDDATA31_Bits :: fields where
  "FLASHCTL_CMDDATA31_Bits =
    [Field ''VAL'' 0 0xffffffff [(''MINIMUM'', 0), (''MAXIMUM'', 0xffffffff)]]"

definition FLASHCTL_CMDDATAECC0_Bits :: fields where
  "FLASHCTL_CMDDATAECC0_Bits =
    [Field ''VAL0'' 0 0xff [(''MINIMUM'', 0), (''MAXIMUM'', 0xff)],
     Field ''VAL1'' 8 0xff00 [(''MINIMUM'', 0), (''MAXIMUM'', 0xff00)]]"

definition FLASHCTL_CMDDATAECC1_Bits :: fields where
  "FLASHCTL_CMDDATAECC1_Bits =
    [Field ''VAL0'' 0 0xff [(''MINIMUM'', 0), (''MAXIMUM'', 0xff)],
     Field ''VAL1'' 8 0xff00 [(''MINIMUM'', 0), (''MAXIMUM'', 0xff00)]]"

definition FLASHCTL_CMDDATAECC2_Bits :: fields where
  "FLASHCTL_CMDDATAECC2_Bits =
    [Field ''VAL0'' 0 0xff [(''MINIMUM'', 0), (''MAXIMUM'', 0xff)],
     Field ''VAL1'' 8 0xff00 [(''MINIMUM'', 0), (''MAXIMUM'', 0xff00)]]"

definition FLASHCTL_CMDDATAECC3_Bits :: fields where
  "FLASHCTL_CMDDATAECC3_Bits =
    [Field ''VAL0'' 0 0xff [(''MINIMUM'', 0), (''MAXIMUM'', 0xff)],
     Field ''VAL1'' 8 0xff00 [(''MINIMUM'', 0), (''MAXIMUM'', 0xff00)]]"

definition FLASHCTL_CMDDATAECC4_Bits :: fields where
  "FLASHCTL_CMDDATAECC4_Bits =
    [Field ''VAL0'' 0 0xff [(''MINIMUM'', 0), (''MAXIMUM'', 0xff)],
     Field ''VAL1'' 8 0xff00 [(''MINIMUM'', 0), (''MAXIMUM'', 0xff00)]]"

definition FLASHCTL_CMDDATAECC5_Bits :: fields where
  "FLASHCTL_CMDDATAECC5_Bits =
    [Field ''VAL0'' 0 0xff [(''MINIMUM'', 0), (''MAXIMUM'', 0xff)],
     Field ''VAL1'' 8 0xff00 [(''MINIMUM'', 0), (''MAXIMUM'', 0xff00)]]"

definition FLASHCTL_CMDDATAECC6_Bits :: fields where
  "FLASHCTL_CMDDATAECC6_Bits =
    [Field ''VAL0'' 0 0xff [(''MINIMUM'', 0), (''MAXIMUM'', 0xff)],
     Field ''VAL1'' 8 0xff00 [(''MINIMUM'', 0), (''MAXIMUM'', 0xff00)]]"

definition FLASHCTL_CMDDATAECC7_Bits :: fields where
  "FLASHCTL_CMDDATAECC7_Bits =
    [Field ''VAL0'' 0 0xff [(''MINIMUM'', 0), (''MAXIMUM'', 0xff)],
     Field ''VAL1'' 8 0xff00 [(''MINIMUM'', 0), (''MAXIMUM'', 0xff00)]]"

definition FLASHCTL_CMDWEPROTA_Bits :: fields where
  "FLASHCTL_CMDWEPROTA_Bits =
    [Field ''VAL'' 0 0xffffffff [(''MINIMUM'', 0), (''MAXIMUM'', 0xffffffff)]]"

definition FLASHCTL_CMDWEPROTB_Bits :: fields where
  "FLASHCTL_CMDWEPROTB_Bits =
    [Field ''VAL'' 0 0xffffffff [(''MINIMUM'', 0), (''MAXIMUM'', 0xffffffff)]]"

definition FLASHCTL_CMDWEPROTC_Bits :: fields where
  "FLASHCTL_CMDWEPROTC_Bits =
    [Field ''VAL'' 0 0xffffffff [(''MINIMUM'', 0), (''MAXIMUM'', 0xffffffff)]]"

definition FLASHCTL_CMDWEPROTNM_Bits :: fields where
  "FLASHCTL_CMDWEPROTNM_Bits =
    [Field ''VAL'' 0 0xffffffff [(''MINIMUM'', 0), (''MAXIMUM'', 0xffffffff)]]"

definition FLASHCTL_CMDWEPROTTR_Bits :: fields where
  "FLASHCTL_CMDWEPROTTR_Bits =
    [Field ''VAL'' 0 0xffffffff [(''MINIMUM'', 0), (''MAXIMUM'', 0xffffffff)]]"

definition FLASHCTL_CMDWEPROTEN_Bits :: fields where
  "FLASHCTL_CMDWEPROTEN_Bits =
    [Field ''VAL'' 0 0xffffffff [(''MINIMUM'', 0), (''MAXIMUM'', 0xffffffff)]]"

definition FLASHCTL_CFGCMD_Bits :: fields where
  "FLASHCTL_CFGCMD_Bits =
    [Field ''WAITSTATE'' 0 0xf [(''MINIMUM'', 0), (''MAXIMUM'', 0xf)]]"

definition FLASHCTL_CFGPCNT_Bits :: fields where
  "FLASHCTL_CFGPCNT_Bits =
    [Field ''MAXPCNTOVR'' 0 0x1 [(''DEFAULT'', 0), (''OVERRIDE'', 1)],
     Field ''MAXPCNTVAL'' 4 0xff0 [(''MINIMUM'', 0), (''MAXIMUM'', 0xff0)]]"

definition FLASHCTL_STATCMD_Bits :: fields where
  "FLASHCTL_STATCMD_Bits =
    [Field ''CMDDONE'' 0 0x1 [(''STATNOTDONE'', 0), (''STATDONE'', 1)],
     Field ''CMDPASS'' 1 0x2 [(''STATFAIL'', 0), (''STATPASS'', 2)],
     Field ''CMDINPROGRESS'' 2 0x4 [(''STATCOMPLETE'', 0), (''STATINPROGRESS'', 4)],
     Field ''FAILWEPROT'' 4 0x10 [(''STATNOFAIL'', 0), (''STATFAIL'', 0x10)],
     Field ''FAILVERIFY'' 5 0x20 [(''STATNOFAIL'', 0), (''STATFAIL'', 0x20)],
     Field ''FAILMISC'' 12 0x1000 [(''STATNOFAIL'', 0), (''STATFAIL'', 0x1000)],
     Field ''FAILILLADDR'' 6 0x40 [(''STATNOFAIL'', 0), (''STATFAIL'', 0x40)],
     Field ''FAILMODE'' 7 0x80 [(''STATNOFAIL'', 0), (''STATFAIL'', 0x80)],
     Field ''FAILINVDATA'' 8 0x100 [(''STATNOFAIL'', 0), (''STATFAIL'', 0x100)]]"

definition FLASHCTL_STATADDR_Bits :: fields where
  "FLASHCTL_STATADDR_Bits =
    [Field ''BANKADDR'' 0 0xffff [(''MINIMUM'', 0), (''MAXIMUM'', 0xffff)],
     Field ''BANKID'' 21 0x3e00000 [
       (''BANK0'', 0x200000), (''BANK1'', 0x400000), (''BANK2'', 0x800000), (''BANK3'', 0x1000000),
       (''BANK4'', 0x2000000)],
     Field ''REGIONID'' 16 0x1f0000 [
       (''MAIN'', 0x10000), (''NONMAIN'', 0x20000), (''TRIM'', 0x40000), (''ENGR'', 0x80000)]]"

definition FLASHCTL_STATPCNT_Bits :: fields where
  "FLASHCTL_STATPCNT_Bits =
    [Field ''PULSECNT'' 0 0xfff [(''MINIMUM'', 0), (''MAXIMUM'', 0xfff)]]"

definition FLASHCTL_STATMODE_Bits :: fields where
  "FLASHCTL_STATMODE_Bits =
    [Field ''BANKNOTINRD'' 0 0x1f [(''BANK0'', 1), (''BANK1'', 2), (''BANK2'', 4), (''BANK3'', 8), (''BANK4'', 0x10)],
     Field ''BANKMODE'' 8 0xf00 [
       (''READ'', 0), (''RDMARG0'', 0x200), (''RDMARG1'', 0x400), (''RDMARG0B'', 0x600), (''RDMARG1B'', 0x700),
       (''PGMVER'', 0x900), (''PGMSW'', 0xa00), (''ERASEVER'', 0xb00), (''ERASESECT'', 0xc00), (''PGMMW'', 0xe00),
       (''ERASEBNK'', 0xf00)],
     Field ''BANK2TRDY'' 16 0x10000 [(''FALSE'', 0), (''TRUE'', 0x10000)],
     Field ''BANK1TRDY'' 17 0x20000 [(''FALSE'', 0), (''TRUE'', 0x20000)]]"

definition FLASHCTL_GBLINFO0_Bits :: fields where
  "FLASHCTL_GBLINFO0_Bits =
    [Field ''SECTORSIZE'' 0 0xffff [(''ONEKB'', 0x400), (''TWOKB'', 0x800)],
     Field ''NUMBANKS'' 16 0x70000 [(''MINIMUM'', 0x10000), (''MAXIMUM'', 0x50000)]]"

definition FLASHCTL_GBLINFO1_Bits :: fields where
  "FLASHCTL_GBLINFO1_Bits =
    [Field ''DATAWIDTH'' 0 0xff [(''W64BIT'', 0x40), (''W128BIT'', 0x80)],
     Field ''ECCWIDTH'' 8 0x1f00 [(''W0BIT'', 0), (''W8BIT'', 0x800), (''W16BIT'', 0x1000)],
     Field ''REDWIDTH'' 16 0x70000 [(''W0BIT'', 0), (''W2BIT'', 0x20000), (''W4BIT'', 0x40000)]]"

definition FLASHCTL_GBLINFO2_Bits :: fields where
  "FLASHCTL_GBLINFO2_Bits =
    [Field ''DATAREGISTERS'' 0 0xf [(''MINIMUM'', 1), (''MAXIMUM'', 8)]]"

definition FLASHCTL_BANK0INFO0_Bits :: fields where
  "FLASHCTL_BANK0INFO0_Bits =
    [Field ''MAINSIZE'' 0 0xfff [(''MINSECTORS'', 8), (''MAXSECTORS'', 0x200)]]"

definition FLASHCTL_BANK0INFO1_Bits :: fields where
  "FLASHCTL_BANK0INFO1_Bits =
    [Field ''NONMAINSIZE'' 0 0xff [(''MINSECTORS'', 0), (''MAXSECTORS'', 0x20)],
     Field ''TRIMSIZE'' 8 0xff00 [(''MINSECTORS'', 0), (''MAXSECTORS'', 0x2000)],
     Field ''ENGRSIZE'' 16 0xff0000 [(''MINSECTORS'', 0), (''MAXSECTORS'', 0x200000)]]"

definition FLASHCTL_BANK1INFO0_Bits :: fields where
  "FLASHCTL_BANK1INFO0_Bits =
    [Field ''MAINSIZE'' 0 0xfff [(''MINSECTORS'', 8), (''MAXSECTORS'', 0x200)]]"

definition FLASHCTL_BANK1INFO1_Bits :: fields where
  "FLASHCTL_BANK1INFO1_Bits =
    [Field ''NONMAINSIZE'' 0 0xff [(''MINSECTORS'', 0), (''MAXSECTORS'', 0x20)],
     Field ''TRIMSIZE'' 8 0xff00 [(''MINSECTORS'', 0), (''MAXSECTORS'', 0x2000)],
     Field ''ENGRSIZE'' 16 0xff0000 [(''MINSECTORS'', 0), (''MAXSECTORS'', 0x200000)]]"

definition FLASHCTL_BANK2INFO0_Bits :: fields where
  "FLASHCTL_BANK2INFO0_Bits =
    [Field ''MAINSIZE'' 0 0xfff [(''MINSECTORS'', 8), (''MAXSECTORS'', 0x200)]]"

definition FLASHCTL_BANK2INFO1_Bits :: fields where
  "FLASHCTL_BANK2INFO1_Bits =
    [Field ''NONMAINSIZE'' 0 0xff [(''MINSECTORS'', 0), (''MAXSECTORS'', 0x20)],
     Field ''TRIMSIZE'' 8 0xff00 [(''MINSECTORS'', 0), (''MAXSECTORS'', 0x2000)],
     Field ''ENGRSIZE'' 16 0xff0000 [(''MINSECTORS'', 0), (''MAXSECTORS'', 0x200000)]]"

definition FLASHCTL_BANK3INFO0_Bits :: fields where
  "FLASHCTL_BANK3INFO0_Bits =
    [Field ''MAINSIZE'' 0 0xfff [(''MINSECTORS'', 8), (''MAXSECTORS'', 0x200)]]"

definition FLASHCTL_BANK3INFO1_Bits :: fields where
  "FLASHCTL_BANK3INFO1_Bits =
    [Field ''NONMAINSIZE'' 0 0xff [(''MINSECTORS'', 0), (''MAXSECTORS'', 0x20)],
     Field ''TRIMSIZE'' 8 0xff00 [(''MINSECTORS'', 0), (''MAXSECTORS'', 0x2000)],
     Field ''ENGRSIZE'' 16 0xff0000 [(''MINSECTORS'', 0), (''MAXSECTORS'', 0x200000)]]"

definition FLASHCTL_BANK4INFO0_Bits :: fields where
  "FLASHCTL_BANK4INFO0_Bits =
    [Field ''MAINSIZE'' 0 0xfff [(''MINSECTORS'', 8), (''MAXSECTORS'', 0x200)]]"

definition FLASHCTL_BANK4INFO1_Bits :: fields where
  "FLASHCTL_BANK4INFO1_Bits =
    [Field ''NONMAINSIZE'' 0 0xff [(''MINSECTORS'', 0), (''MAXSECTORS'', 0x20)],
     Field ''TRIMSIZE'' 8 0xff00 [(''MINSECTORS'', 0), (''MAXSECTORS'', 0x2000)],
     Field ''ENGRSIZE'' 16 0xff0000 [(''MINSECTORS'', 0), (''MAXSECTORS'', 0x200000)]]"

definition FLASHCTL_bits :: field_table where
  "FLASHCTL_bits =
    [([''GEN'', ''IIDX''], FLASHCTL_IIDX_Bits), ([''GEN'', ''IMASK''], FLASHCTL_IMASK_Bits),
     ([''GEN'', ''RIS''], FLASHCTL_RIS_Bits), ([''GEN'', ''MIS''], FLASHCTL_MIS_Bits),
     ([''GEN'', ''ISET''], FLASHCTL_ISET_Bits), ([''GEN'', ''ICLR''], FLASHCTL_ICLR_Bits),
     ([''GEN'', ''EVT_MODE''], FLASHCTL_EVT_MODE_Bits), ([''GEN'', ''DESC''], FLASHCTL_DESC_Bits),
     ([''GEN'', ''CMDEXEC''], FLASHCTL_CMDEXEC_Bits), ([''GEN'', ''CMDTYPE''], FLASHCTL_CMDTYPE_Bits),
     ([''GEN'', ''CMDCTL''], FLASHCTL_CMDCTL_Bits), ([''GEN'', ''CMDADDR''], FLASHCTL_CMDADDR_Bits),
     ([''GEN'', ''CMDBYTEN''], FLASHCTL_CMDBYTEN_Bits), ([''GEN'', ''CMDDATAINDEX''], FLASHCTL_CMDDATAINDEX_Bits),
     ([''GEN'', ''CMDDATA0''], FLASHCTL_CMDDATA0_Bits), ([''GEN'', ''CMDDATA1''], FLASHCTL_CMDDATA1_Bits),
     ([''GEN'', ''CMDDATA2''], FLASHCTL_CMDDATA2_Bits), ([''GEN'', ''CMDDATA3''], FLASHCTL_CMDDATA3_Bits),
     ([''GEN'', ''CMDDATA4''], FLASHCTL_CMDDATA4_Bits), ([''GEN'', ''CMDDATA5''], FLASHCTL_CMDDATA5_Bits),
     ([''GEN'', ''CMDDATA6''], FLASHCTL_CMDDATA6_Bits), ([''GEN'', ''CMDDATA7''], FLASHCTL_CMDDATA7_Bits),
     ([''GEN'', ''CMDDATA8''], FLASHCTL_CMDDATA8_Bits), ([''GEN'', ''CMDDATA9''], FLASHCTL_CMDDATA9_Bits),
     ([''GEN'', ''CMDDATA10''], FLASHCTL_CMDDATA10_Bits), ([''GEN'', ''CMDDATA11''], FLASHCTL_CMDDATA11_Bits),
     ([''GEN'', ''CMDDATA12''], FLASHCTL_CMDDATA12_Bits), ([''GEN'', ''CMDDATA13''], FLASHCTL_CMDDATA13_Bits),
     ([''GEN'', ''CMDDATA14''], FLASHCTL_CMDDATA14_Bits), ([''GEN'', ''CMDDATA15''], FLASHCTL_CMDDATA15_Bits),
     ([''GEN'', ''CMDDATA16''], FLASHCTL_CMDDATA16_Bits), ([''GEN'', ''CMDDATA17''], FLASHCTL_CMDDATA17_Bits),
     ([''GEN'', ''CMDDATA18''], FLASHCTL_CMDDATA18_Bits), ([''GEN'', ''CMDDATA19''], FLASHCTL_CMDDATA19_Bits),
     ([''GEN'', ''CMDDATA20''], FLASHCTL_CMDDATA20_Bits), ([''GEN'', ''CMDDATA21''], FLASHCTL_CMDDATA21_Bits),
     ([''GEN'', ''CMDDATA22''], FLASHCTL_CMDDATA22_Bits), ([''GEN'', ''CMDDATA23''], FLASHCTL_CMDDATA23_Bits),
     ([''GEN'', ''CMDDATA24''], FLASHCTL_CMDDATA24_Bits), ([''GEN'', ''CMDDATA25''], FLASHCTL_CMDDATA25_Bits),
     ([''GEN'', ''CMDDATA26''], FLASHCTL_CMDDATA26_Bits), ([''GEN'', ''CMDDATA27''], FLASHCTL_CMDDATA27_Bits),
     ([''GEN'', ''CMDDATA28''], FLASHCTL_CMDDATA28_Bits), ([''GEN'', ''CMDDATA29''], FLASHCTL_CMDDATA29_Bits),
     ([''GEN'', ''CMDDATA30''], FLASHCTL_CMDDATA30_Bits), ([''GEN'', ''CMDDATA31''], FLASHCTL_CMDDATA31_Bits),
     ([''GEN'', ''CMDDATAECC0''], FLASHCTL_CMDDATAECC0_Bits), ([''GEN'', ''CMDDATAECC1''], FLASHCTL_CMDDATAECC1_Bits),
     ([''GEN'', ''CMDDATAECC2''], FLASHCTL_CMDDATAECC2_Bits), ([''GEN'', ''CMDDATAECC3''], FLASHCTL_CMDDATAECC3_Bits),
     ([''GEN'', ''CMDDATAECC4''], FLASHCTL_CMDDATAECC4_Bits), ([''GEN'', ''CMDDATAECC5''], FLASHCTL_CMDDATAECC5_Bits),
     ([''GEN'', ''CMDDATAECC6''], FLASHCTL_CMDDATAECC6_Bits), ([''GEN'', ''CMDDATAECC7''], FLASHCTL_CMDDATAECC7_Bits),
     ([''GEN'', ''CMDWEPROTA''], FLASHCTL_CMDWEPROTA_Bits), ([''GEN'', ''CMDWEPROTB''], FLASHCTL_CMDWEPROTB_Bits),
     ([''GEN'', ''CMDWEPROTC''], FLASHCTL_CMDWEPROTC_Bits), ([''GEN'', ''CMDWEPROTNM''], FLASHCTL_CMDWEPROTNM_Bits),
     ([''GEN'', ''CMDWEPROTTR''], FLASHCTL_CMDWEPROTTR_Bits), ([''GEN'', ''CMDWEPROTEN''], FLASHCTL_CMDWEPROTEN_Bits),
     ([''GEN'', ''CFGCMD''], FLASHCTL_CFGCMD_Bits), ([''GEN'', ''CFGPCNT''], FLASHCTL_CFGPCNT_Bits),
     ([''GEN'', ''STATCMD''], FLASHCTL_STATCMD_Bits), ([''GEN'', ''STATADDR''], FLASHCTL_STATADDR_Bits),
     ([''GEN'', ''STATPCNT''], FLASHCTL_STATPCNT_Bits), ([''GEN'', ''STATMODE''], FLASHCTL_STATMODE_Bits),
     ([''GEN'', ''GBLINFO0''], FLASHCTL_GBLINFO0_Bits), ([''GEN'', ''GBLINFO1''], FLASHCTL_GBLINFO1_Bits),
     ([''GEN'', ''GBLINFO2''], FLASHCTL_GBLINFO2_Bits), ([''GEN'', ''BANK0INFO0''], FLASHCTL_BANK0INFO0_Bits),
     ([''GEN'', ''BANK0INFO1''], FLASHCTL_BANK0INFO1_Bits), ([''GEN'', ''BANK1INFO0''], FLASHCTL_BANK1INFO0_Bits),
     ([''GEN'', ''BANK1INFO1''], FLASHCTL_BANK1INFO1_Bits), ([''GEN'', ''BANK2INFO0''], FLASHCTL_BANK2INFO0_Bits),
     ([''GEN'', ''BANK2INFO1''], FLASHCTL_BANK2INFO1_Bits), ([''GEN'', ''BANK3INFO0''], FLASHCTL_BANK3INFO0_Bits),
     ([''GEN'', ''BANK3INFO1''], FLASHCTL_BANK3INFO1_Bits), ([''GEN'', ''BANK4INFO0''], FLASHCTL_BANK4INFO0_Bits),
     ([''GEN'', ''BANK4INFO1''], FLASHCTL_BANK4INFO1_Bits)]"

lemmas FLASHCTL_Bits_defs = FLASHCTL_IIDX_Bits_def FLASHCTL_IMASK_Bits_def FLASHCTL_RIS_Bits_def FLASHCTL_MIS_Bits_def
  FLASHCTL_ISET_Bits_def FLASHCTL_ICLR_Bits_def FLASHCTL_EVT_MODE_Bits_def FLASHCTL_DESC_Bits_def
  FLASHCTL_CMDEXEC_Bits_def FLASHCTL_CMDTYPE_Bits_def FLASHCTL_CMDCTL_Bits_def FLASHCTL_CMDADDR_Bits_def
  FLASHCTL_CMDBYTEN_Bits_def FLASHCTL_CMDDATAINDEX_Bits_def FLASHCTL_CMDDATA0_Bits_def FLASHCTL_CMDDATA1_Bits_def
  FLASHCTL_CMDDATA2_Bits_def FLASHCTL_CMDDATA3_Bits_def FLASHCTL_CMDDATA4_Bits_def FLASHCTL_CMDDATA5_Bits_def
  FLASHCTL_CMDDATA6_Bits_def FLASHCTL_CMDDATA7_Bits_def FLASHCTL_CMDDATA8_Bits_def FLASHCTL_CMDDATA9_Bits_def
  FLASHCTL_CMDDATA10_Bits_def FLASHCTL_CMDDATA11_Bits_def FLASHCTL_CMDDATA12_Bits_def FLASHCTL_CMDDATA13_Bits_def
  FLASHCTL_CMDDATA14_Bits_def FLASHCTL_CMDDATA15_Bits_def FLASHCTL_CMDDATA16_Bits_def FLASHCTL_CMDDATA17_Bits_def
  FLASHCTL_CMDDATA18_Bits_def FLASHCTL_CMDDATA19_Bits_def FLASHCTL_CMDDATA20_Bits_def FLASHCTL_CMDDATA21_Bits_def
  FLASHCTL_CMDDATA22_Bits_def FLASHCTL_CMDDATA23_Bits_def FLASHCTL_CMDDATA24_Bits_def FLASHCTL_CMDDATA25_Bits_def
  FLASHCTL_CMDDATA26_Bits_def FLASHCTL_CMDDATA27_Bits_def FLASHCTL_CMDDATA28_Bits_def FLASHCTL_CMDDATA29_Bits_def
  FLASHCTL_CMDDATA30_Bits_def FLASHCTL_CMDDATA31_Bits_def FLASHCTL_CMDDATAECC0_Bits_def FLASHCTL_CMDDATAECC1_Bits_def
  FLASHCTL_CMDDATAECC2_Bits_def FLASHCTL_CMDDATAECC3_Bits_def FLASHCTL_CMDDATAECC4_Bits_def
  FLASHCTL_CMDDATAECC5_Bits_def FLASHCTL_CMDDATAECC6_Bits_def FLASHCTL_CMDDATAECC7_Bits_def
  FLASHCTL_CMDWEPROTA_Bits_def FLASHCTL_CMDWEPROTB_Bits_def FLASHCTL_CMDWEPROTC_Bits_def FLASHCTL_CMDWEPROTNM_Bits_def
  FLASHCTL_CMDWEPROTTR_Bits_def FLASHCTL_CMDWEPROTEN_Bits_def FLASHCTL_CFGCMD_Bits_def FLASHCTL_CFGPCNT_Bits_def
  FLASHCTL_STATCMD_Bits_def FLASHCTL_STATADDR_Bits_def FLASHCTL_STATPCNT_Bits_def FLASHCTL_STATMODE_Bits_def
  FLASHCTL_GBLINFO0_Bits_def FLASHCTL_GBLINFO1_Bits_def FLASHCTL_GBLINFO2_Bits_def FLASHCTL_BANK0INFO0_Bits_def
  FLASHCTL_BANK0INFO1_Bits_def FLASHCTL_BANK1INFO0_Bits_def FLASHCTL_BANK1INFO1_Bits_def FLASHCTL_BANK2INFO0_Bits_def
  FLASHCTL_BANK2INFO1_Bits_def FLASHCTL_BANK3INFO0_Bits_def FLASHCTL_BANK3INFO1_Bits_def FLASHCTL_BANK4INFO0_Bits_def
  FLASHCTL_BANK4INFO1_Bits_def

lemma FLASHCTL_bits_describes: "describes FLASHCTL_bits FLASHCTL_Regs"
  by (simp add: describes_def FLASHCTL_bits_def layout_defs, (intro conjI; simp add: FLASHCTL_Bits_defs))

lemma FLASHCTL_bits_strays: "strays FLASHCTL_bits = []"
  by (rule no_strays) (simp add: FLASHCTL_bits_def, (intro conjI; simp add: FLASHCTL_Bits_defs))

end
