(* ===== verification/GPIO_Fields.thy ===== *)
theory GPIO_Fields
  imports Device_Fields
begin

text \<open>
  The bit fields of \<open>hw_gpio.h\<close>: the offset, the mask and the named values of every field, register by
  register.
\<close>

section \<open>\<open>hw_gpio.h\<close>\<close>

definition GPIO_GEN_EVENT1_IIDX_Bits :: fields where
  "GPIO_GEN_EVENT1_IIDX_Bits =
    [Field ''STAT'' 0 0xff [
       (''NO_INTR'', 0), (''DIO16'', 1), (''DIO17'', 2), (''DIO18'', 3), (''DIO19'', 4), (''DIO20'', 5), (''DIO21'', 6),
       (''DIO22'', 7), (''DIO23'', 8), (''DIO24'', 9), (''DIO25'', 0xa), (''DIO26'', 0xb), (''DIO27'', 0xc),
       (''DIO28'', 0xd), (''DIO29'', 0xe), (''DIO30'', 0xf), (''DIO31'', 0x10)]]"

definition GPIO_GEN_EVENT1_IMASK_Bits :: fields where
  "GPIO_GEN_EVENT1_IMASK_Bits =
    [Field ''DIO16'' 16 0x10000 [(''CLR'', 0), (''SET'', 0x10000)],
     Field ''DIO17'' 17 0x20000 [(''CLR'', 0), (''SET'', 0x20000)],
     Field ''DIO18'' 18 0x40000 [(''CLR'', 0), (''SET'', 0x40000)],
     Field ''DIO19'' 19 0x80000 [(''CLR'', 0), (''SET'', 0x80000)],
     Field ''DIO20'' 20 0x100000 [(''CLR'', 0), (''SET'', 0x100000)],
     Field ''DIO21'' 21 0x200000 [(''CLR'', 0), (''SET'', 0x200000)],
     Field ''DIO22'' 22 0x400000 [(''CLR'', 0), (''SET'', 0x400000)],
     Field ''DIO23'' 23 0x800000 [(''CLR'', 0), (''SET'', 0x800000)],
     Field ''DIO24'' 24 0x1000000 [(''CLR'', 0), (''SET'', 0x1000000)],
     Field ''DIO25'' 25 0x2000000 [(''CLR'', 0), (''SET'', 0x2000000)],
     Field ''DIO26'' 26 0x4000000 [(''CLR'', 0), (''SET'', 0x4000000)],
     Field ''DIO27'' 27 0x8000000 [(''CLR'', 0), (''SET'', 0x8000000)],
     Field ''DIO28'' 28 0x10000000 [(''CLR'', 0), (''SET'', 0x10000000)],
     Field ''DIO29'' 29 0x20000000 [(''CLR'', 0), (''SET'', 0x20000000)],
     Field ''DIO30'' 30 0x40000000 [(''CLR'', 0), (''SET'', 0x40000000)],
     Field ''DIO31'' 31 0x80000000 [(''CLR'', 0), (''SET'', 0x80000000)]]"

definition GPIO_GEN_EVENT1_RIS_Bits :: fields where
  "GPIO_GEN_EVENT1_RIS_Bits =
    [Field ''DIO16'' 16 0x10000 [(''CLR'', 0), (''SET'', 0x10000)],
     Field ''DIO17'' 17 0x20000 [(''CLR'', 0), (''SET'', 0x20000)],
     Field ''DIO18'' 18 0x40000 [(''CLR'', 0), (''SET'', 0x40000)],
     Field ''DIO19'' 19 0x80000 [(''CLR'', 0), (''SET'', 0x80000)],
     Field ''DIO20'' 20 0x100000 [(''CLR'', 0), (''SET'', 0x100000)],
     Field ''DIO21'' 21 0x200000 [(''CLR'', 0), (''SET'', 0x200000)],
     Field ''DIO22'' 22 0x400000 [(''CLR'', 0), (''SET'', 0x400000)],
     Field ''DIO23'' 23 0x800000 [(''CLR'', 0), (''SET'', 0x800000)],
     Field ''DIO24'' 24 0x1000000 [(''CLR'', 0), (''SET'', 0x1000000)],
     Field ''DIO25'' 25 0x2000000 [(''CLR'', 0), (''SET'', 0x2000000)],
     Field ''DIO26'' 26 0x4000000 [(''CLR'', 0), (''SET'', 0x4000000)],
     Field ''DIO27'' 27 0x8000000 [(''CLR'', 0), (''SET'', 0x8000000)],
     Field ''DIO28'' 28 0x10000000 [(''CLR'', 0), (''SET'', 0x10000000)],
     Field ''DIO29'' 29 0x20000000 [(''CLR'', 0), (''SET'', 0x20000000)],
     Field ''DIO30'' 30 0x40000000 [(''CLR'', 0), (''SET'', 0x40000000)],
     Field ''DIO31'' 31 0x80000000 [(''CLR'', 0), (''SET'', 0x80000000)]]"

definition GPIO_GEN_EVENT1_MIS_Bits :: fields where
  "GPIO_GEN_EVENT1_MIS_Bits =
    [Field ''DIO16'' 16 0x10000 [(''CLR'', 0), (''SET'', 0x10000)],
     Field ''DIO17'' 17 0x20000 [(''CLR'', 0), (''SET'', 0x20000)],
     Field ''DIO18'' 18 0x40000 [(''CLR'', 0), (''SET'', 0x40000)],
     Field ''DIO19'' 19 0x80000 [(''CLR'', 0), (''SET'', 0x80000)],
     Field ''DIO20'' 20 0x100000 [(''CLR'', 0), (''SET'', 0x100000)],
     Field ''DIO21'' 21 0x200000 [(''CLR'', 0), (''SET'', 0x200000)],
     Field ''DIO22'' 22 0x400000 [(''CLR'', 0), (''SET'', 0x400000)],
     Field ''DIO23'' 23 0x800000 [(''CLR'', 0), (''SET'', 0x800000)],
     Field ''DIO24'' 24 0x1000000 [(''CLR'', 0), (''SET'', 0x1000000)],
     Field ''DIO25'' 25 0x2000000 [(''CLR'', 0), (''SET'', 0x2000000)],
     Field ''DIO26'' 26 0x4000000 [(''CLR'', 0), (''SET'', 0x4000000)],
     Field ''DIO27'' 27 0x8000000 [(''CLR'', 0), (''SET'', 0x8000000)],
     Field ''DIO28'' 28 0x10000000 [(''CLR'', 0), (''SET'', 0x10000000)],
     Field ''DIO29'' 29 0x20000000 [(''CLR'', 0), (''SET'', 0x20000000)],
     Field ''DIO30'' 30 0x40000000 [(''CLR'', 0), (''SET'', 0x40000000)],
     Field ''DIO31'' 31 0x80000000 [(''CLR'', 0), (''SET'', 0x80000000)]]"

definition GPIO_GEN_EVENT1_ISET_Bits :: fields where
  "GPIO_GEN_EVENT1_ISET_Bits =
    [Field ''DIO16'' 16 0x10000 [(''NO_EFFECT'', 0), (''SET'', 0x10000)],
     Field ''DIO17'' 17 0x20000 [(''NO_EFFECT'', 0), (''SET'', 0x20000)],
     Field ''DIO18'' 18 0x40000 [(''NO_EFFECT'', 0), (''SET'', 0x40000)],
     Field ''DIO19'' 19 0x80000 [(''NO_EFFECT'', 0), (''SET'', 0x80000)],
     Field ''DIO20'' 20 0x100000 [(''NO_EFFECT'', 0), (''SET'', 0x100000)],
     Field ''DIO21'' 21 0x200000 [(''NO_EFFECT'', 0), (''SET'', 0x200000)],
     Field ''DIO22'' 22 0x400000 [(''NO_EFFECT'', 0), (''SET'', 0x400000)],
     Field ''DIO23'' 23 0x800000 [(''NO_EFFECT'', 0), (''SET'', 0x800000)],
     Field ''DIO24'' 24 0x1000000 [(''NO_EFFECT'', 0), (''SET'', 0x1000000)],
     Field ''DIO25'' 25 0x2000000 [(''NO_EFFECT'', 0), (''SET'', 0x2000000)],
     Field ''DIO26'' 26 0x4000000 [(''NO_EFFECT'', 0), (''SET'', 0x4000000)],
     Field ''DIO27'' 27 0x8000000 [(''NO_EFFECT'', 0), (''SET'', 0x8000000)],
     Field ''DIO28'' 28 0x10000000 [(''NO_EFFECT'', 0), (''SET'', 0x10000000)],
     Field ''DIO29'' 29 0x20000000 [(''NO_EFFECT'', 0), (''SET'', 0x20000000)],
     Field ''DIO30'' 30 0x40000000 [(''NO_EFFECT'', 0), (''SET'', 0x40000000)],
     Field ''DIO31'' 31 0x80000000 [(''NO_EFFECT'', 0), (''SET'', 0x80000000)]]"

definition GPIO_GEN_EVENT1_ICLR_Bits :: fields where
  "GPIO_GEN_EVENT1_ICLR_Bits =
    [Field ''DIO16'' 16 0x10000 [(''NO_EFFECT'', 0), (''CLR'', 0x10000)],
     Field ''DIO17'' 17 0x20000 [(''NO_EFFECT'', 0), (''CLR'', 0x20000)],
     Field ''DIO18'' 18 0x40000 [(''NO_EFFECT'', 0), (''CLR'', 0x40000)],
     Field ''DIO19'' 19 0x80000 [(''NO_EFFECT'', 0), (''CLR'', 0x80000)],
     Field ''DIO20'' 20 0x100000 [(''NO_EFFECT'', 0), (''CLR'', 0x100000)],
     Field ''DIO21'' 21 0x200000 [(''NO_EFFECT'', 0), (''CLR'', 0x200000)],
     Field ''DIO22'' 22 0x400000 [(''NO_EFFECT'', 0), (''CLR'', 0x400000)],
     Field ''DIO23'' 23 0x800000 [(''NO_EFFECT'', 0), (''CLR'', 0x800000)],
     Field ''DIO24'' 24 0x1000000 [(''NO_EFFECT'', 0), (''CLR'', 0x1000000)],
     Field ''DIO25'' 25 0x2000000 [(''NO_EFFECT'', 0), (''CLR'', 0x2000000)],
     Field ''DIO26'' 26 0x4000000 [(''NO_EFFECT'', 0), (''CLR'', 0x4000000)],
     Field ''DIO27'' 27 0x8000000 [(''NO_EFFECT'', 0), (''CLR'', 0x8000000)],
     Field ''DIO28'' 28 0x10000000 [(''NO_EFFECT'', 0), (''CLR'', 0x10000000)],
     Field ''DIO29'' 29 0x20000000 [(''NO_EFFECT'', 0), (''CLR'', 0x20000000)],
     Field ''DIO30'' 30 0x40000000 [(''NO_EFFECT'', 0), (''CLR'', 0x40000000)],
     Field ''DIO31'' 31 0x80000000 [(''NO_EFFECT'', 0), (''CLR'', 0x80000000)]]"

definition GPIO_GEN_EVENT0_IIDX_Bits :: fields where
  "GPIO_GEN_EVENT0_IIDX_Bits =
    [Field ''STAT'' 0 0xff [
       (''NO_INTR'', 0), (''DIO0'', 1), (''DIO1'', 2), (''DIO2'', 3), (''DIO3'', 4), (''DIO4'', 5), (''DIO5'', 6),
       (''DIO6'', 7), (''DIO7'', 8), (''DIO8'', 9), (''DIO9'', 0xa), (''DIO10'', 0xb), (''DIO11'', 0xc),
       (''DIO12'', 0xd), (''DIO13'', 0xe), (''DIO14'', 0xf), (''DIO15'', 0x10)]]"

definition GPIO_GEN_EVENT0_IMASK_Bits :: fields where
  "GPIO_GEN_EVENT0_IMASK_Bits =
    [Field ''DIO0'' 0 0x1 [(''CLR'', 0), (''SET'', 1)],
     Field ''DIO1'' 1 0x2 [(''CLR'', 0), (''SET'', 2)],
     Field ''DIO2'' 2 0x4 [(''CLR'', 0), (''SET'', 4)],
     Field ''DIO3'' 3 0x8 [(''CLR'', 0), (''SET'', 8)],
     Field ''DIO4'' 4 0x10 [(''CLR'', 0), (''SET'', 0x10)],
     Field ''DIO5'' 5 0x20 [(''CLR'', 0), (''SET'', 0x20)],
     Field ''DIO6'' 6 0x40 [(''CLR'', 0), (''SET'', 0x40)],
     Field ''DIO7'' 7 0x80 [(''CLR'', 0), (''SET'', 0x80)],
     Field ''DIO8'' 8 0x100 [(''CLR'', 0), (''SET'', 0x100)],
     Field ''DIO9'' 9 0x200 [(''CLR'', 0), (''SET'', 0x200)],
     Field ''DIO10'' 10 0x400 [(''CLR'', 0), (''SET'', 0x400)],
     Field ''DIO11'' 11 0x800 [(''CLR'', 0), (''SET'', 0x800)],
     Field ''DIO12'' 12 0x1000 [(''CLR'', 0), (''SET'', 0x1000)],
     Field ''DIO13'' 13 0x2000 [(''CLR'', 0), (''SET'', 0x2000)],
     Field ''DIO14'' 14 0x4000 [(''CLR'', 0), (''SET'', 0x4000)],
     Field ''DIO15'' 15 0x8000 [(''CLR'', 0), (''SET'', 0x8000)]]"

definition GPIO_GEN_EVENT0_RIS_Bits :: fields where
  "GPIO_GEN_EVENT0_RIS_Bits =
    [Field ''DIO0'' 0 0x1 [(''CLR'', 0), (''SET'', 1)],
     Field ''DIO1'' 1 0x2 [(''CLR'', 0), (''SET'', 2)],
     Field ''DIO2'' 2 0x4 [(''CLR'', 0), (''SET'', 4)],
     Field ''DIO3'' 3 0x8 [(''CLR'', 0), (''SET'', 8)],
     Field ''DIO4'' 4 0x10 [(''CLR'', 0), (''SET'', 0x10)],
     Field ''DIO5'' 5 0x20 [(''CLR'', 0), (''SET'', 0x20)],
     Field ''DIO6'' 6 0x40 [(''CLR'', 0), (''SET'', 0x40)],
     Field ''DIO7'' 7 0x80 [(''CLR'', 0), (''SET'', 0x80)],
     Field ''DIO8'' 8 0x100 [(''CLR'', 0), (''SET'', 0x100)],
     Field ''DIO9'' 9 0x200 [(''CLR'', 0), (''SET'', 0x200)],
     Field ''DIO10'' 10 0x400 [(''CLR'', 0), (''SET'', 0x400)],
     Field ''DIO11'' 11 0x800 [(''CLR'', 0), (''SET'', 0x800)],
     Field ''DIO12'' 12 0x1000 [(''CLR'', 0), (''SET'', 0x1000)],
     Field ''DIO13'' 13 0x2000 [(''CLR'', 0), (''SET'', 0x2000)],
     Field ''DIO14'' 14 0x4000 [(''CLR'', 0), (''SET'', 0x4000)],
     Field ''DIO15'' 15 0x8000 [(''CLR'', 0), (''SET'', 0x8000)]]"

definition GPIO_GEN_EVENT0_MIS_Bits :: fields where
  "GPIO_GEN_EVENT0_MIS_Bits =
    [Field ''DIO0'' 0 0x1 [(''CLR'', 0), (''SET'', 1)],
     Field ''DIO1'' 1 0x2 [(''CLR'', 0), (''SET'', 2)],
     Field ''DIO2'' 2 0x4 [(''CLR'', 0), (''SET'', 4)],
     Field ''DIO3'' 3 0x8 [(''CLR'', 0), (''SET'', 8)],
     Field ''DIO4'' 4 0x10 [(''CLR'', 0), (''SET'', 0x10)],
     Field ''DIO5'' 5 0x20 [(''CLR'', 0), (''SET'', 0x20)],
     Field ''DIO6'' 6 0x40 [(''CLR'', 0), (''SET'', 0x40)],
     Field ''DIO7'' 7 0x80 [(''CLR'', 0), (''SET'', 0x80)],
     Field ''DIO8'' 8 0x100 [(''CLR'', 0), (''SET'', 0x100)],
     Field ''DIO9'' 9 0x200 [(''CLR'', 0), (''SET'', 0x200)],
     Field ''DIO10'' 10 0x400 [(''CLR'', 0), (''SET'', 0x400)],
     Field ''DIO11'' 11 0x800 [(''CLR'', 0), (''SET'', 0x800)],
     Field ''DIO12'' 12 0x1000 [(''CLR'', 0), (''SET'', 0x1000)],
     Field ''DIO13'' 13 0x2000 [(''CLR'', 0), (''SET'', 0x2000)],
     Field ''DIO14'' 14 0x4000 [(''CLR'', 0), (''SET'', 0x4000)],
     Field ''DIO15'' 15 0x8000 [(''CLR'', 0), (''SET'', 0x8000)]]"

definition GPIO_GEN_EVENT0_ISET_Bits :: fields where
  "GPIO_GEN_EVENT0_ISET_Bits =
    [Field ''DIO0'' 0 0x1 [(''NO_EFFECT'', 0), (''SET'', 1)],
     Field ''DIO1'' 1 0x2 [(''NO_EFFECT'', 0), (''SET'', 2)],
     Field ''DIO2'' 2 0x4 [(''NO_EFFECT'', 0), (''SET'', 4)],
     Field ''DIO3'' 3 0x8 [(''NO_EFFECT'', 0), (''SET'', 8)],
     Field ''DIO4'' 4 0x10 [(''NO_EFFECT'', 0), (''SET'', 0x10)],
     Field ''DIO5'' 5 0x20 [(''NO_EFFECT'', 0), (''SET'', 0x20)],
     Field ''DIO6'' 6 0x40 [(''NO_EFFECT'', 0), (''SET'', 0x40)],
     Field ''DIO7'' 7 0x80 [(''NO_EFFECT'', 0), (''SET'', 0x80)],
     Field ''DIO8'' 8 0x100 [(''NO_EFFECT'', 0), (''SET'', 0x100)],
     Field ''DIO9'' 9 0x200 [(''NO_EFFECT'', 0), (''SET'', 0x200)],
     Field ''DIO10'' 10 0x400 [(''NO_EFFECT'', 0), (''SET'', 0x400)],
     Field ''DIO11'' 11 0x800 [(''NO_EFFECT'', 0), (''SET'', 0x800)],
     Field ''DIO12'' 12 0x1000 [(''NO_EFFECT'', 0), (''SET'', 0x1000)],
     Field ''DIO13'' 13 0x2000 [(''NO_EFFECT'', 0), (''SET'', 0x2000)],
     Field ''DIO14'' 14 0x4000 [(''NO_EFFECT'', 0), (''SET'', 0x4000)],
     Field ''DIO15'' 15 0x8000 [(''NO_EFFECT'', 0), (''SET'', 0x8000)]]"

definition GPIO_GEN_EVENT0_ICLR_Bits :: fields where
  "GPIO_GEN_EVENT0_ICLR_Bits =
    [Field ''DIO0'' 0 0x1 [(''NO_EFFECT'', 0), (''CLR'', 1)],
     Field ''DIO1'' 1 0x2 [(''NO_EFFECT'', 0), (''CLR'', 2)],
     Field ''DIO2'' 2 0x4 [(''NO_EFFECT'', 0), (''CLR'', 4)],
     Field ''DIO3'' 3 0x8 [(''NO_EFFECT'', 0), (''CLR'', 8)],
     Field ''DIO4'' 4 0x10 [(''NO_EFFECT'', 0), (''CLR'', 0x10)],
     Field ''DIO5'' 5 0x20 [(''NO_EFFECT'', 0), (''CLR'', 0x20)],
     Field ''DIO6'' 6 0x40 [(''NO_EFFECT'', 0), (''CLR'', 0x40)],
     Field ''DIO7'' 7 0x80 [(''NO_EFFECT'', 0), (''CLR'', 0x80)],
     Field ''DIO8'' 8 0x100 [(''NO_EFFECT'', 0), (''CLR'', 0x100)],
     Field ''DIO9'' 9 0x200 [(''NO_EFFECT'', 0), (''CLR'', 0x200)],
     Field ''DIO10'' 10 0x400 [(''NO_EFFECT'', 0), (''CLR'', 0x400)],
     Field ''DIO11'' 11 0x800 [(''NO_EFFECT'', 0), (''CLR'', 0x800)],
     Field ''DIO12'' 12 0x1000 [(''NO_EFFECT'', 0), (''CLR'', 0x1000)],
     Field ''DIO13'' 13 0x2000 [(''NO_EFFECT'', 0), (''CLR'', 0x2000)],
     Field ''DIO14'' 14 0x4000 [(''NO_EFFECT'', 0), (''CLR'', 0x4000)],
     Field ''DIO15'' 15 0x8000 [(''NO_EFFECT'', 0), (''CLR'', 0x8000)]]"

definition GPIO_CPU_INT_IIDX_Bits :: fields where
  "GPIO_CPU_INT_IIDX_Bits =
    [Field ''STAT'' 0 0xff [
       (''NO_INTR'', 0), (''DIO0'', 1), (''DIO1'', 2), (''DIO2'', 3), (''DIO3'', 4), (''DIO4'', 5), (''DIO5'', 6),
       (''DIO6'', 7), (''DIO7'', 8), (''DIO8'', 9), (''DIO9'', 0xa), (''DIO10'', 0xb), (''DIO11'', 0xc),
       (''DIO12'', 0xd), (''DIO13'', 0xe), (''DIO14'', 0xf), (''DIO15'', 0x10), (''DIO16'', 0x11), (''DIO17'', 0x12),
       (''DIO18'', 0x13), (''DIO19'', 0x14), (''DIO20'', 0x15), (''DIO21'', 0x16), (''DIO22'', 0x17), (''DIO23'', 0x18),
       (''DIO24'', 0x19), (''DIO25'', 0x1a), (''DIO26'', 0x1b), (''DIO27'', 0x1c), (''DIO28'', 0x1d), (''DIO29'', 0x1e),
       (''DIO30'', 0x1f), (''DIO31'', 0x20)]]"

definition GPIO_CPU_INT_IMASK_Bits :: fields where
  "GPIO_CPU_INT_IMASK_Bits =
    [Field ''DIO0'' 0 0x1 [(''CLR'', 0), (''SET'', 1)],
     Field ''DIO1'' 1 0x2 [(''CLR'', 0), (''SET'', 2)],
     Field ''DIO2'' 2 0x4 [(''CLR'', 0), (''SET'', 4)],
     Field ''DIO3'' 3 0x8 [(''CLR'', 0), (''SET'', 8)],
     Field ''DIO4'' 4 0x10 [(''CLR'', 0), (''SET'', 0x10)],
     Field ''DIO5'' 5 0x20 [(''CLR'', 0), (''SET'', 0x20)],
     Field ''DIO6'' 6 0x40 [(''CLR'', 0), (''SET'', 0x40)],
     Field ''DIO7'' 7 0x80 [(''CLR'', 0), (''SET'', 0x80)],
     Field ''DIO8'' 8 0x100 [(''CLR'', 0), (''SET'', 0x100)],
     Field ''DIO9'' 9 0x200 [(''CLR'', 0), (''SET'', 0x200)],
     Field ''DIO10'' 10 0x400 [(''CLR'', 0), (''SET'', 0x400)],
     Field ''DIO11'' 11 0x800 [(''CLR'', 0), (''SET'', 0x800)],
     Field ''DIO12'' 12 0x1000 [(''CLR'', 0), (''SET'', 0x1000)],
     Field ''DIO13'' 13 0x2000 [(''CLR'', 0), (''SET'', 0x2000)],
     Field ''DIO14'' 14 0x4000 [(''CLR'', 0), (''SET'', 0x4000)],
     Field ''DIO15'' 15 0x8000 [(''CLR'', 0), (''SET'', 0x8000)],
     Field ''DIO16'' 16 0x10000 [(''CLR'', 0), (''SET'', 0x10000)],
     Field ''DIO17'' 17 0x20000 [(''CLR'', 0), (''SET'', 0x20000)],
     Field ''DIO18'' 18 0x40000 [(''CLR'', 0), (''SET'', 0x40000)],
     Field ''DIO19'' 19 0x80000 [(''CLR'', 0), (''SET'', 0x80000)],
     Field ''DIO20'' 20 0x100000 [(''CLR'', 0), (''SET'', 0x100000)],
     Field ''DIO21'' 21 0x200000 [(''CLR'', 0), (''SET'', 0x200000)],
     Field ''DIO22'' 22 0x400000 [(''CLR'', 0), (''SET'', 0x400000)],
     Field ''DIO23'' 23 0x800000 [(''CLR'', 0), (''SET'', 0x800000)],
     Field ''DIO24'' 24 0x1000000 [(''CLR'', 0), (''SET'', 0x1000000)],
     Field ''DIO25'' 25 0x2000000 [(''CLR'', 0), (''SET'', 0x2000000)],
     Field ''DIO26'' 26 0x4000000 [(''CLR'', 0), (''SET'', 0x4000000)],
     Field ''DIO27'' 27 0x8000000 [(''CLR'', 0), (''SET'', 0x8000000)],
     Field ''DIO28'' 28 0x10000000 [(''CLR'', 0), (''SET'', 0x10000000)],
     Field ''DIO29'' 29 0x20000000 [(''CLR'', 0), (''SET'', 0x20000000)],
     Field ''DIO30'' 30 0x40000000 [(''CLR'', 0), (''SET'', 0x40000000)],
     Field ''DIO31'' 31 0x80000000 [(''CLR'', 0), (''SET'', 0x80000000)]]"

definition GPIO_CPU_INT_RIS_Bits :: fields where
  "GPIO_CPU_INT_RIS_Bits =
    [Field ''DIO0'' 0 0x1 [(''CLR'', 0), (''SET'', 1)],
     Field ''DIO1'' 1 0x2 [(''CLR'', 0), (''SET'', 2)],
     Field ''DIO2'' 2 0x4 [(''CLR'', 0), (''SET'', 4)],
     Field ''DIO3'' 3 0x8 [(''CLR'', 0), (''SET'', 8)],
     Field ''DIO4'' 4 0x10 [(''CLR'', 0), (''SET'', 0x10)],
     Field ''DIO5'' 5 0x20 [(''CLR'', 0), (''SET'', 0x20)],
     Field ''DIO6'' 6 0x40 [(''CLR'', 0), (''SET'', 0x40)],
     Field ''DIO7'' 7 0x80 [(''CLR'', 0), (''SET'', 0x80)],
     Field ''DIO8'' 8 0x100 [(''CLR'', 0), (''SET'', 0x100)],
     Field ''DIO9'' 9 0x200 [(''CLR'', 0), (''SET'', 0x200)],
     Field ''DIO10'' 10 0x400 [(''CLR'', 0), (''SET'', 0x400)],
     Field ''DIO11'' 11 0x800 [(''CLR'', 0), (''SET'', 0x800)],
     Field ''DIO12'' 12 0x1000 [(''CLR'', 0), (''SET'', 0x1000)],
     Field ''DIO13'' 13 0x2000 [(''CLR'', 0), (''SET'', 0x2000)],
     Field ''DIO14'' 14 0x4000 [(''CLR'', 0), (''SET'', 0x4000)],
     Field ''DIO15'' 15 0x8000 [(''CLR'', 0), (''SET'', 0x8000)],
     Field ''DIO16'' 16 0x10000 [(''CLR'', 0), (''SET'', 0x10000)],
     Field ''DIO17'' 17 0x20000 [(''CLR'', 0), (''SET'', 0x20000)],
     Field ''DIO18'' 18 0x40000 [(''CLR'', 0), (''SET'', 0x40000)],
     Field ''DIO19'' 19 0x80000 [(''CLR'', 0), (''SET'', 0x80000)],
     Field ''DIO20'' 20 0x100000 [(''CLR'', 0), (''SET'', 0x100000)],
     Field ''DIO21'' 21 0x200000 [(''CLR'', 0), (''SET'', 0x200000)],
     Field ''DIO22'' 22 0x400000 [(''CLR'', 0), (''SET'', 0x400000)],
     Field ''DIO23'' 23 0x800000 [(''CLR'', 0), (''SET'', 0x800000)],
     Field ''DIO24'' 24 0x1000000 [(''CLR'', 0), (''SET'', 0x1000000)],
     Field ''DIO25'' 25 0x2000000 [(''CLR'', 0), (''SET'', 0x2000000)],
     Field ''DIO26'' 26 0x4000000 [(''CLR'', 0), (''SET'', 0x4000000)],
     Field ''DIO27'' 27 0x8000000 [(''CLR'', 0), (''SET'', 0x8000000)],
     Field ''DIO28'' 28 0x10000000 [(''CLR'', 0), (''SET'', 0x10000000)],
     Field ''DIO29'' 29 0x20000000 [(''CLR'', 0), (''SET'', 0x20000000)],
     Field ''DIO30'' 30 0x40000000 [(''CLR'', 0), (''SET'', 0x40000000)],
     Field ''DIO31'' 31 0x80000000 [(''CLR'', 0), (''SET'', 0x80000000)]]"

definition GPIO_CPU_INT_MIS_Bits :: fields where
  "GPIO_CPU_INT_MIS_Bits =
    [Field ''DIO0'' 0 0x1 [(''CLR'', 0), (''SET'', 1)],
     Field ''DIO1'' 1 0x2 [(''CLR'', 0), (''SET'', 2)],
     Field ''DIO2'' 2 0x4 [(''CLR'', 0), (''SET'', 4)],
     Field ''DIO3'' 3 0x8 [(''CLR'', 0), (''SET'', 8)],
     Field ''DIO4'' 4 0x10 [(''CLR'', 0), (''SET'', 0x10)],
     Field ''DIO5'' 5 0x20 [(''CLR'', 0), (''SET'', 0x20)],
     Field ''DIO6'' 6 0x40 [(''CLR'', 0), (''SET'', 0x40)],
     Field ''DIO7'' 7 0x80 [(''CLR'', 0), (''SET'', 0x80)],
     Field ''DIO8'' 8 0x100 [(''CLR'', 0), (''SET'', 0x100)],
     Field ''DIO9'' 9 0x200 [(''CLR'', 0), (''SET'', 0x200)],
     Field ''DIO10'' 10 0x400 [(''CLR'', 0), (''SET'', 0x400)],
     Field ''DIO11'' 11 0x800 [(''CLR'', 0), (''SET'', 0x800)],
     Field ''DIO12'' 12 0x1000 [(''CLR'', 0), (''SET'', 0x1000)],
     Field ''DIO13'' 13 0x2000 [(''CLR'', 0), (''SET'', 0x2000)],
     Field ''DIO14'' 14 0x4000 [(''CLR'', 0), (''SET'', 0x4000)],
     Field ''DIO15'' 15 0x8000 [(''CLR'', 0), (''SET'', 0x8000)],
     Field ''DIO16'' 16 0x10000 [(''CLR'', 0), (''SET'', 0x10000)],
     Field ''DIO17'' 17 0x20000 [(''CLR'', 0), (''SET'', 0x20000)],
     Field ''DIO18'' 18 0x40000 [(''CLR'', 0), (''SET'', 0x40000)],
     Field ''DIO19'' 19 0x80000 [(''CLR'', 0), (''SET'', 0x80000)],
     Field ''DIO20'' 20 0x100000 [(''CLR'', 0), (''SET'', 0x100000)],
     Field ''DIO21'' 21 0x200000 [(''CLR'', 0), (''SET'', 0x200000)],
     Field ''DIO22'' 22 0x400000 [(''CLR'', 0), (''SET'', 0x400000)],
     Field ''DIO23'' 23 0x800000 [(''CLR'', 0), (''SET'', 0x800000)],
     Field ''DIO24'' 24 0x1000000 [(''CLR'', 0), (''SET'', 0x1000000)],
     Field ''DIO25'' 25 0x2000000 [(''CLR'', 0), (''SET'', 0x2000000)],
     Field ''DIO26'' 26 0x4000000 [(''CLR'', 0), (''SET'', 0x4000000)],
     Field ''DIO27'' 27 0x8000000 [(''CLR'', 0), (''SET'', 0x8000000)],
     Field ''DIO28'' 28 0x10000000 [(''CLR'', 0), (''SET'', 0x10000000)],
     Field ''DIO29'' 29 0x20000000 [(''CLR'', 0), (''SET'', 0x20000000)],
     Field ''DIO30'' 30 0x40000000 [(''CLR'', 0), (''SET'', 0x40000000)],
     Field ''DIO31'' 31 0x80000000 [(''CLR'', 0), (''SET'', 0x80000000)]]"

definition GPIO_CPU_INT_ISET_Bits :: fields where
  "GPIO_CPU_INT_ISET_Bits =
    [Field ''DIO0'' 0 0x1 [(''NO_EFFECT'', 0), (''SET'', 1)],
     Field ''DIO1'' 1 0x2 [(''NO_EFFECT'', 0), (''SET'', 2)],
     Field ''DIO2'' 2 0x4 [(''NO_EFFECT'', 0), (''SET'', 4)],
     Field ''DIO3'' 3 0x8 [(''NO_EFFECT'', 0), (''SET'', 8)],
     Field ''DIO4'' 4 0x10 [(''NO_EFFECT'', 0), (''SET'', 0x10)],
     Field ''DIO5'' 5 0x20 [(''NO_EFFECT'', 0), (''SET'', 0x20)],
     Field ''DIO6'' 6 0x40 [(''NO_EFFECT'', 0), (''SET'', 0x40)],
     Field ''DIO7'' 7 0x80 [(''NO_EFFECT'', 0), (''SET'', 0x80)],
     Field ''DIO8'' 8 0x100 [(''NO_EFFECT'', 0), (''SET'', 0x100)],
     Field ''DIO9'' 9 0x200 [(''NO_EFFECT'', 0), (''SET'', 0x200)],
     Field ''DIO10'' 10 0x400 [(''NO_EFFECT'', 0), (''SET'', 0x400)],
     Field ''DIO11'' 11 0x800 [(''NO_EFFECT'', 0), (''SET'', 0x800)],
     Field ''DIO12'' 12 0x1000 [(''NO_EFFECT'', 0), (''SET'', 0x1000)],
     Field ''DIO13'' 13 0x2000 [(''NO_EFFECT'', 0), (''SET'', 0x2000)],
     Field ''DIO14'' 14 0x4000 [(''NO_EFFECT'', 0), (''SET'', 0x4000)],
     Field ''DIO15'' 15 0x8000 [(''NO_EFFECT'', 0), (''SET'', 0x8000)],
     Field ''DIO16'' 16 0x10000 [(''NO_EFFECT'', 0), (''SET'', 0x10000)],
     Field ''DIO17'' 17 0x20000 [(''NO_EFFECT'', 0), (''SET'', 0x20000)],
     Field ''DIO18'' 18 0x40000 [(''NO_EFFECT'', 0), (''SET'', 0x40000)],
     Field ''DIO19'' 19 0x80000 [(''NO_EFFECT'', 0), (''SET'', 0x80000)],
     Field ''DIO20'' 20 0x100000 [(''NO_EFFECT'', 0), (''SET'', 0x100000)],
     Field ''DIO21'' 21 0x200000 [(''NO_EFFECT'', 0), (''SET'', 0x200000)],
     Field ''DIO22'' 22 0x400000 [(''NO_EFFECT'', 0), (''SET'', 0x400000)],
     Field ''DIO23'' 23 0x800000 [(''NO_EFFECT'', 0), (''SET'', 0x800000)],
     Field ''DIO24'' 24 0x1000000 [(''NO_EFFECT'', 0), (''SET'', 0x1000000)],
     Field ''DIO25'' 25 0x2000000 [(''NO_EFFECT'', 0), (''SET'', 0x2000000)],
     Field ''DIO26'' 26 0x4000000 [(''NO_EFFECT'', 0), (''SET'', 0x4000000)],
     Field ''DIO27'' 27 0x8000000 [(''NO_EFFECT'', 0), (''SET'', 0x8000000)],
     Field ''DIO28'' 28 0x10000000 [(''NO_EFFECT'', 0), (''SET'', 0x10000000)],
     Field ''DIO29'' 29 0x20000000 [(''NO_EFFECT'', 0), (''SET'', 0x20000000)],
     Field ''DIO30'' 30 0x40000000 [(''NO_EFFECT'', 0), (''SET'', 0x40000000)],
     Field ''DIO31'' 31 0x80000000 [(''NO_EFFECT'', 0), (''SET'', 0x80000000)]]"

definition GPIO_CPU_INT_ICLR_Bits :: fields where
  "GPIO_CPU_INT_ICLR_Bits =
    [Field ''DIO0'' 0 0x1 [(''NO_EFFECT'', 0), (''CLR'', 1)],
     Field ''DIO1'' 1 0x2 [(''NO_EFFECT'', 0), (''CLR'', 2)],
     Field ''DIO2'' 2 0x4 [(''NO_EFFECT'', 0), (''CLR'', 4)],
     Field ''DIO3'' 3 0x8 [(''NO_EFFECT'', 0), (''CLR'', 8)],
     Field ''DIO4'' 4 0x10 [(''NO_EFFECT'', 0), (''CLR'', 0x10)],
     Field ''DIO5'' 5 0x20 [(''NO_EFFECT'', 0), (''CLR'', 0x20)],
     Field ''DIO6'' 6 0x40 [(''NO_EFFECT'', 0), (''CLR'', 0x40)],
     Field ''DIO7'' 7 0x80 [(''NO_EFFECT'', 0), (''CLR'', 0x80)],
     Field ''DIO8'' 8 0x100 [(''NO_EFFECT'', 0), (''CLR'', 0x100)],
     Field ''DIO9'' 9 0x200 [(''NO_EFFECT'', 0), (''CLR'', 0x200)],
     Field ''DIO10'' 10 0x400 [(''NO_EFFECT'', 0), (''CLR'', 0x400)],
     Field ''DIO11'' 11 0x800 [(''NO_EFFECT'', 0), (''CLR'', 0x800)],
     Field ''DIO12'' 12 0x1000 [(''NO_EFFECT'', 0), (''CLR'', 0x1000)],
     Field ''DIO13'' 13 0x2000 [(''NO_EFFECT'', 0), (''CLR'', 0x2000)],
     Field ''DIO14'' 14 0x4000 [(''NO_EFFECT'', 0), (''CLR'', 0x4000)],
     Field ''DIO15'' 15 0x8000 [(''NO_EFFECT'', 0), (''CLR'', 0x8000)],
     Field ''DIO16'' 16 0x10000 [(''NO_EFFECT'', 0), (''CLR'', 0x10000)],
     Field ''DIO17'' 17 0x20000 [(''NO_EFFECT'', 0), (''CLR'', 0x20000)],
     Field ''DIO18'' 18 0x40000 [(''NO_EFFECT'', 0), (''CLR'', 0x40000)],
     Field ''DIO19'' 19 0x80000 [(''NO_EFFECT'', 0), (''CLR'', 0x80000)],
     Field ''DIO20'' 20 0x100000 [(''NO_EFFECT'', 0), (''CLR'', 0x100000)],
     Field ''DIO21'' 21 0x200000 [(''NO_EFFECT'', 0), (''CLR'', 0x200000)],
     Field ''DIO22'' 22 0x400000 [(''NO_EFFECT'', 0), (''CLR'', 0x400000)],
     Field ''DIO23'' 23 0x800000 [(''NO_EFFECT'', 0), (''CLR'', 0x800000)],
     Field ''DIO24'' 24 0x1000000 [(''NO_EFFECT'', 0), (''CLR'', 0x1000000)],
     Field ''DIO25'' 25 0x2000000 [(''NO_EFFECT'', 0), (''CLR'', 0x2000000)],
     Field ''DIO26'' 26 0x4000000 [(''NO_EFFECT'', 0), (''CLR'', 0x4000000)],
     Field ''DIO27'' 27 0x8000000 [(''NO_EFFECT'', 0), (''CLR'', 0x8000000)],
     Field ''DIO28'' 28 0x10000000 [(''NO_EFFECT'', 0), (''CLR'', 0x10000000)],
     Field ''DIO29'' 29 0x20000000 [(''NO_EFFECT'', 0), (''CLR'', 0x20000000)],
     Field ''DIO30'' 30 0x40000000 [(''NO_EFFECT'', 0), (''CLR'', 0x40000000)],
     Field ''DIO31'' 31 0x80000000 [(''NO_EFFECT'', 0), (''CLR'', 0x80000000)]]"

definition GPIO_PWREN_Bits :: fields where
  "GPIO_PWREN_Bits =
    [Field ''ENABLE'' 0 0x1 [(''DISABLE'', 0), (''ENABLE'', 1)],
     Field ''KEY'' 24 0xff000000 [(''UNLOCK_W'', 0x26000000)]]"

definition GPIO_RSTCTL_Bits :: fields where
  "GPIO_RSTCTL_Bits =
    [Field ''RESETSTKYCLR'' 1 0x2 [(''NOP'', 0), (''CLR'', 2)],
     Field ''RESETASSERT'' 0 0x1 [(''NOP'', 0), (''ASSERT'', 1)],
     Field ''KEY'' 24 0xff000000 [(''UNLOCK_W'', 0xb1000000)]]"

definition GPIO_STAT_Bits :: fields where
  "GPIO_STAT_Bits =
    [Field ''RESETSTKY'' 16 0x10000 [(''NORES'', 0), (''RESET'', 0x10000)]]"

definition GPIO_FSUB_0_Bits :: fields where
  "GPIO_FSUB_0_Bits =
    [Field ''CHANID'' 0 0xff [(''MNIMUM'', 0), (''UNCONNECTED'', 0), (''MAXIMUM'', 0xf)]]"

definition GPIO_FSUB_1_Bits :: fields where
  "GPIO_FSUB_1_Bits =
    [Field ''CHANID'' 0 0xff [(''MNIMUM'', 0), (''UNCONNECTED'', 0), (''MAXIMUM'', 0xf)]]"

definition GPIO_FPUB_0_Bits :: fields where
  "GPIO_FPUB_0_Bits =
    [Field ''CHANID'' 0 0xff [(''MNIMUM'', 0), (''UNCONNECTED'', 0), (''MAXIMUM'', 0xf)]]"

definition GPIO_FPUB_1_Bits :: fields where
  "GPIO_FPUB_1_Bits =
    [Field ''CHANID'' 0 0xff [(''MNIMUM'', 0), (''UNCONNECTED'', 0), (''MAXIMUM'', 0xf)]]"

definition GPIO_CLKOVR_Bits :: fields where
  "GPIO_CLKOVR_Bits =
    [Field ''OVERRIDE'' 0 0x1 [(''DISABLED'', 0), (''ENABLED'', 1)],
     Field ''RUN_STOP'' 1 0x2 [(''RUN'', 0), (''STOP'', 2)]]"

definition GPIO_PDBGCTL_Bits :: fields where
  "GPIO_PDBGCTL_Bits =
    [Field ''FREE'' 0 0x1 [(''STOP'', 0), (''RUN'', 1)]]"

definition GPIO_EVT_MODE_Bits :: fields where
  "GPIO_EVT_MODE_Bits =
    [Field ''INT0_CFG'' 0 0x3 [(''DISABLE'', 0), (''SOFTWARE'', 1), (''HARDWARE'', 2)],
     Field ''EVT1_CFG'' 2 0xc [(''DISABLE'', 0), (''SOFTWARE'', 4), (''HARDWARE'', 8)],
     Field ''EVT2_CFG'' 4 0x30 [(''DISABLE'', 0), (''SOFTWARE'', 0x10), (''HARDWARE'', 0x20)]]"

definition GPIO_DESC_Bits :: fields where
  "GPIO_DESC_Bits =
    [Field ''MINREV'' 0 0xf [(''MINIMUM'', 0), (''MAXIMUM'', 0xf)],
     Field ''MAJREV'' 4 0xf0 [(''MINIMUM'', 0), (''MAXIMUM'', 0xf0)],
     Field ''FEATUREVER'' 12 0xf000 [(''MINIMUM'', 0), (''MAXIMUM'', 0xf000)],
     Field ''MODULEID'' 16 0xffff0000 [(''MINIMUM'', 0), (''MAXIMUM'', 0xffff0000)]]"

definition GPIO_DOUT3_0_Bits :: fields where
  "GPIO_DOUT3_0_Bits =
    [Field ''DIO0'' 0 0x1 [(''ZERO'', 0), (''ONE'', 1)],
     Field ''DIO1'' 8 0x100 [(''ZERO'', 0), (''ONE'', 0x100)],
     Field ''DIO2'' 16 0x10000 [(''ZERO'', 0), (''ONE'', 0x10000)],
     Field ''DIO3'' 24 0x1000000 [(''ZERO'', 0), (''ONE'', 0x1000000)]]"

definition GPIO_DOUT7_4_Bits :: fields where
  "GPIO_DOUT7_4_Bits =
    [Field ''DIO4'' 0 0x1 [(''ZERO'', 0), (''ONE'', 1)],
     Field ''DIO5'' 8 0x100 [(''ZERO'', 0), (''ONE'', 0x100)],
     Field ''DIO6'' 16 0x10000 [(''ZERO'', 0), (''ONE'', 0x10000)],
     Field ''DIO7'' 24 0x1000000 [(''ZERO'', 0), (''ONE'', 0x1000000)]]"

definition GPIO_DOUT11_8_Bits :: fields where
  "GPIO_DOUT11_8_Bits =
    [Field ''DIO8'' 0 0x1 [(''ZERO'', 0), (''ONE'', 1)],
     Field ''DIO9'' 8 0x100 [(''ZERO'', 0), (''ONE'', 0x100)],
     Field ''DIO10'' 16 0x10000 [(''ZERO'', 0), (''ONE'', 0x10000)],
     Field ''DIO11'' 24 0x1000000 [(''ZERO'', 0), (''ONE'', 0x1000000)]]"

definition GPIO_DOUT15_12_Bits :: fields where
  "GPIO_DOUT15_12_Bits =
    [Field ''DIO12'' 0 0x1 [(''ZERO'', 0), (''ONE'', 1)],
     Field ''DIO13'' 8 0x100 [(''ZERO'', 0), (''ONE'', 0x100)],
     Field ''DIO14'' 16 0x10000 [(''ZERO'', 0), (''ONE'', 0x10000)],
     Field ''DIO15'' 24 0x1000000 [(''ZERO'', 0), (''ONE'', 0x1000000)]]"

definition GPIO_DOUT19_16_Bits :: fields where
  "GPIO_DOUT19_16_Bits =
    [Field ''DIO16'' 0 0x1 [(''ZERO'', 0), (''ONE'', 1)],
     Field ''DIO17'' 8 0x100 [(''ZERO'', 0), (''ONE'', 0x100)],
     Field ''DIO18'' 16 0x10000 [(''ZERO'', 0), (''ONE'', 0x10000)],
     Field ''DIO19'' 24 0x1000000 [(''ZERO'', 0), (''ONE'', 0x1000000)]]"

definition GPIO_DOUT23_20_Bits :: fields where
  "GPIO_DOUT23_20_Bits =
    [Field ''DIO20'' 0 0x1 [(''ZERO'', 0), (''ONE'', 1)],
     Field ''DIO21'' 8 0x100 [(''ZERO'', 0), (''ONE'', 0x100)],
     Field ''DIO22'' 16 0x10000 [(''ZERO'', 0), (''ONE'', 0x10000)],
     Field ''DIO23'' 24 0x1000000 [(''ZERO'', 0), (''ONE'', 0x1000000)]]"

definition GPIO_DOUT27_24_Bits :: fields where
  "GPIO_DOUT27_24_Bits =
    [Field ''DIO24'' 0 0x1 [(''ZERO'', 0), (''ONE'', 1)],
     Field ''DIO25'' 8 0x100 [(''ZERO'', 0), (''ONE'', 0x100)],
     Field ''DIO26'' 16 0x10000 [(''ZERO'', 0), (''ONE'', 0x10000)],
     Field ''DIO27'' 24 0x1000000 [(''ZERO'', 0), (''ONE'', 0x1000000)]]"

definition GPIO_DOUT31_28_Bits :: fields where
  "GPIO_DOUT31_28_Bits =
    [Field ''DIO28'' 0 0x1 [(''ZERO'', 0), (''ONE'', 1)],
     Field ''DIO29'' 8 0x100 [(''ZERO'', 0), (''ONE'', 0x100)],
     Field ''DIO30'' 16 0x10000 [(''ZERO'', 0), (''ONE'', 0x10000)],
     Field ''DIO31'' 24 0x1000000 [(''ZERO'', 0), (''ONE'', 0x1000000)]]"

definition GPIO_DOUT31_0_Bits :: fields where
  "GPIO_DOUT31_0_Bits =
    [Field ''DIO0'' 0 0x1 [(''ZERO'', 0), (''ONE'', 1)],
     Field ''DIO1'' 1 0x2 [(''ZERO'', 0), (''ONE'', 2)],
     Field ''DIO2'' 2 0x4 [(''ZERO'', 0), (''ONE'', 4)],
     Field ''DIO3'' 3 0x8 [(''ZERO'', 0), (''ONE'', 8)],
     Field ''DIO4'' 4 0x10 [(''ZERO'', 0), (''ONE'', 0x10)],
     Field ''DIO5'' 5 0x20 [(''ZERO'', 0), (''ONE'', 0x20)],
     Field ''DIO6'' 6 0x40 [(''ZERO'', 0), (''ONE'', 0x40)],
     Field ''DIO7'' 7 0x80 [(''ZERO'', 0), (''ONE'', 0x80)],
     Field ''DIO8'' 8 0x100 [(''ZERO'', 0), (''ONE'', 0x100)],
     Field ''DIO9'' 9 0x200 [(''ZERO'', 0), (''ONE'', 0x200)],
     Field ''DIO10'' 10 0x400 [(''ZERO'', 0), (''ONE'', 0x400)],
     Field ''DIO11'' 11 0x800 [(''ZERO'', 0), (''ONE'', 0x800)],
     Field ''DIO12'' 12 0x1000 [(''ZERO'', 0), (''ONE'', 0x1000)],
     Field ''DIO13'' 13 0x2000 [(''ZERO'', 0), (''ONE'', 0x2000)],
     Field ''DIO14'' 14 0x4000 [(''ZERO'', 0), (''ONE'', 0x4000)],
     Field ''DIO15'' 15 0x8000 [(''ZERO'', 0), (''ONE'', 0x8000)],
     Field ''DIO16'' 16 0x10000 [(''ZERO'', 0), (''ONE'', 0x10000)],
     Field ''DIO17'' 17 0x20000 [(''ZERO'', 0), (''ONE'', 0x20000)],
     Field ''DIO18'' 18 0x40000 [(''ZERO'', 0), (''ONE'', 0x40000)],
     Field ''DIO19'' 19 0x80000 [(''ZERO'', 0), (''ONE'', 0x80000)],
     Field ''DIO20'' 20 0x100000 [(''ZERO'', 0), (''ONE'', 0x100000)],
     Field ''DIO21'' 21 0x200000 [(''ZERO'', 0), (''ONE'', 0x200000)],
     Field ''DIO22'' 22 0x400000 [(''ZERO'', 0), (''ONE'', 0x400000)],
     Field ''DIO23'' 23 0x800000 [(''ZERO'', 0), (''ONE'', 0x800000)],
     Field ''DIO24'' 24 0x1000000 [(''ZERO'', 0), (''ONE'', 0x1000000)],
     Field ''DIO25'' 25 0x2000000 [(''ZERO'', 0), (''ONE'', 0x2000000)],
     Field ''DIO26'' 26 0x4000000 [(''ZERO'', 0), (''ONE'', 0x4000000)],
     Field ''DIO27'' 27 0x8000000 [(''ZERO'', 0), (''ONE'', 0x8000000)],
     Field ''DIO28'' 28 0x10000000 [(''ZERO'', 0), (''ONE'', 0x10000000)],
     Field ''DIO29'' 29 0x20000000 [(''ZERO'', 0), (''ONE'', 0x20000000)],
     Field ''DIO30'' 30 0x40000000 [(''ZERO'', 0), (''ONE'', 0x40000000)],
     Field ''DIO31'' 31 0x80000000 [(''ZERO'', 0), (''ONE'', 0x80000000)]]"

definition GPIO_DOUTSET31_0_Bits :: fields where
  "GPIO_DOUTSET31_0_Bits =
    [Field ''DIO0'' 0 0x1 [(''NO_EFFECT'', 0), (''SET'', 1)],
     Field ''DIO1'' 1 0x2 [(''NO_EFFECT'', 0), (''SET'', 2)],
     Field ''DIO2'' 2 0x4 [(''NO_EFFECT'', 0), (''SET'', 4)],
     Field ''DIO3'' 3 0x8 [(''NO_EFFECT'', 0), (''SET'', 8)],
     Field ''DIO4'' 4 0x10 [(''NO_EFFECT'', 0), (''SET'', 0x10)],
     Field ''DIO5'' 5 0x20 [(''NO_EFFECT'', 0), (''SET'', 0x20)],
     Field ''DIO6'' 6 0x40 [(''NO_EFFECT'', 0), (''SET'', 0x40)],
     Field ''DIO7'' 7 0x80 [(''NO_EFFECT'', 0), (''SET'', 0x80)],
     Field ''DIO8'' 8 0x100 [(''NO_EFFECT'', 0), (''SET'', 0x100)],
     Field ''DIO9'' 9 0x200 [(''NO_EFFECT'', 0), (''SET'', 0x200)],
     Field ''DIO10'' 10 0x400 [(''NO_EFFECT'', 0), (''SET'', 0x400)],
     Field ''DIO11'' 11 0x800 [(''NO_EFFECT'', 0), (''SET'', 0x800)],
     Field ''DIO12'' 12 0x1000 [(''NO_EFFECT'', 0), (''SET'', 0x1000)],
     Field ''DIO13'' 13 0x2000 [(''NO_EFFECT'', 0), (''SET'', 0x2000)],
     Field ''DIO14'' 14 0x4000 [(''NO_EFFECT'', 0), (''SET'', 0x4000)],
     Field ''DIO15'' 15 0x8000 [(''NO_EFFECT'', 0), (''SET'', 0x8000)],
     Field ''DIO16'' 16 0x10000 [(''NO_EFFECT'', 0), (''SET'', 0x10000)],
     Field ''DIO17'' 17 0x20000 [(''NO_EFFECT'', 0), (''SET'', 0x20000)],
     Field ''DIO18'' 18 0x40000 [(''NO_EFFECT'', 0), (''SET'', 0x40000)],
     Field ''DIO19'' 19 0x80000 [(''NO_EFFECT'', 0), (''SET'', 0x80000)],
     Field ''DIO20'' 20 0x100000 [(''NO_EFFECT'', 0), (''SET'', 0x100000)],
     Field ''DIO21'' 21 0x200000 [(''NO_EFFECT'', 0), (''SET'', 0x200000)],
     Field ''DIO22'' 22 0x400000 [(''NO_EFFECT'', 0), (''SET'', 0x400000)],
     Field ''DIO23'' 23 0x800000 [(''NO_EFFECT'', 0), (''SET'', 0x800000)],
     Field ''DIO24'' 24 0x1000000 [(''NO_EFFECT'', 0), (''SET'', 0x1000000)],
     Field ''DIO25'' 25 0x2000000 [(''NO_EFFECT'', 0), (''SET'', 0x2000000)],
     Field ''DIO26'' 26 0x4000000 [(''NO_EFFECT'', 0), (''SET'', 0x4000000)],
     Field ''DIO27'' 27 0x8000000 [(''NO_EFFECT'', 0), (''SET'', 0x8000000)],
     Field ''DIO28'' 28 0x10000000 [(''NO_EFFECT'', 0), (''SET'', 0x10000000)],
     Field ''DIO29'' 29 0x20000000 [(''NO_EFFECT'', 0), (''SET'', 0x20000000)],
     Field ''DIO30'' 30 0x40000000 [(''NO_EFFECT'', 0), (''SET'', 0x40000000)],
     Field ''DIO31'' 31 0x80000000 [(''NO_EFFECT'', 0), (''SET'', 0x80000000)]]"

definition GPIO_DOUTCLR31_0_Bits :: fields where
  "GPIO_DOUTCLR31_0_Bits =
    [Field ''DIO0'' 0 0x1 [(''NO_EFFECT'', 0), (''CLR'', 1)],
     Field ''DIO1'' 1 0x2 [(''NO_EFFECT'', 0), (''CLR'', 2)],
     Field ''DIO2'' 2 0x4 [(''NO_EFFECT'', 0), (''CLR'', 4)],
     Field ''DIO3'' 3 0x8 [(''NO_EFFECT'', 0), (''CLR'', 8)],
     Field ''DIO4'' 4 0x10 [(''NO_EFFECT'', 0), (''CLR'', 0x10)],
     Field ''DIO5'' 5 0x20 [(''NO_EFFECT'', 0), (''CLR'', 0x20)],
     Field ''DIO6'' 6 0x40 [(''NO_EFFECT'', 0), (''CLR'', 0x40)],
     Field ''DIO7'' 7 0x80 [(''NO_EFFECT'', 0), (''CLR'', 0x80)],
     Field ''DIO8'' 8 0x100 [(''NO_EFFECT'', 0), (''CLR'', 0x100)],
     Field ''DIO9'' 9 0x200 [(''NO_EFFECT'', 0), (''CLR'', 0x200)],
     Field ''DIO10'' 10 0x400 [(''NO_EFFECT'', 0), (''CLR'', 0x400)],
     Field ''DIO11'' 11 0x800 [(''NO_EFFECT'', 0), (''CLR'', 0x800)],
     Field ''DIO12'' 12 0x1000 [(''NO_EFFECT'', 0), (''CLR'', 0x1000)],
     Field ''DIO13'' 13 0x2000 [(''NO_EFFECT'', 0), (''CLR'', 0x2000)],
     Field ''DIO14'' 14 0x4000 [(''NO_EFFECT'', 0), (''CLR'', 0x4000)],
     Field ''DIO15'' 15 0x8000 [(''NO_EFFECT'', 0), (''CLR'', 0x8000)],
     Field ''DIO16'' 16 0x10000 [(''NO_EFFECT'', 0), (''CLR'', 0x10000)],
     Field ''DIO17'' 17 0x20000 [(''NO_EFFECT'', 0), (''CLR'', 0x20000)],
     Field ''DIO18'' 18 0x40000 [(''NO_EFFECT'', 0), (''CLR'', 0x40000)],
     Field ''DIO19'' 19 0x80000 [(''NO_EFFECT'', 0), (''CLR'', 0x80000)],
     Field ''DIO20'' 20 0x100000 [(''NO_EFFECT'', 0), (''CLR'', 0x100000)],
     Field ''DIO21'' 21 0x200000 [(''NO_EFFECT'', 0), (''CLR'', 0x200000)],
     Field ''DIO22'' 22 0x400000 [(''NO_EFFECT'', 0), (''CLR'', 0x400000)],
     Field ''DIO23'' 23 0x800000 [(''NO_EFFECT'', 0), (''CLR'', 0x800000)],
     Field ''DIO24'' 24 0x1000000 [(''NO_EFFECT'', 0), (''CLR'', 0x1000000)],
     Field ''DIO25'' 25 0x2000000 [(''NO_EFFECT'', 0), (''CLR'', 0x2000000)],
     Field ''DIO26'' 26 0x4000000 [(''NO_EFFECT'', 0), (''CLR'', 0x4000000)],
     Field ''DIO27'' 27 0x8000000 [(''NO_EFFECT'', 0), (''CLR'', 0x8000000)],
     Field ''DIO28'' 28 0x10000000 [(''NO_EFFECT'', 0), (''CLR'', 0x10000000)],
     Field ''DIO29'' 29 0x20000000 [(''NO_EFFECT'', 0), (''CLR'', 0x20000000)],
     Field ''DIO30'' 30 0x40000000 [(''NO_EFFECT'', 0), (''CLR'', 0x40000000)],
     Field ''DIO31'' 31 0x80000000 [(''NO_EFFECT'', 0), (''CLR'', 0x80000000)]]"

definition GPIO_DOUTTGL31_0_Bits :: fields where
  "GPIO_DOUTTGL31_0_Bits =
    [Field ''DIO0'' 0 0x1 [(''NO_EFFECT'', 0), (''TOGGLE'', 1)],
     Field ''DIO1'' 1 0x2 [(''NO_EFFECT'', 0), (''TOGGLE'', 2)],
     Field ''DIO2'' 2 0x4 [(''NO_EFFECT'', 0), (''TOGGLE'', 4)],
     Field ''DIO3'' 3 0x8 [(''NO_EFFECT'', 0), (''TOGGLE'', 8)],
     Field ''DIO4'' 4 0x10 [(''NO_EFFECT'', 0), (''TOGGLE'', 0x10)],
     Field ''DIO5'' 5 0x20 [(''NO_EFFECT'', 0), (''TOGGLE'', 0x20)],
     Field ''DIO6'' 6 0x40 [(''NO_EFFECT'', 0), (''TOGGLE'', 0x40)],
     Field ''DIO7'' 7 0x80 [(''NO_EFFECT'', 0), (''TOGGLE'', 0x80)],
     Field ''DIO8'' 8 0x100 [(''NO_EFFECT'', 0), (''TOGGLE'', 0x100)],
     Field ''DIO9'' 9 0x200 [(''NO_EFFECT'', 0), (''TOGGLE'', 0x200)],
     Field ''DIO10'' 10 0x400 [(''NO_EFFECT'', 0), (''TOGGLE'', 0x400)],
     Field ''DIO11'' 11 0x800 [(''NO_EFFECT'', 0), (''TOGGLE'', 0x800)],
     Field ''DIO12'' 12 0x1000 [(''NO_EFFECT'', 0), (''TOGGLE'', 0x1000)],
     Field ''DIO13'' 13 0x2000 [(''NO_EFFECT'', 0), (''TOGGLE'', 0x2000)],
     Field ''DIO14'' 14 0x4000 [(''NO_EFFECT'', 0), (''TOGGLE'', 0x4000)],
     Field ''DIO15'' 15 0x8000 [(''NO_EFFECT'', 0), (''TOGGLE'', 0x8000)],
     Field ''DIO16'' 16 0x10000 [(''NO_EFFECT'', 0), (''TOGGLE'', 0x10000)],
     Field ''DIO17'' 17 0x20000 [(''NO_EFFECT'', 0), (''TOGGLE'', 0x20000)],
     Field ''DIO18'' 18 0x40000 [(''NO_EFFECT'', 0), (''TOGGLE'', 0x40000)],
     Field ''DIO19'' 19 0x80000 [(''NO_EFFECT'', 0), (''TOGGLE'', 0x80000)],
     Field ''DIO20'' 20 0x100000 [(''NO_EFFECT'', 0), (''TOGGLE'', 0x100000)],
     Field ''DIO21'' 21 0x200000 [(''NO_EFFECT'', 0), (''TOGGLE'', 0x200000)],
     Field ''DIO22'' 22 0x400000 [(''NO_EFFECT'', 0), (''TOGGLE'', 0x400000)],
     Field ''DIO23'' 23 0x800000 [(''NO_EFFECT'', 0), (''TOGGLE'', 0x800000)],
     Field ''DIO24'' 24 0x1000000 [(''NO_EFFECT'', 0), (''TOGGLE'', 0x1000000)],
     Field ''DIO25'' 25 0x2000000 [(''NO_EFFECT'', 0), (''TOGGLE'', 0x2000000)],
     Field ''DIO26'' 26 0x4000000 [(''NO_EFFECT'', 0), (''TOGGLE'', 0x4000000)],
     Field ''DIO27'' 27 0x8000000 [(''NO_EFFECT'', 0), (''TOGGLE'', 0x8000000)],
     Field ''DIO28'' 28 0x10000000 [(''NO_EFFECT'', 0), (''TOGGLE'', 0x10000000)],
     Field ''DIO29'' 29 0x20000000 [(''NO_EFFECT'', 0), (''TOGGLE'', 0x20000000)],
     Field ''DIO30'' 30 0x40000000 [(''NO_EFFECT'', 0), (''TOGGLE'', 0x40000000)],
     Field ''DIO31'' 31 0x80000000 [(''NO_EFFECT'', 0), (''TOGGLE'', 0x80000000)]]"

definition GPIO_DOE31_0_Bits :: fields where
  "GPIO_DOE31_0_Bits =
    [Field ''DIO0'' 0 0x1 [(''DISABLE'', 0), (''ENABLE'', 1)],
     Field ''DIO1'' 1 0x2 [(''DISABLE'', 0), (''ENABLE'', 2)],
     Field ''DIO2'' 2 0x4 [(''DISABLE'', 0), (''ENABLE'', 4)],
     Field ''DIO3'' 3 0x8 [(''DISABLE'', 0), (''ENABLE'', 8)],
     Field ''DIO4'' 4 0x10 [(''DISABLE'', 0), (''ENABLE'', 0x10)],
     Field ''DIO5'' 5 0x20 [(''DISABLE'', 0), (''ENABLE'', 0x20)],
     Field ''DIO6'' 6 0x40 [(''DISABLE'', 0), (''ENABLE'', 0x40)],
     Field ''DIO7'' 7 0x80 [(''DISABLE'', 0), (''ENABLE'', 0x80)],
     Field ''DIO8'' 8 0x100 [(''DISABLE'', 0), (''ENABLE'', 0x100)],
     Field ''DIO9'' 9 0x200 [(''DISABLE'', 0), (''ENABLE'', 0x200)],
     Field ''DIO10'' 10 0x400 [(''DISABLE'', 0), (''ENABLE'', 0x400)],
     Field ''DIO11'' 11 0x800 [(''DISABLE'', 0), (''ENABLE'', 0x800)],
     Field ''DIO12'' 12 0x1000 [(''DISABLE'', 0), (''ENABLE'', 0x1000)],
     Field ''DIO13'' 13 0x2000 [(''DISABLE'', 0), (''ENABLE'', 0x2000)],
     Field ''DIO14'' 14 0x4000 [(''DISABLE'', 0), (''ENABLE'', 0x4000)],
     Field ''DIO15'' 15 0x8000 [(''DISABLE'', 0), (''ENABLE'', 0x8000)],
     Field ''DIO16'' 16 0x10000 [(''DISABLE'', 0), (''ENABLE'', 0x10000)],
     Field ''DIO17'' 17 0x20000 [(''DISABLE'', 0), (''ENABLE'', 0x20000)],
     Field ''DIO18'' 18 0x40000 [(''DISABLE'', 0), (''ENABLE'', 0x40000)],
     Field ''DIO19'' 19 0x80000 [(''DISABLE'', 0), (''ENABLE'', 0x80000)],
     Field ''DIO20'' 20 0x100000 [(''DISABLE'', 0), (''ENABLE'', 0x100000)],
     Field ''DIO21'' 21 0x200000 [(''DISABLE'', 0), (''ENABLE'', 0x200000)],
     Field ''DIO22'' 22 0x400000 [(''DISABLE'', 0), (''ENABLE'', 0x400000)],
     Field ''DIO23'' 23 0x800000 [(''DISABLE'', 0), (''ENABLE'', 0x800000)],
     Field ''DIO24'' 24 0x1000000 [(''DISABLE'', 0), (''ENABLE'', 0x1000000)],
     Field ''DIO25'' 25 0x2000000 [(''DISABLE'', 0), (''ENABLE'', 0x2000000)],
     Field ''DIO26'' 26 0x4000000 [(''DISABLE'', 0), (''ENABLE'', 0x4000000)],
     Field ''DIO27'' 27 0x8000000 [(''DISABLE'', 0), (''ENABLE'', 0x8000000)],
     Field ''DIO28'' 28 0x10000000 [(''DISABLE'', 0), (''ENABLE'', 0x10000000)],
     Field ''DIO29'' 29 0x20000000 [(''DISABLE'', 0), (''ENABLE'', 0x20000000)],
     Field ''DIO30'' 30 0x40000000 [(''DISABLE'', 0), (''ENABLE'', 0x40000000)],
     Field ''DIO31'' 31 0x80000000 [(''DISABLE'', 0), (''ENABLE'', 0x80000000)]]"

definition GPIO_DOESET31_0_Bits :: fields where
  "GPIO_DOESET31_0_Bits =
    [Field ''DIO0'' 0 0x1 [(''NO_EFFECT'', 0), (''SET'', 1)],
     Field ''DIO1'' 1 0x2 [(''NO_EFFECT'', 0), (''SET'', 2)],
     Field ''DIO2'' 2 0x4 [(''NO_EFFECT'', 0), (''SET'', 4)],
     Field ''DIO3'' 3 0x8 [(''NO_EFFECT'', 0), (''SET'', 8)],
     Field ''DIO4'' 4 0x10 [(''NO_EFFECT'', 0), (''SET'', 0x10)],
     Field ''DIO5'' 5 0x20 [(''NO_EFFECT'', 0), (''SET'', 0x20)],
     Field ''DIO6'' 6 0x40 [(''NO_EFFECT'', 0), (''SET'', 0x40)],
     Field ''DIO7'' 7 0x80 [(''NO_EFFECT'', 0), (''SET'', 0x80)],
     Field ''DIO8'' 8 0x100 [(''NO_EFFECT'', 0), (''SET'', 0x100)],
     Field ''DIO9'' 9 0x200 [(''NO_EFFECT'', 0), (''SET'', 0x200)],
     Field ''DIO10'' 10 0x400 [(''NO_EFFECT'', 0), (''SET'', 0x400)],
     Field ''DIO11'' 11 0x800 [(''NO_EFFECT'', 0), (''SET'', 0x800)],
     Field ''DIO12'' 12 0x1000 [(''NO_EFFECT'', 0), (''SET'', 0x1000)],
     Field ''DIO13'' 13 0x2000 [(''NO_EFFECT'', 0), (''SET'', 0x2000)],
     Field ''DIO14'' 14 0x4000 [(''NO_EFFECT'', 0), (''SET'', 0x4000)],
     Field ''DIO15'' 15 0x8000 [(''NO_EFFECT'', 0), (''SET'', 0x8000)],
     Field ''DIO16'' 16 0x10000 [(''NO_EFFECT'', 0), (''SET'', 0x10000)],
     Field ''DIO17'' 17 0x20000 [(''NO_EFFECT'', 0), (''SET'', 0x20000)],
     Field ''DIO18'' 18 0x40000 [(''NO_EFFECT'', 0), (''SET'', 0x40000)],
     Field ''DIO19'' 19 0x80000 [(''NO_EFFECT'', 0), (''SET'', 0x80000)],
     Field ''DIO20'' 20 0x100000 [(''NO_EFFECT'', 0), (''SET'', 0x100000)],
     Field ''DIO21'' 21 0x200000 [(''NO_EFFECT'', 0), (''SET'', 0x200000)],
     Field ''DIO22'' 22 0x400000 [(''NO_EFFECT'', 0), (''SET'', 0x400000)],
     Field ''DIO23'' 23 0x800000 [(''NO_EFFECT'', 0), (''SET'', 0x800000)],
     Field ''DIO24'' 24 0x1000000 [(''NO_EFFECT'', 0), (''SET'', 0x1000000)],
     Field ''DIO25'' 25 0x2000000 [(''NO_EFFECT'', 0), (''SET'', 0x2000000)],
     Field ''DIO26'' 26 0x4000000 [(''NO_EFFECT'', 0), (''SET'', 0x4000000)],
     Field ''DIO27'' 27 0x8000000 [(''NO_EFFECT'', 0), (''SET'', 0x8000000)],
     Field ''DIO28'' 28 0x10000000 [(''NO_EFFECT'', 0), (''SET'', 0x10000000)],
     Field ''DIO29'' 29 0x20000000 [(''NO_EFFECT'', 0), (''SET'', 0x20000000)],
     Field ''DIO30'' 30 0x40000000 [(''NO_EFFECT'', 0), (''SET'', 0x40000000)],
     Field ''DIO31'' 31 0x80000000 [(''NO_EFFECT'', 0), (''SET'', 0x80000000)]]"

definition GPIO_DOECLR31_0_Bits :: fields where
  "GPIO_DOECLR31_0_Bits =
    [Field ''DIO0'' 0 0x1 [(''NO_EFFECT'', 0), (''CLR'', 1)],
     Field ''DIO1'' 1 0x2 [(''NO_EFFECT'', 0), (''CLR'', 2)],
     Field ''DIO2'' 2 0x4 [(''NO_EFFECT'', 0), (''CLR'', 4)],
     Field ''DIO3'' 3 0x8 [(''NO_EFFECT'', 0), (''CLR'', 8)],
     Field ''DIO4'' 4 0x10 [(''NO_EFFECT'', 0), (''CLR'', 0x10)],
     Field ''DIO5'' 5 0x20 [(''NO_EFFECT'', 0), (''CLR'', 0x20)],
     Field ''DIO6'' 6 0x40 [(''NO_EFFECT'', 0), (''CLR'', 0x40)],
     Field ''DIO7'' 7 0x80 [(''NO_EFFECT'', 0), (''CLR'', 0x80)],
     Field ''DIO8'' 8 0x100 [(''NO_EFFECT'', 0), (''CLR'', 0x100)],
     Field ''DIO9'' 9 0x200 [(''NO_EFFECT'', 0), (''CLR'', 0x200)],
     Field ''DIO10'' 10 0x400 [(''NO_EFFECT'', 0), (''CLR'', 0x400)],
     Field ''DIO11'' 11 0x800 [(''NO_EFFECT'', 0), (''CLR'', 0x800)],
     Field ''DIO12'' 12 0x1000 [(''NO_EFFECT'', 0), (''CLR'', 0x1000)],
     Field ''DIO13'' 13 0x2000 [(''NO_EFFECT'', 0), (''CLR'', 0x2000)],
     Field ''DIO14'' 14 0x4000 [(''NO_EFFECT'', 0), (''CLR'', 0x4000)],
     Field ''DIO15'' 15 0x8000 [(''NO_EFFECT'', 0), (''CLR'', 0x8000)],
     Field ''DIO16'' 16 0x10000 [(''NO_EFFECT'', 0), (''CLR'', 0x10000)],
     Field ''DIO17'' 17 0x20000 [(''NO_EFFECT'', 0), (''CLR'', 0x20000)],
     Field ''DIO18'' 18 0x40000 [(''NO_EFFECT'', 0), (''CLR'', 0x40000)],
     Field ''DIO19'' 19 0x80000 [(''NO_EFFECT'', 0), (''CLR'', 0x80000)],
     Field ''DIO20'' 20 0x100000 [(''NO_EFFECT'', 0), (''CLR'', 0x100000)],
     Field ''DIO21'' 21 0x200000 [(''NO_EFFECT'', 0), (''CLR'', 0x200000)],
     Field ''DIO22'' 22 0x400000 [(''NO_EFFECT'', 0), (''CLR'', 0x400000)],
     Field ''DIO23'' 23 0x800000 [(''NO_EFFECT'', 0), (''CLR'', 0x800000)],
     Field ''DIO24'' 24 0x1000000 [(''NO_EFFECT'', 0), (''CLR'', 0x1000000)],
     Field ''DIO25'' 25 0x2000000 [(''NO_EFFECT'', 0), (''CLR'', 0x2000000)],
     Field ''DIO26'' 26 0x4000000 [(''NO_EFFECT'', 0), (''CLR'', 0x4000000)],
     Field ''DIO27'' 27 0x8000000 [(''NO_EFFECT'', 0), (''CLR'', 0x8000000)],
     Field ''DIO28'' 28 0x10000000 [(''NO_EFFECT'', 0), (''CLR'', 0x10000000)],
     Field ''DIO29'' 29 0x20000000 [(''NO_EFFECT'', 0), (''CLR'', 0x20000000)],
     Field ''DIO30'' 30 0x40000000 [(''NO_EFFECT'', 0), (''CLR'', 0x40000000)],
     Field ''DIO31'' 31 0x80000000 [(''NO_EFFECT'', 0), (''CLR'', 0x80000000)]]"

definition GPIO_DIN3_0_Bits :: fields where
  "GPIO_DIN3_0_Bits =
    [Field ''DIO0'' 0 0x1 [(''ZERO'', 0), (''ONE'', 1)],
     Field ''DIO1'' 8 0x100 [(''ZERO'', 0), (''ONE'', 0x100)],
     Field ''DIO2'' 16 0x10000 [(''ZERO'', 0), (''ONE'', 0x10000)],
     Field ''DIO3'' 24 0x1000000 [(''ZERO'', 0), (''ONE'', 0x1000000)]]"

definition GPIO_DIN7_4_Bits :: fields where
  "GPIO_DIN7_4_Bits =
    [Field ''DIO4'' 0 0x1 [(''ZERO'', 0), (''ONE'', 1)],
     Field ''DIO5'' 8 0x100 [(''ZERO'', 0), (''ONE'', 0x100)],
     Field ''DIO6'' 16 0x10000 [(''ZERO'', 0), (''ONE'', 0x10000)],
     Field ''DIO7'' 24 0x1000000 [(''ZERO'', 0), (''ONE'', 0x1000000)]]"

definition GPIO_DIN11_8_Bits :: fields where
  "GPIO_DIN11_8_Bits =
    [Field ''DIO8'' 0 0x1 [(''ZERO'', 0), (''ONE'', 1)],
     Field ''DIO9'' 8 0x100 [(''ZERO'', 0), (''ONE'', 0x100)],
     Field ''DIO10'' 16 0x10000 [(''ZERO'', 0), (''ONE'', 0x10000)],
     Field ''DIO11'' 24 0x1000000 [(''ZERO'', 0), (''ONE'', 0x1000000)]]"

definition GPIO_DIN15_12_Bits :: fields where
  "GPIO_DIN15_12_Bits =
    [Field ''DIO12'' 0 0x1 [(''ZERO'', 0), (''ONE'', 1)],
     Field ''DIO13'' 8 0x100 [(''ZERO'', 0), (''ONE'', 0x100)],
     Field ''DIO14'' 16 0x10000 [(''ZERO'', 0), (''ONE'', 0x10000)],
     Field ''DIO15'' 24 0x1000000 [(''ZERO'', 0), (''ONE'', 0x1000000)]]"

definition GPIO_DIN19_16_Bits :: fields where
  "GPIO_DIN19_16_Bits =
    [Field ''DIO16'' 0 0x1 [(''ZERO'', 0), (''ONE'', 1)],
     Field ''DIO17'' 8 0x100 [(''ZERO'', 0), (''ONE'', 0x100)],
     Field ''DIO18'' 16 0x10000 [(''ZERO'', 0), (''ONE'', 0x10000)],
     Field ''DIO19'' 24 0x1000000 [(''ZERO'', 0), (''ONE'', 0x1000000)]]"

definition GPIO_DIN23_20_Bits :: fields where
  "GPIO_DIN23_20_Bits =
    [Field ''DIO20'' 0 0x1 [(''ZERO'', 0), (''ONE'', 1)],
     Field ''DIO21'' 8 0x100 [(''ZERO'', 0), (''ONE'', 0x100)],
     Field ''DIO22'' 16 0x10000 [(''ZERO'', 0), (''ONE'', 0x10000)],
     Field ''DIO23'' 24 0x1000000 [(''ZERO'', 0), (''ONE'', 0x1000000)]]"

definition GPIO_DIN27_24_Bits :: fields where
  "GPIO_DIN27_24_Bits =
    [Field ''DIO24'' 0 0x1 [(''ZERO'', 0), (''ONE'', 1)],
     Field ''DIO25'' 8 0x100 [(''ZERO'', 0), (''ONE'', 0x100)],
     Field ''DIO26'' 16 0x10000 [(''ZERO'', 0), (''ONE'', 0x10000)],
     Field ''DIO27'' 24 0x1000000 [(''ZERO'', 0), (''ONE'', 0x1000000)]]"

definition GPIO_DIN31_28_Bits :: fields where
  "GPIO_DIN31_28_Bits =
    [Field ''DIO28'' 0 0x1 [(''ZERO'', 0), (''ONE'', 1)],
     Field ''DIO29'' 8 0x100 [(''ZERO'', 0), (''ONE'', 0x100)],
     Field ''DIO30'' 16 0x10000 [(''ZERO'', 0), (''ONE'', 0x10000)],
     Field ''DIO31'' 24 0x1000000 [(''ZERO'', 0), (''ONE'', 0x1000000)]]"

definition GPIO_DIN31_0_Bits :: fields where
  "GPIO_DIN31_0_Bits =
    [Field ''DIO0'' 0 0x1 [(''ZERO'', 0), (''ONE'', 1)],
     Field ''DIO1'' 1 0x2 [(''ZERO'', 0), (''ONE'', 2)],
     Field ''DIO2'' 2 0x4 [(''ZERO'', 0), (''ONE'', 4)],
     Field ''DIO3'' 3 0x8 [(''ZERO'', 0), (''ONE'', 8)],
     Field ''DIO4'' 4 0x10 [(''ZERO'', 0), (''ONE'', 0x10)],
     Field ''DIO5'' 5 0x20 [(''ZERO'', 0), (''ONE'', 0x20)],
     Field ''DIO6'' 6 0x40 [(''ZERO'', 0), (''ONE'', 0x40)],
     Field ''DIO7'' 7 0x80 [(''ZERO'', 0), (''ONE'', 0x80)],
     Field ''DIO8'' 8 0x100 [(''ZERO'', 0), (''ONE'', 0x100)],
     Field ''DIO9'' 9 0x200 [(''ZERO'', 0), (''ONE'', 0x200)],
     Field ''DIO10'' 10 0x400 [(''ZERO'', 0), (''ONE'', 0x400)],
     Field ''DIO11'' 11 0x800 [(''ZERO'', 0), (''ONE'', 0x800)],
     Field ''DIO12'' 12 0x1000 [(''ZERO'', 0), (''ONE'', 0x1000)],
     Field ''DIO13'' 13 0x2000 [(''ZERO'', 0), (''ONE'', 0x2000)],
     Field ''DIO14'' 14 0x4000 [(''ZERO'', 0), (''ONE'', 0x4000)],
     Field ''DIO15'' 15 0x8000 [(''ZERO'', 0), (''ONE'', 0x8000)],
     Field ''DIO16'' 16 0x10000 [(''ZERO'', 0), (''ONE'', 0x10000)],
     Field ''DIO17'' 17 0x20000 [(''ZERO'', 0), (''ONE'', 0x20000)],
     Field ''DIO18'' 18 0x40000 [(''ZERO'', 0), (''ONE'', 0x40000)],
     Field ''DIO19'' 19 0x80000 [(''ZERO'', 0), (''ONE'', 0x80000)],
     Field ''DIO20'' 20 0x100000 [(''ZERO'', 0), (''ONE'', 0x100000)],
     Field ''DIO21'' 21 0x200000 [(''ZERO'', 0), (''ONE'', 0x200000)],
     Field ''DIO22'' 22 0x400000 [(''ZERO'', 0), (''ONE'', 0x400000)],
     Field ''DIO23'' 23 0x800000 [(''ZERO'', 0), (''ONE'', 0x800000)],
     Field ''DIO24'' 24 0x1000000 [(''ZERO'', 0), (''ONE'', 0x1000000)],
     Field ''DIO25'' 25 0x2000000 [(''ZERO'', 0), (''ONE'', 0x2000000)],
     Field ''DIO26'' 26 0x4000000 [(''ZERO'', 0), (''ONE'', 0x4000000)],
     Field ''DIO27'' 27 0x8000000 [(''ZERO'', 0), (''ONE'', 0x8000000)],
     Field ''DIO28'' 28 0x10000000 [(''ZERO'', 0), (''ONE'', 0x10000000)],
     Field ''DIO29'' 29 0x20000000 [(''ZERO'', 0), (''ONE'', 0x20000000)],
     Field ''DIO30'' 30 0x40000000 [(''ZERO'', 0), (''ONE'', 0x40000000)],
     Field ''DIO31'' 31 0x80000000 [(''ZERO'', 0), (''ONE'', 0x80000000)]]"

definition GPIO_POLARITY15_0_Bits :: fields where
  "GPIO_POLARITY15_0_Bits =
    [Field ''DIO0'' 0 0x3 [(''DISABLE'', 0), (''RISE'', 1), (''FALL'', 2), (''RISE_FALL'', 3)],
     Field ''DIO1'' 2 0xc [(''DISABLE'', 0), (''RISE'', 4), (''FALL'', 8), (''RISE_FALL'', 0xc)],
     Field ''DIO2'' 4 0x30 [(''DISABLE'', 0), (''RISE'', 0x10), (''FALL'', 0x20), (''RISE_FALL'', 0x30)],
     Field ''DIO3'' 6 0xc0 [(''DISABLE'', 0), (''RISE'', 0x40), (''FALL'', 0x80), (''RISE_FALL'', 0xc0)],
     Field ''DIO4'' 8 0x300 [(''DISABLE'', 0), (''RISE'', 0x100), (''FALL'', 0x200), (''RISE_FALL'', 0x300)],
     Field ''DIO5'' 10 0xc00 [(''DISABLE'', 0), (''RISE'', 0x400), (''FALL'', 0x800), (''RISE_FALL'', 0xc00)],
     Field ''DIO6'' 12 0x3000 [(''DISABLE'', 0), (''RISE'', 0x1000), (''FALL'', 0x2000), (''RISE_FALL'', 0x3000)],
     Field ''DIO7'' 14 0xc000 [(''DISABLE'', 0), (''RISE'', 0x4000), (''FALL'', 0x8000), (''RISE_FALL'', 0xc000)],
     Field ''DIO8'' 16 0x30000 [(''DISABLE'', 0), (''RISE'', 0x10000), (''FALL'', 0x20000), (''RISE_FALL'', 0x30000)],
     Field ''DIO9'' 18 0xc0000 [(''DISABLE'', 0), (''RISE'', 0x40000), (''FALL'', 0x80000), (''RISE_FALL'', 0xc0000)],
     Field ''DIO10'' 20 0x300000 [
       (''DISABLE'', 0), (''RISE'', 0x100000), (''FALL'', 0x200000), (''RISE_FALL'', 0x300000)],
     Field ''DIO11'' 22 0xc00000 [
       (''DISABLE'', 0), (''RISE'', 0x400000), (''FALL'', 0x800000), (''RISE_FALL'', 0xc00000)],
     Field ''DIO12'' 24 0x3000000 [
       (''DISABLE'', 0), (''RISE'', 0x1000000), (''FALL'', 0x2000000), (''RISE_FALL'', 0x3000000)],
     Field ''DIO13'' 26 0xc000000 [
       (''DISABLE'', 0), (''RISE'', 0x4000000), (''FALL'', 0x8000000), (''RISE_FALL'', 0xc000000)],
     Field ''DIO14'' 28 0x30000000 [
       (''DISABLE'', 0), (''RISE'', 0x10000000), (''FALL'', 0x20000000), (''RISE_FALL'', 0x30000000)],
     Field ''DIO15'' 30 0xc0000000 [
       (''DISABLE'', 0), (''RISE'', 0x40000000), (''FALL'', 0x80000000), (''RISE_FALL'', 0xc0000000)]]"

definition GPIO_POLARITY31_16_Bits :: fields where
  "GPIO_POLARITY31_16_Bits =
    [Field ''DIO16'' 0 0x3 [(''DISABLE'', 0), (''RISE'', 1), (''FALL'', 2), (''RISE_FALL'', 3)],
     Field ''DIO17'' 2 0xc [(''DISABLE'', 0), (''RISE'', 4), (''FALL'', 8), (''RISE_FALL'', 0xc)],
     Field ''DIO18'' 4 0x30 [(''DISABLE'', 0), (''RISE'', 0x10), (''FALL'', 0x20), (''RISE_FALL'', 0x30)],
     Field ''DIO19'' 6 0xc0 [(''DISABLE'', 0), (''RISE'', 0x40), (''FALL'', 0x80), (''RISE_FALL'', 0xc0)],
     Field ''DIO20'' 8 0x300 [(''DISABLE'', 0), (''RISE'', 0x100), (''FALL'', 0x200), (''RISE_FALL'', 0x300)],
     Field ''DIO21'' 10 0xc00 [(''DISABLE'', 0), (''RISE'', 0x400), (''FALL'', 0x800), (''RISE_FALL'', 0xc00)],
     Field ''DIO22'' 12 0x3000 [(''DISABLE'', 0), (''RISE'', 0x1000), (''FALL'', 0x2000), (''RISE_FALL'', 0x3000)],
     Field ''DIO23'' 14 0xc000 [(''DISABLE'', 0), (''RISE'', 0x4000), (''FALL'', 0x8000), (''RISE_FALL'', 0xc000)],
     Field ''DIO24'' 16 0x30000 [(''DISABLE'', 0), (''RISE'', 0x10000), (''FALL'', 0x20000), (''RISE_FALL'', 0x30000)],
     Field ''DIO25'' 18 0xc0000 [(''DISABLE'', 0), (''RISE'', 0x40000), (''FALL'', 0x80000), (''RISE_FALL'', 0xc0000)],
     Field ''DIO26'' 20 0x300000 [
       (''DISABLE'', 0), (''RISE'', 0x100000), (''FALL'', 0x200000), (''RISE_FALL'', 0x300000)],
     Field ''DIO27'' 22 0xc00000 [
       (''DISABLE'', 0), (''RISE'', 0x400000), (''FALL'', 0x800000), (''RISE_FALL'', 0xc00000)],
     Field ''DIO28'' 24 0x3000000 [
       (''DISABLE'', 0), (''RISE'', 0x1000000), (''FALL'', 0x2000000), (''RISE_FALL'', 0x3000000)],
     Field ''DIO29'' 26 0xc000000 [
       (''DISABLE'', 0), (''RISE'', 0x4000000), (''FALL'', 0x8000000), (''RISE_FALL'', 0xc000000)],
     Field ''DIO30'' 28 0x30000000 [
       (''DISABLE'', 0), (''RISE'', 0x10000000), (''FALL'', 0x20000000), (''RISE_FALL'', 0x30000000)],
     Field ''DIO31'' 30 0xc0000000 [
       (''DISABLE'', 0), (''RISE'', 0x40000000), (''FALL'', 0x80000000), (''RISE_FALL'', 0xc0000000)]]"

definition GPIO_CTL_Bits :: fields where
  "GPIO_CTL_Bits =
    [Field ''FASTWAKEONLY'' 0 0x1 [(''NOT_GLOBAL_EN'', 0), (''GLOBAL_EN'', 1)]]"

definition GPIO_FASTWAKE_Bits :: fields where
  "GPIO_FASTWAKE_Bits =
    [Field ''DIN0'' 0 0x1 [(''DISABLE'', 0), (''ENABLE'', 1)],
     Field ''DIN1'' 1 0x2 [(''DISABLE'', 0), (''ENABLE'', 2)],
     Field ''DIN2'' 2 0x4 [(''DISABLE'', 0), (''ENABLE'', 4)],
     Field ''DIN3'' 3 0x8 [(''DISABLE'', 0), (''ENABLE'', 8)],
     Field ''DIN4'' 4 0x10 [(''DISABLE'', 0), (''ENABLE'', 0x10)],
     Field ''DIN5'' 5 0x20 [(''DISABLE'', 0), (''ENABLE'', 0x20)],
     Field ''DIN6'' 6 0x40 [(''DISABLE'', 0), (''ENABLE'', 0x40)],
     Field ''DIN7'' 7 0x80 [(''DISABLE'', 0), (''ENABLE'', 0x80)],
     Field ''DIN8'' 8 0x100 [(''DISABLE'', 0), (''ENABLE'', 0x100)],
     Field ''DIN9'' 9 0x200 [(''DISABLE'', 0), (''ENABLE'', 0x200)],
     Field ''DIN10'' 10 0x400 [(''DISABLE'', 0), (''ENABLE'', 0x400)],
     Field ''DIN11'' 11 0x800 [(''DISABLE'', 0), (''ENABLE'', 0x800)],
     Field ''DIN12'' 12 0x1000 [(''DISABLE'', 0), (''ENABLE'', 0x1000)],
     Field ''DIN13'' 13 0x2000 [(''DISABLE'', 0), (''ENABLE'', 0x2000)],
     Field ''DIN14'' 14 0x4000 [(''DISABLE'', 0), (''ENABLE'', 0x4000)],
     Field ''DIN15'' 15 0x8000 [(''DISABLE'', 0), (''ENABLE'', 0x8000)],
     Field ''DIN16'' 16 0x10000 [(''DISABLE'', 0), (''ENABLE'', 0x10000)],
     Field ''DIN17'' 17 0x20000 [(''DISABLE'', 0), (''ENABLE'', 0x20000)],
     Field ''DIN18'' 18 0x40000 [(''DISABLE'', 0), (''ENABLE'', 0x40000)],
     Field ''DIN19'' 19 0x80000 [(''DISABLE'', 0), (''ENABLE'', 0x80000)],
     Field ''DIN20'' 20 0x100000 [(''DISABLE'', 0), (''ENABLE'', 0x100000)],
     Field ''DIN21'' 21 0x200000 [(''DISABLE'', 0), (''ENABLE'', 0x200000)],
     Field ''DIN22'' 22 0x400000 [(''DISABLE'', 0), (''ENABLE'', 0x400000)],
     Field ''DIN23'' 23 0x800000 [(''DISABLE'', 0), (''ENABLE'', 0x800000)],
     Field ''DIN24'' 24 0x1000000 [(''DISABLE'', 0), (''ENABLE'', 0x1000000)],
     Field ''DIN25'' 25 0x2000000 [(''DISABLE'', 0), (''ENABLE'', 0x2000000)],
     Field ''DIN26'' 26 0x4000000 [(''DISABLE'', 0), (''ENABLE'', 0x4000000)],
     Field ''DIN27'' 27 0x8000000 [(''DISABLE'', 0), (''ENABLE'', 0x8000000)],
     Field ''DIN28'' 28 0x10000000 [(''DISABLE'', 0), (''ENABLE'', 0x10000000)],
     Field ''DIN29'' 29 0x20000000 [(''DISABLE'', 0), (''ENABLE'', 0x20000000)],
     Field ''DIN30'' 30 0x40000000 [(''DISABLE'', 0), (''ENABLE'', 0x40000000)],
     Field ''DIN31'' 31 0x80000000 [(''DISABLE'', 0), (''ENABLE'', 0x80000000)]]"

definition GPIO_SUB0CFG_Bits :: fields where
  "GPIO_SUB0CFG_Bits =
    [Field ''ENABLE'' 0 0x1 [(''CLR'', 0), (''SET'', 1)],
     Field ''OUTPOLICY'' 8 0x300 [(''SET'', 0), (''CLR'', 0x100), (''TOGGLE'', 0x200)],
     Field ''INDEX'' 16 0xf0000 [(''MIN'', 0), (''MAX'', 0xf0000)]]"

definition GPIO_FILTEREN15_0_Bits :: fields where
  "GPIO_FILTEREN15_0_Bits =
    [Field ''DIN0'' 0 0x3 [(''DISABLE'', 0), (''ONE_CYCLE'', 1), (''THREE_CYCLE'', 2), (''EIGHT_CYCLE'', 3)],
     Field ''DIN1'' 2 0xc [(''DISABLE'', 0), (''ONE_CYCLE'', 4), (''THREE_CYCLE'', 8), (''EIGHT_CYCLE'', 0xc)],
     Field ''DIN2'' 4 0x30 [(''DISABLE'', 0), (''ONE_CYCLE'', 0x10), (''THREE_CYCLE'', 0x20), (''EIGHT_CYCLE'', 0x30)],
     Field ''DIN3'' 6 0xc0 [(''DISABLE'', 0), (''ONE_CYCLE'', 0x40), (''THREE_CYCLE'', 0x80), (''EIGHT_CYCLE'', 0xc0)],
     Field ''DIN4'' 8 0x300 [
       (''DISABLE'', 0), (''ONE_CYCLE'', 0x100), (''THREE_CYCLE'', 0x200), (''EIGHT_CYCLE'', 0x300)],
     Field ''DIN5'' 10 0xc00 [
       (''DISABLE'', 0), (''ONE_CYCLE'', 0x400), (''THREE_CYCLE'', 0x800), (''EIGHT_CYCLE'', 0xc00)],
     Field ''DIN6'' 12 0x3000 [
       (''DISABLE'', 0), (''ONE_CYCLE'', 0x1000), (''THREE_CYCLE'', 0x2000), (''EIGHT_CYCLE'', 0x3000)],
     Field ''DIN7'' 14 0xc000 [
       (''DISABLE'', 0), (''ONE_CYCLE'', 0x4000), (''THREE_CYCLE'', 0x8000), (''EIGHT_CYCLE'', 0xc000)],
     Field ''DIN8'' 16 0x30000 [
       (''DISABLE'', 0), (''ONE_CYCLE'', 0x10000), (''THREE_CYCLE'', 0x20000), (''EIGHT_CYCLE'', 0x30000)],
     Field ''DIN9'' 18 0xc0000 [
       (''DISABLE'', 0), (''ONE_CYCLE'', 0x40000), (''THREE_CYCLE'', 0x80000), (''EIGHT_CYCLE'', 0xc0000)],
     Field ''DIN10'' 20 0x300000 [
       (''DISABLE'', 0), (''ONE_CYCLE'', 0x100000), (''THREE_CYCLE'', 0x200000), (''EIGHT_CYCLE'', 0x300000)],
     Field ''DIN11'' 22 0xc00000 [
       (''DISABLE'', 0), (''ONE_CYCLE'', 0x400000), (''THREE_CYCLE'', 0x800000), (''EIGHT_CYCLE'', 0xc00000)],
     Field ''DIN12'' 24 0x3000000 [
       (''DISABLE'', 0), (''ONE_CYCLE'', 0x1000000), (''THREE_CYCLE'', 0x2000000), (''EIGHT_CYCLE'', 0x3000000)],
     Field ''DIN13'' 26 0xc000000 [
       (''DISABLE'', 0), (''ONE_CYCLE'', 0x4000000), (''THREE_CYCLE'', 0x8000000), (''EIGHT_CYCLE'', 0xc000000)],
     Field ''DIN14'' 28 0x30000000 [
       (''DISABLE'', 0), (''ONE_CYCLE'', 0x10000000), (''THREE_CYCLE'', 0x20000000), (''EIGHT_CYCLE'', 0x30000000)],
     Field ''DIN15'' 30 0xc0000000 [
       (''DISABLE'', 0), (''ONE_CYCLE'', 0x40000000), (''THREE_CYCLE'', 0x80000000), (''EIGHT_CYCLE'', 0xc0000000)]]"

definition GPIO_FILTEREN31_16_Bits :: fields where
  "GPIO_FILTEREN31_16_Bits =
    [Field ''DIN16'' 0 0x3 [(''DISABLE'', 0), (''ONE_CYCLE'', 1), (''THREE_CYCLE'', 2), (''EIGHT_CYCLE'', 3)],
     Field ''DIN17'' 2 0xc [(''DISABLE'', 0), (''ONE_CYCLE'', 4), (''THREE_CYCLE'', 8), (''EIGHT_CYCLE'', 0xc)],
     Field ''DIN18'' 4 0x30 [(''DISABLE'', 0), (''ONE_CYCLE'', 0x10), (''THREE_CYCLE'', 0x20), (''EIGHT_CYCLE'', 0x30)],
     Field ''DIN19'' 6 0xc0 [(''DISABLE'', 0), (''ONE_CYCLE'', 0x40), (''THREE_CYCLE'', 0x80), (''EIGHT_CYCLE'', 0xc0)],
     Field ''DIN20'' 8 0x300 [
       (''DISABLE'', 0), (''ONE_CYCLE'', 0x100), (''THREE_CYCLE'', 0x200), (''EIGHT_CYCLE'', 0x300)],
     Field ''DIN21'' 10 0xc00 [
       (''DISABLE'', 0), (''ONE_CYCLE'', 0x400), (''THREE_CYCLE'', 0x800), (''EIGHT_CYCLE'', 0xc00)],
     Field ''DIN22'' 12 0x3000 [
       (''DISABLE'', 0), (''ONE_CYCLE'', 0x1000), (''THREE_CYCLE'', 0x2000), (''EIGHT_CYCLE'', 0x3000)],
     Field ''DIN23'' 14 0xc000 [
       (''DISABLE'', 0), (''ONE_CYCLE'', 0x4000), (''THREE_CYCLE'', 0x8000), (''EIGHT_CYCLE'', 0xc000)],
     Field ''DIN24'' 16 0x30000 [
       (''DISABLE'', 0), (''ONE_CYCLE'', 0x10000), (''THREE_CYCLE'', 0x20000), (''EIGHT_CYCLE'', 0x30000)],
     Field ''DIN25'' 18 0xc0000 [
       (''DISABLE'', 0), (''ONE_CYCLE'', 0x40000), (''THREE_CYCLE'', 0x80000), (''EIGHT_CYCLE'', 0xc0000)],
     Field ''DIN26'' 20 0x300000 [
       (''DISABLE'', 0), (''ONE_CYCLE'', 0x100000), (''THREE_CYCLE'', 0x200000), (''EIGHT_CYCLE'', 0x300000)],
     Field ''DIN27'' 22 0xc00000 [
       (''DISABLE'', 0), (''ONE_CYCLE'', 0x400000), (''THREE_CYCLE'', 0x800000), (''EIGHT_CYCLE'', 0xc00000)],
     Field ''DIN28'' 24 0x3000000 [
       (''DISABLE'', 0), (''ONE_CYCLE'', 0x1000000), (''THREE_CYCLE'', 0x2000000), (''EIGHT_CYCLE'', 0x3000000)],
     Field ''DIN29'' 26 0xc000000 [
       (''DISABLE'', 0), (''ONE_CYCLE'', 0x4000000), (''THREE_CYCLE'', 0x8000000), (''EIGHT_CYCLE'', 0xc000000)],
     Field ''DIN30'' 28 0x30000000 [
       (''DISABLE'', 0), (''ONE_CYCLE'', 0x10000000), (''THREE_CYCLE'', 0x20000000), (''EIGHT_CYCLE'', 0x30000000)],
     Field ''DIN31'' 30 0xc0000000 [
       (''DISABLE'', 0), (''ONE_CYCLE'', 0x40000000), (''THREE_CYCLE'', 0x80000000), (''EIGHT_CYCLE'', 0xc0000000)]]"

definition GPIO_DMAMASK_Bits :: fields where
  "GPIO_DMAMASK_Bits =
    [Field ''DOUT0'' 0 0x1 [(''DISABLE'', 0), (''ENABLE'', 1)],
     Field ''DOUT1'' 1 0x2 [(''DISABLE'', 0), (''ENABLE'', 2)],
     Field ''DOUT2'' 2 0x4 [(''DISABLE'', 0), (''ENABLE'', 4)],
     Field ''DOUT3'' 3 0x8 [(''DISABLE'', 0), (''ENABLE'', 8)],
     Field ''DOUT4'' 4 0x10 [(''DISABLE'', 0), (''ENABLE'', 0x10)],
     Field ''DOUT5'' 5 0x20 [(''DISABLE'', 0), (''ENABLE'', 0x20)],
     Field ''DOUT6'' 6 0x40 [(''DISABLE'', 0), (''ENABLE'', 0x40)],
     Field ''DOUT7'' 7 0x80 [(''DISABLE'', 0), (''ENABLE'', 0x80)],
     Field ''DOUT8'' 8 0x100 [(''DISABLE'', 0), (''ENABLE'', 0x100)],
     Field ''DOUT9'' 9 0x200 [(''DISABLE'', 0), (''ENABLE'', 0x200)],
     Field ''DOUT10'' 10 0x400 [(''DISABLE'', 0), (''ENABLE'', 0x400)],
     Field ''DOUT11'' 11 0x800 [(''DISABLE'', 0), (''ENABLE'', 0x800)],
     Field ''DOUT12'' 12 0x1000 [(''DISABLE'', 0), (''ENABLE'', 0x1000)],
     Field ''DOUT13'' 13 0x2000 [(''DISABLE'', 0), (''ENABLE'', 0x2000)],
     Field ''DOUT14'' 14 0x4000 [(''DISABLE'', 0), (''ENABLE'', 0x4000)],
     Field ''DOUT15'' 15 0x8000 [(''DISABLE'', 0), (''ENABLE'', 0x8000)],
     Field ''DOUT16'' 16 0x10000 [(''DISABLE'', 0), (''ENABLE'', 0x10000)],
     Field ''DOUT17'' 17 0x20000 [(''DISABLE'', 0), (''ENABLE'', 0x20000)],
     Field ''DOUT18'' 18 0x40000 [(''DISABLE'', 0), (''ENABLE'', 0x40000)],
     Field ''DOUT19'' 19 0x80000 [(''DISABLE'', 0), (''ENABLE'', 0x80000)],
     Field ''DOUT20'' 20 0x100000 [(''DISABLE'', 0), (''ENABLE'', 0x100000)],
     Field ''DOUT21'' 21 0x200000 [(''DISABLE'', 0), (''ENABLE'', 0x200000)],
     Field ''DOUT22'' 22 0x400000 [(''DISABLE'', 0), (''ENABLE'', 0x400000)],
     Field ''DOUT23'' 23 0x800000 [(''DISABLE'', 0), (''ENABLE'', 0x800000)],
     Field ''DOUT24'' 24 0x1000000 [(''DISABLE'', 0), (''ENABLE'', 0x1000000)],
     Field ''DOUT25'' 25 0x2000000 [(''DISABLE'', 0), (''ENABLE'', 0x2000000)],
     Field ''DOUT26'' 26 0x4000000 [(''DISABLE'', 0), (''ENABLE'', 0x4000000)],
     Field ''DOUT27'' 27 0x8000000 [(''DISABLE'', 0), (''ENABLE'', 0x8000000)],
     Field ''DOUT28'' 28 0x10000000 [(''DISABLE'', 0), (''ENABLE'', 0x10000000)],
     Field ''DOUT29'' 29 0x20000000 [(''DISABLE'', 0), (''ENABLE'', 0x20000000)],
     Field ''DOUT30'' 30 0x40000000 [(''DISABLE'', 0), (''ENABLE'', 0x40000000)],
     Field ''DOUT31'' 31 0x80000000 [(''DISABLE'', 0), (''ENABLE'', 0x80000000)]]"

definition GPIO_SUB1CFG_Bits :: fields where
  "GPIO_SUB1CFG_Bits =
    [Field ''ENABLE'' 0 0x1 [(''CLR'', 0), (''SET'', 1)],
     Field ''OUTPOLICY'' 8 0x300 [(''SET'', 0), (''CLR'', 0x100), (''TOGGLE'', 0x200)],
     Field ''INDEX'' 16 0xf0000 [(''MIN'', 0), (''MAX'', 0xf0000)]]"

definition GPIO_bits :: field_table where
  "GPIO_bits =
    [([''FSUB_0''], GPIO_FSUB_0_Bits), ([''FSUB_1''], GPIO_FSUB_1_Bits), ([''FPUB_0''], GPIO_FPUB_0_Bits),
     ([''FPUB_1''], GPIO_FPUB_1_Bits), ([''GPRCM'', ''PWREN''], GPIO_PWREN_Bits),
     ([''GPRCM'', ''RSTCTL''], GPIO_RSTCTL_Bits), ([''GPRCM'', ''STAT''], GPIO_STAT_Bits),
     ([''CLKOVR''], GPIO_CLKOVR_Bits), ([''PDBGCTL''], GPIO_PDBGCTL_Bits),
     ([''CPU_INT'', ''IIDX''], GPIO_CPU_INT_IIDX_Bits), ([''CPU_INT'', ''IMASK''], GPIO_CPU_INT_IMASK_Bits),
     ([''CPU_INT'', ''RIS''], GPIO_CPU_INT_RIS_Bits), ([''CPU_INT'', ''MIS''], GPIO_CPU_INT_MIS_Bits),
     ([''CPU_INT'', ''ISET''], GPIO_CPU_INT_ISET_Bits), ([''CPU_INT'', ''ICLR''], GPIO_CPU_INT_ICLR_Bits),
     ([''GEN_EVENT0'', ''IIDX''], GPIO_GEN_EVENT0_IIDX_Bits), ([''GEN_EVENT0'', ''IMASK''], GPIO_GEN_EVENT0_IMASK_Bits),
     ([''GEN_EVENT0'', ''RIS''], GPIO_GEN_EVENT0_RIS_Bits), ([''GEN_EVENT0'', ''MIS''], GPIO_GEN_EVENT0_MIS_Bits),
     ([''GEN_EVENT0'', ''ISET''], GPIO_GEN_EVENT0_ISET_Bits), ([''GEN_EVENT0'', ''ICLR''], GPIO_GEN_EVENT0_ICLR_Bits),
     ([''GEN_EVENT1'', ''IIDX''], GPIO_GEN_EVENT1_IIDX_Bits), ([''GEN_EVENT1'', ''IMASK''], GPIO_GEN_EVENT1_IMASK_Bits),
     ([''GEN_EVENT1'', ''RIS''], GPIO_GEN_EVENT1_RIS_Bits), ([''GEN_EVENT1'', ''MIS''], GPIO_GEN_EVENT1_MIS_Bits),
     ([''GEN_EVENT1'', ''ISET''], GPIO_GEN_EVENT1_ISET_Bits), ([''GEN_EVENT1'', ''ICLR''], GPIO_GEN_EVENT1_ICLR_Bits),
     ([''EVT_MODE''], GPIO_EVT_MODE_Bits), ([''DESC''], GPIO_DESC_Bits), ([''DOUT3_0''], GPIO_DOUT3_0_Bits),
     ([''DOUT7_4''], GPIO_DOUT7_4_Bits), ([''DOUT11_8''], GPIO_DOUT11_8_Bits), ([''DOUT15_12''], GPIO_DOUT15_12_Bits),
     ([''DOUT19_16''], GPIO_DOUT19_16_Bits), ([''DOUT23_20''], GPIO_DOUT23_20_Bits),
     ([''DOUT27_24''], GPIO_DOUT27_24_Bits), ([''DOUT31_28''], GPIO_DOUT31_28_Bits),
     ([''DOUT31_0''], GPIO_DOUT31_0_Bits), ([''DOUTSET31_0''], GPIO_DOUTSET31_0_Bits),
     ([''DOUTCLR31_0''], GPIO_DOUTCLR31_0_Bits), ([''DOUTTGL31_0''], GPIO_DOUTTGL31_0_Bits),
     ([''DOE31_0''], GPIO_DOE31_0_Bits), ([''DOESET31_0''], GPIO_DOESET31_0_Bits),
     ([''DOECLR31_0''], GPIO_DOECLR31_0_Bits), ([''DIN3_0''], GPIO_DIN3_0_Bits), ([''DIN7_4''], GPIO_DIN7_4_Bits),
     ([''DIN11_8''], GPIO_DIN11_8_Bits), ([''DIN15_12''], GPIO_DIN15_12_Bits), ([''DIN19_16''], GPIO_DIN19_16_Bits),
     ([''DIN23_20''], GPIO_DIN23_20_Bits), ([''DIN27_24''], GPIO_DIN27_24_Bits), ([''DIN31_28''], GPIO_DIN31_28_Bits),
     ([''DIN31_0''], GPIO_DIN31_0_Bits), ([''POLARITY15_0''], GPIO_POLARITY15_0_Bits),
     ([''POLARITY31_16''], GPIO_POLARITY31_16_Bits), ([''CTL''], GPIO_CTL_Bits), ([''FASTWAKE''], GPIO_FASTWAKE_Bits),
     ([''SUB0CFG''], GPIO_SUB0CFG_Bits), ([''FILTEREN15_0''], GPIO_FILTEREN15_0_Bits),
     ([''FILTEREN31_16''], GPIO_FILTEREN31_16_Bits), ([''DMAMASK''], GPIO_DMAMASK_Bits),
     ([''SUB1CFG''], GPIO_SUB1CFG_Bits)]"

lemmas GPIO_Bits_defs = GPIO_GEN_EVENT1_IIDX_Bits_def GPIO_GEN_EVENT1_IMASK_Bits_def GPIO_GEN_EVENT1_RIS_Bits_def
  GPIO_GEN_EVENT1_MIS_Bits_def GPIO_GEN_EVENT1_ISET_Bits_def GPIO_GEN_EVENT1_ICLR_Bits_def
  GPIO_GEN_EVENT0_IIDX_Bits_def GPIO_GEN_EVENT0_IMASK_Bits_def GPIO_GEN_EVENT0_RIS_Bits_def
  GPIO_GEN_EVENT0_MIS_Bits_def GPIO_GEN_EVENT0_ISET_Bits_def GPIO_GEN_EVENT0_ICLR_Bits_def GPIO_CPU_INT_IIDX_Bits_def
  GPIO_CPU_INT_IMASK_Bits_def GPIO_CPU_INT_RIS_Bits_def GPIO_CPU_INT_MIS_Bits_def GPIO_CPU_INT_ISET_Bits_def
  GPIO_CPU_INT_ICLR_Bits_def GPIO_PWREN_Bits_def GPIO_RSTCTL_Bits_def GPIO_STAT_Bits_def GPIO_FSUB_0_Bits_def
  GPIO_FSUB_1_Bits_def GPIO_FPUB_0_Bits_def GPIO_FPUB_1_Bits_def GPIO_CLKOVR_Bits_def GPIO_PDBGCTL_Bits_def
  GPIO_EVT_MODE_Bits_def GPIO_DESC_Bits_def GPIO_DOUT3_0_Bits_def GPIO_DOUT7_4_Bits_def GPIO_DOUT11_8_Bits_def
  GPIO_DOUT15_12_Bits_def GPIO_DOUT19_16_Bits_def GPIO_DOUT23_20_Bits_def GPIO_DOUT27_24_Bits_def
  GPIO_DOUT31_28_Bits_def GPIO_DOUT31_0_Bits_def GPIO_DOUTSET31_0_Bits_def GPIO_DOUTCLR31_0_Bits_def
  GPIO_DOUTTGL31_0_Bits_def GPIO_DOE31_0_Bits_def GPIO_DOESET31_0_Bits_def GPIO_DOECLR31_0_Bits_def
  GPIO_DIN3_0_Bits_def GPIO_DIN7_4_Bits_def GPIO_DIN11_8_Bits_def GPIO_DIN15_12_Bits_def GPIO_DIN19_16_Bits_def
  GPIO_DIN23_20_Bits_def GPIO_DIN27_24_Bits_def GPIO_DIN31_28_Bits_def GPIO_DIN31_0_Bits_def
  GPIO_POLARITY15_0_Bits_def GPIO_POLARITY31_16_Bits_def GPIO_CTL_Bits_def GPIO_FASTWAKE_Bits_def
  GPIO_SUB0CFG_Bits_def GPIO_FILTEREN15_0_Bits_def GPIO_FILTEREN31_16_Bits_def GPIO_DMAMASK_Bits_def
  GPIO_SUB1CFG_Bits_def

lemma GPIO_bits_describes: "describes GPIO_bits GPIO_Regs"
  by (simp add: describes_def GPIO_bits_def layout_defs, (intro conjI; simp add: GPIO_Bits_defs))

lemma GPIO_bits_strays: "strays GPIO_bits = []"
  by (rule no_strays) (simp add: GPIO_bits_def, (intro conjI; simp add: GPIO_Bits_defs))

end
