(* ===== verification/GPTIMER_Fields.thy ===== *)
theory GPTIMER_Fields
  imports Device_Fields
begin

text \<open>
  The bit fields of \<open>hw_gptimer.h\<close>: the offset, the mask and the named values of every field, register
  by register.
\<close>

section \<open>\<open>hw_gptimer.h\<close>\<close>

definition GPTIMER_CTR_Bits :: fields where
  "GPTIMER_CTR_Bits =
    [Field ''CCTR'' 0 0xffffffff [(''MINIMUM'', 0), (''MAXIMUM'', 0xffffffff)]]"

definition GPTIMER_CTRCTL_Bits :: fields where
  "GPTIMER_CTRCTL_Bits =
    [Field ''EN'' 0 0x1 [(''DISABLED'', 0), (''ENABLED'', 1)],
     Field ''REPEAT'' 1 0xe [
       (''REPEAT_0'', 0), (''REPEAT_1'', 2), (''REPEAT_2'', 4), (''REPEAT_3'', 6), (''REPEAT_4'', 8)],
     Field ''CM'' 4 0x30 [(''DOWN'', 0), (''UP_DOWN'', 0x10), (''UP'', 0x20)],
     Field ''CVAE'' 28 0x30000000 [(''LDVAL'', 0), (''NOCHANGE'', 0x10000000), (''ZEROVAL'', 0x20000000)],
     Field ''DRB'' 17 0x20000 [(''RESUME'', 0), (''CVAE_ACTION'', 0x20000)],
     Field ''FB'' 18 0x40000 [(''CONT_COUNT'', 0), (''SUSP_COUNT'', 0x40000)],
     Field ''FRB'' 19 0x80000 [(''RESUME'', 0), (''CVAE_ACTION'', 0x80000)],
     Field ''PLEN'' 24 0x1000000 [(''DISABLED'', 0), (''ENABLED'', 0x1000000)],
     Field ''SLZERCNEZ'' 23 0x800000 [(''DISABLED'', 0), (''ENABLED'', 0x800000)],
     Field ''CLC'' 7 0x380 [
       (''CCCTL0_LCOND'', 0), (''CCCTL1_LCOND'', 0x80), (''CCCTL2_LCOND'', 0x100), (''CCCTL3_LCOND'', 0x180),
       (''QEI_2INP'', 0x200), (''QEI_3INP'', 0x280)],
     Field ''CAC'' 10 0x1c00 [
       (''CCCTL0_ACOND'', 0), (''CCCTL1_ACOND'', 0x400), (''CCCTL2_ACOND'', 0x800), (''CCCTL3_ACOND'', 0xc00),
       (''QEI_2INP'', 0x1000), (''QEI_3INP'', 0x1400)],
     Field ''CZC'' 13 0xe000 [
       (''CCCTL0_ZCOND'', 0), (''CCCTL1_ZCOND'', 0x2000), (''CCCTL2_ZCOND'', 0x4000), (''CCCTL3_ZCOND'', 0x6000),
       (''QEI_2INP'', 0x8000), (''QEI_3INP'', 0xa000)]]"

definition GPTIMER_LOAD_Bits :: fields where
  "GPTIMER_LOAD_Bits =
    [Field ''LD'' 0 0xffffffff [(''MINIMUM'', 0), (''MAXIMUM'', 0xffffffff)]]"

definition GPTIMER_CC_01_Bits :: fields where
  "GPTIMER_CC_01_Bits =
    [Field ''CCVAL'' 0 0xffffffff [(''MINIMUM'', 0), (''MAXIMUM'', 0xffffffff)]]"

definition GPTIMER_CC_23_Bits :: fields where
  "GPTIMER_CC_23_Bits =
    [Field ''CCVAL'' 0 0xffffffff [(''MINIMUM'', 0), (''MAXIMUM'', 0xffffffff)]]"

definition GPTIMER_CC_45_Bits :: fields where
  "GPTIMER_CC_45_Bits =
    [Field ''CCVAL'' 0 0xffffffff [(''MINIMUM'', 0), (''MAXIMUM'', 0xffffffff)]]"

definition GPTIMER_CCCTL_01_Bits :: fields where
  "GPTIMER_CCCTL_01_Bits =
    [Field ''CCOND'' 0 0x7 [(''NOCAPTURE'', 0), (''CC_TRIG_RISE'', 1), (''CC_TRIG_FALL'', 2), (''CC_TRIG_EDGE'', 3)],
     Field ''ACOND'' 4 0x70 [
       (''TIMCLK'', 0), (''CC_TRIG_RISE'', 0x10), (''CC_TRIG_FALL'', 0x20), (''CC_TRIG_EDGE'', 0x30),
       (''CC_TRIG_HIGH'', 0x50)],
     Field ''LCOND'' 8 0x700 [
       (''CC_TRIG_NO_EFFECT'', 0), (''CC_TRIG_RISE'', 0x100), (''CC_TRIG_FALL'', 0x200), (''CC_TRIG_EDGE'', 0x300)],
     Field ''ZCOND'' 12 0x7000 [
       (''CC_TRIG_NO_EFFECT'', 0), (''CC_TRIG_RISE'', 0x1000), (''CC_TRIG_FALL'', 0x2000), (''CC_TRIG_EDGE'', 0x3000)],
     Field ''COC'' 17 0x20000 [(''COMPARE'', 0), (''CAPTURE'', 0x20000)],
     Field ''SCERCNEZ'' 25 0x2000000 [(''DISABLED'', 0), (''ENABLED'', 0x2000000)],
     Field ''CCUPD'' 18 0x1c0000 [
       (''IMMEDIATELY'', 0), (''ZERO_EVT'', 0x40000), (''COMPARE_DOWN_EVT'', 0x80000), (''COMPARE_UP_EVT'', 0xc0000),
       (''ZERO_LOAD_EVT'', 0x100000), (''ZERO_RC_ZERO_EVT'', 0x140000), (''TRIG'', 0x180000)],
     Field ''CCACTUPD'' 26 0x1c000000 [
       (''IMMEDIATELY'', 0), (''ZERO_EVT'', 0x4000000), (''COMPARE_DOWN_EVT'', 0x8000000),
       (''COMPARE_UP_EVT'', 0xc000000), (''ZERO_LOAD_EVT'', 0x10000000), (''ZERO_RC_ZERO_EVT'', 0x14000000),
       (''TRIG'', 0x18000000)],
     Field ''CC2SELU'' 22 0x1c00000 [
       (''SEL_CCU0'', 0), (''SEL_CCU1'', 0x400000), (''SEL_CCU2'', 0x800000), (''SEL_CCU3'', 0xc00000),
       (''SEL_CCU4'', 0x1000000), (''SEL_CCU5'', 0x1400000)],
     Field ''CC2SELD'' 29 0xe0000000 [
       (''SEL_CCD0'', 0), (''SEL_CCD1'', 0x20000000), (''SEL_CCD2'', 0x40000000), (''SEL_CCD3'', 0x60000000),
       (''SEL_CCD4'', 0x80000000), (''SEL_CCD5'', 0xa0000000)]]"

definition GPTIMER_CCCTL_23_Bits :: fields where
  "GPTIMER_CCCTL_23_Bits =
    [Field ''CCOND'' 0 0x7 [(''NOCAPTURE'', 0), (''CC_TRIG_RISE'', 1), (''CC_TRIG_FALL'', 2), (''CC_TRIG_EDGE'', 3)],
     Field ''ACOND'' 4 0x70 [
       (''TIMCLK'', 0), (''CC_TRIG_RISE'', 0x10), (''CC_TRIG_FALL'', 0x20), (''CC_TRIG_EDGE'', 0x30),
       (''CC_TRIG_HIGH'', 0x50)],
     Field ''LCOND'' 8 0x700 [
       (''CC_TRIG_NO_EFFECT'', 0), (''CC_TRIG_RISE'', 0x100), (''CC_TRIG_FALL'', 0x200), (''CC_TRIG_EDGE'', 0x300)],
     Field ''ZCOND'' 12 0x7000 [
       (''CC_TRIG_NO_EFFECT'', 0), (''CC_TRIG_RISE'', 0x1000), (''CC_TRIG_FALL'', 0x2000), (''CC_TRIG_EDGE'', 0x3000)],
     Field ''COC'' 17 0x20000 [(''COMPARE'', 0), (''CAPTURE'', 0x20000)],
     Field ''SCERCNEZ'' 25 0x2000000 [(''DISABLED'', 0), (''ENABLED'', 0x2000000)],
     Field ''CCUPD'' 18 0x1c0000 [
       (''IMMEDIATELY'', 0), (''ZERO_EVT'', 0x40000), (''COMPARE_DOWN_EVT'', 0x80000), (''COMPARE_UP_EVT'', 0xc0000),
       (''ZERO_LOAD_EVT'', 0x100000), (''ZERO_RC_ZERO_EVT'', 0x140000), (''TRIG'', 0x180000)],
     Field ''CCACTUPD'' 26 0x1c000000 [
       (''IMMEDIATELY'', 0), (''ZERO_EVT'', 0x4000000), (''COMPARE_DOWN_EVT'', 0x8000000),
       (''COMPARE_UP_EVT'', 0xc000000), (''ZERO_LOAD_EVT'', 0x10000000), (''ZERO_RC_ZERO_EVT'', 0x14000000),
       (''TRIG'', 0x18000000)],
     Field ''CC2SELU'' 22 0x1c00000 [
       (''SEL_CCU0'', 0), (''SEL_CCU1'', 0x400000), (''SEL_CCU2'', 0x800000), (''SEL_CCU3'', 0xc00000),
       (''SEL_CCU4'', 0x1000000), (''SEL_CCU5'', 0x1400000)],
     Field ''CC2SELD'' 29 0xe0000000 [
       (''SEL_CCD0'', 0), (''SEL_CCD1'', 0x20000000), (''SEL_CCD2'', 0x40000000), (''SEL_CCD3'', 0x60000000),
       (''SEL_CCD4'', 0x80000000), (''SEL_CCD5'', 0xa0000000)]]"

definition GPTIMER_CCCTL_45_Bits :: fields where
  "GPTIMER_CCCTL_45_Bits =
    [Field ''SCERCNEZ'' 25 0x2000000 [(''DISABLED'', 0), (''ENABLED'', 0x2000000)],
     Field ''CCUPD'' 18 0x1c0000 [
       (''IMMEDIATELY'', 0), (''ZERO_EVT'', 0x40000), (''COMPARE_DOWN_EVT'', 0x80000), (''COMPARE_UP_EVT'', 0xc0000),
       (''ZERO_LOAD_EVT'', 0x100000), (''ZERO_RC_ZERO_EVT'', 0x140000), (''TRIG'', 0x180000)]]"

definition GPTIMER_OCTL_01_Bits :: fields where
  "GPTIMER_OCTL_01_Bits =
    [Field ''CCPOINV'' 4 0x10 [(''NOINV'', 0), (''INV'', 0x10)],
     Field ''CCPIV'' 5 0x20 [(''LOW'', 0), (''HIGH'', 0x20)],
     Field ''CCPO'' 0 0xf [
       (''FUNCVAL'', 0), (''LOAD'', 1), (''CMPVAL'', 2), (''ZERO'', 4), (''CAPCOND'', 5), (''FAULTCOND'', 6),
       (''CC0_MIRROR_ALL'', 8), (''CC1_MIRROR_ALL'', 9), (''DEADBAND'', 0xc), (''CNTDIR'', 0xd)]]"

definition GPTIMER_OCTL_23_Bits :: fields where
  "GPTIMER_OCTL_23_Bits =
    [Field ''CCPOINV'' 4 0x10 [(''NOINV'', 0), (''INV'', 0x10)],
     Field ''CCPIV'' 5 0x20 [(''LOW'', 0), (''HIGH'', 0x20)],
     Field ''CCPO'' 0 0xf [
       (''FUNCVAL'', 0), (''LOAD'', 1), (''CMPVAL'', 2), (''ZERO'', 4), (''CAPCOND'', 5), (''FAULTCOND'', 6),
       (''CC0_MIRROR_ALL'', 8), (''CC1_MIRROR_ALL'', 9), (''DEADBAND'', 0xc), (''CNTDIR'', 0xd)]]"

definition GPTIMER_CCACT_01_Bits :: fields where
  "GPTIMER_CCACT_01_Bits =
    [Field ''ZACT'' 0 0x3 [(''DISABLED'', 0), (''CCP_HIGH'', 1), (''CCP_LOW'', 2), (''CCP_TOGGLE'', 3)],
     Field ''LACT'' 3 0x18 [(''DISABLED'', 0), (''CCP_HIGH'', 8), (''CCP_LOW'', 0x10), (''CCP_TOGGLE'', 0x18)],
     Field ''CDACT'' 6 0xc0 [(''DISABLED'', 0), (''CCP_HIGH'', 0x40), (''CCP_LOW'', 0x80), (''CCP_TOGGLE'', 0xc0)],
     Field ''CUACT'' 9 0x600 [(''DISABLED'', 0), (''CCP_HIGH'', 0x200), (''CCP_LOW'', 0x400), (''CCP_TOGGLE'', 0x600)],
     Field ''CC2DACT'' 12 0x3000 [
       (''DISABLED'', 0), (''CCP_HIGH'', 0x1000), (''CCP_LOW'', 0x2000), (''CCP_TOGGLE'', 0x3000)],
     Field ''CC2UACT'' 15 0x18000 [
       (''DISABLED'', 0), (''CCP_HIGH'', 0x8000), (''CCP_LOW'', 0x10000), (''CCP_TOGGLE'', 0x18000)],
     Field ''FENACT'' 22 0x1c00000 [
       (''DISABLED'', 0), (''CCP_HIGH'', 0x400000), (''CCP_LOW'', 0x800000), (''CCP_TOGGLE'', 0xc00000),
       (''CCP_HIGHZ'', 0x1000000)],
     Field ''FEXACT'' 25 0xe000000 [
       (''DISABLED'', 0), (''CCP_HIGH'', 0x2000000), (''CCP_LOW'', 0x4000000), (''CCP_TOGGLE'', 0x6000000),
       (''CCP_HIGHZ'', 0x8000000)],
     Field ''SWFRCACT'' 28 0x30000000 [(''DISABLED'', 0), (''CCP_HIGH'', 0x10000000), (''CCP_LOW'', 0x20000000)],
     Field ''SWFRCACT_CMPL'' 30 0xc0000000 [(''DISABLED'', 0), (''CCP_HIGH'', 0x40000000), (''CCP_LOW'', 0x80000000)]]"

definition GPTIMER_CCACT_23_Bits :: fields where
  "GPTIMER_CCACT_23_Bits =
    [Field ''ZACT'' 0 0x3 [(''DISABLED'', 0), (''CCP_HIGH'', 1), (''CCP_LOW'', 2), (''CCP_TOGGLE'', 3)],
     Field ''LACT'' 3 0x18 [(''DISABLED'', 0), (''CCP_HIGH'', 8), (''CCP_LOW'', 0x10), (''CCP_TOGGLE'', 0x18)],
     Field ''CDACT'' 6 0xc0 [(''DISABLED'', 0), (''CCP_HIGH'', 0x40), (''CCP_LOW'', 0x80), (''CCP_TOGGLE'', 0xc0)],
     Field ''CUACT'' 9 0x600 [(''DISABLED'', 0), (''CCP_HIGH'', 0x200), (''CCP_LOW'', 0x400), (''CCP_TOGGLE'', 0x600)],
     Field ''CC2DACT'' 12 0x3000 [
       (''DISABLED'', 0), (''CCP_HIGH'', 0x1000), (''CCP_LOW'', 0x2000), (''CCP_TOGGLE'', 0x3000)],
     Field ''CC2UACT'' 15 0x18000 [
       (''DISABLED'', 0), (''CCP_HIGH'', 0x8000), (''CCP_LOW'', 0x10000), (''CCP_TOGGLE'', 0x18000)],
     Field ''FENACT'' 22 0x1c00000 [
       (''DISABLED'', 0), (''CCP_HIGH'', 0x400000), (''CCP_LOW'', 0x800000), (''CCP_TOGGLE'', 0xc00000),
       (''CCP_HIGHZ'', 0x1000000)],
     Field ''FEXACT'' 25 0xe000000 [
       (''DISABLED'', 0), (''CCP_HIGH'', 0x2000000), (''CCP_LOW'', 0x4000000), (''CCP_TOGGLE'', 0x6000000),
       (''CCP_HIGHZ'', 0x8000000)],
     Field ''SWFRCACT'' 28 0x30000000 [(''DISABLED'', 0), (''CCP_HIGH'', 0x10000000), (''CCP_LOW'', 0x20000000)],
     Field ''SWFRCACT_CMPL'' 30 0xc0000000 [(''DISABLED'', 0), (''CCP_HIGH'', 0x40000000), (''CCP_LOW'', 0x80000000)]]"

definition GPTIMER_IFCTL_01_Bits :: fields where
  "GPTIMER_IFCTL_01_Bits =
    [Field ''ISEL'' 0 0xf [
       (''CCPX_INPUT'', 0), (''CCPX_INPUT_PAIR'', 1), (''CCP0_INPUT'', 2), (''TRIG_INPUT'', 3), (''CCP_XOR'', 4),
       (''FSUB0'', 5), (''FSUB1'', 6), (''COMP0'', 7), (''COMP1'', 8), (''COMP2'', 9)],
     Field ''INV'' 7 0x80 [(''NOINVERT'', 0), (''INVERT'', 0x80)],
     Field ''FP'' 8 0x300 [(''_3'', 0), (''_5'', 0x100), (''_8'', 0x200)],
     Field ''CPV'' 11 0x800 [(''CONSECUTIVE'', 0), (''VOTING'', 0x800)],
     Field ''FE'' 12 0x1000 [(''DISABLED'', 0), (''ENABLED'', 0x1000)]]"

definition GPTIMER_IFCTL_23_Bits :: fields where
  "GPTIMER_IFCTL_23_Bits =
    [Field ''ISEL'' 0 0xf [
       (''CCPX_INPUT'', 0), (''CCPX_INPUT_PAIR'', 1), (''CCP0_INPUT'', 2), (''TRIG_INPUT'', 3), (''CCP_XOR'', 4),
       (''FSUB0'', 5), (''FSUB1'', 6), (''COMP0'', 7), (''COMP1'', 8), (''COMP2'', 9)],
     Field ''INV'' 7 0x80 [(''NOINVERT'', 0), (''INVERT'', 0x80)],
     Field ''FP'' 8 0x300 [(''_3'', 0), (''_5'', 0x100), (''_8'', 0x200)],
     Field ''CPV'' 11 0x800 [(''CONSECUTIVE'', 0), (''VOTING'', 0x800)],
     Field ''FE'' 12 0x1000 [(''DISABLED'', 0), (''ENABLED'', 0x1000)]]"

definition GPTIMER_PL_Bits :: fields where
  "GPTIMER_PL_Bits =
    [Field ''PHASE'' 0 0xffffffff [(''MINIMUM'', 0), (''MAXIMUM'', 0xffffffff)]]"

definition GPTIMER_DBCTL_Bits :: fields where
  "GPTIMER_DBCTL_Bits =
    [Field ''RISEDELAY'' 0 0xfff [(''MINIMUM'', 0), (''MAXIMUM'', 0xfff)],
     Field ''FALLDELAY'' 16 0xfff0000 [(''MINIMUM'', 0), (''MAXIMUM'', 0xfff0000)],
     Field ''M1_ENABLE'' 12 0x1000 [(''DISABLED'', 0), (''ENABLED'', 0x1000)]]"

definition GPTIMER_TSEL_Bits :: fields where
  "GPTIMER_TSEL_Bits =
    [Field ''ETSEL'' 0 0x1f [
       (''TRIG0'', 0), (''TRIG1'', 1), (''TRIG2'', 2), (''TRIG3'', 3), (''TRIG4'', 4), (''TRIG5'', 5), (''TRIG6'', 6),
       (''TRIG7'', 7), (''TRIG8'', 8), (''TRIG9'', 9), (''TRIG10'', 0xa), (''TRIG11'', 0xb), (''TRIG12'', 0xc),
       (''TRIG13'', 0xd), (''TRIG14'', 0xe), (''TRIG15'', 0xf), (''TRIG_SUB0'', 0x10), (''TRIG_SUB1'', 0x11)],
     Field ''TE'' 9 0x200 [(''DISABLED'', 0), (''ENABLED'', 0x200)]]"

definition GPTIMER_RC_Bits :: fields where
  "GPTIMER_RC_Bits =
    [Field ''RC'' 0 0xff [(''MINIMUM'', 0), (''MAXIMUM'', 0xff)]]"

definition GPTIMER_RCLD_Bits :: fields where
  "GPTIMER_RCLD_Bits =
    [Field ''RCLD'' 0 0xff [(''MINIMUM'', 0), (''MAXIMUM'', 0xff)]]"

definition GPTIMER_QDIR_Bits :: fields where
  "GPTIMER_QDIR_Bits =
    [Field ''DIR'' 0 0x1 [(''DOWN'', 0), (''UP'', 1)]]"

definition GPTIMER_FCTL_Bits :: fields where
  "GPTIMER_FCTL_Bits =
    [Field ''FIEN'' 0 0x1 [(''DISABLED'', 0), (''ENABLED'', 1)],
     Field ''FI'' 2 0x4 [(''INDEPENDENT'', 0), (''DEPENDENT'', 4)],
     Field ''TFIM'' 7 0x80 [(''DISABLED'', 0), (''ENABLED'', 0x80)],
     Field ''FL'' 3 0x18 [(''NO_LATCH'', 0), (''LATCH_SW_CLR'', 8), (''LATCH_Z_CLR'', 0x10), (''LATCH_LD_CLR'', 0x18)],
     Field ''FSENAC0'' 8 0x100 [(''LOWCTIVE'', 0), (''HIGHACTIVE'', 0x100)],
     Field ''FSENAC1'' 9 0x200 [(''LOWCTIVE'', 0), (''HIGHACTIVE'', 0x200)],
     Field ''FSENAC2'' 10 0x400 [(''LOWCTIVE'', 0), (''HIGHACTIVE'', 0x400)],
     Field ''FSENEXT0'' 11 0x800 [(''LOWCTIVE'', 0), (''HIGHACTIVE'', 0x800)],
     Field ''FSENEXT1'' 12 0x1000 [(''LOWCTIVE'', 0), (''HIGHACTIVE'', 0x1000)],
     Field ''FSENEXT2'' 13 0x2000 [(''LOWCTIVE'', 0), (''HIGHACTIVE'', 0x2000)]]"

definition GPTIMER_FIFCTL_Bits :: fields where
  "GPTIMER_FIFCTL_Bits =
    [Field ''FP'' 0 0x3 [(''PER_3'', 0), (''PER_5'', 1), (''PER_8'', 2)],
     Field ''CPV'' 3 0x8 [(''CONSEC_PER'', 0), (''VOTING'', 8)],
     Field ''FILTEN'' 4 0x10 [(''BYPASS'', 0), (''FILTERED'', 0x10)]]"

definition GPTIMER_CCPD_Bits :: fields where
  "GPTIMER_CCPD_Bits =
    [Field ''C0CCP0'' 0 0x1 [(''INPUT'', 0), (''OUTPUT'', 1)],
     Field ''C0CCP1'' 1 0x2 [(''INPUT'', 0), (''OUTPUT'', 2)],
     Field ''C0CCP2'' 2 0x4 [(''INPUT'', 0), (''OUTPUT'', 4)],
     Field ''C0CCP3'' 3 0x8 [(''INPUT'', 0), (''OUTPUT'', 8)]]"

definition GPTIMER_ODIS_Bits :: fields where
  "GPTIMER_ODIS_Bits =
    [Field ''C0CCP0'' 0 0x1 [(''CCP_OUTPUT_OCTL'', 0), (''CCP_OUTPUT_LOW'', 1)],
     Field ''C0CCP1'' 1 0x2 [(''CCP_OUTPUT_OCTL'', 0), (''CCP_OUTPUT_LOW'', 2)],
     Field ''C0CCP2'' 2 0x4 [(''CCP_OUTPUT_OCTL'', 0), (''CCP_OUTPUT_LOW'', 4)],
     Field ''C0CCP3'' 3 0x8 [(''CCP_OUTPUT_OCTL'', 0), (''CCP_OUTPUT_LOW'', 8)]]"

definition GPTIMER_CCLKCTL_Bits :: fields where
  "GPTIMER_CCLKCTL_Bits =
    [Field ''CLKEN'' 0 0x1 [(''DISABLED'', 0), (''ENABLED'', 1)]]"

definition GPTIMER_CPS_Bits :: fields where
  "GPTIMER_CPS_Bits =
    [Field ''PCNT'' 0 0xff [(''MINIMUM'', 0), (''MAXIMUM'', 0xff)]]"

definition GPTIMER_CPSV_Bits :: fields where
  "GPTIMER_CPSV_Bits =
    [Field ''CPSVAL'' 0 0xff [(''MINIMUM'', 0), (''MAXIMUM'', 0xff)]]"

definition GPTIMER_CTTRIGCTL_Bits :: fields where
  "GPTIMER_CTTRIGCTL_Bits =
    [Field ''CTEN'' 0 0x1 [(''DISABLED'', 0), (''ENABLE'', 1)],
     Field ''EVTCTEN'' 1 0x2 [(''DISABLED'', 0), (''ENABLE'', 2)],
     Field ''EVTCTTRIGSEL'' 16 0xf0000 [
       (''FSUB0'', 0), (''FSUB1'', 0x10000), (''Z'', 0x20000), (''L'', 0x30000), (''CCD0'', 0x40000),
       (''CCD1'', 0x50000), (''CCD2'', 0x60000), (''CCD3'', 0x70000), (''CCU0'', 0x80000), (''CCU1'', 0x90000),
       (''CCU2'', 0xa0000), (''CCU3'', 0xb0000)]]"

definition GPTIMER_CTTRIG_Bits :: fields where
  "GPTIMER_CTTRIG_Bits =
    [Field ''TRIG'' 0 0x1 [(''DISABLED'', 0), (''GENERATE'', 1)]]"

definition GPTIMER_FSCTL_Bits :: fields where
  "GPTIMER_FSCTL_Bits =
    [Field ''FCEN'' 0 0x1 [(''DISABLE'', 0), (''ENABLE'', 1)],
     Field ''FAC0EN'' 1 0x2 [(''DISABLE'', 0), (''ENABLE'', 2)],
     Field ''FAC1EN'' 2 0x4 [(''DISABLE'', 0), (''ENABLE'', 4)],
     Field ''FAC2EN'' 3 0x8 [(''DISABLE'', 0), (''ENABLE'', 8)],
     Field ''FEX0EN'' 4 0x10 [(''DISABLE'', 0), (''ENABLE'', 0x10)],
     Field ''FEX1EN'' 5 0x20 [(''DISABLE'', 0), (''ENABLE'', 0x20)],
     Field ''FEX2EN'' 6 0x40 [(''DISABLE'', 0), (''ENABLE'', 0x40)]]"

definition GPTIMER_GCTL_Bits :: fields where
  "GPTIMER_GCTL_Bits =
    [Field ''SHDWLDEN'' 0 0x1 [(''DISABLE'', 0), (''ENABLE'', 1)]]"

definition GPTIMER_GEN_EVENT1_IIDX_Bits :: fields where
  "GPTIMER_GEN_EVENT1_IIDX_Bits =
    [Field ''STAT'' 0 0xff [
       (''NO_INTR'', 0), (''Z'', 1), (''L'', 2), (''CCD0'', 5), (''CCD1'', 6), (''CCD2'', 7), (''CCD3'', 8),
       (''CCU0'', 9), (''CCU1'', 0xa), (''CCU2'', 0xb), (''CCU3'', 0xc), (''CCD4'', 0xd), (''CCD5'', 0xe),
       (''CCU4'', 0xf), (''CCU5'', 0x10), (''F'', 0x19), (''TOV'', 0x1a), (''REPC'', 0x1b), (''DC'', 0x1c),
       (''QEIERR'', 0x1d)]]"

definition GPTIMER_GEN_EVENT1_IMASK_Bits :: fields where
  "GPTIMER_GEN_EVENT1_IMASK_Bits =
    [Field ''Z'' 0 0x1 [(''CLR'', 0), (''SET'', 1)],
     Field ''L'' 1 0x2 [(''CLR'', 0), (''SET'', 2)],
     Field ''CCD0'' 4 0x10 [(''CLR'', 0), (''SET'', 0x10)],
     Field ''CCD1'' 5 0x20 [(''CLR'', 0), (''SET'', 0x20)],
     Field ''CCU0'' 8 0x100 [(''CLR'', 0), (''SET'', 0x100)],
     Field ''CCU1'' 9 0x200 [(''CLR'', 0), (''SET'', 0x200)],
     Field ''F'' 24 0x1000000 [(''CLR'', 0), (''SET'', 0x1000000)],
     Field ''TOV'' 25 0x2000000 [(''CLR'', 0), (''SET'', 0x2000000)],
     Field ''DC'' 27 0x8000000 [(''CLR'', 0), (''SET'', 0x8000000)],
     Field ''QEIERR'' 28 0x10000000 [(''CLR'', 0), (''SET'', 0x10000000)],
     Field ''CCD2'' 6 0x40 [(''CLR'', 0), (''SET'', 0x40)],
     Field ''CCD3'' 7 0x80 [(''CLR'', 0), (''SET'', 0x80)],
     Field ''CCU2'' 10 0x400 [(''CLR'', 0), (''SET'', 0x400)],
     Field ''CCU3'' 11 0x800 [(''CLR'', 0), (''SET'', 0x800)],
     Field ''CCD4'' 12 0x1000 [(''CLR'', 0), (''SET'', 0x1000)],
     Field ''CCD5'' 13 0x2000 [(''CLR'', 0), (''SET'', 0x2000)],
     Field ''CCU4'' 14 0x4000 [(''CLR'', 0), (''SET'', 0x4000)],
     Field ''CCU5'' 15 0x8000 [(''CLR'', 0), (''SET'', 0x8000)],
     Field ''REPC'' 26 0x4000000 [(''CLR'', 0), (''SET'', 0x4000000)]]"

definition GPTIMER_GEN_EVENT1_RIS_Bits :: fields where
  "GPTIMER_GEN_EVENT1_RIS_Bits =
    [Field ''Z'' 0 0x1 [(''CLR'', 0), (''SET'', 1)],
     Field ''L'' 1 0x2 [(''CLR'', 0), (''SET'', 2)],
     Field ''CCD0'' 4 0x10 [(''CLR'', 0), (''SET'', 0x10)],
     Field ''CCD1'' 5 0x20 [(''CLR'', 0), (''SET'', 0x20)],
     Field ''CCU0'' 8 0x100 [(''CLR'', 0), (''SET'', 0x100)],
     Field ''CCU1'' 9 0x200 [(''CLR'', 0), (''SET'', 0x200)],
     Field ''TOV'' 25 0x2000000 [(''CLR'', 0), (''SET'', 0x2000000)],
     Field ''F'' 24 0x1000000 [(''CLR'', 0), (''SET'', 0x1000000)],
     Field ''DC'' 27 0x8000000 [(''CLR'', 0), (''SET'', 0x8000000)],
     Field ''QEIERR'' 28 0x10000000 [(''CLR'', 0), (''SET'', 0x10000000)],
     Field ''CCD2'' 6 0x40 [(''CLR'', 0), (''SET'', 0x40)],
     Field ''CCD3'' 7 0x80 [(''CLR'', 0), (''SET'', 0x80)],
     Field ''CCU2'' 10 0x400 [(''CLR'', 0), (''SET'', 0x400)],
     Field ''CCU3'' 11 0x800 [(''CLR'', 0), (''SET'', 0x800)],
     Field ''CCD4'' 12 0x1000 [(''CLR'', 0), (''SET'', 0x1000)],
     Field ''CCD5'' 13 0x2000 [(''CLR'', 0), (''SET'', 0x2000)],
     Field ''CCU4'' 14 0x4000 [(''CLR'', 0), (''SET'', 0x4000)],
     Field ''CCU5'' 15 0x8000 [(''CLR'', 0), (''SET'', 0x8000)],
     Field ''REPC'' 26 0x4000000 [(''CLR'', 0), (''SET'', 0x4000000)]]"

definition GPTIMER_GEN_EVENT1_MIS_Bits :: fields where
  "GPTIMER_GEN_EVENT1_MIS_Bits =
    [Field ''Z'' 0 0x1 [(''CLR'', 0), (''SET'', 1)],
     Field ''L'' 1 0x2 [(''CLR'', 0), (''SET'', 2)],
     Field ''CCD0'' 4 0x10 [(''CLR'', 0), (''SET'', 0x10)],
     Field ''CCD1'' 5 0x20 [(''CLR'', 0), (''SET'', 0x20)],
     Field ''CCU0'' 8 0x100 [(''CLR'', 0), (''SET'', 0x100)],
     Field ''CCU1'' 9 0x200 [(''CLR'', 0), (''SET'', 0x200)],
     Field ''F'' 24 0x1000000 [(''CLR'', 0), (''SET'', 0x1000000)],
     Field ''TOV'' 25 0x2000000 [(''CLR'', 0), (''SET'', 0x2000000)],
     Field ''DC'' 27 0x8000000 [(''CLR'', 0), (''SET'', 0x8000000)],
     Field ''QEIERR'' 28 0x10000000 [(''CLR'', 0), (''SET'', 0x10000000)],
     Field ''CCD2'' 6 0x40 [(''CLR'', 0), (''SET'', 0x40)],
     Field ''CCD3'' 7 0x80 [(''CLR'', 0), (''SET'', 0x80)],
     Field ''CCU2'' 10 0x400 [(''CLR'', 0), (''SET'', 0x400)],
     Field ''CCU3'' 11 0x800 [(''CLR'', 0), (''SET'', 0x800)],
     Field ''CCD4'' 12 0x1000 [(''CLR'', 0), (''SET'', 0x1000)],
     Field ''CCD5'' 13 0x2000 [(''CLR'', 0), (''SET'', 0x2000)],
     Field ''CCU4'' 14 0x4000 [(''CLR'', 0), (''SET'', 0x4000)],
     Field ''CCU5'' 15 0x8000 [(''CLR'', 0), (''SET'', 0x8000)],
     Field ''REPC'' 26 0x4000000 [(''CLR'', 0), (''SET'', 0x4000000)]]"

definition GPTIMER_GEN_EVENT1_ISET_Bits :: fields where
  "GPTIMER_GEN_EVENT1_ISET_Bits =
    [Field ''Z'' 0 0x1 [(''NO_EFFECT'', 0), (''SET'', 1)],
     Field ''L'' 1 0x2 [(''NO_EFFECT'', 0), (''SET'', 2)],
     Field ''CCD0'' 4 0x10 [(''NO_EFFECT'', 0), (''SET'', 0x10)],
     Field ''CCD1'' 5 0x20 [(''NO_EFFECT'', 0), (''SET'', 0x20)],
     Field ''CCU0'' 8 0x100 [(''NO_EFFECT'', 0), (''SET'', 0x100)],
     Field ''CCU1'' 9 0x200 [(''NO_EFFECT'', 0), (''SET'', 0x200)],
     Field ''F'' 24 0x1000000 [(''NO_EFFECT'', 0), (''SET'', 0x1000000)],
     Field ''TOV'' 25 0x2000000 [(''NO_EFFECT'', 0), (''SET'', 0x2000000)],
     Field ''DC'' 27 0x8000000 [(''NO_EFFECT'', 0), (''SET'', 0x8000000)],
     Field ''QEIERR'' 28 0x10000000 [(''NO_EFFECT'', 0), (''SET'', 0x10000000)],
     Field ''CCD2'' 6 0x40 [(''NO_EFFECT'', 0), (''SET'', 0x40)],
     Field ''CCD3'' 7 0x80 [(''NO_EFFECT'', 0), (''SET'', 0x80)],
     Field ''CCU2'' 10 0x400 [(''NO_EFFECT'', 0), (''SET'', 0x400)],
     Field ''CCU3'' 11 0x800 [(''NO_EFFECT'', 0), (''SET'', 0x800)],
     Field ''CCD4'' 12 0x1000 [(''NO_EFFECT'', 0), (''SET'', 0x1000)],
     Field ''CCD5'' 13 0x2000 [(''NO_EFFECT'', 0), (''SET'', 0x2000)],
     Field ''CCU4'' 14 0x4000 [(''NO_EFFECT'', 0), (''SET'', 0x4000)],
     Field ''CCU5'' 15 0x8000 [(''NO_EFFECT'', 0), (''SET'', 0x8000)],
     Field ''REPC'' 26 0x4000000 [(''NO_EFFECT'', 0), (''SET'', 0x4000000)]]"

definition GPTIMER_GEN_EVENT1_ICLR_Bits :: fields where
  "GPTIMER_GEN_EVENT1_ICLR_Bits =
    [Field ''Z'' 0 0x1 [(''NO_EFFECT'', 0), (''CLR'', 1)],
     Field ''L'' 1 0x2 [(''NO_EFFECT'', 0), (''CLR'', 2)],
     Field ''CCD0'' 4 0x10 [(''NO_EFFECT'', 0), (''CLR'', 0x10)],
     Field ''CCD1'' 5 0x20 [(''NO_EFFECT'', 0), (''CLR'', 0x20)],
     Field ''CCU0'' 8 0x100 [(''NO_EFFECT'', 0), (''CLR'', 0x100)],
     Field ''CCU1'' 9 0x200 [(''NO_EFFECT'', 0), (''CLR'', 0x200)],
     Field ''F'' 24 0x1000000 [(''NO_EFFECT'', 0), (''CLR'', 0x1000000)],
     Field ''TOV'' 25 0x2000000 [(''NO_EFFECT'', 0), (''CLR'', 0x2000000)],
     Field ''DC'' 27 0x8000000 [(''NO_EFFECT'', 0), (''CLR'', 0x8000000)],
     Field ''QEIERR'' 28 0x10000000 [(''NO_EFFECT'', 0), (''CLR'', 0x10000000)],
     Field ''CCD2'' 6 0x40 [(''NO_EFFECT'', 0), (''CLR'', 0x40)],
     Field ''CCD3'' 7 0x80 [(''NO_EFFECT'', 0), (''CLR'', 0x80)],
     Field ''CCU2'' 10 0x400 [(''NO_EFFECT'', 0), (''CLR'', 0x400)],
     Field ''CCU3'' 11 0x800 [(''NO_EFFECT'', 0), (''CLR'', 0x800)],
     Field ''CCD4'' 12 0x1000 [(''NO_EFFECT'', 0), (''CLR'', 0x1000)],
     Field ''CCD5'' 13 0x2000 [(''NO_EFFECT'', 0), (''CLR'', 0x2000)],
     Field ''CCU4'' 14 0x4000 [(''NO_EFFECT'', 0), (''CLR'', 0x4000)],
     Field ''CCU5'' 15 0x8000 [(''NO_EFFECT'', 0), (''CLR'', 0x8000)],
     Field ''REPC'' 26 0x4000000 [(''NO_EFFECT'', 0), (''CLR'', 0x4000000)]]"

definition GPTIMER_GEN_EVENT0_IIDX_Bits :: fields where
  "GPTIMER_GEN_EVENT0_IIDX_Bits =
    [Field ''STAT'' 0 0xff [
       (''NO_INTR'', 0), (''Z'', 1), (''L'', 2), (''CCD0'', 5), (''CCD1'', 6), (''CCD2'', 7), (''CCD3'', 8),
       (''CCU0'', 9), (''CCU1'', 0xa), (''CCU2'', 0xb), (''CCU3'', 0xc), (''CCD4'', 0xd), (''CCD5'', 0xe),
       (''CCU4'', 0xf), (''CCU5'', 0x10), (''F'', 0x19), (''TOV'', 0x1a), (''REPC'', 0x1b), (''DC'', 0x1c),
       (''QEIERR'', 0x1d)]]"

definition GPTIMER_GEN_EVENT0_IMASK_Bits :: fields where
  "GPTIMER_GEN_EVENT0_IMASK_Bits =
    [Field ''Z'' 0 0x1 [(''CLR'', 0), (''SET'', 1)],
     Field ''L'' 1 0x2 [(''CLR'', 0), (''SET'', 2)],
     Field ''CCD0'' 4 0x10 [(''CLR'', 0), (''SET'', 0x10)],
     Field ''CCD1'' 5 0x20 [(''CLR'', 0), (''SET'', 0x20)],
     Field ''CCU0'' 8 0x100 [(''CLR'', 0), (''SET'', 0x100)],
     Field ''CCU1'' 9 0x200 [(''CLR'', 0), (''SET'', 0x200)],
     Field ''F'' 24 0x1000000 [(''CLR'', 0), (''SET'', 0x1000000)],
     Field ''TOV'' 25 0x2000000 [(''CLR'', 0), (''SET'', 0x2000000)],
     Field ''DC'' 27 0x8000000 [(''CLR'', 0), (''SET'', 0x8000000)],
     Field ''QEIERR'' 28 0x10000000 [(''CLR'', 0), (''SET'', 0x10000000)],
     Field ''CCD2'' 6 0x40 [(''CLR'', 0), (''SET'', 0x40)],
     Field ''CCD3'' 7 0x80 [(''CLR'', 0), (''SET'', 0x80)],
     Field ''CCU2'' 10 0x400 [(''CLR'', 0), (''SET'', 0x400)],
     Field ''CCU3'' 11 0x800 [(''CLR'', 0), (''SET'', 0x800)],
     Field ''CCD4'' 12 0x1000 [(''CLR'', 0), (''SET'', 0x1000)],
     Field ''CCD5'' 13 0x2000 [(''CLR'', 0), (''SET'', 0x2000)],
     Field ''CCU4'' 14 0x4000 [(''CLR'', 0), (''SET'', 0x4000)],
     Field ''CCU5'' 15 0x8000 [(''CLR'', 0), (''SET'', 0x8000)],
     Field ''REPC'' 26 0x4000000 [(''CLR'', 0), (''SET'', 0x4000000)]]"

definition GPTIMER_GEN_EVENT0_RIS_Bits :: fields where
  "GPTIMER_GEN_EVENT0_RIS_Bits =
    [Field ''Z'' 0 0x1 [(''CLR'', 0), (''SET'', 1)],
     Field ''L'' 1 0x2 [(''CLR'', 0), (''SET'', 2)],
     Field ''CCD0'' 4 0x10 [(''CLR'', 0), (''SET'', 0x10)],
     Field ''CCD1'' 5 0x20 [(''CLR'', 0), (''SET'', 0x20)],
     Field ''CCU0'' 8 0x100 [(''CLR'', 0), (''SET'', 0x100)],
     Field ''CCU1'' 9 0x200 [(''CLR'', 0), (''SET'', 0x200)],
     Field ''TOV'' 25 0x2000000 [(''CLR'', 0), (''SET'', 0x2000000)],
     Field ''F'' 24 0x1000000 [(''CLR'', 0), (''SET'', 0x1000000)],
     Field ''DC'' 27 0x8000000 [(''CLR'', 0), (''SET'', 0x8000000)],
     Field ''QEIERR'' 28 0x10000000 [(''CLR'', 0), (''SET'', 0x10000000)],
     Field ''CCD2'' 6 0x40 [(''CLR'', 0), (''SET'', 0x40)],
     Field ''CCD3'' 7 0x80 [(''CLR'', 0), (''SET'', 0x80)],
     Field ''CCU2'' 10 0x400 [(''CLR'', 0), (''SET'', 0x400)],
     Field ''CCU3'' 11 0x800 [(''CLR'', 0), (''SET'', 0x800)],
     Field ''CCD4'' 12 0x1000 [(''CLR'', 0), (''SET'', 0x1000)],
     Field ''CCD5'' 13 0x2000 [(''CLR'', 0), (''SET'', 0x2000)],
     Field ''CCU4'' 14 0x4000 [(''CLR'', 0), (''SET'', 0x4000)],
     Field ''CCU5'' 15 0x8000 [(''CLR'', 0), (''SET'', 0x8000)],
     Field ''REPC'' 26 0x4000000 [(''CLR'', 0), (''SET'', 0x4000000)]]"

definition GPTIMER_GEN_EVENT0_MIS_Bits :: fields where
  "GPTIMER_GEN_EVENT0_MIS_Bits =
    [Field ''Z'' 0 0x1 [(''CLR'', 0), (''SET'', 1)],
     Field ''L'' 1 0x2 [(''CLR'', 0), (''SET'', 2)],
     Field ''CCD0'' 4 0x10 [(''CLR'', 0), (''SET'', 0x10)],
     Field ''CCD1'' 5 0x20 [(''CLR'', 0), (''SET'', 0x20)],
     Field ''CCU0'' 8 0x100 [(''CLR'', 0), (''SET'', 0x100)],
     Field ''CCU1'' 9 0x200 [(''CLR'', 0), (''SET'', 0x200)],
     Field ''F'' 24 0x1000000 [(''CLR'', 0), (''SET'', 0x1000000)],
     Field ''TOV'' 25 0x2000000 [(''CLR'', 0), (''SET'', 0x2000000)],
     Field ''DC'' 27 0x8000000 [(''CLR'', 0), (''SET'', 0x8000000)],
     Field ''QEIERR'' 28 0x10000000 [(''CLR'', 0), (''SET'', 0x10000000)],
     Field ''CCD2'' 6 0x40 [(''CLR'', 0), (''SET'', 0x40)],
     Field ''CCD3'' 7 0x80 [(''CLR'', 0), (''SET'', 0x80)],
     Field ''CCU2'' 10 0x400 [(''CLR'', 0), (''SET'', 0x400)],
     Field ''CCU3'' 11 0x800 [(''CLR'', 0), (''SET'', 0x800)],
     Field ''CCD4'' 12 0x1000 [(''CLR'', 0), (''SET'', 0x1000)],
     Field ''CCD5'' 13 0x2000 [(''CLR'', 0), (''SET'', 0x2000)],
     Field ''CCU4'' 14 0x4000 [(''CLR'', 0), (''SET'', 0x4000)],
     Field ''CCU5'' 15 0x8000 [(''CLR'', 0), (''SET'', 0x8000)],
     Field ''REPC'' 26 0x4000000 [(''CLR'', 0), (''SET'', 0x4000000)]]"

definition GPTIMER_GEN_EVENT0_ISET_Bits :: fields where
  "GPTIMER_GEN_EVENT0_ISET_Bits =
    [Field ''Z'' 0 0x1 [(''NO_EFFECT'', 0), (''SET'', 1)],
     Field ''L'' 1 0x2 [(''NO_EFFECT'', 0), (''SET'', 2)],
     Field ''CCD0'' 4 0x10 [(''NO_EFFECT'', 0), (''SET'', 0x10)],
     Field ''CCD1'' 5 0x20 [(''NO_EFFECT'', 0), (''SET'', 0x20)],
     Field ''CCU0'' 8 0x100 [(''NO_EFFECT'', 0), (''SET'', 0x100)],
     Field ''CCU1'' 9 0x200 [(''NO_EFFECT'', 0), (''SET'', 0x200)],
     Field ''F'' 24 0x1000000 [(''NO_EFFECT'', 0), (''SET'', 0x1000000)],
     Field ''TOV'' 25 0x2000000 [(''NO_EFFECT'', 0), (''SET'', 0x2000000)],
     Field ''DC'' 27 0x8000000 [(''NO_EFFECT'', 0), (''SET'', 0x8000000)],
     Field ''QEIERR'' 28 0x10000000 [(''NO_EFFECT'', 0), (''SET'', 0x10000000)],
     Field ''CCD2'' 6 0x40 [(''NO_EFFECT'', 0), (''SET'', 0x40)],
     Field ''CCD3'' 7 0x80 [(''NO_EFFECT'', 0), (''SET'', 0x80)],
     Field ''CCU2'' 10 0x400 [(''NO_EFFECT'', 0), (''SET'', 0x400)],
     Field ''CCU3'' 11 0x800 [(''NO_EFFECT'', 0), (''SET'', 0x800)],
     Field ''CCD4'' 12 0x1000 [(''NO_EFFECT'', 0), (''SET'', 0x1000)],
     Field ''CCD5'' 13 0x2000 [(''NO_EFFECT'', 0), (''SET'', 0x2000)],
     Field ''CCU4'' 14 0x4000 [(''NO_EFFECT'', 0), (''SET'', 0x4000)],
     Field ''CCU5'' 15 0x8000 [(''NO_EFFECT'', 0), (''SET'', 0x8000)],
     Field ''REPC'' 26 0x4000000 [(''NO_EFFECT'', 0), (''SET'', 0x4000000)]]"

definition GPTIMER_GEN_EVENT0_ICLR_Bits :: fields where
  "GPTIMER_GEN_EVENT0_ICLR_Bits =
    [Field ''Z'' 0 0x1 [(''NO_EFFECT'', 0), (''CLR'', 1)],
     Field ''L'' 1 0x2 [(''NO_EFFECT'', 0), (''CLR'', 2)],
     Field ''CCD0'' 4 0x10 [(''NO_EFFECT'', 0), (''CLR'', 0x10)],
     Field ''CCD1'' 5 0x20 [(''NO_EFFECT'', 0), (''CLR'', 0x20)],
     Field ''CCU0'' 8 0x100 [(''NO_EFFECT'', 0), (''CLR'', 0x100)],
     Field ''CCU1'' 9 0x200 [(''NO_EFFECT'', 0), (''CLR'', 0x200)],
     Field ''F'' 24 0x1000000 [(''NO_EFFECT'', 0), (''CLR'', 0x1000000)],
     Field ''TOV'' 25 0x2000000 [(''NO_EFFECT'', 0), (''CLR'', 0x2000000)],
     Field ''DC'' 27 0x8000000 [(''NO_EFFECT'', 0), (''CLR'', 0x8000000)],
     Field ''QEIERR'' 28 0x10000000 [(''NO_EFFECT'', 0), (''CLR'', 0x10000000)],
     Field ''CCD2'' 6 0x40 [(''NO_EFFECT'', 0), (''CLR'', 0x40)],
     Field ''CCD3'' 7 0x80 [(''NO_EFFECT'', 0), (''CLR'', 0x80)],
     Field ''CCU2'' 10 0x400 [(''NO_EFFECT'', 0), (''CLR'', 0x400)],
     Field ''CCU3'' 11 0x800 [(''NO_EFFECT'', 0), (''CLR'', 0x800)],
     Field ''CCD4'' 12 0x1000 [(''NO_EFFECT'', 0), (''CLR'', 0x1000)],
     Field ''CCD5'' 13 0x2000 [(''NO_EFFECT'', 0), (''CLR'', 0x2000)],
     Field ''CCU4'' 14 0x4000 [(''NO_EFFECT'', 0), (''CLR'', 0x4000)],
     Field ''CCU5'' 15 0x8000 [(''NO_EFFECT'', 0), (''CLR'', 0x8000)],
     Field ''REPC'' 26 0x4000000 [(''NO_EFFECT'', 0), (''CLR'', 0x4000000)]]"

definition GPTIMER_CPU_INT_IIDX_Bits :: fields where
  "GPTIMER_CPU_INT_IIDX_Bits =
    [Field ''STAT'' 0 0xff [
       (''NO_INTR'', 0), (''Z'', 1), (''L'', 2), (''CCD0'', 5), (''CCD1'', 6), (''CCD2'', 7), (''CCD3'', 8),
       (''CCU0'', 9), (''CCU1'', 0xa), (''CCU2'', 0xb), (''CCU3'', 0xc), (''CCD4'', 0xd), (''CCD5'', 0xe),
       (''CCU4'', 0xf), (''CCU5'', 0x10), (''F'', 0x19), (''TOV'', 0x1a), (''REPC'', 0x1b), (''DC'', 0x1c),
       (''QEIERR'', 0x1d)]]"

definition GPTIMER_CPU_INT_IMASK_Bits :: fields where
  "GPTIMER_CPU_INT_IMASK_Bits =
    [Field ''Z'' 0 0x1 [(''CLR'', 0), (''SET'', 1)],
     Field ''L'' 1 0x2 [(''CLR'', 0), (''SET'', 2)],
     Field ''CCD0'' 4 0x10 [(''CLR'', 0), (''SET'', 0x10)],
     Field ''CCD1'' 5 0x20 [(''CLR'', 0), (''SET'', 0x20)],
     Field ''CCU0'' 8 0x100 [(''CLR'', 0), (''SET'', 0x100)],
     Field ''CCU1'' 9 0x200 [(''CLR'', 0), (''SET'', 0x200)],
     Field ''F'' 24 0x1000000 [(''CLR'', 0), (''SET'', 0x1000000)],
     Field ''TOV'' 25 0x2000000 [(''CLR'', 0), (''SET'', 0x2000000)],
     Field ''DC'' 27 0x8000000 [(''CLR'', 0), (''SET'', 0x8000000)],
     Field ''QEIERR'' 28 0x10000000 [(''CLR'', 0), (''SET'', 0x10000000)],
     Field ''CCD2'' 6 0x40 [(''CLR'', 0), (''SET'', 0x40)],
     Field ''CCD3'' 7 0x80 [(''CLR'', 0), (''SET'', 0x80)],
     Field ''CCU2'' 10 0x400 [(''CLR'', 0), (''SET'', 0x400)],
     Field ''CCU3'' 11 0x800 [(''CLR'', 0), (''SET'', 0x800)],
     Field ''CCD4'' 12 0x1000 [(''CLR'', 0), (''SET'', 0x1000)],
     Field ''CCD5'' 13 0x2000 [(''CLR'', 0), (''SET'', 0x2000)],
     Field ''CCU4'' 14 0x4000 [(''CLR'', 0), (''SET'', 0x4000)],
     Field ''CCU5'' 15 0x8000 [(''CLR'', 0), (''SET'', 0x8000)],
     Field ''REPC'' 26 0x4000000 [(''CLR'', 0), (''SET'', 0x4000000)]]"

definition GPTIMER_CPU_INT_RIS_Bits :: fields where
  "GPTIMER_CPU_INT_RIS_Bits =
    [Field ''Z'' 0 0x1 [(''CLR'', 0), (''SET'', 1)],
     Field ''L'' 1 0x2 [(''CLR'', 0), (''SET'', 2)],
     Field ''CCD0'' 4 0x10 [(''CLR'', 0), (''SET'', 0x10)],
     Field ''CCD1'' 5 0x20 [(''CLR'', 0), (''SET'', 0x20)],
     Field ''CCU0'' 8 0x100 [(''CLR'', 0), (''SET'', 0x100)],
     Field ''CCU1'' 9 0x200 [(''CLR'', 0), (''SET'', 0x200)],
     Field ''TOV'' 25 0x2000000 [(''CLR'', 0), (''SET'', 0x2000000)],
     Field ''F'' 24 0x1000000 [(''CLR'', 0), (''SET'', 0x1000000)],
     Field ''DC'' 27 0x8000000 [(''CLR'', 0), (''SET'', 0x8000000)],
     Field ''QEIERR'' 28 0x10000000 [(''CLR'', 0), (''SET'', 0x10000000)],
     Field ''CCD2'' 6 0x40 [(''CLR'', 0), (''SET'', 0x40)],
     Field ''CCD3'' 7 0x80 [(''CLR'', 0), (''SET'', 0x80)],
     Field ''CCU2'' 10 0x400 [(''CLR'', 0), (''SET'', 0x400)],
     Field ''CCU3'' 11 0x800 [(''CLR'', 0), (''SET'', 0x800)],
     Field ''CCD4'' 12 0x1000 [(''CLR'', 0), (''SET'', 0x1000)],
     Field ''CCD5'' 13 0x2000 [(''CLR'', 0), (''SET'', 0x2000)],
     Field ''CCU4'' 14 0x4000 [(''CLR'', 0), (''SET'', 0x4000)],
     Field ''CCU5'' 15 0x8000 [(''CLR'', 0), (''SET'', 0x8000)],
     Field ''REPC'' 26 0x4000000 [(''CLR'', 0), (''SET'', 0x4000000)]]"

definition GPTIMER_CPU_INT_MIS_Bits :: fields where
  "GPTIMER_CPU_INT_MIS_Bits =
    [Field ''Z'' 0 0x1 [(''CLR'', 0), (''SET'', 1)],
     Field ''L'' 1 0x2 [(''CLR'', 0), (''SET'', 2)],
     Field ''CCD0'' 4 0x10 [(''CLR'', 0), (''SET'', 0x10)],
     Field ''CCD1'' 5 0x20 [(''CLR'', 0), (''SET'', 0x20)],
     Field ''CCU0'' 8 0x100 [(''CLR'', 0), (''SET'', 0x100)],
     Field ''CCU1'' 9 0x200 [(''CLR'', 0), (''SET'', 0x200)],
     Field ''F'' 24 0x1000000 [(''CLR'', 0), (''SET'', 0x1000000)],
     Field ''TOV'' 25 0x2000000 [(''CLR'', 0), (''SET'', 0x2000000)],
     Field ''DC'' 27 0x8000000 [(''CLR'', 0), (''SET'', 0x8000000)],
     Field ''QEIERR'' 28 0x10000000 [(''CLR'', 0), (''SET'', 0x10000000)],
     Field ''CCD2'' 6 0x40 [(''CLR'', 0), (''SET'', 0x40)],
     Field ''CCD3'' 7 0x80 [(''CLR'', 0), (''SET'', 0x80)],
     Field ''CCU2'' 10 0x400 [(''CLR'', 0), (''SET'', 0x400)],
     Field ''CCU3'' 11 0x800 [(''CLR'', 0), (''SET'', 0x800)],
     Field ''CCD4'' 12 0x1000 [(''CLR'', 0), (''SET'', 0x1000)],
     Field ''CCD5'' 13 0x2000 [(''CLR'', 0), (''SET'', 0x2000)],
     Field ''CCU4'' 14 0x4000 [(''CLR'', 0), (''SET'', 0x4000)],
     Field ''CCU5'' 15 0x8000 [(''CLR'', 0), (''SET'', 0x8000)],
     Field ''REPC'' 26 0x4000000 [(''CLR'', 0), (''SET'', 0x4000000)]]"

definition GPTIMER_CPU_INT_ISET_Bits :: fields where
  "GPTIMER_CPU_INT_ISET_Bits =
    [Field ''Z'' 0 0x1 [(''NO_EFFECT'', 0), (''SET'', 1)],
     Field ''L'' 1 0x2 [(''NO_EFFECT'', 0), (''SET'', 2)],
     Field ''CCD0'' 4 0x10 [(''NO_EFFECT'', 0), (''SET'', 0x10)],
     Field ''CCD1'' 5 0x20 [(''NO_EFFECT'', 0), (''SET'', 0x20)],
     Field ''CCU0'' 8 0x100 [(''NO_EFFECT'', 0), (''SET'', 0x100)],
     Field ''CCU1'' 9 0x200 [(''NO_EFFECT'', 0), (''SET'', 0x200)],
     Field ''F'' 24 0x1000000 [(''NO_EFFECT'', 0), (''SET'', 0x1000000)],
     Field ''TOV'' 25 0x2000000 [(''NO_EFFECT'', 0), (''SET'', 0x2000000)],
     Field ''DC'' 27 0x8000000 [(''NO_EFFECT'', 0), (''SET'', 0x8000000)],
     Field ''QEIERR'' 28 0x10000000 [(''NO_EFFECT'', 0), (''SET'', 0x10000000)],
     Field ''CCD2'' 6 0x40 [(''NO_EFFECT'', 0), (''SET'', 0x40)],
     Field ''CCD3'' 7 0x80 [(''NO_EFFECT'', 0), (''SET'', 0x80)],
     Field ''CCU2'' 10 0x400 [(''NO_EFFECT'', 0), (''SET'', 0x400)],
     Field ''CCU3'' 11 0x800 [(''NO_EFFECT'', 0), (''SET'', 0x800)],
     Field ''CCD4'' 12 0x1000 [(''NO_EFFECT'', 0), (''SET'', 0x1000)],
     Field ''CCD5'' 13 0x2000 [(''NO_EFFECT'', 0), (''SET'', 0x2000)],
     Field ''CCU4'' 14 0x4000 [(''NO_EFFECT'', 0), (''SET'', 0x4000)],
     Field ''CCU5'' 15 0x8000 [(''NO_EFFECT'', 0), (''SET'', 0x8000)],
     Field ''REPC'' 26 0x4000000 [(''NO_EFFECT'', 0), (''SET'', 0x4000000)]]"

definition GPTIMER_CPU_INT_ICLR_Bits :: fields where
  "GPTIMER_CPU_INT_ICLR_Bits =
    [Field ''Z'' 0 0x1 [(''NO_EFFECT'', 0), (''CLR'', 1)],
     Field ''L'' 1 0x2 [(''NO_EFFECT'', 0), (''CLR'', 2)],
     Field ''CCD0'' 4 0x10 [(''NO_EFFECT'', 0), (''CLR'', 0x10)],
     Field ''CCD1'' 5 0x20 [(''NO_EFFECT'', 0), (''CLR'', 0x20)],
     Field ''CCU0'' 8 0x100 [(''NO_EFFECT'', 0), (''CLR'', 0x100)],
     Field ''CCU1'' 9 0x200 [(''NO_EFFECT'', 0), (''CLR'', 0x200)],
     Field ''F'' 24 0x1000000 [(''NO_EFFECT'', 0), (''CLR'', 0x1000000)],
     Field ''TOV'' 25 0x2000000 [(''NO_EFFECT'', 0), (''CLR'', 0x2000000)],
     Field ''DC'' 27 0x8000000 [(''NO_EFFECT'', 0), (''CLR'', 0x8000000)],
     Field ''QEIERR'' 28 0x10000000 [(''NO_EFFECT'', 0), (''CLR'', 0x10000000)],
     Field ''CCD2'' 6 0x40 [(''NO_EFFECT'', 0), (''CLR'', 0x40)],
     Field ''CCD3'' 7 0x80 [(''NO_EFFECT'', 0), (''CLR'', 0x80)],
     Field ''CCU2'' 10 0x400 [(''NO_EFFECT'', 0), (''CLR'', 0x400)],
     Field ''CCU3'' 11 0x800 [(''NO_EFFECT'', 0), (''CLR'', 0x800)],
     Field ''CCD4'' 12 0x1000 [(''NO_EFFECT'', 0), (''CLR'', 0x1000)],
     Field ''CCD5'' 13 0x2000 [(''NO_EFFECT'', 0), (''CLR'', 0x2000)],
     Field ''CCU4'' 14 0x4000 [(''NO_EFFECT'', 0), (''CLR'', 0x4000)],
     Field ''CCU5'' 15 0x8000 [(''NO_EFFECT'', 0), (''CLR'', 0x8000)],
     Field ''REPC'' 26 0x4000000 [(''NO_EFFECT'', 0), (''CLR'', 0x4000000)]]"

definition GPTIMER_PWREN_Bits :: fields where
  "GPTIMER_PWREN_Bits =
    [Field ''ENABLE'' 0 0x1 [(''DISABLE'', 0), (''ENABLE'', 1)],
     Field ''KEY'' 24 0xff000000 [(''UNLOCK_W'', 0x26000000)]]"

definition GPTIMER_RSTCTL_Bits :: fields where
  "GPTIMER_RSTCTL_Bits =
    [Field ''RESETSTKYCLR'' 1 0x2 [(''NOP'', 0), (''CLR'', 2)],
     Field ''RESETASSERT'' 0 0x1 [(''NOP'', 0), (''ASSERT'', 1)],
     Field ''KEY'' 24 0xff000000 [(''UNLOCK_W'', 0xb1000000)]]"

definition GPTIMER_STAT_Bits :: fields where
  "GPTIMER_STAT_Bits =
    [Field ''RESETSTKY'' 16 0x10000 [(''NORES'', 0), (''RESET'', 0x10000)]]"

definition GPTIMER_FSUB_0_Bits :: fields where
  "GPTIMER_FSUB_0_Bits =
    [Field ''CHANID'' 0 0xff [(''MNIMUM'', 0), (''UNCONNECTED'', 0), (''MAXIMUM'', 0xf)]]"

definition GPTIMER_FSUB_1_Bits :: fields where
  "GPTIMER_FSUB_1_Bits =
    [Field ''CHANID'' 0 0xff [(''MNIMUM'', 0), (''UNCONNECTED'', 0), (''MAXIMUM'', 0xf)]]"

definition GPTIMER_FPUB_0_Bits :: fields where
  "GPTIMER_FPUB_0_Bits =
    [Field ''CHANID'' 0 0xff [(''MNIMUM'', 0), (''UNCONNECTED'', 0), (''MAXIMUM'', 0xf)]]"

definition GPTIMER_FPUB_1_Bits :: fields where
  "GPTIMER_FPUB_1_Bits =
    [Field ''CHANID'' 0 0xff [(''MNIMUM'', 0), (''UNCONNECTED'', 0), (''MAXIMUM'', 0xf)]]"

definition GPTIMER_CLKDIV_Bits :: fields where
  "GPTIMER_CLKDIV_Bits =
    [Field ''RATIO'' 0 0x7 [
       (''DIV_BY_1'', 0), (''DIV_BY_2'', 1), (''DIV_BY_3'', 2), (''DIV_BY_4'', 3), (''DIV_BY_5'', 4), (''DIV_BY_6'', 5),
       (''DIV_BY_7'', 6), (''DIV_BY_8'', 7)]]"

definition GPTIMER_CLKSEL_Bits :: fields where
  "GPTIMER_CLKSEL_Bits =
    [Field ''LFCLK_SEL'' 1 0x2 [(''DISABLE'', 0), (''ENABLE'', 2)],
     Field ''MFCLK_SEL'' 2 0x4 [(''DISABLE'', 0), (''ENABLE'', 4)],
     Field ''BUSCLK_SEL'' 3 0x8 [(''DISABLE'', 0), (''ENABLE'', 8)],
     Field ''BUS2XCLK_SEL'' 4 0x10 [(''DISABLE'', 0), (''ENABLE'', 0x10)]]"

definition GPTIMER_PDBGCTL_Bits :: fields where
  "GPTIMER_PDBGCTL_Bits =
    [Field ''FREE'' 0 0x1 [(''STOP'', 0), (''RUN'', 1)],
     Field ''SOFT'' 1 0x2 [(''IMMEDIATE'', 0), (''DELAYED'', 2)]]"

definition GPTIMER_EVT_MODE_Bits :: fields where
  "GPTIMER_EVT_MODE_Bits =
    [Field ''EVT0_CFG'' 0 0x3 [(''DISABLE'', 0), (''SOFTWARE'', 1), (''HARDWARE'', 2)],
     Field ''EVT1_CFG'' 2 0xc [(''DISABLE'', 0), (''SOFTWARE'', 4), (''HARDWARE'', 8)],
     Field ''EVT2_CFG'' 4 0x30 [(''DISABLE'', 0), (''SOFTWARE'', 0x10), (''HARDWARE'', 0x20)]]"

definition GPTIMER_DESC_Bits :: fields where
  "GPTIMER_DESC_Bits =
    [Field ''MINREV'' 0 0xf [(''MINIMUM'', 0), (''MAXIMUM'', 0xf)],
     Field ''MAJREV'' 4 0xf0 [(''MINIMUM'', 0), (''MAXIMUM'', 0xf0)],
     Field ''INSTNUM'' 8 0xf00 [(''MINIMUM'', 0), (''MAXIMUM'', 0xf00)],
     Field ''FEATUREVER'' 12 0xf000 [(''MINIMUM'', 0), (''MAXIMUM'', 0xf000)],
     Field ''MODULEID'' 16 0xffff0000 [(''MINIMUM'', 0), (''MAXIMUM'', 0xffff0000)]]"

definition GPTIMER_bits :: field_table where
  "GPTIMER_bits =
    [([''FSUB_0''], GPTIMER_FSUB_0_Bits), ([''FSUB_1''], GPTIMER_FSUB_1_Bits), ([''FPUB_0''], GPTIMER_FPUB_0_Bits),
     ([''FPUB_1''], GPTIMER_FPUB_1_Bits), ([''GPRCM'', ''PWREN''], GPTIMER_PWREN_Bits),
     ([''GPRCM'', ''RSTCTL''], GPTIMER_RSTCTL_Bits), ([''GPRCM'', ''STAT''], GPTIMER_STAT_Bits),
     ([''CLKDIV''], GPTIMER_CLKDIV_Bits), ([''CLKSEL''], GPTIMER_CLKSEL_Bits), ([''PDBGCTL''], GPTIMER_PDBGCTL_Bits),
     ([''CPU_INT'', ''IIDX''], GPTIMER_CPU_INT_IIDX_Bits), ([''CPU_INT'', ''IMASK''], GPTIMER_CPU_INT_IMASK_Bits),
     ([''CPU_INT'', ''RIS''], GPTIMER_CPU_INT_RIS_Bits), ([''CPU_INT'', ''MIS''], GPTIMER_CPU_INT_MIS_Bits),
     ([''CPU_INT'', ''ISET''], GPTIMER_CPU_INT_ISET_Bits), ([''CPU_INT'', ''ICLR''], GPTIMER_CPU_INT_ICLR_Bits),
     ([''GEN_EVENT0'', ''IIDX''], GPTIMER_GEN_EVENT0_IIDX_Bits),
     ([''GEN_EVENT0'', ''IMASK''], GPTIMER_GEN_EVENT0_IMASK_Bits),
     ([''GEN_EVENT0'', ''RIS''], GPTIMER_GEN_EVENT0_RIS_Bits), ([''GEN_EVENT0'', ''MIS''], GPTIMER_GEN_EVENT0_MIS_Bits),
     ([''GEN_EVENT0'', ''ISET''], GPTIMER_GEN_EVENT0_ISET_Bits),
     ([''GEN_EVENT0'', ''ICLR''], GPTIMER_GEN_EVENT0_ICLR_Bits),
     ([''GEN_EVENT1'', ''IIDX''], GPTIMER_GEN_EVENT1_IIDX_Bits),
     ([''GEN_EVENT1'', ''IMASK''], GPTIMER_GEN_EVENT1_IMASK_Bits),
     ([''GEN_EVENT1'', ''RIS''], GPTIMER_GEN_EVENT1_RIS_Bits), ([''GEN_EVENT1'', ''MIS''], GPTIMER_GEN_EVENT1_MIS_Bits),
     ([''GEN_EVENT1'', ''ISET''], GPTIMER_GEN_EVENT1_ISET_Bits),
     ([''GEN_EVENT1'', ''ICLR''], GPTIMER_GEN_EVENT1_ICLR_Bits), ([''EVT_MODE''], GPTIMER_EVT_MODE_Bits),
     ([''DESC''], GPTIMER_DESC_Bits), ([''COMMONREGS'', ''CCPD''], GPTIMER_CCPD_Bits),
     ([''COMMONREGS'', ''ODIS''], GPTIMER_ODIS_Bits), ([''COMMONREGS'', ''CCLKCTL''], GPTIMER_CCLKCTL_Bits),
     ([''COMMONREGS'', ''CPS''], GPTIMER_CPS_Bits), ([''COMMONREGS'', ''CPSV''], GPTIMER_CPSV_Bits),
     ([''COMMONREGS'', ''CTTRIGCTL''], GPTIMER_CTTRIGCTL_Bits), ([''COMMONREGS'', ''CTTRIG''], GPTIMER_CTTRIG_Bits),
     ([''COMMONREGS'', ''FSCTL''], GPTIMER_FSCTL_Bits), ([''COMMONREGS'', ''GCTL''], GPTIMER_GCTL_Bits),
     ([''COUNTERREGS'', ''CTR''], GPTIMER_CTR_Bits), ([''COUNTERREGS'', ''CTRCTL''], GPTIMER_CTRCTL_Bits),
     ([''COUNTERREGS'', ''LOAD''], GPTIMER_LOAD_Bits), ([''COUNTERREGS'', ''CC_01''], GPTIMER_CC_01_Bits),
     ([''COUNTERREGS'', ''CC_23''], GPTIMER_CC_23_Bits), ([''COUNTERREGS'', ''CC_45''], GPTIMER_CC_45_Bits),
     ([''COUNTERREGS'', ''CCCTL_01''], GPTIMER_CCCTL_01_Bits), ([''COUNTERREGS'', ''CCCTL_23''], GPTIMER_CCCTL_23_Bits),
     ([''COUNTERREGS'', ''CCCTL_45''], GPTIMER_CCCTL_45_Bits), ([''COUNTERREGS'', ''OCTL_01''], GPTIMER_OCTL_01_Bits),
     ([''COUNTERREGS'', ''OCTL_23''], GPTIMER_OCTL_23_Bits), ([''COUNTERREGS'', ''CCACT_01''], GPTIMER_CCACT_01_Bits),
     ([''COUNTERREGS'', ''CCACT_23''], GPTIMER_CCACT_23_Bits), ([''COUNTERREGS'', ''IFCTL_01''], GPTIMER_IFCTL_01_Bits),
     ([''COUNTERREGS'', ''IFCTL_23''], GPTIMER_IFCTL_23_Bits), ([''COUNTERREGS'', ''PL''], GPTIMER_PL_Bits),
     ([''COUNTERREGS'', ''DBCTL''], GPTIMER_DBCTL_Bits), ([''COUNTERREGS'', ''TSEL''], GPTIMER_TSEL_Bits),
     ([''COUNTERREGS'', ''RC''], GPTIMER_RC_Bits), ([''COUNTERREGS'', ''RCLD''], GPTIMER_RCLD_Bits),
     ([''COUNTERREGS'', ''QDIR''], GPTIMER_QDIR_Bits), ([''COUNTERREGS'', ''FCTL''], GPTIMER_FCTL_Bits),
     ([''COUNTERREGS'', ''FIFCTL''], GPTIMER_FIFCTL_Bits)]"

lemmas GPTIMER_Bits_defs = GPTIMER_CTR_Bits_def GPTIMER_CTRCTL_Bits_def GPTIMER_LOAD_Bits_def GPTIMER_CC_01_Bits_def
  GPTIMER_CC_23_Bits_def GPTIMER_CC_45_Bits_def GPTIMER_CCCTL_01_Bits_def GPTIMER_CCCTL_23_Bits_def
  GPTIMER_CCCTL_45_Bits_def GPTIMER_OCTL_01_Bits_def GPTIMER_OCTL_23_Bits_def GPTIMER_CCACT_01_Bits_def
  GPTIMER_CCACT_23_Bits_def GPTIMER_IFCTL_01_Bits_def GPTIMER_IFCTL_23_Bits_def GPTIMER_PL_Bits_def
  GPTIMER_DBCTL_Bits_def GPTIMER_TSEL_Bits_def GPTIMER_RC_Bits_def GPTIMER_RCLD_Bits_def GPTIMER_QDIR_Bits_def
  GPTIMER_FCTL_Bits_def GPTIMER_FIFCTL_Bits_def GPTIMER_CCPD_Bits_def GPTIMER_ODIS_Bits_def GPTIMER_CCLKCTL_Bits_def
  GPTIMER_CPS_Bits_def GPTIMER_CPSV_Bits_def GPTIMER_CTTRIGCTL_Bits_def GPTIMER_CTTRIG_Bits_def GPTIMER_FSCTL_Bits_def
  GPTIMER_GCTL_Bits_def GPTIMER_GEN_EVENT1_IIDX_Bits_def GPTIMER_GEN_EVENT1_IMASK_Bits_def
  GPTIMER_GEN_EVENT1_RIS_Bits_def GPTIMER_GEN_EVENT1_MIS_Bits_def GPTIMER_GEN_EVENT1_ISET_Bits_def
  GPTIMER_GEN_EVENT1_ICLR_Bits_def GPTIMER_GEN_EVENT0_IIDX_Bits_def GPTIMER_GEN_EVENT0_IMASK_Bits_def
  GPTIMER_GEN_EVENT0_RIS_Bits_def GPTIMER_GEN_EVENT0_MIS_Bits_def GPTIMER_GEN_EVENT0_ISET_Bits_def
  GPTIMER_GEN_EVENT0_ICLR_Bits_def GPTIMER_CPU_INT_IIDX_Bits_def GPTIMER_CPU_INT_IMASK_Bits_def
  GPTIMER_CPU_INT_RIS_Bits_def GPTIMER_CPU_INT_MIS_Bits_def GPTIMER_CPU_INT_ISET_Bits_def
  GPTIMER_CPU_INT_ICLR_Bits_def GPTIMER_PWREN_Bits_def GPTIMER_RSTCTL_Bits_def GPTIMER_STAT_Bits_def
  GPTIMER_FSUB_0_Bits_def GPTIMER_FSUB_1_Bits_def GPTIMER_FPUB_0_Bits_def GPTIMER_FPUB_1_Bits_def
  GPTIMER_CLKDIV_Bits_def GPTIMER_CLKSEL_Bits_def GPTIMER_PDBGCTL_Bits_def GPTIMER_EVT_MODE_Bits_def
  GPTIMER_DESC_Bits_def

lemma GPTIMER_bits_describes: "describes GPTIMER_bits GPTIMER_Regs"
  by (simp add: describes_def GPTIMER_bits_def layout_defs, (intro conjI; simp add: GPTIMER_Bits_defs))

lemma GPTIMER_bits_strays: "strays GPTIMER_bits = []"
  by (rule no_strays) (simp add: GPTIMER_bits_def, (intro conjI; simp add: GPTIMER_Bits_defs))

end
