(* ===== verification/I2C_Fields.thy ===== *)
theory I2C_Fields
  imports Device_Fields
begin

text \<open>
  The bit fields of \<open>hw_i2c.h\<close>: the offset, the mask and the named values of every field, register by
  register.
\<close>

section \<open>\<open>hw_i2c.h\<close>\<close>

definition I2C_SOAR_Bits :: fields where
  "I2C_SOAR_Bits =
    [Field ''OAR'' 0 0x3ff [(''MINIMUM'', 0), (''MAXIMUM'', 0x3ff)],
     Field ''OAREN'' 14 0x4000 [(''DISABLE'', 0), (''ENABLE'', 0x4000)],
     Field ''SMODE'' 15 0x8000 [(''MODE7'', 0), (''MODE10'', 0x8000)]]"

definition I2C_SOAR2_Bits :: fields where
  "I2C_SOAR2_Bits =
    [Field ''OAR2'' 0 0x7f [(''MINIMUM'', 0), (''MAXIMUM'', 0x7f)],
     Field ''OAR2EN'' 7 0x80 [(''DISABLE'', 0), (''ENABLE'', 0x80)],
     Field ''OAR2_MASK'' 16 0x7f0000 [(''MINIMUM'', 0), (''MAXIMUM'', 0x7f0000)]]"

definition I2C_SCTR_Bits :: fields where
  "I2C_SCTR_Bits =
    [Field ''ACTIVE'' 0 0x1 [(''DISABLE'', 0), (''ENABLE'', 1)],
     Field ''GENCALL'' 1 0x2 [(''DISABLE'', 0), (''ENABLE'', 2)],
     Field ''SCLKSTRETCH'' 2 0x4 [(''DISABLE'', 0), (''ENABLE'', 4)],
     Field ''TXEMPTY_ON_TREQ'' 3 0x8 [(''DISABLE'', 0), (''ENABLE'', 8)],
     Field ''TXTRIG_TXMODE'' 4 0x10 [(''DISABLE'', 0), (''ENABLE'', 0x10)],
     Field ''TXWAIT_STALE_TXFIFO'' 5 0x20 [(''DISABLE'', 0), (''ENABLE'', 0x20)],
     Field ''RXFULL_ON_RREQ'' 6 0x40 [(''DISABLE'', 0), (''ENABLE'', 0x40)],
     Field ''EN_DEFHOSTADR'' 7 0x80 [(''DISABLE'', 0), (''ENABLE'', 0x80)],
     Field ''EN_ALRESPADR'' 8 0x100 [(''DISABLE'', 0), (''ENABLE'', 0x100)],
     Field ''EN_DEFDEVADR'' 9 0x200 [(''DISABLE'', 0), (''ENABLE'', 0x200)],
     Field ''SWUEN'' 10 0x400 [(''DISABLE'', 0), (''ENABLE'', 0x400)]]"

definition I2C_SSR_Bits :: fields where
  "I2C_SSR_Bits =
    [Field ''RREQ'' 0 0x1 [(''CLEARED'', 0), (''SET'', 1)],
     Field ''TREQ'' 1 0x2 [(''CLEARED'', 0), (''SET'', 2)],
     Field ''OAR2SEL'' 3 0x8 [(''CLEARED'', 0), (''SET'', 8)],
     Field ''QCMDST'' 4 0x10 [(''CLEARED'', 0), (''SET'', 0x10)],
     Field ''QCMDRW'' 5 0x20 [(''CLEARED'', 0), (''SET'', 0x20)],
     Field ''RXMODE'' 2 0x4 [(''CLEARED'', 0), (''SET'', 4)],
     Field ''BUSBSY'' 6 0x40 [(''CLEARED'', 0), (''SET'', 0x40)],
     Field ''TXMODE'' 7 0x80 [(''CLEARED'', 0), (''SET'', 0x80)],
     Field ''STALE_TXFIFO'' 8 0x100 [(''CLEARED'', 0), (''SET'', 0x100)],
     Field ''ADDRMATCH'' 9 0x7fe00 [(''MINIMUM'', 0), (''MAXIMUM'', 0x7fe00)]]"

definition I2C_SRXDATA_Bits :: fields where
  "I2C_SRXDATA_Bits =
    [Field ''VALUE'' 0 0xff [(''MINIMUM'', 0), (''MAXIMUM'', 0xff)]]"

definition I2C_STXDATA_Bits :: fields where
  "I2C_STXDATA_Bits =
    [Field ''VALUE'' 0 0xff [(''MINIMUM'', 0), (''MAXIMUM'', 0xff)]]"

definition I2C_SACKCTL_Bits :: fields where
  "I2C_SACKCTL_Bits =
    [Field ''ACKOEN'' 0 0x1 [(''DISABLE'', 0), (''ENABLE'', 1)],
     Field ''ACKOVAL'' 1 0x2 [(''DISABLE'', 0), (''ENABLE'', 2)],
     Field ''ACKOEN_ON_START'' 2 0x4 [(''DISABLE'', 0), (''ENABLE'', 4)],
     Field ''ACKOEN_ON_PECNEXT'' 3 0x8 [(''DISABLE'', 0), (''ENABLE'', 8)],
     Field ''ACKOEN_ON_PECDONE'' 4 0x10 [(''DISABLE'', 0), (''ENABLE'', 0x10)]]"

definition I2C_SFIFOCTL_Bits :: fields where
  "I2C_SFIFOCTL_Bits =
    [Field ''TXTRIG'' 0 0x7 [(''LEVEL_4'', 4), (''LEVEL_5'', 5), (''LEVEL_6'', 6), (''LEVEL_7'', 7)],
     Field ''TXFLUSH'' 7 0x80 [(''NOFLUSH'', 0), (''FLUSH'', 0x80)],
     Field ''RXFLUSH'' 15 0x8000 [(''NOFLUSH'', 0), (''FLUSH'', 0x8000)],
     Field ''RXTRIG'' 8 0x700 [(''LEVEL_5'', 0x400), (''LEVEL_6'', 0x500), (''LEVEL_7'', 0x600), (''LEVEL_8'', 0x700)]]"

definition I2C_SFIFOSR_Bits :: fields where
  "I2C_SFIFOSR_Bits =
    [Field ''RXFIFOCNT'' 0 0xf [(''MINIMUM'', 0), (''MAXIMUM'', 8)],
     Field ''TXFIFOCNT'' 8 0xf00 [(''MINIMUM'', 0), (''MAXIMUM'', 0x800)],
     Field ''TXFLUSH'' 15 0x8000 [(''INACTIVE'', 0), (''ACTIVE'', 0x8000)],
     Field ''RXFLUSH'' 7 0x80 [(''INACTIVE'', 0), (''ACTIVE'', 0x80)]]"

definition I2C_TARGET_PECCTL_Bits :: fields where
  "I2C_TARGET_PECCTL_Bits =
    [Field ''PECCNT'' 0 0x1ff [(''MINIMUM'', 0), (''MAXIMUM'', 0x1ff)],
     Field ''PECEN'' 12 0x1000 [(''DISABLE'', 0), (''ENABLE'', 0x1000)]]"

definition I2C_TARGET_PECSR_Bits :: fields where
  "I2C_TARGET_PECSR_Bits =
    [Field ''PECBYTECNT'' 0 0x1ff [(''MINIMUM'', 0), (''MAXIMUM'', 0x1ff)],
     Field ''PECSTS_CHECK'' 16 0x10000 [(''CLEARED'', 0), (''SET'', 0x10000)],
     Field ''PECSTS_ERROR'' 17 0x20000 [(''CLEARED'', 0), (''SET'', 0x20000)]]"

definition I2C_MSA_Bits :: fields where
  "I2C_MSA_Bits =
    [Field ''DIR'' 0 0x1 [(''TRANSMIT'', 0), (''RECEIVE'', 1)],
     Field ''SADDR'' 1 0x7fe [(''MINIMUM'', 0), (''MAXIMUM'', 0x7fe)],
     Field ''MMODE'' 15 0x8000 [(''MODE7'', 0), (''MODE10'', 0x8000)]]"

definition I2C_MCTR_Bits :: fields where
  "I2C_MCTR_Bits =
    [Field ''BURSTRUN'' 0 0x1 [(''DISABLE'', 0), (''ENABLE'', 1)],
     Field ''START'' 1 0x2 [(''DISABLE'', 0), (''ENABLE'', 2)],
     Field ''STOP'' 2 0x4 [(''DISABLE'', 0), (''ENABLE'', 4)],
     Field ''ACK'' 3 0x8 [(''DISABLE'', 0), (''ENABLE'', 8)],
     Field ''MBLEN'' 16 0xfff0000 [(''MINIMUM'', 0), (''MAXIMUM'', 0xfff0000)],
     Field ''MACKOEN'' 4 0x10 [(''DISABLE'', 0), (''ENABLE'', 0x10)],
     Field ''RD_ON_TXEMPTY'' 5 0x20 [(''DISABLE'', 0), (''ENABLE'', 0x20)]]"

definition I2C_MSR_Bits :: fields where
  "I2C_MSR_Bits =
    [Field ''BUSY'' 0 0x1 [(''CLEARED'', 0), (''SET'', 1)],
     Field ''ERR'' 1 0x2 [(''CLEARED'', 0), (''SET'', 2)],
     Field ''ADRACK'' 2 0x4 [(''CLEARED'', 0), (''SET'', 4)],
     Field ''DATACK'' 3 0x8 [(''CLEARED'', 0), (''SET'', 8)],
     Field ''ARBLST'' 4 0x10 [(''CLEARED'', 0), (''SET'', 0x10)],
     Field ''IDLE'' 5 0x20 [(''CLEARED'', 0), (''SET'', 0x20)],
     Field ''BUSBSY'' 6 0x40 [(''CLEARED'', 0), (''SET'', 0x40)],
     Field ''MBCNT'' 16 0xfff0000 [(''MINIMUM'', 0), (''MAXIMUM'', 0xfff0000)]]"

definition I2C_MRXDATA_Bits :: fields where
  "I2C_MRXDATA_Bits =
    [Field ''VALUE'' 0 0xff [(''MINIMUM'', 0), (''MAXIMUM'', 0xff)]]"

definition I2C_MTXDATA_Bits :: fields where
  "I2C_MTXDATA_Bits =
    [Field ''VALUE'' 0 0xff [(''MINIMUM'', 0), (''MAXIMUM'', 0xff)]]"

definition I2C_MTPR_Bits :: fields where
  "I2C_MTPR_Bits =
    [Field ''TPR'' 0 0x7f [(''MINIMUM'', 0), (''MAXIMUM'', 0x7f)]]"

definition I2C_MCR_Bits :: fields where
  "I2C_MCR_Bits =
    [Field ''LPBK'' 8 0x100 [(''DISABLE'', 0), (''ENABLE'', 0x100)],
     Field ''MMST'' 1 0x2 [(''DISABLE'', 0), (''ENABLE'', 2)],
     Field ''ACTIVE'' 0 0x1 [(''DISABLE'', 0), (''ENABLE'', 1)],
     Field ''CLKSTRETCH'' 2 0x4 [(''DISABLE'', 0), (''ENABLE'', 4)]]"

definition I2C_MBMON_Bits :: fields where
  "I2C_MBMON_Bits =
    [Field ''SCL'' 0 0x1 [(''CLEARED'', 0), (''SET'', 1)],
     Field ''SDA'' 1 0x2 [(''CLEARED'', 0), (''SET'', 2)]]"

definition I2C_MFIFOCTL_Bits :: fields where
  "I2C_MFIFOCTL_Bits =
    [Field ''TXTRIG'' 0 0x7 [
       (''EMPTY'', 0), (''LEVEL_1'', 1), (''LEVEL_2'', 2), (''LEVEL_3'', 3), (''LEVEL_4'', 4), (''LEVEL_5'', 5),
       (''LEVEL_6'', 6), (''LEVEL_7'', 7)],
     Field ''TXFLUSH'' 7 0x80 [(''NOFLUSH'', 0), (''FLUSH'', 0x80)],
     Field ''RXTRIG'' 8 0x700 [
       (''LEVEL_1'', 0), (''LEVEL_2'', 0x100), (''LEVEL_3'', 0x200), (''LEVEL_4'', 0x300), (''LEVEL_5'', 0x400),
       (''LEVEL_6'', 0x500), (''LEVEL_7'', 0x600), (''LEVEL_8'', 0x700)],
     Field ''RXFLUSH'' 15 0x8000 [(''NOFLUSH'', 0), (''FLUSH'', 0x8000)]]"

definition I2C_MFIFOSR_Bits :: fields where
  "I2C_MFIFOSR_Bits =
    [Field ''RXFIFOCNT'' 0 0xf [(''MINIMUM'', 0), (''MAXIMUM'', 8)],
     Field ''TXFIFOCNT'' 8 0xf00 [(''MINIMUM'', 0), (''MAXIMUM'', 0x800)],
     Field ''RXFLUSH'' 7 0x80 [(''INACTIVE'', 0), (''ACTIVE'', 0x80)],
     Field ''TXFLUSH'' 15 0x8000 [(''INACTIVE'', 0), (''ACTIVE'', 0x8000)]]"

definition I2C_CONTROLLER_I2CPECCTL_Bits :: fields where
  "I2C_CONTROLLER_I2CPECCTL_Bits =
    [Field ''PECCNT'' 0 0x1ff [(''MINIMUM'', 0), (''MAXIMUM'', 0x1ff)],
     Field ''PECEN'' 12 0x1000 [(''DISABLE'', 0), (''ENABLE'', 0x1000)]]"

definition I2C_CONTROLLER_PECSR_Bits :: fields where
  "I2C_CONTROLLER_PECSR_Bits =
    [Field ''PECBYTECNT'' 0 0x1ff [(''MINIMUM'', 0), (''MAXIMUM'', 0x1ff)],
     Field ''PECSTS_CHECK'' 16 0x10000 [(''CLEARED'', 0), (''SET'', 0x10000)],
     Field ''PECSTS_ERROR'' 17 0x20000 [(''CLEARED'', 0), (''SET'', 0x20000)]]"

definition I2C_DMA_TRIG0_IIDX_Bits :: fields where
  "I2C_DMA_TRIG0_IIDX_Bits =
    [Field ''STAT'' 0 0xff [
       (''NO_INTR'', 0), (''MRXFIFOTRG'', 1), (''MTXFIFOTRG'', 2), (''SRXFIFOTRG'', 3), (''STXFIFOTRG'', 4)]]"

definition I2C_DMA_TRIG0_IMASK_Bits :: fields where
  "I2C_DMA_TRIG0_IMASK_Bits =
    [Field ''MRXFIFOTRG'' 0 0x1 [(''CLR'', 0), (''SET'', 1)],
     Field ''MTXFIFOTRG'' 1 0x2 [(''CLR'', 0), (''SET'', 2)],
     Field ''SRXFIFOTRG'' 2 0x4 [(''CLR'', 0), (''SET'', 4)],
     Field ''STXFIFOTRG'' 3 0x8 [(''CLR'', 0), (''SET'', 8)]]"

definition I2C_DMA_TRIG0_RIS_Bits :: fields where
  "I2C_DMA_TRIG0_RIS_Bits =
    [Field ''MRXFIFOTRG'' 0 0x1 [(''CLR'', 0), (''SET'', 1)],
     Field ''MTXFIFOTRG'' 1 0x2 [(''CLR'', 0), (''SET'', 2)],
     Field ''SRXFIFOTRG'' 2 0x4 [(''CLR'', 0), (''SET'', 4)],
     Field ''STXFIFOTRG'' 3 0x8 [(''CLR'', 0), (''SET'', 8)]]"

definition I2C_DMA_TRIG0_MIS_Bits :: fields where
  "I2C_DMA_TRIG0_MIS_Bits =
    [Field ''MRXFIFOTRG'' 0 0x1 [(''CLR'', 0), (''SET'', 1)],
     Field ''MTXFIFOTRG'' 1 0x2 [(''CLR'', 0), (''SET'', 2)],
     Field ''SRXFIFOTRG'' 2 0x4 [(''CLR'', 0), (''SET'', 4)],
     Field ''STXFIFOTRG'' 3 0x8 [(''CLR'', 0), (''SET'', 8)]]"

definition I2C_DMA_TRIG0_ISET_Bits :: fields where
  "I2C_DMA_TRIG0_ISET_Bits =
    [Field ''MRXFIFOTRG'' 0 0x1 [(''NO_EFFECT'', 0), (''SET'', 1)],
     Field ''MTXFIFOTRG'' 1 0x2 [(''NO_EFFECT'', 0), (''SET'', 2)],
     Field ''SRXFIFOTRG'' 2 0x4 [(''NO_EFFECT'', 0), (''SET'', 4)],
     Field ''STXFIFOTRG'' 3 0x8 [(''NO_EFFECT'', 0), (''SET'', 8)]]"

definition I2C_DMA_TRIG0_ICLR_Bits :: fields where
  "I2C_DMA_TRIG0_ICLR_Bits =
    [Field ''MRXFIFOTRG'' 0 0x1 [(''NO_EFFECT'', 0), (''CLR'', 1)],
     Field ''MTXFIFOTRG'' 1 0x2 [(''NO_EFFECT'', 0), (''CLR'', 2)],
     Field ''SRXFIFOTRG'' 2 0x4 [(''NO_EFFECT'', 0), (''CLR'', 4)],
     Field ''STXFIFOTRG'' 3 0x8 [(''NO_EFFECT'', 0), (''CLR'', 8)]]"

definition I2C_DMA_TRIG1_IIDX_Bits :: fields where
  "I2C_DMA_TRIG1_IIDX_Bits =
    [Field ''STAT'' 0 0xff [
       (''NO_INTR'', 0), (''MRXFIFOTRG'', 1), (''MTXFIFOTRG'', 2), (''SRXFIFOTRG'', 3), (''STXFIFOTRG'', 4)]]"

definition I2C_DMA_TRIG1_IMASK_Bits :: fields where
  "I2C_DMA_TRIG1_IMASK_Bits =
    [Field ''MRXFIFOTRG'' 0 0x1 [(''CLR'', 0), (''SET'', 1)],
     Field ''MTXFIFOTRG'' 1 0x2 [(''CLR'', 0), (''SET'', 2)],
     Field ''SRXFIFOTRG'' 2 0x4 [(''CLR'', 0), (''SET'', 4)],
     Field ''STXFIFOTRG'' 3 0x8 [(''CLR'', 0), (''SET'', 8)]]"

definition I2C_DMA_TRIG1_RIS_Bits :: fields where
  "I2C_DMA_TRIG1_RIS_Bits =
    [Field ''MRXFIFOTRG'' 0 0x1 [(''CLR'', 0), (''SET'', 1)],
     Field ''MTXFIFOTRG'' 1 0x2 [(''CLR'', 0), (''SET'', 2)],
     Field ''SRXFIFOTRG'' 2 0x4 [(''CLR'', 0), (''SET'', 4)],
     Field ''STXFIFOTRG'' 3 0x8 [(''CLR'', 0), (''SET'', 8)]]"

definition I2C_DMA_TRIG1_MIS_Bits :: fields where
  "I2C_DMA_TRIG1_MIS_Bits =
    [Field ''MRXFIFOTRG'' 0 0x1 [(''CLR'', 0), (''SET'', 1)],
     Field ''MTXFIFOTRG'' 1 0x2 [(''CLR'', 0), (''SET'', 2)],
     Field ''SRXFIFOTRG'' 2 0x4 [(''CLR'', 0), (''SET'', 4)],
     Field ''STXFIFOTRG'' 3 0x8 [(''CLR'', 0), (''SET'', 8)]]"

definition I2C_DMA_TRIG1_ISET_Bits :: fields where
  "I2C_DMA_TRIG1_ISET_Bits =
    [Field ''MRXFIFOTRG'' 0 0x1 [(''NO_EFFECT'', 0), (''SET'', 1)],
     Field ''MTXFIFOTRG'' 1 0x2 [(''NO_EFFECT'', 0), (''SET'', 2)],
     Field ''SRXFIFOTRG'' 2 0x4 [(''NO_EFFECT'', 0), (''SET'', 4)],
     Field ''STXFIFOTRG'' 3 0x8 [(''NO_EFFECT'', 0), (''SET'', 8)]]"

definition I2C_DMA_TRIG1_ICLR_Bits :: fields where
  "I2C_DMA_TRIG1_ICLR_Bits =
    [Field ''MRXFIFOTRG'' 0 0x1 [(''NO_EFFECT'', 0), (''CLR'', 1)],
     Field ''MTXFIFOTRG'' 1 0x2 [(''NO_EFFECT'', 0), (''CLR'', 2)],
     Field ''SRXFIFOTRG'' 2 0x4 [(''NO_EFFECT'', 0), (''CLR'', 4)],
     Field ''STXFIFOTRG'' 3 0x8 [(''NO_EFFECT'', 0), (''CLR'', 8)]]"

definition I2C_CPU_INT_IIDX_Bits :: fields where
  "I2C_CPU_INT_IIDX_Bits =
    [Field ''STAT'' 0 0xff [
       (''NO_INTR'', 0), (''MRXDONEFG'', 1), (''MTXDONEFG'', 2), (''MRXFIFOTRG'', 3), (''MTXFIFOTRG'', 4),
       (''MRXFIFOFULL'', 5), (''MTX_EMPTY'', 6), (''MNACKFG'', 8), (''MSTARTFG'', 9), (''MSTOPFG'', 0xa),
       (''MARBLOSTFG'', 0xb), (''MDMA_DONE_TX'', 0xc), (''MDMA_DONE_RX'', 0xd), (''MPEC_RX_ERR'', 0xe),
       (''TIMEOUTA'', 0xf), (''TIMEOUTB'', 0x10), (''SRXDONEFG'', 0x11), (''STXDONEFG'', 0x12), (''SRXFIFOTRG'', 0x13),
       (''STXFIFOTRG'', 0x14), (''SRXFIFOFULL'', 0x15), (''STXEMPTY'', 0x16), (''SSTARTFG'', 0x17), (''SSTOPFG'', 0x18),
       (''SGENCALL'', 0x19), (''SDMA_DONE_TX'', 0x1a), (''SDMA_DONE_RX'', 0x1b), (''SPEC_RX_ERR'', 0x1c),
       (''STX_UNFL'', 0x1d), (''SRX_OVFL'', 0x1e), (''SARBLOST'', 0x1f), (''INTR_OVFL'', 0x20)]]"

definition I2C_CPU_INT_IMASK_Bits :: fields where
  "I2C_CPU_INT_IMASK_Bits =
    [Field ''MRXDONE'' 0 0x1 [(''CLR'', 0), (''SET'', 1)],
     Field ''TIMEOUTA'' 14 0x4000 [(''CLR'', 0), (''SET'', 0x4000)],
     Field ''MNACK'' 7 0x80 [(''CLR'', 0), (''SET'', 0x80)],
     Field ''MSTART'' 8 0x100 [(''CLR'', 0), (''SET'', 0x100)],
     Field ''MSTOP'' 9 0x200 [(''CLR'', 0), (''SET'', 0x200)],
     Field ''MARBLOST'' 10 0x400 [(''CLR'', 0), (''SET'', 0x400)],
     Field ''MTXDONE'' 1 0x2 [(''CLR'', 0), (''SET'', 2)],
     Field ''MRXFIFOFULL'' 4 0x10 [(''CLR'', 0), (''SET'', 0x10)],
     Field ''MTXEMPTY'' 5 0x20 [(''CLR'', 0), (''SET'', 0x20)],
     Field ''MRXFIFOTRG'' 2 0x4 [(''CLR'', 0), (''SET'', 4)],
     Field ''MTXFIFOTRG'' 3 0x8 [(''CLR'', 0), (''SET'', 8)],
     Field ''MDMA_DONE_TX'' 11 0x800 [(''CLR'', 0), (''SET'', 0x800)],
     Field ''MDMA_DONE_RX'' 12 0x1000 [(''CLR'', 0), (''SET'', 0x1000)],
     Field ''SRXDONE'' 16 0x10000 [(''CLR'', 0), (''SET'', 0x10000)],
     Field ''STXDONE'' 17 0x20000 [(''CLR'', 0), (''SET'', 0x20000)],
     Field ''SGENCALL'' 24 0x1000000 [(''CLR'', 0), (''SET'', 0x1000000)],
     Field ''STXEMPTY'' 21 0x200000 [(''CLR'', 0), (''SET'', 0x200000)],
     Field ''SRXFIFOFULL'' 20 0x100000 [(''CLR'', 0), (''SET'', 0x100000)],
     Field ''SRXFIFOTRG'' 18 0x40000 [(''CLR'', 0), (''SET'', 0x40000)],
     Field ''STXFIFOTRG'' 19 0x80000 [(''CLR'', 0), (''SET'', 0x80000)],
     Field ''SSTART'' 22 0x400000 [(''CLR'', 0), (''SET'', 0x400000)],
     Field ''SSTOP'' 23 0x800000 [(''CLR'', 0), (''SET'', 0x800000)],
     Field ''SDMA_DONE_TX'' 25 0x2000000 [(''CLR'', 0), (''SET'', 0x2000000)],
     Field ''SDMA_DONE_RX'' 26 0x4000000 [(''CLR'', 0), (''SET'', 0x4000000)],
     Field ''MPEC_RX_ERR'' 13 0x2000 [(''CLR'', 0), (''SET'', 0x2000)],
     Field ''TIMEOUTB'' 15 0x8000 [(''CLR'', 0), (''SET'', 0x8000)],
     Field ''SPEC_RX_ERR'' 27 0x8000000 [(''CLR'', 0), (''SET'', 0x8000000)],
     Field ''STX_UNFL'' 28 0x10000000 [(''CLR'', 0), (''SET'', 0x10000000)],
     Field ''SRX_OVFL'' 29 0x20000000 [(''CLR'', 0), (''SET'', 0x20000000)],
     Field ''SARBLOST'' 30 0x40000000 [(''CLR'', 0), (''SET'', 0x40000000)],
     Field ''INTR_OVFL'' 31 0x80000000 [(''CLR'', 0), (''SET'', 0x80000000)]]"

definition I2C_CPU_INT_RIS_Bits :: fields where
  "I2C_CPU_INT_RIS_Bits =
    [Field ''MRXDONE'' 0 0x1 [(''CLR'', 0), (''SET'', 1)],
     Field ''TIMEOUTA'' 14 0x4000 [(''CLR'', 0), (''SET'', 0x4000)],
     Field ''MNACK'' 7 0x80 [(''CLR'', 0), (''SET'', 0x80)],
     Field ''MSTART'' 8 0x100 [(''CLR'', 0), (''SET'', 0x100)],
     Field ''MSTOP'' 9 0x200 [(''CLR'', 0), (''SET'', 0x200)],
     Field ''MARBLOST'' 10 0x400 [(''CLR'', 0), (''SET'', 0x400)],
     Field ''MTXDONE'' 1 0x2 [(''CLR'', 0), (''SET'', 2)],
     Field ''MRXFIFOFULL'' 4 0x10 [(''CLR'', 0), (''SET'', 0x10)],
     Field ''MTXEMPTY'' 5 0x20 [(''CLR'', 0), (''SET'', 0x20)],
     Field ''MRXFIFOTRG'' 2 0x4 [(''CLR'', 0), (''SET'', 4)],
     Field ''MTXFIFOTRG'' 3 0x8 [(''CLR'', 0), (''SET'', 8)],
     Field ''MDMA_DONE_TX'' 11 0x800 [(''CLR'', 0), (''SET'', 0x800)],
     Field ''MDMA_DONE_RX'' 12 0x1000 [(''CLR'', 0), (''SET'', 0x1000)],
     Field ''SRXDONE'' 16 0x10000 [(''CLR'', 0), (''SET'', 0x10000)],
     Field ''STXDONE'' 17 0x20000 [(''CLR'', 0), (''SET'', 0x20000)],
     Field ''SGENCALL'' 24 0x1000000 [(''CLR'', 0), (''SET'', 0x1000000)],
     Field ''STXEMPTY'' 21 0x200000 [(''CLR'', 0), (''SET'', 0x200000)],
     Field ''SRXFIFOFULL'' 20 0x100000 [(''CLR'', 0), (''SET'', 0x100000)],
     Field ''SRXFIFOTRG'' 18 0x40000 [(''CLR'', 0), (''SET'', 0x40000)],
     Field ''STXFIFOTRG'' 19 0x80000 [(''CLR'', 0), (''SET'', 0x80000)],
     Field ''SSTART'' 22 0x400000 [(''CLR'', 0), (''SET'', 0x400000)],
     Field ''SSTOP'' 23 0x800000 [(''CLR'', 0), (''SET'', 0x800000)],
     Field ''SDMA_DONE_TX'' 25 0x2000000 [(''CLR'', 0), (''SET'', 0x2000000)],
     Field ''SDMA_DONE_RX'' 26 0x4000000 [(''CLR'', 0), (''SET'', 0x4000000)],
     Field ''MPEC_RX_ERR'' 13 0x2000 [(''CLR'', 0), (''SET'', 0x2000)],
     Field ''TIMEOUTB'' 15 0x8000 [(''CLR'', 0), (''SET'', 0x8000)],
     Field ''SPEC_RX_ERR'' 27 0x8000000 [(''CLR'', 0), (''SET'', 0x8000000)],
     Field ''STX_UNFL'' 28 0x10000000 [(''CLR'', 0), (''SET'', 0x10000000)],
     Field ''SRX_OVFL'' 29 0x20000000 [(''CLR'', 0), (''SET'', 0x20000000)],
     Field ''SARBLOST'' 30 0x40000000 [(''CLR'', 0), (''SET'', 0x40000000)],
     Field ''INTR_OVFL'' 31 0x80000000 [(''CLR'', 0), (''SET'', 0x80000000)]]"

definition I2C_CPU_INT_MIS_Bits :: fields where
  "I2C_CPU_INT_MIS_Bits =
    [Field ''MRXDONE'' 0 0x1 [(''CLR'', 0), (''SET'', 1)],
     Field ''TIMEOUTA'' 14 0x4000 [(''CLR'', 0), (''SET'', 0x4000)],
     Field ''MNACK'' 7 0x80 [(''CLR'', 0), (''SET'', 0x80)],
     Field ''MSTART'' 8 0x100 [(''CLR'', 0), (''SET'', 0x100)],
     Field ''MSTOP'' 9 0x200 [(''CLR'', 0), (''SET'', 0x200)],
     Field ''MARBLOST'' 10 0x400 [(''CLR'', 0), (''SET'', 0x400)],
     Field ''MTXDONE'' 1 0x2 [(''CLR'', 0), (''SET'', 2)],
     Field ''MRXFIFOFULL'' 4 0x10 [(''CLR'', 0), (''SET'', 0x10)],
     Field ''MTXEMPTY'' 5 0x20 [(''CLR'', 0), (''SET'', 0x20)],
     Field ''MRXFIFOTRG'' 2 0x4 [(''CLR'', 0), (''SET'', 4)],
     Field ''MTXFIFOTRG'' 3 0x8 [(''CLR'', 0), (''SET'', 8)],
     Field ''MDMA_DONE_TX'' 11 0x800 [(''CLR'', 0), (''SET'', 0x800)],
     Field ''MDMA_DONE_RX'' 12 0x1000 [(''CLR'', 0), (''SET'', 0x1000)],
     Field ''SRXDONE'' 16 0x10000 [(''CLR'', 0), (''SET'', 0x10000)],
     Field ''STXDONE'' 17 0x20000 [(''CLR'', 0), (''SET'', 0x20000)],
     Field ''SGENCALL'' 24 0x1000000 [(''CLR'', 0), (''SET'', 0x1000000)],
     Field ''STXEMPTY'' 21 0x200000 [(''CLR'', 0), (''SET'', 0x200000)],
     Field ''SRXFIFOFULL'' 20 0x100000 [(''CLR'', 0), (''SET'', 0x100000)],
     Field ''SRXFIFOTRG'' 18 0x40000 [(''CLR'', 0), (''SET'', 0x40000)],
     Field ''STXFIFOTRG'' 19 0x80000 [(''CLR'', 0), (''SET'', 0x80000)],
     Field ''SSTART'' 22 0x400000 [(''CLR'', 0), (''SET'', 0x400000)],
     Field ''SSTOP'' 23 0x800000 [(''CLR'', 0), (''SET'', 0x800000)],
     Field ''SDMA_DONE_TX'' 25 0x2000000 [(''CLR'', 0), (''SET'', 0x2000000)],
     Field ''SDMA_DONE_RX'' 26 0x4000000 [(''CLR'', 0), (''SET'', 0x4000000)],
     Field ''MPEC_RX_ERR'' 13 0x2000 [(''CLR'', 0), (''SET'', 0x2000)],
     Field ''TIMEOUTB'' 15 0x8000 [(''CLR'', 0), (''SET'', 0x8000)],
     Field ''SPEC_RX_ERR'' 27 0x8000000 [(''CLR'', 0), (''SET'', 0x8000000)],
     Field ''STX_UNFL'' 28 0x10000000 [(''CLR'', 0), (''SET'', 0x10000000)],
     Field ''SRX_OVFL'' 29 0x20000000 [(''CLR'', 0), (''SET'', 0x20000000)],
     Field ''SARBLOST'' 30 0x40000000 [(''CLR'', 0), (''SET'', 0x40000000)],
     Field ''INTR_OVFL'' 31 0x80000000 [(''CLR'', 0), (''SET'', 0x80000000)]]"

definition I2C_CPU_INT_ISET_Bits :: fields where
  "I2C_CPU_INT_ISET_Bits =
    [Field ''MRXDONE'' 0 0x1 [(''NO_EFFECT'', 0), (''SET'', 1)],
     Field ''TIMEOUTA'' 14 0x4000 [(''NO_EFFECT'', 0), (''SET'', 0x4000)],
     Field ''MNACK'' 7 0x80 [(''NO_EFFECT'', 0), (''SET'', 0x80)],
     Field ''MSTART'' 8 0x100 [(''NO_EFFECT'', 0), (''SET'', 0x100)],
     Field ''MSTOP'' 9 0x200 [(''NO_EFFECT'', 0), (''SET'', 0x200)],
     Field ''MARBLOST'' 10 0x400 [(''NO_EFFECT'', 0), (''SET'', 0x400)],
     Field ''MTXDONE'' 1 0x2 [(''NO_EFFECT'', 0), (''SET'', 2)],
     Field ''MRXFIFOFULL'' 4 0x10 [(''NO_EFFECT'', 0), (''SET'', 0x10)],
     Field ''MTXEMPTY'' 5 0x20 [(''NO_EFFECT'', 0), (''SET'', 0x20)],
     Field ''MRXFIFOTRG'' 2 0x4 [(''NO_EFFECT'', 0), (''SET'', 4)],
     Field ''MTXFIFOTRG'' 3 0x8 [(''NO_EFFECT'', 0), (''SET'', 8)],
     Field ''MDMA_DONE_TX'' 11 0x800 [(''NO_EFFECT'', 0), (''SET'', 0x800)],
     Field ''MDMA_DONE_RX'' 12 0x1000 [(''NO_EFFECT'', 0), (''SET'', 0x1000)],
     Field ''SRXDONE'' 16 0x10000 [(''NO_EFFECT'', 0), (''SET'', 0x10000)],
     Field ''STXDONE'' 17 0x20000 [(''NO_EFFECT'', 0), (''SET'', 0x20000)],
     Field ''SGENCALL'' 24 0x1000000 [(''NO_EFFECT'', 0), (''SET'', 0x1000000)],
     Field ''STXEMPTY'' 21 0x200000 [(''NO_EFFECT'', 0), (''SET'', 0x200000)],
     Field ''SRXFIFOFULL'' 20 0x100000 [(''NO_EFFECT'', 0), (''SET'', 0x100000)],
     Field ''SRXFIFOTRG'' 18 0x40000 [(''NO_EFFECT'', 0), (''SET'', 0x40000)],
     Field ''STXFIFOTRG'' 19 0x80000 [(''NO_EFFECT'', 0), (''SET'', 0x80000)],
     Field ''SSTART'' 22 0x400000 [(''NO_EFFECT'', 0), (''SET'', 0x400000)],
     Field ''SSTOP'' 23 0x800000 [(''NO_EFFECT'', 0), (''SET'', 0x800000)],
     Field ''SDMA_DONE_TX'' 25 0x2000000 [(''NO_EFFECT'', 0), (''SET'', 0x2000000)],
     Field ''SDMA_DONE_RX'' 26 0x4000000 [(''NO_EFFECT'', 0), (''SET'', 0x4000000)],
     Field ''MPEC_RX_ERR'' 13 0x2000 [(''NO_EFFECT'', 0), (''SET'', 0x2000)],
     Field ''TIMEOUTB'' 15 0x8000 [(''NO_EFFECT'', 0), (''SET'', 0x8000)],
     Field ''SPEC_RX_ERR'' 27 0x8000000 [(''NO_EFFECT'', 0), (''SET'', 0x8000000)],
     Field ''STX_UNFL'' 28 0x10000000 [(''NO_EFFECT'', 0), (''SET'', 0x10000000)],
     Field ''SRX_OVFL'' 29 0x20000000 [(''NO_EFFECT'', 0), (''SET'', 0x20000000)],
     Field ''SARBLOST'' 30 0x40000000 [(''NO_EFFECT'', 0), (''SET'', 0x40000000)],
     Field ''INTR_OVFL'' 31 0x80000000 [(''NO_EFFECT'', 0), (''SET'', 0x80000000)]]"

definition I2C_CPU_INT_ICLR_Bits :: fields where
  "I2C_CPU_INT_ICLR_Bits =
    [Field ''MRXDONE'' 0 0x1 [(''NO_EFFECT'', 0), (''CLR'', 1)],
     Field ''TIMEOUTA'' 14 0x4000 [(''NO_EFFECT'', 0), (''CLR'', 0x4000)],
     Field ''MNACK'' 7 0x80 [(''NO_EFFECT'', 0), (''CLR'', 0x80)],
     Field ''MSTART'' 8 0x100 [(''NO_EFFECT'', 0), (''CLR'', 0x100)],
     Field ''MSTOP'' 9 0x200 [(''NO_EFFECT'', 0), (''CLR'', 0x200)],
     Field ''MARBLOST'' 10 0x400 [(''NO_EFFECT'', 0), (''CLR'', 0x400)],
     Field ''MTXDONE'' 1 0x2 [(''NO_EFFECT'', 0), (''CLR'', 2)],
     Field ''MRXFIFOFULL'' 4 0x10 [(''NO_EFFECT'', 0), (''CLR'', 0x10)],
     Field ''MTXEMPTY'' 5 0x20 [(''NO_EFFECT'', 0), (''CLR'', 0x20)],
     Field ''MRXFIFOTRG'' 2 0x4 [(''NO_EFFECT'', 0), (''CLR'', 4)],
     Field ''MTXFIFOTRG'' 3 0x8 [(''NO_EFFECT'', 0), (''CLR'', 8)],
     Field ''MDMA_DONE_TX'' 11 0x800 [(''NO_EFFECT'', 0), (''CLR'', 0x800)],
     Field ''MDMA_DONE_RX'' 12 0x1000 [(''NO_EFFECT'', 0), (''CLR'', 0x1000)],
     Field ''SRXDONE'' 16 0x10000 [(''NO_EFFECT'', 0), (''CLR'', 0x10000)],
     Field ''STXDONE'' 17 0x20000 [(''NO_EFFECT'', 0), (''CLR'', 0x20000)],
     Field ''SGENCALL'' 24 0x1000000 [(''NO_EFFECT'', 0), (''CLR'', 0x1000000)],
     Field ''STXEMPTY'' 21 0x200000 [(''NO_EFFECT'', 0), (''CLR'', 0x200000)],
     Field ''SRXFIFOFULL'' 20 0x100000 [(''NO_EFFECT'', 0), (''CLR'', 0x100000)],
     Field ''SRXFIFOTRG'' 18 0x40000 [(''NO_EFFECT'', 0), (''CLR'', 0x40000)],
     Field ''STXFIFOTRG'' 19 0x80000 [(''NO_EFFECT'', 0), (''CLR'', 0x80000)],
     Field ''SSTART'' 22 0x400000 [(''NO_EFFECT'', 0), (''CLR'', 0x400000)],
     Field ''SSTOP'' 23 0x800000 [(''NO_EFFECT'', 0), (''CLR'', 0x800000)],
     Field ''SDMA_DONE_TX'' 25 0x2000000 [(''NO_EFFECT'', 0), (''CLR'', 0x2000000)],
     Field ''SDMA_DONE_RX'' 26 0x4000000 [(''NO_EFFECT'', 0), (''CLR'', 0x4000000)],
     Field ''MPEC_RX_ERR'' 13 0x2000 [(''NO_EFFECT'', 0), (''CLR'', 0x2000)],
     Field ''TIMEOUTB'' 15 0x8000 [(''NO_EFFECT'', 0), (''CLR'', 0x8000)],
     Field ''SPEC_RX_ERR'' 27 0x8000000 [(''NO_EFFECT'', 0), (''CLR'', 0x8000000)],
     Field ''STX_UNFL'' 28 0x10000000 [(''NO_EFFECT'', 0), (''CLR'', 0x10000000)],
     Field ''SRX_OVFL'' 29 0x20000000 [(''NO_EFFECT'', 0), (''CLR'', 0x20000000)],
     Field ''SARBLOST'' 30 0x40000000 [(''NO_EFFECT'', 0), (''CLR'', 0x40000000)],
     Field ''INTR_OVFL'' 31 0x80000000 [(''NO_EFFECT'', 0), (''CLR'', 0x80000000)]]"

definition I2C_PWREN_Bits :: fields where
  "I2C_PWREN_Bits =
    [Field ''ENABLE'' 0 0x1 [(''DISABLE'', 0), (''ENABLE'', 1)],
     Field ''KEY'' 24 0xff000000 [(''UNLOCK_W'', 0x26000000)]]"

definition I2C_RSTCTL_Bits :: fields where
  "I2C_RSTCTL_Bits =
    [Field ''RESETSTKYCLR'' 1 0x2 [(''NOP'', 0), (''CLR'', 2)],
     Field ''RESETASSERT'' 0 0x1 [(''NOP'', 0), (''ASSERT'', 1)],
     Field ''KEY'' 24 0xff000000 [(''UNLOCK_W'', 0xb1000000)]]"

definition I2C_CLKCFG_Bits :: fields where
  "I2C_CLKCFG_Bits =
    [Field ''KEY'' 24 0xff000000 [(''UNLOCK'', 0xa9000000)],
     Field ''BLOCKASYNC'' 8 0x100 [(''DISABLE'', 0), (''ENABLE'', 0x100)]]"

definition I2C_STAT_Bits :: fields where
  "I2C_STAT_Bits =
    [Field ''RESETSTKY'' 16 0x10000 [(''NORES'', 0), (''RESET'', 0x10000)]]"

definition I2C_CLKDIV_Bits :: fields where
  "I2C_CLKDIV_Bits =
    [Field ''RATIO'' 0 0x7 [
       (''DIV_BY_1'', 0), (''DIV_BY_2'', 1), (''DIV_BY_3'', 2), (''DIV_BY_4'', 3), (''DIV_BY_5'', 4), (''DIV_BY_6'', 5),
       (''DIV_BY_7'', 6), (''DIV_BY_8'', 7)]]"

definition I2C_CLKSEL_Bits :: fields where
  "I2C_CLKSEL_Bits =
    [Field ''MFCLK_SEL'' 2 0x4 [(''DISABLE'', 0), (''ENABLE'', 4)],
     Field ''BUSCLK_SEL'' 3 0x8 [(''DISABLE'', 0), (''ENABLE'', 8)]]"

definition I2C_PDBGCTL_Bits :: fields where
  "I2C_PDBGCTL_Bits =
    [Field ''FREE'' 0 0x1 [(''STOP'', 0), (''RUN'', 1)],
     Field ''SOFT'' 1 0x2 [(''IMMEDIATE'', 0), (''DELAYED'', 2)]]"

definition I2C_EVT_MODE_Bits :: fields where
  "I2C_EVT_MODE_Bits =
    [Field ''INT0_CFG'' 0 0x3 [(''DISABLE'', 0), (''SOFTWARE'', 1), (''HARDWARE'', 2)],
     Field ''INT1_CFG'' 2 0xc [(''DISABLE'', 0), (''SOFTWARE'', 4), (''HARDWARE'', 8)],
     Field ''EVT2_CFG'' 4 0x30 [(''DISABLE'', 0), (''SOFTWARE'', 0x10), (''HARDWARE'', 0x20)]]"

definition I2C_INTCTL_Bits :: fields where
  "I2C_INTCTL_Bits =
    [Field ''INTEVAL'' 0 0x1 [(''DISABLE'', 0), (''EVAL'', 1)]]"

definition I2C_DESC_Bits :: fields where
  "I2C_DESC_Bits =
    [Field ''MINREV'' 0 0xf [(''MINIMUM'', 0), (''MAXIMUM'', 0xf)],
     Field ''MAJREV'' 4 0xf0 [(''MINIMUM'', 0), (''MAXIMUM'', 0xf0)],
     Field ''INSTNUM'' 8 0xf00 [(''MINIMUM'', 0), (''MAXIMUM'', 0xf00)],
     Field ''FEATUREVER'' 12 0xf000 [(''MINIMUM'', 0), (''MAXIMUM'', 0xf000)],
     Field ''MODULEID'' 16 0xffff0000 [(''MINIMUM'', 0), (''MAXIMUM'', 0xffff0000)]]"

definition I2C_GFCTL_Bits :: fields where
  "I2C_GFCTL_Bits =
    [Field ''AGFSEL'' 9 0x600 [(''AGLIT_5'', 0), (''AGLIT_10'', 0x200), (''AGLIT_25'', 0x400), (''AGLIT_50'', 0x600)],
     Field ''DGFSEL'' 0 0x7 [
       (''DISABLED'', 0), (''CLK_1'', 1), (''CLK_2'', 2), (''CLK_3'', 3), (''CLK_4'', 4), (''CLK_8'', 5),
       (''CLK_16'', 6), (''CLK_31'', 7)],
     Field ''AGFEN'' 8 0x100 [(''DISABLE'', 0), (''ENABLE'', 0x100)],
     Field ''CHAIN'' 11 0x800 [(''DISABLE'', 0), (''ENABLE'', 0x800)]]"

definition I2C_TIMEOUT_CTL_Bits :: fields where
  "I2C_TIMEOUT_CTL_Bits =
    [Field ''TCNTLA'' 0 0xff [(''MINIMUM'', 0), (''MAXIMUM'', 0xff)],
     Field ''TCNTAEN'' 15 0x8000 [(''DISABLE'', 0), (''ENABLE'', 0x8000)],
     Field ''TCNTLB'' 16 0xff0000 [(''MINIMUM'', 0), (''MAXIMUM'', 0xff0000)],
     Field ''TCNTBEN'' 31 0x80000000 [(''DISABLE'', 0), (''ENABLE'', 0x80000000)]]"

definition I2C_TIMEOUT_CNT_Bits :: fields where
  "I2C_TIMEOUT_CNT_Bits =
    [Field ''TCNTA'' 0 0xff [(''MINIMUM'', 0), (''MAXIMUM'', 0xff)],
     Field ''TCNTB'' 16 0xff0000 [(''MINIMUM'', 0), (''MAXIMUM'', 0xff0000)]]"

definition I2C_bits :: field_table where
  "I2C_bits =
    [([''GPRCM'', ''PWREN''], I2C_PWREN_Bits), ([''GPRCM'', ''RSTCTL''], I2C_RSTCTL_Bits),
     ([''GPRCM'', ''CLKCFG''], I2C_CLKCFG_Bits), ([''GPRCM'', ''STAT''], I2C_STAT_Bits), ([''CLKDIV''], I2C_CLKDIV_Bits),
     ([''CLKSEL''], I2C_CLKSEL_Bits), ([''PDBGCTL''], I2C_PDBGCTL_Bits),
     ([''CPU_INT'', ''IIDX''], I2C_CPU_INT_IIDX_Bits), ([''CPU_INT'', ''IMASK''], I2C_CPU_INT_IMASK_Bits),
     ([''CPU_INT'', ''RIS''], I2C_CPU_INT_RIS_Bits), ([''CPU_INT'', ''MIS''], I2C_CPU_INT_MIS_Bits),
     ([''CPU_INT'', ''ISET''], I2C_CPU_INT_ISET_Bits), ([''CPU_INT'', ''ICLR''], I2C_CPU_INT_ICLR_Bits),
     ([''DMA_TRIG1'', ''IIDX''], I2C_DMA_TRIG1_IIDX_Bits), ([''DMA_TRIG1'', ''IMASK''], I2C_DMA_TRIG1_IMASK_Bits),
     ([''DMA_TRIG1'', ''RIS''], I2C_DMA_TRIG1_RIS_Bits), ([''DMA_TRIG1'', ''MIS''], I2C_DMA_TRIG1_MIS_Bits),
     ([''DMA_TRIG1'', ''ISET''], I2C_DMA_TRIG1_ISET_Bits), ([''DMA_TRIG1'', ''ICLR''], I2C_DMA_TRIG1_ICLR_Bits),
     ([''DMA_TRIG0'', ''IIDX''], I2C_DMA_TRIG0_IIDX_Bits), ([''DMA_TRIG0'', ''IMASK''], I2C_DMA_TRIG0_IMASK_Bits),
     ([''DMA_TRIG0'', ''RIS''], I2C_DMA_TRIG0_RIS_Bits), ([''DMA_TRIG0'', ''MIS''], I2C_DMA_TRIG0_MIS_Bits),
     ([''DMA_TRIG0'', ''ISET''], I2C_DMA_TRIG0_ISET_Bits), ([''DMA_TRIG0'', ''ICLR''], I2C_DMA_TRIG0_ICLR_Bits),
     ([''EVT_MODE''], I2C_EVT_MODE_Bits), ([''INTCTL''], I2C_INTCTL_Bits), ([''DESC''], I2C_DESC_Bits),
     ([''GFCTL''], I2C_GFCTL_Bits), ([''TIMEOUT_CTL''], I2C_TIMEOUT_CTL_Bits), ([''TIMEOUT_CNT''], I2C_TIMEOUT_CNT_Bits),
     ([''MASTER'', ''MSA''], I2C_MSA_Bits), ([''MASTER'', ''MCTR''], I2C_MCTR_Bits),
     ([''MASTER'', ''MSR''], I2C_MSR_Bits), ([''MASTER'', ''MRXDATA''], I2C_MRXDATA_Bits),
     ([''MASTER'', ''MTXDATA''], I2C_MTXDATA_Bits), ([''MASTER'', ''MTPR''], I2C_MTPR_Bits),
     ([''MASTER'', ''MCR''], I2C_MCR_Bits), ([''MASTER'', ''MBMON''], I2C_MBMON_Bits),
     ([''MASTER'', ''MFIFOCTL''], I2C_MFIFOCTL_Bits), ([''MASTER'', ''MFIFOSR''], I2C_MFIFOSR_Bits),
     ([''MASTER'', ''CONTROLLER_I2CPECCTL''], I2C_CONTROLLER_I2CPECCTL_Bits),
     ([''MASTER'', ''CONTROLLER_PECSR''], I2C_CONTROLLER_PECSR_Bits), ([''SLAVE'', ''SOAR''], I2C_SOAR_Bits),
     ([''SLAVE'', ''SOAR2''], I2C_SOAR2_Bits), ([''SLAVE'', ''SCTR''], I2C_SCTR_Bits),
     ([''SLAVE'', ''SSR''], I2C_SSR_Bits), ([''SLAVE'', ''SRXDATA''], I2C_SRXDATA_Bits),
     ([''SLAVE'', ''STXDATA''], I2C_STXDATA_Bits), ([''SLAVE'', ''SACKCTL''], I2C_SACKCTL_Bits),
     ([''SLAVE'', ''SFIFOCTL''], I2C_SFIFOCTL_Bits), ([''SLAVE'', ''SFIFOSR''], I2C_SFIFOSR_Bits),
     ([''SLAVE'', ''TARGET_PECCTL''], I2C_TARGET_PECCTL_Bits), ([''SLAVE'', ''TARGET_PECSR''], I2C_TARGET_PECSR_Bits)]"

lemmas I2C_Bits_defs = I2C_SOAR_Bits_def I2C_SOAR2_Bits_def I2C_SCTR_Bits_def I2C_SSR_Bits_def I2C_SRXDATA_Bits_def
  I2C_STXDATA_Bits_def I2C_SACKCTL_Bits_def I2C_SFIFOCTL_Bits_def I2C_SFIFOSR_Bits_def I2C_TARGET_PECCTL_Bits_def
  I2C_TARGET_PECSR_Bits_def I2C_MSA_Bits_def I2C_MCTR_Bits_def I2C_MSR_Bits_def I2C_MRXDATA_Bits_def
  I2C_MTXDATA_Bits_def I2C_MTPR_Bits_def I2C_MCR_Bits_def I2C_MBMON_Bits_def I2C_MFIFOCTL_Bits_def
  I2C_MFIFOSR_Bits_def I2C_CONTROLLER_I2CPECCTL_Bits_def I2C_CONTROLLER_PECSR_Bits_def I2C_DMA_TRIG0_IIDX_Bits_def
  I2C_DMA_TRIG0_IMASK_Bits_def I2C_DMA_TRIG0_RIS_Bits_def I2C_DMA_TRIG0_MIS_Bits_def I2C_DMA_TRIG0_ISET_Bits_def
  I2C_DMA_TRIG0_ICLR_Bits_def I2C_DMA_TRIG1_IIDX_Bits_def I2C_DMA_TRIG1_IMASK_Bits_def I2C_DMA_TRIG1_RIS_Bits_def
  I2C_DMA_TRIG1_MIS_Bits_def I2C_DMA_TRIG1_ISET_Bits_def I2C_DMA_TRIG1_ICLR_Bits_def I2C_CPU_INT_IIDX_Bits_def
  I2C_CPU_INT_IMASK_Bits_def I2C_CPU_INT_RIS_Bits_def I2C_CPU_INT_MIS_Bits_def I2C_CPU_INT_ISET_Bits_def
  I2C_CPU_INT_ICLR_Bits_def I2C_PWREN_Bits_def I2C_RSTCTL_Bits_def I2C_CLKCFG_Bits_def I2C_STAT_Bits_def
  I2C_CLKDIV_Bits_def I2C_CLKSEL_Bits_def I2C_PDBGCTL_Bits_def I2C_EVT_MODE_Bits_def I2C_INTCTL_Bits_def
  I2C_DESC_Bits_def I2C_GFCTL_Bits_def I2C_TIMEOUT_CTL_Bits_def I2C_TIMEOUT_CNT_Bits_def

lemma I2C_bits_describes: "describes I2C_bits I2C_Regs"
  by (simp add: describes_def I2C_bits_def layout_defs, (intro conjI; simp add: I2C_Bits_defs))

lemma I2C_bits_strays: "strays I2C_bits = []"
  by (rule no_strays) (simp add: I2C_bits_def, (intro conjI; simp add: I2C_Bits_defs))

end
