(* ===== verification/LFSS_Fields.thy ===== *)
theory LFSS_Fields
  imports Device_Fields
begin

text \<open>
  The bit fields of \<open>hw_lfss.h\<close>: the offset, the mask and the named values of every field, register by
  register.
\<close>

section \<open>\<open>hw_lfss.h\<close>\<close>

definition LFSS_SPMEM_Bits :: fields where
  "LFSS_SPMEM_Bits =
    [Field ''DATA3'' 24 0xff000000 [(''MINIMUM'', 0), (''MAXIMUM'', 0xff000000)],
     Field ''DATA2'' 16 0xff0000 [(''MINIMUM'', 0), (''MAXIMUM'', 0xff0000)],
     Field ''DATA1'' 8 0xff00 [(''MINIMUM'', 0), (''MAXIMUM'', 0xff00)],
     Field ''DATA0'' 0 0xff [(''MINIMUM'', 0), (''MAXIMUM'', 0xff)]]"

definition LFSS_SPMWPROT0_Bits :: fields where
  "LFSS_SPMWPROT0_Bits =
    [Field ''KEY'' 24 0xff000000 [(''UNLOCK_W'', 0xe8000000)],
     Field ''WP_3_3'' 15 0x8000 [(''READWRITE'', 0), (''READONLY'', 0x8000)],
     Field ''WP_3_2'' 14 0x4000 [(''READWRITE'', 0), (''READONLY'', 0x4000)],
     Field ''WP_3_1'' 13 0x2000 [(''READWRITE'', 0), (''READONLY'', 0x2000)],
     Field ''WP_3_0'' 12 0x1000 [(''READWRITE'', 0), (''READONLY'', 0x1000)],
     Field ''WP_2_3'' 11 0x800 [(''READWRITE'', 0), (''READONLY'', 0x800)],
     Field ''WP_2_2'' 10 0x400 [(''READWRITE'', 0), (''READONLY'', 0x400)],
     Field ''WP_2_1'' 9 0x200 [(''READWRITE'', 0), (''READONLY'', 0x200)],
     Field ''WP_2_0'' 8 0x100 [(''READWRITE'', 0), (''READONLY'', 0x100)],
     Field ''WP_1_3'' 7 0x80 [(''READWRITE'', 0), (''READONLY'', 0x80)],
     Field ''WP_1_2'' 6 0x40 [(''READWRITE'', 0), (''READONLY'', 0x40)],
     Field ''WP_1_1'' 5 0x20 [(''READWRITE'', 0), (''READONLY'', 0x20)],
     Field ''WP_1_0'' 4 0x10 [(''READWRITE'', 0), (''READONLY'', 0x10)],
     Field ''WP_0_3'' 3 0x8 [(''READWRITE'', 0), (''READONLY'', 8)],
     Field ''WP_0_2'' 2 0x4 [(''READWRITE'', 0), (''READONLY'', 4)],
     Field ''WP_0_1'' 1 0x2 [(''READWRITE'', 0), (''READONLY'', 2)],
     Field ''WP_0_0'' 0 0x1 [(''READWRITE'', 0), (''READONLY'', 1)]]"

definition LFSS_SPMWPROT1_Bits :: fields where
  "LFSS_SPMWPROT1_Bits =
    [Field ''KEY'' 24 0xff000000 [(''UNLOCK_W'', 0xe8000000)],
     Field ''WP_7_3'' 15 0x8000 [(''READWRITE'', 0), (''READONLY'', 0x8000)],
     Field ''WP_7_2'' 14 0x4000 [(''READWRITE'', 0), (''READONLY'', 0x4000)],
     Field ''WP_7_1'' 13 0x2000 [(''READWRITE'', 0), (''READONLY'', 0x2000)],
     Field ''WP_7_0'' 12 0x1000 [(''READWRITE'', 0), (''READONLY'', 0x1000)],
     Field ''WP_6_3'' 11 0x800 [(''READWRITE'', 0), (''READONLY'', 0x800)],
     Field ''WP_6_2'' 10 0x400 [(''READWRITE'', 0), (''READONLY'', 0x400)],
     Field ''WP_6_1'' 9 0x200 [(''READWRITE'', 0), (''READONLY'', 0x200)],
     Field ''WP_6_0'' 8 0x100 [(''READWRITE'', 0), (''READONLY'', 0x100)],
     Field ''WP_5_3'' 7 0x80 [(''READWRITE'', 0), (''READONLY'', 0x80)],
     Field ''WP_5_2'' 6 0x40 [(''READWRITE'', 0), (''READONLY'', 0x40)],
     Field ''WP_5_1'' 5 0x20 [(''READWRITE'', 0), (''READONLY'', 0x20)],
     Field ''WP_5_0'' 4 0x10 [(''READWRITE'', 0), (''READONLY'', 0x10)],
     Field ''WP_4_3'' 3 0x8 [(''READWRITE'', 0), (''READONLY'', 8)],
     Field ''WP_4_2'' 2 0x4 [(''READWRITE'', 0), (''READONLY'', 4)],
     Field ''WP_4_1'' 1 0x2 [(''READWRITE'', 0), (''READONLY'', 2)],
     Field ''WP_4_0'' 0 0x1 [(''READWRITE'', 0), (''READONLY'', 1)]]"

definition LFSS_SPMWPROT2_Bits :: fields where
  "LFSS_SPMWPROT2_Bits =
    [Field ''KEY'' 24 0xff000000 [(''UNLOCK_W'', 0xe8000000)],
     Field ''WP_11_3'' 15 0x8000 [(''READWRITE'', 0), (''READONLY'', 0x8000)],
     Field ''WP_11_2'' 14 0x4000 [(''READWRITE'', 0), (''READONLY'', 0x4000)],
     Field ''WP_11_1'' 13 0x2000 [(''READWRITE'', 0), (''READONLY'', 0x2000)],
     Field ''WP_11_0'' 12 0x1000 [(''READWRITE'', 0), (''READONLY'', 0x1000)],
     Field ''WP_10_3'' 11 0x800 [(''READWRITE'', 0), (''READONLY'', 0x800)],
     Field ''WP_10_2'' 10 0x400 [(''READWRITE'', 0), (''READONLY'', 0x400)],
     Field ''WP_10_1'' 9 0x200 [(''READWRITE'', 0), (''READONLY'', 0x200)],
     Field ''WP_10_0'' 8 0x100 [(''READWRITE'', 0), (''READONLY'', 0x100)],
     Field ''WP_9_3'' 7 0x80 [(''READWRITE'', 0), (''READONLY'', 0x80)],
     Field ''WP_9_2'' 6 0x40 [(''READWRITE'', 0), (''READONLY'', 0x40)],
     Field ''WP_9_1'' 5 0x20 [(''READWRITE'', 0), (''READONLY'', 0x20)],
     Field ''WP_9_0'' 4 0x10 [(''READWRITE'', 0), (''READONLY'', 0x10)],
     Field ''WP_8_3'' 3 0x8 [(''READWRITE'', 0), (''READONLY'', 8)],
     Field ''WP_8_2'' 2 0x4 [(''READWRITE'', 0), (''READONLY'', 4)],
     Field ''WP_8_1'' 1 0x2 [(''READWRITE'', 0), (''READONLY'', 2)],
     Field ''WP_8_0'' 0 0x1 [(''READWRITE'', 0), (''READONLY'', 1)]]"

definition LFSS_SPMWPROT3_Bits :: fields where
  "LFSS_SPMWPROT3_Bits =
    [Field ''KEY'' 24 0xff000000 [(''UNLOCK_W'', 0xe8000000)],
     Field ''WP_15_3'' 15 0x8000 [(''READWRITE'', 0), (''READONLY'', 0x8000)],
     Field ''WP_15_2'' 14 0x4000 [(''READWRITE'', 0), (''READONLY'', 0x4000)],
     Field ''WP_15_1'' 13 0x2000 [(''READWRITE'', 0), (''READONLY'', 0x2000)],
     Field ''WP_15_0'' 12 0x1000 [(''READWRITE'', 0), (''READONLY'', 0x1000)],
     Field ''WP_14_3'' 11 0x800 [(''READWRITE'', 0), (''READONLY'', 0x800)],
     Field ''WP_14_2'' 10 0x400 [(''READWRITE'', 0), (''READONLY'', 0x400)],
     Field ''WP_14_1'' 9 0x200 [(''READWRITE'', 0), (''READONLY'', 0x200)],
     Field ''WP_14_0'' 8 0x100 [(''READWRITE'', 0), (''READONLY'', 0x100)],
     Field ''WP_13_3'' 7 0x80 [(''READWRITE'', 0), (''READONLY'', 0x80)],
     Field ''WP_13_2'' 6 0x40 [(''READWRITE'', 0), (''READONLY'', 0x40)],
     Field ''WP_13_1'' 5 0x20 [(''READWRITE'', 0), (''READONLY'', 0x20)],
     Field ''WP_13_0'' 4 0x10 [(''READWRITE'', 0), (''READONLY'', 0x10)],
     Field ''WP_12_3'' 3 0x8 [(''READWRITE'', 0), (''READONLY'', 8)],
     Field ''WP_12_2'' 2 0x4 [(''READWRITE'', 0), (''READONLY'', 4)],
     Field ''WP_12_1'' 1 0x2 [(''READWRITE'', 0), (''READONLY'', 2)],
     Field ''WP_12_0'' 0 0x1 [(''READWRITE'', 0), (''READONLY'', 1)]]"

definition LFSS_SPMWPROT4_Bits :: fields where
  "LFSS_SPMWPROT4_Bits =
    [Field ''KEY'' 24 0xff000000 [(''UNLOCK_W'', 0xe8000000)],
     Field ''WP_19_3'' 15 0x8000 [(''READWRITE'', 0), (''READONLY'', 0x8000)],
     Field ''WP_19_2'' 14 0x4000 [(''READWRITE'', 0), (''READONLY'', 0x4000)],
     Field ''WP_19_1'' 13 0x2000 [(''READWRITE'', 0), (''READONLY'', 0x2000)],
     Field ''WP_19_0'' 12 0x1000 [(''READWRITE'', 0), (''READONLY'', 0x1000)],
     Field ''WP_18_3'' 11 0x800 [(''READWRITE'', 0), (''READONLY'', 0x800)],
     Field ''WP_18_2'' 10 0x400 [(''READWRITE'', 0), (''READONLY'', 0x400)],
     Field ''WP_18_1'' 9 0x200 [(''READWRITE'', 0), (''READONLY'', 0x200)],
     Field ''WP_18_0'' 8 0x100 [(''READWRITE'', 0), (''READONLY'', 0x100)],
     Field ''WP_17_3'' 7 0x80 [(''READWRITE'', 0), (''READONLY'', 0x80)],
     Field ''WP_17_2'' 6 0x40 [(''READWRITE'', 0), (''READONLY'', 0x40)],
     Field ''WP_17_1'' 5 0x20 [(''READWRITE'', 0), (''READONLY'', 0x20)],
     Field ''WP_17_0'' 4 0x10 [(''READWRITE'', 0), (''READONLY'', 0x10)],
     Field ''WP_16_3'' 3 0x8 [(''READWRITE'', 0), (''READONLY'', 8)],
     Field ''WP_16_2'' 2 0x4 [(''READWRITE'', 0), (''READONLY'', 4)],
     Field ''WP_16_1'' 1 0x2 [(''READWRITE'', 0), (''READONLY'', 2)],
     Field ''WP_16_0'' 0 0x1 [(''READWRITE'', 0), (''READONLY'', 1)]]"

definition LFSS_SPMWPROT5_Bits :: fields where
  "LFSS_SPMWPROT5_Bits =
    [Field ''KEY'' 24 0xff000000 [(''UNLOCK_W'', 0xe8000000)],
     Field ''WP_23_3'' 15 0x8000 [(''READWRITE'', 0), (''READONLY'', 0x8000)],
     Field ''WP_23_2'' 14 0x4000 [(''READWRITE'', 0), (''READONLY'', 0x4000)],
     Field ''WP_23_1'' 13 0x2000 [(''READWRITE'', 0), (''READONLY'', 0x2000)],
     Field ''WP_23_0'' 12 0x1000 [(''READWRITE'', 0), (''READONLY'', 0x1000)],
     Field ''WP_22_3'' 11 0x800 [(''READWRITE'', 0), (''READONLY'', 0x800)],
     Field ''WP_22_2'' 10 0x400 [(''READWRITE'', 0), (''READONLY'', 0x400)],
     Field ''WP_22_1'' 9 0x200 [(''READWRITE'', 0), (''READONLY'', 0x200)],
     Field ''WP_22_0'' 8 0x100 [(''READWRITE'', 0), (''READONLY'', 0x100)],
     Field ''WP_21_3'' 7 0x80 [(''READWRITE'', 0), (''READONLY'', 0x80)],
     Field ''WP_21_2'' 6 0x40 [(''READWRITE'', 0), (''READONLY'', 0x40)],
     Field ''WP_21_1'' 5 0x20 [(''READWRITE'', 0), (''READONLY'', 0x20)],
     Field ''WP_21_0'' 4 0x10 [(''READWRITE'', 0), (''READONLY'', 0x10)],
     Field ''WP_20_3'' 3 0x8 [(''READWRITE'', 0), (''READONLY'', 8)],
     Field ''WP_20_2'' 2 0x4 [(''READWRITE'', 0), (''READONLY'', 4)],
     Field ''WP_20_1'' 1 0x2 [(''READWRITE'', 0), (''READONLY'', 2)],
     Field ''WP_20_0'' 0 0x1 [(''READWRITE'', 0), (''READONLY'', 1)]]"

definition LFSS_SPMWPROT6_Bits :: fields where
  "LFSS_SPMWPROT6_Bits =
    [Field ''KEY'' 24 0xff000000 [(''UNLOCK_W'', 0xe8000000)],
     Field ''WP_27_3'' 15 0x8000 [(''READWRITE'', 0), (''READONLY'', 0x8000)],
     Field ''WP_27_2'' 14 0x4000 [(''READWRITE'', 0), (''READONLY'', 0x4000)],
     Field ''WP_27_1'' 13 0x2000 [(''READWRITE'', 0), (''READONLY'', 0x2000)],
     Field ''WP_27_0'' 12 0x1000 [(''READWRITE'', 0), (''READONLY'', 0x1000)],
     Field ''WP_26_3'' 11 0x800 [(''READWRITE'', 0), (''READONLY'', 0x800)],
     Field ''WP_26_2'' 10 0x400 [(''READWRITE'', 0), (''READONLY'', 0x400)],
     Field ''WP_26_1'' 9 0x200 [(''READWRITE'', 0), (''READONLY'', 0x200)],
     Field ''WP_26_0'' 8 0x100 [(''READWRITE'', 0), (''READONLY'', 0x100)],
     Field ''WP_25_3'' 7 0x80 [(''READWRITE'', 0), (''READONLY'', 0x80)],
     Field ''WP_25_2'' 6 0x40 [(''READWRITE'', 0), (''READONLY'', 0x40)],
     Field ''WP_25_1'' 5 0x20 [(''READWRITE'', 0), (''READONLY'', 0x20)],
     Field ''WP_25_0'' 4 0x10 [(''READWRITE'', 0), (''READONLY'', 0x10)],
     Field ''WP_24_3'' 3 0x8 [(''READWRITE'', 0), (''READONLY'', 8)],
     Field ''WP_24_2'' 2 0x4 [(''READWRITE'', 0), (''READONLY'', 4)],
     Field ''WP_24_1'' 1 0x2 [(''READWRITE'', 0), (''READONLY'', 2)],
     Field ''WP_24_0'' 0 0x1 [(''READWRITE'', 0), (''READONLY'', 1)]]"

definition LFSS_SPMWPROT7_Bits :: fields where
  "LFSS_SPMWPROT7_Bits =
    [Field ''KEY'' 24 0xff000000 [(''UNLOCK_W'', 0xe8000000)],
     Field ''WP_31_3'' 15 0x8000 [(''READWRITE'', 0), (''READONLY'', 0x8000)],
     Field ''WP_31_2'' 14 0x4000 [(''READWRITE'', 0), (''READONLY'', 0x4000)],
     Field ''WP_31_1'' 13 0x2000 [(''READWRITE'', 0), (''READONLY'', 0x2000)],
     Field ''WP_31_0'' 12 0x1000 [(''READWRITE'', 0), (''READONLY'', 0x1000)],
     Field ''WP_30_3'' 11 0x800 [(''READWRITE'', 0), (''READONLY'', 0x800)],
     Field ''WP_30_2'' 10 0x400 [(''READWRITE'', 0), (''READONLY'', 0x400)],
     Field ''WP_30_1'' 9 0x200 [(''READWRITE'', 0), (''READONLY'', 0x200)],
     Field ''WP_30_0'' 8 0x100 [(''READWRITE'', 0), (''READONLY'', 0x100)],
     Field ''WP_29_3'' 7 0x80 [(''READWRITE'', 0), (''READONLY'', 0x80)],
     Field ''WP_29_2'' 6 0x40 [(''READWRITE'', 0), (''READONLY'', 0x40)],
     Field ''WP_29_1'' 5 0x20 [(''READWRITE'', 0), (''READONLY'', 0x20)],
     Field ''WP_29_0'' 4 0x10 [(''READWRITE'', 0), (''READONLY'', 0x10)],
     Field ''WP_28_3'' 3 0x8 [(''READWRITE'', 0), (''READONLY'', 8)],
     Field ''WP_28_2'' 2 0x4 [(''READWRITE'', 0), (''READONLY'', 4)],
     Field ''WP_28_1'' 1 0x2 [(''READWRITE'', 0), (''READONLY'', 2)],
     Field ''WP_28_0'' 0 0x1 [(''READWRITE'', 0), (''READONLY'', 1)]]"

definition LFSS_SPMTERASE0_Bits :: fields where
  "LFSS_SPMTERASE0_Bits =
    [Field ''KEY'' 24 0xff000000 [(''UNLOCK_W'', 0xa3000000)],
     Field ''TE_3_3'' 15 0x8000 [(''DISABLE'', 0), (''ENABLE'', 0x8000)],
     Field ''TE_3_2'' 14 0x4000 [(''DISABLE'', 0), (''ENABLE'', 0x4000)],
     Field ''TE_3_1'' 13 0x2000 [(''DISABLE'', 0), (''ENABLE'', 0x2000)],
     Field ''TE_3_0'' 12 0x1000 [(''DISABLE'', 0), (''ENABLE'', 0x1000)],
     Field ''TE_2_3'' 11 0x800 [(''DISABLE'', 0), (''ENABLE'', 0x800)],
     Field ''TE_2_2'' 10 0x400 [(''DISABLE'', 0), (''ENABLE'', 0x400)],
     Field ''TE_2_1'' 9 0x200 [(''DISABLE'', 0), (''ENABLE'', 0x200)],
     Field ''TE_2_0'' 8 0x100 [(''DISABLE'', 0), (''ENABLE'', 0x100)],
     Field ''TE_1_3'' 7 0x80 [(''DISABLE'', 0), (''ENABLE'', 0x80)],
     Field ''TE_1_2'' 6 0x40 [(''DISABLE'', 0), (''ENABLE'', 0x40)],
     Field ''TE_1_1'' 5 0x20 [(''DISABLE'', 0), (''ENABLE'', 0x20)],
     Field ''TE_1_0'' 4 0x10 [(''DISABLE'', 0), (''ENABLE'', 0x10)],
     Field ''TE_0_3'' 3 0x8 [(''DISABLE'', 0), (''ENABLE'', 8)],
     Field ''TE_0_2'' 2 0x4 [(''DISABLE'', 0), (''ENABLE'', 4)],
     Field ''TE_0_1'' 1 0x2 [(''DISABLE'', 0), (''ENABLE'', 2)],
     Field ''TE_0_0'' 0 0x1 [(''DISABLE'', 0), (''ENABLE'', 1)]]"

definition LFSS_SPMTERASE1_Bits :: fields where
  "LFSS_SPMTERASE1_Bits =
    [Field ''KEY'' 24 0xff000000 [(''UNLOCK_W'', 0xa3000000)],
     Field ''TE_7_3'' 15 0x8000 [(''DISABLE'', 0), (''ENABLE'', 0x8000)],
     Field ''TE_7_2'' 14 0x4000 [(''DISABLE'', 0), (''ENABLE'', 0x4000)],
     Field ''TE_7_1'' 13 0x2000 [(''DISABLE'', 0), (''ENABLE'', 0x2000)],
     Field ''TE_7_0'' 12 0x1000 [(''DISABLE'', 0), (''ENABLE'', 0x1000)],
     Field ''TE_6_3'' 11 0x800 [(''DISABLE'', 0), (''ENABLE'', 0x800)],
     Field ''TE_6_2'' 10 0x400 [(''DISABLE'', 0), (''ENABLE'', 0x400)],
     Field ''TE_6_1'' 9 0x200 [(''DISABLE'', 0), (''ENABLE'', 0x200)],
     Field ''TE_6_0'' 8 0x100 [(''DISABLE'', 0), (''ENABLE'', 0x100)],
     Field ''TE_5_3'' 7 0x80 [(''DISABLE'', 0), (''ENABLE'', 0x80)],
     Field ''TE_5_2'' 6 0x40 [(''DISABLE'', 0), (''ENABLE'', 0x40)],
     Field ''TE_5_1'' 5 0x20 [(''DISABLE'', 0), (''ENABLE'', 0x20)],
     Field ''TE_5_0'' 4 0x10 [(''DISABLE'', 0), (''ENABLE'', 0x10)],
     Field ''TE_4_3'' 3 0x8 [(''DISABLE'', 0), (''ENABLE'', 8)],
     Field ''TE_4_2'' 2 0x4 [(''DISABLE'', 0), (''ENABLE'', 4)],
     Field ''TE_4_1'' 1 0x2 [(''DISABLE'', 0), (''ENABLE'', 2)],
     Field ''TE_4_0'' 0 0x1 [(''DISABLE'', 0), (''ENABLE'', 1)]]"

definition LFSS_SPMTERASE2_Bits :: fields where
  "LFSS_SPMTERASE2_Bits =
    [Field ''KEY'' 24 0xff000000 [(''UNLOCK_W'', 0xa3000000)],
     Field ''TE_11_3'' 15 0x8000 [(''DISABLE'', 0), (''ENABLE'', 0x8000)],
     Field ''TE_11_2'' 14 0x4000 [(''DISABLE'', 0), (''ENABLE'', 0x4000)],
     Field ''TE_11_1'' 13 0x2000 [(''DISABLE'', 0), (''ENABLE'', 0x2000)],
     Field ''TE_11_0'' 12 0x1000 [(''DISABLE'', 0), (''ENABLE'', 0x1000)],
     Field ''TE_10_3'' 11 0x800 [(''DISABLE'', 0), (''ENABLE'', 0x800)],
     Field ''TE_10_2'' 10 0x400 [(''DISABLE'', 0), (''ENABLE'', 0x400)],
     Field ''TE_10_1'' 9 0x200 [(''DISABLE'', 0), (''ENABLE'', 0x200)],
     Field ''TE_10_0'' 8 0x100 [(''DISABLE'', 0), (''ENABLE'', 0x100)],
     Field ''TE_9_3'' 7 0x80 [(''DISABLE'', 0), (''ENABLE'', 0x80)],
     Field ''TE_9_2'' 6 0x40 [(''DISABLE'', 0), (''ENABLE'', 0x40)],
     Field ''TE_9_1'' 5 0x20 [(''DISABLE'', 0), (''ENABLE'', 0x20)],
     Field ''TE_9_0'' 4 0x10 [(''DISABLE'', 0), (''ENABLE'', 0x10)],
     Field ''TE_8_3'' 3 0x8 [(''DISABLE'', 0), (''ENABLE'', 8)],
     Field ''TE_8_2'' 2 0x4 [(''DISABLE'', 0), (''ENABLE'', 4)],
     Field ''TE_8_1'' 1 0x2 [(''DISABLE'', 0), (''ENABLE'', 2)],
     Field ''TE_8_0'' 0 0x1 [(''DISABLE'', 0), (''ENABLE'', 1)]]"

definition LFSS_SPMTERASE3_Bits :: fields where
  "LFSS_SPMTERASE3_Bits =
    [Field ''KEY'' 24 0xff000000 [(''UNLOCK_W'', 0xa3000000)],
     Field ''TE_15_3'' 15 0x8000 [(''DISABLE'', 0), (''ENABLE'', 0x8000)],
     Field ''TE_15_2'' 14 0x4000 [(''DISABLE'', 0), (''ENABLE'', 0x4000)],
     Field ''TE_15_1'' 13 0x2000 [(''DISABLE'', 0), (''ENABLE'', 0x2000)],
     Field ''TE_15_0'' 12 0x1000 [(''DISABLE'', 0), (''ENABLE'', 0x1000)],
     Field ''TE_14_3'' 11 0x800 [(''DISABLE'', 0), (''ENABLE'', 0x800)],
     Field ''TE_14_2'' 10 0x400 [(''DISABLE'', 0), (''ENABLE'', 0x400)],
     Field ''TE_14_1'' 9 0x200 [(''DISABLE'', 0), (''ENABLE'', 0x200)],
     Field ''TE_14_0'' 8 0x100 [(''DISABLE'', 0), (''ENABLE'', 0x100)],
     Field ''TE_13_3'' 7 0x80 [(''DISABLE'', 0), (''ENABLE'', 0x80)],
     Field ''TE_13_2'' 6 0x40 [(''DISABLE'', 0), (''ENABLE'', 0x40)],
     Field ''TE_13_1'' 5 0x20 [(''DISABLE'', 0), (''ENABLE'', 0x20)],
     Field ''TE_13_0'' 4 0x10 [(''DISABLE'', 0), (''ENABLE'', 0x10)],
     Field ''TE_12_3'' 3 0x8 [(''DISABLE'', 0), (''ENABLE'', 8)],
     Field ''TE_12_2'' 2 0x4 [(''DISABLE'', 0), (''ENABLE'', 4)],
     Field ''TE_12_1'' 1 0x2 [(''DISABLE'', 0), (''ENABLE'', 2)],
     Field ''TE_12_0'' 0 0x1 [(''DISABLE'', 0), (''ENABLE'', 1)]]"

definition LFSS_SPMTERASE4_Bits :: fields where
  "LFSS_SPMTERASE4_Bits =
    [Field ''KEY'' 24 0xff000000 [(''UNLOCK_W'', 0xa3000000)],
     Field ''TE_19_3'' 15 0x8000 [(''DISABLE'', 0), (''ENABLE'', 0x8000)],
     Field ''TE_19_2'' 14 0x4000 [(''DISABLE'', 0), (''ENABLE'', 0x4000)],
     Field ''TE_19_1'' 13 0x2000 [(''DISABLE'', 0), (''ENABLE'', 0x2000)],
     Field ''TE_19_0'' 12 0x1000 [(''DISABLE'', 0), (''ENABLE'', 0x1000)],
     Field ''TE_18_3'' 11 0x800 [(''DISABLE'', 0), (''ENABLE'', 0x800)],
     Field ''TE_18_2'' 10 0x400 [(''DISABLE'', 0), (''ENABLE'', 0x400)],
     Field ''TE_18_1'' 9 0x200 [(''DISABLE'', 0), (''ENABLE'', 0x200)],
     Field ''TE_18_0'' 8 0x100 [(''DISABLE'', 0), (''ENABLE'', 0x100)],
     Field ''TE_17_3'' 7 0x80 [(''DISABLE'', 0), (''ENABLE'', 0x80)],
     Field ''TE_17_2'' 6 0x40 [(''DISABLE'', 0), (''ENABLE'', 0x40)],
     Field ''TE_17_1'' 5 0x20 [(''DISABLE'', 0), (''ENABLE'', 0x20)],
     Field ''TE_17_0'' 4 0x10 [(''DISABLE'', 0), (''ENABLE'', 0x10)],
     Field ''TE_16_3'' 3 0x8 [(''DISABLE'', 0), (''ENABLE'', 8)],
     Field ''TE_16_2'' 2 0x4 [(''DISABLE'', 0), (''ENABLE'', 4)],
     Field ''TE_16_1'' 1 0x2 [(''DISABLE'', 0), (''ENABLE'', 2)],
     Field ''TE_16_0'' 0 0x1 [(''DISABLE'', 0), (''ENABLE'', 1)]]"

definition LFSS_SPMTERASE5_Bits :: fields where
  "LFSS_SPMTERASE5_Bits =
    [Field ''KEY'' 24 0xff000000 [(''UNLOCK_W'', 0xa3000000)],
     Field ''TE_23_3'' 15 0x8000 [(''DISABLE'', 0), (''ENABLE'', 0x8000)],
     Field ''TE_23_2'' 14 0x4000 [(''DISABLE'', 0), (''ENABLE'', 0x4000)],
     Field ''TE_23_1'' 13 0x2000 [(''DISABLE'', 0), (''ENABLE'', 0x2000)],
     Field ''TE_23_0'' 12 0x1000 [(''DISABLE'', 0), (''ENABLE'', 0x1000)],
     Field ''TE_22_3'' 11 0x800 [(''DISABLE'', 0), (''ENABLE'', 0x800)],
     Field ''TE_22_2'' 10 0x400 [(''DISABLE'', 0), (''ENABLE'', 0x400)],
     Field ''TE_22_1'' 9 0x200 [(''DISABLE'', 0), (''ENABLE'', 0x200)],
     Field ''TE_22_0'' 8 0x100 [(''DISABLE'', 0), (''ENABLE'', 0x100)],
     Field ''TE_21_3'' 7 0x80 [(''DISABLE'', 0), (''ENABLE'', 0x80)],
     Field ''TE_21_2'' 6 0x40 [(''DISABLE'', 0), (''ENABLE'', 0x40)],
     Field ''TE_21_1'' 5 0x20 [(''DISABLE'', 0), (''ENABLE'', 0x20)],
     Field ''TE_21_0'' 4 0x10 [(''DISABLE'', 0), (''ENABLE'', 0x10)],
     Field ''TE_20_3'' 3 0x8 [(''DISABLE'', 0), (''ENABLE'', 8)],
     Field ''TE_20_2'' 2 0x4 [(''DISABLE'', 0), (''ENABLE'', 4)],
     Field ''TE_20_1'' 1 0x2 [(''DISABLE'', 0), (''ENABLE'', 2)],
     Field ''TE_20_0'' 0 0x1 [(''DISABLE'', 0), (''ENABLE'', 1)]]"

definition LFSS_SPMTERASE6_Bits :: fields where
  "LFSS_SPMTERASE6_Bits =
    [Field ''KEY'' 24 0xff000000 [(''UNLOCK_W'', 0xa3000000)],
     Field ''TE_27_3'' 15 0x8000 [(''DISABLE'', 0), (''ENABLE'', 0x8000)],
     Field ''TE_27_2'' 14 0x4000 [(''DISABLE'', 0), (''ENABLE'', 0x4000)],
     Field ''TE_27_1'' 13 0x2000 [(''DISABLE'', 0), (''ENABLE'', 0x2000)],
     Field ''TE_27_0'' 12 0x1000 [(''DISABLE'', 0), (''ENABLE'', 0x1000)],
     Field ''TE_26_3'' 11 0x800 [(''DISABLE'', 0), (''ENABLE'', 0x800)],
     Field ''TE_26_2'' 10 0x400 [(''DISABLE'', 0), (''ENABLE'', 0x400)],
     Field ''TE_26_1'' 9 0x200 [(''DISABLE'', 0), (''ENABLE'', 0x200)],
     Field ''TE_26_0'' 8 0x100 [(''DISABLE'', 0), (''ENABLE'', 0x100)],
     Field ''TE_25_3'' 7 0x80 [(''DISABLE'', 0), (''ENABLE'', 0x80)],
     Field ''TE_25_2'' 6 0x40 [(''DISABLE'', 0), (''ENABLE'', 0x40)],
     Field ''TE_25_1'' 5 0x20 [(''DISABLE'', 0), (''ENABLE'', 0x20)],
     Field ''TE_25_0'' 4 0x10 [(''DISABLE'', 0), (''ENABLE'', 0x10)],
     Field ''TE_24_3'' 3 0x8 [(''DISABLE'', 0), (''ENABLE'', 8)],
     Field ''TE_24_2'' 2 0x4 [(''DISABLE'', 0), (''ENABLE'', 4)],
     Field ''TE_24_1'' 1 0x2 [(''DISABLE'', 0), (''ENABLE'', 2)],
     Field ''TE_24_0'' 0 0x1 [(''DISABLE'', 0), (''ENABLE'', 1)]]"

definition LFSS_SPMTERASE7_Bits :: fields where
  "LFSS_SPMTERASE7_Bits =
    [Field ''KEY'' 24 0xff000000 [(''UNLOCK_W'', 0xa3000000)],
     Field ''TE_31_3'' 15 0x8000 [(''DISABLE'', 0), (''ENABLE'', 0x8000)],
     Field ''TE_31_2'' 14 0x4000 [(''DISABLE'', 0), (''ENABLE'', 0x4000)],
     Field ''TE_31_1'' 13 0x2000 [(''DISABLE'', 0), (''ENABLE'', 0x2000)],
     Field ''TE_31_0'' 12 0x1000 [(''DISABLE'', 0), (''ENABLE'', 0x1000)],
     Field ''TE_30_3'' 11 0x800 [(''DISABLE'', 0), (''ENABLE'', 0x800)],
     Field ''TE_30_2'' 10 0x400 [(''DISABLE'', 0), (''ENABLE'', 0x400)],
     Field ''TE_30_1'' 9 0x200 [(''DISABLE'', 0), (''ENABLE'', 0x200)],
     Field ''TE_30_0'' 8 0x100 [(''DISABLE'', 0), (''ENABLE'', 0x100)],
     Field ''TE_29_3'' 7 0x80 [(''DISABLE'', 0), (''ENABLE'', 0x80)],
     Field ''TE_29_2'' 6 0x40 [(''DISABLE'', 0), (''ENABLE'', 0x40)],
     Field ''TE_29_1'' 5 0x20 [(''DISABLE'', 0), (''ENABLE'', 0x20)],
     Field ''TE_29_0'' 4 0x10 [(''DISABLE'', 0), (''ENABLE'', 0x10)],
     Field ''TE_28_3'' 3 0x8 [(''DISABLE'', 0), (''ENABLE'', 8)],
     Field ''TE_28_2'' 2 0x4 [(''DISABLE'', 0), (''ENABLE'', 4)],
     Field ''TE_28_1'' 1 0x2 [(''DISABLE'', 0), (''ENABLE'', 2)],
     Field ''TE_28_0'' 0 0x1 [(''DISABLE'', 0), (''ENABLE'', 1)]]"

definition LFSS_WDTEN_Bits :: fields where
  "LFSS_WDTEN_Bits =
    [Field ''ENABLE'' 0 0x1 [(''CLR'', 0), (''SET'', 1)],
     Field ''KEY'' 24 0xff000000 [(''UNLOCK_W'', 0xee000000)]]"

definition LFSS_WDTDBGCTL_Bits :: fields where
  "LFSS_WDTDBGCTL_Bits =
    [Field ''FREE'' 0 0x1 [(''STOP'', 0), (''RUN'', 1)]]"

definition LFSS_WDTCTL_Bits :: fields where
  "LFSS_WDTCTL_Bits =
    [Field ''CLKDIV'' 0 0x7 [(''MIN'', 0), (''MAX'', 7)],
     Field ''PER'' 4 0x70 [
       (''PER_EN_25'', 0), (''PER_EN_21'', 0x10), (''PER_EN_18'', 0x20), (''PER_EN_15'', 0x30), (''PER_EN_12'', 0x40),
       (''PER_EN_10'', 0x50), (''PER_EN_8'', 0x60), (''PER_EN_6'', 0x70)],
     Field ''KEY'' 24 0xff000000 [(''UNLOCK_W'', 0xc6000000)]]"

definition LFSS_WDTCNTRST_Bits :: fields where
  "LFSS_WDTCNTRST_Bits =
    [Field ''RESTART'' 0 0xffffffff [(''MINIMUM'', 0), (''VALUE'', 0x3a7), (''MAXIMUM'', 0xffffffff)]]"

definition LFSS_WDTSTAT_Bits :: fields where
  "LFSS_WDTSTAT_Bits =
    [Field ''RUN'' 0 0x1 [(''STOP'', 0), (''RUN'', 1)]]"

definition LFSS_WDTLOCK_Bits :: fields where
  "LFSS_WDTLOCK_Bits =
    [Field ''PROTECT'' 0 0x1 [(''CLR'', 0), (''SET'', 1)],
     Field ''KEY'' 24 0xff000000 [(''UNLOCK_W'', 0xbd000000)]]"

definition LFSS_TIOCTL_Bits :: fields where
  "LFSS_TIOCTL_Bits =
    [Field ''IOMUX'' 0 0x1 [(''IOMUX'', 0), (''TAMPER'', 1)],
     Field ''PIPD'' 16 0x10000 [(''DISABLE'', 0), (''ENABLE'', 0x10000)],
     Field ''PIPU'' 17 0x20000 [(''DISABLE'', 0), (''ENABLE'', 0x20000)],
     Field ''INENA'' 18 0x40000 [(''DISABLE'', 0), (''ENABLE'', 0x40000)],
     Field ''POLARITY'' 8 0x300 [(''DISABLE'', 0), (''RISE'', 0x100), (''FALL'', 0x200), (''BOTH'', 0x300)],
     Field ''FILTEREN'' 12 0x3000 [(''NO_FLT'', 0), (''FLT_1'', 0x1000), (''FLT_2'', 0x2000), (''FLT_3'', 0x3000)],
     Field ''TOUTSEL'' 4 0x30 [(''TOUT'', 0), (''LFCLKEXT'', 0x10), (''HEARTBEAT'', 0x20), (''TSEVTSTAT'', 0x30)],
     Field ''OUTINV'' 19 0x80000 [(''DISBALE'', 0), (''ENABLE'', 0x80000)]]"

definition LFSS_TOUT3_0_Bits :: fields where
  "LFSS_TOUT3_0_Bits =
    [Field ''TIO0'' 0 0x1 [(''ZERO'', 0), (''ONE'', 1)],
     Field ''TIO1'' 8 0x100 [(''ZERO'', 0), (''ONE'', 0x100)],
     Field ''TIO2'' 16 0x10000 [(''ZERO'', 0), (''ONE'', 0x10000)],
     Field ''TIO3'' 24 0x1000000 [(''ZERO'', 0), (''ONE'', 0x1000000)]]"

definition LFSS_TOUT7_4_Bits :: fields where
  "LFSS_TOUT7_4_Bits =
    [Field ''TIO4'' 0 0x1 [(''ZERO'', 0), (''ONE'', 1)],
     Field ''TIO5'' 8 0x100 [(''ZERO'', 0), (''ONE'', 0x100)],
     Field ''TIO6'' 16 0x10000 [(''ZERO'', 0), (''ONE'', 0x10000)],
     Field ''TIO7'' 24 0x1000000 [(''ZERO'', 0), (''ONE'', 0x1000000)]]"

definition LFSS_TOUT11_8_Bits :: fields where
  "LFSS_TOUT11_8_Bits =
    [Field ''TIO8'' 0 0x1 [(''ZERO'', 0), (''ONE'', 1)],
     Field ''TIO9'' 8 0x100 [(''ZERO'', 0), (''ONE'', 0x100)],
     Field ''TIO10'' 16 0x10000 [(''ZERO'', 0), (''ONE'', 0x10000)],
     Field ''TIO11'' 24 0x1000000 [(''ZERO'', 0), (''ONE'', 0x1000000)]]"

definition LFSS_TOUT15_12_Bits :: fields where
  "LFSS_TOUT15_12_Bits =
    [Field ''TIO12'' 0 0x1 [(''ZERO'', 0), (''ONE'', 1)],
     Field ''TIO13'' 8 0x100 [(''ZERO'', 0), (''ONE'', 0x100)],
     Field ''TIO14'' 16 0x10000 [(''ZERO'', 0), (''ONE'', 0x10000)],
     Field ''TIO15'' 24 0x1000000 [(''ZERO'', 0), (''ONE'', 0x1000000)]]"

definition LFSS_TOE3_0_Bits :: fields where
  "LFSS_TOE3_0_Bits =
    [Field ''TIO0'' 0 0x1 [(''DISABLE'', 0), (''ENABLE'', 1)],
     Field ''TIO1'' 8 0x100 [(''DISABLE'', 0), (''ENABLE'', 0x100)],
     Field ''TIO2'' 16 0x10000 [(''DISABLE'', 0), (''ENABLE'', 0x10000)],
     Field ''TIO3'' 24 0x1000000 [(''DISABLE'', 0), (''ENABLE'', 0x1000000)]]"

definition LFSS_TOE7_4_Bits :: fields where
  "LFSS_TOE7_4_Bits =
    [Field ''TIO4'' 0 0x1 [(''DISABLE'', 0), (''ENABLE'', 1)],
     Field ''TIO5'' 8 0x100 [(''DISABLE'', 0), (''ENABLE'', 0x100)],
     Field ''TIO6'' 16 0x10000 [(''DISABLE'', 0), (''ENABLE'', 0x10000)],
     Field ''TIO7'' 24 0x1000000 [(''DISABLE'', 0), (''ENABLE'', 0x1000000)]]"

definition LFSS_TOE11_8_Bits :: fields where
  "LFSS_TOE11_8_Bits =
    [Field ''TIO8'' 0 0x1 [(''DISABLE'', 0), (''ENABLE'', 1)],
     Field ''TIO9'' 8 0x100 [(''DISABLE'', 0), (''ENABLE'', 0x100)],
     Field ''TIO10'' 16 0x10000 [(''DISABLE'', 0), (''ENABLE'', 0x10000)],
     Field ''TIO11'' 24 0x1000000 [(''DISABLE'', 0), (''ENABLE'', 0x1000000)]]"

definition LFSS_TOE15_12_Bits :: fields where
  "LFSS_TOE15_12_Bits =
    [Field ''TIO12'' 0 0x1 [(''DISABLE'', 0), (''ENABLE'', 1)],
     Field ''TIO13'' 8 0x100 [(''DISABLE'', 0), (''ENABLE'', 0x100)],
     Field ''TIO14'' 16 0x10000 [(''DISABLE'', 0), (''ENABLE'', 0x10000)],
     Field ''TIO15'' 24 0x1000000 [(''DISABLE'', 0), (''ENABLE'', 0x1000000)]]"

definition LFSS_TIN3_0_Bits :: fields where
  "LFSS_TIN3_0_Bits =
    [Field ''TIO0'' 0 0x1 [(''ZERO'', 0), (''ONE'', 1)],
     Field ''TIO1'' 8 0x100 [(''ZERO'', 0), (''ONE'', 0x100)],
     Field ''TIO2'' 16 0x10000 [(''ZERO'', 0), (''ONE'', 0x10000)],
     Field ''TIO3'' 24 0x1000000 [(''ZERO'', 0), (''ONE'', 0x1000000)]]"

definition LFSS_TIN7_4_Bits :: fields where
  "LFSS_TIN7_4_Bits =
    [Field ''TIO4'' 0 0x1 [(''ZERO'', 0), (''ONE'', 1)],
     Field ''TIO5'' 8 0x100 [(''ZERO'', 0), (''ONE'', 0x100)],
     Field ''TIO6'' 16 0x10000 [(''ZERO'', 0), (''ONE'', 0x10000)],
     Field ''TIO7'' 24 0x1000000 [(''ZERO'', 0), (''ONE'', 0x1000000)]]"

definition LFSS_TIN11_8_Bits :: fields where
  "LFSS_TIN11_8_Bits =
    [Field ''TIO8'' 0 0x1 [(''ZERO'', 0), (''ONE'', 1)],
     Field ''TIO9'' 8 0x100 [(''ZERO'', 0), (''ONE'', 0x100)],
     Field ''TIO10'' 16 0x10000 [(''ZERO'', 0), (''ONE'', 0x10000)],
     Field ''TIO11'' 24 0x1000000 [(''ZERO'', 0), (''ONE'', 0x1000000)]]"

definition LFSS_TIN15_12_Bits :: fields where
  "LFSS_TIN15_12_Bits =
    [Field ''TIO12'' 0 0x1 [(''ZERO'', 0), (''ONE'', 1)],
     Field ''TIO13'' 8 0x100 [(''ZERO'', 0), (''ONE'', 0x100)],
     Field ''TIO14'' 16 0x10000 [(''ZERO'', 0), (''ONE'', 0x10000)],
     Field ''TIO15'' 24 0x1000000 [(''ZERO'', 0), (''ONE'', 0x1000000)]]"

definition LFSS_HEARTBEAT_Bits :: fields where
  "LFSS_HEARTBEAT_Bits =
    [Field ''HBINTERVAL'' 0 0x7 [
       (''HBINT0P125'', 0), (''HBINT0P25'', 1), (''HBINT0P5'', 2), (''HBINT1'', 3), (''HBINT2'', 4), (''HBINT4'', 5),
       (''HBINT8'', 6), (''HBINT16'', 7)],
     Field ''HBWIDTH'' 8 0x700 [
       (''HBPWDTH1'', 0), (''HBPWDTH2'', 0x100), (''HBPWDTH4'', 0x200), (''HBPWDTH8'', 0x300), (''HBPWDTH16'', 0x400),
       (''HBPWDTH32'', 0x500), (''HBPWDTH64'', 0x600), (''HBPWDTH128'', 0x700)],
     Field ''HBMODE'' 16 0x30000 [
       (''HB_DIS'', 0), (''HB_ALLWAYS'', 0x10000), (''HB_TS'', 0x20000), (''HB_VDDFAIL'', 0x30000)]]"

definition LFSS_TIOLOCK_Bits :: fields where
  "LFSS_TIOLOCK_Bits =
    [Field ''PROTECT'' 0 0x1 [(''CLR'', 0), (''SET'', 1)],
     Field ''KEY'' 24 0xff000000 [(''UNLOCK_W'', 0x18000000)]]"

definition LFSS_CLKCTL_Bits :: fields where
  "LFSS_CLKCTL_Bits =
    [Field ''MODCLKEN'' 31 0x80000000 [(''DISABLE'', 0), (''ENABLE'', 0x80000000)]]"

definition LFSS_DBGCTL_Bits :: fields where
  "LFSS_DBGCTL_Bits =
    [Field ''DBGRUN'' 0 0x1 [(''HALT'', 0), (''RUN'', 1)],
     Field ''DBGINT'' 1 0x2 [(''OFF'', 0), (''ON'', 2)]]"

definition LFSS_CTL_Bits :: fields where
  "LFSS_CTL_Bits =
    [Field ''RTCTEVTX'' 0 0x3 [(''MINUTE'', 0), (''HOUR'', 1), (''MIDNIGHT'', 2), (''NOON'', 3)],
     Field ''RTCBCD'' 7 0x80 [(''BINARY'', 0), (''BCD'', 0x80)]]"

definition LFSS_STA_Bits :: fields where
  "LFSS_STA_Bits =
    [Field ''RTCRDY'' 0 0x1 [(''NOT_READY'', 0), (''READY'', 1)],
     Field ''RTCTCRDY'' 1 0x2 [(''NOT_READY'', 0), (''READY'', 2)],
     Field ''RTCTCOK'' 2 0x4 [(''NOT_OK'', 0), (''OK'', 4)]]"

definition LFSS_CAL_Bits :: fields where
  "LFSS_CAL_Bits =
    [Field ''RTCOCALX'' 0 0xff [(''MINIMUM'', 0), (''MAXIMUM'', 0xff)],
     Field ''RTCOCALS'' 15 0x8000 [(''DOWN'', 0), (''UP'', 0x8000)],
     Field ''RTCCALFX'' 16 0x30000 [(''F32KHZ'', 0), (''F512HZ'', 0x10000), (''F256HZ'', 0x20000), (''F1HZ'', 0x30000)]]"

definition LFSS_TCMP_Bits :: fields where
  "LFSS_TCMP_Bits =
    [Field ''RTCTCMPX'' 0 0xff [(''MINIMUM'', 0), (''MAXIMUM'', 0xff)],
     Field ''RTCTCMPS'' 15 0x8000 [(''DOWN'', 0), (''UP'', 0x8000)]]"

definition LFSS_SEC_Bits :: fields where
  "LFSS_SEC_Bits =
    [Field ''SECBIN'' 0 0x3f [(''MINIMUM'', 0), (''MAXIMUM'', 0x3b)],
     Field ''SECLOWBCD'' 8 0xf00 [(''MINIMUM'', 0), (''MAXIMUM'', 0x900)],
     Field ''SECHIGHBCD'' 12 0x7000 [(''MINIMUM'', 0), (''MAXIMUM'', 0x5000)]]"

definition LFSS_MIN_Bits :: fields where
  "LFSS_MIN_Bits =
    [Field ''MINBIN'' 0 0x3f [(''MINIMUM'', 0), (''MAXIMUM'', 0x3b)],
     Field ''MINLOWBCD'' 8 0xf00 [(''MINIMUM'', 0), (''MAXIMUM'', 0x900)],
     Field ''MINHIGHBCD'' 12 0x7000 [(''MINIMUM'', 0), (''MAXIMUM'', 0x5000)]]"

definition LFSS_HOUR_Bits :: fields where
  "LFSS_HOUR_Bits =
    [Field ''HOURBIN'' 0 0x1f [(''MINIMUM'', 0), (''MAXIMUM'', 0x17)],
     Field ''HOURLOWBCD'' 8 0xf00 [(''MINIMUM'', 0), (''MAXIMUM'', 0x900)],
     Field ''HOURHIGHBCD'' 12 0x3000 [(''MINIMUM'', 0), (''MAXIMUM'', 0x2000)]]"

definition LFSS_DAY_Bits :: fields where
  "LFSS_DAY_Bits =
    [Field ''DOW'' 0 0x7 [(''MINIMUM'', 0), (''MAXIMUM'', 6)],
     Field ''DOMBIN'' 8 0x1f00 [(''MINIMUM'', 0), (''MAXIMUM'', 0x1f00)],
     Field ''DOMLOWBCD'' 16 0xf0000 [(''MINIMUM'', 0), (''MAXIMUM'', 0x90000)],
     Field ''DOMHIGHBCD'' 20 0x300000 [(''MINIMUM'', 0), (''MAXIMUM'', 0x300000)]]"

definition LFSS_MON_Bits :: fields where
  "LFSS_MON_Bits =
    [Field ''MONBIN'' 0 0xf [(''MINIMUM'', 0), (''MAXIMUM'', 0xc)],
     Field ''MONLOWBCD'' 8 0xf00 [(''MINIMUM'', 0), (''MAXIMUM'', 0x900)],
     Field ''MONHIGHBCD'' 12 0x1000 [(''MINIMUM'', 0), (''MAXIMUM'', 0x1000)]]"

definition LFSS_YEAR_Bits :: fields where
  "LFSS_YEAR_Bits =
    [Field ''YEARLOWBIN'' 0 0xff [(''MINIMUM'', 0), (''MAXIMUM'', 0xff)],
     Field ''YEARHIGHBIN'' 8 0xf00 [(''MINIMUM'', 0), (''MAXIMUM'', 0xf00)],
     Field ''YEARLOWESTBCD'' 16 0xf0000 [(''MINIMUM'', 0), (''MAXIMUM'', 0x90000)],
     Field ''DECADEBCD'' 20 0xf00000 [(''MINIMUM'', 0), (''MAXIMUM'', 0x900000)],
     Field ''CENTLOWBCD'' 24 0xf000000 [(''MINIMUM'', 0), (''MAXIMUM'', 0x9000000)],
     Field ''CENTHIGHBCD'' 28 0x70000000 [(''MINIMUM'', 0), (''MAXIMUM'', 0x40000000)]]"

definition LFSS_A1MIN_Bits :: fields where
  "LFSS_A1MIN_Bits =
    [Field ''AMINBIN'' 0 0x3f [(''MINIMUM'', 0), (''MAXIMUM'', 0x3b)],
     Field ''AMINAEBIN'' 7 0x80 [(''DISABLE'', 0), (''ENABLE'', 0x80)],
     Field ''AMINLOWBCD'' 8 0xf00 [(''MINIMUM'', 0), (''MAXIMUM'', 0x900)],
     Field ''AMINHIGHBCD'' 12 0x7000 [(''MINIMUM'', 0), (''MAXIMUM'', 0x5000)],
     Field ''AMINAEBCD'' 15 0x8000 [(''DISABLE'', 0), (''ENABLE'', 0x8000)]]"

definition LFSS_A1HOUR_Bits :: fields where
  "LFSS_A1HOUR_Bits =
    [Field ''AHOURBIN'' 0 0x1f [(''MINIMUM'', 0), (''MAXIMUM'', 0x17)],
     Field ''AHOURAEBIN'' 7 0x80 [(''DISABLE'', 0), (''ENABLE'', 0x80)],
     Field ''AHOURLOWBCD'' 8 0xf00 [(''MINIMUM'', 0), (''MAXIMUM'', 0x900)],
     Field ''AHOURHIGHBCD'' 12 0x3000 [(''MINIMUM'', 0), (''MAXIMUM'', 0x2000)],
     Field ''AHOURAEBCD'' 15 0x8000 [(''DISABLE'', 0), (''ENABLE'', 0x8000)]]"

definition LFSS_A1DAY_Bits :: fields where
  "LFSS_A1DAY_Bits =
    [Field ''ADOW'' 0 0x7 [(''MINIMUM'', 0), (''MAXIMUM'', 6)],
     Field ''ADOWAE'' 7 0x80 [(''DISABLE'', 0), (''ENABLE'', 0x80)],
     Field ''ADOMBIN'' 8 0x1f00 [(''MINIMUM'', 0), (''MAXIMUM'', 0x1f00)],
     Field ''ADOMAEBIN'' 15 0x8000 [(''DISABLE'', 0), (''ENABLE'', 0x8000)],
     Field ''ADOMLOWBCD'' 16 0xf0000 [(''MINIMUM'', 0), (''MAXIMUM'', 0x90000)],
     Field ''ADOMHIGHBCD'' 20 0x300000 [(''MINIMUM'', 0), (''MAXIMUM'', 0x300000)],
     Field ''ADOMAEBCD'' 23 0x800000 [(''DISABLE'', 0), (''ENABLE'', 0x800000)]]"

definition LFSS_A2MIN_Bits :: fields where
  "LFSS_A2MIN_Bits =
    [Field ''AMINBIN'' 0 0x3f [(''MINIMUM'', 0), (''MAXIMUM'', 0x3b)],
     Field ''AMINAEBIN'' 7 0x80 [(''DISABLE'', 0), (''ENABLE'', 0x80)],
     Field ''AMINLOWBCD'' 8 0xf00 [(''MINIMUM'', 0), (''MAXIMUM'', 0x900)],
     Field ''AMINHIGHBCD'' 12 0x7000 [(''MINIMUM'', 0), (''MAXIMUM'', 0x5000)],
     Field ''AMINAEBCD'' 15 0x8000 [(''DISABLE'', 0), (''ENABLE'', 0x8000)]]"

definition LFSS_A2HOUR_Bits :: fields where
  "LFSS_A2HOUR_Bits =
    [Field ''AHOURBIN'' 0 0x1f [(''MINIMUM'', 0), (''MAXIMUM'', 0x17)],
     Field ''AHOURAEBIN'' 7 0x80 [(''DISABLE'', 0), (''ENABLE'', 0x80)],
     Field ''AHOURLOWBCD'' 8 0xf00 [(''MINIMUM'', 0), (''MAXIMUM'', 0x900)],
     Field ''AHOURHIGHBCD'' 12 0x3000 [(''MINIMUM'', 0), (''MAXIMUM'', 0x2000)],
     Field ''AHOURAEBCD'' 15 0x8000 [(''DISABLE'', 0), (''ENABLE'', 0x8000)]]"

definition LFSS_A2DAY_Bits :: fields where
  "LFSS_A2DAY_Bits =
    [Field ''ADOW'' 0 0x7 [(''MINIMUM'', 0), (''MAXIMUM'', 6)],
     Field ''ADOWAE'' 7 0x80 [(''DISABLE'', 0), (''ENABLE'', 0x80)],
     Field ''ADOMBIN'' 8 0x1f00 [(''MINIMUM'', 0), (''MAXIMUM'', 0x1f00)],
     Field ''ADOMAEBIN'' 15 0x8000 [(''DISABLE'', 0), (''ENABLE'', 0x8000)],
     Field ''ADOMLOWBCD'' 16 0xf0000 [(''MINIMUM'', 0), (''MAXIMUM'', 0x90000)],
     Field ''ADOMHIGHBCD'' 20 0x300000 [(''MINIMUM'', 0), (''MAXIMUM'', 0x300000)],
     Field ''ADOMAEBCD'' 23 0x800000 [(''DISABLE'', 0), (''ENABLE'', 0x800000)]]"

definition LFSS_PSCTL_Bits :: fields where
  "LFSS_PSCTL_Bits =
    [Field ''RT0IP'' 2 0x1c [
       (''INT244US'', 8), (''INT488US'', 0xc), (''INT0P98MS'', 0x10), (''INT1P95MS'', 0x14), (''INT3P91MS'', 0x18),
       (''INT7P81MS'', 0x1c)],
     Field ''RT1IP'' 18 0x1c0000 [
       (''INT15P6MS'', 0), (''INT31P3MS'', 0x40000), (''INT62P5MS'', 0x80000), (''INT125MS'', 0xc0000),
       (''INT250MS'', 0x100000), (''INT500MS'', 0x140000), (''INT1S'', 0x180000), (''INT2S'', 0x1c0000)]]"

definition LFSS_EXTPSCTL_Bits :: fields where
  "LFSS_EXTPSCTL_Bits =
    [Field ''RT2PS'' 2 0xc [(''INT4S'', 0), (''INT8S'', 4), (''INT16S'', 8)]]"

definition LFSS_TSSEC_Bits :: fields where
  "LFSS_TSSEC_Bits =
    [Field ''SECBIN'' 0 0x3f [(''MINIMUM'', 0), (''MAXIMUM'', 0x3b)],
     Field ''SECLOWBCD'' 8 0xf00 [(''MINIMUM'', 0), (''MAXIMUM'', 0x900)],
     Field ''SECHIGHBCD'' 12 0x7000 [(''MINIMUM'', 0), (''MAXIMUM'', 0x5000)]]"

definition LFSS_TSMIN_Bits :: fields where
  "LFSS_TSMIN_Bits =
    [Field ''MINBIN'' 0 0x3f [(''MINIMUM'', 0), (''MAXIMUM'', 0x3b)],
     Field ''MINLOWBCD'' 8 0xf00 [(''MINIMUM'', 0), (''MAXIMUM'', 0x900)],
     Field ''MINHIGHBCD'' 12 0x7000 [(''MINIMUM'', 0), (''MAXIMUM'', 0x5000)]]"

definition LFSS_TSHOUR_Bits :: fields where
  "LFSS_TSHOUR_Bits =
    [Field ''HOURBIN'' 0 0x1f [(''MINIMUM'', 0), (''MAXIMUM'', 0x17)],
     Field ''HOURLOWBCD'' 8 0xf00 [(''MINIMUM'', 0), (''MAXIMUM'', 0x900)],
     Field ''HOURHIGHBCD'' 12 0x3000 [(''MINIMUM'', 0), (''MAXIMUM'', 0x2000)]]"

definition LFSS_TSDAY_Bits :: fields where
  "LFSS_TSDAY_Bits =
    [Field ''DOW'' 0 0x7 [(''MINIMUM'', 0), (''MAXIMUM'', 6)],
     Field ''DOMBIN'' 8 0x1f00 [(''MINIMUM'', 0), (''MAXIMUM'', 0x1f00)],
     Field ''DOMLOWBCD'' 16 0xf0000 [(''MINIMUM'', 0), (''MAXIMUM'', 0x90000)],
     Field ''DOMHIGHBCD'' 20 0x300000 [(''MINIMUM'', 0), (''MAXIMUM'', 0x300000)]]"

definition LFSS_TSMON_Bits :: fields where
  "LFSS_TSMON_Bits =
    [Field ''MONBIN'' 0 0xf [(''MINIMUM'', 0), (''MAXIMUM'', 0xc)],
     Field ''MONLOWBCD'' 8 0xf00 [(''MINIMUM'', 0), (''MAXIMUM'', 0x900)],
     Field ''MONHIGHBCD'' 12 0x1000 [(''MINIMUM'', 0), (''MAXIMUM'', 0x1000)]]"

definition LFSS_TSYEAR_Bits :: fields where
  "LFSS_TSYEAR_Bits =
    [Field ''YEARLOWBIN'' 0 0xff [(''MINIMUM'', 0), (''MAXIMUM'', 0xff)],
     Field ''YEARHIGHBIN'' 8 0xf00 [(''MINIMUM'', 0), (''MAXIMUM'', 0xf00)],
     Field ''YERARLOWESTBCD'' 16 0xf0000 [(''MINIMUM'', 0), (''MAXIMUM'', 0x90000)],
     Field ''DECADEBCD'' 20 0xf00000 [(''MINIMUM'', 0), (''MAXIMUM'', 0x900000)],
     Field ''CENTLOWBCD'' 24 0xf000000 [(''MINIMUM'', 0), (''MAXIMUM'', 0x9000000)],
     Field ''CENTHIGHBCD'' 28 0x70000000 [(''MINIMUM'', 0), (''MAXIMUM'', 0x40000000)]]"

definition LFSS_TSSTAT_Bits :: fields where
  "LFSS_TSSTAT_Bits =
    [Field ''TSTIOEVT0'' 0 0x1 [(''CLR'', 0), (''SET'', 1)],
     Field ''TSTIOEVT1'' 1 0x2 [(''CLR'', 0), (''SET'', 2)],
     Field ''TSTIOEVT2'' 2 0x4 [(''CLR'', 0), (''SET'', 4)],
     Field ''TSTIOEVT3'' 3 0x8 [(''CLR'', 0), (''SET'', 8)],
     Field ''TSTIOEVT4'' 4 0x10 [(''CLR'', 0), (''SET'', 0x10)],
     Field ''TSTIOEVT5'' 5 0x20 [(''CLR'', 0), (''SET'', 0x20)],
     Field ''TSTIOEVT6'' 6 0x40 [(''CLR'', 0), (''SET'', 0x40)],
     Field ''TSTIOEVT7'' 7 0x80 [(''CLR'', 0), (''SET'', 0x80)],
     Field ''TSTIOEVT8'' 8 0x100 [(''CLR'', 0), (''SET'', 0x100)],
     Field ''TSTIOEVT9'' 9 0x200 [(''CLR'', 0), (''SET'', 0x200)],
     Field ''TSTIOEVT10'' 10 0x400 [(''CLR'', 0), (''SET'', 0x400)],
     Field ''TSTIOEVT11'' 11 0x800 [(''CLR'', 0), (''SET'', 0x800)],
     Field ''TSTIOEVT12'' 12 0x1000 [(''CLR'', 0), (''SET'', 0x1000)],
     Field ''TSTIOEVT13'' 13 0x2000 [(''CLR'', 0), (''SET'', 0x2000)],
     Field ''TSTIOEVT14'' 14 0x4000 [(''CLR'', 0), (''SET'', 0x4000)],
     Field ''TSTIOEVT15'' 15 0x8000 [(''CLR'', 0), (''SET'', 0x8000)],
     Field ''TSVDDEVT'' 16 0x10000 [(''CLR'', 0), (''SET'', 0x10000)]]"

definition LFSS_TSCTL_Bits :: fields where
  "LFSS_TSCTL_Bits =
    [Field ''TSTIOEN0'' 0 0x1 [(''DISABLE'', 0), (''ENABLE'', 1)],
     Field ''TSTIOEN1'' 1 0x2 [(''DISABLE'', 0), (''ENABLE'', 2)],
     Field ''TSTIOEN2'' 2 0x4 [(''DISABLE'', 0), (''ENABLE'', 4)],
     Field ''TSTIOEN3'' 3 0x8 [(''DISABLE'', 0), (''ENABLE'', 8)],
     Field ''TSTIOEN4'' 4 0x10 [(''DISABLE'', 0), (''ENABLE'', 0x10)],
     Field ''TSTIOEN5'' 5 0x20 [(''DISABLE'', 0), (''ENABLE'', 0x20)],
     Field ''TSTIOEN6'' 6 0x40 [(''DISABLE'', 0), (''ENABLE'', 0x40)],
     Field ''TSTIOEN7'' 7 0x80 [(''DISABLE'', 0), (''ENABLE'', 0x80)],
     Field ''TSTIOEN8'' 8 0x100 [(''DISABLE'', 0), (''ENABLE'', 0x100)],
     Field ''TSTIOEN9'' 9 0x200 [(''DISABLE'', 0), (''ENABLE'', 0x200)],
     Field ''TSTIOEN10'' 10 0x400 [(''DISABLE'', 0), (''ENABLE'', 0x400)],
     Field ''TSTIOEN11'' 11 0x800 [(''DISABLE'', 0), (''ENABLE'', 0x800)],
     Field ''TSTIOEN12'' 12 0x1000 [(''DISABLE'', 0), (''ENABLE'', 0x1000)],
     Field ''TSTIOEN13'' 13 0x2000 [(''DISABLE'', 0), (''ENABLE'', 0x2000)],
     Field ''TSTIOEN14'' 14 0x4000 [(''DISABLE'', 0), (''ENABLE'', 0x4000)],
     Field ''TSTIOEN15'' 15 0x8000 [(''DISABLE'', 0), (''ENABLE'', 0x8000)],
     Field ''TSVDDEN'' 16 0x10000 [(''DISABLE'', 0), (''ENABLE'', 0x10000)],
     Field ''TSCAPTURE'' 20 0x100000 [(''FIRST'', 0), (''LAST'', 0x100000)],
     Field ''KEY'' 24 0xff000000 [(''UNLOCK_W'', 0xc5000000)]]"

definition LFSS_TSCLR_Bits :: fields where
  "LFSS_TSCLR_Bits =
    [Field ''CLR'' 0 0x1 [(''NO_EFFECT'', 0), (''CLR'', 1)],
     Field ''KEY'' 24 0xff000000 [(''UNLOCK_W'', 0xe2000000)]]"

definition LFSS_LFSSRST_Bits :: fields where
  "LFSS_LFSSRST_Bits =
    [Field ''VBATPOR'' 0 0x1 [(''NO_EFFECT'', 0), (''SET'', 1)],
     Field ''KEY'' 24 0xff000000 [(''UNLOCK_W'', 0x12000000)]]"

definition LFSS_RTCLOCK_Bits :: fields where
  "LFSS_RTCLOCK_Bits =
    [Field ''PROTECT'' 0 0x1 [(''CLR'', 0), (''SET'', 1)],
     Field ''KEY'' 24 0xff000000 [(''UNLOCK_W'', 0x22000000)]]"

definition LFSS_GEN_EVENT_IIDX_Bits :: fields where
  "LFSS_GEN_EVENT_IIDX_Bits =
    [Field ''STAT'' 0 0xff [
       (''NO_INTR'', 0), (''RTCRDY'', 1), (''RTCTEV'', 2), (''RTCA1'', 3), (''RTCA2'', 4), (''RT0PS'', 5),
       (''RT1PS'', 6), (''RT2PS'', 7), (''TSEVT'', 8), (''TIO0'', 9), (''TIO1'', 0xa), (''TIO2'', 0xb), (''TIO3'', 0xc),
       (''TIO4'', 0xd), (''TIO5'', 0xe), (''TIO6'', 0xf), (''TIO7'', 0x10), (''TIO8'', 0x11), (''TIO9'', 0x12),
       (''TIO10'', 0x13), (''TIO11'', 0x14), (''TIO12'', 0x15), (''TIO13'', 0x16), (''TIO14'', 0x17), (''TIO15'', 0x18)]]"

definition LFSS_GEN_EVENT_IMASK_Bits :: fields where
  "LFSS_GEN_EVENT_IMASK_Bits =
    [Field ''RTCRDY'' 0 0x1 [(''CLR'', 0), (''SET'', 1)],
     Field ''RTCTEV'' 1 0x2 [(''CLR'', 0), (''SET'', 2)],
     Field ''RTCA1'' 2 0x4 [(''CLR'', 0), (''SET'', 4)],
     Field ''RTCA2'' 3 0x8 [(''CLR'', 0), (''SET'', 8)],
     Field ''RT0PS'' 4 0x10 [(''CLR'', 0), (''SET'', 0x10)],
     Field ''RT1PS'' 5 0x20 [(''CLR'', 0), (''SET'', 0x20)],
     Field ''RT2PS'' 6 0x40 [(''CLR'', 0), (''SET'', 0x40)],
     Field ''TSEVT'' 7 0x80 [(''CLR'', 0), (''SET'', 0x80)],
     Field ''TIO0'' 8 0x100 [(''CLR'', 0), (''SET'', 0x100)],
     Field ''TIO1'' 9 0x200 [(''CLR'', 0), (''SET'', 0x200)],
     Field ''TIO2'' 10 0x400 [(''CLR'', 0), (''SET'', 0x400)],
     Field ''TIO3'' 11 0x800 [(''CLR'', 0), (''SET'', 0x800)],
     Field ''TIO4'' 12 0x1000 [(''CLR'', 0), (''SET'', 0x1000)],
     Field ''TIO5'' 13 0x2000 [(''CLR'', 0), (''SET'', 0x2000)],
     Field ''TIO6'' 14 0x4000 [(''CLR'', 0), (''SET'', 0x4000)],
     Field ''TIO7'' 15 0x8000 [(''CLR'', 0), (''SET'', 0x8000)],
     Field ''TIO8'' 16 0x10000 [(''CLR'', 0), (''SET'', 0x10000)],
     Field ''TIO9'' 17 0x20000 [(''CLR'', 0), (''SET'', 0x20000)],
     Field ''TIO10'' 18 0x40000 [(''CLR'', 0), (''SET'', 0x40000)],
     Field ''TIO11'' 19 0x80000 [(''CLR'', 0), (''SET'', 0x80000)],
     Field ''TIO12'' 20 0x100000 [(''CLR'', 0), (''SET'', 0x100000)],
     Field ''TIO13'' 21 0x200000 [(''CLR'', 0), (''SET'', 0x200000)],
     Field ''TIO14'' 22 0x400000 [(''CLR'', 0), (''SET'', 0x400000)],
     Field ''TIO15'' 23 0x800000 [(''CLR'', 0), (''SET'', 0x800000)]]"

definition LFSS_GEN_EVENT_RIS_Bits :: fields where
  "LFSS_GEN_EVENT_RIS_Bits =
    [Field ''RTCRDY'' 0 0x1 [(''CLR'', 0), (''SET'', 1)],
     Field ''RTCTEV'' 1 0x2 [(''CLR'', 0), (''SET'', 2)],
     Field ''RTCA1'' 2 0x4 [(''CLR'', 0), (''SET'', 4)],
     Field ''RTCA2'' 3 0x8 [(''CLR'', 0), (''SET'', 8)],
     Field ''RT0PS'' 4 0x10 [(''CLR'', 0), (''SET'', 0x10)],
     Field ''RT1PS'' 5 0x20 [(''CLR'', 0), (''SET'', 0x20)],
     Field ''RT2PS'' 6 0x40 [(''CLR'', 0), (''SET'', 0x40)],
     Field ''TSEVT'' 7 0x80 [(''CLR'', 0), (''SET'', 0x80)],
     Field ''TIO0'' 8 0x100 [(''CLR'', 0), (''SET'', 0x100)],
     Field ''TIO1'' 9 0x200 [(''CLR'', 0), (''SET'', 0x200)],
     Field ''TIO2'' 10 0x400 [(''CLR'', 0), (''SET'', 0x400)],
     Field ''TIO3'' 11 0x800 [(''CLR'', 0), (''SET'', 0x800)],
     Field ''TIO4'' 12 0x1000 [(''CLR'', 0), (''SET'', 0x1000)],
     Field ''TIO5'' 13 0x2000 [(''CLR'', 0), (''SET'', 0x2000)],
     Field ''TIO6'' 14 0x4000 [(''CLR'', 0), (''SET'', 0x4000)],
     Field ''TIO7'' 15 0x8000 [(''CLR'', 0), (''SET'', 0x8000)],
     Field ''TIO8'' 16 0x10000 [(''CLR'', 0), (''SET'', 0x10000)],
     Field ''TIO9'' 17 0x20000 [(''CLR'', 0), (''SET'', 0x20000)],
     Field ''TIO10'' 18 0x40000 [(''CLR'', 0), (''SET'', 0x40000)],
     Field ''TIO11'' 19 0x80000 [(''CLR'', 0), (''SET'', 0x80000)],
     Field ''TIO12'' 20 0x100000 [(''CLR'', 0), (''SET'', 0x100000)],
     Field ''TIO13'' 21 0x200000 [(''CLR'', 0), (''SET'', 0x200000)],
     Field ''TIO14'' 22 0x400000 [(''CLR'', 0), (''SET'', 0x400000)],
     Field ''TIO15'' 23 0x800000 [(''CLR'', 0), (''SET'', 0x800000)]]"

definition LFSS_GEN_EVENT_MIS_Bits :: fields where
  "LFSS_GEN_EVENT_MIS_Bits =
    [Field ''RTCRDY'' 0 0x1 [(''CLR'', 0), (''SET'', 1)],
     Field ''RTCTEV'' 1 0x2 [(''CLR'', 0), (''SET'', 2)],
     Field ''RTCA1'' 2 0x4 [(''CLR'', 0), (''SET'', 4)],
     Field ''RTCA2'' 3 0x8 [(''CLR'', 0), (''SET'', 8)],
     Field ''RT0PS'' 4 0x10 [(''CLR'', 0), (''SET'', 0x10)],
     Field ''RT1PS'' 5 0x20 [(''CLR'', 0), (''SET'', 0x20)],
     Field ''RT2PS'' 6 0x40 [(''CLR'', 0), (''SET'', 0x40)],
     Field ''TSEVT'' 7 0x80 [(''CLR'', 0), (''SET'', 0x80)],
     Field ''TIO0'' 8 0x100 [(''CLR'', 0), (''SET'', 0x100)],
     Field ''TIO1'' 9 0x200 [(''CLR'', 0), (''SET'', 0x200)],
     Field ''TIO2'' 10 0x400 [(''CLR'', 0), (''SET'', 0x400)],
     Field ''TIO3'' 11 0x800 [(''CLR'', 0), (''SET'', 0x800)],
     Field ''TIO4'' 12 0x1000 [(''CLR'', 0), (''SET'', 0x1000)],
     Field ''TIO5'' 13 0x2000 [(''CLR'', 0), (''SET'', 0x2000)],
     Field ''TIO6'' 14 0x4000 [(''CLR'', 0), (''SET'', 0x4000)],
     Field ''TIO7'' 15 0x8000 [(''CLR'', 0), (''SET'', 0x8000)],
     Field ''TIO8'' 16 0x10000 [(''CLR'', 0), (''SET'', 0x10000)],
     Field ''TIO9'' 17 0x20000 [(''CLR'', 0), (''SET'', 0x20000)],
     Field ''TIO10'' 18 0x40000 [(''CLR'', 0), (''SET'', 0x40000)],
     Field ''TIO11'' 19 0x80000 [(''CLR'', 0), (''SET'', 0x80000)],
     Field ''TIO12'' 20 0x100000 [(''CLR'', 0), (''SET'', 0x100000)],
     Field ''TIO13'' 21 0x200000 [(''CLR'', 0), (''SET'', 0x200000)],
     Field ''TIO14'' 22 0x400000 [(''CLR'', 0), (''SET'', 0x400000)],
     Field ''TIO15'' 23 0x800000 [(''CLR'', 0), (''SET'', 0x800000)]]"

definition LFSS_GEN_EVENT_ISET_Bits :: fields where
  "LFSS_GEN_EVENT_ISET_Bits =
    [Field ''RTCRDY'' 0 0x1 [(''NO_EFFECT'', 0), (''SET'', 1)],
     Field ''RTCTEV'' 1 0x2 [(''NO_EFFECT'', 0), (''SET'', 2)],
     Field ''RTCA1'' 2 0x4 [(''NO_EFFECT'', 0), (''SET'', 4)],
     Field ''RTCA2'' 3 0x8 [(''NO_EFFECT'', 0), (''SET'', 8)],
     Field ''RT0PS'' 4 0x10 [(''NO_EFFECT'', 0), (''SET'', 0x10)],
     Field ''RT1PS'' 5 0x20 [(''NO_EFFECT'', 0), (''SET'', 0x20)],
     Field ''RT2PS'' 6 0x40 [(''NO_EFFECT'', 0), (''SET'', 0x40)],
     Field ''TSEVT'' 7 0x80 [(''NO_EFFECT'', 0), (''SET'', 0x80)],
     Field ''TIO0'' 8 0x100 [(''NO_EFFECT'', 0), (''SET'', 0x100)],
     Field ''TIO1'' 9 0x200 [(''NO_EFFECT'', 0), (''SET'', 0x200)],
     Field ''TIO2'' 10 0x400 [(''NO_EFFECT'', 0), (''SET'', 0x400)],
     Field ''TIO3'' 11 0x800 [(''NO_EFFECT'', 0), (''SET'', 0x800)],
     Field ''TIO4'' 12 0x1000 [(''NO_EFFECT'', 0), (''SET'', 0x1000)],
     Field ''TIO5'' 13 0x2000 [(''NO_EFFECT'', 0), (''SET'', 0x2000)],
     Field ''TIO6'' 14 0x4000 [(''NO_EFFECT'', 0), (''SET'', 0x4000)],
     Field ''TIO7'' 15 0x8000 [(''NO_EFFECT'', 0), (''SET'', 0x8000)],
     Field ''TIO8'' 16 0x10000 [(''NO_EFFECT'', 0), (''SET'', 0x10000)],
     Field ''TIO9'' 17 0x20000 [(''NO_EFFECT'', 0), (''SET'', 0x20000)],
     Field ''TIO10'' 18 0x40000 [(''NO_EFFECT'', 0), (''SET'', 0x40000)],
     Field ''TIO11'' 19 0x80000 [(''NO_EFFECT'', 0), (''SET'', 0x80000)],
     Field ''TIO12'' 20 0x100000 [(''NO_EFFECT'', 0), (''SET'', 0x100000)],
     Field ''TIO13'' 21 0x200000 [(''NO_EFFECT'', 0), (''SET'', 0x200000)],
     Field ''TIO14'' 22 0x400000 [(''NO_EFFECT'', 0), (''SET'', 0x400000)],
     Field ''TIO15'' 23 0x800000 [(''NO_EFFECT'', 0), (''SET'', 0x800000)]]"

definition LFSS_GEN_EVENT_ICLR_Bits :: fields where
  "LFSS_GEN_EVENT_ICLR_Bits =
    [Field ''RTCRDY'' 0 0x1 [(''NO_EFFECT'', 0), (''CLR'', 1)],
     Field ''RTCTEV'' 1 0x2 [(''NO_EFFECT'', 0), (''CLR'', 2)],
     Field ''RTCA1'' 2 0x4 [(''NO_EFFECT'', 0), (''CLR'', 4)],
     Field ''RTCA2'' 3 0x8 [(''NO_EFFECT'', 0), (''CLR'', 8)],
     Field ''RT0PS'' 4 0x10 [(''NO_EFFECT'', 0), (''CLR'', 0x10)],
     Field ''RT1PS'' 5 0x20 [(''NO_EFFECT'', 0), (''CLR'', 0x20)],
     Field ''RT2PS'' 6 0x40 [(''NO_EFFECT'', 0), (''CLR'', 0x40)],
     Field ''TSEVT'' 7 0x80 [(''NO_EFFECT'', 0), (''CLR'', 0x80)],
     Field ''TIO0'' 8 0x100 [(''NO_EFFECT'', 0), (''CLR'', 0x100)],
     Field ''TIO1'' 9 0x200 [(''NO_EFFECT'', 0), (''CLR'', 0x200)],
     Field ''TIO2'' 10 0x400 [(''NO_EFFECT'', 0), (''CLR'', 0x400)],
     Field ''TIO3'' 11 0x800 [(''NO_EFFECT'', 0), (''CLR'', 0x800)],
     Field ''TIO4'' 12 0x1000 [(''NO_EFFECT'', 0), (''CLR'', 0x1000)],
     Field ''TIO5'' 13 0x2000 [(''NO_EFFECT'', 0), (''CLR'', 0x2000)],
     Field ''TIO6'' 14 0x4000 [(''NO_EFFECT'', 0), (''CLR'', 0x4000)],
     Field ''TIO7'' 15 0x8000 [(''NO_EFFECT'', 0), (''CLR'', 0x8000)],
     Field ''TIO8'' 16 0x10000 [(''NO_EFFECT'', 0), (''CLR'', 0x10000)],
     Field ''TIO9'' 17 0x20000 [(''NO_EFFECT'', 0), (''CLR'', 0x20000)],
     Field ''TIO10'' 18 0x40000 [(''NO_EFFECT'', 0), (''CLR'', 0x40000)],
     Field ''TIO11'' 19 0x80000 [(''NO_EFFECT'', 0), (''CLR'', 0x80000)],
     Field ''TIO12'' 20 0x100000 [(''NO_EFFECT'', 0), (''CLR'', 0x100000)],
     Field ''TIO13'' 21 0x200000 [(''NO_EFFECT'', 0), (''CLR'', 0x200000)],
     Field ''TIO14'' 22 0x400000 [(''NO_EFFECT'', 0), (''CLR'', 0x400000)],
     Field ''TIO15'' 23 0x800000 [(''NO_EFFECT'', 0), (''CLR'', 0x800000)]]"

definition LFSS_CPU_INT_IIDX_Bits :: fields where
  "LFSS_CPU_INT_IIDX_Bits =
    [Field ''STAT'' 0 0xff [
       (''NO_INTR'', 0), (''RTCRDY'', 1), (''RTCTEV'', 2), (''RTCA1'', 3), (''RTCA2'', 4), (''RT0PS'', 5),
       (''RT1PS'', 6), (''RT2PS'', 7), (''TSEVT'', 8), (''TIO0'', 9), (''TIO1'', 0xa), (''TIO2'', 0xb), (''TIO3'', 0xc),
       (''TIO4'', 0xd), (''TIO5'', 0xe), (''TIO6'', 0xf), (''TIO7'', 0x10), (''TIO8'', 0x11), (''TIO9'', 0x12),
       (''TIO10'', 0x13), (''TIO11'', 0x14), (''TIO12'', 0x15), (''TIO13'', 0x16), (''TIO14'', 0x17), (''TIO15'', 0x18)]]"

definition LFSS_CPU_INT_IMASK_Bits :: fields where
  "LFSS_CPU_INT_IMASK_Bits =
    [Field ''RTCRDY'' 0 0x1 [(''CLR'', 0), (''SET'', 1)],
     Field ''RTCTEV'' 1 0x2 [(''CLR'', 0), (''SET'', 2)],
     Field ''RTCA1'' 2 0x4 [(''CLR'', 0), (''SET'', 4)],
     Field ''RTCA2'' 3 0x8 [(''CLR'', 0), (''SET'', 8)],
     Field ''RT0PS'' 4 0x10 [(''CLR'', 0), (''SET'', 0x10)],
     Field ''RT1PS'' 5 0x20 [(''CLR'', 0), (''SET'', 0x20)],
     Field ''RT2PS'' 6 0x40 [(''CLR'', 0), (''SET'', 0x40)],
     Field ''TSEVT'' 7 0x80 [(''CLR'', 0), (''SET'', 0x80)],
     Field ''TIO0'' 8 0x100 [(''CLR'', 0), (''SET'', 0x100)],
     Field ''TIO1'' 9 0x200 [(''CLR'', 0), (''SET'', 0x200)],
     Field ''TIO2'' 10 0x400 [(''CLR'', 0), (''SET'', 0x400)],
     Field ''TIO3'' 11 0x800 [(''CLR'', 0), (''SET'', 0x800)],
     Field ''TIO4'' 12 0x1000 [(''CLR'', 0), (''SET'', 0x1000)],
     Field ''TIO5'' 13 0x2000 [(''CLR'', 0), (''SET'', 0x2000)],
     Field ''TIO6'' 14 0x4000 [(''CLR'', 0), (''SET'', 0x4000)],
     Field ''TIO7'' 15 0x8000 [(''CLR'', 0), (''SET'', 0x8000)],
     Field ''TIO8'' 16 0x10000 [(''CLR'', 0), (''SET'', 0x10000)],
     Field ''TIO9'' 17 0x20000 [(''CLR'', 0), (''SET'', 0x20000)],
     Field ''TIO10'' 18 0x40000 [(''CLR'', 0), (''SET'', 0x40000)],
     Field ''TIO11'' 19 0x80000 [(''CLR'', 0), (''SET'', 0x80000)],
     Field ''TIO12'' 20 0x100000 [(''CLR'', 0), (''SET'', 0x100000)],
     Field ''TIO13'' 21 0x200000 [(''CLR'', 0), (''SET'', 0x200000)],
     Field ''TIO14'' 22 0x400000 [(''CLR'', 0), (''SET'', 0x400000)],
     Field ''TIO15'' 23 0x800000 [(''CLR'', 0), (''SET'', 0x800000)]]"

definition LFSS_CPU_INT_RIS_Bits :: fields where
  "LFSS_CPU_INT_RIS_Bits =
    [Field ''RTCRDY'' 0 0x1 [(''CLR'', 0), (''SET'', 1)],
     Field ''RTCTEV'' 1 0x2 [(''CLR'', 0), (''SET'', 2)],
     Field ''RTCA1'' 2 0x4 [(''CLR'', 0), (''SET'', 4)],
     Field ''RTCA2'' 3 0x8 [(''CLR'', 0), (''SET'', 8)],
     Field ''RT0PS'' 4 0x10 [(''CLR'', 0), (''SET'', 0x10)],
     Field ''RT1PS'' 5 0x20 [(''CLR'', 0), (''SET'', 0x20)],
     Field ''RT2PS'' 6 0x40 [(''CLR'', 0), (''SET'', 0x40)],
     Field ''TSEVT'' 7 0x80 [(''CLR'', 0), (''SET'', 0x80)],
     Field ''TIO0'' 8 0x100 [(''CLR'', 0), (''SET'', 0x100)],
     Field ''TIO1'' 9 0x200 [(''CLR'', 0), (''SET'', 0x200)],
     Field ''TIO2'' 10 0x400 [(''CLR'', 0), (''SET'', 0x400)],
     Field ''TIO3'' 11 0x800 [(''CLR'', 0), (''SET'', 0x800)],
     Field ''TIO4'' 12 0x1000 [(''CLR'', 0), (''SET'', 0x1000)],
     Field ''TIO5'' 13 0x2000 [(''CLR'', 0), (''SET'', 0x2000)],
     Field ''TIO6'' 14 0x4000 [(''CLR'', 0), (''SET'', 0x4000)],
     Field ''TIO7'' 15 0x8000 [(''CLR'', 0), (''SET'', 0x8000)],
     Field ''TIO8'' 16 0x10000 [(''CLR'', 0), (''SET'', 0x10000)],
     Field ''TIO9'' 17 0x20000 [(''CLR'', 0), (''SET'', 0x20000)],
     Field ''TIO10'' 18 0x40000 [(''CLR'', 0), (''SET'', 0x40000)],
     Field ''TIO11'' 19 0x80000 [(''CLR'', 0), (''SET'', 0x80000)],
     Field ''TIO12'' 20 0x100000 [(''CLR'', 0), (''SET'', 0x100000)],
     Field ''TIO13'' 21 0x200000 [(''CLR'', 0), (''SET'', 0x200000)],
     Field ''TIO14'' 22 0x400000 [(''CLR'', 0), (''SET'', 0x400000)],
     Field ''TIO15'' 23 0x800000 [(''CLR'', 0), (''SET'', 0x800000)]]"

definition LFSS_CPU_INT_MIS_Bits :: fields where
  "LFSS_CPU_INT_MIS_Bits =
    [Field ''RTCRDY'' 0 0x1 [(''CLR'', 0), (''SET'', 1)],
     Field ''RTCTEV'' 1 0x2 [(''CLR'', 0), (''SET'', 2)],
     Field ''RTCA1'' 2 0x4 [(''CLR'', 0), (''SET'', 4)],
     Field ''RTCA2'' 3 0x8 [(''CLR'', 0), (''SET'', 8)],
     Field ''RT0PS'' 4 0x10 [(''CLR'', 0), (''SET'', 0x10)],
     Field ''RT1PS'' 5 0x20 [(''CLR'', 0), (''SET'', 0x20)],
     Field ''RT2PS'' 6 0x40 [(''CLR'', 0), (''SET'', 0x40)],
     Field ''TSEVT'' 7 0x80 [(''CLR'', 0), (''SET'', 0x80)],
     Field ''TIO0'' 8 0x100 [(''CLR'', 0), (''SET'', 0x100)],
     Field ''TIO1'' 9 0x200 [(''CLR'', 0), (''SET'', 0x200)],
     Field ''TIO2'' 10 0x400 [(''CLR'', 0), (''SET'', 0x400)],
     Field ''TIO3'' 11 0x800 [(''CLR'', 0), (''SET'', 0x800)],
     Field ''TIO4'' 12 0x1000 [(''CLR'', 0), (''SET'', 0x1000)],
     Field ''TIO5'' 13 0x2000 [(''CLR'', 0), (''SET'', 0x2000)],
     Field ''TIO6'' 14 0x4000 [(''CLR'', 0), (''SET'', 0x4000)],
     Field ''TIO7'' 15 0x8000 [(''CLR'', 0), (''SET'', 0x8000)],
     Field ''TIO8'' 16 0x10000 [(''CLR'', 0), (''SET'', 0x10000)],
     Field ''TIO9'' 17 0x20000 [(''CLR'', 0), (''SET'', 0x20000)],
     Field ''TIO10'' 18 0x40000 [(''CLR'', 0), (''SET'', 0x40000)],
     Field ''TIO11'' 19 0x80000 [(''CLR'', 0), (''SET'', 0x80000)],
     Field ''TIO12'' 20 0x100000 [(''CLR'', 0), (''SET'', 0x100000)],
     Field ''TIO13'' 21 0x200000 [(''CLR'', 0), (''SET'', 0x200000)],
     Field ''TIO14'' 22 0x400000 [(''CLR'', 0), (''SET'', 0x400000)],
     Field ''TIO15'' 23 0x800000 [(''CLR'', 0), (''SET'', 0x800000)]]"

definition LFSS_CPU_INT_ISET_Bits :: fields where
  "LFSS_CPU_INT_ISET_Bits =
    [Field ''RTCRDY'' 0 0x1 [(''NO_EFFECT'', 0), (''SET'', 1)],
     Field ''RTCTEV'' 1 0x2 [(''NO_EFFECT'', 0), (''SET'', 2)],
     Field ''RTCA1'' 2 0x4 [(''NO_EFFECT'', 0), (''SET'', 4)],
     Field ''RTCA2'' 3 0x8 [(''NO_EFFECT'', 0), (''SET'', 8)],
     Field ''RT0PS'' 4 0x10 [(''NO_EFFECT'', 0), (''SET'', 0x10)],
     Field ''RT1PS'' 5 0x20 [(''NO_EFFECT'', 0), (''SET'', 0x20)],
     Field ''RT2PS'' 6 0x40 [(''NO_EFFECT'', 0), (''SET'', 0x40)],
     Field ''TSEVT'' 7 0x80 [(''NO_EFFECT'', 0), (''SET'', 0x80)],
     Field ''TIO0'' 8 0x100 [(''NO_EFFECT'', 0), (''SET'', 0x100)],
     Field ''TIO1'' 9 0x200 [(''NO_EFFECT'', 0), (''SET'', 0x200)],
     Field ''TIO2'' 10 0x400 [(''NO_EFFECT'', 0), (''SET'', 0x400)],
     Field ''TIO3'' 11 0x800 [(''NO_EFFECT'', 0), (''SET'', 0x800)],
     Field ''TIO4'' 12 0x1000 [(''NO_EFFECT'', 0), (''SET'', 0x1000)],
     Field ''TIO5'' 13 0x2000 [(''NO_EFFECT'', 0), (''SET'', 0x2000)],
     Field ''TIO6'' 14 0x4000 [(''NO_EFFECT'', 0), (''SET'', 0x4000)],
     Field ''TIO7'' 15 0x8000 [(''NO_EFFECT'', 0), (''SET'', 0x8000)],
     Field ''TIO8'' 16 0x10000 [(''NO_EFFECT'', 0), (''SET'', 0x10000)],
     Field ''TIO9'' 17 0x20000 [(''NO_EFFECT'', 0), (''SET'', 0x20000)],
     Field ''TIO10'' 18 0x40000 [(''NO_EFFECT'', 0), (''SET'', 0x40000)],
     Field ''TIO11'' 19 0x80000 [(''NO_EFFECT'', 0), (''SET'', 0x80000)],
     Field ''TIO12'' 20 0x100000 [(''NO_EFFECT'', 0), (''SET'', 0x100000)],
     Field ''TIO13'' 21 0x200000 [(''NO_EFFECT'', 0), (''SET'', 0x200000)],
     Field ''TIO14'' 22 0x400000 [(''NO_EFFECT'', 0), (''SET'', 0x400000)],
     Field ''TIO15'' 23 0x800000 [(''NO_EFFECT'', 0), (''SET'', 0x800000)]]"

definition LFSS_CPU_INT_ICLR_Bits :: fields where
  "LFSS_CPU_INT_ICLR_Bits =
    [Field ''RTCRDY'' 0 0x1 [(''NO_EFFECT'', 0), (''CLR'', 1)],
     Field ''RTCTEV'' 1 0x2 [(''NO_EFFECT'', 0), (''CLR'', 2)],
     Field ''RTCA1'' 2 0x4 [(''NO_EFFECT'', 0), (''CLR'', 4)],
     Field ''RTCA2'' 3 0x8 [(''NO_EFFECT'', 0), (''CLR'', 8)],
     Field ''RT0PS'' 4 0x10 [(''NO_EFFECT'', 0), (''CLR'', 0x10)],
     Field ''RT1PS'' 5 0x20 [(''NO_EFFECT'', 0), (''CLR'', 0x20)],
     Field ''RT2PS'' 6 0x40 [(''NO_EFFECT'', 0), (''CLR'', 0x40)],
     Field ''TSEVT'' 7 0x80 [(''NO_EFFECT'', 0), (''CLR'', 0x80)],
     Field ''TIO0'' 8 0x100 [(''NO_EFFECT'', 0), (''CLR'', 0x100)],
     Field ''TIO1'' 9 0x200 [(''NO_EFFECT'', 0), (''CLR'', 0x200)],
     Field ''TIO2'' 10 0x400 [(''NO_EFFECT'', 0), (''CLR'', 0x400)],
     Field ''TIO3'' 11 0x800 [(''NO_EFFECT'', 0), (''CLR'', 0x800)],
     Field ''TIO4'' 12 0x1000 [(''NO_EFFECT'', 0), (''CLR'', 0x1000)],
     Field ''TIO5'' 13 0x2000 [(''NO_EFFECT'', 0), (''CLR'', 0x2000)],
     Field ''TIO6'' 14 0x4000 [(''NO_EFFECT'', 0), (''CLR'', 0x4000)],
     Field ''TIO7'' 15 0x8000 [(''NO_EFFECT'', 0), (''CLR'', 0x8000)],
     Field ''TIO8'' 16 0x10000 [(''NO_EFFECT'', 0), (''CLR'', 0x10000)],
     Field ''TIO9'' 17 0x20000 [(''NO_EFFECT'', 0), (''CLR'', 0x20000)],
     Field ''TIO10'' 18 0x40000 [(''NO_EFFECT'', 0), (''CLR'', 0x40000)],
     Field ''TIO11'' 19 0x80000 [(''NO_EFFECT'', 0), (''CLR'', 0x80000)],
     Field ''TIO12'' 20 0x100000 [(''NO_EFFECT'', 0), (''CLR'', 0x100000)],
     Field ''TIO13'' 21 0x200000 [(''NO_EFFECT'', 0), (''CLR'', 0x200000)],
     Field ''TIO14'' 22 0x400000 [(''NO_EFFECT'', 0), (''CLR'', 0x400000)],
     Field ''TIO15'' 23 0x800000 [(''NO_EFFECT'', 0), (''CLR'', 0x800000)]]"

definition LFSS_FSUB_0_Bits :: fields where
  "LFSS_FSUB_0_Bits =
    [Field ''CHANID'' 0 0xff [(''MNIMUM'', 0), (''UNCONNECTED'', 0), (''MAXIMUM'', 0xf)]]"

definition LFSS_FPUB_0_Bits :: fields where
  "LFSS_FPUB_0_Bits =
    [Field ''CHANID'' 0 0xff [(''MNIMUM'', 0), (''UNCONNECTED'', 0), (''MAXIMUM'', 0xf)]]"

definition LFSS_CLKSEL_Bits :: fields where
  "LFSS_CLKSEL_Bits =
    [Field ''LFCLK_SEL'' 1 0x2 [(''DISABLE'', 0), (''ENABLE'', 2)]]"

definition LFSS_EVT_MODE_Bits :: fields where
  "LFSS_EVT_MODE_Bits =
    [Field ''EVT0_CFG'' 0 0x3 [(''SOFTWARE'', 1)],
     Field ''EVT1_CFG'' 2 0xc [(''HARDWARE'', 8)]]"

definition LFSS_DESC_Bits :: fields where
  "LFSS_DESC_Bits =
    [Field ''MINREV'' 0 0xf [(''MINIMUM'', 0), (''MAXIMUM'', 0xf)],
     Field ''MAJREV'' 4 0xf0 [(''MINIMUM'', 0), (''MAXIMUM'', 0xf0)],
     Field ''INSTNUM'' 8 0xf00 [(''INST0'', 0)],
     Field ''FEATUREVER'' 12 0xf000 [(''MINIMUM'', 0), (''MAXIMUM'', 0xf000)],
     Field ''MODULEID'' 16 0xffff0000 [(''MINIMUM'', 0), (''MAXIMUM'', 0xffff0000)]]"

definition LFSS_bits :: field_table where
  "LFSS_bits =
    [([''FSUB_0''], LFSS_FSUB_0_Bits), ([''FPUB_0''], LFSS_FPUB_0_Bits), ([''CLKSEL''], LFSS_CLKSEL_Bits),
     ([''CPU_INT'', ''IIDX''], LFSS_CPU_INT_IIDX_Bits), ([''CPU_INT'', ''IMASK''], LFSS_CPU_INT_IMASK_Bits),
     ([''CPU_INT'', ''RIS''], LFSS_CPU_INT_RIS_Bits), ([''CPU_INT'', ''MIS''], LFSS_CPU_INT_MIS_Bits),
     ([''CPU_INT'', ''ISET''], LFSS_CPU_INT_ISET_Bits), ([''CPU_INT'', ''ICLR''], LFSS_CPU_INT_ICLR_Bits),
     ([''GEN_EVENT'', ''IIDX''], LFSS_GEN_EVENT_IIDX_Bits), ([''GEN_EVENT'', ''IMASK''], LFSS_GEN_EVENT_IMASK_Bits),
     ([''GEN_EVENT'', ''RIS''], LFSS_GEN_EVENT_RIS_Bits), ([''GEN_EVENT'', ''MIS''], LFSS_GEN_EVENT_MIS_Bits),
     ([''GEN_EVENT'', ''ISET''], LFSS_GEN_EVENT_ISET_Bits), ([''GEN_EVENT'', ''ICLR''], LFSS_GEN_EVENT_ICLR_Bits),
     ([''EVT_MODE''], LFSS_EVT_MODE_Bits), ([''DESC''], LFSS_DESC_Bits),
     ([''IPSPECIFIC_RTC'', ''CLKCTL''], LFSS_CLKCTL_Bits), ([''IPSPECIFIC_RTC'', ''DBGCTL''], LFSS_DBGCTL_Bits),
     ([''IPSPECIFIC_RTC'', ''CTL''], LFSS_CTL_Bits), ([''IPSPECIFIC_RTC'', ''STA''], LFSS_STA_Bits),
     ([''IPSPECIFIC_RTC'', ''CAL''], LFSS_CAL_Bits), ([''IPSPECIFIC_RTC'', ''TCMP''], LFSS_TCMP_Bits),
     ([''IPSPECIFIC_RTC'', ''SEC''], LFSS_SEC_Bits), ([''IPSPECIFIC_RTC'', ''MIN''], LFSS_MIN_Bits),
     ([''IPSPECIFIC_RTC'', ''HOUR''], LFSS_HOUR_Bits), ([''IPSPECIFIC_RTC'', ''DAY''], LFSS_DAY_Bits),
     ([''IPSPECIFIC_RTC'', ''MON''], LFSS_MON_Bits), ([''IPSPECIFIC_RTC'', ''YEAR''], LFSS_YEAR_Bits),
     ([''IPSPECIFIC_RTC'', ''A1MIN''], LFSS_A1MIN_Bits), ([''IPSPECIFIC_RTC'', ''A1HOUR''], LFSS_A1HOUR_Bits),
     ([''IPSPECIFIC_RTC'', ''A1DAY''], LFSS_A1DAY_Bits), ([''IPSPECIFIC_RTC'', ''A2MIN''], LFSS_A2MIN_Bits),
     ([''IPSPECIFIC_RTC'', ''A2HOUR''], LFSS_A2HOUR_Bits), ([''IPSPECIFIC_RTC'', ''A2DAY''], LFSS_A2DAY_Bits),
     ([''IPSPECIFIC_RTC'', ''PSCTL''], LFSS_PSCTL_Bits), ([''IPSPECIFIC_RTC'', ''EXTPSCTL''], LFSS_EXTPSCTL_Bits),
     ([''IPSPECIFIC_RTC'', ''TSSEC''], LFSS_TSSEC_Bits), ([''IPSPECIFIC_RTC'', ''TSMIN''], LFSS_TSMIN_Bits),
     ([''IPSPECIFIC_RTC'', ''TSHOUR''], LFSS_TSHOUR_Bits), ([''IPSPECIFIC_RTC'', ''TSDAY''], LFSS_TSDAY_Bits),
     ([''IPSPECIFIC_RTC'', ''TSMON''], LFSS_TSMON_Bits), ([''IPSPECIFIC_RTC'', ''TSYEAR''], LFSS_TSYEAR_Bits),
     ([''IPSPECIFIC_RTC'', ''TSSTAT''], LFSS_TSSTAT_Bits), ([''IPSPECIFIC_RTC'', ''TSCTL''], LFSS_TSCTL_Bits),
     ([''IPSPECIFIC_RTC'', ''TSCLR''], LFSS_TSCLR_Bits), ([''IPSPECIFIC_RTC'', ''LFSSRST''], LFSS_LFSSRST_Bits),
     ([''IPSPECIFIC_RTC'', ''RTCLOCK''], LFSS_RTCLOCK_Bits), ([''IPSPECIFIC_TIO'', ''TIOCTL''], LFSS_TIOCTL_Bits),
     ([''IPSPECIFIC_TIO'', ''TOUT3_0''], LFSS_TOUT3_0_Bits), ([''IPSPECIFIC_TIO'', ''TOUT7_4''], LFSS_TOUT7_4_Bits),
     ([''IPSPECIFIC_TIO'', ''TOUT11_8''], LFSS_TOUT11_8_Bits),
     ([''IPSPECIFIC_TIO'', ''TOUT15_12''], LFSS_TOUT15_12_Bits), ([''IPSPECIFIC_TIO'', ''TOE3_0''], LFSS_TOE3_0_Bits),
     ([''IPSPECIFIC_TIO'', ''TOE7_4''], LFSS_TOE7_4_Bits), ([''IPSPECIFIC_TIO'', ''TOE11_8''], LFSS_TOE11_8_Bits),
     ([''IPSPECIFIC_TIO'', ''TOE15_12''], LFSS_TOE15_12_Bits), ([''IPSPECIFIC_TIO'', ''TIN3_0''], LFSS_TIN3_0_Bits),
     ([''IPSPECIFIC_TIO'', ''TIN7_4''], LFSS_TIN7_4_Bits), ([''IPSPECIFIC_TIO'', ''TIN11_8''], LFSS_TIN11_8_Bits),
     ([''IPSPECIFIC_TIO'', ''TIN15_12''], LFSS_TIN15_12_Bits),
     ([''IPSPECIFIC_TIO'', ''HEARTBEAT''], LFSS_HEARTBEAT_Bits), ([''IPSPECIFIC_TIO'', ''TIOLOCK''], LFSS_TIOLOCK_Bits),
     ([''IPSPECIFIC_WDT'', ''WDTEN''], LFSS_WDTEN_Bits), ([''IPSPECIFIC_WDT'', ''WDTDBGCTL''], LFSS_WDTDBGCTL_Bits),
     ([''IPSPECIFIC_WDT'', ''WDTCTL''], LFSS_WDTCTL_Bits), ([''IPSPECIFIC_WDT'', ''WDTCNTRST''], LFSS_WDTCNTRST_Bits),
     ([''IPSPECIFIC_WDT'', ''WDTSTAT''], LFSS_WDTSTAT_Bits), ([''IPSPECIFIC_WDT'', ''WDTLOCK''], LFSS_WDTLOCK_Bits),
     ([''IPSPECIFIC_MEM'', ''SPMEM''], LFSS_SPMEM_Bits), ([''IPSPECIFIC_MEM'', ''SPMWPROT0''], LFSS_SPMWPROT0_Bits),
     ([''IPSPECIFIC_MEM'', ''SPMWPROT1''], LFSS_SPMWPROT1_Bits),
     ([''IPSPECIFIC_MEM'', ''SPMWPROT2''], LFSS_SPMWPROT2_Bits),
     ([''IPSPECIFIC_MEM'', ''SPMWPROT3''], LFSS_SPMWPROT3_Bits),
     ([''IPSPECIFIC_MEM'', ''SPMWPROT4''], LFSS_SPMWPROT4_Bits),
     ([''IPSPECIFIC_MEM'', ''SPMWPROT5''], LFSS_SPMWPROT5_Bits),
     ([''IPSPECIFIC_MEM'', ''SPMWPROT6''], LFSS_SPMWPROT6_Bits),
     ([''IPSPECIFIC_MEM'', ''SPMWPROT7''], LFSS_SPMWPROT7_Bits),
     ([''IPSPECIFIC_MEM'', ''SPMTERASE0''], LFSS_SPMTERASE0_Bits),
     ([''IPSPECIFIC_MEM'', ''SPMTERASE1''], LFSS_SPMTERASE1_Bits),
     ([''IPSPECIFIC_MEM'', ''SPMTERASE2''], LFSS_SPMTERASE2_Bits),
     ([''IPSPECIFIC_MEM'', ''SPMTERASE3''], LFSS_SPMTERASE3_Bits),
     ([''IPSPECIFIC_MEM'', ''SPMTERASE4''], LFSS_SPMTERASE4_Bits),
     ([''IPSPECIFIC_MEM'', ''SPMTERASE5''], LFSS_SPMTERASE5_Bits),
     ([''IPSPECIFIC_MEM'', ''SPMTERASE6''], LFSS_SPMTERASE6_Bits),
     ([''IPSPECIFIC_MEM'', ''SPMTERASE7''], LFSS_SPMTERASE7_Bits)]"

lemmas LFSS_Bits_defs = LFSS_SPMEM_Bits_def LFSS_SPMWPROT0_Bits_def LFSS_SPMWPROT1_Bits_def LFSS_SPMWPROT2_Bits_def
  LFSS_SPMWPROT3_Bits_def LFSS_SPMWPROT4_Bits_def LFSS_SPMWPROT5_Bits_def LFSS_SPMWPROT6_Bits_def
  LFSS_SPMWPROT7_Bits_def LFSS_SPMTERASE0_Bits_def LFSS_SPMTERASE1_Bits_def LFSS_SPMTERASE2_Bits_def
  LFSS_SPMTERASE3_Bits_def LFSS_SPMTERASE4_Bits_def LFSS_SPMTERASE5_Bits_def LFSS_SPMTERASE6_Bits_def
  LFSS_SPMTERASE7_Bits_def LFSS_WDTEN_Bits_def LFSS_WDTDBGCTL_Bits_def LFSS_WDTCTL_Bits_def LFSS_WDTCNTRST_Bits_def
  LFSS_WDTSTAT_Bits_def LFSS_WDTLOCK_Bits_def LFSS_TIOCTL_Bits_def LFSS_TOUT3_0_Bits_def LFSS_TOUT7_4_Bits_def
  LFSS_TOUT11_8_Bits_def LFSS_TOUT15_12_Bits_def LFSS_TOE3_0_Bits_def LFSS_TOE7_4_Bits_def LFSS_TOE11_8_Bits_def
  LFSS_TOE15_12_Bits_def LFSS_TIN3_0_Bits_def LFSS_TIN7_4_Bits_def LFSS_TIN11_8_Bits_def LFSS_TIN15_12_Bits_def
  LFSS_HEARTBEAT_Bits_def LFSS_TIOLOCK_Bits_def LFSS_CLKCTL_Bits_def LFSS_DBGCTL_Bits_def LFSS_CTL_Bits_def
  LFSS_STA_Bits_def LFSS_CAL_Bits_def LFSS_TCMP_Bits_def LFSS_SEC_Bits_def LFSS_MIN_Bits_def LFSS_HOUR_Bits_def
  LFSS_DAY_Bits_def LFSS_MON_Bits_def LFSS_YEAR_Bits_def LFSS_A1MIN_Bits_def LFSS_A1HOUR_Bits_def LFSS_A1DAY_Bits_def
  LFSS_A2MIN_Bits_def LFSS_A2HOUR_Bits_def LFSS_A2DAY_Bits_def LFSS_PSCTL_Bits_def LFSS_EXTPSCTL_Bits_def
  LFSS_TSSEC_Bits_def LFSS_TSMIN_Bits_def LFSS_TSHOUR_Bits_def LFSS_TSDAY_Bits_def LFSS_TSMON_Bits_def
  LFSS_TSYEAR_Bits_def LFSS_TSSTAT_Bits_def LFSS_TSCTL_Bits_def LFSS_TSCLR_Bits_def LFSS_LFSSRST_Bits_def
  LFSS_RTCLOCK_Bits_def LFSS_GEN_EVENT_IIDX_Bits_def LFSS_GEN_EVENT_IMASK_Bits_def LFSS_GEN_EVENT_RIS_Bits_def
  LFSS_GEN_EVENT_MIS_Bits_def LFSS_GEN_EVENT_ISET_Bits_def LFSS_GEN_EVENT_ICLR_Bits_def LFSS_CPU_INT_IIDX_Bits_def
  LFSS_CPU_INT_IMASK_Bits_def LFSS_CPU_INT_RIS_Bits_def LFSS_CPU_INT_MIS_Bits_def LFSS_CPU_INT_ISET_Bits_def
  LFSS_CPU_INT_ICLR_Bits_def LFSS_FSUB_0_Bits_def LFSS_FPUB_0_Bits_def LFSS_CLKSEL_Bits_def LFSS_EVT_MODE_Bits_def
  LFSS_DESC_Bits_def

lemma LFSS_bits_describes: "describes LFSS_bits LFSS_Regs"
  by (simp add: describes_def LFSS_bits_def layout_defs, (intro conjI; simp add: LFSS_Bits_defs))

lemma LFSS_bits_strays: "strays LFSS_bits = []"
  by (rule no_strays) (simp add: LFSS_bits_def, (intro conjI; simp add: LFSS_Bits_defs))

end
