(* ===== verification/RTC_Fields.thy ===== *)
theory RTC_Fields
  imports Device_Fields
begin

text \<open>
  The bit fields of \<open>hw_rtc.h\<close>: the offset, the mask and the named values of every field, register by
  register.
\<close>

section \<open>\<open>hw_rtc.h\<close>\<close>

definition RTC_GEN_EVENT_IIDX_Bits :: fields where
  "RTC_GEN_EVENT_IIDX_Bits =
    [Field ''STAT'' 0 0xff [
       (''NO_INTR'', 0), (''RTCRDY'', 1), (''RTCTEV'', 2), (''RTCA1'', 3), (''RTCA2'', 4), (''RT0PS'', 5),
       (''RT1PS'', 6), (''RT2PS'', 7), (''TSEVT'', 8), (''TIO0'', 9), (''TIO1'', 0xa), (''TIO2'', 0xb), (''TIO3'', 0xc),
       (''TIO4'', 0xd), (''TIO5'', 0xe), (''TIO6'', 0xf), (''TIO7'', 0x10), (''TIO8'', 0x11), (''TIO9'', 0x12),
       (''TIO10'', 0x13), (''TIO11'', 0x14), (''TIO12'', 0x15), (''TIO13'', 0x16), (''TIO14'', 0x17), (''TIO15'', 0x18)]]"

definition RTC_GEN_EVENT_IMASK_Bits :: fields where
  "RTC_GEN_EVENT_IMASK_Bits =
    [Field ''RTCRDY'' 0 0x1 [(''CLR'', 0), (''SET'', 1)],
     Field ''RTCTEV'' 1 0x2 [(''CLR'', 0), (''SET'', 2)],
     Field ''RTCA1'' 2 0x4 [(''CLR'', 0), (''SET'', 4)],
     Field ''RTCA2'' 3 0x8 [(''CLR'', 0), (''SET'', 8)],
     Field ''RT0PS'' 4 0x10 [(''CLR'', 0), (''SET'', 0x10)],
     Field ''RT1PS'' 5 0x20 [(''CLR'', 0), (''SET'', 0x20)],
     Field ''RT2PS'' 6 0x40 [(''CLR'', 0), (''SET'', 0x40)],
     Field ''TSEVT'' 7 0x80 [(''CLR'', 0), (''SET'', 0x80)],
     Field ''TIO0'' 8 0x100 [(''CLR'', 0), (''SET'', 0x100)],
     Field ''TIO1'' 9 0x200 [(''CLR'', 0), (''SET'', 0x200)],
     Field ''TIO2'' 10 0x400 [(''CLR'', 0), (''SET'', 0x400)],
     Field ''TIO3'' 11 0x800 [(''CLR'', 0), (''SET'', 0x800)],
     Field ''TIO4'' 12 0x1000 [(''CLR'', 0), (''SET'', 0x1000)],
     Field ''TIO5'' 13 0x2000 [(''CLR'', 0), (''SET'', 0x2000)],
     Field ''TIO6'' 14 0x4000 [(''CLR'', 0), (''SET'', 0x4000)],
     Field ''TIO7'' 15 0x8000 [(''CLR'', 0), (''SET'', 0x8000)],
     Field ''TIO8'' 16 0x10000 [(''CLR'', 0), (''SET'', 0x10000)],
     Field ''TIO9'' 17 0x20000 [(''CLR'', 0), (''SET'', 0x20000)],
     Field ''TIO10'' 18 0x40000 [(''CLR'', 0), (''SET'', 0x40000)],
     Field ''TIO11'' 19 0x80000 [(''CLR'', 0), (''SET'', 0x80000)],
     Field ''TIO12'' 20 0x100000 [(''CLR'', 0), (''SET'', 0x100000)],
     Field ''TIO13'' 21 0x200000 [(''CLR'', 0), (''SET'', 0x200000)],
     Field ''TIO14'' 22 0x400000 [(''CLR'', 0), (''SET'', 0x400000)],
     Field ''TIO15'' 23 0x800000 [(''CLR'', 0), (''SET'', 0x800000)]]"

definition RTC_GEN_EVENT_RIS_Bits :: fields where
  "RTC_GEN_EVENT_RIS_Bits =
    [Field ''RTCRDY'' 0 0x1 [(''CLR'', 0), (''SET'', 1)],
     Field ''RTCTEV'' 1 0x2 [(''CLR'', 0), (''SET'', 2)],
     Field ''RTCA1'' 2 0x4 [(''CLR'', 0), (''SET'', 4)],
     Field ''RTCA2'' 3 0x8 [(''CLR'', 0), (''SET'', 8)],
     Field ''RT0PS'' 4 0x10 [(''CLR'', 0), (''SET'', 0x10)],
     Field ''RT1PS'' 5 0x20 [(''CLR'', 0), (''SET'', 0x20)],
     Field ''RT2PS'' 6 0x40 [(''CLR'', 0), (''SET'', 0x40)],
     Field ''TSEVT'' 7 0x80 [(''CLR'', 0), (''SET'', 0x80)],
     Field ''TIO0'' 8 0x100 [(''CLR'', 0), (''SET'', 0x100)],
     Field ''TIO1'' 9 0x200 [(''CLR'', 0), (''SET'', 0x200)],
     Field ''TIO2'' 10 0x400 [(''CLR'', 0), (''SET'', 0x400)],
     Field ''TIO3'' 11 0x800 [(''CLR'', 0), (''SET'', 0x800)],
     Field ''TIO4'' 12 0x1000 [(''CLR'', 0), (''SET'', 0x1000)],
     Field ''TIO5'' 13 0x2000 [(''CLR'', 0), (''SET'', 0x2000)],
     Field ''TIO6'' 14 0x4000 [(''CLR'', 0), (''SET'', 0x4000)],
     Field ''TIO7'' 15 0x8000 [(''CLR'', 0), (''SET'', 0x8000)],
     Field ''TIO8'' 16 0x10000 [(''CLR'', 0), (''SET'', 0x10000)],
     Field ''TIO9'' 17 0x20000 [(''CLR'', 0), (''SET'', 0x20000)],
     Field ''TIO10'' 18 0x40000 [(''CLR'', 0), (''SET'', 0x40000)],
     Field ''TIO11'' 19 0x80000 [(''CLR'', 0), (''SET'', 0x80000)],
     Field ''TIO12'' 20 0x100000 [(''CLR'', 0), (''SET'', 0x100000)],
     Field ''TIO13'' 21 0x200000 [(''CLR'', 0), (''SET'', 0x200000)],
     Field ''TIO14'' 22 0x400000 [(''CLR'', 0), (''SET'', 0x400000)],
     Field ''TIO15'' 23 0x800000 [(''CLR'', 0), (''SET'', 0x800000)]]"

definition RTC_GEN_EVENT_MIS_Bits :: fields where
  "RTC_GEN_EVENT_MIS_Bits =
    [Field ''RTCRDY'' 0 0x1 [(''CLR'', 0), (''SET'', 1)],
     Field ''RTCTEV'' 1 0x2 [(''CLR'', 0), (''SET'', 2)],
     Field ''RTCA1'' 2 0x4 [(''CLR'', 0), (''SET'', 4)],
     Field ''RTCA2'' 3 0x8 [(''CLR'', 0), (''SET'', 8)],
     Field ''RT0PS'' 4 0x10 [(''CLR'', 0), (''SET'', 0x10)],
     Field ''RT1PS'' 5 0x20 [(''CLR'', 0), (''SET'', 0x20)],
     Field ''RT2PS'' 6 0x40 [(''CLR'', 0), (''SET'', 0x40)],
     Field ''TSEVT'' 7 0x80 [(''CLR'', 0), (''SET'', 0x80)],
     Field ''TIO0'' 8 0x100 [(''CLR'', 0), (''SET'', 0x100)],
     Field ''TIO1'' 9 0x200 [(''CLR'', 0), (''SET'', 0x200)],
     Field ''TIO2'' 10 0x400 [(''CLR'', 0), (''SET'', 0x400)],
     Field ''TIO3'' 11 0x800 [(''CLR'', 0), (''SET'', 0x800)],
     Field ''TIO4'' 12 0x1000 [(''CLR'', 0), (''SET'', 0x1000)],
     Field ''TIO5'' 13 0x2000 [(''CLR'', 0), (''SET'', 0x2000)],
     Field ''TIO6'' 14 0x4000 [(''CLR'', 0), (''SET'', 0x4000)],
     Field ''TIO7'' 15 0x8000 [(''CLR'', 0), (''SET'', 0x8000)],
     Field ''TIO8'' 16 0x10000 [(''CLR'', 0), (''SET'', 0x10000)],
     Field ''TIO9'' 17 0x20000 [(''CLR'', 0), (''SET'', 0x20000)],
     Field ''TIO10'' 18 0x40000 [(''CLR'', 0), (''SET'', 0x40000)],
     Field ''TIO11'' 19 0x80000 [(''CLR'', 0), (''SET'', 0x80000)],
     Field ''TIO12'' 20 0x100000 [(''CLR'', 0), (''SET'', 0x100000)],
     Field ''TIO13'' 21 0x200000 [(''CLR'', 0), (''SET'', 0x200000)],
     Field ''TIO14'' 22 0x400000 [(''CLR'', 0), (''SET'', 0x400000)],
     Field ''TIO15'' 23 0x800000 [(''CLR'', 0), (''SET'', 0x800000)]]"

definition RTC_GEN_EVENT_ISET_Bits :: fields where
  "RTC_GEN_EVENT_ISET_Bits =
    [Field ''RTCRDY'' 0 0x1 [(''NO_EFFECT'', 0), (''SET'', 1)],
     Field ''RTCTEV'' 1 0x2 [(''NO_EFFECT'', 0), (''SET'', 2)],
     Field ''RTCA1'' 2 0x4 [(''NO_EFFECT'', 0), (''SET'', 4)],
     Field ''RTCA2'' 3 0x8 [(''NO_EFFECT'', 0), (''SET'', 8)],
     Field ''RT0PS'' 4 0x10 [(''NO_EFFECT'', 0), (''SET'', 0x10)],
     Field ''RT1PS'' 5 0x20 [(''NO_EFFECT'', 0), (''SET'', 0x20)],
     Field ''RT2PS'' 6 0x40 [(''NO_EFFECT'', 0), (''SET'', 0x40)],
     Field ''TSEVT'' 7 0x80 [(''NO_EFFECT'', 0), (''SET'', 0x80)],
     Field ''TIO0'' 8 0x100 [(''NO_EFFECT'', 0), (''SET'', 0x100)],
     Field ''TIO1'' 9 0x200 [(''NO_EFFECT'', 0), (''SET'', 0x200)],
     Field ''TIO2'' 10 0x400 [(''NO_EFFECT'', 0), (''SET'', 0x400)],
     Field ''TIO3'' 11 0x800 [(''NO_EFFECT'', 0), (''SET'', 0x800)],
     Field ''TIO4'' 12 0x1000 [(''NO_EFFECT'', 0), (''SET'', 0x1000)],
     Field ''TIO5'' 13 0x2000 [(''NO_EFFECT'', 0), (''SET'', 0x2000)],
     Field ''TIO6'' 14 0x4000 [(''NO_EFFECT'', 0), (''SET'', 0x4000)],
     Field ''TIO7'' 15 0x8000 [(''NO_EFFECT'', 0), (''SET'', 0x8000)],
     Field ''TIO8'' 16 0x10000 [(''NO_EFFECT'', 0), (''SET'', 0x10000)],
     Field ''TIO9'' 17 0x20000 [(''NO_EFFECT'', 0), (''SET'', 0x20000)],
     Field ''TIO10'' 18 0x40000 [(''NO_EFFECT'', 0), (''SET'', 0x40000)],
     Field ''TIO11'' 19 0x80000 [(''NO_EFFECT'', 0), (''SET'', 0x80000)],
     Field ''TIO12'' 20 0x100000 [(''NO_EFFECT'', 0), (''SET'', 0x100000)],
     Field ''TIO13'' 21 0x200000 [(''NO_EFFECT'', 0), (''SET'', 0x200000)],
     Field ''TIO14'' 22 0x400000 [(''NO_EFFECT'', 0), (''SET'', 0x400000)],
     Field ''TIO15'' 23 0x800000 [(''NO_EFFECT'', 0), (''SET'', 0x800000)]]"

definition RTC_GEN_EVENT_ICLR_Bits :: fields where
  "RTC_GEN_EVENT_ICLR_Bits =
    [Field ''RTCRDY'' 0 0x1 [(''NO_EFFECT'', 0), (''CLR'', 1)],
     Field ''RTCTEV'' 1 0x2 [(''NO_EFFECT'', 0), (''CLR'', 2)],
     Field ''RTCA1'' 2 0x4 [(''NO_EFFECT'', 0), (''CLR'', 4)],
     Field ''RTCA2'' 3 0x8 [(''NO_EFFECT'', 0), (''CLR'', 8)],
     Field ''RT0PS'' 4 0x10 [(''NO_EFFECT'', 0), (''CLR'', 0x10)],
     Field ''RT1PS'' 5 0x20 [(''NO_EFFECT'', 0), (''CLR'', 0x20)],
     Field ''RT2PS'' 6 0x40 [(''NO_EFFECT'', 0), (''CLR'', 0x40)],
     Field ''TSEVT'' 7 0x80 [(''NO_EFFECT'', 0), (''CLR'', 0x80)],
     Field ''TIO0'' 8 0x100 [(''NO_EFFECT'', 0), (''CLR'', 0x100)],
     Field ''TIO1'' 9 0x200 [(''NO_EFFECT'', 0), (''CLR'', 0x200)],
     Field ''TIO2'' 10 0x400 [(''NO_EFFECT'', 0), (''CLR'', 0x400)],
     Field ''TIO3'' 11 0x800 [(''NO_EFFECT'', 0), (''CLR'', 0x800)],
     Field ''TIO4'' 12 0x1000 [(''NO_EFFECT'', 0), (''CLR'', 0x1000)],
     Field ''TIO5'' 13 0x2000 [(''NO_EFFECT'', 0), (''CLR'', 0x2000)],
     Field ''TIO6'' 14 0x4000 [(''NO_EFFECT'', 0), (''CLR'', 0x4000)],
     Field ''TIO7'' 15 0x8000 [(''NO_EFFECT'', 0), (''CLR'', 0x8000)],
     Field ''TIO8'' 16 0x10000 [(''NO_EFFECT'', 0), (''CLR'', 0x10000)],
     Field ''TIO9'' 17 0x20000 [(''NO_EFFECT'', 0), (''CLR'', 0x20000)],
     Field ''TIO10'' 18 0x40000 [(''NO_EFFECT'', 0), (''CLR'', 0x40000)],
     Field ''TIO11'' 19 0x80000 [(''NO_EFFECT'', 0), (''CLR'', 0x80000)],
     Field ''TIO12'' 20 0x100000 [(''NO_EFFECT'', 0), (''CLR'', 0x100000)],
     Field ''TIO13'' 21 0x200000 [(''NO_EFFECT'', 0), (''CLR'', 0x200000)],
     Field ''TIO14'' 22 0x400000 [(''NO_EFFECT'', 0), (''CLR'', 0x400000)],
     Field ''TIO15'' 23 0x800000 [(''NO_EFFECT'', 0), (''CLR'', 0x800000)]]"

definition RTC_CPU_INT_IIDX_Bits :: fields where
  "RTC_CPU_INT_IIDX_Bits =
    [Field ''STAT'' 0 0xff [
       (''NO_INTR'', 0), (''RTCRDY'', 1), (''RTCTEV'', 2), (''RTCA1'', 3), (''RTCA2'', 4), (''RT0PS'', 5),
       (''RT1PS'', 6), (''RT2PS'', 7), (''TSEVT'', 8), (''TIO0'', 9), (''TIO1'', 0xa), (''TIO2'', 0xb), (''TIO3'', 0xc),
       (''TIO4'', 0xd), (''TIO5'', 0xe), (''TIO6'', 0xf), (''TIO7'', 0x10), (''TIO8'', 0x11), (''TIO9'', 0x12),
       (''TIO10'', 0x13), (''TIO11'', 0x14), (''TIO12'', 0x15), (''TIO13'', 0x16), (''TIO14'', 0x17), (''TIO15'', 0x18)]]"

definition RTC_CPU_INT_IMASK_Bits :: fields where
  "RTC_CPU_INT_IMASK_Bits =
    [Field ''RTCA2'' 3 0x8 [(''CLR'', 0), (''SET'', 8)],
     Field ''RT0PS'' 4 0x10 [(''CLR'', 0), (''SET'', 0x10)],
     Field ''RT1PS'' 5 0x20 [(''CLR'', 0), (''SET'', 0x20)],
     Field ''RTCTEV'' 1 0x2 [(''CLR'', 0), (''SET'', 2)],
     Field ''RTCRDY'' 0 0x1 [(''CLR'', 0), (''SET'', 1)],
     Field ''RTCA1'' 2 0x4 [(''CLR'', 0), (''SET'', 4)],
     Field ''RT2PS'' 6 0x40 [(''CLR'', 0), (''SET'', 0x40)],
     Field ''TSEVT'' 7 0x80 [(''CLR'', 0), (''SET'', 0x80)],
     Field ''TIO0'' 8 0x100 [(''CLR'', 0), (''SET'', 0x100)],
     Field ''TIO1'' 9 0x200 [(''CLR'', 0), (''SET'', 0x200)],
     Field ''TIO2'' 10 0x400 [(''CLR'', 0), (''SET'', 0x400)],
     Field ''TIO3'' 11 0x800 [(''CLR'', 0), (''SET'', 0x800)],
     Field ''TIO4'' 12 0x1000 [(''CLR'', 0), (''SET'', 0x1000)],
     Field ''TIO5'' 13 0x2000 [(''CLR'', 0), (''SET'', 0x2000)],
     Field ''TIO6'' 14 0x4000 [(''CLR'', 0), (''SET'', 0x4000)],
     Field ''TIO7'' 15 0x8000 [(''CLR'', 0), (''SET'', 0x8000)],
     Field ''TIO8'' 16 0x10000 [(''CLR'', 0), (''SET'', 0x10000)],
     Field ''TIO9'' 17 0x20000 [(''CLR'', 0), (''SET'', 0x20000)],
     Field ''TIO10'' 18 0x40000 [(''CLR'', 0), (''SET'', 0x40000)],
     Field ''TIO11'' 19 0x80000 [(''CLR'', 0), (''SET'', 0x80000)],
     Field ''TIO12'' 20 0x100000 [(''CLR'', 0), (''SET'', 0x100000)],
     Field ''TIO13'' 21 0x200000 [(''CLR'', 0), (''SET'', 0x200000)],
     Field ''TIO14'' 22 0x400000 [(''CLR'', 0), (''SET'', 0x400000)],
     Field ''TIO15'' 23 0x800000 [(''CLR'', 0), (''SET'', 0x800000)]]"

definition RTC_CPU_INT_RIS_Bits :: fields where
  "RTC_CPU_INT_RIS_Bits =
    [Field ''RTCRDY'' 0 0x1 [(''CLR'', 0), (''SET'', 1)],
     Field ''RTCTEV'' 1 0x2 [(''CLR'', 0), (''SET'', 2)],
     Field ''RTCA1'' 2 0x4 [(''CLR'', 0), (''SET'', 4)],
     Field ''RTCA2'' 3 0x8 [(''CLR'', 0), (''SET'', 8)],
     Field ''RT0PS'' 4 0x10 [(''CLR'', 0), (''SET'', 0x10)],
     Field ''RT1PS'' 5 0x20 [(''CLR'', 0), (''SET'', 0x20)],
     Field ''RT2PS'' 6 0x40 [(''CLR'', 0), (''SET'', 0x40)],
     Field ''TSEVT'' 7 0x80 [(''CLR'', 0), (''SET'', 0x80)],
     Field ''TIO0'' 8 0x100 [(''CLR'', 0), (''SET'', 0x100)],
     Field ''TIO1'' 9 0x200 [(''CLR'', 0), (''SET'', 0x200)],
     Field ''TIO2'' 10 0x400 [(''CLR'', 0), (''SET'', 0x400)],
     Field ''TIO3'' 11 0x800 [(''CLR'', 0), (''SET'', 0x800)],
     Field ''TIO4'' 12 0x1000 [(''CLR'', 0), (''SET'', 0x1000)],
     Field ''TIO5'' 13 0x2000 [(''CLR'', 0), (''SET'', 0x2000)],
     Field ''TIO6'' 14 0x4000 [(''CLR'', 0), (''SET'', 0x4000)],
     Field ''TIO7'' 15 0x8000 [(''CLR'', 0), (''SET'', 0x8000)],
     Field ''TIO8'' 16 0x10000 [(''CLR'', 0), (''SET'', 0x10000)],
     Field ''TIO9'' 17 0x20000 [(''CLR'', 0), (''SET'', 0x20000)],
     Field ''TIO10'' 18 0x40000 [(''CLR'', 0), (''SET'', 0x40000)],
     Field ''TIO11'' 19 0x80000 [(''CLR'', 0), (''SET'', 0x80000)],
     Field ''TIO12'' 20 0x100000 [(''CLR'', 0), (''SET'', 0x100000)],
     Field ''TIO13'' 21 0x200000 [(''CLR'', 0), (''SET'', 0x200000)],
     Field ''TIO14'' 22 0x400000 [(''CLR'', 0), (''SET'', 0x400000)],
     Field ''TIO15'' 23 0x800000 [(''CLR'', 0), (''SET'', 0x800000)]]"

definition RTC_CPU_INT_MIS_Bits :: fields where
  "RTC_CPU_INT_MIS_Bits =
    [Field ''RTCRDY'' 0 0x1 [(''CLR'', 0), (''SET'', 1)],
     Field ''RTCTEV'' 1 0x2 [(''CLR'', 0), (''SET'', 2)],
     Field ''RTCA1'' 2 0x4 [(''CLR'', 0), (''SET'', 4)],
     Field ''RTCA2'' 3 0x8 [(''CLR'', 0), (''SET'', 8)],
     Field ''RT0PS'' 4 0x10 [(''CLR'', 0), (''SET'', 0x10)],
     Field ''RT1PS'' 5 0x20 [(''CLR'', 0), (''SET'', 0x20)],
     Field ''RT2PS'' 6 0x40 [(''CLR'', 0), (''SET'', 0x40)],
     Field ''TSEVT'' 7 0x80 [(''CLR'', 0), (''SET'', 0x80)],
     Field ''TIO0'' 8 0x100 [(''CLR'', 0), (''SET'', 0x100)],
     Field ''TIO1'' 9 0x200 [(''CLR'', 0), (''SET'', 0x200)],
     Field ''TIO2'' 10 0x400 [(''CLR'', 0), (''SET'', 0x400)],
     Field ''TIO3'' 11 0x800 [(''CLR'', 0), (''SET'', 0x800)],
     Field ''TIO4'' 12 0x1000 [(''CLR'', 0), (''SET'', 0x1000)],
     Field ''TIO5'' 13 0x2000 [(''CLR'', 0), (''SET'', 0x2000)],
     Field ''TIO6'' 14 0x4000 [(''CLR'', 0), (''SET'', 0x4000)],
     Field ''TIO7'' 15 0x8000 [(''CLR'', 0), (''SET'', 0x8000)],
     Field ''TIO8'' 16 0x10000 [(''CLR'', 0), (''SET'', 0x10000)],
     Field ''TIO9'' 17 0x20000 [(''CLR'', 0), (''SET'', 0x20000)],
     Field ''TIO10'' 18 0x40000 [(''CLR'', 0), (''SET'', 0x40000)],
     Field ''TIO11'' 19 0x80000 [(''CLR'', 0), (''SET'', 0x80000)],
     Field ''TIO12'' 20 0x100000 [(''CLR'', 0), (''SET'', 0x100000)],
     Field ''TIO13'' 21 0x200000 [(''CLR'', 0), (''SET'', 0x200000)],
     Field ''TIO14'' 22 0x400000 [(''CLR'', 0), (''SET'', 0x400000)],
     Field ''TIO15'' 23 0x800000 [(''CLR'', 0), (''SET'', 0x800000)]]"

definition RTC_CPU_INT_ISET_Bits :: fields where
  "RTC_CPU_INT_ISET_Bits =
    [Field ''RTCRDY'' 0 0x1 [(''CLR'', 0), (''SET'', 1)],
     Field ''RTCTEV'' 1 0x2 [(''CLR'', 0), (''SET'', 2)],
     Field ''RTCA1'' 2 0x4 [(''CLR'', 0), (''SET'', 4)],
     Field ''RTCA2'' 3 0x8 [(''CLR'', 0), (''SET'', 8)],
     Field ''RT0PS'' 4 0x10 [(''CLR'', 0), (''SET'', 0x10)],
     Field ''RT1PS'' 5 0x20 [(''CLR'', 0), (''SET'', 0x20)],
     Field ''RT2PS'' 6 0x40 [(''NO_EFFECT'', 0), (''SET'', 0x40)],
     Field ''TSEVT'' 7 0x80 [(''NO_EFFECT'', 0), (''SET'', 0x80)],
     Field ''TIO0'' 8 0x100 [(''NO_EFFECT'', 0), (''SET'', 0x100)],
     Field ''TIO1'' 9 0x200 [(''NO_EFFECT'', 0), (''SET'', 0x200)],
     Field ''TIO2'' 10 0x400 [(''NO_EFFECT'', 0), (''SET'', 0x400)],
     Field ''TIO3'' 11 0x800 [(''NO_EFFECT'', 0), (''SET'', 0x800)],
     Field ''TIO4'' 12 0x1000 [(''NO_EFFECT'', 0), (''SET'', 0x1000)],
     Field ''TIO5'' 13 0x2000 [(''NO_EFFECT'', 0), (''SET'', 0x2000)],
     Field ''TIO6'' 14 0x4000 [(''NO_EFFECT'', 0), (''SET'', 0x4000)],
     Field ''TIO7'' 15 0x8000 [(''NO_EFFECT'', 0), (''SET'', 0x8000)],
     Field ''TIO8'' 16 0x10000 [(''NO_EFFECT'', 0), (''SET'', 0x10000)],
     Field ''TIO9'' 17 0x20000 [(''NO_EFFECT'', 0), (''SET'', 0x20000)],
     Field ''TIO10'' 18 0x40000 [(''NO_EFFECT'', 0), (''SET'', 0x40000)],
     Field ''TIO11'' 19 0x80000 [(''NO_EFFECT'', 0), (''SET'', 0x80000)],
     Field ''TIO12'' 20 0x100000 [(''NO_EFFECT'', 0), (''SET'', 0x100000)],
     Field ''TIO13'' 21 0x200000 [(''NO_EFFECT'', 0), (''SET'', 0x200000)],
     Field ''TIO14'' 22 0x400000 [(''NO_EFFECT'', 0), (''SET'', 0x400000)],
     Field ''TIO15'' 23 0x800000 [(''NO_EFFECT'', 0), (''SET'', 0x800000)]]"

definition RTC_CPU_INT_ICLR_Bits :: fields where
  "RTC_CPU_INT_ICLR_Bits =
    [Field ''RTCRDY'' 0 0x1 [(''CLR'', 0), (''SET'', 1)],
     Field ''RTCTEV'' 1 0x2 [(''CLR'', 0), (''SET'', 2)],
     Field ''RTCA1'' 2 0x4 [(''CLR'', 0), (''SET'', 4)],
     Field ''RTCA2'' 3 0x8 [(''CLR'', 0), (''SET'', 8)],
     Field ''RT0PS'' 4 0x10 [(''CLR'', 0), (''SET'', 0x10)],
     Field ''RT1PS'' 5 0x20 [(''CLR'', 0), (''SET'', 0x20)],
     Field ''RT2PS'' 6 0x40 [(''NO_EFFECT'', 0), (''CLR'', 0x40)],
     Field ''TSEVT'' 7 0x80 [(''NO_EFFECT'', 0), (''CLR'', 0x80)],
     Field ''TIO0'' 8 0x100 [(''NO_EFFECT'', 0), (''CLR'', 0x100)],
     Field ''TIO1'' 9 0x200 [(''NO_EFFECT'', 0), (''CLR'', 0x200)],
     Field ''TIO2'' 10 0x400 [(''NO_EFFECT'', 0), (''CLR'', 0x400)],
     Field ''TIO3'' 11 0x800 [(''NO_EFFECT'', 0), (''CLR'', 0x800)],
     Field ''TIO4'' 12 0x1000 [(''NO_EFFECT'', 0), (''CLR'', 0x1000)],
     Field ''TIO5'' 13 0x2000 [(''NO_EFFECT'', 0), (''CLR'', 0x2000)],
     Field ''TIO6'' 14 0x4000 [(''NO_EFFECT'', 0), (''CLR'', 0x4000)],
     Field ''TIO7'' 15 0x8000 [(''NO_EFFECT'', 0), (''CLR'', 0x8000)],
     Field ''TIO8'' 16 0x10000 [(''NO_EFFECT'', 0), (''CLR'', 0x10000)],
     Field ''TIO9'' 17 0x20000 [(''NO_EFFECT'', 0), (''CLR'', 0x20000)],
     Field ''TIO10'' 18 0x40000 [(''NO_EFFECT'', 0), (''CLR'', 0x40000)],
     Field ''TIO11'' 19 0x80000 [(''NO_EFFECT'', 0), (''CLR'', 0x80000)],
     Field ''TIO12'' 20 0x100000 [(''NO_EFFECT'', 0), (''CLR'', 0x100000)],
     Field ''TIO13'' 21 0x200000 [(''NO_EFFECT'', 0), (''CLR'', 0x200000)],
     Field ''TIO14'' 22 0x400000 [(''NO_EFFECT'', 0), (''CLR'', 0x400000)],
     Field ''TIO15'' 23 0x800000 [(''NO_EFFECT'', 0), (''CLR'', 0x800000)]]"

definition RTC_PWREN_Bits :: fields where
  "RTC_PWREN_Bits =
    [Field ''ENABLE'' 0 0x1 [(''DISABLE'', 0), (''ENABLE'', 1)],
     Field ''KEY'' 24 0xff000000 [(''UNLOCK_W'', 0x26000000)]]"

definition RTC_RSTCTL_Bits :: fields where
  "RTC_RSTCTL_Bits =
    [Field ''RESETSTKYCLR'' 1 0x2 [(''NOP'', 0), (''CLR'', 2)],
     Field ''RESETASSERT'' 0 0x1 [(''NOP'', 0), (''ASSERT'', 1)],
     Field ''KEY'' 24 0xff000000 [(''UNLOCK_W'', 0xb1000000)]]"

definition RTC_CLKCFG_Bits :: fields where
  "RTC_CLKCFG_Bits =
    [Field ''KEY'' 24 0xff000000 [(''UNLOCK_W'', 0xa9000000)],
     Field ''BLOCKASYNC'' 8 0x100 [(''DISABLE'', 0), (''ENABLE'', 0x100)]]"

definition RTC_STAT_Bits :: fields where
  "RTC_STAT_Bits =
    [Field ''RESETSTKY'' 16 0x10000 [(''NORES'', 0), (''RESET'', 0x10000)]]"

definition RTC_FPUB_0_Bits :: fields where
  "RTC_FPUB_0_Bits =
    [Field ''CHANID'' 0 0xff [(''MNIMUM'', 0), (''UNCONNECTED'', 0), (''MAXIMUM'', 0xf)]]"

definition RTC_CLKSEL_Bits :: fields where
  "RTC_CLKSEL_Bits =
    [Field ''LFCLK_SEL'' 1 0x2 [(''DISABLE'', 0), (''ENABLE'', 2)]]"

definition RTC_EVT_MODE_Bits :: fields where
  "RTC_EVT_MODE_Bits =
    [Field ''EVT0_CFG'' 0 0x3 [(''DISABLE'', 0), (''SOFTWARE'', 1), (''HARDWARE'', 2)],
     Field ''EVT1_CFG'' 2 0xc [(''DISABLE'', 0), (''SOFTWARE'', 4), (''HARDWARE'', 8)]]"

definition RTC_DESC_Bits :: fields where
  "RTC_DESC_Bits =
    [Field ''MINREV'' 0 0xf [(''MINIMUM'', 0), (''MAXIMUM'', 0xf)],
     Field ''MAJREV'' 4 0xf0 [(''MINIMUM'', 0), (''MAXIMUM'', 0xf0)],
     Field ''INSTNUM'' 8 0xf00 [(''INST0'', 0)],
     Field ''FEATUREVER'' 12 0xf000 [(''MINIMUM'', 0), (''MAXIMUM'', 0xf000)],
     Field ''MODULEID'' 16 0xffff0000 [(''MINIMUM'', 0), (''MAXIMUM'', 0xffff0000)]]"

definition RTC_CLKCTL_Bits :: fields where
  "RTC_CLKCTL_Bits =
    [Field ''MODCLKEN'' 31 0x80000000 [(''DISABLE'', 0), (''ENABLE'', 0x80000000)]]"

definition RTC_DBGCTL_Bits :: fields where
  "RTC_DBGCTL_Bits =
    [Field ''DBGRUN'' 0 0x1 [(''HALT'', 0), (''RUN'', 1)],
     Field ''DBGINT'' 1 0x2 [(''OFF'', 0), (''ON'', 2)]]"

definition RTC_CTL_Bits :: fields where
  "RTC_CTL_Bits =
    [Field ''RTCTEVTX'' 0 0x3 [(''MINUTE'', 0), (''HOUR'', 1), (''MIDNIGHT'', 2), (''NOON'', 3)],
     Field ''RTCBCD'' 7 0x80 [(''BINARY'', 0), (''BCD'', 0x80)]]"

definition RTC_STA_Bits :: fields where
  "RTC_STA_Bits =
    [Field ''RTCRDY'' 0 0x1 [(''NOT_READY'', 0), (''READY'', 1)],
     Field ''RTCTCRDY'' 1 0x2 [(''NOT_READY'', 0), (''READY'', 2)],
     Field ''RTCTCOK'' 2 0x4 [(''NOT_OK'', 0), (''OK'', 4)]]"

definition RTC_CAL_Bits :: fields where
  "RTC_CAL_Bits =
    [Field ''RTCOCALX'' 0 0xff [(''MINIMUM'', 0), (''MAXIMUM'', 0xff)],
     Field ''RTCOCALS'' 15 0x8000 [(''DOWN'', 0), (''UP'', 0x8000)],
     Field ''RTCCALFX'' 16 0x30000 [
       (''OFF'', 0), (''F32KHZ'', 0), (''F512HZ'', 0x10000), (''F256HZ'', 0x20000), (''F1HZ'', 0x30000)]]"

definition RTC_TCMP_Bits :: fields where
  "RTC_TCMP_Bits =
    [Field ''RTCTCMPX'' 0 0xff [(''MINIMUM'', 0), (''MAXIMUM'', 0xff)],
     Field ''RTCTCMPS'' 15 0x8000 [(''DOWN'', 0), (''UP'', 0x8000)]]"

definition RTC_SEC_Bits :: fields where
  "RTC_SEC_Bits =
    [Field ''SECBIN'' 0 0x3f [(''MINIMUM'', 0), (''MAXIMUM'', 0x3b)],
     Field ''SECLOWBCD'' 8 0xf00 [(''MINIMUM'', 0), (''MAXIMUM'', 0x900)],
     Field ''SECHIGHBCD'' 12 0x7000 [(''MINIMUM'', 0), (''MAXIMUM'', 0x5000)]]"

definition RTC_MIN_Bits :: fields where
  "RTC_MIN_Bits =
    [Field ''MINBIN'' 0 0x3f [(''MINIMUM'', 0), (''MAXIMUM'', 0x3b)],
     Field ''MINLOWBCD'' 8 0xf00 [(''MINIMUM'', 0), (''MAXIMUM'', 0x900)],
     Field ''MINHIGHBCD'' 12 0x7000 [(''MINIMUM'', 0), (''MAXIMUM'', 0x5000)]]"

definition RTC_HOUR_Bits :: fields where
  "RTC_HOUR_Bits =
    [Field ''HOURBIN'' 0 0x1f [(''MINIMUM'', 0), (''MAXIMUM'', 0x17)],
     Field ''HOURLOWBCD'' 8 0xf00 [(''MINIMUM'', 0), (''MAXIMUM'', 0x900)],
     Field ''HOURHIGHBCD'' 12 0x3000 [(''MINIMUM'', 0), (''MAXIMUM'', 0x2000)]]"

definition RTC_DAY_Bits :: fields where
  "RTC_DAY_Bits =
    [Field ''DOW'' 0 0x7 [(''MINIMUM'', 0), (''MAXIMUM'', 6)],
     Field ''DOMBIN'' 8 0x1f00 [(''MINIMUM'', 0), (''MAXIMUM'', 0x1f00)],
     Field ''DOMLOWBCD'' 16 0xf0000 [(''MINIMUM'', 0), (''MAXIMUM'', 0x90000)],
     Field ''DOMHIGHBCD'' 20 0x300000 [(''MINIMUM'', 0), (''MAXIMUM'', 0x300000)]]"

definition RTC_MON_Bits :: fields where
  "RTC_MON_Bits =
    [Field ''MONBIN'' 0 0xf [(''MINIMUM'', 0), (''MAXIMUM'', 0xc)],
     Field ''MONLOWBCD'' 8 0xf00 [(''MINIMUM'', 0), (''MAXIMUM'', 0x900)],
     Field ''MONHIGHBCD'' 12 0x1000 [(''MINIMUM'', 0), (''MAXIMUM'', 0x1000)]]"

definition RTC_YEAR_Bits :: fields where
  "RTC_YEAR_Bits =
    [Field ''YEARLOWBIN'' 0 0xff [(''MINIMUM'', 0), (''MAXIMUM'', 0xff)],
     Field ''YEARHIGHBIN'' 8 0xf00 [(''MINIMUM'', 0), (''MAXIMUM'', 0xf00)],
     Field ''YEARLOWESTBCD'' 16 0xf0000 [(''MINIMUM'', 0), (''MAXIMUM'', 0x90000)],
     Field ''DECADEBCD'' 20 0xf00000 [(''MINIMUM'', 0), (''MAXIMUM'', 0x900000)],
     Field ''CENTLOWBCD'' 24 0xf000000 [(''MINIMUM'', 0), (''MAXIMUM'', 0x9000000)],
     Field ''CENTHIGHBCD'' 28 0x70000000 [(''MINIMUM'', 0), (''MAXIMUM'', 0x40000000)]]"

definition RTC_A1MIN_Bits :: fields where
  "RTC_A1MIN_Bits =
    [Field ''AMINBIN'' 0 0x3f [(''MINIMUM'', 0), (''MAXIMUM'', 0x3b)],
     Field ''AMINAEBIN'' 7 0x80 [(''DISABLE'', 0), (''ENABLE'', 0x80)],
     Field ''AMINLOWBCD'' 8 0xf00 [(''MINIMUM'', 0), (''MAXIMUM'', 0x900)],
     Field ''AMINHIGHBCD'' 12 0x7000 [(''MINIMUM'', 0), (''MAXIMUM'', 0x5000)],
     Field ''AMINAEBCD'' 15 0x8000 [(''DISABLE'', 0), (''ENABLE'', 0x8000)]]"

definition RTC_A1HOUR_Bits :: fields where
  "RTC_A1HOUR_Bits =
    [Field ''AHOURBIN'' 0 0x1f [(''MINIMUM'', 0), (''MAXIMUM'', 0x17)],
     Field ''AHOURAEBIN'' 7 0x80 [(''DISABLE'', 0), (''ENABLE'', 0x80)],
     Field ''AHOURLOWBCD'' 8 0xf00 [(''MINIMUM'', 0), (''MAXIMUM'', 0x900)],
     Field ''AHOURHIGHBCD'' 12 0x3000 [(''MINIMUM'', 0), (''MAXIMUM'', 0x2000)],
     Field ''AHOURAEBCD'' 15 0x8000 [(''DISABLE'', 0), (''ENABLE'', 0x8000)]]"

definition RTC_A1DAY_Bits :: fields where
  "RTC_A1DAY_Bits =
    [Field ''ADOW'' 0 0x7 [(''MINIMUM'', 0), (''MAXIMUM'', 6)],
     Field ''ADOWAE'' 7 0x80 [(''DISABLE'', 0), (''ENABLE'', 0x80)],
     Field ''ADOMBIN'' 8 0x1f00 [(''MINIMUM'', 0), (''MAXIMUM'', 0x1f00)],
     Field ''ADOMAEBIN'' 15 0x8000 [(''DISABLE'', 0), (''ENABLE'', 0x8000)],
     Field ''ADOMLOWBCD'' 16 0xf0000 [(''MINIMUM'', 0), (''MAXIMUM'', 0x90000)],
     Field ''ADOMHIGHBCD'' 20 0x300000 [(''MINIMUM'', 0), (''MAXIMUM'', 0x300000)],
     Field ''ADOMAEBCD'' 23 0x800000 [(''DISABLE'', 0), (''ENABLE'', 0x800000)]]"

definition RTC_A2MIN_Bits :: fields where
  "RTC_A2MIN_Bits =
    [Field ''AMINBIN'' 0 0x3f [(''MINIMUM'', 0), (''MAXIMUM'', 0x3b)],
     Field ''AMINAEBIN'' 7 0x80 [(''DISABLE'', 0), (''ENABLE'', 0x80)],
     Field ''AMINLOWBCD'' 8 0xf00 [(''MINIMUM'', 0), (''MAXIMUM'', 0x900)],
     Field ''AMINHIGHBCD'' 12 0x7000 [(''MINIMUM'', 0), (''MAXIMUM'', 0x5000)],
     Field ''AMINAEBCD'' 15 0x8000 [(''DISABLE'', 0), (''ENABLE'', 0x8000)]]"

definition RTC_A2HOUR_Bits :: fields where
  "RTC_A2HOUR_Bits =
    [Field ''AHOURBIN'' 0 0x1f [(''MINIMUM'', 0), (''MAXIMUM'', 0x17)],
     Field ''AHOURAEBIN'' 7 0x80 [(''DISABLE'', 0), (''ENABLE'', 0x80)],
     Field ''AHOURLOWBCD'' 8 0xf00 [(''MINIMUM'', 0), (''MAXIMUM'', 0x900)],
     Field ''AHOURHIGHBCD'' 12 0x3000 [(''MINIMUM'', 0), (''MAXIMUM'', 0x2000)],
     Field ''AHOURAEBCD'' 15 0x8000 [(''DISABLE'', 0), (''ENABLE'', 0x8000)]]"

definition RTC_A2DAY_Bits :: fields where
  "RTC_A2DAY_Bits =
    [Field ''ADOW'' 0 0x7 [(''MINIMUM'', 0), (''MAXIMUM'', 6)],
     Field ''ADOWAE'' 7 0x80 [(''DISABLE'', 0), (''ENABLE'', 0x80)],
     Field ''ADOMBIN'' 8 0x1f00 [(''MINIMUM'', 0), (''MAXIMUM'', 0x1f00)],
     Field ''ADOMAEBIN'' 15 0x8000 [(''DISABLE'', 0), (''ENABLE'', 0x8000)],
     Field ''ADOMLOWBCD'' 16 0xf0000 [(''MINIMUM'', 0), (''MAXIMUM'', 0x90000)],
     Field ''ADOMHIGHBCD'' 20 0x300000 [(''MINIMUM'', 0), (''MAXIMUM'', 0x300000)],
     Field ''ADOMAEBCD'' 23 0x800000 [(''DISABLE'', 0), (''ENABLE'', 0x800000)]]"

definition RTC_PSCTL_Bits :: fields where
  "RTC_PSCTL_Bits =
    [Field ''RT0IP'' 2 0x1c [
       (''DIV8'', 8), (''DIV16'', 0xc), (''DIV32'', 0x10), (''DIV64'', 0x14), (''DIV128'', 0x18), (''DIV256'', 0x1c)],
     Field ''RT1IP'' 18 0x1c0000 [
       (''DIV2'', 0), (''DIV4'', 0x40000), (''DIV8'', 0x80000), (''DIV16'', 0xc0000), (''DIV32'', 0x100000),
       (''DIV64'', 0x140000), (''DIV128'', 0x180000), (''DIV256'', 0x1c0000)]]"

definition RTC_EXTPSCTL_Bits :: fields where
  "RTC_EXTPSCTL_Bits =
    [Field ''RT2PS'' 2 0xc [(''INT4S'', 0), (''INT8S'', 4), (''INT16S'', 8)]]"

definition RTC_TSSEC_Bits :: fields where
  "RTC_TSSEC_Bits =
    [Field ''SECBIN'' 0 0x3f [(''MINIMUM'', 0), (''MAXIMUM'', 0x3b)],
     Field ''SECLOWBCD'' 8 0xf00 [(''MINIMUM'', 0), (''MAXIMUM'', 0x900)],
     Field ''SECHIGHBCD'' 12 0x7000 [(''MINIMUM'', 0), (''MAXIMUM'', 0x5000)]]"

definition RTC_TSMIN_Bits :: fields where
  "RTC_TSMIN_Bits =
    [Field ''MINBIN'' 0 0x3f [(''MINIMUM'', 0), (''MAXIMUM'', 0x3b)],
     Field ''MINLOWBCD'' 8 0xf00 [(''MINIMUM'', 0), (''MAXIMUM'', 0x900)],
     Field ''MINHIGHBCD'' 12 0x7000 [(''MINIMUM'', 0), (''MAXIMUM'', 0x5000)]]"

definition RTC_TSHOUR_Bits :: fields where
  "RTC_TSHOUR_Bits =
    [Field ''HOURBIN'' 0 0x1f [(''MINIMUM'', 0), (''MAXIMUM'', 0x17)],
     Field ''HOURLOWBCD'' 8 0xf00 [(''MINIMUM'', 0), (''MAXIMUM'', 0x900)],
     Field ''HOURHIGHBCD'' 12 0x3000 [(''MINIMUM'', 0), (''MAXIMUM'', 0x2000)]]"

definition RTC_TSDAY_Bits :: fields where
  "RTC_TSDAY_Bits =
    [Field ''DOW'' 0 0x7 [(''MINIMUM'', 0), (''MAXIMUM'', 6)],
     Field ''DOMBIN'' 8 0x1f00 [(''MINIMUM'', 0), (''MAXIMUM'', 0x1f00)],
     Field ''DOMLOWBCD'' 16 0xf0000 [(''MINIMUM'', 0), (''MAXIMUM'', 0x90000)],
     Field ''DOMHIGHBCD'' 20 0x300000 [(''MINIMUM'', 0), (''MAXIMUM'', 0x300000)]]"

definition RTC_TSMON_Bits :: fields where
  "RTC_TSMON_Bits =
    [Field ''MONBIN'' 0 0xf [(''MINIMUM'', 0), (''MAXIMUM'', 0xc)],
     Field ''MONLOWBCD'' 8 0xf00 [(''MINIMUM'', 0), (''MAXIMUM'', 0x900)],
     Field ''MONHIGHBCD'' 12 0x1000 [(''MINIMUM'', 0), (''MAXIMUM'', 0x1000)]]"

definition RTC_TSYEAR_Bits :: fields where
  "RTC_TSYEAR_Bits =
    [Field ''YEARLOWBIN'' 0 0xff [(''MINIMUM'', 0), (''MAXIMUM'', 0xff)],
     Field ''YEARHIGHBIN'' 8 0xf00 [(''MINIMUM'', 0), (''MAXIMUM'', 0xf00)],
     Field ''YERARLOWESTBCD'' 16 0xf0000 [(''MINIMUM'', 0), (''MAXIMUM'', 0x90000)],
     Field ''DECADEBCD'' 20 0xf00000 [(''MINIMUM'', 0), (''MAXIMUM'', 0x900000)],
     Field ''CENTLOWBCD'' 24 0xf000000 [(''MINIMUM'', 0), (''MAXIMUM'', 0x9000000)],
     Field ''CENTHIGHBCD'' 28 0x70000000 [(''MINIMUM'', 0), (''MAXIMUM'', 0x40000000)]]"

definition RTC_TSSTAT_Bits :: fields where
  "RTC_TSSTAT_Bits =
    [Field ''TSTIOEVT0'' 0 0x1 [(''CLR'', 0), (''SET'', 1)],
     Field ''TSTIOEVT1'' 1 0x2 [(''CLR'', 0), (''SET'', 2)],
     Field ''TSTIOEVT2'' 2 0x4 [(''CLR'', 0), (''SET'', 4)],
     Field ''TSTIOEVT3'' 3 0x8 [(''CLR'', 0), (''SET'', 8)],
     Field ''TSTIOEVT4'' 4 0x10 [(''CLR'', 0), (''SET'', 0x10)],
     Field ''TSTIOEVT5'' 5 0x20 [(''CLR'', 0), (''SET'', 0x20)],
     Field ''TSTIOEVT6'' 6 0x40 [(''CLR'', 0), (''SET'', 0x40)],
     Field ''TSTIOEVT7'' 7 0x80 [(''CLR'', 0), (''SET'', 0x80)],
     Field ''TSTIOEVT8'' 8 0x100 [(''CLR'', 0), (''SET'', 0x100)],
     Field ''TSTIOEVT9'' 9 0x200 [(''CLR'', 0), (''SET'', 0x200)],
     Field ''TSTIOEVT10'' 10 0x400 [(''CLR'', 0), (''SET'', 0x400)],
     Field ''TSTIOEVT11'' 11 0x800 [(''CLR'', 0), (''SET'', 0x800)],
     Field ''TSTIOEVT12'' 12 0x1000 [(''CLR'', 0), (''SET'', 0x1000)],
     Field ''TSTIOEVT13'' 13 0x2000 [(''CLR'', 0), (''SET'', 0x2000)],
     Field ''TSTIOEVT14'' 14 0x4000 [(''CLR'', 0), (''SET'', 0x4000)],
     Field ''TSTIOEVT15'' 15 0x8000 [(''CLR'', 0), (''SET'', 0x8000)],
     Field ''TSVDDEVT'' 16 0x10000 [(''CLR'', 0), (''SET'', 0x10000)]]"

definition RTC_TSCTL_Bits :: fields where
  "RTC_TSCTL_Bits =
    [Field ''TSTIOEN0'' 0 0x1 [(''DISABLE'', 0), (''ENABLE'', 1)],
     Field ''TSTIOEN1'' 1 0x2 [(''DISABLE'', 0), (''ENABLE'', 2)],
     Field ''TSTIOEN2'' 2 0x4 [(''DISABLE'', 0), (''ENABLE'', 4)],
     Field ''TSTIOEN3'' 3 0x8 [(''DISABLE'', 0), (''ENABLE'', 8)],
     Field ''TSTIOEN4'' 4 0x10 [(''DISABLE'', 0), (''ENABLE'', 0x10)],
     Field ''TSTIOEN5'' 5 0x20 [(''DISABLE'', 0), (''ENABLE'', 0x20)],
     Field ''TSTIOEN6'' 6 0x40 [(''DISABLE'', 0), (''ENABLE'', 0x40)],
     Field ''TSTIOEN7'' 7 0x80 [(''DISABLE'', 0), (''ENABLE'', 0x80)],
     Field ''TSTIOEN8'' 8 0x100 [(''DISABLE'', 0), (''ENABLE'', 0x100)],
     Field ''TSTIOEN9'' 9 0x200 [(''DISABLE'', 0), (''ENABLE'', 0x200)],
     Field ''TSTIOEN10'' 10 0x400 [(''DISABLE'', 0), (''ENABLE'', 0x400)],
     Field ''TSTIOEN11'' 11 0x800 [(''DISABLE'', 0), (''ENABLE'', 0x800)],
     Field ''TSTIOEN12'' 12 0x1000 [(''DISABLE'', 0), (''ENABLE'', 0x1000)],
     Field ''TSTIOEN13'' 13 0x2000 [(''DISABLE'', 0), (''ENABLE'', 0x2000)],
     Field ''TSTIOEN14'' 14 0x4000 [(''DISABLE'', 0), (''ENABLE'', 0x4000)],
     Field ''TSTIOEN15'' 15 0x8000 [(''DISABLE'', 0), (''ENABLE'', 0x8000)],
     Field ''TSVDDEN'' 16 0x10000 [(''DISABLE'', 0), (''ENABLE'', 0x10000)],
     Field ''TSCAPTURE'' 20 0x100000 [(''FIRST'', 0), (''LAST'', 0x100000)],
     Field ''KEY'' 24 0xff000000 [(''UNLOCK_W'', 0xc5000000)]]"

definition RTC_TSCLR_Bits :: fields where
  "RTC_TSCLR_Bits =
    [Field ''CLR'' 0 0x1 [(''NO_EFFECT'', 0), (''CLR'', 1)],
     Field ''KEY'' 24 0xff000000 [(''UNLOCK_W'', 0xe2000000)]]"

definition RTC_LFSSRST_Bits :: fields where
  "RTC_LFSSRST_Bits =
    [Field ''VBATPOR'' 0 0x1 [(''NO_EFFECT'', 0), (''SET'', 1)],
     Field ''KEY'' 24 0xff000000 [(''UNLOCK_W'', 0x12000000)]]"

definition RTC_RTCLOCK_Bits :: fields where
  "RTC_RTCLOCK_Bits =
    [Field ''PROTECT'' 0 0x1 [(''CLR'', 0), (''SET'', 1)],
     Field ''KEY'' 24 0xff000000 [(''UNLOCK_W'', 0x22000000)]]"

definition RTC_bits :: field_table where
  "RTC_bits =
    [([''FPUB_0''], RTC_FPUB_0_Bits), ([''GPRCM'', ''PWREN''], RTC_PWREN_Bits),
     ([''GPRCM'', ''RSTCTL''], RTC_RSTCTL_Bits), ([''GPRCM'', ''CLKCFG''], RTC_CLKCFG_Bits),
     ([''GPRCM'', ''STAT''], RTC_STAT_Bits), ([''CLKSEL''], RTC_CLKSEL_Bits),
     ([''CPU_INT'', ''IIDX''], RTC_CPU_INT_IIDX_Bits), ([''CPU_INT'', ''IMASK''], RTC_CPU_INT_IMASK_Bits),
     ([''CPU_INT'', ''RIS''], RTC_CPU_INT_RIS_Bits), ([''CPU_INT'', ''MIS''], RTC_CPU_INT_MIS_Bits),
     ([''CPU_INT'', ''ISET''], RTC_CPU_INT_ISET_Bits), ([''CPU_INT'', ''ICLR''], RTC_CPU_INT_ICLR_Bits),
     ([''GEN_EVENT'', ''IIDX''], RTC_GEN_EVENT_IIDX_Bits), ([''GEN_EVENT'', ''IMASK''], RTC_GEN_EVENT_IMASK_Bits),
     ([''GEN_EVENT'', ''RIS''], RTC_GEN_EVENT_RIS_Bits), ([''GEN_EVENT'', ''MIS''], RTC_GEN_EVENT_MIS_Bits),
     ([''GEN_EVENT'', ''ISET''], RTC_GEN_EVENT_ISET_Bits), ([''GEN_EVENT'', ''ICLR''], RTC_GEN_EVENT_ICLR_Bits),
     ([''EVT_MODE''], RTC_EVT_MODE_Bits), ([''DESC''], RTC_DESC_Bits), ([''CLKCTL''], RTC_CLKCTL_Bits),
     ([''DBGCTL''], RTC_DBGCTL_Bits), ([''CTL''], RTC_CTL_Bits), ([''STA''], RTC_STA_Bits), ([''CAL''], RTC_CAL_Bits),
     ([''TCMP''], RTC_TCMP_Bits), ([''SEC''], RTC_SEC_Bits), ([''MIN''], RTC_MIN_Bits), ([''HOUR''], RTC_HOUR_Bits),
     ([''DAY''], RTC_DAY_Bits), ([''MON''], RTC_MON_Bits), ([''YEAR''], RTC_YEAR_Bits), ([''A1MIN''], RTC_A1MIN_Bits),
     ([''A1HOUR''], RTC_A1HOUR_Bits), ([''A1DAY''], RTC_A1DAY_Bits), ([''A2MIN''], RTC_A2MIN_Bits),
     ([''A2HOUR''], RTC_A2HOUR_Bits), ([''A2DAY''], RTC_A2DAY_Bits), ([''PSCTL''], RTC_PSCTL_Bits),
     ([''EXTPSCTL''], RTC_EXTPSCTL_Bits), ([''TSSEC''], RTC_TSSEC_Bits), ([''TSMIN''], RTC_TSMIN_Bits),
     ([''TSHOUR''], RTC_TSHOUR_Bits), ([''TSDAY''], RTC_TSDAY_Bits), ([''TSMON''], RTC_TSMON_Bits),
     ([''TSYEAR''], RTC_TSYEAR_Bits), ([''TSSTAT''], RTC_TSSTAT_Bits), ([''TSCTL''], RTC_TSCTL_Bits),
     ([''TSCLR''], RTC_TSCLR_Bits), ([''LFSSRST''], RTC_LFSSRST_Bits), ([''RTCLOCK''], RTC_RTCLOCK_Bits)]"

lemmas RTC_Bits_defs = RTC_GEN_EVENT_IIDX_Bits_def RTC_GEN_EVENT_IMASK_Bits_def RTC_GEN_EVENT_RIS_Bits_def
  RTC_GEN_EVENT_MIS_Bits_def RTC_GEN_EVENT_ISET_Bits_def RTC_GEN_EVENT_ICLR_Bits_def RTC_CPU_INT_IIDX_Bits_def
  RTC_CPU_INT_IMASK_Bits_def RTC_CPU_INT_RIS_Bits_def RTC_CPU_INT_MIS_Bits_def RTC_CPU_INT_ISET_Bits_def
  RTC_CPU_INT_ICLR_Bits_def RTC_PWREN_Bits_def RTC_RSTCTL_Bits_def RTC_CLKCFG_Bits_def RTC_STAT_Bits_def
  RTC_FPUB_0_Bits_def RTC_CLKSEL_Bits_def RTC_EVT_MODE_Bits_def RTC_DESC_Bits_def RTC_CLKCTL_Bits_def
  RTC_DBGCTL_Bits_def RTC_CTL_Bits_def RTC_STA_Bits_def RTC_CAL_Bits_def RTC_TCMP_Bits_def RTC_SEC_Bits_def
  RTC_MIN_Bits_def RTC_HOUR_Bits_def RTC_DAY_Bits_def RTC_MON_Bits_def RTC_YEAR_Bits_def RTC_A1MIN_Bits_def
  RTC_A1HOUR_Bits_def RTC_A1DAY_Bits_def RTC_A2MIN_Bits_def RTC_A2HOUR_Bits_def RTC_A2DAY_Bits_def RTC_PSCTL_Bits_def
  RTC_EXTPSCTL_Bits_def RTC_TSSEC_Bits_def RTC_TSMIN_Bits_def RTC_TSHOUR_Bits_def RTC_TSDAY_Bits_def
  RTC_TSMON_Bits_def RTC_TSYEAR_Bits_def RTC_TSSTAT_Bits_def RTC_TSCTL_Bits_def RTC_TSCLR_Bits_def
  RTC_LFSSRST_Bits_def RTC_RTCLOCK_Bits_def

lemma RTC_bits_describes: "describes RTC_bits RTC_Regs"
  by (simp add: describes_def RTC_bits_def layout_defs, (intro conjI; simp add: RTC_Bits_defs))

lemma RTC_bits_strays: "strays RTC_bits = []"
  by (rule no_strays) (simp add: RTC_bits_def, (intro conjI; simp add: RTC_Bits_defs))

end
