(* ===== verification/UART_Fields.thy ===== *)
theory UART_Fields
  imports Device_Fields
begin

text \<open>
  The bit fields of \<open>hw_uart.h\<close>, \<open>hw_spi.h\<close>: the offset, the mask and the named values of
  every field, register by register.
\<close>

section \<open>\<open>hw_uart.h\<close>\<close>

definition UART_DMA_TRIG_TX_IIDX_Bits :: fields where
  "UART_DMA_TRIG_TX_IIDX_Bits =
    [Field ''STAT'' 0 0xff [(''NO_INTR'', 0), (''TXIFG'', 0xc)]]"

definition UART_DMA_TRIG_TX_IMASK_Bits :: fields where
  "UART_DMA_TRIG_TX_IMASK_Bits =
    [Field ''TXINT'' 11 0x800 [(''CLR'', 0), (''SET'', 0x800)]]"

definition UART_DMA_TRIG_TX_RIS_Bits :: fields where
  "UART_DMA_TRIG_TX_RIS_Bits =
    [Field ''TXINT'' 11 0x800 [(''CLR'', 0), (''SET'', 0x800)]]"

definition UART_DMA_TRIG_TX_MIS_Bits :: fields where
  "UART_DMA_TRIG_TX_MIS_Bits =
    [Field ''TXINT'' 11 0x800 [(''CLR'', 0), (''SET'', 0x800)]]"

definition UART_DMA_TRIG_TX_ISET_Bits :: fields where
  "UART_DMA_TRIG_TX_ISET_Bits =
    [Field ''TXINT'' 11 0x800 [(''NO_EFFECT'', 0), (''SET'', 0x800)]]"

definition UART_DMA_TRIG_TX_ICLR_Bits :: fields where
  "UART_DMA_TRIG_TX_ICLR_Bits =
    [Field ''TXINT'' 11 0x800 [(''NO_EFFECT'', 0), (''CLR'', 0x800)]]"

definition UART_DMA_TRIG_RX_IIDX_Bits :: fields where
  "UART_DMA_TRIG_RX_IIDX_Bits =
    [Field ''STAT'' 0 0xff [(''NO_INTR'', 0), (''RTFG'', 1), (''RXIFG'', 0xb)]]"

definition UART_DMA_TRIG_RX_IMASK_Bits :: fields where
  "UART_DMA_TRIG_RX_IMASK_Bits =
    [Field ''RTOUT'' 0 0x1 [(''CLR'', 0), (''SET'', 1)],
     Field ''RXINT'' 10 0x400 [(''CLR'', 0), (''SET'', 0x400)]]"

definition UART_DMA_TRIG_RX_RIS_Bits :: fields where
  "UART_DMA_TRIG_RX_RIS_Bits =
    [Field ''RTOUT'' 0 0x1 [(''CLR'', 0), (''SET'', 1)],
     Field ''RXINT'' 10 0x400 [(''CLR'', 0), (''SET'', 0x400)]]"

definition UART_DMA_TRIG_RX_MIS_Bits :: fields where
  "UART_DMA_TRIG_RX_MIS_Bits =
    [Field ''RTOUT'' 0 0x1 [(''CLR'', 0), (''SET'', 1)],
     Field ''RXINT'' 10 0x400 [(''CLR'', 0), (''SET'', 0x400)]]"

definition UART_DMA_TRIG_RX_ISET_Bits :: fields where
  "UART_DMA_TRIG_RX_ISET_Bits =
    [Field ''RTOUT'' 0 0x1 [(''NO_EFFECT'', 0), (''SET'', 1)],
     Field ''RXINT'' 10 0x400 [(''NO_EFFECT'', 0), (''SET'', 0x400)]]"

definition UART_DMA_TRIG_RX_ICLR_Bits :: fields where
  "UART_DMA_TRIG_RX_ICLR_Bits =
    [Field ''RTOUT'' 0 0x1 [(''NO_EFFECT'', 0), (''CLR'', 1)],
     Field ''RXINT'' 10 0x400 [(''NO_EFFECT'', 0), (''CLR'', 0x400)]]"

definition UART_CPU_INT_IIDX_Bits :: fields where
  "UART_CPU_INT_IIDX_Bits =
    [Field ''STAT'' 0 0xff [
       (''NO_INTR'', 0), (''RTFG'', 1), (''FEFG'', 2), (''PEFG'', 3), (''BEFG'', 4), (''OEFG'', 5), (''RXNE'', 6),
       (''RXPE'', 7), (''LINC0'', 8), (''LINC1'', 9), (''LINOVF'', 0xa), (''RXIFG'', 0xb), (''TXIFG'', 0xc),
       (''EOT'', 0xd), (''MODE_9B'', 0xe), (''CTS'', 0xf), (''DMA_DONE_RX'', 0x10), (''DMA_DONE_TX'', 0x11),
       (''NERR_EVT'', 0x12)]]"

definition UART_CPU_INT_IMASK_Bits :: fields where
  "UART_CPU_INT_IMASK_Bits =
    [Field ''FRMERR'' 1 0x2 [(''CLR'', 0), (''SET'', 2)],
     Field ''PARERR'' 2 0x4 [(''CLR'', 0), (''SET'', 4)],
     Field ''BRKERR'' 3 0x8 [(''CLR'', 0), (''SET'', 8)],
     Field ''OVRERR'' 4 0x10 [(''CLR'', 0), (''SET'', 0x10)],
     Field ''RXNE'' 5 0x20 [(''CLR'', 0), (''SET'', 0x20)],
     Field ''RXPE'' 6 0x40 [(''CLR'', 0), (''SET'', 0x40)],
     Field ''LINOVF'' 9 0x200 [(''CLR'', 0), (''SET'', 0x200)],
     Field ''RXINT'' 10 0x400 [(''CLR'', 0), (''SET'', 0x400)],
     Field ''TXINT'' 11 0x800 [(''CLR'', 0), (''SET'', 0x800)],
     Field ''EOT'' 12 0x1000 [(''CLR'', 0), (''SET'', 0x1000)],
     Field ''ADDR_MATCH'' 13 0x2000 [(''CLR'', 0), (''SET'', 0x2000)],
     Field ''CTS'' 14 0x4000 [(''CLR'', 0), (''SET'', 0x4000)],
     Field ''DMA_DONE_RX'' 15 0x8000 [(''CLR'', 0), (''SET'', 0x8000)],
     Field ''DMA_DONE_TX'' 16 0x10000 [(''CLR'', 0), (''SET'', 0x10000)],
     Field ''RTOUT'' 0 0x1 [(''CLR'', 0), (''SET'', 1)],
     Field ''LINC0'' 7 0x80 [(''CLR'', 0), (''SET'', 0x80)],
     Field ''LINC1'' 8 0x100 [(''CLR'', 0), (''SET'', 0x100)],
     Field ''NERR'' 17 0x20000 [(''CLR'', 0), (''SET'', 0x20000)]]"

definition UART_CPU_INT_RIS_Bits :: fields where
  "UART_CPU_INT_RIS_Bits =
    [Field ''RTOUT'' 0 0x1 [(''CLR'', 0), (''SET'', 1)],
     Field ''FRMERR'' 1 0x2 [(''CLR'', 0), (''SET'', 2)],
     Field ''PARERR'' 2 0x4 [(''CLR'', 0), (''SET'', 4)],
     Field ''BRKERR'' 3 0x8 [(''CLR'', 0), (''SET'', 8)],
     Field ''OVRERR'' 4 0x10 [(''CLR'', 0), (''SET'', 0x10)],
     Field ''RXNE'' 5 0x20 [(''CLR'', 0), (''SET'', 0x20)],
     Field ''RXPE'' 6 0x40 [(''CLR'', 0), (''SET'', 0x40)],
     Field ''LINC0'' 7 0x80 [(''CLR'', 0), (''SET'', 0x80)],
     Field ''LINC1'' 8 0x100 [(''CLR'', 0), (''SET'', 0x100)],
     Field ''LINOVF'' 9 0x200 [(''CLR'', 0), (''SET'', 0x200)],
     Field ''RXINT'' 10 0x400 [(''CLR'', 0), (''SET'', 0x400)],
     Field ''TXINT'' 11 0x800 [(''CLR'', 0), (''SET'', 0x800)],
     Field ''EOT'' 12 0x1000 [(''CLR'', 0), (''SET'', 0x1000)],
     Field ''ADDR_MATCH'' 13 0x2000 [(''CLR'', 0), (''SET'', 0x2000)],
     Field ''CTS'' 14 0x4000 [(''CLR'', 0), (''SET'', 0x4000)],
     Field ''DMA_DONE_RX'' 15 0x8000 [(''CLR'', 0), (''SET'', 0x8000)],
     Field ''DMA_DONE_TX'' 16 0x10000 [(''CLR'', 0), (''SET'', 0x10000)],
     Field ''NERR'' 17 0x20000 [(''CLR'', 0), (''SET'', 0x20000)]]"

definition UART_CPU_INT_MIS_Bits :: fields where
  "UART_CPU_INT_MIS_Bits =
    [Field ''RTOUT'' 0 0x1 [(''CLR'', 0), (''SET'', 1)],
     Field ''FRMERR'' 1 0x2 [(''CLR'', 0), (''SET'', 2)],
     Field ''PARERR'' 2 0x4 [(''CLR'', 0), (''SET'', 4)],
     Field ''BRKERR'' 3 0x8 [(''CLR'', 0), (''SET'', 8)],
     Field ''OVRERR'' 4 0x10 [(''CLR'', 0), (''SET'', 0x10)],
     Field ''RXNE'' 5 0x20 [(''CLR'', 0), (''SET'', 0x20)],
     Field ''RXPE'' 6 0x40 [(''CLR'', 0), (''SET'', 0x40)],
     Field ''LINC0'' 7 0x80 [(''CLR'', 0), (''SET'', 0x80)],
     Field ''LINC1'' 8 0x100 [(''CLR'', 0), (''SET'', 0x100)],
     Field ''LINOVF'' 9 0x200 [(''CLR'', 0), (''SET'', 0x200)],
     Field ''RXINT'' 10 0x400 [(''CLR'', 0), (''SET'', 0x400)],
     Field ''TXINT'' 11 0x800 [(''CLR'', 0), (''SET'', 0x800)],
     Field ''EOT'' 12 0x1000 [(''CLR'', 0), (''SET'', 0x1000)],
     Field ''ADDR_MATCH'' 13 0x2000 [(''CLR'', 0), (''SET'', 0x2000)],
     Field ''CTS'' 14 0x4000 [(''CLR'', 0), (''SET'', 0x4000)],
     Field ''DMA_DONE_RX'' 15 0x8000 [(''CLR'', 0), (''SET'', 0x8000)],
     Field ''DMA_DONE_TX'' 16 0x10000 [(''CLR'', 0), (''SET'', 0x10000)],
     Field ''NERR'' 17 0x20000 [(''CLR'', 0), (''SET'', 0x20000)]]"

definition UART_CPU_INT_ISET_Bits :: fields where
  "UART_CPU_INT_ISET_Bits =
    [Field ''FRMERR'' 1 0x2 [(''NO_EFFECT'', 0), (''SET'', 2)],
     Field ''PARERR'' 2 0x4 [(''NO_EFFECT'', 0), (''SET'', 4)],
     Field ''BRKERR'' 3 0x8 [(''NO_EFFECT'', 0), (''SET'', 8)],
     Field ''OVRERR'' 4 0x10 [(''NO_EFFECT'', 0), (''SET'', 0x10)],
     Field ''RXNE'' 5 0x20 [(''NO_EFFECT'', 0), (''SET'', 0x20)],
     Field ''RXPE'' 6 0x40 [(''NO_EFFECT'', 0), (''SET'', 0x40)],
     Field ''LINC0'' 7 0x80 [(''NO_EFFECT'', 0), (''SET'', 0x80)],
     Field ''LINC1'' 8 0x100 [(''NO_EFFECT'', 0), (''SET'', 0x100)],
     Field ''LINOVF'' 9 0x200 [(''NO_EFFECT'', 0), (''SET'', 0x200)],
     Field ''RXINT'' 10 0x400 [(''NO_EFFECT'', 0), (''SET'', 0x400)],
     Field ''TXINT'' 11 0x800 [(''NO_EFFECT'', 0), (''SET'', 0x800)],
     Field ''EOT'' 12 0x1000 [(''NO_EFFECT'', 0), (''SET'', 0x1000)],
     Field ''ADDR_MATCH'' 13 0x2000 [(''NO_EFFECT'', 0), (''SET'', 0x2000)],
     Field ''CTS'' 14 0x4000 [(''NO_EFFECT'', 0), (''SET'', 0x4000)],
     Field ''DMA_DONE_RX'' 15 0x8000 [(''NO_EFFECT'', 0), (''SET'', 0x8000)],
     Field ''DMA_DONE_TX'' 16 0x10000 [(''NO_EFFECT'', 0), (''SET'', 0x10000)],
     Field ''RTOUT'' 0 0x1 [(''NO_EFFECT'', 0), (''SET'', 1)],
     Field ''NERR'' 17 0x20000 [(''NO_EFFECT'', 0), (''SET'', 0x20000)]]"

definition UART_CPU_INT_ICLR_Bits :: fields where
  "UART_CPU_INT_ICLR_Bits =
    [Field ''FRMERR'' 1 0x2 [(''NO_EFFECT'', 0), (''CLR'', 2)],
     Field ''PARERR'' 2 0x4 [(''NO_EFFECT'', 0), (''CLR'', 4)],
     Field ''BRKERR'' 3 0x8 [(''NO_EFFECT'', 0), (''CLR'', 8)],
     Field ''OVRERR'' 4 0x10 [(''NO_EFFECT'', 0), (''CLR'', 0x10)],
     Field ''RXNE'' 5 0x20 [(''NO_EFFECT'', 0), (''CLR'', 0x20)],
     Field ''RXPE'' 6 0x40 [(''NO_EFFECT'', 0), (''CLR'', 0x40)],
     Field ''LINC0'' 7 0x80 [(''NO_EFFECT'', 0), (''CLR'', 0x80)],
     Field ''LINC1'' 8 0x100 [(''NO_EFFECT'', 0), (''CLR'', 0x100)],
     Field ''LINOVF'' 9 0x200 [(''NO_EFFECT'', 0), (''CLR'', 0x200)],
     Field ''RXINT'' 10 0x400 [(''NO_EFFECT'', 0), (''CLR'', 0x400)],
     Field ''TXINT'' 11 0x800 [(''NO_EFFECT'', 0), (''CLR'', 0x800)],
     Field ''EOT'' 12 0x1000 [(''NO_EFFECT'', 0), (''CLR'', 0x1000)],
     Field ''ADDR_MATCH'' 13 0x2000 [(''NO_EFFECT'', 0), (''CLR'', 0x2000)],
     Field ''CTS'' 14 0x4000 [(''NO_EFFECT'', 0), (''CLR'', 0x4000)],
     Field ''DMA_DONE_RX'' 15 0x8000 [(''NO_EFFECT'', 0), (''CLR'', 0x8000)],
     Field ''DMA_DONE_TX'' 16 0x10000 [(''NO_EFFECT'', 0), (''CLR'', 0x10000)],
     Field ''RTOUT'' 0 0x1 [(''NO_EFFECT'', 0), (''CLR'', 1)],
     Field ''NERR'' 17 0x20000 [(''NO_EFFECT'', 0), (''CLR'', 0x20000)]]"

definition UART_PWREN_Bits :: fields where
  "UART_PWREN_Bits =
    [Field ''ENABLE'' 0 0x1 [(''DISABLE'', 0), (''ENABLE'', 1)],
     Field ''KEY'' 24 0xff000000 [(''UNLOCK_W'', 0x26000000)]]"

definition UART_RSTCTL_Bits :: fields where
  "UART_RSTCTL_Bits =
    [Field ''RESETSTKYCLR'' 1 0x2 [(''NOP'', 0), (''CLR'', 2)],
     Field ''RESETASSERT'' 0 0x1 [(''NOP'', 0), (''ASSERT'', 1)],
     Field ''KEY'' 24 0xff000000 [(''UNLOCK_W'', 0xb1000000)]]"

definition UART_CLKCFG_Bits :: fields where
  "UART_CLKCFG_Bits =
    [Field ''KEY'' 24 0xff000000 [(''UNLOCK'', 0xa9000000)],
     Field ''BLOCKASYNC'' 8 0x100 [(''DISABLE'', 0), (''ENABLE'', 0x100)]]"

definition UART_GPRCM_STAT_Bits :: fields where
  "UART_GPRCM_STAT_Bits =
    [Field ''RESETSTKY'' 16 0x10000 [(''NORES'', 0), (''RESET'', 0x10000)]]"

definition UART_CLKDIV_Bits :: fields where
  "UART_CLKDIV_Bits =
    [Field ''RATIO'' 0 0x7 [
       (''DIV_BY_1'', 0), (''DIV_BY_2'', 1), (''DIV_BY_3'', 2), (''DIV_BY_4'', 3), (''DIV_BY_5'', 4), (''DIV_BY_6'', 5),
       (''DIV_BY_7'', 6), (''DIV_BY_8'', 7)]]"

definition UART_CLKSEL_Bits :: fields where
  "UART_CLKSEL_Bits =
    [Field ''MFCLK_SEL'' 2 0x4 [(''DISABLE'', 0), (''ENABLE'', 4)],
     Field ''BUSCLK_SEL'' 3 0x8 [(''DISABLE'', 0), (''ENABLE'', 8)],
     Field ''LFCLK_SEL'' 1 0x2 [(''DISABLE'', 0), (''ENABLE'', 2)]]"

definition UART_PDBGCTL_Bits :: fields where
  "UART_PDBGCTL_Bits =
    [Field ''FREE'' 0 0x1 [(''STOP'', 0), (''RUN'', 1)],
     Field ''SOFT'' 1 0x2 [(''IMMEDIATE'', 0), (''DELAYED'', 2)]]"

definition UART_EVT_MODE_Bits :: fields where
  "UART_EVT_MODE_Bits =
    [Field ''INT0_CFG'' 0 0x3 [(''DISABLE'', 0), (''SOFTWARE'', 1), (''HARDWARE'', 2)],
     Field ''INT1_CFG'' 2 0xc [(''DISABLE'', 0), (''SOFTWARE'', 4), (''HARDWARE'', 8)],
     Field ''INT2_CFG'' 4 0x30 [(''DISABLE'', 0), (''SOFTWARE'', 0x10), (''HARDWARE'', 0x20)]]"

definition UART_INTCTL_Bits :: fields where
  "UART_INTCTL_Bits =
    [Field ''INTEVAL'' 0 0x1 [(''DISABLE'', 0), (''EVAL'', 1)]]"

definition UART_CTL0_Bits :: fields where
  "UART_CTL0_Bits =
    [Field ''ENABLE'' 0 0x1 [(''DISABLE'', 0), (''ENABLE'', 1)],
     Field ''HSE'' 15 0x18000 [(''OVS16'', 0), (''OVS8'', 0x8000), (''OVS3'', 0x10000)],
     Field ''LBE'' 2 0x4 [(''DISABLE'', 0), (''ENABLE'', 4)],
     Field ''RXE'' 3 0x8 [(''DISABLE'', 0), (''ENABLE'', 8)],
     Field ''TXE'' 4 0x10 [(''DISABLE'', 0), (''ENABLE'', 0x10)],
     Field ''RTS'' 12 0x1000 [(''CLR'', 0), (''SET'', 0x1000)],
     Field ''RTSEN'' 13 0x2000 [(''DISABLE'', 0), (''ENABLE'', 0x2000)],
     Field ''CTSEN'' 14 0x4000 [(''DISABLE'', 0), (''ENABLE'', 0x4000)],
     Field ''MENC'' 7 0x80 [(''DISABLE'', 0), (''ENABLE'', 0x80)],
     Field ''MODE'' 8 0x700 [
       (''UART'', 0), (''RS485'', 0x100), (''IDLELINE'', 0x200), (''ADDR9BIT'', 0x300), (''SMART'', 0x400),
       (''DALI'', 0x500)],
     Field ''FEN'' 17 0x20000 [(''DISABLE'', 0), (''ENABLE'', 0x20000)],
     Field ''TXD_OUT'' 6 0x40 [(''LOW'', 0), (''HIGH'', 0x40)],
     Field ''TXD_OUT_EN'' 5 0x20 [(''DISABLE'', 0), (''ENABLE'', 0x20)],
     Field ''MAJVOTE'' 18 0x40000 [(''DISABLE'', 0), (''ENABLE'', 0x40000)],
     Field ''MSBFIRST'' 19 0x80000 [(''DISABLE'', 0), (''ENABLE'', 0x80000)]]"

definition UART_LCRH_Bits :: fields where
  "UART_LCRH_Bits =
    [Field ''BRK'' 0 0x1 [(''DISABLE'', 0), (''ENABLE'', 1)],
     Field ''PEN'' 1 0x2 [(''DISABLE'', 0), (''ENABLE'', 2)],
     Field ''EPS'' 2 0x4 [(''ODD'', 0), (''EVEN'', 4)],
     Field ''STP2'' 3 0x8 [(''DISABLE'', 0), (''ENABLE'', 8)],
     Field ''WLEN'' 4 0x30 [(''DATABIT5'', 0), (''DATABIT6'', 0x10), (''DATABIT7'', 0x20), (''DATABIT8'', 0x30)],
     Field ''SPS'' 6 0x40 [(''DISABLE'', 0), (''ENABLE'', 0x40)],
     Field ''SENDIDLE'' 7 0x80 [(''DISABLE'', 0), (''ENABLE'', 0x80)],
     Field ''EXTDIR_SETUP'' 16 0x1f0000 [(''MINIMUM'', 0), (''MAXIMUM'', 0x1f0000)],
     Field ''EXTDIR_HOLD'' 21 0x3e00000 [(''MINIMUM'', 0), (''MAXIMUM'', 0x3e00000)]]"

definition UART_STAT_Bits :: fields where
  "UART_STAT_Bits =
    [Field ''BUSY'' 0 0x1 [(''CLEARED'', 0), (''SET'', 1)],
     Field ''TXFF'' 7 0x80 [(''CLEARED'', 0), (''SET'', 0x80)],
     Field ''RXFF'' 3 0x8 [(''CLEARED'', 0), (''SET'', 8)],
     Field ''TXFE'' 6 0x40 [(''CLEARED'', 0), (''SET'', 0x40)],
     Field ''CTS'' 8 0x100 [(''CLEARED'', 0), (''SET'', 0x100)],
     Field ''IDLE'' 9 0x200 [(''CLEARED'', 0), (''SET'', 0x200)],
     Field ''RXFE'' 2 0x4 [(''CLEARED'', 0), (''SET'', 4)]]"

definition UART_IFLS_Bits :: fields where
  "UART_IFLS_Bits =
    [Field ''TXIFLSEL'' 0 0x7 [(''LVL_3_4'', 1), (''LVL_1_2'', 2), (''LVL_1_4'', 3), (''LVL_EMPTY'', 5), (''LVL_1'', 7)],
     Field ''RXIFLSEL'' 4 0x70 [
       (''LVL_1_4_RES'', 0), (''LVL_1_4'', 0x10), (''LVL_1_2'', 0x20), (''LVL_3_4'', 0x30), (''LVL_FULL_RES'', 0x40),
       (''LVL_FULL'', 0x50), (''LVL_1'', 0x70)],
     Field ''RXTOSEL'' 8 0xf00 [(''MINIMUM'', 0), (''MAXIMUM'', 0xf00)]]"

definition UART_IBRD_Bits :: fields where
  "UART_IBRD_Bits =
    [Field ''DIVINT'' 0 0xffff [(''MINIMUM'', 0), (''MAXIMUM'', 0xffff)]]"

definition UART_FBRD_Bits :: fields where
  "UART_FBRD_Bits =
    [Field ''DIVFRAC'' 0 0x3f [(''MINIMUM'', 0), (''MAXIMUM'', 0x3f)]]"

definition UART_GFCTL_Bits :: fields where
  "UART_GFCTL_Bits =
    [Field ''AGFSEL'' 9 0x600 [(''AGLIT_5'', 0), (''AGLIT_10'', 0x200), (''AGLIT_25'', 0x400), (''AGLIT_50'', 0x600)],
     Field ''AGFEN'' 8 0x100 [(''DISABLE'', 0), (''ENABLE'', 0x100)],
     Field ''DGFSEL'' 0 0x3f [(''DISABLED'', 0), (''MAXIMUM'', 0x3f)],
     Field ''CHAIN'' 11 0x800 [(''DISABLED'', 0), (''ENABLED'', 0x800)]]"

definition UART_TXDATA_Bits :: fields where
  "UART_TXDATA_Bits =
    [Field ''DATA'' 0 0xff [(''MINIMUM'', 0), (''MAXIMUM'', 0xff)]]"

definition UART_RXDATA_Bits :: fields where
  "UART_RXDATA_Bits =
    [Field ''DATA'' 0 0xff [(''MINIMUM'', 0), (''MAXIMUM'', 0xff)],
     Field ''FRMERR'' 8 0x100 [(''CLR'', 0), (''SET'', 0x100)],
     Field ''PARERR'' 9 0x200 [(''CLR'', 0), (''SET'', 0x200)],
     Field ''BRKERR'' 10 0x400 [(''CLR'', 0), (''SET'', 0x400)],
     Field ''OVRERR'' 11 0x800 [(''CLR'', 0), (''SET'', 0x800)],
     Field ''NERR'' 12 0x1000 [(''CLR'', 0), (''SET'', 0x1000)]]"

definition UART_LINCNT_Bits :: fields where
  "UART_LINCNT_Bits =
    [Field ''VALUE'' 0 0xffff [(''MINIMUM'', 0), (''MAXIMUM'', 0xffff)]]"

definition UART_LINCTL_Bits :: fields where
  "UART_LINCTL_Bits =
    [Field ''CTRENA'' 0 0x1 [(''DISABLE'', 0), (''ENABLE'', 1)],
     Field ''ZERONE'' 1 0x2 [(''DISABLE'', 0), (''ENABLE'', 2)],
     Field ''CNTRXLOW'' 2 0x4 [(''DISABLE'', 0), (''ENABLE'', 4)],
     Field ''LINC0CAP'' 4 0x10 [(''DISABLE'', 0), (''ENABLE'', 0x10)],
     Field ''LINC1CAP'' 5 0x20 [(''DISABLE'', 0), (''ENABLE'', 0x20)],
     Field ''LINC0_MATCH'' 6 0x40 [(''DISABLE'', 0), (''ENABLE'', 0x40)]]"

definition UART_LINC0_Bits :: fields where
  "UART_LINC0_Bits =
    [Field ''DATA'' 0 0xffff [(''MINIMUM'', 0), (''MAXIMUM'', 0xffff)]]"

definition UART_LINC1_Bits :: fields where
  "UART_LINC1_Bits =
    [Field ''DATA'' 0 0xffff [(''MINIMUM'', 0), (''MAXIMUM'', 0xffff)]]"

definition UART_IRCTL_Bits :: fields where
  "UART_IRCTL_Bits =
    [Field ''IRTXPL'' 2 0xfc [(''MINIMUM'', 0), (''MAXIMUM'', 0xfc)],
     Field ''IRRXPL'' 9 0x200 [(''HIGH'', 0), (''LOW'', 0x200)],
     Field ''IREN'' 0 0x1 [(''DISABLE'', 0), (''ENABLE'', 1)],
     Field ''IRTXCLK'' 1 0x2 [(''BITCLK'', 0), (''BRCLK'', 2)]]"

definition UART_AMASK_Bits :: fields where
  "UART_AMASK_Bits =
    [Field ''VALUE'' 0 0xff [(''MINIMUM'', 0), (''MAXIMUM'', 0xff)]]"

definition UART_ADDR_Bits :: fields where
  "UART_ADDR_Bits =
    [Field ''VALUE'' 0 0xff [(''MINIMUM'', 0), (''MAXIMUM'', 0xff)]]"

definition UART_CLKDIV2_Bits :: fields where
  "UART_CLKDIV2_Bits =
    [Field ''RATIO'' 0 0x7 [
       (''DIV_BY_1'', 0), (''DIV_BY_2'', 1), (''DIV_BY_3'', 2), (''DIV_BY_4'', 3), (''DIV_BY_5'', 4), (''DIV_BY_6'', 5),
       (''DIV_BY_7'', 6), (''DIV_BY_8'', 7)]]"

definition UART_bits :: field_table where
  "UART_bits =
    [([''GPRCM'', ''PWREN''], UART_PWREN_Bits), ([''GPRCM'', ''RSTCTL''], UART_RSTCTL_Bits),
     ([''GPRCM'', ''CLKCFG''], UART_CLKCFG_Bits), ([''GPRCM'', ''STAT''], UART_GPRCM_STAT_Bits),
     ([''CLKDIV''], UART_CLKDIV_Bits), ([''CLKSEL''], UART_CLKSEL_Bits), ([''PDBGCTL''], UART_PDBGCTL_Bits),
     ([''CPU_INT'', ''IIDX''], UART_CPU_INT_IIDX_Bits), ([''CPU_INT'', ''IMASK''], UART_CPU_INT_IMASK_Bits),
     ([''CPU_INT'', ''RIS''], UART_CPU_INT_RIS_Bits), ([''CPU_INT'', ''MIS''], UART_CPU_INT_MIS_Bits),
     ([''CPU_INT'', ''ISET''], UART_CPU_INT_ISET_Bits), ([''CPU_INT'', ''ICLR''], UART_CPU_INT_ICLR_Bits),
     ([''DMA_TRIG_RX'', ''IIDX''], UART_DMA_TRIG_RX_IIDX_Bits),
     ([''DMA_TRIG_RX'', ''IMASK''], UART_DMA_TRIG_RX_IMASK_Bits),
     ([''DMA_TRIG_RX'', ''RIS''], UART_DMA_TRIG_RX_RIS_Bits), ([''DMA_TRIG_RX'', ''MIS''], UART_DMA_TRIG_RX_MIS_Bits),
     ([''DMA_TRIG_RX'', ''ISET''], UART_DMA_TRIG_RX_ISET_Bits),
     ([''DMA_TRIG_RX'', ''ICLR''], UART_DMA_TRIG_RX_ICLR_Bits),
     ([''DMA_TRIG_TX'', ''IIDX''], UART_DMA_TRIG_TX_IIDX_Bits),
     ([''DMA_TRIG_TX'', ''IMASK''], UART_DMA_TRIG_TX_IMASK_Bits),
     ([''DMA_TRIG_TX'', ''RIS''], UART_DMA_TRIG_TX_RIS_Bits), ([''DMA_TRIG_TX'', ''MIS''], UART_DMA_TRIG_TX_MIS_Bits),
     ([''DMA_TRIG_TX'', ''ISET''], UART_DMA_TRIG_TX_ISET_Bits),
     ([''DMA_TRIG_TX'', ''ICLR''], UART_DMA_TRIG_TX_ICLR_Bits), ([''EVT_MODE''], UART_EVT_MODE_Bits),
     ([''INTCTL''], UART_INTCTL_Bits), ([''CTL0''], UART_CTL0_Bits), ([''LCRH''], UART_LCRH_Bits),
     ([''STAT''], UART_STAT_Bits), ([''IFLS''], UART_IFLS_Bits), ([''IBRD''], UART_IBRD_Bits),
     ([''FBRD''], UART_FBRD_Bits), ([''GFCTL''], UART_GFCTL_Bits), ([''TXDATA''], UART_TXDATA_Bits),
     ([''RXDATA''], UART_RXDATA_Bits), ([''LINCNT''], UART_LINCNT_Bits), ([''LINCTL''], UART_LINCTL_Bits),
     ([''LINC0''], UART_LINC0_Bits), ([''LINC1''], UART_LINC1_Bits), ([''IRCTL''], UART_IRCTL_Bits),
     ([''AMASK''], UART_AMASK_Bits), ([''ADDR''], UART_ADDR_Bits), ([''CLKDIV2''], UART_CLKDIV2_Bits)]"

lemmas UART_Bits_defs = UART_DMA_TRIG_TX_IIDX_Bits_def UART_DMA_TRIG_TX_IMASK_Bits_def UART_DMA_TRIG_TX_RIS_Bits_def
  UART_DMA_TRIG_TX_MIS_Bits_def UART_DMA_TRIG_TX_ISET_Bits_def UART_DMA_TRIG_TX_ICLR_Bits_def
  UART_DMA_TRIG_RX_IIDX_Bits_def UART_DMA_TRIG_RX_IMASK_Bits_def UART_DMA_TRIG_RX_RIS_Bits_def
  UART_DMA_TRIG_RX_MIS_Bits_def UART_DMA_TRIG_RX_ISET_Bits_def UART_DMA_TRIG_RX_ICLR_Bits_def
  UART_CPU_INT_IIDX_Bits_def UART_CPU_INT_IMASK_Bits_def UART_CPU_INT_RIS_Bits_def UART_CPU_INT_MIS_Bits_def
  UART_CPU_INT_ISET_Bits_def UART_CPU_INT_ICLR_Bits_def UART_PWREN_Bits_def UART_RSTCTL_Bits_def UART_CLKCFG_Bits_def
  UART_GPRCM_STAT_Bits_def UART_CLKDIV_Bits_def UART_CLKSEL_Bits_def UART_PDBGCTL_Bits_def UART_EVT_MODE_Bits_def
  UART_INTCTL_Bits_def UART_CTL0_Bits_def UART_LCRH_Bits_def UART_STAT_Bits_def UART_IFLS_Bits_def UART_IBRD_Bits_def
  UART_FBRD_Bits_def UART_GFCTL_Bits_def UART_TXDATA_Bits_def UART_RXDATA_Bits_def UART_LINCNT_Bits_def
  UART_LINCTL_Bits_def UART_LINC0_Bits_def UART_LINC1_Bits_def UART_IRCTL_Bits_def UART_AMASK_Bits_def
  UART_ADDR_Bits_def UART_CLKDIV2_Bits_def

lemma UART_bits_describes: "describes UART_bits UART_Regs"
  by (simp add: describes_def UART_bits_def layout_defs, (intro conjI; simp add: UART_Bits_defs))

lemma UART_bits_strays: "strays UART_bits = []"
  by (rule no_strays) (simp add: UART_bits_def, (intro conjI; simp add: UART_Bits_defs))

section \<open>\<open>hw_spi.h\<close>\<close>

definition SPI_DMA_TRIG_TX_IIDX_Bits :: fields where
  "SPI_DMA_TRIG_TX_IIDX_Bits =
    [Field ''STAT'' 0 0xff [(''NO_INTR'', 0), (''TX_EVT'', 5)]]"

definition SPI_DMA_TRIG_TX_IMASK_Bits :: fields where
  "SPI_DMA_TRIG_TX_IMASK_Bits =
    [Field ''TX'' 4 0x10 [(''CLR'', 0), (''SET'', 0x10)]]"

definition SPI_DMA_TRIG_TX_RIS_Bits :: fields where
  "SPI_DMA_TRIG_TX_RIS_Bits =
    [Field ''TX'' 4 0x10 [(''CLR'', 0), (''SET'', 0x10)]]"

definition SPI_DMA_TRIG_TX_MIS_Bits :: fields where
  "SPI_DMA_TRIG_TX_MIS_Bits =
    [Field ''TX'' 4 0x10 [(''CLR'', 0), (''SET'', 0x10)]]"

definition SPI_DMA_TRIG_TX_ISET_Bits :: fields where
  "SPI_DMA_TRIG_TX_ISET_Bits =
    [Field ''TX'' 4 0x10 [(''NO_EFFECT'', 0), (''SET'', 0x10)]]"

definition SPI_DMA_TRIG_TX_ICLR_Bits :: fields where
  "SPI_DMA_TRIG_TX_ICLR_Bits =
    [Field ''TX'' 4 0x10 [(''NO_EFFECT'', 0), (''CLR'', 0x10)]]"

definition SPI_DMA_TRIG_RX_IIDX_Bits :: fields where
  "SPI_DMA_TRIG_RX_IIDX_Bits =
    [Field ''STAT'' 0 0xff [(''NO_INTR'', 0), (''RTOUT_EVT'', 3), (''RX_EVT'', 4)]]"

definition SPI_DMA_TRIG_RX_IMASK_Bits :: fields where
  "SPI_DMA_TRIG_RX_IMASK_Bits =
    [Field ''RX'' 3 0x8 [(''CLR'', 0), (''SET'', 8)],
     Field ''RTOUT'' 2 0x4 [(''CLR'', 0), (''SET'', 4)]]"

definition SPI_DMA_TRIG_RX_RIS_Bits :: fields where
  "SPI_DMA_TRIG_RX_RIS_Bits =
    [Field ''RX'' 3 0x8 [(''CLR'', 0), (''SET'', 8)],
     Field ''RTOUT'' 2 0x4 [(''CLR'', 0), (''SET'', 4)]]"

definition SPI_DMA_TRIG_RX_MIS_Bits :: fields where
  "SPI_DMA_TRIG_RX_MIS_Bits =
    [Field ''RX'' 3 0x8 [(''CLR'', 0), (''SET'', 8)],
     Field ''RTOUT'' 2 0x4 [(''CLR'', 0), (''SET'', 4)]]"

definition SPI_DMA_TRIG_RX_ISET_Bits :: fields where
  "SPI_DMA_TRIG_RX_ISET_Bits =
    [Field ''RX'' 3 0x8 [(''NO_EFFECT'', 0), (''SET'', 8)],
     Field ''RTOUT'' 2 0x4 [(''NO_EFFECT'', 0), (''SET'', 4)]]"

definition SPI_DMA_TRIG_RX_ICLR_Bits :: fields where
  "SPI_DMA_TRIG_RX_ICLR_Bits =
    [Field ''RX'' 3 0x8 [(''NO_EFFECT'', 0), (''CLR'', 8)],
     Field ''RTOUT'' 2 0x4 [(''NO_EFFECT'', 0), (''CLR'', 4)]]"

definition SPI_CPU_INT_IIDX_Bits :: fields where
  "SPI_CPU_INT_IIDX_Bits =
    [Field ''STAT'' 0 0xff [
       (''NO_INTR'', 0), (''RXFIFO_OFV_EVT'', 1), (''PER_EVT'', 2), (''RTOUT_EVT'', 3), (''RX_EVT'', 4), (''TX_EVT'', 5),
       (''TX_EMPTY'', 6), (''IDLE_EVT'', 7), (''DMA_DONE_RX_EVT'', 8), (''DMA_DONE_TX_EVT'', 9),
       (''TXFIFO_UNF_EVT'', 0xa), (''RXFULL_EVT'', 0xb)]]"

definition SPI_CPU_INT_IMASK_Bits :: fields where
  "SPI_CPU_INT_IMASK_Bits =
    [Field ''RX'' 3 0x8 [(''CLR'', 0), (''SET'', 8)],
     Field ''TX'' 4 0x10 [(''CLR'', 0), (''SET'', 0x10)],
     Field ''TXEMPTY'' 5 0x20 [(''CLR'', 0), (''SET'', 0x20)],
     Field ''PER'' 1 0x2 [(''CLR'', 0), (''SET'', 2)],
     Field ''DMA_DONE_RX'' 7 0x80 [(''CLR'', 0), (''SET'', 0x80)],
     Field ''RXFIFO_OVF'' 0 0x1 [(''CLR'', 0), (''SET'', 1)],
     Field ''DMA_DONE_TX'' 8 0x100 [(''CLR'', 0), (''SET'', 0x100)],
     Field ''IDLE'' 6 0x40 [(''CLR'', 0), (''SET'', 0x40)],
     Field ''RTOUT'' 2 0x4 [(''CLR'', 0), (''SET'', 4)],
     Field ''RXFULL'' 10 0x400 [(''CLR'', 0), (''SET'', 0x400)],
     Field ''TXFIFO_UNF'' 9 0x200 [(''CLR'', 0), (''SET'', 0x200)]]"

definition SPI_CPU_INT_RIS_Bits :: fields where
  "SPI_CPU_INT_RIS_Bits =
    [Field ''RX'' 3 0x8 [(''CLR'', 0), (''SET'', 8)],
     Field ''TX'' 4 0x10 [(''CLR'', 0), (''SET'', 0x10)],
     Field ''TXEMPTY'' 5 0x20 [(''CLR'', 0), (''SET'', 0x20)],
     Field ''PER'' 1 0x2 [(''CLR'', 0), (''SET'', 2)],
     Field ''DMA_DONE_RX'' 7 0x80 [(''CLR'', 0), (''SET'', 0x80)],
     Field ''RXFIFO_OVF'' 0 0x1 [(''CLR'', 0), (''SET'', 1)],
     Field ''DMA_DONE_TX'' 8 0x100 [(''CLR'', 0), (''SET'', 0x100)],
     Field ''IDLE'' 6 0x40 [(''CLR'', 0), (''SET'', 0x40)],
     Field ''RTOUT'' 2 0x4 [(''CLR'', 0), (''SET'', 4)],
     Field ''TXFIFO_UNF'' 9 0x200 [(''CLR'', 0), (''SET'', 0x200)],
     Field ''RXFULL'' 10 0x400 [(''CLR'', 0), (''SET'', 0x400)]]"

definition SPI_CPU_INT_MIS_Bits :: fields where
  "SPI_CPU_INT_MIS_Bits =
    [Field ''RX'' 3 0x8 [(''CLR'', 0), (''SET'', 8)],
     Field ''TX'' 4 0x10 [(''CLR'', 0), (''SET'', 0x10)],
     Field ''TXEMPTY'' 5 0x20 [(''CLR'', 0), (''SET'', 0x20)],
     Field ''PER'' 1 0x2 [(''CLR'', 0), (''SET'', 2)],
     Field ''DMA_DONE_RX'' 7 0x80 [(''CLR'', 0), (''SET'', 0x80)],
     Field ''RXFIFO_OVF'' 0 0x1 [(''CLR'', 0), (''SET'', 1)],
     Field ''DMA_DONE_TX'' 8 0x100 [(''CLR'', 0), (''SET'', 0x100)],
     Field ''IDLE'' 6 0x40 [(''CLR'', 0), (''SET'', 0x40)],
     Field ''RTOUT'' 2 0x4 [(''CLR'', 0), (''SET'', 4)],
     Field ''RXFULL'' 10 0x400 [(''CLR'', 0), (''SET'', 0x400)],
     Field ''TXFIFO_UNF'' 9 0x200 [(''CLR'', 0), (''SET'', 0x200)]]"

definition SPI_CPU_INT_ISET_Bits :: fields where
  "SPI_CPU_INT_ISET_Bits =
    [Field ''RX'' 3 0x8 [(''NO_EFFECT'', 0), (''SET'', 8)],
     Field ''TX'' 4 0x10 [(''NO_EFFECT'', 0), (''SET'', 0x10)],
     Field ''TXEMPTY'' 5 0x20 [(''NO_EFFECT'', 0), (''SET'', 0x20)],
     Field ''PER'' 1 0x2 [(''NO_EFFECT'', 0), (''SET'', 2)],
     Field ''DMA_DONE_RX'' 7 0x80 [(''NO_EFFECT'', 0), (''SET'', 0x80)],
     Field ''RXFIFO_OVF'' 0 0x1 [(''NO_EFFECT'', 0), (''SET'', 1)],
     Field ''DMA_DONE_TX'' 8 0x100 [(''NO_EFFECT'', 0), (''SET'', 0x100)],
     Field ''IDLE'' 6 0x40 [(''NO_EFFECT'', 0), (''SET'', 0x40)],
     Field ''RTOUT'' 2 0x4 [(''NO_EFFECT'', 0), (''SET'', 4)],
     Field ''TXFIFO_UNF'' 9 0x200 [(''NO_EFFECT'', 0), (''SET'', 0x200)],
     Field ''RXFULL'' 10 0x400 [(''NO_EFFECT'', 0), (''SET'', 0x400)]]"

definition SPI_CPU_INT_ICLR_Bits :: fields where
  "SPI_CPU_INT_ICLR_Bits =
    [Field ''RX'' 3 0x8 [(''NO_EFFECT'', 0), (''CLR'', 8)],
     Field ''TX'' 4 0x10 [(''NO_EFFECT'', 0), (''CLR'', 0x10)],
     Field ''TXEMPTY'' 5 0x20 [(''NO_EFFECT'', 0), (''CLR'', 0x20)],
     Field ''PER'' 1 0x2 [(''NO_EFFECT'', 0), (''CLR'', 2)],
     Field ''DMA_DONE_RX'' 7 0x80 [(''NO_EFFECT'', 0), (''CLR'', 0x80)],
     Field ''RXFIFO_OVF'' 0 0x1 [(''NO_EFFECT'', 0), (''CLR'', 1)],
     Field ''DMA_DONE_TX'' 8 0x100 [(''NO_EFFECT'', 0), (''CLR'', 0x100)],
     Field ''IDLE'' 6 0x40 [(''NO_EFFECT'', 0), (''CLR'', 0x40)],
     Field ''RTOUT'' 2 0x4 [(''NO_EFFECT'', 0), (''CLR'', 4)],
     Field ''TXFIFO_UNF'' 9 0x200 [(''NO_EFFECT'', 0), (''CLR'', 0x200)],
     Field ''RXFULL'' 10 0x400 [(''NO_EFFECT'', 0), (''CLR'', 0x400)]]"

definition SPI_PWREN_Bits :: fields where
  "SPI_PWREN_Bits =
    [Field ''ENABLE'' 0 0x1 [(''DISABLE'', 0), (''ENABLE'', 1)],
     Field ''KEY'' 24 0xff000000 [(''UNLOCK_W'', 0x26000000)]]"

definition SPI_RSTCTL_Bits :: fields where
  "SPI_RSTCTL_Bits =
    [Field ''RESETSTKYCLR'' 1 0x2 [(''NOP'', 0), (''CLR'', 2)],
     Field ''RESETASSERT'' 0 0x1 [(''NOP'', 0), (''ASSERT'', 1)],
     Field ''KEY'' 24 0xff000000 [(''UNLOCK_W'', 0xb1000000)]]"

definition SPI_CLKCFG_Bits :: fields where
  "SPI_CLKCFG_Bits =
    [Field ''KEY'' 24 0xff000000 [(''UNLOCK'', 0xa9000000)],
     Field ''BLOCKASYNC'' 8 0x100 [(''DISABLE'', 0), (''ENABLE'', 0x100)]]"

definition SPI_GPRCM_STAT_Bits :: fields where
  "SPI_GPRCM_STAT_Bits =
    [Field ''RESETSTKY'' 16 0x10000 [(''NORES'', 0), (''RESET'', 0x10000)]]"

definition SPI_CLKDIV_Bits :: fields where
  "SPI_CLKDIV_Bits =
    [Field ''RATIO'' 0 0x7 [
       (''DIV_BY_1'', 0), (''DIV_BY_2'', 1), (''DIV_BY_3'', 2), (''DIV_BY_4'', 3), (''DIV_BY_5'', 4), (''DIV_BY_6'', 5),
       (''DIV_BY_7'', 6), (''DIV_BY_8'', 7)]]"

definition SPI_CLKSEL_Bits :: fields where
  "SPI_CLKSEL_Bits =
    [Field ''LFCLK_SEL'' 1 0x2 [(''DISABLE'', 0), (''ENABLE'', 2)],
     Field ''MFCLK_SEL'' 2 0x4 [(''DISABLE'', 0), (''ENABLE'', 4)],
     Field ''SYSCLK_SEL'' 3 0x8 [(''DISABLE'', 0), (''ENABLE'', 8)]]"

definition SPI_PDBGCTL_Bits :: fields where
  "SPI_PDBGCTL_Bits =
    [Field ''FREE'' 0 0x1 [(''STOP'', 0), (''RUN'', 1)],
     Field ''SOFT'' 1 0x2 [(''IMMEDIATE'', 0), (''DELAYED'', 2)]]"

definition SPI_EVT_MODE_Bits :: fields where
  "SPI_EVT_MODE_Bits =
    [Field ''INT0_CFG'' 0 0x3 [(''DISABLE'', 0), (''SOFTWARE'', 1), (''HARDWARE'', 2)],
     Field ''INT1_CFG'' 2 0xc [(''DISABLE'', 0), (''SOFTWARE'', 4), (''HARDWARE'', 8)],
     Field ''INT2_CFG'' 4 0x30 [(''DISABLE'', 0), (''SOFTWARE'', 0x10), (''HARDWARE'', 0x20)]]"

definition SPI_INTCTL_Bits :: fields where
  "SPI_INTCTL_Bits =
    [Field ''INTEVAL'' 0 0x1 [(''DISABLE'', 0), (''EVAL'', 1)]]"

definition SPI_CTL0_Bits :: fields where
  "SPI_CTL0_Bits =
    [Field ''DSS'' 0 0x1f [
       (''DSS_4'', 3), (''DSS_5'', 4), (''DSS_6'', 5), (''DSS_7'', 6), (''DSS_8'', 7), (''DSS_9'', 8), (''DSS_10'', 9),
       (''DSS_11'', 0xa), (''DSS_12'', 0xb), (''DSS_13'', 0xc), (''DSS_14'', 0xd), (''DSS_15'', 0xe), (''DSS_16'', 0xf)],
     Field ''FRF'' 5 0x60 [
       (''MOTOROLA_3WIRE'', 0), (''MOTOROLA_4WIRE'', 0x20), (''TI_SYNC'', 0x40), (''MIRCOWIRE'', 0x60)],
     Field ''SPO'' 8 0x100 [(''LOW'', 0), (''HIGH'', 0x100)],
     Field ''SPH'' 9 0x200 [(''FIRST'', 0), (''SECOND'', 0x200)],
     Field ''CSSEL'' 12 0x3000 [(''CSSEL_0'', 0), (''CSSEL_1'', 0x1000), (''CSSEL_2'', 0x2000), (''CSSEL_3'', 0x3000)],
     Field ''CSCLR'' 14 0x4000 [(''DISABLE'', 0), (''ENABLE'', 0x4000)],
     Field ''PACKEN'' 7 0x80 [(''DISABLED'', 0), (''ENABLED'', 0x80)]]"

definition SPI_CTL1_Bits :: fields where
  "SPI_CTL1_Bits =
    [Field ''LBM'' 1 0x2 [(''DISABLE'', 0), (''ENABLE'', 2)],
     Field ''CP'' 2 0x4 [(''DISABLE'', 0), (''ENABLE'', 4)],
     Field ''POD'' 3 0x8 [(''DISABLE'', 0), (''ENABLE'', 8)],
     Field ''MSB'' 4 0x10 [(''DISABLE'', 0), (''ENABLE'', 0x10)],
     Field ''PREN'' 5 0x20 [(''DISABLE'', 0), (''ENABLE'', 0x20)],
     Field ''REPEATTX'' 16 0xff0000 [(''DISABLE'', 0), (''MINIMUM'', 0), (''MAXIMUM'', 0xff0000)],
     Field ''PES'' 6 0x40 [(''DISABLE'', 0), (''ENABLE'', 0x40)],
     Field ''CDMODE'' 12 0xf000 [(''MINIMUM'', 0), (''DATA'', 0), (''MAXIMUM'', 0xf000), (''COMMAND'', 0xf000)],
     Field ''ENABLE'' 0 0x1 [(''DISABLE'', 0), (''ENABLE'', 1)],
     Field ''RXTIMEOUT'' 24 0x3f000000 [(''MINIMUM'', 0), (''MAXIMUM'', 0x3f000000)],
     Field ''CDENABLE'' 11 0x800 [(''DISABLE'', 0), (''ENABLE'', 0x800)],
     Field ''PTEN'' 8 0x100 [(''DISABLE'', 0), (''ENABLE'', 0x100)]]"

definition SPI_CLKCTL_Bits :: fields where
  "SPI_CLKCTL_Bits =
    [Field ''SCR'' 0 0x3ff [(''MINIMUM'', 0), (''MAXIMUM'', 0x3ff)],
     Field ''DSAMPLE'' 28 0xf0000000 [(''MINIMUM'', 0), (''MAXIMUM'', 0xf0000000)]]"

definition SPI_IFLS_Bits :: fields where
  "SPI_IFLS_Bits =
    [Field ''TXIFLSEL'' 0 0x7 [
       (''LVL_OFF'', 0), (''LVL_3_4'', 1), (''LVL_1_2'', 2), (''LVL_1_4'', 3), (''LVL_RES4'', 4), (''LVL_EMPTY'', 5),
       (''LVL_RES6'', 6), (''LEVEL_1'', 7)],
     Field ''RXIFLSEL'' 3 0x38 [
       (''LVL_OFF'', 0), (''LVL_1_4'', 8), (''LVL_1_2'', 0x10), (''LVL_3_4'', 0x18), (''LVL_RES4'', 0x20),
       (''LVL_FULL'', 0x28), (''LVL_RES6'', 0x30), (''LEVEL_1'', 0x38)]]"

definition SPI_STAT_Bits :: fields where
  "SPI_STAT_Bits =
    [Field ''TFE'' 0 0x1 [(''NOT_EMPTY'', 0), (''EMPTY'', 1)],
     Field ''TNF'' 1 0x2 [(''FULL'', 0), (''NOT_FULL'', 2)],
     Field ''RFE'' 2 0x4 [(''NOT_EMPTY'', 0), (''EMPTY'', 4)],
     Field ''RNF'' 3 0x8 [(''FULL'', 0), (''NOT_FULL'', 8)],
     Field ''BUSY'' 4 0x10 [(''IDLE'', 0), (''ACTIVE'', 0x10)]]"

definition SPI_RXDATA_Bits :: fields where
  "SPI_RXDATA_Bits =
    [Field ''DATA'' 0 0xffff [(''MINIMUM'', 0), (''MAXIMUM'', 0xffffffff)]]"

definition SPI_TXDATA_Bits :: fields where
  "SPI_TXDATA_Bits =
    [Field ''DATA'' 0 0xffff [(''MINIMUM'', 0), (''MAXIMUM'', 0xffffffff)]]"

definition SPI_bits :: field_table where
  "SPI_bits =
    [([''GPRCM'', ''PWREN''], SPI_PWREN_Bits), ([''GPRCM'', ''RSTCTL''], SPI_RSTCTL_Bits),
     ([''GPRCM'', ''CLKCFG''], SPI_CLKCFG_Bits), ([''GPRCM'', ''STAT''], SPI_GPRCM_STAT_Bits),
     ([''CLKDIV''], SPI_CLKDIV_Bits), ([''CLKSEL''], SPI_CLKSEL_Bits), ([''PDBGCTL''], SPI_PDBGCTL_Bits),
     ([''CPU_INT'', ''IIDX''], SPI_CPU_INT_IIDX_Bits), ([''CPU_INT'', ''IMASK''], SPI_CPU_INT_IMASK_Bits),
     ([''CPU_INT'', ''RIS''], SPI_CPU_INT_RIS_Bits), ([''CPU_INT'', ''MIS''], SPI_CPU_INT_MIS_Bits),
     ([''CPU_INT'', ''ISET''], SPI_CPU_INT_ISET_Bits), ([''CPU_INT'', ''ICLR''], SPI_CPU_INT_ICLR_Bits),
     ([''DMA_TRIG_RX'', ''IIDX''], SPI_DMA_TRIG_RX_IIDX_Bits),
     ([''DMA_TRIG_RX'', ''IMASK''], SPI_DMA_TRIG_RX_IMASK_Bits), ([''DMA_TRIG_RX'', ''RIS''], SPI_DMA_TRIG_RX_RIS_Bits),
     ([''DMA_TRIG_RX'', ''MIS''], SPI_DMA_TRIG_RX_MIS_Bits), ([''DMA_TRIG_RX'', ''ISET''], SPI_DMA_TRIG_RX_ISET_Bits),
     ([''DMA_TRIG_RX'', ''ICLR''], SPI_DMA_TRIG_RX_ICLR_Bits), ([''DMA_TRIG_TX'', ''IIDX''], SPI_DMA_TRIG_TX_IIDX_Bits),
     ([''DMA_TRIG_TX'', ''IMASK''], SPI_DMA_TRIG_TX_IMASK_Bits), ([''DMA_TRIG_TX'', ''RIS''], SPI_DMA_TRIG_TX_RIS_Bits),
     ([''DMA_TRIG_TX'', ''MIS''], SPI_DMA_TRIG_TX_MIS_Bits), ([''DMA_TRIG_TX'', ''ISET''], SPI_DMA_TRIG_TX_ISET_Bits),
     ([''DMA_TRIG_TX'', ''ICLR''], SPI_DMA_TRIG_TX_ICLR_Bits), ([''EVT_MODE''], SPI_EVT_MODE_Bits),
     ([''INTCTL''], SPI_INTCTL_Bits), ([''CTL0''], SPI_CTL0_Bits), ([''CTL1''], SPI_CTL1_Bits),
     ([''CLKCTL''], SPI_CLKCTL_Bits), ([''IFLS''], SPI_IFLS_Bits), ([''STAT''], SPI_STAT_Bits),
     ([''RXDATA''], SPI_RXDATA_Bits), ([''TXDATA''], SPI_TXDATA_Bits)]"

lemmas SPI_Bits_defs = SPI_DMA_TRIG_TX_IIDX_Bits_def SPI_DMA_TRIG_TX_IMASK_Bits_def SPI_DMA_TRIG_TX_RIS_Bits_def
  SPI_DMA_TRIG_TX_MIS_Bits_def SPI_DMA_TRIG_TX_ISET_Bits_def SPI_DMA_TRIG_TX_ICLR_Bits_def
  SPI_DMA_TRIG_RX_IIDX_Bits_def SPI_DMA_TRIG_RX_IMASK_Bits_def SPI_DMA_TRIG_RX_RIS_Bits_def
  SPI_DMA_TRIG_RX_MIS_Bits_def SPI_DMA_TRIG_RX_ISET_Bits_def SPI_DMA_TRIG_RX_ICLR_Bits_def SPI_CPU_INT_IIDX_Bits_def
  SPI_CPU_INT_IMASK_Bits_def SPI_CPU_INT_RIS_Bits_def SPI_CPU_INT_MIS_Bits_def SPI_CPU_INT_ISET_Bits_def
  SPI_CPU_INT_ICLR_Bits_def SPI_PWREN_Bits_def SPI_RSTCTL_Bits_def SPI_CLKCFG_Bits_def SPI_GPRCM_STAT_Bits_def
  SPI_CLKDIV_Bits_def SPI_CLKSEL_Bits_def SPI_PDBGCTL_Bits_def SPI_EVT_MODE_Bits_def SPI_INTCTL_Bits_def
  SPI_CTL0_Bits_def SPI_CTL1_Bits_def SPI_CLKCTL_Bits_def SPI_IFLS_Bits_def SPI_STAT_Bits_def SPI_RXDATA_Bits_def
  SPI_TXDATA_Bits_def

lemma SPI_bits_describes: "describes SPI_bits SPI_Regs"
  by (simp add: describes_def SPI_bits_def layout_defs, (intro conjI; simp add: SPI_Bits_defs))

lemma SPI_bits_strays: "strays SPI_bits = [([''RXDATA''], ''DATA'', ''MAXIMUM''), ([''TXDATA''], ''DATA'', ''MAXIMUM'')]"
  by (simp add: strays_def SPI_bits_def SPI_Bits_defs)

end
