(* ===== verification/SYSCTL_Fields.thy ===== *)
theory SYSCTL_Fields
  imports Device_Fields
begin

text \<open>
  The bit fields of \<open>hw_sysctl_mspm0c1105_c1106.h\<close>: the offset, the mask and the named values of every
  field, register by register.
\<close>

section \<open>\<open>hw_sysctl_mspm0c1105_c1106.h\<close>\<close>

definition SYSCTL_FWEPROTMAIN_Bits :: fields where
  "SYSCTL_FWEPROTMAIN_Bits =
    [Field ''DATA'' 0 0xffffffff []]"

definition SYSCTL_FRXPROTMAINSTART_Bits :: fields where
  "SYSCTL_FRXPROTMAINSTART_Bits =
    [Field ''ADDR'' 6 0x3fffc0 []]"

definition SYSCTL_FRXPROTMAINEND_Bits :: fields where
  "SYSCTL_FRXPROTMAINEND_Bits =
    [Field ''ADDR'' 6 0x3fffc0 []]"

definition SYSCTL_FIPPROTMAINSTART_Bits :: fields where
  "SYSCTL_FIPPROTMAINSTART_Bits =
    [Field ''ADDR'' 6 0x3fffc0 []]"

definition SYSCTL_FIPPROTMAINEND_Bits :: fields where
  "SYSCTL_FIPPROTMAINEND_Bits =
    [Field ''ADDR'' 6 0x3fffc0 []]"

definition SYSCTL_FWENABLE_Bits :: fields where
  "SYSCTL_FWENABLE_Bits =
    [Field ''KEY'' 24 0xff000000 [(''VALUE'', 0x76000000)],
     Field ''FLIPPROT'' 6 0x40 [(''ENABLE'', 0x40)],
     Field ''SRAMBOUNDARYLOCK'' 8 0x100 [(''ENABLE'', 0x100)],
     Field ''FLRXPROT'' 4 0x10 [(''ENABLE'', 0x10)]]"

definition SYSCTL_SECSTATUS_Bits :: fields where
  "SYSCTL_SECSTATUS_Bits =
    [Field ''FLIPPROT'' 6 0x40 [(''DISABLED'', 0), (''ENABLED'', 0x40)],
     Field ''SRAMBOUNDARYLOCK'' 8 0x100 [(''DISABLED'', 0), (''ENABLED'', 0x100)],
     Field ''FLRXPROT'' 4 0x10 [(''DISABLED'', 0), (''ENABLED'', 0x10)],
     Field ''INITDONE'' 0 0x1 [(''NO'', 0), (''YES'', 1)],
     Field ''CSCEXISTS'' 2 0x4 [(''NO'', 0), (''YES'', 4)]]"

definition SYSCTL_INITDONE_Bits :: fields where
  "SYSCTL_INITDONE_Bits =
    [Field ''KEY'' 24 0xff000000 [(''VALUE'', 0x9d000000)],
     Field ''PASS'' 0 0x1 [(''TRUE'', 1)]]"

definition SYSCTL_IIDX_Bits :: fields where
  "SYSCTL_IIDX_Bits =
    [Field ''STAT'' 0 0x7 [
       (''NO_INTR'', 0), (''LFOSCGOOD'', 1), (''ANACLKERR'', 2), (''LFXTGOOD'', 3), (''HFCLKGOOD'', 4),
       (''HSCLKGOOD'', 5)]]"

definition SYSCTL_IMASK_Bits :: fields where
  "SYSCTL_IMASK_Bits =
    [Field ''LFOSCGOOD'' 0 0x1 [(''DISABLE'', 0), (''ENABLE'', 1)],
     Field ''HFCLKGOOD'' 3 0x8 [(''DISABLE'', 0), (''ENABLE'', 8)],
     Field ''HSCLKGOOD'' 4 0x10 [(''DISABLE'', 0), (''ENABLE'', 0x10)],
     Field ''ANACLKERR'' 1 0x2 [(''DISABLE'', 0), (''ENABLE'', 2)],
     Field ''LFXTGOOD'' 2 0x4 [(''DISABLE'', 0), (''ENABLE'', 4)]]"

definition SYSCTL_RIS_Bits :: fields where
  "SYSCTL_RIS_Bits =
    [Field ''LFOSCGOOD'' 0 0x1 [(''FALSE'', 0), (''TRUE'', 1)],
     Field ''HFCLKGOOD'' 3 0x8 [(''FALSE'', 0), (''TRUE'', 8)],
     Field ''HSCLKGOOD'' 4 0x10 [(''FALSE'', 0), (''TRUE'', 0x10)],
     Field ''ANACLKERR'' 1 0x2 [(''FALSE'', 0), (''TRUE'', 2)],
     Field ''LFXTGOOD'' 2 0x4 [(''FALSE'', 0), (''TRUE'', 4)]]"

definition SYSCTL_MIS_Bits :: fields where
  "SYSCTL_MIS_Bits =
    [Field ''LFOSCGOOD'' 0 0x1 [(''FALSE'', 0), (''TRUE'', 1)],
     Field ''HFCLKGOOD'' 3 0x8 [(''FALSE'', 0), (''TRUE'', 8)],
     Field ''HSCLKGOOD'' 4 0x10 [(''FALSE'', 0), (''TRUE'', 0x10)],
     Field ''ANACLKERR'' 1 0x2 [(''FALSE'', 0), (''TRUE'', 2)],
     Field ''LFXTGOOD'' 2 0x4 [(''FALSE'', 0), (''TRUE'', 4)]]"

definition SYSCTL_ISET_Bits :: fields where
  "SYSCTL_ISET_Bits =
    [Field ''LFOSCGOOD'' 0 0x1 [(''NO_EFFECT'', 0), (''SET'', 1)],
     Field ''HFCLKGOOD'' 3 0x8 [(''NO_EFFECT'', 0), (''SET'', 8)],
     Field ''HSCLKGOOD'' 4 0x10 [(''NO_EFFECT'', 0), (''SET'', 0x10)],
     Field ''ANACLKERR'' 1 0x2 [(''NO_EFFECT'', 0), (''SET'', 2)],
     Field ''LFXTGOOD'' 2 0x4 [(''NO_EFFECT'', 0), (''SET'', 4)]]"

definition SYSCTL_ICLR_Bits :: fields where
  "SYSCTL_ICLR_Bits =
    [Field ''LFOSCGOOD'' 0 0x1 [(''NO_EFFECT'', 0), (''CLR'', 1)],
     Field ''HFCLKGOOD'' 3 0x8 [(''NO_EFFECT'', 0), (''CLR'', 8)],
     Field ''HSCLKGOOD'' 4 0x10 [(''NO_EFFECT'', 0), (''CLR'', 0x10)],
     Field ''ANACLKERR'' 1 0x2 [(''NO_EFFECT'', 0), (''CLR'', 2)],
     Field ''LFXTGOOD'' 2 0x4 [(''NO_EFFECT'', 0), (''CLR'', 4)]]"

definition SYSCTL_NMIIIDX_Bits :: fields where
  "SYSCTL_NMIIIDX_Bits =
    [Field ''STAT'' 0 0x7 [(''NO_INTR'', 0), (''BORLVL'', 1), (''WWDT0'', 2), (''LFCLKFAIL'', 3)]]"

definition SYSCTL_NMIRIS_Bits :: fields where
  "SYSCTL_NMIRIS_Bits =
    [Field ''BORLVL'' 0 0x1 [(''FALSE'', 0), (''TRUE'', 1)],
     Field ''WWDT0'' 1 0x2 [(''FALSE'', 0), (''TRUE'', 2)],
     Field ''LFCLKFAIL'' 2 0x4 [(''FALSE'', 0), (''TRUE'', 4)]]"

definition SYSCTL_NMIISET_Bits :: fields where
  "SYSCTL_NMIISET_Bits =
    [Field ''BORLVL'' 0 0x1 [(''NO_EFFECT'', 0), (''SET'', 1)],
     Field ''WWDT0'' 1 0x2 [(''NO_EFFECT'', 0), (''SET'', 2)],
     Field ''LFCLKFAIL'' 2 0x4 [(''NO_EFFECT'', 0), (''SET'', 4)]]"

definition SYSCTL_NMIICLR_Bits :: fields where
  "SYSCTL_NMIICLR_Bits =
    [Field ''BORLVL'' 0 0x1 [(''NO_EFFECT'', 0), (''CLR'', 1)],
     Field ''WWDT0'' 1 0x2 [(''NO_EFFECT'', 0), (''CLR'', 2)],
     Field ''LFCLKFAIL'' 2 0x4 [(''NO_EFFECT'', 0), (''CLR'', 4)]]"

definition SYSCTL_SYSOSCCFG_Bits :: fields where
  "SYSCTL_SYSOSCCFG_Bits =
    [Field ''DISABLESTOP'' 9 0x200 [(''DISABLE'', 0), (''ENABLE'', 0x200)],
     Field ''BLOCKASYNCALL'' 16 0x10000 [(''DISABLE'', 0), (''ENABLE'', 0x10000)],
     Field ''DISABLE'' 10 0x400 [(''DISABLE'', 0), (''ENABLE'', 0x400)],
     Field ''FASTCPUEVENT'' 17 0x20000 [(''DISABLE'', 0), (''ENABLE'', 0x20000)],
     Field ''FREQ'' 0 0x3 [(''SYSOSCBASE'', 0), (''SYSOSC4M'', 1), (''SYSOSCUSER'', 2)]]"

definition SYSCTL_MCLKCFG_Bits :: fields where
  "SYSCTL_MCLKCFG_Bits =
    [Field ''USEMFTICK'' 12 0x1000 [(''DISABLE'', 0), (''ENABLE'', 0x1000)],
     Field ''MDIV'' 0 0xf [],
     Field ''USEHSCLK'' 16 0x10000 [(''DISABLE'', 0), (''ENABLE'', 0x10000)],
     Field ''USELFCLK'' 20 0x100000 [(''DISABLE'', 0), (''ENABLE'', 0x100000)],
     Field ''STOPCLKSTBY'' 21 0x200000 [(''DISABLE'', 0), (''ENABLE'', 0x200000)],
     Field ''FLASHWAIT'' 8 0xf00 [(''WAIT0'', 0), (''WAIT1'', 0x100), (''WAIT2'', 0x200)],
     Field ''MCLKDEADCHK'' 22 0x400000 [(''DISABLE'', 0), (''ENABLE'', 0x400000)]]"

definition SYSCTL_HSCLKEN_Bits :: fields where
  "SYSCTL_HSCLKEN_Bits =
    [Field ''HFXTEN'' 0 0x1 [(''DISABLE'', 0), (''ENABLE'', 1)],
     Field ''USEEXTHFCLK'' 16 0x10000 [(''DISABLE'', 0), (''ENABLE'', 0x10000)]]"

definition SYSCTL_HSCLKCFG_Bits :: fields where
  "SYSCTL_HSCLKCFG_Bits =
    [Field ''HSCLKSEL'' 0 0x1 [(''HFCLKCLK'', 1)]]"

definition SYSCTL_HFCLKCLKCFG_Bits :: fields where
  "SYSCTL_HFCLKCLKCFG_Bits =
    [Field ''HFXTTIME'' 0 0xff [(''MINSTARTTIME'', 0), (''MAXSTARTTIME'', 0xff)],
     Field ''HFCLKFLTCHK'' 28 0x10000000 [(''DISABLE'', 0), (''ENABLE'', 0x10000000)],
     Field ''HFXTRSEL'' 12 0x3000 [
       (''RANGE4TO8'', 0), (''RANGE8TO16'', 0x1000), (''RANGE16TO32'', 0x2000), (''RANGE32TO48'', 0x3000)]]"

definition SYSCTL_LFCLKCFG_Bits :: fields where
  "SYSCTL_LFCLKCFG_Bits =
    [Field ''XT1DRIVE'' 0 0x3 [(''LOWESTDRV'', 0), (''LOWERDRV'', 1), (''HIGHERDRV'', 2), (''HIGHESTDRV'', 3)],
     Field ''MONITOR'' 4 0x10 [(''DISABLE'', 0), (''ENABLE'', 0x10)],
     Field ''LOWCAP'' 8 0x100 [(''DISABLE'', 0), (''ENABLE'', 0x100)]]"

definition SYSCTL_GENCLKCFG_Bits :: fields where
  "SYSCTL_GENCLKCFG_Bits =
    [Field ''HFCLK4MFPCLKDIV'' 12 0xf000 [
       (''DIV1'', 0), (''DIV2'', 0x1000), (''DIV3'', 0x2000), (''DIV4'', 0x3000), (''DIV5'', 0x4000), (''DIV6'', 0x5000),
       (''DIV7'', 0x6000), (''DIV8'', 0x7000), (''DIV9'', 0x8000), (''DIV10'', 0x9000), (''DIV11'', 0xa000),
       (''DIV12'', 0xb000), (''DIV13'', 0xc000), (''DIV14'', 0xd000), (''DIV15'', 0xe000), (''DIV16'', 0xf000)],
     Field ''MFPCLKSRC'' 9 0x200 [(''SYSOSC'', 0), (''HFCLK'', 0x200)],
     Field ''FCCLFCLKSRC'' 29 0x20000000 [],
     Field ''FCCTRIGCNT'' 24 0x1f000000 [],
     Field ''ANACPUMPCFG'' 22 0xc00000 [(''ONDEMAND'', 0), (''ONACTIVE'', 0x400000), (''ONALWAYS'', 0x800000)],
     Field ''FCCSELCLK'' 16 0xf0000 [
       (''MCLK'', 0), (''SYSOSC'', 0x10000), (''HFCLK'', 0x20000), (''EXTCLK'', 0x30000), (''FCCIN'', 0x70000)],
     Field ''FCCTRIGSRC'' 20 0x100000 [(''EXTPIN'', 0), (''LFCLK'', 0x100000)],
     Field ''FCCLVLTRIG'' 21 0x200000 [(''RISE2RISE'', 0), (''LEVEL'', 0x200000)],
     Field ''EXCLKSRC'' 0 0x7 [(''SYSOSC'', 0), (''ULPCLK'', 1), (''LFCLK'', 2), (''MFPCLK'', 3), (''HFCLK'', 4)],
     Field ''EXCLKDIVVAL'' 4 0x70 [
       (''DIV2'', 0), (''DIV4'', 0x10), (''DIV6'', 0x20), (''DIV8'', 0x30), (''DIV10'', 0x40), (''DIV12'', 0x50),
       (''DIV14'', 0x60), (''DIV16'', 0x70)],
     Field ''EXCLKDIVEN'' 7 0x80 [(''PASSTHRU'', 0), (''ENABLE'', 0x80)]]"

definition SYSCTL_GENCLKEN_Bits :: fields where
  "SYSCTL_GENCLKEN_Bits =
    [Field ''EXCLKEN'' 0 0x1 [(''DISABLE'', 0), (''ENABLE'', 1)],
     Field ''MFPCLKEN'' 4 0x10 [(''DISABLE'', 0), (''ENABLE'', 0x10)]]"

definition SYSCTL_PMODECFG_Bits :: fields where
  "SYSCTL_PMODECFG_Bits =
    [Field ''DSLEEP'' 0 0x3 [(''STOP'', 0), (''STANDBY'', 1), (''SHUTDOWN'', 2)]]"

definition SYSCTL_FCC_Bits :: fields where
  "SYSCTL_FCC_Bits =
    [Field ''DATA'' 0 0x3fffff []]"

definition SYSCTL_SRAMBOUNDARY_Bits :: fields where
  "SYSCTL_SRAMBOUNDARY_Bits =
    [Field ''ADDR'' 5 0xfffe0 []]"

definition SYSCTL_SYSTEMCFG_Bits :: fields where
  "SYSCTL_SYSTEMCFG_Bits =
    [Field ''KEY'' 24 0xff000000 [(''VALUE'', 0x1b000000)],
     Field ''WWDTLP0RSTDIS'' 0 0x1 [(''FALSE'', 0), (''TRUE'', 1)]]"

definition SYSCTL_BEEPCFG_Bits :: fields where
  "SYSCTL_BEEPCFG_Bits =
    [Field ''FREQ'' 4 0x30 [(''8KHZ'', 0), (''4KHZ'', 0x10), (''2KHZ'', 0x20), (''1KHZ'', 0x30)],
     Field ''EN'' 0 0x1 [(''DISABLE'', 0), (''ENABLE'', 1)]]"

definition SYSCTL_WRITELOCK_Bits :: fields where
  "SYSCTL_WRITELOCK_Bits =
    [Field ''ACTIVE'' 0 0x1 [(''DISABLE'', 0), (''ENABLE'', 1)]]"

definition SYSCTL_CLKSTATUS_Bits :: fields where
  "SYSCTL_CLKSTATUS_Bits =
    [Field ''LFOSCGOOD'' 11 0x800 [(''FALSE'', 0), (''TRUE'', 0x800)],
     Field ''HFCLKGOOD'' 8 0x100 [(''FALSE'', 0), (''TRUE'', 0x100)],
     Field ''HSCLKDEAD'' 20 0x100000 [(''FALSE'', 0), (''TRUE'', 0x100000)],
     Field ''HFCLKOFF'' 13 0x2000 [(''FALSE'', 0), (''TRUE'', 0x2000)],
     Field ''HFCLKBLKUPD'' 28 0x10000000 [(''FALSE'', 0), (''TRUE'', 0x10000000)],
     Field ''HSCLKGOOD'' 21 0x200000 [(''FALSE'', 0), (''TRUE'', 0x200000)],
     Field ''ANACLKERR'' 31 0x80000000 [(''FALSE'', 0), (''TRUE'', 0x80000000)],
     Field ''HSCLKMUX'' 4 0x10 [(''SYSOSC'', 0), (''HSCLK'', 0x10)],
     Field ''LFCLKMUX'' 6 0xc0 [(''LFOSC'', 0), (''LFXT'', 0x40), (''EXLF'', 0x80)],
     Field ''SYSOSCFREQ'' 0 0x3 [(''SYSOSC32M'', 0), (''SYSOSC4M'', 1), (''SYSOSCUSER'', 2), (''SYSOSCTURBO'', 3)],
     Field ''LFXTGOOD'' 10 0x400 [(''FALSE'', 0), (''TRUE'', 0x400)],
     Field ''HSCLKSOFF'' 12 0x1000 [(''FALSE'', 0), (''TRUE'', 0x1000)],
     Field ''FCLMODE'' 24 0x1000000 [(''DISABLED'', 0), (''ENABLED'', 0x1000000)],
     Field ''CURHSCLKSEL'' 16 0x10000 [(''SYSPLL'', 0), (''HFCLK'', 0x10000)],
     Field ''CURMCLKSEL'' 17 0x20000 [(''NOTLFCLK'', 0), (''LFCLK'', 0x20000)],
     Field ''FCCDONE'' 25 0x2000000 [(''NOTDONE'', 0), (''DONE'', 0x2000000)],
     Field ''LFCLKFAIL'' 23 0x800000 [(''FALSE'', 0), (''TRUE'', 0x800000)]]"

definition SYSCTL_SYSSTATUS_Bits :: fields where
  "SYSCTL_SYSSTATUS_Bits =
    [Field ''SHDNIOLOCK'' 14 0x4000 [(''FALSE'', 0), (''TRUE'', 0x4000)],
     Field ''EXTRSTPINDIS'' 12 0x1000 [(''FALSE'', 0), (''TRUE'', 0x1000)],
     Field ''PMUIREFGOOD'' 6 0x40 [(''FALSE'', 0), (''TRUE'', 0x40)],
     Field ''SWDCFGDIS'' 13 0x2000 [(''FALSE'', 0), (''TRUE'', 0x2000)],
     Field ''ANACPUMPGOOD'' 5 0x20 [(''FALSE'', 0), (''TRUE'', 0x20)],
     Field ''REBOOTATTEMPTS'' 30 0xc0000000 [],
     Field ''SWALTSELEN'' 15 0x8000 [(''FALSE'', 0), (''TRUE'', 0x8000)],
     Field ''BORLVL'' 4 0x10 [(''FALSE'', 0), (''TRUE'', 0x10)],
     Field ''BORCURTHRESHOLD'' 2 0xc [(''BORMIN'', 0), (''BORLEVEL1'', 4), (''BORLEVEL2'', 8), (''BORLEVEL3'', 0xc)]]"

definition SYSCTL_RSTCAUSE_Bits :: fields where
  "SYSCTL_RSTCAUSE_Bits =
    [Field ''ID'' 0 0x1f [
       (''NORST'', 0), (''PORHWFAIL'', 1), (''POREXNRST'', 2), (''PORSW'', 3), (''BORSUPPLY'', 4),
       (''BORWAKESHUTDN'', 5), (''BOOTNONPMUPARITY'', 8), (''BOOTCLKFAIL'', 9), (''BOOTEXNRST'', 0xc), (''BOOTSW'', 0xd),
       (''BOOTWWDT0'', 0xe), (''SYSBSLEXIT'', 0x10), (''SYSBSLENTRY'', 0x11), (''SYSWWDT1'', 0x13),
       (''SYSFLASHECC'', 0x14), (''SYSCPULOCK'', 0x15), (''SYSDBG'', 0x1a), (''SYSSW'', 0x1b), (''CPUDBG'', 0x1c),
       (''CPUSW'', 0x1d)]]"

definition SYSCTL_RESETLEVEL_Bits :: fields where
  "SYSCTL_RESETLEVEL_Bits =
    [Field ''LEVEL'' 0 0x7 [
       (''CPU'', 0), (''BOOT'', 1), (''BOOTLOADERENTRY'', 2), (''POR'', 3), (''BOOTLOADEREXIT'', 4)]]"

definition SYSCTL_RESETCMD_Bits :: fields where
  "SYSCTL_RESETCMD_Bits =
    [Field ''KEY'' 24 0xff000000 [(''VALUE'', 0xe4000000)],
     Field ''GO'' 0 0x1 [(''TRUE'', 1)]]"

definition SYSCTL_BORTHRESHOLD_Bits :: fields where
  "SYSCTL_BORTHRESHOLD_Bits =
    [Field ''LEVEL'' 0 0x3 [(''BORMIN'', 0), (''BORLEVEL1'', 1), (''BORLEVEL2'', 2), (''BORLEVEL3'', 3)]]"

definition SYSCTL_BORCLRCMD_Bits :: fields where
  "SYSCTL_BORCLRCMD_Bits =
    [Field ''KEY'' 24 0xff000000 [(''VALUE'', 0xc7000000)],
     Field ''GO'' 0 0x1 [(''TRUE'', 1)]]"

definition SYSCTL_SYSOSCFCLCTL_Bits :: fields where
  "SYSCTL_SYSOSCFCLCTL_Bits =
    [Field ''KEY'' 24 0xff000000 [(''VALUE'', 0x2a000000)],
     Field ''SETUSEFCL'' 0 0x1 [(''TRUE'', 1)]]"

definition SYSCTL_LFXTCTL_Bits :: fields where
  "SYSCTL_LFXTCTL_Bits =
    [Field ''KEY'' 24 0xff000000 [(''VALUE'', 0x91000000)],
     Field ''SETUSELFXT'' 1 0x2 [(''FALSE'', 0), (''TRUE'', 2)],
     Field ''STARTLFXT'' 0 0x1 [(''FALSE'', 0), (''TRUE'', 1)]]"

definition SYSCTL_EXLFCTL_Bits :: fields where
  "SYSCTL_EXLFCTL_Bits =
    [Field ''KEY'' 24 0xff000000 [(''VALUE'', 0x36000000)],
     Field ''SETUSEEXLF'' 0 0x1 [(''TRUE'', 1)]]"

definition SYSCTL_SHDNIOREL_Bits :: fields where
  "SYSCTL_SHDNIOREL_Bits =
    [Field ''KEY'' 24 0xff000000 [(''VALUE'', 0x91000000)],
     Field ''RELEASE'' 0 0x1 [(''TRUE'', 1)]]"

definition SYSCTL_EXRSTPIN_Bits :: fields where
  "SYSCTL_EXRSTPIN_Bits =
    [Field ''KEY'' 24 0xff000000 [(''VALUE'', 0x1e000000)],
     Field ''DISABLE'' 0 0x1 [(''FALSE'', 0), (''TRUE'', 1)]]"

definition SYSCTL_SYSSTATUSCLR_Bits :: fields where
  "SYSCTL_SYSSTATUSCLR_Bits =
    [Field ''KEY'' 24 0xff000000 [(''VALUE'', 0xce000000)],
     Field ''ALLECC'' 0 0x1 [(''CLEAR'', 1)]]"

definition SYSCTL_SWDCFG_Bits :: fields where
  "SYSCTL_SWDCFG_Bits =
    [Field ''KEY'' 24 0xff000000 [(''VALUE'', 0x62000000)],
     Field ''DISABLE'' 0 0x1 [(''TRUE'', 1)]]"

definition SYSCTL_FCCCMD_Bits :: fields where
  "SYSCTL_FCCCMD_Bits =
    [Field ''KEY'' 24 0xff000000 [(''VALUE'', 0xe000000)],
     Field ''GO'' 0 0x1 [(''TRUE'', 1)]]"

definition SYSCTL_SHUTDNSTORE0_Bits :: fields where
  "SYSCTL_SHUTDNSTORE0_Bits =
    [Field ''DATA'' 0 0xff []]"

definition SYSCTL_SHUTDNSTORE1_Bits :: fields where
  "SYSCTL_SHUTDNSTORE1_Bits =
    [Field ''DATA'' 0 0xff []]"

definition SYSCTL_SHUTDNSTORE2_Bits :: fields where
  "SYSCTL_SHUTDNSTORE2_Bits =
    [Field ''DATA'' 0 0xff []]"

definition SYSCTL_SHUTDNSTORE3_Bits :: fields where
  "SYSCTL_SHUTDNSTORE3_Bits =
    [Field ''DATA'' 0 0xff []]"

definition SYSCTL_bits :: field_table where
  "SYSCTL_bits =
    [([''SOCLOCK'', ''IIDX''], SYSCTL_IIDX_Bits), ([''SOCLOCK'', ''IMASK''], SYSCTL_IMASK_Bits),
     ([''SOCLOCK'', ''RIS''], SYSCTL_RIS_Bits), ([''SOCLOCK'', ''MIS''], SYSCTL_MIS_Bits),
     ([''SOCLOCK'', ''ISET''], SYSCTL_ISET_Bits), ([''SOCLOCK'', ''ICLR''], SYSCTL_ICLR_Bits),
     ([''SOCLOCK'', ''NMIIIDX''], SYSCTL_NMIIIDX_Bits), ([''SOCLOCK'', ''NMIRIS''], SYSCTL_NMIRIS_Bits),
     ([''SOCLOCK'', ''NMIISET''], SYSCTL_NMIISET_Bits), ([''SOCLOCK'', ''NMIICLR''], SYSCTL_NMIICLR_Bits),
     ([''SOCLOCK'', ''SYSOSCCFG''], SYSCTL_SYSOSCCFG_Bits), ([''SOCLOCK'', ''MCLKCFG''], SYSCTL_MCLKCFG_Bits),
     ([''SOCLOCK'', ''HSCLKEN''], SYSCTL_HSCLKEN_Bits), ([''SOCLOCK'', ''HSCLKCFG''], SYSCTL_HSCLKCFG_Bits),
     ([''SOCLOCK'', ''HFCLKCLKCFG''], SYSCTL_HFCLKCLKCFG_Bits), ([''SOCLOCK'', ''LFCLKCFG''], SYSCTL_LFCLKCFG_Bits),
     ([''SOCLOCK'', ''GENCLKCFG''], SYSCTL_GENCLKCFG_Bits), ([''SOCLOCK'', ''GENCLKEN''], SYSCTL_GENCLKEN_Bits),
     ([''SOCLOCK'', ''PMODECFG''], SYSCTL_PMODECFG_Bits), ([''SOCLOCK'', ''FCC''], SYSCTL_FCC_Bits),
     ([''SOCLOCK'', ''SRAMBOUNDARY''], SYSCTL_SRAMBOUNDARY_Bits), ([''SOCLOCK'', ''SYSTEMCFG''], SYSCTL_SYSTEMCFG_Bits),
     ([''SOCLOCK'', ''BEEPCFG''], SYSCTL_BEEPCFG_Bits), ([''SOCLOCK'', ''WRITELOCK''], SYSCTL_WRITELOCK_Bits),
     ([''SOCLOCK'', ''CLKSTATUS''], SYSCTL_CLKSTATUS_Bits), ([''SOCLOCK'', ''SYSSTATUS''], SYSCTL_SYSSTATUS_Bits),
     ([''SOCLOCK'', ''RSTCAUSE''], SYSCTL_RSTCAUSE_Bits), ([''SOCLOCK'', ''RESETLEVEL''], SYSCTL_RESETLEVEL_Bits),
     ([''SOCLOCK'', ''RESETCMD''], SYSCTL_RESETCMD_Bits), ([''SOCLOCK'', ''BORTHRESHOLD''], SYSCTL_BORTHRESHOLD_Bits),
     ([''SOCLOCK'', ''BORCLRCMD''], SYSCTL_BORCLRCMD_Bits), ([''SOCLOCK'', ''SYSOSCFCLCTL''], SYSCTL_SYSOSCFCLCTL_Bits),
     ([''SOCLOCK'', ''LFXTCTL''], SYSCTL_LFXTCTL_Bits), ([''SOCLOCK'', ''EXLFCTL''], SYSCTL_EXLFCTL_Bits),
     ([''SOCLOCK'', ''SHDNIOREL''], SYSCTL_SHDNIOREL_Bits), ([''SOCLOCK'', ''EXRSTPIN''], SYSCTL_EXRSTPIN_Bits),
     ([''SOCLOCK'', ''SYSSTATUSCLR''], SYSCTL_SYSSTATUSCLR_Bits), ([''SOCLOCK'', ''SWDCFG''], SYSCTL_SWDCFG_Bits),
     ([''SOCLOCK'', ''FCCCMD''], SYSCTL_FCCCMD_Bits), ([''SOCLOCK'', ''SHUTDNSTORE0''], SYSCTL_SHUTDNSTORE0_Bits),
     ([''SOCLOCK'', ''SHUTDNSTORE1''], SYSCTL_SHUTDNSTORE1_Bits),
     ([''SOCLOCK'', ''SHUTDNSTORE2''], SYSCTL_SHUTDNSTORE2_Bits),
     ([''SOCLOCK'', ''SHUTDNSTORE3''], SYSCTL_SHUTDNSTORE3_Bits),
     ([''SECCFG'', ''FWEPROTMAIN''], SYSCTL_FWEPROTMAIN_Bits),
     ([''SECCFG'', ''FRXPROTMAINSTART''], SYSCTL_FRXPROTMAINSTART_Bits),
     ([''SECCFG'', ''FRXPROTMAINEND''], SYSCTL_FRXPROTMAINEND_Bits),
     ([''SECCFG'', ''FIPPROTMAINSTART''], SYSCTL_FIPPROTMAINSTART_Bits),
     ([''SECCFG'', ''FIPPROTMAINEND''], SYSCTL_FIPPROTMAINEND_Bits), ([''SECCFG'', ''FWENABLE''], SYSCTL_FWENABLE_Bits),
     ([''SECCFG'', ''SECSTATUS''], SYSCTL_SECSTATUS_Bits), ([''SECCFG'', ''INITDONE''], SYSCTL_INITDONE_Bits)]"

lemmas SYSCTL_Bits_defs = SYSCTL_FWEPROTMAIN_Bits_def SYSCTL_FRXPROTMAINSTART_Bits_def SYSCTL_FRXPROTMAINEND_Bits_def
  SYSCTL_FIPPROTMAINSTART_Bits_def SYSCTL_FIPPROTMAINEND_Bits_def SYSCTL_FWENABLE_Bits_def SYSCTL_SECSTATUS_Bits_def
  SYSCTL_INITDONE_Bits_def SYSCTL_IIDX_Bits_def SYSCTL_IMASK_Bits_def SYSCTL_RIS_Bits_def SYSCTL_MIS_Bits_def
  SYSCTL_ISET_Bits_def SYSCTL_ICLR_Bits_def SYSCTL_NMIIIDX_Bits_def SYSCTL_NMIRIS_Bits_def SYSCTL_NMIISET_Bits_def
  SYSCTL_NMIICLR_Bits_def SYSCTL_SYSOSCCFG_Bits_def SYSCTL_MCLKCFG_Bits_def SYSCTL_HSCLKEN_Bits_def
  SYSCTL_HSCLKCFG_Bits_def SYSCTL_HFCLKCLKCFG_Bits_def SYSCTL_LFCLKCFG_Bits_def SYSCTL_GENCLKCFG_Bits_def
  SYSCTL_GENCLKEN_Bits_def SYSCTL_PMODECFG_Bits_def SYSCTL_FCC_Bits_def SYSCTL_SRAMBOUNDARY_Bits_def
  SYSCTL_SYSTEMCFG_Bits_def SYSCTL_BEEPCFG_Bits_def SYSCTL_WRITELOCK_Bits_def SYSCTL_CLKSTATUS_Bits_def
  SYSCTL_SYSSTATUS_Bits_def SYSCTL_RSTCAUSE_Bits_def SYSCTL_RESETLEVEL_Bits_def SYSCTL_RESETCMD_Bits_def
  SYSCTL_BORTHRESHOLD_Bits_def SYSCTL_BORCLRCMD_Bits_def SYSCTL_SYSOSCFCLCTL_Bits_def SYSCTL_LFXTCTL_Bits_def
  SYSCTL_EXLFCTL_Bits_def SYSCTL_SHDNIOREL_Bits_def SYSCTL_EXRSTPIN_Bits_def SYSCTL_SYSSTATUSCLR_Bits_def
  SYSCTL_SWDCFG_Bits_def SYSCTL_FCCCMD_Bits_def SYSCTL_SHUTDNSTORE0_Bits_def SYSCTL_SHUTDNSTORE1_Bits_def
  SYSCTL_SHUTDNSTORE2_Bits_def SYSCTL_SHUTDNSTORE3_Bits_def

lemma SYSCTL_bits_describes: "describes SYSCTL_bits SYSCTL_Regs"
  by (simp add: describes_def SYSCTL_bits_def layout_defs, (intro conjI; simp add: SYSCTL_Bits_defs))

lemma SYSCTL_bits_strays: "strays SYSCTL_bits = []"
  by (rule no_strays) (simp add: SYSCTL_bits_def, (intro conjI; simp add: SYSCTL_Bits_defs))

end
