(* ===== verification/Small_Fields.thy ===== *)
theory Small_Fields
  imports Device_Fields
begin

text \<open>
  The bit fields of \<open>hw_comp.h\<close>, \<open>hw_crc.h\<close>, \<open>hw_iomux.h\<close>,
  \<open>hw_vref.h\<close>, \<open>hw_wuc.h\<close>, \<open>hw_wwdt.h\<close>, \<open>hw_cpuss.h\<close>,
  \<open>hw_debugss.h\<close>: the offset, the mask and the named values of every field, register by register.
\<close>

section \<open>\<open>hw_comp.h\<close>\<close>

definition COMP_GEN_EVENT_IIDX_Bits :: fields where
  "COMP_GEN_EVENT_IIDX_Bits =
    [Field ''STAT'' 0 0x3 [(''NO_INTR'', 0), (''COMPIFG'', 1), (''COMPINVIFG'', 2), (''OUTRDYIFG'', 3)]]"

definition COMP_GEN_EVENT_IMASK_Bits :: fields where
  "COMP_GEN_EVENT_IMASK_Bits =
    [Field ''COMPIFG'' 1 0x2 [(''CLR'', 0), (''SET'', 2)],
     Field ''COMPINVIFG'' 2 0x4 [(''CLR'', 0), (''SET'', 4)],
     Field ''OUTRDYIFG'' 3 0x8 [(''CLR'', 0), (''SET'', 8)]]"

definition COMP_GEN_EVENT_RIS_Bits :: fields where
  "COMP_GEN_EVENT_RIS_Bits =
    [Field ''COMPIFG'' 1 0x2 [(''CLR'', 0), (''SET'', 2)],
     Field ''COMPINVIFG'' 2 0x4 [(''CLR'', 0), (''SET'', 4)],
     Field ''OUTRDYIFG'' 3 0x8 [(''CLR'', 0), (''SET'', 8)]]"

definition COMP_GEN_EVENT_MIS_Bits :: fields where
  "COMP_GEN_EVENT_MIS_Bits =
    [Field ''COMPIFG'' 1 0x2 [(''CLR'', 0), (''SET'', 2)],
     Field ''COMPINVIFG'' 2 0x4 [(''CLR'', 0), (''SET'', 4)],
     Field ''OUTRDYIFG'' 3 0x8 [(''CLR'', 0), (''SET'', 8)]]"

definition COMP_GEN_EVENT_ISET_Bits :: fields where
  "COMP_GEN_EVENT_ISET_Bits =
    [Field ''COMPIFG'' 1 0x2 [(''NO_EFFECT'', 0), (''SET'', 2)],
     Field ''COMPINVIFG'' 2 0x4 [(''NO_EFFECT'', 0), (''SET'', 4)],
     Field ''OUTRDYIFG'' 3 0x8 [(''NO_EFFECT'', 0), (''SET'', 8)]]"

definition COMP_GEN_EVENT_ICLR_Bits :: fields where
  "COMP_GEN_EVENT_ICLR_Bits =
    [Field ''COMPIFG'' 1 0x2 [(''NO_EFFECT'', 0), (''CLR'', 2)],
     Field ''COMPINVIFG'' 2 0x4 [(''NO_EFFECT'', 0), (''CLR'', 4)],
     Field ''OUTRDYIFG'' 3 0x8 [(''NO_EFFECT'', 0), (''CLR'', 8)]]"

definition COMP_CPU_INT_IIDX_Bits :: fields where
  "COMP_CPU_INT_IIDX_Bits =
    [Field ''STAT'' 0 0x3 [(''NO_INTR'', 0), (''COMPIFG'', 2), (''COMPINVIFG'', 3), (''OUTRDYIFG'', 4)]]"

definition COMP_CPU_INT_IMASK_Bits :: fields where
  "COMP_CPU_INT_IMASK_Bits =
    [Field ''COMPIFG'' 1 0x2 [(''CLR'', 0), (''SET'', 2)],
     Field ''COMPINVIFG'' 2 0x4 [(''CLR'', 0), (''SET'', 4)],
     Field ''OUTRDYIFG'' 3 0x8 [(''CLR'', 0), (''SET'', 8)]]"

definition COMP_CPU_INT_RIS_Bits :: fields where
  "COMP_CPU_INT_RIS_Bits =
    [Field ''COMPIFG'' 1 0x2 [(''CLR'', 0), (''SET'', 2)],
     Field ''COMPINVIFG'' 2 0x4 [(''CLR'', 0), (''SET'', 4)],
     Field ''OUTRDYIFG'' 3 0x8 [(''CLR'', 0), (''SET'', 8)]]"

definition COMP_CPU_INT_MIS_Bits :: fields where
  "COMP_CPU_INT_MIS_Bits =
    [Field ''COMPIFG'' 1 0x2 [(''CLR'', 0), (''SET'', 2)],
     Field ''COMPINVIFG'' 2 0x4 [(''CLR'', 0), (''SET'', 4)],
     Field ''OUTRDYIFG'' 3 0x8 [(''CLR'', 0), (''SET'', 8)]]"

definition COMP_CPU_INT_ISET_Bits :: fields where
  "COMP_CPU_INT_ISET_Bits =
    [Field ''COMPIFG'' 1 0x2 [(''NO_EFFECT'', 0), (''SET'', 2)],
     Field ''COMPINVIFG'' 2 0x4 [(''NO_EFFECT'', 0), (''SET'', 4)],
     Field ''OUTRDYIFG'' 3 0x8 [(''NO_EFFECT'', 0), (''SET'', 8)]]"

definition COMP_CPU_INT_ICLR_Bits :: fields where
  "COMP_CPU_INT_ICLR_Bits =
    [Field ''COMPIFG'' 1 0x2 [(''NO_EFFECT'', 0), (''CLR'', 2)],
     Field ''COMPINVIFG'' 2 0x4 [(''NO_EFFECT'', 0), (''CLR'', 4)],
     Field ''OUTRDYIFG'' 3 0x8 [(''NO_EFFECT'', 0), (''CLR'', 8)]]"

definition COMP_PWREN_Bits :: fields where
  "COMP_PWREN_Bits =
    [Field ''ENABLE'' 0 0x1 [(''DISABLE'', 0), (''ENABLE'', 1)],
     Field ''KEY'' 24 0xff000000 [(''UNLOCK_W'', 0x26000000)]]"

definition COMP_RSTCTL_Bits :: fields where
  "COMP_RSTCTL_Bits =
    [Field ''RESETSTKYCLR'' 1 0x2 [(''NOP'', 0), (''CLR'', 2)],
     Field ''RESETASSERT'' 0 0x1 [(''NOP'', 0), (''ASSERT'', 1)],
     Field ''KEY'' 24 0xff000000 [(''UNLOCK_W'', 0xb1000000)]]"

definition COMP_CLKCFG_Bits :: fields where
  "COMP_CLKCFG_Bits =
    [Field ''KEY'' 24 0xff000000 [(''UNLOCK'', 0xa9000000)],
     Field ''BLOCKASYNC'' 8 0x100 [(''DISABLE'', 0), (''ENABLE'', 0x100)]]"

definition COMP_GPRCM_STAT_Bits :: fields where
  "COMP_GPRCM_STAT_Bits =
    [Field ''RESETSTKY'' 16 0x10000 [(''NORES'', 0), (''RESET'', 0x10000)]]"

definition COMP_FSUB_0_Bits :: fields where
  "COMP_FSUB_0_Bits =
    [Field ''CHANID'' 0 0x7fff [(''MNIMUM'', 0), (''UNCONNECTED'', 0), (''MAXIMUM'', 0xf)]]"

definition COMP_FSUB_1_Bits :: fields where
  "COMP_FSUB_1_Bits =
    [Field ''CHANID'' 0 0x7fff [(''MNIMUM'', 0), (''UNCONNECTED'', 0), (''MAXIMUM'', 0xf)]]"

definition COMP_FPUB_1_Bits :: fields where
  "COMP_FPUB_1_Bits =
    [Field ''CHANID'' 0 0x7fff [(''MNIMUM'', 0), (''UNCONNECTED'', 0), (''MAXIMUM'', 0xf)]]"

definition COMP_EVT_MODE_Bits :: fields where
  "COMP_EVT_MODE_Bits =
    [Field ''INT0_CFG'' 0 0x3 [(''DISABLE'', 0), (''SOFTWARE'', 1), (''HARDWARE'', 2)],
     Field ''EVT1_CFG'' 2 0xc [(''DISABLE'', 0), (''SOFTWARE'', 4), (''HARDWARE'', 8)]]"

definition COMP_DESC_Bits :: fields where
  "COMP_DESC_Bits =
    [Field ''MINREV'' 0 0xf [],
     Field ''MAJREV'' 4 0xf0 [],
     Field ''FEATUREVER'' 12 0xf000 [],
     Field ''MODULEID'' 16 0xffff0000 []]"

definition COMP_CTL0_Bits :: fields where
  "COMP_CTL0_Bits =
    [Field ''IPSEL'' 0 0x7 [
       (''CH_0'', 0), (''CH_1'', 1), (''CH_2'', 2), (''CH_3'', 3), (''CH_4'', 4), (''CH_5'', 5), (''CH_6'', 6),
       (''CH_7'', 7)],
     Field ''IPEN'' 15 0x8000 [(''DISABLE'', 0), (''ENABLE'', 0x8000)],
     Field ''IMEN'' 31 0x80000000 [(''DISABLE'', 0), (''ENABLE'', 0x80000000)],
     Field ''IMSEL'' 16 0x70000 [
       (''CH_0'', 0), (''CH_1'', 0x10000), (''CH_2'', 0x20000), (''CH_3'', 0x30000), (''CH_4'', 0x40000),
       (''CH_5'', 0x50000), (''CH_6'', 0x60000), (''CH_7'', 0x70000)]]"

definition COMP_CTL1_Bits :: fields where
  "COMP_CTL1_Bits =
    [Field ''ENABLE'' 0 0x1 [(''OFF'', 0), (''ON'', 1)],
     Field ''MODE'' 1 0x2 [(''FAST'', 0), (''ULP'', 2)],
     Field ''EXCH'' 2 0x4 [(''NO_EXC'', 0), (''EXC'', 4)],
     Field ''SHORT'' 3 0x8 [(''NO_SHT'', 0), (''SHT'', 8)],
     Field ''IES'' 4 0x10 [(''RISING'', 0), (''FALLING'', 0x10)],
     Field ''HYST'' 5 0x60 [(''NO_HYS'', 0), (''LOW_HYS'', 0x20), (''MED_HYS'', 0x40), (''HIGH_HYS'', 0x60)],
     Field ''OUTPOL'' 7 0x80 [(''NON_INV'', 0), (''INV'', 0x80)],
     Field ''FLTEN'' 8 0x100 [(''DISABLE'', 0), (''ENABLE'', 0x100)],
     Field ''FLTDLY'' 9 0x600 [(''DLY_0'', 0), (''DLY_1'', 0x200), (''DLY_2'', 0x400), (''DLY_3'', 0x600)],
     Field ''DACOUTEN'' 11 0x800 [(''DISABLE'', 0), (''ENABLE'', 0x800)],
     Field ''WINCOMPEN'' 12 0x1000 [(''OFF'', 0), (''ON'', 0x1000)]]"

definition COMP_CTL2_Bits :: fields where
  "COMP_CTL2_Bits =
    [Field ''REFMODE'' 0 0x1 [(''STATIC'', 0), (''SAMPLED'', 1)],
     Field ''REFSRC'' 3 0x38 [
       (''OFF'', 0), (''VDDA_DAC'', 8), (''VREF_DAC'', 0x10), (''VREF'', 0x18), (''VDDA'', 0x28),
       (''INTVREF_DAC'', 0x30), (''INTVREF'', 0x38)],
     Field ''REFSEL'' 7 0x80 [(''POSITIVE'', 0), (''NEGATIVE'', 0x80)],
     Field ''DACCTL'' 16 0x10000 [(''COMPOUT_SEL'', 0), (''DACSW_SEL'', 0x10000)],
     Field ''DACSW'' 17 0x20000 [(''DACCODE0_SEL'', 0), (''DACCODE1_SEL'', 0x20000)],
     Field ''BLANKSRC'' 8 0x700 [
       (''DISABLE'', 0), (''BLANKSRC1'', 0x100), (''BLANKSRC2'', 0x200), (''BLANKSRC3'', 0x300), (''BLANKSRC4'', 0x400),
       (''BLANKSRC5'', 0x500), (''BLANKSRC6'', 0x600)],
     Field ''SAMPMODE'' 24 0x1000000 [(''DISABLE'', 0), (''ENABLE'', 0x1000000)]]"

definition COMP_CTL3_Bits :: fields where
  "COMP_CTL3_Bits =
    [Field ''DACCODE0'' 0 0xff [(''MNIMUM'', 0), (''MAXIMUM'', 0xff)],
     Field ''DACCODE1'' 16 0xff0000 [(''MNIMUM'', 0), (''MAXIMUM'', 0xff0000)]]"

definition COMP_STAT_Bits :: fields where
  "COMP_STAT_Bits =
    [Field ''OUT'' 0 0x1 [(''LOW'', 0), (''HIGH'', 1)]]"

definition COMP_bits :: field_table where
  "COMP_bits =
    [([''FSUB_0''], COMP_FSUB_0_Bits), ([''FSUB_1''], COMP_FSUB_1_Bits), ([''FPUB_1''], COMP_FPUB_1_Bits),
     ([''GPRCM'', ''PWREN''], COMP_PWREN_Bits), ([''GPRCM'', ''RSTCTL''], COMP_RSTCTL_Bits),
     ([''GPRCM'', ''CLKCFG''], COMP_CLKCFG_Bits), ([''GPRCM'', ''STAT''], COMP_GPRCM_STAT_Bits),
     ([''CPU_INT'', ''IIDX''], COMP_CPU_INT_IIDX_Bits), ([''CPU_INT'', ''IMASK''], COMP_CPU_INT_IMASK_Bits),
     ([''CPU_INT'', ''RIS''], COMP_CPU_INT_RIS_Bits), ([''CPU_INT'', ''MIS''], COMP_CPU_INT_MIS_Bits),
     ([''CPU_INT'', ''ISET''], COMP_CPU_INT_ISET_Bits), ([''CPU_INT'', ''ICLR''], COMP_CPU_INT_ICLR_Bits),
     ([''GEN_EVENT'', ''IIDX''], COMP_GEN_EVENT_IIDX_Bits), ([''GEN_EVENT'', ''IMASK''], COMP_GEN_EVENT_IMASK_Bits),
     ([''GEN_EVENT'', ''RIS''], COMP_GEN_EVENT_RIS_Bits), ([''GEN_EVENT'', ''MIS''], COMP_GEN_EVENT_MIS_Bits),
     ([''GEN_EVENT'', ''ISET''], COMP_GEN_EVENT_ISET_Bits), ([''GEN_EVENT'', ''ICLR''], COMP_GEN_EVENT_ICLR_Bits),
     ([''EVT_MODE''], COMP_EVT_MODE_Bits), ([''DESC''], COMP_DESC_Bits), ([''CTL0''], COMP_CTL0_Bits),
     ([''CTL1''], COMP_CTL1_Bits), ([''CTL2''], COMP_CTL2_Bits), ([''CTL3''], COMP_CTL3_Bits),
     ([''STAT''], COMP_STAT_Bits)]"

lemmas COMP_Bits_defs = COMP_GEN_EVENT_IIDX_Bits_def COMP_GEN_EVENT_IMASK_Bits_def COMP_GEN_EVENT_RIS_Bits_def
  COMP_GEN_EVENT_MIS_Bits_def COMP_GEN_EVENT_ISET_Bits_def COMP_GEN_EVENT_ICLR_Bits_def COMP_CPU_INT_IIDX_Bits_def
  COMP_CPU_INT_IMASK_Bits_def COMP_CPU_INT_RIS_Bits_def COMP_CPU_INT_MIS_Bits_def COMP_CPU_INT_ISET_Bits_def
  COMP_CPU_INT_ICLR_Bits_def COMP_PWREN_Bits_def COMP_RSTCTL_Bits_def COMP_CLKCFG_Bits_def COMP_GPRCM_STAT_Bits_def
  COMP_FSUB_0_Bits_def COMP_FSUB_1_Bits_def COMP_FPUB_1_Bits_def COMP_EVT_MODE_Bits_def COMP_DESC_Bits_def
  COMP_CTL0_Bits_def COMP_CTL1_Bits_def COMP_CTL2_Bits_def COMP_CTL3_Bits_def COMP_STAT_Bits_def

lemma COMP_bits_describes: "describes COMP_bits COMP_Regs"
  by (simp add: describes_def COMP_bits_def layout_defs, (intro conjI; simp add: COMP_Bits_defs))

lemma COMP_bits_strays: "strays COMP_bits = [([''CPU_INT'', ''IIDX''], ''STAT'', ''OUTRDYIFG'')]"
  by (simp add: strays_def COMP_bits_def COMP_Bits_defs)

section \<open>\<open>hw_crc.h\<close>\<close>

definition CRC_PWREN_Bits :: fields where
  "CRC_PWREN_Bits =
    [Field ''ENABLE'' 0 0x1 [(''DISABLE'', 0), (''ENABLE'', 1)],
     Field ''KEY'' 24 0xff000000 [(''UNLOCK_W'', 0x26000000)]]"

definition CRC_RSTCTL_Bits :: fields where
  "CRC_RSTCTL_Bits =
    [Field ''RESETSTKYCLR'' 1 0x2 [(''NOP'', 0), (''CLR'', 2)],
     Field ''RESETASSERT'' 0 0x1 [(''NOP'', 0), (''ASSERT'', 1)],
     Field ''KEY'' 24 0xff000000 [(''UNLOCK_W'', 0xb1000000)]]"

definition CRC_STAT_Bits :: fields where
  "CRC_STAT_Bits =
    [Field ''RESETSTKY'' 16 0x10000 [(''NORES'', 0), (''RESET'', 0x10000)]]"

definition CRC_CLKSEL_Bits :: fields where
  "CRC_CLKSEL_Bits =
    [Field ''MCLK_SEL'' 0 0x1 [(''DISABLE'', 0), (''ENABLE'', 1)]]"

definition CRC_DESC_Bits :: fields where
  "CRC_DESC_Bits =
    [Field ''MINREV'' 0 0xf [(''MINIMUM'', 0), (''MAXIMUM'', 0xf)],
     Field ''MAJREV'' 4 0xf0 [(''MINIMUM'', 0), (''MAXIMUM'', 0xf0)],
     Field ''INSTNUM'' 8 0xf00 [(''MINIMUM'', 0), (''MAXIMUM'', 0xf00)],
     Field ''FEATUREVER'' 12 0xf000 [(''MINIMUM'', 0), (''MAXIMUM'', 0xf000)],
     Field ''MODULEID'' 16 0xffff0000 [(''MINIMUM'', 0), (''MAXIMUM'', 0xffff0000)]]"

definition CRC_CRCCTRL_Bits :: fields where
  "CRC_CRCCTRL_Bits =
    [Field ''POLYSIZE'' 0 0x1 [(''CRC32'', 0), (''CRC16'', 1)],
     Field ''BITREVERSE'' 1 0x2 [(''NOT_REVERSED'', 0), (''REVERSED'', 2)],
     Field ''INPUT_ENDIANNESS'' 2 0x4 [(''LITTLE_ENDIAN'', 0), (''BIG_ENDIAN'', 4)],
     Field ''OUTPUT_BYTESWAP'' 4 0x10 [(''DISABLE'', 0), (''ENABLE'', 0x10)]]"

definition CRC_CRCSEED_Bits :: fields where
  "CRC_CRCSEED_Bits =
    [Field ''SEED'' 0 0xffffffff [(''MINIMUM'', 0), (''MAXIMUM'', 0xffffffff)]]"

definition CRC_CRCIN_Bits :: fields where
  "CRC_CRCIN_Bits =
    [Field ''DATA'' 0 0xffffffff [(''MINIMUM'', 0), (''MAXIMUM'', 0xffffffff)]]"

definition CRC_CRCOUT_Bits :: fields where
  "CRC_CRCOUT_Bits =
    [Field ''RESULT'' 0 0xffffffff [(''MINIMUM'', 0), (''MAXIMUM'', 0xffffffff)]]"

definition CRC_CRCIN_IDX_Bits :: fields where
  "CRC_CRCIN_IDX_Bits =
    [Field ''DATA'' 0 0xffffffff [(''MINIMUM'', 0), (''MAXIMUM'', 0xffffffff)]]"

definition CRC_bits :: field_table where
  "CRC_bits =
    [([''GPRCM'', ''PWREN''], CRC_PWREN_Bits), ([''GPRCM'', ''RSTCTL''], CRC_RSTCTL_Bits),
     ([''GPRCM'', ''STAT''], CRC_STAT_Bits), ([''CLKSEL''], CRC_CLKSEL_Bits), ([''DESC''], CRC_DESC_Bits),
     ([''CRCCTRL''], CRC_CRCCTRL_Bits), ([''CRCSEED''], CRC_CRCSEED_Bits), ([''CRCIN''], CRC_CRCIN_Bits),
     ([''CRCOUT''], CRC_CRCOUT_Bits), ([''CRCIN_IDX''], CRC_CRCIN_IDX_Bits)]"

lemmas CRC_Bits_defs = CRC_PWREN_Bits_def CRC_RSTCTL_Bits_def CRC_STAT_Bits_def CRC_CLKSEL_Bits_def CRC_DESC_Bits_def
  CRC_CRCCTRL_Bits_def CRC_CRCSEED_Bits_def CRC_CRCIN_Bits_def CRC_CRCOUT_Bits_def CRC_CRCIN_IDX_Bits_def

lemma CRC_bits_describes: "describes CRC_bits CRC_Regs"
  by (simp add: describes_def CRC_bits_def layout_defs, (intro conjI; simp add: CRC_Bits_defs))

lemma CRC_bits_strays: "strays CRC_bits = []"
  by (rule no_strays) (simp add: CRC_bits_def, (intro conjI; simp add: CRC_Bits_defs))

section \<open>\<open>hw_iomux.h\<close>\<close>

definition IOMUX_PINCM_Bits :: fields where
  "IOMUX_PINCM_Bits =
    [Field ''PF'' 0 0x3f [(''MINIMUM'', 0), (''MAXIMUM'', 0x3f)],
     Field ''PC'' 7 0x80 [(''UNCONNECTED'', 0), (''CONNECTED'', 0x80)],
     Field ''WAKESTAT'' 13 0x2000 [(''DISABLE'', 0), (''ENABLE'', 0x2000)],
     Field ''PIPD'' 16 0x10000 [(''DISABLE'', 0), (''ENABLE'', 0x10000)],
     Field ''PIPU'' 17 0x20000 [(''DISABLE'', 0), (''ENABLE'', 0x20000)],
     Field ''INENA'' 18 0x40000 [(''DISABLE'', 0), (''ENABLE'', 0x40000)],
     Field ''HYSTEN'' 19 0x80000 [(''ENABLE'', 0), (''DISABLE'', 0x80000)],
     Field ''DRV'' 20 0x100000 [(''DRVVAL0'', 0), (''DRVVAL1'', 0x100000)],
     Field ''HIZ1'' 25 0x2000000 [(''DISABLE'', 0), (''ENABLE'', 0x2000000)],
     Field ''WUEN'' 27 0x8000000 [(''DISABLE'', 0), (''ENABLE'', 0x8000000)],
     Field ''WCOMP'' 28 0x10000000 [(''MATCH0'', 0), (''MATCH1'', 0x10000000)],
     Field ''INV'' 26 0x4000000 [(''DISABLE'', 0), (''ENABLE'', 0x4000000)]]"

definition IOMUX_bits :: field_table where
  "IOMUX_bits =
    [([''SECCFG'', ''PINCM''], IOMUX_PINCM_Bits)]"

lemmas IOMUX_Bits_defs = IOMUX_PINCM_Bits_def

lemma IOMUX_bits_describes: "describes IOMUX_bits IOMUX_Regs"
  by (simp add: describes_def IOMUX_bits_def IOMUX_Bits_defs layout_defs)

lemma IOMUX_bits_strays: "strays IOMUX_bits = []"
  by (rule no_strays) (simp add: IOMUX_bits_def IOMUX_Bits_defs)

section \<open>\<open>hw_vref.h\<close>\<close>

definition VREF_PWREN_Bits :: fields where
  "VREF_PWREN_Bits =
    [Field ''ENABLE'' 0 0x1 [(''DISABLE'', 0), (''ENABLE'', 1)],
     Field ''KEY'' 24 0xff000000 [(''UNLOCK_W'', 0x26000000)]]"

definition VREF_RSTCTL_Bits :: fields where
  "VREF_RSTCTL_Bits =
    [Field ''RESETSTKYCLR'' 1 0x2 [(''NOP'', 0), (''CLR'', 2)],
     Field ''RESETASSERT'' 0 0x1 [(''NOP'', 0), (''ASSERT'', 1)],
     Field ''KEY'' 24 0xff000000 [(''UNLOCK_W'', 0xb1000000)]]"

definition VREF_STAT_Bits :: fields where
  "VREF_STAT_Bits =
    [Field ''RESETSTKY'' 16 0x10000 [(''NORES'', 0), (''RESET'', 0x10000)]]"

definition VREF_CLKDIV_Bits :: fields where
  "VREF_CLKDIV_Bits =
    [Field ''RATIO'' 0 0x7 []]"

definition VREF_CLKSEL_Bits :: fields where
  "VREF_CLKSEL_Bits =
    [Field ''LFCLK_SEL'' 1 0x2 [],
     Field ''MFCLK_SEL'' 2 0x4 [],
     Field ''BUSCLK_SEL'' 3 0x8 []]"

definition VREF_CTL0_Bits :: fields where
  "VREF_CTL0_Bits =
    [Field ''ENABLE0'' 0 0x1 [(''DISABLE'', 0), (''ENABLE'', 1)],
     Field ''BUFCONFIG'' 7 0x80 [(''OUTPUT2P5V'', 0), (''OUTPUT1P4V'', 0x80)],
     Field ''SHMODE'' 8 0x100 [(''DISABLE'', 0), (''ENABLE'', 0x100)],
     Field ''ENABLE1'' 1 0x2 [(''DISABLE'', 0), (''ENABLE'', 2)],
     Field ''ENABLE2'' 2 0x4 [(''DISABLE'', 0), (''ENABLE'', 4)]]"

definition VREF_CTL1_Bits :: fields where
  "VREF_CTL1_Bits =
    [Field ''READY0'' 0 0x1 [(''NOTRDY'', 0), (''RDY'', 1)],
     Field ''READY1'' 2 0x4 [(''NOTRDY'', 0), (''RDY'', 4)],
     Field ''READY2'' 3 0x8 [(''NOTRDY'', 0), (''RDY'', 8)]]"

definition VREF_CTL2_Bits :: fields where
  "VREF_CTL2_Bits =
    [Field ''SHCYCLE'' 0 0xffff [(''MINIMUM'', 0), (''MAXIMUM'', 0xffff)],
     Field ''HCYCLE'' 16 0xffff0000 [(''MINIMUM'', 0), (''MAXIMUM'', 0xffff0000)]]"

definition VREF_bits :: field_table where
  "VREF_bits =
    [([''GPRCM'', ''PWREN''], VREF_PWREN_Bits), ([''GPRCM'', ''RSTCTL''], VREF_RSTCTL_Bits),
     ([''GPRCM'', ''STAT''], VREF_STAT_Bits), ([''CLKDIV''], VREF_CLKDIV_Bits), ([''CLKSEL''], VREF_CLKSEL_Bits),
     ([''CTL0''], VREF_CTL0_Bits), ([''CTL1''], VREF_CTL1_Bits), ([''CTL2''], VREF_CTL2_Bits)]"

lemmas VREF_Bits_defs = VREF_PWREN_Bits_def VREF_RSTCTL_Bits_def VREF_STAT_Bits_def VREF_CLKDIV_Bits_def
  VREF_CLKSEL_Bits_def VREF_CTL0_Bits_def VREF_CTL1_Bits_def VREF_CTL2_Bits_def

lemma VREF_bits_describes: "describes VREF_bits VREF_Regs"
  by (simp add: describes_def VREF_bits_def layout_defs, (intro conjI; simp add: VREF_Bits_defs))

lemma VREF_bits_strays: "strays VREF_bits = []"
  by (rule no_strays) (simp add: VREF_bits_def, (intro conjI; simp add: VREF_Bits_defs))

section \<open>\<open>hw_wuc.h\<close>\<close>

definition WUC_FSUB_0_Bits :: fields where
  "WUC_FSUB_0_Bits =
    [Field ''CHANID'' 0 0xff [(''MNIMUM'', 0), (''UNCONNECTED'', 0), (''MAXIMUM'', 0xf)]]"

definition WUC_FSUB_1_Bits :: fields where
  "WUC_FSUB_1_Bits =
    [Field ''CHANID'' 0 0xff [(''MNIMUM'', 0), (''UNCONNECTED'', 0), (''MAXIMUM'', 0xf)]]"

definition WUC_bits :: field_table where
  "WUC_bits =
    [([''FSUB_0''], WUC_FSUB_0_Bits), ([''FSUB_1''], WUC_FSUB_1_Bits)]"

lemmas WUC_Bits_defs = WUC_FSUB_0_Bits_def WUC_FSUB_1_Bits_def

lemma WUC_bits_describes: "describes WUC_bits WUC_Regs"
  by (simp add: describes_def WUC_bits_def layout_defs, (intro conjI; simp add: WUC_Bits_defs))

lemma WUC_bits_strays: "strays WUC_bits = []"
  by (rule no_strays) (simp add: WUC_bits_def, (intro conjI; simp add: WUC_Bits_defs))

section \<open>\<open>hw_wwdt.h\<close>\<close>

definition WWDT_IIDX_Bits :: fields where
  "WWDT_IIDX_Bits =
    [Field ''STAT'' 0 0x1f [(''NO_INTR'', 0), (''INTTIM'', 1)]]"

definition WWDT_IMASK_Bits :: fields where
  "WWDT_IMASK_Bits =
    [Field ''INTTIM'' 0 0x1 [(''CLR'', 0), (''SET'', 1)]]"

definition WWDT_RIS_Bits :: fields where
  "WWDT_RIS_Bits =
    [Field ''INTTIM'' 0 0x1 [(''CLR'', 0), (''SET'', 1)]]"

definition WWDT_MIS_Bits :: fields where
  "WWDT_MIS_Bits =
    [Field ''INTTIM'' 0 0x1 [(''CLR'', 0), (''SET'', 1)]]"

definition WWDT_ISET_Bits :: fields where
  "WWDT_ISET_Bits =
    [Field ''INTTIM'' 0 0x1 [(''NO_EFFECT'', 0), (''SET'', 1)]]"

definition WWDT_ICLR_Bits :: fields where
  "WWDT_ICLR_Bits =
    [Field ''INTTIM'' 0 0x1 [(''NO_EFFECT'', 0), (''CLR'', 1)]]"

definition WWDT_PWREN_Bits :: fields where
  "WWDT_PWREN_Bits =
    [Field ''ENABLE'' 0 0x1 [(''DISABLE'', 0), (''ENABLE'', 1)],
     Field ''KEY'' 24 0xff000000 [(''UNLOCK_W'', 0x26000000)]]"

definition WWDT_RSTCTL_Bits :: fields where
  "WWDT_RSTCTL_Bits =
    [Field ''RESETSTKYCLR'' 1 0x2 [(''NOP'', 0), (''CLR'', 2)],
     Field ''RESETASSERT'' 0 0x1 [(''NOP'', 0), (''ASSERT'', 1)],
     Field ''KEY'' 24 0xff000000 [(''UNLOCK_W'', 0xb1000000)]]"

definition WWDT_STAT_Bits :: fields where
  "WWDT_STAT_Bits =
    [Field ''RESETSTKY'' 16 0x10000 [(''NORES'', 0), (''RESET'', 0x10000)]]"

definition WWDT_PDBGCTL_Bits :: fields where
  "WWDT_PDBGCTL_Bits =
    [Field ''FREE'' 0 0x1 [(''STOP'', 0), (''RUN'', 1)]]"

definition WWDT_EVT_MODE_Bits :: fields where
  "WWDT_EVT_MODE_Bits =
    [Field ''INT0_CFG'' 0 0x3 [(''DISABLE'', 0), (''SOFTWARE'', 1), (''HARDWARE'', 2)]]"

definition WWDT_DESC_Bits :: fields where
  "WWDT_DESC_Bits =
    [Field ''MINREV'' 0 0xf [(''MINIMUM'', 0), (''MAXIMUM'', 0xf)],
     Field ''MAJREV'' 4 0xf0 [(''MINIMUM'', 0), (''MAXIMUM'', 0xf0)],
     Field ''INSTNUM'' 8 0xf00 [(''MINIMUM'', 0), (''MAXIMUM'', 0xf00)],
     Field ''FEATUREVER'' 12 0xf000 [(''MINIMUM'', 0), (''MAXIMUM'', 0xf000)],
     Field ''MODULEID'' 16 0xffff0000 [(''MINIMUM'', 0), (''MAXIMUM'', 0xffff0000)]]"

definition WWDT_WWDTCTL0_Bits :: fields where
  "WWDT_WWDTCTL0_Bits =
    [Field ''PER'' 4 0x70 [
       (''EN_25'', 0), (''EN_21'', 0x10), (''EN_18'', 0x20), (''EN_15'', 0x30), (''EN_12'', 0x40), (''EN_10'', 0x50),
       (''EN_8'', 0x60), (''EN_6'', 0x70)],
     Field ''WINDOW0'' 8 0x700 [
       (''SIZE_0'', 0), (''SIZE_12'', 0x100), (''SIZE_18'', 0x200), (''SIZE_25'', 0x300), (''SIZE_50'', 0x400),
       (''SIZE_75'', 0x500), (''SIZE_81'', 0x600), (''SIZE_87'', 0x700)],
     Field ''MODE'' 16 0x10000 [(''WINDOW'', 0), (''INTERVAL'', 0x10000)],
     Field ''STISM'' 17 0x20000 [(''CONT'', 0), (''STOP'', 0x20000)],
     Field ''KEY'' 24 0xff000000 [(''UNLOCK_W'', 0xc9000000)],
     Field ''CLKDIV'' 0 0x7 [(''MINIMUM'', 0), (''MAXIMUM'', 7)],
     Field ''WINDOW1'' 12 0x7000 [
       (''SIZE_0'', 0), (''SIZE_12'', 0x1000), (''SIZE_18'', 0x2000), (''SIZE_25'', 0x3000), (''SIZE_50'', 0x4000),
       (''SIZE_75'', 0x5000), (''SIZE_81'', 0x6000), (''SIZE_87'', 0x7000)]]"

definition WWDT_WWDTCTL1_Bits :: fields where
  "WWDT_WWDTCTL1_Bits =
    [Field ''KEY'' 24 0xff000000 [(''UNLOCK_W'', 0xbe000000)],
     Field ''WINSEL'' 0 0x1 [(''WIN0'', 0), (''WIN1'', 1)]]"

definition WWDT_WWDTCNTRST_Bits :: fields where
  "WWDT_WWDTCNTRST_Bits =
    [Field ''RESTART'' 0 0xffffffff [(''MINIMUM'', 0), (''MAXIMUM'', 0xffffffff)]]"

definition WWDT_WWDTSTAT_Bits :: fields where
  "WWDT_WWDTSTAT_Bits =
    [Field ''RUN'' 0 0x1 [(''OFF'', 0), (''ON'', 1)]]"

definition WWDT_bits :: field_table where
  "WWDT_bits =
    [([''GPRCM'', ''PWREN''], WWDT_PWREN_Bits), ([''GPRCM'', ''RSTCTL''], WWDT_RSTCTL_Bits),
     ([''GPRCM'', ''STAT''], WWDT_STAT_Bits), ([''PDBGCTL''], WWDT_PDBGCTL_Bits),
     ([''CPU_INT'', ''IIDX''], WWDT_IIDX_Bits), ([''CPU_INT'', ''IMASK''], WWDT_IMASK_Bits),
     ([''CPU_INT'', ''RIS''], WWDT_RIS_Bits), ([''CPU_INT'', ''MIS''], WWDT_MIS_Bits),
     ([''CPU_INT'', ''ISET''], WWDT_ISET_Bits), ([''CPU_INT'', ''ICLR''], WWDT_ICLR_Bits),
     ([''EVT_MODE''], WWDT_EVT_MODE_Bits), ([''DESC''], WWDT_DESC_Bits), ([''WWDTCTL0''], WWDT_WWDTCTL0_Bits),
     ([''WWDTCTL1''], WWDT_WWDTCTL1_Bits), ([''WWDTCNTRST''], WWDT_WWDTCNTRST_Bits),
     ([''WWDTSTAT''], WWDT_WWDTSTAT_Bits)]"

lemmas WWDT_Bits_defs = WWDT_IIDX_Bits_def WWDT_IMASK_Bits_def WWDT_RIS_Bits_def WWDT_MIS_Bits_def WWDT_ISET_Bits_def
  WWDT_ICLR_Bits_def WWDT_PWREN_Bits_def WWDT_RSTCTL_Bits_def WWDT_STAT_Bits_def WWDT_PDBGCTL_Bits_def
  WWDT_EVT_MODE_Bits_def WWDT_DESC_Bits_def WWDT_WWDTCTL0_Bits_def WWDT_WWDTCTL1_Bits_def WWDT_WWDTCNTRST_Bits_def
  WWDT_WWDTSTAT_Bits_def

lemma WWDT_bits_describes: "describes WWDT_bits WWDT_Regs"
  by (simp add: describes_def WWDT_bits_def layout_defs, (intro conjI; simp add: WWDT_Bits_defs))

lemma WWDT_bits_strays: "strays WWDT_bits = []"
  by (rule no_strays) (simp add: WWDT_bits_def, (intro conjI; simp add: WWDT_Bits_defs))

section \<open>\<open>hw_cpuss.h\<close>\<close>

definition CPUSS_INT_GROUP_IIDX_Bits :: fields where
  "CPUSS_INT_GROUP_IIDX_Bits =
    [Field ''STAT'' 0 0xff [
       (''NO_INTR'', 0), (''INT0'', 1), (''INT1'', 2), (''INT2'', 3), (''INT3'', 4), (''INT4'', 5), (''INT5'', 6),
       (''INT6'', 7), (''INT7'', 8)]]"

definition CPUSS_INT_GROUP_IMASK_Bits :: fields where
  "CPUSS_INT_GROUP_IMASK_Bits =
    [Field ''INT'' 0 0xff [
       (''INT0'', 1), (''INT1'', 2), (''INT2'', 4), (''INT3'', 8), (''INT4'', 0x10), (''INT5'', 0x20), (''INT6'', 0x40),
       (''INT7'', 0x80)]]"

definition CPUSS_INT_GROUP_RIS_Bits :: fields where
  "CPUSS_INT_GROUP_RIS_Bits =
    [Field ''INT'' 0 0xff [
       (''INT0'', 1), (''INT1'', 2), (''INT2'', 4), (''INT3'', 8), (''INT4'', 0x10), (''INT5'', 0x20), (''INT6'', 0x40),
       (''INT7'', 0x80)]]"

definition CPUSS_INT_GROUP_MIS_Bits :: fields where
  "CPUSS_INT_GROUP_MIS_Bits =
    [Field ''INT'' 0 0xff [
       (''INT0'', 1), (''INT1'', 2), (''INT2'', 4), (''INT3'', 8), (''INT4'', 0x10), (''INT5'', 0x20), (''INT6'', 0x40),
       (''INT7'', 0x80)]]"

definition CPUSS_INT_GROUP_ISET_Bits :: fields where
  "CPUSS_INT_GROUP_ISET_Bits =
    [Field ''INT'' 0 0xff [
       (''INT0'', 1), (''INT1'', 2), (''INT2'', 4), (''INT3'', 8), (''INT4'', 0x10), (''INT5'', 0x20), (''INT6'', 0x40),
       (''INT7'', 0x80)]]"

definition CPUSS_INT_GROUP_ICLR_Bits :: fields where
  "CPUSS_INT_GROUP_ICLR_Bits =
    [Field ''INT'' 0 0xff [
       (''INT0'', 1), (''INT1'', 2), (''INT2'', 4), (''INT3'', 8), (''INT4'', 0x10), (''INT5'', 0x20), (''INT6'', 0x40),
       (''INT7'', 0x80)]]"

definition CPUSS_EVT_MODE_Bits :: fields where
  "CPUSS_EVT_MODE_Bits =
    [Field ''INT_CFG'' 0 0x3 [(''DISABLE'', 0), (''SOFTWARE'', 1), (''HARDWARE'', 2)]]"

definition CPUSS_DESC_Bits :: fields where
  "CPUSS_DESC_Bits =
    [Field ''MINREV'' 0 0xf [],
     Field ''MAJREV'' 4 0xf0 [],
     Field ''FEATUREVER'' 12 0xf000 [],
     Field ''MODULEID'' 16 0xffff0000 []]"

definition CPUSS_CTL_Bits :: fields where
  "CPUSS_CTL_Bits =
    [Field ''PREFETCH'' 0 0x1 [(''DISABLE'', 0), (''ENABLE'', 1)],
     Field ''ICACHE'' 1 0x2 [(''DISABLE'', 0), (''ENABLE'', 2)],
     Field ''LITEN'' 2 0x4 [(''DISABLE'', 0), (''ENABLE'', 4)]]"

definition CPUSS_bits :: field_table where
  "CPUSS_bits =
    [([''EVT_MODE''], CPUSS_EVT_MODE_Bits), ([''DESC''], CPUSS_DESC_Bits),
     ([''INT_GROUP'', ''IIDX''], CPUSS_INT_GROUP_IIDX_Bits), ([''INT_GROUP'', ''IMASK''], CPUSS_INT_GROUP_IMASK_Bits),
     ([''INT_GROUP'', ''RIS''], CPUSS_INT_GROUP_RIS_Bits), ([''INT_GROUP'', ''MIS''], CPUSS_INT_GROUP_MIS_Bits),
     ([''INT_GROUP'', ''ISET''], CPUSS_INT_GROUP_ISET_Bits), ([''INT_GROUP'', ''ICLR''], CPUSS_INT_GROUP_ICLR_Bits),
     ([''CTL''], CPUSS_CTL_Bits)]"

lemmas CPUSS_Bits_defs = CPUSS_INT_GROUP_IIDX_Bits_def CPUSS_INT_GROUP_IMASK_Bits_def CPUSS_INT_GROUP_RIS_Bits_def
  CPUSS_INT_GROUP_MIS_Bits_def CPUSS_INT_GROUP_ISET_Bits_def CPUSS_INT_GROUP_ICLR_Bits_def CPUSS_EVT_MODE_Bits_def
  CPUSS_DESC_Bits_def CPUSS_CTL_Bits_def

lemma CPUSS_bits_describes: "describes CPUSS_bits CPUSS_Regs"
  by (simp add: describes_def CPUSS_bits_def layout_defs, (intro conjI; simp add: CPUSS_Bits_defs))

lemma CPUSS_bits_strays: "strays CPUSS_bits = []"
  by (rule no_strays) (simp add: CPUSS_bits_def, (intro conjI; simp add: CPUSS_Bits_defs))

section \<open>\<open>hw_debugss.h\<close>\<close>

definition DEBUGSS_IIDX_Bits :: fields where
  "DEBUGSS_IIDX_Bits =
    [Field ''STAT'' 0 0xff [(''NO_INTR'', 0), (''TXIFG'', 1), (''RXIFG'', 2), (''PWRUP'', 3), (''PWRDWN'', 4)]]"

definition DEBUGSS_IMASK_Bits :: fields where
  "DEBUGSS_IMASK_Bits =
    [Field ''TXIFG'' 0 0x1 [(''CLR'', 0), (''SET'', 1)],
     Field ''RXIFG'' 1 0x2 [(''CLR'', 0), (''SET'', 2)],
     Field ''PWRUPIFG'' 2 0x4 [(''CLR'', 0), (''SET'', 4)],
     Field ''PWRDWNIFG'' 3 0x8 [(''CLR'', 0), (''SET'', 8)]]"

definition DEBUGSS_RIS_Bits :: fields where
  "DEBUGSS_RIS_Bits =
    [Field ''TXIFG'' 0 0x1 [(''CLR'', 0), (''SET'', 1)],
     Field ''RXIFG'' 1 0x2 [(''CLR'', 0), (''SET'', 2)],
     Field ''PWRUPIFG'' 2 0x4 [(''CLR'', 0), (''SET'', 4)],
     Field ''PWRDWNIFG'' 3 0x8 [(''CLR'', 0), (''SET'', 8)]]"

definition DEBUGSS_MIS_Bits :: fields where
  "DEBUGSS_MIS_Bits =
    [Field ''TXIFG'' 0 0x1 [(''CLR'', 0), (''SET'', 1)],
     Field ''RXIFG'' 1 0x2 [(''CLR'', 0), (''SET'', 2)],
     Field ''PWRUPIFG'' 2 0x4 [(''CLR'', 0), (''SET'', 4)],
     Field ''PWRDWNIFG'' 3 0x8 [(''CLR'', 0), (''SET'', 8)]]"

definition DEBUGSS_ISET_Bits :: fields where
  "DEBUGSS_ISET_Bits =
    [Field ''TXIFG'' 0 0x1 [(''NO_EFFECT'', 0), (''SET'', 1)],
     Field ''RXIFG'' 1 0x2 [(''NO_EFFECT'', 0), (''SET'', 2)],
     Field ''PWRUPIFG'' 2 0x4 [(''NO_EFFECT'', 0), (''SET'', 4)],
     Field ''PWRDWNIFG'' 3 0x8 [(''NO_EFFECT'', 0), (''SET'', 8)]]"

definition DEBUGSS_ICLR_Bits :: fields where
  "DEBUGSS_ICLR_Bits =
    [Field ''TXIFG'' 0 0x1 [(''NO_EFFECT'', 0), (''CLR'', 1)],
     Field ''RXIFG'' 1 0x2 [(''NO_EFFECT'', 0), (''CLR'', 2)],
     Field ''PWRUPIFG'' 2 0x4 [(''NO_EFFECT'', 0), (''CLR'', 4)],
     Field ''PWRDWNIFG'' 3 0x8 [(''NO_EFFECT'', 0), (''CLR'', 8)]]"

definition DEBUGSS_EVT_MODE_Bits :: fields where
  "DEBUGSS_EVT_MODE_Bits =
    [Field ''INT0_CFG'' 0 0x3 [(''DISABLE'', 0), (''SOFTWARE'', 1), (''HARDWARE'', 2)]]"

definition DEBUGSS_DESC_Bits :: fields where
  "DEBUGSS_DESC_Bits =
    [Field ''MINREV'' 0 0xf [],
     Field ''MAJREV'' 4 0xf0 [],
     Field ''INSTNUM'' 8 0xf00 [],
     Field ''FEATUREVER'' 12 0xf000 [],
     Field ''MODULEID'' 16 0xffff0000 []]"

definition DEBUGSS_TXD_Bits :: fields where
  "DEBUGSS_TXD_Bits =
    [Field ''TX_DATA'' 0 0xffffffff []]"

definition DEBUGSS_TXCTL_Bits :: fields where
  "DEBUGSS_TXCTL_Bits =
    [Field ''TRANSMIT'' 0 0x1 [(''EMPTY'', 0), (''FULL'', 1)],
     Field ''TRANSMIT_FLAGS'' 1 0xfffffffe []]"

definition DEBUGSS_RXD_Bits :: fields where
  "DEBUGSS_RXD_Bits =
    [Field ''RX_DATA'' 0 0xffffffff []]"

definition DEBUGSS_RXCTL_Bits :: fields where
  "DEBUGSS_RXCTL_Bits =
    [Field ''RECEIVE'' 0 0x1 [(''EMPTY'', 0), (''FULL'', 1)],
     Field ''RECEIVE_FLAGS'' 1 0xfe []]"

definition DEBUGSS_SPECIAL_AUTH_Bits :: fields where
  "DEBUGSS_SPECIAL_AUTH_Bits =
    [Field ''SECAPEN'' 0 0x1 [(''DISABLE'', 0), (''ENABLE'', 1)],
     Field ''SWDPORTEN'' 1 0x2 [(''DISABLE'', 0), (''ENABLE'', 2)],
     Field ''DFTAPEN'' 2 0x4 [(''DISABLE'', 0), (''ENABLE'', 4)],
     Field ''ETAPEN'' 3 0x8 [(''DISABLE'', 0), (''ENABLE'', 8)],
     Field ''CFGAPEN'' 4 0x10 [(''DISABLE'', 0), (''ENABLE'', 0x10)],
     Field ''AHBAPEN'' 5 0x20 [(''DISABLE'', 0), (''ENABLE'', 0x20)],
     Field ''PWRAPEN'' 6 0x40 [(''DISABLE'', 0), (''ENABLE'', 0x40)]]"

definition DEBUGSS_APP_AUTH_Bits :: fields where
  "DEBUGSS_APP_AUTH_Bits =
    [Field ''DBGEN'' 0 0x1 [(''DISABLE'', 0), (''ENABLE'', 1)],
     Field ''NIDEN'' 1 0x2 [(''DISABLE'', 0), (''ENABLE'', 2)],
     Field ''SPIDEN'' 2 0x4 [(''DISABLE'', 0), (''ENABLE'', 4)],
     Field ''SPNIDEN'' 3 0x8 [(''DISABLE'', 0), (''ENABLE'', 8)]]"

definition DEBUGSS_bits :: field_table where
  "DEBUGSS_bits =
    [([''CPU_INT'', ''IIDX''], DEBUGSS_IIDX_Bits), ([''CPU_INT'', ''IMASK''], DEBUGSS_IMASK_Bits),
     ([''CPU_INT'', ''RIS''], DEBUGSS_RIS_Bits), ([''CPU_INT'', ''MIS''], DEBUGSS_MIS_Bits),
     ([''CPU_INT'', ''ISET''], DEBUGSS_ISET_Bits), ([''CPU_INT'', ''ICLR''], DEBUGSS_ICLR_Bits),
     ([''EVT_MODE''], DEBUGSS_EVT_MODE_Bits), ([''DESC''], DEBUGSS_DESC_Bits), ([''TXD''], DEBUGSS_TXD_Bits),
     ([''TXCTL''], DEBUGSS_TXCTL_Bits), ([''RXD''], DEBUGSS_RXD_Bits), ([''RXCTL''], DEBUGSS_RXCTL_Bits),
     ([''SPECIAL_AUTH''], DEBUGSS_SPECIAL_AUTH_Bits), ([''APP_AUTH''], DEBUGSS_APP_AUTH_Bits)]"

lemmas DEBUGSS_Bits_defs = DEBUGSS_IIDX_Bits_def DEBUGSS_IMASK_Bits_def DEBUGSS_RIS_Bits_def DEBUGSS_MIS_Bits_def
  DEBUGSS_ISET_Bits_def DEBUGSS_ICLR_Bits_def DEBUGSS_EVT_MODE_Bits_def DEBUGSS_DESC_Bits_def DEBUGSS_TXD_Bits_def
  DEBUGSS_TXCTL_Bits_def DEBUGSS_RXD_Bits_def DEBUGSS_RXCTL_Bits_def DEBUGSS_SPECIAL_AUTH_Bits_def
  DEBUGSS_APP_AUTH_Bits_def

lemma DEBUGSS_bits_describes: "describes DEBUGSS_bits DEBUGSS_Regs"
  by (simp add: describes_def DEBUGSS_bits_def layout_defs, (intro conjI; simp add: DEBUGSS_Bits_defs))

lemma DEBUGSS_bits_strays: "strays DEBUGSS_bits = []"
  by (rule no_strays) (simp add: DEBUGSS_bits_def, (intro conjI; simp add: DEBUGSS_Bits_defs))

end
