(* ===== verification/Device_Tables.thy ===== *)
theory Device_Tables
  imports ADC12_Fields DMA_Fields FLASHCTL_Fields GPIO_Fields GPTIMER_Fields I2C_Fields LFSS_Fields RTC_Fields
    UART_Fields SYSCTL_Fields Small_Fields
begin

text \<open>
  The bit fields of every peripheral of the device, and what all the headers have in common: each register is described
  once, its fields are separate, and the event registers of a module agree with each other.
\<close>

section \<open>The fields of a peripheral\<close>

text \<open>The table of the structure its pointer points to.\<close>

fun block_bits :: "peripheral \<Rightarrow> field_table" where
  "block_bits Dev_UART1 = UART_bits"
| "block_bits Dev_SPI0 = SPI_bits"
| "block_bits Dev_CRC = CRC_bits"
| "block_bits Dev_TIMA0 = GPTIMER_bits"
| "block_bits Dev_GPIOB = GPIO_bits"
| "block_bits Dev_UART2 = UART_bits"
| "block_bits Dev_TIMG1 = GPTIMER_bits"
| "block_bits Dev_TIMG8 = GPTIMER_bits"
| "block_bits Dev_WWDT0 = WWDT_bits"
| "block_bits Dev_UART0 = UART_bits"
| "block_bits Dev_I2C1 = I2C_bits"
| "block_bits Dev_TIMG2 = GPTIMER_bits"
| "block_bits Dev_DEBUGSS = DEBUGSS_bits"
| "block_bits Dev_GPIOA = GPIO_bits"
| "block_bits Dev_FLASHCTL = FLASHCTL_bits"
| "block_bits Dev_I2C0 = I2C_bits"
| "block_bits Dev_WUC = WUC_bits"
| "block_bits Dev_DMA = DMA_bits"
| "block_bits Dev_COMP0 = COMP_bits"
| "block_bits Dev_CPUSS = CPUSS_bits"
| "block_bits Dev_SYSCTL = SYSCTL_bits"
| "block_bits Dev_IOMUX = IOMUX_bits"
| "block_bits Dev_TIMG14 = GPTIMER_bits"
| "block_bits Dev_LFSS = LFSS_bits"
| "block_bits Dev_RTC_B = RTC_bits"
| "block_bits Dev_VREF = VREF_bits"
| "block_bits Dev_ADC0 = ADC12_bits"
| "block_bits Dev_ADC0_PERIPHERALREGIONSVT = ADC12_PERIPHERALREGIONSVT_bits"
| "block_bits Dev_FACTORYREGION = []"

section \<open>Event registers\<close>

text \<open>A module raises events through six registers. \<open>IIDX\<close> reads as the number of the event with the highest priority;
  \<open>IMASK\<close>, \<open>RIS\<close>, \<open>MIS\<close>, \<open>ISET\<close> and \<open>ICLR\<close> have one bit per event. They follow each other in the module's structure.\<close>

fun event_blocks :: "field_table \<Rightarrow> (string list \<times> field_table) list" where
  "event_blocks [] = []"
| "event_blocks ((path, fs) # t) =
     (if last path = ''IIDX'' then (path, (path, fs) # take 5 t) # event_blocks t else event_blocks t)"

fun signature :: "fields \<Rightarrow> (nat \<times> u32 \<times> string) set" where
  "signature [] = {}"
| "signature (Field n k m vs # fs) = insert (k, m, n) (signature fs)"

fun codes :: "fields \<Rightarrow> u32 list" where
  "codes [] = []"
| "codes (Field n k m vs # fs) = filter (\<lambda>v. v \<noteq> 0) (map snd vs) @ codes fs"

text \<open>The codes of the events with these mask bits, when the bit \<open>base\<close> has the code 1.\<close>

definition codes_of_mask :: "nat \<Rightarrow> u32 \<Rightarrow> u32 list" where
  "codes_of_mask base m = map (\<lambda>i. of_nat (i + 1 - base)) (filter (bit m) [0..<32])"

fun agrees :: "nat \<Rightarrow> field_table \<Rightarrow> bool" where
  "agrees base ((iidx, ifs) # (imask, mfs) # rest) \<longleftrightarrow>
     codes ifs = codes_of_mask base (claimed mfs) \<and> last imask = ''IMASK''
     \<and> map (\<lambda>(path, fs). (last path, signature fs)) rest
         = map (\<lambda>n. (n, signature mfs)) [''RIS'', ''MIS'', ''ISET'', ''ICLR'']"
| "agrees base _ \<longleftrightarrow> False"

text \<open>The second event of the GPIO module has the pins from 16 on, and numbers them from there; the event of the
  comparator for other modules has no event at bit 0, and numbers its events by their bits.\<close>

fun event_base :: "peripheral \<Rightarrow> string list \<Rightarrow> nat" where
  "event_base Dev_COMP0 path = (if path = [''GEN_EVENT'', ''IIDX''] then 1 else 0)"
| "event_base Dev_GPIOA path = (if path = [''GEN_EVENT1'', ''IIDX''] then 16 else 0)"
| "event_base Dev_GPIOB path = (if path = [''GEN_EVENT1'', ''IIDX''] then 16 else 0)"
| "event_base _ path = 0"

lemma bit_positions:
  "[0..<32] = [0,1,2,3,4,5,6,7,8,9,10,11,12,13,14,15,16,17,18,19,20,21,22,23,24,25,26,27,28,29,30,31]"
  by (simp add: upt_rec)

lemmas event_eval = codes_of_mask_def bit_positions

definition events_agree :: "(string list \<Rightarrow> nat) \<Rightarrow> field_table \<Rightarrow> bool" where
  "events_agree base t \<longleftrightarrow> list_all (\<lambda>(path, b). agrees (base path) b) (event_blocks t)"

lemma ADC12_events: "events_agree (\<lambda>_. 0) ADC12_bits"
  by (simp add: events_agree_def ADC12_bits_def, (intro conjI; simp add: event_eval ADC12_Bits_defs))

lemma COMP_events: "events_agree (event_base Dev_COMP0) COMP_bits"
  by (simp add: events_agree_def COMP_bits_def, (intro conjI; simp add: event_eval COMP_Bits_defs))

lemma DMA_events: "events_agree (\<lambda>_. 0) DMA_bits"
  by (simp add: events_agree_def DMA_bits_def, (intro conjI; simp add: event_eval DMA_Bits_defs))

lemma FLASHCTL_events: "events_agree (\<lambda>_. 0) FLASHCTL_bits"
  by (simp add: events_agree_def FLASHCTL_bits_def event_eval FLASHCTL_Bits_defs)

lemma GPIO_events: "events_agree (event_base Dev_GPIOA) GPIO_bits"
  by (simp add: events_agree_def GPIO_bits_def, (intro conjI; simp add: event_eval GPIO_Bits_defs))

lemma GPTIMER_events: "events_agree (\<lambda>_. 0) GPTIMER_bits"
  by (simp add: events_agree_def GPTIMER_bits_def, (intro conjI; simp add: event_eval insert_commute GPTIMER_Bits_defs))

lemma I2C_events: "events_agree (\<lambda>_. 0) I2C_bits"
  by (simp add: events_agree_def I2C_bits_def, (intro conjI; simp add: event_eval I2C_Bits_defs))

lemma LFSS_events: "events_agree (\<lambda>_. 0) LFSS_bits"
  by (simp add: events_agree_def LFSS_bits_def, (intro conjI; simp add: event_eval LFSS_Bits_defs))

lemma SPI_events: "events_agree (\<lambda>_. 0) SPI_bits"
  by (simp add: events_agree_def SPI_bits_def, (intro conjI; simp add: event_eval insert_commute SPI_Bits_defs))

lemma UART_events: "events_agree (\<lambda>_. 0) UART_bits"
  by (simp add: events_agree_def UART_bits_def, (intro conjI; simp add: event_eval insert_commute UART_Bits_defs))

lemma RTC_events: "events_agree (\<lambda>_. 0) RTC_bits"
  by (simp add: events_agree_def RTC_bits_def, (intro conjI; simp add: event_eval insert_commute RTC_Bits_defs))

lemma WWDT_events: "events_agree (\<lambda>_. 0) WWDT_bits"
  by (simp add: events_agree_def WWDT_bits_def event_eval WWDT_Bits_defs)

lemma CPUSS_events: "events_agree (\<lambda>_. 0) CPUSS_bits"
  by (simp add: events_agree_def CPUSS_bits_def event_eval CPUSS_Bits_defs)

lemma DEBUGSS_events: "events_agree (\<lambda>_. 0) DEBUGSS_bits"
  by (simp add: events_agree_def DEBUGSS_bits_def event_eval DEBUGSS_Bits_defs)

lemma SYSCTL_events: "events_agree (\<lambda>_. 0) SYSCTL_bits"
  by (simp add: events_agree_def SYSCTL_bits_def event_eval SYSCTL_Bits_defs)

lemma ADC12_PERIPHERALREGIONSVT_events: "events_agree (\<lambda>_. 0) ADC12_PERIPHERALREGIONSVT_bits"
  by (simp add: events_agree_def ADC12_PERIPHERALREGIONSVT_bits_def)

lemma CRC_events: "events_agree (\<lambda>_. 0) CRC_bits"
  by (simp add: events_agree_def CRC_bits_def)

lemma IOMUX_events: "events_agree (\<lambda>_. 0) IOMUX_bits"
  by (simp add: events_agree_def IOMUX_bits_def)

lemma VREF_events: "events_agree (\<lambda>_. 0) VREF_bits"
  by (simp add: events_agree_def VREF_bits_def)

lemma WUC_events: "events_agree (\<lambda>_. 0) WUC_bits"
  by (simp add: events_agree_def WUC_bits_def)

lemmas all_events = ADC12_events COMP_events DMA_events FLASHCTL_events GPIO_events GPTIMER_events I2C_events
  LFSS_events SPI_events UART_events RTC_events WWDT_events CPUSS_events DEBUGSS_events SYSCTL_events
  ADC12_PERIPHERALREGIONSVT_events CRC_events IOMUX_events VREF_events WUC_events

lemmas all_described = ADC12_bits_describes COMP_bits_describes DMA_bits_describes FLASHCTL_bits_describes
  GPIO_bits_describes GPTIMER_bits_describes I2C_bits_describes LFSS_bits_describes SPI_bits_describes
  UART_bits_describes RTC_bits_describes WWDT_bits_describes CPUSS_bits_describes DEBUGSS_bits_describes
  SYSCTL_bits_describes ADC12_PERIPHERALREGIONSVT_bits_describes CRC_bits_describes IOMUX_bits_describes
  VREF_bits_describes WUC_bits_describes

lemmas all_strays = ADC12_bits_strays COMP_bits_strays DMA_bits_strays FLASHCTL_bits_strays GPIO_bits_strays
  GPTIMER_bits_strays I2C_bits_strays LFSS_bits_strays SPI_bits_strays UART_bits_strays RTC_bits_strays
  WWDT_bits_strays CPUSS_bits_strays DEBUGSS_bits_strays SYSCTL_bits_strays ADC12_PERIPHERALREGIONSVT_bits_strays
  CRC_bits_strays IOMUX_bits_strays VREF_bits_strays WUC_bits_strays

section \<open>Properties\<close>

text \<open>The values of the headers that do not fit their field: the fourth event of the comparator is out of the range of
  the two bits of its \<open>STAT\<close>, and the largest values of the two data registers of the SPI have 32 bits of 16.\<close>

fun known_strays :: "peripheral \<Rightarrow> (string list \<times> string \<times> string) list" where
  "known_strays Dev_COMP0 = [([''CPU_INT'', ''IIDX''], ''STAT'', ''OUTRDYIFG'')]"
| "known_strays Dev_SPI0 = [([''RXDATA''], ''DATA'', ''MAXIMUM''), ([''TXDATA''], ''DATA'', ''MAXIMUM'')]"
| "known_strays _ = []"

lemma block_bits_describes: "register_block p = Some ms \<Longrightarrow> describes (block_bits p) ms"
  by (cases p) (auto simp: all_described)

lemma block_bits_strays: "strays (block_bits p) = known_strays p"
  by (cases p) (simp_all add: all_strays, simp add: strays_def)

lemma event_base_zero: "p \<notin> {Dev_COMP0, Dev_GPIOA, Dev_GPIOB} \<Longrightarrow> event_base p = (\<lambda>_. 0)"
  by (cases p) (simp_all add: fun_eq_iff)

lemma event_base_gpio: "event_base Dev_GPIOB = event_base Dev_GPIOA"
  by (simp add: fun_eq_iff)

lemma block_events_agree: "events_agree (event_base p) (block_bits p)"
  by (cases p) (simp_all add: event_base_zero event_base_gpio all_events, simp add: events_agree_def)

lemma described_fields_ok: "describes t ms \<Longrightarrow> (path, fs) \<in> set t \<Longrightarrow> fields_ok 0 fs"
  by (auto simp: describes_def list_all_iff)

lemma described_register:
  assumes "describes t ms" "path \<in> set (registers [] ms)"
  obtains fs where "map_of t path = Some fs" "(path, fs) \<in> set t"
proof -
  have "path \<in> fst ` set t" using assms by (metis describes_def list.set_map)
  then obtain fs where "map_of t path = Some fs" by (metis map_of_eq_None_iff not_None_eq)
  then show ?thesis using that map_of_SomeD by metis
qed

text \<open>C37. The headers describe every register by fields that are independent of each other. For every register of
  every peripheral there are field macros under its name; a field updated by the idiom of its mask and offset reads back
  the value, cut to its width, and every other field of the register reads as before; and the named values stay inside the
  mask of their field, but for the three of the comparator and the SPI that are too wide.\<close>

theorem registers_have_independent_fields:
  assumes "register_block p = Some ms" "path \<in> set (registers [] ms)"
  shows "\<exists>fs. map_of (block_bits p) path = Some fs
    \<and> (\<forall>f \<in> set fs. \<forall>g \<in> set fs. \<forall>v w.
         field_get g (field_set f v w) = (if g = f then v AND field_max f else field_get g w))
    \<and> strays (block_bits p) = known_strays p"
proof -
  have t: "describes (block_bits p) ms" by (rule block_bits_describes [OF assms(1)])
  obtain fs where fs: "map_of (block_bits p) path = Some fs" "fields_ok 0 fs"
    using described_register [OF t assms(2)] described_fields_ok [OF t] by metis
  have "field_get g (field_set f v w) = (if g = f then v AND field_max f else field_get g w)"
    if "f \<in> set fs" "g \<in> set fs" for f g v w
    using field_get_set field_get_other fields_ok_disjoint [OF fs(2)] that by simp
  then show ?thesis using fs(1) block_bits_strays by blast
qed

theorem registers_have_independent_fields_witness:
  "\<exists>fs. map_of I2C_bits [''SLAVE'', ''SCTR''] = Some fs \<and> strays I2C_bits = []
    \<and> (\<forall>f \<in> set fs. \<forall>g \<in> set fs. \<forall>v w.
         field_get g (field_set f v w) = (if g = f then v AND field_max f else field_get g w))"
proof -
  have "[''SLAVE'', ''SCTR''] \<in> set (registers [] I2C_Regs)" by (simp add: layout_defs)
  then show ?thesis
    using registers_have_independent_fields [of Dev_I2C1 I2C_Regs "[''SLAVE'', ''SCTR'']"] by auto
qed

text \<open>The six event registers of every module of the device agree: the codes that \<open>IIDX\<close> can show are, in order, the
  bits of \<open>IMASK\<close> counted from one (from the given bit in two modules), and the other four have the fields of \<open>IMASK\<close>.\<close>

theorem event_registers_agree:
  assumes "(iidx, (iidx', ifs) # (imask, mfs) # rest) \<in> set (event_blocks (block_bits p))"
  shows "codes ifs = codes_of_mask (event_base p iidx) (claimed mfs)
    \<and> map (\<lambda>(path, fs). (last path, signature fs)) rest
        = map (\<lambda>n. (n, signature mfs)) [''RIS'', ''MIS'', ''ISET'', ''ICLR'']"
  using block_events_agree [of p] assms by (fastforce simp: events_agree_def list_all_iff)

end
