(* ===== verification/Pin_Functions.thy ===== *)
theory Pin_Functions
  imports Prelude
begin

text \<open>
  The rest of the device header \<open>mspm0c1105_c1106.h\<close>: the parameters of its modules, the DMA triggers, and the functions of
  every pin. \<open>IOMUX_PINCMn_PF\<close> is the list of the macros \<open>IOMUX_PINCMn_PF_F\<close>, with the names that follow the prefix; the
  enumeration \<open>IOMUX_PINCM\<close> numbers the pins from zero, so its table is a list.
\<close>

section \<open>System parameters and DMA triggers\<close>

definition SYS_parameters :: "(string \<times> nat) list" where
  "SYS_parameters =
    [(''UART1_SYS_FENTRIES'', 4), (''SPI0_SYS_FENTRIES'', 4), (''CRC_SYS_CRC32_ENABLE'', 0), (''UART2_SYS_FENTRIES'', 4),
     (''UART0_SYS_FENTRIES'', 4), (''I2C_SYS_FENTRIES'', 4), (''FLASHCTL_SYS_DATAWIDTH'', 64),
     (''FLASHCTL_SYS_WEPROTBWIDTH'', 8), (''FLASHCTL_SYS_WEPROTAWIDTH'', 0), (''FLASHCTL_SYS_WEPROTCWIDTH'', 0),
     (''DMA_SYS_N_DMA_CHANNEL'', 3), (''DMA_SYS_N_DMA_FULL_CHANNEL'', 2), (''DMA_SYS_MMR_AUTO'', 1),
     (''DMA_SYS_MMR_EM'', 1), (''DMA_SYS_MMR_LLONG'', 1), (''DMA_SYS_MMR_STRIDE'', 1), (''ADC_SYS_NUM_ANALOG_CHAN'', 32),
     (''COMP_SYS_DACOUT_EN'', 1)]"

definition DMA_external_triggers :: "(string \<times> nat) list" where
  "DMA_external_triggers =
    [(''SOFTWARE'', 0), (''GENERIC_SUB0'', 1), (''GENERIC_SUB1'', 2), (''I2C0_TX'', 3), (''I2C0_RX'', 4),
     (''I2C1_TX'', 5), (''I2C1_RX'', 6), (''SPI0_RX'', 7), (''SPI0_TX'', 8), (''UART0_RX'', 9), (''UART0_TX'', 10),
     (''UART1_RX'', 11), (''UART1_TX'', 12), (''UART2_RX'', 13), (''UART2_TX'', 14), (''ADC0_EVT_GEN_BD'', 15)]"

definition DMA_internal_triggers :: "(string \<times> nat) list" where
  "DMA_internal_triggers =
    [(''CH_0'', 0), (''CH_1'', 1), (''CH_2'', 2)]"

section \<open>Pins\<close>

definition IOMUX_PINCM1_PF :: "(string \<times> u32) list" where
  "IOMUX_PINCM1_PF =
    [(''UNCONNECTED'', 0), (''GPIOA_DIO00'', 1), (''UART0_TX'', 2), (''I2C0_SDA'', 3), (''TIMA0_CCP0'', 4),
     (''TIMA_FAULT1'', 5), (''SYSCTL_FCC_IN'', 6), (''TIMG8_CCP1'', 7), (''SYSCTL_BEEPER'', 8), (''TIMG14_CCP0'', 9),
     (''SPI0_CS1_POCI1'', 0xa), (''LFSS_RTC_OUT'', 0xc)]"

definition IOMUX_PINCM2_PF :: "(string \<times> u32) list" where
  "IOMUX_PINCM2_PF =
    [(''UNCONNECTED'', 0), (''GPIOA_DIO01'', 1), (''UART0_RX'', 2), (''I2C0_SCL'', 3), (''TIMA0_CCP1'', 4),
     (''TIMA_FAULT2'', 5), (''TIMG8_IDX'', 6), (''TIMG8_CCP0'', 7), (''TIMG14_CCP1'', 9), (''SPI0_CS3_CD_POCI3'', 0xa),
     (''SYSCTL_HFCLKIN'', 0xb), (''UART0_TX'', 0xc), (''UART1_RTS'', 0xd), (''I2C0_SDA'', 0xe)]"

definition IOMUX_PINCM3_PF :: "(string \<times> u32) list" where
  "IOMUX_PINCM3_PF =
    [(''UNCONNECTED'', 0), (''GPIOA_DIO28'', 1), (''UART0_TX'', 2), (''I2C0_SDA'', 3), (''TIMA0_CCP3'', 4),
     (''TIMA_FAULT0'', 5), (''TIMG2_CCP0'', 6), (''TIMA0_CCP1'', 7)]"

definition IOMUX_PINCM4_PF :: "(string \<times> u32) list" where
  "IOMUX_PINCM4_PF =
    [(''UNCONNECTED'', 0), (''GPIOA_DIO31'', 1), (''UART0_RX'', 2), (''I2C0_SCL'', 3), (''TIMA0_CCP3_CMPL'', 4),
     (''SYSCTL_CLK_OUT'', 6)]"

definition IOMUX_PINCM5_PF :: "(string \<times> u32) list" where
  "IOMUX_PINCM5_PF =
    [(''UNCONNECTED'', 0), (''GPIOA_DIO02'', 1), (''TIMG8_CCP1'', 2), (''SPI0_CS0'', 3), (''TIMG2_CCP1'', 4),
     (''TIMG8_IDX'', 5), (''TIMA0_CCP3_CMPL'', 6), (''TIMA0_CCP2_CMPL'', 7), (''TIMA_FAULT0'', 8), (''TIMA_FAULT1'', 9),
     (''TIMA0_CCP0'', 0xb), (''I2C0_SCL'', 0xc)]"

definition IOMUX_PINCM6_PF :: "(string \<times> u32) list" where
  "IOMUX_PINCM6_PF =
    [(''UNCONNECTED'', 0), (''GPIOA_DIO03'', 1), (''TIMG8_CCP0'', 2), (''SPI0_CS1_POCI1'', 3), (''I2C1_SDA'', 4),
     (''TIMA0_CCP1'', 5), (''TIMG2_CCP0'', 7), (''TIMA0_CCP2'', 8), (''UART2_CTS'', 9), (''UART1_TX'', 0xa),
     (''SPI0_CS3_CD_POCI3'', 0xb), (''I2C0_SDA'', 0xc), (''COMP0_OUT'', 0xe)]"

definition IOMUX_PINCM7_PF :: "(string \<times> u32) list" where
  "IOMUX_PINCM7_PF =
    [(''UNCONNECTED'', 0), (''GPIOA_DIO04'', 1), (''TIMG8_CCP1'', 2), (''SPI0_POCI'', 3), (''I2C1_SCL'', 4),
     (''TIMA0_CCP1_CMPL'', 5), (''SYSCTL_LFCLKIN'', 6), (''TIMG2_CCP1'', 7), (''TIMA0_CCP3'', 8), (''UART2_RTS'', 9),
     (''UART1_RX'', 0xa), (''SPI0_CS0'', 0xb), (''TIMA0_CCP0_CMPL'', 0xc), (''SYSCTL_HFCLKIN'', 0xd)]"

definition IOMUX_PINCM8_PF :: "(string \<times> u32) list" where
  "IOMUX_PINCM8_PF =
    [(''UNCONNECTED'', 0), (''GPIOA_DIO05'', 1), (''TIMG8_CCP0'', 2), (''SPI0_PICO'', 3), (''I2C1_SDA'', 4),
     (''TIMG14_CCP0'', 5), (''SYSCTL_FCC_IN'', 6), (''TIMG1_CCP0'', 7), (''TIMA_FAULT1'', 8), (''UART0_CTS'', 9),
     (''UART1_TX'', 0xb), (''TIMA0_CCP1'', 0xc)]"

definition IOMUX_PINCM9_PF :: "(string \<times> u32) list" where
  "IOMUX_PINCM9_PF =
    [(''UNCONNECTED'', 0), (''GPIOA_DIO06'', 1), (''TIMG8_CCP1'', 2), (''SPI0_SCLK'', 3), (''I2C1_SCL'', 4),
     (''TIMG14_CCP1'', 5), (''SYSCTL_HFCLKIN'', 6), (''TIMG1_CCP1'', 7), (''TIMA_FAULT0'', 8), (''UART0_RTS'', 9),
     (''TIMA0_CCP2_CMPL'', 0xa), (''UART1_RX'', 0xb), (''TIMA0_CCP2'', 0xc), (''I2C0_SDA'', 0xd),
     (''SYSCTL_BEEPER'', 0xe)]"

definition IOMUX_PINCM10_PF :: "(string \<times> u32) list" where
  "IOMUX_PINCM10_PF =
    [(''UNCONNECTED'', 0), (''GPIOA_DIO07'', 1), (''SYSCTL_CLK_OUT'', 2), (''TIMG8_CCP0'', 3), (''TIMA0_CCP2'', 4),
     (''TIMG8_IDX'', 5), (''TIMG2_CCP1'', 6), (''TIMA0_CCP1'', 7), (''SPI0_CS2_POCI2'', 8), (''SYSCTL_FCC_IN'', 9),
     (''SPI0_POCI'', 0xa), (''SPI0_PICO'', 0xb), (''UART1_TX'', 0xc), (''TIMG1_CCP0'', 0xd), (''COMP0_OUT'', 0xe)]"

definition IOMUX_PINCM11_PF :: "(string \<times> u32) list" where
  "IOMUX_PINCM11_PF =
    [(''UNCONNECTED'', 0), (''GPIOB_DIO02'', 1), (''UART2_CTS'', 3), (''I2C1_SCL'', 4), (''TIMA0_CCP3'', 5),
     (''UART1_CTS'', 6), (''TIMG1_CCP0'', 7), (''UART2_TX'', 8), (''SYSCTL_HFCLKIN'', 0xa), (''SPI0_PICO'', 0xb),
     (''UART1_RX'', 0xc), (''TIMA0_CCP1_CMPL'', 0xd)]"

definition IOMUX_PINCM12_PF :: "(string \<times> u32) list" where
  "IOMUX_PINCM12_PF =
    [(''UNCONNECTED'', 0), (''GPIOB_DIO03'', 1), (''TIMA_FAULT0'', 2), (''UART2_RTS'', 3), (''I2C1_SDA'', 4),
     (''TIMA0_CCP3_CMPL'', 5), (''UART1_RTS'', 6), (''TIMG1_CCP1'', 7), (''UART2_RX'', 8), (''TIMG2_CCP1'', 9),
     (''TIMA0_CCP0'', 0xa), (''SPI0_SCLK'', 0xb), (''SPI0_CS0'', 0xc), (''UART1_TX'', 0xd), (''LFSS_RTC_OUT'', 0xe)]"

definition IOMUX_PINCM13_PF :: "(string \<times> u32) list" where
  "IOMUX_PINCM13_PF =
    [(''UNCONNECTED'', 0), (''GPIOA_DIO08'', 1), (''UART1_TX'', 2), (''SPI0_CS0'', 3), (''I2C0_SDA'', 4),
     (''TIMA0_CCP0'', 5), (''TIMA_FAULT2'', 6), (''TIMA_FAULT0'', 7), (''SPI0_CS3_CD_POCI3'', 8), (''TIMG2_CCP1'', 9),
     (''SYSCTL_HFCLKIN'', 0xa), (''UART0_RTS'', 0xb), (''SPI0_SCLK'', 0xc), (''UART1_RX'', 0xd),
     (''TIMA0_CCP3_CMPL'', 0xe)]"

definition IOMUX_PINCM14_PF :: "(string \<times> u32) list" where
  "IOMUX_PINCM14_PF =
    [(''UNCONNECTED'', 0), (''GPIOA_DIO09'', 1), (''UART1_RX'', 2), (''SPI0_PICO'', 3), (''I2C0_SCL'', 4),
     (''TIMA0_CCP0_CMPL'', 5), (''SYSCTL_CLK_OUT'', 6), (''TIMA0_CCP1'', 7), (''LFSS_RTC_OUT'', 8), (''TIMG2_CCP0'', 9),
     (''SPI0_POCI'', 0xa), (''UART0_CTS'', 0xb), (''TIMA_FAULT1'', 0xc), (''TIMG1_CCP1'', 0xd)]"

definition IOMUX_PINCM15_PF :: "(string \<times> u32) list" where
  "IOMUX_PINCM15_PF =
    [(''UNCONNECTED'', 0), (''GPIOA_DIO10'', 1), (''UART0_TX'', 2), (''SPI0_POCI'', 3), (''I2C0_SDA'', 4),
     (''TIMA0_CCP2'', 5), (''SYSCTL_CLK_OUT'', 6), (''TIMG14_CCP0'', 7), (''I2C1_SDA'', 8), (''TIMA_FAULT1'', 0xa),
     (''TIMG2_CCP1'', 0xb), (''TIMA0_CCP1_CMPL'', 0xc), (''TIMG8_CCP1'', 0xd), (''SPI0_PICO'', 0xe)]"

definition IOMUX_PINCM16_PF :: "(string \<times> u32) list" where
  "IOMUX_PINCM16_PF =
    [(''UNCONNECTED'', 0), (''GPIOA_DIO11'', 1), (''UART0_RX'', 2), (''SPI0_SCLK'', 3), (''I2C0_SCL'', 4),
     (''TIMA0_CCP2_CMPL'', 5), (''UART1_RX'', 6), (''TIMG14_CCP1'', 7), (''I2C1_SCL'', 8), (''TIMA_FAULT0'', 0xa),
     (''SPI0_CS0'', 0xc), (''COMP0_OUT'', 0xe)]"

definition IOMUX_PINCM17_PF :: "(string \<times> u32) list" where
  "IOMUX_PINCM17_PF =
    [(''UNCONNECTED'', 0), (''GPIOB_DIO06'', 1), (''UART1_TX'', 2), (''TIMG8_CCP0'', 5), (''UART2_CTS'', 6),
     (''TIMG1_CCP0'', 7), (''TIMA_FAULT2'', 8), (''SPI0_CS1_POCI1'', 9), (''TIMA0_CCP3_CMPL'', 0xb),
     (''TIMG8_CCP1'', 0xc), (''TIMA0_CCP2_CMPL'', 0xd), (''UART0_TX'', 0xe)]"

definition IOMUX_PINCM18_PF :: "(string \<times> u32) list" where
  "IOMUX_PINCM18_PF =
    [(''UNCONNECTED'', 0), (''GPIOB_DIO07'', 1), (''UART1_RX'', 2), (''TIMG8_CCP1'', 5), (''UART2_RTS'', 6),
     (''TIMG1_CCP1'', 7), (''SPI0_CS2_POCI2'', 9), (''SYSCTL_BEEPER'', 0xc), (''SPI0_SCLK'', 0xd), (''UART0_RX'', 0xe)]"

definition IOMUX_PINCM19_PF :: "(string \<times> u32) list" where
  "IOMUX_PINCM19_PF =
    [(''UNCONNECTED'', 0), (''GPIOB_DIO08'', 1), (''UART1_CTS'', 2), (''TIMA0_CCP0'', 3), (''TIMG1_CCP0'', 5),
     (''SPI0_SCLK'', 7), (''SYSCTL_BEEPER'', 8), (''TIMG8_CCP0'', 9), (''UART0_RX'', 0xa), (''SPI0_POCI'', 0xb),
     (''I2C0_SCL'', 0xc), (''COMP0_OUT'', 0xe)]"

definition IOMUX_PINCM20_PF :: "(string \<times> u32) list" where
  "IOMUX_PINCM20_PF =
    [(''UNCONNECTED'', 0), (''GPIOB_DIO09'', 1), (''UART1_RTS'', 2), (''TIMA0_CCP0_CMPL'', 5), (''TIMA0_CCP1'', 6),
     (''TIMG1_CCP1'', 7), (''TIMG2_CCP0'', 8), (''SPI0_POCI'', 0xa), (''UART0_RX'', 0xb), (''I2C0_SCL'', 0xc),
     (''UART0_TX'', 0xd), (''I2C0_SDA'', 0xe)]"

definition IOMUX_PINCM21_PF :: "(string \<times> u32) list" where
  "IOMUX_PINCM21_PF =
    [(''UNCONNECTED'', 0), (''GPIOB_DIO14'', 1), (''TIMA0_CCP0'', 5), (''TIMG8_IDX'', 6), (''SPI0_CS3_CD_POCI3'', 7),
     (''TIMG2_CCP1'', 8), (''I2C0_SDA'', 9), (''SPI0_PICO'', 0xa), (''UART0_TX'', 0xb), (''TIMA_FAULT2'', 0xc),
     (''TIMA_FAULT0'', 0xd), (''TIMG14_CCP2'', 0xe)]"

definition IOMUX_PINCM22_PF :: "(string \<times> u32) list" where
  "IOMUX_PINCM22_PF =
    [(''UNCONNECTED'', 0), (''GPIOB_DIO15'', 1), (''UART2_TX'', 2), (''TIMG8_CCP0'', 5), (''TIMG2_CCP0'', 6),
     (''TIMA0_CCP1_CMPL'', 0xc), (''UART1_TX'', 0xd), (''TIMG2_CCP1'', 0xe)]"

definition IOMUX_PINCM23_PF :: "(string \<times> u32) list" where
  "IOMUX_PINCM23_PF =
    [(''UNCONNECTED'', 0), (''GPIOB_DIO16'', 1), (''UART2_RX'', 2), (''TIMG8_CCP1'', 5), (''TIMG2_CCP1'', 6),
     (''TIMA0_CCP2_CMPL'', 0xc), (''UART1_RX'', 0xd), (''I2C1_SDA'', 0xe)]"

definition IOMUX_PINCM24_PF :: "(string \<times> u32) list" where
  "IOMUX_PINCM24_PF =
    [(''UNCONNECTED'', 0), (''GPIOA_DIO12'', 1), (''SPI0_SCLK'', 2), (''TIMA0_CCP3'', 4), (''SYSCTL_FCC_IN'', 5),
     (''TIMG14_CCP0'', 6), (''SPI0_CS1_POCI1'', 8), (''UART2_CTS'', 9), (''UART1_CTS'', 0xa), (''TIMA0_CCP3_CMPL'', 0xb),
     (''I2C1_SCL'', 0xc), (''TIMG2_CCP1'', 0xd), (''COMP0_OUT'', 0xe)]"

definition IOMUX_PINCM25_PF :: "(string \<times> u32) list" where
  "IOMUX_PINCM25_PF =
    [(''UNCONNECTED'', 0), (''GPIOA_DIO13'', 1), (''UART0_RX'', 2), (''SPI0_POCI'', 3), (''TIMA0_CCP2_CMPL'', 4),
     (''TIMA0_CCP3_CMPL'', 5), (''LFSS_RTC_OUT'', 6), (''TIMG14_CCP1'', 7), (''TIMG14_CCP3'', 8),
     (''SPI0_CS3_CD_POCI3'', 9), (''UART2_TX'', 0xa), (''UART1_RTS'', 0xb), (''SPI0_CS0'', 0xc), (''TIMG8_CCP1'', 0xd),
     (''TIMA0_CCP1'', 0xe)]"

definition IOMUX_PINCM26_PF :: "(string \<times> u32) list" where
  "IOMUX_PINCM26_PF =
    [(''UNCONNECTED'', 0), (''GPIOA_DIO14'', 1), (''UART0_CTS'', 2), (''SPI0_PICO'', 3), (''TIMG1_CCP0'', 4),
     (''SYSCTL_CLK_OUT'', 6), (''SPI0_CS2_POCI2'', 9), (''UART2_RX'', 0xa), (''I2C0_SCL'', 0xc), (''UART0_TX'', 0xd),
     (''TIMA0_CCP2'', 0xe)]"

definition IOMUX_PINCM27_PF :: "(string \<times> u32) list" where
  "IOMUX_PINCM27_PF =
    [(''UNCONNECTED'', 0), (''GPIOA_DIO15'', 1), (''UART0_RTS'', 2), (''SPI0_CS2_POCI2'', 3), (''I2C1_SCL'', 4),
     (''TIMA0_CCP2'', 5), (''TIMG8_IDX'', 7), (''UART2_RTS'', 0xa), (''TIMG14_CCP1'', 0xc)]"

definition IOMUX_PINCM28_PF :: "(string \<times> u32) list" where
  "IOMUX_PINCM28_PF =
    [(''UNCONNECTED'', 0), (''GPIOA_DIO16'', 1), (''SPI0_POCI'', 3), (''I2C1_SDA'', 4), (''TIMA0_CCP2_CMPL'', 5),
     (''SYSCTL_FCC_IN'', 7), (''UART2_CTS'', 0xa), (''TIMG14_CCP2'', 0xc), (''COMP0_OUT'', 0xe)]"

definition IOMUX_PINCM29_PF :: "(string \<times> u32) list" where
  "IOMUX_PINCM29_PF =
    [(''UNCONNECTED'', 0), (''GPIOA_DIO17'', 1), (''UART1_TX'', 2), (''TIMA0_CCP2'', 3), (''I2C1_SCL'', 4),
     (''TIMA0_CCP3'', 5), (''TIMG2_CCP0'', 6), (''TIMG8_CCP0'', 7), (''TIMA0_CCP0_CMPL'', 8), (''SPI0_CS1_POCI1'', 9),
     (''SPI0_SCLK'', 0xa), (''I2C0_SDA'', 0xb), (''UART0_RX'', 0xc)]"

definition IOMUX_PINCM30_PF :: "(string \<times> u32) list" where
  "IOMUX_PINCM30_PF =
    [(''UNCONNECTED'', 0), (''GPIOA_DIO18'', 1), (''UART1_RX'', 2), (''UART1_RTS'', 3), (''I2C1_SDA'', 4),
     (''TIMA0_CCP3_CMPL'', 5), (''TIMG2_CCP1'', 6), (''TIMG8_CCP1'', 7), (''SPI0_PICO'', 8), (''SPI0_CS0'', 9),
     (''TIMA0_CCP1_CMPL'', 0xa), (''TIMA0_CCP0'', 0xb), (''SPI0_POCI'', 0xc), (''TIMA_FAULT2'', 0xd),
     (''SYSCTL_CLK_OUT'', 0xe)]"

definition IOMUX_PINCM31_PF :: "(string \<times> u32) list" where
  "IOMUX_PINCM31_PF =
    [(''UNCONNECTED'', 0), (''GPIOA_DIO29'', 1), (''UART0_RTS'', 2), (''SPI0_PICO'', 3)]"

definition IOMUX_PINCM32_PF :: "(string \<times> u32) list" where
  "IOMUX_PINCM32_PF =
    [(''UNCONNECTED'', 0), (''GPIOA_DIO19'', 1), (''DEBUGSS_SWDIO'', 2), (''SPI0_SCLK'', 3), (''I2C1_SDA'', 4),
     (''TIMA0_CCP2'', 5), (''TIMG14_CCP0'', 6), (''SPI0_POCI'', 7), (''UART0_CTS'', 8), (''UART1_RX'', 0xb),
     (''SPI0_PICO'', 0xd)]"

definition IOMUX_PINCM33_PF :: "(string \<times> u32) list" where
  "IOMUX_PINCM33_PF =
    [(''UNCONNECTED'', 0), (''GPIOA_DIO20'', 1), (''DEBUGSS_SWCLK'', 2), (''TIMA_FAULT1'', 3), (''I2C1_SCL'', 4),
     (''TIMA0_CCP2_CMPL'', 5), (''TIMG14_CCP1'', 6), (''SPI0_PICO'', 7), (''TIMA0_CCP0'', 8), (''UART0_RTS'', 0xa),
     (''UART1_TX'', 0xb), (''SPI0_CS0'', 0xc), (''UART1_RX'', 0xd)]"

definition IOMUX_PINCM34_PF :: "(string \<times> u32) list" where
  "IOMUX_PINCM34_PF =
    [(''UNCONNECTED'', 0), (''GPIOB_DIO17'', 1), (''UART2_TX'', 2), (''SPI0_PICO'', 3), (''I2C0_SCL'', 4),
     (''TIMA0_CCP2'', 5), (''TIMG14_CCP0'', 6), (''TIMG1_CCP0'', 9), (''SPI0_CS0'', 0xa)]"

definition IOMUX_PINCM35_PF :: "(string \<times> u32) list" where
  "IOMUX_PINCM35_PF =
    [(''UNCONNECTED'', 0), (''GPIOB_DIO18'', 1), (''UART2_RX'', 2), (''SPI0_SCLK'', 3), (''I2C0_SDA'', 4),
     (''TIMA0_CCP2_CMPL'', 5), (''TIMG14_CCP1'', 6), (''SPI0_CS0'', 7), (''TIMG1_CCP1'', 9), (''TIMA0_CCP1'', 0xc),
     (''UART0_RTS'', 0xd)]"

definition IOMUX_PINCM36_PF :: "(string \<times> u32) list" where
  "IOMUX_PINCM36_PF =
    [(''UNCONNECTED'', 0), (''GPIOB_DIO19'', 1), (''SPI0_POCI'', 3), (''TIMG8_CCP1'', 4), (''UART0_CTS'', 5),
     (''TIMG2_CCP1'', 6), (''TIMG8_IDX'', 7), (''UART2_CTS'', 8), (''TIMA0_CCP1_CMPL'', 0xc), (''UART2_RX'', 0xd),
     (''COMP0_OUT'', 0xe)]"

definition IOMUX_PINCM37_PF :: "(string \<times> u32) list" where
  "IOMUX_PINCM37_PF =
    [(''UNCONNECTED'', 0), (''GPIOA_DIO21'', 1), (''UART2_TX'', 2), (''SPI0_CS3_CD_POCI3'', 3), (''UART1_CTS'', 4),
     (''TIMA0_CCP0'', 5), (''TIMG1_CCP0'', 6), (''UART2_CTS'', 8), (''TIMG8_CCP0'', 0xa), (''TIMA0_CCP0_CMPL'', 0xc),
     (''UART2_RX'', 0xd)]"

definition IOMUX_PINCM38_PF :: "(string \<times> u32) list" where
  "IOMUX_PINCM38_PF =
    [(''UNCONNECTED'', 0), (''GPIOA_DIO22'', 1), (''UART2_RX'', 2), (''SPI0_CS2_POCI2'', 3), (''UART1_RTS'', 4),
     (''TIMA0_CCP0_CMPL'', 5), (''TIMG1_CCP1'', 6), (''TIMA0_CCP1'', 7), (''SYSCTL_CLK_OUT'', 8), (''I2C0_SCL'', 9),
     (''TIMG8_CCP1'', 0xa), (''UART1_RX'', 0xb), (''SPI0_POCI'', 0xc), (''UART2_TX'', 0xd)]"

definition IOMUX_PINCM39_PF :: "(string \<times> u32) list" where
  "IOMUX_PINCM39_PF =
    [(''UNCONNECTED'', 0), (''GPIOB_DIO20'', 1), (''SPI0_CS2_POCI2'', 2), (''TIMA0_CCP2'', 5), (''TIMA_FAULT1'', 6),
     (''TIMA0_CCP1'', 7), (''UART2_RTS'', 8), (''I2C0_SDA'', 9), (''UART1_CTS'', 0xc), (''TIMA0_CCP2_CMPL'', 0xd),
     (''TIMG8_CCP1'', 0xe)]"

definition IOMUX_PINCM40_PF :: "(string \<times> u32) list" where
  "IOMUX_PINCM40_PF =
    [(''UNCONNECTED'', 0), (''GPIOB_DIO24'', 1), (''SPI0_CS3_CD_POCI3'', 2), (''SPI0_CS1_POCI1'', 3),
     (''TIMA0_CCP3'', 5), (''TIMA0_CCP1_CMPL'', 6), (''UART2_RTS'', 8), (''SPI0_SCLK'', 0xc), (''TIMG14_CCP2'', 0xd),
     (''UART0_RTS'', 0xe)]"

definition IOMUX_PINCM41_PF :: "(string \<times> u32) list" where
  "IOMUX_PINCM41_PF =
    [(''UNCONNECTED'', 0), (''GPIOA_DIO23'', 1), (''UART2_TX'', 2), (''SPI0_CS3_CD_POCI3'', 3), (''TIMA0_CCP3'', 5),
     (''TIMG8_CCP0'', 6), (''TIMG2_CCP0'', 7), (''UART0_TX'', 8), (''TIMG14_CCP0'', 9), (''SPI0_POCI'', 0xc),
     (''UART0_CTS'', 0xd)]"

definition IOMUX_PINCM42_PF :: "(string \<times> u32) list" where
  "IOMUX_PINCM42_PF =
    [(''UNCONNECTED'', 0), (''GPIOA_DIO24'', 1), (''UART2_RX'', 2), (''SPI0_CS2_POCI2'', 3), (''UART0_RTS'', 4),
     (''TIMA0_CCP3_CMPL'', 5), (''TIMG8_CCP1'', 6), (''TIMG2_CCP1'', 7), (''UART1_RX'', 8), (''TIMG14_CCP1'', 9),
     (''SPI0_PICO'', 0xc), (''I2C0_SDA'', 0xd)]"

definition IOMUX_PINCM43_PF :: "(string \<times> u32) list" where
  "IOMUX_PINCM43_PF =
    [(''UNCONNECTED'', 0), (''GPIOA_DIO25'', 1), (''SPI0_PICO'', 2), (''SPI0_POCI'', 3), (''SPI0_SCLK'', 4),
     (''TIMA0_CCP3'', 5), (''TIMA0_CCP1_CMPL'', 6), (''TIMA0_CCP2'', 7), (''UART2_CTS'', 8), (''TIMG14_CCP0'', 9),
     (''TIMG1_CCP0'', 0xa), (''I2C0_SDA'', 0xb), (''UART0_TX'', 0xc), (''TIMA_FAULT2'', 0xd), (''I2C0_SCL'', 0xe)]"

definition IOMUX_PINCM44_PF :: "(string \<times> u32) list" where
  "IOMUX_PINCM44_PF =
    [(''UNCONNECTED'', 0), (''GPIOA_DIO26'', 1), (''SYSCTL_BEEPER'', 2), (''SPI0_POCI'', 3), (''TIMG8_CCP0'', 4),
     (''TIMA_FAULT0'', 5), (''TIMA0_CCP3_CMPL'', 6), (''TIMG2_CCP0'', 7), (''UART2_RTS'', 8), (''I2C0_SCL'', 9),
     (''TIMG1_CCP1'', 0xa), (''UART0_RX'', 0xb), (''TIMA0_CCP0'', 0xc), (''I2C0_SDA'', 0xd), (''UART1_CTS'', 0xe)]"

definition IOMUX_PINCM45_PF :: "(string \<times> u32) list" where
  "IOMUX_PINCM45_PF =
    [(''UNCONNECTED'', 0), (''GPIOA_DIO27'', 1), (''SPI0_CS3_CD_POCI3'', 2), (''TIMA0_CCP0_CMPL'', 3),
     (''TIMG8_CCP1'', 4), (''TIMA_FAULT2'', 5), (''SYSCTL_CLK_OUT'', 6), (''TIMG2_CCP1'', 7), (''LFSS_RTC_OUT'', 8),
     (''UART1_CTS'', 9), (''I2C0_SCL'', 0xa), (''UART0_TX'', 0xb), (''SPI0_POCI'', 0xc), (''COMP0_OUT'', 0xe)]"

definition IOMUX_PINCM46_PF :: "(string \<times> u32) list" where
  "IOMUX_PINCM46_PF =
    [(''UNCONNECTED'', 0), (''GPIOA_DIO30'', 1), (''UART0_RX'', 4), (''TIMG8_IDX'', 5), (''TIMA0_CCP0'', 6),
     (''UART1_RTS'', 9), (''TIMG2_CCP1'', 0xa), (''TIMG14_CCP2'', 0xb), (''I2C0_SDA'', 0xc)]"

definition IOMUX_PINCM :: "(string \<times> u32) list list" where
  "IOMUX_PINCM =
    [IOMUX_PINCM1_PF, IOMUX_PINCM2_PF, IOMUX_PINCM3_PF, IOMUX_PINCM4_PF, IOMUX_PINCM5_PF, IOMUX_PINCM6_PF,
     IOMUX_PINCM7_PF, IOMUX_PINCM8_PF, IOMUX_PINCM9_PF, IOMUX_PINCM10_PF, IOMUX_PINCM11_PF, IOMUX_PINCM12_PF,
     IOMUX_PINCM13_PF, IOMUX_PINCM14_PF, IOMUX_PINCM15_PF, IOMUX_PINCM16_PF, IOMUX_PINCM17_PF, IOMUX_PINCM18_PF,
     IOMUX_PINCM19_PF, IOMUX_PINCM20_PF, IOMUX_PINCM21_PF, IOMUX_PINCM22_PF, IOMUX_PINCM23_PF, IOMUX_PINCM24_PF,
     IOMUX_PINCM25_PF, IOMUX_PINCM26_PF, IOMUX_PINCM27_PF, IOMUX_PINCM28_PF, IOMUX_PINCM29_PF, IOMUX_PINCM30_PF,
     IOMUX_PINCM31_PF, IOMUX_PINCM32_PF, IOMUX_PINCM33_PF, IOMUX_PINCM34_PF, IOMUX_PINCM35_PF, IOMUX_PINCM36_PF,
     IOMUX_PINCM37_PF, IOMUX_PINCM38_PF, IOMUX_PINCM39_PF, IOMUX_PINCM40_PF, IOMUX_PINCM41_PF, IOMUX_PINCM42_PF,
     IOMUX_PINCM43_PF, IOMUX_PINCM44_PF, IOMUX_PINCM45_PF, IOMUX_PINCM46_PF]"

lemmas pin_defs = IOMUX_PINCM1_PF_def IOMUX_PINCM2_PF_def IOMUX_PINCM3_PF_def IOMUX_PINCM4_PF_def
  IOMUX_PINCM5_PF_def IOMUX_PINCM6_PF_def IOMUX_PINCM7_PF_def IOMUX_PINCM8_PF_def IOMUX_PINCM9_PF_def
  IOMUX_PINCM10_PF_def IOMUX_PINCM11_PF_def IOMUX_PINCM12_PF_def IOMUX_PINCM13_PF_def IOMUX_PINCM14_PF_def
  IOMUX_PINCM15_PF_def IOMUX_PINCM16_PF_def IOMUX_PINCM17_PF_def IOMUX_PINCM18_PF_def IOMUX_PINCM19_PF_def
  IOMUX_PINCM20_PF_def IOMUX_PINCM21_PF_def IOMUX_PINCM22_PF_def IOMUX_PINCM23_PF_def IOMUX_PINCM24_PF_def
  IOMUX_PINCM25_PF_def IOMUX_PINCM26_PF_def IOMUX_PINCM27_PF_def IOMUX_PINCM28_PF_def IOMUX_PINCM29_PF_def
  IOMUX_PINCM30_PF_def IOMUX_PINCM31_PF_def IOMUX_PINCM32_PF_def IOMUX_PINCM33_PF_def IOMUX_PINCM34_PF_def
  IOMUX_PINCM35_PF_def IOMUX_PINCM36_PF_def IOMUX_PINCM37_PF_def IOMUX_PINCM38_PF_def IOMUX_PINCM39_PF_def
  IOMUX_PINCM40_PF_def IOMUX_PINCM41_PF_def IOMUX_PINCM42_PF_def IOMUX_PINCM43_PF_def IOMUX_PINCM44_PF_def
  IOMUX_PINCM45_PF_def IOMUX_PINCM46_PF_def

text \<open>The functions of a pin have different codes of six bits, and the digital function is the first of every pin that has
  one, as the GPIO driver assumes.\<close>

definition pin_ok :: "(string \<times> u32) list \<Rightarrow> bool" where
  "pin_ok fs \<longleftrightarrow> distinct (map snd fs) \<and> list_all (\<lambda>(n, v). v AND 0x3f = v) fs
     \<and> list_all (\<lambda>(n, v). take 4 n = ''GPIO'' \<longrightarrow> v = 1) fs"

lemma pins_ok: "list_all pin_ok IOMUX_PINCM"
  by (simp add: IOMUX_PINCM_def, (intro conjI; simp add: pin_ok_def pin_defs))

end
