(* ===== verification/Register_Programming.thy ===== *)
theory Register_Programming
  imports Device_Tables Device_Registers Board Startup Pin_Functions
begin

text \<open>
  The words the drivers write, in the terms of the headers: the constants of the drivers are the macros the sources name,
  and every word written at start-up is made of values that the headers name for the fields of the register it goes to.
\<close>

section \<open>Documented words\<close>

text \<open>The fields of the register an access names.\<close>

definition bits_at :: "reg \<Rightarrow> fields option" where
  "bits_at r = (case location r of None \<Rightarrow> None | Some (p, path) \<Rightarrow> map_of (block_bits p) path)"

text \<open>A field takes its named values, any value between those named its least and its largest, and any value when the
  header names none.\<close>

definition admits :: "(string \<times> u32) list \<Rightarrow> u32 \<Rightarrow> bool" where
  [simp]: "admits vs x \<longleftrightarrow> x \<in> snd ` set vs \<or> vs = []
     \<or> (case (map_of vs ''MINIMUM'', map_of vs ''MAXIMUM'') of (Some a, Some b) \<Rightarrow> a \<le> x \<and> x \<le> b | _ \<Rightarrow> False)"

fun each_admits :: "fields \<Rightarrow> u32 \<Rightarrow> bool" where
  "each_admits [] w \<longleftrightarrow> True"
| "each_admits (Field n k m vs # fs) w \<longleftrightarrow> admits vs (w AND m) \<and> each_admits fs w"

definition documented :: "fields \<Rightarrow> u32 \<Rightarrow> bool" where
  "documented fs w \<longleftrightarrow> w AND NOT (claimed fs) = 0 \<and> each_admits fs w"

text \<open>A word written back with some fields changed: what no field claims stays as it was read.\<close>

definition updated :: "fields \<Rightarrow> u32 \<Rightarrow> u32 \<Rightarrow> bool" where
  "updated fs v w \<longleftrightarrow> w AND NOT (claimed fs) = v AND NOT (claimed fs)
     \<and> (\<forall>f \<in> set fs. w AND field_mask f = v AND field_mask f \<or> admits (field_values f) (w AND field_mask f))"

lemma each_admits_iff: "each_admits fs w \<longleftrightarrow> (\<forall>f \<in> set fs. admits (field_values f) (w AND field_mask f))"
  by (induction fs w rule: each_admits.induct) (simp_all del: admits_def)

text \<open>Every access has the declared right, and every word written is documented, or updates the word that the access
  before read from the same register.\<close>

fun careful :: "(reg \<times> u32) option \<Rightarrow> access list \<Rightarrow> bool" where
  "careful before [] \<longleftrightarrow> True"
| "careful before (Read r v # tr) \<longleftrightarrow> permitted (Read r v) \<and> careful (Some (r, v)) tr"
| "careful before (Write r w # tr) \<longleftrightarrow> permitted (Write r w)
     \<and> (case bits_at r of None \<Rightarrow> False
        | Some fs \<Rightarrow> documented fs w \<or> (case before of None \<Rightarrow> False | Some (r', v) \<Rightarrow> r' = r \<and> updated fs v w))
     \<and> careful None tr"
| "careful before (_ # tr) \<longleftrightarrow> careful None tr"

lemma careful_weaken: "careful None tr \<Longrightarrow> careful before tr"
  by (cases "(None :: (reg \<times> u32) option, tr)" rule: careful.cases) (auto split: option.splits)

lemma careful_append: "careful before tr \<Longrightarrow> careful None tr' \<Longrightarrow> careful before (tr @ tr')"
  by (induction before tr rule: careful.induct) (auto intro: careful_weaken)

lemma careful_nops [simp]: "careful None (replicate n Nop @ tr) \<longleftrightarrow> careful None tr"
  by (induction n) simp_all

lemma bit_claimed: "bit (claimed fs) i \<longleftrightarrow> (\<exists>f \<in> set fs. bit (field_mask f) i)"
  by (induction fs) (auto simp: claimed_Cons bit_or_iff)

lemma bit_small: "bit (a :: u32) i \<Longrightarrow> i < 32"
  using bit_imp_le_length [of a i] by simp

lemma and_zero_iff: "a AND b = 0 \<longleftrightarrow> (\<forall>i. bit a i \<longrightarrow> \<not> bit b i)" for a b :: u32
  unfolding bit_eq_iff [of "a AND b"] by (auto simp: bit_and_iff dest: bit_small)

text \<open>A word in a field that takes any value does not disturb the other fields.\<close>

lemma documented_or_range:
  assumes ok: "fields_ok 0 fs" and f: "Field n j m vs \<in> set fs"
    and range: "map_of vs ''MINIMUM'' = Some 0" "map_of vs ''MAXIMUM'' = Some m"
    and s: "s AND NOT m = 0" and k: "documented fs k"
  shows "documented fs (s OR k)"
  unfolding documented_def each_admits_iff
proof (intro conjI ballI)
  have sm: "bit s i \<Longrightarrow> bit m i" for i
    using s bit_small [of s i] unfolding and_zero_iff by (auto simp: bit_not_iff)
  have c: "bit k i \<Longrightarrow> bit (claimed fs) i" for i
    using k bit_small [of k i] unfolding documented_def and_zero_iff by (auto simp: bit_not_iff)
  show "(s OR k) AND NOT (claimed fs) = 0"
  proof -
    have "bit m i \<Longrightarrow> bit (claimed fs) i" for i
      unfolding bit_claimed using f by (rule bexI [rotated]) simp
    then show ?thesis unfolding and_zero_iff using sm c by (auto simp: bit_or_iff bit_not_iff)
  qed
  fix g assume g: "g \<in> set fs"
  show "admits (field_values g) ((s OR k) AND field_mask g)"
  proof (cases "g = Field n j m vs")
    case True
    then show ?thesis using range by (simp add: word_and_le1)
  next
    case False
    have "m AND field_mask g = 0" using fields_ok_disjoint [OF ok f g] False by simp
    then have "(s OR k) AND field_mask g = k AND field_mask g"
      using sm by (intro bit_word_eqI) (auto simp: bit_simps and_zero_iff)
    then show ?thesis using k g by (simp add: documented_def each_admits_iff)
  qed
qed

section \<open>The constants of the drivers\<close>

text \<open>A disjunction of macros, \<open>R_F_V | ...\<close>.\<close>

fun or_macros :: "(fields \<times> string \<times> string) list \<Rightarrow> u32 option" where
  "or_macros [] = Some 0"
| "or_macros ((fs, f, v) # ms) = (case (macro fs f v, or_macros ms) of (Some a, Some b) \<Rightarrow> Some (a OR b) | _ \<Rightarrow> None)"

text \<open>The constants the models of the drivers use are the macros that the sources name, as the tables have them.\<close>

lemma i2c_target_constants:
  "or_macros [(I2C_RSTCTL_Bits, ''KEY'', ''UNLOCK_W''), (I2C_RSTCTL_Bits, ''RESETSTKYCLR'', ''CLR''), (I2C_RSTCTL_Bits,
    ''RESETASSERT'', ''ASSERT'')] = Some I2C_RESET"
  "or_macros [(I2C_PWREN_Bits, ''KEY'', ''UNLOCK_W''), (I2C_PWREN_Bits, ''ENABLE'', ''ENABLE'')] = Some I2C_POWER_ON"
  "or_macros [(IOMUX_PINCM_Bits, ''PC'', ''CONNECTED''), (IOMUX_PINCM_Bits, ''INENA'', ''ENABLE''), (IOMUX_PINCM_Bits,
    ''HIZ1'', ''ENABLE'')] = Some PINCM_OPEN_DRAIN"
  "or_macros [(I2C_CPU_INT_IMASK_Bits, ''SRXDONE'', ''SET''), (I2C_CPU_INT_IMASK_Bits, ''STXDONE'', ''SET''),
    (I2C_CPU_INT_IMASK_Bits, ''STXEMPTY'', ''SET''), (I2C_CPU_INT_IMASK_Bits, ''SSTART'', ''SET''), (I2C_CPU_INT_IMASK_Bits,
    ''SSTOP'', ''SET''), (I2C_CPU_INT_IMASK_Bits, ''TIMEOUTA'', ''SET''), (I2C_CPU_INT_IMASK_Bits, ''STX_UNFL'', ''SET''),
    (I2C_CPU_INT_IMASK_Bits, ''SRX_OVFL'', ''SET''), (I2C_CPU_INT_IMASK_Bits, ''SARBLOST'', ''SET''),
    (I2C_CPU_INT_IMASK_Bits, ''INTR_OVFL'', ''SET'')] = Some HAL_I2C_TARGET_INTERRUPT_MASK"
  "or_macros [(I2C_SCTR_Bits, ''ACTIVE'', ''DISABLE''), (I2C_SCTR_Bits, ''GENCALL'', ''DISABLE''), (I2C_SCTR_Bits,
    ''SCLKSTRETCH'', ''ENABLE''), (I2C_SCTR_Bits, ''TXEMPTY_ON_TREQ'', ''ENABLE''), (I2C_SCTR_Bits, ''TXWAIT_STALE_TXFIFO'',
    ''ENABLE''), (I2C_SCTR_Bits, ''RXFULL_ON_RREQ'', ''DISABLE''), (I2C_SCTR_Bits, ''EN_DEFHOSTADR'', ''DISABLE''),
    (I2C_SCTR_Bits, ''EN_ALRESPADR'', ''DISABLE''), (I2C_SCTR_Bits, ''EN_DEFDEVADR'', ''DISABLE''), (I2C_SCTR_Bits,
    ''SWUEN'', ''DISABLE'')] = Some SCTR_CONFIG"
  "or_macros [(I2C_SCTR_Bits, ''ACTIVE'', ''ENABLE'')] = Some SCTR_ACTIVE"
  "mask_macro I2C_CPU_INT_IIDX_Bits ''STAT'' = Some IIDX_STAT_MASK"
  "or_macros [(I2C_CPU_INT_IIDX_Bits, ''STAT'', ''NO_INTR'')] = Some IIDX_NO_INTR"
  "or_macros [(I2C_CPU_INT_IIDX_Bits, ''STAT'', ''TIMEOUTA'')] = Some IIDX_TIMEOUTA"
  "or_macros [(I2C_CPU_INT_IIDX_Bits, ''STAT'', ''SRXDONEFG'')] = Some IIDX_SRXDONE"
  "or_macros [(I2C_CPU_INT_IIDX_Bits, ''STAT'', ''STXDONEFG'')] = Some IIDX_STXDONE"
  "or_macros [(I2C_CPU_INT_IIDX_Bits, ''STAT'', ''STXEMPTY'')] = Some IIDX_STXEMPTY"
  "or_macros [(I2C_CPU_INT_IIDX_Bits, ''STAT'', ''SSTARTFG'')] = Some IIDX_SSTART"
  "or_macros [(I2C_CPU_INT_IIDX_Bits, ''STAT'', ''SSTOPFG'')] = Some IIDX_SSTOP"
  "or_macros [(I2C_CPU_INT_IIDX_Bits, ''STAT'', ''STX_UNFL'')] = Some IIDX_STX_UNFL"
  "or_macros [(I2C_CPU_INT_IIDX_Bits, ''STAT'', ''SRX_OVFL'')] = Some IIDX_SRX_OVFL"
  "or_macros [(I2C_CPU_INT_IIDX_Bits, ''STAT'', ''SARBLOST'')] = Some IIDX_SARBLOST"
  "or_macros [(I2C_CPU_INT_IIDX_Bits, ''STAT'', ''INTR_OVFL'')] = Some IIDX_INTR_OVFL"
  "or_macros [(I2C_CPU_INT_RIS_Bits, ''SSTART'', ''SET'')] = Some RIS_SSTART"
  "or_macros [(I2C_SSR_Bits, ''TREQ'', ''SET'')] = Some SSR_TREQ"
  "mask_macro IOMUX_PINCM_Bits ''PF'' = Some PINCM_PF_MASK"
  by (simp_all add: I2C_RESET_def I2C_POWER_ON_def PINCM_OPEN_DRAIN_def
      HAL_I2C_TARGET_INTERRUPT_MASK_def SCTR_CONFIG_def SCTR_ACTIVE_def IIDX_STAT_MASK_def IIDX_NO_INTR_def
      IIDX_TIMEOUTA_def IIDX_SRXDONE_def IIDX_STXDONE_def IIDX_STXEMPTY_def IIDX_SSTART_def IIDX_SSTOP_def
      IIDX_STX_UNFL_def IIDX_SRX_OVFL_def IIDX_SARBLOST_def IIDX_INTR_OVFL_def RIS_SSTART_def SSR_TREQ_def
      PINCM_PF_MASK_def I2C_CPU_INT_IIDX_Bits_def I2C_CPU_INT_IMASK_Bits_def I2C_CPU_INT_RIS_Bits_def
      I2C_PWREN_Bits_def I2C_RSTCTL_Bits_def I2C_SCTR_Bits_def I2C_SSR_Bits_def IOMUX_PINCM_Bits_def)

lemma i2c_controller_constants:
  "or_macros [(I2C_CPU_INT_IMASK_Bits, ''MNACK'', ''SET''), (I2C_CPU_INT_IMASK_Bits, ''MARBLOST'', ''SET''),
    (I2C_CPU_INT_IMASK_Bits, ''TIMEOUTA'', ''SET''), (I2C_CPU_INT_IMASK_Bits, ''TIMEOUTB'', ''SET'')] = Some
    HAL_I2C_CONTROLLER_EVENT_MASK"
  "mask_macro IOMUX_PINCM_Bits ''PF'' = Some CTL_PINCM_PF_MASK"
  "or_macros [(IOMUX_PINCM_Bits, ''PC'', ''CONNECTED''), (IOMUX_PINCM_Bits, ''INENA'', ''ENABLE''), (IOMUX_PINCM_Bits,
    ''HIZ1'', ''ENABLE'')] = Some CTL_PINCM_OPEN_DRAIN"
  "mask_macro I2C_MBMON_Bits ''SCL'' = Some MBMON_SCL"
  "mask_macro I2C_MBMON_Bits ''SDA'' = Some MBMON_SDA"
  "or_macros [(I2C_MSR_Bits, ''BUSY'', ''SET'')] = Some MSR_BUSY"
  "or_macros [(I2C_MSR_Bits, ''ERR'', ''SET'')] = Some MSR_ERR"
  "or_macros [(I2C_MSR_Bits, ''ADRACK'', ''SET'')] = Some MSR_ADRACK"
  "or_macros [(I2C_MSR_Bits, ''DATACK'', ''SET'')] = Some MSR_DATACK"
  "or_macros [(I2C_MSR_Bits, ''ARBLST'', ''SET'')] = Some MSR_ARBLST"
  "or_macros [(I2C_CPU_INT_RIS_Bits, ''TIMEOUTA'', ''SET'')] = Some RIS_TIMEOUTA"
  "or_macros [(I2C_MCTR_Bits, ''BURSTRUN'', ''ENABLE'')] = Some MCTR_BURSTRUN"
  "or_macros [(I2C_MCTR_Bits, ''START'', ''ENABLE'')] = Some MCTR_START"
  "or_macros [(I2C_MCTR_Bits, ''STOP'', ''ENABLE'')] = Some MCTR_STOP"
  "or_macros [(I2C_MCTR_Bits, ''RD_ON_TXEMPTY'', ''ENABLE'')] = Some MCTR_RD_ON_TXEMPTY"
  "mask_macro I2C_MFIFOSR_Bits ''RXFIFOCNT'' = Some MFIFOSR_RXFIFOCNT"
  "mask_macro I2C_MFIFOSR_Bits ''TXFIFOCNT'' = Some MFIFOSR_TXFIFOCNT"
  by (simp_all add: HAL_I2C_CONTROLLER_EVENT_MASK_def CTL_PINCM_PF_MASK_def
      CTL_PINCM_OPEN_DRAIN_def MBMON_SCL_def MBMON_SDA_def MSR_BUSY_def MSR_ERR_def MSR_ADRACK_def MSR_DATACK_def
      MSR_ARBLST_def RIS_TIMEOUTA_def MCTR_BURSTRUN_def MCTR_START_def MCTR_STOP_def MCTR_RD_ON_TXEMPTY_def
      MFIFOSR_RXFIFOCNT_def MFIFOSR_TXFIFOCNT_def I2C_CPU_INT_IMASK_Bits_def I2C_CPU_INT_RIS_Bits_def
      I2C_MBMON_Bits_def I2C_MCTR_Bits_def I2C_MFIFOSR_Bits_def I2C_MSR_Bits_def IOMUX_PINCM_Bits_def)

lemma other_driver_constants:
  "or_macros [(UART_RSTCTL_Bits, ''KEY'', ''UNLOCK_W''), (UART_RSTCTL_Bits, ''RESETSTKYCLR'', ''CLR''), (UART_RSTCTL_Bits,
    ''RESETASSERT'', ''ASSERT'')] = Some UART_RESET"
  "or_macros [(UART_PWREN_Bits, ''KEY'', ''UNLOCK_W''), (UART_PWREN_Bits, ''ENABLE'', ''ENABLE'')] = Some UART_POWER_ON"
  "or_macros [(UART_CTL0_Bits, ''ENABLE'', ''ENABLE''), (UART_CTL0_Bits, ''TXE'', ''ENABLE''), (UART_CTL0_Bits, ''FEN'',
    ''ENABLE''), (UART_CTL0_Bits, ''HSE'', ''OVS16'')] = Some UART_CTL0_TX_ON"
  "or_macros [(IOMUX_PINCM_Bits, ''PC'', ''CONNECTED'')] = Some PINCM_CONNECTED"
  "mask_macro IOMUX_PINCM_Bits ''PF'' = Some UART_PINCM_PF_MASK"
  "mask_macro UART_STAT_Bits ''TXFF'' = Some UART_STAT_TXFF"
  "mask_macro UART_CPU_INT_IMASK_Bits ''TXINT'' = Some UART_TXINT"
  "or_macros [(UART_CPU_INT_IIDX_Bits, ''STAT'', ''TXIFG'')] = Some UART_IIDX_TXIFG"
  "or_macros [(WWDT_PDBGCTL_Bits, ''FREE'', ''STOP'')] = Some WWDT_PDBGCTL_FREE_STOP"
  "or_macros [(WWDT_WWDTCTL1_Bits, ''KEY'', ''UNLOCK_W''), (WWDT_WWDTCTL1_Bits, ''WINSEL'', ''WIN0'')] = Some
    WWDT_CTL1_WINDOW0"
  "or_macros [(WWDT_WWDTCTL0_Bits, ''KEY'', ''UNLOCK_W''), (WWDT_WWDTCTL0_Bits, ''PER'', ''EN_15''), (WWDT_WWDTCTL0_Bits,
    ''WINDOW0'', ''SIZE_0''), (WWDT_WWDTCTL0_Bits, ''WINDOW1'', ''SIZE_0''), (WWDT_WWDTCTL0_Bits, ''STISM'', ''CONT'')] =
    Some WWDT_CTL0_ONE_SECOND"
  "mask_macro WWDT_WWDTSTAT_Bits ''RUN'' = Some WWDT_STAT_RUN_MASK"
  "or_macros [(WWDT_WWDTSTAT_Bits, ''RUN'', ''ON'')] = Some WWDT_STAT_RUN_ON"
  "mask_macro SYSCTL_SYSOSCCFG_Bits ''DISABLE'' = Some SYSCTL_SYSOSCCFG_DISABLE_MASK"
  "mask_macro SYSCTL_SYSOSCCFG_Bits ''FREQ'' = Some SYSCTL_SYSOSCCFG_FREQ_MASK"
  "or_macros [(SYSCTL_SYSOSCCFG_Bits, ''FREQ'', ''SYSOSCBASE'')] = Some SYSCTL_SYSOSCCFG_FREQ_SYSOSCBASE"
  "or_macros [(SYSCTL_SYSOSCCFG_Bits, ''FREQ'', ''SYSOSC4M'')] = Some SYSCTL_SYSOSCCFG_FREQ_SYSOSC4M"
  "mask_macro SYSCTL_MCLKCFG_Bits ''USEHSCLK'' = Some SYSCTL_MCLKCFG_USEHSCLK_MASK"
  "mask_macro SYSCTL_MCLKCFG_Bits ''USELFCLK'' = Some SYSCTL_MCLKCFG_USELFCLK_MASK"
  "mask_macro SYSCTL_MCLKCFG_Bits ''MDIV'' = Some SYSCTL_MCLKCFG_MDIV_MASK"
  "mask_macro SYSCTL_CLKSTATUS_Bits ''SYSOSCFREQ'' = Some SYSCTL_CLKSTATUS_SYSOSCFREQ_MASK"
  "mask_macro SYSCTL_CLKSTATUS_Bits ''HSCLKMUX'' = Some SYSCTL_CLKSTATUS_HSCLKMUX_MASK"
  "mask_macro SYSCTL_CLKSTATUS_Bits ''CURMCLKSEL'' = Some SYSCTL_CLKSTATUS_CURMCLKSEL_MASK"
  "or_macros [(SYSCTL_CLKSTATUS_Bits, ''SYSOSCFREQ'', ''SYSOSC32M'')] = Some SYSCTL_CLKSTATUS_SYSOSCFREQ_SYSOSC32M"
  "or_macros [(SYSCTL_CLKSTATUS_Bits, ''SYSOSCFREQ'', ''SYSOSC4M'')] = Some SYSCTL_CLKSTATUS_SYSOSCFREQ_SYSOSC4M"
  "mask_macro SYSCTL_RSTCAUSE_Bits ''ID'' = Some SYSCTL_RSTCAUSE_ID_MASK"
  by (simp_all add: UART_RESET_def UART_POWER_ON_def UART_CTL0_TX_ON_def PINCM_CONNECTED_def
      UART_PINCM_PF_MASK_def UART_STAT_TXFF_def UART_TXINT_def UART_IIDX_TXIFG_def WWDT_PDBGCTL_FREE_STOP_def
      WWDT_CTL1_WINDOW0_def WWDT_CTL0_ONE_SECOND_def WWDT_STAT_RUN_MASK_def WWDT_STAT_RUN_ON_def
      SYSCTL_SYSOSCCFG_DISABLE_MASK_def SYSCTL_SYSOSCCFG_FREQ_MASK_def SYSCTL_SYSOSCCFG_FREQ_SYSOSCBASE_def
      SYSCTL_SYSOSCCFG_FREQ_SYSOSC4M_def SYSCTL_MCLKCFG_USEHSCLK_MASK_def SYSCTL_MCLKCFG_USELFCLK_MASK_def
      SYSCTL_MCLKCFG_MDIV_MASK_def SYSCTL_CLKSTATUS_SYSOSCFREQ_MASK_def SYSCTL_CLKSTATUS_HSCLKMUX_MASK_def
      SYSCTL_CLKSTATUS_CURMCLKSEL_MASK_def SYSCTL_CLKSTATUS_SYSOSCFREQ_SYSOSC32M_def
      SYSCTL_CLKSTATUS_SYSOSCFREQ_SYSOSC4M_def SYSCTL_RSTCAUSE_ID_MASK_def IOMUX_PINCM_Bits_def
      SYSCTL_CLKSTATUS_Bits_def SYSCTL_MCLKCFG_Bits_def SYSCTL_RSTCAUSE_Bits_def SYSCTL_SYSOSCCFG_Bits_def
      UART_CPU_INT_IIDX_Bits_def UART_CPU_INT_IMASK_Bits_def UART_CTL0_Bits_def UART_PWREN_Bits_def
      UART_RSTCTL_Bits_def UART_STAT_Bits_def WWDT_PDBGCTL_Bits_def WWDT_WWDTCTL0_Bits_def WWDT_WWDTCTL1_Bits_def
      WWDT_WWDTSTAT_Bits_def)

section \<open>The registers the drivers write\<close>

lemma bits_at_i2c [simp]:
  "bits_at (I2C1 I2C_RSTCTL) = Some I2C_RSTCTL_Bits"
  "bits_at (I2C1 I2C_PWREN) = Some I2C_PWREN_Bits"
  "bits_at (I2C1 I2C_CLKSEL) = Some I2C_CLKSEL_Bits"
  "bits_at (I2C1 I2C_CLKDIV) = Some I2C_CLKDIV_Bits"
  "bits_at (I2C1 I2C_TIMEOUT_CTL) = Some I2C_TIMEOUT_CTL_Bits"
  "bits_at (I2C1 I2C_IMASK) = Some I2C_CPU_INT_IMASK_Bits"
  "bits_at (I2C1 I2C_ICLR) = Some I2C_CPU_INT_ICLR_Bits"
  "bits_at (I2C1 I2C_MCTR) = Some I2C_MCTR_Bits"
  "bits_at (I2C1 I2C_MTPR) = Some I2C_MTPR_Bits"
  "bits_at (I2C1 I2C_MCR) = Some I2C_MCR_Bits"
  "bits_at (I2C1 I2C_SOAR) = Some I2C_SOAR_Bits"
  "bits_at (I2C1 I2C_SOAR2) = Some I2C_SOAR2_Bits"
  "bits_at (I2C1 I2C_SCTR) = Some I2C_SCTR_Bits"
  "bits_at (I2C1 I2C_SACKCTL) = Some I2C_SACKCTL_Bits"
  by (simp_all add: bits_at_def I2C_bits_def)

lemma bits_at_uart [simp]:
  "bits_at (UART0 UART_RSTCTL) = Some UART_RSTCTL_Bits"
  "bits_at (UART0 UART_PWREN) = Some UART_PWREN_Bits"
  "bits_at (UART0 UART_CTL0) = Some UART_CTL0_Bits"
  "bits_at (UART0 UART_CLKSEL) = Some UART_CLKSEL_Bits"
  "bits_at (UART0 UART_CLKDIV) = Some UART_CLKDIV_Bits"
  "bits_at (UART0 UART_LCRH) = Some UART_LCRH_Bits"
  "bits_at (UART0 UART_IBRD) = Some UART_IBRD_Bits"
  "bits_at (UART0 UART_FBRD) = Some UART_FBRD_Bits"
  "bits_at (UART0 UART_IFLS) = Some UART_IFLS_Bits"
  "bits_at (UART0 UART_IMASK) = Some UART_CPU_INT_IMASK_Bits"
  "bits_at (UART0 UART_ICLR) = Some UART_CPU_INT_ICLR_Bits"
  by (simp_all add: bits_at_def UART_bits_def)

lemma bits_at_gpio:
  "location (GPIO b r) = Some (p, gpio_member r) \<Longrightarrow> block_bits p = GPIO_bits
    \<Longrightarrow> bits_at (GPIO b r) = (case r of GPIO_RSTCTL \<Rightarrow> Some GPIO_RSTCTL_Bits | GPIO_PWREN \<Rightarrow> Some GPIO_PWREN_Bits
      | GPIO_DOUTSET \<Rightarrow> Some GPIO_DOUTSET31_0_Bits | GPIO_DOUTCLR \<Rightarrow> Some GPIO_DOUTCLR31_0_Bits
      | GPIO_DOUTTGL \<Rightarrow> Some GPIO_DOUTTGL31_0_Bits | GPIO_DOESET \<Rightarrow> Some GPIO_DOESET31_0_Bits)"
  by (cases r) (simp_all add: bits_at_def GPIO_bits_def del: location.simps)

lemma bits_at_ports [simp]:
  "bits_at (GPIO 0x400a0000 r) = (case r of GPIO_RSTCTL \<Rightarrow> Some GPIO_RSTCTL_Bits | GPIO_PWREN \<Rightarrow> Some GPIO_PWREN_Bits
      | GPIO_DOUTSET \<Rightarrow> Some GPIO_DOUTSET31_0_Bits | GPIO_DOUTCLR \<Rightarrow> Some GPIO_DOUTCLR31_0_Bits
      | GPIO_DOUTTGL \<Rightarrow> Some GPIO_DOUTTGL31_0_Bits | GPIO_DOESET \<Rightarrow> Some GPIO_DOESET31_0_Bits)"
  "bits_at (GPIO 0x400a2000 r) = bits_at (GPIO 0x400a0000 r)"
  by (simp_all add: bits_at_gpio)

lemma bits_at_pincm [simp]: "i < 251 \<Longrightarrow> bits_at (PINCM i) = Some IOMUX_PINCM_Bits"
  by (simp add: bits_at_def IOMUX_bits_def)

lemma bits_at_wwdt [simp]:
  "bits_at (WWDT0 WWDT_RSTCTL) = Some WWDT_RSTCTL_Bits"
  "bits_at (WWDT0 WWDT_PWREN) = Some WWDT_PWREN_Bits"
  "bits_at (WWDT0 WWDT_PDBGCTL) = Some WWDT_PDBGCTL_Bits"
  "bits_at (WWDT0 WWDT_CTL0) = Some WWDT_WWDTCTL0_Bits"
  "bits_at (WWDT0 WWDT_CTL1) = Some WWDT_WWDTCTL1_Bits"
  "bits_at (WWDT0 WWDT_CNTRST) = Some WWDT_WWDTCNTRST_Bits"
  by (simp_all add: bits_at_def WWDT_bits_def)

lemma bits_at_sysctl [simp]:
  "bits_at (SYSCTL SYSCTL_SYSOSCCFG) = Some SYSCTL_SYSOSCCFG_Bits"
  "bits_at (SYSCTL SYSCTL_MCLKCFG) = Some SYSCTL_MCLKCFG_Bits"
  by (simp_all add: bits_at_def SYSCTL_bits_def)

lemma power_words [simp]:
  "documented GPIO_RSTCTL_Bits 0xb1000003" "documented GPIO_PWREN_Bits 0x26000001"
  "documented UART_RSTCTL_Bits 0xb1000003" "documented UART_PWREN_Bits 0x26000001"
  "documented I2C_RSTCTL_Bits 0xb1000003" "documented I2C_PWREN_Bits 0x26000001"
  "documented WWDT_RSTCTL_Bits 0xb1000003" "documented WWDT_PWREN_Bits 0x26000001"
  by (simp_all add: documented_def GPIO_RSTCTL_Bits_def GPIO_PWREN_Bits_def UART_RSTCTL_Bits_def UART_PWREN_Bits_def
      I2C_RSTCTL_Bits_def I2C_PWREN_Bits_def WWDT_RSTCTL_Bits_def WWDT_PWREN_Bits_def)

lemma pin_words [simp]:
  "documented IOMUX_PINCM_Bits 0x81" "documented IOMUX_PINCM_Bits 0x80" "documented IOMUX_PINCM_Bits 0x8e"
  "documented IOMUX_PINCM_Bits 0x2040080"
  "documented GPIO_DOUTCLR31_0_Bits 1" "documented GPIO_DOESET31_0_Bits 1"
  by (simp_all add: documented_def IOMUX_PINCM_Bits_def GPIO_DOUTCLR31_0_Bits_def GPIO_DOESET31_0_Bits_def)

lemma uart_words [simp]:
  "documented UART_CTL0_Bits 0" "documented UART_CLKSEL_Bits 8" "documented UART_CLKDIV_Bits 0"
  "documented UART_LCRH_Bits 0x30" "documented UART_IFLS_Bits 2" "documented UART_CPU_INT_ICLR_Bits 0x800"
  "documented UART_CPU_INT_IMASK_Bits 0" "documented UART_CTL0_Bits 0x20011"
  "documented UART_IBRD_Bits 17" "documented UART_IBRD_Bits 2" "documented UART_FBRD_Bits 23" "documented UART_FBRD_Bits 11"
  by (simp_all add: documented_def UART_CTL0_Bits_def UART_CLKSEL_Bits_def UART_CLKDIV_Bits_def UART_LCRH_Bits_def
      UART_IFLS_Bits_def UART_CPU_INT_ICLR_Bits_def UART_CPU_INT_IMASK_Bits_def UART_IBRD_Bits_def UART_FBRD_Bits_def)

lemma watchdog_words [simp]:
  "documented WWDT_PDBGCTL_Bits 0" "documented WWDT_WWDTCTL1_Bits 0xbe000000" "documented WWDT_WWDTCTL0_Bits 0xc9000030"
  "documented WWDT_WWDTCNTRST_Bits 0xa7"
  by (simp_all add: documented_def WWDT_PDBGCTL_Bits_def WWDT_WWDTCTL1_Bits_def WWDT_WWDTCTL0_Bits_def
      WWDT_WWDTCNTRST_Bits_def)

section \<open>The pins of the board\<close>

text \<open>Each pin the board gives to a driver lists the signal the driver needs under the function code that the board
  selects for it: the red LED on the first pin of port A, the transmitter, and clock and data of I2C1 for both drivers.\<close>

definition pin_signal :: "u32 \<Rightarrow> string \<Rightarrow> u32 option" where
  "pin_signal i signal = map_of (IOMUX_PINCM ! unat i) signal"

theorem board_pins_carry_their_signals:
  "pin_signal (go_pincm_index g_red_led) ''GPIOA_DIO00'' = Some HAL_GPIO_FUNCTION_DIGITAL_IO"
  "go_port_base g_red_led = GPIOA_BASE" "go_pin_mask g_red_led = 2 ^ 0"
  "pin_signal (uc_tx_pincm_index g_uart0_tx) ''UART0_TX'' = Some (uc_tx_pincm_function g_uart0_tx)"
  "pin_signal (tc_scl_pincm_index g_i2c1_target) ''I2C1_SCL'' = Some (tc_scl_pincm_function g_i2c1_target)"
  "pin_signal (tc_sda_pincm_index g_i2c1_target) ''I2C1_SDA'' = Some (tc_sda_pincm_function g_i2c1_target)"
  "pin_signal (cc_scl_pincm_index g_i2c1_controller) ''I2C1_SCL'' = Some (cc_scl_pincm_function g_i2c1_controller)"
  "pin_signal (cc_sda_pincm_index g_i2c1_controller) ''I2C1_SDA'' = Some (cc_sda_pincm_function g_i2c1_controller)"
  by (simp_all add: pin_signal_def IOMUX_PINCM_def pin_defs g_red_led_def g_uart0_tx_def g_i2c1_target_def
      g_i2c1_controller_def board_constants HAL_GPIO_FUNCTION_DIGITAL_IO_def)

section \<open>Board start-up\<close>

lemma careful_power_up [simp]: "careful None (power_up @ tr) \<longleftrightarrow> careful None tr"
  by (simp add: power_up_def del: replicate.simps)

lemma board_setup_careful: "careful None (board_setup mclk)"
  by (simp add: board_setup_def port_on_def led_setup_def uart_setup_power_up g_uart0_tx_def board_constants UART_TXINT_def)

lemma watchdog_setup_careful:
  "careful None ([Write (WWDT0 WWDT_RSTCTL) 0xb1000003, Write (WWDT0 WWDT_PWREN) 0x26000001] @ power_up
        @ [Write (WWDT0 WWDT_PDBGCTL) 0, Write (WWDT0 WWDT_CTL1) 0xbe000000, Write (WWDT0 WWDT_CTL0) 0xc9000030, Dsb,
           Read (WWDT0 WWDT_STAT) v])"
  by simp

text \<open>The clock code writes back what it read, with fields changed.\<close>

lemma updated_field:
  assumes ok: "fields_ok 0 fs" and f: "f \<in> set fs" and x: "x AND field_mask f = x" "admits (field_values f) x"
  shows "updated fs v ((v AND NOT (field_mask f)) OR x)"
  unfolding updated_def
proof (intro conjI ballI)
  let ?m = "field_mask f" and ?w = "(v AND NOT (field_mask f)) OR x"
  have xm: "bit x i \<Longrightarrow> bit ?m i" for i using x(1) by (metis bit_and_iff)
  have mc: "bit ?m i \<Longrightarrow> bit (claimed fs) i" for i unfolding bit_claimed using f by blast
  show "?w AND NOT (claimed fs) = v AND NOT (claimed fs)"
    using xm mc by (intro bit_word_eqI) (auto simp: bit_and_iff bit_or_iff bit_not_iff)
  fix g assume g: "g \<in> set fs"
  show "?w AND field_mask g = v AND field_mask g \<or> admits (field_values g) (?w AND field_mask g)"
  proof (cases "g = f")
    case True
    have "?w AND ?m = x" using xm by (intro bit_word_eqI) (auto simp: bit_and_iff bit_or_iff bit_not_iff)
    then show ?thesis using True x(2) by simp
  next
    case False
    have "?m AND field_mask g = 0" using fields_ok_disjoint [OF ok f g] False by simp
    then have "?w AND field_mask g = v AND field_mask g"
      using xm by (intro bit_word_eqI) (auto simp: bit_and_iff bit_or_iff bit_not_iff and_zero_iff)
    then show ?thesis ..
  qed
qed

lemma updated_trans: "updated fs v w \<Longrightarrow> updated fs w u \<Longrightarrow> updated fs v u"
  by (simp add: updated_def del: admits_def) metis

lemma clock_words:
  "updated SYSCTL_SYSOSCCFG_Bits v (v AND NOT SYSCTL_SYSOSCCFG_DISABLE_MASK)"
  "c \<in> {SYSCTL_SYSOSCCFG_FREQ_SYSOSCBASE, SYSCTL_SYSOSCCFG_FREQ_SYSOSC4M}
    \<Longrightarrow> updated SYSCTL_SYSOSCCFG_Bits v ((v AND NOT SYSCTL_SYSOSCCFG_FREQ_MASK) OR c)"
  "updated SYSCTL_MCLKCFG_Bits v (v AND NOT (SYSCTL_MCLKCFG_USEHSCLK_MASK OR SYSCTL_MCLKCFG_USELFCLK_MASK
     OR SYSCTL_MCLKCFG_MDIV_MASK))"
proof -
  let ?o = SYSCTL_SYSOSCCFG_Bits and ?m = SYSCTL_MCLKCFG_Bits
  have ok: "fields_ok 0 ?o" "fields_ok 0 ?m"
    by (simp_all add: SYSCTL_SYSOSCCFG_Bits_def SYSCTL_MCLKCFG_Bits_def)
  let ?freq = "Field ''FREQ'' 0 0x3 [(''SYSOSCBASE'', 0), (''SYSOSC4M'', 1), (''SYSOSCUSER'', 2)]"
  show "updated ?o v (v AND NOT SYSCTL_SYSOSCCFG_DISABLE_MASK)"
    using updated_field [OF ok(1), of "Field ''DISABLE'' 10 0x400 [(''DISABLE'', 0), (''ENABLE'', 0x400)]" 0 v]
    by (simp add: SYSCTL_SYSOSCCFG_Bits_def SYSCTL_SYSOSCCFG_DISABLE_MASK_def)
  show "updated ?o v ((v AND NOT SYSCTL_SYSOSCCFG_FREQ_MASK) OR c)"
    if "c \<in> {SYSCTL_SYSOSCCFG_FREQ_SYSOSCBASE, SYSCTL_SYSOSCCFG_FREQ_SYSOSC4M}"
    using updated_field [OF ok(1), of ?freq c v] that
    by (auto simp: SYSCTL_SYSOSCCFG_Bits_def SYSCTL_SYSOSCCFG_FREQ_MASK_def SYSCTL_SYSOSCCFG_FREQ_SYSOSCBASE_def
        SYSCTL_SYSOSCCFG_FREQ_SYSOSC4M_def)
  have one: "updated ?m w (w AND NOT 0x10000)" "updated ?m w (w AND NOT 0x100000)" "updated ?m w (w AND NOT 0xf)" for w
    using updated_field [OF ok(2), of "Field ''USEHSCLK'' 16 0x10000 [(''DISABLE'', 0), (''ENABLE'', 0x10000)]" 0 w]
      updated_field [OF ok(2), of "Field ''USELFCLK'' 20 0x100000 [(''DISABLE'', 0), (''ENABLE'', 0x100000)]" 0 w]
      updated_field [OF ok(2), of "Field ''MDIV'' 0 0xf []" 0 w]
    by (simp_all add: SYSCTL_MCLKCFG_Bits_def)
  have "updated ?m v (((v AND NOT 0x10000) AND NOT 0x100000) AND NOT 0xf)"
    by (rule updated_trans [OF updated_trans [OF one(1) one(2)] one(3)])
  then show "updated ?m v (v AND NOT (SYSCTL_MCLKCFG_USEHSCLK_MASK OR SYSCTL_MCLKCFG_USELFCLK_MASK OR SYSCTL_MCLKCFG_MDIV_MASK))"
    by (simp only: SYSCTL_MCLKCFG_USEHSCLK_MASK_def SYSCTL_MCLKCFG_USELFCLK_MASK_def SYSCTL_MCLKCFG_MDIV_MASK_def
        bit.de_Morgan_disj and.assoc)
qed

lemma status_loop_trace:
  "status_loop hw n f mc = Some (ok, mc') \<Longrightarrow> \<exists>ps. mc_trace mc' = mc_trace mc @ map (Read (SYSCTL SYSCTL_CLKSTATUS)) ps"
proof (induction n arbitrary: mc)
  case (Suc n)
  obtain s d where s: "hw_read hw (SYSCTL SYSCTL_CLKSTATUS) (mc_device mc) = (s, d)" by fastforce
  show ?case
  proof (cases "status_ready f s")
    case True
    with Suc.prems s show ?thesis by (auto simp: mmio_read_def intro: exI [of _ "[s]"])
  next
    case False
    with Suc.prems s
    have "status_loop hw n f \<lparr>mc_device = d, mc_trace = mc_trace mc @ [Read (SYSCTL SYSCTL_CLKSTATUS) s]\<rparr> = Some (ok, mc')"
      by (simp add: mmio_read_def)
    then obtain ps where "mc_trace mc' = (mc_trace mc @ [Read (SYSCTL SYSCTL_CLKSTATUS) s]) @ map (Read (SYSCTL SYSCTL_CLKSTATUS)) ps"
      using Suc.IH by fastforce
    then show ?thesis by (intro exI [of _ "s # ps"]) simp
  qed
qed simp

lemma careful_polls: "careful before (map (Read (SYSCTL SYSCTL_CLKSTATUS)) ps)"
  by (induction ps arbitrary: before) simp_all

lemma set_frequency_careful:
  assumes "hal_clock_set_sysosc_frequency hw c f mc = Some (ok, mc')"
    and "c \<in> {SYSCTL_SYSOSCCFG_FREQ_SYSOSCBASE, SYSCTL_SYSOSCCFG_FREQ_SYSOSC4M}"
  obtains tr where "mc_trace mc' = mc_trace mc @ tr" "careful None tr"
proof -
  obtain v d where read: "hw_read hw osc (mc_device mc) = (v, d)" by fastforce
  let ?w = "(v AND NOT SYSCTL_SYSOSCCFG_FREQ_MASK) OR c"
  have "status_loop hw (unat HAL_CLOCK_STATUS_POLLS) f
      \<lparr>mc_device = hw_write hw osc ?w d, mc_trace = mc_trace mc @ [Read osc v, Write osc ?w, Dsb, Isb]\<rparr> = Some (ok, mc')"
    using assms(1) read by (simp add: hal_clock_set_sysosc_frequency_def mmio_read_def mmio_write_def cpu_def)
  then obtain ps where "mc_trace mc' = (mc_trace mc @ [Read osc v, Write osc ?w, Dsb, Isb])
      @ map (Read (SYSCTL SYSCTL_CLKSTATUS)) ps"
    using status_loop_trace by fastforce
  then show ?thesis
    using that [of "[Read osc v, Write osc ?w, Dsb, Isb] @ map (Read (SYSCTL SYSCTL_CLKSTATUS)) ps"]
      clock_words(2) [OF assms(2)] by (simp add: careful_polls)
qed

lemma select_careful:
  obtains mc' tr where "hal_clock_select_sysosc_div1 hw mc = Some mc'" "mc_trace mc' = mc_trace mc @ tr" "careful None tr"
proof -
  obtain v d where v: "hw_read hw osc (mc_device mc) = (v, d)" by fastforce
  let ?d = "hw_write hw osc (v AND NOT SYSCTL_SYSOSCCFG_DISABLE_MASK) d"
  obtain m d' where m: "hw_read hw (SYSCTL SYSCTL_MCLKCFG) ?d = (m, d')" by fastforce
  show ?thesis
    by (rule that [where tr = "[Read osc v, Write osc (v AND NOT SYSCTL_SYSOSCCFG_DISABLE_MASK),
          Read (SYSCTL SYSCTL_MCLKCFG) m, Write (SYSCTL SYSCTL_MCLKCFG) (m AND NOT (SYSCTL_MCLKCFG_USEHSCLK_MASK
            OR SYSCTL_MCLKCFG_USELFCLK_MASK OR SYSCTL_MCLKCFG_MDIV_MASK)), Dsb, Isb]"])
      (use v m clock_words in \<open>simp add: hal_clock_select_sysosc_div1_def mmio_read_def mmio_write_def cpu_def\<close>)+
qed

lemma clock_init_careful:
  assumes "hal_clock_init hw requested st = Some (ok, st')"
    and "mc_trace (ck_machine st') = mc_trace (ck_machine st) @ tr"
  shows "careful None tr"
proof -
  obtain mc1 tr1 where one: "hal_clock_select_sysosc_div1 hw (ck_machine st) = Some mc1"
    "mc_trace mc1 = mc_trace (ck_machine st) @ tr1" "careful None tr1"
    by (rule select_careful [of hw "ck_machine st"])
  define first where "first = (if requested = HAL_CLOCK_MSPM0C1106_MAX_HZ
    then hal_clock_set_sysosc_frequency hw SYSCTL_SYSOSCCFG_FREQ_SYSOSCBASE SYSCTL_CLKSTATUS_SYSOSCFREQ_SYSOSC32M mc1
    else Some (False, mc1))"
  obtain sel mc2 where two: "first = Some (sel, mc2)"
    using assms(1) one(1) by (cases first) (auto simp: hal_clock_init_def simp flip: first_def)
  obtain tr2 where tr2: "mc_trace mc2 = mc_trace mc1 @ tr2" "careful None tr2"
    by (cases "requested = HAL_CLOCK_MSPM0C1106_MAX_HZ")
      (use two in \<open>auto simp: first_def elim!: set_frequency_careful\<close>)
  show ?thesis
  proof (cases sel)
    case True
    then have "tr = tr1 @ tr2"
      using assms one two tr2 by (auto simp: hal_clock_init_def simp flip: first_def)
    then show ?thesis using careful_append [OF one(3) tr2(2)] by simp
  next
    case False
    then obtain ok' mc3 where three: "hal_clock_set_sysosc_frequency hw SYSCTL_SYSOSCCFG_FREQ_SYSOSC4M
        SYSCTL_CLKSTATUS_SYSOSCFREQ_SYSOSC4M mc2 = Some (ok', mc3)" "ck_machine st' = mc3"
      using assms(1) one(1) two by (auto simp: hal_clock_init_def simp flip: first_def split: Option.bind_splits)
    obtain tr3 where tr3: "mc_trace mc3 = mc_trace mc2 @ tr3" "careful None tr3"
      by (rule set_frequency_careful [OF three(1)]) simp_all
    then have "tr = tr1 @ tr2 @ tr3" using assms(2) one(2) tr2(1) three(2) by simp
    then show ?thesis using careful_append [OF one(3) careful_append [OF tr2(2) tr3(2)]] by simp
  qed
qed

section \<open>I2C start-up\<close>

lemma i2c_words [simp]:
  "documented I2C_CLKSEL_Bits 8" "documented I2C_CLKDIV_Bits 0" "documented I2C_SOAR2_Bits 0" "documented I2C_SACKCTL_Bits 0"
  "documented I2C_CPU_INT_IMASK_Bits 0" "documented I2C_MCTR_Bits 0" "documented I2C_MCR_Bits 4"
  by (simp_all add: documented_def I2C_CLKSEL_Bits_def I2C_CLKDIV_Bits_def I2C_SOAR2_Bits_def I2C_SACKCTL_Bits_def
      I2C_CPU_INT_IMASK_Bits_def I2C_MCTR_Bits_def I2C_MCR_Bits_def)

lemma i2c_constants [simp]:
  "documented I2C_RSTCTL_Bits I2C_RESET" "documented I2C_PWREN_Bits I2C_POWER_ON"
  "documented I2C_SCTR_Bits SCTR_CONFIG"
  "documented I2C_CPU_INT_ICLR_Bits HAL_I2C_TARGET_INTERRUPT_MASK"
  "documented I2C_CPU_INT_IMASK_Bits HAL_I2C_TARGET_INTERRUPT_MASK"
  "documented I2C_CPU_INT_ICLR_Bits HAL_I2C_CONTROLLER_EVENT_MASK"
  by (simp_all add: I2C_RESET_def I2C_POWER_ON_def SCTR_CONFIG_def HAL_I2C_TARGET_INTERRUPT_MASK_def documented_def
      HAL_I2C_CONTROLLER_EVENT_MASK_def I2C_SCTR_Bits_def I2C_CPU_INT_ICLR_Bits_def I2C_CPU_INT_IMASK_Bits_def
      I2C_RSTCTL_Bits_def I2C_PWREN_Bits_def)

lemma pin_word:
  assumes "f AND NOT 0x3f = 0" shows "documented IOMUX_PINCM_Bits (f OR 0x2040080)"
  by (rule documented_or_range [where n = "''PF''" and j = 0 and m = "0x3f" and vs = "[(''MINIMUM'', 0), (''MAXIMUM'', 0x3f)]"])
    (use assms in \<open>simp_all add: IOMUX_PINCM_Bits_def\<close>, simp add: documented_def)

lemma low_bits: "unat x < 2 ^ k \<Longrightarrow> x AND NOT (mask k) = 0" for x :: u32
proof -
  assume "unat x < 2 ^ k"
  then have "take_bit k x = x" by (simp add: word_unat_eq_iff unsigned_take_bit_eq take_bit_nat_eq_self)
  then have "x = x AND mask k" by (simp add: take_bit_eq_mask)
  then show ?thesis by (metis and.assoc and_zero_eq bit.conj_cancel_right)
qed

lemma byte_bits: "ucast (n :: u8) AND NOT (0xff :: u32) = 0" "ucast n AND NOT (0x3ff :: u32) = 0"
proof -
  have "unat n < 256" using unsigned_less [of n, where ?'a = nat] by simp
  then have "unat (ucast n :: u32) < 256" by (simp add: unsigned_ucast_eq take_bit_nat_eq_self)
  then show "ucast n AND NOT (0xff :: u32) = 0" "ucast n AND NOT (0x3ff :: u32) = 0"
    using low_bits [of "ucast n" 8] low_bits [of "ucast n" 10] by (simp_all add: mask_eq_exp_minus_1)
qed

lemma timeout_word: "documented I2C_TIMEOUT_CTL_Bits (ucast (n :: u8) OR 0x8000)"
  by (rule documented_or_range [where n = "''TCNTLA''" and j = 0 and m = "0xff" and vs = "[(''MINIMUM'', 0), (''MAXIMUM'', 0xff)]"])
    (use byte_bits in \<open>simp_all add: I2C_TIMEOUT_CTL_Bits_def documented_def\<close>)

lemma address_word: "documented I2C_SOAR_Bits (ucast (n :: u8) OR 0x4000)"
  by (rule documented_or_range [where n = "''OAR''" and j = 0 and m = "0x3ff" and vs = "[(''MINIMUM'', 0), (''MAXIMUM'', 0x3ff)]"])
    (use byte_bits in \<open>simp_all add: I2C_SOAR_Bits_def documented_def\<close>)

lemma period_word: "unat w < 128 \<Longrightarrow> documented I2C_MTPR_Bits w"
  using documented_or_range [where fs = I2C_MTPR_Bits and n = "''TPR''" and j = 0 and m = "0x7f" and s = w and k = 0
      and vs = "[(''MINIMUM'', 0), (''MAXIMUM'', 0x7f)]"] low_bits [of w 7]
  by (simp add: I2C_MTPR_Bits_def documented_def mask_eq_exp_minus_1)

lemma switched_on:
  "updated I2C_SCTR_Bits v (v OR SCTR_ACTIVE)" "updated I2C_MCR_Bits v (v OR 1)"
proof -
  have ok: "fields_ok 0 I2C_SCTR_Bits" "fields_ok 0 I2C_MCR_Bits"
    by (simp_all add: I2C_SCTR_Bits_def I2C_MCR_Bits_def)
  have set: "(v AND NOT 1) OR 1 = v OR 1" by (rule bit_word_eqI) (auto simp: bit_and_iff bit_or_iff bit_not_iff bit_1_iff simp del: bit.compl_one)
  let ?f = "Field ''ACTIVE'' 0 0x1 [(''DISABLE'', 0), (''ENABLE'', 1)]"
  have "updated fs v (v OR 1)" if "fields_ok 0 fs" "?f \<in> set fs" for fs
    using updated_field [OF that, of 1 v] set by simp
  then show "updated I2C_SCTR_Bits v (v OR SCTR_ACTIVE)" "updated I2C_MCR_Bits v (v OR 1)"
    using ok by (simp_all add: I2C_SCTR_Bits_def I2C_MCR_Bits_def SCTR_ACTIVE_def)
qed

lemma divider_fits:
  assumes "(0 :: u32) < d" "d \<le> 128" shows "unat (d - 1) < 128"
  using assms by (simp add: word_less_nat_alt word_le_nat_alt unat_sub_if')

lemma target_setup_careful:
  assumes "hal_i2c_target_config_is_valid (Some c) (Some rm)"
  shows "careful None (target_setup c @ [Read (I2C1 I2C_SCTR) v, Write (I2C1 I2C_SCTR) (v OR SCTR_ACTIVE)])"
proof -
  have valid: "tc_scl_pincm_index c < 251" "tc_sda_pincm_index c < 251"
    "tc_scl_pincm_function c AND NOT 0x3f = 0" "tc_sda_pincm_function c AND NOT 0x3f = 0"
    "unat (tc_input_clock_hz c div (TIMING_DENOMINATOR * tc_bus_hz c) - 1) < 128"
    using assms divider_fits
    by (auto simp: hal_i2c_target_config_is_valid_def Let_def PINCM_COUNT_def PINCM_PF_MASK_def not_le split: if_splits)
  show ?thesis
    using valid by (simp add: target_setup_def pin_word timeout_word address_word period_word switched_on PINCM_OPEN_DRAIN_def
        del: replicate.simps)
qed

lemma controller_init_careful:
  assumes "hal_i2c_controller_config_is_valid (Some c)" "\<not> ic_initialized st"
  obtains st' tr where "hal_i2c_controller_init hw (Some c) st = Some (True, st')" "ic_initialized st'"
    "mc_trace (ic_machine st') = mc_trace (ic_machine st) @ tr" "careful None tr"
proof -
  have valid: "cc_scl_pincm_index c < 251" "cc_sda_pincm_index c < 251"
    "cc_scl_pincm_function c AND NOT 0x3f = 0" "cc_sda_pincm_function c AND NOT 0x3f = 0"
    "unat (cc_input_clock_hz c div (HAL_I2C_CONTROLLER_TIMING_DENOMINATOR * cc_bus_hz c) - 1) < 128"
    using assms(1) divider_fits
    by (auto simp: hal_i2c_controller_config_is_valid_def Let_def HAL_I2C_CONTROLLER_PINCM_COUNT_def CTL_PINCM_PF_MASK_def
        not_le split: if_splits)
  define accs where "accs = [Write (I2C1 I2C_RSTCTL) 0xb1000003, Write (I2C1 I2C_PWREN) 0x26000001] @ power_up @ [
      Write (PINCM (cc_scl_pincm_index c)) (cc_scl_pincm_function c OR CTL_PINCM_OPEN_DRAIN),
      Write (PINCM (cc_sda_pincm_index c)) (cc_sda_pincm_function c OR CTL_PINCM_OPEN_DRAIN),
      Write (I2C1 I2C_CLKSEL) 0x8, Write (I2C1 I2C_CLKDIV) 0, Write (I2C1 I2C_MCTR) 0,
      Write (I2C1 I2C_MTPR) (cc_input_clock_hz c div (HAL_I2C_CONTROLLER_TIMING_DENOMINATOR * cc_bus_hz c) - 1),
      Write (I2C1 I2C_TIMEOUT_CTL) (ucast (cc_scl_low_timeout_count c) OR 0x8000), Write (I2C1 I2C_IMASK) 0,
      Write (I2C1 I2C_ICLR) HAL_I2C_CONTROLLER_EVENT_MASK, Write (I2C1 I2C_MCR) 0x4]"
  obtain st' v k where "hal_i2c_controller_init hw (Some c) st = Some (True, st')" "ic_initialized st'"
    "mc_trace (ic_machine st') = mc_trace (ic_machine st)
       @ accs @ [Read (I2C1 I2C_MCR) v, Write (I2C1 I2C_MCR) (v OR 1)] @ replicate k Nop"
    using assms by (simp add: hal_i2c_controller_init_def hal_i2c_controller_clear_events_def hal_i2c_controller_delay_def
        ctl_write_def mmio_write_def cpu_def mmio_modify_eq hal_power_wait_trace nops_trace Let_def accs_def power_up_def
        del: nops.simps replicate.simps)
  moreover have "careful None (accs @ [Read (I2C1 I2C_MCR) v, Write (I2C1 I2C_MCR) (v OR 1)] @ replicate k Nop)"
    using valid careful_nops [of k "[]"]
    by (simp add: accs_def pin_word timeout_word period_word switched_on CTL_PINCM_OPEN_DRAIN_def del: replicate.simps)
  ultimately show ?thesis using that by blast
qed

section \<open>Interrupts of the target\<close>

text \<open>The mask bits as rows: the code of the event, and whether the target driver leaves it disabled.\<close>

lemma target_mask_rows:
  "map (\<lambda>f. (field_offset f + 1, HAL_I2C_TARGET_INTERRUPT_MASK AND field_mask f = 0)) I2C_CPU_INT_IMASK_Bits =
     [(1, True), (15, False), (8, True), (9, True), (10, True), (11, True), (2, True), (5, True), (6, True),
      (3, True), (4, True), (12, True), (13, True), (17, False), (18, False), (25, True), (22, False), (21,
      True), (19, True), (20, True), (23, False), (24, False), (26, True), (27, True), (14, True), (16, True),
      (28, True), (29, False), (30, False), (31, False), (32, False)]"
  by (simp add: I2C_CPU_INT_IMASK_Bits_def HAL_I2C_TARGET_INTERRUPT_MASK_def)

lemma single_bits: "list_all (\<lambda>f. field_max f = 1) I2C_CPU_INT_IMASK_Bits"
  by (simp add: I2C_CPU_INT_IMASK_Bits_def field_max_def)

lemma target_codes:
  "codes I2C_CPU_INT_IIDX_Bits =
     [1, 2, 3, 4, 5, 6, 8, 9, 10, 11, 12, 13, 14, 15, 16, 17, 18, 19, 20, 21, 22, 23, 24, 25, 26, 27, 28, 29,
      30, 31, 32]"
  by (simp add: I2C_CPU_INT_IIDX_Bits_def)

lemma code_has_row:
  assumes "v \<in> set (codes I2C_CPU_INT_IIDX_Bits)"
  shows "\<exists>f \<in> set I2C_CPU_INT_IMASK_Bits. field_offset f + 1 = unat v
    \<and> (HAL_I2C_TARGET_INTERRUPT_MASK AND field_mask f = 0) = (\<not> is_known_interrupt v)"
proof -
  have "list_all (\<lambda>v. (unat v, \<not> is_known_interrupt v) \<in> set (map (\<lambda>f. (field_offset f + 1,
      HAL_I2C_TARGET_INTERRUPT_MASK AND field_mask f = 0)) I2C_CPU_INT_IMASK_Bits)) (codes I2C_CPU_INT_IIDX_Bits)"
    unfolding target_mask_rows target_codes by (simp add: interrupt_kinds iidx_defs)
  then show ?thesis using assms by (fastforce simp: list_all_iff)
qed

section \<open>Properties\<close>

text \<open>C38. Start-up writes only words the headers document. On any hardware every access that initialising the board and the
  watchdog makes is of a kind its register allows, and every word written either gives each field of its register a value
  that the header names (or one in a range it names) and leaves the bits of no field at zero, or is the word just read from
  that register with some fields so changed.\<close>

theorem board_writes_documented_words:
  assumes "bd_uart_config bd = g_uart0_tx" "64 \<le> length (bd_uart_tx_storage bd)"
  shows "(\<exists>r bd' tr. board_init debug_enabled hw bd = Some (r, bd')
      \<and> mc_trace (bd_machine bd') = mc_trace (bd_machine bd) @ tr \<and> careful None tr)
    \<and> (\<exists>ok mc' tr. hal_wdt_init hw mc = Some (ok, mc') \<and> mc_trace mc' = mc_trace mc @ tr \<and> careful None tr)"
proof
  obtain r bd' tr ok ck where ran: "board_init debug_enabled hw bd = Some (r, bd')"
    "mc_trace (bd_machine bd') = mc_trace (bd_machine bd) @ tr @ board_setup (bd_mclk_hz bd')"
    "hal_clock_init hw 32000000 \<lparr>ck_machine = bd_machine bd, ck_mclk_hz = bd_mclk_hz bd\<rparr> = Some (ok, ck)"
    "mc_trace (ck_machine ck) = mc_trace (bd_machine bd) @ tr"
    using board_init_ran_clock [OF assms, of debug_enabled hw] by (elim exE conjE) (rule that, assumption+)
  have "careful None tr" by (rule clock_init_careful [OF ran(3)]) (simp add: ran(4))
  then show "\<exists>r bd' tr. board_init debug_enabled hw bd = Some (r, bd')
      \<and> mc_trace (bd_machine bd') = mc_trace (bd_machine bd) @ tr \<and> careful None tr"
    using ran(1,2) careful_append board_setup_careful by blast
  show "\<exists>ok mc' tr. hal_wdt_init hw mc = Some (ok, mc') \<and> mc_trace mc' = mc_trace mc @ tr \<and> careful None tr"
    using wdt_init_ran [of hw mc] watchdog_setup_careful unfolding mc_ran_def by blast
qed

theorem board_writes_documented_words_witness:
  "\<exists>r bd' tr. board_init True plain_hardware demo_board = Some (r, bd')
      \<and> mc_trace (bd_machine bd') = mc_trace (bd_machine demo_board) @ tr \<and> careful None tr"
proof -
  have "bd_uart_config demo_board = g_uart0_tx" "64 \<le> length (bd_uart_tx_storage demo_board)"
    by (simp_all add: demo_board_def)
  then show ?thesis using board_writes_documented_words by blast
qed

text \<open>C39. The I2C drivers validate what their registers can hold. For every configuration that a driver accepts, its
  initialisation writes only words the headers document: the pin functions fit the function field, the timer period, the own
  address and the timeout fit theirs, whatever the numbers in the configuration, and the module is switched on by
  changing one field of the word read.\<close>

theorem i2c_writes_documented_words:
  assumes "hal_i2c_target_config_is_valid (Some c) (Some rm)" "\<not> it_initialized tg"
    and "hal_i2c_controller_config_is_valid (Some d)" "\<not> ic_initialized ct"
  shows "(\<exists>tg' tr. hal_i2c_target_init hw (Some c) (Some rm) tg = Some (True, tg')
      \<and> mc_trace (it_machine tg') = mc_trace (it_machine tg) @ tr \<and> careful None tr)
    \<and> (\<exists>ct' tr. hal_i2c_controller_init hw (Some d) ct = Some (True, ct')
      \<and> mc_trace (ic_machine ct') = mc_trace (ic_machine ct) @ tr \<and> careful None tr)"
proof
  show "\<exists>tg' tr. hal_i2c_target_init hw (Some c) (Some rm) tg = Some (True, tg')
      \<and> mc_trace (it_machine tg') = mc_trace (it_machine tg) @ tr \<and> careful None tr"
    by (rule target_init_ran [OF assms(1,2), of hw]) (use target_setup_careful [OF assms(1)] in blast)
  show "\<exists>ct' tr. hal_i2c_controller_init hw (Some d) ct = Some (True, ct')
      \<and> mc_trace (ic_machine ct') = mc_trace (ic_machine ct) @ tr \<and> careful None tr"
    by (rule controller_init_careful [OF assms(3,4), of hw]) blast
qed

theorem i2c_writes_documented_words_witness:
  "\<exists>tg' tr. hal_i2c_target_init plain_hardware (Some (g_i2c1_target\<lparr>tc_input_clock_hz := 32000000\<rparr>)) (Some (demo_regmap 0))
      ((demo_plain 0)\<lparr>it_initialized := False\<rparr>) = Some (True, tg') \<and> mc_trace (it_machine tg') = tr \<and> careful None tr"
proof -
  have tg: "hal_i2c_target_config_is_valid (Some (g_i2c1_target\<lparr>tc_input_clock_hz := 32000000\<rparr>)) (Some (demo_regmap 0))"
    by (rule board_target_config_valid) simp
  have ct: "hal_i2c_controller_config_is_valid (Some (g_i2c1_controller\<lparr>cc_input_clock_hz := 32000000\<rparr>))"
    by (rule board_controller_config_valid) simp
  have off: "\<not> it_initialized ((demo_plain 0)\<lparr>it_initialized := False\<rparr>)"
    "\<not> ic_initialized (idle_controller\<lparr>ic_initialized := False\<rparr>)" "mc_trace (it_machine (demo_plain 0)) = []"
    by (simp_all add: demo_plain_def)
  show ?thesis
    using i2c_writes_documented_words [OF tg off(1) ct off(2), of plain_hardware] off(3) by auto
qed

text \<open>C40. The target driver enables exactly the interrupts it handles. For every code that the header lists for the
  interrupt index register, the interrupt mask that initialisation writes has the bit of that code (the field of the mask
  register one below the code) if and only if dispatching the code does not count an unexpected event.\<close>

theorem enabled_interrupts_are_handled:
  assumes "simulates ps view a room (it_engine st) (it_mem st) s" "shares_queue ps a"
    and "code \<in> set (codes I2C_CPU_INT_IIDX_Bits)"
  shows "\<exists>st' f. irq_dispatch hw code st = Some st'
    \<and> f \<in> set I2C_CPU_INT_IMASK_Bits \<and> field_offset f + 1 = unat code \<and> field_max f = 1
    \<and> it_unexpected_event_count st' = it_unexpected_event_count st
        + of_bool (HAL_I2C_TARGET_INTERRUPT_MASK AND field_mask f = 0)"
proof -
  obtain f where f: "f \<in> set I2C_CPU_INT_IMASK_Bits" "field_offset f + 1 = unat code"
    "(HAL_I2C_TARGET_INTERRUPT_MASK AND field_mask f = 0) = (\<not> is_known_interrupt code)"
    using code_has_row [OF assms(3)] by blast
  moreover have "field_max f = 1" using single_bits f(1) by (simp add: list_all_iff)
  moreover obtain st' where d: "irq_dispatch hw code st = Some st'"
    "it_unexpected_event_count st' = it_unexpected_event_count st + of_bool (\<not> is_known_interrupt code)"
    by (rule eeprom.dispatch_serves [OF conjI [OF assms(1,2)]])
  ultimately show ?thesis by (intro exI [of _ st'] exI [of _ f]) simp
qed

theorem enabled_interrupts_are_handled_witness:
  "\<exists>st' f. irq_dispatch script_hardware 0x19 (demo_target demo_script) = Some st'
    \<and> f \<in> set I2C_CPU_INT_IMASK_Bits \<and> field_offset f = 24
    \<and> it_unexpected_event_count st' = of_bool (HAL_I2C_TARGET_INTERRUPT_MASK AND field_mask f = 0)"
proof -
  have "0x19 \<in> set (codes I2C_CPU_INT_IIDX_Bits)" by (simp add: target_codes)
  then show ?thesis
    using enabled_interrupts_are_handled [OF demo_target_simulates demo_shares, of "0x19" script_hardware demo_script]
    by (auto simp: demo_target_def)
qed

end
