(* ===== verification/Spec2Isabelle.thy ===== *)
theory Spec2Isabelle
  imports Regmap_Properties Spsc_Concurrent Snapshot_Concurrent I2C_Target Board Startup Device_Registers Fault_Record_Test
    Pcf8574a_Demo Regmap_Service Uart_Tx_Test Link_Test Host_Tests Register_Programming
begin

text \<open>
  A bare-metal firmware for the MSPM0C1106 (Cortex-M0+), modelled from its C sources and proved correct in parts and
  in composition.

  \<^bold>\<open>The program.\<close> An application (\<open>app/*/main.c\<close>) starts the board (\<open>board/\<close>), which owns the state of the
  drivers (\<open>hal/\<close>); the drivers use the portable libraries (\<open>lib/\<close>) and the architecture layer (\<open>arch/\<close>); reset,
  vectors and fault handlers are in \<open>device/mspm0c1106/startup.c\<close>; the registers are declared by the vendored headers
  (\<open>ti/\<close>). The main loop and the interrupt handlers share state: the register map serves an I2C controller from the
  I2C1 interrupt while the main loop publishes new page images; the byte ring feeds the UART interrupt; a crash record
  survives a reset in memory that start-up does not initialise.

  \<^bold>\<open>How C is modelled.\<close> Integers are words of their width. Undefined behaviour (an access out of bounds, a null
  dereference) is \<open>None\<close>, so a theorem that a call returns \<open>Some\<close> says it has none (\<open>Prelude\<close>). A struct is a record,
  an enumeration a datatype (or a number where the code validates it), a pointer an option, an object that two parts of
  the program share an address of a store. Hardware is a parameter, a state of any type with what a read and a write of
  each register do (\<open>Mmio\<close>); statements hold for all hardware, and the accesses made are a trace they speak of. Loops
  are recursion with a termination proof; the interrupt loops of the I2C target and the polling loops of the hardware
  take fuel or their own poll limit: one unit of fuel per interrupt, enough because the devices considered run out of
  interrupts (\<open>drains\<close>).

  \<^bold>\<open>The theories,\<close> in the order of the layers:
  \<^item> \<open>Prelude\<close>, \<open>Spsc_Queue\<close>: types, checked arrays, the window of a circular buffer, and the locale of a bounded queue
    with a drop counter. \<open>Ringbuf\<close> (\<open>lib_ringbuf.c\<close>) and \<open>Command_Queue\<close> (\<open>lib_regmap.c\<close>) are its instances; both are
    first in, first out over every sequence of operations. \<open>Spsc_Concurrent\<close> takes their operations access by access, with
    producer and consumer preempting each other between any two: locale \<open>spsc_queue\<close>, the same order, and the steps
    refine the calls.
  \<^item> \<open>Arch_Atomic\<close>, \<open>Arch_Memory\<close> (\<open>arch/\<close>): the PRIMASK critical section, the atomic helpers against the C11
    operations, \<open>memcpy\<close> and its family on a byte-addressed memory.
  \<^item> \<open>Snapshot\<close>, \<open>Snapshot_Concurrent\<close> (\<open>lib_regmap.c\<close>): page snapshots run to completion, and the publish one access
    at a time with the interrupt's reads in between: no torn reads, and the steps refine the whole call.
  \<^item> \<open>Regmap\<close>, \<open>Regmap_Contract\<close>, \<open>Regmap_Properties\<close> (\<open>lib_regmap.c\<close>): the register map, its invariant for any page
    callback (locale \<open>page_writer\<close>), and its bursts against an abstract register file.
  \<^item> \<open>Crash_Record\<close> (\<open>lib_crash.c\<close>), \<open>Build_Info\<close> (\<open>lib_buildinfo.c\<close>), \<open>Boot_Banner\<close> (\<open>lib_debug.c\<close>, \<open>lib_boot.c\<close>).
  \<^item> \<open>Target_Engine\<close>, \<open>I2C_Target\<close> (\<open>hal_i2c_target_engine.c\<close>, \<open>hal_i2c_target.c\<close>): the transaction engine refines an
    EEPROM-like protocol machine, and the interrupt handler on any draining hardware runs whatever protocol the engine
    follows (locale \<open>bus_protocol\<close>). \<open>Target_Paged\<close>: the protocol when the register file changes between interrupts, with
    the page image a read holds and the publishes it refuses; the engine follows it too.
  \<^item> \<open>I2C_Controller\<close>, \<open>Uart\<close>, \<open>Timebase\<close>, \<open>Outputs\<close>, \<open>Cmsis\<close> (the other drivers, and the interrupt-controller layer of
    \<open>core_cm0plus.h\<close>): bounded polling, transfer outcomes, transmission in order, clock fallback, deadlines, priorities.
  \<^item> \<open>Device_Layout\<close>, \<open>Device_Registers\<close> (\<open>ti/\<close>): the register structures under the C layout rules, and where the
    registers the drivers name are in them. \<open>Device_Fields\<close> and the eleven \<open>*_Fields\<close> theories (\<open>hw_*.h\<close>): the bit fields of
    all 673 registers, one table per register. \<open>Device_Tables\<close>: each register of a layout is described once, its fields are
    independent, and the six event registers of a module agree. \<open>Pin_Functions\<close>: the pins and the parameters of the device.
  \<^item> \<open>Board\<close>, \<open>Startup\<close> (\<open>board/\<close>, \<open>device/\<close>): initialisation with its order of accesses, the one owner of I2C1; the
    vector table, the fault handlers' instructions on a small machine, the reset handler.
  \<^item> \<open>Register_Programming\<close>: the drivers against the tables. Their constants are the macros the sources name, every word
    that start-up writes is made of documented values, the board's pins carry their signals, and the target handles
    exactly the interrupts it enables.
  \<^item> \<open>Blink\<close>, \<open>Fault_Record_Test\<close>, \<open>Pcf8574a_Demo\<close>, \<open>Regmap_Demo\<close>, \<open>Uart_Tx_Test\<close>, \<open>Link_Test\<close> (\<open>app/\<close>): the applications as
    a \<open>main\<close> that runs up to its endless loop and a loop that runs round by round; they compose the layers below from
    power-on. \<open>Regmap_Service\<close>: the register-map firmware as one service, its rounds interleaved with interrupts.
  \<^item> \<open>Host_Tests\<close> (\<open>tests/test_ringbuf.c\<close>): the host tests of the libraries and the engine run on the model, and pass.

  \<^bold>\<open>Not modelled.\<close> The vendored headers of peripherals the device does not have, which no file includes, and the
  factory region, whose structure depends on the device family the build selects. The compiler layer of CMSIS: its barriers
  and \<open>WFI\<close> are accesses of the trace. The image identity is 64 erased bytes that no code reads. The linker script apart
  from its memory regions and the tools are not firmware. Time is counted in interrupts, not in cycles; the memory model is
  that of one core that interrupts preempt.
\<close>

end
